(* ===== verification/Prelude.thy ===== *)
theory Prelude
  imports Main "HOL-Library.Word" "HOL-Library.Char_ord" "HOL-Library.List_Lexorder" "HOL-Library.Option_ord"
begin

section \<open>Shared vocabulary of the operator-rs development\<close>

text \<open>
  What the component theories share: Rust's \<open>Result\<close> as a sum type with its combinators, the
  \<open>Ordering\<close> enum and the contract of \<open>std::cmp::Ord\<close> as a locale, and the contract of a
  \<open>Display\<close>/\<open>FromStr\<close> pair as a locale.

  Strings are \<^typ>\<open>string\<close>, read as the UTF-8 bytes of a Rust \<open>str\<close>: \<open>str::len\<close> is
  \<^const>\<open>length\<close> and \<open>str::is_ascii\<close> says that every byte is below 128. Rust's Unicode-aware
  predicates (\<open>char::is_numeric\<close>, \<open>char::is_alphabetic\<close>, \<open>char::is_whitespace\<close>, the regex
  class \<open>\d\<close>) are modelled on the ASCII characters, and no other character satisfies them here.
\<close>

named_theorems result_simps "unfolding of the Result combinators"
named_theorems fmt_simps "what the Display implementations write"

subsection \<open>Result\<close>

type_synonym ('a, 'e) result = "'e + 'a"

fun and_then :: "('a, 'e) result \<Rightarrow> ('a \<Rightarrow> ('b, 'e) result) \<Rightarrow> ('b, 'e) result" where
  "and_then (Inl e) f = Inl e"
| "and_then (Inr a) f = f a"

lemma and_then_cong [fundef_cong]:
  "r = r' \<Longrightarrow> (\<And>a. r' = Inr a \<Longrightarrow> f a = g a) \<Longrightarrow> and_then r f = and_then r' g"
  by (cases r) auto

fun map_err :: "('e \<Rightarrow> 'f) \<Rightarrow> ('a, 'e) result \<Rightarrow> ('a, 'f) result" where
  "map_err g (Inl e) = Inl (g e)"
| "map_err g (Inr a) = Inr a"

definition ok_or :: "'e \<Rightarrow> 'a option \<Rightarrow> ('a, 'e) result" where
  "ok_or e x = (case x of None \<Rightarrow> Inl e | Some a \<Rightarrow> Inr a)"

definition ensure :: "bool \<Rightarrow> 'e \<Rightarrow> (unit, 'e) result" where
  "ensure b e = (if b then Inr () else Inl e)"

fun is_ok :: "('a, 'e) result \<Rightarrow> bool" where
  "is_ok (Inl e) = False"
| "is_ok (Inr a) = True"

text \<open>\<open>Option::transpose\<close> after \<open>Option::map\<close>: run a fallible function under an option.\<close>

fun traverse_option :: "('a \<Rightarrow> ('b, 'e) result) \<Rightarrow> 'a option \<Rightarrow> ('b option, 'e) result" where
  "traverse_option f None = Inr None"
| "traverse_option f (Some a) = and_then (f a) (\<lambda>b. Inr (Some b))"

text \<open>\<open>collect::<Result<Vec<_>, _>>\<close>: the first error ends the iteration.\<close>

fun traverse_list :: "('a \<Rightarrow> ('b, 'e) result) \<Rightarrow> 'a list \<Rightarrow> ('b list, 'e) result" where
  "traverse_list f [] = Inr []"
| "traverse_list f (x # xs) = and_then (f x) (\<lambda>y. and_then (traverse_list f xs) (\<lambda>ys. Inr (y # ys)))"

lemma and_then_eq_Inr [simp]:
  "and_then r f = Inr b \<longleftrightarrow> (\<exists>a. r = Inr a \<and> f a = Inr b)"
  by (cases r) auto

lemma and_then_eq_Inl:
  "and_then r f = Inl e \<longleftrightarrow> r = Inl e \<or> (\<exists>a. r = Inr a \<and> f a = Inl e)"
  by (cases r) auto

lemma map_err_eq_Inr [simp]: "map_err g r = Inr a \<longleftrightarrow> r = Inr a"
  by (cases r) auto

lemma map_err_eq_Inl [simp]: "map_err g r = Inl f \<longleftrightarrow> (\<exists>e. r = Inl e \<and> f = g e)"
  by (cases r) auto

lemma ok_or_simps [simp]: "ok_or e None = Inl e" "ok_or e (Some a) = Inr a"
  by (simp_all add: ok_or_def)

lemma ok_or_eq_Inr [simp]: "ok_or e x = Inr a \<longleftrightarrow> x = Some a"
  by (cases x) auto

lemma ensure_simps [simp]: "ensure True e = Inr ()" "ensure False e = Inl e"
  by (simp_all add: ensure_def)

lemma ensure_eq_Inr [simp]: "ensure b e = Inr u \<longleftrightarrow> b"
  by (simp add: ensure_def)

lemma is_ok_iff: "is_ok r \<longleftrightarrow> (\<exists>a. r = Inr a)"
  by (cases r) auto

lemma traverse_list_Inr_iff:
  "traverse_list f xs = Inr ys \<longleftrightarrow> map f xs = map Inr ys"
  by (induction xs arbitrary: ys) (auto simp: Cons_eq_map_conv)

lemma traverse_list_Inl_iff:
  "traverse_list f xs = Inl e \<longleftrightarrow>
     (\<exists>ys x zs. xs = ys @ x # zs \<and> (\<forall>y\<in>set ys. is_ok (f y)) \<and> f x = Inl e)"
proof (induction xs)
  case Nil
  then show ?case by simp
next
  case (Cons a xs)
  show ?case
  proof (cases "f a")
    case (Inl e')
    then show ?thesis
      by (auto simp: Cons_eq_append_conv intro: exI [where x = "[]"])
  next
    case (Inr b)
    have "(\<exists>ys x zs. a # xs = ys @ x # zs \<and> (\<forall>y\<in>set ys. is_ok (f y)) \<and> f x = Inl e) \<longleftrightarrow>
      (\<exists>ys x zs. xs = ys @ x # zs \<and> (\<forall>y\<in>set ys. is_ok (f y)) \<and> f x = Inl e)" (is "?L \<longleftrightarrow> ?R")
    proof
      assume ?L
      then obtain ys x zs where *: "a # xs = ys @ x # zs" "\<forall>y\<in>set ys. is_ok (f y)" "f x = Inl e"
        by blast
      with Inr show ?R by (cases ys) auto
    next
      assume ?R
      then obtain ys x zs where "xs = ys @ x # zs" "\<forall>y\<in>set ys. is_ok (f y)" "f x = Inl e"
        by blast
      with Inr have "a # xs = (a # ys) @ x # zs \<and> (\<forall>y\<in>set (a # ys). is_ok (f y)) \<and> f x = Inl e"
        by simp
      then show ?L by blast
    qed
    with Inr Cons show ?thesis by (simp add: and_then_eq_Inl)
  qed
qed

lemmas [result_simps] = and_then_eq_Inl map_err_eq_Inl ok_or_def ensure_def

subsection \<open>Ordering and the contract of Ord\<close>

datatype ordering = Less | Equal | Greater

fun reverse_ordering :: "ordering \<Rightarrow> ordering" where
  "reverse_ordering Less = Greater"
| "reverse_ordering Equal = Equal"
| "reverse_ordering Greater = Less"

text \<open>\<open>Ord::cmp\<close> on a type that already is a linear order (integers, strings).\<close>

definition ord_cmp :: "'a::linorder \<Rightarrow> 'a \<Rightarrow> ordering" where
  "ord_cmp x y = (if x < y then Less else if x = y then Equal else Greater)"

lemma ord_cmp_Less [simp]: "ord_cmp x y = Less \<longleftrightarrow> x < y"
  by (simp add: ord_cmp_def)

lemma ord_cmp_Equal [simp]: "ord_cmp x y = Equal \<longleftrightarrow> x = y"
  by (auto simp: ord_cmp_def)

lemma ord_cmp_Greater [simp]: "ord_cmp x y = Greater \<longleftrightarrow> y < x"
  by (auto simp: ord_cmp_def)

text \<open>
  The laws the documentation of \<open>std::cmp::Ord\<close> asks of an implementation. A client that sorts,
  or keys a \<open>BTreeMap\<close>, by \<open>cmp\<close> relies on nothing else.
\<close>

locale rust_ord =
  fixes cmp :: "'a \<Rightarrow> 'a \<Rightarrow> ordering"
  assumes cmp_equal_iff: "cmp x y = Equal \<longleftrightarrow> x = y"
    and cmp_reverse: "cmp y x = reverse_ordering (cmp x y)"
    and cmp_trans: "cmp x y = Less \<Longrightarrow> cmp y z = Less \<Longrightarrow> cmp x z = Less"
begin

lemma cmp_refl: "cmp x x = Equal"
  by (simp add: cmp_equal_iff)

lemma greater_iff_less: "cmp x y = Greater \<longleftrightarrow> cmp y x = Less"
  by (cases "cmp x y"; simp add: cmp_reverse [where x = x and y = y])

lemma less_irrefl: "cmp x x \<noteq> Less"
  by (simp add: cmp_refl)

lemma less_asym: "cmp x y = Less \<Longrightarrow> cmp y x \<noteq> Less"
  using cmp_reverse [of x y] by auto

lemma cmp_total: "cmp x y = Less \<or> x = y \<or> cmp y x = Less"
  using cmp_equal_iff [of x y] greater_iff_less [of x y] by (cases "cmp x y") auto

text \<open>The order that a sort by \<open>cmp\<close> produces.\<close>

lemma le_trans:
  "cmp x y \<noteq> Greater \<Longrightarrow> cmp y z \<noteq> Greater \<Longrightarrow> cmp x z \<noteq> Greater"
  by (metis cmp_equal_iff cmp_total cmp_trans greater_iff_less less_asym)

lemma le_antisym: "cmp x y \<noteq> Greater \<Longrightarrow> cmp y x \<noteq> Greater \<Longrightarrow> x = y"
  by (metis cmp_total greater_iff_less)

lemma sorted_unique:
  "sorted_wrt (\<lambda>x y. cmp x y = Less) xs \<Longrightarrow> sorted_wrt (\<lambda>x y. cmp x y = Less) ys \<Longrightarrow>
   set xs = set ys \<Longrightarrow> xs = ys"
proof (induction xs arbitrary: ys)
  case Nil
  then show ?case by simp
next
  case (Cons x xs)
  obtain y ys' where ys: "ys = y # ys'"
    using Cons.prems(3) by (cases ys) auto
  have "x = y"
  proof (rule ccontr)
    assume "x \<noteq> y"
    then have "x \<in> set ys'" and "y \<in> set xs"
      using Cons.prems(3) ys by auto
    then have "cmp y x = Less" and "cmp x y = Less"
      using Cons.prems(1,2) ys by auto
    then show False using less_asym by blast
  qed
  moreover have "x \<notin> set xs" and "y \<notin> set ys'"
    using Cons.prems(1,2) ys less_irrefl by auto
  then have "set xs = set ys'"
    using Cons.prems(3) ys \<open>x = y\<close> by (simp add: insert_eq_iff)
  then have "xs = ys'"
    using Cons.IH [of ys'] Cons.prems(1,2) ys by simp
  ultimately show ?case using ys by simp
qed

end

interpretation ord_cmp: rust_ord "ord_cmp :: 'a::linorder \<Rightarrow> 'a \<Rightarrow> ordering"
proof
  fix x y z :: 'a
  show "(ord_cmp x y = Equal) = (x = y)" by simp
  show "ord_cmp y x = reverse_ordering (ord_cmp x y)" by (auto simp: ord_cmp_def)
  show "ord_cmp x y = Less \<Longrightarrow> ord_cmp y z = Less \<Longrightarrow> ord_cmp x z = Less" by simp
qed

subsection \<open>Display and FromStr\<close>

text \<open>
  The contract of a type with both traits: whatever a well-formed value prints is read back as
  that value.
\<close>

locale display_from_str =
  fixes wf :: "'a \<Rightarrow> bool"
    and fmt :: "'a \<Rightarrow> string"
    and from_str :: "string \<Rightarrow> ('a, 'e) result"
  assumes from_str_fmt: "wf x \<Longrightarrow> from_str (fmt x) = Inr x"
begin

lemma fmt_inject: "wf x \<Longrightarrow> wf y \<Longrightarrow> fmt x = fmt y \<longleftrightarrow> x = y"
  by (metis from_str_fmt sum.inject(2))

lemma fmt_inj_on: "inj_on fmt {x. wf x}"
  by (rule inj_onI) (simp add: fmt_inject)

end

text \<open>
  Where in addition everything that is read is well-formed, one round of reading and printing
  normalises: it never changes the value again.
\<close>

locale normal_form = display_from_str +
  assumes from_str_wf: "from_str s = Inr x \<Longrightarrow> wf x"
begin

lemma normalise: "from_str s = Inr x \<Longrightarrow> from_str (fmt x) = Inr x"
  by (rule from_str_fmt) (rule from_str_wf)

lemma from_str_range: "{x. \<exists>s. from_str s = Inr x} = {x. wf x}"
  using from_str_fmt from_str_wf by blast

end

subsection \<open>Widening\<close>

lemma unat_u16_u32 [simp]: "unat (ucast x :: 32 word) = unat (x :: 16 word)"
proof -
  have "unat x < 2 ^ 16" using unsigned_less [of x] by simp
  then show ?thesis by (simp add: unsigned_ucast_eq take_bit_nat_eq_self)
qed

end
