(* ===== verification/Rust_Str.thy ===== *)
theory Rust_Str
  imports Prelude
begin

section \<open>Strings and decimal numbers\<close>

text \<open>
  The parts of \<open>core::str\<close> and of the unsigned integers' \<open>Display\<close> and \<open>FromStr\<close> that the
  components use, with the round trip between the two notations.
\<close>

subsection \<open>ASCII classes\<close>

definition in_range :: "char \<Rightarrow> char \<Rightarrow> char \<Rightarrow> bool" where
  "in_range a b c \<longleftrightarrow> (of_char a :: nat) \<le> of_char c \<and> of_char c \<le> (of_char b :: nat)"

lemma in_range_same [simp]: "in_range a a c \<longleftrightarrow> c = a"
proof -
  have "in_range a a c \<longleftrightarrow> (of_char c :: nat) = of_char a" by (auto simp: in_range_def)
  then show ?thesis by simp
qed

definition is_digit :: "char \<Rightarrow> bool" where
  "is_digit c \<longleftrightarrow> in_range (CHR ''0'') (CHR ''9'') c"

definition is_lower :: "char \<Rightarrow> bool" where
  "is_lower c \<longleftrightarrow> in_range (CHR ''a'') (CHR ''z'') c"

definition is_upper :: "char \<Rightarrow> bool" where
  "is_upper c \<longleftrightarrow> in_range (CHR ''A'') (CHR ''Z'') c"

definition is_alpha :: "char \<Rightarrow> bool" where
  "is_alpha c \<longleftrightarrow> is_lower c \<or> is_upper c"

definition is_ascii :: "string \<Rightarrow> bool" where
  "is_ascii s \<longleftrightarrow> list_all (\<lambda>c. (of_char c :: nat) < 128) s"

definition is_whitespace :: "char \<Rightarrow> bool" where
  "is_whitespace c \<longleftrightarrow> (of_char c :: nat) = 32 \<or> 9 \<le> (of_char c :: nat) \<and> (of_char c :: nat) \<le> 13"

lemmas class_defs = in_range_def is_digit_def is_lower_def is_upper_def is_alpha_def is_whitespace_def

lemma digit_not_alpha: "is_digit c \<Longrightarrow> \<not> is_alpha c"
  by (auto simp: class_defs)

subsection \<open>Decimal notation\<close>

definition digit_char :: "nat \<Rightarrow> char" where
  "digit_char d = char_of (48 + d)"

definition digit_val :: "char \<Rightarrow> nat" where
  "digit_val c = of_char c - 48"

fun show_nat :: "nat \<Rightarrow> string" where
  "show_nat n = (if n < 10 then [digit_char n] else show_nat (n div 10) @ [digit_char (n mod 10)])"

declare show_nat.simps [simp del]

datatype int_error_kind = Empty | InvalidDigit | PosOverflow

text \<open>
  The digit loop of \<open>from_str_radix\<close> on a type with the values \<open>{0..<lim}\<close>: a character is
  checked before the overflow it may cause.
\<close>

fun parse_digits :: "nat \<Rightarrow> nat \<Rightarrow> string \<Rightarrow> (nat, int_error_kind) result" where
  "parse_digits lim acc [] = Inr acc"
| "parse_digits lim acc (c # cs) =
     (if \<not> is_digit c then Inl InvalidDigit
      else let acc' = acc * 10 + digit_val c
           in if lim \<le> acc' then Inl PosOverflow else parse_digits lim acc' cs)"

text \<open>
  \<open>str::parse\<close> for an unsigned type of \<open>w\<close> bits: the empty string and a lone sign are errors, a
  leading \<open>+\<close> is skipped, and \<open>-\<close> is not a digit of an unsigned type.
\<close>

definition parse_uint :: "nat \<Rightarrow> string \<Rightarrow> (nat, int_error_kind) result" where
  "parse_uint w s =
     (case s of
        [] \<Rightarrow> Inl Empty
      | c # cs \<Rightarrow>
          if c = CHR ''+'' then
            (if cs = [] then Inl InvalidDigit else parse_digits (2 ^ w) 0 cs)
          else parse_digits (2 ^ w) 0 s)"

definition digits_val :: "nat \<Rightarrow> string \<Rightarrow> nat" where
  "digits_val acc s = foldl (\<lambda>a c. a * 10 + digit_val c) acc s"

lemma digits_val_simps [simp]:
  "digits_val acc [] = acc"
  "digits_val acc (c # cs) = digits_val (acc * 10 + digit_val c) cs"
  "digits_val acc (xs @ [c]) = digits_val acc xs * 10 + digit_val c"
  by (simp_all add: digits_val_def)

lemma of_char_digit_char: "d < 10 \<Longrightarrow> (of_char (digit_char d) :: nat) = 48 + d"
  by (simp add: digit_char_def)

lemma digit_char_eqI: "d < 10 \<Longrightarrow> (of_char c :: nat) = 48 + d \<Longrightarrow> digit_char d = c"
  by (metis of_char_digit_char of_char_eq_iff)

lemma digit_char_literals [simp]:
  "digit_char 0 = CHR ''0''" "digit_char (Suc 0) = CHR ''1''" "digit_char 1 = CHR ''1''"
  "digit_char 2 = CHR ''2''" "digit_char 3 = CHR ''3''" "digit_char 4 = CHR ''4''"
  "digit_char 5 = CHR ''5''" "digit_char 6 = CHR ''6''" "digit_char 7 = CHR ''7''"
  "digit_char 8 = CHR ''8''" "digit_char 9 = CHR ''9''"
  by (rule digit_char_eqI; simp)+

lemma digit_char_simps [simp]:
  "d < 10 \<Longrightarrow> is_digit (digit_char d)"
  "d < 10 \<Longrightarrow> digit_val (digit_char d) = d"
  by (simp_all add: class_defs digit_val_def of_char_digit_char)

lemma digit_val_less [simp]: "is_digit c \<Longrightarrow> digit_val c < 10"
  by (auto simp: class_defs digit_val_def)

lemma digits_val_ge: "acc \<le> digits_val acc s"
proof (induction s arbitrary: acc)
  case (Cons c cs)
  have "acc \<le> acc * 10 + digit_val c" by simp
  also have "\<dots> \<le> digits_val (acc * 10 + digit_val c) cs" by (rule Cons)
  finally show ?case by simp
qed simp

lemma show_nat_digits: "c \<in> set (show_nat n) \<Longrightarrow> is_digit c"
proof (induction n rule: show_nat.induct)
  case (1 n)
  then show ?case by (cases "n < 10") (auto simp: show_nat.simps [of n])
qed

lemma show_nat_not_Nil [simp]: "show_nat n \<noteq> []"
  by (subst show_nat.simps) simp

lemma digits_val_show_nat [simp]: "digits_val 0 (show_nat n) = n"
proof (induction n rule: show_nat.induct)
  case (1 n)
  then show ?case by (cases "n < 10") (simp_all add: show_nat.simps [of n])
qed

lemma list_all_show_nat [simp]: "list_all is_digit (show_nat n)"
  by (auto simp: list_all_iff dest: show_nat_digits)

lemma parse_digits_Inr_iff:
  "acc < lim \<Longrightarrow> parse_digits lim acc s = Inr n \<longleftrightarrow>
     list_all is_digit s \<and> n = digits_val acc s \<and> n < lim"
proof (induction s arbitrary: acc)
  case Nil
  then show ?case by auto
next
  case (Cons c cs)
  show ?case
  proof (cases "acc * 10 + digit_val c < lim")
    case True
    with Cons.IH [OF True] show ?thesis by (auto simp: Let_def)
  next
    case False
    with digits_val_ge [of "acc * 10 + digit_val c" cs] show ?thesis by (auto simp: Let_def)
  qed
qed

lemma digit_not_plus: "is_digit c \<Longrightarrow> c \<noteq> CHR ''+''"
  by (auto simp: class_defs)

text \<open>On a string of digits, reading is evaluation and fails on overflow only.\<close>

lemma parse_uint_digits:
  assumes "list_all is_digit s" and "s \<noteq> []" and "digits_val 0 s < 2 ^ w"
  shows "parse_uint w s = Inr (digits_val 0 s)"
  using assms parse_digits_Inr_iff [of 0 "2 ^ w" s "digits_val 0 s"]
  by (cases s) (auto simp: parse_uint_def simp del: parse_digits.simps dest: digit_not_plus)

lemma parse_digits_overflow:
  "list_all is_digit s \<Longrightarrow> acc < lim \<Longrightarrow> lim \<le> digits_val acc s \<Longrightarrow>
   parse_digits lim acc s = Inl PosOverflow"
  by (induction s arbitrary: acc) (auto simp: Let_def)

lemma parse_uint_overflow:
  assumes "list_all is_digit s" and "2 ^ w \<le> digits_val 0 s"
  shows "parse_uint w s = Inl PosOverflow"
proof (cases s)
  case Nil
  with assms(2) show ?thesis by simp
next
  case (Cons c cs)
  with assms have "c \<noteq> CHR ''+''" by (auto dest: digit_not_plus)
  with Cons assms show ?thesis by (simp add: parse_uint_def parse_digits_overflow del: parse_digits.simps)
qed

lemma parse_uint_show_nat [simp]: "n < 2 ^ w \<Longrightarrow> parse_uint w (show_nat n) = Inr n"
  using parse_uint_digits [of "show_nat n" w] by simp

lemma parse_uint_digits_cases:
  assumes "list_all is_digit s" and "s \<noteq> []"
  shows "parse_uint w s = (if digits_val 0 s < 2 ^ w then Inr (digits_val 0 s) else Inl PosOverflow)"
  using assms parse_uint_digits parse_uint_overflow by auto

interpretation uint: display_from_str "\<lambda>n. n < 2 ^ w" show_nat "parse_uint w" for w
  by unfold_locales simp

lemma length_show_nat: "n < 10 ^ k \<Longrightarrow> 0 < k \<Longrightarrow> length (show_nat n) \<le> k"
proof (induction n arbitrary: k rule: show_nat.induct)
  case (1 n)
  show ?case
  proof (cases "n < 10")
    case True
    with 1 show ?thesis by (subst show_nat.simps) simp
  next
    case False
    with "1.prems" obtain j where k: "k = Suc j" "0 < j"
      by (cases k; cases "k - 1") auto
    with "1.prems" have "n div 10 < 10 ^ j" by (simp add: div_less_iff_less_mult mult.commute)
    with 1 k False have "length (show_nat (n div 10)) \<le> j" by blast
    with False k show ?thesis by (subst show_nat.simps) simp
  qed
qed

lemma show_nat_inject [simp]: "show_nat m = show_nat n \<longleftrightarrow> m = n"
  by (metis digits_val_show_nat)

subsection \<open>64-bit integers\<close>

type_synonym u64 = "64 word"

definition show_u64 :: "u64 \<Rightarrow> string" where
  "show_u64 w = show_nat (unat w)"

definition parse_u64 :: "string \<Rightarrow> (u64, int_error_kind) result" where
  "parse_u64 s = and_then (parse_uint 64 s) (\<lambda>n. Inr (of_nat n))"

lemma unat_u64_less: "unat (w :: u64) < 2 ^ 64"
  using unsigned_less [of w] by simp

lemma unat_u64_less_numeral [simp]: "unat (w :: u64) < 18446744073709551616"
  using unat_u64_less [of w] by simp

lemma unat_of_nat_u64: "n < 2 ^ 64 \<Longrightarrow> unat (of_nat n :: u64) = n"
  by (simp add: unat_of_nat)

lemma of_nat_eq_u64: "n < 2 ^ 64 \<Longrightarrow> of_nat n = (w :: u64) \<longleftrightarrow> n = unat w"
  using unat_of_nat_u64 [of n] by auto

lemma parse_show_u64 [simp]: "parse_u64 (show_u64 w) = Inr w"
  by (simp add: parse_u64_def show_u64_def parse_uint_show_nat [OF unat_u64_less])

lemma show_u64_props [simp]:
  "show_u64 w \<noteq> []" "list_all is_digit (show_u64 w)"
  by (simp_all add: show_u64_def)

lemma length_show_u64: "length (show_u64 w) \<le> 20"
  unfolding show_u64_def
  by (rule length_show_nat) (rule less_trans [OF unat_u64_less], simp_all)

lemma parse_u64_digits_iff:
  assumes "list_all is_digit s" "s \<noteq> []"
  shows "parse_u64 s = Inr w \<longleftrightarrow> digits_val 0 s = unat w"
  using unat_u64_less [of w] of_nat_eq_u64 [of "digits_val 0 s" w]
  by (auto simp: parse_u64_def parse_uint_digits_cases [OF assms])

interpretation u64: display_from_str "\<lambda>_. True" show_u64 parse_u64
  by unfold_locales simp

text \<open>
  Rust's \<open>+\<close> and \<open>-\<close> on \<open>u64\<close>: with overflow checks (the dev and test profiles) an overflow
  panics, which is \<^const>\<open>None\<close>; without them (the release profile) the result wraps.
\<close>

definition add_u64 :: "bool \<Rightarrow> u64 \<Rightarrow> u64 \<Rightarrow> u64 option" where
  "add_u64 checks a b = (if checks \<and> 2 ^ 64 \<le> unat a + unat b then None else Some (a + b))"

definition sub_u64 :: "bool \<Rightarrow> u64 \<Rightarrow> u64 \<Rightarrow> u64 option" where
  "sub_u64 checks a b = (if checks \<and> a < b then None else Some (a - b))"

lemma add_u64_checked: "add_u64 True a b = Some c \<Longrightarrow> unat c = unat a + unat b"
  by (auto simp: add_u64_def unat_word_ariths split: if_splits)

lemma sub_u64_checked: "sub_u64 True a b = Some c \<Longrightarrow> unat a = unat b + unat c"
  by (auto simp: sub_u64_def word_less_nat_alt unat_sub_if' split: if_splits)

subsection \<open>Splitting and trimming\<close>

text \<open>\<open>str::split_once\<close> at a character: the parts before and after its first occurrence.\<close>

fun split_once :: "char \<Rightarrow> string \<Rightarrow> (string \<times> string) option" where
  "split_once c [] = None"
| "split_once c (x # xs) =
     (if x = c then Some ([], xs) else map_option (\<lambda>(a, b). (x # a, b)) (split_once c xs))"

lemma split_once_None [simp]: "split_once c s = None \<longleftrightarrow> c \<notin> set s"
  by (induction s) auto

lemma split_once_append [simp]: "c \<notin> set a \<Longrightarrow> split_once c (a @ c # b) = Some (a, b)"
  by (induction a) auto

lemma split_once_Some: "split_once c s = Some (a, b) \<longleftrightarrow> s = a @ c # b \<and> c \<notin> set a"
proof
  show "split_once c s = Some (a, b) \<Longrightarrow> s = a @ c # b \<and> c \<notin> set a"
    by (induction s arbitrary: a) (auto split: if_splits)
qed auto

text \<open>\<open>str::split\<close> at a character: always at least one part.\<close>

fun split_char :: "char \<Rightarrow> string \<Rightarrow> string list" where
  "split_char c [] = [[]]"
| "split_char c (x # xs) =
     (if x = c then [] # split_char c xs
      else case split_char c xs of [] \<Rightarrow> [[x]] | p # ps \<Rightarrow> (x # p) # ps)"

lemma split_char_not_Nil [simp]: "split_char c s \<noteq> []"
  by (induction s) (auto split: list.splits)

lemma split_char_no_sep [simp]: "c \<notin> set s \<Longrightarrow> split_char c s = [s]"
  by (induction s) auto

lemma split_char_append [simp]: "c \<notin> set a \<Longrightarrow> split_char c (a @ c # b) = a # split_char c b"
  by (induction a) auto

lemma split_char_snoc [simp]: "split_char c (t @ [c]) = split_char c t @ [[]]"
proof (induction t)
  case (Cons x t)
  obtain p ps where "split_char c t = p # ps" by (cases "split_char c t") auto
  with Cons show ?case by simp
qed simp

text \<open>\<open>join\<close> with a separator; the inverse of splitting.\<close>

fun join :: "string \<Rightarrow> string list \<Rightarrow> string" where
  "join sep [] = []"
| "join sep [s] = s"
| "join sep (s # t # ts) = s @ sep @ join sep (t # ts)"

lemma join_Cons: "ts \<noteq> [] \<Longrightarrow> join sep (s # ts) = s @ sep @ join sep ts"
  by (cases ts) auto

lemma join_append:
  "join sep (ss @ ts) = (if ss = [] then join sep ts else if ts = [] then join sep ss else join sep ss @ sep @ join sep ts)"
proof (induction ss)
  case (Cons s ss)
  then show ?case by (cases "ss = []"; cases "ts = []") (simp_all add: join_Cons)
qed simp

lemma join_eq_Nil: "[] \<notin> set ss \<Longrightarrow> join sep ss = [] \<longleftrightarrow> ss = []"
  by (cases "(sep, ss)" rule: join.cases) auto

lemma join_split_char: "join [c] (split_char c s) = s"
proof (induction s)
  case Nil
  then show ?case by simp
next
  case (Cons x xs)
  obtain p ps where p: "split_char c xs = p # ps"
    by (cases "split_char c xs") auto
  with Cons show ?case by (cases ps) auto
qed

lemma split_char_parts: "p \<in> set (split_char c s) \<Longrightarrow> c \<notin> set p"
proof (induction s arbitrary: p)
  case Nil
  then show ?case by simp
next
  case (Cons x xs)
  obtain q qs where "split_char c xs = q # qs"
    by (cases "split_char c xs") auto
  with Cons show ?case by (auto split: if_splits)
qed

lemma split_char_one_iff: "split_char c s = [n] \<longleftrightarrow> s = n \<and> c \<notin> set n"
  by (metis join.simps(2) join_split_char list.set_intros(1) split_char_no_sep split_char_parts)

lemma split_char_two_iff:
  "split_char c s = [p, n] \<longleftrightarrow> s = p @ c # n \<and> c \<notin> set p \<and> c \<notin> set n"
proof
  assume *: "split_char c s = [p, n]"
  then have "s = p @ c # n" using join_split_char [of c s] by simp
  moreover have "c \<notin> set p" "c \<notin> set n"
    using split_char_parts [of _ c s] * by auto
  ultimately show "s = p @ c # n \<and> c \<notin> set p \<and> c \<notin> set n" by simp
qed simp

definition trim_start :: "string \<Rightarrow> string" where
  "trim_start s = dropWhile is_whitespace s"

definition trim :: "string \<Rightarrow> string" where
  "trim s = rev (dropWhile is_whitespace (rev (trim_start s)))"

lemma dropWhile_id: "(s \<noteq> [] \<longrightarrow> \<not> P (hd s)) \<Longrightarrow> dropWhile P s = s"
  by (cases s) auto

lemma trim_id:
  assumes "s \<noteq> [] \<Longrightarrow> \<not> is_whitespace (hd s) \<and> \<not> is_whitespace (last s)"
  shows "trim s = s"
  using assms by (auto simp: trim_def trim_start_def dropWhile_id hd_rev)

lemma trim_ends:
  assumes "trim s \<noteq> []"
  shows "\<not> is_whitespace (hd (trim s)) \<and> \<not> is_whitespace (last (trim s))"
proof -
  let ?t = "trim_start s"
  obtain xs where xs: "?t = trim s @ xs"
    unfolding trim_def by (metis rev_append rev_swap takeWhile_dropWhile_id)
  have "?t \<noteq> []" using assms xs by auto
  then have "\<not> is_whitespace (hd ?t)"
    unfolding trim_start_def by (rule hd_dropWhile)
  moreover have "hd (trim s) = hd ?t" using assms xs by (simp add: hd_append)
  moreover have "\<not> is_whitespace (last (trim s))"
    using assms unfolding trim_def by (metis hd_dropWhile last_rev rev_is_Nil_conv)
  ultimately show ?thesis by simp
qed

lemma trim_idem [simp]: "trim (trim s) = trim s"
  by (rule trim_id) (rule trim_ends)

end
