(* ===== verification/Regex_Match.thy ===== *)
theory Regex_Match
  imports Rust_Str
begin

section \<open>The regular expressions of the sources\<close>

text \<open>
  The patterns the sources compile are transcribed as values of the type below, so that each
  constant of the development can be compared with the pattern string it stands for. All of them
  are anchored (\<open>^\<dots>$\<close>): \<open>Regex::is_match\<close> is membership of the whole input in the language of
  the pattern. The language is a set (\<open>lang\<close>); \<open>is_match\<close> decides it by derivatives and is what
  the models run.
\<close>

datatype regex =
    Nothing
  | Eps
  | Class "(char \<times> char) list"
  | Seq regex regex
  | Alt regex regex
  | Star regex

definition in_class :: "(char \<times> char) list \<Rightarrow> char \<Rightarrow> bool" where
  "in_class rs c \<longleftrightarrow> list_ex (\<lambda>(a, b). in_range a b c) rs"

text \<open>\<open>r?\<close>, \<open>r+\<close>, \<open>r{0,n}\<close>, \<open>r{2,}\<close> and a literal character, as in the pattern syntax.\<close>

definition Opt :: "regex \<Rightarrow> regex" where
  "Opt r = Alt r Eps"

definition Plus :: "regex \<Rightarrow> regex" where
  "Plus r = Seq r (Star r)"

fun UpTo :: "nat \<Rightarrow> regex \<Rightarrow> regex" where
  "UpTo 0 r = Eps"
| "UpTo (Suc n) r = Opt (Seq r (UpTo n r))"

definition AtLeast2 :: "regex \<Rightarrow> regex" where
  "AtLeast2 r = Seq r (Plus r)"

definition Lit :: "char \<Rightarrow> regex" where
  "Lit c = Class [(c, c)]"

subsection \<open>Languages\<close>

inductive_set iter_lang :: "string set \<Rightarrow> string set" for L where
  iter_none: "[] \<in> iter_lang L"
| iter_more: "u \<in> L \<Longrightarrow> v \<in> iter_lang L \<Longrightarrow> u @ v \<in> iter_lang L"

fun lang :: "regex \<Rightarrow> string set" where
  "lang Nothing = {}"
| "lang Eps = {[]}"
| "lang (Class rs) = {[c] |c. in_class rs c}"
| "lang (Seq r t) = {u @ v |u v. u \<in> lang r \<and> v \<in> lang t}"
| "lang (Alt r t) = lang r \<union> lang t"
| "lang (Star r) = iter_lang (lang r)"

subsection \<open>Matching by derivatives\<close>

fun accepts_nil :: "regex \<Rightarrow> bool" where
  "accepts_nil Nothing = False"
| "accepts_nil Eps = True"
| "accepts_nil (Class rs) = False"
| "accepts_nil (Seq r t) = (accepts_nil r \<and> accepts_nil t)"
| "accepts_nil (Alt r t) = (accepts_nil r \<or> accepts_nil t)"
| "accepts_nil (Star r) = True"

text \<open>Concatenation and choice that drop the dead branches a derivative leaves behind.\<close>

fun mk_seq :: "regex \<Rightarrow> regex \<Rightarrow> regex" where
  "mk_seq Nothing t = Nothing"
| "mk_seq Eps t = t"
| "mk_seq r t = Seq r t"

fun mk_alt :: "regex \<Rightarrow> regex \<Rightarrow> regex" where
  "mk_alt Nothing t = t"
| "mk_alt r Nothing = r"
| "mk_alt r t = Alt r t"

fun after :: "regex \<Rightarrow> char \<Rightarrow> regex" where
  "after Nothing c = Nothing"
| "after Eps c = Nothing"
| "after (Class rs) c = (if in_class rs c then Eps else Nothing)"
| "after (Seq r t) c =
     (if accepts_nil r then mk_alt (mk_seq (after r c) t) (after t c) else mk_seq (after r c) t)"
| "after (Alt r t) c = mk_alt (after r c) (after t c)"
| "after (Star r) c = mk_seq (after r c) (Star r)"

fun is_match :: "regex \<Rightarrow> string \<Rightarrow> bool" where
  "is_match r [] = accepts_nil r"
| "is_match r (c # s) = is_match (after r c) s"

lemma lang_mk_seq [simp]: "lang (mk_seq r t) = lang (Seq r t)"
  by (cases r) auto

lemma lang_mk_alt [simp]: "lang (mk_alt r t) = lang (Alt r t)"
  by (induction r t rule: mk_alt.induct) auto

lemma accepts_nil_iff: "accepts_nil r \<longleftrightarrow> [] \<in> lang r"
  by (induction r) (auto intro: iter_lang.iter_none)

lemma iter_lang_Cons:
  "s \<in> iter_lang L \<Longrightarrow> s = c # w \<Longrightarrow> \<exists>u v. c # u \<in> L \<and> v \<in> iter_lang L \<and> w = u @ v"
  by (induction arbitrary: w rule: iter_lang.induct) (auto simp: append_eq_Cons_conv)

lemma iter_lang_Cons_iff:
  "c # w \<in> iter_lang L \<longleftrightarrow> (\<exists>u v. c # u \<in> L \<and> v \<in> iter_lang L \<and> w = u @ v)"
  using iter_lang_Cons [of "c # w" L c w] iter_more [of "c # _" L] by auto

lemma lang_after: "lang (after r c) = {w. c # w \<in> lang r}"
  by (induction r) (auto simp: accepts_nil_iff Cons_eq_append_conv iter_lang_Cons_iff)

theorem is_match_iff: "is_match r s \<longleftrightarrow> s \<in> lang r"
  by (induction s arbitrary: r) (simp_all add: accepts_nil_iff lang_after)

subsection \<open>Languages of the derived forms\<close>

lemma lang_Opt [simp]: "s \<in> lang (Opt r) \<longleftrightarrow> s = [] \<or> s \<in> lang r"
  by (auto simp: Opt_def)

lemma lang_Lit [simp]: "s \<in> lang (Lit c) \<longleftrightarrow> s = [c]"
  by (auto simp: Lit_def in_class_def in_range_def of_char_eq_iff dest: le_antisym)

lemma iter_lang_all:
  assumes "s \<in> iter_lang L" "\<And>u. u \<in> L \<Longrightarrow> list_all P u"
  shows "list_all P s"
  using assms by (induction rule: iter_lang.induct) auto

lemma lang_Plus: "s \<in> lang (Plus r) \<longleftrightarrow> (\<exists>u v. s = u @ v \<and> u \<in> lang r \<and> v \<in> iter_lang (lang r))"
  by (auto simp: Plus_def)

lemma lang_Plus_all:
  "s \<in> lang (Plus r) \<Longrightarrow> (\<And>u. u \<in> lang r \<Longrightarrow> list_all P u) \<Longrightarrow> list_all P s"
  unfolding lang_Plus using iter_lang_all [of _ "lang r" P] by fastforce

lemma lang_Seq_iff: "s \<in> lang (Seq r t) \<longleftrightarrow> (\<exists>u v. s = u @ v \<and> u \<in> lang r \<and> v \<in> lang t)"
  by (simp only: lang.simps(4) mem_Collect_eq)

lemma lang_Seq_Class:
  "s \<in> lang (Seq (Class rs) r) \<longleftrightarrow> (\<exists>c t. s = c # t \<and> in_class rs c \<and> t \<in> lang r)"
proof
  assume "s \<in> lang (Seq (Class rs) r)"
  then obtain u v where "s = u @ v" "u \<in> lang (Class rs)" "v \<in> lang r" by (auto simp only: lang.simps(4) mem_Collect_eq)
  then show "\<exists>c t. s = c # t \<and> in_class rs c \<and> t \<in> lang r" by auto
next
  assume "\<exists>c t. s = c # t \<and> in_class rs c \<and> t \<in> lang r"
  then obtain c t where "s = [c] @ t" "[c] \<in> lang (Class rs)" "t \<in> lang r" by auto
  then show "s \<in> lang (Seq (Class rs) r)" by (auto simp only: lang.simps(4) mem_Collect_eq)
qed

lemma lang_Class_Seq:
  "s \<in> lang (Seq r (Class rs)) \<longleftrightarrow> (\<exists>t c. s = t @ [c] \<and> t \<in> lang r \<and> in_class rs c)"
  by (auto simp only: lang.simps(3,4) mem_Collect_eq)

lemma iter_lang_Class: "iter_lang (lang (Class rs)) = {s. list_all (in_class rs) s}"
proof (intro set_eqI iffI)
  fix s
  show "s \<in> iter_lang (lang (Class rs)) \<Longrightarrow> s \<in> {s. list_all (in_class rs) s}"
    by (induction rule: iter_lang.induct) auto
next
  fix s
  show "s \<in> {s. list_all (in_class rs) s} \<Longrightarrow> s \<in> iter_lang (lang (Class rs))"
  proof (induction s)
    case (Cons c s)
    then show ?case using iter_more [of "[c]" "lang (Class rs)" s] by auto
  qed (simp add: iter_none)
qed

lemma lang_Star_Class [simp]: "lang (Star (Class rs)) = {s. list_all (in_class rs) s}"
  by (simp only: lang.simps(6) iter_lang_Class)

lemma lang_Plus_Class: "s \<in> lang (Plus (Class rs)) \<longleftrightarrow> s \<noteq> [] \<and> list_all (in_class rs) s"
  by (cases s) (auto simp: Plus_def lang_Seq_Class simp del: lang.simps(4,6))

lemma lang_UpTo_Class:
  "s \<in> lang (UpTo n (Class rs)) \<longleftrightarrow> length s \<le> n \<and> list_all (in_class rs) s"
proof (induction n arbitrary: s)
  case 0
  then show ?case by auto
next
  case (Suc n)
  show ?case by (cases s) (auto simp: Suc lang_Seq_Class simp del: lang.simps(4))
qed

text \<open>
  The shape of every label pattern of the sources: one character of a class \<open>F\<close>, then nothing or
  any characters of \<open>B\<close> closed by one of \<open>L\<close>.
\<close>

definition label_regex :: "(char \<times> char) list \<Rightarrow> (char \<times> char) list \<Rightarrow> (char \<times> char) list \<Rightarrow> regex" where
  "label_regex F B L = Seq (Class F) (Opt (Seq (Star (Class B)) (Class L)))"

lemma lang_label_regex:
  assumes "\<And>c. in_class L c \<Longrightarrow> in_class B c"
  shows "s \<in> lang (label_regex F B L) \<longleftrightarrow>
    s \<noteq> [] \<and> in_class F (hd s) \<and> list_all (in_class B) (tl s) \<and> (tl s \<noteq> [] \<longrightarrow> in_class L (last s))"
proof (cases s)
  case Nil
  then show ?thesis by (simp add: label_regex_def)
next
  case (Cons a t)
  show ?thesis
  proof (cases t rule: rev_cases)
    case Nil
    with Cons show ?thesis
      by (auto simp: label_regex_def lang_Seq_Class lang_Class_Seq simp del: lang.simps(4))
  next
    case (snoc u b)
    with Cons assms show ?thesis
      by (auto simp: label_regex_def lang_Seq_Class lang_Class_Seq simp del: lang.simps(4,6))
  qed
qed

text \<open>\<open>[A][B]{0,n}[A]\<close>: a label of at least two and at most \<open>n + 2\<close> characters.\<close>

definition bounded_label_regex :: "nat \<Rightarrow> (char \<times> char) list \<Rightarrow> (char \<times> char) list \<Rightarrow> regex" where
  "bounded_label_regex n A B = Seq (Class A) (Seq (UpTo n (Class B)) (Class A))"

lemma lang_bounded_label_regex:
  assumes "\<And>c. in_class A c \<Longrightarrow> in_class B c"
  shows "s \<in> lang (bounded_label_regex n A B) \<longleftrightarrow>
    2 \<le> length s \<and> length s \<le> n + 2 \<and> in_class A (hd s) \<and> in_class A (last s) \<and> list_all (in_class B) s"
proof (cases s)
  case Nil
  then show ?thesis by (simp add: bounded_label_regex_def lang_Seq_Class del: lang.simps(4))
next
  case (Cons a t)
  show ?thesis
  proof (cases t rule: rev_cases)
    case Nil
    with Cons show ?thesis
      by (auto simp: bounded_label_regex_def lang_Seq_Class lang_Class_Seq simp del: lang.simps(4))
  next
    case (snoc u b)
    with Cons assms show ?thesis
      by (auto simp: bounded_label_regex_def lang_Seq_Class lang_Class_Seq lang_UpTo_Class
          simp del: lang.simps(4))
  qed
qed

subsection \<open>Captures\<close>

text \<open>
  \<open>^(?P<a>A)(?P<b>B)$\<close> with a greedy first group: the capture is the longest prefix in \<open>A\<close> whose
  rest is in \<open>B\<close>. \<open>longest n\<close> tries the splits at \<open>n\<close>, \<open>n - 1\<close>, \<dots>, \<open>0\<close>.
\<close>

fun longest :: "nat \<Rightarrow> regex \<Rightarrow> regex \<Rightarrow> string \<Rightarrow> (string \<times> string) option" where
  "longest 0 A B s = (if is_match A [] \<and> is_match B s then Some ([], s) else None)"
| "longest (Suc n) A B s =
     (if is_match A (take (Suc n) s) \<and> is_match B (drop (Suc n) s)
      then Some (take (Suc n) s, drop (Suc n) s) else longest n A B s)"

definition captures2 :: "regex \<Rightarrow> regex \<Rightarrow> string \<Rightarrow> (string \<times> string) option" where
  "captures2 A B s = longest (length s) A B s"

lemma longest_None:
  "longest n A B s = None \<longleftrightarrow> (\<forall>k\<le>n. \<not> (is_match A (take k s) \<and> is_match B (drop k s)))"
  by (induction n) (auto simp: le_Suc_eq)

lemma longest_Some:
  "longest n A B s = Some (a, b) \<Longrightarrow> s = a @ b \<and> is_match A a \<and> is_match B b"
  by (induction n) (auto split: if_splits)

text \<open>A capture exists exactly when the whole pattern matches.\<close>

lemma captures2_None: "captures2 A B s = None \<longleftrightarrow> \<not> is_match (Seq A B) s"
proof -
  have "(\<forall>k\<le>length s. \<not> (take k s \<in> lang A \<and> drop k s \<in> lang B)) \<longleftrightarrow> s \<notin> lang (Seq A B)"
  proof
    assume *: "\<forall>k\<le>length s. \<not> (take k s \<in> lang A \<and> drop k s \<in> lang B)"
    show "s \<notin> lang (Seq A B)"
    proof
      assume "s \<in> lang (Seq A B)"
      then obtain u v where "s = u @ v" "u \<in> lang A" "v \<in> lang B" by auto
      with * show False by (auto dest: spec [where x = "length u"])
    qed
  next
    assume "s \<notin> lang (Seq A B)"
    then show "\<forall>k\<le>length s. \<not> (take k s \<in> lang A \<and> drop k s \<in> lang B)"
      by (force intro: append_take_drop_id [symmetric])
  qed
  then show ?thesis by (simp only: captures2_def longest_None is_match_iff)
qed

lemma captures2_Some:
  "captures2 A B s = Some (a, b) \<Longrightarrow> s = a @ b \<and> is_match A a \<and> is_match B b"
  unfolding captures2_def by (rule longest_Some)

lemma longest_unique:
  assumes "length a \<le> n" "n \<le> length a + length b" "is_match A a" "is_match B b"
    and "\<And>k. length a < k \<Longrightarrow> k \<le> n \<Longrightarrow>
           \<not> (is_match A (take k (a @ b)) \<and> is_match B (drop k (a @ b)))"
  shows "longest n A B (a @ b) = Some (a, b)"
  using assms
proof (induction n)
  case 0
  then show ?case by simp
next
  case (Suc n)
  show ?case
  proof (cases "length a = Suc n")
    case True
    with Suc.prems(3,4) show ?thesis by simp
  next
    case False
    with Suc have "\<not> (is_match A (take (Suc n) (a @ b)) \<and> is_match B (drop (Suc n) (a @ b)))"
      by simp
    moreover have "longest n A B (a @ b) = Some (a, b)"
      using Suc False by simp
    ultimately show ?thesis by auto
  qed
qed

text \<open>
  Where a letter outside the first group's class follows it, the capture is determined: no longer
  prefix consists of characters of that class.
\<close>

lemma captures2_Plus_Class:
  assumes "a \<noteq> []" "list_all (in_class rs) a" "is_match B b"
    and "b \<noteq> [] \<Longrightarrow> \<not> in_class rs (hd b)"
  shows "captures2 (Plus (Class rs)) B (a @ b) = Some (a, b)"
  unfolding captures2_def
proof (rule longest_unique)
  show "is_match (Plus (Class rs)) a"
    using assms by (simp add: is_match_iff lang_Plus_Class)
  show "\<not> (is_match (Plus (Class rs)) (take k (a @ b)) \<and> is_match B (drop k (a @ b)))"
    if k: "length a < k" "k \<le> length (a @ b)" for k
  proof -
    from k have b: "b \<noteq> []" and "take k (a @ b) = a @ take (k - length a) b" by auto
    moreover have "hd b \<in> set (take (k - length a) b)"
      using b k by (cases b; cases "k - length a") auto
    ultimately show ?thesis
      using assms(4) by (auto simp: is_match_iff lang_Plus_Class list_all_iff)
  qed
qed (use assms in auto)

end
