(* ===== verification/K8s_Version.thy ===== *)
theory K8s_Version
  imports Regex_Match "HOL-Library.Product_Lexorder"
begin

section \<open>Kubernetes API versions (crate k8s-version)\<close>

text \<open>
  The crate \<open>k8s-version\<close>: \<open>Level\<close> (\<open>alpha1\<close>, \<open>beta2\<close>), \<open>Version\<close> (\<open>v1beta2\<close>), \<open>Group\<close>
  and \<open>ApiVersion\<close> (\<open>group/v1beta2\<close>), each with its parser, its \<open>Display\<close>, its order and its
  arithmetic. The order on versions decides which version of a CRD is the latest one and which
  conversions are upgrades.
\<close>

subsection \<open>Level\<close>

datatype level = Alpha u64 | Beta u64

datatype parse_level_error =
    Level_InvalidFormat
  | Level_ParseVersion int_error_kind
  | Level_UnknownIdentifier

definition lower_class :: "(char \<times> char) list" where
  "lower_class = [(CHR ''a'', CHR ''z'')]"

definition digit_class :: "(char \<times> char) list" where
  "digit_class = [(CHR ''0'', CHR ''9'')]"

text \<open>\<open>^(?P<identifier>[a-z]+)(?P<version>\d+)$\<close>\<close>

definition level_captures :: "string \<Rightarrow> (string \<times> string) option" where
  "level_captures = captures2 (Plus (Class lower_class)) (Plus (Class digit_class))"

definition level_from_str :: "string \<Rightarrow> (level, parse_level_error) result" where
  "level_from_str input =
     (case level_captures input of
        None \<Rightarrow> Inl Level_InvalidFormat
      | Some (identifier, version) \<Rightarrow>
          and_then (map_err Level_ParseVersion (parse_u64 version)) (\<lambda>version.
            if identifier = ''alpha'' then Inr (Alpha version)
            else if identifier = ''beta'' then Inr (Beta version)
            else Inl Level_UnknownIdentifier))"

definition level_fmt :: "level \<Rightarrow> string" where
  "level_fmt l = (case l of Alpha n \<Rightarrow> ''alpha'' @ show_u64 n | Beta n \<Rightarrow> ''beta'' @ show_u64 n)"

definition level_cmp :: "level \<Rightarrow> level \<Rightarrow> ordering" where
  "level_cmp l r =
     (case l of
        Alpha lhs \<Rightarrow> (case r of Alpha rhs \<Rightarrow> ord_cmp lhs rhs | Beta _ \<Rightarrow> Less)
      | Beta lhs \<Rightarrow> (case r of Alpha _ \<Rightarrow> Greater | Beta rhs \<Rightarrow> ord_cmp lhs rhs))"

definition level_add :: "bool \<Rightarrow> level \<Rightarrow> u64 \<Rightarrow> level option" where
  "level_add checks l rhs =
     (case l of
        Alpha lhs \<Rightarrow> map_option Alpha (add_u64 checks lhs rhs)
      | Beta lhs \<Rightarrow> map_option Beta (add_u64 checks lhs rhs))"

definition level_sub :: "bool \<Rightarrow> level \<Rightarrow> u64 \<Rightarrow> level option" where
  "level_sub checks l rhs =
     (case l of
        Alpha lhs \<Rightarrow> map_option Alpha (sub_u64 checks lhs rhs)
      | Beta lhs \<Rightarrow> map_option Beta (sub_u64 checks lhs rhs))"

text \<open>
  \<open>AddAssign\<close> and \<open>SubAssign\<close> evaluate \<open>*lhs + rhs.into()\<close> in a statement of their own: the sum
  (which may panic) is computed and dropped, and \<open>*lhs\<close> is never written.
\<close>

definition level_add_assign :: "bool \<Rightarrow> level \<Rightarrow> u64 \<Rightarrow> level option" where
  "level_add_assign checks l rhs =
     (case l of
        Alpha lhs \<Rightarrow> map_option (\<lambda>_. Alpha lhs) (add_u64 checks lhs rhs)
      | Beta lhs \<Rightarrow> map_option (\<lambda>_. Beta lhs) (add_u64 checks lhs rhs))"

definition level_sub_assign :: "bool \<Rightarrow> level \<Rightarrow> u64 \<Rightarrow> level option" where
  "level_sub_assign checks l rhs =
     (case l of
        Alpha lhs \<Rightarrow> map_option (\<lambda>_. Alpha lhs) (sub_u64 checks lhs rhs)
      | Beta lhs \<Rightarrow> map_option (\<lambda>_. Beta lhs) (sub_u64 checks lhs rhs))"

subsection \<open>Version\<close>

datatype version = Version (major: u64) (level: "level option")

datatype parse_version_error =
    Version_InvalidFormat
  | Version_ParseMajorVersion int_error_kind
  | Version_ParseLevel parse_level_error

definition lower_digit_class :: "(char \<times> char) list" where
  "lower_digit_class = [(CHR ''a'', CHR ''z''), (CHR ''0'', CHR ''9'')]"

definition lower_digit_dash_class :: "(char \<times> char) list" where
  "lower_digit_dash_class = [(CHR ''a'', CHR ''z''), (CHR ''0'', CHR ''9''), (CHR ''-'', CHR ''-'')]"

text \<open>\<open>[a-z0-9][a-z0-9-]{0,60}[a-z0-9]\<close>, the level group of the version pattern\<close>

definition version_level_regex :: regex where
  "version_level_regex = bounded_label_regex 60 lower_digit_class lower_digit_dash_class"

text \<open>
  \<open>^v(?P<major>\d+)(?P<level>[a-z0-9][a-z0-9-]{0,60}[a-z0-9])?$\<close>. The level group matches at least
  two characters, so it takes part in the match exactly when something is left for it.
\<close>

definition version_captures :: "string \<Rightarrow> (string \<times> string option) option" where
  "version_captures input =
     (case input of
        [] \<Rightarrow> None
      | c # rest \<Rightarrow>
          if c = CHR ''v'' then
            map_option (\<lambda>(m, l). (m, if l = [] then None else Some l))
              (captures2 (Plus (Class digit_class)) (Opt version_level_regex) rest)
          else None)"

definition version_from_str :: "string \<Rightarrow> (version, parse_version_error) result" where
  "version_from_str input =
     (case version_captures input of
        None \<Rightarrow> Inl Version_InvalidFormat
      | Some (m, l) \<Rightarrow>
          and_then (map_err Version_ParseMajorVersion (parse_u64 m)) (\<lambda>major.
            case l of
              Some l \<Rightarrow> and_then (map_err Version_ParseLevel (level_from_str l))
                          (\<lambda>level. Inr (Version major (Some level)))
            | None \<Rightarrow> Inr (Version major None)))"

definition version_cmp :: "version \<Rightarrow> version \<Rightarrow> ordering" where
  "version_cmp v w =
     (case ord_cmp (major v) (major w) of
        Equal \<Rightarrow>
          (case (level v, level w) of
             (Some lhs, Some rhs) \<Rightarrow> level_cmp lhs rhs
           | (Some _, None) \<Rightarrow> Less
           | (None, Some _) \<Rightarrow> Greater
           | (None, None) \<Rightarrow> Equal)
      | ord \<Rightarrow> ord)"

definition version_fmt :: "version \<Rightarrow> string" where
  "version_fmt v =
     (case level v of
        Some l \<Rightarrow> ''v'' @ show_u64 (major v) @ level_fmt l
      | None \<Rightarrow> ''v'' @ show_u64 (major v))"

subsection \<open>Group\<close>

datatype group = Group (group_str: string)

datatype parse_group_error = Group_Empty | Group_TooLong | Group_InvalidFormat

definition MAX_GROUP_LENGTH :: nat where
  "MAX_GROUP_LENGTH = 253"

text \<open>\<open>^(?:(?:[a-z0-9][a-z0-9-]{0,61}[a-z0-9])\.?)+$\<close>\<close>

definition API_GROUP_REGEX :: regex where
  "API_GROUP_REGEX =
     Plus (Seq (bounded_label_regex 61 lower_digit_class lower_digit_dash_class)
               (Opt (Lit (CHR ''.''))))"

definition group_from_str :: "string \<Rightarrow> (group, parse_group_error) result" where
  "group_from_str g =
     and_then (ensure (g \<noteq> []) Group_Empty) (\<lambda>_.
     and_then (ensure (length g \<le> MAX_GROUP_LENGTH) Group_TooLong) (\<lambda>_.
     and_then (ensure (is_match API_GROUP_REGEX g) Group_InvalidFormat) (\<lambda>_.
     Inr (Group g))))"

definition group_fmt :: "group \<Rightarrow> string" where
  "group_fmt g = group_str g"

subsection \<open>ApiVersion\<close>

datatype api_version = ApiVersion (api_group: "group option") (api_ver: version)

datatype parse_api_version_error =
    ApiVersion_ParseVersion parse_version_error
  | ApiVersion_ParseGroup parse_group_error

definition api_version_from_str :: "string \<Rightarrow> (api_version, parse_api_version_error) result" where
  "api_version_from_str input =
     (case split_once (CHR ''/'') input of
        Some (g, version) \<Rightarrow>
          and_then (map_err ApiVersion_ParseGroup (group_from_str g)) (\<lambda>group.
          and_then (map_err ApiVersion_ParseVersion (version_from_str version)) (\<lambda>version.
          Inr (ApiVersion (Some group) version)))
      | None \<Rightarrow>
          and_then (map_err ApiVersion_ParseVersion (version_from_str input)) (\<lambda>version.
          Inr (ApiVersion None version)))"

definition api_version_try_new ::
  "string option \<Rightarrow> version \<Rightarrow> (api_version, parse_api_version_error) result" where
  "api_version_try_new g version =
     and_then (map_err ApiVersion_ParseGroup (traverse_option group_from_str g))
       (\<lambda>group. Inr (ApiVersion group version))"

definition api_version_partial_cmp :: "api_version \<Rightarrow> api_version \<Rightarrow> ordering option" where
  "api_version_partial_cmp v w =
     (case ord_cmp (map_option group_str (api_group v)) (map_option group_str (api_group w)) of
        Equal \<Rightarrow> Some (version_cmp (api_ver v) (api_ver w))
      | _ \<Rightarrow> None)"

definition api_version_fmt :: "api_version \<Rightarrow> string" where
  "api_version_fmt v =
     (case api_group v of
        Some g \<Rightarrow> group_fmt g @ ''/'' @ version_fmt (api_ver v)
      | None \<Rightarrow> version_fmt (api_ver v))"

subsection \<open>The orders are lawful\<close>

interpretation level_ord: rust_ord level_cmp
proof
  fix x y z :: level
  show "(level_cmp x y = Equal) = (x = y)"
    by (auto simp: level_cmp_def split: level.splits)
  show "level_cmp y x = reverse_ordering (level_cmp x y)"
    by (auto simp: level_cmp_def split: level.splits intro: ord_cmp.cmp_reverse)
  show "level_cmp x y = Less \<Longrightarrow> level_cmp y z = Less \<Longrightarrow> level_cmp x z = Less"
    by (auto simp: level_cmp_def split: level.splits)
qed

lemma version_cmp_Less:
  "version_cmp v w = Less \<longleftrightarrow>
     major v < major w \<or> major v = major w \<and>
       (case (level v, level w) of
          (Some l, Some r) \<Rightarrow> level_cmp l r = Less
        | (Some _, None) \<Rightarrow> True
        | _ \<Rightarrow> False)"
  by (auto simp: version_cmp_def ord_cmp_def split: option.splits)

interpretation version_ord: rust_ord version_cmp
proof
  fix x y z :: version
  show "(version_cmp x y = Equal) = (x = y)"
    by (cases x; cases y)
      (auto simp: version_cmp_def ord_cmp_def level_ord.cmp_equal_iff split: option.splits)
  show "version_cmp y x = reverse_ordering (version_cmp x y)"
    by (cases x; cases y)
      (auto simp: version_cmp_def ord_cmp_def split: option.splits intro: level_ord.cmp_reverse)
  show "version_cmp x y = Less \<Longrightarrow> version_cmp y z = Less \<Longrightarrow> version_cmp x z = Less"
    by (auto simp: version_cmp_Less split: option.splits intro: level_ord.cmp_trans)
qed

text \<open>The \<open>linorder\<close> instances, so that \<open>sort\<close>, \<open>Max\<close> and \<open>sorted\<close> apply to versions.\<close>

instantiation level :: linorder
begin

definition less_eq_level :: "level \<Rightarrow> level \<Rightarrow> bool" where
  "less_eq_level x y \<longleftrightarrow> level_cmp x y \<noteq> Greater"

definition less_level :: "level \<Rightarrow> level \<Rightarrow> bool" where
  "less_level x y \<longleftrightarrow> level_cmp x y = Less"

instance
proof
  fix x y z :: level
  show "(x < y) = (x \<le> y \<and> \<not> y \<le> x)"
    unfolding less_eq_level_def less_level_def
    using level_ord.greater_iff_less [of y x] level_ord.less_asym [of x y] level_ord.greater_iff_less [of x y]
    by auto
  show "x \<le> x" by (simp add: less_eq_level_def level_ord.cmp_refl)
  show "x \<le> y \<Longrightarrow> y \<le> z \<Longrightarrow> x \<le> z"
    unfolding less_eq_level_def by (rule level_ord.le_trans)
  show "x \<le> y \<Longrightarrow> y \<le> x \<Longrightarrow> x = y"
    unfolding less_eq_level_def by (rule level_ord.le_antisym)
  show "x \<le> y \<or> y \<le> x"
    unfolding less_eq_level_def
    using level_ord.greater_iff_less [of y x] level_ord.greater_iff_less [of x y] by auto
qed

end

instantiation version :: linorder
begin

definition less_eq_version :: "version \<Rightarrow> version \<Rightarrow> bool" where
  "less_eq_version x y \<longleftrightarrow> version_cmp x y \<noteq> Greater"

definition less_version :: "version \<Rightarrow> version \<Rightarrow> bool" where
  "less_version x y \<longleftrightarrow> version_cmp x y = Less"

instance
proof
  fix x y z :: version
  show "(x < y) = (x \<le> y \<and> \<not> y \<le> x)"
    unfolding less_eq_version_def less_version_def
    using version_ord.greater_iff_less [of y x] version_ord.less_asym [of x y] version_ord.greater_iff_less [of x y]
    by auto
  show "x \<le> x" by (simp add: less_eq_version_def version_ord.cmp_refl)
  show "x \<le> y \<Longrightarrow> y \<le> z \<Longrightarrow> x \<le> z"
    unfolding less_eq_version_def by (rule version_ord.le_trans)
  show "x \<le> y \<Longrightarrow> y \<le> x \<Longrightarrow> x = y"
    unfolding less_eq_version_def by (rule version_ord.le_antisym)
  show "x \<le> y \<or> y \<le> x"
    unfolding less_eq_version_def
    using version_ord.greater_iff_less [of y x] version_ord.greater_iff_less [of x y] by auto
qed

end

lemma version_less_iff_cmp: "v < w \<longleftrightarrow> version_cmp v w = Less"
  by (simp add: less_version_def)

subsection \<open>What the parsers accept\<close>

lemma in_class_simps [simp]:
  "in_class digit_class c \<longleftrightarrow> is_digit c"
  "in_class lower_class c \<longleftrightarrow> is_lower c"
  "in_class lower_digit_class c \<longleftrightarrow> is_lower c \<or> is_digit c"
  "in_class lower_digit_dash_class c \<longleftrightarrow> is_lower c \<or> is_digit c \<or> c = CHR ''-''"
  by (auto simp: in_class_def digit_class_def lower_class_def lower_digit_class_def
      lower_digit_dash_class_def is_digit_def is_lower_def)

lemma in_class_fun [simp]:
  "in_class digit_class = is_digit" "in_class lower_class = is_lower"
  by (simp_all add: fun_eq_iff)

lemma digit_not_lower: "is_digit c \<Longrightarrow> \<not> is_lower c"
  by (auto simp: class_defs)

text \<open>A decimal numeral for a 64-bit value, leading zeros allowed.\<close>

definition decimal :: "string \<Rightarrow> u64 \<Rightarrow> bool" where
  "decimal d n \<longleftrightarrow> d \<noteq> [] \<and> list_all is_digit d \<and> digits_val 0 d = unat n"

lemma decimal_show_u64 [simp]: "decimal (show_u64 n) n"
  by (simp add: decimal_def) (simp add: show_u64_def)

lemma parse_u64_decimal:
  "d \<noteq> [] \<Longrightarrow> list_all is_digit d \<Longrightarrow> parse_u64 d = Inr n \<longleftrightarrow> decimal d n"
  by (simp add: parse_u64_digits_iff decimal_def)

fun level_name :: "level \<Rightarrow> string" where
  "level_name (Alpha _) = ''alpha''"
| "level_name (Beta _) = ''beta''"

fun level_num :: "level \<Rightarrow> u64" where
  "level_num (Alpha n) = n"
| "level_num (Beta n) = n"

lemma level_fmt_eq: "level_fmt l = level_name l @ show_u64 (level_num l)"
  by (cases l) (simp_all add: level_fmt_def)

lemma level_captures_iff:
  "level_captures s = Some (a, b) \<longleftrightarrow>
     s = a @ b \<and> a \<noteq> [] \<and> list_all is_lower a \<and> b \<noteq> [] \<and> list_all is_digit b"
proof
  assume "level_captures s = Some (a, b)"
  then show "s = a @ b \<and> a \<noteq> [] \<and> list_all is_lower a \<and> b \<noteq> [] \<and> list_all is_digit b"
    unfolding level_captures_def by (auto dest!: captures2_Some simp: is_match_iff lang_Plus_Class)
next
  assume *: "s = a @ b \<and> a \<noteq> [] \<and> list_all is_lower a \<and> b \<noteq> [] \<and> list_all is_digit b"
  then have "\<not> is_lower (hd b)" by (cases b) (auto dest: digit_not_lower)
  with * show "level_captures s = Some (a, b)"
    unfolding level_captures_def
    by (auto intro!: captures2_Plus_Class simp: is_match_iff lang_Plus_Class)
qed

lemma level_from_str_iff:
  "level_from_str s = Inr l \<longleftrightarrow> (\<exists>d. decimal d (level_num l) \<and> s = level_name l @ d)"
proof
  assume "level_from_str s = Inr l"
  then obtain a b where c: "level_captures s = Some (a, b)"
    by (auto simp: level_from_str_def split: option.splits)
  with \<open>level_from_str s = Inr l\<close> show "\<exists>d. decimal d (level_num l) \<and> s = level_name l @ d"
    by (auto simp: level_from_str_def level_captures_iff parse_u64_decimal split: if_splits)
next
  assume "\<exists>d. decimal d (level_num l) \<and> s = level_name l @ d"
  then obtain d where d: "decimal d (level_num l)" and s: "s = level_name l @ d" by blast
  have "level_captures s = Some (level_name l, d)"
    unfolding level_captures_iff using d s by (cases l) (simp_all add: decimal_def class_defs)
  with d show "level_from_str s = Inr l"
    by (cases l) (auto simp: level_from_str_def parse_u64_decimal decimal_def)
qed

interpretation level_codec: display_from_str "\<lambda>_. True" level_fmt level_from_str
  by unfold_locales (auto simp: level_from_str_iff level_fmt_eq)

lemma lang_lower_digit_label:
  "s \<in> lang (bounded_label_regex n lower_digit_class lower_digit_dash_class) \<longleftrightarrow>
     2 \<le> length s \<and> length s \<le> n + 2 \<and> (is_lower (hd s) \<or> is_digit (hd s)) \<and>
     (is_lower (last s) \<or> is_digit (last s)) \<and> list_all (\<lambda>c. is_lower c \<or> is_digit c \<or> c = CHR ''-'') s"
  by (subst lang_bounded_label_regex) (auto simp: list_all_iff)

lemma lang_version_level:
  "s \<in> lang version_level_regex \<longleftrightarrow> 2 \<le> length s \<and> length s \<le> 62 \<and>
     (is_lower (hd s) \<or> is_digit (hd s)) \<and> (is_lower (last s) \<or> is_digit (last s)) \<and>
     list_all (\<lambda>c. is_lower c \<or> is_digit c \<or> c = CHR ''-'') s"
  unfolding version_level_regex_def by (subst lang_lower_digit_label) simp

lemma level_text_version_level:
  assumes "decimal d (level_num l)" "length (level_name l @ d) \<le> 62"
  shows "level_name l @ d \<in> lang version_level_regex"
proof -
  have "is_digit (last d)" and "d \<noteq> []"
    using assms(1) by (auto simp: decimal_def list_all_iff)
  moreover have "is_lower c" if "c \<in> set (level_name l)" for c
    using that by (cases l) (auto simp: class_defs)
  moreover have "level_name l \<noteq> []" "2 \<le> length (level_name l)" by (cases l; simp)+
  ultimately show ?thesis
    using assms by (auto simp: lang_version_level list_all_iff decimal_def)
qed

lemma version_captures_iff:
  "version_captures s = Some (m, l) \<longleftrightarrow>
     (\<exists>b. s = ''v'' @ m @ b \<and> l = (if b = [] then None else Some b) \<and>
          captures2 (Plus (Class digit_class)) (Opt version_level_regex) (m @ b) = Some (m, b))"
proof
  assume "version_captures s = Some (m, l)"
  then obtain rest b where s: "s = CHR ''v'' # rest" and l: "l = (if b = [] then None else Some b)"
    and cap: "captures2 (Plus (Class digit_class)) (Opt version_level_regex) rest = Some (m, b)"
    by (auto simp: version_captures_def split: list.splits if_splits)
  moreover from captures2_Some [OF cap] have "rest = m @ b" by simp
  ultimately show "\<exists>b. s = ''v'' @ m @ b \<and> l = (if b = [] then None else Some b) \<and>
      captures2 (Plus (Class digit_class)) (Opt version_level_regex) (m @ b) = Some (m, b)"
    by (intro exI [where x = b]) simp
next
  assume "\<exists>b. s = ''v'' @ m @ b \<and> l = (if b = [] then None else Some b) \<and>
      captures2 (Plus (Class digit_class)) (Opt version_level_regex) (m @ b) = Some (m, b)"
  then show "version_captures s = Some (m, l)"
    by (elim exE conjE) (simp add: version_captures_def)
qed

lemma version_from_str_iff:
  "version_from_str s = Inr v \<longleftrightarrow>
     (\<exists>d. decimal d (major v) \<and>
        (case level v of
           None \<Rightarrow> s = ''v'' @ d
         | Some l \<Rightarrow> \<exists>e. decimal e (level_num l) \<and> length (level_name l @ e) \<le> 62 \<and>
                         s = ''v'' @ d @ level_name l @ e))"
  (is "_ \<longleftrightarrow> ?spec")
proof
  assume v: "version_from_str s = Inr v"
  then obtain m b where s: "s = ''v'' @ m @ b"
    and c: "captures2 (Plus (Class digit_class)) (Opt version_level_regex) (m @ b) = Some (m, b)"
    and cap: "version_captures s = Some (m, if b = [] then None else Some b)"
    by (auto simp: version_from_str_def version_captures_iff split: option.splits)
  from captures2_Some [OF c] have m: "m \<noteq> []" "list_all is_digit m"
    and b: "b = [] \<or> b \<in> lang version_level_regex"
    by (auto simp: is_match_iff lang_Plus_Class)
  from v cap m have "decimal m (major v)"
    by (auto simp: version_from_str_def parse_u64_decimal split: if_splits)
  with v cap s b show ?spec
    by (auto simp: version_from_str_def level_from_str_iff lang_version_level
        split: if_splits intro!: exI [where x = m])
next
  assume ?spec
  then obtain d b where d: "decimal d (major v)" and s: "s = ''v'' @ d @ b"
    and b: "case level v of None \<Rightarrow> b = []
            | Some l \<Rightarrow> level_from_str b = Inr l \<and> b \<in> lang version_level_regex \<and> b \<noteq> [] \<and> \<not> is_digit (hd b)"
  proof (cases "level v")
    case None
    with \<open>?spec\<close> that [of _ "[]"] show ?thesis by auto
  next
    case (Some l)
    with \<open>?spec\<close> obtain d e where "decimal d (major v)" and e: "decimal e (level_num l)"
      and "length (level_name l @ e) \<le> 62" and "s = ''v'' @ d @ level_name l @ e" by auto
    moreover have "\<not> is_digit (hd (level_name l @ e))" by (cases l) (simp_all add: class_defs)
    moreover have "level_from_str (level_name l @ e) = Inr l" using e by (auto simp: level_from_str_iff)
    moreover have "level_name l \<noteq> []" by (cases l) simp_all
    ultimately show ?thesis
      using that [of d "level_name l @ e"] Some level_text_version_level by auto
  qed
  have "captures2 (Plus (Class digit_class)) (Opt version_level_regex) (d @ b) = Some (d, b)"
    using d b by (intro captures2_Plus_Class)
      (auto simp: decimal_def is_match_iff split: option.splits)
  then have "version_captures s = Some (d, if b = [] then None else Some b)"
    using s by (auto simp: version_captures_iff)
  with d b show "version_from_str s = Inr v"
    by (cases v) (auto simp: version_from_str_def parse_u64_decimal decimal_def split: option.splits)
qed

interpretation version_codec: display_from_str "\<lambda>_. True" version_fmt version_from_str
proof
  fix v :: version
  have "length (level_name l @ show_u64 (level_num l)) \<le> 62" for l
    using length_show_u64 [of "level_num l"] by (cases l) simp_all
  then show "version_from_str (version_fmt v) = Inr v"
    by (auto simp: version_from_str_iff version_fmt_def level_fmt_eq split: option.splits
        intro!: exI [where x = "show_u64 _"])
qed

subsection \<open>Groups and API versions\<close>

definition wf_group :: "group \<Rightarrow> bool" where
  "wf_group g \<longleftrightarrow> group_from_str (group_str g) = Inr g"

definition wf_api_version :: "api_version \<Rightarrow> bool" where
  "wf_api_version v \<longleftrightarrow> pred_option wf_group (api_group v)"

lemma group_from_str_Inr:
  "group_from_str s = Inr g \<longleftrightarrow>
     g = Group s \<and> s \<noteq> [] \<and> length s \<le> MAX_GROUP_LENGTH \<and> is_match API_GROUP_REGEX s"
  by (auto simp: group_from_str_def)

interpretation group_codec: normal_form wf_group group_fmt group_from_str
  by unfold_locales (auto simp: wf_group_def group_fmt_def group_from_str_Inr)

definition group_char :: "char \<Rightarrow> bool" where
  "group_char c \<longleftrightarrow> is_lower c \<or> is_digit c \<or> c = CHR ''-'' \<or> c = CHR ''.''"

lemma group_regex_chars: "is_match API_GROUP_REGEX s \<Longrightarrow> list_all group_char s"
  unfolding is_match_iff API_GROUP_REGEX_def
proof (erule lang_Plus_all)
  fix u
  assume "u \<in> lang (Seq (bounded_label_regex 61 lower_digit_class lower_digit_dash_class) (Opt (Lit (CHR ''.''))))"
  then obtain a b where "u = a @ b" "a \<in> lang (bounded_label_regex 61 lower_digit_class lower_digit_dash_class)"
    "b = [] \<or> b = ''.''" by auto
  then show "list_all group_char u"
    by (auto simp: lang_lower_digit_label list_all_iff group_char_def)
qed

lemma wf_group_no_slash: "wf_group g \<Longrightarrow> CHR ''/'' \<notin> set (group_str g)"
proof
  assume "wf_group g" "CHR ''/'' \<in> set (group_str g)"
  then have "group_char (CHR ''/'')"
    using group_regex_chars [of "group_str g"] by (auto simp: wf_group_def group_from_str_Inr list_all_iff)
  then show False by (simp add: group_char_def class_defs)
qed

lemma version_fmt_no_slash: "CHR ''/'' \<notin> set (version_fmt v)"
proof -
  have "CHR ''/'' \<notin> set (show_u64 n)" for n
    using show_u64_props(2) [of n] by (auto simp: list_all_iff class_defs)
  moreover have "CHR ''/'' \<notin> set (level_name l)" for l by (cases l) auto
  ultimately show ?thesis by (auto simp: version_fmt_def level_fmt_eq split: option.splits)
qed

text \<open>A label of two to 63 characters, and what the pattern makes of a sequence of them.\<close>

definition dns_label2 :: "string \<Rightarrow> bool" where
  "dns_label2 s \<longleftrightarrow> 2 \<le> length s \<and> length s \<le> 63 \<and> (is_lower (hd s) \<or> is_digit (hd s)) \<and>
     (is_lower (last s) \<or> is_digit (last s)) \<and> list_all (\<lambda>c. is_lower c \<or> is_digit c \<or> c = CHR ''-'') s"

definition group_part_regex :: regex where
  "group_part_regex =
     Seq (bounded_label_regex 61 lower_digit_class lower_digit_dash_class) (Opt (Lit (CHR ''.'')))"

fun group_part :: "string \<times> bool \<Rightarrow> string" where
  "group_part (l, dot) = l @ (if dot then ''.'' else [])"

lemma group_regex_iff: "is_match API_GROUP_REGEX s \<longleftrightarrow> s \<in> lang (Plus group_part_regex)"
  by (simp only: is_match_iff API_GROUP_REGEX_def group_part_regex_def)

lemma group_part_iff: "u \<in> lang group_part_regex \<longleftrightarrow> (\<exists>p. dns_label2 (fst p) \<and> u = group_part p)"
  by (auto simp: group_part_regex_def lang_lower_digit_label dns_label2_def)

text \<open>
  A group is accepted exactly when it is a non-empty sequence of such labels, each with or without
  a dot after it.
\<close>

lemma iter_group_parts:
  "s \<in> iter_lang (lang group_part_regex) \<longleftrightarrow>
     (\<exists>ps. (\<forall>p\<in>set ps. dns_label2 (fst p)) \<and> s = concat (map group_part ps))"
proof
  show "s \<in> iter_lang (lang group_part_regex) \<Longrightarrow>
    \<exists>ps. (\<forall>p\<in>set ps. dns_label2 (fst p)) \<and> s = concat (map group_part ps)"
  proof (induction rule: iter_lang.induct)
    case iter_none
    show ?case by (rule exI [where x = "[]"]) simp
  next
    case (iter_more u v)
    then obtain p ps where "dns_label2 (fst p)" "u = group_part p"
      "\<forall>p\<in>set ps. dns_label2 (fst p)" "v = concat (map group_part ps)"
      by (auto simp: group_part_iff)
    then show ?case by (intro exI [where x = "p # ps"]) simp
  qed
next
  have *: "\<forall>p\<in>set ps. dns_label2 (fst p) \<Longrightarrow> concat (map group_part ps) \<in> iter_lang (lang group_part_regex)" for ps
  proof (induction ps)
    case Nil
    then show ?case by (simp add: iter_none)
  next
    case (Cons p ps)
    have "group_part p \<in> lang group_part_regex"
      unfolding group_part_iff by (rule exI [where x = p]) (use Cons.prems in simp)
    with Cons show ?case by (simp add: iter_more)
  qed
  assume "\<exists>ps. (\<forall>p\<in>set ps. dns_label2 (fst p)) \<and> s = concat (map group_part ps)"
  with * show "s \<in> iter_lang (lang group_part_regex)" by blast
qed

lemma group_regex_parts:
  "is_match API_GROUP_REGEX s \<longleftrightarrow>
     (\<exists>p ps. (\<forall>p\<in>set (p # ps). dns_label2 (fst p)) \<and> s = concat (map group_part (p # ps)))"
proof -
  have "(\<exists>u v. s = u @ v \<and> (\<exists>p. dns_label2 (fst p) \<and> u = group_part p) \<and>
         (\<exists>ps. (\<forall>p\<in>set ps. dns_label2 (fst p)) \<and> v = concat (map group_part ps))) \<longleftrightarrow>
     (\<exists>p ps. (\<forall>p\<in>set (p # ps). dns_label2 (fst p)) \<and> s = concat (map group_part (p # ps)))"
    by (simp del: group_part.simps split_paired_Ex) blast
  then show ?thesis by (simp only: group_regex_iff lang_Plus group_part_iff iter_group_parts)
qed

lemma group_accepts_labels:
  "ps \<noteq> [] \<Longrightarrow> \<forall>p\<in>set ps. dns_label2 (fst p) \<Longrightarrow> is_match API_GROUP_REGEX (concat (map group_part ps))"
  unfolding group_regex_parts by (cases ps) blast+

lemma group_accepts_label: "dns_label2 l \<Longrightarrow> is_match API_GROUP_REGEX l"
  using group_accepts_labels [of "[(l, False)]"] by simp

lemma group_first_label:
  "is_match API_GROUP_REGEX s \<Longrightarrow> 2 \<le> length s \<and> list_all (\<lambda>c. is_lower c \<or> is_digit c \<or> c = CHR ''-'') (take 2 s)"
proof -
  assume "is_match API_GROUP_REGEX s"
  then obtain l v where "dns_label2 l" and s: "s = l @ v"
    unfolding group_regex_parts by auto
  then have "2 \<le> length l" and l: "\<forall>c\<in>set l. is_lower c \<or> is_digit c \<or> c = CHR ''-''"
    by (auto simp: dns_label2_def list_all_iff)
  moreover from this s have "take 2 s = take 2 l" by simp
  ultimately show ?thesis
    using s l by (simp add: list_all_iff) (meson in_set_takeD)
qed

interpretation api_version_codec: normal_form wf_api_version api_version_fmt api_version_from_str
proof
  fix v
  assume wf: "wf_api_version v"
  show "api_version_from_str (api_version_fmt v) = Inr v"
  proof (cases "api_group v")
    case None
    have "split_once (CHR ''/'') (version_fmt (api_ver v)) = None"
      using version_fmt_no_slash by (simp only: split_once_None not_False_eq_True)
    with None show ?thesis
      by (cases v) (simp add: api_version_from_str_def api_version_fmt_def version_codec.from_str_fmt
          del: split_once_None)
  next
    case (Some g)
    with wf have g: "wf_group g" by (simp add: wf_api_version_def)
    then have "split_once (CHR ''/'') (group_str g @ CHR ''/'' # version_fmt (api_ver v)) =
        Some (group_str g, version_fmt (api_ver v))"
      by (intro split_once_append wf_group_no_slash)
    with Some g show ?thesis
      by (cases v) (simp add: api_version_from_str_def api_version_fmt_def group_fmt_def
          version_codec.from_str_fmt wf_group_def)
  qed
next
  fix s v
  assume "api_version_from_str s = Inr v"
  then show "wf_api_version v"
    by (auto simp: api_version_from_str_def wf_api_version_def wf_group_def group_from_str_Inr
        split: option.splits)
qed

subsection \<open>Properties\<close>

text \<open>
  \<open>Version::from_str\<close> succeeds on exactly the strings \<open>v<major>\<close> and \<open>v<major><level><number>\<close>
  whose numerals fit 64 bits and whose level part has at most 62 characters, and it returns the
  values those numerals denote.
\<close>

theorem version_from_str_exact:
  "version_from_str s = Inr v \<longleftrightarrow>
     (\<exists>d. decimal d (major v) \<and>
        (case level v of
           None \<Rightarrow> s = ''v'' @ d
         | Some l \<Rightarrow> \<exists>e. decimal e (level_num l) \<and> length (level_name l @ e) \<le> 62 \<and>
                         s = ''v'' @ d @ level_name l @ e))"
  by (rule version_from_str_iff)

text \<open>
  The reference order on versions: first the major number, then the stability (alpha, beta,
  stable), then the number of the level.
\<close>

definition version_key :: "version \<Rightarrow> nat \<times> nat \<times> nat" where
  "version_key v =
     (unat (major v),
      case level v of Some (Alpha n) \<Rightarrow> (0, unat n) | Some (Beta n) \<Rightarrow> (1, unat n) | None \<Rightarrow> (2, 0))"

text \<open>
  Comparing two versions is comparing major number, then stability (alpha before beta before
  stable), then level number; in particular \<open>v1alpha2 < v1beta1 < v1 < v2alpha1\<close>.
\<close>

theorem version_cmp_reference: "version_cmp v w = ord_cmp (version_key v) (version_key w)"
  by (cases v; cases w)
    (auto simp: version_cmp_def version_key_def level_cmp_def ord_cmp_def word_less_nat_alt
      word_unat_eq_iff split: option.splits level.splits)

text \<open>
  An API version that \<open>ApiVersion::from_str\<close> produced is printed as a string that parses to the
  same API version, and it compares with another one exactly when the groups are equal, by the
  order of the versions.
\<close>

theorem api_version_roundtrip_order:
  assumes "api_version_from_str s = Inr v"
  shows "api_version_from_str (api_version_fmt v) = Inr v \<and>
    api_version_partial_cmp v w =
      (if api_group v = api_group w then Some (version_cmp (api_ver v) (api_ver w)) else None)"
proof
  show "api_version_from_str (api_version_fmt v) = Inr v"
    using assms by (rule api_version_codec.normalise)
  have "map_option group_str a = map_option group_str b \<longleftrightarrow> a = b" for a b
    by (cases a; cases b) (auto intro: group.expand)
  then show "api_version_partial_cmp v w =
      (if api_group v = api_group w then Some (version_cmp (api_ver v) (api_ver w)) else None)"
    by (auto simp: api_version_partial_cmp_def split: ordering.splits)
qed

theorem api_version_roundtrip_order_witness:
  "api_version_from_str ''extensions/v1beta1'' =
     Inr (ApiVersion (Some (Group ''extensions'')) (Version 1 (Some (Beta 1)))) \<and>
   api_version_from_str (api_version_fmt (ApiVersion (Some (Group ''extensions'')) (Version 1 (Some (Beta 1))))) =
     Inr (ApiVersion (Some (Group ''extensions'')) (Version 1 (Some (Beta 1))))"
proof -
  have "group_from_str ''extensions'' = Inr (Group ''extensions'')"
    using group_accepts_label [of "''extensions''"]
    by (simp add: group_from_str_Inr MAX_GROUP_LENGTH_def dns_label2_def class_defs del: is_match.simps)
  moreover have "version_from_str ''v1beta1'' = Inr (Version 1 (Some (Beta 1)))"
    using version_codec.from_str_fmt [of "Version 1 (Some (Beta 1))"]
    by (simp add: version_fmt_def level_fmt_def show_u64_def show_nat.simps)
  ultimately have h: "api_version_from_str ''extensions/v1beta1'' =
     Inr (ApiVersion (Some (Group ''extensions'')) (Version 1 (Some (Beta 1))))"
    by (simp add: api_version_from_str_def)
  show ?thesis using h api_version_roundtrip_order [OF h] by blast
qed

text \<open>
  \<open>Group::from_str\<close> is not the DNS subdomain check it documents: it rejects the subdomain
  \<open>a.b\<close> (every label needs two characters) and accepts a trailing dot and a label of 70
  characters, which no DNS subdomain has.
\<close>

theorem group_not_dns_subdomain:
  "group_from_str ''a.b'' = Inl Group_InvalidFormat \<and>
   group_from_str ''ab.'' = Inr (Group ''ab.'') \<and>
   group_from_str (replicate 70 (CHR ''a'')) = Inr (Group (replicate 70 (CHR ''a'')))"
proof (intro conjI)
  have "\<not> is_match API_GROUP_REGEX ''a.b''"
    using group_first_label [of "''a.b''"] by (auto simp: class_defs)
  then show "group_from_str ''a.b'' = Inl Group_InvalidFormat"
    by (simp add: group_from_str_def MAX_GROUP_LENGTH_def)
  have "dns_label2 ''ab''" by (simp add: dns_label2_def class_defs)
  then have "is_match API_GROUP_REGEX ''ab.''"
    using group_accepts_labels [of "[(''ab'', True)]"] by simp
  then show "group_from_str ''ab.'' = Inr (Group ''ab.'')"
    by (simp add: group_from_str_Inr MAX_GROUP_LENGTH_def)
  have "dns_label2 (replicate 35 (CHR ''a''))" by (simp add: dns_label2_def class_defs list_all_iff)
  then have "is_match API_GROUP_REGEX (replicate 35 (CHR ''a'') @ replicate 35 (CHR ''a''))"
    using group_accepts_labels [of "[(replicate 35 (CHR ''a''), False), (replicate 35 (CHR ''a''), False)]"]
    by simp
  then show "group_from_str (replicate 70 (CHR ''a'')) = Inr (Group (replicate 70 (CHR ''a'')))"
    by (simp add: group_from_str_Inr MAX_GROUP_LENGTH_def flip: replicate_add)
qed

text \<open>
  The compound assignments \<open>+=\<close> and \<open>-=\<close> on a level leave it as it was, whatever is added,
  while \<open>+\<close> and \<open>-\<close> change its number without changing its stability.
\<close>

theorem level_assign_ops_keep_level:
  "(level_add_assign checks l n = None \<or> level_add_assign checks l n = Some l) \<and>
   (level_sub_assign checks l n = None \<or> level_sub_assign checks l n = Some l) \<and>
   map_option level_num (level_add False l n) = Some (level_num l + n) \<and>
   map_option level_num (level_sub False l n) = Some (level_num l - n) \<and>
   map_option level_name (level_add False l n) = Some (level_name l)"
  by (cases l)
    (auto simp: level_add_assign_def level_sub_assign_def level_add_def level_sub_def add_u64_def sub_u64_def)

end
