(* ===== verification/Validation.thy ===== *)
theory Validation
  imports Regex_Match
begin

section \<open>Name validation (validation.rs)\<close>

text \<open>
  The validators of \<open>stackable-operator/src/validation.rs\<close>: every check of a validator runs and all
  its errors are reported together. Each pattern is proved equal to a description of its strings
  without regular expressions.
\<close>

subsection \<open>Errors\<close>

record regex_error =
  msg :: string
  regex_text :: string
  examples :: "string list"

datatype validation_error =
    RegexMismatch regex_error
  | TooLong nat nat

type_synonym validation_errors = "validation_error list"

text \<open>
  \<open>{:?}\<close> on a string: quoted, with the quote and the backslash escaped. The strings printed here
  are ASCII without control characters, which need no other escape.
\<close>

definition debug_str :: "string \<Rightarrow> string" where
  "debug_str s =
     CHR 0x22 # concat (map (\<lambda>c. if c = CHR 0x22 \<or> c = CHR 0x5C then [CHR 0x5C, c] else [c]) s) @ [CHR 0x22]"

text \<open>\<open>Display for RegexError\<close>: the message, then the examples and the pattern in parentheses.\<close>

fun examples_fmt :: "nat \<Rightarrow> string list \<Rightarrow> string" where
  "examples_fmt i [] = []"
| "examples_fmt i (e # es) =
     (if i = 0 then ''e.g.'' else ''or'') @ '' '' @ debug_str e @ '', '' @ examples_fmt (Suc i) es"

definition regex_error_fmt :: "regex_error \<Rightarrow> string" where
  "regex_error_fmt err =
     msg err @ '' ('' @ examples_fmt 0 (examples err) @
     ''regex used for validation is '' @ debug_str (regex_text err) @ '')''"

fun validation_error_fmt :: "validation_error \<Rightarrow> string" where
  "validation_error_fmt (RegexMismatch err) = regex_error_fmt err"
| "validation_error_fmt (TooLong len max_length) =
     ''input is '' @ show_nat len @ '' bytes long but must be no more than '' @ show_nat max_length"

text \<open>\<open>Display for Errors\<close>: the errors separated by commas.\<close>

fun errors_fmt_from :: "nat \<Rightarrow> validation_errors \<Rightarrow> string" where
  "errors_fmt_from i [] = []"
| "errors_fmt_from i (e # es) =
     (if i = 0 then [] else '', '') @ validation_error_fmt e @ errors_fmt_from (Suc i) es"

definition errors_fmt :: "validation_errors \<Rightarrow> string" where
  "errors_fmt es = errors_fmt_from 0 es"

subsection \<open>Patterns\<close>

definition RFC_1123_LABEL_MAX_LENGTH :: nat where
  "RFC_1123_LABEL_MAX_LENGTH = 63"

definition RFC_1123_SUBDOMAIN_MAX_LENGTH :: nat where
  "RFC_1123_SUBDOMAIN_MAX_LENGTH = 253"

definition DOMAIN_MAX_LENGTH :: nat where
  "DOMAIN_MAX_LENGTH = RFC_1123_SUBDOMAIN_MAX_LENGTH"

definition RFC_1035_LABEL_MAX_LENGTH :: nat where
  "RFC_1035_LABEL_MAX_LENGTH = 63"

definition lower_alnum :: "(char \<times> char) list" where
  "lower_alnum = [(CHR ''a'', CHR ''z''), (CHR ''0'', CHR ''9'')]"

definition dash_lower_alnum :: "(char \<times> char) list" where
  "dash_lower_alnum = [(CHR ''-'', CHR ''-''), (CHR ''a'', CHR ''z''), (CHR ''0'', CHR ''9'')]"

definition alnum :: "(char \<times> char) list" where
  "alnum = [(CHR ''a'', CHR ''z''), (CHR ''A'', CHR ''Z''), (CHR ''0'', CHR ''9'')]"

definition dash_alnum :: "(char \<times> char) list" where
  "dash_alnum = [(CHR ''-'', CHR ''-''), (CHR ''a'', CHR ''z''), (CHR ''A'', CHR ''Z''), (CHR ''0'', CHR ''9'')]"

text \<open>\<open>[a-z0-9]([-a-z0-9]*[a-z0-9])?\<close>\<close>

definition LOWERCASE_RFC_1123_LABEL_FMT :: regex where
  "LOWERCASE_RFC_1123_LABEL_FMT = label_regex lower_alnum dash_lower_alnum lower_alnum"

text \<open>\<open>[a-zA-Z0-9]([-a-zA-Z0-9]*[a-zA-Z0-9])?\<close>\<close>

definition RFC_1123_LABEL_FMT :: regex where
  "RFC_1123_LABEL_FMT = label_regex alnum dash_alnum alnum"

text \<open>A label, then any number of labels with a dot before each: \<open>L(\.L)*\<close>\<close>

definition dotted :: "regex \<Rightarrow> regex" where
  "dotted r = Seq r (Star (Seq (Lit (CHR ''.'')) r))"

definition LOWERCASE_RFC_1123_SUBDOMAIN_FMT :: regex where
  "LOWERCASE_RFC_1123_SUBDOMAIN_FMT = dotted LOWERCASE_RFC_1123_LABEL_FMT"

text \<open>\<open>L(\.L)*\.?\<close>\<close>

definition DOMAIN_FMT :: regex where
  "DOMAIN_FMT = Seq (dotted RFC_1123_LABEL_FMT) (Opt (Lit (CHR ''.'')))"

text \<open>\<open>[a-z]([-a-z0-9]*[a-z0-9])?\<close>\<close>

definition LOWERCASE_RFC_1035_LABEL_FMT :: regex where
  "LOWERCASE_RFC_1035_LABEL_FMT =
     label_regex [(CHR ''a'', CHR ''z'')] dash_lower_alnum lower_alnum"

text \<open>\<open>[-.a-zA-Z0-9]+\<close>\<close>

definition KERBEROS_REALM_NAME_FMT :: regex where
  "KERBEROS_REALM_NAME_FMT = Plus (Class ([(CHR ''-'', CHR ''-''), (CHR ''.'', CHR ''.'')] @ alnum))"

subsection \<open>Validators\<close>

definition validate_str_length :: "string \<Rightarrow> nat \<Rightarrow> (unit, validation_error) result" where
  "validate_str_length s max_length =
     (if length s > max_length then Inl (TooLong (length s) max_length) else Inr ())"

definition validate_str_regex ::
  "string \<Rightarrow> regex \<Rightarrow> regex_error \<Rightarrow> (unit, validation_error) result" where
  "validate_str_regex s r err = (if is_match r s then Inr () else Inl (RegexMismatch err))"

fun filter_map_err :: "('a, 'e) result list \<Rightarrow> 'e list" where
  "filter_map_err [] = []"
| "filter_map_err (Inl e # rs) = e # filter_map_err rs"
| "filter_map_err (Inr _ # rs) = filter_map_err rs"

definition validate_all :: "(unit, validation_error) result list \<Rightarrow> (unit, validation_errors) result" where
  "validate_all validations =
     (let errors = filter_map_err validations in if errors = [] then Inr () else Inl errors)"

text \<open>
  The messages and pattern texts of the errors. \<open>validate_str_regex\<close> strips the anchors from the
  compiled pattern, which leaves the \<open>_FMT\<close> string it was built from.
\<close>

definition dotted_text :: "string \<Rightarrow> string" where
  "dotted_text l = l @ ''('' @ [CHR 0x5C] @ ''.'' @ l @ '')*''"

definition domain_error :: regex_error where
  "domain_error =
     \<lparr>msg = ''a domain must consist of alphanumeric characters, '-' or '.', and must start with an alphanumeric character and end with an alphanumeric character or '.'' @ [CHR 0x27],
      regex_text = dotted_text ''[a-zA-Z0-9]([-a-zA-Z0-9]*[a-zA-Z0-9])?'' @ [CHR 0x5C] @ ''.?'',
      examples = [''example.com'', ''example.com.'', ''cluster.local'', ''cluster.local.'']\<rparr>"

definition rfc_1123_label_error :: regex_error where
  "rfc_1123_label_error =
     \<lparr>msg = ''a lowercase RFC 1123 label must consist of lower case alphanumeric characters or '-', and must start and end with an alphanumeric character'',
      regex_text = ''[a-z0-9]([-a-z0-9]*[a-z0-9])?'',
      examples = [''example-label'', ''1-label-1'']\<rparr>"

definition rfc_1123_subdomain_error :: regex_error where
  "rfc_1123_subdomain_error =
     \<lparr>msg = ''a lowercase RFC 1123 subdomain must consist of lower case alphanumeric characters, '-' or '.', and must start and end with an alphanumeric character'',
      regex_text = dotted_text ''[a-z0-9]([-a-z0-9]*[a-z0-9])?'',
      examples = [''example.com'']\<rparr>"

definition rfc_1035_label_error :: regex_error where
  "rfc_1035_label_error =
     \<lparr>msg = ''a DNS-1035 label must consist of lower case alphanumeric characters or '-', start with an alphabetic character, and end with an alphanumeric character'',
      regex_text = ''[a-z]([-a-z0-9]*[a-z0-9])?'',
      examples = [''my-name'', ''abc-123'']\<rparr>"

definition kerberos_realm_error :: regex_error where
  "kerberos_realm_error =
     \<lparr>msg = ''Kerberos realm name must only contain alphanumeric characters, '-', and '.'' @ [CHR 0x27],
      regex_text = ''[-.a-zA-Z0-9]+'',
      examples = [''EXAMPLE.COM'']\<rparr>"

definition is_domain :: "string \<Rightarrow> (unit, validation_errors) result" where
  "is_domain s =
     validate_all [validate_str_length s DOMAIN_MAX_LENGTH,
                   validate_str_regex s DOMAIN_FMT domain_error]"

definition is_lowercase_rfc_1123_label :: "string \<Rightarrow> (unit, validation_errors) result" where
  "is_lowercase_rfc_1123_label s =
     validate_all [validate_str_length s RFC_1123_LABEL_MAX_LENGTH,
                   validate_str_regex s LOWERCASE_RFC_1123_LABEL_FMT rfc_1123_label_error]"

definition is_lowercase_rfc_1123_subdomain :: "string \<Rightarrow> (unit, validation_errors) result" where
  "is_lowercase_rfc_1123_subdomain s =
     validate_all [validate_str_length s RFC_1123_SUBDOMAIN_MAX_LENGTH,
                   validate_str_regex s LOWERCASE_RFC_1123_SUBDOMAIN_FMT rfc_1123_subdomain_error]"

definition is_lowercase_rfc_1035_label :: "string \<Rightarrow> (unit, validation_errors) result" where
  "is_lowercase_rfc_1035_label s =
     validate_all [validate_str_length s RFC_1035_LABEL_MAX_LENGTH,
                   validate_str_regex s LOWERCASE_RFC_1035_LABEL_FMT rfc_1035_label_error]"

definition is_kerberos_realm_name :: "string \<Rightarrow> (unit, validation_errors) result" where
  "is_kerberos_realm_name s =
     validate_all [validate_str_regex s KERBEROS_REALM_NAME_FMT kerberos_realm_error]"

definition mask_trailing_dash :: "string \<Rightarrow> string" where
  "mask_trailing_dash name =
     (if name \<noteq> [] \<and> last name = CHR ''-'' then butlast name @ ''a'' else name)"

definition name_is_dns_label :: "string \<Rightarrow> bool \<Rightarrow> (unit, validation_errors) result" where
  "name_is_dns_label name pre =
     is_lowercase_rfc_1035_label (if pre then mask_trailing_dash name else name)"

definition validate_namespace_name :: "string \<Rightarrow> bool \<Rightarrow> (unit, validation_errors) result" where
  "validate_namespace_name name pre = name_is_dns_label name pre"

subsection \<open>The patterns without regular expressions\<close>

definition lower_alnum_char :: "char \<Rightarrow> bool" where
  "lower_alnum_char c \<longleftrightarrow> is_lower c \<or> is_digit c"

definition alnum_char :: "char \<Rightarrow> bool" where
  "alnum_char c \<longleftrightarrow> is_alpha c \<or> is_digit c"

text \<open>A label over a class: not empty, only class characters and dashes, no dash at either end.\<close>

definition label_over :: "(char \<Rightarrow> bool) \<Rightarrow> string \<Rightarrow> bool" where
  "label_over P s \<longleftrightarrow> s \<noteq> [] \<and> list_all (\<lambda>c. P c \<or> c = CHR ''-'') s \<and> P (hd s) \<and> P (last s)"

lemma validation_class_simps:
  "in_class lower_alnum c \<longleftrightarrow> lower_alnum_char c"
  "in_class dash_lower_alnum c \<longleftrightarrow> lower_alnum_char c \<or> c = CHR ''-''"
  "in_class alnum c \<longleftrightarrow> alnum_char c"
  "in_class dash_alnum c \<longleftrightarrow> alnum_char c \<or> c = CHR ''-''"
  "in_class [(CHR ''a'', CHR ''z'')] c \<longleftrightarrow> is_lower c"
  by (auto simp: in_class_def lower_alnum_def dash_lower_alnum_def alnum_def dash_alnum_def
      lower_alnum_char_def alnum_char_def is_alpha_def is_lower_def is_upper_def is_digit_def)

lemma label_regex_iff:
  assumes "\<And>c. in_class F c \<Longrightarrow> in_class L c" "\<And>c. in_class L c \<longleftrightarrow> P c"
    "\<And>c. in_class B c \<longleftrightarrow> P c \<or> c = CHR ''-''"
  shows "is_match (label_regex F B L) s \<longleftrightarrow> label_over P s \<and> in_class F (hd s)"
proof (cases s)
  case (Cons a t)
  have "s \<in> lang (label_regex F B L) \<longleftrightarrow>
    s \<noteq> [] \<and> in_class F (hd s) \<and> list_all (in_class B) (tl s) \<and> (tl s \<noteq> [] \<longrightarrow> in_class L (last s))"
    by (rule lang_label_regex) (simp add: assms)
  with Cons assms show ?thesis by (auto simp: is_match_iff label_over_def list_all_iff)
next
  case Nil
  have "[] \<notin> lang (label_regex F B L)" by (subst lang_label_regex) (simp_all add: assms)
  with Nil show ?thesis by (simp add: label_over_def is_match_iff del: is_match.simps)
qed

lemma lowercase_label_iff: "is_match LOWERCASE_RFC_1123_LABEL_FMT s \<longleftrightarrow> label_over lower_alnum_char s"
  unfolding LOWERCASE_RFC_1123_LABEL_FMT_def
  by (subst label_regex_iff [where P = lower_alnum_char]) (auto simp: validation_class_simps label_over_def)

lemma label_iff: "is_match RFC_1123_LABEL_FMT s \<longleftrightarrow> label_over alnum_char s"
  unfolding RFC_1123_LABEL_FMT_def
  by (subst label_regex_iff [where P = alnum_char]) (auto simp: validation_class_simps label_over_def)

lemma rfc1035_label_iff:
  "is_match LOWERCASE_RFC_1035_LABEL_FMT s \<longleftrightarrow> label_over lower_alnum_char s \<and> is_lower (hd s)"
  unfolding LOWERCASE_RFC_1035_LABEL_FMT_def
  by (subst label_regex_iff [where P = lower_alnum_char])
    (auto simp: validation_class_simps lower_alnum_char_def)

lemma kerberos_iff:
  "is_match KERBEROS_REALM_NAME_FMT s \<longleftrightarrow>
     s \<noteq> [] \<and> list_all (\<lambda>c. alnum_char c \<or> c = CHR ''-'' \<or> c = CHR ''.'') s"
proof -
  have "in_class ([(CHR ''-'', CHR ''-''), (CHR ''.'', CHR ''.'')] @ alnum) c \<longleftrightarrow>
      alnum_char c \<or> c = CHR ''-'' \<or> c = CHR ''.''" for c
    by (auto simp: in_class_def alnum_def alnum_char_def is_alpha_def is_lower_def is_upper_def is_digit_def)
  then show ?thesis
    by (simp add: KERBEROS_REALM_NAME_FMT_def is_match_iff lang_Plus_Class list_all_iff del: is_match.simps append_Cons)
qed

text \<open>Dotted sequences are what splitting at the dots makes of them.\<close>

lemma iter_dotted:
  assumes "\<And>w. w \<in> lang r \<Longrightarrow> CHR ''.'' \<notin> set w"
  shows "t \<in> iter_lang (lang (Seq (Lit (CHR ''.'')) r)) \<longleftrightarrow>
    (\<exists>ws. set ws \<subseteq> lang r \<and> t = concat (map (\<lambda>w. CHR ''.'' # w) ws))"
proof
  show "t \<in> iter_lang (lang (Seq (Lit (CHR ''.'')) r)) \<Longrightarrow>
    \<exists>ws. set ws \<subseteq> lang r \<and> t = concat (map (\<lambda>w. CHR ''.'' # w) ws)"
  proof (induction rule: iter_lang.induct)
    case iter_none
    show ?case by (rule exI [where x = "[]"]) simp
  next
    case (iter_more u v)
    then obtain w ws where "w \<in> lang r" "u = CHR ''.'' # w" "set ws \<subseteq> lang r"
      "v = concat (map (\<lambda>w. CHR ''.'' # w) ws)" by auto
    then show ?case by (intro exI [where x = "w # ws"]) simp
  qed
next
  have *: "set ws \<subseteq> lang r \<Longrightarrow>
    concat (map (\<lambda>w. CHR ''.'' # w) ws) \<in> iter_lang (lang (Seq (Lit (CHR ''.'')) r))" for ws
  proof (induction ws)
    case Nil
    then show ?case by (simp add: iter_none)
  next
    case (Cons w ws)
    have "CHR ''.'' # w \<in> lang (Seq (Lit (CHR ''.'')) r)"
      using Cons.prems by simp
    from iter_more [OF this] Cons show ?case by simp
  qed
  assume "\<exists>ws. set ws \<subseteq> lang r \<and> t = concat (map (\<lambda>w. CHR ''.'' # w) ws)"
  with * show "t \<in> iter_lang (lang (Seq (Lit (CHR ''.'')) r))" by blast
qed

lemma split_dotted:
  "\<forall>w\<in>set (v # ws). CHR ''.'' \<notin> set w \<Longrightarrow>
   split_char (CHR ''.'') (v @ concat (map (\<lambda>w. CHR ''.'' # w) ws)) = v # ws"
  by (induction ws arbitrary: v) auto

lemma dotted_join: "v @ concat (map (\<lambda>w. CHR ''.'' # w) ws) = join ''.'' (v # ws)"
proof (induction ws arbitrary: v)
  case (Cons w ws)
  from Cons [of w] show ?case by simp
qed simp

lemma dotted_iff:
  assumes "\<And>w. is_match r w \<Longrightarrow> CHR ''.'' \<notin> set w"
  shows "is_match (dotted r) s \<longleftrightarrow> list_all (is_match r) (split_char (CHR ''.'') s)"
proof -
  have "s \<in> lang (dotted r) \<longleftrightarrow>
      (\<exists>v ws. set (v # ws) \<subseteq> lang r \<and> s = v @ concat (map (\<lambda>w. CHR ''.'' # w) ws))"
    using iter_dotted [of r] assms by (auto simp: dotted_def is_match_iff simp del: lang_Lit)
  also have "\<dots> \<longleftrightarrow> set (split_char (CHR ''.'') s) \<subseteq> lang r"
  proof
    assume "\<exists>v ws. set (v # ws) \<subseteq> lang r \<and> s = v @ concat (map (\<lambda>w. CHR ''.'' # w) ws)"
    then obtain v ws where *: "set (v # ws) \<subseteq> lang r" "s = v @ concat (map (\<lambda>w. CHR ''.'' # w) ws)"
      by blast
    then have "split_char (CHR ''.'') s = v # ws"
      using split_dotted [of v ws] assms by (auto simp: is_match_iff)
    with * show "set (split_char (CHR ''.'') s) \<subseteq> lang r" by simp
  next
    assume *: "set (split_char (CHR ''.'') s) \<subseteq> lang r"
    obtain v ws where "split_char (CHR ''.'') s = v # ws" by (cases "split_char (CHR ''.'') s") auto
    moreover from this have "s = v @ concat (map (\<lambda>w. CHR ''.'' # w) ws)"
      using join_split_char [of "CHR ''.''" s] by (simp add: dotted_join)
    ultimately show "\<exists>v ws. set (v # ws) \<subseteq> lang r \<and> s = v @ concat (map (\<lambda>w. CHR ''.'' # w) ws)"
      using * by auto
  qed
  finally show ?thesis by (auto simp: is_match_iff list_all_iff)
qed

lemma label_over_no_dot: "label_over P s \<Longrightarrow> \<not> P (CHR ''.'') \<Longrightarrow> CHR ''.'' \<notin> set s"
  by (auto simp: label_over_def list_all_iff)

lemma no_dot_chars: "\<not> lower_alnum_char (CHR ''.'')" "\<not> alnum_char (CHR ''.'')"
  by (simp_all add: lower_alnum_char_def alnum_char_def class_defs)

lemma subdomain_iff:
  "is_match LOWERCASE_RFC_1123_SUBDOMAIN_FMT s \<longleftrightarrow>
     list_all (label_over lower_alnum_char) (split_char (CHR ''.'') s)"
  unfolding LOWERCASE_RFC_1123_SUBDOMAIN_FMT_def
  by (subst dotted_iff) (auto simp: lowercase_label_iff list_all_iff no_dot_chars dest: label_over_no_dot)

lemma dotted_label_iff:
  "is_match (dotted RFC_1123_LABEL_FMT) s \<longleftrightarrow> list_all (label_over alnum_char) (split_char (CHR ''.'') s)"
  by (subst dotted_iff) (auto simp: label_iff list_all_iff no_dot_chars dest: label_over_no_dot)

lemma domain_iff:
  "is_match DOMAIN_FMT s \<longleftrightarrow>
     list_all (label_over alnum_char)
       (split_char (CHR ''.'') (if s \<noteq> [] \<and> last s = CHR ''.'' then butlast s else s))"
proof -
  have "is_match DOMAIN_FMT s \<longleftrightarrow>
      is_match (dotted RFC_1123_LABEL_FMT) s \<or> (\<exists>t. s = t @ ''.'' \<and> is_match (dotted RFC_1123_LABEL_FMT) t)"
    by (auto simp: DOMAIN_FMT_def is_match_iff simp del: is_match.simps)
  moreover have "\<not> list_all (label_over alnum_char) (split_char (CHR ''.'') (t @ ''.''))" for t
    by (simp add: label_over_def)
  ultimately show ?thesis
    by (cases s rule: rev_cases) (auto simp: dotted_label_iff simp del: is_match.simps split_char.simps split_char_snoc)
qed

subsection \<open>Properties\<close>

lemma validate_all_Inr [simp]: "validate_all rs = Inr () \<longleftrightarrow> list_all is_ok rs"
proof -
  have "filter_map_err rs = [] \<longleftrightarrow> list_all is_ok rs"
    by (induction rs rule: filter_map_err.induct) auto
  then show ?thesis by (simp add: validate_all_def Let_def)
qed

lemma validate_str_ok [simp]:
  "is_ok (validate_str_length s n) \<longleftrightarrow> length s \<le> n"
  "is_ok (validate_str_regex s r err) \<longleftrightarrow> is_match r s"
  by (simp_all add: validate_str_length_def validate_str_regex_def)

lemmas validator_defs = is_domain_def is_lowercase_rfc_1123_label_def is_lowercase_rfc_1123_subdomain_def
  is_lowercase_rfc_1035_label_def is_kerberos_realm_name_def

lemmas length_defs = DOMAIN_MAX_LENGTH_def RFC_1123_LABEL_MAX_LENGTH_def
  RFC_1123_SUBDOMAIN_MAX_LENGTH_def RFC_1035_LABEL_MAX_LENGTH_def

lemmas pattern_iffs = lowercase_label_iff rfc1035_label_iff subdomain_iff domain_iff kerberos_iff

lemma rfc_1123_label_iff: "is_lowercase_rfc_1123_label s = Inr () \<longleftrightarrow> length s \<le> 63 \<and> label_over lower_alnum_char s"
  by (simp only: validator_defs validate_all_Inr validate_str_ok list.pred_inject pattern_iffs length_defs simp_thms)

text \<open>
  C36: what the name validators accept, without regular expressions. A lowercase RFC 1123 label has
  1 to 63 characters, lower case letters, digits and dashes, and no dash at either end; an RFC 1035
  label in addition starts with a letter; a subdomain has at most 253 characters and only such
  labels between its dots; a domain may use upper case and end in one dot; a Kerberos realm is not
  empty and uses letters, digits, dashes and dots.
\<close>

theorem validators_exact:
  "(is_lowercase_rfc_1123_label s = Inr () \<longleftrightarrow> length s \<le> 63 \<and> label_over lower_alnum_char s) \<and>
   (is_lowercase_rfc_1035_label s = Inr () \<longleftrightarrow>
      length s \<le> 63 \<and> label_over lower_alnum_char s \<and> is_lower (hd s)) \<and>
   (is_lowercase_rfc_1123_subdomain s = Inr () \<longleftrightarrow>
      length s \<le> 253 \<and> list_all (label_over lower_alnum_char) (split_char (CHR ''.'') s)) \<and>
   (is_domain s = Inr () \<longleftrightarrow>
      length s \<le> 253 \<and> list_all (label_over alnum_char)
        (split_char (CHR ''.'') (if s \<noteq> [] \<and> last s = CHR ''.'' then butlast s else s))) \<and>
   (is_kerberos_realm_name s = Inr () \<longleftrightarrow>
      s \<noteq> [] \<and> list_all (\<lambda>c. alnum_char c \<or> c = CHR ''-'' \<or> c = CHR ''.'') s)"
  by (simp only: validator_defs validate_all_Inr validate_str_ok list.pred_inject pattern_iffs length_defs simp_thms)

text \<open>
  A validator that fails reports every violated rule, in the order of the checks: the length
  and the pattern are checked independently of each other.
\<close>

lemma label_errors_complete:
  "is_lowercase_rfc_1123_label s =
     (let errs = (if 63 < length s then [TooLong (length s) 63] else []) @
                 (if label_over lower_alnum_char s then [] else [RegexMismatch rfc_1123_label_error])
      in if errs = [] then Inr () else Inl errs)"
  by (simp add: is_lowercase_rfc_1123_label_def validate_all_def validate_str_length_def
      validate_str_regex_def lowercase_label_iff length_defs del: is_match.simps)

text \<open>Each kind of name is one of the next, wider kind.\<close>

lemma lower_is_alnum: "lower_alnum_char c \<Longrightarrow> alnum_char c"
  by (auto simp: lower_alnum_char_def alnum_char_def is_alpha_def)

lemma label_over_mono: "label_over P s \<Longrightarrow> (\<And>c. P c \<Longrightarrow> Q c) \<Longrightarrow> label_over Q s"
  by (auto simp: label_over_def list_all_iff)

lemma label_is_subdomain:
  "label_over lower_alnum_char s \<Longrightarrow> split_char (CHR ''.'') s = [s]"
  using label_over_no_dot [of lower_alnum_char s] no_dot_chars by simp

lemma subdomain_no_trailing_dot:
  assumes "list_all (label_over lower_alnum_char) (split_char (CHR ''.'') s)"
  shows "\<not> (s \<noteq> [] \<and> last s = CHR ''.'')"
  using assms by (cases s rule: rev_cases) (auto simp: label_over_def)

text \<open>
  The kinds of names are nested: an RFC 1035 label is an RFC 1123 label, a label is a
  subdomain, and a subdomain is a domain.
\<close>

theorem validators_nested:
  "(is_lowercase_rfc_1035_label s = Inr () \<longrightarrow> is_lowercase_rfc_1123_label s = Inr ()) \<and>
   (is_lowercase_rfc_1123_label s = Inr () \<longrightarrow> is_lowercase_rfc_1123_subdomain s = Inr ()) \<and>
   (is_lowercase_rfc_1123_subdomain s = Inr () \<longrightarrow> is_domain s = Inr ())"
proof (intro conjI impI)
  assume "is_lowercase_rfc_1123_subdomain s = Inr ()"
  then have *: "length s \<le> 253" "list_all (label_over lower_alnum_char) (split_char (CHR ''.'') s)"
    by (simp_all add: validator_defs pattern_iffs length_defs)
  then have "list_all (label_over alnum_char) (split_char (CHR ''.'') s)"
    by (auto simp: list_all_iff intro: label_over_mono lower_is_alnum)
  with * subdomain_no_trailing_dot [OF *(2)] show "is_domain s = Inr ()"
    by (auto simp: validator_defs pattern_iffs length_defs)
qed (auto simp: validator_defs pattern_iffs length_defs label_is_subdomain)

theorem validators_nested_witness:
  "is_lowercase_rfc_1035_label ''my-name'' = Inr () \<and> is_lowercase_rfc_1123_label ''my-name'' = Inr ()"
proof -
  have "is_lowercase_rfc_1035_label ''my-name'' = Inr ()"
    by (simp add: validator_defs pattern_iffs length_defs label_over_def lower_alnum_char_def class_defs
        del: is_match.simps)
  with validators_nested [of "''my-name''"] show ?thesis by blast
qed

lemma name_is_dns_label_False:
  "name_is_dns_label n False = Inr () \<longleftrightarrow>
     length n \<le> 63 \<and> label_over lower_alnum_char n \<and> is_lower (hd n)"
  by (simp add: name_is_dns_label_def validator_defs pattern_iffs length_defs)

lemma masked_prefix_extends:
  assumes "label_over lower_alnum_char (mask_trailing_dash p)" "is_lower (hd (mask_trailing_dash p))"
    and "p \<noteq> ''-''" "s \<noteq> []" "list_all lower_alnum_char s"
  shows "label_over lower_alnum_char (p @ s) \<and> is_lower (hd (p @ s))"
proof (cases "p \<noteq> [] \<and> last p = CHR ''-''")
  case True
  then obtain q where q: "p = q @ ''-''" by (metis append_butlast_last_id)
  with assms(3) have "q \<noteq> []" by auto
  with q assms show ?thesis by (auto simp: mask_trailing_dash_def label_over_def list_all_iff)
next
  case False
  with assms show ?thesis by (auto simp: mask_trailing_dash_def label_over_def list_all_iff)
qed

text \<open>
  A name prefix accepted by \<open>name_is_dns_label\<close> (a trailing dash allowed), other than the single
  dash, becomes a valid DNS label with any lower case alphanumeric suffix that fits the length
  limit. The single dash is accepted as a prefix too, though no name that starts with it is valid.
\<close>

theorem dns_label_prefix_extends:
  "(name_is_dns_label p True = Inr () \<and> p \<noteq> ''-'' \<and> s \<noteq> [] \<and> list_all lower_alnum_char s \<and>
      length (p @ s) \<le> 63 \<longrightarrow> name_is_dns_label (p @ s) False = Inr ()) \<and>
   name_is_dns_label ''-'' True = Inr () \<and> name_is_dns_label (''-'' @ s) False \<noteq> Inr ()"
proof (intro conjI impI)
  assume *: "name_is_dns_label p True = Inr () \<and> p \<noteq> ''-'' \<and> s \<noteq> [] \<and> list_all lower_alnum_char s \<and>
    length (p @ s) \<le> 63"
  then have "label_over lower_alnum_char (mask_trailing_dash p)" "is_lower (hd (mask_trailing_dash p))"
    by (simp_all add: name_is_dns_label_def validator_defs pattern_iffs)
  with * masked_prefix_extends show "name_is_dns_label (p @ s) False = Inr ()"
    by (simp add: name_is_dns_label_False)
next
  show "name_is_dns_label ''-'' True = Inr ()"
    by (simp add: name_is_dns_label_def mask_trailing_dash_def validator_defs pattern_iffs length_defs
        label_over_def lower_alnum_char_def class_defs del: is_match.simps)
  show "name_is_dns_label (''-'' @ s) False \<noteq> Inr ()"
    by (simp add: name_is_dns_label_False class_defs)
qed

theorem dns_label_prefix_extends_witness:
  "name_is_dns_label ''my-ns-'' True = Inr () \<and> name_is_dns_label ''my-ns-x7'' False = Inr ()"
proof -
  have "name_is_dns_label ''my-ns-'' True = Inr ()"
    by (simp add: name_is_dns_label_def mask_trailing_dash_def validator_defs pattern_iffs length_defs
        label_over_def lower_alnum_char_def class_defs del: is_match.simps)
  moreover have "list_all lower_alnum_char ''x7''" by (simp add: lower_alnum_char_def class_defs)
  ultimately show ?thesis using dns_label_prefix_extends [of "''my-ns-''" "''x7''"] by simp
qed

end
