(* ===== verification/Length_Enforcement.thy ===== *)
theory Length_Enforcement
  imports Rust_Str
begin

section \<open>Shortening names\<close>

text \<open>
  \<open>stackable-operator/src/utils/length_enforcement.rs\<close>: a string that is too long is cut and a
  prefix of its SHA-256 digest, in hexadecimal, takes the place of the end.

  A string is its UTF-8 bytes, so that a cut has to respect the character boundaries. The digest
  (crate \<open>sha2\<close>, formatted with \<open>{:x}\<close>) is the parameter \<open>sha256_hex\<close>; what is used of it is
  \<open>hex_digest\<close>: 64 lower-case hexadecimal digits for every input. A failed assertion, a panic of
  the function, is \<^const>\<open>None\<close>.
\<close>

definition is_continuation :: "char \<Rightarrow> bool" where
  "is_continuation c \<longleftrightarrow> 128 \<le> (of_char c :: nat) \<and> (of_char c :: nat) < 192"

text \<open>\<open>str::floor_char_boundary\<close>: the last boundary at or before the index.\<close>

fun floor_char_boundary :: "string \<Rightarrow> nat \<Rightarrow> nat" where
  "floor_char_boundary s i =
     (if length s \<le> i then length s
      else if i = 0 then 0
      else if is_continuation (s ! i) then floor_char_boundary s (i - 1)
      else i)"

declare floor_char_boundary.simps [simp del]

definition truncate_at_char_boundary :: "string \<Rightarrow> nat \<Rightarrow> string" where
  "truncate_at_char_boundary input max_length_bytes = take (floor_char_boundary input max_length_bytes) input"

text \<open>\<open>String::pop\<close>: what is left, and the last character with all its bytes.\<close>

definition pop_char :: "string \<Rightarrow> string \<times> string option" where
  "pop_char s =
     (if s = [] then ([], None)
      else let n = length s - 1 - length (takeWhile is_continuation (rev s))
           in (take n s, Some (drop n s)))"

definition ensure_max_string_length ::
    "(string \<Rightarrow> string) \<Rightarrow> string \<Rightarrow> nat \<Rightarrow> nat \<Rightarrow> string option" where
  "ensure_max_string_length sha256_hex original max_length_bytes hash_length =
     (if \<not> hash_length \<le> 64 then None
      else if \<not> 1 + 1 + hash_length \<le> max_length_bytes then None
      else if length original \<le> max_length_bytes then Some original
      else if hash_length = 0 then Some (truncate_at_char_boundary original max_length_bytes)
      else
        let digest = take hash_length (sha256_hex original);
            (name, removed_char) =
              pop_char (truncate_at_char_boundary original (max_length_bytes - hash_length))
        in if name = [] then Some digest
           else if last name \<noteq> CHR ''-'' \<or> removed_char = Some ''-'' then Some (name @ ''-'' @ digest)
           else Some (name @ digest))"

subsection \<open>Cuts\<close>

definition is_hex_lower :: "char \<Rightarrow> bool" where
  "is_hex_lower c \<longleftrightarrow> is_digit c \<or> in_range (CHR ''a'') (CHR ''f'') c"

definition hex_digest :: "(string \<Rightarrow> string) \<Rightarrow> bool" where
  "hex_digest sha256_hex \<longleftrightarrow> (\<forall>s. length (sha256_hex s) = 64 \<and> list_all is_hex_lower (sha256_hex s))"

lemma floor_char_boundary_le:
  "floor_char_boundary s i \<le> i" "floor_char_boundary s i \<le> length s"
proof (induction s i rule: floor_char_boundary.induct)
  case (1 s i)
  show "floor_char_boundary s i \<le> i" using 1(1) by (subst floor_char_boundary.simps) (auto dest: le_trans [OF _ diff_le_self])
  show "floor_char_boundary s i \<le> length s" using 1 by (subst floor_char_boundary.simps) auto
qed

text \<open>The cut is a boundary, and no boundary lies between it and the index.\<close>

definition char_boundary :: "string \<Rightarrow> nat \<Rightarrow> bool" where
  "char_boundary s i \<longleftrightarrow> i = 0 \<or> i = length s \<or> i < length s \<and> \<not> is_continuation (s ! i)"

lemma floor_char_boundary_greatest:
  "char_boundary s (floor_char_boundary s i) \<and>
   (\<forall>j \<le> i. char_boundary s j \<longrightarrow> j \<le> floor_char_boundary s i)"
proof (induction s i rule: floor_char_boundary.induct)
  case (1 s i)
  show ?case
  proof (cases "i < length s \<and> i \<noteq> 0 \<and> is_continuation (s ! i)")
    case True
    then have eq: "floor_char_boundary s i = floor_char_boundary s (i - 1)"
      by (subst floor_char_boundary.simps) simp
    have "\<not> char_boundary s i" using True by (simp add: char_boundary_def)
    then have "j \<le> i - 1" if "j \<le> i" "char_boundary s j" for j
      using that by (cases "j = i") auto
    moreover have "char_boundary s (floor_char_boundary s (i - 1)) \<and>
        (\<forall>j \<le> i - 1. char_boundary s j \<longrightarrow> j \<le> floor_char_boundary s (i - 1))"
      using 1 True by simp
    ultimately show ?thesis unfolding eq by blast
  next
    case False
    then have eq: "floor_char_boundary s i = min i (length s)"
      by (subst floor_char_boundary.simps) auto
    show ?thesis
      unfolding eq using False by (auto simp: char_boundary_def min_def)
  qed
qed

lemma length_truncate_at_char_boundary: "length (truncate_at_char_boundary s n) \<le> n"
  using floor_char_boundary_le [of s n] by (simp add: truncate_at_char_boundary_def)

lemma truncate_prefix: "\<exists>rest. s = truncate_at_char_boundary s n @ rest"
  unfolding truncate_at_char_boundary_def by (metis append_take_drop_id)

lemma truncate_ascii:
  assumes "is_ascii s" shows "truncate_at_char_boundary s n = take n s"
proof -
  have "\<not> is_continuation (s ! i)" if "i < length s" for i
    using assms that by (auto simp: is_ascii_def is_continuation_def list_all_length)
  then have "floor_char_boundary s n = min n (length s)"
    by (subst floor_char_boundary.simps) auto
  then show ?thesis by (simp add: truncate_at_char_boundary_def min_def)
qed

lemma pop_char_length: "s \<noteq> [] \<Longrightarrow> length (fst (pop_char s)) < length s"
  by (cases s rule: rev_cases) (auto simp: pop_char_def Let_def)

lemma pop_char_prefix: "\<exists>rest. s = fst (pop_char s) @ rest"
  by (cases "s = []") (auto simp: pop_char_def Let_def, metis append_take_drop_id)

lemma pop_char_ascii: "is_ascii (s @ [c]) \<Longrightarrow> pop_char (s @ [c]) = (s, Some [c])"
  by (auto simp: pop_char_def Let_def is_ascii_def is_continuation_def)

text \<open>
  Whenever the two assertions of \<open>ensure_max_string_length\<close> hold, the function returns; the
  result has at most \<open>max_length_bytes\<close> bytes, a short enough input is returned as it is, and a
  longer one becomes a proper prefix of itself followed, unless the hash is switched off, by the
  first \<open>hash_length\<close> digits of its digest, with a dash before them when there is a prefix.
\<close>

theorem ensure_max_string_length_bound:
  assumes h: "hex_digest sha256_hex" and hl: "hash_length \<le> 64" "hash_length + 2 \<le> max_len"
  shows "\<exists>r. ensure_max_string_length sha256_hex s max_len hash_length = Some r \<and> length r \<le> max_len \<and>
    (length s \<le> max_len \<longrightarrow> r = s) \<and>
    (max_len < length s \<longrightarrow>
       (\<exists>p rest dash. s = p @ rest \<and> rest \<noteq> [] \<and> r = p @ dash @ take hash_length (sha256_hex s) \<and>
          (0 < hash_length \<longrightarrow>
            (if p = [] then dash = [] else dash = ''-'' \<or> dash = [] \<and> last p = CHR ''-''))))"
proof -
  let ?t = "truncate_at_char_boundary s (max_len - hash_length)"
  let ?d = "take hash_length (sha256_hex s)"
  have ld: "length ?d = hash_length" using h hl by (simp add: hex_digest_def)
  obtain name c where pop: "pop_char ?t = (name, c)" by (cases "pop_char ?t")
  have lt: "length ?t \<le> max_len - hash_length" by (rule length_truncate_at_char_boundary)
  have lname: "length name < max_len - hash_length"
  proof (cases "?t = []")
    case True
    then show ?thesis using pop hl by (simp add: pop_char_def)
  next
    case False
    then show ?thesis using pop_char_length [OF False] pop lt by simp
  qed
  obtain rest where s: "s = name @ rest"
    using pop_char_prefix [of ?t] truncate_prefix [of s "max_len - hash_length"] pop by auto
  obtain rest0 where s0: "s = truncate_at_char_boundary s max_len @ rest0" using truncate_prefix by blast
  have l0: "length (truncate_at_char_boundary s max_len) \<le> max_len" by (rule length_truncate_at_char_boundary)
  consider "length s \<le> max_len" | "max_len < length s" "hash_length = 0" | "max_len < length s" "0 < hash_length"
    by linarith
  then show ?thesis
  proof cases
    case 1
    then show ?thesis using hl by (simp add: ensure_max_string_length_def)
  next
    case 2
    have "rest0 \<noteq> []" using s0 l0 2(1) by (metis append_Nil2 linorder_not_less)
    then have "\<exists>p rest dash. s = p @ rest \<and> rest \<noteq> [] \<and> truncate_at_char_boundary s max_len = p @ dash @ []"
      using s0 by (intro exI [where x = "truncate_at_char_boundary s max_len"] exI [where x = rest0] exI [where x = "[]"]) simp
    with 2 hl l0 show ?thesis by (simp add: ensure_max_string_length_def)
  next
    case 3
    let ?dash = "if name = [] \<or> \<not> (last name \<noteq> CHR ''-'' \<or> c = Some ''-'') then [] else ''-''"
    have ne: "rest \<noteq> []" using s lname 3 by auto
    have r: "ensure_max_string_length sha256_hex s max_len hash_length = Some (name @ ?dash @ ?d)"
      using 3 hl pop by (simp add: ensure_max_string_length_def Let_def)
    have len: "length (name @ ?dash @ ?d) \<le> max_len" using ld lname by auto
    have "\<exists>p rest dash. s = p @ rest \<and> rest \<noteq> [] \<and> name @ ?dash @ ?d = p @ dash @ ?d \<and>
        (0 < hash_length \<longrightarrow> (if p = [] then dash = [] else dash = ''-'' \<or> dash = [] \<and> last p = CHR ''-''))"
      using s ne by (intro exI [where x = name] exI [where x = rest] exI [where x = ?dash]) auto
    with r len 3 show ?thesis by (metis linorder_not_less)
  qed
qed

theorem ensure_max_string_length_bound_witness:
  "\<exists>r. ensure_max_string_length (\<lambda>_. replicate 64 (CHR ''0'')) ''abcdefg'' 6 4 = Some r \<and> length r \<le> 6"
proof -
  have "hex_digest (\<lambda>_. replicate 64 (CHR ''0''))"
    by (simp add: hex_digest_def is_hex_lower_def class_defs list_all_iff)
  from ensure_max_string_length_bound [OF this, of 4 6 "''abcdefg''"] show ?thesis by auto
qed

end
