(* ===== verification/BTree_Map.thy ===== *)
theory BTree_Map
  imports Prelude "HOL-Library.Product_Lexorder"
begin

section \<open>BTreeMap and BTreeSet\<close>

text \<open>
  \<open>std::collections::BTreeMap\<close> as its iteration: the entries in ascending order of the keys, each
  key once. The operations are insertion in order; what a client relies on (lookup after an
  update, the invariant, iteration in key order) is the locale \<open>ordered_map\<close>.
\<close>

type_synonym ('k, 'v) btreemap = "('k \<times> 'v) list"

definition btree_inv :: "('k::linorder, 'v) btreemap \<Rightarrow> bool" where
  "btree_inv m \<longleftrightarrow> sorted_wrt (<) (map fst m)"

fun btree_insert :: "'k::linorder \<Rightarrow> 'v \<Rightarrow> ('k, 'v) btreemap \<Rightarrow> ('k, 'v) btreemap" where
  "btree_insert k v [] = [(k, v)]"
| "btree_insert k v ((k', v') # m) =
     (if k < k' then (k, v) # (k', v') # m
      else if k = k' then (k, v) # m
      else (k', v') # btree_insert k v m)"

definition btree_get :: "('k, 'v) btreemap \<Rightarrow> 'k \<Rightarrow> 'v option" where
  "btree_get m = map_of m"

definition btree_remove :: "'k \<Rightarrow> ('k, 'v) btreemap \<Rightarrow> ('k, 'v) btreemap" where
  "btree_remove k m = filter (\<lambda>(k', _). k' \<noteq> k) m"

definition btree_contains_key :: "('k, 'v) btreemap \<Rightarrow> 'k \<Rightarrow> bool" where
  "btree_contains_key m k \<longleftrightarrow> btree_get m k \<noteq> None"

text \<open>\<open>extend\<close> inserts the items of an iterator one after the other; \<open>collect\<close> starts from nothing.\<close>

definition btree_extend :: "('k::linorder, 'v) btreemap \<Rightarrow> ('k \<times> 'v) list \<Rightarrow> ('k, 'v) btreemap" where
  "btree_extend m xs = foldl (\<lambda>m (k, v). btree_insert k v m) m xs"

definition btree_collect :: "('k::linorder \<times> 'v) list \<Rightarrow> ('k, 'v) btreemap" where
  "btree_collect xs = btree_extend [] xs"

definition btreeset_collect :: "'a::linorder list \<Rightarrow> 'a list" where
  "btreeset_collect xs = remdups_adj (sort xs)"

text \<open>Ascending entries are determined by the lookups.\<close>

lemma same_keys_same_map:
  "map fst xs = map fst ys \<Longrightarrow> distinct (map fst xs) \<Longrightarrow> map_of xs = map_of ys \<Longrightarrow> xs = ys"
proof (rule pair_list_eqI)
  assume keys: "map fst xs = map fst ys" and d: "distinct (map fst xs)" and eq: "map_of xs = map_of ys"
  then have d': "distinct (map fst ys)" by simp
  have snds: "map snd zs = map (the \<circ> map_of zs) (map fst zs)" if "distinct (map fst zs)" for zs :: "('a \<times> 'b) list"
    using that by (auto simp: map_of_eq_Some_iff)
  show "map snd xs = map snd ys" using snds [OF d] snds [OF d'] keys eq by simp
  show "map fst xs = map fst ys" by (fact keys)
qed

lemma entries_determined:
  assumes s: "sorted_wrt (<) (map fst xs)" "sorted_wrt (<) (map fst ys)" and eq: "map_of xs = map_of ys"
  shows "xs = (ys :: ('k::linorder \<times> 'v) list)"
proof (rule same_keys_same_map)
  have "fst ` set xs = fst ` set ys" using eq by (metis dom_map_of_conv_image_fst)
  then show "map fst xs = map fst ys"
    using ord_cmp.sorted_unique [of "map fst xs" "map fst ys"] s by simp
  show "distinct (map fst xs)" using s(1) by (simp add: strict_sorted_iff)
  show "map_of xs = map_of ys" by (fact eq)
qed

subsection \<open>The contract\<close>

locale ordered_map =
  fixes inv :: "'m \<Rightarrow> bool"
    and get :: "'m \<Rightarrow> 'k::linorder \<Rightarrow> 'v option"
    and insert_entry :: "'k \<Rightarrow> 'v \<Rightarrow> 'm \<Rightarrow> 'm"
    and entries :: "'m \<Rightarrow> ('k \<times> 'v) list"
    and empty :: 'm
  assumes inv_empty: "inv empty"
    and get_empty: "get empty k = None"
    and inv_insert: "inv m \<Longrightarrow> inv (insert_entry k v m)"
    and get_insert: "inv m \<Longrightarrow> get (insert_entry k v m) k' = (if k' = k then Some v else get m k')"
    and entries_sorted: "inv m \<Longrightarrow> sorted_wrt (<) (map fst (entries m))"
    and get_entries: "inv m \<Longrightarrow> get m = map_of (entries m)"
    and entries_inj: "inv m \<Longrightarrow> inv m' \<Longrightarrow> entries m = entries m' \<Longrightarrow> m = m'"
begin

definition insert_all :: "'m \<Rightarrow> ('k \<times> 'v) list \<Rightarrow> 'm" where
  "insert_all m xs = foldl (\<lambda>m (k, v). insert_entry k v m) m xs"

lemma insert_all_simps [simp]:
  "insert_all m [] = m"
  "insert_all m ((k, v) # xs) = insert_all (insert_entry k v m) xs"
  by (simp_all add: insert_all_def)

lemma inv_insert_all: "inv m \<Longrightarrow> inv (insert_all m xs)"
  by (induction xs arbitrary: m) (auto simp: inv_insert)

text \<open>Of several items with one key the last one stays.\<close>

lemma get_insert_all:
  "inv m \<Longrightarrow> get (insert_all m xs) k = (case map_of (rev xs) k of None \<Rightarrow> get m k | Some v \<Rightarrow> Some v)"
proof (induction xs arbitrary: m)
  case (Cons x xs)
  obtain k' v where x: "x = (k', v)" by (cases x)
  have "get (insert_all m (x # xs)) k =
      (case map_of (rev xs) k of None \<Rightarrow> get (insert_entry k' v m) k | Some v \<Rightarrow> Some v)"
    using Cons x by (simp add: inv_insert)
  then show ?case using Cons.prems x by (auto simp: get_insert map_add_def split: option.splits)
qed simp

lemma distinct_keys: "inv m \<Longrightarrow> distinct (map fst (entries m))"
  using entries_sorted by (auto simp: strict_sorted_iff)

text \<open>A map is determined by its lookups.\<close>

lemma map_ext: "inv m \<Longrightarrow> inv m' \<Longrightarrow> (\<And>k. get m k = get m' k) \<Longrightarrow> m = m'"
  by (rule entries_inj) (auto intro!: entries_determined entries_sorted simp flip: get_entries)

end


subsection \<open>The entries in order provide it\<close>

lemma map_of_btree_insert:
  "btree_inv m \<Longrightarrow> map_of (btree_insert k v m) = (map_of m)(k \<mapsto> v)"
  by (induction m) (auto simp: btree_inv_def fun_eq_iff)

lemma set_btree_insert_keys: "fst ` set (btree_insert k v m) = insert k (fst ` set m)"
proof (induction m)
  case (Cons e m)
  then show ?case by (cases e) (simp add: insert_commute)
qed simp

lemma btree_inv_insert [simp]: "btree_inv m \<Longrightarrow> btree_inv (btree_insert k v m)"
proof (induction m)
  case (Cons e m)
  obtain k' v' where e: "e = (k', v')" by (cases e)
  have "fst ` set (btree_insert k v m) = insert k (fst ` set m)" by (rule set_btree_insert_keys)
  then show ?case using Cons e by (fastforce simp: btree_inv_def)
qed (simp add: btree_inv_def)

lemma btree_inv_Nil [simp]: "btree_inv []"
  by (simp add: btree_inv_def)

interpretation btree: ordered_map btree_inv btree_get btree_insert "\<lambda>m. m" "[] :: ('k::linorder, 'v) btreemap"
  rewrites "ordered_map.insert_all btree_insert = (btree_extend :: ('k, 'v) btreemap \<Rightarrow> _)"
proof -
  show o: "ordered_map btree_inv btree_get btree_insert (\<lambda>m. m) ([] :: ('k::linorder, 'v) btreemap)"
    by unfold_locales (auto simp: btree_get_def map_of_btree_insert, simp add: btree_inv_def)
  show "ordered_map.insert_all btree_insert = (btree_extend :: ('k, 'v) btreemap \<Rightarrow> _)"
    by (intro ext) (simp add: ordered_map.insert_all_def [OF o] btree_extend_def)
qed

lemma btree_inv_extend [simp]: "btree_inv m \<Longrightarrow> btree_inv (btree_extend m xs)"
  by (rule btree.inv_insert_all)

lemma btree_inv_collect [simp]: "btree_inv (btree_collect xs)"
  by (simp add: btree_collect_def)

lemma btree_inv_remove [simp]: "btree_inv m \<Longrightarrow> btree_inv (btree_remove k m)"
  unfolding btree_inv_def btree_remove_def
  by (induction m) auto

lemma btree_get_remove [simp]:
  "btree_get (btree_remove k m) k' = (if k' = k then None else btree_get m k')"
  unfolding btree_get_def btree_remove_def
  by (induction m) auto

lemma btree_get_Nil [simp]: "btree_get [] k = None"
  by (simp add: btree_get_def)

lemma btree_get_insert [simp]:
  "btree_inv m \<Longrightarrow> btree_get (btree_insert k v m) k' = (if k' = k then Some v else btree_get m k')"
  by (rule btree.get_insert)

lemma btree_get_collect:
  "btree_get (btree_collect xs) k = map_of (rev xs) k"
  unfolding btree_collect_def by (subst btree.get_insert_all) (auto split: option.splits)

lemma btree_get_extend:
  "btree_inv m \<Longrightarrow> btree_get (btree_extend m xs) k = (case map_of (rev xs) k of None \<Rightarrow> btree_get m k | Some v \<Rightarrow> Some v)"
  by (rule btree.get_insert_all)

lemma btree_get_iff: "btree_inv m \<Longrightarrow> btree_get m k = Some v \<longleftrightarrow> (k, v) \<in> set m"
  unfolding btree_get_def btree_inv_def by (simp add: map_of_eq_Some_iff strict_sorted_iff)

lemma set_btree_insert_new: "k \<notin> fst ` set m \<Longrightarrow> set (btree_insert k v m) = insert (k, v) (set m)"
  by (induction k v m rule: btree_insert.induct) (simp_all add: insert_commute)

lemma btree_insert_set: "set (btree_insert k v m) \<subseteq> insert (k, v) (set m)"
  by (induction m) (auto split: if_splits)

lemma btree_extend_set: "set (btree_extend m xs) \<subseteq> set m \<union> set xs"
proof (induction xs arbitrary: m)
  case (Cons x xs)
  obtain k v where x: "x = (k, v)" by (cases x)
  have "set (btree_extend m (x # xs)) \<subseteq> set (btree_insert k v m) \<union> set xs"
    using Cons [of "btree_insert k v m"] x by (simp add: btree_extend_def)
  then show ?case using btree_insert_set [of k v m] x by auto
qed (simp add: btree_extend_def)

lemma btree_collect_id: "btree_inv m \<Longrightarrow> btree_collect m = m"
proof (rule btree.map_ext)
  assume inv: "btree_inv m"
  fix k show "btree_get (btree_collect m) k = btree_get m k"
  proof -
    have "distinct (map fst m)" using inv by (simp add: btree_inv_def strict_sorted_iff)
    then have "map_of (rev m) = map_of m" by (simp add: map_of_inject_set rev_map [symmetric])
    then show ?thesis unfolding btree_get_collect by (simp add: btree_get_def)
  qed
qed simp_all

end
