(* ===== verification/Config_Merge.thy ===== *)
theory Config_Merge
  imports BTree_Map Rust_Str
begin

section \<open>Merging and validating configuration\<close>

text \<open>
  \<open>stackable-operator/src/config/merge.rs\<close> and \<open>fragment.rs\<close>: configuration comes as fragments from
  several levels (role group, role, operator defaults); \<open>Merge\<close> fills what one level leaves open
  from the next, and \<open>FromFragment\<close> turns the merged fragment into the final type or reports the
  path of a missing field. The trait \<open>Merge\<close> is the locale \<open>merge_laws\<close>; the implementations for
  options of atomic values and for maps, and those that the derive macros of
  \<open>stackable-operator-derive\<close> generate for the structs of \<open>commons/resources.rs\<close>, interpret it.
\<close>

subsection \<open>Merge\<close>

definition option_merge :: "'a option \<Rightarrow> 'a option \<Rightarrow> 'a option" where
  "option_merge self defaults = (if self = None then defaults else self)"

text \<open>The loop over the entries of the defaults.\<close>

fun btree_merge_entries ::
    "('v \<Rightarrow> 'v \<Rightarrow> 'v) \<Rightarrow> ('k::linorder, 'v) btreemap \<Rightarrow> ('k \<times> 'v) list \<Rightarrow> ('k, 'v) btreemap" where
  "btree_merge_entries merge self [] = self"
| "btree_merge_entries merge self ((k, default_v) # defaults) =
     btree_merge_entries merge
       (case btree_get self k of
          Some v \<Rightarrow> btree_insert k (merge v default_v) self
        | None \<Rightarrow> btree_insert k default_v self) defaults"

definition btree_merge ::
    "('v \<Rightarrow> 'v \<Rightarrow> 'v) \<Rightarrow> ('k::linorder, 'v) btreemap \<Rightarrow> ('k, 'v) btreemap \<Rightarrow> ('k, 'v) btreemap" where
  "btree_merge merge self defaults = btree_merge_entries merge self defaults"

text \<open>A \<open>HashMap\<close> as a function; the defaults are visited in the order of the list.\<close>

fun hash_merge_entries :: "('v \<Rightarrow> 'v \<Rightarrow> 'v) \<Rightarrow> ('k \<rightharpoonup> 'v) \<Rightarrow> ('k \<times> 'v) list \<Rightarrow> ('k \<rightharpoonup> 'v)" where
  "hash_merge_entries merge self [] = self"
| "hash_merge_entries merge self ((k, default_v) # defaults) =
     hash_merge_entries merge
       (case self k of
          Some v \<Rightarrow> self(k \<mapsto> merge v default_v)
        | None \<Rightarrow> self(k \<mapsto> default_v)) defaults"

definition chainable_merge :: "('a \<Rightarrow> 'a \<Rightarrow> 'a) \<Rightarrow> 'a \<Rightarrow> 'a \<Rightarrow> 'a" where
  "chainable_merge merge this defaults = merge this defaults"

subsection \<open>The contract of Merge\<close>

locale merge_laws =
  fixes wf :: "'a \<Rightarrow> bool" and merge :: "'a \<Rightarrow> 'a \<Rightarrow> 'a"
  assumes merge_wf: "wf a \<Longrightarrow> wf b \<Longrightarrow> wf (merge a b)"
    and merge_assoc: "wf a \<Longrightarrow> wf b \<Longrightarrow> wf c \<Longrightarrow> merge (merge a b) c = merge a (merge b c)"
    and merge_idem: "wf a \<Longrightarrow> merge a a = a"
begin

lemma merge_absorb: "wf a \<Longrightarrow> wf b \<Longrightarrow> merge (merge a b) b = merge a b"
  by (simp add: merge_assoc merge_idem)

lemma merge_absorb_left: "wf a \<Longrightarrow> wf b \<Longrightarrow> merge a (merge a b) = merge a b"
  by (simp add: merge_idem flip: merge_assoc)

text \<open>Values of two maps under one key.\<close>

fun merge_values :: "'a option \<Rightarrow> 'a option \<Rightarrow> 'a option" where
  "merge_values (Some v) (Some w) = Some (merge v w)"
| "merge_values (Some v) None = Some v"
| "merge_values None w = w"

lemma merge_values_None [simp]: "merge_values v None = v"
  by (cases v) simp_all

lemma get_btree_merge_entries:
  "btree_inv m \<Longrightarrow> distinct (map fst xs) \<Longrightarrow>
   btree_inv (btree_merge_entries merge m xs) \<and>
   btree_get (btree_merge_entries merge m xs) k = merge_values (btree_get m k) (map_of xs k)"
proof (induction xs arbitrary: m)
  case (Cons x xs)
  obtain l w where x: "x = (l, w)" by (cases x)
  let ?m = "case btree_get m l of Some v \<Rightarrow> btree_insert l (merge v w) m | None \<Rightarrow> btree_insert l w m"
  have inv: "btree_inv ?m" using Cons.prems(1) by (cases "btree_get m l") simp_all
  have get: "btree_get ?m k = (if k = l then merge_values (btree_get m l) (Some w) else btree_get m k)"
    using Cons.prems(1) by (cases "btree_get m l") simp_all
  have "map_of xs l = None" using Cons.prems(2) x by (simp add: map_of_eq_None_iff)
  then show ?case using Cons.IH [OF inv] Cons.prems(2) x get by (auto simp: inv)
qed simp

lemma get_btree_merge:
  "btree_inv m \<Longrightarrow> btree_inv n \<Longrightarrow> btree_get (btree_merge merge m n) k = merge_values (btree_get m k) (btree_get n k)"
  "btree_inv m \<Longrightarrow> btree_inv n \<Longrightarrow> btree_inv (btree_merge merge m n)"
  using get_btree_merge_entries [of m n] btree.distinct_keys [of n] by (simp_all add: btree_merge_def btree_get_def)

definition map_wf :: "('k::linorder, 'a) btreemap \<Rightarrow> bool" where
  "map_wf m \<longleftrightarrow> btree_inv m \<and> (\<forall>k v. btree_get m k = Some v \<longrightarrow> wf v)"

lemma merge_values_wf: "pred_option wf v \<Longrightarrow> pred_option wf w \<Longrightarrow> pred_option wf (merge_values v w)"
  by (cases v; cases w) (simp_all add: merge_wf)

lemma merge_values_assoc:
  "pred_option wf u \<Longrightarrow> pred_option wf v \<Longrightarrow> pred_option wf w \<Longrightarrow>
   merge_values (merge_values u v) w = merge_values u (merge_values v w)"
  by (cases u; cases v; cases w) (simp_all add: merge_assoc)

lemma map_wf_values: "map_wf m \<Longrightarrow> pred_option wf (btree_get m k)"
  unfolding map_wf_def by (cases "btree_get m k") auto

text \<open>Maps of mergeable values are mergeable.\<close>

lemma map_merge_laws: "merge_laws (map_wf :: ('k::linorder, 'a) btreemap \<Rightarrow> bool) (btree_merge merge)"
proof
  fix a b c :: "('k, 'a) btreemap"
  assume wf: "map_wf a" "map_wf b"
  then have inv: "btree_inv a" "btree_inv b" by (simp_all add: map_wf_def)
  show ab: "map_wf (btree_merge merge a b)"
    unfolding map_wf_def using get_btree_merge [OF inv] map_wf_values [OF wf(1)] map_wf_values [OF wf(2)] merge_values_wf
    by (metis option.pred_inject(2))
  assume c: "map_wf c"
  then have invc: "btree_inv c" by (simp add: map_wf_def)
  show "btree_merge merge (btree_merge merge a b) c = btree_merge merge a (btree_merge merge b c)"
    by (rule btree.map_ext)
      (simp_all add: get_btree_merge inv invc merge_values_assoc map_wf_values wf c)
next
  fix a :: "('k, 'a) btreemap"
  assume "map_wf a"
  then have a: "btree_inv a" "\<And>k v. btree_get a k = Some v \<Longrightarrow> wf v" by (auto simp: map_wf_def)
  have "merge_values (btree_get a k) (btree_get a k) = btree_get a k" for k
    using a(2) by (cases "btree_get a k") (simp_all add: merge_idem)
  then show "btree_merge merge a a = a" by (intro btree.map_ext) (simp_all add: get_btree_merge a)
qed

text \<open>The order in which a hash map is visited does not matter.\<close>

lemma hash_merge_get:
  "distinct (map fst xs) \<Longrightarrow> hash_merge_entries merge m xs k = merge_values (m k) (map_of xs k)"
proof (induction xs arbitrary: m)
  case (Cons x xs)
  obtain l w where x: "x = (l, w)" by (cases x)
  have "map_of xs l = None" using Cons.prems x by (simp add: map_of_eq_None_iff)
  then show ?case using Cons x by (cases "m l") auto
qed simp

end

interpretation option: merge_laws "\<lambda>_. True" option_merge
  by unfold_locales (auto simp: option_merge_def)

interpretation option_map: merge_laws "option.map_wf :: ('k::linorder, 'a option) btreemap \<Rightarrow> bool" "btree_merge option_merge"
  by (rule option.map_merge_laws)

subsection \<open>Fragments\<close>

datatype validator = Validator (v_ident: "string option") (v_parent: "validator option")

datatype validation_problem = FieldRequired

record validation_error =
  ve_path :: "string list"
  ve_problem :: validation_problem

definition validator_field :: "validator \<Rightarrow> string \<Rightarrow> validator" where
  "validator_field self ident = Validator (Some ident) (Some self)"

text \<open>The identifiers from the validator outwards.\<close>

fun error_idents :: "validator \<Rightarrow> string list" where
  "error_idents (Validator ident parent) =
     (case ident of Some i \<Rightarrow> [i] | None \<Rightarrow> []) @ (case parent of None \<Rightarrow> [] | Some p \<Rightarrow> error_idents p)"

definition error_problem :: "validator \<Rightarrow> validation_problem \<Rightarrow> validation_error" where
  "error_problem self problem = \<lparr>ve_path = error_idents self, ve_problem = problem\<rparr>"

definition error_required :: "validator \<Rightarrow> validation_error" where
  "error_required self = error_problem self FieldRequired"

fun field_path_fmt_from :: "nat \<Rightarrow> string list \<Rightarrow> string" where
  "field_path_fmt_from i [] = []"
| "field_path_fmt_from i (ident # idents) = (if i > 0 then ''.'' else []) @ ident @ field_path_fmt_from (Suc i) idents"

definition field_path_fmt :: "string list \<Rightarrow> string" where
  "field_path_fmt idents = field_path_fmt_from 0 (rev idents)"

definition validation_error_display :: "validation_error \<Rightarrow> string" where
  "validation_error_display e = ''failed to validate '' @ field_path_fmt (ve_path e)"

type_synonym ('f, 't) from_fragment = "'f \<Rightarrow> validator \<Rightarrow> ('t, validation_error) result"

definition atomic_from_fragment :: "('t option, 't) from_fragment" where
  "atomic_from_fragment fragment validator = ok_or (error_required validator) fragment"

text \<open>\<open>into\<close> is the conversion from \<open>RequiredFragment\<close> to \<open>Fragment\<close>.\<close>

definition option_from_fragment :: "('r \<Rightarrow> 'f) \<Rightarrow> ('f, 't) from_fragment \<Rightarrow> ('r option, 't option) from_fragment" where
  "option_from_fragment into from_fragment fragment validator =
     (case fragment of
        Some fragment \<Rightarrow> and_then (from_fragment (into fragment) validator) (\<lambda>t. Inr (Some t))
      | None \<Rightarrow> Inr None)"

definition map_from_fragment ::
    "('k \<Rightarrow> string) \<Rightarrow> ('r \<Rightarrow> 'f) \<Rightarrow> ('f, 't) from_fragment \<Rightarrow> (('k::linorder, 'r) btreemap, ('k, 't) btreemap) from_fragment" where
  "map_from_fragment key_display into from_fragment fragment validator =
     and_then (traverse_list (\<lambda>(k, v).
        and_then (from_fragment (into v) (validator_field validator (key_display k))) (\<lambda>t. Inr (k, t))) fragment)
     (\<lambda>entries. Inr (btree_collect entries))"

definition validate :: "('f, 't) from_fragment \<Rightarrow> 'f \<Rightarrow> ('t, validation_error) result" where
  "validate from_fragment fragment = from_fragment fragment (Validator None None)"

subsection \<open>Resource fragments\<close>

text \<open>
  The structs of \<open>commons/resources.rs\<close> with the \<open>Merge\<close> and \<open>FromFragment\<close> that
  \<open>derive(Merge)\<close> and \<open>derive(Fragment)\<close> expand to: field by field. A \<open>Quantity\<close> is its string. The
  fragment of an optional field is the field itself, so one record serves as both types.
\<close>

type_synonym quantity = string

record cpu_limits =
  cpu_min :: "quantity option"
  cpu_max :: "quantity option"

record jvm_heap_limits =
  heap_max :: "quantity option"
  heap_min :: "quantity option"

record 'r memory_limits =
  mem_limit :: "quantity option"
  mem_runtime_limits :: 'r

record 'l pvc_config =
  pvc_capacity :: "quantity option"
  pvc_storage_class :: "string option"
  pvc_selectors :: "'l option"

record ('t, 'r) resources =
  res_memory :: "'r memory_limits"
  res_cpu :: cpu_limits
  res_storage :: 't

definition cpu_limits_merge :: "cpu_limits \<Rightarrow> cpu_limits \<Rightarrow> cpu_limits" where
  "cpu_limits_merge self defaults =
     \<lparr>cpu_min = option_merge (cpu_min self) (cpu_min defaults), cpu_max = option_merge (cpu_max self) (cpu_max defaults)\<rparr>"

definition jvm_heap_limits_merge :: "jvm_heap_limits \<Rightarrow> jvm_heap_limits \<Rightarrow> jvm_heap_limits" where
  "jvm_heap_limits_merge self defaults =
     \<lparr>heap_max = option_merge (heap_max self) (heap_max defaults), heap_min = option_merge (heap_min self) (heap_min defaults)\<rparr>"

definition memory_limits_merge :: "('r \<Rightarrow> 'r \<Rightarrow> 'r) \<Rightarrow> 'r memory_limits \<Rightarrow> 'r memory_limits \<Rightarrow> 'r memory_limits" where
  "memory_limits_merge runtime_merge self defaults =
     \<lparr>mem_limit = option_merge (mem_limit self) (mem_limit defaults),
      mem_runtime_limits = runtime_merge (mem_runtime_limits self) (mem_runtime_limits defaults)\<rparr>"

definition pvc_config_merge :: "'l pvc_config \<Rightarrow> 'l pvc_config \<Rightarrow> 'l pvc_config" where
  "pvc_config_merge self defaults =
     \<lparr>pvc_capacity = option_merge (pvc_capacity self) (pvc_capacity defaults),
      pvc_storage_class = option_merge (pvc_storage_class self) (pvc_storage_class defaults),
      pvc_selectors = option_merge (pvc_selectors self) (pvc_selectors defaults)\<rparr>"

definition resources_merge ::
    "('t \<Rightarrow> 't \<Rightarrow> 't) \<Rightarrow> ('r \<Rightarrow> 'r \<Rightarrow> 'r) \<Rightarrow> ('t, 'r) resources \<Rightarrow> ('t, 'r) resources \<Rightarrow> ('t, 'r) resources" where
  "resources_merge storage_merge runtime_merge self defaults =
     \<lparr>res_memory = memory_limits_merge runtime_merge (res_memory self) (res_memory defaults),
      res_cpu = cpu_limits_merge (res_cpu self) (res_cpu defaults),
      res_storage = storage_merge (res_storage self) (res_storage defaults)\<rparr>"

text \<open>\<open>Option<T>\<close> for an atomic \<open>T\<close>: its fragment is again \<open>Option<T>\<close>.\<close>

definition optional_from_fragment :: "('t option, 't option) from_fragment" where
  "optional_from_fragment = option_from_fragment Some atomic_from_fragment"

definition cpu_limits_from_fragment :: "(cpu_limits, cpu_limits) from_fragment" where
  "cpu_limits_from_fragment fragment validator =
     and_then (optional_from_fragment (cpu_min fragment) (validator_field validator ''min'')) (\<lambda>min.
     and_then (optional_from_fragment (cpu_max fragment) (validator_field validator ''max'')) (\<lambda>max.
     Inr \<lparr>cpu_min = min, cpu_max = max\<rparr>))"

definition jvm_heap_limits_from_fragment :: "(jvm_heap_limits, jvm_heap_limits) from_fragment" where
  "jvm_heap_limits_from_fragment fragment validator =
     and_then (optional_from_fragment (heap_max fragment) (validator_field validator ''max'')) (\<lambda>max.
     and_then (optional_from_fragment (heap_min fragment) (validator_field validator ''min'')) (\<lambda>min.
     Inr \<lparr>heap_max = max, heap_min = min\<rparr>))"

definition memory_limits_from_fragment :: "('f, 'r) from_fragment \<Rightarrow> ('f memory_limits, 'r memory_limits) from_fragment" where
  "memory_limits_from_fragment runtime_from_fragment fragment validator =
     and_then (optional_from_fragment (mem_limit fragment) (validator_field validator ''limit'')) (\<lambda>limit.
     and_then (runtime_from_fragment (mem_runtime_limits fragment) (validator_field validator ''runtime_limits'')) (\<lambda>runtime_limits.
     Inr \<lparr>mem_limit = limit, mem_runtime_limits = runtime_limits\<rparr>))"

definition pvc_config_from_fragment :: "('l pvc_config, 'l pvc_config) from_fragment" where
  "pvc_config_from_fragment fragment validator =
     and_then (optional_from_fragment (pvc_capacity fragment) (validator_field validator ''capacity'')) (\<lambda>capacity.
     and_then (optional_from_fragment (pvc_storage_class fragment) (validator_field validator ''storage_class'')) (\<lambda>storage_class.
     and_then (optional_from_fragment (pvc_selectors fragment) (validator_field validator ''selectors'')) (\<lambda>selectors.
     Inr \<lparr>pvc_capacity = capacity, pvc_storage_class = storage_class, pvc_selectors = selectors\<rparr>)))"

definition resources_from_fragment ::
    "('ft, 't) from_fragment \<Rightarrow> ('fr, 'r) from_fragment \<Rightarrow> (('ft, 'fr) resources, ('t, 'r) resources) from_fragment" where
  "resources_from_fragment storage_from_fragment runtime_from_fragment fragment validator =
     and_then (memory_limits_from_fragment runtime_from_fragment (res_memory fragment) (validator_field validator ''memory'')) (\<lambda>memory.
     and_then (cpu_limits_from_fragment (res_cpu fragment) (validator_field validator ''cpu'')) (\<lambda>cpu.
     and_then (storage_from_fragment (res_storage fragment) (validator_field validator ''storage'')) (\<lambda>storage.
     Inr \<lparr>res_memory = memory, res_cpu = cpu, res_storage = storage\<rparr>)))"

lemma optional_from_fragment [simp]: "optional_from_fragment f v = Inr f"
  by (cases f) (simp_all add: optional_from_fragment_def option_from_fragment_def atomic_from_fragment_def)

lemma resources_from_fragment_total:
  "resources_from_fragment pvc_config_from_fragment jvm_heap_limits_from_fragment f v = Inr f"
  by (simp add: resources_from_fragment_def pvc_config_from_fragment_def jvm_heap_limits_from_fragment_def
      memory_limits_from_fragment_def cpu_limits_from_fragment_def)

lemma memory_limits_merge_laws:
  assumes "merge_laws (\<lambda>_. True) runtime_merge" shows "merge_laws (\<lambda>_. True) (memory_limits_merge runtime_merge)"
proof -
  note m = merge_laws.merge_assoc [OF assms] merge_laws.merge_idem [OF assms]
  show ?thesis by unfold_locales (simp_all add: memory_limits_merge_def m option.merge_assoc option.merge_idem)
qed

lemma resources_merge_laws:
  assumes "merge_laws (\<lambda>_. True) storage_merge" "merge_laws (\<lambda>_. True) runtime_merge"
  shows "merge_laws (\<lambda>_. True) (resources_merge storage_merge runtime_merge)"
proof -
  note m = merge_laws.merge_assoc [OF assms(1)] merge_laws.merge_idem [OF assms(1)]
    merge_laws.merge_assoc [OF assms(2)] merge_laws.merge_idem [OF assms(2)]
  show ?thesis
    by unfold_locales (simp_all add: resources_merge_def memory_limits_merge_def cpu_limits_merge_def m
        option.merge_assoc option.merge_idem)
qed

interpretation heap: merge_laws "\<lambda>_. True" jvm_heap_limits_merge
  by unfold_locales (simp_all add: jvm_heap_limits_merge_def option.merge_assoc option.merge_idem)

interpretation pvc: merge_laws "\<lambda>_. True" pvc_config_merge
  by unfold_locales (simp_all add: pvc_config_merge_def option.merge_assoc option.merge_idem)

interpretation resources: merge_laws "\<lambda>_. True" "resources_merge pvc_config_merge jvm_heap_limits_merge"
  by (rule resources_merge_laws [OF pvc.merge_laws_axioms heap.merge_laws_axioms])

subsection \<open>Properties\<close>



lemma error_idents_fields: "error_idents (foldl validator_field v ids) = rev ids @ error_idents v"
  by (induction ids arbitrary: v) (simp_all add: validator_field_def)

lemma field_path_fmt_from_join:
  "field_path_fmt_from i ids = (if ids \<noteq> [] \<and> i > 0 then ''.'' else []) @ join ''.'' ids"
proof (induction ids arbitrary: i)
  case (Cons a ids)
  show ?case unfolding field_path_fmt_from.simps Cons by (cases "ids = []") (simp_all add: join_Cons)
qed simp

lemma field_path_fmt_rev: "field_path_fmt (rev ids) = join ''.'' ids"
  by (simp add: field_path_fmt_def field_path_fmt_from_join)

text \<open>
  A missing required value is reported with its path: validating a nested map of optional values
  in which a value is missing fails, and the message names the outer and the inner key of the first
  missing value in key order, outermost first, separated by a dot.
\<close>

theorem nested_validation_error_path:
  assumes "btree_inv outer" "outer = pre @ (k, inner) # post" "inner = ipre @ (l, None) # ipost"
    and "list_all (\<lambda>(_, m). list_all (\<lambda>(_, v). v \<noteq> None) m) pre" "list_all (\<lambda>(_, v). v \<noteq> None) ipre"
  shows "\<exists>e. validate (map_from_fragment id id (map_from_fragment id id (atomic_from_fragment :: ('t option, 't) from_fragment))) outer = Inl e \<and>
    validation_error_display e = ''failed to validate '' @ k @ ''.'' @ l"
proof -
  let ?atom = "atomic_from_fragment :: ('t option, 't) from_fragment"
  let ?root = "Validator None None"
  have step: "traverse_list f (xs @ x # ys) = Inl e" if "\<forall>y\<in>set xs. is_ok (f y)" "f x = Inl e"
    for f :: "'a \<Rightarrow> ('b, 'c) result" and xs x ys e
    using that by (auto simp: traverse_list_Inl_iff)
  have ok: "is_ok (map_from_fragment id id ?atom m v)" if "list_all (\<lambda>(_, v). v \<noteq> None) m" for m :: "(string, 't option) btreemap" and v
  proof -
    have "\<exists>ys. traverse_list (\<lambda>(k, w). and_then (?atom (id w) (validator_field v (id k))) (\<lambda>t. Inr (k, t))) m = Inr ys"
      using that by (induction m) (auto simp: atomic_from_fragment_def)
    then show ?thesis by (auto simp: map_from_fragment_def is_ok_iff)
  qed
  let ?e = "error_required (validator_field (validator_field ?root k) l)"
  have inner: "map_from_fragment id id ?atom inner (validator_field ?root k) = Inl ?e"
  proof -
    have "traverse_list (\<lambda>(k', w). and_then (?atom (id w) (validator_field (validator_field ?root k) (id k'))) (\<lambda>t. Inr (k', t))) inner = Inl ?e"
      unfolding assms(3) by (rule step) (use assms(5) in \<open>auto simp: atomic_from_fragment_def list_all_iff\<close>)
    then show ?thesis by (simp add: map_from_fragment_def)
  qed
  have "traverse_list (\<lambda>(k, m). and_then (map_from_fragment id id ?atom (id m) (validator_field ?root (id k))) (\<lambda>t. Inr (k, t))) outer = Inl ?e"
    unfolding assms(2)
  proof (rule step)
    show "\<forall>y\<in>set pre. is_ok (case y of (k, m) \<Rightarrow>
        and_then (map_from_fragment id id ?atom (id m) (validator_field ?root (id k))) (\<lambda>t. Inr (k, t)))"
      using assms(4) ok by (fastforce simp: list_all_iff is_ok_iff)
    show "(case (k, inner) of (k, m) \<Rightarrow>
        and_then (map_from_fragment id id ?atom (id m) (validator_field ?root (id k))) (\<lambda>t. Inr (k, t))) = Inl ?e"
      using inner by simp
  qed
  moreover have "validation_error_display ?e = ''failed to validate '' @ k @ ''.'' @ l"
    using error_idents_fields [of ?root "[k, l]"] field_path_fmt_rev [of "[k, l]"]
    by (simp add: validation_error_display_def error_required_def error_problem_def)
  ultimately show ?thesis by (simp add: validate_def map_from_fragment_def)
qed

theorem nested_validation_error_path_witness:
  "\<exists>e. validate (map_from_fragment id id (map_from_fragment id id (atomic_from_fragment :: (nat option, nat) from_fragment)))
      [(''a'', [(''x'', Some 1), (''y'', None)])] = Inl e \<and> validation_error_display e = ''failed to validate a.y''"
  using nested_validation_error_path [of "[(''a'', [(''x'', Some 1), (''y'', None :: nat option)])]" "[]" "''a''"
      "[(''x'', Some 1), (''y'', None)]" "[]" "[(''x'', Some 1)]" "''y''" "[]"]
  by (simp add: btree_inv_def)

end
