(* ===== verification/Role_Utils.thy ===== *)
theory Role_Utils
  imports Config_Merge
begin

section \<open>Roles and role groups\<close>

text \<open>
  \<open>stackable-operator/src/role_utils.rs\<close>: a role holds the configuration shared by its role groups; a
  role group's configuration is merged over the role's, which is merged over the operator's
  defaults. JVM arguments follow their own rules, with removals by exact match and by regular
  expression; \<open>Regex::new\<close> and \<open>Regex::is_match\<close> of crate \<open>regex\<close> are the parameter \<open>regex_new\<close>,
  from a pattern to a test or an error. Replica counts are 16-bit and summed at 32 bits.

  Of \<open>CommonConfiguration\<close> the operations read \<open>config\<close> and the product specific part; the
  overrides of files, environment, command line and pods are carried as \<open>cc_overrides\<close>.
\<close>

record jvm_argument_overrides =
  jvm_add :: "string list"
  jvm_remove :: "string set"
  jvm_remove_regex :: "string list"

record ('c, 'p, 'o) common_configuration =
  cc_config :: 'c
  cc_overrides :: 'o
  cc_product_specific :: 'p

record ('c, 'p, 'o) role_group =
  rg_config :: "('c, 'p, 'o) common_configuration"
  rg_replicas :: "16 word option"

record ('c, 'p, 'o, 'r) role =
  role_common :: "('c, 'p, 'o) common_configuration"
  role_config :: 'r
  role_groups :: "string \<rightharpoonup> ('c, 'p, 'o) role_group"

datatype 'e role_error = MissingRoleGroup string | InvalidRemoveRegex 'e string

definition jvm_new_with_only_additions :: "string list \<Rightarrow> jvm_argument_overrides" where
  "jvm_new_with_only_additions add = \<lparr>jvm_add = add, jvm_remove = {}, jvm_remove_regex = []\<rparr>"

text \<open>\<open>None\<close> is a failed assertion.\<close>

definition effective_jvm_config_after_merging :: "jvm_argument_overrides \<Rightarrow> string list option" where
  "effective_jvm_config_after_merging self =
     (if jvm_remove self \<noteq> {} then None
      else if jvm_remove_regex self \<noteq> [] then None
      else Some (jvm_add self))"

definition trim_start_matches :: "char \<Rightarrow> string \<Rightarrow> string" where
  "trim_start_matches c s = dropWhile (\<lambda>x. x = c) s"

definition trim_end_matches :: "char \<Rightarrow> string \<Rightarrow> string" where
  "trim_end_matches c s = rev (dropWhile (\<lambda>x. x = c) (rev s))"

definition with_anchors :: "string \<Rightarrow> string" where
  "with_anchors regex = ''^'' @ trim_end_matches (CHR ''$'') (trim_start_matches (CHR ''^'') regex) @ ''$''"

definition try_merge ::
    "(string \<Rightarrow> (string \<Rightarrow> bool, 'e) result) \<Rightarrow> jvm_argument_overrides \<Rightarrow> jvm_argument_overrides
      \<Rightarrow> (jvm_argument_overrides, 'e role_error) result" where
  "try_merge regex_new self defaults =
     and_then (traverse_list (\<lambda>regex.
       map_err (\<lambda>e. InvalidRemoveRegex e (with_anchors regex)) (regex_new (with_anchors regex))) (jvm_remove_regex self))
     (\<lambda>regexes.
       let new_add = filter (\<lambda>arg. \<not> list_ex (\<lambda>is_match. is_match arg) regexes)
                       (filter (\<lambda>arg. arg \<notin> jvm_remove self) (jvm_add defaults)) @ jvm_add self
       in Inr \<lparr>jvm_add = new_add, jvm_remove = {}, jvm_remove_regex = []\<rparr>)"

definition get_merged_jvm_argument_overrides ::
    "(string \<Rightarrow> (string \<Rightarrow> bool, 'e) result) \<Rightarrow> ('c, jvm_argument_overrides, 'o, 'r) role \<Rightarrow> string
      \<Rightarrow> jvm_argument_overrides \<Rightarrow> (jvm_argument_overrides, 'e role_error) result" where
  "get_merged_jvm_argument_overrides regex_new self group_name operator_generated =
     and_then (ok_or (MissingRoleGroup group_name) (role_groups self group_name)) (\<lambda>rg.
     and_then (try_merge regex_new (cc_product_specific (role_common self)) operator_generated) (\<lambda>from_role.
     try_merge regex_new (cc_product_specific (rg_config rg)) from_role))"

definition validate_config ::
    "('c \<Rightarrow> 'c \<Rightarrow> 'c) \<Rightarrow> ('c, 't) from_fragment \<Rightarrow> ('c, 'p, 'o) role_group \<Rightarrow> ('c, 'p, 'o, 'r) role \<Rightarrow> 'c
      \<Rightarrow> ('t, validation_error) result" where
  "validate_config merge from_fragment self role default_config =
     (let merged_role_config = merge (cc_config (role_common role)) default_config;
          rolegroup_config = merge (cc_config (rg_config self)) merged_role_config
      in validate from_fragment rolegroup_config)"

record role_group_ref =
  rgr_cluster_name :: string
  rgr_role :: string
  rgr_role_group :: string

definition object_name :: "role_group_ref \<Rightarrow> string" where
  "object_name self = rgr_cluster_name self @ ''-'' @ rgr_role self @ ''-'' @ rgr_role_group self"

definition rolegroup_headless_service_name :: "role_group_ref \<Rightarrow> string" where
  "rolegroup_headless_service_name self = object_name self @ ''-headless''"

definition rolegroup_metrics_service_name :: "role_group_ref \<Rightarrow> string" where
  "rolegroup_metrics_service_name self = object_name self @ ''-metrics''"

datatype zero_replicas_counting = TreatAsZero | TreatAsNone

text \<open>\<open>Iterator::sum\<close> over options stops at the first \<open>None\<close>; the addition is that of \<open>u32\<close>.\<close>

fun sum_options :: "32 word \<Rightarrow> 32 word option list \<Rightarrow> 32 word option" where
  "sum_options acc [] = Some acc"
| "sum_options acc (None # xs) = None"
| "sum_options acc (Some x # xs) = sum_options (acc + x) xs"

definition fixed_replica_count :: "16 word option list \<Rightarrow> zero_replicas_counting \<Rightarrow> 32 word option" where
  "fixed_replica_count replicas zero_replicas_counting =
     (if zero_replicas_counting = TreatAsNone \<and> replicas = [] then None
      else sum_options 0 (map (\<lambda>replicas.
        case replicas of
          None \<Rightarrow> None
        | Some n \<Rightarrow> if n = 0 \<and> zero_replicas_counting = TreatAsNone then None else Some (ucast n)) replicas))"

definition estimated_replica_count :: "16 word option list \<Rightarrow> 32 word" where
  "estimated_replica_count replicas =
     foldl (\<lambda>acc r. acc + ucast (case r of Some n \<Rightarrow> n | None \<Rightarrow> 1)) 0 replicas"

subsection \<open>Properties\<close>

fun first_some :: "'a option list \<Rightarrow> 'a option" where
  "first_some [] = None"
| "first_some (x # xs) = (case x of None \<Rightarrow> first_some xs | Some _ \<Rightarrow> x)"

lemma option_merge_first_some: "option_merge a (option_merge b c) = first_some [a, b, c]"
  by (auto simp: option_merge_def split: option.splits)

text \<open>
  C28: The closest level wins, field by field: validating a role group whose configuration is
  \<open>Resources\<close> always succeeds, and every leaf of the result is the first set value among role group,
  role and operator defaults, whether or not another leaf of the same struct is set there.
\<close>

theorem role_group_precedence:
  "let merge = resources_merge pvc_config_merge jvm_heap_limits_merge;
       from_fragment = resources_from_fragment pvc_config_from_fragment jvm_heap_limits_from_fragment;
       g = cc_config (rg_config rg); c = cc_config (role_common role)
   in \<exists>r. validate_config merge from_fragment rg role d = Inr r \<and>
    cpu_min (res_cpu r) = first_some [cpu_min (res_cpu g), cpu_min (res_cpu c), cpu_min (res_cpu d)] \<and>
    cpu_max (res_cpu r) = first_some [cpu_max (res_cpu g), cpu_max (res_cpu c), cpu_max (res_cpu d)] \<and>
    mem_limit (res_memory r) = first_some [mem_limit (res_memory g), mem_limit (res_memory c), mem_limit (res_memory d)] \<and>
    heap_max (mem_runtime_limits (res_memory r)) = first_some
      [heap_max (mem_runtime_limits (res_memory g)), heap_max (mem_runtime_limits (res_memory c)), heap_max (mem_runtime_limits (res_memory d))] \<and>
    heap_min (mem_runtime_limits (res_memory r)) = first_some
      [heap_min (mem_runtime_limits (res_memory g)), heap_min (mem_runtime_limits (res_memory c)), heap_min (mem_runtime_limits (res_memory d))] \<and>
    pvc_capacity (res_storage r) = first_some [pvc_capacity (res_storage g), pvc_capacity (res_storage c), pvc_capacity (res_storage d)] \<and>
    pvc_storage_class (res_storage r) = first_some
      [pvc_storage_class (res_storage g), pvc_storage_class (res_storage c), pvc_storage_class (res_storage d)] \<and>
    pvc_selectors (res_storage r) = first_some [pvc_selectors (res_storage g), pvc_selectors (res_storage c), pvc_selectors (res_storage d)] \<and>
    r = merge (merge g c) d"
proof -
  let ?m = "resources_merge pvc_config_merge jvm_heap_limits_merge"
  let ?g = "cc_config (rg_config rg)" and ?c = "cc_config (role_common role)"
  have "validate_config ?m (resources_from_fragment pvc_config_from_fragment jvm_heap_limits_from_fragment) rg role d = Inr (?m ?g (?m ?c d))"
    by (simp add: validate_config_def validate_def resources_from_fragment_total Let_def)
  moreover have "?m ?g (?m ?c d) = ?m (?m ?g ?c) d" by (simp add: resources.merge_assoc)
  ultimately show ?thesis
    unfolding Let_def
    by (intro exI [where x = "?m ?g (?m ?c d)"])
      (simp_all add: resources_merge_def memory_limits_merge_def cpu_limits_merge_def jvm_heap_limits_merge_def
        pvc_config_merge_def option_merge_first_some del: first_some.simps)
qed

text \<open>
  JVM arguments: when the role group exists and all removal patterns compile, the merged overrides
  can be used (the assertions of \<open>effective_jvm_config_after_merging\<close> hold), and the arguments are
  those of the operator that neither level removes, then those of the role that the role group
  does not remove, then those of the role group, each in its order. In particular a level never
  removes its own additions.
\<close>

theorem merged_jvm_arguments:
  assumes "role_groups role g = Some rg"
    and "traverse_list (\<lambda>r. regex_new (with_anchors r)) (jvm_remove_regex (cc_product_specific (role_common role))) = Inr role_regexes"
    and "traverse_list (\<lambda>r. regex_new (with_anchors r)) (jvm_remove_regex (cc_product_specific (rg_config rg))) = Inr group_regexes"
  shows "\<exists>m. get_merged_jvm_argument_overrides regex_new role g operator_generated = Inr m \<and>
    (let from_role = cc_product_specific (role_common role);
         from_group = cc_product_specific (rg_config rg);
         kept_by_role = (\<lambda>a. a \<notin> jvm_remove from_role \<and> (\<forall>p \<in> set role_regexes. \<not> p a));
         kept_by_group = (\<lambda>a. a \<notin> jvm_remove from_group \<and> (\<forall>p \<in> set group_regexes. \<not> p a))
     in effective_jvm_config_after_merging m = Some
       (filter (\<lambda>a. kept_by_role a \<and> kept_by_group a) (jvm_add operator_generated) @
        filter kept_by_group (jvm_add from_role) @ jvm_add from_group))"
proof -
  have tr: "traverse_list (\<lambda>r. map_err (\<lambda>e. InvalidRemoveRegex e (with_anchors r)) (regex_new (with_anchors r))) xs = Inr ys"
    if "traverse_list (\<lambda>r. regex_new (with_anchors r)) xs = Inr ys" for xs ys
    using that by (induction xs arbitrary: ys) auto
  have "get_merged_jvm_argument_overrides regex_new role g operator_generated = Inr
     \<lparr>jvm_add = filter (\<lambda>a. \<not> list_ex (\<lambda>p. p a) group_regexes) (filter (\<lambda>a. a \<notin> jvm_remove (cc_product_specific (rg_config rg)))
        (filter (\<lambda>a. \<not> list_ex (\<lambda>p. p a) role_regexes) (filter (\<lambda>a. a \<notin> jvm_remove (cc_product_specific (role_common role)))
           (jvm_add operator_generated)) @ jvm_add (cc_product_specific (role_common role)))) @ jvm_add (cc_product_specific (rg_config rg)),
      jvm_remove = {}, jvm_remove_regex = []\<rparr>"
    using assms(1) tr [OF assms(2)] tr [OF assms(3)]
    by (simp add: get_merged_jvm_argument_overrides_def try_merge_def Let_def)
  then show ?thesis
    by (auto simp: effective_jvm_config_after_merging_def list_ex_iff Let_def intro!: filter_cong)
qed

theorem merged_jvm_arguments_witness:
  "let rg = \<lparr>rg_config = \<lparr>cc_config = (), cc_overrides = (),
         cc_product_specific = \<lparr>jvm_add = [''-b''], jvm_remove = {}, jvm_remove_regex = [''-a'']\<rparr>\<rparr>, rg_replicas = None\<rparr>;
       role = \<lparr>role_common = \<lparr>cc_config = (), cc_overrides = (),
         cc_product_specific = \<lparr>jvm_add = [''-a''], jvm_remove = {''-x''}, jvm_remove_regex = []\<rparr>\<rparr>,
         role_config = (), role_groups = [''g'' \<mapsto> rg]\<rparr>
   in \<exists>m. get_merged_jvm_argument_overrides (\<lambda>p. Inr (\<lambda>a. p = ''^'' @ a @ ''$'') :: (string \<Rightarrow> bool, unit) result)
        role ''g'' (jvm_new_with_only_additions [''-x'', ''-y'']) = Inr m \<and>
      effective_jvm_config_after_merging m = Some [''-y'', ''-b'']"
proof -
  let ?rg = "\<lparr>rg_config = \<lparr>cc_config = (), cc_overrides = (),
     cc_product_specific = \<lparr>jvm_add = [''-b''], jvm_remove = {}, jvm_remove_regex = [''-a'']\<rparr>\<rparr>, rg_replicas = None\<rparr>"
  let ?role = "\<lparr>role_common = \<lparr>cc_config = (), cc_overrides = (),
     cc_product_specific = \<lparr>jvm_add = [''-a''], jvm_remove = {''-x''}, jvm_remove_regex = []\<rparr>\<rparr>,
     role_config = (), role_groups = [''g'' \<mapsto> ?rg]\<rparr>"
  let ?re = "\<lambda>p. Inr (\<lambda>a. p = ''^'' @ a @ ''$'') :: (string \<Rightarrow> bool, unit) result"
  have 1: "role_groups ?role ''g'' = Some ?rg" by simp
  have 2: "traverse_list (\<lambda>r. ?re (with_anchors r)) (jvm_remove_regex (cc_product_specific (role_common ?role))) = Inr []" by simp
  have 3: "traverse_list (\<lambda>r. ?re (with_anchors r)) (jvm_remove_regex (cc_product_specific (rg_config ?rg))) =
      Inr [\<lambda>a. with_anchors ''-a'' = ''^'' @ a @ ''$'']" by simp
  have w: "with_anchors ''-a'' = ''^-a$''" by (simp add: with_anchors_def trim_start_matches_def trim_end_matches_def)
  from merged_jvm_arguments [OF 1 2 3, of "jvm_new_with_only_additions [''-x'', ''-y'']"] show ?thesis
    by (auto simp: jvm_new_with_only_additions_def Let_def w)
qed

subsection \<open>Replica counts\<close>

lemma unat_sum_u32:
  "sum_options acc (map Some xs) = Some (acc + sum_list xs)"
  by (induction xs arbitrary: acc) (simp_all add: add.assoc)

lemma sum_options_None: "sum_options acc xs = None \<longleftrightarrow> None \<in> set xs"
  by (induction acc xs rule: sum_options.induct) simp_all

lemma unat_sum_list_u16:
  assumes "length xs \<le> 65537"
  shows "unat (sum_list (map (ucast :: 16 word \<Rightarrow> 32 word) xs)) = sum_list (map unat xs) \<and> sum_list (map unat xs) \<le> 65535 * length xs"
  using assms
proof (induction xs)
  case (Cons x xs)
  have x: "unat x < 2 ^ 16" using unsigned_less [of x] by simp
  have IH: "unat (sum_list (map (ucast :: 16 word \<Rightarrow> 32 word) xs)) = sum_list (map unat xs)" "sum_list (map unat xs) \<le> 65535 * length xs"
    using Cons by simp_all
  have "unat x + sum_list (map unat xs) < 2 ^ 32" using x IH(2) Cons.prems by simp
  then have "unat (ucast x + sum_list (map (ucast :: 16 word \<Rightarrow> 32 word) xs)) = unat x + sum_list (map unat xs)"
    using IH(1) by (subst unat_add_lem [THEN iffD1]) simp_all
  then show ?case using x IH(2) by simp
qed simp

text \<open>
  With at most 65537 role groups the 32-bit sums of 16-bit replica counts are exact.
  \<open>fixed_replica_count\<close> is the sum of the counts when all are set (and, when zeros count as unset,
  positive, and there is at least one), and otherwise undefined; \<open>estimated_replica_count\<close> is the sum
  with one replica for each role group without a count.
\<close>

theorem replica_counts_exact:
  assumes "length rs \<le> 65537"
  shows "map_option unat (fixed_replica_count rs counting) =
      (if None \<in> set rs \<or> counting = TreatAsNone \<and> (rs = [] \<or> Some 0 \<in> set rs) then None
       else Some (sum_list (map (\<lambda>r. unat (the r)) rs))) \<and>
    unat (estimated_replica_count rs) = sum_list (map (\<lambda>r. case r of Some n \<Rightarrow> unat n | None \<Rightarrow> 1) rs)"
proof
  let ?c = "\<lambda>r. case r of None \<Rightarrow> None | Some n \<Rightarrow> if n = 0 \<and> counting = TreatAsNone then None else Some (ucast n :: 32 word)"
  have c_None: "?c r = None \<longleftrightarrow> r = None \<or> counting = TreatAsNone \<and> r = Some 0" for r
    by (cases r) auto
  have c_Some: "?c r = Some (ucast (the r))" if "?c r \<noteq> None" for r
    using that by (cases r) (auto split: if_splits)
  have none: "sum_options acc (map ?c rs) = None \<longleftrightarrow> None \<in> ?c ` set rs" for acc
    using sum_options_None [of acc "map ?c rs"] by (simp only: set_map)
  have all: "map ?c rs = map Some (map ucast (map the rs))" if "None \<notin> ?c ` set rs"
    unfolding map_map comp_def
  proof (rule map_cong [OF refl])
    fix r assume "r \<in> set rs"
    then have "?c r \<noteq> None" using that by (metis (no_types, lifting) image_eqI)
    then show "?c r = Some (ucast (the r))" by (rule c_Some)
  qed
  have "None \<in> ?c ` set rs \<longleftrightarrow> (\<exists>r\<in>set rs. ?c r = None)"
    unfolding image_iff by (simp only: eq_commute [of None])
  then have bad: "None \<in> ?c ` set rs \<longleftrightarrow> None \<in> set rs \<or> counting = TreatAsNone \<and> Some 0 \<in> set rs"
    unfolding c_None by blast
  show "map_option unat (fixed_replica_count rs counting) =
      (if None \<in> set rs \<or> counting = TreatAsNone \<and> (rs = [] \<or> Some 0 \<in> set rs) then None
       else Some (sum_list (map (\<lambda>r. unat (the r)) rs)))"
  proof (cases "None \<in> ?c ` set rs")
    case True
    then have "fixed_replica_count rs counting = None" using none by (simp add: fixed_replica_count_def)
    then show ?thesis using True bad by auto
  next
    case False
    have "sum_options 0 (map ?c rs) = Some (sum_list (map ucast (map the rs)))"
      unfolding all [OF False] unat_sum_u32 by simp
    then show ?thesis
      using False bad unat_sum_list_u16 [of "map the rs"] assms by (auto simp: fixed_replica_count_def comp_def)
  qed
  have "estimated_replica_count rs = sum_list (map ucast (map (\<lambda>r. case r of Some n \<Rightarrow> n | None \<Rightarrow> 1) rs))"
  proof -
    have "foldl (\<lambda>acc r. acc + f r) a xs = a + sum_list (map f xs)" for a :: "32 word" and f and xs :: "16 word option list"
      by (induction xs arbitrary: a) (simp_all add: add.assoc)
    then show ?thesis by (simp add: estimated_replica_count_def comp_def)
  qed
  moreover have "(\<lambda>r. unat (case r of Some n \<Rightarrow> n | None \<Rightarrow> (1 :: 16 word))) = (\<lambda>r. case r of Some n \<Rightarrow> unat n | None \<Rightarrow> 1)"
    by (auto split: option.splits)
  ultimately show "unat (estimated_replica_count rs) = sum_list (map (\<lambda>r. case r of Some n \<Rightarrow> unat n | None \<Rightarrow> 1) rs)"
    using unat_sum_list_u16 [of "map (\<lambda>r. case r of Some n \<Rightarrow> n | None \<Rightarrow> 1) rs", THEN conjunct1] assms
    by (simp only: map_map comp_def length_map)
qed

theorem replica_counts_exact_witness:
  "map_option unat (fixed_replica_count [Some 3, Some 65535] TreatAsNone) = Some 65538 \<and>
   unat (estimated_replica_count [None, Some 2]) = 3"
  using replica_counts_exact [of "[Some 3, Some 65535]" TreatAsNone] replica_counts_exact [of "[None, Some 2]" TreatAsNone] by simp

end
