(* ===== verification/Kvp_Key.thy ===== *)
theory Kvp_Key
  imports Validation Length_Enforcement "HOL-Library.Product_Lexorder"
begin

section \<open>Keys of labels and annotations\<close>

text \<open>
  \<open>stackable-operator/src/kvp/key.rs\<close>: an optional prefix and a name, checked against the
  Kubernetes rules. The struct caches its printed form in its first field, which the derived
  order compares first. The newtypes \<open>KeyPrefix\<close> and \<open>KeyName\<close> are their strings.
\<close>

definition KEY_PREFIX_MAX_LEN :: nat where
  "KEY_PREFIX_MAX_LEN = 253"

definition KEY_NAME_MAX_LEN :: nat where
  "KEY_NAME_MAX_LEN = 63"

text \<open>\<open>^[a-zA-Z](\.?[a-zA-Z0-9-])*\.[a-zA-Z]{2,}\.?$\<close>\<close>

definition alphas :: "(char \<times> char) list" where
  "alphas = [(CHR ''a'', CHR ''z''), (CHR ''A'', CHR ''Z'')]"

definition KEY_PREFIX_REGEX :: regex where
  "KEY_PREFIX_REGEX =
     Seq (Class alphas) (Seq (Star (Seq (Opt (Lit (CHR ''.''))) (Class dash_alnum)))
       (Seq (Lit (CHR ''.'')) (Seq (AtLeast2 (Class alphas)) (Opt (Lit (CHR ''.''))))))"

text \<open>\<open>^[a-z0-9A-Z]([a-z0-9A-Z-_.]*[a-z0-9A-Z]+)?$\<close>\<close>

definition name_chars :: "(char \<times> char) list" where
  "name_chars = alnum @ [(CHR ''-'', CHR ''-''), (CHR ''_'', CHR ''_''), (CHR ''.'', CHR ''.'')]"

definition KEY_NAME_REGEX :: regex where
  "KEY_NAME_REGEX = Seq (Class alnum) (Opt (Seq (Star (Class name_chars)) (Plus (Class alnum))))"

datatype key_prefix_error = PrefixEmpty | PrefixTooLong nat | PrefixNotAscii | PrefixInvalid

datatype key_name_error = NameEmpty | NameTooLong nat | NameNotAscii | NameInvalid

datatype key_error = EmptyInput | NestedPrefix | KeyPrefixError key_prefix_error | KeyNameError key_name_error

datatype key = Key (key_string: string) (key_prefix: "string option") (key_name: string)

definition key_prefix_from_str :: "string \<Rightarrow> (string, key_prefix_error) result" where
  "key_prefix_from_str input =
     and_then (ensure (input \<noteq> []) PrefixEmpty) (\<lambda>_.
     and_then (ensure (length input \<le> KEY_PREFIX_MAX_LEN) (PrefixTooLong (length input))) (\<lambda>_.
     and_then (ensure (is_ascii input) PrefixNotAscii) (\<lambda>_.
     and_then (ensure (is_match KEY_PREFIX_REGEX input) PrefixInvalid) (\<lambda>_.
     Inr input))))"

definition key_name_from_str :: "string \<Rightarrow> (string, key_name_error) result" where
  "key_name_from_str input =
     and_then (ensure (input \<noteq> []) NameEmpty) (\<lambda>_.
     and_then (ensure (length input \<le> KEY_NAME_MAX_LEN) (NameTooLong (length input))) (\<lambda>_.
     and_then (ensure (is_ascii input) NameNotAscii) (\<lambda>_.
     and_then (ensure (is_match KEY_NAME_REGEX input) NameInvalid) (\<lambda>_.
     Inr input))))"

fun key_format :: "string option \<Rightarrow> string \<Rightarrow> string" where
  "key_format (Some prefix) name = prefix @ ''/'' @ name"
| "key_format None name = name"

definition key_from_str :: "string \<Rightarrow> (key, key_error) result" where
  "key_from_str input =
     (let input = trim input in
      and_then (ensure (input \<noteq> []) EmptyInput) (\<lambda>_.
      and_then (case split_char (CHR ''/'') input of
                  [name] \<Rightarrow> Inr (None, name)
                | [prefix, name] \<Rightarrow> Inr (Some prefix, name)
                | _ \<Rightarrow> Inl NestedPrefix) (\<lambda>(prefix, name).
      and_then (map_err KeyPrefixError (traverse_option key_prefix_from_str prefix)) (\<lambda>prefix.
      and_then (map_err KeyNameError (key_name_from_str name)) (\<lambda>name.
      Inr (Key (key_format prefix name) prefix name))))))"

definition key_fmt :: "key \<Rightarrow> string" where
  "key_fmt k = key_string k"

text \<open>The outer option is the panic of \<open>ensure_max_string_length\<close>.\<close>

definition key_new_trimmed ::
    "(string \<Rightarrow> string) \<Rightarrow> string option \<Rightarrow> string \<Rightarrow> (key, key_error) result option" where
  "key_new_trimmed sha256_hex prefix name =
     (case ensure_max_string_length sha256_hex name KEY_NAME_MAX_LEN 8 of
        None \<Rightarrow> None
      | Some name \<Rightarrow> Some (key_from_str (key_format prefix name)))"

subsection \<open>The derived order\<close>

definition key_triple :: "key \<Rightarrow> string \<times> string option \<times> string" where
  "key_triple k = (key_string k, key_prefix k, key_name k)"

lemma key_triple_inject [simp]: "key_triple k = key_triple l \<longleftrightarrow> k = l"
  by (cases k; cases l) (simp add: key_triple_def)

instantiation key :: linorder
begin

definition less_eq_key :: "key \<Rightarrow> key \<Rightarrow> bool" where
  "less_eq_key k l \<longleftrightarrow> key_triple k \<le> key_triple l"

definition less_key :: "key \<Rightarrow> key \<Rightarrow> bool" where
  "less_key k l \<longleftrightarrow> key_triple k < key_triple l"

instance
proof
  fix k l m :: key
  show "(k < l) = (k \<le> l \<and> \<not> l \<le> k)" unfolding less_eq_key_def less_key_def by (rule less_le_not_le)
  show "k \<le> k" unfolding less_eq_key_def by (rule order_refl)
  show "k \<le> l \<Longrightarrow> l \<le> m \<Longrightarrow> k \<le> m" unfolding less_eq_key_def by (rule order_trans)
  show "k \<le> l \<Longrightarrow> l \<le> k \<Longrightarrow> k = l" unfolding less_eq_key_def using key_triple_inject order_antisym by blast
  show "k \<le> l \<or> l \<le> k" unfolding less_eq_key_def by (rule linear)
qed

end

subsection \<open>What the patterns accept\<close>

definition name_char :: "char \<Rightarrow> bool" where
  "name_char c \<longleftrightarrow> alnum_char c \<or> c \<in> {CHR ''-'', CHR ''_'', CHR ''.''}"

text \<open>A qualified name: not empty, name characters only, alphanumeric at both ends.\<close>

definition qualified_name :: "string \<Rightarrow> bool" where
  "qualified_name s \<longleftrightarrow> s \<noteq> [] \<and> list_all name_char s \<and> alnum_char (hd s) \<and> alnum_char (last s)"

lemma key_class_simps:
  "in_class name_chars c \<longleftrightarrow> name_char c"
  "in_class alphas c \<longleftrightarrow> is_alpha c"
  by (auto simp: in_class_def name_chars_def alphas_def alnum_def name_char_def alnum_char_def
      is_alpha_def is_lower_def is_upper_def is_digit_def)

lemma key_name_regex_iff: "is_match KEY_NAME_REGEX s \<longleftrightarrow> qualified_name s"
proof -
  have seq: "u \<in> lang (Seq (Star (Class name_chars)) (Plus (Class alnum))) \<longleftrightarrow>
      u \<noteq> [] \<and> list_all name_char u \<and> alnum_char (last u)" for u
  proof
    assume "u \<in> lang (Seq (Star (Class name_chars)) (Plus (Class alnum)))"
    then obtain a b where u: "u = a @ b" "a \<in> lang (Star (Class name_chars))" "b \<in> lang (Plus (Class alnum))"
      by (auto simp only: lang.simps(4) mem_Collect_eq)
    then have "list_all name_char a" "b \<noteq> []" "list_all alnum_char b"
      by (simp_all add: lang_Plus_Class key_class_simps validation_class_simps list_all_iff del: lang.simps(6))
    with u(1) show "u \<noteq> [] \<and> list_all name_char u \<and> alnum_char (last u)"
      by (auto simp: list_all_iff name_char_def)
  next
    assume *: "u \<noteq> [] \<and> list_all name_char u \<and> alnum_char (last u)"
    then obtain a c where u: "u = a @ [c]" by (cases u rule: rev_cases) auto
    with * have "a \<in> lang (Star (Class name_chars))" "[c] \<in> lang (Plus (Class alnum))"
      by (auto simp: lang_Plus_Class key_class_simps validation_class_simps list_all_iff simp del: lang.simps(6))
    then show "u \<in> lang (Seq (Star (Class name_chars)) (Plus (Class alnum)))"
      unfolding u by (auto simp only: lang.simps(4) mem_Collect_eq)
  qed
  show ?thesis
    unfolding is_match_iff KEY_NAME_REGEX_def lang_Seq_Class lang_Opt seq
    by (cases s) (auto simp: qualified_name_def validation_class_simps name_char_def)
qed

text \<open>\<open>(\.?[a-zA-Z0-9-])*\<close>: every dot is followed by a character of the class.\<close>

fun dots_inside :: "string \<Rightarrow> bool" where
  "dots_inside [] \<longleftrightarrow> True"
| "dots_inside [c] \<longleftrightarrow> alnum_char c \<or> c = CHR ''-''"
| "dots_inside (c # d # s) \<longleftrightarrow>
     (if c = CHR ''.'' then (alnum_char d \<or> d = CHR ''-'') \<and> dots_inside s
      else (alnum_char c \<or> c = CHR ''-'') \<and> dots_inside (d # s))"

lemma not_alnum_dot: "\<not> alnum_char (CHR ''.'')"
  by (simp add: alnum_char_def class_defs)

lemma dots_inside_Cons: "alnum_char c \<or> c = CHR ''-'' \<Longrightarrow> dots_inside (c # s) \<longleftrightarrow> dots_inside s"
proof -
  assume c: "alnum_char c \<or> c = CHR ''-''"
  then have "c \<noteq> CHR ''.''" using not_alnum_dot by auto
  with c show ?thesis by (cases s) simp_all
qed

lemma lang_dotted_char:
  "u \<in> lang (Seq (Opt (Lit (CHR ''.''))) (Class dash_alnum)) \<longleftrightarrow>
     (\<exists>c. (alnum_char c \<or> c = CHR ''-'') \<and> (u = [c] \<or> u = [CHR ''.'', c]))"
  unfolding lang_Class_Seq lang_Opt lang_Lit validation_class_simps
proof
  assume "\<exists>t c. u = t @ [c] \<and> (t = [] \<or> t = ''.'') \<and> (alnum_char c \<or> c = CHR ''-'')"
  then obtain t c where "u = t @ [c]" "t = [] \<or> t = ''.''" "alnum_char c \<or> c = CHR ''-''" by blast
  then show "\<exists>c. (alnum_char c \<or> c = CHR ''-'') \<and> (u = [c] \<or> u = [CHR ''.'', c])"
    by (intro exI [where x = c]) auto
next
  assume "\<exists>c. (alnum_char c \<or> c = CHR ''-'') \<and> (u = [c] \<or> u = [CHR ''.'', c])"
  then obtain c where "alnum_char c \<or> c = CHR ''-''" "u = [] @ [c] \<or> u = ''.'' @ [c]" by auto
  then show "\<exists>t c. u = t @ [c] \<and> (t = [] \<or> t = ''.'') \<and> (alnum_char c \<or> c = CHR ''-'')" by blast
qed

lemma dots_inside_iff:
  "s \<in> iter_lang (lang (Seq (Opt (Lit (CHR ''.''))) (Class dash_alnum))) \<longleftrightarrow> dots_inside s"
  (is "s \<in> iter_lang ?L \<longleftrightarrow> _")
proof
  show "s \<in> iter_lang ?L \<Longrightarrow> dots_inside s"
  proof (induction rule: iter_lang.induct)
    case (iter_more u v)
    then show ?case unfolding lang_dotted_char by (auto simp: dots_inside_Cons)
  qed simp
  show "dots_inside s \<Longrightarrow> s \<in> iter_lang ?L"
  proof (induction s rule: dots_inside.induct)
    case (2 c)
    then have "[c] \<in> ?L" unfolding lang_dotted_char by simp
    then show ?case using iter_lang.iter_more [OF _ iter_lang.iter_none] by fastforce
  next
    case (3 c d s)
    show ?case
    proof (cases "c = CHR ''.''")
      case True
      with 3 have "[c, d] \<in> ?L" "s \<in> iter_lang ?L" unfolding lang_dotted_char by simp_all
      then show ?thesis using iter_lang.iter_more [of "[c, d]"] by simp
    next
      case False
      with 3 have "[c] \<in> ?L" "d # s \<in> iter_lang ?L" unfolding lang_dotted_char by simp_all
      then show ?thesis using iter_lang.iter_more [of "[c]"] by simp
    qed
  qed (rule iter_lang.iter_none)
qed

text \<open>
  A prefix: a letter, a body with the dots inside, a dot, a top-level domain of at least two
  letters, and possibly a dot at the end.
\<close>

definition prefix_split :: "string \<Rightarrow> string \<Rightarrow> string \<Rightarrow> string \<Rightarrow> bool" where
  "prefix_split s body tld dot \<longleftrightarrow>
     s \<noteq> [] \<and> is_alpha (hd s) \<and> tl s = body @ ''.'' @ tld @ dot \<and> dots_inside body \<and>
     2 \<le> length tld \<and> list_all is_alpha tld \<and> dot \<in> {[], ''.''}"

lemma lang_AtLeast2_Class:
  "s \<in> lang (AtLeast2 (Class rs)) \<longleftrightarrow> 2 \<le> length s \<and> list_all (in_class rs) s"
  unfolding AtLeast2_def lang_Seq_Class lang_Plus_Class
  by (cases s) (auto simp: neq_Nil_conv, case_tac list, auto)

lemma key_prefix_regex_iff:
  "is_match KEY_PREFIX_REGEX s \<longleftrightarrow> (\<exists>body tld dot. prefix_split s body tld dot)"
proof -
  have "t \<in> lang (Seq (AtLeast2 (Class alphas)) (Opt (Lit (CHR ''.'')))) \<longleftrightarrow>
     (\<exists>tld dot. t = tld @ dot \<and> 2 \<le> length tld \<and> list_all is_alpha tld \<and> dot \<in> {[], ''.''})" for t
    unfolding lang.simps(4) mem_Collect_eq lang_AtLeast2_Class lang_Opt lang_Lit key_class_simps by auto
  then have tail: "t \<in> lang (Seq (Star (Seq (Opt (Lit (CHR ''.''))) (Class dash_alnum)))
       (Seq (Lit (CHR ''.'')) (Seq (AtLeast2 (Class alphas)) (Opt (Lit (CHR ''.'')))))) \<longleftrightarrow>
     (\<exists>body v. t = body @ v \<and> dots_inside body \<and> (\<exists>a b. v = a @ b \<and> a = ''.'' \<and>
        (\<exists>tld dot. b = tld @ dot \<and> 2 \<le> length tld \<and> list_all is_alpha tld \<and> dot \<in> {[], ''.''})))" for t
    by (simp only: lang_Seq_iff [of _ "Star _"] lang_Seq_iff [of _ "Lit _"] lang.simps(6) dots_inside_iff lang_Lit)
  have "c # t \<in> lang KEY_PREFIX_REGEX \<longleftrightarrow> (\<exists>body tld dot. prefix_split (c # t) body tld dot)" for c t
    unfolding KEY_PREFIX_REGEX_def lang_Seq_Class tail key_class_simps prefix_split_def list.sel list.inject by blast
  moreover have "[] \<notin> lang KEY_PREFIX_REGEX" unfolding KEY_PREFIX_REGEX_def lang_Seq_Class by simp
  moreover have "\<not> prefix_split [] body tld dot" for body tld dot by (simp add: prefix_split_def)
  ultimately show ?thesis unfolding is_match_iff by (metis list.exhaust)
qed

subsection \<open>Well-formed keys\<close>

definition prefix_ok :: "string \<Rightarrow> bool" where
  "prefix_ok p \<longleftrightarrow> length p \<le> 253 \<and> (\<exists>body tld dot. prefix_split p body tld dot)"

definition name_ok :: "string \<Rightarrow> bool" where
  "name_ok n \<longleftrightarrow> length n \<le> 63 \<and> qualified_name n"

definition key_wf :: "key \<Rightarrow> bool" where
  "key_wf k \<longleftrightarrow> pred_option prefix_ok (key_prefix k) \<and> name_ok (key_name k) \<and>
     key_string k = key_format (key_prefix k) (key_name k)"

text \<open>The characters of prefixes and names: ASCII, no slash and no white space.\<close>

definition key_char :: "char \<Rightarrow> bool" where
  "key_char c \<longleftrightarrow> (of_char c :: nat) < 128 \<and> c \<noteq> CHR ''/'' \<and> \<not> is_whitespace c"

lemma key_char_class: "name_char c \<Longrightarrow> key_char c" "is_alpha c \<Longrightarrow> key_char c"
  by (auto simp: key_char_def name_char_def alnum_char_def class_defs)

lemma dots_inside_chars: "dots_inside s \<Longrightarrow> list_all key_char s"
proof (induction s rule: dots_inside.induct)
  case (3 c d s)
  have "key_char (CHR ''.'')" by (simp add: key_char_def class_defs)
  with 3 show ?case by (auto simp: name_char_def intro: key_char_class split: if_splits)
qed (auto intro: key_char_class simp: name_char_def)

lemma prefix_ok_chars: "prefix_ok p \<Longrightarrow> p \<noteq> [] \<and> list_all key_char p"
proof -
  assume "prefix_ok p"
  then obtain body tld dot where *: "prefix_split p body tld dot" unfolding prefix_ok_def by blast
  then obtain c t where p: "p = c # t" by (cases p) (auto simp: prefix_split_def)
  have "key_char (CHR ''.'')" by (simp add: key_char_def class_defs)
  with * p show ?thesis
    by (auto simp: prefix_split_def list_all_iff intro: key_char_class dest: dots_inside_chars)
qed

lemma name_ok_chars: "name_ok n \<Longrightarrow> n \<noteq> [] \<and> list_all key_char n"
  by (auto simp: name_ok_def qualified_name_def list_all_iff intro: key_char_class)

lemma key_chars_ascii: "list_all key_char s \<Longrightarrow> is_ascii s"
  by (simp add: is_ascii_def list_all_iff key_char_def)

lemma key_prefix_from_str_iff [simp]: "key_prefix_from_str s = Inr p \<longleftrightarrow> p = s \<and> prefix_ok s"
proof -
  have "prefix_ok s \<Longrightarrow> s \<noteq> [] \<and> is_ascii s" using prefix_ok_chars key_chars_ascii by blast
  then show ?thesis
    unfolding key_prefix_from_str_def
    by (auto simp: prefix_ok_def key_prefix_regex_iff KEY_PREFIX_MAX_LEN_def simp del: is_match.simps)
qed

lemma key_name_from_str_iff [simp]: "key_name_from_str s = Inr n \<longleftrightarrow> n = s \<and> name_ok s"
proof -
  have "name_ok s \<Longrightarrow> s \<noteq> [] \<and> is_ascii s" using name_ok_chars key_chars_ascii by blast
  then show ?thesis
    unfolding key_name_from_str_def
    by (auto simp: name_ok_def key_name_regex_iff KEY_NAME_MAX_LEN_def simp del: is_match.simps)
qed

lemma key_format_trim:
  assumes "pred_option prefix_ok p" "name_ok n"
  shows "trim (key_format p n) = key_format p n" "key_format p n \<noteq> []"
    "split_char (CHR ''/'') (key_format p n) = (case p of None \<Rightarrow> [n] | Some q \<Rightarrow> [q, n])"
proof -
  have n: "n \<noteq> []" "list_all key_char n" using assms name_ok_chars by blast+
  have p: "q \<noteq> [] \<and> list_all key_char q" if "p = Some q" for q using assms that prefix_ok_chars by simp
  show "key_format p n \<noteq> []" using n by (cases p) auto
  show "trim (key_format p n) = key_format p n"
  proof (rule trim_id)
    show "\<not> is_whitespace (hd (key_format p n)) \<and> \<not> is_whitespace (last (key_format p n))"
      using n p by (cases p) (auto simp: list_all_iff key_char_def hd_append)
  qed
  have "CHR ''/'' \<notin> set n" "\<And>q. p = Some q \<Longrightarrow> CHR ''/'' \<notin> set q"
    using n p by (auto simp: list_all_iff key_char_def)
  then show "split_char (CHR ''/'') (key_format p n) = (case p of None \<Rightarrow> [n] | Some q \<Rightarrow> [q, n])"
    by (cases p) auto
qed

lemma key_from_str_iff:
  "key_from_str s = Inr k \<longleftrightarrow>
     (\<exists>p n. trim s = key_format p n \<and> pred_option prefix_ok p \<and> name_ok n \<and> k = Key (trim s) p n)"
proof
  assume "key_from_str s = Inr k"
  then obtain p n where split: "(case split_char (CHR ''/'') (trim s) of
        [name] \<Rightarrow> Inr (None, name) | [prefix, name] \<Rightarrow> Inr (Some prefix, name) | _ \<Rightarrow> Inl NestedPrefix) = Inr (p, n)"
      and ok: "pred_option prefix_ok p" "name_ok n" and k: "k = Key (key_format p n) p n"
    by (auto simp: key_from_str_def Let_def) (case_tac a; auto)
  have "trim s = key_format p n"
    using split by (auto split: list.splits simp: split_char_one_iff split_char_two_iff)
  with ok k show "\<exists>p n. trim s = key_format p n \<and> pred_option prefix_ok p \<and> name_ok n \<and> k = Key (trim s) p n"
    by auto
next
  assume "\<exists>p n. trim s = key_format p n \<and> pred_option prefix_ok p \<and> name_ok n \<and> k = Key (trim s) p n"
  then obtain p n where *: "trim s = key_format p n" "pred_option prefix_ok p" "name_ok n" "k = Key (trim s) p n"
    by blast
  then show "key_from_str s = Inr k"
    using key_format_trim [OF *(2,3)] by (cases p) (auto simp: key_from_str_def)
qed

interpretation key: normal_form key_wf key_fmt key_from_str
proof
  show "key_from_str (key_fmt k) = Inr k" if "key_wf k" for k
    using that key_format_trim [of "key_prefix k" "key_name k"]
    by (cases k) (auto simp: key_from_str_iff key_wf_def key_fmt_def)
  show "key_wf k" if "key_from_str s = Inr k" for s k
    using that by (auto simp: key_from_str_iff key_wf_def)
qed


lemma key_wf_fmt_inject: "key_wf k \<Longrightarrow> key_wf l \<Longrightarrow> key_fmt k = key_fmt l \<longleftrightarrow> k = l"
  by (rule key.fmt_inject)

text \<open>The derived order of keys is the order of their printed forms.\<close>

lemma key_less_iff: "key_wf k \<Longrightarrow> key_wf l \<Longrightarrow> k < l \<longleftrightarrow> key_fmt k < key_fmt l"
proof -
  assume wf: "key_wf k" "key_wf l"
  show ?thesis
  proof (cases "key_fmt k = key_fmt l")
    case True
    then show ?thesis using key_wf_fmt_inject [OF wf] by auto
  next
    case False
    then show ?thesis by (auto simp: less_key_def key_triple_def key_fmt_def)
  qed
qed

subsection \<open>Trimmed keys\<close>

lemma is_hex_alnum: "is_hex_lower c \<Longrightarrow> alnum_char c"
  by (auto simp: is_hex_lower_def alnum_char_def class_defs)

lemma name_chars_ascii: "list_all name_char s \<Longrightarrow> is_ascii s"
  by (rule key_chars_ascii) (auto simp: list_all_iff intro: key_char_class)

lemma shortened_name:
  assumes h: "hex_digest sha256_hex" and s: "list_all name_char s" "alnum_char (hd s)" and len: "63 < length s"
  shows "\<exists>n. ensure_max_string_length sha256_hex s 63 8 = Some n \<and> name_ok n"
proof -
  define name where "name = take 54 s"
  define c where "c = s ! 54"
  define d where "d = take 8 (sha256_hex s)"
  have "take (Suc 54) s = name @ [c]" unfolding name_def c_def using len by (intro take_Suc_conv_app_nth) simp
  then have tk: "take 55 s = name @ [c]" by (simp only: eval_nat_numeral)
  have ne: "name \<noteq> []" and ln: "length name = 54" and hd: "hd name = hd s"
    unfolding name_def using len by (auto simp: hd_take)
  have asc: "is_ascii (name @ [c])" unfolding tk [symmetric]
    using s(1) by (intro name_chars_ascii) (auto simp: list_all_iff dest: in_set_takeD)
  have pop: "pop_char (truncate_at_char_boundary s (63 - 8)) = (name, Some [c])"
    using truncate_ascii [OF name_chars_ascii [OF s(1)], of 55] tk pop_char_ascii [OF asc] by simp
  let ?dash = "if last name \<noteq> CHR ''-'' \<or> c = CHR ''-'' then ''-'' else []"
  have r: "ensure_max_string_length sha256_hex s 63 8 = Some (name @ ?dash @ d)"
    using len ne pop by (auto simp: ensure_max_string_length_def d_def Let_def)
  have d: "length d = 8" "list_all alnum_char d"
    using h unfolding hex_digest_def d_def by (auto simp: list_all_iff intro: is_hex_alnum dest: in_set_takeD)
  then have dl: "d \<noteq> []" "alnum_char (last d)" by (auto simp: list_all_iff) (metis last_in_set list.size(3) zero_neq_numeral)
  have "list_all name_char name" using s(1) by (auto simp: name_def list_all_iff dest: in_set_takeD)
  moreover have "list_all name_char d" using d(2) by (auto simp: list_all_iff name_char_def)
  ultimately have "qualified_name (name @ ?dash @ d)"
    using ne hd s(2) dl by (auto simp: qualified_name_def name_char_def hd_append)
  then have "name_ok (name @ ?dash @ d)" using ln d by (auto simp: name_ok_def)
  with r show ?thesis by blast
qed

text \<open>
  Trimming makes every overlong name usable: for a valid prefix and a name of name characters
  that starts with a letter or digit and is longer than 63 characters, \<open>Key::new_trimmed\<close> neither
  panics nor fails, whatever the last characters of the name are, and keeps the prefix.
\<close>

theorem key_new_trimmed_total:
  assumes "hex_digest sha256_hex" "pred_option prefix_ok p"
    and "list_all name_char n" "alnum_char (hd n)" "63 < length n"
  shows "\<exists>k. key_new_trimmed sha256_hex p n = Some (Inr k) \<and> key_prefix k = p \<and>
    length (key_name k) \<le> 63 \<and> key_from_str (key_fmt k) = Inr k"
proof -
  obtain m where m: "ensure_max_string_length sha256_hex n 63 8 = Some m" "name_ok m"
    using shortened_name assms by blast
  have wf: "key_wf (Key (key_format p m) p m)" using assms m by (simp add: key_wf_def)
  then have "key_from_str (key_format p m) = Inr (Key (key_format p m) p m)"
    using key.from_str_fmt [OF wf] by (simp add: key_fmt_def)
  with m wf show ?thesis
    using key.from_str_fmt [OF wf] by (auto simp: key_new_trimmed_def KEY_NAME_MAX_LEN_def name_ok_def)
qed

theorem key_new_trimmed_total_witness:
  "\<exists>k. key_new_trimmed (\<lambda>_. replicate 64 (CHR ''0'')) None (replicate 70 (CHR ''a'')) = Some (Inr k) \<and>
     length (key_name k) \<le> 63"
proof -
  have "hex_digest (\<lambda>_. replicate 64 (CHR ''0''))"
    by (simp add: hex_digest_def is_hex_lower_def class_defs list_all_iff)
  from key_new_trimmed_total [OF this, of None "replicate 70 (CHR ''a'')"] show ?thesis
    by (auto simp: list_all_iff name_char_def alnum_char_def class_defs)
qed

subsection \<open>Constant keys\<close>

text \<open>A sufficient condition that evaluates, for the keys written in the sources.\<close>

lemma prefix_okI:
  "prefix_split (c # body @ ''.'' @ tld) body tld [] \<Longrightarrow> length body + length tld \<le> 251 \<Longrightarrow>
   prefix_ok (c # body @ ''.'' @ tld)"
  unfolding prefix_ok_def by auto

lemma key_from_str_const:
  assumes "prefix_ok p" "name_ok n"
  shows "key_from_str (p @ ''/'' @ n) = Inr (Key (p @ ''/'' @ n) (Some p) n)"
  using key.from_str_fmt [of "Key (p @ ''/'' @ n) (Some p) n"] assms by (simp add: key_wf_def key_fmt_def)

end
