(* ===== verification/Kvp.thy ===== *)
theory Kvp
  imports Kvp_Key BTree_Map
begin

section \<open>Key/value pairs\<close>

text \<open>
  \<open>stackable-operator/src/kvp/mod.rs\<close> and \<open>value.rs\<close>. The pairs are generic over the value type;
  the operations take the value's \<open>FromStr\<close> and \<open>Display\<close> as arguments, and the locale
  \<open>kvp_value\<close> is the trait \<open>Value\<close>: reading keeps the text, and the text determines the value.
  \<open>KeyValuePair\<close> is the pair of its fields (its derived order is the lexicographic one), and
  \<open>KeyValuePairs\<close> is its \<open>BTreeMap\<close>.
\<close>

type_synonym 'v key_value_pair = "key \<times> 'v"

type_synonym 'v key_value_pairs = "(key, 'v) btreemap"

datatype 'e key_value_pair_error = InvalidKey key_error string | InvalidValue 'e string string

datatype key_value_pairs_error = KeyAlreadyExists

definition kvp_try_from ::
    "(string \<Rightarrow> ('v, 'e) result) \<Rightarrow> string \<times> string \<Rightarrow> ('v key_value_pair, 'e key_value_pair_error) result" where
  "kvp_try_from value_from_str value =
     and_then (map_err (\<lambda>e. InvalidKey e (fst value)) (key_from_str (fst value))) (\<lambda>key.
     and_then (map_err (\<lambda>e. InvalidValue e (key_fmt key) (snd value)) (value_from_str (snd value))) (\<lambda>v.
     Inr (key, v)))"

definition kvp_fmt :: "('v \<Rightarrow> string) \<Rightarrow> 'v key_value_pair \<Rightarrow> string" where
  "kvp_fmt value_fmt p = key_fmt (fst p) @ ''='' @ value_fmt (snd p)"

definition kvps_from_iter :: "'v key_value_pair list \<Rightarrow> 'v key_value_pairs" where
  "kvps_from_iter iter = btree_collect iter"

text \<open>
  The fallible collection goes through a \<open>BTreeSet\<close> of pairs, so the pairs reach \<open>from_iter\<close> in
  ascending order of key and value.
\<close>

definition kvps_try_from_iter ::
    "(string \<Rightarrow> ('v::linorder, 'e) result) \<Rightarrow> (string \<times> string) list
      \<Rightarrow> ('v key_value_pairs, 'e key_value_pair_error) result" where
  "kvps_try_from_iter value_from_str iter =
     and_then (traverse_list (kvp_try_from value_from_str) iter) (\<lambda>pairs.
     Inr (kvps_from_iter (btreeset_collect pairs)))"

text \<open>\<open>TryFrom\<close> for maps and arrays of pairs.\<close>

definition kvps_try_from_map ::
    "(string \<Rightarrow> ('v::linorder, 'e) result) \<Rightarrow> (string, string) btreemap
      \<Rightarrow> ('v key_value_pairs, 'e key_value_pair_error) result" where
  "kvps_try_from_map value_from_str m = kvps_try_from_iter value_from_str m"

definition kvps_try_from_array ::
    "(string \<Rightarrow> ('v::linorder, 'e) result) \<Rightarrow> (string \<times> string) list
      \<Rightarrow> ('v key_value_pairs, 'e key_value_pair_error) result" where
  "kvps_try_from_array value_from_str xs = kvps_try_from_iter value_from_str xs"

definition kvps_into_map :: "('v \<Rightarrow> string) \<Rightarrow> 'v key_value_pairs \<Rightarrow> (string, string) btreemap" where
  "kvps_into_map value_fmt m = btree_collect (map (\<lambda>(k, v). (key_fmt k, value_fmt v)) m)"

definition kvps_new :: "'v key_value_pairs" where
  "kvps_new = []"

definition kvps_new_with :: "'v key_value_pair list \<Rightarrow> 'v key_value_pairs" where
  "kvps_new_with pairs = kvps_from_iter pairs"

definition kvps_extend :: "'v key_value_pairs \<Rightarrow> 'v key_value_pairs \<Rightarrow> 'v key_value_pairs" where
  "kvps_extend self other = btree_extend self other"

definition kvps_insert :: "'v key_value_pair \<Rightarrow> 'v key_value_pairs \<Rightarrow> 'v key_value_pairs" where
  "kvps_insert p self = btree_insert (fst p) (snd p) self"

definition kvps_try_insert ::
    "'v key_value_pair \<Rightarrow> 'v key_value_pairs \<Rightarrow> ('v key_value_pairs, key_value_pairs_error) result" where
  "kvps_try_insert p self =
     and_then (ensure (\<not> btree_contains_key self (fst p)) KeyAlreadyExists) (\<lambda>_.
     Inr (kvps_insert p self))"

text \<open>The arguments of \<open>contains\<close> and \<open>contains_key\<close> are the outcomes of \<open>try_into\<close>.\<close>

definition kvps_contains :: "('v key_value_pair, 'x) result \<Rightarrow> 'v key_value_pairs \<Rightarrow> bool" where
  "kvps_contains p self =
     (case p of
        Inl _ \<Rightarrow> False
      | Inr (k, v) \<Rightarrow>
          (case btree_get self k of
             None \<Rightarrow> False
           | Some value \<Rightarrow> value = v))"

definition kvps_contains_key :: "(key, 'x) result \<Rightarrow> 'v key_value_pairs \<Rightarrow> bool" where
  "kvps_contains_key k self =
     (case k of
        Inl _ \<Rightarrow> False
      | Inr key \<Rightarrow> btree_contains_key self key)"

definition kvps_iter :: "'v key_value_pairs \<Rightarrow> 'v key_value_pair list" where
  "kvps_iter self = map (\<lambda>(k, v). (k, v)) self"

subsection \<open>Lemmas\<close>

lemma kvp_try_from_Inr_iff:
  "kvp_try_from vfs (a, b) = Inr p \<longleftrightarrow> key_from_str a = Inr (fst p) \<and> vfs b = Inr (snd p)"
  by (cases p) (auto simp: kvp_try_from_def)

definition kvps_wf :: "'v key_value_pairs \<Rightarrow> bool" where
  "kvps_wf m \<longleftrightarrow> btree_inv m \<and> (\<forall>(k, v)\<in>set m. key_wf k)"

lemma kvps_wf_D: "kvps_wf m \<Longrightarrow> btree_inv m" "kvps_wf m \<Longrightarrow> (k, v) \<in> set m \<Longrightarrow> key_wf k"
  by (auto simp: kvps_wf_def)

lemma kvps_wf_new [simp]: "kvps_wf kvps_new"
  by (simp add: kvps_wf_def kvps_new_def)

lemma kvps_wf_insert: "kvps_wf m \<Longrightarrow> key_wf (fst p) \<Longrightarrow> kvps_wf (kvps_insert p m)"
  using btree_insert_set [of "fst p" "snd p" m] by (cases p) (auto simp: kvps_wf_def kvps_insert_def)

lemma kvps_wf_extend: "kvps_wf m \<Longrightarrow> kvps_wf n \<Longrightarrow> kvps_wf (kvps_extend m n)"
  using btree_extend_set [of m n] by (fastforce simp: kvps_wf_def kvps_extend_def)

lemma kvps_wf_from_iter: "(\<forall>(k, v)\<in>set xs. key_wf k) \<Longrightarrow> kvps_wf (kvps_from_iter xs)"
  using btree_extend_set [of "[]" xs] by (fastforce simp: kvps_wf_def kvps_from_iter_def btree_collect_def)

lemma kvps_wf_try_from_iter:
  assumes "kvps_try_from_iter vfs xs = Inr m" shows "kvps_wf m"
proof -
  obtain pairs where pairs: "traverse_list (kvp_try_from vfs) xs = Inr pairs"
      and m: "m = kvps_from_iter (btreeset_collect pairs)"
    using assms by (auto simp: kvps_try_from_iter_def)
  have "key_wf (fst p)" if "p \<in> set pairs" for p
  proof -
    have "map (kvp_try_from vfs) xs = map Inr pairs" using pairs by (simp add: traverse_list_Inr_iff)
    then have "Inr p \<in> set (map (kvp_try_from vfs) xs)" using that by simp
    then obtain x where "kvp_try_from vfs x = Inr p" by auto
    then show ?thesis using key.from_str_wf by (cases x) (auto simp: kvp_try_from_Inr_iff)
  qed
  then show ?thesis unfolding m by (intro kvps_wf_from_iter) (auto simp: btreeset_collect_def)
qed

text \<open>Of several values for one key the greatest one survives a collection through the set.\<close>

lemma map_of_rev_sorted_pairs:
  fixes xs :: "('k::linorder \<times> 'v::linorder) list"
  assumes "sorted xs"
  shows "map_of (rev xs) k = (let V = {v. (k, v) \<in> set xs} in if V = {} then None else Some (Max V))"
  using assms
proof (induction xs rule: rev_induct)
  case (snoc x xs)
  obtain k' v where x: "x = (k', v)" by (cases x)
  have sorted: "sorted xs" and le: "\<And>y. y \<in> set xs \<Longrightarrow> y \<le> (k', v)"
    using snoc.prems x by (auto simp: sorted_append)
  show ?case
  proof (cases "k = k'")
    case True
    have "{u. (k, u) \<in> set (xs @ [x])} = insert v {u. (k, u) \<in> set xs}" using True x by auto
    moreover have "finite {u. (k, u) \<in> set xs}"
      by (rule finite_subset [of _ "snd ` set xs"]) force+
    moreover have "u \<le> v" if "(k, u) \<in> set xs" for u using le [OF that] True by simp
    ultimately have "Max {u. (k, u) \<in> set (xs @ [x])} = v"
      by (auto intro!: Max_eqI)
    then show ?thesis using True x by auto
  next
    case False
    then have "{u. (k, u) \<in> set (xs @ [x])} = {u. (k, u) \<in> set xs}" using x by auto
    then show ?thesis using snoc.IH [OF sorted] False x by simp
  qed
qed simp

lemma kvps_get_collect_set:
  "btree_get (kvps_from_iter (btreeset_collect pairs)) k =
     (let V = {v. (k, v) \<in> set pairs} in if V = {} then None else Some (Max V))"
  unfolding kvps_from_iter_def btree_get_collect
  by (subst map_of_rev_sorted_pairs) (simp_all add: btreeset_collect_def)

subsection \<open>The contract of a value type\<close>

locale kvp_value =
  fixes value_from_str :: "string \<Rightarrow> ('v::linorder, 'e) result"
    and value_fmt :: "'v \<Rightarrow> string"
    and value_ok :: "string \<Rightarrow> bool"
  assumes from_str_iff: "value_from_str s = Inr v \<longleftrightarrow> value_fmt v = s \<and> value_ok s"
    and fmt_less_iff: "v < w \<longleftrightarrow> value_fmt v < value_fmt w"
begin

lemma fmt_eq_iff: "value_fmt v = value_fmt w \<longleftrightarrow> v = w"
  using fmt_less_iff [of v w] fmt_less_iff [of w v] by auto

lemma fmt_le_iff: "v \<le> w \<longleftrightarrow> value_fmt v \<le> value_fmt w"
  using fmt_less_iff [of w v] by (simp add: linorder_not_less [symmetric])

lemma try_from_fmt:
  "key_wf (fst p) \<Longrightarrow> value_ok (value_fmt (snd p)) \<Longrightarrow>
   kvp_try_from value_from_str (key_fmt (fst p), value_fmt (snd p)) = Inr p"
  by (simp add: kvp_try_from_Inr_iff from_str_iff key.from_str_fmt)

text \<open>Printing the map of pairs into strings keeps every lookup.\<close>

lemma into_map_get:
  assumes wf: "kvps_wf m" and k: "key_wf k"
  shows "btree_get (kvps_into_map value_fmt m) (key_fmt k) = map_option value_fmt (btree_get m k)"
proof -
  have d: "distinct (map fst m)" using wf by (simp add: kvps_wf_def btree_inv_def strict_sorted_iff)
  have "map_of (map (\<lambda>(k, v). (key_fmt k, value_fmt v)) n) (key_fmt k) = map_option value_fmt (map_of n k)"
    if "\<forall>(k, v)\<in>set n. key_wf k" for n
    using that k by (induction n) (auto simp: key_wf_fmt_inject)
  then have "map_of (rev (map (\<lambda>(k, v). (key_fmt k, value_fmt v)) m)) (key_fmt k) = map_option value_fmt (map_of (rev m) k)"
    using wf by (simp add: rev_map kvps_wf_def)
  moreover have "map_of (rev m) = map_of m" using d by (simp add: map_of_inject_set rev_map [symmetric])
  ultimately show ?thesis by (simp add: kvps_into_map_def btree_get_collect) (simp add: btree_get_def)
qed

lemma into_map_sorted:
  assumes wf: "kvps_wf m"
  shows "kvps_into_map value_fmt m = map (\<lambda>(k, v). (key_fmt k, value_fmt v)) m"
  unfolding kvps_into_map_def
proof (rule btree_collect_id)
  have "key_wf k" if "k \<in> set (map fst m)" for k using wf that by (auto simp: kvps_wf_def)
  then have "sorted_wrt (\<lambda>k l. key_fmt k < key_fmt l) (map fst m)"
    by (intro sorted_wrt_mono_rel [where P = "(<)", OF _ kvps_wf_D(1) [OF wf, unfolded btree_inv_def]])
      (simp add: key_less_iff)
  then show "btree_inv (map (\<lambda>(k, v). (key_fmt k, value_fmt v)) m)"
    by (simp add: btree_inv_def sorted_wrt_map split_beta comp_def)
qed

text \<open>Reading the printed map back gives the pairs again.\<close>

lemma try_from_into_map:
  assumes wf: "kvps_wf m" and ok: "\<forall>(k, v)\<in>set m. value_ok (value_fmt v)"
  shows "kvps_try_from_map value_from_str (kvps_into_map value_fmt m) = Inr m"
proof -
  have "traverse_list (kvp_try_from value_from_str) (map (\<lambda>(k, v). (key_fmt k, value_fmt v)) m) = Inr m"
    unfolding traverse_list_Inr_iff using wf ok
    by (auto simp: kvps_wf_def intro!: try_from_fmt [of "(a, b)" for a b, simplified])
  moreover have "kvps_from_iter (btreeset_collect m) = m"
  proof (rule btree.map_ext)
    fix k
    have inv: "btree_inv m" using wf by (rule kvps_wf_D)
    have "{v. (k, v) \<in> set m} = {v. btree_get m k = Some v}" using btree_get_iff [OF inv, of k] by blast
    then show "btree_get (kvps_from_iter (btreeset_collect m)) k = btree_get m k"
      unfolding kvps_get_collect_set by (cases "btree_get m k") auto
  qed (use wf in \<open>simp_all add: kvps_wf_def kvps_from_iter_def\<close>)
  ultimately show ?thesis
    by (simp add: kvps_try_from_map_def kvps_try_from_iter_def into_map_sorted [OF wf])
qed

lemma collected_values_ok:
  assumes "kvps_try_from_iter value_from_str xs = Inr m"
  shows "\<forall>(k, v)\<in>set m. value_ok (value_fmt v)"
proof -
  obtain pairs where pairs: "map (kvp_try_from value_from_str) xs = map Inr pairs"
      and m: "m = kvps_from_iter (btreeset_collect pairs)"
    using assms by (auto simp: kvps_try_from_iter_def traverse_list_Inr_iff)
  have "value_ok (value_fmt (snd p))" if "p \<in> set pairs" for p
  proof -
    have "Inr p \<in> set (map (kvp_try_from value_from_str) xs)" using that pairs by simp
    then obtain x where "kvp_try_from value_from_str x = Inr p" by auto
    then show ?thesis by (cases x) (auto simp: kvp_try_from_Inr_iff from_str_iff)
  qed
  moreover have "set m \<subseteq> set pairs"
    unfolding m kvps_from_iter_def btree_collect_def
    using btree_extend_set [of "[]" "btreeset_collect pairs"] by (auto simp: btreeset_collect_def)
  ultimately show ?thesis by auto
qed

text \<open>What a fallible collection contains, and that it survives the string map.\<close>

lemma try_from_iter_collects:
  assumes iter: "kvps_try_from_iter value_from_str xs = Inr m"
  shows "kvps_wf m \<and>
    (\<forall>k. btree_get m k =
       (let V = {v. \<exists>(a, b) \<in> set xs. kvp_try_from value_from_str (a, b) = Inr (k, v)} in
        if V = {} then None else Some (Max V))) \<and>
    kvps_try_from_iter value_from_str (kvps_into_map value_fmt m) = Inr m"
proof -
  obtain pairs where pairs: "map (kvp_try_from value_from_str) xs = map Inr pairs"
      and m: "m = kvps_from_iter (btreeset_collect pairs)"
    using iter by (auto simp: kvps_try_from_iter_def traverse_list_Inr_iff)
  have V: "{v. (k, v) \<in> set pairs} = {v. \<exists>(a, b) \<in> set xs. kvp_try_from value_from_str (a, b) = Inr (k, v)}" for k
  proof -
    have "Inr ` set pairs = kvp_try_from value_from_str ` set xs" by (metis pairs set_map)
    then have "p \<in> set pairs \<longleftrightarrow> (\<exists>x\<in>set xs. kvp_try_from value_from_str x = Inr p)" for p
      by (metis (no_types, lifting) image_iff sum.inject(2))
    then show ?thesis by auto
  qed
  have "kvps_wf m" using iter by (rule kvps_wf_try_from_iter)
  moreover from this have "kvps_try_from_map value_from_str (kvps_into_map value_fmt m) = Inr m"
    by (rule try_from_into_map) (rule collected_values_ok [OF iter])
  ultimately show ?thesis
    unfolding V [symmetric] using kvps_get_collect_set [of pairs] m by (simp add: kvps_try_from_map_def)
qed

end

end
