(* ===== verification/Labels.thy ===== *)
theory Labels
  imports Kvp
begin

section \<open>Labels\<close>

text \<open>
  \<open>stackable-operator/src/kvp/label\<close>: label values, the well-known labels, the label sets that
  operators put on the objects they create, and the query string of a label selector.
\<close>

definition LABEL_VALUE_MAX_LEN :: nat where
  "LABEL_VALUE_MAX_LEN = 63"

text \<open>\<open>^[a-z0-9A-Z]([a-z0-9A-Z-_.]*[a-z0-9A-Z]+)?$\<close>, the text of \<^const>\<open>KEY_NAME_REGEX\<close>.\<close>

definition LABEL_VALUE_REGEX :: regex where
  "LABEL_VALUE_REGEX = Seq (Class alnum) (Opt (Seq (Star (Class name_chars)) (Plus (Class alnum))))"

datatype label_value_error = ValueTooLong nat | ValueNotAscii | ValueInvalid

datatype label_value = LabelValue (label_value_fmt: string)

definition label_value_default :: label_value where
  "label_value_default = LabelValue []"

definition label_value_from_str :: "string \<Rightarrow> (label_value, label_value_error) result" where
  "label_value_from_str input =
     and_then (ensure (length input \<le> LABEL_VALUE_MAX_LEN) (ValueTooLong (length input))) (\<lambda>_.
     and_then (ensure (is_ascii input) ValueNotAscii) (\<lambda>_.
     and_then (ensure (is_match LABEL_VALUE_REGEX input) ValueInvalid) (\<lambda>_.
     Inr (LabelValue input))))"

instantiation label_value :: linorder
begin

definition less_eq_label_value :: "label_value \<Rightarrow> label_value \<Rightarrow> bool" where
  "less_eq_label_value v w \<longleftrightarrow> label_value_fmt v \<le> label_value_fmt w"

definition less_label_value :: "label_value \<Rightarrow> label_value \<Rightarrow> bool" where
  "less_label_value v w \<longleftrightarrow> label_value_fmt v < label_value_fmt w"

instance
proof
  fix u v w :: label_value
  show "(u < v) = (u \<le> v \<and> \<not> v \<le> u)" unfolding less_eq_label_value_def less_label_value_def by (rule less_le_not_le)
  show "u \<le> u" unfolding less_eq_label_value_def by (rule order_refl)
  show "u \<le> v \<Longrightarrow> v \<le> w \<Longrightarrow> u \<le> w" unfolding less_eq_label_value_def by (rule order_trans)
  show "u \<le> v \<Longrightarrow> v \<le> u \<Longrightarrow> u = v" unfolding less_eq_label_value_def using label_value.expand order_antisym by blast
  show "u \<le> v \<or> v \<le> u" unfolding less_eq_label_value_def by (rule linear)
qed

end

type_synonym label = "label_value key_value_pair"

type_synonym labels = "label_value key_value_pairs"

type_synonym label_error = "label_value_error key_value_pair_error"

definition label_try_from :: "string \<times> string \<Rightarrow> (label, label_error) result" where
  "label_try_from value = kvp_try_from label_value_from_str value"

subsection \<open>Constant keys\<close>

definition K8S_APP_KEY_PREFIX :: string where
  "K8S_APP_KEY_PREFIX = ''app.kubernetes.io/''"

definition STACKABLE_KEY_PREFIX :: string where
  "STACKABLE_KEY_PREFIX = ''stackable.tech/''"

definition K8S_APP_NAME_KEY :: string where
  "K8S_APP_NAME_KEY = K8S_APP_KEY_PREFIX @ ''name''"

definition K8S_APP_INSTANCE_KEY :: string where
  "K8S_APP_INSTANCE_KEY = K8S_APP_KEY_PREFIX @ ''instance''"

definition K8S_APP_VERSION_KEY :: string where
  "K8S_APP_VERSION_KEY = K8S_APP_KEY_PREFIX @ ''version''"

definition K8S_APP_COMPONENT_KEY :: string where
  "K8S_APP_COMPONENT_KEY = K8S_APP_KEY_PREFIX @ ''component''"

definition K8S_APP_MANAGED_BY_KEY :: string where
  "K8S_APP_MANAGED_BY_KEY = K8S_APP_KEY_PREFIX @ ''managed-by''"

definition K8S_APP_ROLE_GROUP_KEY :: string where
  "K8S_APP_ROLE_GROUP_KEY = K8S_APP_KEY_PREFIX @ ''role-group''"

definition STACKABLE_VENDOR_KEY :: string where
  "STACKABLE_VENDOR_KEY = STACKABLE_KEY_PREFIX @ ''vendor''"

definition STACKABLE_VENDOR_VALUE :: string where
  "STACKABLE_VENDOR_VALUE = ''Stackable''"

definition format_full_controller_name :: "string \<Rightarrow> string \<Rightarrow> string" where
  "format_full_controller_name operator controller = operator @ ''_'' @ controller"

subsection \<open>Single labels\<close>

definition label_component :: "string \<Rightarrow> (label, label_error) result" where
  "label_component component = kvp_try_from label_value_from_str (K8S_APP_COMPONENT_KEY, component)"

definition label_role_group :: "string \<Rightarrow> (label, label_error) result" where
  "label_role_group role_group = kvp_try_from label_value_from_str (K8S_APP_ROLE_GROUP_KEY, role_group)"

definition label_managed_by :: "string \<Rightarrow> string \<Rightarrow> (label, label_error) result" where
  "label_managed_by operator_name controller_name =
     kvp_try_from label_value_from_str
       (K8S_APP_MANAGED_BY_KEY, format_full_controller_name operator_name controller_name)"

definition label_version :: "string \<Rightarrow> (label, label_error) result" where
  "label_version version = kvp_try_from label_value_from_str (K8S_APP_VERSION_KEY, version)"

definition label_instance :: "string \<Rightarrow> (label, label_error) result" where
  "label_instance inst = kvp_try_from label_value_from_str (K8S_APP_INSTANCE_KEY, inst)"

definition label_name :: "string \<Rightarrow> (label, label_error) result" where
  "label_name name = kvp_try_from label_value_from_str (K8S_APP_NAME_KEY, name)"

text \<open>\<open>expect\<close> panics on an error: \<^const>\<open>None\<close>.\<close>

fun expect :: "('a, 'e) result \<Rightarrow> 'a option" where
  "expect (Inl e) = None"
| "expect (Inr a) = Some a"

definition label_stackable_vendor :: "label option" where
  "label_stackable_vendor = expect (label_try_from (STACKABLE_VENDOR_KEY, STACKABLE_VENDOR_VALUE))"

subsection \<open>Label sets\<close>

definition labels_from_iter :: "label list \<Rightarrow> labels" where
  "labels_from_iter iter = kvps_from_iter iter"

definition labels_try_from_iter :: "(string \<times> string) list \<Rightarrow> (labels, label_error) result" where
  "labels_try_from_iter iter = and_then (kvps_try_from_iter label_value_from_str iter) (\<lambda>kvps. Inr kvps)"

definition labels_try_from_map :: "(string, string) btreemap \<Rightarrow> (labels, label_error) result" where
  "labels_try_from_map m = labels_try_from_iter m"

definition labels_try_from_array :: "(string \<times> string) list \<Rightarrow> (labels, label_error) result" where
  "labels_try_from_array array = labels_try_from_iter array"

definition labels_into_map :: "labels \<Rightarrow> (string, string) btreemap" where
  "labels_into_map value = kvps_into_map label_value_fmt value"

definition labels_insert :: "labels \<Rightarrow> label \<Rightarrow> labels" where
  "labels_insert self label = kvps_insert label self"

definition labels_parse_insert :: "labels \<Rightarrow> (label, label_error) result \<Rightarrow> (labels, label_error) result" where
  "labels_parse_insert self label = and_then label (\<lambda>l. Inr (kvps_insert l self))"

definition labels_common :: "string \<Rightarrow> string \<Rightarrow> (labels, label_error) result" where
  "labels_common app_name app_instance =
     and_then (label_try_from (K8S_APP_INSTANCE_KEY, app_instance)) (\<lambda>inst.
     and_then (label_try_from (K8S_APP_NAME_KEY, app_name)) (\<lambda>name.
     Inr (labels_insert (labels_insert kvps_new inst) name)))"

text \<open>The owner is used through its \<open>name_any()\<close>, here the argument \<open>owner_name\<close>.\<close>

definition labels_role_selector :: "string \<Rightarrow> string \<Rightarrow> string \<Rightarrow> (labels, label_error) result" where
  "labels_role_selector owner_name app_name role =
     and_then (labels_common app_name owner_name) (\<lambda>labels.
     and_then (label_component role) (\<lambda>component.
     Inr (labels_insert labels component)))"

definition labels_role_group_selector ::
    "string \<Rightarrow> string \<Rightarrow> string \<Rightarrow> string \<Rightarrow> (labels, label_error) result" where
  "labels_role_group_selector owner_name app_name role role_group =
     and_then (labels_role_selector owner_name app_name role) (\<lambda>labels.
     and_then (label_role_group role_group) (\<lambda>rg.
     Inr (labels_insert labels rg)))"

record object_labels =
  ol_owner_name :: string
  ol_app_name :: string
  ol_app_version :: string
  ol_operator_name :: string
  ol_controller_name :: string
  ol_role :: string
  ol_role_group :: string

text \<open>The outer option is the \<open>expect\<close> of the vendor label.\<close>

definition labels_recommended :: "object_labels \<Rightarrow> (labels, label_error) result option" where
  "labels_recommended object_labels =
     (case and_then (labels_role_group_selector (ol_owner_name object_labels) (ol_app_name object_labels)
                       (ol_role object_labels) (ol_role_group object_labels)) (\<lambda>labels.
           and_then (label_managed_by (ol_operator_name object_labels) (ol_controller_name object_labels)) (\<lambda>managed_by.
           and_then (label_version (ol_app_version object_labels)) (\<lambda>version.
           Inr (labels_insert (labels_insert labels managed_by) version)))) of
        Inl e \<Rightarrow> Some (Inl e)
      | Inr labels \<Rightarrow>
          (case label_stackable_vendor of
             None \<Rightarrow> None
           | Some vendor \<Rightarrow> Some (Inr (labels_insert labels vendor))))"

text \<open>\<open>LabelExt\<close>: the labels of an object's metadata, where a missing map is \<^const>\<open>None\<close>.\<close>

definition add_label :: "(string, string) btreemap option \<Rightarrow> label \<Rightarrow> (string, string) btreemap option" where
  "add_label meta_labels label =
     (case meta_labels of
        Some labels \<Rightarrow> Some (btree_insert (key_fmt (fst label)) (label_value_fmt (snd label)) labels)
      | None \<Rightarrow> Some (btree_insert (key_fmt (fst label)) (label_value_fmt (snd label)) []))"

definition add_labels :: "(string, string) btreemap option \<Rightarrow> labels \<Rightarrow> (string, string) btreemap option" where
  "add_labels meta_labels labels =
     (case meta_labels of
        Some existing_labels \<Rightarrow> Some (btree_extend existing_labels (labels_into_map labels))
      | None \<Rightarrow> Some (labels_into_map labels))"

subsection \<open>Selectors\<close>

record label_selector_requirement =
  lsr_key :: string
  lsr_operator :: string
  lsr_values :: "string list option"

record label_selector =
  match_labels :: "(string, string) btreemap option"
  match_expressions :: "label_selector_requirement list option"

datatype selector_error =
    LabelSelectorBinaryOperatorWithoutValues string
  | LabelSelectorUnaryOperatorWithValues string
  | LabelSelectorInvalidOperator string

definition to_ascii_lowercase :: "string \<Rightarrow> string" where
  "to_ascii_lowercase s = map (\<lambda>c. if is_upper c then char_of ((of_char c :: nat) + 32) else c) s"

text \<open>The closure that turns one requirement into its expression.\<close>

definition requirement_expression :: "label_selector_requirement \<Rightarrow> (string, selector_error) result" where
  "requirement_expression req =
     (let operator = lsr_operator req in
      if operator = ''In'' \<or> operator = ''NotIn'' then
        (case lsr_values req of
           Some values \<Rightarrow>
             if values \<noteq> [] then Inr (lsr_key req @ '' '' @ to_ascii_lowercase operator @ '' ('' @ join '', '' values @ '')'')
             else Inl (LabelSelectorBinaryOperatorWithoutValues operator)
         | None \<Rightarrow> Inl (LabelSelectorBinaryOperatorWithoutValues operator))
      else if operator = ''Exists'' then
        (case lsr_values req of
           Some values \<Rightarrow> if values \<noteq> [] then Inl (LabelSelectorUnaryOperatorWithValues operator) else Inr (lsr_key req)
         | None \<Rightarrow> Inr (lsr_key req))
      else if operator = ''DoesNotExist'' then
        (case lsr_values req of
           Some values \<Rightarrow>
             if values \<noteq> [] then Inl (LabelSelectorUnaryOperatorWithValues operator) else Inr (''!'' @ lsr_key req)
         | None \<Rightarrow> Inr (''!'' @ lsr_key req))
      else Inl (LabelSelectorInvalidOperator operator))"

definition to_query_string :: "label_selector \<Rightarrow> (string, selector_error) result" where
  "to_query_string self =
     (let query_string =
        (case match_labels self of
           Some label_map \<Rightarrow> join '','' (map (\<lambda>(k, v). k @ ''='' @ v) label_map)
         | None \<Rightarrow> [])
      in case match_expressions self of
           None \<Rightarrow> Inr query_string
         | Some requirements \<Rightarrow>
             let query_string =
               (if requirements \<noteq> [] \<and> query_string \<noteq> [] then query_string @ '','' else query_string)
             in and_then (traverse_list requirement_expression requirements) (\<lambda>expressions.
                Inr (query_string @ join '','' expressions)))"

subsection \<open>Label values are values\<close>

definition label_value_ok :: "string \<Rightarrow> bool" where
  "label_value_ok s \<longleftrightarrow> length s \<le> 63 \<and> qualified_name s"

lemma qualified_name_ascii: "qualified_name s \<Longrightarrow> is_ascii s"
  unfolding qualified_name_def by (blast intro: name_chars_ascii)

lemma label_value_from_str_iff [simp]:
  "label_value_from_str s = Inr v \<longleftrightarrow> v = LabelValue s \<and> label_value_ok s"
  unfolding label_value_from_str_def label_value_ok_def LABEL_VALUE_MAX_LEN_def
  using key_name_regex_iff [of s] qualified_name_ascii [of s]
  by (auto simp: KEY_NAME_REGEX_def LABEL_VALUE_REGEX_def simp del: is_match.simps)

interpretation label_value: kvp_value label_value_from_str label_value_fmt label_value_ok
  by unfold_locales (auto simp: less_label_value_def)

subsection \<open>The constants are valid\<close>

lemma and_then_Inr [simp]: "and_then r Inr = r"
  by (cases r) simp_all

lemmas labels_set_defs = labels_try_from_array_def labels_try_from_map_def labels_try_from_iter_def labels_into_map_def
  and_then_Inr

lemmas key_eval = prefix_split_def qualified_name_def name_char_def alnum_char_def class_defs

lemma k8s_prefix_ok: "prefix_ok ''app.kubernetes.io''"
  using prefix_okI [of "CHR ''a''" "''pp.kubernetes''" "''io''"] by (simp add: key_eval)

lemma stackable_prefix_ok: "prefix_ok ''stackable.tech''"
  using prefix_okI [of "CHR ''s''" "''tackable''" "''tech''"] by (simp add: key_eval)

definition app_key :: "string \<Rightarrow> key" where
  "app_key n = Key (''app.kubernetes.io/'' @ n) (Some ''app.kubernetes.io'') n"

definition vendor_key :: key where
  "vendor_key = Key ''stackable.tech/vendor'' (Some ''stackable.tech'') ''vendor''"

lemma app_key_from_str: "name_ok n \<Longrightarrow> key_from_str (K8S_APP_KEY_PREFIX @ n) = Inr (app_key n)"
  using key_from_str_const [OF k8s_prefix_ok, of n] by (simp add: K8S_APP_KEY_PREFIX_def app_key_def)

lemma well_known_names:
  "name_ok ''name''" "name_ok ''instance''" "name_ok ''version''" "name_ok ''component''"
  "name_ok ''managed-by''" "name_ok ''role-group''" "name_ok ''vendor''"
  by (simp_all add: name_ok_def key_eval)

lemma well_known_keys [simp]:
  "key_from_str K8S_APP_NAME_KEY = Inr (app_key ''name'')"
  "key_from_str K8S_APP_INSTANCE_KEY = Inr (app_key ''instance'')"
  "key_from_str K8S_APP_VERSION_KEY = Inr (app_key ''version'')"
  "key_from_str K8S_APP_COMPONENT_KEY = Inr (app_key ''component'')"
  "key_from_str K8S_APP_MANAGED_BY_KEY = Inr (app_key ''managed-by'')"
  "key_from_str K8S_APP_ROLE_GROUP_KEY = Inr (app_key ''role-group'')"
  unfolding K8S_APP_NAME_KEY_def K8S_APP_INSTANCE_KEY_def K8S_APP_VERSION_KEY_def K8S_APP_COMPONENT_KEY_def
    K8S_APP_MANAGED_BY_KEY_def K8S_APP_ROLE_GROUP_KEY_def
  by (rule app_key_from_str, rule well_known_names)+

lemma vendor_key_from_str [simp]: "key_from_str STACKABLE_VENDOR_KEY = Inr vendor_key"
  using key_from_str_const [OF stackable_prefix_ok well_known_names(7)]
  by (simp add: STACKABLE_VENDOR_KEY_def STACKABLE_KEY_PREFIX_def vendor_key_def)

lemma vendor_label [simp]: "label_stackable_vendor = Some (vendor_key, LabelValue ''Stackable'')"
proof -
  have "label_value_ok ''Stackable''" by (simp add: label_value_ok_def key_eval)
  then have "label_try_from (STACKABLE_VENDOR_KEY, STACKABLE_VENDOR_VALUE) = Inr (vendor_key, LabelValue ''Stackable'')"
    by (simp add: label_try_from_def kvp_try_from_Inr_iff STACKABLE_VENDOR_VALUE_def)
  then show ?thesis by (simp add: label_stackable_vendor_def)
qed

lemmas label_constructors = label_component_def label_role_group_def label_managed_by_def label_version_def
  label_instance_def label_name_def label_try_from_def

lemma app_label_iff:
  "kvp_try_from label_value_from_str (K8S_APP_NAME_KEY, v) = Inr l \<longleftrightarrow> label_value_ok v \<and> l = (app_key ''name'', LabelValue v)"
  "kvp_try_from label_value_from_str (K8S_APP_INSTANCE_KEY, v) = Inr l \<longleftrightarrow> label_value_ok v \<and> l = (app_key ''instance'', LabelValue v)"
  "kvp_try_from label_value_from_str (K8S_APP_VERSION_KEY, v) = Inr l \<longleftrightarrow> label_value_ok v \<and> l = (app_key ''version'', LabelValue v)"
  "kvp_try_from label_value_from_str (K8S_APP_COMPONENT_KEY, v) = Inr l \<longleftrightarrow> label_value_ok v \<and> l = (app_key ''component'', LabelValue v)"
  "kvp_try_from label_value_from_str (K8S_APP_MANAGED_BY_KEY, v) = Inr l \<longleftrightarrow> label_value_ok v \<and> l = (app_key ''managed-by'', LabelValue v)"
  "kvp_try_from label_value_from_str (K8S_APP_ROLE_GROUP_KEY, v) = Inr l \<longleftrightarrow> label_value_ok v \<and> l = (app_key ''role-group'', LabelValue v)"
  by (cases l; auto simp: kvp_try_from_Inr_iff)+

lemma app_key_less [simp]: "app_key m < app_key n \<longleftrightarrow> m < n"
  by (auto simp: less_key_def key_triple_def app_key_def)

lemma app_key_eq [simp]: "app_key m = app_key n \<longleftrightarrow> m = n"
  by (auto simp: app_key_def)

lemma app_key_vendor [simp]: "app_key m < vendor_key" "\<not> vendor_key < app_key m" "app_key m \<noteq> vendor_key" "vendor_key \<noteq> app_key m"
  by (auto simp: less_key_def key_triple_def app_key_def vendor_key_def less_char_def)

lemmas label_set_simps = labels_recommended_def labels_role_group_selector_def labels_role_selector_def labels_common_def
  labels_insert_def kvps_insert_def kvps_new_def label_constructors app_label_iff

lemma role_group_selector_Inr:
  "labels_role_group_selector owner app role rg = Inr L \<longleftrightarrow>
     list_all label_value_ok [owner, app, role, rg] \<and>
     L = [(app_key ''component'', LabelValue role), (app_key ''instance'', LabelValue owner),
          (app_key ''name'', LabelValue app), (app_key ''role-group'', LabelValue rg)]"
  by (auto simp: label_set_simps less_char_def)

definition recommended_set :: "object_labels \<Rightarrow> labels" where
  "recommended_set ob =
     [(app_key ''component'', LabelValue (ol_role ob)), (app_key ''instance'', LabelValue (ol_owner_name ob)),
      (app_key ''managed-by'', LabelValue (ol_operator_name ob @ ''_'' @ ol_controller_name ob)),
      (app_key ''name'', LabelValue (ol_app_name ob)), (app_key ''role-group'', LabelValue (ol_role_group ob)),
      (app_key ''version'', LabelValue (ol_app_version ob)), (vendor_key, LabelValue ''Stackable'')]"

lemma recommended_wf: "kvps_wf (recommended_set ob)"
  using k8s_prefix_ok stackable_prefix_ok well_known_names
  by (simp add: kvps_wf_def btree_inv_def recommended_set_def less_char_def key_wf_def)
    (simp add: app_key_def vendor_key_def)

lemma case_result_iff:
  assumes "\<And>m. r = Inr m \<longleftrightarrow> P \<and> m = a"
  shows "(case r of Inl e \<Rightarrow> Some (Inl e) | Inr m \<Rightarrow> Some (Inr (f m))) = Some (Inr l) \<longleftrightarrow> P \<and> l = f a"
proof (cases r)
  case (Inl e)
  then have "\<not> P" using assms [of a] by simp
  then show ?thesis using Inl by simp
next
  case (Inr m)
  then have "P" "m = a" using assms [of m] by simp_all
  then show ?thesis using Inr by auto
qed

lemma recommended_Inr:
  "labels_recommended ob = Some (Inr L) \<longleftrightarrow>
     list_all label_value_ok [ol_owner_name ob, ol_app_name ob, ol_role ob, ol_role_group ob,
       ol_operator_name ob @ ''_'' @ ol_controller_name ob, ol_app_version ob] \<and> L = recommended_set ob"
proof -
  have vendor: "labels_insert (butlast (recommended_set ob)) (vendor_key, LabelValue ''Stackable'') = recommended_set ob"
    by (simp add: recommended_set_def labels_insert_def kvps_insert_def)
  have "labels_recommended ob = Some (Inr L) \<longleftrightarrow>
     list_all label_value_ok [ol_owner_name ob, ol_app_name ob, ol_role ob, ol_role_group ob,
       ol_operator_name ob @ ''_'' @ ol_controller_name ob, ol_app_version ob] \<and>
     L = labels_insert (butlast (recommended_set ob)) (vendor_key, LabelValue ''Stackable'')"
    unfolding labels_recommended_def vendor_label option.case
    by (rule case_result_iff)
      (auto simp: role_group_selector_Inr label_constructors app_label_iff labels_insert_def kvps_insert_def
        format_full_controller_name_def recommended_set_def less_char_def)
  then show ?thesis unfolding vendor .
qed

lemma recommended_map:
  assumes "labels_recommended ob = Some (Inr L)"
  shows "labels_into_map L =
    [(''app.kubernetes.io/component'', ol_role ob), (''app.kubernetes.io/instance'', ol_owner_name ob),
     (''app.kubernetes.io/managed-by'', ol_operator_name ob @ ''_'' @ ol_controller_name ob),
     (''app.kubernetes.io/name'', ol_app_name ob), (''app.kubernetes.io/role-group'', ol_role_group ob),
     (''app.kubernetes.io/version'', ol_app_version ob), (''stackable.tech/vendor'', ''Stackable'')]"
  using assms label_value.into_map_sorted [OF recommended_wf [of ob]] unfolding recommended_Inr
  by (simp add: labels_into_map_def recommended_set_def app_key_def vendor_key_def key_fmt_def)

text \<open>
  C27: \<open>Labels::recommended\<close> never panics. It succeeds exactly when the owner, the application, the
  role, the role group, \<open>operator_controller\<close> and the version are label values, and then its printed
  form consists of exactly the seven documented labels with those values.
\<close>

theorem labels_recommended_exact:
  "labels_recommended ob \<noteq> None \<and>
   ((\<exists>L. labels_recommended ob = Some (Inr L) \<and> labels_into_map L =
       [(''app.kubernetes.io/component'', ol_role ob), (''app.kubernetes.io/instance'', ol_owner_name ob),
        (''app.kubernetes.io/managed-by'', ol_operator_name ob @ ''_'' @ ol_controller_name ob),
        (''app.kubernetes.io/name'', ol_app_name ob), (''app.kubernetes.io/role-group'', ol_role_group ob),
        (''app.kubernetes.io/version'', ol_app_version ob), (''stackable.tech/vendor'', ''Stackable'')]) \<longleftrightarrow>
    list_all label_value_ok [ol_owner_name ob, ol_app_name ob, ol_role ob, ol_role_group ob,
       ol_operator_name ob @ ''_'' @ ol_controller_name ob, ol_app_version ob])"
proof -
  show ?thesis
    unfolding recommended_Inr
    using label_value.into_map_sorted [OF recommended_wf [of ob]]
    by (auto simp: labels_into_map_def recommended_set_def app_key_def vendor_key_def key_fmt_def labels_recommended_def split: sum.splits)
qed

text \<open>
  The role group selector selects the recommended labels: whenever the recommended labels can be
  built, so can the selector of the same owner, application, role and role group, and each of its
  labels is among the recommended ones with the same value.
\<close>

theorem selector_selects_recommended:
  assumes "labels_recommended ob = Some (Inr L)"
  shows "\<exists>S. labels_role_group_selector (ol_owner_name ob) (ol_app_name ob) (ol_role ob) (ol_role_group ob) = Inr S \<and>
    (\<forall>(k, v) \<in> set S. btree_get L k = Some v)"
  using assms unfolding recommended_Inr role_group_selector_Inr
  by (auto simp: recommended_set_def btree_get_def)

theorem selector_selects_recommended_witness:
  "\<exists>S. labels_role_group_selector ''zk'' ''zookeeper'' ''server'' ''default'' = Inr S \<and> length S = 4"
proof -
  let ?o = "\<lparr>ol_owner_name = ''zk'', ol_app_name = ''zookeeper'', ol_app_version = ''1'', ol_operator_name = ''op'',
    ol_controller_name = ''c'', ol_role = ''server'', ol_role_group = ''default''\<rparr>"
  have "labels_recommended ?o = Some (Inr (recommended_set ?o))"
    unfolding recommended_Inr by (simp add: label_value_ok_def key_eval)
  from selector_selects_recommended [OF this] show ?thesis by (auto simp: role_group_selector_Inr)
qed

text \<open>
  Building \<open>Labels\<close> from an array of string pairs is all or nothing and deterministic: it fails with
  the error of the first pair that is not a label. Otherwise the result has valid keys in ascending
  order, the value of a key given several times is the greatest of the values given (not the last
  one), and converting the labels to a string map and back returns the same labels.
\<close>

theorem labels_try_from_array_collects:
  assumes "labels_try_from_array xs = Inr m"
  shows "kvps_wf m \<and>
    (\<forall>k. btree_get m k =
       (let V = {v. \<exists>(a, b) \<in> set xs. label_try_from (a, b) = Inr (k, v)} in
        if V = {} then None else Some (Max V))) \<and>
    labels_try_from_map (labels_into_map m) = Inr m"
  using label_value.try_from_iter_collects [OF assms [unfolded labels_set_defs]]
  unfolding labels_set_defs label_try_from_def .

theorem labels_try_from_array_collects_witness:
  "\<exists>m. labels_try_from_array [(K8S_APP_NAME_KEY, ''b''), (K8S_APP_NAME_KEY, ''a'')] = Inr m \<and>
     btree_get m (app_key ''name'') = Some (LabelValue ''b'')"
proof -
  have "label_value_ok ''a''" "label_value_ok ''b''" by (simp_all add: label_value_ok_def key_eval)
  then have t: "kvp_try_from label_value_from_str (K8S_APP_NAME_KEY, ''a'') = Inr (app_key ''name'', LabelValue ''a'')"
      "kvp_try_from label_value_from_str (K8S_APP_NAME_KEY, ''b'') = Inr (app_key ''name'', LabelValue ''b'')"
    by (simp_all add: app_label_iff)
  then obtain m where m: "labels_try_from_array [(K8S_APP_NAME_KEY, ''b''), (K8S_APP_NAME_KEY, ''a'')] = Inr m"
    by (simp add: labels_set_defs kvps_try_from_iter_def)
  have V: "{v. \<exists>(a, b) \<in> set [(K8S_APP_NAME_KEY, ''b''), (K8S_APP_NAME_KEY, ''a'')].
      label_try_from (a, b) = Inr (app_key ''name'', v)} = {LabelValue ''a'', LabelValue ''b''}"
    using t by (auto simp: label_try_from_def)
  have "Max {LabelValue ''a'', LabelValue ''b''} = LabelValue ''b''"
    by (simp add: max_def less_eq_label_value_def less_eq_char_def)
  with labels_try_from_array_collects [OF m] V m show ?thesis by (auto simp: Let_def)
qed

text \<open>
  \<open>LabelSelector::to_query_string\<close> joins the equality requirements and the expressions with commas,
  with no stray comma when either part is missing or empty, and fails exactly with the error of
  the first invalid requirement.
\<close>

theorem to_query_string_joins:
  "(to_query_string sel = Inr q \<longleftrightarrow>
     (\<exists>es. map requirement_expression (case match_expressions sel of None \<Rightarrow> [] | Some rs \<Rightarrow> rs) = map Inr es \<and>
        q = join '','' (map (\<lambda>(k, v). k @ ''='' @ v) (case match_labels sel of None \<Rightarrow> [] | Some m \<Rightarrow> m) @ es))) \<and>
   (to_query_string sel = Inl e \<longleftrightarrow>
     (\<exists>ys x zs. match_expressions sel = Some (ys @ x # zs) \<and> list_all (\<lambda>y. is_ok (requirement_expression y)) ys \<and>
        requirement_expression x = Inl e))"
proof -
  define L where "L = map (\<lambda>(k, v). k @ ''='' @ v) (case match_labels sel of None \<Rightarrow> [] | Some m \<Rightarrow> m)"
  have L: "(case match_labels sel of Some label_map \<Rightarrow> join '','' (map (\<lambda>(k, v). k @ ''='' @ v) label_map) | None \<Rightarrow> [])
      = join '','' L"
    by (simp add: L_def split: option.splits)
  have ne: "join '','' L = [] \<longleftrightarrow> L = []"
    by (rule join_eq_Nil) (auto simp: L_def)
  show ?thesis
  proof (cases "match_expressions sel")
    case None
    then show ?thesis unfolding L_def [symmetric] by (auto simp: to_query_string_def L Let_def)
  next
    case (Some rs)
    have q: "to_query_string sel = and_then (traverse_list requirement_expression rs) (\<lambda>es.
        Inr ((if rs \<noteq> [] \<and> L \<noteq> [] then join '','' L @ '','' else join '','' L) @ join '','' es))"
      using Some by (simp add: to_query_string_def L Let_def ne)
    have app: "(if rs \<noteq> [] \<and> L \<noteq> [] then join '','' L @ '','' else join '','' L) @ join '','' es = join '','' (L @ es)"
      if "map requirement_expression rs = map Inr es" for es
      using that by (cases rs) (auto simp: join_append)
    show ?thesis
      unfolding L_def [symmetric] q
      using Some app by (auto simp: traverse_list_Inr_iff traverse_list_Inl_iff and_then_eq_Inl list_all_iff)
  qed
qed

text \<open>
  The default label value, the empty string, is not accepted by \<open>LabelValue::from_str\<close>, so a label
  with an empty value, which Kubernetes allows, can only be had from \<open>Default\<close>.
\<close>

theorem label_value_default_rejected:
  "label_value_from_str (label_value_fmt label_value_default) = Inl ValueInvalid"
  unfolding label_value_from_str_def label_value_default_def
  by (simp add: LABEL_VALUE_REGEX_def Opt_def is_ascii_def)

end
