(* ===== verification/Kube_Client.thy ===== *)
theory Kube_Client
  imports Labels
begin

section \<open>The Kubernetes client and object overrides\<close>

text \<open>
  \<open>stackable-operator/src/client/mod.rs\<close> wraps the API of crate \<open>kube\<close>, and
  \<open>src/deep_merger\<close> merges user-provided objects into the objects an operator creates.

  The API server with its protocol is not code of the repository: it is the parameter \<open>kube_api\<close>, a
  record of the calls the client makes, each a function of a server state of any type. Kubernetes
  objects are records of the fields that the sources read or write; every other field is in
  \<open>res_content\<close> and \<open>ws_content\<close>, carried along, with the empty string as its \<open>Default\<close>. The
  name is what \<open>name_any()\<close> returns.
\<close>

datatype resource_kind =
    ServiceKind | StatefulSetKind | DaemonSetKind | DeploymentKind | JobKind | ConfigMapKind | SecretKind
  | ServiceAccountKind | RoleBindingKind | PodDisruptionBudgetKind | ListenerKind

record workload_spec =
  ws_replicas :: "int option"
  ws_node_selector :: "(string, string) btreemap option option"
  ws_content :: string

text \<open>
  \<open>ws_node_selector\<close> is the \<open>nodeSelector\<close> of the pod template: the outer option is the pod spec.
\<close>

record resource =
  res_kind :: resource_kind
  res_name :: string
  res_namespace :: "string option"
  res_uid :: "string option"
  res_labels :: "(string, string) btreemap"
  res_owner_references :: "string list option"
  res_spec :: "workload_spec option"
  res_content :: string

text \<open>An error of crate \<open>kube\<close>: a status of the API server, of which the sources ask \<open>is_forbidden\<close>, or another one.\<close>

datatype kube_error = ApiStatus bool | OtherKubeError

datatype patch_kind = PatchApply | PatchMerge

record patch_params =
  pp_field_manager :: "string option"
  pp_force :: bool

record 's kube_api =
  api_get :: "'s \<Rightarrow> resource_kind \<Rightarrow> string \<Rightarrow> string \<Rightarrow> (resource, kube_error) result"
  api_get_opt :: "'s \<Rightarrow> resource_kind \<Rightarrow> string \<Rightarrow> string \<Rightarrow> (resource option, kube_error) result"
  api_list :: "'s \<Rightarrow> resource_kind \<Rightarrow> string \<Rightarrow> string option \<Rightarrow> (resource list, kube_error) result"
  api_create :: "'s \<Rightarrow> resource_kind \<Rightarrow> string \<Rightarrow> resource \<Rightarrow> 's \<times> (resource, kube_error) result"
  api_patch :: "'s \<Rightarrow> resource_kind \<Rightarrow> string \<Rightarrow> string \<Rightarrow> patch_params \<Rightarrow> patch_kind \<Rightarrow> resource
    \<Rightarrow> 's \<times> (resource, kube_error) result"
  api_replace :: "'s \<Rightarrow> resource_kind \<Rightarrow> string \<Rightarrow> string \<Rightarrow> resource \<Rightarrow> 's \<times> (resource, kube_error) result"
  api_delete :: "'s \<Rightarrow> resource_kind \<Rightarrow> string \<Rightarrow> string \<Rightarrow> 's \<times> (unit, kube_error) result"

datatype client_error =
    GetResource kube_error string
  | ListResources kube_error
  | SelectorToQueryString selector_error
  | CreateResource kube_error string
  | PatchResource kube_error string
  | UpdateResource kube_error string
  | DeleteResource kube_error string

record 's client =
  kube :: "'s kube_api"
  client_patch_params :: patch_params

definition map_result :: "('e \<Rightarrow> 'f) \<Rightarrow> 's \<times> ('a, 'e) result \<Rightarrow> 's \<times> ('a, 'f) result" where
  "map_result f p = (fst p, map_err f (snd p))"

text \<open>\<open>GetApi::get_namespace\<close> for namespaced resources.\<close>

definition get_namespace :: "resource \<Rightarrow> string" where
  "get_namespace res = (case res_namespace res of Some ns \<Rightarrow> ns | None \<Rightarrow> [])"

definition client_new :: "'s kube_api \<Rightarrow> string option \<Rightarrow> 's client" where
  "client_new kube_client field_manager =
     \<lparr>kube = kube_client, client_patch_params = \<lparr>pp_field_manager = field_manager, pp_force = False\<rparr>\<rparr>"

definition apply_patch_params :: "'s client \<Rightarrow> string \<Rightarrow> patch_params" where
  "apply_patch_params self field_manager_scope =
     (let params = client_patch_params self in
      params\<lparr>pp_force := True,
             pp_field_manager := map_option (\<lambda>manager. manager @ ''/'' @ field_manager_scope) (pp_field_manager params)\<rparr>)"

definition client_get :: "'s client \<Rightarrow> 's \<Rightarrow> resource_kind \<Rightarrow> string \<Rightarrow> string \<Rightarrow> (resource, client_error) result" where
  "client_get self s kind resource_name namespace =
     map_err (\<lambda>e. GetResource e resource_name) (api_get (kube self) s kind namespace resource_name)"

definition client_get_opt ::
    "'s client \<Rightarrow> 's \<Rightarrow> resource_kind \<Rightarrow> string \<Rightarrow> string \<Rightarrow> (resource option, client_error) result" where
  "client_get_opt self s kind resource_name namespace =
     map_err (\<lambda>e. GetResource e resource_name) (api_get_opt (kube self) s kind namespace resource_name)"

definition client_list ::
    "'s client \<Rightarrow> 's \<Rightarrow> resource_kind \<Rightarrow> string \<Rightarrow> string option \<Rightarrow> (resource list, client_error) result" where
  "client_list self s kind namespace label_selector =
     map_err ListResources (api_list (kube self) s kind namespace label_selector)"

definition list_with_label_selector ::
    "'s client \<Rightarrow> 's \<Rightarrow> resource_kind \<Rightarrow> string \<Rightarrow> label_selector \<Rightarrow> (resource list, client_error) result" where
  "list_with_label_selector self s kind namespace selector =
     and_then (map_err SelectorToQueryString (to_query_string selector)) (\<lambda>selector_string.
     client_list self s kind namespace (Some selector_string))"

definition client_create :: "'s client \<Rightarrow> 's \<Rightarrow> resource \<Rightarrow> 's \<times> (resource, client_error) result" where
  "client_create self s res =
     map_result (\<lambda>e. CreateResource e (res_name res))
       (api_create (kube self) s (res_kind res) (get_namespace res) res)"

definition create_if_missing :: "'s client \<Rightarrow> 's \<Rightarrow> resource \<Rightarrow> 's \<times> (resource, client_error) result" where
  "create_if_missing self s res =
     (case client_get_opt self s (res_kind res) (res_name res) (get_namespace res) of
        Inl e \<Rightarrow> (s, Inl e)
      | Inr (Some r) \<Rightarrow> (s, Inr r)
      | Inr None \<Rightarrow> client_create self s res)"

definition client_patch ::
    "'s client \<Rightarrow> 's \<Rightarrow> resource \<Rightarrow> patch_kind \<Rightarrow> resource \<Rightarrow> patch_params \<Rightarrow> 's \<times> (resource, client_error) result" where
  "client_patch self s res kind patch params =
     map_result (\<lambda>e. PatchResource e (res_name res))
       (api_patch (kube self) s (res_kind res) (get_namespace res) (res_name res) params kind patch)"

definition merge_patch :: "'s client \<Rightarrow> 's \<Rightarrow> resource \<Rightarrow> resource \<Rightarrow> 's \<times> (resource, client_error) result" where
  "merge_patch self s res patch = client_patch self s res PatchMerge patch (client_patch_params self)"

definition apply_patch ::
    "'s client \<Rightarrow> 's \<Rightarrow> string \<Rightarrow> resource \<Rightarrow> resource \<Rightarrow> 's \<times> (resource, client_error) result" where
  "apply_patch self s field_manager_scope res patch =
     client_patch self s res PatchApply patch (apply_patch_params self field_manager_scope)"

definition client_update :: "'s client \<Rightarrow> 's \<Rightarrow> resource \<Rightarrow> 's \<times> (resource, client_error) result" where
  "client_update self s res =
     map_result (\<lambda>e. UpdateResource e (res_name res))
       (api_replace (kube self) s (res_kind res) (get_namespace res) (res_name res) res)"

definition client_delete :: "'s client \<Rightarrow> 's \<Rightarrow> resource \<Rightarrow> 's \<times> (unit, client_error) result" where
  "client_delete self s res =
     map_result (\<lambda>e. DeleteResource e (res_name res))
       (api_delete (kube self) s (res_kind res) (get_namespace res) (res_name res))"

subsection \<open>Object overrides\<close>

text \<open>
  A dynamic object: its type meta, name and namespace, and the untyped rest. The typed parse
  (\<open>DynamicObject::try_parse\<close>) and the field-wise merge (\<open>DeepMerge::merge_from\<close> of crate
  \<open>k8s-openapi\<close>) are parameters.
\<close>

record dynamic_object =
  dyn_types :: "(string \<times> string) option"
  dyn_name :: "string option"
  dyn_namespace :: "string option"
  dyn_data :: string

datatype 'p deep_merger_error = ParseDynamicObject 'p string string

record 'p merge_env =
  try_parse :: "resource_kind \<Rightarrow> dynamic_object \<Rightarrow> (resource, 'p) result"
  merge_from :: "resource \<Rightarrow> resource \<Rightarrow> resource"
  api_version_of :: "resource_kind \<Rightarrow> string"
  kind_of :: "resource_kind \<Rightarrow> string"

definition apply_deep_merge ::
    "'p merge_env \<Rightarrow> resource \<Rightarrow> dynamic_object \<Rightarrow> (resource, 'p deep_merger_error) result" where
  "apply_deep_merge env base merge =
     (case dyn_types merge of
        None \<Rightarrow> Inr base
      | Some (api_version, kind) \<Rightarrow>
          if api_version \<noteq> api_version_of env (res_kind base) \<or> kind \<noteq> kind_of env (res_kind base) then Inr base
          else case dyn_name merge of
            None \<Rightarrow> Inr base
          | Some merge_name \<Rightarrow>
              if res_name base \<noteq> merge_name then Inr base
              else if res_namespace base \<noteq> dyn_namespace merge then Inr base
              else
                and_then (map_err (\<lambda>e. ParseDynamicObject e (api_version_of env (res_kind base)) (kind_of env (res_kind base)))
                  (try_parse env (res_kind base) merge)) (\<lambda>deserialized_merge.
                Inr (merge_from env base deserialized_merge)))"

fun apply_overrides ::
    "'p merge_env \<Rightarrow> dynamic_object list \<Rightarrow> resource \<Rightarrow> (resource, 'p deep_merger_error) result" where
  "apply_overrides env [] base = Inr base"
| "apply_overrides env (object_override # overrides) base =
     and_then (apply_deep_merge env base object_override) (apply_overrides env overrides)"

text \<open>The override addresses the object: same API version and kind, name and namespace.\<close>

definition addresses :: "'p merge_env \<Rightarrow> dynamic_object \<Rightarrow> resource \<Rightarrow> bool" where
  "addresses env d base \<longleftrightarrow>
     dyn_types d = Some (api_version_of env (res_kind base), kind_of env (res_kind base)) \<and>
     dyn_name d = Some (res_name base) \<and> dyn_namespace d = res_namespace base"

lemma apply_deep_merge_addresses:
  "apply_deep_merge env base d =
     (if addresses env d base then
        and_then (map_err (\<lambda>e. ParseDynamicObject e (api_version_of env (res_kind base)) (kind_of env (res_kind base)))
          (try_parse env (res_kind base) d)) (\<lambda>m. Inr (merge_from env base m))
      else Inr base)"
  by (auto simp: apply_deep_merge_def addresses_def split: option.splits)

lemma apply_overrides_ignored:
  "list_all (\<lambda>d. \<not> addresses env d base) overrides \<Longrightarrow> apply_overrides env overrides base = Inr base"
  by (induction overrides) (simp_all add: apply_deep_merge_addresses)

text \<open>
  Object overrides only touch the object they name: an override list none of whose entries has the
  API version, kind, name and namespace of the object returns it unchanged and without an error,
  even when entries are not valid objects of that kind.
\<close>

theorem overrides_for_others_ignored:
  assumes "list_all (\<lambda>d. \<not> addresses env d base) overrides"
  shows "apply_overrides env overrides base = Inr base"
  using assms by (rule apply_overrides_ignored)

theorem overrides_for_others_ignored_witness:
  "apply_overrides \<lparr>try_parse = \<lambda>k d. Inl (), merge_from = \<lambda>a b. b, api_version_of = \<lambda>k. ''v1'', kind_of = \<lambda>k. ''Service''\<rparr>
     [\<lparr>dyn_types = Some (''v1'', ''Service''), dyn_name = Some ''b'', dyn_namespace = None, dyn_data = []\<rparr>]
     \<lparr>res_kind = ServiceKind, res_name = ''a'', res_namespace = None, res_uid = None, res_labels = [],
      res_owner_references = None, res_spec = None, res_content = []\<rparr> =
   Inr \<lparr>res_kind = ServiceKind, res_name = ''a'', res_namespace = None, res_uid = None, res_labels = [],
      res_owner_references = None, res_spec = None, res_content = []\<rparr>"
  by (rule overrides_for_others_ignored) (simp add: addresses_def)

end
