(* ===== verification/Status_Condition.thy ===== *)
theory Status_Condition
  imports Validation
begin

section \<open>Cluster conditions\<close>

text \<open>
  \<open>stackable-operator/src/status\<close>: the condition set of a cluster, the builders that derive
  conditions from DaemonSets, Deployments, StatefulSets and the cluster operation, and
  \<open>compute_conditions\<close>, which merges what the builders say into the conditions of the last
  reconciliation. \<open>rollout.rs\<close> decides whether a StatefulSet has finished rolling out.

  A condition set is a vector with one slot for each condition type. An index out of range and
  the \<open>assert_eq!\<close> of the combiners are panics: \<^const>\<open>None\<close>. \<open>Timestamp::now()\<close> is the parameter
  \<open>now\<close>; the clock is read once for each condition, so it may depend on the condition type.
  Kubernetes objects are records of the fields that are read; the name is what \<open>name_any()\<close> of
  crate \<open>kube\<close> returns.
\<close>

datatype cluster_condition_type = Available | Degraded | Progressing | ReconciliationPaused | Stopped

datatype cluster_condition_status = StatusTrue | StatusFalse | StatusUnknown

type_synonym time = int

record cluster_condition =
  last_transition_time :: "time option"
  message :: "string option"
  reason :: "string option"
  status :: cluster_condition_status
  cond_type :: cluster_condition_type

fun condition_fmt :: "cluster_condition_type \<Rightarrow> cluster_condition_status \<Rightarrow> string" where
  "condition_fmt Available StatusTrue = ''Available''"
| "condition_fmt Available StatusFalse = ''Unavailable''"
| "condition_fmt Available StatusUnknown = ''Availability unknown''"
| "condition_fmt Degraded StatusTrue = ''Degraded''"
| "condition_fmt Degraded StatusFalse = ''Not degraded''"
| "condition_fmt Degraded StatusUnknown = ''Degradation unknown''"
| "condition_fmt Progressing StatusTrue = ''Progressing''"
| "condition_fmt Progressing StatusFalse = ''Not progressing''"
| "condition_fmt Progressing StatusUnknown = ''Progression unknown''"
| "condition_fmt ReconciliationPaused StatusTrue = ''Not reconciling''"
| "condition_fmt ReconciliationPaused StatusFalse = ''Reconciling''"
| "condition_fmt ReconciliationPaused StatusUnknown = ''Reconciliation unknown''"
| "condition_fmt Stopped StatusTrue = ''Stopped''"
| "condition_fmt Stopped StatusFalse = ''Running''"
| "condition_fmt Stopped StatusUnknown = ''Stopped status unknown''"

definition cluster_condition_fmt :: "cluster_condition \<Rightarrow> string" where
  "cluster_condition_fmt c = condition_fmt (cond_type c) (status c)"

definition is_good :: "cluster_condition \<Rightarrow> bool" where
  "is_good c =
     (case cond_type c of
        Available \<Rightarrow> (case status c of StatusFalse \<Rightarrow> False | StatusUnknown \<Rightarrow> False | StatusTrue \<Rightarrow> True)
      | Degraded \<Rightarrow> (case status c of StatusFalse \<Rightarrow> True | StatusUnknown \<Rightarrow> True | StatusTrue \<Rightarrow> False)
      | Progressing \<Rightarrow> (case status c of StatusFalse \<Rightarrow> False | StatusUnknown \<Rightarrow> False | StatusTrue \<Rightarrow> True)
      | ReconciliationPaused \<Rightarrow> (case status c of StatusFalse \<Rightarrow> True | StatusTrue \<Rightarrow> True | StatusUnknown \<Rightarrow> False)
      | Stopped \<Rightarrow> (case status c of StatusTrue \<Rightarrow> False | StatusUnknown \<Rightarrow> False | StatusFalse \<Rightarrow> True))"

definition display_short :: "cluster_condition \<Rightarrow> string" where
  "display_short c = cluster_condition_fmt c"

definition display_long :: "cluster_condition \<Rightarrow> string" where
  "display_long c =
     (case message c of
        Some m \<Rightarrow> cluster_condition_fmt c @ '': '' @ m
      | None \<Rightarrow> cluster_condition_fmt c)"

definition display_short_or_long :: "cluster_condition \<Rightarrow> string" where
  "display_short_or_long c = (if is_good c then display_short c else display_long c)"

subsection \<open>Condition sets\<close>

fun condition_index :: "cluster_condition_type \<Rightarrow> nat" where
  "condition_index Available = 0"
| "condition_index Degraded = 1"
| "condition_index Progressing = 2"
| "condition_index ReconciliationPaused = 3"
| "condition_index Stopped = 4"

text \<open>The derived order of the status enum: the worst status is the greatest.\<close>

fun status_rank :: "cluster_condition_status \<Rightarrow> nat" where
  "status_rank StatusTrue = 0"
| "status_rank StatusFalse = 1"
| "status_rank StatusUnknown = 2"

instantiation cluster_condition_status :: linorder
begin

definition less_eq_cluster_condition_status :: "cluster_condition_status \<Rightarrow> cluster_condition_status \<Rightarrow> bool" where
  "less_eq_cluster_condition_status s t \<longleftrightarrow> status_rank s \<le> status_rank t"

definition less_cluster_condition_status :: "cluster_condition_status \<Rightarrow> cluster_condition_status \<Rightarrow> bool" where
  "less_cluster_condition_status s t \<longleftrightarrow> status_rank s < status_rank t"

instance
proof
  fix s t u :: cluster_condition_status
  show "(s < t) = (s \<le> t \<and> \<not> t \<le> s)"
    unfolding less_eq_cluster_condition_status_def less_cluster_condition_status_def by (rule less_le_not_le)
  show "s \<le> s" unfolding less_eq_cluster_condition_status_def by (rule order_refl)
  show "s \<le> t \<Longrightarrow> t \<le> u \<Longrightarrow> s \<le> u" unfolding less_eq_cluster_condition_status_def by (rule order_trans)
  show "s \<le> t \<Longrightarrow> t \<le> s \<Longrightarrow> s = t"
    unfolding less_eq_cluster_condition_status_def by (cases s; cases t) auto
  show "s \<le> t \<or> t \<le> s" unfolding less_eq_cluster_condition_status_def by (rule linear)
qed

end

type_synonym cluster_condition_set = "cluster_condition option list"

definition condition_count :: nat where
  "condition_count = 5"

definition condition_set_new :: cluster_condition_set where
  "condition_set_new = replicate condition_count None"

text \<open>The derived \<open>Default\<close> has no slots at all.\<close>

definition condition_set_default :: cluster_condition_set where
  "condition_set_default = []"

definition put :: "cluster_condition_set \<Rightarrow> cluster_condition \<Rightarrow> cluster_condition_set option" where
  "put self condition =
     (let index = condition_index (cond_type condition) in
      if index < length self then Some (self[index := Some condition]) else None)"

type_synonym condition_combiner = "cluster_condition \<Rightarrow> cluster_condition \<Rightarrow> cluster_condition option"

fun combine_slots ::
    "condition_combiner \<Rightarrow> cluster_condition option \<Rightarrow> cluster_condition option \<Rightarrow> cluster_condition option option" where
  "combine_slots combiner (Some old) (Some new) = map_option Some (combiner old new)"
| "combine_slots combiner (Some old) None = Some (Some old)"
| "combine_slots combiner None (Some new) = Some (Some new)"
| "combine_slots combiner None None = Some None"

fun merge_slots ::
    "condition_combiner \<Rightarrow> (cluster_condition option \<times> cluster_condition option) list
      \<Rightarrow> cluster_condition_set \<Rightarrow> cluster_condition_set option" where
  "merge_slots combiner [] result = Some result"
| "merge_slots combiner ((old, new) # slots) result =
     Option.bind (combine_slots combiner old new) (\<lambda>condition.
       case condition of
         Some c \<Rightarrow> Option.bind (put result c) (merge_slots combiner slots)
       | None \<Rightarrow> merge_slots combiner slots result)"

definition condition_set_merge ::
    "condition_combiner \<Rightarrow> cluster_condition_set \<Rightarrow> cluster_condition_set \<Rightarrow> cluster_condition_set option" where
  "condition_set_merge combiner self other = merge_slots combiner (zip self other) condition_set_new"

definition update_timestamps :: "(cluster_condition_type \<Rightarrow> time) \<Rightarrow> condition_combiner" where
  "update_timestamps now old_condition new_condition =
     (if cond_type old_condition \<noteq> cond_type new_condition then None
      else if status old_condition = status new_condition then
        Some (new_condition\<lparr>last_transition_time := last_transition_time old_condition\<rparr>)
      else Some (new_condition\<lparr>last_transition_time := Some (now (cond_type new_condition))\<rparr>))"

definition update_message :: condition_combiner where
  "update_message old_condition new_condition =
     (if cond_type old_condition \<noteq> cond_type new_condition then None
      else case ord_cmp (status old_condition) (status new_condition) of
        Equal \<Rightarrow>
          Some (new_condition\<lparr>message :=
            Some (join [CHR 0x0A] (List.map_filter (\<lambda>m. m) [message old_condition, message new_condition]))\<rparr>)
      | Less \<Rightarrow> Some new_condition
      | Greater \<Rightarrow> Some old_condition)"

definition condition_set_into_vec :: "cluster_condition_set \<Rightarrow> cluster_condition list" where
  "condition_set_into_vec value = List.map_filter (\<lambda>c. c) value"

fun put_all :: "cluster_condition_set \<Rightarrow> cluster_condition list \<Rightarrow> cluster_condition_set option" where
  "put_all result [] = Some result"
| "put_all result (c # cs) = Option.bind (put result c) (\<lambda>result. put_all result cs)"

definition condition_set_from_vec :: "cluster_condition list \<Rightarrow> cluster_condition_set option" where
  "condition_set_from_vec value = put_all condition_set_new value"

fun merge_builders :: "cluster_condition_set \<Rightarrow> cluster_condition_set list \<Rightarrow> cluster_condition_set option" where
  "merge_builders conditions [] = Some conditions"
| "merge_builders conditions (built # builders) =
     Option.bind (condition_set_merge update_message conditions built) (\<lambda>conditions.
       merge_builders conditions builders)"

text \<open>The builders are represented by the sets their \<open>build_conditions\<close> return.\<close>

definition compute_conditions ::
    "(cluster_condition_type \<Rightarrow> time) \<Rightarrow> cluster_condition list \<Rightarrow> cluster_condition_set list
      \<Rightarrow> cluster_condition list option" where
  "compute_conditions now resource_conditions condition_builders =
     Option.bind (merge_builders condition_set_new condition_builders) (\<lambda>new_resource_conditions.
     Option.bind (condition_set_from_vec resource_conditions) (\<lambda>old_resource_conditions.
     map_option condition_set_into_vec
       (condition_set_merge (update_timestamps now) old_resource_conditions new_resource_conditions)))"

subsection \<open>Builders\<close>

record daemon_set =
  ds_name :: string
  ds_number_ready :: "int option"

record replica_set =
  rs_name :: string
  rs_spec_replicas :: "int option option"
  rs_available_replicas :: "int option option"

text \<open>The loop shared by the three \<open>available\<close> methods: the worst status, and the names of the others.\<close>

fun availability ::
    "('r \<Rightarrow> cluster_condition_status) \<Rightarrow> ('r \<Rightarrow> string) \<Rightarrow> cluster_condition_status \<Rightarrow> string list \<Rightarrow> 'r list
      \<Rightarrow> cluster_condition_status \<times> string list" where
  "availability current name available unavailable [] = (available, unavailable)"
| "availability current name available unavailable (r # rs) =
     availability current name (max available (current r))
       (if current r \<noteq> StatusTrue then unavailable @ [name r] else unavailable) rs"

text \<open>\<open>{:?}\<close> of a vector of strings.\<close>

definition debug_vec :: "string list \<Rightarrow> string" where
  "debug_vec ss = ''['' @ join '', '' (map debug_str ss) @ '']''"

definition available_condition :: "cluster_condition_status \<Rightarrow> string \<Rightarrow> cluster_condition" where
  "available_condition available msg_text =
     \<lparr>last_transition_time = None, message = Some msg_text, reason = None, status = available, cond_type = Available\<rparr>"

definition daemon_set_available :: "daemon_set \<Rightarrow> cluster_condition_status" where
  "daemon_set_available ds =
     (let number_ready = (case ds_number_ready ds of Some n \<Rightarrow> n | None \<Rightarrow> 0) in
      if number_ready > 0 then StatusTrue else StatusFalse)"

definition daemon_sets_available :: "daemon_set list \<Rightarrow> cluster_condition" where
  "daemon_sets_available daemon_sets =
     (let (available, unavailable) = availability daemon_set_available ds_name StatusTrue [] daemon_sets;
          unavailable_resources = sort unavailable
      in available_condition available
           (case available of
              StatusTrue \<Rightarrow> ''All DaemonSet have the requested amount of ready replicas.''
            | StatusFalse \<Rightarrow> ''DaemonSet '' @ debug_vec unavailable_resources @ '' missing ready replicas.''
            | StatusUnknown \<Rightarrow> ''DaemonSet status cannot be determined.''))"

definition replicas_available :: "replica_set \<Rightarrow> cluster_condition_status" where
  "replicas_available r =
     (let requested_replicas = (case Option.bind (rs_spec_replicas r) (\<lambda>n. n) of Some n \<Rightarrow> n | None \<Rightarrow> 0);
          available_replicas = (case Option.bind (rs_available_replicas r) (\<lambda>n. n) of Some n \<Rightarrow> n | None \<Rightarrow> 0)
      in if requested_replicas = available_replicas \<and> requested_replicas \<noteq> 0 then StatusTrue else StatusFalse)"

definition deployment_available :: "replica_set \<Rightarrow> cluster_condition_status" where
  "deployment_available deployment = replicas_available deployment"

definition stateful_set_available :: "replica_set \<Rightarrow> cluster_condition_status" where
  "stateful_set_available sts = replicas_available sts"

definition deployments_available :: "replica_set list \<Rightarrow> cluster_condition" where
  "deployments_available deployments =
     (let (available, unavailable) = availability deployment_available rs_name StatusTrue [] deployments;
          unavailable_resources = sort unavailable
      in available_condition available
           (case available of
              StatusTrue \<Rightarrow> ''All Deployments have the requested amount of ready replicas.''
            | StatusFalse \<Rightarrow> ''Deployment '' @ debug_vec unavailable_resources @ '' missing ready replicas.''
            | StatusUnknown \<Rightarrow> ''Deployment status cannot be determined.''))"

definition stateful_sets_available :: "replica_set list \<Rightarrow> cluster_condition" where
  "stateful_sets_available stateful_sets =
     (let (available, unavailable) = availability stateful_set_available rs_name StatusTrue [] stateful_sets;
          unavailable_resources = sort unavailable
      in available_condition available
           (case available of
              StatusTrue \<Rightarrow> ''All StatefulSet have the requested amount of ready replicas.''
            | StatusFalse \<Rightarrow> ''StatefulSet '' @ debug_vec unavailable_resources @ '' missing ready replicas.''
            | StatusUnknown \<Rightarrow> ''StatefulSet status cannot be determined.''))"

definition daemon_set_build_conditions :: "daemon_set list \<Rightarrow> cluster_condition_set option" where
  "daemon_set_build_conditions daemon_sets = condition_set_from_vec [daemon_sets_available daemon_sets]"

definition deployment_build_conditions :: "replica_set list \<Rightarrow> cluster_condition_set option" where
  "deployment_build_conditions deployments = condition_set_from_vec [deployments_available deployments]"

definition stateful_set_build_conditions :: "replica_set list \<Rightarrow> cluster_condition_set option" where
  "stateful_set_build_conditions stateful_sets = condition_set_from_vec [stateful_sets_available stateful_sets]"

record cluster_operation =
  reconciliation_paused :: bool
  stopped :: bool

definition reconciliation_paused_condition :: "cluster_operation \<Rightarrow> cluster_condition" where
  "reconciliation_paused_condition operation =
     (let st = (if reconciliation_paused operation then StatusTrue else StatusFalse);
          msg_text = (case st of
              StatusTrue \<Rightarrow> ''The cluster reconciliation is paused. Only the cluster status is reconciled.''
            | StatusFalse \<Rightarrow> ''The cluster is reconciled normally.''
            | StatusUnknown \<Rightarrow> ''The cluster reconciliation status could not be determined.'')
      in \<lparr>last_transition_time = None, message = Some msg_text, reason = None, status = st, cond_type = ReconciliationPaused\<rparr>)"

definition cluster_stopped :: "cluster_operation \<Rightarrow> cluster_condition" where
  "cluster_stopped operation =
     (let st = (if stopped operation \<and> reconciliation_paused operation then StatusUnknown
                else if stopped operation then StatusTrue
                else StatusFalse);
          msg_text = (case st of
              StatusTrue \<Rightarrow> ''The cluster is stopped.''
            | StatusFalse \<Rightarrow> ''The cluster is running.''
            | StatusUnknown \<Rightarrow> ''The cluster stopped status could not be determined. This might be due to the cluster reconciliation being paused.'')
      in \<lparr>last_transition_time = None, message = Some msg_text, reason = None, status = st, cond_type = Stopped\<rparr>)"

definition operation_build_conditions :: "cluster_operation \<Rightarrow> cluster_condition_set option" where
  "operation_build_conditions operation =
     condition_set_from_vec [reconciliation_paused_condition operation, cluster_stopped operation]"

subsection \<open>Rollout of a StatefulSet\<close>

record stateful_set_status =
  observed_generation :: "int option"
  replicas :: int
  updated_replicas :: "int option"

record stateful_set =
  sts_generation :: "int option"
  sts_status :: "stateful_set_status option"

datatype stateful_set_rollout_in_progress =
    NotYetObserved "int option" "int option"
  | HasOutdatedReplicas int int

definition check_statefulset_rollout_complete ::
    "stateful_set \<Rightarrow> (unit, stateful_set_rollout_in_progress) result" where
  "check_statefulset_rollout_complete sts =
     (let st = (case sts_status sts of
                  None \<Rightarrow> \<lparr>observed_generation = None, replicas = 0, updated_replicas = None\<rparr>
                | Some st \<Rightarrow> st);
          current_generation = sts_generation sts
      in if current_generation \<noteq> observed_generation st then
           Inl (NotYetObserved current_generation (observed_generation st))
         else
           let total_replicas = replicas st;
               updated = (case updated_replicas st of Some n \<Rightarrow> n | None \<Rightarrow> 0)
           in if total_replicas \<noteq> updated then Inl (HasOutdatedReplicas total_replicas updated)
              else Inr ())"

subsection \<open>The slot invariant\<close>

lemma condition_index_inject [simp]: "condition_index s = condition_index t \<longleftrightarrow> s = t"
  by (cases s; cases t) simp_all

lemma condition_index_less [simp]: "condition_index t < 5"
  by (cases t) simp_all

lemma condition_index_surj: "i < 5 \<Longrightarrow> \<exists>t. condition_index t = i"
proof -
  assume "i < 5"
  then consider "i = 0" | "i = 1" | "i = 2" | "i = 3" | "i = 4" by linarith
  then show ?thesis
    by cases (metis condition_index.simps(1), metis condition_index.simps(2), metis condition_index.simps(3),
        metis condition_index.simps(4), metis condition_index.simps(5))
qed

text \<open>From position \<open>k\<close> on, a filled slot holds a condition of the type of that position.\<close>

fun typed_from :: "nat \<Rightarrow> cluster_condition_set \<Rightarrow> bool" where
  "typed_from k [] \<longleftrightarrow> True"
| "typed_from k (x # xs) \<longleftrightarrow> pred_option (\<lambda>c. condition_index (cond_type c) = k) x \<and> typed_from (Suc k) xs"

definition slots_ok :: "cluster_condition_set \<Rightarrow> bool" where
  "slots_ok s \<longleftrightarrow> length s = 5 \<and> typed_from 0 s"

definition slot :: "cluster_condition_set \<Rightarrow> cluster_condition_type \<Rightarrow> cluster_condition option" where
  "slot s t = s ! condition_index t"

lemma typed_from_nth:
  "typed_from k s \<longleftrightarrow> (\<forall>i < length s. pred_option (\<lambda>c. condition_index (cond_type c) = k + i) (s ! i))"
proof (induction s arbitrary: k)
  case (Cons x xs)
  show ?case unfolding typed_from.simps Cons by (auto simp: less_Suc_eq_0_disj)
qed simp

lemma slots_ok_type: "slots_ok s \<Longrightarrow> slot s t = Some c \<Longrightarrow> cond_type c = t"
  unfolding slots_ok_def slot_def typed_from_nth by (auto dest: spec [of _ "condition_index t"])

lemma slots_ok_new [simp]: "slots_ok condition_set_new"
  by (simp add: slots_ok_def condition_set_new_def condition_count_def eval_nat_numeral)

lemma slot_new [simp]: "slot condition_set_new t = None"
  by (simp add: slot_def condition_set_new_def condition_count_def)

lemma slots_eqI:
  assumes "slots_ok r" "slots_ok s" "\<And>t. slot r t = slot s t"
  shows "r = s"
proof (rule nth_equalityI)
  show "length r = length s" using assms by (simp add: slots_ok_def)
  show "r ! i = s ! i" if i: "i < length r" for i
  proof -
    obtain t where "condition_index t = i" using condition_index_surj [of i] i assms(1) by (auto simp: slots_ok_def)
    then show ?thesis using assms(3) [of t] by (simp add: slot_def)
  qed
qed

lemma put_ok:
  assumes "slots_ok s"
  obtains r where "put s c = Some r" "slots_ok r" "\<And>t. slot r t = (if t = cond_type c then Some c else slot s t)"
proof
  show "put s c = Some (s[condition_index (cond_type c) := Some c])" using assms by (simp add: put_def slots_ok_def)
  show "slots_ok (s[condition_index (cond_type c) := Some c])"
    using assms by (auto simp: slots_ok_def typed_from_nth nth_list_update)
  show "slot (s[condition_index (cond_type c) := Some c]) t = (if t = cond_type c then Some c else slot s t)" for t
    using assms by (auto simp: slot_def slots_ok_def nth_list_update)
qed

lemma put_all_ok:
  assumes "slots_ok s"
  obtains r where "put_all s cs = Some r" "slots_ok r"
    "\<And>t. slot r t = (case find (\<lambda>c. cond_type c = t) (rev cs) of Some c \<Rightarrow> Some c | None \<Rightarrow> slot s t)"
  using assms
proof (induction cs arbitrary: s thesis)
  case (Cons c cs)
  obtain r where r: "put s c = Some r" "slots_ok r" "\<And>t. slot r t = (if t = cond_type c then Some c else slot s t)"
    using put_ok [OF Cons.prems(2)] by blast
  obtain q where q: "put_all r cs = Some q" "slots_ok q"
      "\<And>t. slot q t = (case find (\<lambda>c. cond_type c = t) (rev cs) of Some c \<Rightarrow> Some c | None \<Rightarrow> slot r t)"
    using Cons.IH [OF _ r(2)] by blast
  have find_snoc: "find P (xs @ [x]) = (case find P xs of Some y \<Rightarrow> Some y | None \<Rightarrow> if P x then Some x else None)"
    for P and xs :: "cluster_condition list" and x
    by (induction xs) auto
  show ?case
    by (rule Cons.prems(1) [of q]) (auto simp: r q find_snoc split: option.splits)
qed simp

lemma from_vec_ok:
  obtains r where "condition_set_from_vec cs = Some r" "slots_ok r"
    "\<And>t. slot r t = find (\<lambda>c. cond_type c = t) (rev cs)"
proof -
  obtain r where r: "put_all condition_set_new cs = Some r" "slots_ok r"
      "\<And>t. slot r t = (case find (\<lambda>c. cond_type c = t) (rev cs) of Some c \<Rightarrow> Some c | None \<Rightarrow> slot condition_set_new t)"
    using put_all_ok [OF slots_ok_new, of cs] by blast
  show ?thesis
    by (rule that [of r]) (use r in \<open>auto simp: condition_set_from_vec_def split: option.splits\<close>)
qed

lemma into_vec_members: "slots_ok s \<Longrightarrow> c \<in> set (condition_set_into_vec s) \<longleftrightarrow> slot s (cond_type c) = Some c"
proof -
  assume s: "slots_ok s"
  have "c \<in> set (condition_set_into_vec s) \<longleftrightarrow> Some c \<in> set s"
    unfolding condition_set_into_vec_def List.map_filter_def by force
  also have "\<dots> \<longleftrightarrow> (\<exists>t. slot s t = Some c)"
    using s condition_index_surj by (auto simp: slots_ok_def slot_def in_set_conv_nth) (metis condition_index_less)
  finally show ?thesis using slots_ok_type [OF s] by blast
qed

lemma into_vec_sorted: "typed_from k s \<Longrightarrow> sorted_wrt (<) (map (\<lambda>c. condition_index (cond_type c)) (condition_set_into_vec s)) \<and>
    (\<forall>c \<in> set (condition_set_into_vec s). k \<le> condition_index (cond_type c))"
proof (induction s arbitrary: k)
  case (Cons x xs)
  have "sorted_wrt (<) (map (\<lambda>c. condition_index (cond_type c)) (condition_set_into_vec xs)) \<and>
    (\<forall>c \<in> set (condition_set_into_vec xs). Suc k \<le> condition_index (cond_type c))"
    by (rule Cons.IH) (use Cons.prems in simp)
  then show ?case using Cons.prems
    by (cases x) (auto simp: condition_set_into_vec_def List.map_filter_simps)
qed (simp add: condition_set_into_vec_def List.map_filter_simps)

lemma find_sorted_type:
  assumes "sorted_wrt (<) (map (\<lambda>c. condition_index (cond_type c)) cs)"
  shows "find (\<lambda>c. cond_type c = t) cs = Some c \<longleftrightarrow> c \<in> set cs \<and> cond_type c = t"
  using assms
proof (induction cs)
  case (Cons d cs)
  then show ?case by (auto simp: find_None_iff)
qed simp

lemma find_into_vec:
  assumes "slots_ok s"
  shows "find (\<lambda>c. cond_type c = t) (condition_set_into_vec s) = slot s t"
    "find (\<lambda>c. cond_type c = t) (rev (condition_set_into_vec s)) = slot s t"
proof -
  let ?v = "condition_set_into_vec s"
  have sorted: "sorted_wrt (<) (map (\<lambda>c. condition_index (cond_type c)) ?v)"
    using assms into_vec_sorted unfolding slots_ok_def by blast
  have iff: "find (\<lambda>c. cond_type c = t) ?v = Some c \<longleftrightarrow> slot s t = Some c" for c
    using find_sorted_type [OF sorted] into_vec_members [OF assms] slots_ok_type [OF assms] by metis
  then show "find (\<lambda>c. cond_type c = t) ?v = slot s t" by (metis option.exhaust)
  have "find (\<lambda>c. cond_type c = t) (rev ?v) = Some c \<longleftrightarrow> slot s t = Some c" for c
  proof
    assume "find (\<lambda>c. cond_type c = t) (rev ?v) = Some c"
    then have "c \<in> set ?v" "cond_type c = t" by (auto simp: find_Some_iff) (metis nth_mem length_rev set_rev)
    then show "slot s t = Some c" using into_vec_members [OF assms] by simp
  next
    assume c: "slot s t = Some c"
    then have "c \<in> set (rev ?v)" "cond_type c = t" using into_vec_members [OF assms] slots_ok_type [OF assms] by auto
    then obtain d where d: "find (\<lambda>c. cond_type c = t) (rev ?v) = Some d"
      by (metis (mono_tags, lifting) find_None_iff option.exhaust)
    then have "d \<in> set ?v" "cond_type d = t" by (auto simp: find_Some_iff) (metis nth_mem length_rev set_rev)
    then show "find (\<lambda>c. cond_type c = t) (rev ?v) = Some c" using d c into_vec_members [OF assms] by simp
  qed
  then show "find (\<lambda>c. cond_type c = t) (rev ?v) = slot s t" by (metis option.exhaust)
qed

subsection \<open>Merging\<close>

text \<open>
  The contract of a condition combiner: it accepts two conditions of one type and returns a
  condition of that type. \<open>condition_set_merge\<close> relies on nothing else.
\<close>

locale condition_combiner =
  fixes combiner :: condition_combiner and combined :: "cluster_condition \<Rightarrow> cluster_condition \<Rightarrow> cluster_condition"
  assumes combines: "cond_type old = cond_type new \<Longrightarrow> combiner old new = Some (combined old new)"
    and combined_type: "cond_type old = cond_type new \<Longrightarrow> cond_type (combined old new) = cond_type new"
begin

fun combined_slot :: "cluster_condition option \<Rightarrow> cluster_condition option \<Rightarrow> cluster_condition option" where
  "combined_slot (Some old) (Some new) = Some (combined old new)"
| "combined_slot (Some old) None = Some old"
| "combined_slot None new = new"

lemma combine_slots:
  assumes "pred_option (\<lambda>c. condition_index (cond_type c) = k) old" "pred_option (\<lambda>c. condition_index (cond_type c) = k) new"
  shows "combine_slots combiner old new = Some (combined_slot old new)"
    "pred_option (\<lambda>c. condition_index (cond_type c) = k) (combined_slot old new)"
  using assms combines combined_type by (cases old; cases new; fastforce)+

lemma merge_slots:
  assumes "typed_from (length pre) xs" "typed_from (length pre) ys" "length xs = length ys"
  shows "merge_slots combiner (zip xs ys) (pre @ replicate (length xs) None) = Some (pre @ map2 combined_slot xs ys) \<and>
    typed_from (length pre) (map2 combined_slot xs ys)"
  using assms
proof (induction xs arbitrary: pre ys)
  case (Cons x xs)
  obtain y ys' where ys: "ys = y # ys'" using Cons.prems(3) by (cases ys) auto
  let ?z = "combined_slot x y"
  have z: "combine_slots combiner x y = Some ?z" "pred_option (\<lambda>c. condition_index (cond_type c) = length pre) ?z"
    using combine_slots Cons.prems ys by auto
  have IH: "merge_slots combiner (zip xs ys') ((pre @ [?z]) @ replicate (length xs) None) =
      Some ((pre @ [?z]) @ map2 combined_slot xs ys') \<and> typed_from (length (pre @ [?z])) (map2 combined_slot xs ys')"
    using Cons.prems ys by (intro Cons.IH) simp_all
  show ?case
  proof (cases ?z)
    case None
    then show ?thesis using z IH ys by simp
  next
    case (Some c)
    have "put (pre @ None # replicate (length xs) None) c = Some (pre @ Some c # replicate (length xs) None)"
      using z(2) Some by (simp add: put_def)
    then show ?thesis using z IH ys Some by simp
  qed
qed simp

lemma merge_ok:
  assumes "slots_ok a" "slots_ok b"
  obtains r where "condition_set_merge combiner a b = Some r" "slots_ok r" "\<And>t. slot r t = combined_slot (slot a t) (slot b t)"
proof
  show "condition_set_merge combiner a b = Some (map2 combined_slot a b)" "slots_ok (map2 combined_slot a b)"
    using assms merge_slots [of "[]" a b]
    by (simp_all add: condition_set_merge_def condition_set_new_def condition_count_def slots_ok_def)
  show "slot (map2 combined_slot a b) t = combined_slot (slot a t) (slot b t)" for t
    using assms by (simp add: slot_def slots_ok_def)
qed

end

definition merged_message :: "cluster_condition \<Rightarrow> cluster_condition \<Rightarrow> cluster_condition" where
  "merged_message old new =
     (if status old = status new then
        new\<lparr>message := Some (join [CHR 0x0A] (List.map_filter (\<lambda>m. m) [message old, message new]))\<rparr>
      else if status old < status new then new else old)"

definition stamped :: "(cluster_condition_type \<Rightarrow> time) \<Rightarrow> cluster_condition \<Rightarrow> cluster_condition \<Rightarrow> cluster_condition" where
  "stamped now old new =
     new\<lparr>last_transition_time :=
       (if status old = status new then last_transition_time old else Some (now (cond_type new)))\<rparr>"

interpretation messages: condition_combiner update_message merged_message
  by unfold_locales (auto simp: update_message_def merged_message_def ord_cmp_def)

interpretation timestamps: condition_combiner "update_timestamps now" "stamped now" for now
  by unfold_locales (auto simp: update_timestamps_def stamped_def)

subsection \<open>What compute\_conditions returns\<close>

definition built :: "cluster_condition_set list \<Rightarrow> cluster_condition_type \<Rightarrow> cluster_condition list" where
  "built builders t = List.map_filter (\<lambda>b. slot b t) builders"

fun fold_messages :: "cluster_condition list \<Rightarrow> cluster_condition option" where
  "fold_messages [] = None"
| "fold_messages (c # cs) = Some (foldl merged_message c cs)"

lemma built_simps [simp]:
  "built [] t = []"
  "built (b # bs) t = (case slot b t of None \<Rightarrow> built bs t | Some c \<Rightarrow> c # built bs t)"
  by (simp_all add: built_def List.map_filter_simps split: option.splits)

lemma merge_builders_ok:
  assumes "slots_ok s" "list_all slots_ok bs"
  obtains r where "merge_builders s bs = Some r" "slots_ok r"
    "\<And>t. slot r t = fold_messages ((case slot s t of None \<Rightarrow> [] | Some c \<Rightarrow> [c]) @ built bs t)"
  using assms
proof (induction bs arbitrary: s thesis)
  case Nil
  show ?case by (rule Nil.prems(1) [of s]) (use Nil.prems in \<open>simp_all split: option.splits\<close>)
next
  case (Cons b bs)
  obtain m where m: "condition_set_merge update_message s b = Some m" "slots_ok m"
      "\<And>t. slot m t = messages.combined_slot (slot s t) (slot b t)"
    using messages.merge_ok Cons.prems(2,3) by auto
  obtain r where r: "merge_builders m bs = Some r" "slots_ok r"
      "\<And>t. slot r t = fold_messages ((case slot m t of None \<Rightarrow> [] | Some c \<Rightarrow> [c]) @ built bs t)"
    using Cons.IH [OF _ m(2)] Cons.prems(3) by auto
  show ?case
  proof (rule Cons.prems(1) [of r])
    show "slot r t = fold_messages ((case slot s t of None \<Rightarrow> [] | Some c \<Rightarrow> [c]) @ built (b # bs) t)" for t
      by (cases "slot s t"; cases "slot b t") (simp_all add: r m)
  qed (simp_all add: m r)
qed

text \<open>The condition of one type in the result: the last old one and the built ones.\<close>

fun reconciled ::
    "(cluster_condition_type \<Rightarrow> time) \<Rightarrow> cluster_condition option \<Rightarrow> cluster_condition option \<Rightarrow> cluster_condition option" where
  "reconciled now (Some old) (Some new) = Some (stamped now old new)"
| "reconciled now (Some old) None = Some old"
| "reconciled now None new = new"

lemma reconciled_slot: "timestamps.combined_slot now old new = reconciled now old new"
  by (cases old; cases new) simp_all

lemma compute_conditions_slots:
  assumes "list_all slots_ok builders"
  obtains r where "compute_conditions now old builders = Some (condition_set_into_vec r)" "slots_ok r"
    "\<And>t. slot r t = reconciled now (find (\<lambda>c. cond_type c = t) (rev old)) (fold_messages (built builders t))"
proof -
  obtain n where n: "merge_builders condition_set_new builders = Some n" "slots_ok n"
      "\<And>t. slot n t = fold_messages (built builders t)"
    using merge_builders_ok [OF slots_ok_new assms] by auto
  obtain s where s: "condition_set_from_vec old = Some s" "slots_ok s" "\<And>t. slot s t = find (\<lambda>c. cond_type c = t) (rev old)"
    using from_vec_ok by blast
  obtain r where "condition_set_merge (update_timestamps now) s n = Some r" "slots_ok r"
      "\<And>t. slot r t = timestamps.combined_slot now (slot s t) (slot n t)"
    using timestamps.merge_ok [OF s(2) n(2)] by blast
  then show ?thesis using that [of r] n s by (simp add: compute_conditions_def reconciled_slot)
qed

text \<open>
  \<open>compute_conditions\<close> does not panic on sets that builders can produce. The result has at most one
  condition of each type, in the fixed order of the types. A type that no builder reports keeps
  its last old condition; otherwise the reported conditions are merged in builder order, and the
  transition time stays that of the old condition exactly when the status is unchanged.
\<close>

theorem compute_conditions_per_type:
  assumes "list_all slots_ok builders"
  shows "\<exists>cs. compute_conditions now old builders = Some cs \<and>
    sorted_wrt (<) (map (\<lambda>c. condition_index (cond_type c)) cs) \<and>
    (\<forall>t. find (\<lambda>c. cond_type c = t) cs =
       reconciled now (find (\<lambda>c. cond_type c = t) (rev old)) (fold_messages (built builders t)))"
proof -
  obtain r where r: "compute_conditions now old builders = Some (condition_set_into_vec r)" "slots_ok r"
      "\<And>t. slot r t = reconciled now (find (\<lambda>c. cond_type c = t) (rev old)) (fold_messages (built builders t))"
    using compute_conditions_slots [OF assms] by blast
  then show ?thesis using find_into_vec(1) [OF r(2)] into_vec_sorted [of 0 r] by (auto simp: slots_ok_def)
qed

theorem compute_conditions_per_type_witness:
  "\<exists>cs. compute_conditions (\<lambda>_. 7) [available_condition StatusTrue []]
       [[Some (available_condition StatusFalse ''down''), None, None, None, None]] = Some cs \<and>
     find (\<lambda>c. cond_type c = Available) cs = Some ((available_condition StatusFalse ''down'')\<lparr>last_transition_time := Some 7\<rparr>)"
proof -
  have "list_all slots_ok [[Some (available_condition StatusFalse ''down''), None, None, None, None]]"
    by (simp add: slots_ok_def available_condition_def)
  from compute_conditions_per_type [OF this, of "\<lambda>_. 7" "[available_condition StatusTrue []]"]
  show ?thesis by (auto simp: available_condition_def slot_def stamped_def)
qed

lemma fold_messages_status:
  "fold_messages cs = Some c \<Longrightarrow> status c = Max (status ` set cs)"
proof -
  have step: "status (merged_message a b) = max (status a) (status b)" for a b
    by (auto simp: merged_message_def max_def)
  have "status (foldl merged_message d ds) = Max (status ` set (d # ds))" for d ds
  proof (induction ds arbitrary: d)
    case (Cons e es)
    have "status (foldl merged_message d (e # es)) = Max (insert (max (status d) (status e)) (status ` set es))"
      using Cons [of "merged_message d e"] by (simp add: step)
    also have "\<dots> = Max (status ` set (d # e # es))"
      by (cases "es = []") (simp_all add: Max_insert ac_simps)
    finally show ?case .
  qed simp
  then show "fold_messages cs = Some c \<Longrightarrow> status c = Max (status ` set cs)" by (cases cs) auto
qed



lemma stamped_again:
  "stamped now' (stamped now old new) new = stamped now old new" "stamped now' new new = new"
  by (simp_all add: stamped_def)

lemma reconciled_again: "reconciled now' (reconciled now old new) new = reconciled now old new"
  by (cases old; cases new) (simp_all add: stamped_again)

text \<open>
  C25: Reconciling again changes nothing: computing the conditions from the previous result and the same
  reports returns the previous result, transition times included, whatever the clock says. The
  status of a cluster at rest is therefore never patched again.
\<close>

theorem compute_conditions_stable:
  assumes "list_all slots_ok builders" "compute_conditions now old builders = Some cs"
  shows "compute_conditions now' cs builders = Some cs"
proof -
  obtain r where r: "compute_conditions now old builders = Some (condition_set_into_vec r)" "slots_ok r"
      "\<And>t. slot r t = reconciled now (find (\<lambda>c. cond_type c = t) (rev old)) (fold_messages (built builders t))"
    using compute_conditions_slots [OF assms(1)] by blast
  have cs: "cs = condition_set_into_vec r" using r(1) assms(2) by simp
  obtain s where s: "compute_conditions now' cs builders = Some (condition_set_into_vec s)" "slots_ok s"
      "\<And>t. slot s t = reconciled now' (find (\<lambda>c. cond_type c = t) (rev cs)) (fold_messages (built builders t))"
    using compute_conditions_slots [OF assms(1)] by blast
  have "slot s t = slot r t" for t
    unfolding s(3) cs find_into_vec(2) [OF r(2)] r(3) by (rule reconciled_again)
  then have "s = r" by (rule slots_eqI [OF s(2) r(2)])
  then show ?thesis using s(1) cs by simp
qed

theorem compute_conditions_stable_witness:
  "\<exists>cs. compute_conditions (\<lambda>_. 7) [available_condition StatusTrue []]
       [[Some (available_condition StatusFalse ''down''), None, None, None, None]] = Some cs \<and>
     compute_conditions (\<lambda>_. 9) cs [[Some (available_condition StatusFalse ''down''), None, None, None, None]] = Some cs"
proof -
  let ?b = "[Some (available_condition StatusFalse ''down''), None, None, None, None]"
  have ok: "list_all slots_ok [?b]" by (simp add: slots_ok_def available_condition_def)
  have "compute_conditions (\<lambda>_. 7) [available_condition StatusTrue []] [?b] =
      Some [(available_condition StatusFalse ''down'')\<lparr>last_transition_time := Some 7\<rparr>]" by code_simp
  with compute_conditions_stable [OF ok this] show ?thesis by blast
qed

text \<open>
  The derived \<open>Default\<close> of \<open>ClusterConditionSet\<close> has no slots: a builder that returns it makes
  \<open>compute_conditions\<close> forget everything the builders before it have reported.
\<close>

theorem default_set_drops_conditions:
  "\<exists>b cs. operation_build_conditions op = Some b \<and> compute_conditions now [] [b] = Some cs \<and> length cs = 2 \<and>
     compute_conditions now [] [b, condition_set_default] = Some []"
proof -
  obtain b where b: "operation_build_conditions op = Some b"
      "b = [None, None, None, Some (reconciliation_paused_condition op), Some (cluster_stopped op)]"
    by (simp add: operation_build_conditions_def condition_set_from_vec_def put_def condition_set_new_def
        condition_count_def reconciliation_paused_condition_def cluster_stopped_def Let_def eval_nat_numeral)
  have t: "cond_type (reconciliation_paused_condition op) = ReconciliationPaused" "cond_type (cluster_stopped op) = Stopped"
    by (simp_all add: reconciliation_paused_condition_def cluster_stopped_def Let_def)
  show ?thesis
    using b t
    by (simp add: compute_conditions_def condition_set_merge_def condition_set_new_def condition_count_def
        condition_set_default_def condition_set_from_vec_def put_def condition_set_into_vec_def
        List.map_filter_simps eval_nat_numeral)
qed

subsection \<open>Builders\<close>

lemma availability_result:
  "availability current name a us rs =
     (foldl max a (map current rs), us @ map name (filter (\<lambda>r. current r \<noteq> StatusTrue) rs))"
  by (induction rs arbitrary: a us) auto

lemma foldl_max_status:
  assumes "\<And>r. current r \<in> {StatusTrue, StatusFalse}" "a \<in> {StatusTrue, StatusFalse}"
  shows "foldl max a (map current rs) =
    (if a = StatusTrue \<and> list_all (\<lambda>r. current r = StatusTrue) rs then StatusTrue else StatusFalse)"
  using assms(2)
proof (induction rs arbitrary: a)
  case (Cons r rs)
  have "max a (current r) = (if a = StatusTrue \<and> current r = StatusTrue then StatusTrue else StatusFalse)"
    using assms(1) [of r] Cons.prems by (auto simp: max_def less_eq_cluster_condition_status_def)
  then show ?case using Cons.IH [of "max a (current r)"] by auto
qed auto

text \<open>
  The three builders report \<open>Available\<close> as true exactly when every resource is available, never as
  unknown, and otherwise name exactly the resources that are not, in alphabetical order.
\<close>

theorem builders_report_unavailable:
  "(let bad = sort (map ds_name (filter (\<lambda>d. daemon_set_available d \<noteq> StatusTrue) dss)) in
    daemon_sets_available dss =
      (if list_all (\<lambda>d. daemon_set_available d = StatusTrue) dss
       then available_condition StatusTrue ''All DaemonSet have the requested amount of ready replicas.''
       else available_condition StatusFalse (''DaemonSet '' @ debug_vec bad @ '' missing ready replicas.''))) \<and>
   (let bad = sort (map rs_name (filter (\<lambda>d. deployment_available d \<noteq> StatusTrue) ds)) in
    deployments_available ds =
      (if list_all (\<lambda>d. deployment_available d = StatusTrue) ds
       then available_condition StatusTrue ''All Deployments have the requested amount of ready replicas.''
       else available_condition StatusFalse (''Deployment '' @ debug_vec bad @ '' missing ready replicas.''))) \<and>
   (let bad = sort (map rs_name (filter (\<lambda>d. stateful_set_available d \<noteq> StatusTrue) ss)) in
    stateful_sets_available ss =
      (if list_all (\<lambda>d. stateful_set_available d = StatusTrue) ss
       then available_condition StatusTrue ''All StatefulSet have the requested amount of ready replicas.''
       else available_condition StatusFalse (''StatefulSet '' @ debug_vec bad @ '' missing ready replicas.'')))"
proof -
  have "daemon_set_available d \<in> {StatusTrue, StatusFalse}" for d by (simp add: daemon_set_available_def Let_def)
  moreover have "deployment_available d \<in> {StatusTrue, StatusFalse}" "stateful_set_available d \<in> {StatusTrue, StatusFalse}" for d
    by (simp_all add: deployment_available_def stateful_set_available_def replicas_available_def Let_def)
  ultimately show ?thesis
    by (simp add: daemon_sets_available_def deployments_available_def stateful_sets_available_def
        availability_result foldl_max_status Let_def)
qed

end
