(* ===== verification/Cluster_Resources.thy ===== *)
theory Cluster_Resources
  imports Kube_Client Status_Condition
begin

section \<open>Cluster resources\<close>

text \<open>
  \<open>stackable-operator/src/cluster_resources.rs\<close>: during a reconciliation every object of a cluster is
  added (checked, adapted to the apply strategy, overridden by the user and applied), and at the
  end the objects of the cluster that were not added are deleted, all kinds concurrently.

  The deletion is given twice: as the function for one kind, and as a step relation in which the
  tasks of all kinds interleave, the way \<open>tokio::try_join!\<close> runs them. The checks of the pod spec in
  \<open>add\<close> only write log messages and are left out.
\<close>

datatype apply_strategy = DefaultStrategy | ReconciliationPausedStrategy | ClusterStopped | NoApply

fun delete_orphans :: "apply_strategy \<Rightarrow> bool" where
  "delete_orphans NoApply = False"
| "delete_orphans ReconciliationPausedStrategy = False"
| "delete_orphans ClusterStopped = True"
| "delete_orphans DefaultStrategy = True"

definition strategy_from_operation :: "cluster_operation \<Rightarrow> apply_strategy" where
  "strategy_from_operation commons_spec =
     (if reconciliation_paused commons_spec then ReconciliationPausedStrategy
      else if stopped commons_spec then ClusterStopped
      else DefaultStrategy)"

datatype 'p cluster_resources_error =
    MissingObjectKey string
  | ListClusterResources client_error
  | MissingLabel string
  | UnexpectedLabelContent string string string
  | GetResourceError client_error
  | ApplyPatchError client_error
  | DeleteOrphanedResource client_error
  | ApplyObjectOverrides "'p deep_merger_error"

definition strategy_run ::
    "apply_strategy \<Rightarrow> string \<Rightarrow> resource \<Rightarrow> 's client \<Rightarrow> 's \<Rightarrow> 's \<times> (resource, 'p cluster_resources_error) result" where
  "strategy_run self manager res client s =
     (case self of
        ReconciliationPausedStrategy \<Rightarrow>
          (s, and_then (ok_or (MissingObjectKey ''namespace'') (res_namespace res)) (\<lambda>ns.
              map_err GetResourceError (client_get client s (res_kind res) (res_name res) ns)))
      | NoApply \<Rightarrow> (s, Inr res)
      | _ \<Rightarrow> map_result ApplyPatchError (apply_patch client s manager res res))"

definition default_spec :: workload_spec where
  "default_spec = \<lparr>ws_replicas = None, ws_node_selector = None, ws_content = []\<rparr>"

definition spec_or_default :: "resource \<Rightarrow> workload_spec" where
  "spec_or_default res = (case res_spec res of Some spec \<Rightarrow> spec | None \<Rightarrow> default_spec)"

definition maybe_mutate :: "apply_strategy \<Rightarrow> resource \<Rightarrow> resource" where
  "maybe_mutate strategy res =
     (case res_kind res of
        StatefulSetKind \<Rightarrow>
          (case strategy of
             ClusterStopped \<Rightarrow> res\<lparr>res_spec := Some ((spec_or_default res)\<lparr>ws_replicas := Some 0\<rparr>)\<rparr>
           | _ \<Rightarrow> res)
      | DaemonSetKind \<Rightarrow>
          (case strategy of
             ClusterStopped \<Rightarrow>
               res\<lparr>res_spec := Some ((spec_or_default res)\<lparr>ws_node_selector :=
                 Some (Some [(''stackable.tech/do-not-schedule'', ''cluster-stopped'')])\<rparr>)\<rparr>
           | _ \<Rightarrow> res)
      | DeploymentKind \<Rightarrow>
          (case strategy of
             ClusterStopped \<Rightarrow> res\<lparr>res_spec := Some ((spec_or_default res)\<lparr>ws_replicas := Some 0\<rparr>)\<rparr>
           | _ \<Rightarrow> res)
      | _ \<Rightarrow> res)"

record cluster_resources =
  cr_namespace :: string
  cr_app_instance :: string
  cr_app_name :: string
  cr_cluster_uid :: string
  cr_operator_name :: string
  cr_controller_name :: string
  cr_manager :: string
  cr_resource_ids :: "string set"
  cr_apply_strategy :: apply_strategy
  cr_object_overrides :: "dynamic_object list"

record object_reference =
  ref_namespace :: "string option"
  ref_name :: "string option"
  ref_uid :: "string option"

definition cluster_resources_new ::
    "string \<Rightarrow> string \<Rightarrow> string \<Rightarrow> object_reference \<Rightarrow> apply_strategy \<Rightarrow> dynamic_object list
      \<Rightarrow> (cluster_resources, 'p cluster_resources_error) result" where
  "cluster_resources_new app_name operator_name controller_name cluster strategy object_overrides =
     and_then (ok_or (MissingObjectKey ''namespace'') (ref_namespace cluster)) (\<lambda>namespace.
     and_then (ok_or (MissingObjectKey ''name'') (ref_name cluster)) (\<lambda>app_instance.
     and_then (ok_or (MissingObjectKey ''uid'') (ref_uid cluster)) (\<lambda>cluster_uid.
     Inr \<lparr>cr_namespace = namespace, cr_app_instance = app_instance, cr_app_name = app_name,
          cr_cluster_uid = cluster_uid, cr_operator_name = operator_name, cr_controller_name = controller_name,
          cr_manager = format_full_controller_name operator_name controller_name,
          cr_resource_ids = {}, cr_apply_strategy = strategy, cr_object_overrides = object_overrides\<rparr>)))"

definition get_required_labels :: "cluster_resources \<Rightarrow> (labels, label_error) result" where
  "get_required_labels self =
     and_then (labels_common (cr_app_name self) (cr_app_instance self)) (\<lambda>labels.
     and_then (label_managed_by (cr_operator_name self) (cr_controller_name self)) (\<lambda>managed_by.
     Inr (labels_insert labels managed_by)))"

definition check_label ::
    "(string, string) btreemap \<Rightarrow> string \<Rightarrow> string \<Rightarrow> (unit, 'p cluster_resources_error) result" where
  "check_label labels expected_label expected_content =
     (case btree_get labels expected_label of
        Some actual_content \<Rightarrow>
          if expected_content = actual_content then Inr ()
          else Inl (UnexpectedLabelContent expected_label expected_content actual_content)
      | None \<Rightarrow> Inl (MissingLabel expected_label))"

fun check_labels ::
    "(string, string) btreemap \<Rightarrow> (string \<times> string) list \<Rightarrow> (unit, 'p cluster_resources_error) result" where
  "check_labels labels [] = Inr ()"
| "check_labels labels ((label, content) # rest) =
     and_then (check_label labels label content) (\<lambda>_. check_labels labels rest)"

definition expected_labels :: "cluster_resources \<Rightarrow> (string \<times> string) list" where
  "expected_labels self =
     [(K8S_APP_INSTANCE_KEY, cr_app_instance self), (K8S_APP_MANAGED_BY_KEY, cr_manager self),
      (K8S_APP_NAME_KEY, cr_app_name self)]"

text \<open>\<open>add\<close>: the new state of the struct, of the server, and the outcome.\<close>

definition cluster_resources_add ::
    "'p merge_env \<Rightarrow> 's client \<Rightarrow> cluster_resources \<Rightarrow> 's \<Rightarrow> resource
      \<Rightarrow> cluster_resources \<times> 's \<times> (resource, 'p cluster_resources_error) result" where
  "cluster_resources_add env client self s res =
     (case check_labels (res_labels res) (expected_labels self) of
        Inl e \<Rightarrow> (self, s, Inl e)
      | Inr _ \<Rightarrow>
          (case map_err ApplyObjectOverrides
                  (apply_overrides env (cr_object_overrides self) (maybe_mutate (cr_apply_strategy self) res)) of
             Inl e \<Rightarrow> (self, s, Inl e)
           | Inr mutated \<Rightarrow>
               (case strategy_run (cr_apply_strategy self) (cr_manager self) mutated client s of
                  (s', Inl e) \<Rightarrow> (self, s', Inl e)
                | (s', Inr patched_resource) \<Rightarrow>
                    (case res_uid patched_resource of
                       None \<Rightarrow> (self, s', Inl (MissingObjectKey ''metadata/uid''))
                     | Some resource_id \<Rightarrow>
                         (self\<lparr>cr_resource_ids := insert resource_id (cr_resource_ids self)\<rparr>, s', Inr patched_resource)))))"

subsection \<open>Orphans\<close>

definition cluster_selector :: "cluster_resources \<Rightarrow> label_selector" where
  "cluster_selector self =
     \<lparr>match_labels = None,
      match_expressions = Some
        [\<lparr>lsr_key = K8S_APP_INSTANCE_KEY, lsr_operator = ''In'', lsr_values = Some [cr_app_instance self]\<rparr>,
         \<lparr>lsr_key = K8S_APP_NAME_KEY, lsr_operator = ''In'', lsr_values = Some [cr_app_name self]\<rparr>,
         \<lparr>lsr_key = K8S_APP_MANAGED_BY_KEY, lsr_operator = ''In'', lsr_values = Some [cr_manager self]\<rparr>]\<rparr>"

definition owned_by_cluster :: "cluster_resources \<Rightarrow> resource \<Rightarrow> bool" where
  "owned_by_cluster self res =
     list_ex (\<lambda>uid. uid = cr_cluster_uid self) (case res_owner_references res of Some refs \<Rightarrow> refs | None \<Rightarrow> [])"

definition list_deployed_cluster_resources ::
    "'s client \<Rightarrow> cluster_resources \<Rightarrow> 's \<Rightarrow> resource_kind \<Rightarrow> (resource list, client_error) result" where
  "list_deployed_cluster_resources client self s kind =
     and_then (list_with_label_selector client s kind (cr_namespace self) (cluster_selector self)) (\<lambda>resources.
     Inr (filter (owned_by_cluster self) resources))"

text \<open>The loop that collects the orphans; an object without a uid is an error.\<close>

fun collect_orphans ::
    "string set \<Rightarrow> resource list \<Rightarrow> resource list \<Rightarrow> (resource list, 'p cluster_resources_error) result" where
  "collect_orphans ids orphaned [] = Inr orphaned"
| "collect_orphans ids orphaned (res # resources) =
     and_then (ok_or (MissingObjectKey ''metadata/uid'') (res_uid res)) (\<lambda>resource_id.
     collect_orphans ids (if resource_id \<notin> ids then orphaned @ [res] else orphaned) resources)"

text \<open>What a kind has to delete: nothing when the strategy forbids it or listing is forbidden.\<close>

definition orphaned_resources_of_kind ::
    "'s client \<Rightarrow> cluster_resources \<Rightarrow> 's \<Rightarrow> resource_kind \<Rightarrow> (resource list, 'p cluster_resources_error) result" where
  "orphaned_resources_of_kind client self s kind =
     (if \<not> delete_orphans (cr_apply_strategy self) then Inr []
      else case list_deployed_cluster_resources client self s kind of
        Inr deployed_cluster_resources \<Rightarrow> collect_orphans (cr_resource_ids self) [] deployed_cluster_resources
      | Inl (ListResources (ApiStatus is_forbidden)) \<Rightarrow>
          if is_forbidden then Inr [] else Inl (ListClusterResources (ListResources (ApiStatus is_forbidden)))
      | Inl error \<Rightarrow> Inl (ListClusterResources error))"

fun delete_resources ::
    "'s client \<Rightarrow> 's \<Rightarrow> resource list \<Rightarrow> 's \<times> (unit, 'p cluster_resources_error) result" where
  "delete_resources client s [] = (s, Inr ())"
| "delete_resources client s (res # resources) =
     (case client_delete client s res of
        (s', Inl e) \<Rightarrow> (s', Inl (DeleteOrphanedResource e))
      | (s', Inr _) \<Rightarrow> delete_resources client s' resources)"

definition delete_orphaned_resources_of_kind ::
    "'s client \<Rightarrow> cluster_resources \<Rightarrow> 's \<Rightarrow> resource_kind \<Rightarrow> 's \<times> (unit, 'p cluster_resources_error) result" where
  "delete_orphaned_resources_of_kind client self s kind =
     (case orphaned_resources_of_kind client self s kind of
        Inl e \<Rightarrow> (s, Inl e)
      | Inr orphaned \<Rightarrow> delete_resources client s orphaned)"

text \<open>The tasks of \<open>tokio::try_join!\<close>, in the order of the source, with the feature \<open>crds\<close>.\<close>

definition orphan_kinds :: "resource_kind list" where
  "orphan_kinds =
     [ServiceKind, StatefulSetKind, DaemonSetKind, DeploymentKind, JobKind, ConfigMapKind, SecretKind,
      ServiceAccountKind, RoleBindingKind, PodDisruptionBudgetKind, ListenerKind]"

datatype 'p task = Todo resource_kind | Deleting "resource list" | Finished | Failed "'p cluster_resources_error"

definition initial_tasks :: "'p task list" where
  "initial_tasks = map Todo orphan_kinds"

text \<open>
  A step runs one task up to its next request to the server. No task runs after one has failed:
  \<open>try_join!\<close> then returns the error and drops the others.
\<close>

fun run_task ::
    "'s client \<Rightarrow> cluster_resources \<Rightarrow> 's \<Rightarrow> 'p task \<Rightarrow> 's \<times> 'p task" where
  "run_task client self s (Todo kind) =
     (case orphaned_resources_of_kind client self s kind of
        Inl e \<Rightarrow> (s, Failed e)
      | Inr orphaned \<Rightarrow> (s, Deleting orphaned))"
| "run_task client self s (Deleting []) = (s, Finished)"
| "run_task client self s (Deleting (res # resources)) =
     (case client_delete client s res of
        (s', Inl e) \<Rightarrow> (s', Failed (DeleteOrphanedResource e))
      | (s', Inr _) \<Rightarrow> (s', Deleting resources))"
| "run_task client self s t = (s, t)"

fun runnable :: "'p task \<Rightarrow> bool" where
  "runnable (Todo kind) \<longleftrightarrow> True"
| "runnable (Deleting resources) \<longleftrightarrow> True"
| "runnable _ \<longleftrightarrow> False"

fun is_failed :: "'p task \<Rightarrow> bool" where
  "is_failed (Failed e) \<longleftrightarrow> True"
| "is_failed _ \<longleftrightarrow> False"

inductive delete_step ::
    "'s client \<Rightarrow> cluster_resources \<Rightarrow> 's \<times> 'p task list \<Rightarrow> 's \<times> 'p task list \<Rightarrow> bool"
  for client :: "'s client" and self :: cluster_resources where
  delete_step: "i < length tasks \<Longrightarrow> \<not> list_ex is_failed tasks \<Longrightarrow> runnable (tasks ! i) \<Longrightarrow>
    run_task client self s (tasks ! i) = (s', t) \<Longrightarrow> delete_step client self (s, tasks) (s', tasks[i := t])"

inductive_cases delete_stepE [elim!]: "delete_step client self (s, tasks) c"

subsection \<open>What is relied on of the API server\<close>

type_synonym object_key = "resource_kind \<times> string \<times> string"

definition res_key :: "resource \<Rightarrow> object_key" where
  "res_key res = (res_kind res, get_namespace res, res_name res)"

text \<open>
  \<open>find_object\<close> observes the objects of a server state that are neither deleted nor marked for deletion,
  by kind, namespace and name, and \<open>selected\<close> is the meaning of label selector strings. A list
  returns the selected objects of the kind and namespace; deleting an object removes it or, with an
  error, leaves it as it is, and in no case touches another one.
\<close>

definition kube_laws ::
    "'s kube_api \<Rightarrow> ('s \<Rightarrow> object_key \<Rightarrow> resource option) \<Rightarrow> (string \<Rightarrow> resource \<Rightarrow> bool) \<Rightarrow> bool" where
  "kube_laws api find_object selected \<longleftrightarrow>
     (\<forall>s kind ns q rs. api_list api s kind ns (Some q) = Inr rs \<longrightarrow>
        set rs = {r. find_object s (res_key r) = Some r \<and> res_kind r = kind \<and> get_namespace r = ns \<and> selected q r}) \<and>
     (\<forall>s kind ns name s' x k. api_delete api s kind ns name = (s', x) \<longrightarrow> k \<noteq> (kind, ns, name) \<longrightarrow>
        find_object s' k = find_object s k) \<and>
     (\<forall>s kind ns name s' x. api_delete api s kind ns name = (s', x) \<longrightarrow>
        find_object s' (kind, ns, name) = None \<or>
        find_object s' (kind, ns, name) = find_object s (kind, ns, name) \<and> \<not> is_ok x)"

lemma kube_laws_list:
  "kube_laws api find_object selected \<Longrightarrow> api_list api s kind ns (Some q) = Inr rs \<Longrightarrow>
   set rs = {r. find_object s (res_key r) = Some r \<and> res_kind r = kind \<and> get_namespace r = ns \<and> selected q r}"
  unfolding kube_laws_def by simp

lemma kube_laws_delete_other:
  "kube_laws api find_object selected \<Longrightarrow> api_delete api s kind ns name = (s', x) \<Longrightarrow> k \<noteq> (kind, ns, name) \<Longrightarrow>
   find_object s' k = find_object s k"
  unfolding kube_laws_def by (elim conjE) metis

lemma kube_laws_delete:
  "kube_laws api find_object selected \<Longrightarrow> api_delete api s kind ns name = (s', x) \<Longrightarrow>
   find_object s' (kind, ns, name) = None \<or>
   find_object s' (kind, ns, name) = find_object s (kind, ns, name) \<and> \<not> is_ok x"
  unfolding kube_laws_def by (elim conjE) metis

definition selector_string :: "cluster_resources \<Rightarrow> string" where
  "selector_string self =
     K8S_APP_INSTANCE_KEY @ '' in ('' @ cr_app_instance self @ ''),'' @
     K8S_APP_NAME_KEY @ '' in ('' @ cr_app_name self @ ''),'' @
     K8S_APP_MANAGED_BY_KEY @ '' in ('' @ cr_manager self @ '')''"

lemma cluster_selector_query: "to_query_string (cluster_selector self) = Inr (selector_string self)"
proof -
  have "to_ascii_lowercase ''In'' = ''in''" by code_simp
  then show ?thesis
    by (simp add: to_query_string_def cluster_selector_def requirement_expression_def selector_string_def)
qed

lemma list_deployed_iff:
  assumes "kube_laws (kube client) find_object selected"
    and "list_deployed_cluster_resources client self s kind = Inr rs"
  shows "set rs = {r. find_object s (res_key r) = Some r \<and> res_kind r = kind \<and> get_namespace r = cr_namespace self \<and>
    selected (selector_string self) r \<and> owned_by_cluster self r}"
proof -
  obtain all where all: "api_list (kube client) s kind (cr_namespace self) (Some (selector_string self)) = Inr all"
      and rs: "rs = filter (owned_by_cluster self) all"
    using assms(2)
    by (auto simp: list_deployed_cluster_resources_def list_with_label_selector_def client_list_def cluster_selector_query)
  have "set all = {r. find_object s (res_key r) = Some r \<and> res_kind r = kind \<and> get_namespace r = cr_namespace self \<and>
      selected (selector_string self) r}"
    by (rule kube_laws_list [OF assms(1) all])
  then show ?thesis unfolding rs by auto
qed

lemma collect_orphans_Inr:
  "collect_orphans ids acc rs = Inr os \<longleftrightarrow>
     list_all (\<lambda>r. res_uid r \<noteq> None) rs \<and> os = acc @ filter (\<lambda>r. the (res_uid r) \<notin> ids) rs"
proof (induction rs arbitrary: acc)
  case (Cons r rs)
  show ?case by (cases "res_uid r") (simp_all add: Cons)
qed auto

lemma orphaned_cases:
  assumes "orphaned_resources_of_kind client self s kind = Inr os"
  obtains "os = []" "\<not> delete_orphans (cr_apply_strategy self)"
    | "os = []" "list_deployed_cluster_resources client self s kind = Inl (ListResources (ApiStatus True))"
    | rs where "list_deployed_cluster_resources client self s kind = Inr rs"
        "list_all (\<lambda>r. res_uid r \<noteq> None) rs" "os = filter (\<lambda>r. the (res_uid r) \<notin> cr_resource_ids self) rs"
  using assms unfolding orphaned_resources_of_kind_def
  by (auto simp: collect_orphans_Inr split: if_splits sum.splits client_error.splits kube_error.splits)

lemma orphaned_member:
  assumes "kube_laws (kube client) find_object selected" "orphaned_resources_of_kind client self s kind = Inr os" "r \<in> set os"
  shows "find_object s (res_key r) = Some r \<and> res_kind r = kind \<and> owned_by_cluster self r \<and>
    selected (selector_string self) r \<and> res_uid r \<noteq> None \<and> the (res_uid r) \<notin> cr_resource_ids self"
  using assms(2)
proof (cases rule: orphaned_cases)
  case (3 rs)
  then show ?thesis using list_deployed_iff [OF assms(1) 3(1)] assms(3) by (auto simp: list_all_iff)
qed (use assms(3) in simp_all)

subsection \<open>Safety of the deletion\<close>

definition protects :: "object_key \<Rightarrow> 'p task \<Rightarrow> bool" where
  "protects k t \<longleftrightarrow> (case t of Deleting rs \<Rightarrow> \<forall>r \<in> set rs. res_key r \<noteq> k | _ \<Rightarrow> True)"

lemma client_delete_other:
  assumes "kube_laws (kube client) find_object selected" "client_delete client s r = (s', x)" "res_key r \<noteq> k"
  shows "find_object s' k = find_object s k"
proof -
  have "fst (api_delete (kube client) s (res_kind r) (get_namespace r) (res_name r)) = s'"
    using assms(2) by (simp add: client_delete_def map_result_def)
  then obtain y where "api_delete (kube client) s (res_kind r) (get_namespace r) (res_name r) = (s', y)"
    by (metis prod.collapse)
  then show ?thesis by (rule kube_laws_delete_other [OF assms(1)]) (use assms(3) in \<open>auto simp: res_key_def\<close>)
qed

lemma run_task_protects:
  assumes laws: "kube_laws (kube client) find_object selected"
    and run: "run_task client self s (t :: 'p task) = (s', t')" and p: "find_object s (res_key p) = Some p"
    and uid: "res_uid p = Some u" "u \<in> cr_resource_ids self" and t: "protects (res_key p) t"
  shows "find_object s' (res_key p) = Some p \<and> protects (res_key p) t'"
proof (cases t)
  case (Todo kind)
  show ?thesis
  proof (cases "orphaned_resources_of_kind client self s kind :: (resource list, 'p cluster_resources_error) result")
    case (Inl e)
    then show ?thesis using run Todo p by (auto simp: protects_def)
  next
    case (Inr os)
    have "res_key r \<noteq> res_key p" if "r \<in> set os" for r
      using orphaned_member [OF laws Inr that] p uid by auto
    then show ?thesis using run Todo p Inr by (auto simp: protects_def)
  qed
next
  case (Deleting rs)
  show ?thesis
  proof (cases rs)
    case (Cons r rs')
    obtain s1 x where del: "client_delete client s r = (s1, x)" by (cases "client_delete client s r")
    have "res_key r \<noteq> res_key p" using t Deleting Cons by (simp add: protects_def)
    then have "find_object s1 (res_key p) = Some p" using client_delete_other [OF laws del] p by simp
    then show ?thesis using run t Deleting Cons del by (auto simp: protects_def split: sum.splits)
  qed (use run p Deleting in \<open>auto simp: protects_def\<close>)
qed (use run p in \<open>auto simp: protects_def\<close>)

lemma delete_steps_protect:
  assumes laws: "kube_laws (kube client) find_object selected"
    and uid: "res_uid p = Some u" "u \<in> cr_resource_ids self"
    and steps: "(delete_step client self)\<^sup>*\<^sup>* c c'"
    and "find_object (fst c) (res_key p) = Some p" "list_all (protects (res_key p)) (snd c)"
  shows "find_object (fst c') (res_key p) = Some p \<and> list_all (protects (res_key p)) (snd c')"
  using steps
proof (induction rule: rtranclp_induct)
  case base
  then show ?case using assms by simp
next
  case (step b c')
  obtain s ts where b: "b = (s, ts)" by (cases b)
  have inv: "find_object s (res_key p) = Some p" "list_all (protects (res_key p)) ts" using step.IH b by auto
  from step.hyps(2) show ?case unfolding b
  proof (rule delete_stepE)
    fix i s' t
    assume *: "c' = (s', ts[i := t])" "i < length ts" "run_task client self s (ts ! i) = (s', t)"
    have "protects (res_key p) (ts ! i)" using inv(2) *(2) by (simp add: list_all_length)
    then have "find_object s' (res_key p) = Some p \<and> protects (res_key p) t"
      using run_task_protects [OF laws *(3) inv(1) uid] by simp
    then show ?thesis using * inv(2) by (auto simp: list_all_length nth_list_update)
  qed
qed

fun add_all ::
    "'p merge_env \<Rightarrow> 's client \<Rightarrow> cluster_resources \<Rightarrow> 's \<Rightarrow> resource list
      \<Rightarrow> cluster_resources \<times> 's \<times> (resource, 'p cluster_resources_error) result list" where
  "add_all env client self s [] = (self, s, [])"
| "add_all env client self s (res # rs) =
     (let (self1, s1, x) = cluster_resources_add env client self s res;
          (self2, s2, xs) = add_all env client self1 s1 rs
      in (self2, s2, x # xs))"

lemma add_ids:
  assumes "cluster_resources_add env client self s res = (self', s', x)"
  shows "cr_resource_ids self \<subseteq> cr_resource_ids self'"
    "x = Inr r \<Longrightarrow> \<exists>u. res_uid r = Some u \<and> u \<in> cr_resource_ids self'"
  using assms unfolding cluster_resources_add_def
  by (auto split: sum.splits prod.splits option.splits)

lemma add_all_ids:
  assumes "add_all env client self s rs = (self', s', xs)"
  shows "cr_resource_ids self \<subseteq> cr_resource_ids self' \<and>
    (\<forall>r. Inr r \<in> set xs \<longrightarrow> (\<exists>u. res_uid r = Some u \<and> u \<in> cr_resource_ids self'))"
  using assms
proof (induction rs arbitrary: self s self' s' xs)
  case (Cons res rs)
  obtain self1 s1 x where 1: "cluster_resources_add env client self s res = (self1, s1, x)" by (metis prod_cases3)
  obtain self2 s2 ys where 2: "add_all env client self1 s1 rs = (self2, s2, ys)" by (metis prod_cases3)
  have eq: "self' = self2" "xs = x # ys" using Cons.prems 1 2 by auto
  show ?case
    unfolding eq using add_ids(1) [OF 1] add_ids(2) [OF 1] Cons.IH [OF 2] by auto blast
qed simp

text \<open>
  C1: Deleting orphans never deletes an object of the current reconciliation. After any sequence of
  \<open>add\<close>s, some of which may have failed, let an object that an \<open>add\<close> returned be on the server;
  then it is still there in every state that the concurrent deletion of all kinds can reach,
  finished or not, in any interleaving.
\<close>

theorem added_resources_survive:
  assumes "kube_laws (kube client) find_object selected"
    and "add_all env client self s0 rs = (self', s, outcomes)" "Inr p \<in> set outcomes"
    and "find_object s (res_key p) = Some p"
    and "(delete_step client self')\<^sup>*\<^sup>* (s, initial_tasks) (s', tasks)"
  shows "find_object s' (res_key p) = Some p"
proof -
  obtain u where "res_uid p = Some u" "u \<in> cr_resource_ids self'" using add_all_ids [OF assms(2)] assms(3) by blast
  moreover have "list_all (protects (res_key p)) initial_tasks"
    by (simp add: initial_tasks_def protects_def list_all_iff)
  ultimately have "find_object (fst (s', tasks)) (res_key p) = Some p \<and> list_all (protects (res_key p)) (snd (s', tasks))"
    using assms(4) by (intro delete_steps_protect [OF assms(1) _ _ assms(5)]) simp_all
  then show ?thesis by simp
qed

subsection \<open>A server in memory\<close>

text \<open>A server that is its list of objects, to show that the laws can hold.\<close>

definition mem_find :: "resource list \<Rightarrow> object_key \<Rightarrow> resource option" where
  "mem_find s k = find (\<lambda>r. res_key r = k) s"

definition mem_api :: "resource list kube_api" where
  "mem_api =
     \<lparr>api_get = \<lambda>s kind ns name. ok_or (ApiStatus False) (mem_find s (kind, ns, name)),
      api_get_opt = \<lambda>s kind ns name. Inr (mem_find s (kind, ns, name)),
      api_list = \<lambda>s kind ns q. Inr (filter (\<lambda>r. mem_find s (res_key r) = Some r \<and> res_kind r = kind \<and> get_namespace r = ns) s),
      api_create = \<lambda>s kind ns r. (r # filter (\<lambda>x. res_key x \<noteq> res_key r) s, Inr r),
      api_patch = \<lambda>s kind ns name params pk r. (r # filter (\<lambda>x. res_key x \<noteq> res_key r) s, Inr r),
      api_replace = \<lambda>s kind ns name r. (r # filter (\<lambda>x. res_key x \<noteq> res_key r) s, Inr r),
      api_delete = \<lambda>s kind ns name. (filter (\<lambda>x. res_key x \<noteq> (kind, ns, name)) s, Inr ())\<rparr>"

lemma mem_find_filter: "mem_find (filter (\<lambda>x. res_key x \<noteq> k) s) k' = (if k' = k then None else mem_find s k')"
  by (induction s) (auto simp: mem_find_def find_None_iff)

lemma mem_laws: "kube_laws mem_api mem_find (\<lambda>_ _. True)"
proof -
  have "r \<in> set s" if "mem_find s (res_key r) = Some r" for s r
    using that by (auto simp: mem_find_def find_Some_iff)
  then show ?thesis by (auto simp: kube_laws_def mem_api_def mem_find_filter)
qed

definition mem_client :: "resource list client" where
  "mem_client = client_new mem_api (Some ''op'')"

definition demo_env :: "unit merge_env" where
  "demo_env = \<lparr>try_parse = \<lambda>k d. Inl (), merge_from = \<lambda>a b. a, api_version_of = \<lambda>k. [], kind_of = \<lambda>k. []\<rparr>"

definition demo_cluster :: cluster_resources where
  "demo_cluster = \<lparr>cr_namespace = ''ns'', cr_app_instance = ''zk'', cr_app_name = ''zookeeper'', cr_cluster_uid = ''0'',
     cr_operator_name = ''op'', cr_controller_name = ''c'', cr_manager = ''op_c'', cr_resource_ids = {},
     cr_apply_strategy = DefaultStrategy, cr_object_overrides = []\<rparr>"

definition demo_service :: "string \<Rightarrow> resource" where
  "demo_service n = \<lparr>res_kind = ServiceKind, res_name = n, res_namespace = Some ''ns'', res_uid = Some n,
     res_labels = [(K8S_APP_INSTANCE_KEY, ''zk''), (K8S_APP_MANAGED_BY_KEY, ''op_c''), (K8S_APP_NAME_KEY, ''zookeeper'')],
     res_owner_references = Some [''0''], res_spec = None, res_content = []\<rparr>"

lemmas demo_defs = demo_cluster_def demo_service_def demo_env_def mem_client_def mem_api_def client_new_def

lemma kube_mem_client [simp]: "kube mem_client = mem_api"
  by (simp add: mem_client_def client_new_def)

lemma demo_labels: "check_labels (res_labels (demo_service n)) (expected_labels demo_cluster) = Inr ()"
  by (simp add: demo_defs expected_labels_def check_label_def btree_get_def K8S_APP_INSTANCE_KEY_def
      K8S_APP_MANAGED_BY_KEY_def K8S_APP_NAME_KEY_def)

lemma demo_add:
  "cluster_resources_add demo_env mem_client demo_cluster s (demo_service n) =
     (demo_cluster\<lparr>cr_resource_ids := {n}\<rparr>, demo_service n # filter (\<lambda>x. res_key x \<noteq> res_key (demo_service n)) s,
      Inr (demo_service n))"
  unfolding cluster_resources_add_def demo_labels
  by (simp add: demo_defs maybe_mutate_def strategy_run_def apply_patch_def client_patch_def map_result_def)

lemma demo_orphans:
  "orphaned_resources_of_kind mem_client (demo_cluster\<lparr>cr_resource_ids := {''a''}\<rparr>)
     [demo_service ''a'', demo_service ''b''] ServiceKind = Inr [demo_service ''b'']"
proof -
  have "list_deployed_cluster_resources mem_client (demo_cluster\<lparr>cr_resource_ids := {''a''}\<rparr>)
     [demo_service ''a'', demo_service ''b''] ServiceKind = Inr [demo_service ''a'', demo_service ''b'']"
    by (simp add: list_deployed_cluster_resources_def list_with_label_selector_def cluster_selector_query client_list_def
        demo_defs mem_find_def res_key_def get_namespace_def owned_by_cluster_def)
  then show ?thesis by (simp add: orphaned_resources_of_kind_def demo_defs)
qed

theorem added_resources_survive_witness:
  "\<exists>s' tasks. (delete_step mem_client (demo_cluster\<lparr>cr_resource_ids := {''a''}\<rparr>))\<^sup>*\<^sup>*
       ([demo_service ''a'', demo_service ''b''], initial_tasks :: unit task list) (s', tasks) \<and>
     tasks ! 0 = Deleting [demo_service ''b''] \<and> mem_find s' (res_key (demo_service ''a'')) = Some (demo_service ''a'')"
proof -
  let ?self = "demo_cluster\<lparr>cr_resource_ids := {''a''}\<rparr>"
  let ?s = "[demo_service ''a'', demo_service ''b'']"
  have add: "add_all demo_env mem_client demo_cluster [demo_service ''b''] [demo_service ''a''] =
      (?self, ?s, [Inr (demo_service ''a'')])"
    by (simp add: demo_add) (simp add: res_key_def demo_service_def)
  have i0: "(initial_tasks :: unit task list) ! 0 = Todo ServiceKind" "0 < length (initial_tasks :: unit task list)"
      "\<not> list_ex is_failed (initial_tasks :: unit task list)"
    by (simp_all add: initial_tasks_def orphan_kinds_def)
  have step: "delete_step mem_client ?self (?s, initial_tasks :: unit task list) (?s, initial_tasks[0 := Deleting [demo_service ''b'']])"
    by (rule delete_step.intros [OF i0(2,3)]) (simp_all add: i0 demo_orphans)
  have "mem_find ?s (res_key (demo_service ''a'')) = Some (demo_service ''a'')" by (simp add: mem_find_def)
  moreover have steps: "(delete_step mem_client ?self)\<^sup>*\<^sup>* (?s, initial_tasks :: unit task list)
      (?s, initial_tasks[0 := Deleting [demo_service ''b'']])" using step by (rule r_into_rtranclp)
  moreover have "kube_laws (kube mem_client) mem_find (\<lambda>_ _. True)" by (simp add: mem_laws)
  ultimately have "mem_find ?s (res_key (demo_service ''a'')) = Some (demo_service ''a'')"
    using added_resources_survive [where p = "demo_service ''a''", OF _ add] by simp
  with steps i0(2) show ?thesis by (metis nth_list_update_eq)
qed

subsection \<open>Completeness and termination of the deletion\<close>

definition pending :: "resource \<Rightarrow> 'p task \<Rightarrow> bool" where
  "pending p t \<longleftrightarrow>
     (case t of Todo kind \<Rightarrow> kind = res_kind p | Deleting rs \<Rightarrow> p \<in> set rs | Finished \<Rightarrow> False | Failed e \<Rightarrow> True)"

lemma run_task_find:
  assumes laws: "kube_laws (kube client) find_object selected" and run: "run_task client self s t = (s', t')"
  shows "find_object s' k = None \<or> find_object s' k = find_object s k"
proof (cases "\<exists>r rs. t = Deleting (r # rs)")
  case True
  then obtain r rs where t: "t = Deleting (r # rs)" by blast
  obtain s1 x where del: "api_delete (kube client) s (res_kind r) (get_namespace r) (res_name r) = (s1, x)"
    by (cases "api_delete (kube client) s (res_kind r) (get_namespace r) (res_name r)")
  then have "s' = s1" using run t by (cases x) (auto simp: client_delete_def map_result_def)
  then show ?thesis
    using kube_laws_delete [OF laws del] kube_laws_delete_other [OF laws del, of k]
    by (cases "k = (res_kind r, get_namespace r, res_name r)") auto
next
  case False
  then have "s' = s" using run by (cases "(client, self, s, t)" rule: run_task.cases) (auto split: sum.splits)
  then show ?thesis by simp
qed

definition orphan :: "('s \<Rightarrow> object_key \<Rightarrow> resource option) \<Rightarrow> (string \<Rightarrow> resource \<Rightarrow> bool) \<Rightarrow> cluster_resources \<Rightarrow> 's \<Rightarrow> resource \<Rightarrow> bool" where
  "orphan find_object selected self s p \<longleftrightarrow>
     find_object s (res_key p) = Some p \<and> get_namespace p = cr_namespace self \<and> selected (selector_string self) p \<and>
     owned_by_cluster self p \<and> (\<exists>u. res_uid p = Some u \<and> u \<notin> cr_resource_ids self)"

lemma run_own_task:
  assumes laws: "kube_laws (kube client) find_object selected" and run: "run_task client self s t = (s', t')"
    and strategy: "delete_orphans (cr_apply_strategy self)"
    and allowed: "\<And>s. api_list (kube client) s (res_kind p) (cr_namespace self) (Some (selector_string self)) \<noteq> Inl (ApiStatus True)"
    and p: "orphan find_object selected self s p" and t: "pending p t"
  shows "find_object s' (res_key p) = None \<or> pending p (t' :: 'p task)"
proof (cases t)
  case (Todo kind)
  show ?thesis
  proof (cases "orphaned_resources_of_kind client self s kind :: (resource list, 'p cluster_resources_error) result")
    case (Inl e)
    then show ?thesis using run Todo by (auto simp: pending_def)
  next
    case (Inr os)
    have kind: "kind = res_kind p" using t Todo by (simp add: pending_def)
    have "p \<in> set os" using Inr
    proof (cases rule: orphaned_cases)
      case 2
      then have "api_list (kube client) s kind (cr_namespace self) (Some (selector_string self)) = Inl (ApiStatus True)"
        by (auto simp: list_deployed_cluster_resources_def list_with_label_selector_def client_list_def
            cluster_selector_query and_then_eq_Inl)
      then show ?thesis using allowed kind by blast
    next
      case (3 rs)
      then show ?thesis using list_deployed_iff [OF laws 3(1)] p kind by (auto simp: orphan_def)
    qed (use strategy in simp)
    then show ?thesis using run Todo Inr by (auto simp: pending_def)
  qed
next
  case (Deleting rs)
  then obtain r rs' where rs: "rs = r # rs'" using t by (cases rs) (auto simp: pending_def)
  obtain s1 x where del: "api_delete (kube client) s (res_kind r) (get_namespace r) (res_name r) = (s1, x)"
    by (cases "api_delete (kube client) s (res_kind r) (get_namespace r) (res_name r)")
  show ?thesis
  proof (cases x)
    case (Inl e)
    then show ?thesis using run Deleting rs del by (auto simp: pending_def client_delete_def map_result_def)
  next
    case (Inr u)
    then have run': "s' = s1" "t' = Deleting rs'" using run Deleting rs del by (auto simp: client_delete_def map_result_def)
    show ?thesis
    proof (cases "r = p")
      case True
      then show ?thesis using kube_laws_delete [OF laws del] Inr run' by (simp add: res_key_def)
    next
      case False
      then show ?thesis using t Deleting rs run' by (simp add: pending_def)
    qed
  qed
qed (use t run in \<open>auto simp: pending_def\<close>)

lemma all_kinds: "\<exists>i < length orphan_kinds. orphan_kinds ! i = kind"
proof -
  have "kind \<in> set orphan_kinds" by (cases kind) (simp_all add: orphan_kinds_def)
  then show ?thesis by (simp add: in_set_conv_nth)
qed


text \<open>A schedule for the witness: the first kind to the end, then each other kind with nothing to delete.\<close>

lemma finish_empty_kinds:
  assumes "\<And>kind. kind \<in> set kinds \<Longrightarrow>
    orphaned_resources_of_kind client self s kind = (Inr [] :: (resource list, 'p cluster_resources_error) result)"
  shows "(delete_step client self)\<^sup>*\<^sup>* (s, replicate n Finished @ map Todo kinds) (s, replicate (n + length kinds) (Finished :: 'p task))"
  using assms
proof (induction kinds arbitrary: n)
  case (Cons kind kinds)
  have e: "orphaned_resources_of_kind client self s kind = (Inr [] :: (resource list, 'p cluster_resources_error) result)"
    using Cons.prems by simp
  let ?rest = "map Todo kinds :: 'p task list"
  have nf: "\<not> list_ex is_failed (replicate n Finished @ t # ?rest)" if "\<not> is_failed t" for t :: "'p task"
    using that by (auto simp: list_ex_iff)
  have "delete_step client self (s, replicate n Finished @ Todo kind # ?rest) (s, (replicate n Finished @ Todo kind # ?rest)[n := Deleting []])"
    by (rule delete_step.intros) (use nf [of "Todo kind"] e in \<open>simp_all add: nth_append\<close>)
  moreover have "delete_step client self (s, replicate n Finished @ Deleting [] # ?rest) (s, (replicate n Finished @ Deleting [] # ?rest)[n := Finished])"
    by (rule delete_step.intros) (use nf [of "Deleting []"] in \<open>simp_all add: nth_append\<close>)
  moreover have "(delete_step client self)\<^sup>*\<^sup>* (s, replicate (Suc n) Finished @ ?rest) (s, replicate (Suc n + length kinds) Finished)"
    using Cons.prems by (intro Cons.IH) simp_all
  ultimately show ?case
    by (simp add: list_update_append) (metis (no_types, lifting) converse_rtranclp_into_rtranclp replicate_app_Cons_same)
qed simp


subsection \<open>One kind on its own\<close>

text \<open>
  The tasks are \<open>delete_orphaned_resources_of_kind\<close> cut at its requests: run alone, a task ends in
  the state and with the result of the whole function.
\<close>

definition task_of_result :: "(unit, 'p cluster_resources_error) result \<Rightarrow> 'p task" where
  "task_of_result r = (case r of Inl e \<Rightarrow> Failed e | Inr _ \<Rightarrow> Finished)"

lemma delete_step_single:
  assumes "runnable t" "run_task client self s t = (s', t')" "\<not> is_failed t"
  shows "delete_step client self (s, [t]) (s', [t'])"
  using delete_step.delete_step [of 0 "[t]" client self s s' t'] assms by simp

lemma delete_resources_steps:
  "(delete_step client self)\<^sup>*\<^sup>* (s, [Deleting rs :: 'p task])
     (map_prod id (\<lambda>r. [task_of_result r]) (delete_resources client s rs))"
proof (induction rs arbitrary: s)
  case Nil
  have "delete_step client self (s, [Deleting [] :: 'p task]) (s, [Finished])" by (rule delete_step_single) simp_all
  then show ?case by (simp add: task_of_result_def)
next
  case (Cons res rs)
  obtain s' r where r: "client_delete client s res = (s', r)" by (cases "client_delete client s res")
  show ?case
  proof (cases r)
    case (Inl e)
    have "delete_step client self (s, [Deleting (res # rs) :: 'p task]) (s', [Failed (DeleteOrphanedResource e)])"
      by (rule delete_step_single) (simp_all add: r Inl)
    then show ?thesis by (simp add: r Inl task_of_result_def)
  next
    case (Inr u)
    have "delete_step client self (s, [Deleting (res # rs) :: 'p task]) (s', [Deleting rs])"
      by (rule delete_step_single) (simp_all add: r Inr)
    then show ?thesis using Cons.IH [of s'] by (simp add: r Inr converse_rtranclp_into_rtranclp)
  qed
qed

lemma delete_orphaned_resources_of_kind_steps:
  "(delete_step client self)\<^sup>*\<^sup>* (s, [Todo kind :: 'p task])
     (map_prod id (\<lambda>r. [task_of_result r]) (delete_orphaned_resources_of_kind client self s kind))"
proof (cases "orphaned_resources_of_kind client self s kind :: (resource list, 'p cluster_resources_error) result")
  case (Inl e)
  have "delete_step client self (s, [Todo kind :: 'p task]) (s, [Failed e])" by (rule delete_step_single) (simp_all add: Inl)
  then show ?thesis by (simp add: delete_orphaned_resources_of_kind_def Inl task_of_result_def)
next
  case (Inr rs)
  have "delete_step client self (s, [Todo kind :: 'p task]) (s, [Deleting rs])" by (rule delete_step_single) (simp_all add: Inr)
  from converse_rtranclp_into_rtranclp [OF this delete_resources_steps] show ?thesis
    by (simp add: delete_orphaned_resources_of_kind_def Inr)
qed

subsection \<open>Termination\<close>

definition is_todo :: "'p task \<Rightarrow> bool" where
  "is_todo t \<longleftrightarrow> (case t of Todo kind \<Rightarrow> True | _ \<Rightarrow> False)"

definition work :: "'p task \<Rightarrow> nat" where
  "work t = (case t of Deleting rs \<Rightarrow> Suc (length rs) | _ \<Rightarrow> 0)"

definition tasks_measure :: "'p task list \<Rightarrow> nat \<times> nat" where
  "tasks_measure ts = (length (filter is_todo ts), sum_list (map work ts))"

lemma tasks_measure_split:
  "i < length ts \<Longrightarrow> tasks_measure (ts[i := t]) =
     (fst (tasks_measure (take i ts @ drop (Suc i) ts)) + (if is_todo t then 1 else 0),
      snd (tasks_measure (take i ts @ drop (Suc i) ts)) + work t)"
  by (simp add: tasks_measure_def upd_conv_take_nth_drop)

lemma run_task_work:
  assumes "runnable t" "run_task client self s t = (s', t')"
  shows "is_todo t \<and> \<not> is_todo t' \<or> \<not> is_todo t \<and> \<not> is_todo t' \<and> work t' < work t"
  using assms by (cases "(client, self, s, t)" rule: run_task.cases)
    (auto simp: is_todo_def work_def split: sum.splits prod.splits)

lemma delete_step_decreases:
  assumes "delete_step client self c c'"
  shows "(tasks_measure (snd c'), tasks_measure (snd c)) \<in> less_than <*lex*> less_than"
proof -
  obtain s ts where c: "c = (s, ts)" by (cases c)
  have "delete_step client self (s, ts) c'" using assms c by simp
  then show ?thesis
  proof (rule delete_stepE)
    fix i s' t
    assume *: "c' = (s', ts[i := t])" "i < length ts" "runnable (ts ! i)" "run_task client self s (ts ! i) = (s', t)"
    have "tasks_measure ts = tasks_measure (ts[i := ts ! i])" by simp
    then show ?thesis
      using run_task_work [OF *(3,4)] tasks_measure_split [OF *(2), of t] tasks_measure_split [OF *(2), of "ts ! i"]
      unfolding c *(1) snd_conv by auto
  qed
qed


subsection \<open>Strategies\<close>

definition idle :: "'p task \<Rightarrow> bool" where
  "idle t \<longleftrightarrow> (case t of Deleting rs \<Rightarrow> rs = [] | _ \<Rightarrow> True)"

lemma run_task_quiet:
  assumes "\<not> delete_orphans (cr_apply_strategy self)" "idle t" "run_task client self s t = (s', t')"
  shows "s' = s \<and> idle t'"
  using assms by (cases "(client, self, s, t)" rule: run_task.cases)
    (auto simp: idle_def orphaned_resources_of_kind_def)

lemma delete_steps_quiet:
  assumes "\<not> delete_orphans (cr_apply_strategy self)" "(delete_step client self)\<^sup>*\<^sup>* c c'" "list_all idle (snd c)"
  shows "fst c' = fst c \<and> list_all idle (snd c')"
  using assms(2)
proof (induction rule: rtranclp_induct)
  case (step b c')
  obtain s ts where b: "b = (s, ts)" by (cases b)
  have "delete_step client self (s, ts) c'" using step.hyps(2) b by simp
  then show ?case
  proof (rule delete_stepE)
    fix i s' t
    assume *: "c' = (s', ts[i := t])" "i < length ts" "run_task client self s (ts ! i) = (s', t)"
    have "idle (ts ! i)" using step.IH b *(2) by (simp add: list_all_length)
    then have "s' = s \<and> idle t" using run_task_quiet [OF assms(1) _ *(3)] by simp
    then show ?thesis using * step.IH b by (auto simp: list_all_length nth_list_update)
  qed
qed (use assms(3) in simp)

lemma idle_initial: "list_all idle initial_tasks"
  by (simp add: initial_tasks_def idle_def list_all_iff)

text \<open>
  C4: While the reconciliation is paused, or with the dry-run strategy, nothing is written to the API
  server: neither adding a resource nor any state of the deletion of orphans changes it.
\<close>

theorem quiet_strategies_do_not_write:
  assumes "cr_apply_strategy self = ReconciliationPausedStrategy \<or> cr_apply_strategy self = NoApply"
  shows "fst (snd (cluster_resources_add env client self s res)) = s \<and>
    ((delete_step client self)\<^sup>*\<^sup>* (s, initial_tasks) (s', tasks) \<longrightarrow> s' = s)"
proof
  show "fst (snd (cluster_resources_add env client self s res)) = s"
    using assms by (auto simp: cluster_resources_add_def strategy_run_def split: sum.splits option.splits)
  show "(delete_step client self)\<^sup>*\<^sup>* (s, initial_tasks) (s', tasks) \<longrightarrow> s' = s"
    using delete_steps_quiet [of self client "(s, initial_tasks)" "(s', tasks)"] assms by (auto simp: idle_initial)
qed

theorem quiet_strategies_do_not_write_witness:
  "fst (snd (cluster_resources_add demo_env mem_client (demo_cluster\<lparr>cr_apply_strategy := NoApply\<rparr>) [] (demo_service ''a''))) = []"
  using quiet_strategies_do_not_write [of "demo_cluster\<lparr>cr_apply_strategy := NoApply\<rparr>" demo_env mem_client "[]"
      "demo_service ''a''" "[]" "[] :: unit task list"] by simp



subsection \<open>Labels of added resources\<close>

lemma check_labels_Inr: "check_labels labels es = Inr () \<longleftrightarrow> (\<forall>(k, v) \<in> set es. btree_get labels k = Some v)"
  by (induction es) (auto simp: check_label_def split: option.splits if_splits)

lemma recommended_labels_expected:
  assumes "labels_recommended ob = Some (Inr L)"
    and "ol_owner_name ob = cr_app_instance self" "ol_app_name ob = cr_app_name self"
    and "cr_manager self = format_full_controller_name (ol_operator_name ob) (ol_controller_name ob)"
  shows "check_labels (labels_into_map L) (expected_labels self) = Inr ()"
proof -
  have L: "L = recommended_set ob" using assms(1) by (simp add: recommended_Inr)
  have map: "labels_into_map L = map (\<lambda>(k, v). (key_fmt k, label_value_fmt v)) (recommended_set ob)"
    unfolding L labels_into_map_def by (rule label_value.into_map_sorted [OF recommended_wf])
  show ?thesis
    unfolding map check_labels_Inr using assms(2-4)
    by (simp add: expected_labels_def btree_get_def recommended_set_def app_key_def vendor_key_def key_fmt_def
        K8S_APP_INSTANCE_KEY_def K8S_APP_MANAGED_BY_KEY_def K8S_APP_NAME_KEY_def K8S_APP_KEY_PREFIX_def
        format_full_controller_name_def)
qed

text \<open>
  \<open>add\<close> accepts resources that carry the recommended labels: for an object of the same application,
  instance, operator and controller, the check of the labels succeeds. A resource without one of
  the three labels is refused before anything is recorded or sent.
\<close>

theorem recommended_labels_accepted:
  assumes "labels_recommended ob = Some (Inr L)"
    and "ol_owner_name ob = cr_app_instance self" "ol_app_name ob = cr_app_name self"
    and "cr_manager self = format_full_controller_name (ol_operator_name ob) (ol_controller_name ob)"
  shows "check_labels (labels_into_map L) (expected_labels self) = Inr () \<and>
    ((\<exists>(k, v) \<in> set (expected_labels self). btree_get (res_labels res) k \<noteq> Some v) \<longrightarrow>
       (\<exists>e. cluster_resources_add env client self s res = (self, s, Inl e)))"
proof
  show "check_labels (labels_into_map L) (expected_labels self) = Inr ()" by (rule recommended_labels_expected [OF assms])
  show "(\<exists>(k, v) \<in> set (expected_labels self). btree_get (res_labels res) k \<noteq> Some v) \<longrightarrow>
       (\<exists>e. cluster_resources_add env client self s res = (self, s, Inl e))"
    using check_labels_Inr [of "res_labels res" "expected_labels self"]
    by (auto simp: cluster_resources_add_def split: sum.splits)
qed

theorem recommended_labels_accepted_witness:
  "\<exists>L. labels_recommended \<lparr>ol_owner_name = ''zk'', ol_app_name = ''zookeeper'', ol_app_version = ''1'',
      ol_operator_name = ''op'', ol_controller_name = ''c'', ol_role = ''server'', ol_role_group = ''default''\<rparr> = Some (Inr L) \<and>
    check_labels (labels_into_map L) (expected_labels demo_cluster) = (Inr () :: (unit, unit cluster_resources_error) result)"
proof -
  let ?o = "\<lparr>ol_owner_name = ''zk'', ol_app_name = ''zookeeper'', ol_app_version = ''1'', ol_operator_name = ''op'',
    ol_controller_name = ''c'', ol_role = ''server'', ol_role_group = ''default''\<rparr>"
  have r: "labels_recommended ?o = Some (Inr (recommended_set ?o))"
    unfolding recommended_Inr by (simp add: label_value_ok_def key_eval)
  have "check_labels (labels_into_map (recommended_set ?o)) (expected_labels demo_cluster) =
      (Inr () :: (unit, unit cluster_resources_error) result)"
    by (rule recommended_labels_accepted [OF r, THEN conjunct1])
      (simp_all add: demo_cluster_def format_full_controller_name_def)
  with r show ?thesis by blast
qed

end
