(* ===== verification/Annotations.thy ===== *)
theory Annotations
  imports Labels
begin

section \<open>Annotations\<close>

text \<open>
  \<open>stackable-operator/src/kvp/annotation\<close>: annotation values (any string), the annotations that
  configure the secret operator and the autoscaler, and the string for the secret scopes.
\<close>

datatype annotation_value = AnnotationValue (annotation_value_fmt: string)

text \<open>\<open>Infallible\<close> has no values; no error of this type is ever produced.\<close>

datatype infallible = Infallible

definition annotation_value_from_str :: "string \<Rightarrow> (annotation_value, infallible) result" where
  "annotation_value_from_str input = Inr (AnnotationValue input)"

instantiation annotation_value :: linorder
begin

definition less_eq_annotation_value :: "annotation_value \<Rightarrow> annotation_value \<Rightarrow> bool" where
  "less_eq_annotation_value v w \<longleftrightarrow> annotation_value_fmt v \<le> annotation_value_fmt w"

definition less_annotation_value :: "annotation_value \<Rightarrow> annotation_value \<Rightarrow> bool" where
  "less_annotation_value v w \<longleftrightarrow> annotation_value_fmt v < annotation_value_fmt w"

instance
proof
  fix u v w :: annotation_value
  show "(u < v) = (u \<le> v \<and> \<not> v \<le> u)"
    unfolding less_eq_annotation_value_def less_annotation_value_def by (rule less_le_not_le)
  show "u \<le> u" unfolding less_eq_annotation_value_def by (rule order_refl)
  show "u \<le> v \<Longrightarrow> v \<le> w \<Longrightarrow> u \<le> w" unfolding less_eq_annotation_value_def by (rule order_trans)
  show "u \<le> v \<Longrightarrow> v \<le> u \<Longrightarrow> u = v"
    unfolding less_eq_annotation_value_def using annotation_value.expand order_antisym by blast
  show "u \<le> v \<or> v \<le> u" unfolding less_eq_annotation_value_def by (rule linear)
qed

end

interpretation annotation_value: kvp_value annotation_value_from_str annotation_value_fmt "\<lambda>_. True"
  by unfold_locales (auto simp: less_annotation_value_def annotation_value_from_str_def)

type_synonym annotation = "annotation_value key_value_pair"

type_synonym annotations = "annotation_value key_value_pairs"

type_synonym annotation_error = "infallible key_value_pair_error"

definition annotation_try_from :: "string \<times> string \<Rightarrow> (annotation, annotation_error) result" where
  "annotation_try_from value = kvp_try_from annotation_value_from_str value"

datatype secret_class_volume_provision_parts = Public | PublicPrivate

text \<open>\<open>strum::AsRefStr\<close> in kebab case.\<close>

fun provision_parts_str :: "secret_class_volume_provision_parts \<Rightarrow> string" where
  "provision_parts_str Public = ''public''"
| "provision_parts_str PublicPrivate = ''public-private''"

datatype secret_operator_volume_scope = Node | Pod | Service string | ListenerVolume string

definition secret_provision_parts :: "secret_class_volume_provision_parts \<Rightarrow> (annotation, annotation_error) result" where
  "secret_provision_parts provision_parts =
     annotation_try_from (''secrets.stackable.tech/provision-parts'', provision_parts_str provision_parts)"

definition secret_class :: "string \<Rightarrow> (annotation, annotation_error) result" where
  "secret_class cls = annotation_try_from (''secrets.stackable.tech/class'', cls)"

fun scope_str :: "secret_operator_volume_scope \<Rightarrow> string" where
  "scope_str Node = ''node''"
| "scope_str Pod = ''pod''"
| "scope_str (Service name) = ''service='' @ name"
| "scope_str (ListenerVolume name) = ''listener-volume='' @ name"

text \<open>The loop of \<open>secret_scope\<close>: a comma before a scope unless nothing has been written yet.\<close>

fun push_scopes :: "string \<Rightarrow> secret_operator_volume_scope list \<Rightarrow> string" where
  "push_scopes value [] = value"
| "push_scopes value (scope # scopes) =
     push_scopes ((if value \<noteq> [] then value @ '','' else value) @ scope_str scope) scopes"

definition secret_scope :: "secret_operator_volume_scope list \<Rightarrow> (annotation, annotation_error) result" where
  "secret_scope scopes = annotation_try_from (''secrets.stackable.tech/scope'', push_scopes [] scopes)"

definition secret_format :: "string \<Rightarrow> (annotation, annotation_error) result" where
  "secret_format format = annotation_try_from (''secrets.stackable.tech/format'', format)"

definition kerberos_service_names :: "string list \<Rightarrow> (annotation, annotation_error) result" where
  "kerberos_service_names names =
     annotation_try_from (''secrets.stackable.tech/kerberos.service.names'', join '','' names)"

definition tls_pkcs12_password :: "string \<Rightarrow> (annotation, annotation_error) result" where
  "tls_pkcs12_password password =
     annotation_try_from (''secrets.stackable.tech/format.compatibility.tls-pkcs12.password'', password)"

definition auto_tls_cert_lifetime :: "string \<Rightarrow> (annotation, annotation_error) result" where
  "auto_tls_cert_lifetime lifetime =
     annotation_try_from (''secrets.stackable.tech/backend.autotls.cert.lifetime'', lifetime)"

fun bool_to_string :: "bool \<Rightarrow> string" where
  "bool_to_string True = ''true''"
| "bool_to_string False = ''false''"

definition autoscaling_retry :: "bool \<Rightarrow> annotation option" where
  "autoscaling_retry retry =
     expect (annotation_try_from (''autoscaling.stackable.tech/retry'', bool_to_string retry))"

definition auto_tls_cert_domain_components_in_subject_dn :: "bool \<Rightarrow> annotation option" where
  "auto_tls_cert_domain_components_in_subject_dn enabled =
     expect (annotation_try_from
       (''secrets.stackable.tech/backend.autotls.cert.domain-components-in-subject-dn'', bool_to_string enabled))"

definition annotations_from_iter :: "annotation list \<Rightarrow> annotations" where
  "annotations_from_iter iter = kvps_from_iter iter"

definition annotations_try_from_iter :: "(string \<times> string) list \<Rightarrow> (annotations, annotation_error) result" where
  "annotations_try_from_iter iter = and_then (kvps_try_from_iter annotation_value_from_str iter) (\<lambda>kvps. Inr kvps)"

definition annotations_try_from_map :: "(string, string) btreemap \<Rightarrow> (annotations, annotation_error) result" where
  "annotations_try_from_map m = annotations_try_from_iter m"

definition annotations_try_from_array :: "(string \<times> string) list \<Rightarrow> (annotations, annotation_error) result" where
  "annotations_try_from_array array = annotations_try_from_iter array"

definition annotations_into_map :: "annotations \<Rightarrow> (string, string) btreemap" where
  "annotations_into_map value = kvps_into_map annotation_value_fmt value"

definition annotations_insert :: "annotations \<Rightarrow> annotation \<Rightarrow> annotations" where
  "annotations_insert self annotation = kvps_insert annotation self"

definition annotations_parse_insert ::
    "annotations \<Rightarrow> (annotation, annotation_error) result \<Rightarrow> (annotations, annotation_error) result" where
  "annotations_parse_insert self annotation = and_then annotation (\<lambda>a. Inr (kvps_insert a self))"

subsection \<open>Scopes\<close>

lemma push_scopes_join:
  "push_scopes (join '','' ts) ss = join '','' (ts @ map scope_str ss)" if "[] \<notin> set ts"
  using that
proof (induction ss arbitrary: ts)
  case (Cons s ss)
  have ne: "scope_str s \<noteq> []" by (cases s) auto
  have step: "(if join '','' ts \<noteq> [] then join '','' ts @ '','' else join '','' ts) @ scope_str s = join '','' (ts @ [scope_str s])"
    using Cons.prems by (simp add: join_append join_eq_Nil)
  have "push_scopes (join '','' ts) (s # ss) = push_scopes (join '','' (ts @ [scope_str s])) ss"
    using step by simp
  also have "\<dots> = join '','' ((ts @ [scope_str s]) @ map scope_str ss)"
    using Cons.prems ne by (intro Cons.IH) auto
  finally show ?case by simp
qed simp

lemma push_scopes_Nil: "push_scopes [] ss = join '','' (map scope_str ss)"
  using push_scopes_join [of "[]" ss] by simp

text \<open>What the secret operator has to undo: split at the commas, then at the first \<open>=\<close>.\<close>

definition parse_scope :: "string \<Rightarrow> secret_operator_volume_scope option" where
  "parse_scope s =
     (case split_once (CHR ''='') s of
        None \<Rightarrow> if s = ''node'' then Some Node else if s = ''pod'' then Some Pod else None
      | Some (kind, name) \<Rightarrow>
          if kind = ''service'' then Some (Service name)
          else if kind = ''listener-volume'' then Some (ListenerVolume name)
          else None)"

fun scope_plain :: "secret_operator_volume_scope \<Rightarrow> bool" where
  "scope_plain (Service name) \<longleftrightarrow> CHR '','' \<notin> set name"
| "scope_plain (ListenerVolume name) \<longleftrightarrow> CHR '','' \<notin> set name"
| "scope_plain _ \<longleftrightarrow> True"

lemma parse_scope_str [simp]: "parse_scope (scope_str s) = Some s"
proof (cases s)
  case (Service n)
  have "split_once (CHR ''='') (''service'' @ CHR ''='' # n) = Some (''service'', n)" by (subst split_once_append) auto
  then show ?thesis using Service by (simp add: parse_scope_def)
next
  case (ListenerVolume n)
  have "split_once (CHR ''='') (''listener-volume'' @ CHR ''='' # n) = Some (''listener-volume'', n)"
    by (subst split_once_append) auto
  then show ?thesis using ListenerVolume by (simp add: parse_scope_def)
qed (simp_all add: parse_scope_def)

lemma scope_plain_no_comma: "scope_plain s \<Longrightarrow> CHR '','' \<notin> set (scope_str s)"
  by (cases s) auto

lemma split_join: "ts \<noteq> [] \<Longrightarrow> (\<And>t. t \<in> set ts \<Longrightarrow> c \<notin> set t) \<Longrightarrow> split_char c (join [c] ts) = ts"
proof (induction ts)
  case (Cons t ts)
  then show ?case by (cases "ts = []") (auto simp: join_Cons)
qed simp

lemma secrets_prefix_ok: "prefix_ok ''secrets.stackable.tech''"
  using prefix_okI [of "CHR ''s''" "''ecrets.stackable''" "''tech''"] by (simp add: key_eval)

lemma autoscaling_prefix_ok: "prefix_ok ''autoscaling.stackable.tech''"
  using prefix_okI [of "CHR ''a''" "''utoscaling.stackable''" "''tech''"] by (simp add: key_eval)

definition secrets_key :: "string \<Rightarrow> key" where
  "secrets_key n = Key (''secrets.stackable.tech/'' @ n) (Some ''secrets.stackable.tech'') n"

lemma secrets_annotation:
  "name_ok n \<Longrightarrow> annotation_try_from (''secrets.stackable.tech/'' @ n, v) = Inr (secrets_key n, AnnotationValue v)"
  using key_from_str_const [OF secrets_prefix_ok, of n]
  by (simp add: annotation_try_from_def kvp_try_from_Inr_iff annotation_value_from_str_def secrets_key_def)

lemma annotation_names:
  "name_ok ''provision-parts''" "name_ok ''class''" "name_ok ''scope''" "name_ok ''format''"
  "name_ok ''kerberos.service.names''" "name_ok ''format.compatibility.tls-pkcs12.password''"
  "name_ok ''backend.autotls.cert.lifetime''" "name_ok ''retry''"
  "name_ok ''backend.autotls.cert.domain-components-in-subject-dn''"
  by (simp_all add: name_ok_def key_eval)

lemma annotation_constructors:
  "secret_provision_parts parts = Inr (secrets_key ''provision-parts'', AnnotationValue (provision_parts_str parts))"
  "secret_class v = Inr (secrets_key ''class'', AnnotationValue v)"
  "secret_scope scopes = Inr (secrets_key ''scope'', AnnotationValue (join '','' (map scope_str scopes)))"
  "secret_format v = Inr (secrets_key ''format'', AnnotationValue v)"
  "kerberos_service_names vs = Inr (secrets_key ''kerberos.service.names'', AnnotationValue (join '','' vs))"
  "tls_pkcs12_password v = Inr (secrets_key ''format.compatibility.tls-pkcs12.password'', AnnotationValue v)"
  "auto_tls_cert_lifetime v = Inr (secrets_key ''backend.autotls.cert.lifetime'', AnnotationValue v)"
  "auto_tls_cert_domain_components_in_subject_dn b =
     Some (secrets_key ''backend.autotls.cert.domain-components-in-subject-dn'', AnnotationValue (bool_to_string b))"
  using annotation_names [THEN secrets_annotation, simplified]
  by (simp_all add: secret_provision_parts_def secret_class_def secret_scope_def secret_format_def push_scopes_Nil
      kerberos_service_names_def tls_pkcs12_password_def auto_tls_cert_lifetime_def
      auto_tls_cert_domain_components_in_subject_dn_def)

text \<open>
  None of the annotation constructors can fail or panic: their keys are valid and annotation
  values are unrestricted. In particular the two constructors that use \<open>expect\<close> are safe.
\<close>

theorem annotation_constructors_total:
  "secret_provision_parts parts = Inr (secrets_key ''provision-parts'', AnnotationValue (provision_parts_str parts)) \<and>
   secret_class v = Inr (secrets_key ''class'', AnnotationValue v) \<and>
   secret_scope scopes = Inr (secrets_key ''scope'', AnnotationValue (join '','' (map scope_str scopes))) \<and>
   secret_format v = Inr (secrets_key ''format'', AnnotationValue v) \<and>
   kerberos_service_names vs = Inr (secrets_key ''kerberos.service.names'', AnnotationValue (join '','' vs)) \<and>
   tls_pkcs12_password v = Inr (secrets_key ''format.compatibility.tls-pkcs12.password'', AnnotationValue v) \<and>
   auto_tls_cert_lifetime v = Inr (secrets_key ''backend.autotls.cert.lifetime'', AnnotationValue v) \<and>
   autoscaling_retry b \<noteq> None \<and>
   auto_tls_cert_domain_components_in_subject_dn b =
     Some (secrets_key ''backend.autotls.cert.domain-components-in-subject-dn'', AnnotationValue (bool_to_string b))"
proof -
  have "key_from_str ''autoscaling.stackable.tech/retry'' = Inr (Key ''autoscaling.stackable.tech/retry'' (Some ''autoscaling.stackable.tech'') ''retry'')"
    using key_from_str_const [OF autoscaling_prefix_ok annotation_names(8)] by simp
  then have "autoscaling_retry b \<noteq> None"
    by (simp add: autoscaling_retry_def annotation_try_from_def kvp_try_from_def annotation_value_from_str_def)
  then show ?thesis by (simp add: annotation_constructors)
qed

text \<open>
  The scope annotation loses nothing: when no service or listener volume name contains a comma,
  splitting the value at the commas and each part at its first \<open>=\<close> returns the scopes in order.
\<close>

theorem secret_scope_decodes:
  assumes "list_all scope_plain scopes" "scopes \<noteq> []"
  shows "\<exists>k v. secret_scope scopes = Inr (k, AnnotationValue v) \<and>
    map parse_scope (split_char (CHR '','') v) = map Some scopes"
proof -
  have "split_char (CHR '','') (join '','' (map scope_str scopes)) = map scope_str scopes"
    using assms scope_plain_no_comma by (intro split_join) (auto simp: list_all_iff)
  then show ?thesis
    using secrets_annotation [OF annotation_names(3)] by (simp add: secret_scope_def push_scopes_Nil)
qed

theorem secret_scope_decodes_witness:
  "\<exists>k v. secret_scope [Pod, Service ''a'', ListenerVolume ''b''] = Inr (k, AnnotationValue v) \<and>
    map parse_scope (split_char (CHR '','') v) = [Some Pod, Some (Service ''a''), Some (ListenerVolume ''b'')]"
  using secret_scope_decodes [of "[Pod, Service ''a'', ListenerVolume ''b'']"] by simp

end
