(* ===== verification/Builder_Meta.thy ===== *)
theory Builder_Meta
  imports Annotations
begin

section \<open>Builders of object metadata\<close>

text \<open>
  \<open>stackable-operator/src/builder/meta.rs\<close>, \<open>configmap.rs\<close> and \<open>pdb.rs\<close>. A method that takes
  \<open>&mut self\<close> returns the updated record. The structs of the Kubernetes API are records with the
  fields the builders fill; all other fields keep their default, \<open>None\<close>.

  An object of which the metadata of another one is derived (\<open>T: Resource\<close>) is used through
  \<open>api_version\<close>, \<open>kind\<close>, \<open>name_any()\<close>, \<open>namespace()\<close> and its uid.
\<close>

record kube_object =
  ko_api_version :: string
  ko_kind :: string
  ko_name_any :: string
  ko_namespace :: "string option"
  ko_uid :: "string option"

record owner_reference =
  or_api_version :: string
  or_block_owner_deletion :: "bool option"
  or_controller :: "bool option"
  or_kind :: string
  or_name :: string
  or_uid :: string

record object_meta =
  om_generate_name :: "string option"
  om_name :: "string option"
  om_namespace :: "string option"
  om_owner_references :: "owner_reference list option"
  om_labels :: "(string, string) btreemap option"
  om_annotations :: "(string, string) btreemap option"
  om_finalizers :: "string list option"

definition object_meta_default :: object_meta where
  "object_meta_default =
     \<lparr>om_generate_name = None, om_name = None, om_namespace = None, om_owner_references = None,
      om_labels = None, om_annotations = None, om_finalizers = None\<rparr>"

datatype meta_error = RecommendedLabels label_error | MetaMissingObjectKey string

text \<open>\<open>Option::get_or_insert_with\<close> followed by an update of the value.\<close>

definition get_or_insert_with :: "'a \<Rightarrow> ('a \<Rightarrow> 'a) \<Rightarrow> 'a option \<Rightarrow> 'a option" where
  "get_or_insert_with d f x = Some (f (case x of Some v \<Rightarrow> v | None \<Rightarrow> d))"

subsection \<open>Owner references\<close>

record owner_reference_builder =
  orb_api_version :: "string option"
  orb_block_owner_deletion :: "bool option"
  orb_controller :: "bool option"
  orb_kind :: "string option"
  orb_name :: "string option"
  orb_uid :: "string option"

definition owner_new :: owner_reference_builder where
  "owner_new =
     \<lparr>orb_api_version = None, orb_block_owner_deletion = None, orb_controller = None, orb_kind = None,
      orb_name = None, orb_uid = None\<rparr>"

definition owner_api_version :: "string \<Rightarrow> owner_reference_builder \<Rightarrow> owner_reference_builder" where
  "owner_api_version v self = self\<lparr>orb_api_version := Some v\<rparr>"

definition owner_api_version_opt :: "string option \<Rightarrow> owner_reference_builder \<Rightarrow> owner_reference_builder" where
  "owner_api_version_opt v self = self\<lparr>orb_api_version := v\<rparr>"

definition owner_block_owner_deletion :: "bool \<Rightarrow> owner_reference_builder \<Rightarrow> owner_reference_builder" where
  "owner_block_owner_deletion v self = self\<lparr>orb_block_owner_deletion := Some v\<rparr>"

definition owner_block_owner_deletion_opt :: "bool option \<Rightarrow> owner_reference_builder \<Rightarrow> owner_reference_builder" where
  "owner_block_owner_deletion_opt v self = self\<lparr>orb_block_owner_deletion := v\<rparr>"

definition owner_controller :: "bool \<Rightarrow> owner_reference_builder \<Rightarrow> owner_reference_builder" where
  "owner_controller v self = self\<lparr>orb_controller := Some v\<rparr>"

definition owner_controller_opt :: "bool option \<Rightarrow> owner_reference_builder \<Rightarrow> owner_reference_builder" where
  "owner_controller_opt v self = self\<lparr>orb_controller := v\<rparr>"

definition owner_kind :: "string \<Rightarrow> owner_reference_builder \<Rightarrow> owner_reference_builder" where
  "owner_kind v self = self\<lparr>orb_kind := Some v\<rparr>"

definition owner_kind_opt :: "string option \<Rightarrow> owner_reference_builder \<Rightarrow> owner_reference_builder" where
  "owner_kind_opt v self = self\<lparr>orb_kind := v\<rparr>"

definition owner_name :: "string \<Rightarrow> owner_reference_builder \<Rightarrow> owner_reference_builder" where
  "owner_name v self = self\<lparr>orb_name := Some v\<rparr>"

definition owner_name_opt :: "string option \<Rightarrow> owner_reference_builder \<Rightarrow> owner_reference_builder" where
  "owner_name_opt v self = self\<lparr>orb_name := v\<rparr>"

definition owner_uid :: "string \<Rightarrow> owner_reference_builder \<Rightarrow> owner_reference_builder" where
  "owner_uid v self = self\<lparr>orb_uid := Some v\<rparr>"

definition owner_uid_opt :: "string option \<Rightarrow> owner_reference_builder \<Rightarrow> owner_reference_builder" where
  "owner_uid_opt v self = self\<lparr>orb_uid := v\<rparr>"

definition initialize_from_resource :: "kube_object \<Rightarrow> owner_reference_builder \<Rightarrow> owner_reference_builder" where
  "initialize_from_resource resource self =
     owner_uid_opt (ko_uid resource) (owner_name (ko_name_any resource)
       (owner_kind (ko_kind resource) (owner_api_version (ko_api_version resource) self)))"

definition owner_build :: "owner_reference_builder \<Rightarrow> (owner_reference, meta_error) result" where
  "owner_build self =
     and_then (ok_or (MetaMissingObjectKey ''api_version'') (orb_api_version self)) (\<lambda>api_version.
     and_then (ok_or (MetaMissingObjectKey ''kind'') (orb_kind self)) (\<lambda>kind.
     and_then (ok_or (MetaMissingObjectKey ''name'') (orb_name self)) (\<lambda>name.
     and_then (ok_or (MetaMissingObjectKey ''uid'') (orb_uid self)) (\<lambda>uid.
     Inr \<lparr>or_api_version = api_version, or_block_owner_deletion = orb_block_owner_deletion self,
          or_controller = orb_controller self, or_kind = kind, or_name = name, or_uid = uid\<rparr>))))"

subsection \<open>Object metadata\<close>

record object_meta_builder =
  omb_annotations :: "annotations option"
  omb_finalizers :: "string list option"
  omb_generate_name :: "string option"
  omb_labels :: "labels option"
  omb_namespace :: "string option"
  omb_name :: "string option"
  omb_ownerreference :: "owner_reference option"

definition meta_new :: object_meta_builder where
  "meta_new =
     \<lparr>omb_annotations = None, omb_finalizers = None, omb_generate_name = None, omb_labels = None,
      omb_namespace = None, omb_name = None, omb_ownerreference = None\<rparr>"

definition meta_name_and_namespace :: "kube_object \<Rightarrow> object_meta_builder \<Rightarrow> object_meta_builder" where
  "meta_name_and_namespace resource self =
     self\<lparr>omb_name := Some (ko_name_any resource), omb_namespace := ko_namespace resource\<rparr>"

definition meta_name_opt :: "string option \<Rightarrow> object_meta_builder \<Rightarrow> object_meta_builder" where
  "meta_name_opt name self = self\<lparr>omb_name := name\<rparr>"

definition meta_name :: "string \<Rightarrow> object_meta_builder \<Rightarrow> object_meta_builder" where
  "meta_name name self = self\<lparr>omb_name := Some name\<rparr>"

definition meta_generate_name :: "string \<Rightarrow> object_meta_builder \<Rightarrow> object_meta_builder" where
  "meta_generate_name generate_name self = self\<lparr>omb_generate_name := Some generate_name\<rparr>"

definition meta_generate_name_opt :: "string option \<Rightarrow> object_meta_builder \<Rightarrow> object_meta_builder" where
  "meta_generate_name_opt generate_name self = self\<lparr>omb_generate_name := generate_name\<rparr>"

definition meta_namespace_opt :: "string option \<Rightarrow> object_meta_builder \<Rightarrow> object_meta_builder" where
  "meta_namespace_opt namespace self = self\<lparr>omb_namespace := namespace\<rparr>"

definition meta_namespace :: "string \<Rightarrow> object_meta_builder \<Rightarrow> object_meta_builder" where
  "meta_namespace namespace self = self\<lparr>omb_namespace := Some namespace\<rparr>"

definition meta_ownerreference :: "owner_reference \<Rightarrow> object_meta_builder \<Rightarrow> object_meta_builder" where
  "meta_ownerreference ownerreference self = self\<lparr>omb_ownerreference := Some ownerreference\<rparr>"

definition meta_ownerreference_opt :: "owner_reference option \<Rightarrow> object_meta_builder \<Rightarrow> object_meta_builder" where
  "meta_ownerreference_opt ownerreference self = self\<lparr>omb_ownerreference := ownerreference\<rparr>"

definition ownerreference_from_resource ::
    "kube_object \<Rightarrow> bool option \<Rightarrow> bool option \<Rightarrow> object_meta_builder \<Rightarrow> (object_meta_builder, meta_error) result" where
  "ownerreference_from_resource resource block_owner_deletion controller self =
     and_then (owner_build (owner_controller_opt controller (owner_block_owner_deletion_opt block_owner_deletion
       (initialize_from_resource resource owner_new)))) (\<lambda>ownerreference.
     Inr (self\<lparr>omb_ownerreference := Some ownerreference\<rparr>))"

definition with_annotation :: "annotation \<Rightarrow> object_meta_builder \<Rightarrow> object_meta_builder" where
  "with_annotation annotation self =
     self\<lparr>omb_annotations := get_or_insert_with kvps_new (\<lambda>a. annotations_insert a annotation) (omb_annotations self)\<rparr>"

definition with_annotations :: "annotations \<Rightarrow> object_meta_builder \<Rightarrow> object_meta_builder" where
  "with_annotations annotations self =
     self\<lparr>omb_annotations := get_or_insert_with kvps_new (\<lambda>a. kvps_extend a annotations) (omb_annotations self)\<rparr>"

definition meta_annotations :: "annotations \<Rightarrow> object_meta_builder \<Rightarrow> object_meta_builder" where
  "meta_annotations annotations self = self\<lparr>omb_annotations := Some annotations\<rparr>"

definition with_label :: "label \<Rightarrow> object_meta_builder \<Rightarrow> object_meta_builder" where
  "with_label label self =
     self\<lparr>omb_labels := get_or_insert_with kvps_new (\<lambda>l. labels_insert l label) (omb_labels self)\<rparr>"

definition with_labels :: "labels \<Rightarrow> object_meta_builder \<Rightarrow> object_meta_builder" where
  "with_labels labels self =
     self\<lparr>omb_labels := get_or_insert_with kvps_new (\<lambda>l. kvps_extend l labels) (omb_labels self)\<rparr>"

definition meta_labels :: "labels \<Rightarrow> object_meta_builder \<Rightarrow> object_meta_builder" where
  "meta_labels labels self = self\<lparr>omb_labels := Some labels\<rparr>"

text \<open>The outer option is the panic of \<open>Labels::recommended\<close>.\<close>

definition with_recommended_labels ::
    "object_labels \<Rightarrow> object_meta_builder \<Rightarrow> (object_meta_builder, meta_error) result option" where
  "with_recommended_labels object_labels self =
     (case labels_recommended object_labels of
        None \<Rightarrow> None
      | Some recommended \<Rightarrow> Some (and_then (map_err RecommendedLabels recommended) (\<lambda>recommended_labels.
          Inr (with_labels recommended_labels self))))"

definition with_finalizer :: "string \<Rightarrow> object_meta_builder \<Rightarrow> object_meta_builder" where
  "with_finalizer finalizer self =
     self\<lparr>omb_finalizers := get_or_insert_with [] (\<lambda>fs. fs @ [finalizer]) (omb_finalizers self)\<rparr>"

definition with_finalizers :: "string list \<Rightarrow> object_meta_builder \<Rightarrow> object_meta_builder" where
  "with_finalizers finalizers self =
     self\<lparr>omb_finalizers := get_or_insert_with [] (\<lambda>fs. fs @ finalizers) (omb_finalizers self)\<rparr>"

definition meta_finalizers :: "string list \<Rightarrow> object_meta_builder \<Rightarrow> object_meta_builder" where
  "meta_finalizers finalizers self = self\<lparr>omb_finalizers := Some finalizers\<rparr>"

definition meta_build :: "object_meta_builder \<Rightarrow> object_meta" where
  "meta_build self =
     object_meta_default
       \<lparr>om_generate_name := omb_generate_name self,
        om_name := omb_name self,
        om_namespace := omb_namespace self,
        om_owner_references := map_option (\<lambda>ownerreference. [ownerreference]) (omb_ownerreference self),
        om_labels := map_option labels_into_map (omb_labels self),
        om_annotations := map_option annotations_into_map (omb_annotations self),
        om_finalizers := omb_finalizers self\<rparr>"

lemmas meta_setter_defs = meta_name_and_namespace_def meta_name_opt_def meta_name_def meta_generate_name_def
  meta_generate_name_opt_def meta_namespace_opt_def meta_namespace_def meta_ownerreference_def
  meta_ownerreference_opt_def with_annotation_def with_annotations_def meta_annotations_def with_label_def
  with_labels_def meta_labels_def with_finalizer_def with_finalizers_def meta_finalizers_def

lemmas owner_setter_defs = owner_new_def owner_api_version_def owner_api_version_opt_def owner_block_owner_deletion_def
  owner_block_owner_deletion_opt_def owner_controller_def owner_controller_opt_def owner_kind_def owner_kind_opt_def
  owner_name_def owner_name_opt_def owner_uid_def owner_uid_opt_def initialize_from_resource_def

subsection \<open>ConfigMaps\<close>

datatype config_map_error = ConfigMapMissingObjectKey string

record config_map =
  cm_metadata :: object_meta
  cm_data :: "(string, string) btreemap option"

record config_map_builder =
  cmb_metadata :: "object_meta option"
  cmb_data :: "(string, string) btreemap option"

definition config_map_new :: config_map_builder where
  "config_map_new = \<lparr>cmb_metadata = None, cmb_data = None\<rparr>"

definition config_map_metadata :: "object_meta \<Rightarrow> config_map_builder \<Rightarrow> config_map_builder" where
  "config_map_metadata metadata self = self\<lparr>cmb_metadata := Some metadata\<rparr>"

definition config_map_metadata_default :: "config_map_builder \<Rightarrow> config_map_builder" where
  "config_map_metadata_default self = config_map_metadata object_meta_default self"

definition config_map_metadata_opt :: "object_meta option \<Rightarrow> config_map_builder \<Rightarrow> config_map_builder" where
  "config_map_metadata_opt metadata self = self\<lparr>cmb_metadata := metadata\<rparr>"

definition add_data :: "string \<Rightarrow> string \<Rightarrow> config_map_builder \<Rightarrow> config_map_builder" where
  "add_data key value self = self\<lparr>cmb_data := get_or_insert_with [] (btree_insert key value) (cmb_data self)\<rparr>"

definition config_map_data :: "(string, string) btreemap \<Rightarrow> config_map_builder \<Rightarrow> config_map_builder" where
  "config_map_data data self = self\<lparr>cmb_data := Some data\<rparr>"

definition config_map_build :: "config_map_builder \<Rightarrow> (config_map, config_map_error) result" where
  "config_map_build self =
     and_then (ok_or (ConfigMapMissingObjectKey ''metadata'') (cmb_metadata self)) (\<lambda>metadata.
     Inr \<lparr>cm_metadata = metadata, cm_data = cmb_data self\<rparr>)"

subsection \<open>Pod disruption budgets\<close>

text \<open>
  The three type parameters of the Rust builder record which of the mandatory parts are set; they
  are the parameters of the record. \<open>u16\<close> counts are words, widened to \<open>i32\<close> by \<open>build\<close>.
\<close>

datatype pdb_constraint = MaxUnavailable "16 word" | MinAvailable "16 word"

datatype pdb_error =
    RoleSelectorLabels label_error
  | OwnerReferenceFromResource meta_error
  | ManagedByLabel label_error

record ('m, 's, 'c) pdb_builder =
  pdbb_metadata :: 'm
  pdbb_selector :: 's
  pdbb_constraint :: "'c option"

record pod_disruption_budget =
  pdb_metadata :: object_meta
  pdb_max_unavailable :: "32 word option"
  pdb_min_available :: "32 word option"
  pdb_selector :: "label_selector option"

definition pdb_new :: "(unit, unit, unit) pdb_builder" where
  "pdb_new = \<lparr>pdbb_metadata = (), pdbb_selector = (), pdbb_constraint = None\<rparr>"

definition pdb_new_with_role ::
    "kube_object \<Rightarrow> string \<Rightarrow> string \<Rightarrow> string \<Rightarrow> string
      \<Rightarrow> ((object_meta, label_selector, unit) pdb_builder, pdb_error) result" where
  "pdb_new_with_role owner app_name role operator_name controller_name =
     and_then (map_err RoleSelectorLabels (labels_role_selector (ko_name_any owner) app_name role)) (\<lambda>role_selector_labels.
     and_then (map_err ManagedByLabel (label_managed_by operator_name controller_name)) (\<lambda>managed_by_label.
     and_then (map_err OwnerReferenceFromResource
       (ownerreference_from_resource owner None (Some True)
         (meta_name (ko_name_any owner @ ''-'' @ role)
           (meta_namespace_opt (ko_namespace owner) meta_new)))) (\<lambda>builder.
     Inr \<lparr>pdbb_metadata = meta_build (with_label managed_by_label (with_labels role_selector_labels builder)),
          pdbb_selector = \<lparr>match_labels = Some (labels_into_map role_selector_labels), match_expressions = None\<rparr>,
          pdbb_constraint = None\<rparr>)))"

definition pdb_new_with_metadata :: "object_meta \<Rightarrow> (unit, unit, unit) pdb_builder \<Rightarrow> (object_meta, unit, unit) pdb_builder" where
  "pdb_new_with_metadata metadata self = \<lparr>pdbb_metadata = metadata, pdbb_selector = (), pdbb_constraint = None\<rparr>"

definition with_selector ::
    "label_selector \<Rightarrow> (object_meta, unit, unit) pdb_builder \<Rightarrow> (object_meta, label_selector, unit) pdb_builder" where
  "with_selector selector self =
     \<lparr>pdbb_metadata = pdbb_metadata self, pdbb_selector = selector, pdbb_constraint = pdbb_constraint self\<rparr>"

definition with_max_unavailable ::
    "16 word \<Rightarrow> (object_meta, label_selector, unit) pdb_builder \<Rightarrow> (object_meta, label_selector, pdb_constraint) pdb_builder" where
  "with_max_unavailable max_unavailable self =
     \<lparr>pdbb_metadata = pdbb_metadata self, pdbb_selector = pdbb_selector self,
      pdbb_constraint = Some (MaxUnavailable max_unavailable)\<rparr>"

definition with_min_available ::
    "16 word \<Rightarrow> (object_meta, label_selector, unit) pdb_builder \<Rightarrow> (object_meta, label_selector, pdb_constraint) pdb_builder" where
  "with_min_available min_available self =
     \<lparr>pdbb_metadata = pdbb_metadata self, pdbb_selector = pdbb_selector self,
      pdbb_constraint = Some (MinAvailable min_available)\<rparr>"

text \<open>\<^const>\<open>None\<close> is the panic of \<open>unreachable!\<close>.\<close>

definition pdb_build :: "(object_meta, label_selector, pdb_constraint) pdb_builder \<Rightarrow> pod_disruption_budget option" where
  "pdb_build self =
     (case (case pdbb_constraint self of
              Some (MaxUnavailable max_unavailable) \<Rightarrow> Some (Some max_unavailable, None)
            | Some (MinAvailable min_unavailable) \<Rightarrow> Some (None, Some min_unavailable)
            | None \<Rightarrow> None) of
        None \<Rightarrow> None
      | Some (max_unavailable, min_available) \<Rightarrow>
          Some \<lparr>pdb_metadata = pdbb_metadata self,
                pdb_max_unavailable = map_option ucast max_unavailable,
                pdb_min_available = map_option ucast min_available,
                pdb_selector = Some (pdbb_selector self)\<rparr>)"

subsection \<open>The metadata that builders can reach\<close>

text \<open>
  The values of \<open>Label\<close>, \<open>Labels\<close>, \<open>Annotation\<close> and \<open>Annotations\<close> come from their parsers, so an
  operation is given valid ones.
\<close>

definition labels_valid :: "labels \<Rightarrow> bool" where
  "labels_valid m \<longleftrightarrow> kvps_wf m \<and> list_all (\<lambda>(k, v). label_value_ok (label_value_fmt v)) m"

inductive meta_reachable :: "object_meta_builder \<Rightarrow> bool" where
  "meta_reachable meta_new"
| "meta_reachable b \<Longrightarrow> meta_reachable (meta_name_and_namespace ob b)"
| "meta_reachable b \<Longrightarrow> meta_reachable (meta_name_opt x b)"
| "meta_reachable b \<Longrightarrow> meta_reachable (meta_name s b)"
| "meta_reachable b \<Longrightarrow> meta_reachable (meta_generate_name s b)"
| "meta_reachable b \<Longrightarrow> meta_reachable (meta_generate_name_opt x b)"
| "meta_reachable b \<Longrightarrow> meta_reachable (meta_namespace_opt x b)"
| "meta_reachable b \<Longrightarrow> meta_reachable (meta_namespace s b)"
| "meta_reachable b \<Longrightarrow> meta_reachable (meta_ownerreference r b)"
| "meta_reachable b \<Longrightarrow> meta_reachable (meta_ownerreference_opt ro b)"
| "meta_reachable b \<Longrightarrow> ownerreference_from_resource ob d c b = Inr b' \<Longrightarrow> meta_reachable b'"
| "meta_reachable b \<Longrightarrow> key_wf (fst a) \<Longrightarrow> meta_reachable (with_annotation a b)"
| "meta_reachable b \<Longrightarrow> kvps_wf as \<Longrightarrow> meta_reachable (with_annotations as b)"
| "meta_reachable b \<Longrightarrow> kvps_wf as \<Longrightarrow> meta_reachable (meta_annotations as b)"
| "meta_reachable b \<Longrightarrow> labels_valid [l] \<Longrightarrow> meta_reachable (with_label l b)"
| "meta_reachable b \<Longrightarrow> labels_valid ls \<Longrightarrow> meta_reachable (with_labels ls b)"
| "meta_reachable b \<Longrightarrow> labels_valid ls \<Longrightarrow> meta_reachable (meta_labels ls b)"
| "meta_reachable b \<Longrightarrow> with_recommended_labels ol b = Some (Inr b') \<Longrightarrow> meta_reachable b'"
| "meta_reachable b \<Longrightarrow> meta_reachable (with_finalizer s b)"
| "meta_reachable b \<Longrightarrow> meta_reachable (with_finalizers ss b)"
| "meta_reachable b \<Longrightarrow> meta_reachable (meta_finalizers ss b)"

definition meta_inv :: "object_meta_builder \<Rightarrow> bool" where
  "meta_inv b \<longleftrightarrow> pred_option labels_valid (omb_labels b) \<and> pred_option kvps_wf (omb_annotations b)"

lemma pred_get_or_insert_with:
  "pred_option P x \<Longrightarrow> P d \<Longrightarrow> (\<And>v. P v \<Longrightarrow> P (f v)) \<Longrightarrow> pred_option P (get_or_insert_with d f x)"
  by (cases x) (simp_all add: get_or_insert_with_def)

lemma labels_valid_new [simp]: "labels_valid kvps_new"
  by (simp add: labels_valid_def) (simp add: kvps_new_def)

lemma labels_valid_insert:
  assumes "labels_valid m" "labels_valid [l]"
  shows "labels_valid (labels_insert m l)"
proof -
  have "kvps_wf (labels_insert m l)"
    using assms by (cases l) (simp add: labels_valid_def labels_insert_def kvps_wf_insert kvps_wf_def [of "[_]"])
  moreover have "set (labels_insert m l) \<subseteq> insert l (set m)"
    using btree_insert_set [of "fst l" "snd l" m] by (simp add: labels_insert_def kvps_insert_def)
  ultimately show ?thesis using assms by (auto simp: labels_valid_def list_all_iff)
qed

lemma labels_valid_extend: "labels_valid m \<Longrightarrow> labels_valid n \<Longrightarrow> labels_valid (kvps_extend m n)"
  using btree_extend_set [of m n] by (auto simp: labels_valid_def list_all_iff kvps_wf_extend) (auto simp: kvps_extend_def)

lemma labels_valid_recommended: "labels_recommended ol = Some (Inr L) \<Longrightarrow> labels_valid L"
  by (auto simp: recommended_Inr labels_valid_def recommended_wf)
    (simp add: recommended_set_def label_value_ok_def key_eval)

lemma meta_reachable_inv: "meta_reachable b \<Longrightarrow> meta_inv b"
proof (induction rule: meta_reachable.induct)
  case (11 b ob d c b')
  then show ?case by (auto simp: ownerreference_from_resource_def meta_inv_def)
next
  case (18 b ol b')
  then obtain L where L: "labels_recommended ol = Some (Inr L)" "b' = with_labels L b"
    by (auto simp: with_recommended_labels_def split: option.splits)
  then show ?case
    using 18 labels_valid_recommended [OF L(1)]
    by (auto simp: meta_inv_def with_labels_def intro!: pred_get_or_insert_with labels_valid_extend)
qed (auto simp: meta_inv_def meta_new_def meta_setter_defs annotations_insert_def
    intro!: pred_get_or_insert_with labels_valid_insert labels_valid_extend kvps_wf_insert kvps_wf_extend)



subsection \<open>What a budget protects\<close>

lemma role_selector_Inr:
  "labels_role_selector owner app role = Inr L \<longleftrightarrow>
     list_all label_value_ok [owner, app, role] \<and>
     L = [(app_key ''component'', LabelValue role), (app_key ''instance'', LabelValue owner),
          (app_key ''name'', LabelValue app)]"
  by (auto simp: label_set_simps less_char_def)

lemma role_selector_into_map:
  assumes "labels_role_selector owner app role = Inr L"
  shows "labels_into_map L =
    [(''app.kubernetes.io/component'', role), (''app.kubernetes.io/instance'', owner), (''app.kubernetes.io/name'', app)]"
proof -
  have "kvps_wf L"
    using assms k8s_prefix_ok well_known_names unfolding role_selector_Inr
    by (simp add: kvps_wf_def btree_inv_def less_char_def key_wf_def) (simp add: app_key_def)
  from label_value.into_map_sorted [OF this] show ?thesis
    using assms unfolding role_selector_Inr by (simp add: labels_into_map_def app_key_def key_fmt_def)
qed

definition selected_by :: "(string, string) btreemap \<Rightarrow> (string, string) btreemap \<Rightarrow> bool" where
  "selected_by labels selector \<longleftrightarrow> list_all (\<lambda>(k, v). btree_get labels k = Some v) selector"

text \<open>
  A budget made for a role never panics in \<open>build\<close> and protects exactly that role: its selector
  matches the recommended labels of an object of the same owner and application if and only if the
  object has that role, in whatever role group. The budget is owned by the cluster as controller,
  and the widened count is the one given, with no minimum beside it.
\<close>

theorem pdb_protects_role:
  assumes "pdb_new_with_role owner app role operator_name controller_name = Inr b"
    and "labels_recommended ob = Some (Inr L)" "ol_owner_name ob = ko_name_any owner" "ol_app_name ob = app"
  shows "\<exists>pdb S uid. pdb_build (with_max_unavailable n b) = Some pdb \<and>
    map_option unat (pdb_max_unavailable pdb) = Some (unat n) \<and> pdb_min_available pdb = None \<and>
    pdb_selector pdb = Some \<lparr>match_labels = Some S, match_expressions = None\<rparr> \<and>
    (selected_by (labels_into_map L) S \<longleftrightarrow> ol_role ob = role) \<and>
    ko_uid owner = Some uid \<and>
    map_option (map (\<lambda>r. (or_uid r, or_controller r))) (om_owner_references (pdb_metadata pdb)) = Some [(uid, Some True)]"
proof -
  obtain R uid where R: "labels_role_selector (ko_name_any owner) app role = Inr R"
      and uid: "ko_uid owner = Some uid" and sel: "pdbb_selector b = \<lparr>match_labels = Some (labels_into_map R), match_expressions = None\<rparr>"
      and meta: "om_owner_references (pdbb_metadata b) = Some [\<lparr>or_api_version = ko_api_version owner,
        or_block_owner_deletion = None, or_controller = Some True, or_kind = ko_kind owner, or_name = ko_name_any owner, or_uid = uid\<rparr>]"
    using assms(1)
    by (auto simp: pdb_new_with_role_def ownerreference_from_resource_def owner_build_def owner_setter_defs
        meta_build_def meta_setter_defs meta_new_def)
  have "selected_by (labels_into_map L) (labels_into_map R) \<longleftrightarrow> ol_role ob = role"
    using assms(3,4) unfolding role_selector_into_map [OF R] recommended_map [OF assms(2)]
    by (auto simp: selected_by_def btree_get_def)
  then show ?thesis
    using sel meta uid
    by (simp add: pdb_build_def with_max_unavailable_def)
qed

theorem pdb_protects_role_witness:
  "\<exists>b pdb. pdb_new_with_role \<lparr>ko_api_version = ''v1'', ko_kind = ''Hdfs'', ko_name_any = ''h'', ko_namespace = None,
      ko_uid = Some ''u''\<rparr> ''hdfs'' ''datanode'' ''op'' ''c'' = Inr b \<and>
    pdb_build (with_max_unavailable 2 b) = Some pdb \<and> map_option unat (pdb_max_unavailable pdb) = Some 2"
proof -
  let ?o = "\<lparr>ko_api_version = ''v1'', ko_kind = ''Hdfs'', ko_name_any = ''h'', ko_namespace = None, ko_uid = Some ''u''\<rparr>"
  let ?ob = "\<lparr>ol_owner_name = ''h'', ol_app_name = ''hdfs'', ol_app_version = ''1'', ol_operator_name = ''op'',
    ol_controller_name = ''c'', ol_role = ''datanode'', ol_role_group = ''default''\<rparr>"
  have ok: "label_value_ok ''h''" "label_value_ok ''hdfs''" "label_value_ok ''datanode''" "label_value_ok ''op_c''"
      "label_value_ok ''1''" "label_value_ok ''default''"
    by (simp_all add: label_value_ok_def key_eval)
  have L: "labels_recommended ?ob = Some (Inr (recommended_set ?ob))" unfolding recommended_Inr using ok by simp
  obtain R where R: "labels_role_selector ''h'' ''hdfs'' ''datanode'' = Inr R" using ok by (simp add: role_selector_Inr)
  have M: "label_managed_by ''op'' ''c'' = Inr (app_key ''managed-by'', LabelValue ''op_c'')"
    using ok by (simp add: label_managed_by_def app_label_iff format_full_controller_name_def)
  obtain b where b: "pdb_new_with_role ?o ''hdfs'' ''datanode'' ''op'' ''c'' = Inr b"
    using R M by (simp add: pdb_new_with_role_def ownerreference_from_resource_def owner_build_def owner_setter_defs)
  from pdb_protects_role [OF b L, of 2] b show ?thesis by auto
qed

end
