(* ===== verification/Duration.thy ===== *)
theory Duration
  imports Rust_Str
begin

section \<open>Human-readable durations (stackable-shared)\<close>

text \<open>
  \<open>stackable_shared::time::Duration\<close>: a newtype over \<open>std::time::Duration\<close> that parses and prints
  strings like \<open>15d2m2s600ms\<close>. A \<open>std::time::Duration\<close> is its number of nanoseconds, below
  \<open>2^64\<close> seconds; its arithmetic panics (here \<^const>\<open>None\<close>) when that range is left.
\<close>

subsection \<open>Units\<close>

datatype duration_unit = Days | Hours | Minutes | Seconds | Milliseconds

text \<open>The declaration order, which \<open>derive(Ord)\<close> and \<open>DurationUnit::iter\<close> follow.\<close>

fun unit_index :: "duration_unit \<Rightarrow> nat" where
  "unit_index Days = 0"
| "unit_index Hours = 1"
| "unit_index Minutes = 2"
| "unit_index Seconds = 3"
| "unit_index Milliseconds = 4"

definition unit_iter :: "duration_unit list" where
  "unit_iter = [Days, Hours, Minutes, Seconds, Milliseconds]"

definition unit_cmp :: "duration_unit \<Rightarrow> duration_unit \<Rightarrow> ordering" where
  "unit_cmp u v = ord_cmp (unit_index u) (unit_index v)"

fun unit_fmt :: "duration_unit \<Rightarrow> string" where
  "unit_fmt Days = ''d''"
| "unit_fmt Hours = ''h''"
| "unit_fmt Minutes = ''m''"
| "unit_fmt Seconds = ''s''"
| "unit_fmt Milliseconds = ''ms''"

definition unit_from_str :: "string \<Rightarrow> duration_unit option" where
  "unit_from_str s = List.find (\<lambda>u. unit_fmt u = s) unit_iter"

fun millis :: "duration_unit \<Rightarrow> nat" where
  "millis Milliseconds = 1"
| "millis Seconds = 1000"
| "millis Minutes = 60 * 1000"
| "millis Hours = 60 * (60 * 1000)"
| "millis Days = 24 * (60 * (60 * 1000))"

lemma millis_pos [simp]: "0 < millis u"
  by (cases u) auto

lemma unit_iter_all: "u \<in> set unit_iter"
  by (cases u) (auto simp: unit_iter_def)

lemma unit_from_str_fmt [simp]: "unit_from_str (unit_fmt u) = Some u"
  by (cases u) (simp_all add: unit_from_str_def unit_iter_def)

lemma unit_from_str_Some: "unit_from_str s = Some u \<longleftrightarrow> s = unit_fmt u"
proof
  show "unit_from_str s = Some u \<Longrightarrow> s = unit_fmt u"
    by (auto simp: unit_from_str_def find_Some_iff)
qed simp

lemma unit_fmt_alpha: "list_all is_alpha (unit_fmt u)" "unit_fmt u \<noteq> []"
  by (cases u; simp add: class_defs)+

interpretation unit_ord: rust_ord unit_cmp
proof
  fix x y z :: duration_unit
  show "(unit_cmp x y = Equal) = (x = y)" by (cases x; cases y) (simp_all add: unit_cmp_def)
  show "unit_cmp y x = reverse_ordering (unit_cmp x y)"
    unfolding unit_cmp_def by (rule ord_cmp.cmp_reverse)
  show "unit_cmp x y = Less \<Longrightarrow> unit_cmp y z = Less \<Longrightarrow> unit_cmp x z = Less"
    by (simp add: unit_cmp_def)
qed

subsection \<open>The standard library's duration\<close>

datatype duration = Duration (nanos: nat)

definition duration_limit :: nat where
  "duration_limit = 2 ^ 64 * 10 ^ 9"

definition wf_duration :: "duration \<Rightarrow> bool" where
  "wf_duration d \<longleftrightarrow> nanos d < duration_limit"

definition from_millis :: "nat \<Rightarrow> duration" where
  "from_millis ms = Duration (ms * 10 ^ 6)"

definition from_secs :: "nat \<Rightarrow> duration" where
  "from_secs s = Duration (s * 10 ^ 9)"

definition as_secs :: "duration \<Rightarrow> nat" where
  "as_secs d = nanos d div 10 ^ 9"

definition as_millis :: "duration \<Rightarrow> nat" where
  "as_millis d = nanos d div 10 ^ 6"

definition checked_add :: "duration \<Rightarrow> duration \<Rightarrow> duration option" where
  "checked_add a b =
     (if nanos a + nanos b < duration_limit then Some (Duration (nanos a + nanos b)) else None)"

definition duration_add :: "duration \<Rightarrow> duration \<Rightarrow> duration option" where
  "duration_add a b = checked_add a b"

definition duration_sub :: "duration \<Rightarrow> duration \<Rightarrow> duration option" where
  "duration_sub a b = (if nanos a < nanos b then None else Some (Duration (nanos a - nanos b)))"

definition duration_mul :: "duration \<Rightarrow> nat \<Rightarrow> duration option" where
  "duration_mul a n =
     (if nanos a * n < duration_limit then Some (Duration (nanos a * n)) else None)"

text \<open>
  \<open>Div<u32>\<close> panics on zero. \<open>std\<close> divides seconds and nanoseconds with carry, which is the
  integer division of the nanoseconds.
\<close>

definition duration_div :: "duration \<Rightarrow> nat \<Rightarrow> duration option" where
  "duration_div a n = (if n = 0 then None else Some (Duration (nanos a div n)))"

text \<open>The \<open>const\<close> constructors multiply with \<open>checked_mul\<close> on \<open>u64\<close> and panic on overflow.\<close>

definition from_unit_unchecked :: "duration_unit \<Rightarrow> nat \<Rightarrow> duration option" where
  "from_unit_unchecked u n = (if n * millis u < 2 ^ 64 then Some (from_millis (n * millis u)) else None)"

definition from_minutes_unchecked :: "nat \<Rightarrow> duration option" where
  "from_minutes_unchecked minutes = from_unit_unchecked Minutes minutes"

definition from_hours_unchecked :: "nat \<Rightarrow> duration option" where
  "from_hours_unchecked hours = from_unit_unchecked Hours hours"

definition from_days_unchecked :: "nat \<Rightarrow> duration option" where
  "from_days_unchecked days = from_unit_unchecked Days days"

subsection \<open>Parsing\<close>

datatype duration_parse_error =
    EmptyInput
  | UnexpectedCharacter char
  | NoUnit nat
  | InvalidUnitOrdering duration_unit duration_unit
  | DuplicateUnit duration_unit
  | ParseUnitError string
  | ParseIntError int_error_kind
  | Overflow duration_unit string nat

text \<open>
  The closure \<open>take_group\<close>: the maximal run of characters satisfying \<open>f\<close> at the head of the
  remaining input; \<^const>\<open>None\<close>, with nothing consumed, when that run is empty.
\<close>

definition take_group :: "(char \<Rightarrow> bool) \<Rightarrow> string \<Rightarrow> (string \<times> string) option" where
  "take_group f cs =
     (if takeWhile f cs = [] then None else Some (takeWhile f cs, dropWhile f cs))"

lemma take_group_Some:
  "take_group f cs = Some (a, b) \<longleftrightarrow>
     a \<noteq> [] \<and> list_all f a \<and> cs = a @ b \<and> (b \<noteq> [] \<longrightarrow> \<not> f (hd b))"
proof
  assume "take_group f cs = Some (a, b)"
  then show "a \<noteq> [] \<and> list_all f a \<and> cs = a @ b \<and> (b \<noteq> [] \<longrightarrow> \<not> f (hd b))"
    by (auto simp: take_group_def list_all_iff hd_dropWhile dest: set_takeWhileD split: if_splits)
next
  assume *: "a \<noteq> [] \<and> list_all f a \<and> cs = a @ b \<and> (b \<noteq> [] \<longrightarrow> \<not> f (hd b))"
  then have "takeWhile f cs = a" "dropWhile f cs = b"
    by (cases b; simp add: takeWhile_append dropWhile_append list_all_iff)+
  with * show "take_group f cs = Some (a, b)" by (simp add: take_group_def)
qed

lemma take_group_None: "take_group f cs = None \<longleftrightarrow> cs = [] \<or> \<not> f (hd cs)"
  by (cases cs) (auto simp: take_group_def)

lemma take_group_length: "take_group f cs = Some (a, b) \<Longrightarrow> length b < length cs"
  by (auto simp: take_group_Some)

text \<open>One pass of the loop body after the value and the unit were cut off.\<close>

definition check_unit_order ::
  "duration_unit option \<Rightarrow> duration_unit \<Rightarrow> (unit, duration_parse_error) result" where
  "check_unit_order last_unit u =
     (case last_unit of
        None \<Rightarrow> Inr ()
      | Some previous \<Rightarrow>
          (case unit_cmp u previous of
             Less \<Rightarrow> Inl (InvalidUnitOrdering previous u)
           | Equal \<Rightarrow> Inl (DuplicateUnit u)
           | Greater \<Rightarrow> Inr ()))"

definition add_fragment ::
  "string \<Rightarrow> nat \<Rightarrow> duration_unit \<Rightarrow> duration \<Rightarrow> (duration, duration_parse_error) result" where
  "add_fragment input val u d =
     and_then (ensure (val * millis u < 2 ^ 128) (Overflow u input val)) (\<lambda>_.
     and_then (ensure (val * millis u < 2 ^ 64) (Overflow u input val)) (\<lambda>_.
     ok_or (Overflow u input val) (checked_add d (from_millis (val * millis u)))))"

function parse_loop ::
  "string \<Rightarrow> duration_unit option \<Rightarrow> duration \<Rightarrow> string \<Rightarrow> (duration, duration_parse_error) result" where
  "parse_loop input last_unit d cs =
     (case take_group is_digit cs of
        None \<Rightarrow> (case cs of [] \<Rightarrow> Inr d | chr # _ \<Rightarrow> Inl (UnexpectedCharacter chr))
      | Some (val, cs') \<Rightarrow>
          and_then (map_err ParseIntError (parse_uint 128 val)) (\<lambda>val.
            case take_group is_alpha cs' of
              None \<Rightarrow> (case cs' of [] \<Rightarrow> Inl (NoUnit val) | chr # _ \<Rightarrow> Inl (UnexpectedCharacter chr))
            | Some (u, cs'') \<Rightarrow>
                and_then (ok_or (ParseUnitError u) (unit_from_str u)) (\<lambda>u.
                and_then (check_unit_order last_unit u) (\<lambda>_.
                and_then (add_fragment input val u d) (\<lambda>d.
                parse_loop input (Some u) d cs'')))))"
  by pat_completeness auto
termination
  by (relation "measure (\<lambda>(input, last_unit, d, cs). length cs)")
    (auto dest!: take_group_length)

declare parse_loop.simps [simp del]

definition duration_from_str :: "string \<Rightarrow> (duration, duration_parse_error) result" where
  "duration_from_str input =
     (if input = [] then Inl EmptyInput else parse_loop input None (Duration 0) input)"

subsection \<open>Printing\<close>

text \<open>The loop of \<open>Display\<close> over \<open>DurationUnit::iter\<close>, with the rest of the milliseconds.\<close>

fun fmt_units :: "duration_unit list \<Rightarrow> nat \<Rightarrow> string" where
  "fmt_units [] ms = []"
| "fmt_units (u # us) ms =
     (let whole = ms div millis u; rest = ms mod millis u
      in (if 0 < whole then show_nat whole @ unit_fmt u else []) @ fmt_units us rest)"

definition duration_fmt :: "duration \<Rightarrow> string" where
  "duration_fmt d =
     (if nanos d = 0 then ''0'' @ unit_fmt Seconds else fmt_units unit_iter (as_millis d))"

subsection \<open>The grammar of durations\<close>

text \<open>
  The specification of the parser: a duration string is a sequence of fragments, a numeral and a
  unit each, in strictly descending order of the units. A fragment must fit 64 bits of
  milliseconds.
\<close>

type_synonym fragment = "string \<times> duration_unit"

fun fragment_text :: "fragment \<Rightarrow> string" where
  "fragment_text (ds, u) = ds @ unit_fmt u"

fun fragment_millis :: "fragment \<Rightarrow> nat" where
  "fragment_millis (ds, u) = digits_val 0 ds * millis u"

fun fragment_ok :: "fragment \<Rightarrow> bool" where
  "fragment_ok (ds, u) \<longleftrightarrow> ds \<noteq> [] \<and> list_all is_digit ds \<and> digits_val 0 ds * millis u < 2 ^ 64"

definition render :: "fragment list \<Rightarrow> string" where
  "render fs = concat (map fragment_text fs)"

definition total_millis :: "fragment list \<Rightarrow> nat" where
  "total_millis fs = sum_list (map fragment_millis fs)"

definition units_descend :: "duration_unit list \<Rightarrow> bool" where
  "units_descend us \<longleftrightarrow> sorted_wrt (\<lambda>u v. unit_cmp u v = Less) us"

definition follows :: "duration_unit option \<Rightarrow> fragment list \<Rightarrow> bool" where
  "follows last_unit fs \<longleftrightarrow> (\<forall>l f fs'. last_unit = Some l \<longrightarrow> fs = f # fs' \<longrightarrow> unit_cmp l (snd f) = Less)"

definition fragments_ok :: "duration_unit option \<Rightarrow> fragment list \<Rightarrow> bool" where
  "fragments_ok last_unit fs \<longleftrightarrow>
     list_all fragment_ok fs \<and> units_descend (map snd fs) \<and> follows last_unit fs"

lemma render_simps [simp]: "render [] = []" "render (f # fs) = fragment_text f @ render fs"
  by (simp_all add: render_def)

lemma total_millis_simps [simp]:
  "total_millis [] = 0" "total_millis (f # fs) = fragment_millis f + total_millis fs"
  by (simp_all add: total_millis_def)

lemma units_descend_Cons:
  "units_descend (u # us) \<longleftrightarrow> units_descend us \<and> (us \<noteq> [] \<longrightarrow> unit_cmp u (hd us) = Less)"
  unfolding units_descend_def
  by (cases us) (auto intro: unit_ord.cmp_trans)

lemma fragments_ok_simps [simp]:
  "fragments_ok last_unit []"
  "fragments_ok last_unit (f # fs) \<longleftrightarrow>
     fragment_ok f \<and> fragments_ok (Some (snd f)) fs \<and>
     (case last_unit of None \<Rightarrow> True | Some l \<Rightarrow> unit_cmp l (snd f) = Less)"
  by (auto simp: fragments_ok_def follows_def units_descend_def [of "[]"] units_descend_Cons
      split: option.splits) (auto simp: units_descend_def neq_Nil_conv)

lemma check_unit_order_Inr:
  "check_unit_order last_unit u = Inr x \<longleftrightarrow>
     (case last_unit of None \<Rightarrow> True | Some l \<Rightarrow> unit_cmp l u = Less)"
proof (cases last_unit)
  case (Some l)
  have "unit_cmp u l = Greater \<longleftrightarrow> unit_cmp l u = Less" by (rule unit_ord.greater_iff_less)
  with Some show ?thesis by (cases "unit_cmp u l") (auto simp: check_unit_order_def)
qed (simp add: check_unit_order_def)

lemma add_fragment_Inr:
  "add_fragment input val u d = Inr d' \<longleftrightarrow>
     val * millis u < 2 ^ 64 \<and> d' = Duration (nanos d + val * millis u * 10 ^ 6) \<and> nanos d' < duration_limit"
proof -
  have "val * millis u < 2 ^ 64 \<Longrightarrow> val * millis u < 2 ^ 128"
    by (erule less_le_trans) simp
  then show ?thesis
    by (auto simp: add_fragment_def checked_add_def from_millis_def simp del: power_numeral)
qed

lemma render_no_alpha_head: "list_all fragment_ok fs \<Longrightarrow> render fs \<noteq> [] \<Longrightarrow> \<not> is_alpha (hd (render fs))"
proof (cases fs)
  case (Cons f fs')
  obtain ds u where f: "f = (ds, u)" by (cases f)
  assume "list_all fragment_ok fs"
  with Cons f have "ds \<noteq> []" "is_digit (hd ds)" by (auto simp: list_all_iff)
  with Cons f show ?thesis by (simp add: digit_not_alpha)
qed simp

lemma take_group_value:
  "ds \<noteq> [] \<Longrightarrow> list_all is_digit ds \<Longrightarrow>
   take_group is_digit (ds @ unit_fmt u @ cs) = Some (ds, unit_fmt u @ cs)"
  using unit_fmt_alpha [of u] digit_not_alpha [of "hd (unit_fmt u)"]
  by (auto simp: take_group_Some list_all_iff)

lemma take_group_unit:
  "list_all fragment_ok fs \<Longrightarrow> take_group is_alpha (unit_fmt u @ render fs) = Some (unit_fmt u, render fs)"
  using unit_fmt_alpha [of u] render_no_alpha_head [of fs]
  by (auto simp: take_group_Some)

text \<open>Every accepted input is a rendered fragment sequence.\<close>

lemma parse_loop_sound:
  "parse_loop input last_unit d cs = Inr d' \<Longrightarrow> nanos d < duration_limit \<Longrightarrow>
   \<exists>fs. cs = render fs \<and> fragments_ok last_unit fs \<and>
        nanos d' = nanos d + total_millis fs * 10 ^ 6 \<and> nanos d' < duration_limit"
proof (induction input last_unit d cs rule: parse_loop.induct)
  case (1 input last_unit d cs)
  note ret = "1.prems"(1) [unfolded parse_loop.simps [of input last_unit d cs]]
  show ?case
  proof (cases "take_group is_digit cs")
    case None
    with ret "1.prems"(2) show ?thesis
      by (intro exI [where x = "[]"]) (auto split: list.splits)
  next
    case (Some p)
    then obtain ds cs' where ds: "take_group is_digit cs = Some (ds, cs')" by (cases p) auto
    with ret obtain n us cs'' u d1 where n: "parse_uint 128 ds = Inr n"
      and us: "take_group is_alpha cs' = Some (us, cs'')" and u: "unit_from_str us = Some u"
      and ord: "check_unit_order last_unit u = Inr ()" and add: "add_fragment input n u d = Inr d1"
      and rec: "parse_loop input (Some u) d1 cs'' = Inr d'"
      by (auto split: option.splits list.splits)
    from add have d1: "n * millis u < 2 ^ 64" "d1 = Duration (nanos d + n * millis u * 10 ^ 6)"
      "nanos d1 < duration_limit" by (auto simp: add_fragment_Inr)
    from "1.IH" [OF ds refl n [THEN map_err_eq_Inr [THEN iffD2]] us refl u [THEN ok_or_eq_Inr [THEN iffD2]] ord add rec d1(3)]
    obtain fs where fs: "cs'' = render fs" "fragments_ok (Some u) fs"
      "nanos d' = nanos d1 + total_millis fs * 10 ^ 6" "nanos d' < duration_limit" by auto
    from ds have d: "ds \<noteq> []" "list_all is_digit ds" "cs = ds @ cs'" by (auto simp: take_group_Some)
    with n have val: "n = digits_val 0 ds" by (auto simp: parse_uint_digits_cases split: if_splits)
    show ?thesis
    proof (rule exI [where x = "(ds, u) # fs"], intro conjI)
      show "cs = render ((ds, u) # fs)"
        using d us u fs by (auto simp: take_group_Some unit_from_str_Some)
      show "fragments_ok last_unit ((ds, u) # fs)"
        using d d1(1) val fs ord by (simp add: check_unit_order_Inr split: option.splits)
      show "nanos d' = nanos d + total_millis ((ds, u) # fs) * 10 ^ 6"
        using fs d1(2) val by (simp add: algebra_simps)
    qed (rule fs)
  qed
qed

text \<open>Every rendered fragment sequence whose sum is a duration is accepted.\<close>

lemma parse_loop_complete:
  "fragments_ok last_unit fs \<Longrightarrow> nanos d + total_millis fs * 10 ^ 6 < duration_limit \<Longrightarrow>
   parse_loop input last_unit d (render fs) = Inr (Duration (nanos d + total_millis fs * 10 ^ 6))"
proof (induction fs arbitrary: last_unit d)
  case Nil
  then show ?case by (simp add: parse_loop.simps [of input last_unit d "[]"] take_group_def)
next
  case (Cons f fs)
  obtain ds u where f: "f = (ds, u)" by (cases f)
  let ?n = "digits_val 0 ds"
  let ?d = "Duration (nanos d + ?n * millis u * 10 ^ 6)"
  from Cons.prems f have ds: "ds \<noteq> []" "list_all is_digit ds" "?n * millis u < 2 ^ 64"
    and fs: "fragments_ok (Some u) fs" and ord: "check_unit_order last_unit u = Inr ()"
    by (simp_all add: check_unit_order_Inr split: option.splits)
  have "?n \<le> ?n * millis u" using millis_pos [of u] by (cases "millis u") simp_all
  then have "?n < 2 ^ 64" using ds(3) by (rule le_less_trans)
  then have "?n < 2 ^ 128" by (rule less_le_trans) simp
  then have n: "parse_uint 128 ds = Inr ?n" using ds by (simp add: parse_uint_digits)
  have add: "add_fragment input ?n u d = Inr ?d"
    using Cons.prems(2) f ds(3) by (auto simp: add_fragment_Inr algebra_simps)
  have "list_all fragment_ok fs" using fs by (simp add: fragments_ok_def)
  then have us: "take_group is_alpha (unit_fmt u @ render fs) = Some (unit_fmt u, render fs)"
    by (rule take_group_unit)
  have "parse_loop input (Some u) ?d (render fs) = Inr (Duration (nanos ?d + total_millis fs * 10 ^ 6))"
    using fs Cons.prems(2) f by (intro Cons.IH) (simp_all add: algebra_simps)
  with n add us ord take_group_value [OF ds(1,2), of u "render fs"] f show ?case
    by (simp add: parse_loop.simps [of input last_unit d] algebra_simps)
qed

lemma render_eq_Nil: "fragments_ok l fs \<Longrightarrow> render fs = [] \<longleftrightarrow> fs = []"
  by (cases fs) (auto simp: unit_fmt_alpha)

lemma duration_from_str_iff:
  "duration_from_str s = Inr d \<longleftrightarrow>
     (\<exists>fs. fs \<noteq> [] \<and> s = render fs \<and> fragments_ok None fs \<and>
           d = from_millis (total_millis fs) \<and> wf_duration d)"
proof
  assume "duration_from_str s = Inr d"
  then have "s \<noteq> []" and "parse_loop s None (Duration 0) s = Inr d"
    by (auto simp: duration_from_str_def split: if_splits)
  from this(1) parse_loop_sound [OF this(2)] obtain fs where "s = render fs" "fragments_ok None fs"
    "nanos d = total_millis fs * 10 ^ 6" "nanos d < duration_limit"
    by (auto simp: duration_limit_def)
  with \<open>s \<noteq> []\<close> show "\<exists>fs. fs \<noteq> [] \<and> s = render fs \<and> fragments_ok None fs \<and>
      d = from_millis (total_millis fs) \<and> wf_duration d"
    by (intro exI [where x = fs]) (auto simp: from_millis_def wf_duration_def intro: duration.expand)
next
  assume "\<exists>fs. fs \<noteq> [] \<and> s = render fs \<and> fragments_ok None fs \<and>
      d = from_millis (total_millis fs) \<and> wf_duration d"
  then obtain fs where fs: "fs \<noteq> []" "s = render fs" "fragments_ok None fs"
    "d = from_millis (total_millis fs)" "wf_duration d" by blast
  then show "duration_from_str s = Inr d"
    using parse_loop_complete [of None fs "Duration 0"] render_eq_Nil [of None fs]
    by (simp add: duration_from_str_def wf_duration_def from_millis_def)
qed

subsection \<open>Printing produces that grammar\<close>

fun unit_fragments :: "duration_unit list \<Rightarrow> nat \<Rightarrow> fragment list" where
  "unit_fragments [] ms = []"
| "unit_fragments (u # us) ms =
     (let whole = ms div millis u; rest = ms mod millis u
      in (if 0 < whole then [(show_nat whole, u)] else []) @ unit_fragments us rest)"

lemma fmt_units_render: "fmt_units us ms = render (unit_fragments us ms)"
  by (induction us arbitrary: ms) (simp_all add: Let_def)

lemma unit_fragments_units: "snd ` set (unit_fragments us ms) \<subseteq> set us"
proof (induction us arbitrary: ms)
  case (Cons u us)
  from this [of "ms mod millis u"] show ?case by (auto simp: Let_def)
qed simp

lemma unit_fragments_descend:
  "units_descend us \<Longrightarrow> units_descend (map snd (unit_fragments us ms))"
proof (induction us arbitrary: ms)
  case (Cons u us)
  from Cons.prems have us: "units_descend us" and u: "\<forall>v\<in>set us. unit_cmp u v = Less"
    by (simp_all add: units_descend_def)
  have "\<forall>f\<in>set (unit_fragments us (ms mod millis u)). unit_cmp u (snd f) = Less"
    using u unit_fragments_units [of us "ms mod millis u"] by blast
  with Cons.IH [OF us, of "ms mod millis u"] show ?case
    by (simp add: Let_def units_descend_def)
qed simp

lemma unit_fragments_ok: "ms < 2 ^ 64 \<Longrightarrow> list_all fragment_ok (unit_fragments us ms)"
proof (induction us arbitrary: ms)
  case (Cons u us)
  have "ms div millis u * millis u \<le> ms" by simp
  then have "ms div millis u * millis u < 2 ^ 64" using Cons.prems by (rule le_less_trans)
  moreover have "ms mod millis u < 2 ^ 64"
    using Cons.prems mod_less_eq_dividend [of ms "millis u"] by (rule le_less_trans [rotated])
  ultimately show ?case using Cons.IH [of "ms mod millis u"] by (simp add: Let_def)
qed simp

lemma unit_fragments_total:
  "us \<noteq> [] \<Longrightarrow> last us = Milliseconds \<Longrightarrow> total_millis (unit_fragments us ms) = ms"
proof (induction us arbitrary: ms)
  case (Cons u us)
  show ?case
  proof (cases "us = []")
    case True
    with Cons.prems show ?thesis by (auto simp: Let_def)
  next
    case False
    with Cons have "total_millis (unit_fragments us (ms mod millis u)) = ms mod millis u" by simp
    moreover have "ms div millis u = 0 \<Longrightarrow> ms mod millis u = ms" by (auto simp: div_eq_0_iff)
    ultimately show ?thesis by (auto simp: Let_def)
  qed
qed simp

lemma unit_iter_props: "unit_iter \<noteq> []" "last unit_iter = Milliseconds" "units_descend unit_iter"
  by (simp_all add: unit_iter_def units_descend_def unit_cmp_def)

text \<open>
  The durations that survive printing and parsing: whole milliseconds, fewer than \<open>2^64\<close> of them.
\<close>

definition printable :: "duration \<Rightarrow> bool" where
  "printable d \<longleftrightarrow> (\<exists>ms < 2 ^ 64. d = from_millis ms)"

lemma printable_wf: "printable d \<Longrightarrow> wf_duration d"
  by (auto simp: printable_def wf_duration_def from_millis_def duration_limit_def)

lemma as_millis_from_millis [simp]: "as_millis (from_millis ms) = ms"
  by (simp add: as_millis_def from_millis_def)

interpretation duration_codec: display_from_str printable duration_fmt duration_from_str
proof
  fix d
  assume p: "printable d"
  then obtain ms where ms: "ms < 2 ^ 64" and d: "d = from_millis ms" by (auto simp: printable_def)
  show "duration_from_str (duration_fmt d) = Inr d"
  proof (cases "ms = 0")
    case True
    have "duration_fmt d = render [(''0'', Seconds)]"
      using True d by (simp add: duration_fmt_def from_millis_def)
    moreover have "fragments_ok None [(''0'', Seconds)]" by (simp add: class_defs digit_val_def)
    moreover have "d = from_millis (total_millis [(''0'', Seconds)])"
      using True d by (simp add: digit_val_def)
    ultimately show ?thesis
      using printable_wf [OF p] by (auto simp: duration_from_str_iff simp del: render_simps)
  next
    case False
    let ?fs = "unit_fragments unit_iter ms"
    have "duration_fmt d = render ?fs"
      using False d by (simp add: duration_fmt_def fmt_units_render) (simp add: from_millis_def)
    moreover have total: "total_millis ?fs = ms"
      using unit_fragments_total unit_iter_props by blast
    moreover have "?fs \<noteq> []" using total False by auto
    moreover have "fragments_ok None ?fs"
      using unit_fragments_ok [OF ms] unit_fragments_descend unit_iter_props
      by (simp add: fragments_ok_def follows_def)
    ultimately show ?thesis
      using printable_wf [OF p] d by (auto simp: duration_from_str_iff)
  qed
qed

subsection \<open>Properties\<close>

text \<open>
  C30: \<open>Duration::from_str\<close> accepts exactly the non-empty sequences of fragments \<open><number><unit>\<close>
  with units in strictly descending order, each fragment below \<open>2^64\<close> milliseconds and the sum
  below \<open>2^64\<close> seconds, and returns that sum.
\<close>

theorem duration_from_str_exact:
  "duration_from_str s = Inr d \<longleftrightarrow>
     (\<exists>fs. fs \<noteq> [] \<and> s = render fs \<and> fragments_ok None fs \<and>
           d = from_millis (total_millis fs) \<and> wf_duration d)"
  by (rule duration_from_str_iff)

text \<open>
  A duration of a whole number of milliseconds below \<open>2^64\<close> is printed by \<open>Display\<close> as a
  string that \<open>from_str\<close> reads back as the same duration.
\<close>

theorem duration_roundtrip:
  "ms < 2 ^ 64 \<Longrightarrow> duration_from_str (duration_fmt (from_millis ms)) = Inr (from_millis ms)"
  by (rule duration_codec.from_str_fmt) (auto simp: printable_def)

lemma duration_fmt_1296122600: "duration_fmt (from_millis 1296122600) = ''15d2m2s600ms''"
  by (simp add: duration_fmt_def from_millis_def as_millis_def unit_iter_def Let_def show_nat.simps)

theorem duration_roundtrip_witness:
  "duration_from_str ''15d2m2s600ms'' = Inr (from_millis 1296122600)"
  using duration_roundtrip [of 1296122600] by (simp add: duration_fmt_1296122600)

text \<open>
  Outside that range printing loses the value: a non-zero duration below one millisecond prints
  as the empty string, which does not parse, and a duration that \<open>from_str\<close> itself accepted can
  print as a string that \<open>from_str\<close> rejects.
\<close>

theorem duration_display_not_parseable:
  "duration_fmt (Duration 1) = [] \<and> duration_from_str (duration_fmt (Duration 1)) = Inl EmptyInput \<and>
   (\<exists>s d. duration_from_str s = Inr d \<and> duration_from_str (duration_fmt d) \<noteq> Inr d)"
proof (intro conjI)
  show "duration_fmt (Duration 1) = []"
    by (simp add: duration_fmt_def as_millis_def unit_iter_def Let_def)
  then show "duration_from_str (duration_fmt (Duration 1)) = Inl EmptyInput"
    by (simp add: duration_from_str_def)
  let ?fs = "[(''213503982334'', Days), (''5124095576030'', Hours)]"
  let ?d = "from_millis (total_millis ?fs)"
  have "fragments_ok None ?fs" by (simp add: class_defs digit_val_def unit_cmp_def)
  moreover have "wf_duration ?d"
    by (simp add: wf_duration_def from_millis_def digit_val_def duration_limit_def)
  ultimately have 1: "duration_from_str (render ?fs) = Inr ?d"
    unfolding duration_from_str_iff by (intro exI [where x = ?fs]) simp
  have "duration_fmt ?d = ''427007964668d14h''"
    by (simp add: duration_fmt_def from_millis_def as_millis_def unit_iter_def Let_def show_nat.simps digit_val_def)
  moreover have "duration_from_str ''427007964668d14h'' = Inl (Overflow Days ''427007964668d14h'' 427007964668)"
    by (simp add: duration_from_str_def parse_loop.simps take_group_def class_defs parse_uint_def
        Let_def digit_val_def unit_from_str_def unit_iter_def check_unit_order_def add_fragment_def)
  ultimately have "duration_from_str (duration_fmt ?d) \<noteq> Inr ?d" by simp
  with 1 show "\<exists>s d. duration_from_str s = Inr d \<and> duration_from_str (duration_fmt d) \<noteq> Inr d"
    by blast
qed

text \<open>
  The unchecked constructors panic exactly beyond the documented bounds on minutes, hours and
  days, and otherwise give that many units.
\<close>

theorem from_units_unchecked_bounds:
  "(from_minutes_unchecked n = None \<longleftrightarrow> 307445734561825 < n) \<and>
   (from_hours_unchecked n = None \<longleftrightarrow> 5124095576030 < n) \<and>
   (from_days_unchecked n = None \<longleftrightarrow> 213503982334 < n) \<and>
   from_days_unchecked n \<in> {None, Some (from_secs (86400 * n))} \<and>
   from_hours_unchecked n \<in> {None, Some (from_secs (3600 * n))} \<and>
   from_minutes_unchecked n \<in> {None, Some (from_secs (60 * n))}"
  by (auto simp: from_minutes_unchecked_def from_hours_unchecked_def from_days_unchecked_def
      from_unit_unchecked_def from_millis_def from_secs_def)

end
