(* ===== verification/Builder_Volume.thy ===== *)
theory Builder_Volume
  imports Builder_Meta Duration "HOL-Library.Sublist"
begin

section \<open>Builders of volumes\<close>

text \<open>
  \<open>stackable-operator/src/builder/pod/volume.rs\<close>: volumes, volume mounts and the ephemeral volumes that
  the secret operator and the listener operator provision. Structs of the Kubernetes API that the
  code only stores are strings.
\<close>

record config_map_volume_source =
  cmvs_name :: string

record empty_dir_volume_source =
  edvs_medium :: "string option"
  edvs_size_limit :: "string option"

record host_path_volume_source =
  hpvs_path :: string
  hpvs_type :: "string option"

record pvc_volume_source =
  pvcvs_claim_name :: string
  pvcvs_read_only :: "bool option"

record secret_volume_source =
  svs_optional :: "bool option"
  svs_secret_name :: "string option"

record pvc_spec =
  pvcs_access_modes :: "string list option"
  pvcs_requests :: "(string, string) btreemap option"
  pvcs_selector :: "label_selector option"
  pvcs_storage_class_name :: "string option"

record persistent_volume_claim_template =
  pvct_metadata :: "object_meta option"
  pvct_spec :: pvc_spec

type_synonym ephemeral_volume_source = "persistent_volume_claim_template option"

type_synonym opaque = string

datatype volume_source =
    ConfigMapSource config_map_volume_source
  | DownwardApiSource opaque
  | EmptyDirSource empty_dir_volume_source
  | HostPathSource host_path_volume_source
  | PersistentVolumeClaimSource pvc_volume_source
  | ProjectedSource opaque
  | SecretSource secret_volume_source
  | CsiSource opaque
  | EphemeralSource ephemeral_volume_source

record volume =
  v_name :: string
  v_config_map :: "config_map_volume_source option"
  v_downward_api :: "opaque option"
  v_empty_dir :: "empty_dir_volume_source option"
  v_host_path :: "host_path_volume_source option"
  v_persistent_volume_claim :: "pvc_volume_source option"
  v_projected :: "opaque option"
  v_secret :: "secret_volume_source option"
  v_csi :: "opaque option"
  v_ephemeral :: "ephemeral_volume_source option"

definition volume_default :: volume where
  "volume_default =
     \<lparr>v_name = [], v_config_map = None, v_downward_api = None, v_empty_dir = None, v_host_path = None,
      v_persistent_volume_claim = None, v_projected = None, v_secret = None, v_csi = None, v_ephemeral = None\<rparr>"

definition volume_source_default :: volume_source where
  "volume_source_default = EmptyDirSource \<lparr>edvs_medium = None, edvs_size_limit = None\<rparr>"

record volume_builder =
  vb_name :: string
  vb_volume_source :: volume_source

definition volume_new :: "string \<Rightarrow> volume_builder" where
  "volume_new name = \<lparr>vb_name = name, vb_volume_source = volume_source_default\<rparr>"

definition volume_config_map :: "config_map_volume_source \<Rightarrow> volume_builder \<Rightarrow> volume_builder" where
  "volume_config_map config_map self = self\<lparr>vb_volume_source := ConfigMapSource config_map\<rparr>"

definition with_config_map :: "string \<Rightarrow> volume_builder \<Rightarrow> volume_builder" where
  "with_config_map name self = self\<lparr>vb_volume_source := ConfigMapSource \<lparr>cmvs_name = name\<rparr>\<rparr>"

definition volume_downward_api :: "opaque \<Rightarrow> volume_builder \<Rightarrow> volume_builder" where
  "volume_downward_api downward_api self = self\<lparr>vb_volume_source := DownwardApiSource downward_api\<rparr>"

definition volume_empty_dir :: "empty_dir_volume_source \<Rightarrow> volume_builder \<Rightarrow> volume_builder" where
  "volume_empty_dir empty_dir self = self\<lparr>vb_volume_source := EmptyDirSource empty_dir\<rparr>"

definition with_empty_dir :: "string option \<Rightarrow> string option \<Rightarrow> volume_builder \<Rightarrow> volume_builder" where
  "with_empty_dir medium quantity self =
     self\<lparr>vb_volume_source := EmptyDirSource \<lparr>edvs_medium = medium, edvs_size_limit = quantity\<rparr>\<rparr>"

definition volume_host_path :: "host_path_volume_source \<Rightarrow> volume_builder \<Rightarrow> volume_builder" where
  "volume_host_path host_path self = self\<lparr>vb_volume_source := HostPathSource host_path\<rparr>"

definition with_host_path :: "string \<Rightarrow> string option \<Rightarrow> volume_builder \<Rightarrow> volume_builder" where
  "with_host_path path ty self = self\<lparr>vb_volume_source := HostPathSource \<lparr>hpvs_path = path, hpvs_type = ty\<rparr>\<rparr>"

definition volume_persistent_volume_claim :: "pvc_volume_source \<Rightarrow> volume_builder \<Rightarrow> volume_builder" where
  "volume_persistent_volume_claim pvc self = self\<lparr>vb_volume_source := PersistentVolumeClaimSource pvc\<rparr>"

definition with_persistent_volume_claim :: "string \<Rightarrow> bool \<Rightarrow> volume_builder \<Rightarrow> volume_builder" where
  "with_persistent_volume_claim claim_name read_only self =
     self\<lparr>vb_volume_source := PersistentVolumeClaimSource \<lparr>pvcvs_claim_name = claim_name, pvcvs_read_only = Some read_only\<rparr>\<rparr>"

definition volume_projected :: "opaque \<Rightarrow> volume_builder \<Rightarrow> volume_builder" where
  "volume_projected projected self = self\<lparr>vb_volume_source := ProjectedSource projected\<rparr>"

definition volume_secret :: "secret_volume_source \<Rightarrow> volume_builder \<Rightarrow> volume_builder" where
  "volume_secret secret self = self\<lparr>vb_volume_source := SecretSource secret\<rparr>"

definition with_secret :: "string \<Rightarrow> bool \<Rightarrow> volume_builder \<Rightarrow> volume_builder" where
  "with_secret secret_name optional self =
     self\<lparr>vb_volume_source := SecretSource \<lparr>svs_optional = Some optional, svs_secret_name = Some secret_name\<rparr>\<rparr>"

definition volume_csi :: "opaque \<Rightarrow> volume_builder \<Rightarrow> volume_builder" where
  "volume_csi csi self = self\<lparr>vb_volume_source := CsiSource csi\<rparr>"

definition volume_ephemeral :: "ephemeral_volume_source \<Rightarrow> volume_builder \<Rightarrow> volume_builder" where
  "volume_ephemeral ephemeral self = self\<lparr>vb_volume_source := EphemeralSource ephemeral\<rparr>"

definition volume_build :: "volume_builder \<Rightarrow> volume" where
  "volume_build self =
     (case vb_volume_source self of
        ConfigMapSource cm \<Rightarrow> volume_default\<lparr>v_name := vb_name self, v_config_map := Some cm\<rparr>
      | DownwardApiSource d \<Rightarrow> volume_default\<lparr>v_name := vb_name self, v_downward_api := Some d\<rparr>
      | EmptyDirSource e \<Rightarrow> volume_default\<lparr>v_name := vb_name self, v_empty_dir := Some e\<rparr>
      | HostPathSource h \<Rightarrow> volume_default\<lparr>v_name := vb_name self, v_host_path := Some h\<rparr>
      | PersistentVolumeClaimSource pvc \<Rightarrow> volume_default\<lparr>v_name := vb_name self, v_persistent_volume_claim := Some pvc\<rparr>
      | ProjectedSource p \<Rightarrow> volume_default\<lparr>v_name := vb_name self, v_projected := Some p\<rparr>
      | SecretSource s \<Rightarrow> volume_default\<lparr>v_name := vb_name self, v_secret := Some s\<rparr>
      | CsiSource c \<Rightarrow> volume_default\<lparr>v_name := vb_name self, v_csi := Some c\<rparr>
      | EphemeralSource e \<Rightarrow> volume_default\<lparr>v_name := vb_name self, v_ephemeral := Some e\<rparr>)"

subsection \<open>Volume mounts\<close>

record volume_mount =
  vm_mount_path :: string
  vm_mount_propagation :: "string option"
  vm_name :: string
  vm_read_only :: "bool option"
  vm_sub_path :: "string option"
  vm_sub_path_expr :: "string option"
  vm_recursive_read_only :: "string option"

record volume_mount_builder =
  vmb_mount_path :: string
  vmb_mount_propagation :: "string option"
  vmb_name :: string
  vmb_read_only :: "bool option"
  vmb_sub_path :: "string option"
  vmb_sub_path_expr :: "string option"

definition volume_mount_new :: "string \<Rightarrow> string \<Rightarrow> volume_mount_builder" where
  "volume_mount_new name mount_path =
     \<lparr>vmb_mount_path = mount_path, vmb_mount_propagation = None, vmb_name = name, vmb_read_only = None,
      vmb_sub_path = None, vmb_sub_path_expr = None\<rparr>"

definition mount_read_only :: "bool \<Rightarrow> volume_mount_builder \<Rightarrow> volume_mount_builder" where
  "mount_read_only read_only self = self\<lparr>vmb_read_only := Some read_only\<rparr>"

definition mount_propagation :: "string \<Rightarrow> volume_mount_builder \<Rightarrow> volume_mount_builder" where
  "mount_propagation propagation self = self\<lparr>vmb_mount_propagation := Some propagation\<rparr>"

definition mount_sub_path :: "string \<Rightarrow> volume_mount_builder \<Rightarrow> volume_mount_builder" where
  "mount_sub_path sub_path self = self\<lparr>vmb_sub_path := Some sub_path\<rparr>"

definition mount_sub_path_expr :: "string \<Rightarrow> volume_mount_builder \<Rightarrow> volume_mount_builder" where
  "mount_sub_path_expr sub_path_expr self = self\<lparr>vmb_sub_path_expr := Some sub_path_expr\<rparr>"

definition volume_mount_build :: "volume_mount_builder \<Rightarrow> volume_mount" where
  "volume_mount_build self =
     \<lparr>vm_mount_path = vmb_mount_path self, vm_mount_propagation = vmb_mount_propagation self, vm_name = vmb_name self,
      vm_read_only = vmb_read_only self, vm_sub_path = vmb_sub_path self, vm_sub_path_expr = vmb_sub_path_expr self,
      vm_recursive_read_only = None\<rparr>"

subsection \<open>Volumes of the secret operator\<close>

datatype secret_format_kind = TlsPem | TlsPkcs12 | KerberosFormat

text \<open>\<open>strum::AsRefStr\<close> in kebab case.\<close>

fun secret_format_str :: "secret_format_kind \<Rightarrow> string" where
  "secret_format_str TlsPem = ''tls-pem''"
| "secret_format_str TlsPkcs12 = ''tls-pkcs12''"
| "secret_format_str KerberosFormat = ''kerberos''"

datatype secret_volume_error = ParseAnnotation annotation_error

record secret_operator_volume_source_builder =
  sov_secret_class :: string
  sov_scopes :: "secret_operator_volume_scope list"
  sov_format :: "secret_format_kind option"
  sov_kerberos_service_names :: "string list"
  sov_tls_pkcs12_password :: "string option"
  sov_auto_tls_cert_lifetime :: "duration option"
  sov_domain_components :: "bool option"
  sov_provision_parts :: secret_class_volume_provision_parts

definition secret_volume_new :: "string \<Rightarrow> secret_class_volume_provision_parts \<Rightarrow> secret_operator_volume_source_builder" where
  "secret_volume_new class provision_parts =
     \<lparr>sov_secret_class = class, sov_scopes = [], sov_format = None, sov_kerberos_service_names = [],
      sov_tls_pkcs12_password = None, sov_auto_tls_cert_lifetime = None, sov_domain_components = None,
      sov_provision_parts = provision_parts\<rparr>"

definition with_auto_tls_cert_lifetime ::
    "duration \<Rightarrow> secret_operator_volume_source_builder \<Rightarrow> secret_operator_volume_source_builder" where
  "with_auto_tls_cert_lifetime lifetime self = self\<lparr>sov_auto_tls_cert_lifetime := Some lifetime\<rparr>"

definition with_auto_tls_cert_domain_components_in_subject_dn ::
    "bool \<Rightarrow> secret_operator_volume_source_builder \<Rightarrow> secret_operator_volume_source_builder" where
  "with_auto_tls_cert_domain_components_in_subject_dn enabled self = self\<lparr>sov_domain_components := Some enabled\<rparr>"

definition with_node_scope :: "secret_operator_volume_source_builder \<Rightarrow> secret_operator_volume_source_builder" where
  "with_node_scope self = self\<lparr>sov_scopes := sov_scopes self @ [Node]\<rparr>"

definition with_pod_scope :: "secret_operator_volume_source_builder \<Rightarrow> secret_operator_volume_source_builder" where
  "with_pod_scope self = self\<lparr>sov_scopes := sov_scopes self @ [Pod]\<rparr>"

definition with_service_scope :: "string \<Rightarrow> secret_operator_volume_source_builder \<Rightarrow> secret_operator_volume_source_builder" where
  "with_service_scope name self = self\<lparr>sov_scopes := sov_scopes self @ [Service name]\<rparr>"

definition with_listener_volume_scope :: "string \<Rightarrow> secret_operator_volume_source_builder \<Rightarrow> secret_operator_volume_source_builder" where
  "with_listener_volume_scope name self = self\<lparr>sov_scopes := sov_scopes self @ [ListenerVolume name]\<rparr>"

definition with_format :: "secret_format_kind \<Rightarrow> secret_operator_volume_source_builder \<Rightarrow> secret_operator_volume_source_builder" where
  "with_format format self = self\<lparr>sov_format := Some format\<rparr>"

definition with_kerberos_service_name :: "string \<Rightarrow> secret_operator_volume_source_builder \<Rightarrow> secret_operator_volume_source_builder" where
  "with_kerberos_service_name name self = self\<lparr>sov_kerberos_service_names := sov_kerberos_service_names self @ [name]\<rparr>"

definition with_tls_pkcs12_password :: "string \<Rightarrow> secret_operator_volume_source_builder \<Rightarrow> secret_operator_volume_source_builder" where
  "with_tls_pkcs12_password password self = self\<lparr>sov_tls_pkcs12_password := Some password\<rparr>"

text \<open>One optional annotation of the builder, added to those collected so far.\<close>

definition insert_parsed ::
    "(annotation, annotation_error) result \<Rightarrow> annotations \<Rightarrow> (annotations, secret_volume_error) result" where
  "insert_parsed parsed annotations = and_then (map_err ParseAnnotation parsed) (\<lambda>a. Inr (annotations_insert annotations a))"

definition secret_volume_claim :: "annotations \<Rightarrow> ephemeral_volume_source" where
  "secret_volume_claim annotations =
     Some \<lparr>pvct_metadata = Some (meta_build (meta_annotations annotations meta_new)),
           pvct_spec = \<lparr>pvcs_access_modes = Some [''ReadWriteOnce''], pvcs_requests = Some [(''storage'', ''1'')], pvcs_selector = None,
                         pvcs_storage_class_name = Some ''secrets.stackable.tech''\<rparr>\<rparr>"

text \<open>The outer option is the \<open>expect\<close> in the last annotation.\<close>

definition secret_volume_build ::
    "secret_operator_volume_source_builder \<Rightarrow> (ephemeral_volume_source, secret_volume_error) result option" where
  "secret_volume_build self =
     (case and_then (insert_parsed (secret_class (sov_secret_class self)) kvps_new) (\<lambda>annotations.
           and_then (insert_parsed (secret_provision_parts (sov_provision_parts self)) annotations) (\<lambda>annotations.
           and_then (if sov_scopes self \<noteq> [] then insert_parsed (secret_scope (sov_scopes self)) annotations
                     else Inr annotations) (\<lambda>annotations.
           and_then (case sov_format self of
                       Some format \<Rightarrow> insert_parsed (secret_format (secret_format_str format)) annotations
                     | None \<Rightarrow> Inr annotations) (\<lambda>annotations.
           and_then (if sov_kerberos_service_names self \<noteq> []
                     then insert_parsed (kerberos_service_names (sov_kerberos_service_names self)) annotations
                     else Inr annotations) (\<lambda>annotations.
           and_then (case sov_tls_pkcs12_password self of
                       Some password \<Rightarrow>
                         if sov_format self = Some TlsPkcs12 then insert_parsed (tls_pkcs12_password password) annotations
                         else Inr annotations
                     | None \<Rightarrow> Inr annotations) (\<lambda>annotations.
           case sov_auto_tls_cert_lifetime self of
             Some lifetime \<Rightarrow> insert_parsed (auto_tls_cert_lifetime (duration_fmt lifetime)) annotations
           | None \<Rightarrow> Inr annotations)))))) of
        Inl e \<Rightarrow> Some (Inl e)
      | Inr annotations \<Rightarrow>
          (case sov_domain_components self of
             Some enabled \<Rightarrow>
               (case auto_tls_cert_domain_components_in_subject_dn enabled of
                  None \<Rightarrow> None
                | Some a \<Rightarrow> Some (Inr (secret_volume_claim (annotations_insert annotations a))))
           | None \<Rightarrow> Some (Inr (secret_volume_claim annotations))))"

subsection \<open>Volumes of the listener operator\<close>

datatype listener_reference = ListenerClass string | ListenerName string

datatype listener_volume_error = ListenerReferenceAnnotation annotation_error | ListenerRecommendedLabels label_error

fun listener_to_annotation :: "listener_reference \<Rightarrow> (annotation, annotation_error) result" where
  "listener_to_annotation (ListenerClass class) = annotation_try_from (''listeners.stackable.tech/listener-class'', class)"
| "listener_to_annotation (ListenerName name) = annotation_try_from (''listeners.stackable.tech/listener-name'', name)"

record listener_operator_volume_source_builder =
  lov_listener_reference :: listener_reference
  lov_labels :: labels

record persistent_volume_claim =
  pvc_metadata :: object_meta
  pvc_spec :: "pvc_spec option"

definition listener_volume_new :: "listener_reference \<Rightarrow> labels \<Rightarrow> listener_operator_volume_source_builder" where
  "listener_volume_new listener_reference labels = \<lparr>lov_listener_reference = listener_reference, lov_labels = labels\<rparr>"

definition listener_volume_spec :: pvc_spec where
  "listener_volume_spec =
     \<lparr>pvcs_access_modes = Some [''ReadWriteMany''], pvcs_requests = Some [(''storage'', ''1'')], pvcs_selector = None,
      pvcs_storage_class_name = Some ''listeners.stackable.tech''\<rparr>"

definition build_ephemeral ::
    "listener_operator_volume_source_builder \<Rightarrow> (ephemeral_volume_source, listener_volume_error) result" where
  "build_ephemeral self =
     and_then (map_err ListenerReferenceAnnotation (listener_to_annotation (lov_listener_reference self))) (\<lambda>annotation.
     Inr (Some \<lparr>pvct_metadata = Some (meta_build (with_labels (lov_labels self) (with_annotation annotation meta_new))),
                pvct_spec = listener_volume_spec\<rparr>))"

definition listener_build_pvc ::
    "string \<Rightarrow> listener_operator_volume_source_builder \<Rightarrow> (persistent_volume_claim, listener_volume_error) result" where
  "listener_build_pvc name self =
     and_then (map_err ListenerReferenceAnnotation (listener_to_annotation (lov_listener_reference self))) (\<lambda>annotation.
     Inr \<lparr>pvc_metadata = meta_build (with_labels (lov_labels self) (with_annotation annotation (meta_name name meta_new))),
          pvc_spec = Some listener_volume_spec\<rparr>)"

subsection \<open>What the secret operator is told\<close>

text \<open>The annotations of a builder by name, without the prefix.\<close>

definition secret_annotations :: "secret_operator_volume_source_builder \<Rightarrow> (string \<times> string) list" where
  "secret_annotations b =
     [(''class'', sov_secret_class b), (''provision-parts'', provision_parts_str (sov_provision_parts b))] @
     (if sov_scopes b \<noteq> [] then [(''scope'', join '','' (map scope_str (sov_scopes b)))] else []) @
     (case sov_format b of Some f \<Rightarrow> [(''format'', secret_format_str f)] | None \<Rightarrow> []) @
     (if sov_kerberos_service_names b \<noteq> [] then [(''kerberos.service.names'', join '','' (sov_kerberos_service_names b))] else []) @
     (case sov_tls_pkcs12_password b of
        Some p \<Rightarrow> if sov_format b = Some TlsPkcs12 then [(''format.compatibility.tls-pkcs12.password'', p)] else []
      | None \<Rightarrow> []) @
     (case sov_auto_tls_cert_lifetime b of Some d \<Rightarrow> [(''backend.autotls.cert.lifetime'', duration_fmt d)] | None \<Rightarrow> []) @
     (case sov_domain_components b of
        Some e \<Rightarrow> [(''backend.autotls.cert.domain-components-in-subject-dn'', bool_to_string e)] | None \<Rightarrow> [])"

definition insert_secret :: "annotations \<Rightarrow> string \<times> string \<Rightarrow> annotations" where
  "insert_secret m nv = annotations_insert m (secrets_key (fst nv), AnnotationValue (snd nv))"

lemma secret_volume_build_insert:
  "secret_volume_build b = Some (Inr (secret_volume_claim (foldl insert_secret kvps_new (secret_annotations b))))"
  by (simp add: secret_volume_build_def secret_annotations_def insert_parsed_def annotation_constructors insert_secret_def
      split: option.splits)

lemma secrets_key_inject [simp]: "secrets_key m = secrets_key n \<longleftrightarrow> m = n"
  by (simp add: secrets_key_def)

lemma insert_secrets_wf:
  assumes "kvps_wf m" "\<forall>nv \<in> set xs. name_ok (fst nv)"
  shows "kvps_wf (foldl insert_secret m xs)"
  using assms
proof (induction xs arbitrary: m)
  case (Cons nv xs)
  have "key_wf (secrets_key (fst nv))" using Cons.prems(2) secrets_prefix_ok by (simp add: key_wf_def secrets_key_def)
  then have "kvps_wf (insert_secret m nv)"
    using Cons.prems(1) by (simp add: insert_secret_def annotations_insert_def kvps_wf_insert)
  then show ?case using Cons by simp
qed simp

lemma insert_secrets_set:
  assumes "distinct (map fst xs)" "\<forall>nv \<in> set xs. secrets_key (fst nv) \<notin> fst ` set m"
  shows "set (foldl insert_secret m xs) = set m \<union> (\<lambda>(n, v). (secrets_key n, AnnotationValue v)) ` set xs"
  using assms
proof (induction xs arbitrary: m)
  case (Cons nv xs)
  obtain n v where nv: "nv = (n, v)" by (cases nv)
  have "secrets_key n \<notin> fst ` set m" using Cons.prems(2) nv by simp
  then have set: "set (insert_secret m nv) = insert (secrets_key n, AnnotationValue v) (set m)"
    by (simp add: insert_secret_def annotations_insert_def kvps_insert_def nv set_btree_insert_new)
  have "\<forall>x \<in> set xs. secrets_key (fst x) \<notin> fst ` set (insert_secret m nv)"
    using Cons.prems nv unfolding set by (auto simp: image_iff)
  then show ?case using Cons nv set by simp
qed simp

definition secret_names :: "string list" where
  "secret_names =
     [''class'', ''provision-parts''] @ [''scope''] @ [''format''] @ [''kerberos.service.names''] @
     [''format.compatibility.tls-pkcs12.password''] @ [''backend.autotls.cert.lifetime''] @
     [''backend.autotls.cert.domain-components-in-subject-dn'']"

lemma secret_annotations_subseq: "subseq (map fst (secret_annotations b)) secret_names"
  unfolding secret_annotations_def secret_names_def map_append
  by (intro list_emb_append_mono) (simp_all split: option.split)

lemma secret_annotations_names:
  "\<forall>nv \<in> set (secret_annotations b). name_ok (fst nv)" "distinct (map fst (secret_annotations b))"
proof -
  have "distinct secret_names" by (simp add: secret_names_def)
  then show "distinct (map fst (secret_annotations b))"
    using secret_annotations_subseq subseqs_distinctD in_set_subseqs by metis
  have "\<forall>n \<in> set secret_names. name_ok n" using annotation_names by (simp add: secret_names_def)
  moreover have "set (map fst (secret_annotations b)) \<subseteq> set secret_names"
    using imageI [OF in_set_subseqs [THEN iffD2, OF secret_annotations_subseq], of set] unfolding subseqs_powset by (rule PowD)
  ultimately show "\<forall>nv \<in> set (secret_annotations b). name_ok (fst nv)" by auto
qed

text \<open>
  Building a secret volume never fails or panics, and the claim asks the secret operator for exactly
  what was configured: its annotations, in key order, are the class, the provisioned parts, and each
  optional setting that was made, with the PKCS#12 password only for that format, and no others.
\<close>

theorem secret_volume_exact:
  "\<exists>claim meta m. secret_volume_build b = Some (Inr (Some claim)) \<and> pvct_metadata claim = Some meta \<and>
     om_annotations meta = Some m \<and> btree_inv m \<and>
     set m = (\<lambda>(n, v). (''secrets.stackable.tech/'' @ n, v)) ` set (secret_annotations b)"
proof -
  let ?A = "foldl insert_secret kvps_new (secret_annotations b)"
  have wf: "kvps_wf ?A" by (rule insert_secrets_wf) (simp_all add: secret_annotations_names)
  have "set ?A = (\<lambda>(n, v). (secrets_key n, AnnotationValue v)) ` set (secret_annotations b)"
    using insert_secrets_set [OF secret_annotations_names(2) [of b], of kvps_new] by (simp add: kvps_new_def)
  then have "set (annotations_into_map ?A) = (\<lambda>(n, v). (''secrets.stackable.tech/'' @ n, v)) ` set (secret_annotations b)"
    using annotation_value.into_map_sorted [OF wf]
    by (simp add: annotations_into_map_def image_image split_beta secrets_key_def key_fmt_def)
  moreover have "btree_inv (annotations_into_map ?A)" by (simp add: annotations_into_map_def kvps_into_map_def)
  ultimately show ?thesis
    unfolding secret_volume_build_insert by (simp add: secret_volume_claim_def meta_build_def meta_annotations_def)
qed

end
