(* ===== verification/F32.thy ===== *)
theory F32
  imports Complex_Main Rust_Str "HOL-Library.Log_Nat"
begin

section \<open>Single precision numbers\<close>

text \<open>
  Rust's \<open>f32\<close>, as the quantities of \<open>cpu.rs\<close> and \<open>memory.rs\<close> use it: IEEE 754 binary32 with rounding
  to nearest, ties to even. A finite number is its sign (\<^const>\<open>True\<close> for a negative one) and its
  magnitude, so that the two zeros are different values. The results of the operations are exact
  rational results, rounded; \<open>f32_value\<close> says which magnitudes exist.
\<close>

subsection \<open>Values and rounding\<close>

datatype f32 = F32_NaN | F32_Inf bool | F32_Fin bool rat

text \<open>The binary exponent: \<open>2 powi ilog2 q \<le> q < 2 powi (ilog2 q + 1)\<close>.\<close>

definition ilog2 :: "rat \<Rightarrow> int" where
  "ilog2 q =
     (let (a, b) = quotient_of q; e = bitlen a - bitlen b
      in if 2 powi e \<le> q then e else e - 1)"

definition round_even :: "rat \<Rightarrow> int" where
  "round_even q =
     (let n = \<lfloor>q\<rfloor>; r = q - of_int n
      in if r < 1/2 then n else if 1/2 < r then n + 1 else if even n then n else n + 1)"

definition ulp_exp :: "rat \<Rightarrow> int" where
  "ulp_exp q = max (ilog2 q - 23) (- 149)"

definition f32_mag :: "rat \<Rightarrow> rat" where
  "f32_mag q = (if q = 0 then 0 else of_int (round_even (q / 2 powi ulp_exp q)) * 2 powi ulp_exp q)"

definition f32_pack :: "bool \<Rightarrow> rat \<Rightarrow> f32" where
  "f32_pack s q = (let m = f32_mag q in if 2 ^ 128 \<le> m then F32_Inf s else F32_Fin s m)"

definition f32_rat :: "rat \<Rightarrow> f32" where
  "f32_rat q = f32_pack (q < 0) \<bar>q\<bar>"

definition signed :: "bool \<Rightarrow> rat \<Rightarrow> rat" where
  "signed s q = (if s then - q else q)"

definition f32_mul :: "f32 \<Rightarrow> f32 \<Rightarrow> f32" where
  "f32_mul x y =
     (case (x, y) of
        (F32_Fin s a, F32_Fin t b) \<Rightarrow> f32_pack (s \<noteq> t) (a * b)
      | (F32_Inf s, F32_Inf t) \<Rightarrow> F32_Inf (s \<noteq> t)
      | (F32_Inf s, F32_Fin t b) \<Rightarrow> if b = 0 then F32_NaN else F32_Inf (s \<noteq> t)
      | (F32_Fin s a, F32_Inf t) \<Rightarrow> if a = 0 then F32_NaN else F32_Inf (s \<noteq> t)
      | _ \<Rightarrow> F32_NaN)"

definition f32_div :: "f32 \<Rightarrow> f32 \<Rightarrow> f32" where
  "f32_div x y =
     (case (x, y) of
        (F32_Fin s a, F32_Fin t b) \<Rightarrow>
          if b = 0 then (if a = 0 then F32_NaN else F32_Inf (s \<noteq> t)) else f32_pack (s \<noteq> t) (a / b)
      | (F32_Inf s, F32_Fin t b) \<Rightarrow> F32_Inf (s \<noteq> t)
      | (F32_Fin s a, F32_Inf t) \<Rightarrow> F32_Fin (s \<noteq> t) 0
      | _ \<Rightarrow> F32_NaN)"

definition f32_neg :: "f32 \<Rightarrow> f32" where
  "f32_neg x = (case x of F32_NaN \<Rightarrow> F32_NaN | F32_Inf s \<Rightarrow> F32_Inf (\<not> s) | F32_Fin s a \<Rightarrow> F32_Fin (\<not> s) a)"

definition f32_add :: "f32 \<Rightarrow> f32 \<Rightarrow> f32" where
  "f32_add x y =
     (case (x, y) of
        (F32_Fin s a, F32_Fin t b) \<Rightarrow>
          let v = signed s a + signed t b in if v = 0 then F32_Fin (s \<and> t) 0 else f32_rat v
      | (F32_Inf s, F32_Inf t) \<Rightarrow> if s = t then F32_Inf s else F32_NaN
      | (F32_Inf s, F32_Fin t b) \<Rightarrow> F32_Inf s
      | (F32_Fin s a, F32_Inf t) \<Rightarrow> F32_Inf t
      | _ \<Rightarrow> F32_NaN)"

definition f32_sub :: "f32 \<Rightarrow> f32 \<Rightarrow> f32" where
  "f32_sub x y = f32_add x (f32_neg y)"

definition f32_floor :: "f32 \<Rightarrow> f32" where
  "f32_floor x = (case x of F32_Fin s a \<Rightarrow> F32_Fin s (of_int (if s then \<lceil>a\<rceil> else \<lfloor>a\<rfloor>)) | _ \<Rightarrow> x)"

definition f32_ceil :: "f32 \<Rightarrow> f32" where
  "f32_ceil x = (case x of F32_Fin s a \<Rightarrow> F32_Fin s (of_int (if s then \<lfloor>a\<rfloor> else \<lceil>a\<rceil>)) | _ \<Rightarrow> x)"

text \<open>\<open>f32::round\<close>, with ties away from zero, and \<open>f32::fract\<close>, which is \<open>x - x.trunc()\<close>.\<close>

definition f32_round :: "f32 \<Rightarrow> f32" where
  "f32_round x = (case x of F32_Fin s a \<Rightarrow> F32_Fin s (of_int \<lfloor>a + 1/2\<rfloor>) | _ \<Rightarrow> x)"

definition f32_fract :: "f32 \<Rightarrow> f32" where
  "f32_fract x = (case x of F32_Fin s a \<Rightarrow> F32_Fin (s \<and> frac a \<noteq> 0) (frac a) | _ \<Rightarrow> F32_NaN)"

definition f32_partial_cmp :: "f32 \<Rightarrow> f32 \<Rightarrow> ordering option" where
  "f32_partial_cmp x y =
     (case (x, y) of
        (F32_Fin s a, F32_Fin t b) \<Rightarrow> Some (ord_cmp (signed s a) (signed t b))
      | (F32_Inf s, F32_Inf t) \<Rightarrow> Some (if s = t then Equal else if s then Less else Greater)
      | (F32_Inf s, F32_Fin t b) \<Rightarrow> Some (if s then Less else Greater)
      | (F32_Fin s a, F32_Inf t) \<Rightarrow> Some (if t then Greater else Less)
      | _ \<Rightarrow> None)"

definition f32_lt :: "f32 \<Rightarrow> f32 \<Rightarrow> bool" where
  "f32_lt x y \<longleftrightarrow> f32_partial_cmp x y = Some Less"

definition f32_eq :: "f32 \<Rightarrow> f32 \<Rightarrow> bool" where
  "f32_eq x y \<longleftrightarrow> f32_partial_cmp x y = Some Equal"

text \<open>The saturating \<open>as\<close> casts to an unsigned type of \<open>w\<close> bits, and back from it.\<close>

definition f32_as_uint :: "nat \<Rightarrow> f32 \<Rightarrow> nat" where
  "f32_as_uint w x =
     (case x of
        F32_NaN \<Rightarrow> 0
      | F32_Inf s \<Rightarrow> if s then 0 else 2 ^ w - 1
      | F32_Fin s a \<Rightarrow> if s then 0 else min (nat \<lfloor>a\<rfloor>) (2 ^ w - 1))"

definition f32_of_nat :: "nat \<Rightarrow> f32" where
  "f32_of_nat n = f32_pack False (of_nat n)"

subsection \<open>Decimal notation\<close>

datatype float_error_kind = FloatEmpty | FloatInvalid

text \<open>
  \<open>str::parse\<close> on a string of digits and dots, which is all the quantities pass to it: at most one
  dot, at least one digit, and the number they denote, rounded.
\<close>

definition parse_f32 :: "string \<Rightarrow> (f32, float_error_kind) result" where
  "parse_f32 s =
     (if s = [] then Inl FloatEmpty else
      let i = takeWhile is_digit s; rest = dropWhile is_digit s in
      case rest of
        [] \<Rightarrow> Inr (f32_pack False (of_nat (digits_val 0 i)))
      | c # f \<Rightarrow>
          if c = CHR ''.'' \<and> list_all is_digit f \<and> (i \<noteq> [] \<or> f \<noteq> [])
          then Inr (f32_pack False (of_nat (digits_val 0 (i @ f)) / 10 ^ length f))
          else Inl FloatInvalid)"

text \<open>
  \<open>Display\<close>: the shortest decimal that reads back as the number, the nearest one if there are several
  (the upper one of two equally near), without an exponent. Nine significant digits are always
  enough; \<open>k\<close> is the decimal exponent of the last digit.
\<close>

definition dec_candidates :: "rat \<Rightarrow> int \<Rightarrow> int list" where
  "dec_candidates q k =
     filter (\<lambda>d. f32_mag (of_int d * 10 powi k) = q)
       (let n = \<lfloor>q / 10 powi k\<rfloor> in if q / 10 powi k - of_int n < 1/2 then [n, n + 1] else [n + 1, n])"

fun shortest_from :: "rat \<Rightarrow> int \<Rightarrow> nat \<Rightarrow> int \<times> int" where
  "shortest_from q k 0 = (\<lfloor>q / 10 powi k\<rfloor>, k)"
| "shortest_from q k (Suc fuel) =
     (case dec_candidates q k of d # _ \<Rightarrow> (d, k) | [] \<Rightarrow> shortest_from q (k - 1) fuel)"

fun dec_exp_up :: "rat \<Rightarrow> int \<Rightarrow> nat \<Rightarrow> int" where
  "dec_exp_up q k 0 = k"
| "dec_exp_up q k (Suc fuel) = (if q < 10 powi (k + 1) then k else dec_exp_up q (k + 1) fuel)"

definition show_dec :: "int \<Rightarrow> int \<Rightarrow> string" where
  "show_dec d k =
     (if 0 \<le> k then show_nat (nat d * 10 ^ nat k)
      else let f = nat (- k); i = nat d div 10 ^ f; r = show_nat (nat d mod 10 ^ f)
           in show_nat i @ ''.'' @ replicate (f - length r) (CHR ''0'') @ r)"

definition f32_mag_fmt :: "rat \<Rightarrow> string" where
  "f32_mag_fmt q =
     (if q = 0 then ''0'' else let (d, k) = shortest_from q (dec_exp_up q (- 46) 86) 60 in show_dec d k)"

definition f32_fmt :: "f32 \<Rightarrow> string" where
  "f32_fmt x =
     (case x of
        F32_NaN \<Rightarrow> ''NaN''
      | F32_Inf s \<Rightarrow> (if s then ''-'' else []) @ ''inf''
      | F32_Fin s a \<Rightarrow> (if s then ''-'' else []) @ f32_mag_fmt a)"

text \<open>The format \<open>{:.0}\<close>: the exact value, rounded to an integer.\<close>

definition f32_fmt_0 :: "f32 \<Rightarrow> string" where
  "f32_fmt_0 x =
     (case x of
        F32_NaN \<Rightarrow> ''NaN''
      | F32_Inf s \<Rightarrow> (if s then ''-'' else []) @ ''inf''
      | F32_Fin s a \<Rightarrow> (if s then ''-'' else []) @ show_nat (nat (round_even a)))"

subsection \<open>Representable magnitudes\<close>

definition f32_value :: "rat \<Rightarrow> bool" where
  "f32_value q \<longleftrightarrow> (\<exists>m e. 0 \<le> m \<and> m < (2::int) ^ 24 \<and> - 149 \<le> e \<and> q = of_int m * 2 powi e)"

lemma powi_pos: "(0 :: rat) < 2 powi n"
  by (simp add: power_int_def)

lemma f32_valueI: "0 \<le> m \<Longrightarrow> m < 2 ^ 24 \<Longrightarrow> - 149 \<le> e \<Longrightarrow> f32_value (of_int m * 2 powi e)"
  unfolding f32_value_def by blast

lemma bitlen_ge: "0 < a \<Longrightarrow> 2 powi (bitlen a - 1) \<le> (of_int a :: rat)"
proof -
  assume a: "0 < a"
  then have "2 ^ nat (bitlen a - 1) \<le> a" by (rule bitlen_bounds [THEN conjunct1])
  then have "(of_int (2 ^ nat (bitlen a - 1)) :: rat) \<le> of_int a" by (simp only: of_int_le_iff)
  moreover have "0 \<le> bitlen a - 1" using a by (simp add: bitlen_alt_def)
  ultimately show ?thesis by (simp add: power_int_def)
qed

lemma bitlen_less: "0 < a \<Longrightarrow> (of_int a :: rat) < 2 powi bitlen a"
proof -
  assume a: "0 < a"
  then have "a < 2 ^ nat (bitlen a)" by (rule bitlen_bounds [THEN conjunct2])
  then have "(of_int a :: rat) < of_int (2 ^ nat (bitlen a))" by (simp only: of_int_less_iff)
  then show ?thesis by (simp add: power_int_def bitlen_nonneg)
qed

lemma ilog2_bounds:
  assumes "0 < q"
  shows "2 powi ilog2 q \<le> q" "q < 2 powi (ilog2 q + 1)"
proof -
  obtain a b where ab: "quotient_of q = (a, b)" by (cases "quotient_of q")
  have b: "0 < b" by (rule quotient_of_denom_pos [OF ab])
  have q: "q = of_int a / of_int b" by (rule quotient_of_div [OF ab])
  have a: "0 < a" using assms b unfolding q by (simp add: zero_less_divide_iff)
  let ?e = "bitlen a - bitlen b"
  have "2 powi (?e - 1) = (2 powi (bitlen a - 1) / 2 powi bitlen b :: rat)" by (simp add: power_int_diff)
  also have "\<dots> \<le> q" unfolding q
    by (rule frac_le) (use a b bitlen_ge [OF a] bitlen_less [OF b] in \<open>simp_all add: powi_pos\<close>)
  finally have lo: "2 powi (?e - 1) \<le> q" .
  have "q < 2 powi bitlen a / 2 powi (bitlen b - 1)" unfolding q
    by (rule frac_less) (use a b bitlen_less [OF a] bitlen_ge [OF b] in \<open>simp_all add: powi_pos\<close>)
  also have "\<dots> = 2 powi (?e + 1)" by (simp add: power_int_diff power_int_add)
  finally have hi: "q < 2 powi (?e + 1)" .
  show "2 powi ilog2 q \<le> q" "q < 2 powi (ilog2 q + 1)"
    using lo hi by (auto simp: ilog2_def ab Let_def)
qed

lemma ilog2_le:
  assumes "0 < q" "q < 2 powi e"
  shows "ilog2 q < e"
proof (rule ccontr)
  assume "\<not> ilog2 q < e"
  then have "(2 powi e :: rat) \<le> 2 powi ilog2 q" by (intro power_int_increasing) auto
  then show False using ilog2_bounds(1) [OF assms(1)] assms(2) by simp
qed

lemma round_even_int [simp]: "round_even (of_int n) = n"
  by (simp add: round_even_def)

lemma round_even_bound: "q \<le> of_int n \<Longrightarrow> round_even q \<le> n"
proof -
  assume q: "q \<le> of_int n"
  then have "\<lfloor>q\<rfloor> \<le> n" by (simp add: floor_le_iff)
  then consider "\<lfloor>q\<rfloor> = n" | "\<lfloor>q\<rfloor> + 1 \<le> n" by linarith
  then show ?thesis
  proof cases
    case 1
    then have "q = of_int n" using q of_int_floor_le [of q] by simp
    then show ?thesis by simp
  qed (auto simp: round_even_def Let_def)
qed

lemma round_even_nonneg: "0 \<le> q \<Longrightarrow> 0 \<le> round_even q"
  by (auto simp: round_even_def Let_def)

lemma ulp_quotient_less:
  assumes "0 < q"
  shows "q / 2 powi ulp_exp q < 2 ^ 24"
proof -
  have "q < 2 powi (ilog2 q + 1)" by (rule ilog2_bounds [OF assms])
  also have "\<dots> \<le> 2 powi (ulp_exp q + 24)" by (intro power_int_increasing) (auto simp: ulp_exp_def)
  also have "\<dots> = 2 ^ 24 * 2 powi ulp_exp q" by (simp add: power_int_add)
  finally show ?thesis by (simp add: power_int_def divide_less_eq)
qed

lemma f32_value_mag: 
  assumes "0 \<le> q"
  shows "f32_value (f32_mag q)"
proof (cases "q = 0")
  case True
  then show ?thesis unfolding f32_value_def f32_mag_def by (intro exI [of _ 0] exI [of _ 0]) simp
next
  case False
  then have q: "0 < q" using assms by simp
  let ?n = "round_even (q / 2 powi ulp_exp q)"
  have n: "0 \<le> ?n" "?n \<le> 2 ^ 24"
    using round_even_bound [of "q / 2 powi ulp_exp q" "2 ^ 24"] ulp_quotient_less [OF q] q
    by (auto intro!: round_even_nonneg simp: power_int_def)
  have e: "- 149 \<le> ulp_exp q" by (simp add: ulp_exp_def)
  show ?thesis
  proof (cases "?n = 2 ^ 24")
    case True
    have "f32_mag q = of_int ?n * 2 powi ulp_exp q" using q by (simp add: f32_mag_def)
    also have "\<dots> = of_int (2 ^ 23) * 2 powi (ulp_exp q + 1)" unfolding True by (simp add: power_int_add)
    finally have "f32_mag q = of_int (2 ^ 23) * 2 powi (ulp_exp q + 1)" .
    moreover have "f32_value (of_int (2 ^ 23) * 2 powi (ulp_exp q + 1))" by (rule f32_valueI) (use e in simp_all)
    ultimately show ?thesis by simp
  next
    case False
    then show ?thesis unfolding f32_value_def using e n q
      by (intro exI [of _ ?n] exI [of _ "ulp_exp q"]) (simp add: f32_mag_def)
  qed
qed

lemma f32_value_nonneg: "f32_value q \<Longrightarrow> 0 \<le> q"
  by (auto simp: f32_value_def power_int_def)

text \<open>Rounding does not change a number that exists.\<close>

lemma f32_mag_value [simp]:
  assumes "f32_value q"
  shows "f32_mag q = q"
proof (cases "q = 0")
  case False
  then have q: "0 < q" using f32_value_nonneg [OF assms] by simp
  obtain m e where me: "0 \<le> m" "m < (2::int) ^ 24" "- 149 \<le> e" "q = of_int m * 2 powi e"
    using assms by (auto simp: f32_value_def)
  have "(of_int m :: rat) < of_int (2 ^ 24)" using me(2) by (simp only: of_int_less_iff)
  then have "q < of_int (2 ^ 24) * 2 powi e" unfolding me(4) by (rule mult_strict_right_mono) (rule powi_pos)
  then have "q < 2 powi (e + 24)" by (simp add: power_int_add)
  then have "ilog2 q < e + 24" by (rule ilog2_le [OF q])
  then have le: "ulp_exp q \<le> e" using me(3) by (simp add: ulp_exp_def)
  have "q / 2 powi ulp_exp q = of_int m * 2 powi (e - ulp_exp q)"
    by (simp add: me(4) power_int_diff)
  also have "\<dots> = of_int (m * 2 ^ nat (e - ulp_exp q))" using le by (simp add: power_int_def)
  finally have n: "q / 2 powi ulp_exp q = of_int (m * 2 ^ nat (e - ulp_exp q))" .
  have "f32_mag q = q / 2 powi ulp_exp q * 2 powi ulp_exp q"
    using False unfolding f32_mag_def n by (simp only: round_even_int if_False)
  then show ?thesis by simp
qed (simp add: f32_mag_def)

lemma f32_value_scale: "f32_value q \<Longrightarrow> 0 \<le> k \<Longrightarrow> f32_value (q * 2 powi k)"
  unfolding f32_value_def by (metis add_increasing2 mult.assoc power_int_add zero_neq_numeral)

lemma f32_value_int: "0 \<le> n \<Longrightarrow> n < 2 ^ 24 \<Longrightarrow> f32_value (of_int n)"
  unfolding f32_value_def by (intro exI [of _ n] exI [of _ 0]) simp

lemma f32_value_of_nat: "n < 2 ^ 24 \<Longrightarrow> f32_value (of_nat n)"
  using f32_value_int [of "int n"] by simp

text \<open>The integer part and the fraction of a number exist.\<close>

lemma f32_value_floor:
  assumes "f32_value q"
  shows "f32_value (of_int \<lfloor>q\<rfloor>)"
proof -
  obtain m e where me: "0 \<le> m" "m < (2::int) ^ 24" "- 149 \<le> e" "q = of_int m * 2 powi e"
    using assms by (auto simp: f32_value_def)
  show ?thesis
  proof (cases "0 \<le> e")
    case True
    then have "q = of_int (m * 2 ^ nat e)" by (simp add: me(4) power_int_def)
    then show ?thesis using assms by simp
  next
    case False
    then have "(2 :: rat) powi e \<le> 2 powi 0" by (intro power_int_increasing) auto
    then have "q \<le> of_int m" using me(1) unfolding me(4) by (simp add: mult_left_le)
    then have "\<lfloor>q\<rfloor> < 2 ^ 24" using me(2) by linarith
    then show ?thesis using f32_value_nonneg [OF assms] by (intro f32_value_int) simp_all
  qed
qed

lemma f32_value_frac:
  assumes "f32_value a"
  shows "f32_value (frac a)"
proof -
  obtain m e where me: "0 \<le> m" "m < (2::int) ^ 24" "- 149 \<le> e" "a = of_int m * 2 powi e"
    using assms by (auto simp: f32_value_def)
  show ?thesis
  proof (cases "0 \<le> e")
    case True
    then have "a = of_int (m * 2 ^ nat e)" by (simp add: me(4) power_int_def)
    then have "frac a = of_int 0" by (simp only: frac_of_int of_int_0)
    then show ?thesis using f32_value_int [of 0] by (simp only: zero_less_power order_refl simp_thms zero_less_numeral)
  next
    case False
    define j where "j = nat (- e)"
    have a: "a = of_int m / of_int (2 ^ j)"
      using False by (simp add: me(4) j_def power_int_def field_simps)
    then have "\<lfloor>a\<rfloor> = m div 2 ^ j" by (simp only: floor_divide_of_int_eq)
    then have "frac a = of_int (m mod 2 ^ j) / of_int (2 ^ j)"
      unfolding frac_def a by (simp add: field_simps flip: of_int_mult of_int_add of_int_power)
    also have "\<dots> = of_int (m mod 2 ^ j) * 2 powi e" using False by (simp add: j_def power_int_def field_simps)
    finally show ?thesis
      using f32_valueI [of "m mod 2 ^ j" e] me(1-3) by (simp add: le_less_trans [OF zmod_le_nonneg_dividend])
  qed
qed

lemma f32_value_frac_nonzero:
  assumes "f32_value a" "frac a \<noteq> 0"
  shows "a < 2 ^ 24"
proof -
  obtain m e where me: "0 \<le> m" "m < (2::int) ^ 24" "- 149 \<le> e" "a = of_int m * 2 powi e"
    using assms(1) by (auto simp: f32_value_def)
  have "e < 0"
  proof (rule ccontr)
    assume "\<not> e < 0"
    then have "a = of_int (m * 2 ^ nat e)" by (simp add: me(4) power_int_def)
    then show False using assms(2) by (simp only: frac_of_int)
  qed
  then have "(2 :: rat) powi e \<le> 2 powi 0" by (intro power_int_increasing) auto
  then have "a \<le> of_int m" using me(1) unfolding me(4) by (simp add: mult_left_le)
  also have "\<dots> < of_int (2 ^ 24)" using me(2) by (simp only: of_int_less_iff)
  finally show ?thesis by simp
qed

subsection \<open>Rounding is monotone\<close>

lemma round_even_mono: "p \<le> q \<Longrightarrow> round_even p \<le> round_even q"
proof -
  assume pq: "p \<le> q"
  then consider "\<lfloor>p\<rfloor> = \<lfloor>q\<rfloor>" | "\<lfloor>p\<rfloor> + 1 \<le> \<lfloor>q\<rfloor>" using floor_mono [OF pq] by linarith
  then show ?thesis
  proof cases
    case 2
    have "round_even p \<le> \<lfloor>p\<rfloor> + 1" "\<lfloor>q\<rfloor> \<le> round_even q" by (auto simp: round_even_def Let_def)
    then show ?thesis using 2 by linarith
  qed (use pq in \<open>auto simp: round_even_def Let_def\<close>)
qed

lemma ilog2_mono: "0 < p \<Longrightarrow> p \<le> q \<Longrightarrow> ilog2 p \<le> ilog2 q"
  using ilog2_le [of p "ilog2 q + 1"] ilog2_bounds(2) [of q] by fastforce

lemma f32_mag_le:
  assumes "0 < q"
  shows "f32_mag q \<le> 2 powi (ulp_exp q + 24)"
proof -
  have "q / 2 powi ulp_exp q \<le> of_int (2 ^ 24)" using ulp_quotient_less [OF assms] by simp
  then have "(of_int (round_even (q / 2 powi ulp_exp q)) :: rat) \<le> of_int (2 ^ 24)"
    using round_even_bound by (simp only: of_int_le_iff)
  then have "of_int (round_even (q / 2 powi ulp_exp q)) * 2 powi ulp_exp q \<le> (of_int (2 ^ 24) * 2 powi ulp_exp q :: rat)"
    by (rule mult_right_mono) (simp add: powi_pos less_imp_le)
  then show ?thesis using assms by (simp add: f32_mag_def power_int_add)
qed

lemma f32_mag_ge:
  assumes "0 < q" "- 149 < ulp_exp q"
  shows "2 powi (ulp_exp q + 23) \<le> f32_mag q"
proof -
  have ilog: "ilog2 q = ulp_exp q + 23" using assms(2) by (auto simp: ulp_exp_def)
  have "2 powi (ulp_exp q + 23) / 2 powi ulp_exp q \<le> q / 2 powi ulp_exp q"
    by (rule divide_right_mono) (use ilog2_bounds(1) [OF assms(1)] ilog in \<open>simp_all add: powi_pos less_imp_le\<close>)
  then have "of_int (2 ^ 23) \<le> q / 2 powi ulp_exp q" by (simp add: power_int_add)
  then have "2 ^ 23 \<le> round_even (q / 2 powi ulp_exp q)" by (rule round_even_mono [of "of_int (2 ^ 23)", unfolded round_even_int])
  then have "(of_int (2 ^ 23) :: rat) \<le> of_int (round_even (q / 2 powi ulp_exp q))" by (simp only: of_int_le_iff)
  then have "of_int (2 ^ 23) * 2 powi ulp_exp q \<le> (of_int (round_even (q / 2 powi ulp_exp q)) * 2 powi ulp_exp q :: rat)"
    by (rule mult_right_mono) (simp add: powi_pos less_imp_le)
  then show ?thesis using assms(1) by (simp add: f32_mag_def power_int_add)
qed

lemma f32_mag_mono:
  assumes "0 < p" "p \<le> q"
  shows "f32_mag p \<le> f32_mag q"
proof (cases "ulp_exp p = ulp_exp q")
  case True
  have "p / 2 powi ulp_exp q \<le> q / 2 powi ulp_exp q"
    by (rule divide_right_mono) (use assms(2) in \<open>simp_all add: powi_pos less_imp_le\<close>)
  then have "round_even (p / 2 powi ulp_exp q) \<le> round_even (q / 2 powi ulp_exp q)" by (rule round_even_mono)
  then show ?thesis using assms True by (simp add: f32_mag_def powi_pos less_imp_le mult_right_mono)
next
  case False
  then have less: "ulp_exp p < ulp_exp q" using ilog2_mono [OF assms] by (auto simp: ulp_exp_def)
  then have "- 149 < ulp_exp q" by (simp add: ulp_exp_def)
  have "f32_mag p \<le> 2 powi (ulp_exp p + 24)" by (rule f32_mag_le [OF assms(1)])
  also have "\<dots> \<le> 2 powi (ulp_exp q + 23)" using less by (intro power_int_increasing) auto
  also have "\<dots> \<le> f32_mag q" by (rule f32_mag_ge) (use assms \<open>- 149 < ulp_exp q\<close> in auto)
  finally show ?thesis .
qed

subsection \<open>Small integers are printed exactly\<close>

lemma dec_exp_up_bounds: "k \<le> dec_exp_up q k n \<and> dec_exp_up q k n \<le> k + int n"
  by (induction q k n rule: dec_exp_up.induct) auto

lemma dec_exp_up_ge:
  assumes "10 powi j \<le> q" "k \<le> j" "j \<le> k + int n"
  shows "j \<le> dec_exp_up q k n"
  using assms
proof (induction q k n rule: dec_exp_up.induct)
  case (2 q k n)
  show ?case
  proof (cases "k = j")
    case True
    then show ?thesis using dec_exp_up_bounds [of k q "Suc n"] by simp
  next
    case False
    then have "k + 1 \<le> j" using "2.prems" by simp
    then have "(10 :: rat) powi (k + 1) \<le> 10 powi j" by (intro power_int_increasing) auto
    then have "\<not> q < 10 powi (k + 1)" using "2.prems"(1) by linarith
    then show ?thesis using 2 \<open>k + 1 \<le> j\<close> by simp
  qed
qed auto

lemma dec_exp_up_le:
  assumes "q < 10 powi (j + 1)" "k \<le> j"
  shows "dec_exp_up q k n \<le> j"
  using assms
proof (induction q k n rule: dec_exp_up.induct)
  case (2 q k n)
  then show ?case by (cases "k = j") auto
qed simp

lemma dec_exp_up_eq: "10 powi j \<le> q \<Longrightarrow> q < 10 powi (j + 1) \<Longrightarrow> k \<le> j \<Longrightarrow> j \<le> k + int n \<Longrightarrow> dec_exp_up q k n = j"
  using dec_exp_up_le [of q j k n] dec_exp_up_ge [of j q k n] by simp

lemma shortest_skip: "dec_candidates q k = [] \<Longrightarrow> shortest_from q k (Suc n) = shortest_from q (k - 1) n"
  by simp

lemma shortest_hit: "dec_candidates q k = d # ds \<Longrightarrow> shortest_from q k (Suc n) = (d, k)"
  by simp

text \<open>A decimal without fraction digits that reads as a small integer is that integer.\<close>

lemma dec_candidates_int:
  assumes "n < 2 ^ 24" "0 \<le> k" "d \<in> set (dec_candidates (of_nat n) k)" "0 < n"
  shows "0 \<le> d \<and> nat d * 10 ^ nat k = n"
proof -
  have d: "f32_mag (of_int d * 10 powi k) = of_nat n" "\<lfloor>of_nat n / (10 :: rat) powi k\<rfloor> \<le> d"
    using assms(3) by (auto simp: dec_candidates_def Let_def split: if_splits)
  have "0 \<le> \<lfloor>of_nat n / (10 :: rat) powi k\<rfloor>" by (simp add: power_int_def)
  then have d0: "0 \<le> d" using d(2) by linarith
  have eq: "of_int d * 10 powi k = (of_nat (nat d * 10 ^ nat k) :: rat)"
    using assms(2) d0 by (simp add: power_int_def of_nat_nat)
  have "nat d * 10 ^ nat k < 2 ^ 24"
  proof (rule ccontr)
    assume "\<not> ?thesis"
    then have le: "(of_nat (2 ^ 24) :: rat) \<le> of_nat (nat d * 10 ^ nat k)" by (simp only: of_nat_le_iff not_less)
    have "f32_mag (of_nat (2 ^ 24)) \<le> of_nat n"
      unfolding d(1) [symmetric] eq by (rule f32_mag_mono [OF _ le]) simp
    moreover have "f32_value (of_int (2 ^ 23) * 2 powi 1)" by (rule f32_valueI) simp_all
    then have "f32_mag (of_nat (2 ^ 24)) = of_nat (2 ^ 24)" by simp
    ultimately have "2 ^ 24 \<le> n" by (simp only: of_nat_le_iff)
    then show False using assms(1) by simp
  qed
  then have "f32_mag (of_int d * 10 powi k) = of_nat (nat d * 10 ^ nat k)"
    unfolding eq by (intro f32_mag_value f32_value_of_nat)
  then show ?thesis using d(1) d0 by (simp only: of_nat_eq_iff simp_thms)
qed

lemma shortest_from_int:
  assumes "n < 2 ^ 24" "0 < n" "0 \<le> k" "k < int fuel"
  shows "\<exists>d k'. shortest_from (of_nat n) k fuel = (d, k') \<and> 0 \<le> k' \<and> 0 \<le> d \<and> nat d * 10 ^ nat k' = n"
  using assms(3,4)
proof (induction fuel arbitrary: k)
  case (Suc fuel)
  show ?case
  proof (cases "dec_candidates (of_nat n) k")
    case Nil
    have "k \<noteq> 0"
    proof
      assume "k = 0"
      then have "int n \<in> set (dec_candidates (of_nat n) k)"
        using f32_mag_value [OF f32_value_of_nat [OF assms(1)]] by (simp add: dec_candidates_def Let_def)
      then show False using Nil by simp
    qed
    then show ?thesis using Suc.IH [of "k - 1"] Suc.prems Nil by simp
  next
    case (Cons d ds)
    then have "d \<in> set (dec_candidates (of_nat n) k)" by simp
    from dec_candidates_int [OF assms(1) Suc.prems(1) this assms(2)] Cons Suc.prems(1)
    show ?thesis by simp
  qed
qed simp

lemma f32_mag_fmt_nat:
  assumes "n < 2 ^ 24"
  shows "f32_mag_fmt (of_nat n) = show_nat n"
proof (cases "n = 0")
  case True
  then show ?thesis by (simp add: f32_mag_fmt_def show_nat.simps)
next
  case False
  let ?k = "dec_exp_up (of_nat n) (- 46) 86"
  have "0 \<le> ?k" by (rule dec_exp_up_ge) (use False in auto)
  moreover have "?k \<le> 40" using dec_exp_up_bounds [of "- 46" "of_nat n" 86] by simp
  ultimately obtain d k where "shortest_from (of_nat n) ?k 60 = (d, k)" "0 \<le> k" "nat d * 10 ^ nat k = n"
    using shortest_from_int [OF assms, of ?k 60] False by auto
  then show ?thesis using False by (simp add: f32_mag_fmt_def show_dec_def)
qed

lemma f32_pack_nat: "n < 2 ^ 24 \<Longrightarrow> f32_pack s (of_nat n) = F32_Fin s (of_nat n)"
  using f32_mag_value [OF f32_value_of_nat, of n] of_nat_less_iff [of n "2 ^ 24", where 'a = rat] by (simp add: f32_pack_def)

lemma f32_of_nat_small: "n < 2 ^ 24 \<Longrightarrow> f32_of_nat n = F32_Fin False (of_nat n)"
  by (simp add: f32_of_nat_def f32_pack_nat)

lemma f32_fmt_nat: "n < 2 ^ 24 \<Longrightarrow> f32_fmt (F32_Fin False (of_nat n)) = show_nat n"
  by (simp add: f32_fmt_def f32_mag_fmt_nat)

lemma parse_f32_show_nat: "n < 2 ^ 24 \<Longrightarrow> parse_f32 (show_nat n) = Inr (F32_Fin False (of_nat n))"
  using list_all_show_nat [of n] by (simp add: parse_f32_def list_all_iff f32_pack_nat takeWhile_eq_all_conv [THEN iffD2]
      dropWhile_eq_Nil_conv [THEN iffD2])

end
