(* ===== verification/Builder_Probe.thy ===== *)
theory Builder_Probe
  imports Duration F32
begin

section \<open>Builder of probes\<close>

text \<open>
  \<open>stackable-operator/src/builder/pod/probe.rs\<close>. The two type parameters of the builder, which the
  compiler uses to force an action and a period, are those of the record. The thresholds are \<open>i32\<close>,
  the seconds of a built probe too, except for the \<open>i64\<close> of the grace period.
\<close>

subsection \<open>Actions\<close>

text \<open>The API types: commands and sockets as far as the builder fills them.\<close>

record http_get_action =
  hga_path :: "string option"
  hga_scheme :: "string option"
  hga_port :: int
  hga_host :: "string option"

datatype probe_action =
    Exec "string list option"
  | Grpc int "string option"
  | HttpGet http_get_action
  | TcpSocket int "string option"

record probe =
  pr_exec :: "string list option option"
  pr_failure_threshold :: "int option"
  pr_grpc :: "(int \<times> string option) option"
  pr_http_get :: "http_get_action option"
  pr_initial_delay_seconds :: "int option"
  pr_period_seconds :: "int option"
  pr_success_threshold :: "int option"
  pr_tcp_socket :: "(int \<times> string option) option"
  pr_termination_grace_period_seconds :: "int option"
  pr_timeout_seconds :: "int option"

datatype probe_error = DurationTooLong string duration | PeriodIsZero

record ('a, 'p) probe_builder =
  prb_action :: 'a
  prb_period :: 'p
  prb_success_threshold :: int
  prb_failure_threshold :: int
  prb_timeout :: duration
  prb_initial_delay :: duration
  prb_termination_grace_period :: "duration option"

definition probe_with_action :: "probe_action \<Rightarrow> (probe_action, unit) probe_builder" where
  "probe_with_action action =
     \<lparr>prb_action = action, prb_period = (), prb_success_threshold = 1, prb_failure_threshold = 1,
      prb_timeout = from_secs 1, prb_initial_delay = from_secs 0, prb_termination_grace_period = None\<rparr>"

definition probe_exec :: "string list option \<Rightarrow> (probe_action, unit) probe_builder" where
  "probe_exec exec_action = probe_with_action (Exec exec_action)"

definition probe_grpc :: "int \<Rightarrow> string option \<Rightarrow> (probe_action, unit) probe_builder" where
  "probe_grpc port service = probe_with_action (Grpc port service)"

definition probe_http_get :: "http_get_action \<Rightarrow> (probe_action, unit) probe_builder" where
  "probe_http_get http_get_action = probe_with_action (HttpGet http_get_action)"

definition probe_tcp_socket :: "int \<Rightarrow> string option \<Rightarrow> (probe_action, unit) probe_builder" where
  "probe_tcp_socket port host = probe_with_action (TcpSocket port host)"

definition probe_exec_command :: "string list \<Rightarrow> (probe_action, unit) probe_builder" where
  "probe_exec_command command = probe_exec (Some command)"

definition http_get_port_scheme_path ::
    "16 word \<Rightarrow> string option \<Rightarrow> string option \<Rightarrow> (probe_action, unit) probe_builder" where
  "http_get_port_scheme_path port scheme path =
     probe_http_get \<lparr>hga_path = path, hga_scheme = scheme, hga_port = uint port, hga_host = None\<rparr>"

subsection \<open>Settings\<close>

definition with_period :: "duration \<Rightarrow> (probe_action, unit) probe_builder \<Rightarrow> (probe_action, duration) probe_builder" where
  "with_period period self =
     \<lparr>prb_action = prb_action self, prb_period = period, prb_success_threshold = prb_success_threshold self,
      prb_failure_threshold = prb_failure_threshold self, prb_timeout = prb_timeout self,
      prb_initial_delay = prb_initial_delay self, prb_termination_grace_period = prb_termination_grace_period self\<rparr>"

type_synonym timed_probe = "(probe_action, duration) probe_builder"

definition with_success_threshold :: "int \<Rightarrow> timed_probe \<Rightarrow> timed_probe" where
  "with_success_threshold success_threshold self = self\<lparr>prb_success_threshold := success_threshold\<rparr>"

definition with_failure_threshold :: "int \<Rightarrow> timed_probe \<Rightarrow> timed_probe" where
  "with_failure_threshold failure_threshold self = self\<lparr>prb_failure_threshold := failure_threshold\<rparr>"

definition with_timeout :: "duration \<Rightarrow> timed_probe \<Rightarrow> timed_probe" where
  "with_timeout timeout self = self\<lparr>prb_timeout := timeout\<rparr>"

definition with_initial_delay :: "duration \<Rightarrow> timed_probe \<Rightarrow> timed_probe" where
  "with_initial_delay initial_delay self = self\<lparr>prb_initial_delay := initial_delay\<rparr>"

definition with_termination_grace_period :: "duration \<Rightarrow> timed_probe \<Rightarrow> timed_probe" where
  "with_termination_grace_period termination_grace_period self =
     self\<lparr>prb_termination_grace_period := Some termination_grace_period\<rparr>"

text \<open>
  \<open>std::time::Duration::div_duration_f32\<close>: both durations in nanoseconds, as \<open>secs as f32 * 1e9 + nanos
  as f32\<close>, and their quotient.
\<close>

definition f32_nanos :: "duration \<Rightarrow> f32" where
  "f32_nanos d =
     f32_add (f32_mul (f32_of_nat (as_secs d)) (F32_Fin False (10 ^ 9))) (f32_of_nat (nanos d mod 10 ^ 9))"

definition div_duration_f32 :: "duration \<Rightarrow> duration \<Rightarrow> f32" where
  "div_duration_f32 a b = f32_div (f32_nanos a) (f32_nanos b)"

text \<open>\<open>ceil().clamp(0.0, i32::MAX as f32) as i32\<close>; the upper bound is \<open>2^31\<close> as an \<open>f32\<close>, and the cast saturates.\<close>

definition clamp_to_i32 :: "f32 \<Rightarrow> int" where
  "clamp_to_i32 x =
     (let c = f32_ceil x;
          lo = (if f32_lt c (F32_Fin False 0) then F32_Fin False 0 else c);
          hi = (if f32_lt (F32_Fin False (2 ^ 31)) lo then F32_Fin False (2 ^ 31) else lo)
      in case hi of F32_Fin s a \<Rightarrow> min (2 ^ 31 - 1) (max (- (2 ^ 31)) \<lfloor>signed s a\<rfloor>) | _ \<Rightarrow> 0)"

definition with_success_threshold_duration :: "duration \<Rightarrow> timed_probe \<Rightarrow> (timed_probe, probe_error) result" where
  "with_success_threshold_duration success_threshold_duration self =
     and_then (ensure (nanos (prb_period self) \<noteq> 0) PeriodIsZero) (\<lambda>_.
     Inr (with_success_threshold (clamp_to_i32 (div_duration_f32 success_threshold_duration (prb_period self))) self))"

definition with_failure_threshold_duration :: "duration \<Rightarrow> timed_probe \<Rightarrow> (timed_probe, probe_error) result" where
  "with_failure_threshold_duration failure_threshold_duration self =
     and_then (ensure (nanos (prb_period self) \<noteq> 0) PeriodIsZero) (\<lambda>_.
     Inr (with_failure_threshold (clamp_to_i32 (div_duration_f32 failure_threshold_duration (prb_period self))) self))"

subsection \<open>Building\<close>

definition secs_fit :: "nat \<Rightarrow> string \<Rightarrow> duration \<Rightarrow> (int, probe_error) result" where
  "secs_fit bits field d = (if as_secs d < 2 ^ (bits - 1) then Inr (int (as_secs d)) else Inl (DurationTooLong field d))"

definition probe_build :: "timed_probe \<Rightarrow> (probe, probe_error) result" where
  "probe_build self =
     and_then (secs_fit 32 ''initialDelay'' (prb_initial_delay self)) (\<lambda>initial_delay.
     and_then (secs_fit 32 ''period'' (prb_period self)) (\<lambda>period.
     and_then (traverse_option (secs_fit 64 ''terminationGracePeriod'') (prb_termination_grace_period self)) (\<lambda>grace.
     and_then (secs_fit 32 ''timeout'' (prb_timeout self)) (\<lambda>timeout.
     let probe = \<lparr>pr_exec = None, pr_failure_threshold = Some (prb_failure_threshold self), pr_grpc = None, pr_http_get = None,
                  pr_initial_delay_seconds = Some initial_delay, pr_period_seconds = Some period,
                  pr_success_threshold = Some (prb_success_threshold self), pr_tcp_socket = None,
                  pr_termination_grace_period_seconds = grace, pr_timeout_seconds = Some timeout\<rparr> in
     Inr (case prb_action self of
            Exec exec_action \<Rightarrow> probe\<lparr>pr_exec := Some exec_action\<rparr>
          | Grpc port service \<Rightarrow> probe\<lparr>pr_grpc := Some (port, service)\<rparr>
          | HttpGet http_get_action \<Rightarrow> probe\<lparr>pr_http_get := Some http_get_action\<rparr>
          | TcpSocket port host \<Rightarrow> probe\<lparr>pr_tcp_socket := Some (port, host)\<rparr>)))))"

subsection \<open>What a built probe says\<close>

definition probe_actions :: "probe \<Rightarrow> probe_action list" where
  "probe_actions p =
     (case pr_exec p of Some a \<Rightarrow> [Exec a] | None \<Rightarrow> []) @
     (case pr_grpc p of Some (port, service) \<Rightarrow> [Grpc port service] | None \<Rightarrow> []) @
     (case pr_http_get p of Some a \<Rightarrow> [HttpGet a] | None \<Rightarrow> []) @
     (case pr_tcp_socket p of Some (port, host) \<Rightarrow> [TcpSocket port host] | None \<Rightarrow> [])"

text \<open>
  A probe is built exactly when the seconds of its delay, period and timeout fit an \<open>i32\<close> and those of
  its grace period an \<open>i64\<close>. It then has the one action it was made with, and the whole seconds of
  each duration, the rest of a second dropped.
\<close>

theorem probe_build_exact:
  "(is_ok (probe_build b) \<longleftrightarrow>
      as_secs (prb_initial_delay b) < 2 ^ 31 \<and> as_secs (prb_period b) < 2 ^ 31 \<and> as_secs (prb_timeout b) < 2 ^ 31 \<and>
      pred_option (\<lambda>g. as_secs g < 2 ^ 63) (prb_termination_grace_period b)) \<and>
   (case probe_build b of
      Inr p \<Rightarrow> probe_actions p = [prb_action b] \<and>
        pr_initial_delay_seconds p = Some (int (as_secs (prb_initial_delay b))) \<and>
        pr_period_seconds p = Some (int (as_secs (prb_period b))) \<and>
        pr_timeout_seconds p = Some (int (as_secs (prb_timeout b))) \<and>
        pr_termination_grace_period_seconds p = map_option (int \<circ> as_secs) (prb_termination_grace_period b) \<and>
        pr_success_threshold p = Some (prb_success_threshold b) \<and> pr_failure_threshold p = Some (prb_failure_threshold b)
    | Inl e \<Rightarrow> \<exists>field d. e = DurationTooLong field d \<and> 2 ^ 31 \<le> as_secs d)"
proof -
  have grace: "traverse_option (secs_fit 64 f) g =
      (case g of Some d \<Rightarrow> if as_secs d < 2 ^ 63 then Inr (Some (int (as_secs d))) else Inl (DurationTooLong f d) | None \<Rightarrow> Inr None)" for f g
    by (cases g) (simp_all add: secs_fit_def)
  show ?thesis
    unfolding probe_build_def grace
    by (cases "prb_action b"; cases "prb_termination_grace_period b")
      (simp_all add: secs_fit_def probe_actions_def Let_def)
qed

text \<open>
  The threshold computed from a duration can be one too many: with a period of one second, a duration
  of eleven seconds gives twelve failures, because \<open>11e9\<close> is rounded up to an \<open>f32\<close> before the
  division and the quotient is rounded up to the next whole number.
\<close>

theorem failure_threshold_off_by_one:
  "with_failure_threshold_duration (from_secs 11) (with_period (from_secs 1) b) =
     Inr (with_failure_threshold 12 (with_period (from_secs 1) b))"
proof -
  have secs: "as_secs (from_secs n) = n" "nanos (from_secs n) mod 10 ^ 9 = 0" "nanos (from_secs n) = n * 10 ^ 9" for n
    by (simp_all add: as_secs_def from_secs_def)
  have zero: "f32_of_nat 0 = F32_Fin False 0" by (simp add: f32_of_nat_small)
  have "f32_add (f32_mul (F32_Fin False 11) (F32_Fin False 1000000000)) (F32_Fin False 0) = F32_Fin False 11000000512" by code_simp
  then have "f32_nanos (from_secs 11) = F32_Fin False 11000000512"
    using f32_of_nat_small [of 11] by (simp add: f32_nanos_def secs zero)
  moreover have "f32_add (f32_mul (F32_Fin False 1) (F32_Fin False 1000000000)) (F32_Fin False 0) = F32_Fin False 1000000000" by code_simp
  then have "f32_nanos (from_secs 1) = F32_Fin False 1000000000"
    using f32_of_nat_small [of 1] by (simp add: f32_nanos_def secs zero)
  moreover have "clamp_to_i32 (f32_div (F32_Fin False 11000000512) (F32_Fin False 1000000000)) = 12" by code_simp
  ultimately show ?thesis by (simp add: with_failure_threshold_duration_def div_duration_f32_def with_period_def secs)
qed

end
