(* ===== verification/Builder_Container.thy ===== *)
theory Builder_Container
  imports Builder_Volume Builder_Probe
begin

section \<open>Builders of containers\<close>

text \<open>
  \<open>stackable-operator/src/builder/pod/container.rs\<close>, \<open>security.rs\<close> and \<open>env.rs\<close>. An \<open>IndexMap\<close> is the
  list of its entries in order of insertion. Probes and lifecycle handlers are stored as they are.
\<close>

type_synonym ('k, 'v) indexmap = "('k \<times> 'v) list"

definition index_get :: "('k, 'v) indexmap \<Rightarrow> 'k \<Rightarrow> 'v option" where
  "index_get m k = map_of m k"

text \<open>\<open>IndexMap::insert\<close>: an existing entry is replaced where it is, a new one is appended.\<close>

fun index_insert :: "'k \<Rightarrow> 'v \<Rightarrow> ('k, 'v) indexmap \<Rightarrow> ('k, 'v) indexmap" where
  "index_insert k v [] = [(k, v)]"
| "index_insert k v ((k', v') # m) = (if k = k' then (k, v) # m else (k', v') # index_insert k v m)"

subsection \<open>Security contexts\<close>

record se_linux_options =
  sl_level :: "string option"
  sl_role :: "string option"
  sl_type :: "string option"
  sl_user :: "string option"

record seccomp_profile =
  sp_localhost_profile :: "string option"
  sp_type :: string

record windows_options =
  wo_gmsa_credential_spec :: "string option"
  wo_gmsa_credential_spec_name :: "string option"
  wo_run_as_user_name :: "string option"

definition se_linux_default :: se_linux_options where
  "se_linux_default = \<lparr>sl_level = None, sl_role = None, sl_type = None, sl_user = None\<rparr>"

definition seccomp_default :: seccomp_profile where
  "seccomp_default = \<lparr>sp_localhost_profile = None, sp_type = []\<rparr>"

definition windows_default :: windows_options where
  "windows_default = \<lparr>wo_gmsa_credential_spec = None, wo_gmsa_credential_spec_name = None, wo_run_as_user_name = None\<rparr>"

record security_context =
  sc_allow_privilege_escalation :: "bool option"
  sc_capabilities :: "opaque option"
  sc_privileged :: "bool option"
  sc_proc_mount :: "string option"
  sc_read_only_root_filesystem :: "bool option"
  sc_run_as_group :: "int option"
  sc_run_as_non_root :: "bool option"
  sc_run_as_user :: "int option"
  sc_se_linux_options :: "se_linux_options option"
  sc_seccomp_profile :: "seccomp_profile option"
  sc_windows_options :: "windows_options option"

definition security_context_default :: security_context where
  "security_context_default =
     \<lparr>sc_allow_privilege_escalation = None, sc_capabilities = None, sc_privileged = None, sc_proc_mount = None,
      sc_read_only_root_filesystem = None, sc_run_as_group = None, sc_run_as_non_root = None, sc_run_as_user = None,
      sc_se_linux_options = None, sc_seccomp_profile = None, sc_windows_options = None\<rparr>"

text \<open>\<open>SecurityContextBuilder\<close> is a wrapper around the context it builds.\<close>

definition sc_with_stackable_defaults :: security_context where
  "sc_with_stackable_defaults = security_context_default"

definition set_sc_allow_privilege_escalation :: "bool \<Rightarrow> security_context \<Rightarrow> security_context" where
  "set_sc_allow_privilege_escalation value self = self\<lparr>sc_allow_privilege_escalation := Some value\<rparr>"

definition set_sc_capabilities :: "opaque \<Rightarrow> security_context \<Rightarrow> security_context" where
  "set_sc_capabilities value self = self\<lparr>sc_capabilities := Some value\<rparr>"

definition set_sc_privileged :: "bool \<Rightarrow> security_context \<Rightarrow> security_context" where
  "set_sc_privileged value self = self\<lparr>sc_privileged := Some value\<rparr>"

definition set_sc_proc_mount :: "string \<Rightarrow> security_context \<Rightarrow> security_context" where
  "set_sc_proc_mount value self = self\<lparr>sc_proc_mount := Some value\<rparr>"

definition set_sc_read_only_root_filesystem :: "bool \<Rightarrow> security_context \<Rightarrow> security_context" where
  "set_sc_read_only_root_filesystem value self = self\<lparr>sc_read_only_root_filesystem := Some value\<rparr>"

definition set_sc_run_as_group :: "int \<Rightarrow> security_context \<Rightarrow> security_context" where
  "set_sc_run_as_group value self = self\<lparr>sc_run_as_group := Some value\<rparr>"

definition set_sc_run_as_non_root :: "bool \<Rightarrow> security_context \<Rightarrow> security_context" where
  "set_sc_run_as_non_root value self = self\<lparr>sc_run_as_non_root := Some value\<rparr>"

definition set_sc_run_as_user :: "int \<Rightarrow> security_context \<Rightarrow> security_context" where
  "set_sc_run_as_user value self = self\<lparr>sc_run_as_user := Some value\<rparr>"

definition set_sc_se_linux_level :: "string \<Rightarrow> security_context \<Rightarrow> security_context" where
  "set_sc_se_linux_level value self = self\<lparr>sc_se_linux_options := get_or_insert_with se_linux_default (\<lambda>o'. o'\<lparr>sl_level := Some value\<rparr>) (sc_se_linux_options self)\<rparr>"

definition set_sc_se_linux_role :: "string \<Rightarrow> security_context \<Rightarrow> security_context" where
  "set_sc_se_linux_role value self = self\<lparr>sc_se_linux_options := get_or_insert_with se_linux_default (\<lambda>o'. o'\<lparr>sl_role := Some value\<rparr>) (sc_se_linux_options self)\<rparr>"

definition set_sc_se_linux_type :: "string \<Rightarrow> security_context \<Rightarrow> security_context" where
  "set_sc_se_linux_type value self = self\<lparr>sc_se_linux_options := get_or_insert_with se_linux_default (\<lambda>o'. o'\<lparr>sl_type := Some value\<rparr>) (sc_se_linux_options self)\<rparr>"

definition set_sc_se_linux_user :: "string \<Rightarrow> security_context \<Rightarrow> security_context" where
  "set_sc_se_linux_user value self = self\<lparr>sc_se_linux_options := get_or_insert_with se_linux_default (\<lambda>o'. o'\<lparr>sl_user := Some value\<rparr>) (sc_se_linux_options self)\<rparr>"

definition set_sc_seccomp_profile_localhost :: "string \<Rightarrow> security_context \<Rightarrow> security_context" where
  "set_sc_seccomp_profile_localhost value self = self\<lparr>sc_seccomp_profile := get_or_insert_with seccomp_default (\<lambda>o'. o'\<lparr>sp_localhost_profile := Some value\<rparr>) (sc_seccomp_profile self)\<rparr>"

definition set_sc_seccomp_profile_type :: "string \<Rightarrow> security_context \<Rightarrow> security_context" where
  "set_sc_seccomp_profile_type value self = self\<lparr>sc_seccomp_profile := get_or_insert_with seccomp_default (\<lambda>o'. o'\<lparr>sp_type := value\<rparr>) (sc_seccomp_profile self)\<rparr>"

definition set_sc_win_credential_spec :: "string \<Rightarrow> security_context \<Rightarrow> security_context" where
  "set_sc_win_credential_spec value self = self\<lparr>sc_windows_options := get_or_insert_with windows_default (\<lambda>o'. o'\<lparr>wo_gmsa_credential_spec := Some value\<rparr>) (sc_windows_options self)\<rparr>"

definition set_sc_win_credential_spec_name :: "string \<Rightarrow> security_context \<Rightarrow> security_context" where
  "set_sc_win_credential_spec_name value self = self\<lparr>sc_windows_options := get_or_insert_with windows_default (\<lambda>o'. o'\<lparr>wo_gmsa_credential_spec_name := Some value\<rparr>) (sc_windows_options self)\<rparr>"

definition set_sc_win_run_as_user_name :: "string \<Rightarrow> security_context \<Rightarrow> security_context" where
  "set_sc_win_run_as_user_name value self = self\<lparr>sc_windows_options := get_or_insert_with windows_default (\<lambda>o'. o'\<lparr>wo_run_as_user_name := Some value\<rparr>) (sc_windows_options self)\<rparr>"

record pod_security_context =
  psc_fs_group :: "int option"
  psc_fs_group_change_policy :: "string option"
  psc_run_as_group :: "int option"
  psc_run_as_non_root :: "bool option"
  psc_run_as_user :: "int option"
  psc_supplemental_groups :: "int list option"
  psc_se_linux_options :: "se_linux_options option"
  psc_seccomp_profile :: "seccomp_profile option"
  psc_sysctls :: "(string \<times> string) list option"
  psc_windows_options :: "windows_options option"

definition pod_security_context_default :: pod_security_context where
  "pod_security_context_default =
     \<lparr>psc_fs_group = None, psc_fs_group_change_policy = None, psc_run_as_group = None, psc_run_as_non_root = None,
      psc_run_as_user = None, psc_supplemental_groups = None, psc_se_linux_options = None, psc_seccomp_profile = None,
      psc_sysctls = None, psc_windows_options = None\<rparr>"

definition set_psc_fs_group :: "int \<Rightarrow> pod_security_context \<Rightarrow> pod_security_context" where
  "set_psc_fs_group value self = self\<lparr>psc_fs_group := Some value\<rparr>"

definition set_psc_fs_group_change_policy :: "string \<Rightarrow> pod_security_context \<Rightarrow> pod_security_context" where
  "set_psc_fs_group_change_policy value self = self\<lparr>psc_fs_group_change_policy := Some value\<rparr>"

definition set_psc_run_as_group :: "int \<Rightarrow> pod_security_context \<Rightarrow> pod_security_context" where
  "set_psc_run_as_group value self = self\<lparr>psc_run_as_group := Some value\<rparr>"

definition set_psc_run_as_non_root :: "bool \<Rightarrow> pod_security_context \<Rightarrow> pod_security_context" where
  "set_psc_run_as_non_root value self = self\<lparr>psc_run_as_non_root := Some value\<rparr>"

definition set_psc_run_as_user :: "int \<Rightarrow> pod_security_context \<Rightarrow> pod_security_context" where
  "set_psc_run_as_user value self = self\<lparr>psc_run_as_user := Some value\<rparr>"

definition set_psc_supplemental_groups :: "int list \<Rightarrow> pod_security_context \<Rightarrow> pod_security_context" where
  "set_psc_supplemental_groups value self = self\<lparr>psc_supplemental_groups := Some value\<rparr>"

definition set_psc_sysctls :: "(string \<times> string) list \<Rightarrow> pod_security_context \<Rightarrow> pod_security_context" where
  "set_psc_sysctls value self = self\<lparr>psc_sysctls := Some value\<rparr>"

definition set_psc_se_linux_level :: "string \<Rightarrow> pod_security_context \<Rightarrow> pod_security_context" where
  "set_psc_se_linux_level value self = self\<lparr>psc_se_linux_options := get_or_insert_with se_linux_default (\<lambda>o'. o'\<lparr>sl_level := Some value\<rparr>) (psc_se_linux_options self)\<rparr>"

definition set_psc_se_linux_role :: "string \<Rightarrow> pod_security_context \<Rightarrow> pod_security_context" where
  "set_psc_se_linux_role value self = self\<lparr>psc_se_linux_options := get_or_insert_with se_linux_default (\<lambda>o'. o'\<lparr>sl_role := Some value\<rparr>) (psc_se_linux_options self)\<rparr>"

definition set_psc_se_linux_type :: "string \<Rightarrow> pod_security_context \<Rightarrow> pod_security_context" where
  "set_psc_se_linux_type value self = self\<lparr>psc_se_linux_options := get_or_insert_with se_linux_default (\<lambda>o'. o'\<lparr>sl_type := Some value\<rparr>) (psc_se_linux_options self)\<rparr>"

definition set_psc_se_linux_user :: "string \<Rightarrow> pod_security_context \<Rightarrow> pod_security_context" where
  "set_psc_se_linux_user value self = self\<lparr>psc_se_linux_options := get_or_insert_with se_linux_default (\<lambda>o'. o'\<lparr>sl_user := Some value\<rparr>) (psc_se_linux_options self)\<rparr>"

definition set_psc_seccomp_profile_localhost :: "string \<Rightarrow> pod_security_context \<Rightarrow> pod_security_context" where
  "set_psc_seccomp_profile_localhost value self = self\<lparr>psc_seccomp_profile := get_or_insert_with seccomp_default (\<lambda>o'. o'\<lparr>sp_localhost_profile := Some value\<rparr>) (psc_seccomp_profile self)\<rparr>"

definition set_psc_seccomp_profile_type :: "string \<Rightarrow> pod_security_context \<Rightarrow> pod_security_context" where
  "set_psc_seccomp_profile_type value self = self\<lparr>psc_seccomp_profile := get_or_insert_with seccomp_default (\<lambda>o'. o'\<lparr>sp_type := value\<rparr>) (psc_seccomp_profile self)\<rparr>"

definition set_psc_win_credential_spec :: "string \<Rightarrow> pod_security_context \<Rightarrow> pod_security_context" where
  "set_psc_win_credential_spec value self = self\<lparr>psc_windows_options := get_or_insert_with windows_default (\<lambda>o'. o'\<lparr>wo_gmsa_credential_spec := Some value\<rparr>) (psc_windows_options self)\<rparr>"

definition set_psc_win_credential_spec_name :: "string \<Rightarrow> pod_security_context \<Rightarrow> pod_security_context" where
  "set_psc_win_credential_spec_name value self = self\<lparr>psc_windows_options := get_or_insert_with windows_default (\<lambda>o'. o'\<lparr>wo_gmsa_credential_spec_name := Some value\<rparr>) (psc_windows_options self)\<rparr>"

definition set_psc_win_run_as_user_name :: "string \<Rightarrow> pod_security_context \<Rightarrow> pod_security_context" where
  "set_psc_win_run_as_user_name value self = self\<lparr>psc_windows_options := get_or_insert_with windows_default (\<lambda>o'. o'\<lparr>wo_run_as_user_name := Some value\<rparr>) (psc_windows_options self)\<rparr>"

definition psc_with_stackable_defaults :: pod_security_context where
  "psc_with_stackable_defaults = set_psc_run_as_non_root True pod_security_context_default"

definition psc_build :: "pod_security_context \<Rightarrow> pod_security_context" where
  "psc_build self = self"

subsection \<open>Environment variables and ports\<close>

record key_selector =
  ks_name :: string
  ks_key :: string
  ks_optional :: "bool option"

record env_var_source =
  evs_field_ref :: "string option"
  evs_secret_key_ref :: "key_selector option"
  evs_config_map_key_ref :: "key_selector option"

record env_var =
  ev_name :: string
  ev_value :: "string option"
  ev_value_from :: "env_var_source option"

definition env_var_source_default :: env_var_source where
  "env_var_source_default = \<lparr>evs_field_ref = None, evs_secret_key_ref = None, evs_config_map_key_ref = None\<rparr>"

definition env_var_with_value_from_secret :: "string \<Rightarrow> string \<Rightarrow> string \<Rightarrow> env_var" where
  "env_var_with_value_from_secret env_var_name secret_name secret_key =
     \<lparr>ev_name = env_var_name, ev_value = None,
      ev_value_from = Some (env_var_source_default
        \<lparr>evs_secret_key_ref := Some \<lparr>ks_name = secret_name, ks_key = secret_key, ks_optional = None\<rparr>\<rparr>)\<rparr>"

datatype field_path_env_var =
    FieldName | FieldNamespace | FieldUID | FieldLabels string | FieldAnnotations string

fun field_path_env_var_fmt :: "field_path_env_var \<Rightarrow> string" where
  "field_path_env_var_fmt FieldName = ''metadata.name''"
| "field_path_env_var_fmt FieldNamespace = ''metadata.namespace''"
| "field_path_env_var_fmt FieldUID = ''metadata.uid''"
| "field_path_env_var_fmt (FieldLabels name) = ''metadata.labels['' @ [CHR 0x27] @ name @ [CHR 0x27] @ '']''"
| "field_path_env_var_fmt (FieldAnnotations name) = ''metadata.annotations['' @ [CHR 0x27] @ name @ [CHR 0x27] @ '']''"

record container_port =
  cp_container_port :: int
  cp_name :: "string option"
  cp_host_ip :: "string option"
  cp_protocol :: "string option"
  cp_host_port :: "int option"

text \<open>
  \<open>ContainerPortBuilder\<close> has the fields of the port; \<open>build\<close> lower-cases the name. \<open>str::to_lowercase\<close> is
  modelled for ASCII names.
\<close>

definition port_new :: "int \<Rightarrow> container_port" where
  "port_new container_port =
     \<lparr>cp_container_port = container_port, cp_name = None, cp_host_ip = None, cp_protocol = None, cp_host_port = None\<rparr>"

definition port_name :: "string \<Rightarrow> container_port \<Rightarrow> container_port" where
  "port_name name self = self\<lparr>cp_name := Some name\<rparr>"

definition port_host_ip :: "string \<Rightarrow> container_port \<Rightarrow> container_port" where
  "port_host_ip host_ip self = self\<lparr>cp_host_ip := Some host_ip\<rparr>"

definition port_protocol :: "string \<Rightarrow> container_port \<Rightarrow> container_port" where
  "port_protocol protocol self = self\<lparr>cp_protocol := Some protocol\<rparr>"

definition port_host_port :: "int \<Rightarrow> container_port \<Rightarrow> container_port" where
  "port_host_port host_port self = self\<lparr>cp_host_port := Some host_port\<rparr>"

definition port_build :: "container_port \<Rightarrow> container_port" where
  "port_build self = self\<lparr>cp_name := map_option to_ascii_lowercase (cp_name self)\<rparr>"

subsection \<open>Containers\<close>

record resource_requirements =
  rr_limits :: "(string, string) btreemap option"
  rr_requests :: "(string, string) btreemap option"

record lifecycle =
  lc_post_start :: "opaque option"
  lc_pre_stop :: "opaque option"

record container =
  c_args :: "string list option"
  c_command :: "string list option"
  c_env :: "env_var list option"
  c_image :: "string option"
  c_image_pull_policy :: "string option"
  c_resources :: "resource_requirements option"
  c_name :: string
  c_ports :: "container_port list option"
  c_volume_mounts :: "volume_mount list option"
  c_readiness_probe :: "probe option"
  c_liveness_probe :: "probe option"
  c_startup_probe :: "probe option"
  c_lifecycle :: "lifecycle option"
  c_security_context :: "security_context option"

datatype container_error =
    InvalidContainerName "validation_error list" string
  | MountPathCollision string string string

record container_builder =
  cb_args :: "string list option"
  cb_container_ports :: "container_port list option"
  cb_command :: "string list option"
  cb_env :: "env_var list option"
  cb_image :: "string option"
  cb_image_pull_policy :: "string option"
  cb_name :: string
  cb_resources :: "resource_requirements option"
  cb_volume_mounts :: "(string, volume_mount) indexmap"
  cb_readiness_probe :: "probe option"
  cb_liveness_probe :: "probe option"
  cb_startup_probe :: "probe option"
  cb_lifecycle :: "lifecycle option"
  cb_security_context :: "security_context option"

definition container_builder_default :: container_builder where
  "container_builder_default =
     \<lparr>cb_args = None, cb_container_ports = None, cb_command = None, cb_env = None, cb_image = None,
      cb_image_pull_policy = None, cb_name = [], cb_resources = None, cb_volume_mounts = [],
      cb_readiness_probe = None, cb_liveness_probe = None, cb_startup_probe = None, cb_lifecycle = None,
      cb_security_context = None\<rparr>"

definition validate_container_name :: "string \<Rightarrow> (unit, container_error) result" where
  "validate_container_name container_name =
     map_err (\<lambda>source. InvalidContainerName source container_name) (is_lowercase_rfc_1123_label container_name)"

definition container_new :: "string \<Rightarrow> (container_builder, container_error) result" where
  "container_new name =
     and_then (validate_container_name name) (\<lambda>_. Inr (container_builder_default\<lparr>cb_name := name\<rparr>))"

definition container_image :: "string \<Rightarrow> container_builder \<Rightarrow> container_builder" where
  "container_image img self = self\<lparr>cb_image := Some img\<rparr>"

definition container_image_pull_policy :: "string \<Rightarrow> container_builder \<Rightarrow> container_builder" where
  "container_image_pull_policy policy self = self\<lparr>cb_image_pull_policy := Some policy\<rparr>"

text \<open>\<open>ResolvedProductImage\<close>, of \<open>commons/product_image_selection.rs\<close>.\<close>

record resolved_product_image =
  rpi_product_version :: string
  rpi_app_version_label_value :: label_value
  rpi_image :: string
  rpi_image_pull_policy :: string
  rpi_pull_secrets :: "string list option"

definition image_from_product_image :: "resolved_product_image \<Rightarrow> container_builder \<Rightarrow> container_builder" where
  "image_from_product_image product_image self =
     self\<lparr>cb_image := Some (rpi_image product_image), cb_image_pull_policy := Some (rpi_image_pull_policy product_image)\<rparr>"

definition push_env :: "env_var list \<Rightarrow> container_builder \<Rightarrow> container_builder" where
  "push_env vars self = self\<lparr>cb_env := get_or_insert_with [] (\<lambda>env. env @ vars) (cb_env self)\<rparr>"

definition add_env_var :: "string \<Rightarrow> string \<Rightarrow> container_builder \<Rightarrow> container_builder" where
  "add_env_var name value self = push_env [\<lparr>ev_name = name, ev_value = Some value, ev_value_from = None\<rparr>] self"

definition add_env_var_from_source :: "string \<Rightarrow> env_var_source \<Rightarrow> container_builder \<Rightarrow> container_builder" where
  "add_env_var_from_source name value self = push_env [\<lparr>ev_name = name, ev_value = None, ev_value_from = Some value\<rparr>] self"

definition add_env_var_from_field_path :: "string \<Rightarrow> field_path_env_var \<Rightarrow> container_builder \<Rightarrow> container_builder" where
  "add_env_var_from_field_path name field_path self =
     add_env_var_from_source name (env_var_source_default\<lparr>evs_field_ref := Some (field_path_env_var_fmt field_path)\<rparr>) self"

definition add_env_var_from_secret :: "string \<Rightarrow> string \<Rightarrow> string \<Rightarrow> container_builder \<Rightarrow> container_builder" where
  "add_env_var_from_secret name secret_name secret_key self =
     add_env_var_from_source name (env_var_source_default
       \<lparr>evs_secret_key_ref := Some \<lparr>ks_name = secret_name, ks_key = secret_key, ks_optional = None\<rparr>\<rparr>) self"

definition add_env_var_from_config_map :: "string \<Rightarrow> string \<Rightarrow> string \<Rightarrow> container_builder \<Rightarrow> container_builder" where
  "add_env_var_from_config_map name config_map_name config_map_key self =
     add_env_var_from_source name (env_var_source_default
       \<lparr>evs_config_map_key_ref := Some \<lparr>ks_name = config_map_name, ks_key = config_map_key, ks_optional = None\<rparr>\<rparr>) self"

definition add_env_vars :: "env_var list \<Rightarrow> container_builder \<Rightarrow> container_builder" where
  "add_env_vars env_vars self = push_env env_vars self"

definition container_command :: "string list \<Rightarrow> container_builder \<Rightarrow> container_builder" where
  "container_command command self = self\<lparr>cb_command := Some command\<rparr>"

definition container_args :: "string list \<Rightarrow> container_builder \<Rightarrow> container_builder" where
  "container_args args self = self\<lparr>cb_args := Some args\<rparr>"

definition add_container_ports :: "container_port list \<Rightarrow> container_builder \<Rightarrow> container_builder" where
  "add_container_ports container_port self =
     self\<lparr>cb_container_ports := get_or_insert_with [] (\<lambda>ports. ports @ container_port) (cb_container_ports self)\<rparr>"

definition add_container_port :: "string \<Rightarrow> int \<Rightarrow> container_builder \<Rightarrow> container_builder" where
  "add_container_port name port self =
     self\<lparr>cb_container_ports := get_or_insert_with []
       (\<lambda>ports. ports @ [(port_new port)\<lparr>cp_name := Some name\<rparr>]) (cb_container_ports self)\<rparr>"

definition add_volume_mount_impl :: "volume_mount \<Rightarrow> container_builder \<Rightarrow> (container_builder, container_error) result" where
  "add_volume_mount_impl volume_mount self =
     (case index_get (cb_volume_mounts self) (vm_mount_path volume_mount) of
        Some existing_volume_mount \<Rightarrow>
          if existing_volume_mount \<noteq> volume_mount
          then Inl (MountPathCollision (vm_mount_path volume_mount) (vm_name existing_volume_mount) (vm_name volume_mount))
          else Inr self
      | None \<Rightarrow> Inr (self\<lparr>cb_volume_mounts := index_insert (vm_mount_path volume_mount) volume_mount (cb_volume_mounts self)\<rparr>))"

definition add_volume_mount :: "string \<Rightarrow> string \<Rightarrow> container_builder \<Rightarrow> (container_builder, container_error) result" where
  "add_volume_mount name path self =
     add_volume_mount_impl \<lparr>vm_mount_path = path, vm_mount_propagation = None, vm_name = name, vm_read_only = None,
       vm_sub_path = None, vm_sub_path_expr = None, vm_recursive_read_only = None\<rparr> self"

fun add_volume_mounts :: "volume_mount list \<Rightarrow> container_builder \<Rightarrow> (container_builder, container_error) result" where
  "add_volume_mounts [] self = Inr self"
| "add_volume_mounts (volume_mount # volume_mounts) self =
     and_then (add_volume_mount_impl volume_mount self) (add_volume_mounts volume_mounts)"

definition container_readiness_probe :: "probe \<Rightarrow> container_builder \<Rightarrow> container_builder" where
  "container_readiness_probe probe self = self\<lparr>cb_readiness_probe := Some probe\<rparr>"

definition container_liveness_probe :: "probe \<Rightarrow> container_builder \<Rightarrow> container_builder" where
  "container_liveness_probe probe self = self\<lparr>cb_liveness_probe := Some probe\<rparr>"

definition container_startup_probe :: "probe \<Rightarrow> container_builder \<Rightarrow> container_builder" where
  "container_startup_probe probe self = self\<lparr>cb_startup_probe := Some probe\<rparr>"

definition container_lifecycle :: "lifecycle \<Rightarrow> container_builder \<Rightarrow> container_builder" where
  "container_lifecycle lifecycle self = self\<lparr>cb_lifecycle := Some lifecycle\<rparr>"

definition lifecycle_post_start :: "opaque \<Rightarrow> container_builder \<Rightarrow> container_builder" where
  "lifecycle_post_start handler self = self\<lparr>cb_lifecycle := get_or_insert_with \<lparr>lc_post_start = None, lc_pre_stop = None\<rparr> (\<lambda>l. l\<lparr>lc_post_start := Some handler\<rparr>) (cb_lifecycle self)\<rparr>"

definition lifecycle_pre_stop :: "opaque \<Rightarrow> container_builder \<Rightarrow> container_builder" where
  "lifecycle_pre_stop handler self = self\<lparr>cb_lifecycle := get_or_insert_with \<lparr>lc_post_start = None, lc_pre_stop = None\<rparr> (\<lambda>l. l\<lparr>lc_pre_stop := Some handler\<rparr>) (cb_lifecycle self)\<rparr>"

definition container_security_context :: "security_context \<Rightarrow> container_builder \<Rightarrow> container_builder" where
  "container_security_context context self = self\<lparr>cb_security_context := Some context\<rparr>"

definition container_resources :: "resource_requirements \<Rightarrow> container_builder \<Rightarrow> container_builder" where
  "container_resources resources self = self\<lparr>cb_resources := Some resources\<rparr>"

definition container_build :: "container_builder \<Rightarrow> container" where
  "container_build self =
     \<lparr>c_args = cb_args self, c_command = cb_command self, c_env = cb_env self, c_image = cb_image self,
      c_image_pull_policy = cb_image_pull_policy self, c_resources = cb_resources self, c_name = cb_name self,
      c_ports = cb_container_ports self,
      c_volume_mounts = (if cb_volume_mounts self = [] then None else Some (map snd (cb_volume_mounts self))),
      c_readiness_probe = cb_readiness_probe self, c_liveness_probe = cb_liveness_probe self,
      c_startup_probe = cb_startup_probe self, c_lifecycle = cb_lifecycle self,
      c_security_context = cb_security_context self\<rparr>"

subsection \<open>Insertion without collisions\<close>

text \<open>
  What adding mounts to a container and volumes to a pod have in common: a value goes to the end
  unless its key is taken, which is harmless for the same value and an error for another one.
\<close>

fun firsts :: "'a list \<Rightarrow> 'a list \<Rightarrow> 'a list" where
  "firsts seen [] = seen"
| "firsts seen (x # xs) = firsts (if x \<in> set seen then seen else seen @ [x]) xs"

lemma set_firsts: "set (firsts seen xs) = set seen \<union> set xs"
  by (induction seen xs rule: firsts.induct) auto

lemma distinct_firsts: "distinct seen \<Longrightarrow> distinct (firsts seen xs)"
  by (induction seen xs rule: firsts.induct) auto

lemma firsts_present: "set xs \<subseteq> set seen \<Longrightarrow> firsts seen xs = seen"
  by (induction xs) auto

lemma index_insert_new: "map_of m k = None \<Longrightarrow> index_insert k v m = m @ [(k, v)]"
  by (induction k v m rule: index_insert.induct) (auto split: if_splits)

locale collision_checked =
  fixes entries :: "'b \<Rightarrow> ('k \<times> 'v) list"
    and key_of :: "'v \<Rightarrow> 'k"
    and add :: "'v \<Rightarrow> 'b \<Rightarrow> ('b, 'e) result"
  assumes add_absent: "map_of (entries b) (key_of v) = None \<Longrightarrow>
      \<exists>b'. add v b = Inr b' \<and> entries b' = entries b @ [(key_of v, v)]"
    and add_present: "map_of (entries b) (key_of v) = Some v \<Longrightarrow> add v b = Inr b"
    and add_clash: "map_of (entries b) (key_of v) = Some w \<Longrightarrow> w \<noteq> v \<Longrightarrow> \<exists>e. add v b = Inl e"
begin

fun add_list :: "'v list \<Rightarrow> 'b \<Rightarrow> ('b, 'e) result" where
  "add_list [] b = Inr b"
| "add_list (v # vs) b = and_then (add v b) (add_list vs)"

definition holds :: "'b \<Rightarrow> 'v list \<Rightarrow> bool" where
  "holds b vs \<longleftrightarrow> entries b = map (\<lambda>v. (key_of v, v)) vs \<and> inj_on key_of (set vs)"

lemma holds_lookup: "holds b vs \<Longrightarrow> map_of (entries b) k = Some v \<longleftrightarrow> v \<in> set vs \<and> key_of v = k"
proof -
  assume h: "holds b vs"
  have "map_of (map (\<lambda>v. (key_of v, v)) us) k = Some v \<longleftrightarrow> v \<in> set us \<and> key_of v = k"
    if "inj_on key_of (set us)" for us
    using that
  proof (induction us)
    case (Cons u us)
    then show ?case by (auto simp: inj_on_def)
  qed simp
  then show ?thesis using h by (simp add: holds_def)
qed

lemma add_holds:
  assumes "holds b vs"
  shows "(if inj_on key_of (insert v (set vs))
          then \<exists>b'. add v b = Inr b' \<and> holds b' (if v \<in> set vs then vs else vs @ [v])
          else \<exists>e. add v b = Inl e)"
proof (cases "map_of (entries b) (key_of v)")
  case None
  then have new: "key_of v \<notin> key_of ` set vs"
    using assms by (auto simp: holds_def map_of_eq_None_iff image_image)
  then have "inj_on key_of (insert v (set vs))" using assms by (auto simp: holds_def inj_on_insert)
  then show ?thesis using add_absent [OF None] new assms by (auto simp: holds_def)
next
  case (Some w)
  then have w: "w \<in> set vs" "key_of w = key_of v" using holds_lookup [OF assms] by simp_all
  show ?thesis
  proof (cases "w = v")
    case True
    then show ?thesis using add_present Some w assms by (simp add: holds_def insert_absorb)
  next
    case False
    then have "\<not> inj_on key_of (insert v (set vs))" using w by (auto simp: inj_on_def)
    then show ?thesis using add_clash [OF Some False] by (simp only: if_False)
  qed
qed

lemma add_list_holds:
  assumes "holds b vs"
  shows "(if inj_on key_of (set vs \<union> set us) then \<exists>b'. add_list us b = Inr b' \<and> holds b' (firsts vs us)
          else \<exists>e. add_list us b = Inl e)"
  using assms
proof (induction us arbitrary: b vs)
  case (Cons u us)
  let ?vs = "if u \<in> set vs then vs else vs @ [u]"
  have set: "set ?vs \<union> set us = set vs \<union> set (u # us)" by auto
  show ?case
  proof (cases "inj_on key_of (insert u (set vs))")
    case True
    then obtain b' where "add u b = Inr b'" "holds b' ?vs" using add_holds [OF Cons.prems, of u] unfolding if_P [OF True] by blast
    then show ?thesis using Cons.IH [of b' ?vs] unfolding set by simp
  next
    case False
    moreover have "insert u (set vs) \<subseteq> set vs \<union> set (u # us)" by auto
    ultimately have "\<not> inj_on key_of (set vs \<union> set (u # us))" using inj_on_subset by blast
    moreover obtain e where "add u b = Inl e" using add_holds [OF Cons.prems, of u] unfolding if_not_P [OF False] by blast
    ultimately show ?thesis by simp
  qed
qed (simp add: holds_def)

text \<open>Whatever a builder holds, an added value is found under its key, and nothing is lost.\<close>

lemma add_get:
  assumes "add v b = Inr b'"
  shows "map_of (entries b') (key_of v) = Some v" "map_of (entries b) k = Some w \<Longrightarrow> map_of (entries b') k = Some w"
proof -
  have "map_of (entries b') (key_of v) = Some v \<and> (map_of (entries b) k = Some w \<longrightarrow> map_of (entries b') k = Some w)"
  proof (cases "map_of (entries b) (key_of v)")
    case None
    then show ?thesis using add_absent [OF None] assms by (auto simp: map_add_Some_iff)
  next
    case (Some u)
    then have "u = v" using add_clash [OF Some] assms by (cases "u = v") auto
    then show ?thesis using add_present Some assms by simp
  qed
  then show "map_of (entries b') (key_of v) = Some v" "map_of (entries b) k = Some w \<Longrightarrow> map_of (entries b') k = Some w"
    by simp_all
qed

lemma add_list_keep:
  assumes "add_list vs b = Inr b'" "map_of (entries b) k = Some w"
  shows "map_of (entries b') k = Some w"
  using assms
proof (induction vs arbitrary: b)
  case (Cons u us)
  then obtain c where c: "add u b = Inr c" "add_list us c = Inr b'" by auto
  show ?case by (rule Cons.IH [OF c(2) add_get(2) [OF c(1) Cons.prems(2)]])
qed simp

lemma add_list_get:
  assumes "add_list vs b = Inr b'" "v \<in> set vs"
  shows "map_of (entries b') (key_of v) = Some v"
  using assms
proof (induction vs arbitrary: b)
  case (Cons u us)
  then obtain c where c: "add u b = Inr c" "add_list us c = Inr b'" by auto
  show ?case
  proof (cases "v \<in> set us")
    case False
    then have "v = u" using Cons.prems by simp
    then show ?thesis using add_list_keep [OF c(2) add_get(1) [OF c(1)]] by simp
  qed (rule Cons.IH [OF c(2)])
qed simp

lemma add_list_iff:
  assumes "entries b = []"
  shows "add_list us b = Inr b' \<Longrightarrow> entries b' = map (\<lambda>v. (key_of v, v)) (firsts [] us)"
    and "is_ok (add_list us b) \<longleftrightarrow> inj_on key_of (set us)"
proof -
  have "holds b []" using assms by (simp add: holds_def)
  from add_list_holds [OF this, of us]
  show "add_list us b = Inr b' \<Longrightarrow> entries b' = map (\<lambda>v. (key_of v, v)) (firsts [] us)"
    and "is_ok (add_list us b) \<longleftrightarrow> inj_on key_of (set us)"
    by (auto simp: holds_def is_ok_iff split: if_splits)
qed

end

interpretation mounts: collision_checked cb_volume_mounts vm_mount_path add_volume_mount_impl
  by unfold_locales (auto simp: add_volume_mount_impl_def index_get_def index_insert_new)

lemma add_volume_mounts_list: "add_volume_mounts ms = mounts.add_list ms"
proof (induction ms)
  case (Cons m ms)
  show ?case by (rule ext) (simp add: Cons)
qed (simp add: fun_eq_iff)

text \<open>
  Mounting volumes in a container succeeds exactly when no two different mounts share a path. The
  built container then has every mount once, in the order of their first mention, and a name that
  is a lowercase RFC 1123 label; without mounts the field is absent.
\<close>

theorem volume_mounts_consistent:
  assumes "container_new name = Inr b"
  shows "(is_ok (add_volume_mounts ms b) \<longleftrightarrow> inj_on vm_mount_path (set ms)) \<and>
    (\<forall>b'. add_volume_mounts ms b = Inr b' \<longrightarrow>
       c_volume_mounts (container_build b') = (if ms = [] then None else Some (firsts [] ms))) \<and>
    length name \<le> 63 \<and> label_over lower_alnum_char name"
proof -
  have b: "cb_volume_mounts b = []"
    using assms by (auto simp: container_new_def container_builder_default_def)
  have "firsts [] ms \<noteq> []" if "ms \<noteq> []" using set_firsts [of "[]" ms] that by auto
  then have "c_volume_mounts (container_build b') = (if ms = [] then None else Some (firsts [] ms))"
    if "add_volume_mounts ms b = Inr b'" for b'
    using mounts.add_list_iff(1) [OF b that [unfolded add_volume_mounts_list]]
    by (auto simp: container_build_def comp_def)
  moreover have "is_lowercase_rfc_1123_label name = Inr ()"
    using assms by (auto simp: container_new_def validate_container_name_def)
  then have "length name \<le> 63 \<and> label_over lower_alnum_char name" by (simp add: rfc_1123_label_iff)
  ultimately show ?thesis using mounts.add_list_iff(2) [OF b] by (simp add: add_volume_mounts_list)
qed

theorem volume_mounts_consistent_witness:
  "\<exists>b m n. container_new ''main'' = Inr b \<and> vm_mount_path m = vm_mount_path n \<and> \<not> is_ok (add_volume_mounts [m, n] b)"
proof -
  let ?m = "volume_mount_build (volume_mount_new ''a'' ''/x'')" and ?n = "volume_mount_build (volume_mount_new ''b'' ''/x'')"
  obtain b where b: "container_new ''main'' = Inr b"
    using rfc_1123_label_iff [of "''main''"]
    by (simp add: container_new_def validate_container_name_def label_over_def lower_alnum_char_def key_eval)
  have "\<not> inj_on vm_mount_path (set [?m, ?n])" by (simp add: inj_on_def volume_mount_build_def volume_mount_new_def)
  then have "\<not> is_ok (add_volume_mounts [?m, ?n] b)" using volume_mounts_consistent [OF b] by blast
  moreover have "vm_mount_path ?m = vm_mount_path ?n" by (simp add: volume_mount_build_def volume_mount_new_def)
  ultimately show ?thesis using b by blast
qed

end
