(* ===== verification/Affinity.thy ===== *)
theory Affinity
  imports Config_Merge Builder_Volume
begin

section \<open>Pod placement\<close>

text \<open>
  \<open>stackable-operator/src/commons/affinity.rs\<close>. The four settings are atomic for merging: a level
  either sets one or leaves it to the level below. Terms that the code does not inspect are strings.
\<close>

record weighted_pod_affinity_term =
  wpat_label_selector :: "label_selector option"
  wpat_topology_key :: string
  wpat_weight :: int

record pod_affinity =
  pa_preferred :: "weighted_pod_affinity_term list option"
  pa_required :: "opaque option"

record stackable_node_selector =
  sns_node_selector :: "(string, string) btreemap"

record stackable_affinity =
  sa_pod_affinity :: "pod_affinity option"
  sa_pod_anti_affinity :: "pod_affinity option"
  sa_node_affinity :: "opaque option"
  sa_node_selector :: "stackable_node_selector option"

definition TOPOLOGY_KEY_HOSTNAME :: string where
  "TOPOLOGY_KEY_HOSTNAME = ''kubernetes.io/hostname''"

text \<open>The fragment has the same fields; the derived \<open>Merge\<close> merges them one by one.\<close>

definition stackable_affinity_merge :: "stackable_affinity \<Rightarrow> stackable_affinity \<Rightarrow> stackable_affinity" where
  "stackable_affinity_merge self defaults =
     \<lparr>sa_pod_affinity = option_merge (sa_pod_affinity self) (sa_pod_affinity defaults),
      sa_pod_anti_affinity = option_merge (sa_pod_anti_affinity self) (sa_pod_anti_affinity defaults),
      sa_node_affinity = option_merge (sa_node_affinity self) (sa_node_affinity defaults),
      sa_node_selector = option_merge (sa_node_selector self) (sa_node_selector defaults)\<rparr>"

definition affinity_between_role_pods :: "string \<Rightarrow> string \<Rightarrow> string \<Rightarrow> int \<Rightarrow> weighted_pod_affinity_term" where
  "affinity_between_role_pods app_name cluster_name role weight =
     \<lparr>wpat_label_selector = Some \<lparr>match_labels = Some (btree_collect
         [(K8S_APP_NAME_KEY, app_name), (K8S_APP_INSTANCE_KEY, cluster_name), (K8S_APP_COMPONENT_KEY, role)]),
       match_expressions = None\<rparr>,
      wpat_topology_key = TOPOLOGY_KEY_HOSTNAME, wpat_weight = weight\<rparr>"

definition affinity_between_cluster_pods :: "string \<Rightarrow> string \<Rightarrow> int \<Rightarrow> weighted_pod_affinity_term" where
  "affinity_between_cluster_pods app_name cluster_name weight =
     \<lparr>wpat_label_selector = Some \<lparr>match_labels = Some (btree_collect
         [(K8S_APP_NAME_KEY, app_name), (K8S_APP_INSTANCE_KEY, cluster_name)]),
       match_expressions = None\<rparr>,
      wpat_topology_key = TOPOLOGY_KEY_HOSTNAME, wpat_weight = weight\<rparr>"

interpretation affinity: merge_laws "\<lambda>_. True" stackable_affinity_merge
  by unfold_locales (simp_all add: stackable_affinity_merge_def option.merge_assoc option.merge_idem)

text \<open>
  The affinity terms reach exactly the pods they are about. For pods with the recommended labels, the
  term for a role selects a pod if and only if it is of that application, cluster and role, in any
  role group, and the term for a cluster if and only if it is of that application and cluster.
\<close>

theorem affinity_terms_select:
  assumes "labels_recommended ob = Some (Inr L)"
  shows "(\<exists>S. wpat_label_selector (affinity_between_role_pods app cluster role w) =
        Some \<lparr>match_labels = Some S, match_expressions = None\<rparr> \<and>
      (selected_by (labels_into_map L) S \<longleftrightarrow>
        ol_app_name ob = app \<and> ol_owner_name ob = cluster \<and> ol_role ob = role)) \<and>
    (\<exists>S. wpat_label_selector (affinity_between_cluster_pods app cluster w) =
        Some \<lparr>match_labels = Some S, match_expressions = None\<rparr> \<and>
      (selected_by (labels_into_map L) S \<longleftrightarrow> ol_app_name ob = app \<and> ol_owner_name ob = cluster))"
proof -
  have "btree_collect [(K8S_APP_NAME_KEY, app), (K8S_APP_INSTANCE_KEY, cluster), (K8S_APP_COMPONENT_KEY, role)] =
      [(''app.kubernetes.io/component'', role), (''app.kubernetes.io/instance'', cluster), (''app.kubernetes.io/name'', app)]"
    "btree_collect [(K8S_APP_NAME_KEY, app), (K8S_APP_INSTANCE_KEY, cluster)] =
      [(''app.kubernetes.io/instance'', cluster), (''app.kubernetes.io/name'', app)]"
    by (simp_all add: btree_collect_def btree_extend_def K8S_APP_NAME_KEY_def K8S_APP_INSTANCE_KEY_def
        K8S_APP_COMPONENT_KEY_def K8S_APP_KEY_PREFIX_def less_char_def)
  then show ?thesis
    unfolding affinity_between_role_pods_def affinity_between_cluster_pods_def recommended_map [OF assms]
    by (auto simp: selected_by_def btree_get_def)
qed

theorem affinity_terms_select_witness:
  "\<exists>S L. wpat_label_selector (affinity_between_role_pods ''hdfs'' ''h'' ''datanode'' 70) =
     Some \<lparr>match_labels = Some S, match_expressions = None\<rparr> \<and> selected_by (labels_into_map L) S"
proof -
  let ?ob = "\<lparr>ol_owner_name = ''h'', ol_app_name = ''hdfs'', ol_app_version = ''1'', ol_operator_name = ''op'',
    ol_controller_name = ''c'', ol_role = ''datanode'', ol_role_group = ''default''\<rparr>"
  have "labels_recommended ?ob = Some (Inr (recommended_set ?ob))"
    unfolding recommended_Inr by (simp add: label_value_ok_def key_eval)
  from affinity_terms_select [OF this, of "''hdfs''" "''h''" "''datanode''" 70] show ?thesis by auto
qed

end
