(* ===== verification/Builder_Pod.thy ===== *)
theory Builder_Pod
  imports Builder_Container Affinity
begin

section \<open>Builder of pods\<close>

text \<open>
  \<open>stackable-operator/src/builder/pod/mod.rs\<close>. The resource checks at the end of \<open>build_spec\<close> only write
  to the log.
\<close>

record pod_condition =
  pc_status :: string
  pc_type :: string

record pod_status =
  ps_phase :: "string option"
  ps_conditions :: "pod_condition list option"

record pod_spec =
  sp_containers :: "container list"
  sp_host_network :: "bool option"
  sp_init_containers :: "container list option"
  sp_node_name :: "string option"
  sp_node_selector :: "(string, string) btreemap option"
  sp_node_affinity :: "opaque option"
  sp_pod_affinity :: "pod_affinity option"
  sp_pod_anti_affinity :: "pod_affinity option"
  sp_security_context :: "pod_security_context option"
  sp_tolerations :: "opaque list option"
  sp_volumes :: "volume list option"
  sp_enable_service_links :: "bool option"
  sp_service_account_name :: "string option"
  sp_image_pull_secrets :: "string list option"
  sp_restart_policy :: "string option"
  sp_termination_grace_period_seconds :: "int option"

record pod =
  pod_metadata :: object_meta
  pod_the_spec :: "pod_spec option"
  pod_the_status :: "pod_status option"

record pod_template_spec =
  pts_metadata :: "object_meta option"
  pts_spec :: "pod_spec option"

datatype pod_error =
    TerminationGracePeriodTooLong duration
  | ListenerVolumeError listener_volume_error string
  | PodMissingObjectKey string
  | VolumeNameCollision string

record pod_builder =
  pb_containers :: "container list"
  pb_host_network :: "bool option"
  pb_init_containers :: "container list option"
  pb_metadata :: "object_meta option"
  pb_node_name :: "string option"
  pb_node_selector :: "(string, string) btreemap option"
  pb_node_affinity :: "opaque option"
  pb_pod_affinity :: "pod_affinity option"
  pb_pod_anti_affinity :: "pod_affinity option"
  pb_status :: "pod_status option"
  pb_security_context :: "pod_security_context option"
  pb_tolerations :: "opaque list option"
  pb_volumes :: "(string, volume) indexmap"
  pb_service_account_name :: "string option"
  pb_image_pull_secrets :: "string list option"
  pb_restart_policy :: "string option"
  pb_termination_grace_period_seconds :: "int option"

definition pod_new :: pod_builder where
  "pod_new =
     \<lparr>pb_containers = [], pb_host_network = None, pb_init_containers = None, pb_metadata = None, pb_node_name = None,
      pb_node_selector = None, pb_node_affinity = None, pb_pod_affinity = None, pb_pod_anti_affinity = None,
      pb_status = None, pb_security_context = None, pb_tolerations = None, pb_volumes = [],
      pb_service_account_name = None, pb_image_pull_secrets = None, pb_restart_policy = None,
      pb_termination_grace_period_seconds = None\<rparr>"

definition pod_service_account_name :: "string \<Rightarrow> pod_builder \<Rightarrow> pod_builder" where
  "pod_service_account_name value self = self\<lparr>pb_service_account_name := Some value\<rparr>"

definition pod_host_network :: "bool \<Rightarrow> pod_builder \<Rightarrow> pod_builder" where
  "pod_host_network host_network self = self\<lparr>pb_host_network := Some host_network\<rparr>"

definition set_pod_metadata :: "object_meta \<Rightarrow> pod_builder \<Rightarrow> pod_builder" where
  "set_pod_metadata metadata self = self\<lparr>pb_metadata := Some metadata\<rparr>"

definition pod_metadata_opt :: "object_meta option \<Rightarrow> pod_builder \<Rightarrow> pod_builder" where
  "pod_metadata_opt metadata self = self\<lparr>pb_metadata := metadata\<rparr>"

definition pod_metadata_default :: "pod_builder \<Rightarrow> pod_builder" where
  "pod_metadata_default self = set_pod_metadata object_meta_default self"

definition pod_metadata_builder :: "(object_meta_builder \<Rightarrow> object_meta_builder) \<Rightarrow> pod_builder \<Rightarrow> pod_builder" where
  "pod_metadata_builder f self = self\<lparr>pb_metadata := Some (meta_build (f meta_new))\<rparr>"

definition pod_node_name :: "string \<Rightarrow> pod_builder \<Rightarrow> pod_builder" where
  "pod_node_name node_name self = self\<lparr>pb_node_name := Some node_name\<rparr>"

definition set_node_affinity :: "opaque \<Rightarrow> pod_builder \<Rightarrow> pod_builder" where
  "set_node_affinity value self = self\<lparr>pb_node_affinity := Some value\<rparr>"

definition node_affinity_opt :: "opaque option \<Rightarrow> pod_builder \<Rightarrow> pod_builder" where
  "node_affinity_opt value self = self\<lparr>pb_node_affinity := value\<rparr>"

definition set_pod_affinity :: "pod_affinity \<Rightarrow> pod_builder \<Rightarrow> pod_builder" where
  "set_pod_affinity value self = self\<lparr>pb_pod_affinity := Some value\<rparr>"

definition pod_affinity_opt :: "pod_affinity option \<Rightarrow> pod_builder \<Rightarrow> pod_builder" where
  "pod_affinity_opt value self = self\<lparr>pb_pod_affinity := value\<rparr>"

definition set_pod_anti_affinity :: "pod_affinity \<Rightarrow> pod_builder \<Rightarrow> pod_builder" where
  "set_pod_anti_affinity value self = self\<lparr>pb_pod_anti_affinity := Some value\<rparr>"

definition pod_anti_affinity_opt :: "pod_affinity option \<Rightarrow> pod_builder \<Rightarrow> pod_builder" where
  "pod_anti_affinity_opt value self = self\<lparr>pb_pod_anti_affinity := value\<rparr>"

definition set_node_selector :: "(string, string) btreemap \<Rightarrow> pod_builder \<Rightarrow> pod_builder" where
  "set_node_selector value self = self\<lparr>pb_node_selector := Some value\<rparr>"

definition node_selector_opt :: "(string, string) btreemap option \<Rightarrow> pod_builder \<Rightarrow> pod_builder" where
  "node_selector_opt value self = self\<lparr>pb_node_selector := value\<rparr>"

definition pod_set_affinity :: "stackable_affinity \<Rightarrow> pod_builder \<Rightarrow> pod_builder" where
  "pod_set_affinity affinities self =
     self\<lparr>pb_pod_affinity := sa_pod_affinity affinities,
          pb_pod_anti_affinity := sa_pod_anti_affinity affinities,
          pb_node_affinity := sa_node_affinity affinities,
          pb_node_selector := map_option sns_node_selector (sa_node_selector affinities)\<rparr>"

definition pod_status_default :: pod_status where
  "pod_status_default = \<lparr>ps_phase = None, ps_conditions = None\<rparr>"

definition pod_phase :: "string \<Rightarrow> pod_builder \<Rightarrow> pod_builder" where
  "pod_phase phase self =
     self\<lparr>pb_status := get_or_insert_with pod_status_default (\<lambda>st. st\<lparr>ps_phase := Some phase\<rparr>) (pb_status self)\<rparr>"

definition with_condition :: "string \<Rightarrow> string \<Rightarrow> pod_builder \<Rightarrow> pod_builder" where
  "with_condition condition_type condition_status self =
     self\<lparr>pb_status := get_or_insert_with pod_status_default
       (\<lambda>st. st\<lparr>ps_conditions := get_or_insert_with []
          (\<lambda>cs. cs @ [\<lparr>pc_status = condition_status, pc_type = condition_type\<rparr>]) (ps_conditions st)\<rparr>) (pb_status self)\<rparr>"

definition add_container :: "container \<Rightarrow> pod_builder \<Rightarrow> pod_builder" where
  "add_container container self = self\<lparr>pb_containers := pb_containers self @ [container]\<rparr>"

definition add_init_container :: "container \<Rightarrow> pod_builder \<Rightarrow> pod_builder" where
  "add_init_container container self =
     (let limits = Some [(''cpu'', ''10m''), (''memory'', ''128Mi'')];
          container = (if c_resources container = None
                       then container\<lparr>c_resources := Some \<lparr>rr_limits = limits, rr_requests = limits\<rparr>\<rparr>
                       else container)
      in self\<lparr>pb_init_containers := get_or_insert_with [] (\<lambda>cs. cs @ [container]) (pb_init_containers self)\<rparr>)"

definition add_tolerations :: "opaque list \<Rightarrow> pod_builder \<Rightarrow> pod_builder" where
  "add_tolerations tolerations self =
     self\<lparr>pb_tolerations := get_or_insert_with [] (\<lambda>ts. ts @ tolerations) (pb_tolerations self)\<rparr>"

definition set_pod_security_context :: "pod_security_context \<Rightarrow> pod_builder \<Rightarrow> pod_builder" where
  "set_pod_security_context context self = self\<lparr>pb_security_context := Some context\<rparr>"

definition add_volume :: "volume \<Rightarrow> pod_builder \<Rightarrow> (pod_builder, pod_error) result" where
  "add_volume volume self =
     (case index_get (pb_volumes self) (v_name volume) of
        Some existing_volume \<Rightarrow>
          if existing_volume \<noteq> volume then Inl (VolumeNameCollision (v_name volume)) else Inr self
      | None \<Rightarrow> Inr (self\<lparr>pb_volumes := index_insert (v_name volume) volume (pb_volumes self)\<rparr>))"

fun add_volumes :: "volume list \<Rightarrow> pod_builder \<Rightarrow> (pod_builder, pod_error) result" where
  "add_volumes [] self = Inr self"
| "add_volumes (volume # volumes) self = and_then (add_volume volume self) (add_volumes volumes)"

definition add_empty_dir_volume :: "string \<Rightarrow> string option \<Rightarrow> pod_builder \<Rightarrow> (pod_builder, pod_error) result" where
  "add_empty_dir_volume name quantity self =
     add_volume (volume_build (with_empty_dir None quantity (volume_new name))) self"

definition add_listener_volume_by_listener_class ::
    "string \<Rightarrow> string \<Rightarrow> labels \<Rightarrow> pod_builder \<Rightarrow> (pod_builder, pod_error) result" where
  "add_listener_volume_by_listener_class volume_name listener_class labels self =
     and_then (map_err (\<lambda>source. ListenerVolumeError source volume_name)
       (build_ephemeral (listener_volume_new (ListenerClass listener_class) labels))) (\<lambda>ephemeral.
     add_volume (volume_default\<lparr>v_name := volume_name, v_ephemeral := Some ephemeral\<rparr>) self)"

definition add_listener_volume_by_listener_name ::
    "string \<Rightarrow> string \<Rightarrow> labels \<Rightarrow> pod_builder \<Rightarrow> (pod_builder, pod_error) result" where
  "add_listener_volume_by_listener_name volume_name listener_name labels self =
     and_then (map_err (\<lambda>source. ListenerVolumeError source volume_name)
       (build_ephemeral (listener_volume_new (ListenerName listener_name) labels))) (\<lambda>ephemeral.
     add_volume (volume_default\<lparr>v_name := volume_name, v_ephemeral := Some ephemeral\<rparr>) self)"

definition image_pull_secrets :: "string list \<Rightarrow> pod_builder \<Rightarrow> pod_builder" where
  "image_pull_secrets secrets self =
     self\<lparr>pb_image_pull_secrets := get_or_insert_with [] (\<lambda>ss. ss @ secrets) (pb_image_pull_secrets self)\<rparr>"

definition image_pull_secrets_from_product_image :: "resolved_product_image \<Rightarrow> pod_builder \<Rightarrow> pod_builder" where
  "image_pull_secrets_from_product_image product_image self =
     (case rpi_pull_secrets product_image of
        Some pull_secrets \<Rightarrow>
          self\<lparr>pb_image_pull_secrets := get_or_insert_with [] (\<lambda>ss. ss @ pull_secrets) (pb_image_pull_secrets self)\<rparr>
      | None \<Rightarrow> self)"

definition pod_restart_policy :: "string \<Rightarrow> pod_builder \<Rightarrow> pod_builder" where
  "pod_restart_policy restart_policy self = self\<lparr>pb_restart_policy := Some restart_policy\<rparr>"

text \<open>\<open>as_secs().try_into()\<close> from \<open>u64\<close> to \<open>i64\<close>.\<close>

definition termination_grace_period :: "duration \<Rightarrow> pod_builder \<Rightarrow> (pod_builder, pod_error) result" where
  "termination_grace_period period self =
     (if as_secs period < 2 ^ 63
      then Inr (self\<lparr>pb_termination_grace_period_seconds := Some (int (as_secs period))\<rparr>)
      else Inl (TerminationGracePeriodTooLong period))"

definition build_spec :: "pod_builder \<Rightarrow> pod_spec" where
  "build_spec self =
     \<lparr>sp_containers = pb_containers self, sp_host_network = pb_host_network self,
      sp_init_containers = pb_init_containers self, sp_node_name = pb_node_name self,
      sp_node_selector = pb_node_selector self, sp_node_affinity = pb_node_affinity self,
      sp_pod_affinity = pb_pod_affinity self, sp_pod_anti_affinity = pb_pod_anti_affinity self,
      sp_security_context = pb_security_context self, sp_tolerations = pb_tolerations self,
      sp_volumes = (if pb_volumes self = [] then None else Some (map snd (pb_volumes self))),
      sp_enable_service_links = Some False, sp_service_account_name = pb_service_account_name self,
      sp_image_pull_secrets = pb_image_pull_secrets self, sp_restart_policy = pb_restart_policy self,
      sp_termination_grace_period_seconds = pb_termination_grace_period_seconds self\<rparr>"

definition pod_build :: "pod_builder \<Rightarrow> (pod, pod_error) result" where
  "pod_build self =
     and_then (ok_or (PodMissingObjectKey ''metadata'') (pb_metadata self)) (\<lambda>metadata.
     Inr \<lparr>pod_metadata = metadata, pod_the_spec = Some (build_spec self), pod_the_status = pb_status self\<rparr>)"

definition build_template :: "pod_builder \<Rightarrow> pod_template_spec" where
  "build_template self = \<lparr>pts_metadata = pb_metadata self, pts_spec = Some (build_spec self)\<rparr>"

subsection \<open>Volumes without collisions\<close>

interpretation volumes: collision_checked pb_volumes v_name add_volume
  by unfold_locales (auto simp: add_volume_def index_get_def index_insert_new)

lemma add_volumes_list: "add_volumes vs = volumes.add_list vs"
proof (induction vs)
  case (Cons v vs)
  show ?case by (rule ext) (simp add: Cons)
qed (simp add: fun_eq_iff)

end
