(* ===== verification/Quantities.thy ===== *)
theory Quantities
  imports F32
begin

section \<open>CPU and memory quantities\<close>

text \<open>
  \<open>stackable-operator/src/cpu.rs\<close> and \<open>stackable-operator/src/memory.rs\<close>. A \<open>usize\<close> has 64 bits; the operators
  on it take the flag for overflow checks, and \<^const>\<open>None\<close> is the panic of a checked build. A
  \<open>Quantity\<close> of the Kubernetes API is its string. Serialisation goes through \<open>Display\<close> and
  \<open>FromStr\<close>.
\<close>

subsection \<open>CPU\<close>

datatype cpu_error =
    UnsupportedCpuQuantityPrecision string
  | InvalidCpuIntQuantity int_error_kind string
  | InvalidCpuFloatQuantity float_error_kind string

record cpu_quantity =
  cpu_millis :: u64

definition cpu_from_millis :: "u64 \<Rightarrow> cpu_quantity" where
  "cpu_from_millis ms = \<lparr>cpu_millis = ms\<rparr>"

definition as_cpu_count :: "cpu_quantity \<Rightarrow> f32" where
  "as_cpu_count self = f32_div (f32_of_nat (unat (cpu_millis self))) (F32_Fin False 1000)"

definition as_milli_cpus :: "cpu_quantity \<Rightarrow> u64" where
  "as_milli_cpus self = cpu_millis self"

definition cpu_fmt :: "cpu_quantity \<Rightarrow> string" where
  "cpu_fmt self = (if cpu_millis self < 1000 then show_u64 (cpu_millis self) @ ''m'' else f32_fmt (as_cpu_count self))"

text \<open>The quantity is split where the first character stands that is no digit and no dot.\<close>

definition is_quantity_char :: "char \<Rightarrow> bool" where
  "is_quantity_char c \<longleftrightarrow> c = CHR ''.'' \<or> is_digit c"

definition cpu_from_str :: "string \<Rightarrow> (cpu_quantity, cpu_error) result" where
  "cpu_from_str q =
     (let value = takeWhile is_quantity_char q; unit = dropWhile is_quantity_char q in
      if unit \<noteq> [] then
        if unit \<noteq> ''m'' then Inl (UnsupportedCpuQuantityPrecision q)
        else and_then (map_err (\<lambda>e. InvalidCpuIntQuantity e q) (parse_u64 value)) (\<lambda>ms.
             Inr (cpu_from_millis ms))
      else
        and_then (map_err (\<lambda>e. InvalidCpuFloatQuantity e q) (parse_f32 q)) (\<lambda>cpus.
        let millis_float = f32_mul cpus (F32_Fin False 1000) in
        if \<not> f32_eq millis_float (f32_round millis_float) then Inl (UnsupportedCpuQuantityPrecision q)
        else Inr (cpu_from_millis (of_nat (f32_as_uint 64 millis_float)))))"

definition cpu_into_quantity :: "cpu_quantity \<Rightarrow> string" where
  "cpu_into_quantity quantity = f32_fmt (as_cpu_count quantity)"

definition cpu_try_from :: "string \<Rightarrow> (cpu_quantity, cpu_error) result" where
  "cpu_try_from q = cpu_from_str q"

definition mul_u64 :: "bool \<Rightarrow> u64 \<Rightarrow> u64 \<Rightarrow> u64 option" where
  "mul_u64 checks a b = (if checks \<and> 2 ^ 64 \<le> unat a * unat b then None else Some (a * b))"

definition cpu_add :: "bool \<Rightarrow> cpu_quantity \<Rightarrow> cpu_quantity \<Rightarrow> cpu_quantity option" where
  "cpu_add checks self rhs = map_option cpu_from_millis (add_u64 checks (cpu_millis self) (cpu_millis rhs))"

definition cpu_add_assign :: "bool \<Rightarrow> cpu_quantity \<Rightarrow> cpu_quantity \<Rightarrow> cpu_quantity option" where
  "cpu_add_assign checks self rhs = map_option (\<lambda>m. self\<lparr>cpu_millis := m\<rparr>) (add_u64 checks (cpu_millis self) (cpu_millis rhs))"

definition cpu_mul :: "bool \<Rightarrow> cpu_quantity \<Rightarrow> u64 \<Rightarrow> cpu_quantity option" where
  "cpu_mul checks self rhs = map_option (\<lambda>m. \<lparr>cpu_millis = m\<rparr>) (mul_u64 checks (cpu_millis self) rhs)"

definition cpu_mul_assign :: "bool \<Rightarrow> cpu_quantity \<Rightarrow> u64 \<Rightarrow> cpu_quantity option" where
  "cpu_mul_assign checks self rhs = map_option (\<lambda>m. self\<lparr>cpu_millis := m\<rparr>) (mul_u64 checks (cpu_millis self) rhs)"

definition cpu_mul_f32 :: "cpu_quantity \<Rightarrow> f32 \<Rightarrow> cpu_quantity" where
  "cpu_mul_f32 self rhs = \<lparr>cpu_millis = of_nat (f32_as_uint 64 (f32_mul (f32_of_nat (unat (cpu_millis self))) rhs))\<rparr>"

definition cpu_mul_f32_assign :: "cpu_quantity \<Rightarrow> f32 \<Rightarrow> cpu_quantity" where
  "cpu_mul_f32_assign self rhs = self\<lparr>cpu_millis := of_nat (f32_as_uint 64 (f32_mul (f32_of_nat (unat (cpu_millis self))) rhs))\<rparr>"

definition cpu_div :: "cpu_quantity \<Rightarrow> cpu_quantity \<Rightarrow> f32" where
  "cpu_div self rhs = f32_div (f32_of_nat (unat (cpu_millis self))) (f32_of_nat (unat (cpu_millis rhs)))"

definition cpu_sum :: "bool \<Rightarrow> cpu_quantity list \<Rightarrow> cpu_quantity option" where
  "cpu_sum checks qs = foldl (\<lambda>acc q. Option.bind acc (\<lambda>a. cpu_add checks a q)) (Some \<lparr>cpu_millis = 0\<rparr>) qs"

subsection \<open>Units of memory\<close>

datatype binary_multiple = Kibi | Mebi | Gibi | Tebi | Pebi | Exbi

datatype memory_error =
    CannotConvertToJavaHeap string
  | CannotConvertToJavaHeapValue string string
  | CannotScaleDownMemoryUnit
  | InvalidQuantity float_error_kind string
  | InvalidQuantityUnit string
  | NoQuantityUnit string

fun to_java_memory_unit :: "binary_multiple \<Rightarrow> string" where
  "to_java_memory_unit Kibi = ''k''"
| "to_java_memory_unit Mebi = ''m''"
| "to_java_memory_unit Gibi = ''g''"
| "to_java_memory_unit Tebi = ''t''"
| "to_java_memory_unit Pebi = ''p''"
| "to_java_memory_unit Exbi = ''e''"

fun exponential_scale_factor :: "binary_multiple \<Rightarrow> int" where
  "exponential_scale_factor Kibi = 1"
| "exponential_scale_factor Mebi = 2"
| "exponential_scale_factor Gibi = 3"
| "exponential_scale_factor Tebi = 4"
| "exponential_scale_factor Pebi = 5"
| "exponential_scale_factor Exbi = 6"

definition get_smallest :: binary_multiple where
  "get_smallest = Kibi"

definition binary_multiple_from_str :: "string \<Rightarrow> (binary_multiple, memory_error) result" where
  "binary_multiple_from_str q =
     (if q = ''Ki'' then Inr Kibi
      else if q = ''Mi'' then Inr Mebi
      else if q = ''Gi'' then Inr Gibi
      else if q = ''Ti'' then Inr Tebi
      else if q = ''Pi'' then Inr Pebi
      else if q = ''Ei'' then Inr Exbi
      else Inl (InvalidQuantityUnit q))"

fun binary_multiple_fmt :: "binary_multiple \<Rightarrow> string" where
  "binary_multiple_fmt Kibi = ''Ki''"
| "binary_multiple_fmt Mebi = ''Mi''"
| "binary_multiple_fmt Gibi = ''Gi''"
| "binary_multiple_fmt Tebi = ''Ti''"
| "binary_multiple_fmt Pebi = ''Pi''"
| "binary_multiple_fmt Exbi = ''Ei''"

subsection \<open>Memory\<close>

record memory_quantity =
  mq_value :: f32
  mq_unit :: binary_multiple

definition from_gibi :: "f32 \<Rightarrow> memory_quantity" where
  "from_gibi gibi = \<lparr>mq_value = gibi, mq_unit = Gibi\<rparr>"

definition from_mebi :: "f32 \<Rightarrow> memory_quantity" where
  "from_mebi mebi = \<lparr>mq_value = mebi, mq_unit = Mebi\<rparr>"

definition scale_to :: "binary_multiple \<Rightarrow> memory_quantity \<Rightarrow> memory_quantity" where
  "scale_to binary_multiple self =
     (let exponent_diff = exponential_scale_factor (mq_unit self) - exponential_scale_factor binary_multiple in
      \<lparr>mq_value = f32_mul (mq_value self) (f32_rat (1024 powi exponent_diff)), mq_unit = binary_multiple\<rparr>)"

definition scale_to_at_most_gb :: "memory_quantity \<Rightarrow> memory_quantity" where
  "scale_to_at_most_gb self =
     (case mq_unit self of Kibi \<Rightarrow> self | Mebi \<Rightarrow> self | Gibi \<Rightarrow> self | _ \<Rightarrow> scale_to Gibi self)"

definition scale_down_unit :: "memory_quantity \<Rightarrow> (memory_quantity, memory_error) result" where
  "scale_down_unit self =
     (case mq_unit self of
        Kibi \<Rightarrow> Inl CannotScaleDownMemoryUnit
      | Mebi \<Rightarrow> Inr (scale_to Kibi self)
      | Gibi \<Rightarrow> Inr (scale_to Mebi self)
      | Tebi \<Rightarrow> Inr (scale_to Gibi self)
      | Pebi \<Rightarrow> Inr (scale_to Tebi self)
      | Exbi \<Rightarrow> Inr (scale_to Pebi self))"

definition memory_floor :: "memory_quantity \<Rightarrow> memory_quantity" where
  "memory_floor self = self\<lparr>mq_value := f32_floor (mq_value self)\<rparr>"

definition memory_ceil :: "memory_quantity \<Rightarrow> memory_quantity" where
  "memory_ceil self = self\<lparr>mq_value := f32_ceil (mq_value self)\<rparr>"

definition memory_partial_cmp :: "memory_quantity \<Rightarrow> memory_quantity \<Rightarrow> ordering option" where
  "memory_partial_cmp self other =
     f32_partial_cmp (mq_value (scale_to get_smallest self)) (mq_value (scale_to get_smallest other))"

definition memory_eq :: "memory_quantity \<Rightarrow> memory_quantity \<Rightarrow> bool" where
  "memory_eq self other \<longleftrightarrow> f32_eq (mq_value (scale_to get_smallest self)) (mq_value (scale_to get_smallest other))"

lemma scale_to_unit [simp]: "mq_unit (scale_to u m) = u"
  by (simp add: scale_to_def Let_def)

lemma scale_down_unit_decreases:
  "scale_down_unit m = Inr m' \<Longrightarrow> exponential_scale_factor (mq_unit m') = exponential_scale_factor (mq_unit m) - 1"
  by (cases "mq_unit m") (auto simp: scale_down_unit_def)

lemma exponential_scale_factor_pos: "0 < exponential_scale_factor u"
  by (cases u) simp_all

lemma scale_down_unit_measure:
  "scale_down_unit m = Inr m' \<Longrightarrow>
     nat (exponential_scale_factor (mq_unit m')) < nat (exponential_scale_factor (mq_unit m))"
  using scale_down_unit_decreases [of m m'] exponential_scale_factor_pos [of "mq_unit m"] by simp

function ensure_no_zero :: "memory_quantity \<Rightarrow> (memory_quantity, memory_error) result" where
  "ensure_no_zero self =
     (if f32_lt (mq_value self) (F32_Fin False 1) then and_then (scale_down_unit self) ensure_no_zero else Inr self)"
  by pat_completeness auto
termination
  by (relation "measure (\<lambda>m. nat (exponential_scale_factor (mq_unit m)))") (auto dest: scale_down_unit_measure)

function ensure_integer :: "memory_quantity \<Rightarrow> memory_quantity \<Rightarrow> (memory_quantity, memory_error) result" where
  "ensure_integer tolerated_rounding_loss self =
     (let fraction_memory = self\<lparr>mq_value := f32_fract (mq_value self)\<rparr> in
      if memory_partial_cmp fraction_memory tolerated_rounding_loss = Some Less then Inr (memory_floor self)
      else and_then (scale_down_unit self) (ensure_integer tolerated_rounding_loss))"
  by pat_completeness auto
termination
  by (relation "measure (\<lambda>(t, m). nat (exponential_scale_factor (mq_unit m)))") (auto dest: scale_down_unit_measure)

declare ensure_no_zero.simps [simp del] ensure_integer.simps [simp del]

definition format_for_java :: "memory_quantity \<Rightarrow> (string, memory_error) result" where
  "format_for_java self =
     and_then (ensure_no_zero (scale_to_at_most_gb self)) (\<lambda>m.
     and_then (ensure_integer (from_mebi (F32_Fin False 20)) m) (\<lambda>m.
     Inr (f32_fmt (mq_value m) @ to_java_memory_unit (mq_unit m))))"

definition scale_for_java :: "memory_quantity \<Rightarrow> memory_quantity" where
  "scale_for_java self =
     (let k = F32_Fin False 1024; EPS = f32_rat (2/10);
          (norm_value, norm_unit) =
            (case mq_unit self of
               Tebi \<Rightarrow> (f32_mul (mq_value self) k, Gibi)
             | Pebi \<Rightarrow> (f32_mul (f32_mul (mq_value self) k) k, Gibi)
             | Exbi \<Rightarrow> (f32_mul (f32_mul (f32_mul (mq_value self) k) k) k, Gibi)
             | u \<Rightarrow> (mq_value self, u));
          (scaled_value, scaled_unit) =
            (if f32_lt norm_value (F32_Fin False 1) \<or> f32_lt EPS (f32_fract norm_value) then
               (case norm_unit of
                  Mebi \<Rightarrow> (f32_mul norm_value k, Kibi)
                | Gibi \<Rightarrow> (f32_mul norm_value k, Mebi)
                | _ \<Rightarrow> (norm_value, norm_unit))
             else (norm_value, norm_unit))
      in \<lparr>mq_value = scaled_value, mq_unit = scaled_unit\<rparr>)"

definition memory_from_str :: "string \<Rightarrow> (memory_quantity, memory_error) result" where
  "memory_from_str q =
     (let value = takeWhile is_quantity_char q; unit = dropWhile is_quantity_char q in
      if unit = [] then Inl (NoQuantityUnit q)
      else and_then (map_err (\<lambda>e. InvalidQuantity e q) (parse_f32 value)) (\<lambda>v.
           and_then (binary_multiple_from_str unit) (\<lambda>u.
           Inr \<lparr>mq_value = v, mq_unit = u\<rparr>)))"

definition memory_fmt :: "memory_quantity \<Rightarrow> string" where
  "memory_fmt self = f32_fmt (mq_value self) @ binary_multiple_fmt (mq_unit self)"

definition memory_mul :: "memory_quantity \<Rightarrow> f32 \<Rightarrow> memory_quantity" where
  "memory_mul self factor = self\<lparr>mq_value := f32_mul (mq_value self) factor\<rparr>"

definition memory_div_f32 :: "memory_quantity \<Rightarrow> f32 \<Rightarrow> memory_quantity" where
  "memory_div_f32 self rhs = memory_mul self (f32_div (F32_Fin False 1) rhs)"

definition memory_div :: "memory_quantity \<Rightarrow> memory_quantity \<Rightarrow> f32" where
  "memory_div self rhs = f32_div (mq_value self) (mq_value (scale_to (mq_unit self) rhs))"

definition memory_sub :: "memory_quantity \<Rightarrow> memory_quantity \<Rightarrow> memory_quantity" where
  "memory_sub self rhs = self\<lparr>mq_value := f32_sub (mq_value self) (mq_value (scale_to (mq_unit self) rhs))\<rparr>"

definition memory_add :: "memory_quantity \<Rightarrow> memory_quantity \<Rightarrow> memory_quantity" where
  "memory_add self rhs = self\<lparr>mq_value := f32_add (mq_value self) (mq_value (scale_to (mq_unit self) rhs))\<rparr>"

definition memory_sum :: "memory_quantity list \<Rightarrow> memory_quantity" where
  "memory_sum = foldl memory_add \<lparr>mq_value = F32_Fin False 0, mq_unit = Kibi\<rparr>"

definition memory_try_from :: "string \<Rightarrow> (memory_quantity, memory_error) result" where
  "memory_try_from quantity = memory_from_str quantity"

definition memory_into_quantity :: "memory_quantity \<Rightarrow> string" where
  "memory_into_quantity quantity = memory_fmt quantity"

definition to_java_heap :: "string \<Rightarrow> f32 \<Rightarrow> (string, memory_error) result" where
  "to_java_heap q factor =
     and_then (memory_from_str q) (\<lambda>m.
     let scaled = scale_for_java (memory_mul m factor) in
     if f32_lt (mq_value scaled) (F32_Fin False 1) then Inl (CannotConvertToJavaHeap q)
     else Inr (''-Xmx'' @ f32_fmt_0 (mq_value scaled) @ to_java_memory_unit (mq_unit scaled)))"

definition to_java_heap_value :: "string \<Rightarrow> f32 \<Rightarrow> binary_multiple \<Rightarrow> (32 word, memory_error) result" where
  "to_java_heap_value q factor target_unit =
     and_then (memory_from_str q) (\<lambda>m.
     let scaled = scale_to target_unit (scale_for_java (memory_mul m factor)) in
     if f32_lt (mq_value scaled) (F32_Fin False 1)
     then Inl (CannotConvertToJavaHeapValue q (binary_multiple_fmt target_unit))
     else Inr (of_nat (f32_as_uint 32 (mq_value scaled))))"

subsection \<open>Scaling between units is exact\<close>

lemma powi_1024: "(1024 :: rat) powi d = 2 powi (10 * d)"
  using power_int_mult [of "2 :: rat" 10 d] by simp

lemma exponent_diff_less: "exponential_scale_factor u - exponential_scale_factor v \<le> 5"
  by (cases u; cases v) simp_all

lemma f32_rat_1024:
  assumes "0 \<le> d" "d \<le> 5"
  shows "f32_rat (1024 powi d) = F32_Fin False (1024 powi d)"
proof -
  have "f32_value (of_int 1 * 2 powi (10 * d))" by (rule f32_valueI) (use assms in simp_all)
  moreover have "(2 :: rat) powi (10 * d) \<le> 2 powi 50" using assms by (intro power_int_increasing) auto
  moreover have "(0 :: rat) \<le> 2 powi (10 * d)" by (simp add: powi_pos less_imp_le)
  moreover have "\<not> (2 :: rat) powi (10 * d) < 0" using calculation(3) by linarith
  ultimately show ?thesis by (simp add: f32_rat_def f32_pack_def Let_def powi_1024)
qed

definition mem :: "rat \<Rightarrow> binary_multiple \<Rightarrow> memory_quantity" where
  "mem a u = \<lparr>mq_value = F32_Fin False a, mq_unit = u\<rparr>"

lemma mem_sel [simp]: "mq_value (mem a u) = F32_Fin False a" "mq_unit (mem a u) = u"
  by (simp_all add: mem_def)

lemma f32_value_1024: "f32_value a \<Longrightarrow> 0 \<le> d \<Longrightarrow> f32_value (a * 1024 powi d)"
  unfolding powi_1024 by (rule f32_value_scale) simp_all

lemma scale_to_exact:
  assumes "f32_value a" "0 \<le> d" "d = exponential_scale_factor u - exponential_scale_factor v" "a * 1024 powi d < 2 ^ 128"
  shows "scale_to v (mem a u) = mem (a * 1024 powi d) v"
  using f32_rat_1024 [OF assms(2)] exponent_diff_less [of u v] f32_mag_value [OF f32_value_1024 [OF assms(1,2)]] assms(3,4)
  by (simp add: scale_to_def Let_def f32_mul_def f32_pack_def flip: mem_def)

text \<open>The amount in KiB.\<close>

definition kib :: "rat \<Rightarrow> binary_multiple \<Rightarrow> rat" where
  "kib a u = a * 1024 powi (exponential_scale_factor u - 1)"

lemma kib_eval: "kib a Kibi = a" "kib a Mebi = 1024 * a" "kib a Gibi = 1048576 * a"
  by (simp_all add: kib_def)

lemma scale_down_small:
  assumes "f32_value a" "a < 2 ^ 100"
  shows "scale_down_unit (mem a Mebi) = Inr (mem (1024 * a) Kibi)" "scale_down_unit (mem a Gibi) = Inr (mem (1024 * a) Mebi)"
    "f32_value (1024 * a)"
  using scale_to_exact [OF assms(1), of 1 Mebi Kibi] scale_to_exact [OF assms(1), of 1 Gibi Mebi] assms(2)
    f32_value_1024 [OF assms(1), of 1]
  by (simp_all add: scale_down_unit_def mult.commute)

lemma f32_lt_1: "f32_lt (F32_Fin False a) (F32_Fin False 1) \<longleftrightarrow> a < 1"
  by (simp add: f32_lt_def f32_partial_cmp_def signed_def)

definition java_unit :: "binary_multiple \<Rightarrow> bool" where
  "java_unit u \<longleftrightarrow> u = Kibi \<or> u = Mebi \<or> u = Gibi"

lemma java_unitE:
  assumes "java_unit u"
  obtains "u = Kibi" | "u = Mebi" | "u = Gibi"
  using assms by (auto simp: java_unit_def)

lemma value_less_large: "a < 1 \<Longrightarrow> a < (2 :: rat) ^ 100"
  by (rule less_le_trans [of _ 1]) simp_all

text \<open>The two adjustments only depend on the amount, not on the unit it comes in.\<close>

definition no_zero_result :: "rat \<Rightarrow> (memory_quantity, memory_error) result \<Rightarrow> bool" where
  "no_zero_result k r \<longleftrightarrow>
     (if k < 1 then r = Inl CannotScaleDownMemoryUnit
      else \<exists>b v. r = Inr (mem b v) \<and> f32_value b \<and> 1 \<le> b \<and> java_unit v \<and> kib b v = k)"

lemma no_zero_done: "f32_value a \<Longrightarrow> 1 \<le> a \<Longrightarrow> java_unit u \<Longrightarrow> no_zero_result (kib a u) (ensure_no_zero (mem a u))"
  by (subst ensure_no_zero.simps, erule java_unitE) (fastforce simp: f32_lt_1 no_zero_result_def java_unit_def kib_eval)+

lemma ensure_no_zero_Kibi: "f32_value a \<Longrightarrow> no_zero_result a (ensure_no_zero (mem a Kibi))"
  using no_zero_done [of a Kibi]
  by (cases "a < 1") (simp_all add: kib_eval java_unit_def ensure_no_zero.simps [of "mem a Kibi"] f32_lt_1 scale_down_unit_def
      no_zero_result_def)

lemma ensure_no_zero_Mebi: "f32_value a \<Longrightarrow> no_zero_result (1024 * a) (ensure_no_zero (mem a Mebi))"
  using no_zero_done [of a Mebi] scale_down_small [of a] ensure_no_zero_Kibi [of "1024 * a"] value_less_large [of a]
  by (cases "a < 1") (simp_all add: kib_eval java_unit_def ensure_no_zero.simps [of "mem a Mebi"] f32_lt_1)

lemma ensure_no_zero_Gibi: "f32_value a \<Longrightarrow> no_zero_result (1048576 * a) (ensure_no_zero (mem a Gibi))"
  using no_zero_done [of a Gibi] scale_down_small [of a] ensure_no_zero_Mebi [of "1024 * a"] value_less_large [of a]
  by (cases "a < 1") (simp_all add: kib_eval java_unit_def ensure_no_zero.simps [of "mem a Gibi"] f32_lt_1)

lemma ensure_no_zero_spec: "f32_value a \<Longrightarrow> java_unit u \<Longrightarrow> no_zero_result (kib a u) (ensure_no_zero (mem a u))"
  by (erule java_unitE) (simp_all add: kib_eval ensure_no_zero_Kibi ensure_no_zero_Mebi ensure_no_zero_Gibi)

definition integer_result :: "rat \<Rightarrow> (memory_quantity, memory_error) result \<Rightarrow> bool" where
  "integer_result k r \<longleftrightarrow>
     (\<exists>n v. r = Inr (mem (of_int n) v) \<and> 1 \<le> n \<and> java_unit v \<and> kib (of_int n) v \<le> k \<and> k < kib (of_int n) v + 20 * 1024)"

lemma integer_done:
  assumes "f32_value a" "1 \<le> a" "java_unit u" "kib (frac a) u < 20 * 1024"
  shows "integer_result (kib a u) (Inr (memory_floor (mem a u)))"
proof -
  have floor: "memory_floor (mem a u) = mem (of_int \<lfloor>a\<rfloor>) u" by (simp add: memory_floor_def mem_def f32_floor_def)
  have "kib a u = kib (of_int \<lfloor>a\<rfloor>) u + kib (frac a) u" by (simp add: kib_def frac_def flip: distrib_right)
  moreover have "0 \<le> kib (frac a) u" by (simp add: kib_def power_int_def)
  ultimately show ?thesis unfolding integer_result_def floor
    using assms(2,3,4) by (intro exI [of _ "\<lfloor>a\<rfloor>"] exI [of _ u]) auto
qed

text \<open>The comparison with the tolerated loss is exact.\<close>

lemma fraction_less:
  assumes "f32_value a" "java_unit u"
  shows "memory_partial_cmp (mem a u\<lparr>mq_value := f32_fract (mq_value (mem a u))\<rparr>) (from_mebi (F32_Fin False 20)) = Some Less \<longleftrightarrow>
    kib (frac a) u < 20 * 1024"
proof -
  have frac: "mem a u\<lparr>mq_value := f32_fract (mq_value (mem a u))\<rparr> = mem (frac a) u"
    by (simp add: mem_def f32_fract_def)
  have tol: "from_mebi (F32_Fin False 20) = mem 20 Mebi" by (simp add: from_mebi_def mem_def)
  have "scale_to Kibi (mem 20 Mebi) = mem (20 * 1024 powi 1) Kibi"
    by (rule scale_to_exact) (use f32_value_of_nat [of 20] in simp_all)
  moreover have "scale_to Kibi (mem (frac a) u) = mem (kib (frac a) u) Kibi" unfolding kib_def
  proof (rule scale_to_exact)
    have "frac a < 1" by (rule frac_lt_1)
    then have "frac a * 1024 powi (exponential_scale_factor u - 1) < 1048577" using assms(2) by (elim java_unitE) simp_all
    then show "frac a * 1024 powi (exponential_scale_factor u - 1) < 2 ^ 128" by (rule less_trans) simp
  qed (use assms f32_value_frac in \<open>auto elim: java_unitE\<close>)
  ultimately show ?thesis
    unfolding frac tol by (simp add: memory_partial_cmp_def get_smallest_def f32_partial_cmp_def signed_def)
qed

lemma ensure_integer_done:
  "f32_value a \<Longrightarrow> 1 \<le> a \<Longrightarrow> java_unit u \<Longrightarrow> kib (frac a) u < 20 * 1024 \<Longrightarrow>
     integer_result (kib a u) (ensure_integer (from_mebi (F32_Fin False 20)) (mem a u))"
  unfolding ensure_integer.simps [of _ "mem a u"] Let_def by (simp only: fraction_less integer_done if_True)

lemma ensure_integer_small_unit:
  assumes "f32_value a" "1 \<le> a" "u = Kibi \<or> u = Mebi"
  shows "integer_result (kib a u) (ensure_integer (from_mebi (F32_Fin False 20)) (mem a u))"
  by (rule ensure_integer_done) (use assms frac_lt_1 [of a] in \<open>auto simp: kib_eval java_unit_def\<close>)

lemma ensure_integer_spec:
  assumes "f32_value a" "1 \<le> a" "java_unit u"
  shows "integer_result (kib a u) (ensure_integer (from_mebi (F32_Fin False 20)) (mem a u))"
proof (cases "u = Gibi \<and> \<not> kib (frac a) u < 20 * 1024")
  case True
  have "frac a \<noteq> 0"
  proof
    assume "frac a = 0"
    then show False using True by (simp only: kib_def) simp
  qed
  then have "a < 2 ^ 24" by (rule f32_value_frac_nonzero [OF assms(1)])
  then have "a < 2 ^ 100" by simp
  note down = scale_down_small [OF assms(1) this]
  have "integer_result (kib (1024 * a) Mebi) (ensure_integer (from_mebi (F32_Fin False 20)) (mem (1024 * a) Mebi))"
    by (rule ensure_integer_small_unit) (use down(3) assms(2) in auto)
  moreover have "ensure_integer (from_mebi (F32_Fin False 20)) (mem a u) =
      ensure_integer (from_mebi (F32_Fin False 20)) (mem (1024 * a) Mebi)"
    unfolding ensure_integer.simps [of _ "mem a u"] Let_def fraction_less [OF assms(1,3)] using True down(2) by auto
  ultimately show ?thesis using True by (simp add: kib_eval)
next
  case False
  then show ?thesis using assms ensure_integer_done ensure_integer_small_unit by (metis java_unit_def)
qed

lemma scale_to_at_most_gb_spec:
  assumes "f32_value a" "kib a u < 2 ^ 128"
  shows "\<exists>b v. scale_to_at_most_gb (mem a u) = mem b v \<and> f32_value b \<and> java_unit v \<and> kib b v = kib a u"
proof (cases "java_unit u")
  case True
  then show ?thesis using assms(1)
    by (intro exI [of _ a] exI [of _ u]) (auto simp: scale_to_at_most_gb_def elim: java_unitE)
next
  case False
  let ?d = "exponential_scale_factor u - 3"
  have d: "0 \<le> ?d" using False by (cases u) (auto simp: java_unit_def)
  have kib: "kib a u = a * 1024 powi ?d * 1048576"
    using power_int_add [of "1024 :: rat" ?d 2] by (simp add: kib_def algebra_simps)
  have "0 \<le> a * 1024 powi ?d" using f32_value_nonneg [OF assms(1)] by (simp add: power_int_def)
  then have "a * 1024 powi ?d < 2 ^ 128" using assms(2) unfolding kib by linarith
  then have "scale_to Gibi (mem a u) = mem (a * 1024 powi ?d) Gibi" by (intro scale_to_exact) (use assms(1) d in simp_all)
  moreover have "scale_to_at_most_gb (mem a u) = scale_to Gibi (mem a u)"
    using False by (cases u) (simp_all add: scale_to_at_most_gb_def java_unit_def)
  ultimately show ?thesis using f32_value_1024 [OF assms(1) d] kib
    by (intro exI [of _ "a * 1024 powi ?d"] exI [of _ Gibi]) (simp add: java_unit_def kib_eval)
qed

text \<open>
  C22: The Java heap setting for an amount of memory: an amount below 1 KiB is an error; every other one,
  up to what an \<open>f32\<close> can hold in KiB, gives a positive whole number of kilobytes, megabytes or
  gigabytes which does not exceed the amount and loses less than 20 MiB of it. Numbers below
  \<open>2^24\<close> are written exactly.
\<close>

theorem format_for_java_correct:
  assumes "f32_value a" "kib a u < 2 ^ 128"
  shows "if kib a u < 1 then format_for_java \<lparr>mq_value = F32_Fin False a, mq_unit = u\<rparr> = Inl CannotScaleDownMemoryUnit
    else \<exists>n v. format_for_java \<lparr>mq_value = F32_Fin False a, mq_unit = u\<rparr> =
          Inr (f32_fmt (F32_Fin False (of_int n)) @ to_java_memory_unit v) \<and>
        v \<in> {Kibi, Mebi, Gibi} \<and> 1 \<le> n \<and> kib (of_int n) v \<le> kib a u \<and> kib a u < kib (of_int n) v + kib 20 Mebi \<and>
        (n < 2 ^ 24 \<longrightarrow> f32_fmt (F32_Fin False (of_int n)) = show_nat (nat n))"
proof -
  obtain b v where b: "scale_to_at_most_gb (mem a u) = mem b v" "f32_value b" "java_unit v" "kib b v = kib a u"
    using scale_to_at_most_gb_spec [OF assms] by blast
  have nz: "no_zero_result (kib a u) (ensure_no_zero (mem b v))" using ensure_no_zero_spec [OF b(2,3)] b(4) by simp
  show ?thesis
  proof (cases "kib a u < 1")
    case True
    then show ?thesis using nz b(1) by (simp add: no_zero_result_def format_for_java_def flip: mem_def)
  next
    case False
    then obtain c w where c: "ensure_no_zero (mem b v) = Inr (mem c w)" "f32_value c" "1 \<le> c" "java_unit w" "kib c w = kib a u"
      using nz by (auto simp: no_zero_result_def)
    obtain n x where n: "ensure_integer (from_mebi (F32_Fin False 20)) (mem c w) = Inr (mem (of_int n) x)" "1 \<le> n" "java_unit x"
      "kib (of_int n) x \<le> kib a u" "kib a u < kib (of_int n) x + 20 * 1024"
      using ensure_integer_spec [OF c(2-4)] unfolding c(5) integer_result_def by blast
    have "f32_fmt (F32_Fin False (of_int n)) = show_nat (nat n)" if "n < 2 ^ 24"
      using f32_mag_fmt_nat [of "nat n"] that n(2) by (simp add: f32_fmt_def)
    moreover have "format_for_java (mem a u) = Inr (f32_fmt (F32_Fin False (of_int n)) @ to_java_memory_unit x)"
      by (simp add: format_for_java_def b(1) c(1) n(1))
    moreover have "x \<in> {Kibi, Mebi, Gibi}" using n(3) by (auto simp: java_unit_def)
    moreover have "kib 20 Mebi = 20 * 1024" by (simp add: kib_eval)
    ultimately show ?thesis using False n(2,4,5) unfolding mem_def [symmetric] by auto
  qed
qed

theorem format_for_java_correct_witness:
  "\<exists>n v. format_for_java \<lparr>mq_value = F32_Fin False (3/2), mq_unit = Gibi\<rparr> =
          Inr (f32_fmt (F32_Fin False (of_int n)) @ to_java_memory_unit v) \<and>
        1 \<le> n \<and> kib (of_int n) v \<le> 1572864 \<and> 1572864 < kib (of_int n) v + kib 20 Mebi"
proof -
  have "f32_value (of_int 3 * 2 powi (- 1))" by (rule f32_valueI) simp_all
  then have "f32_value (3/2)" by simp
  moreover have "kib (3/2) Gibi = 1572864" by (simp add: kib_eval)
  ultimately show ?thesis using format_for_java_correct [of "3/2" Gibi] by auto
qed

subsection \<open>Reading back what was written\<close>

lemma takeWhile_digits: "list_all is_digit s \<Longrightarrow> \<not> is_quantity_char c \<Longrightarrow> takeWhile is_quantity_char (s @ c # t) = s"
  by (induction s) (simp_all add: is_quantity_char_def)

lemma dropWhile_digits: "list_all is_digit s \<Longrightarrow> \<not> is_quantity_char c \<Longrightarrow> dropWhile is_quantity_char (s @ c # t) = c # t"
  by (induction s) (simp_all add: is_quantity_char_def)

lemma dropWhile_all_digits: "list_all is_digit s \<Longrightarrow> dropWhile is_quantity_char s = []"
  by (induction s) (simp_all add: is_quantity_char_def)

lemma unit_not_quantity_char: "\<not> is_quantity_char c" if "c \<in> {CHR ''m'', CHR ''K'', CHR ''M'', CHR ''G'', CHR ''T'', CHR ''P'', CHR ''E''}"
  using that by (auto simp: is_quantity_char_def is_digit_def in_range_def)

lemma cpu_millis_read_back: "cpu_millis q < 1000 \<Longrightarrow> cpu_from_str (cpu_fmt q) = Inr q"
  by (simp add: cpu_from_str_def cpu_fmt_def takeWhile_digits dropWhile_digits unit_not_quantity_char cpu_from_millis_def)

lemma cpu_whole_from_str:
  assumes "n \<le> 16777"
  shows "cpu_from_str (show_nat n) = Inr (cpu_from_millis (of_nat (1000 * n)))"
proof -
  have mul: "f32_mul (F32_Fin False (of_nat n)) (F32_Fin False 1000) = F32_Fin False (of_nat (1000 * n))"
    using f32_pack_nat [of "1000 * n" False] assms by (simp add: f32_mul_def mult.commute)
  have round: "\<lfloor>(of_nat m :: rat) + 1/2\<rfloor> = int m" for m by linarith
  have "f32_as_uint 64 (F32_Fin False (of_nat (1000 * n))) = 1000 * n" using assms by (simp add: f32_as_uint_def del: of_nat_mult)
  moreover have "f32_eq (F32_Fin False (of_nat m)) (f32_round (F32_Fin False (of_nat m)))" for m
    by (simp add: f32_round_def f32_eq_def f32_partial_cmp_def round)
  ultimately show ?thesis using assms
    by (simp add: cpu_from_str_def dropWhile_all_digits parse_f32_show_nat mul del: of_nat_mult)
qed

lemma cpu_whole_fmt:
  assumes "1 \<le> n" "n \<le> 16777"
  shows "cpu_fmt (cpu_from_millis (of_nat (1000 * n))) = show_nat n"
proof -
  have unat: "unat (of_nat (1000 * n) :: u64) = 1000 * n" using assms by (intro unat_of_nat_u64) simp
  have "as_cpu_count (cpu_from_millis (of_nat (1000 * n))) = F32_Fin False (of_nat n)"
    using assms unat f32_pack_nat [of n False]
    by (simp add: as_cpu_count_def cpu_from_millis_def f32_of_nat_small f32_div_def del: of_nat_mult) simp
  moreover have "\<not> (of_nat (1000 * n) :: u64) < 1000" using unat assms by (simp add: word_less_nat_alt)
  ultimately show ?thesis using assms by (simp add: cpu_fmt_def cpu_from_millis_def f32_fmt_nat del: of_nat_mult)
qed

lemma memory_read_back:
  assumes "n < 2 ^ 24"
  shows "memory_from_str (memory_fmt \<lparr>mq_value = F32_Fin False (of_nat n), mq_unit = u\<rparr>) =
    Inr \<lparr>mq_value = F32_Fin False (of_nat n), mq_unit = u\<rparr>"
  using assms by (cases u) (simp_all add: memory_from_str_def memory_fmt_def f32_fmt_nat takeWhile_digits dropWhile_digits
      unit_not_quantity_char parse_f32_show_nat binary_multiple_from_str_def)

text \<open>
  Quantities with a whole number are read back from what they are written as: every CPU quantity
  below one CPU, every whole number of CPUs up to 16777, and every whole amount of memory below
  \<open>2^24\<close> in any unit.
\<close>

theorem quantities_read_back:
  "(cpu_millis q < 1000 \<longrightarrow> cpu_from_str (cpu_fmt q) = Inr q) \<and>
   (n \<le> 16777 \<longrightarrow> cpu_from_str (cpu_fmt (cpu_from_millis (of_nat (1000 * n)))) = Inr (cpu_from_millis (of_nat (1000 * n)))) \<and>
   (m < 2 ^ 24 \<longrightarrow> memory_from_str (memory_fmt \<lparr>mq_value = F32_Fin False (of_nat m), mq_unit = u\<rparr>) =
      Inr \<lparr>mq_value = F32_Fin False (of_nat m), mq_unit = u\<rparr>)"
proof (intro conjI impI)
  assume n: "n \<le> 16777"
  show "cpu_from_str (cpu_fmt (cpu_from_millis (of_nat (1000 * n)))) = Inr (cpu_from_millis (of_nat (1000 * n)))"
  proof (cases "n = 0")
    case True
    then show ?thesis using cpu_millis_read_back [of "cpu_from_millis 0"] by (simp add: cpu_from_millis_def)
  next
    case False
    then show ?thesis using n cpu_whole_fmt [of n] cpu_whole_from_str [of n] by simp
  qed
qed (rule cpu_millis_read_back, assumption, rule memory_read_back, assumption)

theorem quantities_read_back_witness:
  "cpu_from_str (cpu_fmt (cpu_from_millis 250)) = Inr (cpu_from_millis 250) \<and> cpu_from_str (cpu_fmt (cpu_from_millis 2000)) = Inr (cpu_from_millis 2000) \<and>
   memory_from_str (memory_fmt \<lparr>mq_value = F32_Fin False 512, mq_unit = Mebi\<rparr>) = Inr \<lparr>mq_value = F32_Fin False 512, mq_unit = Mebi\<rparr>"
  using quantities_read_back [of "cpu_from_millis 250" 2 512 Mebi] by (simp add: cpu_from_millis_def)

lemma replicate_2: "replicate 2 x = [x, x]"
  by (simp add: numeral_2_eq_2)

text \<open>
  Not every CPU quantity is read back. The quantity of 1001 milli-CPUs is written \<open>1.001\<close>, but that
  string is refused for its precision: a thousand times the \<open>f32\<close> next to 1.001 is not a whole
  number.
\<close>

theorem cpu_quantity_not_read_back:
  "cpu_fmt (cpu_from_millis 1001) = ''1.001'' \<and> cpu_from_str ''1.001'' = Inl (UnsupportedCpuQuantityPrecision ''1.001'')"
proof
  have pack: "f32_pack False (1001/1000) = F32_Fin False (8396997/8388608)" by code_simp
  have "dec_exp_up (8396997/8388608) (- 46) 86 = 0" by (rule dec_exp_up_eq) simp_all
  moreover have "dec_candidates (8396997/8388608) 0 = []" "dec_candidates (8396997/8388608) (- 1) = []"
    "dec_candidates (8396997/8388608) (- 2) = []" "dec_candidates (8396997/8388608) (- 3) = [1001]"
    by code_simp+
  ultimately have fmt: "shortest_from (8396997/8388608) (dec_exp_up (8396997/8388608) (- 46) 86) 60 = (1001, - 3)"
    using shortest_skip [of "8396997/8388608" 0 59] shortest_skip [of "8396997/8388608" "- 1" 58]
      shortest_skip [of "8396997/8388608" "- 2" 57] shortest_hit [of "8396997/8388608" "- 3" 1001 "[]" 56] by simp
  have "as_cpu_count (cpu_from_millis 1001) = F32_Fin False (8396997/8388608)"
    using f32_of_nat_small [of 1001] pack by (simp add: as_cpu_count_def cpu_from_millis_def f32_div_def)
  then show "cpu_fmt (cpu_from_millis 1001) = ''1.001''"
    using fmt by (simp add: cpu_fmt_def cpu_from_millis_def f32_fmt_def f32_mag_fmt_def show_dec_def show_nat.simps [of 1] show_nat.simps [of "Suc 0"] replicate_2)
  have parse: "parse_f32 ''1.001'' = Inr (F32_Fin False (8396997/8388608))"
    using pack by (simp add: parse_f32_def is_digit_def in_range_def digit_val_def)
  have "f32_eq (f32_mul (F32_Fin False (8396997/8388608)) (F32_Fin False 1000))
      (f32_round (f32_mul (F32_Fin False (8396997/8388608)) (F32_Fin False 1000))) = False"
    by code_simp
  then show "cpu_from_str ''1.001'' = Inl (UnsupportedCpuQuantityPrecision ''1.001'')"
    using parse by (simp add: cpu_from_str_def is_quantity_char_def is_digit_def in_range_def Let_def)
qed

end
