(* ===== verification/Pod_Resources.thy ===== *)
theory Pod_Resources
  imports Builder_Pod Quantities
begin

section \<open>Resource requirements of containers\<close>

text \<open>
  The parts of \<open>commons/resources.rs\<close> that turn a configuration into Kubernetes objects and check them, and
  the builder in \<open>builder/pod/resources.rs\<close>. The warnings of the builder only go to the log.
\<close>

subsection \<open>Kinds of requirements\<close>

datatype resource_requirements_type = Requests | Limits

datatype compute_resource = Cpu | Memory

fun compute_resource_fmt :: "compute_resource \<Rightarrow> string" where
  "compute_resource_fmt Cpu = ''cpu''"
| "compute_resource_fmt Memory = ''memory''"

text \<open>The order of the declaration, by which the builder's maps are sorted.\<close>

instantiation resource_requirements_type :: linorder
begin

definition less_resource_requirements_type :: "resource_requirements_type \<Rightarrow> resource_requirements_type \<Rightarrow> bool" where
  "less_resource_requirements_type a b \<longleftrightarrow> a = Requests \<and> b = Limits"

definition less_eq_resource_requirements_type :: "resource_requirements_type \<Rightarrow> resource_requirements_type \<Rightarrow> bool" where
  "less_eq_resource_requirements_type a b \<longleftrightarrow> a = Requests \<or> b = Limits"

instance
proof
  fix x y z :: resource_requirements_type
  show "x < y \<longleftrightarrow> x \<le> y \<and> \<not> y \<le> x" "x \<le> x" "x \<le> y \<Longrightarrow> y \<le> z \<Longrightarrow> x \<le> z" "x \<le> y \<Longrightarrow> y \<le> x \<Longrightarrow> x = y" "x \<le> y \<or> y \<le> x"
    by (cases x; cases y; simp add: less_resource_requirements_type_def less_eq_resource_requirements_type_def; fail)
      (cases x; cases y; cases z; simp add: less_eq_resource_requirements_type_def)+
qed

end

datatype resources_error =
    MissingResourceRequirements string string resource_requirements_type
  | LimitToRequestRatioExceeded string string f32
  | CpuLimit cpu_error
  | CpuRequest cpu_error
  | MemoryLimit memory_error
  | MemoryRequest memory_error

definition LIMIT_REQUEST_RATIO_CPU :: f32 where
  "LIMIT_REQUEST_RATIO_CPU = F32_Fin False 5"

definition LIMIT_REQUEST_RATIO_MEMORY :: f32 where
  "LIMIT_REQUEST_RATIO_MEMORY = F32_Fin False 1"

subsection \<open>From a configuration\<close>

definition build_pvc :: "string \<Rightarrow> string list option \<Rightarrow> label_selector pvc_config \<Rightarrow> persistent_volume_claim" where
  "build_pvc name access_modes self =
     \<lparr>pvc_metadata = object_meta_default\<lparr>om_name := Some name\<rparr>,
      pvc_spec = Some \<lparr>pvcs_access_modes = access_modes,
        pvcs_requests = Some (case pvc_capacity self of Some capacity \<Rightarrow> btree_insert ''storage'' capacity [] | None \<Rightarrow> []),
        pvcs_selector = pvc_selectors self, pvcs_storage_class_name = pvc_storage_class self\<rparr>\<rparr>"

definition non_empty :: "('k, 'v) btreemap \<Rightarrow> ('k, 'v) btreemap option" where
  "non_empty m = (if m = [] then None else Some m)"

definition resources_into :: "('t, 'r) resources \<Rightarrow> resource_requirements" where
  "resources_into self =
     (let (limits, requests) =
            (case mem_limit (res_memory self) of
               Some memory_limit \<Rightarrow> (btree_insert ''memory'' memory_limit [], btree_insert ''memory'' memory_limit [])
             | None \<Rightarrow> ([], []));
          limits = (case cpu_max (res_cpu self) of Some mx \<Rightarrow> btree_insert ''cpu'' mx limits | None \<Rightarrow> limits);
          requests = (case cpu_min (res_cpu self) of Some mn \<Rightarrow> btree_insert ''cpu'' mn requests | None \<Rightarrow> requests)
      in \<lparr>rr_limits = non_empty limits, rr_requests = non_empty requests\<rparr>)"

subsection \<open>Checks\<close>

definition requirements_of :: "resource_requirements_type \<Rightarrow> container \<Rightarrow> (string, string) btreemap option" where
  "requirements_of rr_type self =
     (case rr_type of
        Limits \<Rightarrow> Option.bind (c_resources self) rr_limits
      | Requests \<Rightarrow> Option.bind (c_resources self) rr_requests)"

definition check_resource_requirement ::
    "resource_requirements_type \<Rightarrow> string \<Rightarrow> container \<Rightarrow> (unit, resources_error) result" where
  "check_resource_requirement rr_type resource self =
     (if Option.bind (requirements_of rr_type self) (\<lambda>r. btree_get r resource) = None
      then Inl (MissingResourceRequirements (c_name self) resource rr_type)
      else Inr ())"

definition f32_le :: "f32 \<Rightarrow> f32 \<Rightarrow> bool" where
  "f32_le x y \<longleftrightarrow> f32_partial_cmp x y \<in> {Some Less, Some Equal}"

definition check_limit_to_request_ratio ::
    "compute_resource \<Rightarrow> f32 \<Rightarrow> container \<Rightarrow> (unit, resources_error) result" where
  "check_limit_to_request_ratio resource ratio self =
     (let limit = Option.bind (requirements_of Limits self) (\<lambda>l. btree_get l (compute_resource_fmt resource));
          request = Option.bind (requirements_of Requests self) (\<lambda>r. btree_get r (compute_resource_fmt resource));
          exceeded = Inl (LimitToRequestRatioExceeded (c_name self) (compute_resource_fmt resource) ratio)
      in case (limit, request) of
           (Some limit, Some request) \<Rightarrow>
             (case resource of
                Cpu \<Rightarrow>
                  and_then (map_err CpuLimit (cpu_try_from limit)) (\<lambda>limit.
                  and_then (map_err CpuRequest (cpu_try_from request)) (\<lambda>request.
                  if f32_le (cpu_div limit request) ratio then Inr () else exceeded))
              | Memory \<Rightarrow>
                  and_then (map_err MemoryLimit (memory_try_from limit)) (\<lambda>limit.
                  and_then (map_err MemoryRequest (memory_try_from request)) (\<lambda>request.
                  if f32_le (memory_div limit request) ratio then Inr () else exceeded)))
         | _ \<Rightarrow> exceeded)"

definition has_resource_requirement :: "resource_requirements_type \<Rightarrow> string \<Rightarrow> container \<Rightarrow> bool" where
  "has_resource_requirement rr_type resource self = is_ok (check_resource_requirement rr_type resource self)"

text \<open>The first error of a loop of checks.\<close>

fun try_each :: "('a \<Rightarrow> (unit, 'e) result) \<Rightarrow> 'a list \<Rightarrow> (unit, 'e) result" where
  "try_each f [] = Inr ()"
| "try_each f (x # xs) = and_then (f x) (\<lambda>_. try_each f xs)"

definition check_resource_requirements ::
    "resource_requirements_type list \<Rightarrow> string \<Rightarrow> container \<Rightarrow> (unit, resources_error) result" where
  "check_resource_requirements rr_types resource self = try_each (\<lambda>rr_type. check_resource_requirement rr_type resource self) rr_types"

definition has_resource_requirements :: "resource_requirements_type list \<Rightarrow> string \<Rightarrow> container \<Rightarrow> bool" where
  "has_resource_requirements rr_types resource self = is_ok (check_resource_requirements rr_types resource self)"

definition pod_check_resource_requirement ::
    "resource_requirements_type \<Rightarrow> string \<Rightarrow> pod_spec \<Rightarrow> (unit, resources_error) result" where
  "pod_check_resource_requirement rr_type resource self =
     try_each (check_resource_requirement rr_type resource) (sp_containers self)"

definition pod_check_limit_to_request_ratio ::
    "compute_resource \<Rightarrow> f32 \<Rightarrow> pod_spec \<Rightarrow> (unit, resources_error) result" where
  "pod_check_limit_to_request_ratio resource ratio self =
     try_each (check_limit_to_request_ratio resource ratio) (sp_containers self)"

subsection \<open>The builder\<close>

definition RESOURCE_DENYLIST :: "string list" where
  "RESOURCE_DENYLIST = [''cpu'', ''memory'']"

record ('cr, 'cl, 'mr, 'ml) resource_requirements_builder =
  rrb_other :: "(string, (resource_requirements_type, string) btreemap) btreemap"
  rrb_cpu_request :: 'cr
  rrb_mem_request :: 'mr
  rrb_mem_limit :: 'ml
  rrb_cpu_limit :: 'cl

definition requirements_new :: "(unit, unit, unit, unit) resource_requirements_builder" where
  "requirements_new = \<lparr>rrb_other = [], rrb_cpu_request = (), rrb_mem_request = (), rrb_mem_limit = (), rrb_cpu_limit = ()\<rparr>"

definition with_cpu_request ::
    "string \<Rightarrow> (unit, 'cl, 'mr, 'ml) resource_requirements_builder \<Rightarrow> (string, 'cl, 'mr, 'ml) resource_requirements_builder" where
  "with_cpu_request request self =
     \<lparr>rrb_other = rrb_other self, rrb_cpu_request = request, rrb_mem_request = rrb_mem_request self,
      rrb_mem_limit = rrb_mem_limit self, rrb_cpu_limit = rrb_cpu_limit self\<rparr>"

definition with_cpu_range ::
    "string \<Rightarrow> f32 \<Rightarrow> (unit, 'cl, 'mr, 'ml) resource_requirements_builder
      \<Rightarrow> ((string, string, 'mr, 'ml) resource_requirements_builder, cpu_error) result" where
  "with_cpu_range request factor self =
     and_then (cpu_from_str request) (\<lambda>request.
     let limit = cpu_mul_f32 request factor in
     Inr \<lparr>rrb_other = rrb_other self, rrb_cpu_request = cpu_into_quantity request, rrb_mem_request = rrb_mem_request self,
          rrb_mem_limit = rrb_mem_limit self, rrb_cpu_limit = cpu_into_quantity limit\<rparr>)"

definition with_cpu_limit ::
    "string \<Rightarrow> (string, unit, 'mr, 'ml) resource_requirements_builder \<Rightarrow> (string, string, 'mr, 'ml) resource_requirements_builder" where
  "with_cpu_limit limit self =
     \<lparr>rrb_other = rrb_other self, rrb_cpu_request = rrb_cpu_request self, rrb_mem_request = rrb_mem_request self,
      rrb_mem_limit = rrb_mem_limit self, rrb_cpu_limit = limit\<rparr>"

definition with_memory_request ::
    "string \<Rightarrow> ('cr, 'cl, unit, 'ml) resource_requirements_builder \<Rightarrow> ('cr, 'cl, string, 'ml) resource_requirements_builder" where
  "with_memory_request request self =
     \<lparr>rrb_other = rrb_other self, rrb_cpu_request = rrb_cpu_request self, rrb_mem_request = request,
      rrb_mem_limit = rrb_mem_limit self, rrb_cpu_limit = rrb_cpu_limit self\<rparr>"

definition with_memory_range ::
    "string \<Rightarrow> f32 \<Rightarrow> ('cr, 'cl, unit, 'ml) resource_requirements_builder
      \<Rightarrow> (('cr, 'cl, string, string) resource_requirements_builder, memory_error) result" where
  "with_memory_range request factor self =
     and_then (memory_from_str request) (\<lambda>request.
     let limit = memory_mul request factor in
     Inr \<lparr>rrb_other = rrb_other self, rrb_cpu_request = rrb_cpu_request self, rrb_mem_request = memory_into_quantity request,
          rrb_mem_limit = memory_into_quantity limit, rrb_cpu_limit = rrb_cpu_limit self\<rparr>)"

definition with_memory_limit ::
    "string \<Rightarrow> ('cr, 'cl, string, unit) resource_requirements_builder \<Rightarrow> ('cr, 'cl, string, string) resource_requirements_builder" where
  "with_memory_limit limit self =
     \<lparr>rrb_other = rrb_other self, rrb_cpu_request = rrb_cpu_request self, rrb_mem_request = rrb_mem_request self,
      rrb_mem_limit = limit, rrb_cpu_limit = rrb_cpu_limit self\<rparr>"

definition with_resource ::
    "resource_requirements_type \<Rightarrow> string \<Rightarrow> string \<Rightarrow> ('cr, 'cl, 'mr, 'ml) resource_requirements_builder
      \<Rightarrow> ('cr, 'cl, 'mr, 'ml) resource_requirements_builder" where
  "with_resource rr_type resource quantity self =
     (if resource \<in> set RESOURCE_DENYLIST then self
      else case btree_get (rrb_other self) resource of
             Some types \<Rightarrow> self\<lparr>rrb_other := btree_insert resource (btree_insert rr_type quantity types) (rrb_other self)\<rparr>
           | None \<Rightarrow> self\<lparr>rrb_other := btree_insert resource [(rr_type, quantity)] (rrb_other self)\<rparr>)"

fun insert_types ::
    "string \<Rightarrow> (resource_requirements_type \<times> string) list \<Rightarrow> (string, string) btreemap \<times> (string, string) btreemap
      \<Rightarrow> (string, string) btreemap \<times> (string, string) btreemap" where
  "insert_types resource [] m = m"
| "insert_types resource ((Limits, quantity) # types) (limits, requests) =
     insert_types resource types (btree_insert resource quantity limits, requests)"
| "insert_types resource ((Requests, quantity) # types) (limits, requests) =
     insert_types resource types (limits, btree_insert resource quantity requests)"

definition requirements_build :: "(string, string, string, string) resource_requirements_builder \<Rightarrow> resource_requirements" where
  "requirements_build self =
     (let limits = btree_insert ''memory'' (rrb_mem_limit self) (btree_insert ''cpu'' (rrb_cpu_limit self) []);
          requests = btree_insert ''memory'' (rrb_mem_request self) (btree_insert ''cpu'' (rrb_cpu_request self) []);
          (limits, requests) = foldl (\<lambda>m (resource, types). insert_types resource types m) (limits, requests) (rrb_other self)
      in \<lparr>rr_limits = non_empty limits, rr_requests = non_empty requests\<rparr>)"

subsection \<open>What was set last is built\<close>

definition other_inv :: "(string, (resource_requirements_type, string) btreemap) btreemap \<Rightarrow> bool" where
  "other_inv m \<longleftrightarrow> btree_inv m \<and> (\<forall>(k, types) \<in> set m. btree_inv types \<and> k \<notin> set RESOURCE_DENYLIST)"

definition other_get ::
    "(string, (resource_requirements_type, string) btreemap) btreemap \<Rightarrow> resource_requirements_type \<Rightarrow> string \<Rightarrow> string option" where
  "other_get m rr_type resource = Option.bind (btree_get m resource) (\<lambda>types. btree_get types rr_type)"

lemma other_inv_get: "other_inv m \<Longrightarrow> btree_get m k = Some types \<Longrightarrow> btree_inv types \<and> k \<notin> set RESOURCE_DENYLIST"
  by (auto simp: other_inv_def btree_get_def dest!: map_of_SomeD)

lemma other_inv_insert:
  "other_inv m \<Longrightarrow> btree_inv types \<Longrightarrow> k \<notin> set RESOURCE_DENYLIST \<Longrightarrow> other_inv (btree_insert k types m)"
  using btree_insert_set [of k types m] by (fastforce simp: other_inv_def)

lemma with_resource_spec:
  assumes "other_inv (rrb_other b)"
  shows "other_inv (rrb_other (with_resource t r q b))"
    and "other_get (rrb_other (with_resource t r q b)) t' k =
      (if r \<notin> set RESOURCE_DENYLIST \<and> t' = t \<and> k = r then Some q else other_get (rrb_other b) t' k)"
proof -
  have inv: "btree_inv (rrb_other b)" using assms by (simp add: other_inv_def)
  have types: "btree_inv types" if "btree_get (rrb_other b) r = Some types" for types
    using other_inv_get [OF assms that] by simp
  have one: "btree_inv [(t, q)]" by (simp add: btree_inv_def)
  show "other_inv (rrb_other (with_resource t r q b))"
    using assms one types by (auto simp: with_resource_def intro!: other_inv_insert split: option.split)
  show "other_get (rrb_other (with_resource t r q b)) t' k =
      (if r \<notin> set RESOURCE_DENYLIST \<and> t' = t \<and> k = r then Some q else other_get (rrb_other b) t' k)"
    using inv types
    by (cases "btree_get (rrb_other b) r") (auto simp: with_resource_def other_get_def btree_get_def map_of_btree_insert)
qed

lemma insert_types_spec:
  assumes "distinct (map fst types)" "btree_inv l" "btree_inv q"
  shows "btree_inv (fst (insert_types r types (l, q))) \<and> btree_inv (snd (insert_types r types (l, q))) \<and>
    btree_get (fst (insert_types r types (l, q))) k = (if k = r \<and> map_of types Limits \<noteq> None then map_of types Limits else btree_get l k) \<and>
    btree_get (snd (insert_types r types (l, q))) k = (if k = r \<and> map_of types Requests \<noteq> None then map_of types Requests else btree_get q k)"
  using assms
proof (induction r types "(l, q)" arbitrary: l q rule: insert_types.induct)
  case (2 r v types l q)
  then have "map_of types Limits = None" by (simp add: map_of_eq_None_iff)
  then show ?case using 2 by auto
next
  case (3 r v types l q)
  then have "map_of types Requests = None" by (simp add: map_of_eq_None_iff)
  then show ?case using 3 by auto
qed auto

lemma other_get_Cons:
  "other_get ((r, types) # m) t k = (if k = r then map_of types t else other_get m t k)"
  by (simp add: other_get_def btree_get_def)

lemma other_get_notin: "r \<notin> fst ` set m \<Longrightarrow> other_get m t r = None"
  by (simp add: other_get_def btree_get_def map_of_eq_None_iff [THEN iffD2])

lemma build_other:
  assumes "btree_inv m" "\<forall>(k, types) \<in> set m. btree_inv types" "btree_inv l" "btree_inv q"
    "foldl (\<lambda>m (resource, types). insert_types resource types m) (l, q) m = (l', q')"
  shows "btree_inv l' \<and> btree_inv q' \<and>
    btree_get l' k = (if other_get m Limits k \<noteq> None then other_get m Limits k else btree_get l k) \<and>
    btree_get q' k = (if other_get m Requests k \<noteq> None then other_get m Requests k else btree_get q k)"
  using assms
proof (induction m arbitrary: l q)
  case Nil
  then show ?case by (simp add: other_get_def)
next
  case (Cons e m)
  obtain r types where e: "e = (r, types)" by (cases e)
  obtain l1 q1 where lq: "insert_types r types (l, q) = (l1, q1)" by (cases "insert_types r types (l, q)")
  have d: "distinct (map fst types)" using Cons.prems(2) e by (auto simp: btree_inv_def strict_sorted_iff)
  have r: "other_get m t r = None" for t using Cons.prems(1) e by (intro other_get_notin) (auto simp: btree_inv_def)
  have step: "btree_inv l1" "btree_inv q1"
    "btree_get l1 k = (if k = r \<and> map_of types Limits \<noteq> None then map_of types Limits else btree_get l k)"
    "btree_get q1 k = (if k = r \<and> map_of types Requests \<noteq> None then map_of types Requests else btree_get q k)"
    using insert_types_spec [OF d Cons.prems(3,4), of r k] lq by simp_all
  have "btree_inv m" using Cons.prems(1) by (simp add: btree_inv_def)
  then have "btree_inv l' \<and> btree_inv q' \<and>
      btree_get l' k = (if other_get m Limits k \<noteq> None then other_get m Limits k else btree_get l1 k) \<and>
      btree_get q' k = (if other_get m Requests k \<noteq> None then other_get m Requests k else btree_get q1 k)"
    using Cons.IH [of l1 q1] Cons.prems(2,5) step(1,2) e lq by simp
  then show ?case using step(3,4) r by (cases "k = r") (auto simp: e other_get_Cons)
qed

abbreviation with_resources ::
    "(resource_requirements_type \<times> string \<times> string) list \<Rightarrow> ('cr, 'cl, 'mr, 'ml) resource_requirements_builder
      \<Rightarrow> ('cr, 'cl, 'mr, 'ml) resource_requirements_builder" where
  "with_resources rs b \<equiv> foldl (\<lambda>b (t, r, q). with_resource t r q b) b rs"

definition last_set :: "(resource_requirements_type \<times> string \<times> string) list \<Rightarrow> resource_requirements_type \<Rightarrow> string \<Rightarrow> string option" where
  "last_set rs t k = (if k \<in> set RESOURCE_DENYLIST then None else map_of (rev (map (\<lambda>(t, r, q). ((t, r), q)) rs)) (t, k))"

lemma with_resources_spec:
  assumes "rrb_other b = []"
  shows "other_inv (rrb_other (with_resources rs b)) \<and> other_get (rrb_other (with_resources rs b)) t k = last_set rs t k"
proof (induction rs rule: rev_induct)
  case Nil
  then show ?case using assms by (simp add: other_inv_def other_get_def last_set_def)
next
  case (snoc e rs)
  obtain t' r q where e: "e = (t', r, q)" by (cases e)
  then show ?case
    using snoc with_resource_spec [of "with_resources rs b" t' r q] by (auto simp: last_set_def)
qed

lemma with_resource_fields [simp]:
  "rrb_cpu_limit (with_resource t r q b) = rrb_cpu_limit b" "rrb_cpu_request (with_resource t r q b) = rrb_cpu_request b"
  "rrb_mem_limit (with_resource t r q b) = rrb_mem_limit b" "rrb_mem_request (with_resource t r q b) = rrb_mem_request b"
  by (simp_all add: with_resource_def split: option.split)

lemma with_resources_fields [simp]:
  "rrb_cpu_limit (with_resources rs b) = rrb_cpu_limit b" "rrb_cpu_request (with_resources rs b) = rrb_cpu_request b"
  "rrb_mem_limit (with_resources rs b) = rrb_mem_limit b" "rrb_mem_request (with_resources rs b) = rrb_mem_request b"
  by (induction rs rule: rev_induct) (simp_all add: split_beta)

text \<open>
  C35: Setting further resources on a builder changes nothing about CPU and memory, whatever names are
  used, and the built requirements hold for every other resource the quantity that was set last for
  its limit and for its request, although the log says that it is not overwritten.
\<close>

theorem requirements_build_last:
  fixes b :: "(string, string, string, string) resource_requirements_builder"
  assumes "rrb_other b = []"
  shows "\<exists>limits requests. requirements_build (with_resources rs b) = \<lparr>rr_limits = Some limits, rr_requests = Some requests\<rparr> \<and>
    btree_inv limits \<and> btree_inv requests \<and>
    (\<forall>k. btree_get limits k =
       (if k = ''cpu'' then Some (rrb_cpu_limit b) else if k = ''memory'' then Some (rrb_mem_limit b) else last_set rs Limits k)) \<and>
    (\<forall>k. btree_get requests k =
       (if k = ''cpu'' then Some (rrb_cpu_request b) else if k = ''memory'' then Some (rrb_mem_request b) else last_set rs Requests k))"
proof -
  let ?b = "with_resources rs b"
  let ?l = "btree_insert ''memory'' (rrb_mem_limit b) (btree_insert ''cpu'' (rrb_cpu_limit b) [])"
  let ?q = "btree_insert ''memory'' (rrb_mem_request b) (btree_insert ''cpu'' (rrb_cpu_request b) [])"
  obtain l q where lq: "foldl (\<lambda>m (resource, types). insert_types resource types m) (?l, ?q) (rrb_other ?b) = (l, q)"
    by (cases "foldl (\<lambda>m (resource, types). insert_types resource types m) (?l, ?q) (rrb_other ?b)")
  have inv: "other_inv (rrb_other ?b)" and get: "other_get (rrb_other ?b) t k = last_set rs t k" for t k
    using with_resources_spec [OF assms] by auto
  have "btree_inv (rrb_other ?b)" "\<forall>(k, types) \<in> set (rrb_other ?b). btree_inv types"
    using inv by (auto simp: other_inv_def)
  moreover have "btree_inv ?l" "btree_inv ?q" by (simp_all only: btree_inv_insert btree_inv_Nil)
  ultimately have *: "btree_inv l" "btree_inv q"
    "btree_get l k = (if last_set rs Limits k \<noteq> None then last_set rs Limits k else btree_get ?l k)"
    "btree_get q k = (if last_set rs Requests k \<noteq> None then last_set rs Requests k else btree_get ?q k)" for k
    using build_other [OF _ _ _ _ lq, unfolded get] by blast+
  have deny: "last_set rs t ''cpu'' = None" "last_set rs t ''memory'' = None" for t
    by (simp_all add: last_set_def RESOURCE_DENYLIST_def)
  have "l \<noteq> []" "q \<noteq> []" using *(3,4) [of "''cpu''"] deny by (auto simp: btree_get_def)
  then have "requirements_build ?b = \<lparr>rr_limits = Some l, rr_requests = Some q\<rparr>"
    using lq by (simp add: requirements_build_def non_empty_def)
  moreover have "btree_get l k =
       (if k = ''cpu'' then Some (rrb_cpu_limit b) else if k = ''memory'' then Some (rrb_mem_limit b) else last_set rs Limits k)"
    "btree_get q k =
       (if k = ''cpu'' then Some (rrb_cpu_request b) else if k = ''memory'' then Some (rrb_mem_request b) else last_set rs Requests k)" for k
    unfolding *(3,4) using deny by (cases "last_set rs Limits k"; cases "last_set rs Requests k"; simp add: btree_get_def; force)+
  ultimately show ?thesis using *(1,2) by blast
qed

theorem requirements_build_last_witness:
  "\<exists>limits requests.
     requirements_build (with_resources [(Limits, ''cpu'', ''9''), (Limits, ''gpu'', ''1''), (Limits, ''gpu'', ''2'')]
       (with_memory_limit ''2Gi'' (with_memory_request ''1Gi'' (with_cpu_limit ''2'' (with_cpu_request ''1'' requirements_new))))) =
       \<lparr>rr_limits = Some limits, rr_requests = Some requests\<rparr> \<and>
     btree_get limits ''cpu'' = Some ''2'' \<and> btree_get limits ''gpu'' = Some ''2'' \<and> btree_get requests ''gpu'' = None"
proof -
  let ?b = "with_memory_limit ''2Gi'' (with_memory_request ''1Gi'' (with_cpu_limit ''2'' (with_cpu_request ''1'' requirements_new)))"
  have b: "rrb_other ?b = []" "rrb_cpu_limit ?b = ''2''"
    by (simp_all add: with_memory_limit_def with_memory_request_def with_cpu_limit_def with_cpu_request_def requirements_new_def)
  show ?thesis
    using requirements_build_last [OF b(1), of "[(Limits, ''cpu'', ''9''), (Limits, ''gpu'', ''1''), (Limits, ''gpu'', ''2'')]"] b(2)
    by (fastforce simp: last_set_def RESOURCE_DENYLIST_def)
qed

subsection \<open>Configured resources pass the checks\<close>

lemma requirements_of_into:
  "requirements_of t (c\<lparr>c_resources := Some (resources_into r)\<rparr>) =
     (case t of Limits \<Rightarrow> rr_limits (resources_into r) | Requests \<Rightarrow> rr_requests (resources_into r))"
  by (simp add: requirements_of_def split: resource_requirements_type.split)

definition entry :: "'k \<Rightarrow> 'v option \<Rightarrow> ('k \<times> 'v) list" where
  "entry k v = (case v of Some x \<Rightarrow> [(k, x)] | None \<Rightarrow> [])"

lemma resources_into_eq:
  "rr_limits (resources_into r) = non_empty (entry ''cpu'' (cpu_max (res_cpu r)) @ entry ''memory'' (mem_limit (res_memory r)))"
  "rr_requests (resources_into r) = non_empty (entry ''cpu'' (cpu_min (res_cpu r)) @ entry ''memory'' (mem_limit (res_memory r)))"
  by (simp_all add: resources_into_def entry_def Let_def split: option.split)

lemma get_non_empty:
  "Option.bind (non_empty (entry j v @ entry k w)) (\<lambda>l. btree_get l i) =
     (if i = j \<and> v \<noteq> None then v else if i = k then w else None)"
  by (cases v; cases w) (simp_all add: non_empty_def btree_get_def entry_def)

lemma f32_div_self:
  assumes "f32_value a" "0 < a" "a < 2 ^ 128"
  shows "f32_div (F32_Fin False a) (mq_value (scale_to u (mem a u))) = F32_Fin False 1"
  using scale_to_exact [OF assms(1), of 0 u u] assms(2,3) f32_pack_nat [of 1 False]
  by (simp add: f32_div_def)

lemma parse_f32_value:
  assumes "parse_f32 s = Inr (F32_Fin n a)"
  shows "f32_value a \<and> a < 2 ^ 128 \<and> \<not> n"
  using assms
  by (auto simp: parse_f32_def f32_pack_def Let_def intro: f32_value_mag split: if_splits list.splits)

text \<open>
  A container that gets its requirements from a configuration passes the check for a limit or request
  exactly when the configuration sets it, memory having both from the one limit; and with a memory
  limit that reads as a positive amount it also keeps within the ratio of 1 between the limit and
  the request of memory.
\<close>

theorem configured_resources_checked:
  "(is_ok (check_resource_requirement Limits ''cpu'' (c\<lparr>c_resources := Some (resources_into r)\<rparr>)) \<longleftrightarrow> cpu_max (res_cpu r) \<noteq> None) \<and>
    (is_ok (check_resource_requirement Requests ''cpu'' (c\<lparr>c_resources := Some (resources_into r)\<rparr>)) \<longleftrightarrow> cpu_min (res_cpu r) \<noteq> None) \<and>
    (is_ok (check_resource_requirements [Requests, Limits] ''memory'' (c\<lparr>c_resources := Some (resources_into r)\<rparr>)) \<longleftrightarrow> mem_limit (res_memory r) \<noteq> None) \<and>
    (\<forall>q v u. mem_limit (res_memory r) = Some q \<and> memory_from_str q = Inr \<lparr>mq_value = F32_Fin False v, mq_unit = u\<rparr> \<and> v \<noteq> 0 \<longrightarrow>
       check_limit_to_request_ratio Memory LIMIT_REQUEST_RATIO_MEMORY (c\<lparr>c_resources := Some (resources_into r)\<rparr>) = Inr ())"
proof (intro conjI allI impI)
  fix q v u
  assume q: "mem_limit (res_memory r) = Some q \<and> memory_from_str q = Inr \<lparr>mq_value = F32_Fin False v, mq_unit = u\<rparr> \<and> v \<noteq> 0"
  then have "parse_f32 (takeWhile is_quantity_char q) = Inr (F32_Fin False v)"
    by (auto simp: memory_from_str_def Let_def split: if_splits)
  from parse_f32_value [OF this] have v: "f32_value v" "0 < v" "v < 2 ^ 128" using q f32_value_nonneg [of v] by auto
  have "f32_le (memory_div (mem v u) (mem v u)) LIMIT_REQUEST_RATIO_MEMORY"
    using f32_div_self [OF v, of u]
    by (simp add: memory_div_def f32_le_def LIMIT_REQUEST_RATIO_MEMORY_def f32_partial_cmp_def)
  then show "check_limit_to_request_ratio Memory LIMIT_REQUEST_RATIO_MEMORY (c\<lparr>c_resources := Some (resources_into r)\<rparr>) = Inr ()"
    using q unfolding mem_def
    by (simp add: check_limit_to_request_ratio_def requirements_of_into resources_into_eq get_non_empty memory_try_from_def Let_def)
qed (simp_all add: check_resource_requirement_def check_resource_requirements_def requirements_of_into resources_into_eq
      get_non_empty)

theorem configured_resources_checked_witness:
  "\<exists>r :: (unit, unit) resources. mem_limit (res_memory r) = Some ''2Gi'' \<and>
     check_limit_to_request_ratio Memory LIMIT_REQUEST_RATIO_MEMORY
       (container_build (container_builder_default\<lparr>cb_name := ''main''\<rparr>)\<lparr>c_resources := Some (resources_into r)\<rparr>) = Inr ()"
proof -
  let ?r = "\<lparr>res_memory = \<lparr>mem_limit = Some ''2Gi'', mem_runtime_limits = ()\<rparr>, res_cpu = \<lparr>cpu_min = None, cpu_max = None\<rparr>,
             res_storage = ()\<rparr> :: (unit, unit) resources"
  have "f32_fmt (F32_Fin False (of_nat 2)) = ''2''" using f32_fmt_nat [of 2] by (simp add: show_nat.simps [of 2])
  then have "memory_from_str ''2Gi'' = Inr \<lparr>mq_value = F32_Fin False 2, mq_unit = Gibi\<rparr>"
    using memory_read_back [of 2 Gibi] by (simp add: memory_fmt_def)
  then have "check_limit_to_request_ratio Memory LIMIT_REQUEST_RATIO_MEMORY
      (container_build (container_builder_default\<lparr>cb_name := ''main''\<rparr>)\<lparr>c_resources := Some (resources_into ?r)\<rparr>) = Inr ()"
    using configured_resources_checked [where r = ?r] by fastforce
  then show ?thesis by (intro exI [of _ ?r]) simp
qed

end
