(* ===== verification/Connections.thy ===== *)
theory Connections
  imports Builder_Pod Kube_Client
begin

section \<open>Connections to other services\<close>

text \<open>
  Host names (\<open>commons/networking.rs\<close>), secret class volumes (\<open>commons/secret_class.rs\<close>), TLS
  verification (\<open>commons/tls_verification.rs\<close>), and the S3, LDAP and OIDC definitions under \<open>crd/s3\<close> and
  \<open>crd/authentication\<close>.

  The address parser of \<open>std::net\<close> and the \<open>url\<close> crate are arguments of the functions that use them; an
  address is its canonical text. A builder that was changed before an error is not used afterwards,
  so a failing function returns the error alone.
\<close>

subsection \<open>Host names\<close>

datatype domain_name = DomainName (domain_name_fmt: string)

definition domain_name_from_str :: "string \<Rightarrow> (domain_name, validation_errors) result" where
  "domain_name_from_str value = and_then (is_domain value) (\<lambda>_. Inr (DomainName value))"

datatype ip_addr = V4 string | V6 string

fun ip_addr_fmt :: "ip_addr \<Rightarrow> string" where
  "ip_addr_fmt (V4 s) = s"
| "ip_addr_fmt (V6 s) = s"

datatype host_name = IpAddress ip_addr | HostDomain domain_name

datatype host_name_parse_error = InvalidHostname string

definition host_name_from_str :: "(string \<Rightarrow> ip_addr option) \<Rightarrow> string \<Rightarrow> (host_name, host_name_parse_error) result" where
  "host_name_from_str parse_ip value =
     (case parse_ip value of
        Some ip \<Rightarrow> Inr (IpAddress ip)
      | None \<Rightarrow>
          (case domain_name_from_str value of
             Inr domain_name \<Rightarrow> Inr (HostDomain domain_name)
           | Inl _ \<Rightarrow> Inl (InvalidHostname value)))"

fun host_name_fmt :: "host_name \<Rightarrow> string" where
  "host_name_fmt (IpAddress ip) = ip_addr_fmt ip"
| "host_name_fmt (HostDomain domain_name) = domain_name_fmt domain_name"

fun as_url_host :: "host_name \<Rightarrow> string" where
  "as_url_host (IpAddress (V4 ip)) = ip"
| "as_url_host (IpAddress (V6 ip)) = ''['' @ ip @ '']''"
| "as_url_host (HostDomain domain_name) = domain_name_fmt domain_name"

subsection \<open>Volumes of secret classes\<close>

record secret_class_volume_scope =
  scope_pod :: bool
  scope_node :: bool
  scope_services :: "string list"
  scope_listener_volumes :: "string list"

record secret_class_volume =
  scv_secret_class :: string
  scv_scope :: "secret_class_volume_scope option"

datatype secret_class_volume_error = SecretOperatorVolume secret_volume_error

text \<open>The outer option of the volume functions is a panic in the annotations.\<close>

definition to_ephemeral_volume_source ::
    "secret_class_volume \<Rightarrow> secret_class_volume_provision_parts
      \<Rightarrow> (ephemeral_volume_source, secret_class_volume_error) result option" where
  "to_ephemeral_volume_source self provision_parts =
     (let builder = secret_volume_new (scv_secret_class self) provision_parts;
          builder =
            (case scv_scope self of
               Some scope \<Rightarrow>
                 let builder = (if scope_pod scope then with_pod_scope builder else builder);
                     builder = (if scope_node scope then with_node_scope builder else builder);
                     builder = foldl (\<lambda>b service. with_service_scope service b) builder (scope_services scope)
                 in foldl (\<lambda>b listener_volume. with_listener_volume_scope listener_volume b) builder
                      (scope_listener_volumes scope)
             | None \<Rightarrow> builder)
      in map_option (map_err SecretOperatorVolume) (secret_volume_build builder))"

definition secret_class_to_volume ::
    "secret_class_volume \<Rightarrow> string \<Rightarrow> secret_class_volume_provision_parts
      \<Rightarrow> (volume, secret_class_volume_error) result option" where
  "secret_class_to_volume self volume_name provision_parts =
     map_option (\<lambda>r. and_then r (\<lambda>ephemeral. Inr (volume_build (volume_ephemeral ephemeral (volume_new volume_name)))))
       (to_ephemeral_volume_source self provision_parts)"

definition SECRET_BASE_PATH :: string where
  "SECRET_BASE_PATH = ''/stackable/secrets''"

subsection \<open>TLS\<close>

datatype ca_cert = WebPki | SecretClassCert string

datatype tls_verification = NoVerification | ServerVerification ca_cert

text \<open>\<open>TlsClientDetails\<close>; the struct \<open>Tls\<close> is its verification.\<close>

type_synonym tls_client_details = "tls_verification option"

datatype tls_client_details_error =
    TlsSecretClassVolume secret_class_volume_error
  | TlsAddVolumes pod_error
  | TlsAddVolumeMounts container_error
  | TlsPanic

definition default_web_pki_tls :: tls_client_details where
  "default_web_pki_tls = Some (ServerVerification WebPki)"

definition uses_tls :: "tls_client_details \<Rightarrow> bool" where
  "uses_tls self \<longleftrightarrow> self \<noteq> None"

definition uses_tls_verification :: "tls_client_details \<Rightarrow> bool" where
  "uses_tls_verification self = (case self of Some verification \<Rightarrow> verification \<noteq> NoVerification | None \<Rightarrow> False)"

definition tls_ca_cert_secret_class :: "tls_client_details \<Rightarrow> string option" where
  "tls_ca_cert_secret_class self =
     (case self of Some (ServerVerification (SecretClassCert cls)) \<Rightarrow> Some cls | _ \<Rightarrow> None)"

definition tls_ca_cert_mount_path :: "tls_client_details \<Rightarrow> string option" where
  "tls_ca_cert_mount_path self =
     map_option (\<lambda>cls. SECRET_BASE_PATH @ ''/'' @ cls @ ''/ca.crt'') (tls_ca_cert_secret_class self)"

text \<open>A panic is carried as the extra error of each function, so that the results compose.\<close>

definition or_panic :: "'e \<Rightarrow> ('a, 'e) result option \<Rightarrow> ('a, 'e) result" where
  "or_panic p r = (case r of None \<Rightarrow> Inl p | Some r' \<Rightarrow> r')"

definition tls_volumes_and_mounts ::
    "tls_client_details \<Rightarrow> (volume list \<times> volume_mount list, tls_client_details_error) result" where
  "tls_volumes_and_mounts self =
     (case tls_ca_cert_secret_class self of
        Some cls \<Rightarrow>
          (let volume_name = cls @ ''-ca-cert'' in
           and_then (or_panic TlsPanic (map_option (map_err TlsSecretClassVolume)
             (secret_class_to_volume \<lparr>scv_secret_class = cls, scv_scope = None\<rparr> volume_name Public))) (\<lambda>volume.
           Inr ([volume], [volume_mount_build (volume_mount_new volume_name (SECRET_BASE_PATH @ ''/'' @ cls))])))
      | None \<Rightarrow> Inr ([], []))"

definition tls_add_volumes_and_mounts ::
    "tls_client_details \<Rightarrow> pod_builder \<Rightarrow> container_builder list
      \<Rightarrow> (pod_builder \<times> container_builder list, tls_client_details_error) result" where
  "tls_add_volumes_and_mounts self pod_builder container_builders =
     and_then (tls_volumes_and_mounts self) (\<lambda>(volumes, mounts).
     and_then (map_err TlsAddVolumes (add_volumes volumes pod_builder)) (\<lambda>pod_builder.
     and_then (map_err TlsAddVolumeMounts (traverse_list (add_volume_mounts mounts) container_builders)) (\<lambda>container_builders.
     Inr (pod_builder, container_builders))))"

subsection \<open>S3\<close>

datatype s3_access_style = PathStyle | VirtualHosted

record s3_region =
  region_name :: string

definition DEFAULT_REGION_NAME :: string where
  "DEFAULT_REGION_NAME = ''us-east-1''"

definition is_default_config :: "s3_region \<Rightarrow> bool" where
  "is_default_config self \<longleftrightarrow> region_name self = DEFAULT_REGION_NAME"

definition s3_region_default :: s3_region where
  "s3_region_default = \<lparr>region_name = DEFAULT_REGION_NAME\<rparr>"

record connection_spec =
  s3_host :: host_name
  s3_port :: "16 word option"
  s3_the_region :: s3_region
  s3_style :: s3_access_style
  s3_credentials :: "secret_class_volume option"
  s3_tls :: tls_client_details

datatype ('u, 'ue) connection_error =
    RetrieveS3Connection client_error string
  | ParseS3Endpoint 'ue string
  | SetS3EndpointScheme 'u string
  | AddS3CredentialVolumes secret_class_volume_error
  | AddS3TlsClientDetailsVolumes tls_client_details_error
  | S3AddVolumes pod_error
  | S3AddVolumeMounts container_error
  | S3Panic

definition s3_connection_port :: "connection_spec \<Rightarrow> 16 word" where
  "s3_connection_port self =
     (case s3_port self of Some port \<Rightarrow> port | None \<Rightarrow> if uses_tls (s3_tls self) then 443 else 80)"

definition show_port :: "16 word \<Rightarrow> string" where
  "show_port p = show_nat (unat p)"

definition s3_endpoint ::
    "(string \<Rightarrow> ('u, 'ue) result) \<Rightarrow> (string \<Rightarrow> 'u \<Rightarrow> 'u option) \<Rightarrow> connection_spec \<Rightarrow> ('u, ('u, 'ue) connection_error) result" where
  "s3_endpoint url_parse set_scheme self =
     (let endpoint = ''http://'' @ as_url_host (s3_host self) @ '':'' @ show_port (s3_connection_port self) in
      and_then (map_err (\<lambda>e. ParseS3Endpoint e endpoint) (url_parse endpoint)) (\<lambda>url.
      if uses_tls (s3_tls self) then ok_or (SetS3EndpointScheme url ''https'') (set_scheme ''https'' url) else Inr url))"

definition s3_volumes_and_mounts ::
    "connection_spec \<Rightarrow> (volume list \<times> volume_mount list, ('u, 'ue) connection_error) result" where
  "s3_volumes_and_mounts self =
     and_then
       (case s3_credentials self of
          Some credentials \<Rightarrow>
            (let cls = scv_secret_class credentials; volume_name = cls @ ''-s3-credentials'' in
             and_then (or_panic S3Panic (map_option (map_err AddS3CredentialVolumes)
               (secret_class_to_volume credentials volume_name PublicPrivate))) (\<lambda>volume.
             Inr ([volume], [volume_mount_build (volume_mount_new volume_name (SECRET_BASE_PATH @ ''/'' @ cls))])))
        | None \<Rightarrow> Inr ([], [])) (\<lambda>(volumes, mounts).
     and_then (map_err AddS3TlsClientDetailsVolumes (tls_volumes_and_mounts (s3_tls self))) (\<lambda>(tls_volumes, tls_mounts).
     Inr (volumes @ tls_volumes, mounts @ tls_mounts)))"

definition s3_add_volumes_and_mounts ::
    "connection_spec \<Rightarrow> pod_builder \<Rightarrow> container_builder list
      \<Rightarrow> (pod_builder \<times> container_builder list, ('u, 'ue) connection_error) result" where
  "s3_add_volumes_and_mounts self pod_builder container_builders =
     and_then (s3_volumes_and_mounts self) (\<lambda>(volumes, mounts).
     and_then (map_err S3AddVolumes (add_volumes volumes pod_builder)) (\<lambda>pod_builder.
     and_then (map_err S3AddVolumeMounts (traverse_list (add_volume_mounts mounts) container_builders)) (\<lambda>container_builders.
     Inr (pod_builder, container_builders))))"

definition s3_credentials_mount_paths :: "connection_spec \<Rightarrow> (string \<times> string) option" where
  "s3_credentials_mount_paths self =
     map_option (\<lambda>bind_credentials.
       (SECRET_BASE_PATH @ ''/'' @ scv_secret_class bind_credentials @ ''/accessKey'',
        SECRET_BASE_PATH @ ''/'' @ scv_secret_class bind_credentials @ ''/secretKey'')) (s3_credentials self)"

datatype inline_connection_or_reference = InlineConnection connection_spec | ConnectionReference string

text \<open>\<open>get\<close> is \<open>Client::get\<close> for the custom resource, as name and namespace to its spec.\<close>

fun connection_resolve ::
    "(string \<Rightarrow> string \<Rightarrow> (connection_spec, client_error) result) \<Rightarrow> string \<Rightarrow> inline_connection_or_reference
      \<Rightarrow> (connection_spec, ('u, 'ue) connection_error) result" where
  "connection_resolve get_connection namespace (InlineConnection inline) = Inr inline"
| "connection_resolve get_connection namespace (ConnectionReference reference) =
     map_err (\<lambda>e. RetrieveS3Connection e reference) (get_connection reference namespace)"

record bucket_spec =
  bucket_name :: string
  bucket_connection :: inline_connection_or_reference

datatype inline_bucket_or_reference = InlineBucket bucket_spec | BucketReference string

record resolved_bucket =
  rb_bucket_name :: string
  rb_connection :: connection_spec

datatype ('u, 'ue) bucket_error = BucketRetrieveS3Connection client_error string | ResolveConnection "('u, 'ue) connection_error"

definition bucket_with_connection ::
    "(string \<Rightarrow> string \<Rightarrow> (connection_spec, client_error) result) \<Rightarrow> string \<Rightarrow> bucket_spec
      \<Rightarrow> (resolved_bucket, ('u, 'ue) bucket_error) result" where
  "bucket_with_connection get_connection namespace spec =
     and_then (map_err ResolveConnection (connection_resolve get_connection namespace (bucket_connection spec))) (\<lambda>connection.
     Inr \<lparr>rb_bucket_name = bucket_name spec, rb_connection = connection\<rparr>)"

fun bucket_resolve ::
    "(string \<Rightarrow> string \<Rightarrow> (bucket_spec, client_error) result) \<Rightarrow> (string \<Rightarrow> string \<Rightarrow> (connection_spec, client_error) result)
      \<Rightarrow> string \<Rightarrow> inline_bucket_or_reference \<Rightarrow> (resolved_bucket, ('u, 'ue) bucket_error) result" where
  "bucket_resolve get_bucket get_connection namespace (InlineBucket inline) =
     bucket_with_connection get_connection namespace inline"
| "bucket_resolve get_bucket get_connection namespace (BucketReference reference) =
     and_then (map_err (\<lambda>e. BucketRetrieveS3Connection e reference) (get_bucket reference namespace))
       (bucket_with_connection get_connection namespace)"

subsection \<open>LDAP\<close>

record ldap_field_names =
  ldap_uid :: string
  ldap_group :: string
  ldap_given_name :: string
  ldap_surname :: string
  ldap_email :: string

definition ldap_field_names_default :: ldap_field_names where
  "ldap_field_names_default =
     \<lparr>ldap_uid = ''uid'', ldap_group = ''memberof'', ldap_given_name = ''givenName'', ldap_surname = ''sn'', ldap_email = ''mail''\<rparr>"

record ldap_provider =
  ldap_hostname :: host_name
  ldap_the_port :: "16 word option"
  ldap_search_base :: string
  ldap_search_filter :: string
  ldap_field_names :: ldap_field_names
  ldap_bind_credentials :: "secret_class_volume option"
  ldap_tls :: tls_client_details

datatype 'ue ldap_error =
    BindCredentials secret_class_volume_error
  | ParseLdapEndpointUrl 'ue
  | AddLdapTlsClientDetailsVolumes tls_client_details_error
  | LdapAddVolumes pod_error
  | LdapAddVolumeMounts container_error
  | LdapPanic

definition ldap_port :: "ldap_provider \<Rightarrow> 16 word" where
  "ldap_port self = (case ldap_the_port self of Some port \<Rightarrow> port | None \<Rightarrow> if uses_tls (ldap_tls self) then 636 else 389)"

definition ldap_endpoint_string :: "ldap_provider \<Rightarrow> string" where
  "ldap_endpoint_string self =
     (case ldap_tls self of None \<Rightarrow> ''ldap://'' | Some _ \<Rightarrow> ''ldaps://'') @ host_name_fmt (ldap_hostname self) @ '':'' @
     show_port (ldap_port self)"

definition ldap_endpoint_url :: "(string \<Rightarrow> ('u, 'ue) result) \<Rightarrow> ldap_provider \<Rightarrow> ('u, 'ue ldap_error) result" where
  "ldap_endpoint_url url_parse self = map_err ParseLdapEndpointUrl (url_parse (ldap_endpoint_string self))"

definition ldap_volumes_and_mounts ::
    "ldap_provider \<Rightarrow> (volume list \<times> volume_mount list, 'ue ldap_error) result" where
  "ldap_volumes_and_mounts self =
     and_then
       (case ldap_bind_credentials self of
          Some bind_credentials \<Rightarrow>
            (let cls = scv_secret_class bind_credentials; volume_name = cls @ ''-bind-credentials'' in
             and_then (or_panic LdapPanic (map_option (map_err BindCredentials)
               (secret_class_to_volume bind_credentials volume_name PublicPrivate))) (\<lambda>volume.
             Inr ([volume], [volume_mount_build (volume_mount_new volume_name (SECRET_BASE_PATH @ ''/'' @ cls))])))
        | None \<Rightarrow> Inr ([], [])) (\<lambda>(volumes, mounts).
     and_then (map_err AddLdapTlsClientDetailsVolumes (tls_volumes_and_mounts (ldap_tls self))) (\<lambda>(tls_volumes, tls_mounts).
     Inr (volumes @ tls_volumes, mounts @ tls_mounts)))"

definition ldap_add_volumes_and_mounts ::
    "ldap_provider \<Rightarrow> pod_builder \<Rightarrow> container_builder list
      \<Rightarrow> (pod_builder \<times> container_builder list, 'ue ldap_error) result" where
  "ldap_add_volumes_and_mounts self pod_builder container_builders =
     and_then (ldap_volumes_and_mounts self) (\<lambda>(volumes, mounts).
     and_then (map_err LdapAddVolumes (add_volumes volumes pod_builder)) (\<lambda>pod_builder.
     and_then (map_err LdapAddVolumeMounts (traverse_list (add_volume_mounts mounts) container_builders)) (\<lambda>container_builders.
     Inr (pod_builder, container_builders))))"

definition bind_credentials_mount_paths :: "ldap_provider \<Rightarrow> (string \<times> string) option" where
  "bind_credentials_mount_paths self =
     map_option (\<lambda>bind_credentials.
       (SECRET_BASE_PATH @ ''/'' @ scv_secret_class bind_credentials @ ''/user'',
        SECRET_BASE_PATH @ ''/'' @ scv_secret_class bind_credentials @ ''/password'')) (ldap_bind_credentials self)"

definition has_bind_credentials :: "ldap_provider \<Rightarrow> bool" where
  "has_bind_credentials self \<longleftrightarrow> ldap_bind_credentials self \<noteq> None"

subsection \<open>OIDC\<close>

record oidc_provider =
  oidc_hostname :: host_name
  oidc_the_port :: "16 word option"
  oidc_root_path :: string
  oidc_tls :: tls_client_details
  oidc_principal_claim :: string
  oidc_scopes :: "string list"

datatype ('u, 'ue) oidc_error = ParseOidcEndpointUrl 'ue | SetOidcEndpointScheme 'u string

definition CLIENT_ID_SECRET_KEY :: string where
  "CLIENT_ID_SECRET_KEY = ''clientId''"

definition CLIENT_SECRET_SECRET_KEY :: string where
  "CLIENT_SECRET_SECRET_KEY = ''clientSecret''"

definition DEFAULT_WELLKNOWN_OIDC_CONFIG_PATH :: string where
  "DEFAULT_WELLKNOWN_OIDC_CONFIG_PATH = ''/.well-known/openid-configuration''"

definition oidc_port :: "oidc_provider \<Rightarrow> 16 word" where
  "oidc_port self = (case oidc_the_port self of Some port \<Rightarrow> port | None \<Rightarrow> if uses_tls (oidc_tls self) then 443 else 80)"

definition oidc_base_url ::
    "(string \<Rightarrow> ('u, 'ue) result) \<Rightarrow> (string \<Rightarrow> 'u \<Rightarrow> 'u option) \<Rightarrow> oidc_provider \<Rightarrow> ('u, ('u, 'ue) oidc_error) result" where
  "oidc_base_url url_parse set_scheme self =
     and_then (map_err ParseOidcEndpointUrl
       (url_parse (''http://'' @ as_url_host (oidc_hostname self) @ '':'' @ show_port (oidc_port self)))) (\<lambda>url.
     if uses_tls (oidc_tls self) then ok_or (SetOidcEndpointScheme url ''https'') (set_scheme ''https'' url) else Inr url)"

definition trim_end_slashes :: "string \<Rightarrow> string" where
  "trim_end_slashes s = rev (dropWhile (\<lambda>c. c = CHR ''/'') (rev s))"

definition oidc_endpoint_url ::
    "(string \<Rightarrow> ('u, 'ue) result) \<Rightarrow> (string \<Rightarrow> 'u \<Rightarrow> 'u option) \<Rightarrow> (string \<Rightarrow> 'u \<Rightarrow> 'u) \<Rightarrow> oidc_provider
      \<Rightarrow> ('u, ('u, 'ue) oidc_error) result" where
  "oidc_endpoint_url url_parse set_scheme set_path self =
     and_then (oidc_base_url url_parse set_scheme self) (\<lambda>url. Inr (set_path (trim_end_slashes (oidc_root_path self)) url))"

definition well_known_config_url ::
    "(string \<Rightarrow> ('u, 'ue) result) \<Rightarrow> (string \<Rightarrow> 'u \<Rightarrow> 'u option) \<Rightarrow> (string \<Rightarrow> 'u \<Rightarrow> 'u) \<Rightarrow> oidc_provider
      \<Rightarrow> ('u, ('u, 'ue) oidc_error) result" where
  "well_known_config_url url_parse set_scheme set_path self =
     and_then (oidc_base_url url_parse set_scheme self) (\<lambda>url.
     Inr (set_path (trim_end_slashes (oidc_root_path self) @ DEFAULT_WELLKNOWN_OIDC_CONFIG_PATH) url))"

definition client_credentials_volume_mount_path :: "string \<Rightarrow> string" where
  "client_credentials_volume_mount_path secret_name = SECRET_BASE_PATH @ ''/'' @ secret_name"

definition client_credentials_mount_paths :: "string \<Rightarrow> string \<times> string" where
  "client_credentials_mount_paths secret_name =
     (let volume_mount_path = client_credentials_volume_mount_path secret_name in
      (volume_mount_path @ ''/'' @ CLIENT_ID_SECRET_KEY, volume_mount_path @ ''/'' @ CLIENT_SECRET_SECRET_KEY))"

text \<open>\<open>hash16\<close> is the hash of the name by \<open>DefaultHasher\<close>, formatted with \<open>{:016x}\<close> in upper case.\<close>

definition client_credentials_env_names :: "(string \<Rightarrow> string) \<Rightarrow> string \<Rightarrow> string \<times> string" where
  "client_credentials_env_names hash16 secret_name =
     (let env_var_prefix = ''OIDC_'' @ hash16 secret_name in
      (env_var_prefix @ ''_CLIENT_ID'', env_var_prefix @ ''_CLIENT_SECRET''))"

definition client_credentials_env_var_mounts :: "(string \<Rightarrow> string) \<Rightarrow> string \<Rightarrow> env_var list" where
  "client_credentials_env_var_mounts hash16 secret_name =
     (let (client_id_env_var, client_secret_env_var) = client_credentials_env_names hash16 secret_name in
      [env_var_with_value_from_secret client_id_env_var secret_name CLIENT_ID_SECRET_KEY,
       env_var_with_value_from_secret client_secret_env_var secret_name CLIENT_SECRET_SECRET_KEY])"

subsection \<open>Attached volumes\<close>

text \<open>A volume of a secret class is always built.\<close>

lemma secret_class_to_volume_ok: "\<exists>v. secret_class_to_volume c name parts = Some (Inr v) \<and> v_name v = name"
  by (auto simp: secret_class_to_volume_def to_ephemeral_volume_source_def secret_volume_build_insert volume_build_def
      volume_ephemeral_def volume_new_def volume_default_def Let_def split: option.split)

lemma volume_mount_built [simp]:
  "vm_name (volume_mount_build (volume_mount_new name path)) = name"
  "vm_mount_path (volume_mount_build (volume_mount_new name path)) = path"
  by (simp_all add: volume_mount_build_def volume_mount_new_def)

definition mounted_at :: "string \<Rightarrow> container \<Rightarrow> pod_spec \<Rightarrow> bool" where
  "mounted_at path c spec \<longleftrightarrow>
     (\<exists>m v. c_volume_mounts c \<noteq> None \<and> m \<in> set (the (c_volume_mounts c)) \<and> vm_mount_path m = path \<and>
        sp_volumes spec \<noteq> None \<and> v \<in> set (the (sp_volumes spec)) \<and> v_name v = vm_name m)"

text \<open>The connections that bring volumes with them share one contract.\<close>

locale volume_provider =
  fixes provide :: "'p \<Rightarrow> (volume list \<times> volume_mount list, 'e) result"
    and attach :: "'p \<Rightarrow> pod_builder \<Rightarrow> container_builder list \<Rightarrow> (pod_builder \<times> container_builder list, 'e) result"
    and volume_err :: "pod_error \<Rightarrow> 'e"
    and mount_err :: "container_error \<Rightarrow> 'e"
  assumes attach_eq: "attach p pb cbs =
      and_then (provide p) (\<lambda>(vs, ms).
      and_then (map_err volume_err (add_volumes vs pb)) (\<lambda>pb.
      and_then (map_err mount_err (traverse_list (add_volume_mounts ms) cbs)) (\<lambda>cbs. Inr (pb, cbs))))"
    and provides: "\<exists>vs ms. provide p = Inr (vs, ms) \<and> map vm_name ms = map v_name vs"
begin

lemma attach_InrE:
  assumes "attach p pb cbs = Inr (pb', cbs')"
  obtains vs ms where "provide p = Inr (vs, ms)" "map vm_name ms = map v_name vs"
    "add_volumes vs pb = Inr pb'" "traverse_list (add_volume_mounts ms) cbs = Inr cbs'"
  using assms provides [of p] by (auto simp: attach_eq)

lemma mounted:
  assumes attach: "attach p pb cbs = Inr (pb', cbs')" and cb: "cb \<in> set cbs'"
    and m: "provide p = Inr (vs, ms)" "m \<in> set ms"
  shows "mounted_at (vm_mount_path m) (container_build cb) (build_spec pb')"
proof -
  have *: "map vm_name ms = map v_name vs" "add_volumes vs pb = Inr pb'" "traverse_list (add_volume_mounts ms) cbs = Inr cbs'"
    using attach_InrE [OF attach] m(1) by auto
  have "vm_name m \<in> set (map v_name vs)" using m(2) by (simp flip: *(1))
  then obtain v where v: "v \<in> set vs" "v_name v = vm_name m" by auto
  have pb': "map_of (pb_volumes pb') (v_name v) = Some v"
    by (rule volumes.add_list_get [OF *(2) [unfolded add_volumes_list] v(1)])
  have "Inr cb \<in> set (map (add_volume_mounts ms) cbs)"
    using *(3) cb unfolding traverse_list_Inr_iff by simp
  then obtain cb0 where "add_volume_mounts ms cb0 = Inr cb" by auto
  then have "map_of (cb_volume_mounts cb) (vm_mount_path m) = Some m"
    using mounts.add_list_get m(2) by (simp add: add_volume_mounts_list)
  then show ?thesis using pb' v(2) unfolding mounted_at_def
    by (intro exI [of _ m] exI [of _ v]) (force simp: container_build_def build_spec_def dest: map_of_SomeD)
qed

lemma collision:
  assumes m: "provide p = Inr (vs, ms)" and ms: "\<not> inj_on vm_mount_path (set ms)" and cbs: "cbs \<noteq> []"
  shows "\<exists>e. attach p pb cbs = Inl e"
proof (cases "attach p pb cbs")
  case (Inr r)
  obtain pb' cbs' where r: "r = (pb', cbs')" by (cases r)
  obtain cb0 cb where "add_volume_mounts ms cb0 = Inr cb"
    using attach_InrE [OF Inr [unfolded r]] m cbs
    by (metis Cons_eq_map_conv Inr_inject neq_Nil_conv old.prod.inject traverse_list_Inr_iff)
  then have get: "map_of (cb_volume_mounts cb) (vm_mount_path m) = Some m" if "m \<in> set ms" for m
    using mounts.add_list_get that by (simp add: add_volume_mounts_list)
  have "inj_on vm_mount_path (set ms)" by (rule inj_onI) (metis get option.inject)
  then show ?thesis using ms by simp
qed simp

end

definition secret_mount :: "string \<Rightarrow> string \<Rightarrow> volume_mount" where
  "secret_mount cls sfx = volume_mount_build (volume_mount_new (cls @ sfx) (SECRET_BASE_PATH @ ''/'' @ cls))"

lemma secret_mount_sel [simp]:
  "vm_name (secret_mount cls sfx) = cls @ sfx" "vm_mount_path (secret_mount cls sfx) = SECRET_BASE_PATH @ ''/'' @ cls"
  by (simp_all add: secret_mount_def)

lemma tls_provides_Some:
  assumes "tls_ca_cert_secret_class t = Some cls"
  obtains v where "tls_volumes_and_mounts t = Inr ([v], [secret_mount cls ''-ca-cert''])" "v_name v = cls @ ''-ca-cert''"
proof -
  obtain v where "secret_class_to_volume \<lparr>scv_secret_class = cls, scv_scope = None\<rparr> (cls @ ''-ca-cert'') Public = Some (Inr v)"
    "v_name v = cls @ ''-ca-cert''" using secret_class_to_volume_ok by blast
  then show thesis using assms by (intro that) (simp_all add: tls_volumes_and_mounts_def Let_def or_panic_def secret_mount_def)
qed

lemma tls_provides_None: "tls_ca_cert_secret_class t = None \<Longrightarrow> tls_volumes_and_mounts t = Inr ([], [])"
  by (simp add: tls_volumes_and_mounts_def)

lemma tls_provides: "\<exists>vs ms. tls_volumes_and_mounts t = Inr (vs, ms) \<and> map vm_name ms = map v_name vs"
  by (cases "tls_ca_cert_secret_class t") (auto simp: tls_provides_None elim: tls_provides_Some)

lemma s3_provides_Some:
  assumes "s3_credentials c = Some cred" "tls_volumes_and_mounts (s3_tls c) = Inr (vs, ms)"
  obtains v where "s3_volumes_and_mounts c = Inr (v # vs, secret_mount (scv_secret_class cred) ''-s3-credentials'' # ms)"
    "v_name v = scv_secret_class cred @ ''-s3-credentials''"
proof -
  obtain v where "secret_class_to_volume cred (scv_secret_class cred @ ''-s3-credentials'') PublicPrivate = Some (Inr v)"
    "v_name v = scv_secret_class cred @ ''-s3-credentials''" using secret_class_to_volume_ok by blast
  then show thesis using assms by (intro that) (simp_all add: s3_volumes_and_mounts_def Let_def or_panic_def secret_mount_def)
qed

lemma s3_provides_None:
  "s3_credentials c = None \<Longrightarrow> tls_volumes_and_mounts (s3_tls c) = Inr r \<Longrightarrow> s3_volumes_and_mounts c = Inr r"
  by (cases r) (simp add: s3_volumes_and_mounts_def)

lemma s3_provides: "\<exists>vs ms. s3_volumes_and_mounts c = Inr (vs, ms) \<and> map vm_name ms = map v_name vs"
proof -
  obtain vs ms where tls: "tls_volumes_and_mounts (s3_tls c) = Inr (vs, ms)" "map vm_name ms = map v_name vs"
    using tls_provides by blast
  show ?thesis
  proof (cases "s3_credentials c")
    case None
    then show ?thesis using s3_provides_None [OF None tls(1)] tls(2) by blast
  next
    case (Some cred)
    show ?thesis by (rule s3_provides_Some [OF Some tls(1)]) (intro exI conjI, assumption, simp add: tls(2))
  qed
qed

lemma ldap_provides_Some:
  assumes "ldap_bind_credentials c = Some cred" "tls_volumes_and_mounts (ldap_tls c) = Inr (vs, ms)"
  obtains v where "ldap_volumes_and_mounts c = Inr (v # vs, secret_mount (scv_secret_class cred) ''-bind-credentials'' # ms)"
    "v_name v = scv_secret_class cred @ ''-bind-credentials''"
proof -
  obtain v where "secret_class_to_volume cred (scv_secret_class cred @ ''-bind-credentials'') PublicPrivate = Some (Inr v)"
    "v_name v = scv_secret_class cred @ ''-bind-credentials''" using secret_class_to_volume_ok by blast
  then show thesis using assms by (intro that) (simp_all add: ldap_volumes_and_mounts_def Let_def or_panic_def secret_mount_def)
qed

lemma ldap_provides_None:
  "ldap_bind_credentials c = None \<Longrightarrow> tls_volumes_and_mounts (ldap_tls c) = Inr r \<Longrightarrow> ldap_volumes_and_mounts c = Inr r"
  by (cases r) (simp add: ldap_volumes_and_mounts_def)

lemma ldap_provides: "\<exists>vs ms. ldap_volumes_and_mounts c = Inr (vs, ms) \<and> map vm_name ms = map v_name vs"
proof -
  obtain vs ms where tls: "tls_volumes_and_mounts (ldap_tls c) = Inr (vs, ms)" "map vm_name ms = map v_name vs"
    using tls_provides by blast
  show ?thesis
  proof (cases "ldap_bind_credentials c")
    case None
    then show ?thesis using ldap_provides_None [OF None tls(1)] tls(2) by blast
  next
    case (Some cred)
    show ?thesis by (rule ldap_provides_Some [OF Some tls(1)]) (intro exI conjI, assumption, simp add: tls(2))
  qed
qed

interpretation tls: volume_provider tls_volumes_and_mounts tls_add_volumes_and_mounts TlsAddVolumes TlsAddVolumeMounts
  by unfold_locales (rule tls_add_volumes_and_mounts_def, rule tls_provides)

interpretation s3: volume_provider s3_volumes_and_mounts s3_add_volumes_and_mounts S3AddVolumes S3AddVolumeMounts
  by unfold_locales (rule s3_add_volumes_and_mounts_def, rule s3_provides)

interpretation ldap: volume_provider ldap_volumes_and_mounts ldap_add_volumes_and_mounts LdapAddVolumes LdapAddVolumeMounts
  by unfold_locales (rule ldap_add_volumes_and_mounts_def, rule ldap_provides)

text \<open>The files of an S3 connection a product is told about.\<close>

definition s3_paths :: "connection_spec \<Rightarrow> string set" where
  "s3_paths c =
     (case s3_credentials_mount_paths c of Some (a, b) \<Rightarrow> {a, b} | None \<Rightarrow> {}) \<union> set_option (tls_ca_cert_mount_path (s3_tls c))"

lemma s3_paths_in_mounts:
  assumes "path \<in> s3_paths c"
  shows "\<exists>vs ms m f. (s3_volumes_and_mounts c :: (_, ('u, 'ue) connection_error) result) = Inr (vs, ms) \<and> m \<in> set ms \<and>
           path = vm_mount_path m @ ''/'' @ f"
proof -
  obtain vs ms where tls: "tls_volumes_and_mounts (s3_tls c) = Inr (vs, ms)" using tls_provides by blast
  have some: "secret_mount cls ''-ca-cert'' \<in> set ms" if "tls_ca_cert_secret_class (s3_tls c) = Some cls" for cls
    by (rule tls_provides_Some [OF that]) (simp add: tls)
  show ?thesis
  proof (cases "s3_credentials c")
    case None
    then obtain cls where "tls_ca_cert_secret_class (s3_tls c) = Some cls" "path = SECRET_BASE_PATH @ ''/'' @ cls @ ''/ca.crt''"
      using assms by (auto simp: s3_paths_def s3_credentials_mount_paths_def tls_ca_cert_mount_path_def)
    then show ?thesis using some [of cls] s3_provides_None [OF None tls]
      by (intro exI [of _ vs] exI [of _ ms] exI [of _ "secret_mount cls ''-ca-cert''"] exI [of _ "''ca.crt''"]) simp
  next
    case (Some cred)
    let ?m = "secret_mount (scv_secret_class cred) ''-s3-credentials''"
    obtain v where *: "(s3_volumes_and_mounts c :: (_, ('u, 'ue) connection_error) result) = Inr (v # vs, ?m # ms)"
      by (rule s3_provides_Some [OF Some tls])
    have "\<exists>m f. m \<in> set (?m # ms) \<and> path = vm_mount_path m @ ''/'' @ f"
    proof (cases "path \<in> set_option (tls_ca_cert_mount_path (s3_tls c))")
      case True
      then obtain cls where "tls_ca_cert_secret_class (s3_tls c) = Some cls" "path = SECRET_BASE_PATH @ ''/'' @ cls @ ''/ca.crt''"
        by (auto simp: tls_ca_cert_mount_path_def)
      then show ?thesis using some [of cls]
        by (intro exI [of _ "secret_mount cls ''-ca-cert''"] exI [of _ "''ca.crt''"]) simp
    next
      case False
      then obtain f where "path = vm_mount_path ?m @ ''/'' @ f"
        using assms Some by (auto simp: s3_paths_def s3_credentials_mount_paths_def)
      then show ?thesis by (intro exI [of _ ?m] exI [of _ f]) simp
    qed
    then show ?thesis using * by blast
  qed
qed

text \<open>
  C21: The files an S3 connection names are there: after its volumes and mounts were added, every path
  reported for the access key, the secret key and the CA certificate lies in a directory that is a
  mount of each of the given containers, once built, and the mounted volume is in the pod's spec.
\<close>

theorem s3_paths_mounted:
  assumes "(s3_add_volumes_and_mounts c pb cbs :: (_, ('u, 'ue) connection_error) result) = Inr (pb', cbs')"
    "cb \<in> set cbs'" "path \<in> s3_paths c"
  shows "\<exists>dir f. path = dir @ ''/'' @ f \<and> mounted_at dir (container_build cb) (build_spec pb')"
proof -
  obtain vs ms m f where *: "(s3_volumes_and_mounts c :: (_, ('u, 'ue) connection_error) result) = Inr (vs, ms)" "m \<in> set ms"
    "path = vm_mount_path m @ ''/'' @ f"
    using s3_paths_in_mounts [OF assms(3)] by blast
  have "mounted_at (vm_mount_path m) (container_build cb) (build_spec pb')" by (rule s3.mounted [OF assms(1,2) *(1,2)])
  then show ?thesis using *(3) by blast
qed

definition s3_example :: connection_spec where
  "s3_example =
     \<lparr>s3_host = HostDomain (DomainName ''s3''), s3_port = None, s3_the_region = s3_region_default, s3_style = PathStyle,
      s3_credentials = Some \<lparr>scv_secret_class = ''keys'', scv_scope = None\<rparr>, s3_tls = default_web_pki_tls\<rparr>"

theorem s3_paths_mounted_witness:
  "\<exists>pb cb. (s3_add_volumes_and_mounts s3_example pod_new [container_builder_default] :: (_, (nat, nat) connection_error) result) =
       Inr (pb, [cb]) \<and>
     (\<exists>dir f. ''/stackable/secrets/keys/accessKey'' = dir @ ''/'' @ f \<and> mounted_at dir (container_build cb) (build_spec pb))"
proof -
  let ?s3 = "s3_add_volumes_and_mounts s3_example pod_new [container_builder_default] :: (_, (nat, nat) connection_error) result"
  have tls: "tls_volumes_and_mounts (s3_tls s3_example) = Inr ([], [])"
    by (rule tls_provides_None) (simp add: s3_example_def default_web_pki_tls_def tls_ca_cert_secret_class_def)
  obtain v m where s3: "(s3_volumes_and_mounts s3_example :: (_, (nat, nat) connection_error) result) = Inr ([v], [m])"
    by (rule s3_provides_Some [OF _ tls]) (simp_all add: s3_example_def)
  have "is_ok (add_volumes [v] pod_new)" "is_ok (add_volume_mounts [m] container_builder_default)"
    unfolding add_volumes_list add_volume_mounts_list
    using volumes.add_list_iff(2) [of pod_new "[v]"] mounts.add_list_iff(2) [of container_builder_default "[m]"]
    by (simp_all add: pod_new_def container_builder_default_def)
  then obtain pb cb where "add_volumes [v] pod_new = Inr pb" "add_volume_mounts [m] container_builder_default = Inr cb"
    by (auto simp: is_ok_iff)
  then have eq: "?s3 = Inr (pb, [cb])" using s3 by (simp add: s3_add_volumes_and_mounts_def)
  have "''/stackable/secrets/keys/accessKey'' \<in> s3_paths s3_example"
    by (simp add: s3_paths_def s3_credentials_mount_paths_def s3_example_def SECRET_BASE_PATH_def)
  then show ?thesis using s3_paths_mounted [OF eq] eq by auto
qed

text \<open>
  An S3 connection whose credentials and whose CA certificate come from the same secret class cannot be
  mounted: both volumes would go to the directory of that class, so adding them to any container
  is an error, whatever the pod and the containers hold.
\<close>

theorem s3_same_class_rejected:
  assumes "s3_credentials c = Some cred" "tls_ca_cert_secret_class (s3_tls c) = Some (scv_secret_class cred)" "cbs \<noteq> []"
  shows "\<exists>e. (s3_add_volumes_and_mounts c pb cbs :: (_, ('u, 'ue) connection_error) result) = Inl e"
proof -
  obtain v where tls: "tls_volumes_and_mounts (s3_tls c) = Inr ([v], [secret_mount (scv_secret_class cred) ''-ca-cert''])"
    by (rule tls_provides_Some [OF assms(2)])
  obtain w where s3: "(s3_volumes_and_mounts c :: (_, ('u, 'ue) connection_error) result) =
      Inr ([w, v], [secret_mount (scv_secret_class cred) ''-s3-credentials'', secret_mount (scv_secret_class cred) ''-ca-cert''])"
    by (rule s3_provides_Some [OF assms(1) tls])
  have "secret_mount (scv_secret_class cred) ''-s3-credentials'' \<noteq> secret_mount (scv_secret_class cred) ''-ca-cert''"
    by (rule notI, drule arg_cong [where f = vm_name]) simp
  then have "\<not> inj_on vm_mount_path
      (set [secret_mount (scv_secret_class cred) ''-s3-credentials'', secret_mount (scv_secret_class cred) ''-ca-cert''])"
    by (simp add: inj_on_def)
  then show ?thesis by (rule s3.collision [OF s3 _ assms(3)])
qed

theorem s3_same_class_rejected_witness:
  "\<exists>e. (s3_add_volumes_and_mounts (s3_example\<lparr>s3_tls := Some (ServerVerification (SecretClassCert ''keys''))\<rparr>)
      pod_new [container_builder_default] :: (_, (nat, nat) connection_error) result) = Inl e"
  by (rule s3_same_class_rejected [where cred = "\<lparr>scv_secret_class = ''keys'', scv_scope = None\<rparr>"])
    (simp_all add: s3_example_def tls_ca_cert_secret_class_def)

end
