(* ===== verification/Commons.thy ===== *)
theory Commons
  imports Connections
begin

section \<open>Common product settings\<close>

text \<open>
  Image selection (\<open>commons/product_image_selection.rs\<close>), OPA (\<open>commons/opa.rs\<close>), access rights
  (\<open>commons/rbac.rs\<close>), random secrets (\<open>commons/random_secret_creation.rs\<close>) and the defaults in \<open>commons/cache.rs\<close>
  and \<open>commons/pdb.rs\<close>. The parser of image references (crate \<open>dockerfile_parser\<close>), the random bytes and
  the requests to the API server are arguments.
\<close>

subsection \<open>Product images\<close>

datatype pull_policy = IfNotPresent | Always | Never

fun pull_policy_str :: "pull_policy \<Rightarrow> string" where
  "pull_policy_str IfNotPresent = ''IfNotPresent''"
| "pull_policy_str Always = ''Always''"
| "pull_policy_str Never = ''Never''"

record custom_product_image =
  cpi_custom :: string
  cpi_product_version :: string

record auto_product_image =
  api_product_version :: string
  api_stackable_version :: "string option"
  api_repo :: "string option"

datatype product_image_selection = CustomImage custom_product_image | AutoImage auto_product_image

record product_image =
  pi_image_selection :: product_image_selection
  pi_pull_policy :: pull_policy
  pi_pull_secrets :: "string list option"

datatype product_image_error = ParseAppVersionLabel label_value_error string

text \<open>\<open>String::truncate\<close> panics inside of a character: the byte there is a continuation byte.\<close>

definition str_truncate :: "nat \<Rightarrow> string \<Rightarrow> string option" where
  "str_truncate n s =
     (if length s \<le> n then Some s
      else if 128 \<le> (of_char (s ! n) :: nat) \<and> (of_char (s ! n) :: nat) < 192 then None
      else Some (take n s))"

definition prepare_app_version_label_value :: "string \<Rightarrow> (label_value, product_image_error) result option" where
  "prepare_app_version_label_value app_version =
     map_option (\<lambda>formatted_app_version.
       let formatted_app_version = map (\<lambda>c. if c = CHR '':'' then CHR ''-'' else c) formatted_app_version in
       map_err (\<lambda>e. ParseAppVersionLabel e formatted_app_version) (label_value_from_str formatted_app_version))
     (str_truncate LABEL_VALUE_MAX_LEN app_version)"

definition trim_start_slashes :: "string \<Rightarrow> string" where
  "trim_start_slashes s = dropWhile (\<lambda>c. c = CHR ''/'') s"

definition starts_with :: "string \<Rightarrow> string \<Rightarrow> bool" where
  "starts_with p s \<longleftrightarrow> take (length p) s = p"

definition operator_image_version :: "string \<Rightarrow> string" where
  "operator_image_version operator_version =
     (if starts_with ''0.0.0-pr'' operator_version then ''0.0.0-dev'' else operator_version)"

definition product_image_resolve ::
    "(string \<Rightarrow> string option \<times> string option) \<Rightarrow> string \<Rightarrow> string \<Rightarrow> string \<Rightarrow> product_image
      \<Rightarrow> (resolved_product_image, product_image_error) result option" where
  "product_image_resolve parse_image image_name image_repository operator_version self =
     (let image_pull_policy = pull_policy_str (pi_pull_policy self); pull_secrets = pi_pull_secrets self in
      case pi_image_selection self of
        CustomImage custom \<Rightarrow>
          (let (tag, hash) = parse_image (cpi_custom custom);
               image_tag_or_hash = (case tag of Some t \<Rightarrow> t | None \<Rightarrow> (case hash of Some h \<Rightarrow> h | None \<Rightarrow> ''latest''));
               app_version = cpi_product_version custom @ ''-'' @ image_tag_or_hash
           in map_option (\<lambda>r. and_then r (\<lambda>app_version_label_value.
                Inr \<lparr>rpi_product_version = cpi_product_version custom, rpi_app_version_label_value = app_version_label_value,
                     rpi_image = cpi_custom custom, rpi_image_pull_policy = image_pull_policy, rpi_pull_secrets = pull_secrets\<rparr>))
              (prepare_app_version_label_value app_version))
      | AutoImage auto \<Rightarrow>
          (let image_repository = trim_end_slashes (trim (case api_repo auto of Some repo \<Rightarrow> repo | None \<Rightarrow> image_repository));
               stackable_version =
                 (case api_stackable_version auto of Some v \<Rightarrow> v | None \<Rightarrow> operator_image_version operator_version);
               image_name = trim_start_slashes (trim image_name);
               app_version = api_product_version auto @ ''-stackable'' @ stackable_version
           in map_option (\<lambda>r. and_then r (\<lambda>app_version_label_value.
                Inr \<lparr>rpi_product_version = api_product_version auto, rpi_app_version_label_value = app_version_label_value,
                     rpi_image = image_repository @ ''/'' @ image_name @ '':'' @ app_version,
                     rpi_image_pull_policy = image_pull_policy, rpi_pull_secrets = pull_secrets\<rparr>))
              (prepare_app_version_label_value app_version)))"

definition product_version :: "product_image \<Rightarrow> string" where
  "product_version self =
     (case pi_image_selection self of CustomImage custom \<Rightarrow> cpi_product_version custom | AutoImage auto \<Rightarrow> api_product_version auto)"

subsection \<open>OPA\<close>

record opa_config =
  opa_config_map_name :: string
  opa_package :: "string option"

datatype opa_api_version = OpaV1

fun get_data_api :: "opa_api_version \<Rightarrow> string" where
  "get_data_api OpaV1 = ''v1/data''"

datatype opa_error = GetOpaConfigMap client_error string string | MissingOpaConnectString string string

text \<open>
  The replacement of \<open>(/*)(.*)\<close> by its second group removes the slashes at the start of every line, as the
  dot does not match a line feed.
\<close>

definition strip_leading_slashes :: "string \<Rightarrow> string" where
  "strip_leading_slashes s = join [CHR 0x0A] (map trim_start_slashes (split_char (CHR 0x0A) s))"

definition sanitize_opa_package_name :: "string \<Rightarrow> string" where
  "sanitize_opa_package_name package_name =
     map (\<lambda>c. if c = CHR ''.'' then CHR ''/'' else c) (strip_leading_slashes package_name)"

definition document_url :: "string \<Rightarrow> string option \<Rightarrow> opa_api_version \<Rightarrow> opa_config \<Rightarrow> string" where
  "document_url name_any rule api_version self =
     (let package_name = (case opa_package self of Some p \<Rightarrow> sanitize_opa_package_name p | None \<Rightarrow> name_any);
          url = get_data_api api_version @ ''/'' @ package_name
      in case rule of Some document_rule \<Rightarrow> url @ ''/'' @ document_rule | None \<Rightarrow> url)"

definition full_document_url :: "string \<Rightarrow> string \<Rightarrow> string option \<Rightarrow> opa_api_version \<Rightarrow> opa_config \<Rightarrow> string" where
  "full_document_url name_any opa_base_url rule api_version self =
     (if opa_base_url \<noteq> [] \<and> last opa_base_url = CHR ''/'' then opa_base_url @ document_url name_any rule api_version self
      else opa_base_url @ ''/'' @ document_url name_any rule api_version self)"

text \<open>\<open>get_data\<close> is \<open>Client::get\<close> for a ConfigMap, as name and namespace to its data.\<close>

definition base_url_from_config_map ::
    "(string \<Rightarrow> string \<Rightarrow> ((string, string) btreemap option, client_error) result) \<Rightarrow> string \<Rightarrow> opa_config
      \<Rightarrow> (string, opa_error) result" where
  "base_url_from_config_map get_data namespace self =
     and_then (map_err (\<lambda>e. GetOpaConfigMap e (opa_config_map_name self) namespace)
       (get_data (opa_config_map_name self) namespace)) (\<lambda>data.
     ok_or (MissingOpaConnectString (opa_config_map_name self) namespace) (Option.bind data (\<lambda>d. btree_get d ''OPA'')))"

definition full_document_url_from_config_map ::
    "(string \<Rightarrow> string \<Rightarrow> ((string, string) btreemap option, client_error) result) \<Rightarrow> string \<Rightarrow> string \<Rightarrow> string option
      \<Rightarrow> opa_api_version \<Rightarrow> opa_config \<Rightarrow> (string, opa_error) result" where
  "full_document_url_from_config_map get_data name_any namespace rule api_version self =
     and_then (base_url_from_config_map get_data namespace self) (\<lambda>opa_base_url.
     Inr (full_document_url name_any opa_base_url rule api_version self))"

subsection \<open>Access rights\<close>

record service_account =
  sa_metadata :: object_meta

record role_ref =
  rr_kind :: string
  rr_name :: string
  rr_api_group :: "string option"

record subject =
  subj_kind :: string
  subj_name :: string
  subj_namespace :: "string option"
  subj_api_group :: "string option"

record role_binding =
  rb_metadata :: object_meta
  rb_role_ref :: role_ref
  rb_subjects :: "subject list option"

datatype rbac_error =
    ServiceAccountOwnerReferenceFromResource meta_error string
  | RoleBindingOwnerReferenceFromResource meta_error string

definition service_account_name :: "string \<Rightarrow> string" where
  "service_account_name rbac_prefix = rbac_prefix @ ''-serviceaccount''"

definition role_binding_name :: "string \<Rightarrow> string" where
  "role_binding_name rbac_prefix = rbac_prefix @ ''-rolebinding''"

definition build_rbac_resources ::
    "kube_object \<Rightarrow> string \<Rightarrow> labels \<Rightarrow> (service_account \<times> role_binding, rbac_error) result" where
  "build_rbac_resources resource product_name labels =
     (let sa_name = service_account_name (ko_name_any resource) in
      and_then (map_err (\<lambda>e. ServiceAccountOwnerReferenceFromResource e sa_name)
        (ownerreference_from_resource resource None (Some True)
          (meta_name sa_name (meta_name_and_namespace resource meta_new)))) (\<lambda>sa_builder.
      let service_account = \<lparr>sa_metadata = meta_build (with_labels labels sa_builder)\<rparr> in
      and_then (map_err (\<lambda>e. RoleBindingOwnerReferenceFromResource e (ko_name_any resource))
        (ownerreference_from_resource resource None (Some True)
          (meta_name (role_binding_name (ko_name_any resource)) (meta_name_and_namespace resource meta_new)))) (\<lambda>rb_builder.
      Inr (service_account,
           \<lparr>rb_metadata = meta_build (with_labels labels rb_builder),
            rb_role_ref = \<lparr>rr_kind = ''ClusterRole'', rr_name = product_name @ ''-clusterrole'',
                           rr_api_group = Some ''rbac.authorization.k8s.io''\<rparr>,
            rb_subjects = Some [\<lparr>subj_kind = ''ServiceAccount'', subj_name = sa_name, subj_namespace = ko_namespace resource,
                                 subj_api_group = None\<rparr>]\<rparr>))))"

subsection \<open>Random secrets\<close>

record secret =
  sec_metadata :: object_meta
  sec_resource_version :: "string option"
  sec_immutable :: "bool option"
  sec_data :: "(string, string) btreemap"
  sec_string_data :: "(string, string) btreemap option"

record 's secret_api =
  sec_get_opt :: "'s \<Rightarrow> string \<Rightarrow> string \<Rightarrow> (secret option, client_error) result"
  sec_delete :: "'s \<Rightarrow> string \<Rightarrow> string \<Rightarrow> 's \<times> (unit, kube_error) result"
  sec_create :: "'s \<Rightarrow> secret \<Rightarrow> 's \<times> (unit, client_error) result"

datatype random_secret_error =
    ObjectHasNoNamespace
  | RetrieveRandomSecret client_error
  | CreateRandomSecret client_error
  | DeleteRandomSecret kube_error
  | ObjectMissingMetadataForOwnerRef meta_error

text \<open>\<open>random_base64\<close> is \<open>get_random_base64\<close>, one draw of the given size.\<close>

definition new_random_secret ::
    "string \<Rightarrow> string \<Rightarrow> string \<Rightarrow> kube_object \<Rightarrow> (secret, random_secret_error) result" where
  "new_random_secret secret_name secret_key random stacklet =
     and_then (map_err ObjectMissingMetadataForOwnerRef
       (ownerreference_from_resource stacklet None (Some True)
         (meta_namespace_opt (ko_namespace stacklet) (meta_name secret_name meta_new)))) (\<lambda>b.
     Inr \<lparr>sec_metadata = meta_build b, sec_resource_version = None, sec_immutable = None, sec_data = [],
          sec_string_data = Some [(secret_key, random)]\<rparr>)"

definition create_random_secret_if_not_exists ::
    "'s secret_api \<Rightarrow> (nat \<Rightarrow> string) \<Rightarrow> string \<Rightarrow> string \<Rightarrow> nat \<Rightarrow> kube_object \<Rightarrow> 's
      \<Rightarrow> 's \<times> (unit, random_secret_error) result" where
  "create_random_secret_if_not_exists api random_base64 secret_name secret_key secret_size_bytes stacklet s =
     (case ko_namespace stacklet of
        None \<Rightarrow> (s, Inl ObjectHasNoNamespace)
      | Some secret_namespace \<Rightarrow>
          (case sec_get_opt api s secret_name secret_namespace of
             Inl e \<Rightarrow> (s, Inl (RetrieveRandomSecret e))
           | Inr (Some existing_secret) \<Rightarrow>
               if sec_immutable existing_secret = Some True then
                 (case sec_delete api s secret_name secret_namespace of
                    (s', Inl e) \<Rightarrow> (s', Inl (DeleteRandomSecret e))
                  | (s', Inr _) \<Rightarrow>
                      (let mutable_secret = existing_secret\<lparr>sec_immutable := Some False, sec_resource_version := None\<rparr> in
                       map_result CreateRandomSecret (sec_create api s' mutable_secret)))
               else (s, Inr ())
           | Inr None \<Rightarrow>
               (case new_random_secret secret_name secret_key (random_base64 secret_size_bytes) stacklet of
                  Inl e \<Rightarrow> (s, Inl e)
                | Inr secret \<Rightarrow> map_result CreateRandomSecret (sec_create api s secret))))"

subsection \<open>Defaults\<close>

record ttl_cache =
  entry_time_to_live :: duration
  max_entries :: "32 word"

definition user_information_cache_default :: ttl_cache where
  "user_information_cache_default = \<lparr>entry_time_to_live = from_secs 30, max_entries = 10000\<rparr>"

record pdb_config =
  pdbc_enabled :: bool
  pdbc_max_unavailable :: "16 word option"

definition pdb_config_default :: pdb_config where
  "pdb_config_default = \<lparr>pdbc_enabled = True, pdbc_max_unavailable = None\<rparr>"

subsection \<open>Resolved images\<close>

definition app_version_label :: "string \<Rightarrow> string" where
  "app_version_label app_version = map (\<lambda>c. if c = CHR '':'' then CHR ''-'' else c) (take 63 app_version)"

lemma prepare_app_version_ascii:
  assumes "is_ascii app_version"
  shows "\<exists>r. prepare_app_version_label_value app_version = Some r \<and>
    (\<forall>v. r = Inr v \<longleftrightarrow> v = LabelValue (app_version_label app_version) \<and> label_value_ok (app_version_label app_version))"
proof -
  have "\<not> (128 \<le> (of_char (app_version ! 63) :: nat))" if "63 < length app_version"
    using assms that by (simp add: is_ascii_def list_all_length not_le)
  then have "str_truncate LABEL_VALUE_MAX_LEN app_version = Some (take 63 app_version)"
    by (auto simp: str_truncate_def LABEL_VALUE_MAX_LEN_def)
  then show ?thesis by (simp add: prepare_app_version_label_value_def Let_def app_version_label_def)
qed

lemma trim_end_slashes_last: "trim_end_slashes s = [] \<or> last (trim_end_slashes s) \<noteq> CHR ''/''"
  using hd_dropWhile [of "\<lambda>c. c = CHR ''/''" "rev s"] by (auto simp: trim_end_slashes_def last_rev)

lemma trim_start_slashes_hd: "trim_start_slashes s = [] \<or> hd (trim_start_slashes s) \<noteq> CHR ''/''"
  using hd_dropWhile [of "\<lambda>c. c = CHR ''/''" s] by (auto simp: trim_start_slashes_def)

text \<open>
  An automatically selected image of an ASCII version is resolved without a panic. It is resolved
  successfully exactly when the first 63 bytes of \<open><product>-stackable<version>\<close>, with colons replaced,
  are a label value, which is then the version label; the image is the repository, the name and the
  whole version, with exactly one slash between repository and name, and a pull request build of
  the operator uses the development version.
\<close>

theorem auto_image_resolved:
  assumes "pi_image_selection img = AutoImage auto"
    and "version = api_product_version auto @ ''-stackable'' @
           (case api_stackable_version auto of
              Some v \<Rightarrow> v
            | None \<Rightarrow> if take 8 operator_version = ''0.0.0-pr'' then ''0.0.0-dev'' else operator_version)"
    and "is_ascii version"
  shows "\<exists>r. product_image_resolve parse_image image_name repository operator_version img = Some r \<and>
    (is_ok r \<longleftrightarrow> label_value_ok (app_version_label version)) \<and>
    (\<forall>i. r = Inr i \<longrightarrow> label_value_fmt (rpi_app_version_label_value i) = app_version_label version \<and>
       (\<exists>repo name. rpi_image i = repo @ ''/'' @ name @ '':'' @ version \<and>
          (repo = [] \<or> last repo \<noteq> CHR ''/'') \<and> (name = [] \<or> hd name \<noteq> CHR ''/'')))"
proof -
  have version: "api_product_version auto @ ''-stackable'' @
      (case api_stackable_version auto of Some v \<Rightarrow> v | None \<Rightarrow> operator_image_version operator_version) = version"
    using assms(2) by (cases "api_stackable_version auto") (simp_all add: operator_image_version_def starts_with_def eval_nat_numeral)
  obtain r where r: "prepare_app_version_label_value version = Some r"
    "\<And>v. r = Inr v \<longleftrightarrow> v = LabelValue (app_version_label version) \<and> label_value_ok (app_version_label version)"
    using prepare_app_version_ascii [OF assms(3)] by blast
  let ?repo = "trim_end_slashes (trim (case api_repo auto of Some repo \<Rightarrow> repo | None \<Rightarrow> repository))"
  let ?name = "trim_start_slashes (trim image_name)"
  have eq: "product_image_resolve parse_image image_name repository operator_version img =
      Some (and_then r (\<lambda>v. Inr \<lparr>rpi_product_version = api_product_version auto, rpi_app_version_label_value = v,
        rpi_image = ?repo @ ''/'' @ ?name @ '':'' @ version, rpi_image_pull_policy = pull_policy_str (pi_pull_policy img),
        rpi_pull_secrets = pi_pull_secrets img\<rparr>))"
    using assms(1) r(1) version by (simp add: product_image_resolve_def Let_def)
  have "is_ok r \<longleftrightarrow> label_value_ok (app_version_label version)" using r(2) by (auto simp: is_ok_iff)
  then show ?thesis
    unfolding eq using trim_end_slashes_last trim_start_slashes_hd r(2) [of "LabelValue (app_version_label version)"] r(2)
    by (cases r) auto
qed

theorem auto_image_resolved_witness:
  "\<exists>r. product_image_resolve (\<lambda>_. (None, None)) ''/kafka'' ''oci.example.org/sdp/'' ''0.0.0-pr123''
      \<lparr>pi_image_selection = AutoImage \<lparr>api_product_version = ''3.9.0'', api_stackable_version = None, api_repo = None\<rparr>,
       pi_pull_policy = Always, pi_pull_secrets = None\<rparr> = Some r \<and> is_ok r"
proof -
  have "label_value_ok (app_version_label ''3.9.0-stackable0.0.0-dev'')"
    by (simp add: app_version_label_def label_value_ok_def key_eval)
  moreover have "is_ascii ''3.9.0-stackable0.0.0-dev''" by (simp add: is_ascii_def)
  ultimately show ?thesis
    using auto_image_resolved [where img = "\<lparr>pi_image_selection = AutoImage \<lparr>api_product_version = ''3.9.0'',
        api_stackable_version = None, api_repo = None\<rparr>, pi_pull_policy = Always, pi_pull_secrets = None\<rparr>"
        and version = "''3.9.0-stackable0.0.0-dev''" and operator_version = "''0.0.0-pr123''"]
    by fastforce
qed

text \<open>
  Cutting the version to 63 bytes can leave a character at the end that no label value may end with:
  a custom image whose tag has a dot there is refused, although every character is allowed.
\<close>

theorem truncated_version_rejected:
  "\<exists>e. product_image_resolve (\<lambda>_. (Some (replicate 60 (CHR ''a'') @ ''.1''), None)) n r v
      \<lparr>pi_image_selection = CustomImage \<lparr>cpi_custom = custom, cpi_product_version = ''1''\<rparr>,
       pi_pull_policy = policy, pi_pull_secrets = secrets\<rparr> = Some (Inl e)"
proof -
  let ?v = "''1'' @ ''-'' @ replicate 60 (CHR ''a'') @ ''.1''"
  have ascii: "is_ascii ?v" by (simp add: is_ascii_def list_all_iff)
  have "take 63 ?v = ''1-'' @ replicate 60 (CHR ''a'') @ ''.''" by simp
  then have "app_version_label ?v = ''1-'' @ replicate 60 (CHR ''a'') @ ''.''" by (simp add: app_version_label_def)
  then have "\<not> label_value_ok (app_version_label ?v)" by (simp add: label_value_ok_def qualified_name_def key_eval)
  then obtain e where "prepare_app_version_label_value ?v = Some (Inl e)"
    using prepare_app_version_ascii [OF ascii] by (metis old.sum.exhaust)
  then show ?thesis by (simp add: product_image_resolve_def Let_def)
qed

subsection \<open>Access rights and secrets\<close>

lemma ownerreference_from_resource_Inr:
  "ownerreference_from_resource ob blk c b = Inr b' \<longleftrightarrow>
     (\<exists>uid. ko_uid ob = Some uid \<and> b' = b\<lparr>omb_ownerreference := Some \<lparr>or_api_version = ko_api_version ob,
        or_block_owner_deletion = blk, or_controller = c, or_kind = ko_kind ob, or_name = ko_name_any ob, or_uid = uid\<rparr>\<rparr>)"
  by (auto simp: ownerreference_from_resource_def initialize_from_resource_def owner_build_def owner_new_def owner_uid_opt_def
      owner_name_def owner_kind_def owner_api_version_def owner_block_owner_deletion_opt_def owner_controller_opt_def)

text \<open>
  The access rights of a product: resources are built exactly when the owner has a uid. The binding then
  binds the product's cluster role to the one service account built beside it, by its name and in
  its namespace, and the owner is the controller of both, so that they go when it goes.
\<close>

theorem rbac_binds_account:
  "(is_ok (build_rbac_resources ob product labels) \<longleftrightarrow> ko_uid ob \<noteq> None) \<and>
   (case build_rbac_resources ob product labels of
      Inr (sa, rb) \<Rightarrow>
        map_option (map (\<lambda>s. (subj_kind s, Some (subj_name s), subj_namespace s))) (rb_subjects rb) =
          Some [(''ServiceAccount'', om_name (sa_metadata sa), om_namespace (sa_metadata sa))] \<and>
        (rr_kind (rb_role_ref rb), rr_name (rb_role_ref rb)) = (''ClusterRole'', product @ ''-clusterrole'') \<and>
        om_namespace (rb_metadata rb) = om_namespace (sa_metadata sa) \<and>
        om_labels (rb_metadata rb) = om_labels (sa_metadata sa) \<and>
        map_option (map (\<lambda>r. (Some (or_uid r), or_controller r))) (om_owner_references (sa_metadata sa)) = Some [(ko_uid ob, Some True)] \<and>
        map_option (map (\<lambda>r. (Some (or_uid r), or_controller r))) (om_owner_references (rb_metadata rb)) = Some [(ko_uid ob, Some True)]
    | Inl _ \<Rightarrow> True)"
proof (cases "ko_uid ob")
  case None
  then have "\<nexists>b'. ownerreference_from_resource ob None (Some True) b = Inr b'" for b
    by (simp add: ownerreference_from_resource_Inr)
  then obtain e where "ownerreference_from_resource ob None (Some True)
      (meta_name (service_account_name (ko_name_any ob)) (meta_name_and_namespace ob meta_new)) = Inl e"
    by (metis old.sum.exhaust)
  then show ?thesis using None by (simp add: build_rbac_resources_def Let_def)
next
  case (Some uid)
  let ?r = "\<lparr>or_api_version = ko_api_version ob, or_block_owner_deletion = None, or_controller = Some True, or_kind = ko_kind ob,
    or_name = ko_name_any ob, or_uid = uid\<rparr>"
  have "ownerreference_from_resource ob None (Some True) b = Inr (b\<lparr>omb_ownerreference := Some ?r\<rparr>)" for b
    using Some by (simp add: ownerreference_from_resource_Inr)
  then show ?thesis
    using Some
    by (simp add: build_rbac_resources_def Let_def meta_build_def meta_name_def meta_name_and_namespace_def with_labels_def meta_new_def
        get_or_insert_with_def object_meta_default_def)
qed

definition secret_content :: "secret \<Rightarrow> (string, string) btreemap" where
  "secret_content sec = btree_extend (sec_data sec) (case sec_string_data sec of Some d \<Rightarrow> d | None \<Rightarrow> [])"

definition secret_id :: "secret \<Rightarrow> (string option \<times> string option)" where
  "secret_id sec = (om_namespace (sec_metadata sec), om_name (sec_metadata sec))"

text \<open>What is relied on of the API server, for the secrets \<open>stored s\<close> it holds in the state \<open>s\<close>.\<close>

definition secret_laws :: "'s secret_api \<Rightarrow> ('s \<Rightarrow> string \<times> string \<Rightarrow> secret option) \<Rightarrow> bool" where
  "secret_laws api stored \<longleftrightarrow>
     (\<forall>s n ns r. sec_get_opt api s n ns = Inr r \<longrightarrow> r = stored s (ns, n)) \<and>
     (\<forall>s n ns sec. stored s (ns, n) = Some sec \<longrightarrow> secret_id sec = (Some ns, Some n)) \<and>
     (\<forall>s n ns s'. sec_delete api s n ns = (s', Inr ()) \<longrightarrow> stored s' = (stored s)((ns, n) := None)) \<and>
     (\<forall>s sec s' n ns. sec_create api s sec = (s', Inr ()) \<and> secret_id sec = (Some ns, Some n) \<longrightarrow>
        (\<exists>sec'. stored s' = (stored s)((ns, n) \<mapsto> sec') \<and> secret_content sec' = secret_content sec \<and>
          sec_immutable sec' = sec_immutable sec \<and>
          om_owner_references (sec_metadata sec') = om_owner_references (sec_metadata sec)))"

text \<open>
  When the creation of a random secret succeeds, a secret of that name exists and no other secret has
  changed. An existing value survives, also when an immutable secret is made mutable; only a
  missing secret gets the fresh random value, under the given key, with the stacklet as its owner.
\<close>

theorem random_secret_kept:
  assumes "secret_laws api stored" "ko_namespace stacklet = Some ns"
    and "create_random_secret_if_not_exists api random name key bytes stacklet s = (s', Inr ())"
  shows "(\<forall>k. k \<noteq> (ns, name) \<longrightarrow> stored s' k = stored s k) \<and>
    (\<exists>sec'. stored s' (ns, name) = Some sec' \<and>
       (case stored s (ns, name) of
          Some sec \<Rightarrow> secret_content sec' = secret_content sec \<and> sec_immutable sec' \<noteq> Some True
        | None \<Rightarrow> secret_content sec' = [(key, random bytes)] \<and>
            map_option (map (Some \<circ> or_uid)) (om_owner_references (sec_metadata sec')) = Some [ko_uid stacklet]))"
proof -
  have laws: "\<And>r. sec_get_opt api s name ns = Inr r \<Longrightarrow> r = stored s (ns, name)"
    "\<And>sec. stored s (ns, name) = Some sec \<Longrightarrow> secret_id sec = (Some ns, Some name)"
    "\<And>t. sec_delete api s name ns = (t, Inr ()) \<Longrightarrow> stored t = (stored s)((ns, name) := None)"
    "\<And>t t' sec. sec_create api t sec = (t', Inr ()) \<Longrightarrow> secret_id sec = (Some ns, Some name) \<Longrightarrow>
      \<exists>sec'. stored t' = (stored t)((ns, name) \<mapsto> sec') \<and> secret_content sec' = secret_content sec \<and>
        sec_immutable sec' = sec_immutable sec \<and> om_owner_references (sec_metadata sec') = om_owner_references (sec_metadata sec)"
    using assms(1) unfolding secret_laws_def by blast+
  obtain r where r: "sec_get_opt api s name ns = Inr r"
    using assms(2,3) by (auto simp: create_random_secret_if_not_exists_def split: sum.splits)
  show ?thesis
  proof (cases r)
    case None
    obtain sec where sec: "new_random_secret name key (random bytes) stacklet = Inr sec" "sec_create api s sec = (s', Inr ())"
      using assms(2,3) r None
      by (auto simp: create_random_secret_if_not_exists_def map_result_def prod_eq_iff split: sum.splits)
    have new: "secret_id sec = (Some ns, Some name)" "secret_content sec = [(key, random bytes)]"
      "map_option (map (Some \<circ> or_uid)) (om_owner_references (sec_metadata sec)) = Some [ko_uid stacklet]"
      using sec(1) assms(2)
      by (auto simp: new_random_secret_def ownerreference_from_resource_Inr secret_id_def secret_content_def meta_build_def
          meta_name_def meta_namespace_opt_def meta_new_def object_meta_default_def btree_extend_def)
    show ?thesis using laws(4) [OF sec(2) new(1)] new(2,3) laws(1) [OF r] None by auto
  next
    case (Some sec)
    show ?thesis
    proof (cases "sec_immutable sec = Some True")
      case True
      let ?m = "sec\<lparr>sec_immutable := Some False, sec_resource_version := None\<rparr>"
      obtain t where t: "sec_delete api s name ns = (t, Inr ())" "sec_create api t ?m = (s', Inr ())"
        using assms(2,3) r Some True
        by (auto simp: create_random_secret_if_not_exists_def map_result_def prod_eq_iff Let_def split: prod.splits sum.splits)
      have "secret_id ?m = (Some ns, Some name)" "secret_content ?m = secret_content sec"
        using laws(1) [OF r] laws(2) Some by (simp_all add: secret_id_def secret_content_def)
      then obtain sec' where "stored s' = (stored s)((ns, name) \<mapsto> sec')" "secret_content sec' = secret_content sec"
          "sec_immutable sec' = Some False"
        using laws(4) [OF t(2)] laws(3) [OF t(1)] by auto
      moreover have "stored s (ns, name) = Some sec" using laws(1) [OF r] Some by simp
      ultimately show ?thesis by auto
    next
      case False
      then show ?thesis using assms(2,3) r Some laws(1) [OF r] by (auto simp: create_random_secret_if_not_exists_def)
    qed
  qed
qed

text \<open>A server whose state is the map of the secrets; with the flag unset it refuses every creation.\<close>

definition demo_secrets :: "bool \<Rightarrow> (string \<times> string \<Rightarrow> secret option) secret_api" where
  "demo_secrets accepts =
     \<lparr>sec_get_opt = (\<lambda>s n ns. Inr (case s (ns, n) of
         Some sec \<Rightarrow> if secret_id sec = (Some ns, Some n) then Some sec else None | None \<Rightarrow> None)),
      sec_delete = (\<lambda>s n ns. (s((ns, n) := None), Inr ())),
      sec_create = (\<lambda>s sec. case secret_id sec of
         (Some ns, Some n) \<Rightarrow> if accepts then (s((ns, n) \<mapsto> sec), Inr ()) else (s, Inl (CreateResource OtherKubeError n))
       | _ \<Rightarrow> (s, Inl (CreateResource OtherKubeError [])))\<rparr>"

definition demo_stored :: "(string \<times> string \<Rightarrow> secret option) \<Rightarrow> string \<times> string \<Rightarrow> secret option" where
  "demo_stored s k = (case s k of Some sec \<Rightarrow> if secret_id sec = (Some (fst k), Some (snd k)) then Some sec else None | None \<Rightarrow> None)"

lemma demo_stored_upd:
  "demo_stored (s(k := None)) = (demo_stored s)(k := None)"
  "secret_id sec = (Some (fst k), Some (snd k)) \<Longrightarrow> demo_stored (s(k \<mapsto> sec)) = (demo_stored s)(k \<mapsto> sec)"
  by (auto simp: demo_stored_def fun_eq_iff)

lemma demo_secret_laws: "secret_laws (demo_secrets accepts) demo_stored"
  unfolding secret_laws_def
proof (intro conjI allI impI)
  fix s sec s' n ns
  assume *: "sec_create (demo_secrets accepts) s sec = (s', Inr ()) \<and> secret_id sec = (Some ns, Some n)"
  then have "s' = s((ns, n) \<mapsto> sec)" by (auto simp: demo_secrets_def split: if_splits)
  then show "\<exists>sec'. demo_stored s' = (demo_stored s)((ns, n) \<mapsto> sec') \<and> secret_content sec' = secret_content sec \<and>
      sec_immutable sec' = sec_immutable sec \<and> om_owner_references (sec_metadata sec') = om_owner_references (sec_metadata sec)"
    using * demo_stored_upd(2) [of sec "(ns, n)" s] by (intro exI [of _ sec]) simp
qed (auto simp: demo_secrets_def demo_stored_def demo_stored_upd(1) [symmetric] split: option.splits if_splits)

definition demo_stacklet :: kube_object where
  "demo_stacklet = \<lparr>ko_api_version = ''a/v1'', ko_kind = ''K'', ko_name_any = ''zk'', ko_namespace = Some ''ns'', ko_uid = Some ''42''\<rparr>"

definition demo_old_secret :: secret where
  "demo_old_secret = \<lparr>sec_metadata = object_meta_default\<lparr>om_name := Some ''pw'', om_namespace := Some ''ns''\<rparr>,
     sec_resource_version = Some ''7'', sec_immutable = Some True, sec_data = [(''k'', ''v'')], sec_string_data = None\<rparr>"

theorem random_secret_kept_witness:
  "\<exists>s' sec'. create_random_secret_if_not_exists (demo_secrets True) (\<lambda>_. ''r'') ''pw'' ''k'' 8 demo_stacklet
       [(''ns'', ''pw'') \<mapsto> demo_old_secret] = (s', Inr ()) \<and>
     demo_stored s' (''ns'', ''pw'') = Some sec' \<and> secret_content sec' = [(''k'', ''v'')]"
proof -
  let ?s = "[(''ns'', ''pw'') \<mapsto> demo_old_secret]"
  obtain s' where s': "create_random_secret_if_not_exists (demo_secrets True) (\<lambda>_. ''r'') ''pw'' ''k'' 8 demo_stacklet ?s = (s', Inr ())"
    by (simp add: create_random_secret_if_not_exists_def demo_stacklet_def demo_secrets_def demo_old_secret_def secret_id_def
        map_result_def)
  have "demo_stored ?s (''ns'', ''pw'') = Some demo_old_secret" "secret_content demo_old_secret = [(''k'', ''v'')]"
    by (simp_all add: demo_stored_def demo_old_secret_def secret_id_def secret_content_def btree_extend_def)
  then show ?thesis
    using random_secret_kept [OF demo_secret_laws _ s', of "''ns''"] s' by (auto simp: demo_stacklet_def)
qed

text \<open>
  Making an immutable secret mutable can lose it: when the deletion succeeds and the creation that follows
  is refused, the random value is gone, and the next call draws a new one.
\<close>

theorem random_secret_lost:
  "\<exists>s' e. create_random_secret_if_not_exists (demo_secrets False) random ''pw'' ''k'' 8 demo_stacklet
       [(''ns'', ''pw'') \<mapsto> demo_old_secret] = (s', Inl (CreateRandomSecret e)) \<and>
     demo_stored s' (''ns'', ''pw'') = None \<and>
     (\<exists>s'' sec. create_random_secret_if_not_exists (demo_secrets True) random ''pw'' ''k'' 8 demo_stacklet s' = (s'', Inr ()) \<and>
        demo_stored s'' (''ns'', ''pw'') = Some sec \<and> secret_content sec = [(''k'', random 8)])"
  by (simp add: create_random_secret_if_not_exists_def demo_stacklet_def demo_secrets_def demo_old_secret_def secret_id_def
      map_result_def demo_stored_def new_random_secret_def ownerreference_from_resource_def initialize_from_resource_def owner_build_def
      owner_new_def owner_uid_opt_def owner_name_def owner_kind_def owner_api_version_def owner_block_owner_deletion_opt_def
      owner_controller_opt_def meta_build_def meta_name_def meta_namespace_opt_def meta_new_def object_meta_default_def
      secret_content_def btree_extend_def)

end
