(* ===== verification/Typed_Names.thy ===== *)
theory Typed_Names
  imports Commons Length_Enforcement
begin

section \<open>Names with a checked type\<close>

text \<open>
  The macro \<open>attributed_string_type!\<close> of \<open>v2/macros/attributed_string_type.rs\<close>, the types that
  \<open>v2/types\<close> makes with it, and the resource names of roles and role groups (\<open>v2/role_utils.rs\<close>,
  \<open>v2/role_group_utils.rs\<close>, \<open>v2/controller_utils.rs\<close>). A type is its list of attributes and a value
  its string. \<open>uuid::Uuid::try_parse\<close> is the argument \<open>uuid_try_parse\<close>.
\<close>

subsection \<open>The macro\<close>

text \<open>
  A regular expression of the sources is its text and its translation, \<^const>\<open>None\<close> when
  \<open>Regex::new\<close> refuses the text.
\<close>

type_synonym pattern = "string \<times> regex option"

datatype attribute =
    MinLength nat
  | MaxLength nat
  | MatchesRegex pattern
  | IsRfc1035LabelName
  | IsRfc1123DnsSubdomainName
  | IsRfc1123LabelName
  | IsValidLabelValue
  | IsUid

type_synonym string_type = "attribute list"

datatype 'u attr_error =
    MinimumLengthNotMet nat nat
  | LengthExceeded nat nat
  | InvalidRegex string
  | RegexNotMatched string string
  | InvalidLabelValue label_value_error
  | InvalidRfc1035LabelName validation_errors
  | InvalidRfc1123DnsSubdomainName validation_errors
  | InvalidRfc1123LabelName validation_errors
  | InvalidUid 'u

datatype const_regex = UnknownRegex | MatchAll | Expression pattern

fun regex_combine :: "const_regex \<Rightarrow> const_regex \<Rightarrow> const_regex" where
  "regex_combine self MatchAll = self"
| "regex_combine MatchAll other = other"
| "regex_combine self other = UnknownRegex"

definition MAX_LABEL_VALUE_LENGTH :: nat where
  "MAX_LABEL_VALUE_LENGTH = 63"

definition usize_min :: "nat \<Rightarrow> nat \<Rightarrow> nat" where
  "usize_min x y = (if x < y then x else y)"

definition usize_max :: "nat \<Rightarrow> nat \<Rightarrow> nat" where
  "usize_max x y = (if x < y then y else x)"

text \<open>\<open>usize::MAX\<close> and \<open>uuid::fmt::Hyphenated::LENGTH\<close>\<close>

definition USIZE_MAX :: nat where
  "USIZE_MAX = 2 ^ 64 - 1"

definition UUID_HYPHENATED_LENGTH :: nat where
  "UUID_HYPHENATED_LENGTH = 36"

fun attr_min_length :: "string_type \<Rightarrow> nat" where
  "attr_min_length [] = 0"
| "attr_min_length (MinLength n # attrs) = usize_max n (attr_min_length attrs)"
| "attr_min_length (MaxLength n # attrs) = attr_min_length attrs"
| "attr_min_length (MatchesRegex r # attrs) = attr_min_length attrs"
| "attr_min_length (IsRfc1035LabelName # attrs) = usize_max 1 (attr_min_length attrs)"
| "attr_min_length (IsRfc1123DnsSubdomainName # attrs) = usize_max 1 (attr_min_length attrs)"
| "attr_min_length (IsRfc1123LabelName # attrs) = usize_max 1 (attr_min_length attrs)"
| "attr_min_length (IsValidLabelValue # attrs) = usize_max 1 (attr_min_length attrs)"
| "attr_min_length (IsUid # attrs) = usize_max UUID_HYPHENATED_LENGTH (attr_min_length attrs)"

fun attr_max_length :: "string_type \<Rightarrow> nat" where
  "attr_max_length [] = USIZE_MAX"
| "attr_max_length (MinLength n # attrs) = attr_max_length attrs"
| "attr_max_length (MaxLength n # attrs) = usize_min n (attr_max_length attrs)"
| "attr_max_length (MatchesRegex r # attrs) = attr_max_length attrs"
| "attr_max_length (IsRfc1035LabelName # attrs) = usize_min RFC_1035_LABEL_MAX_LENGTH (attr_max_length attrs)"
| "attr_max_length (IsRfc1123DnsSubdomainName # attrs) = usize_min RFC_1123_SUBDOMAIN_MAX_LENGTH (attr_max_length attrs)"
| "attr_max_length (IsRfc1123LabelName # attrs) = usize_min RFC_1123_LABEL_MAX_LENGTH (attr_max_length attrs)"
| "attr_max_length (IsValidLabelValue # attrs) = usize_min MAX_LABEL_VALUE_LENGTH (attr_max_length attrs)"
| "attr_max_length (IsUid # attrs) = usize_min UUID_HYPHENATED_LENGTH (attr_max_length attrs)"

text \<open>\<open>[0-9a-fA-F]{8}-[0-9a-fA-F]{4}-[0-9a-fA-F]{4}-[0-9a-fA-F]{4}-[0-9a-fA-F]{12}\<close>\<close>

definition hex_class :: "(char \<times> char) list" where
  "hex_class = [(CHR ''0'', CHR ''9''), (CHR ''a'', CHR ''f''), (CHR ''A'', CHR ''F'')]"

fun times_then :: "nat \<Rightarrow> regex \<Rightarrow> regex \<Rightarrow> regex" where
  "times_then 0 r rest = rest"
| "times_then (Suc n) r rest = Seq r (times_then n r rest)"

definition UUID_FMT :: regex where
  "UUID_FMT =
     times_then 8 (Class hex_class) (Seq (Lit (CHR ''-'')) (times_then 4 (Class hex_class) (Seq (Lit (CHR ''-''))
       (times_then 4 (Class hex_class) (Seq (Lit (CHR ''-'')) (times_then 4 (Class hex_class) (Seq (Lit (CHR ''-''))
         (times_then 11 (Class hex_class) (Class hex_class)))))))))"

definition pattern_rfc_1035_label :: pattern where
  "pattern_rfc_1035_label = (''^[a-z]([-a-z0-9]*[a-z0-9])?$'', Some LOWERCASE_RFC_1035_LABEL_FMT)"

definition pattern_rfc_1123_subdomain :: pattern where
  "pattern_rfc_1123_subdomain =
     (''^[a-z0-9]([-a-z0-9]*[a-z0-9])?('' @ [CHR 0x5C] @ ''.[a-z0-9]([-a-z0-9]*[a-z0-9])?)*$'', Some LOWERCASE_RFC_1123_SUBDOMAIN_FMT)"

definition pattern_rfc_1123_label :: pattern where
  "pattern_rfc_1123_label = (''^[a-z0-9]([-a-z0-9]*[a-z0-9])?$'', Some LOWERCASE_RFC_1123_LABEL_FMT)"

definition pattern_label_value :: pattern where
  "pattern_label_value = (''^[a-z0-9A-Z]([a-z0-9A-Z-_.]*[a-z0-9A-Z]+)?$'', Some LABEL_VALUE_REGEX)"

definition pattern_uid :: pattern where
  "pattern_uid = (''^[0-9a-fA-F]{8}-[0-9a-fA-F]{4}-[0-9a-fA-F]{4}-[0-9a-fA-F]{4}-[0-9a-fA-F]{12}$'', Some UUID_FMT)"

fun attr_regex :: "string_type \<Rightarrow> const_regex" where
  "attr_regex [] = MatchAll"
| "attr_regex (MinLength n # attrs) = attr_regex attrs"
| "attr_regex (MaxLength n # attrs) = attr_regex attrs"
| "attr_regex (MatchesRegex r # attrs) = regex_combine (Expression r) (attr_regex attrs)"
| "attr_regex (IsRfc1035LabelName # attrs) = regex_combine (Expression pattern_rfc_1035_label) (attr_regex attrs)"
| "attr_regex (IsRfc1123DnsSubdomainName # attrs) = regex_combine (Expression pattern_rfc_1123_subdomain) (attr_regex attrs)"
| "attr_regex (IsRfc1123LabelName # attrs) = regex_combine (Expression pattern_rfc_1123_label) (attr_regex attrs)"
| "attr_regex (IsValidLabelValue # attrs) = regex_combine (Expression pattern_label_value) (attr_regex attrs)"
| "attr_regex (IsUid # attrs) = regex_combine (Expression pattern_uid) (attr_regex attrs)"

text \<open>\<open>@from_str\<close>: the check of one attribute in the \<open>from_str\<close> of the type.\<close>

fun attr_check :: "(string \<Rightarrow> (unit, 'u) result) \<Rightarrow> string_type \<Rightarrow> string \<Rightarrow> attribute \<Rightarrow> (unit, 'u attr_error) result" where
  "attr_check uuid_try_parse name s (MinLength _) =
     ensure (attr_min_length name \<le> length s) (MinimumLengthNotMet (length s) (attr_min_length name))"
| "attr_check uuid_try_parse name s (MaxLength _) =
     ensure (length s \<le> attr_max_length name) (LengthExceeded (length s) (attr_max_length name))"
| "attr_check uuid_try_parse name s (MatchesRegex (text, compiled)) =
     and_then (ok_or (InvalidRegex text) compiled) (\<lambda>r.
     ensure (is_match r s) (RegexNotMatched s text))"
| "attr_check uuid_try_parse name s IsRfc1035LabelName = map_err InvalidRfc1035LabelName (is_lowercase_rfc_1035_label s)"
| "attr_check uuid_try_parse name s IsRfc1123DnsSubdomainName =
     map_err InvalidRfc1123DnsSubdomainName (is_lowercase_rfc_1123_subdomain s)"
| "attr_check uuid_try_parse name s IsRfc1123LabelName = map_err InvalidRfc1123LabelName (is_lowercase_rfc_1123_label s)"
| "attr_check uuid_try_parse name s IsValidLabelValue =
     and_then (map_err InvalidLabelValue (label_value_from_str s)) (\<lambda>_. Inr ())"
| "attr_check uuid_try_parse name s IsUid = map_err InvalidUid (uuid_try_parse s)"

definition attr_from_str ::
    "(string \<Rightarrow> (unit, 'u) result) \<Rightarrow> string_type \<Rightarrow> string \<Rightarrow> (string, 'u attr_error) result" where
  "attr_from_str uuid_try_parse name s = and_then (traverse_list (attr_check uuid_try_parse name s) name) (\<lambda>_. Inr s)"

record string_schema =
  minLength :: nat
  maxLength :: "nat option"
  schema_pattern :: "pattern option"

definition attr_json_schema :: "string_type \<Rightarrow> string_schema" where
  "attr_json_schema name =
     \<lparr>minLength = attr_min_length name,
      maxLength = (if attr_max_length name \<noteq> USIZE_MAX then Some (attr_max_length name) else None),
      schema_pattern = (case attr_regex name of Expression regex \<Rightarrow> Some regex | _ \<Rightarrow> None)\<rparr>"

text \<open>
  \<open>@trait_impl\<close>: the constants that a type has. The code only compiles where a constant that it
  mentions exists.
\<close>

definition IS_RFC_1035_LABEL_NAME :: "string_type \<Rightarrow> bool" where
  "IS_RFC_1035_LABEL_NAME name \<longleftrightarrow> IsRfc1035LabelName \<in> set name"

definition IS_RFC_1123_LABEL_NAME :: "string_type \<Rightarrow> bool" where
  "IS_RFC_1123_LABEL_NAME name \<longleftrightarrow> IsRfc1035LabelName \<in> set name \<or> IsRfc1123LabelName \<in> set name"

definition IS_RFC_1123_SUBDOMAIN_NAME :: "string_type \<Rightarrow> bool" where
  "IS_RFC_1123_SUBDOMAIN_NAME name \<longleftrightarrow>
     IsRfc1035LabelName \<in> set name \<or> IsRfc1123DnsSubdomainName \<in> set name \<or> IsRfc1123LabelName \<in> set name"

definition IS_VALID_LABEL_VALUE :: "string_type \<Rightarrow> bool" where
  "IS_VALID_LABEL_VALUE name \<longleftrightarrow> IsValidLabelValue \<in> set name"

subsection \<open>Types\<close>

definition ConfigMapName :: string_type where
  "ConfigMapName = [IsRfc1123DnsSubdomainName]"

text \<open>\<open>^[-._a-zA-Z0-9]+$\<close>\<close>

definition pattern_config_key :: pattern where
  "pattern_config_key =
     (''^[-._a-zA-Z0-9]+$'', Some (Plus (Class ([(CHR ''-'', CHR ''-''), (CHR ''.'', CHR ''.''), (CHR ''_'', CHR ''_'')] @ alnum))))"

definition ConfigMapKey :: string_type where
  "ConfigMapKey = [MinLength 1, MaxLength RFC_1123_SUBDOMAIN_MAX_LENGTH, MatchesRegex pattern_config_key]"

definition ContainerName :: string_type where
  "ContainerName = [IsRfc1123LabelName]"

definition ClusterRoleName :: string_type where
  "ClusterRoleName = [IsRfc1123DnsSubdomainName]"

definition DaemonSetName :: string_type where
  "DaemonSetName = [IsRfc1123DnsSubdomainName]"

definition DeploymentName :: string_type where
  "DeploymentName = [IsRfc1123LabelName]"

text \<open>\<open>^L(\.L)*\.?$\<close> where \<open>L\<close> is \<open>[a-zA-Z0-9]([-a-zA-Z0-9]{0,60}[a-zA-Z0-9])?\<close>\<close>

definition HOSTNAME_LABEL_FMT :: regex where
  "HOSTNAME_LABEL_FMT = Seq (Class alnum) (Opt (Seq (UpTo 60 (Class dash_alnum)) (Class alnum)))"

definition pattern_hostname :: pattern where
  "pattern_hostname =
     (let l = ''[a-zA-Z0-9]([-a-zA-Z0-9]{0,60}[a-zA-Z0-9])?'' in
      (''^'' @ l @ ''('' @ [CHR 0x5C] @ ''.'' @ l @ '')*'' @ [CHR 0x5C] @ ''.?$'',
       Some (Seq (dotted HOSTNAME_LABEL_FMT) (Opt (Lit (CHR ''.''))))))"

definition Hostname :: string_type where
  "Hostname = [MinLength 1, MaxLength 253, MatchesRegex pattern_hostname]"

definition ListenerNameType :: string_type where
  "ListenerNameType = [IsRfc1123DnsSubdomainName]"

definition ListenerClassName :: string_type where
  "ListenerClassName = [IsRfc1123DnsSubdomainName]"

definition NamespaceName :: string_type where
  "NamespaceName = [IsRfc1123LabelName, IsValidLabelValue]"

definition PersistentVolumeClaimName :: string_type where
  "PersistentVolumeClaimName = [IsRfc1123DnsSubdomainName]"

definition RoleBindingName :: string_type where
  "RoleBindingName = [IsRfc1123DnsSubdomainName]"

definition SecretClassName :: string_type where
  "SecretClassName = [IsRfc1123DnsSubdomainName]"

definition SecretKey :: string_type where
  "SecretKey = [MinLength 1, MaxLength RFC_1123_SUBDOMAIN_MAX_LENGTH, MatchesRegex pattern_config_key]"

definition SecretName :: string_type where
  "SecretName = [IsRfc1123DnsSubdomainName]"

definition ServiceAccountName :: string_type where
  "ServiceAccountName = [IsRfc1123DnsSubdomainName]"

definition ServiceName :: string_type where
  "ServiceName = [IsRfc1035LabelName, IsValidLabelValue]"

definition StatefulSetName :: string_type where
  "StatefulSetName = [MaxLength (RFC_1123_LABEL_MAX_LENGTH - 1 - 10), IsRfc1123LabelName, IsValidLabelValue]"

definition Uid :: string_type where
  "Uid = [IsUid, IsValidLabelValue]"

definition VolumeName :: string_type where
  "VolumeName = [IsRfc1123LabelName, IsValidLabelValue]"

definition ProductName :: string_type where
  "ProductName = [MaxLength 54, IsRfc1123DnsSubdomainName, IsValidLabelValue]"

definition ProductVersion :: string_type where
  "ProductVersion = [IsValidLabelValue]"

definition ClusterName :: string_type where
  "ClusterName = [MaxLength 40, IsRfc1035LabelName, IsValidLabelValue]"

definition ControllerName :: string_type where
  "ControllerName = [IsValidLabelValue]"

definition OperatorName :: string_type where
  "OperatorName = [IsValidLabelValue]"

definition RoleGroupName :: string_type where
  "RoleGroupName = [IsRfc1123LabelName, IsValidLabelValue]"

definition RoleName :: string_type where
  "RoleName = [IsRfc1123LabelName, IsValidLabelValue]"

definition QualifiedRoleGroupName :: string_type where
  "QualifiedRoleGroupName = [MaxLength 52, IsRfc1035LabelName, IsValidLabelValue]"

text \<open>\<open>^[ -<>-~]+$\<close>\<close>

definition pattern_env_var_name :: pattern where
  "pattern_env_var_name = (''^[ -<>-~]+$'', Some (Plus (Class [(CHR '' '', CHR ''<''), (CHR ''>'', CHR ''~'')])))"

definition EnvVarName :: string_type where
  "EnvVarName = [MinLength 1, MatchesRegex pattern_env_var_name]"

lemmas string_type_defs = ConfigMapName_def ConfigMapKey_def ContainerName_def ClusterRoleName_def DaemonSetName_def
  DeploymentName_def Hostname_def ListenerNameType_def ListenerClassName_def NamespaceName_def PersistentVolumeClaimName_def
  RoleBindingName_def SecretClassName_def SecretKey_def SecretName_def ServiceAccountName_def ServiceName_def
  StatefulSetName_def Uid_def VolumeName_def ProductName_def ProductVersion_def ClusterName_def ControllerName_def
  OperatorName_def RoleGroupName_def RoleName_def QualifiedRoleGroupName_def EnvVarName_def

text \<open>\<open>Port\<close>, a \<open>u16\<close>: \<open>try_from\<close> an \<open>i32\<close>.\<close>

type_synonym port = "16 word"

datatype port_error = ConvertToPortNumber

definition port_fmt :: "port \<Rightarrow> string" where
  "port_fmt self = show_nat (unat self)"

definition port_into_i32 :: "port \<Rightarrow> 32 word" where
  "port_into_i32 value = ucast value"

definition port_try_from :: "32 word \<Rightarrow> (port, port_error) result" where
  "port_try_from value = (if 0 \<le> sint value \<and> sint value < 2 ^ 16 then Inr (word_of_int (sint value)) else Inl ConvertToPortNumber)"

subsection \<open>Resource names of a role\<close>

record role_resource_names =
  rrn_cluster_name :: string
  rrn_product_name :: string

text \<open>A failing \<open>expect\<close> or \<open>assert!\<close> is \<^const>\<open>None\<close>.\<close>

definition role_service_account_name :: "(string \<Rightarrow> (unit, 'u) result) \<Rightarrow> role_resource_names \<Rightarrow> string option" where
  "role_service_account_name u self = expect (attr_from_str u ServiceAccountName (rrn_cluster_name self @ ''-serviceaccount''))"

definition role_role_binding_name :: "(string \<Rightarrow> (unit, 'u) result) \<Rightarrow> role_resource_names \<Rightarrow> string option" where
  "role_role_binding_name u self = expect (attr_from_str u RoleBindingName (rrn_cluster_name self @ ''-rolebinding''))"

definition role_cluster_role_name :: "(string \<Rightarrow> (unit, 'u) result) \<Rightarrow> role_resource_names \<Rightarrow> string option" where
  "role_cluster_role_name u self = expect (attr_from_str u ClusterRoleName (rrn_product_name self @ ''-clusterrole''))"

subsection \<open>Resource names of a role group\<close>

record group_resource_names =
  grn_cluster_name :: string
  grn_role_name :: string
  grn_role_group_name :: string

definition qualified_role_group_name ::
    "(string \<Rightarrow> string) \<Rightarrow> (string \<Rightarrow> (unit, 'u) result) \<Rightarrow> group_resource_names \<Rightarrow> string option" where
  "qualified_role_group_name sha256_hex u self =
     (let concatenated_name = grn_cluster_name self @ ''-'' @ grn_role_name self @ ''-'' @ grn_role_group_name self in
      if \<not> is_ascii concatenated_name then None
      else Option.bind (ensure_max_string_length sha256_hex concatenated_name (attr_max_length QualifiedRoleGroupName) 6)
        (\<lambda>sanitized_name.
           if \<not> length sanitized_name \<le> attr_max_length QualifiedRoleGroupName then None
           else expect (attr_from_str u QualifiedRoleGroupName sanitized_name)))"

definition qualified_with ::
    "(string \<Rightarrow> string) \<Rightarrow> (string \<Rightarrow> (unit, 'u) result) \<Rightarrow> string_type \<Rightarrow> string \<Rightarrow> group_resource_names \<Rightarrow> string option" where
  "qualified_with sha256_hex u name sfx self =
     Option.bind (qualified_role_group_name sha256_hex u self) (\<lambda>q. expect (attr_from_str u name (q @ sfx)))"

definition role_group_config_map :: "(string \<Rightarrow> string) \<Rightarrow> (string \<Rightarrow> (unit, 'u) result) \<Rightarrow> group_resource_names \<Rightarrow> string option" where
  "role_group_config_map sha256_hex u self = qualified_with sha256_hex u ConfigMapName [] self"

definition daemon_set_name :: "(string \<Rightarrow> string) \<Rightarrow> (string \<Rightarrow> (unit, 'u) result) \<Rightarrow> group_resource_names \<Rightarrow> string option" where
  "daemon_set_name sha256_hex u self = qualified_with sha256_hex u DaemonSetName [] self"

definition deployment_name :: "(string \<Rightarrow> string) \<Rightarrow> (string \<Rightarrow> (unit, 'u) result) \<Rightarrow> group_resource_names \<Rightarrow> string option" where
  "deployment_name sha256_hex u self = qualified_with sha256_hex u DeploymentName [] self"

definition stateful_set_name :: "(string \<Rightarrow> string) \<Rightarrow> (string \<Rightarrow> (unit, 'u) result) \<Rightarrow> group_resource_names \<Rightarrow> string option" where
  "stateful_set_name sha256_hex u self = qualified_with sha256_hex u StatefulSetName [] self"

definition headless_service_name :: "(string \<Rightarrow> string) \<Rightarrow> (string \<Rightarrow> (unit, 'u) result) \<Rightarrow> group_resource_names \<Rightarrow> string option" where
  "headless_service_name sha256_hex u self = qualified_with sha256_hex u ServiceName ''-headless'' self"

definition metrics_service_name :: "(string \<Rightarrow> string) \<Rightarrow> (string \<Rightarrow> (unit, 'u) result) \<Rightarrow> group_resource_names \<Rightarrow> string option" where
  "metrics_service_name sha256_hex u self = qualified_with sha256_hex u ServiceName ''-metrics'' self"

definition listener_name :: "(string \<Rightarrow> string) \<Rightarrow> (string \<Rightarrow> (unit, 'u) result) \<Rightarrow> group_resource_names \<Rightarrow> string option" where
  "listener_name sha256_hex u self = qualified_with sha256_hex u ListenerNameType [] self"

subsection \<open>Names from an object\<close>

text \<open>\<open>v2/controller_utils.rs\<close>: the metadata that \<open>Lookup\<close> gives, where each part may be missing.\<close>

record lookup =
  lk_name :: "string option"
  lk_namespace :: "string option"
  lk_uid :: "string option"

datatype 'u controller_error =
    GetClusterName
  | GetNamespace
  | GetUid
  | ParseClusterName "'u attr_error"
  | ParseNamespace "'u attr_error"
  | ParseUid "'u attr_error"

definition get_cluster_name :: "(string \<Rightarrow> (unit, 'u) result) \<Rightarrow> lookup \<Rightarrow> (string, 'u controller_error) result" where
  "get_cluster_name u cluster =
     and_then (ok_or GetClusterName (lk_name cluster)) (\<lambda>raw_cluster_name.
     map_err ParseClusterName (attr_from_str u ClusterName raw_cluster_name))"

definition typed_get_namespace :: "(string \<Rightarrow> (unit, 'u) result) \<Rightarrow> lookup \<Rightarrow> (string, 'u controller_error) result" where
  "typed_get_namespace u resource =
     and_then (ok_or GetNamespace (lk_namespace resource)) (\<lambda>raw_namespace.
     map_err ParseNamespace (attr_from_str u NamespaceName raw_namespace))"

definition get_uid :: "(string \<Rightarrow> (unit, 'u) result) \<Rightarrow> lookup \<Rightarrow> (string, 'u controller_error) result" where
  "get_uid u resource =
     and_then (ok_or GetUid (lk_uid resource)) (\<lambda>raw_uid.
     map_err ParseUid (attr_from_str u Uid raw_uid))"

subsection \<open>What the types accept\<close>

lemma traverse_list_ok: "(\<exists>ys. traverse_list f xs = Inr ys) \<longleftrightarrow> (\<forall>x \<in> set xs. \<exists>y. f x = Inr y)"
  by (induction xs) (auto simp: result_simps)

lemma label_subdomain:
  "is_lowercase_rfc_1123_label s = Inr () \<Longrightarrow> is_lowercase_rfc_1123_subdomain s = Inr ()"
  by (simp add: validator_defs pattern_iffs length_defs label_is_subdomain)

lemma attr_from_str_Inr [simp]:
  "attr_from_str u T s = Inr v \<longleftrightarrow> v = s \<and> (\<forall>a \<in> set T. attr_check u T s a = Inr ())"
  using traverse_list_ok [of "attr_check u T s" T] by (auto simp: attr_from_str_def result_simps)

lemma expect_Some [simp]: "expect r = Some a \<longleftrightarrow> r = Inr a"
  by (cases r) simp_all

lemma usize_min_eq [simp]: "usize_min = min"
  by (intro ext) (simp add: usize_min_def)

lemma usize_max_eq [simp]: "usize_max = max"
  by (intro ext) (auto simp: usize_max_def)

lemma validators_iff:
  "is_lowercase_rfc_1123_label s = Inr () \<longleftrightarrow> length s \<le> 63 \<and> label_over lower_alnum_char s"
  "is_lowercase_rfc_1035_label s = Inr () \<longleftrightarrow> length s \<le> 63 \<and> label_over lower_alnum_char s \<and> is_lower (hd s)"
  "is_lowercase_rfc_1123_subdomain s = Inr () \<longleftrightarrow>
     length s \<le> 253 \<and> list_all (label_over lower_alnum_char) (split_char (CHR ''.'') s)"
  by (simp_all only: validator_defs validate_all_Inr validate_str_ok list.pred_inject pattern_iffs length_defs simp_thms)

text \<open>
  Every attribute bounds the length, and most ask for a pattern. A type accepts a string exactly
  when the string keeps all these bounds and matches all these patterns.
\<close>

fun attr_lo :: "attribute \<Rightarrow> nat" where
  "attr_lo (MinLength n) = n"
| "attr_lo (MaxLength n) = 0"
| "attr_lo (MatchesRegex r) = 0"
| "attr_lo IsUid = UUID_HYPHENATED_LENGTH"
| "attr_lo _ = 1"

fun attr_hi :: "attribute \<Rightarrow> nat" where
  "attr_hi (MinLength n) = USIZE_MAX"
| "attr_hi (MaxLength n) = n"
| "attr_hi (MatchesRegex r) = USIZE_MAX"
| "attr_hi IsRfc1035LabelName = 63"
| "attr_hi IsRfc1123DnsSubdomainName = 253"
| "attr_hi IsRfc1123LabelName = 63"
| "attr_hi IsValidLabelValue = 63"
| "attr_hi IsUid = UUID_HYPHENATED_LENGTH"

fun attr_pattern :: "attribute \<Rightarrow> pattern option" where
  "attr_pattern (MinLength n) = None"
| "attr_pattern (MaxLength n) = None"
| "attr_pattern (MatchesRegex r) = Some r"
| "attr_pattern IsRfc1035LabelName = Some pattern_rfc_1035_label"
| "attr_pattern IsRfc1123DnsSubdomainName = Some pattern_rfc_1123_subdomain"
| "attr_pattern IsRfc1123LabelName = Some pattern_rfc_1123_label"
| "attr_pattern IsValidLabelValue = Some pattern_label_value"
| "attr_pattern IsUid = Some pattern_uid"

definition pattern_matches :: "pattern \<Rightarrow> string \<Rightarrow> bool" where
  "pattern_matches p s = (case snd p of None \<Rightarrow> False | Some r \<Rightarrow> is_match r s)"

definition attr_holds :: "string \<Rightarrow> attribute \<Rightarrow> bool" where
  "attr_holds s a \<longleftrightarrow> attr_lo a \<le> length s \<and> length s \<le> attr_hi a \<and>
     (case attr_pattern a of None \<Rightarrow> True | Some p \<Rightarrow> pattern_matches p s)"

lemma attr_min_length_le: "attr_min_length T \<le> n \<longleftrightarrow> (\<forall>a \<in> set T. attr_lo a \<le> n)"
  by (induction T rule: attr_min_length.induct) auto

lemma attr_max_length_ge: "n \<le> attr_max_length T \<longleftrightarrow> n \<le> USIZE_MAX \<and> (\<forall>a \<in> set T. n \<le> attr_hi a)"
  by (induction T rule: attr_max_length.induct) (auto simp: length_defs MAX_LABEL_VALUE_LENGTH_def)

lemma attr_regex_patterns:
  "attr_regex T = (case List.map_filter attr_pattern T of [] \<Rightarrow> MatchAll | [p] \<Rightarrow> Expression p | _ \<Rightarrow> UnknownRegex)"
  by (induction T rule: attr_regex.induct) (auto simp: map_filter_simps split: list.splits)

lemma label_value_regex_iff: "is_match LABEL_VALUE_REGEX s \<longleftrightarrow> qualified_name s"
  using key_name_regex_iff [of s] by (simp add: KEY_NAME_REGEX_def LABEL_VALUE_REGEX_def del: is_match.simps)

lemma pattern_matches_eval:
  "pattern_matches pattern_rfc_1035_label s \<longleftrightarrow> label_over lower_alnum_char s \<and> is_lower (hd s)"
  "pattern_matches pattern_rfc_1123_subdomain s \<longleftrightarrow> list_all (label_over lower_alnum_char) (split_char (CHR ''.'') s)"
  "pattern_matches pattern_rfc_1123_label s \<longleftrightarrow> label_over lower_alnum_char s"
  "pattern_matches pattern_label_value s \<longleftrightarrow> qualified_name s"
  by (simp_all only: pattern_matches_def pattern_rfc_1035_label_def pattern_rfc_1123_subdomain_def pattern_rfc_1123_label_def
      pattern_label_value_def snd_conv option.case pattern_iffs label_value_regex_iff)

lemma not_empty_patterns:
  "label_over P s \<Longrightarrow> s \<noteq> []"
  "list_all (label_over lower_alnum_char) (split_char (CHR ''.'') s) \<Longrightarrow> s \<noteq> []"
  "qualified_name s \<Longrightarrow> s \<noteq> []"
  by (auto simp: label_over_def qualified_name_def)

lemma attr_check_holds:
  assumes "a \<noteq> IsUid" "\<not> (\<exists>n. a = MinLength n)" "\<not> (\<exists>n. a = MaxLength n)" "length s \<le> USIZE_MAX"
  shows "attr_check u T s a = Inr () \<longleftrightarrow> attr_holds s a"
proof (cases a)
  case (MatchesRegex p)
  then show ?thesis using assms by (cases p; cases "snd p") (auto simp: attr_holds_def pattern_matches_def ok_or_def)
qed (use assms in \<open>auto simp: attr_holds_def validators_iff pattern_matches_eval label_value_ok_def result_simps Suc_le_eq
      dest: not_empty_patterns\<close>)

lemma accepted_iff:
  assumes "IsUid \<notin> set T" "length s \<le> USIZE_MAX"
  shows "(\<forall>a \<in> set T. attr_check u T s a = Inr ()) \<longleftrightarrow> (\<forall>a \<in> set T. attr_holds s a)" (is "?c \<longleftrightarrow> ?h")
proof
  assume c: ?c
  show ?h
  proof
    fix a assume a: "a \<in> set T"
    then have "attr_check u T s a = Inr ()" using c by blast
    then show "attr_holds s a"
    proof (cases "(\<exists>n. a = MinLength n) \<or> (\<exists>n. a = MaxLength n)")
      case True
      with \<open>attr_check u T s a = Inr ()\<close> a assms(2) show ?thesis
        by (auto simp: attr_holds_def attr_min_length_le attr_max_length_ge dest!: bspec [OF _ a])
    next
      case False
      with attr_check_holds [of a] a assms \<open>attr_check u T s a = Inr ()\<close> show ?thesis by metis
    qed
  qed
next
  assume h: ?h
  then have "attr_min_length T \<le> length s" "length s \<le> attr_max_length T"
    using assms(2) by (auto simp: attr_holds_def attr_min_length_le attr_max_length_ge)
  then show ?c using h assms attr_check_holds [where s = s and u = u and T = T] by (metis attr_check.simps(1,2) ensure_eq_Inr)
qed

text \<open>The API server's reading of the schema of an ASCII string.\<close>

definition schema_admits :: "string_schema \<Rightarrow> string \<Rightarrow> bool" where
  "schema_admits sch s \<longleftrightarrow> minLength sch \<le> length s \<and>
     (case maxLength sch of None \<Rightarrow> True | Some n \<Rightarrow> length s \<le> n) \<and>
     (case schema_pattern sch of None \<Rightarrow> True | Some p \<Rightarrow> pattern_matches p s)"

lemma in_map_filter: "p \<in> set (List.map_filter f xs) \<longleftrightarrow> (\<exists>x \<in> set xs. f x = Some p)"
  by (induction xs) (auto simp: map_filter_simps split: option.splits)

lemma schema_admits_iff:
  assumes "length s \<le> USIZE_MAX"
  shows "schema_admits (attr_json_schema T) s \<longleftrightarrow>
    (\<forall>a \<in> set T. attr_lo a \<le> length s) \<and> (\<forall>a \<in> set T. length s \<le> attr_hi a) \<and>
    (case attr_regex T of Expression p \<Rightarrow> pattern_matches p s | _ \<Rightarrow> True)"
proof -
  have "(case maxLength (attr_json_schema T) of None \<Rightarrow> True | Some n \<Rightarrow> length s \<le> n) \<longleftrightarrow> length s \<le> attr_max_length T"
    using assms by (simp add: attr_json_schema_def)
  moreover have "(case schema_pattern (attr_json_schema T) of None \<Rightarrow> True | Some p \<Rightarrow> pattern_matches p s) \<longleftrightarrow>
      (case attr_regex T of Expression p \<Rightarrow> pattern_matches p s | _ \<Rightarrow> True)"
    by (cases "attr_regex T") (simp_all add: attr_json_schema_def)
  moreover have "minLength (attr_json_schema T) = attr_min_length T" by (simp add: attr_json_schema_def)
  ultimately show ?thesis
    unfolding schema_admits_def using assms by (simp only: attr_min_length_le attr_max_length_ge simp_thms)
qed

lemma holds_schema:
  assumes "\<forall>a \<in> set T. attr_holds s a" "length s \<le> USIZE_MAX"
  shows "schema_admits (attr_json_schema T) s"
proof -
  have "pattern_matches p s" if "attr_regex T = Expression p" for p
    using that assms(1) in_map_filter [of p attr_pattern T]
    by (fastforce simp: attr_regex_patterns attr_holds_def split: list.splits)
  then have "case attr_regex T of Expression p \<Rightarrow> pattern_matches p s | _ \<Rightarrow> True"
    by (cases "attr_regex T") simp_all
  then show ?thesis using assms by (simp add: schema_admits_iff attr_holds_def)
qed

lemma schema_holds:
  assumes "schema_admits (attr_json_schema T) s" "length s \<le> USIZE_MAX" "attr_regex T \<noteq> UnknownRegex"
  shows "\<forall>a \<in> set T. attr_holds s a"
proof
  fix a assume a: "a \<in> set T"
  have "pattern_matches p s" if "attr_pattern a = Some p" for p
  proof -
    have "p \<in> set (List.map_filter attr_pattern T)" using that a by (auto simp: in_map_filter)
    then have "attr_regex T = Expression p" using assms(3) by (auto simp: attr_regex_patterns split: list.splits)
    then show ?thesis using assms(1,2) by (simp add: schema_admits_iff)
  qed
  then show "attr_holds s a" using a assms(1,2) by (auto simp: attr_holds_def schema_admits_iff split: option.splits)
qed


lemma usize_bound: "n \<le> 1000 \<Longrightarrow> n \<le> USIZE_MAX"
  by (simp add: USIZE_MAX_def)

lemma typed_iff:
  assumes "IsUid \<notin> set T" "length s \<le> 1000"
  shows "attr_from_str u T s = Inr v \<longleftrightarrow> v = s \<and> (\<forall>a \<in> set T. attr_holds s a)"
  using accepted_iff [OF assms(1) usize_bound [OF assms(2)], of u] by simp

lemmas typed_eval = attr_holds_def pattern_matches_eval label_over_def lower_alnum_char_def key_eval


subsection \<open>Generated names are accepted\<close>

lemma label_over_dash: "label_over P a \<Longrightarrow> label_over P b \<Longrightarrow> label_over P (a @ ''-'' @ b)"
  by (auto simp: label_over_def)

lemma label_over_suffix: "label_over P a \<Longrightarrow> list_all (\<lambda>c. P c \<or> c = CHR ''-'') b \<Longrightarrow> b \<noteq> [] \<Longrightarrow> P (last b) \<Longrightarrow> label_over P (a @ b)"
  by (auto simp: label_over_def)

lemma label_qualified: "label_over lower_alnum_char s \<Longrightarrow> qualified_name s"
  by (auto simp: label_over_def qualified_name_def name_char_def list_all_iff intro: lower_is_alnum)

lemma label_ascii: "label_over lower_alnum_char s \<Longrightarrow> is_ascii s"
  using label_qualified qualified_name_ascii by blast

lemma label_length: "label_over P s \<Longrightarrow> Suc 0 \<le> length s"
  by (auto simp: label_over_def Suc_le_eq)

text \<open>A label has every name type whose bounds it keeps.\<close>

lemma label_typed:
  assumes "label_over lower_alnum_char s"
  shows "length s \<le> 253 \<Longrightarrow> attr_from_str u [IsRfc1123DnsSubdomainName] s = Inr s"
    "length s \<le> 63 \<Longrightarrow> attr_from_str u [IsRfc1123LabelName] s = Inr s"
    "length s \<le> 63 \<Longrightarrow> attr_from_str u [IsRfc1123LabelName, IsValidLabelValue] s = Inr s"
    "length s \<le> n \<Longrightarrow> n \<le> 63 \<Longrightarrow> attr_from_str u [MaxLength n, IsRfc1123LabelName, IsValidLabelValue] s = Inr s"
    "length s \<le> 63 \<Longrightarrow> is_lower (hd s) \<Longrightarrow> attr_from_str u [IsRfc1035LabelName, IsValidLabelValue] s = Inr s"
    "length s \<le> n \<Longrightarrow> n \<le> 63 \<Longrightarrow> is_lower (hd s) \<Longrightarrow>
      attr_from_str u [MaxLength n, IsRfc1035LabelName, IsValidLabelValue] s = Inr s"
  using assms label_length [OF assms]
  by (simp_all add: typed_iff attr_holds_def pattern_matches_eval label_is_subdomain label_qualified del: attr_from_str_Inr)

lemma typed_labels:
  "attr_from_str u ClusterName s = Inr v \<Longrightarrow> length s \<le> 40 \<and> label_over lower_alnum_char s \<and> is_lower (hd s) \<and> label_value_ok s"
  "attr_from_str u RoleName s = Inr v \<Longrightarrow> length s \<le> 63 \<and> label_over lower_alnum_char s \<and> label_value_ok s"
  "attr_from_str u RoleGroupName s = Inr v \<Longrightarrow> length s \<le> 63 \<and> label_over lower_alnum_char s \<and> label_value_ok s"
  "attr_from_str u ProductName s = Inr v \<Longrightarrow>
     length s \<le> 54 \<and> list_all (label_over lower_alnum_char) (split_char (CHR ''.'') s) \<and> label_value_ok s"
  by (simp_all add: ClusterName_def RoleName_def RoleGroupName_def ProductName_def validators_iff result_simps length_defs
      split: if_splits)

text \<open>The end of a dotted name can be extended like a label.\<close>

lemma split_char_append_suffix:
  "c \<notin> set t \<Longrightarrow> split_char c (s @ t) = butlast (split_char c s) @ [last (split_char c s) @ t]"
  by (induction c s rule: split_char.induct) (auto split: list.splits)

lemma subdomain_suffix:
  assumes "list_all (label_over lower_alnum_char) (split_char (CHR ''.'') s)"
    and "list_all (\<lambda>c. lower_alnum_char c \<or> c = CHR ''-'') t" "t \<noteq> []" "lower_alnum_char (last t)"
  shows "list_all (label_over lower_alnum_char) (split_char (CHR ''.'') (s @ t))"
proof -
  have "CHR ''.'' \<notin> set t" using assms(2) no_dot_chars(1) by (auto simp: list_all_iff)
  moreover have "split_char (CHR ''.'') s \<noteq> []" by (cases s) (auto split: list.splits)
  ultimately show ?thesis
    using assms label_over_suffix [of lower_alnum_char "last (split_char (CHR ''.'') s)" t]
    by (auto simp: split_char_append_suffix list_all_iff dest: in_set_butlastD)
qed

text \<open>
  The names of a role's resources: for every accepted cluster and product name the generated names
  of service account, role binding and cluster role are accepted by their types, so that none of
  the \<open>expect\<close>s panics.
\<close>

lemma role_names_accepted:
  assumes "attr_from_str u ClusterName c = Inr c'" "attr_from_str u ProductName p = Inr p'"
  and "self = \<lparr>rrn_cluster_name = c, rrn_product_name = p\<rparr>"
  shows "role_service_account_name u self = Some (c @ ''-serviceaccount'') \<and>
    role_role_binding_name u self = Some (c @ ''-rolebinding'') \<and>
    role_cluster_role_name u self = Some (p @ ''-clusterrole'')"
proof -
  note c = typed_labels(1) [OF assms(1)] and p = typed_labels(4) [OF assms(2)]
  have suf: "list_all (\<lambda>c. lower_alnum_char c \<or> c = CHR ''-'') t" "t \<noteq> []" "lower_alnum_char (last t)"
    if "t \<in> {''-serviceaccount'', ''-rolebinding'', ''-clusterrole''}" for t
    using that by (auto simp: lower_alnum_char_def class_defs)
  have 1: "attr_from_str u [IsRfc1123DnsSubdomainName] (c @ t) = Inr (c @ t)"
    if "t \<in> {''-serviceaccount'', ''-rolebinding''}" for t
  proof (rule label_typed)
    show "label_over lower_alnum_char (c @ t)" using c that by (intro label_over_suffix suf) auto
    show "length (c @ t) \<le> 253" using c that by auto
  qed
  have "list_all (label_over lower_alnum_char) (split_char (CHR ''.'') (p @ ''-clusterrole''))"
    using p by (intro subdomain_suffix suf) auto
  then have "attr_from_str u [IsRfc1123DnsSubdomainName] (p @ ''-clusterrole'') = Inr (p @ ''-clusterrole'')"
    using p by (simp add: validators_iff)
  then show ?thesis using 1
    by (simp add: assms(3) role_service_account_name_def role_role_binding_name_def role_cluster_role_name_def
        ServiceAccountName_def RoleBindingName_def ClusterRoleName_def del: attr_from_str_Inr)
qed

lemma ensure_max_ascii:
  assumes "is_ascii s" "h \<le> 64" "h + 2 \<le> m" "0 < h" "m < length s"
  shows "ensure_max_string_length sha256_hex s m h = Some
    (take (m - h - 1) s @ (if last (take (m - h - 1) s) \<noteq> CHR ''-'' \<or> s ! (m - h - 1) = CHR ''-'' then ''-'' else []) @
     take h (sha256_hex s))"
proof -
  let ?n = "m - h - 1"
  have tk: "take (m - h) s = take ?n s @ [s ! ?n]"
    using take_Suc_conv_app_nth [of ?n s] assms by (simp add: Suc_diff_Suc)
  have "is_ascii (take ?n s @ [s ! ?n])"
    unfolding tk [symmetric] using assms(1) by (auto simp: is_ascii_def list_all_iff dest: in_set_takeD)
  then have "pop_char (truncate_at_char_boundary s (m - h)) = (take ?n s, Some [s ! ?n])"
    using truncate_ascii [OF assms(1)] tk pop_char_ascii by simp
  moreover have "take ?n s \<noteq> []" using assms by auto
  ultimately show ?thesis using assms by (simp add: ensure_max_string_length_def Let_def)
qed

lemma label_over_take:
  assumes "label_over P s" "0 < n" "list_all P d" "d \<noteq> []" "dash = ''-'' \<or> dash = []"
  shows "label_over P (take n s @ dash @ d)"
proof -
  have "hd (take n s) = hd s" "take n s \<noteq> []" using assms by (auto simp: label_over_def hd_take)
  moreover have "P (last d)" using assms(3,4) by (auto simp: list_all_iff)
  ultimately show ?thesis
    using assms by (auto simp: label_over_def list_all_iff hd_append dest: in_set_takeD)
qed

lemma hex_digest_take:
  assumes "hex_digest sha256_hex" "0 < h" "h \<le> 64"
  shows "length (take h (sha256_hex s)) = h" "take h (sha256_hex s) \<noteq> []" "list_all lower_alnum_char (take h (sha256_hex s))"
proof -
  have *: "length (sha256_hex s) = 64" "list_all is_hex_lower (sha256_hex s)" using assms(1) by (auto simp: hex_digest_def)
  then show "length (take h (sha256_hex s)) = h" "take h (sha256_hex s) \<noteq> []" using assms by auto
  have "is_hex_lower c \<Longrightarrow> lower_alnum_char c" for c by (auto simp: is_hex_lower_def lower_alnum_char_def class_defs)
  then show "list_all lower_alnum_char (take h (sha256_hex s))" using * by (auto simp: list_all_iff dest: in_set_takeD)
qed

text \<open>The qualified name is a label, starts with the cluster name and shows some of the role name.\<close>

lemma qualified_name_label:
  assumes sha: "hex_digest sha256_hex"
    and c: "label_over lower_alnum_char c" "length c \<le> 40" "is_lower (hd c)"
    and rg: "label_over lower_alnum_char r" "label_over lower_alnum_char g"
  obtains q where "qualified_role_group_name sha256_hex u
      \<lparr>grn_cluster_name = c, grn_role_name = r, grn_role_group_name = g\<rparr> = Some q"
    "label_over lower_alnum_char q" "is_lower (hd q)" "length q \<le> 52"
    "length (c @ ''-'' @ r @ ''-'' @ g) \<le> 52 \<longrightarrow> q = c @ ''-'' @ r @ ''-'' @ g"
    "\<exists>rest. q = c @ ''-'' @ [hd r] @ rest"
proof -
  let ?s = "c @ ''-'' @ r @ ''-'' @ g"
  have s: "label_over lower_alnum_char ?s" using c rg by (intro label_over_dash)
  have ne: "c \<noteq> []" "r \<noteq> []" using c rg by (auto simp: label_over_def)
  have max: "attr_max_length QualifiedRoleGroupName = 52"
    by (simp add: QualifiedRoleGroupName_def length_defs MAX_LABEL_VALUE_LENGTH_def USIZE_MAX_def)
  have start: "\<exists>rest. take n ?s = c @ ''-'' @ [hd r] @ rest" if "length c + 2 \<le> n" for n
  proof -
    have "?s = (c @ ''-'' @ [hd r]) @ tl r @ ''-'' @ g" using ne by simp
    moreover have "length (c @ ''-'' @ [hd r]) \<le> n" using that by simp
    ultimately show ?thesis using take_append [of n "c @ ''-'' @ [hd r]"] by (metis append_assoc take_all)
  qed
  obtain q where q: "ensure_max_string_length sha256_hex ?s 52 6 = Some q" "length q \<le> 52" "label_over lower_alnum_char q"
    "length ?s \<le> 52 \<longrightarrow> q = ?s" "\<exists>rest. q = c @ ''-'' @ [hd r] @ rest"
  proof (cases "length ?s \<le> 52")
    case True
    then have "ensure_max_string_length sha256_hex ?s 52 6 = Some ?s" by (simp add: ensure_max_string_length_def)
    moreover have "\<exists>rest. ?s = c @ ''-'' @ [hd r] @ rest" using start [of "length ?s"] ne by (simp add: Suc_le_eq)
    ultimately show ?thesis using that s True by blast
  next
    case False
    define dash where "dash = (if last (take 45 ?s) \<noteq> CHR ''-'' \<or> ?s ! 45 = CHR ''-'' then ''-'' else [])"
    let ?d = "take 6 (sha256_hex ?s)"
    note d = hex_digest_take [OF sha, of 6 ?s]
    have "ensure_max_string_length sha256_hex ?s 52 6 = Some (take 45 ?s @ dash @ ?d)"
      unfolding dash_def using ensure_max_ascii [OF label_ascii [OF s], of 6 52 sha256_hex] False by simp
    moreover have "length (take 45 ?s @ dash @ ?d) \<le> 52" using d(1) by (auto simp: dash_def)
    moreover have "label_over lower_alnum_char (take 45 ?s @ dash @ ?d)"
      using s d by (intro label_over_take) (auto simp: dash_def)
    moreover have "\<exists>rest. take 45 ?s @ dash @ ?d = c @ ''-'' @ [hd r] @ rest" using start [of 45] c(2) by auto
    ultimately show ?thesis using that False by blast
  qed
  have lower: "is_lower (hd q)" using q(5) c(3) ne by auto
  have "attr_from_str u QualifiedRoleGroupName q = Inr q"
    unfolding QualifiedRoleGroupName_def using q lower by (intro label_typed) auto
  then have "qualified_role_group_name sha256_hex u
      \<lparr>grn_cluster_name = c, grn_role_name = r, grn_role_group_name = g\<rparr> = Some q"
    using q label_ascii [OF s] by (simp add: qualified_role_group_name_def Let_def max del: attr_from_str_Inr)
  then show ?thesis using that q lower by blast
qed

text \<open>
  C11: The names of a role group's resources: for every accepted cluster, role and role group name the
  qualified name exists, is an RFC 1035 label of at most 52 characters that starts with the whole
  cluster name and the first character of the role name, and is the plain concatenation when that
  fits. Every resource name derived from it is accepted by its type, so that nothing panics.
\<close>

theorem role_group_names_total:
  assumes "hex_digest sha256_hex"
    and "attr_from_str u ClusterName c = Inr c'" "attr_from_str u RoleName r = Inr r'" "attr_from_str u RoleGroupName g = Inr g'"
    and "self = \<lparr>grn_cluster_name = c, grn_role_name = r, grn_role_group_name = g\<rparr>"
  shows "\<exists>q. qualified_role_group_name sha256_hex u self = Some q \<and>
    length q \<le> 52 \<and> is_lowercase_rfc_1035_label q = Inr () \<and> (\<exists>rest. q = c @ ''-'' @ [hd r] @ rest) \<and>
    (length (c @ ''-'' @ r @ ''-'' @ g) \<le> 52 \<longrightarrow> q = c @ ''-'' @ r @ ''-'' @ g) \<and>
    role_group_config_map sha256_hex u self = Some q \<and> daemon_set_name sha256_hex u self = Some q \<and>
    deployment_name sha256_hex u self = Some q \<and> stateful_set_name sha256_hex u self = Some q \<and>
    listener_name sha256_hex u self = Some q \<and>
    headless_service_name sha256_hex u self = Some (q @ ''-headless'') \<and>
    metrics_service_name sha256_hex u self = Some (q @ ''-metrics'')"
proof -
  note typed = typed_labels(1) [OF assms(2)] typed_labels(2) [OF assms(3)] typed_labels(3) [OF assms(4)]
  obtain q where q: "qualified_role_group_name sha256_hex u self = Some q"
    "label_over lower_alnum_char q" "is_lower (hd q)" "length q \<le> 52"
    "length (c @ ''-'' @ r @ ''-'' @ g) \<le> 52 \<longrightarrow> q = c @ ''-'' @ r @ ''-'' @ g"
    "\<exists>rest. q = c @ ''-'' @ [hd r] @ rest"
    using qualified_name_label [OF assms(1), of c r g u] typed assms(5) by metis
  have plain: "attr_from_str u T q = Inr q" if "T \<in> {ConfigMapName, DaemonSetName, DeploymentName, StatefulSetName, ListenerNameType}" for T
    using that q label_typed [OF q(2), where u = u]
    by (auto simp: ConfigMapName_def DaemonSetName_def DeploymentName_def StatefulSetName_def ListenerNameType_def length_defs
        simp del: attr_from_str_Inr)
  have service: "attr_from_str u ServiceName (q @ t) = Inr (q @ t)" if "t \<in> {''-headless'', ''-metrics''}" for t
  proof -
    have "label_over lower_alnum_char (q @ t)"
      using q(2) that by (intro label_over_suffix) (auto simp: lower_alnum_char_def class_defs)
    moreover have "is_lower (hd (q @ t))" using q(2,3) by (simp add: label_over_def)
    ultimately show ?thesis unfolding ServiceName_def using q(4) that by (intro label_typed) auto
  qed
  have "is_lowercase_rfc_1035_label q = Inr ()" using q by (simp add: validators_iff)
  then show ?thesis using q plain service
    by (intro exI [of _ q]) (simp add: role_group_config_map_def daemon_set_name_def deployment_name_def stateful_set_name_def
      listener_name_def headless_service_name_def metrics_service_name_def qualified_with_def del: attr_from_str_Inr)
qed

theorem role_group_names_total_witness:
  "headless_service_name (\<lambda>_. replicate 64 (CHR ''0'')) (\<lambda>_. Inl ())
     \<lparr>grn_cluster_name = ''h'', grn_role_name = ''r'', grn_role_group_name = ''g''\<rparr> = Some ''h-r-g-headless''"
proof -
  have "attr_from_str (\<lambda>_. Inl ()) ClusterName ''h'' = Inr ''h''" "attr_from_str (\<lambda>_. Inl ()) RoleName ''r'' = Inr ''r''"
    "attr_from_str (\<lambda>_. Inl ()) RoleGroupName ''g'' = Inr ''g''"
    by (subst typed_iff; simp add: ClusterName_def RoleName_def RoleGroupName_def typed_eval)+
  moreover have "hex_digest (\<lambda>_. replicate 64 (CHR ''0''))"
    by (simp add: hex_digest_def is_hex_lower_def class_defs list_all_iff)
  ultimately show ?thesis using role_group_names_total [of "\<lambda>_. replicate 64 (CHR ''0'')" "\<lambda>_. Inl ()" "''h''" "''h''" "''r''" "''r''" "''g''" "''g''"] by force
qed

text \<open>
  A UID that the type accepts need not have the length of the type: \<open>Uuid::try_parse\<close> also reads
  32 hexadecimal digits without dashes, and then \<open>from_str\<close> accepts a string shorter than
  \<open>MIN_LENGTH\<close> that the schema refuses.
\<close>

theorem uid_without_dashes_accepted:
  assumes "uuid_try_parse (replicate 32 (CHR ''a'')) = Inr ()"
  shows "attr_from_str uuid_try_parse Uid (replicate 32 (CHR ''a'')) = Inr (replicate 32 (CHR ''a'')) \<and>
    32 < attr_min_length Uid \<and> \<not> schema_admits (attr_json_schema Uid) (replicate 32 (CHR ''a''))"
proof -
  have "label_value_ok (replicate 32 (CHR ''a''))" by (simp add: label_value_ok_def key_eval list_all_iff)
  then show ?thesis
    using assms by (simp add: Uid_def schema_admits_def attr_json_schema_def UUID_HYPHENATED_LENGTH_def result_simps)
qed

theorem uid_without_dashes_accepted_witness:
  "attr_from_str (\<lambda>s. if length s \<in> {32, 36} then Inr () else Inl ()) Uid (replicate 32 (CHR ''a'')) = Inr (replicate 32 (CHR ''a''))"
  using uid_without_dashes_accepted [of "\<lambda>s. if length s \<in> {32, 36} then Inr () else Inl ()"] by simp

end
