(* ===== verification/Typed_Builders.thy ===== *)
theory Typed_Builders
  imports Typed_Names Cluster_Resources
begin

section \<open>Builders over typed names\<close>

text \<open>
  The variants without errors of builders that \<open>v2/kvp/label.rs\<close>, \<open>v2/cluster_resources.rs\<close>, \<open>v2/rbac.rs\<close>
  and \<open>v2/builder\<close> (\<open>meta.rs\<close>, \<open>pdb.rs\<close>, \<open>service.rs\<close>, \<open>statefulset.rs\<close>, \<open>pod/volume.rs\<close>) define on top
  of the fallible ones. They call \<open>expect\<close> where the types are meant to rule an error out; a panic is
  \<^const>\<open>None\<close>. The argument \<open>u\<close> is \<open>uuid::Uuid::try_parse\<close>.
\<close>

subsection \<open>Labels\<close>

definition label_app_kubernetes_io_instance :: "string \<Rightarrow> label option" where
  "label_app_kubernetes_io_instance cluster_name = expect (label_instance cluster_name)"

definition label_app_kubernetes_io_name :: "string \<Rightarrow> label option" where
  "label_app_kubernetes_io_name product_name = expect (label_name product_name)"

definition label_app_kubernetes_io_version :: "string \<Rightarrow> label option" where
  "label_app_kubernetes_io_version version = expect (label_version version)"

definition label_app_kubernetes_io_component :: "string \<Rightarrow> label option" where
  "label_app_kubernetes_io_component role_name = expect (label_component role_name)"

definition label_app_kubernetes_io_role_group :: "string \<Rightarrow> label option" where
  "label_app_kubernetes_io_role_group role_group_name = expect (label_role_group role_group_name)"

definition full_controller_name :: "(string \<Rightarrow> (unit, 'u) result) \<Rightarrow> string \<Rightarrow> string \<Rightarrow> string option" where
  "full_controller_name u operator_name controller_name =
     (let full_controller_name = operator_name @ ''_'' @ controller_name in
      case attr_from_str u ControllerName full_controller_name of
        Inr name \<Rightarrow> Some name
      | Inl _ \<Rightarrow> expect (attr_from_str u ControllerName operator_name))"

definition label_app_kubernetes_io_managed_by ::
    "(string \<Rightarrow> (unit, 'u) result) \<Rightarrow> string \<Rightarrow> string \<Rightarrow> label option" where
  "label_app_kubernetes_io_managed_by u operator_name controller_name =
     Option.bind (full_controller_name u operator_name controller_name) (\<lambda>name.
     expect (label_try_from (K8S_APP_MANAGED_BY_KEY, name)))"

definition label_stackable_tech_vendor :: "label option" where
  "label_stackable_tech_vendor = label_stackable_vendor"

definition labels_of :: "label option list \<Rightarrow> labels option" where
  "labels_of labels = map_option labels_from_iter (those labels)"

definition recommended_labels_for_cluster_resources ::
    "(string \<Rightarrow> (unit, 'u) result) \<Rightarrow> string \<Rightarrow> string \<Rightarrow> string \<Rightarrow> string \<Rightarrow> string \<Rightarrow> labels option" where
  "recommended_labels_for_cluster_resources u cluster_name product_name version operator_name controller_name =
     labels_of
       [label_app_kubernetes_io_instance cluster_name,
        label_app_kubernetes_io_name product_name,
        label_app_kubernetes_io_version version,
        label_app_kubernetes_io_managed_by u operator_name controller_name,
        label_stackable_tech_vendor]"

definition recommended_labels_for_role_resources ::
    "(string \<Rightarrow> (unit, 'u) result) \<Rightarrow> string \<Rightarrow> string \<Rightarrow> string \<Rightarrow> string \<Rightarrow> string \<Rightarrow> string \<Rightarrow> labels option" where
  "recommended_labels_for_role_resources u cluster_name product_name version operator_name controller_name role_name =
     labels_of
       [label_app_kubernetes_io_instance cluster_name,
        label_app_kubernetes_io_name product_name,
        label_app_kubernetes_io_version version,
        label_app_kubernetes_io_component role_name,
        label_app_kubernetes_io_managed_by u operator_name controller_name,
        label_stackable_tech_vendor]"

definition role_selector :: "string \<Rightarrow> string \<Rightarrow> string \<Rightarrow> labels option" where
  "role_selector cluster_name product_name role_name =
     labels_of
       [label_app_kubernetes_io_instance cluster_name,
        label_app_kubernetes_io_name product_name,
        label_app_kubernetes_io_component role_name]"

definition recommended_labels_for_role_group_resources ::
    "(string \<Rightarrow> (unit, 'u) result) \<Rightarrow> string \<Rightarrow> string \<Rightarrow> string \<Rightarrow> string \<Rightarrow> string \<Rightarrow> string \<Rightarrow> string \<Rightarrow> labels option" where
  "recommended_labels_for_role_group_resources u cluster_name product_name version operator_name controller_name role_name
       role_group_name =
     labels_of
       [label_app_kubernetes_io_instance cluster_name,
        label_app_kubernetes_io_name product_name,
        label_app_kubernetes_io_version version,
        label_app_kubernetes_io_component role_name,
        label_app_kubernetes_io_role_group role_group_name,
        label_app_kubernetes_io_managed_by u operator_name controller_name,
        label_stackable_tech_vendor]"

definition recommended_labels_for_unversioned_role_group_resources ::
    "(string \<Rightarrow> (unit, 'u) result) \<Rightarrow> string \<Rightarrow> string \<Rightarrow> string \<Rightarrow> string \<Rightarrow> string \<Rightarrow> string \<Rightarrow> labels option" where
  "recommended_labels_for_unversioned_role_group_resources u cluster_name product_name operator_name controller_name role_name
       role_group_name =
     labels_of
       [label_app_kubernetes_io_instance cluster_name,
        label_app_kubernetes_io_name product_name,
        label_app_kubernetes_io_component role_name,
        label_app_kubernetes_io_role_group role_group_name,
        label_app_kubernetes_io_managed_by u operator_name controller_name,
        label_stackable_tech_vendor]"

definition role_group_selector :: "string \<Rightarrow> string \<Rightarrow> string \<Rightarrow> string \<Rightarrow> labels option" where
  "role_group_selector cluster_name product_name role_name role_group_name =
     labels_of
       [label_app_kubernetes_io_instance cluster_name,
        label_app_kubernetes_io_name product_name,
        label_app_kubernetes_io_component role_name,
        label_app_kubernetes_io_role_group role_group_name]"

subsection \<open>Owners, access rights and cluster resources\<close>

text \<open>
  An owner: the object with the traits \<open>HasName\<close> and \<open>HasUid\<close>.
\<close>

record typed_owner =
  to_object :: kube_object
  to_name :: string
  to_uid :: string

definition typed_ownerreference_from_resource ::
    "typed_owner \<Rightarrow> bool option \<Rightarrow> bool option \<Rightarrow> owner_reference option" where
  "typed_ownerreference_from_resource resource block_owner_deletion controller =
     expect (owner_build (owner_controller_opt controller (owner_block_owner_deletion_opt block_owner_deletion
       (owner_uid (to_uid resource) (owner_name (to_name resource)
         (initialize_from_resource (to_object resource) owner_new))))))"

definition rbac_metadata :: "typed_owner \<Rightarrow> string \<Rightarrow> labels \<Rightarrow> object_meta option" where
  "rbac_metadata owner name labels =
     map_option (\<lambda>ownerreference.
       meta_build (with_labels labels (meta_ownerreference ownerreference
         (meta_namespace_opt (ko_namespace (to_object owner)) (meta_name name meta_new)))))
     (typed_ownerreference_from_resource owner None (Some True))"

definition build_service_account ::
    "(string \<Rightarrow> (unit, 'u) result) \<Rightarrow> typed_owner \<Rightarrow> role_resource_names \<Rightarrow> labels \<Rightarrow> service_account option" where
  "build_service_account u owner resource_names labels =
     Option.bind (role_service_account_name u resource_names) (\<lambda>name.
     map_option (\<lambda>metadata. \<lparr>sa_metadata = metadata\<rparr>) (rbac_metadata owner name labels))"

definition build_role_binding ::
    "(string \<Rightarrow> (unit, 'u) result) \<Rightarrow> typed_owner \<Rightarrow> role_resource_names \<Rightarrow> labels \<Rightarrow> role_binding option" where
  "build_role_binding u owner resource_names labels =
     Option.bind (role_role_binding_name u resource_names) (\<lambda>name.
     Option.bind (rbac_metadata owner name labels) (\<lambda>metadata.
     Option.bind (role_cluster_role_name u resource_names) (\<lambda>cluster_role_name.
     Option.bind (role_service_account_name u resource_names) (\<lambda>service_account_name.
     Some \<lparr>rb_metadata = metadata,
           rb_role_ref = \<lparr>rr_kind = ''ClusterRole'', rr_name = cluster_role_name, rr_api_group = Some ''rbac.authorization.k8s.io''\<rparr>,
           rb_subjects = Some [\<lparr>subj_kind = ''ServiceAccount'', subj_name = service_account_name,
             subj_namespace = ko_namespace (to_object owner), subj_api_group = None\<rparr>]\<rparr>))))"

definition typed_cluster_resources_new ::
    "string \<Rightarrow> string \<Rightarrow> string \<Rightarrow> string \<Rightarrow> string \<Rightarrow> string \<Rightarrow> apply_strategy \<Rightarrow> dynamic_object list \<Rightarrow> cluster_resources option" where
  "typed_cluster_resources_new product_name operator_name controller_name cluster_name cluster_namespace cluster_uid strategy
       object_overrides =
     expect (cluster_resources_new product_name operator_name controller_name
       \<lparr>ref_namespace = Some cluster_namespace, ref_name = Some cluster_name, ref_uid = Some cluster_uid\<rparr> strategy object_overrides
       :: (cluster_resources, unit cluster_resources_error) result)"

definition pod_disruption_budget_builder_with_role ::
    "typed_owner \<Rightarrow> string \<Rightarrow> string \<Rightarrow> string \<Rightarrow> string \<Rightarrow> (object_meta, label_selector, unit) pdb_builder option" where
  "pod_disruption_budget_builder_with_role owner product_name role_name operator_name controller_name =
     expect (pdb_new_with_role (to_object owner) product_name role_name operator_name controller_name)"

subsection \<open>Services, StatefulSets and listener volumes\<close>

datatype scraping = Enabled | Disabled

datatype scheme = Http | Https

fun scraping_str :: "scraping \<Rightarrow> string" where
  "scraping_str Enabled = ''true''"
| "scraping_str Disabled = ''false''"

fun scheme_str :: "scheme \<Rightarrow> string" where
  "scheme_str Http = ''http''"
| "scheme_str Https = ''https''"

definition prometheus_labels :: "scraping \<Rightarrow> labels option" where
  "prometheus_labels scraping_enabled = expect (labels_try_from_array [(''prometheus.io/scrape'', scraping_str scraping_enabled)])"

definition prometheus_annotations :: "scraping \<Rightarrow> scheme \<Rightarrow> string \<Rightarrow> port \<Rightarrow> annotations option" where
  "prometheus_annotations scraping_enabled scheme path port =
     expect (annotations_try_from_array
       [(''prometheus.io/path'', path),
        (''prometheus.io/port'', port_fmt port),
        (''prometheus.io/scheme'', scheme_str scheme),
        (''prometheus.io/scrape'', scraping_str scraping_enabled)])"

definition restarter_ignore_annotations :: "string \<Rightarrow> string list \<Rightarrow> annotations option" where
  "restarter_ignore_annotations kind names =
     expect (annotations_try_from_map (btree_collect
       (map (\<lambda>(i, name). (''restarter.stackable.tech/ignore-'' @ kind @ ''.'' @ show_nat i, name)) (enumerate 0 names))))"

definition restarter_ignore_configmap_annotations :: "string list \<Rightarrow> annotations option" where
  "restarter_ignore_configmap_annotations ignored_config_maps = restarter_ignore_annotations ''configmap'' ignored_config_maps"

definition restarter_ignore_secret_annotations :: "string list \<Rightarrow> annotations option" where
  "restarter_ignore_secret_annotations ignored_secrets = restarter_ignore_annotations ''secret'' ignored_secrets"

datatype typed_listener_reference = TypedListenerClass string | TypedListener string

fun listener_reference_from :: "typed_listener_reference \<Rightarrow> listener_reference" where
  "listener_reference_from (TypedListenerClass name) = ListenerClass name"
| "listener_reference_from (TypedListener name) = ListenerName name"

definition listener_operator_volume_source_builder_build_pvc ::
    "typed_listener_reference \<Rightarrow> labels \<Rightarrow> string \<Rightarrow> persistent_volume_claim option" where
  "listener_operator_volume_source_builder_build_pvc listener_reference labels pvc_name =
     expect (listener_build_pvc pvc_name (listener_volume_new (listener_reference_from listener_reference) labels))"

subsection \<open>Typed labels never panic\<close>

lemma label_value_joined:
  "label_value_ok a \<Longrightarrow> label_value_ok b \<Longrightarrow> label_value_ok (a @ ''_'' @ b) \<longleftrightarrow> length a + length b \<le> 62"
  by (auto simp: label_value_ok_def qualified_name_def name_char_def)

lemma label_value_type_iff: "attr_from_str u [IsValidLabelValue] s = Inr v \<longleftrightarrow> v = s \<and> label_value_ok s"
  by (simp add: result_simps)

lemma label_value_type_Inl: "\<not> label_value_ok s \<Longrightarrow> \<exists>e. attr_from_str u [IsValidLabelValue] s = Inl e"
  using label_value_type_iff [of u s] by (cases "attr_from_str u [IsValidLabelValue] s") (auto simp del: attr_from_str_Inr)

definition managed_by_value :: "string \<Rightarrow> string \<Rightarrow> string" where
  "managed_by_value operator_name controller_name =
     (if length operator_name + length controller_name \<le> 62 then operator_name @ ''_'' @ controller_name else operator_name)"

lemma full_controller_name_eq:
  assumes "label_value_ok op" "label_value_ok c"
  shows "full_controller_name u op c = Some (managed_by_value op c)"
proof (cases "length op + length c \<le> 62")
  case True
  then have "attr_from_str u [IsValidLabelValue] (op @ ''_'' @ c) = Inr (op @ ''_'' @ c)"
    using label_value_joined [OF assms] by (simp add: label_value_type_iff del: attr_from_str_Inr)
  then show ?thesis using True by (simp add: full_controller_name_def managed_by_value_def ControllerName_def del: attr_from_str_Inr)
next
  case False
  then obtain e where "attr_from_str u [IsValidLabelValue] (op @ ''_'' @ c) = Inl e"
    using label_value_joined [OF assms] label_value_type_Inl by metis
  moreover have "attr_from_str u [IsValidLabelValue] op = Inr op" using assms by (simp add: label_value_type_iff del: attr_from_str_Inr)
  ultimately show ?thesis using False by (simp add: full_controller_name_def managed_by_value_def ControllerName_def del: attr_from_str_Inr)
qed

lemma managed_by_value_ok: "label_value_ok op \<Longrightarrow> label_value_ok c \<Longrightarrow> label_value_ok (managed_by_value op c)"
  by (simp add: managed_by_value_def label_value_joined [simplified])

lemma expect_label:
  "label_value_ok v \<Longrightarrow> label_app_kubernetes_io_instance v = Some (app_key ''instance'', LabelValue v)"
  "label_value_ok v \<Longrightarrow> label_app_kubernetes_io_name v = Some (app_key ''name'', LabelValue v)"
  "label_value_ok v \<Longrightarrow> label_app_kubernetes_io_version v = Some (app_key ''version'', LabelValue v)"
  "label_value_ok v \<Longrightarrow> label_app_kubernetes_io_component v = Some (app_key ''component'', LabelValue v)"
  "label_value_ok v \<Longrightarrow> label_app_kubernetes_io_role_group v = Some (app_key ''role-group'', LabelValue v)"
  "label_value_ok op \<Longrightarrow> label_value_ok c \<Longrightarrow>
     label_app_kubernetes_io_managed_by u op c = Some (app_key ''managed-by'', LabelValue (managed_by_value op c))"
  "label_stackable_tech_vendor = Some (vendor_key, LabelValue ''Stackable'')"
  by (simp_all add: label_app_kubernetes_io_instance_def label_app_kubernetes_io_name_def label_app_kubernetes_io_version_def
      label_app_kubernetes_io_component_def label_app_kubernetes_io_role_group_def label_app_kubernetes_io_managed_by_def
      label_stackable_tech_vendor_def label_constructors app_label_iff full_controller_name_eq managed_by_value_ok)

lemmas typed_label_sets = recommended_labels_for_cluster_resources_def recommended_labels_for_role_resources_def role_selector_def
  recommended_labels_for_role_group_resources_def recommended_labels_for_unversioned_role_group_resources_def
  role_group_selector_def labels_of_def labels_from_iter_def kvps_from_iter_def btree_collect_def btree_extend_def

lemma typed_label_sets_eq:
  assumes "list_all label_value_ok [c, p, v, op, ctl, r, g]"
  shows "recommended_labels_for_cluster_resources u c p v op ctl = Some
      [(app_key ''instance'', LabelValue c), (app_key ''managed-by'', LabelValue (managed_by_value op ctl)),
       (app_key ''name'', LabelValue p), (app_key ''version'', LabelValue v), (vendor_key, LabelValue ''Stackable'')]"
    "recommended_labels_for_role_resources u c p v op ctl r = Some
      [(app_key ''component'', LabelValue r), (app_key ''instance'', LabelValue c),
       (app_key ''managed-by'', LabelValue (managed_by_value op ctl)),
       (app_key ''name'', LabelValue p), (app_key ''version'', LabelValue v), (vendor_key, LabelValue ''Stackable'')]"
    "recommended_labels_for_role_group_resources u c p v op ctl r g = Some
      [(app_key ''component'', LabelValue r), (app_key ''instance'', LabelValue c),
       (app_key ''managed-by'', LabelValue (managed_by_value op ctl)),
       (app_key ''name'', LabelValue p), (app_key ''role-group'', LabelValue g), (app_key ''version'', LabelValue v),
       (vendor_key, LabelValue ''Stackable'')]"
    "recommended_labels_for_unversioned_role_group_resources u c p op ctl r g = Some
      [(app_key ''component'', LabelValue r), (app_key ''instance'', LabelValue c),
       (app_key ''managed-by'', LabelValue (managed_by_value op ctl)),
       (app_key ''name'', LabelValue p), (app_key ''role-group'', LabelValue g), (vendor_key, LabelValue ''Stackable'')]"
    "role_selector c p r = Some
      [(app_key ''component'', LabelValue r), (app_key ''instance'', LabelValue c), (app_key ''name'', LabelValue p)]"
    "role_group_selector c p r g = Some
      [(app_key ''component'', LabelValue r), (app_key ''instance'', LabelValue c), (app_key ''name'', LabelValue p),
       (app_key ''role-group'', LabelValue g)]"
  using assms by (simp_all add: typed_label_sets expect_label less_char_def)

text \<open>
  Typed names give labels without a panic. The labels of a role group's resources are those of the
  fallible \<open>Labels::recommended\<close> whenever operator and controller name fit into one label value; the
  labels of cluster, role and unversioned resources are parts of them, and so are both selectors, so
  that a selector always selects the objects it is for.
\<close>

theorem typed_labels_agree:
  assumes "list_all label_value_ok [c, p, v, op, ctl, r, g]"
  shows "\<exists>L. recommended_labels_for_role_group_resources u c p v op ctl r g = Some L \<and>
    (length op + length ctl \<le> 62 \<longrightarrow>
       labels_recommended \<lparr>ol_owner_name = c, ol_app_name = p, ol_app_version = v, ol_operator_name = op,
         ol_controller_name = ctl, ol_role = r, ol_role_group = g\<rparr> = Some (Inr L)) \<and>
    (\<exists>M. recommended_labels_for_role_resources u c p v op ctl r = Some M \<and> set M \<subseteq> set L \<and>
       (\<exists>S. role_selector c p r = Some S \<and> set S \<subseteq> set M \<and> labels_role_selector c p r = Inr S)) \<and>
    (\<exists>M. recommended_labels_for_cluster_resources u c p v op ctl = Some M \<and> set M \<subseteq> set L) \<and>
    (\<exists>M. recommended_labels_for_unversioned_role_group_resources u c p op ctl r g = Some M \<and> set M \<subseteq> set L \<and>
       (\<forall>x. (app_key ''version'', x) \<notin> set M)) \<and>
    (\<exists>S. role_group_selector c p r g = Some S \<and> set S \<subseteq> set L \<and> labels_role_group_selector c p r g = Inr S)"
proof -
  have "labels_role_selector c p r =
      Inr [(app_key ''component'', LabelValue r), (app_key ''instance'', LabelValue c), (app_key ''name'', LabelValue p)]"
    using assms by (simp add: label_set_simps less_char_def)
  moreover have "labels_role_group_selector c p r g =
      Inr [(app_key ''component'', LabelValue r), (app_key ''instance'', LabelValue c), (app_key ''name'', LabelValue p),
       (app_key ''role-group'', LabelValue g)]"
    using assms by (simp add: role_group_selector_Inr)
  moreover have "label_value_ok (op @ ''_'' @ ctl) \<longleftrightarrow> length op + length ctl \<le> 62" using assms by (simp add: label_value_joined [simplified])
  ultimately show ?thesis
    using assms unfolding recommended_Inr typed_label_sets_eq [OF assms]
    by (auto simp: recommended_set_def managed_by_value_def)
qed

theorem typed_labels_agree_witness:
  "\<exists>S. role_group_selector ''zk'' ''zookeeper'' ''server'' ''default'' = Some S \<and>
     labels_role_group_selector ''zk'' ''zookeeper'' ''server'' ''default'' = Inr S"
proof -
  have "list_all label_value_ok [''zk'', ''zookeeper'', ''3'', ''op'', ''ctl'', ''server'', ''default'']"
    by (simp add: label_value_ok_def key_eval)
  from typed_labels_agree [OF this] show ?thesis by blast
qed

text \<open>
  Operator and controller names that are valid label values but do not fit into one label value
  together: the typed labels then name the operator alone, which is not what \<open>ClusterResources\<close>
  expects of the objects it applies, so that it refuses them, and the builder of disruption budgets
  panics.
\<close>

theorem long_controller_names_refused:
  assumes "list_all label_value_ok [c, p, v, op, ctl, r, g]" "62 < length op + length ctl"
    and "typed_cluster_resources_new p op ctl c ns uid strategy overrides = Some cr"
  shows "\<exists>L. recommended_labels_for_role_group_resources u c p v op ctl r g = Some L \<and>
    check_labels (labels_into_map L) (expected_labels cr) =
      Inl (UnexpectedLabelContent K8S_APP_MANAGED_BY_KEY (op @ ''_'' @ ctl) op) \<and>
    pod_disruption_budget_builder_with_role \<lparr>to_object = ob, to_name = c, to_uid = uid\<rparr> p r op ctl = None"
proof -
  have cr: "expected_labels cr = [(K8S_APP_INSTANCE_KEY, c), (K8S_APP_MANAGED_BY_KEY, op @ ''_'' @ ctl), (K8S_APP_NAME_KEY, p)]"
    using assms(3) by (auto simp: typed_cluster_resources_new_def cluster_resources_new_def expected_labels_def format_full_controller_name_def)
  have m: "managed_by_value op ctl = op" using assms(2) by (simp add: managed_by_value_def)
  note L = typed_label_sets_eq(3) [OF assms(1), of u, unfolded m]
  have wf: "kvps_wf (the (recommended_labels_for_role_group_resources u c p v op ctl r g))"
    using k8s_prefix_ok stackable_prefix_ok well_known_names
    by (simp add: L kvps_wf_def btree_inv_def less_char_def key_wf_def) (simp add: app_key_def vendor_key_def)
  have "labels_into_map (the (recommended_labels_for_role_group_resources u c p v op ctl r g)) =
    [(''app.kubernetes.io/component'', r), (''app.kubernetes.io/instance'', c), (''app.kubernetes.io/managed-by'', op),
     (''app.kubernetes.io/name'', p), (''app.kubernetes.io/role-group'', g), (''app.kubernetes.io/version'', v),
     (''stackable.tech/vendor'', ''Stackable'')]"
    using label_value.into_map_sorted [OF wf] by (simp add: L labels_into_map_def app_key_def vendor_key_def key_fmt_def)
  then have "check_labels (labels_into_map (the (recommended_labels_for_role_group_resources u c p v op ctl r g))) (expected_labels cr) =
      Inl (UnexpectedLabelContent K8S_APP_MANAGED_BY_KEY (op @ ''_'' @ ctl) op)"
    by (simp add: cr check_label_def btree_get_def K8S_APP_INSTANCE_KEY_def K8S_APP_MANAGED_BY_KEY_def K8S_APP_KEY_PREFIX_def)
  moreover have "\<not> label_value_ok (op @ ''_'' @ ctl)" using assms(1,2) by (simp add: label_value_joined [simplified])
  then have "pdb_new_with_role ob p r op ctl \<noteq> Inr b" for b
    by (auto simp: pdb_new_with_role_def label_constructors app_label_iff format_full_controller_name_def)
  then have "pod_disruption_budget_builder_with_role \<lparr>to_object = ob, to_name = c, to_uid = uid\<rparr> p r op ctl = None"
    by (cases "pdb_new_with_role ob p r op ctl") (auto simp: pod_disruption_budget_builder_with_role_def)
  ultimately show ?thesis using L by auto
qed

theorem long_controller_names_refused_witness:
  "\<exists>L. recommended_labels_for_role_group_resources (\<lambda>_. Inl ()) ''c'' ''p'' ''1'' (replicate 40 (CHR ''o'')) (replicate 40 (CHR ''t'')) ''r'' ''g'' = Some L \<and>
     btree_get (labels_into_map L) K8S_APP_MANAGED_BY_KEY \<noteq> Some (replicate 40 (CHR ''o'') @ ''_'' @ replicate 40 (CHR ''t''))"
proof -
  let ?op = "replicate 40 (CHR ''o'')" and ?ctl = "replicate 40 (CHR ''t'')"
  have ok: "list_all label_value_ok [''c'', ''p'', ''1'', ?op, ?ctl, ''r'', ''g'']"
    by (simp add: label_value_ok_def key_eval list_all_iff)
  obtain cr where cr: "typed_cluster_resources_new ''p'' ?op ?ctl ''c'' ''ns'' ''u'' DefaultStrategy [] = Some cr"
    by (simp add: typed_cluster_resources_new_def cluster_resources_new_def)
  obtain L where L: "recommended_labels_for_role_group_resources (\<lambda>_. Inl ()) ''c'' ''p'' ''1'' ?op ?ctl ''r'' ''g'' = Some L"
    "check_labels (labels_into_map L) (expected_labels cr) = Inl (UnexpectedLabelContent K8S_APP_MANAGED_BY_KEY (?op @ ''_'' @ ?ctl) ?op)"
    using long_controller_names_refused [OF ok _ cr, of "\<lambda>_. Inl ()"] by auto
  have e: "expected_labels cr = [(K8S_APP_INSTANCE_KEY, ''c''), (K8S_APP_MANAGED_BY_KEY, ?op @ ''_'' @ ?ctl), (K8S_APP_NAME_KEY, ''p'')]"
    using cr by (auto simp: typed_cluster_resources_new_def cluster_resources_new_def expected_labels_def format_full_controller_name_def)
  have "btree_get (labels_into_map L) K8S_APP_MANAGED_BY_KEY \<noteq> Some (?op @ ''_'' @ ?ctl)"
    using L(2) by (auto simp: e check_label_def result_simps split: option.splits if_splits)
  then show ?thesis using L(1) by blast
qed

subsection \<open>Agreement with the fallible builders\<close>

lemma typed_ownerreference_eq:
  "typed_ownerreference_from_resource owner blk ctl =
     Some \<lparr>or_api_version = ko_api_version (to_object owner), or_block_owner_deletion = blk, or_controller = ctl,
       or_kind = ko_kind (to_object owner), or_name = to_name owner, or_uid = to_uid owner\<rparr>"
  by (simp add: typed_ownerreference_from_resource_def owner_build_def owner_controller_opt_def owner_block_owner_deletion_opt_def
      owner_uid_def owner_name_def initialize_from_resource_def owner_uid_opt_def owner_kind_def owner_api_version_def owner_new_def ok_or_def)

text \<open>
  The typed access rights are the fallible ones: for an owner whose name is an accepted cluster name
  and that has a UID, \<open>build_service_account\<close> and \<open>build_role_binding\<close> return, without a panic, exactly the
  objects of \<open>build_rbac_resources\<close>.
\<close>

theorem typed_rbac_agrees:
  assumes "attr_from_str u ClusterName c = Inr c" "attr_from_str u ProductName p = Inr p"
    and "ko_name_any ob = c" "ko_uid ob = Some uid"
    and "owner = \<lparr>to_object = ob, to_name = c, to_uid = uid\<rparr>" "names = \<lparr>rrn_cluster_name = c, rrn_product_name = p\<rparr>"
  shows "\<exists>sa rb. build_service_account u owner names labels = Some sa \<and> build_role_binding u owner names labels = Some rb \<and>
    build_rbac_resources ob p labels = Inr (sa, rb)"
proof -
  have names: "role_service_account_name u names = Some (c @ ''-serviceaccount'')"
    "role_role_binding_name u names = Some (c @ ''-rolebinding'')" "role_cluster_role_name u names = Some (p @ ''-clusterrole'')"
    using role_names_accepted [OF assms(1,2,6)] by blast+
  have "ownerreference_from_resource ob None (Some True) b = Inr (b\<lparr>omb_ownerreference := Some
      \<lparr>or_api_version = ko_api_version ob, or_block_owner_deletion = None, or_controller = Some True,
       or_kind = ko_kind ob, or_name = c, or_uid = uid\<rparr>\<rparr>)" for b
    using assms by (simp add: ownerreference_from_resource_Inr)
  then show ?thesis
    using assms(3-5)
    by (simp add: build_service_account_def build_role_binding_def names rbac_metadata_def typed_ownerreference_eq
        build_rbac_resources_def Let_def service_account_name_def role_binding_name_def meta_name_def meta_name_and_namespace_def
        meta_namespace_opt_def meta_ownerreference_def with_labels_def meta_build_def meta_new_def)
qed

theorem typed_rbac_agrees_witness:
  "\<exists>sa rb. build_rbac_resources \<lparr>ko_api_version = ''v1'', ko_kind = ''K'', ko_name_any = ''h'', ko_namespace = None, ko_uid = Some ''u''\<rparr>
      ''p'' kvps_new = Inr (sa, rb) \<and>
    build_role_binding (\<lambda>_. Inl ()) \<lparr>to_object = \<lparr>ko_api_version = ''v1'', ko_kind = ''K'', ko_name_any = ''h'', ko_namespace = None, ko_uid = Some ''u''\<rparr>,
      to_name = ''h'', to_uid = ''u''\<rparr> \<lparr>rrn_cluster_name = ''h'', rrn_product_name = ''p''\<rparr> kvps_new = Some rb"
proof -
  have "attr_from_str (\<lambda>_. Inl ()) ClusterName ''h'' = Inr ''h''" "attr_from_str (\<lambda>_. Inl ()) ProductName ''p'' = Inr ''p''"
    by (subst typed_iff; simp add: ClusterName_def ProductName_def typed_eval)+
  from typed_rbac_agrees [OF this, of "\<lparr>ko_api_version = ''v1'', ko_kind = ''K'', ko_name_any = ''h'', ko_namespace = None, ko_uid = Some ''u''\<rparr>" "''u''"]
  show ?thesis by (simp del: attr_from_str_Inr) blast
qed

subsection \<open>Annotations for the restarter\<close>

lemma restarter_prefix_ok: "prefix_ok ''restarter.stackable.tech''"
  using prefix_okI [of "CHR ''r''" "''estarter.stackable''" "''tech''"] by (simp add: key_eval)

lemma restarter_name_ok:
  assumes "i < 10 ^ 20" "kind = ''configmap'' \<or> kind = ''secret''"
  shows "name_ok (''ignore-'' @ kind @ ''.'' @ show_nat i)"
proof -
  have "length (show_nat i) \<le> 20" using length_show_nat [of i 20] assms(1) by simp
  moreover have "is_digit c \<Longrightarrow> alnum_char c" for c by (simp add: alnum_char_def)
  then have "list_all alnum_char (show_nat i)" using list_all_show_nat [of i] by (simp add: list_all_iff)
  then have "list_all name_char (show_nat i)" "alnum_char (last (show_nat i))" by (simp_all add: list_all_iff name_char_def)
  moreover have "list_all name_char (''ignore-'' @ kind @ ''.'')" "alnum_char (CHR ''i'')" "length kind \<le> 10"
    using assms(2) by (auto simp: key_eval)
  ultimately show ?thesis by (simp add: name_ok_def qualified_name_def)
qed

text \<open>A string map with valid keys is read and printed without a change.\<close>

lemma annotations_from_valid_map:
  assumes inv: "btree_inv xs" and keys: "\<And>k v. (k, v) \<in> set xs \<Longrightarrow> \<exists>\<kappa>. key_wf \<kappa> \<and> key_fmt \<kappa> = k"
  shows "\<exists>m. annotations_try_from_map xs = Inr m \<and> annotations_into_map m = xs"
proof -
  have "\<forall>k \<in> set (map fst xs). \<exists>\<kappa>. key_wf \<kappa> \<and> key_fmt \<kappa> = k" using keys by auto
  then obtain f where f: "\<And>k. k \<in> set (map fst xs) \<Longrightarrow> key_wf (f k) \<and> key_fmt (f k) = k" by metis
  define m where "m = map (\<lambda>(k, v). (f k, AnnotationValue v)) xs"
  have "sorted_wrt (\<lambda>k l. f k < f l) (map fst xs)"
    by (rule sorted_wrt_mono_rel [where P = "(<)", OF _ inv [unfolded btree_inv_def]]) (simp add: f key_less_iff)
  then have wf: "kvps_wf m" using f by (auto simp: kvps_wf_def btree_inv_def m_def sorted_wrt_map split_beta comp_def)
  have "kvps_into_map annotation_value_fmt m = xs"
    unfolding annotation_value.into_map_sorted [OF wf] using f by (force simp: m_def split_beta comp_def intro!: map_idI)
  then show ?thesis using annotation_value.try_from_into_map [OF wf]
    by (intro exI [of _ m]) (simp add: annotations_try_from_map_def annotations_try_from_iter_def annotations_into_map_def kvps_try_from_map_def)
qed

text \<open>
  The annotations that exclude ConfigMaps and Secrets from restarts are built without a panic and
  name every given object: the one at index \<open>i\<close> under the key with that number.
\<close>

theorem restarter_annotations_complete:
  assumes "length names \<le> 10 ^ 20" "kind = ''configmap'' \<or> kind = ''secret''"
  shows "\<exists>A. restarter_ignore_annotations kind names = Some A \<and>
    (\<forall>k v. btree_get (annotations_into_map A) k = Some v \<longleftrightarrow>
       (\<exists>i < length names. k = ''restarter.stackable.tech/ignore-'' @ kind @ ''.'' @ show_nat i \<and> v = names ! i))"
proof -
  define key where "key i = ''restarter.stackable.tech/ignore-'' @ kind @ ''.'' @ show_nat i" for i
  define ps where "ps = map (\<lambda>(i, name). (key i, name)) (enumerate 0 names)"
  have inj: "key i = key j \<Longrightarrow> i = j" for i j using digits_val_show_nat [of i] digits_val_show_nat [of j] by (simp add: key_def)
  have ps: "map fst ps = map key [0..<length names]"
    by (rule nth_equalityI) (simp_all add: ps_def nth_enumerate_eq)
  then have dist: "distinct (map fst (rev ps))" using inj by (simp add: rev_map [symmetric] distinct_map inj_on_def)
  have "ps = map (\<lambda>i. (key i, names ! i)) [0..<length names]"
    by (rule nth_equalityI) (simp_all add: ps_def nth_enumerate_eq)
  then have "(k, v) \<in> set ps \<longleftrightarrow> (\<exists>i < length names. k = key i \<and> v = names ! i)" for k v by auto
  then have get: "btree_get (btree_collect ps) k = Some v \<longleftrightarrow> (\<exists>i < length names. k = key i \<and> v = names ! i)" for k v
    unfolding btree_get_collect by (simp only: map_of_eq_Some_iff [OF dist] set_rev)
  have keys: "\<exists>\<kappa>. key_wf \<kappa> \<and> key_fmt \<kappa> = k" if "(k, v) \<in> set (btree_collect ps)" for k v
  proof -
    have "btree_get (btree_collect ps) k = Some v" using that by (simp add: btree_get_iff)
    then obtain i where "i < length names" and k: "k = key i" unfolding get by blast
    then have i: "i < 10 ^ 20" using assms(1) by linarith
    then have "key_from_str k = Inr (Key k (Some ''restarter.stackable.tech'') (''ignore-'' @ kind @ ''.'' @ show_nat i))"
      using key_from_str_const [OF restarter_prefix_ok restarter_name_ok [OF i(1) assms(2)]] by (simp add: k key_def)
    then show ?thesis using key.from_str_wf by (intro exI conjI) (auto simp: key_fmt_def)
  qed
  obtain A where "annotations_try_from_map (btree_collect ps) = Inr A" "annotations_into_map A = btree_collect ps"
    using annotations_from_valid_map [of "btree_collect ps"] keys by (metis btree_inv_collect)
  then show ?thesis using get by (simp add: restarter_ignore_annotations_def ps_def key_def)
qed

theorem restarter_annotations_complete_witness:
  "\<exists>A. restarter_ignore_configmap_annotations [''a'', ''b''] = Some A \<and>
     btree_get (annotations_into_map A) ''restarter.stackable.tech/ignore-configmap.1'' = Some ''b''"
proof -
  obtain A where A: "restarter_ignore_annotations ''configmap'' [''a'', ''b''] = Some A"
    "\<And>k v. btree_get (annotations_into_map A) k = Some v \<longleftrightarrow>
       (\<exists>i < length [''a'', ''b'']. k = ''restarter.stackable.tech/ignore-'' @ ''configmap'' @ ''.'' @ show_nat i \<and> v = [''a'', ''b''] ! i)"
    using restarter_annotations_complete [of "[''a'', ''b'']" "''configmap''"] by auto
  have "show_nat 1 = ''1''" by code_simp
  then have "btree_get (annotations_into_map A) ''restarter.stackable.tech/ignore-configmap.1'' = Some ''b''"
    unfolding A(2) by (intro exI [of _ 1]) simp
  then show ?thesis using A(1) by (simp add: restarter_ignore_configmap_annotations_def)
qed

end
