(* ===== verification/Env_Vars.thy ===== *)
theory Env_Vars
  imports Typed_Names "HOL-Library.Multiset"
begin

section \<open>Environment variables\<close>

text \<open>
  \<open>v2/builder/pod/container.rs\<close> and \<open>v2/env_overrides.rs\<close>: sets of environment variables with unique
  names, and the order in which a container gets them. Kubernetes expands \<open>$(NAME)\<close> in a value only
  when \<open>NAME\<close> was defined before, so that a variable has to come after those it references. The two
  regular expressions of the file are read as scanners.
\<close>

subsection \<open>Sets of environment variables\<close>

datatype env_var_set_error = ParseEnvVarName "unit attr_error"

text \<open>No attribute of \<^const>\<open>EnvVarName\<close> asks for a UID, so that its parser does not matter.\<close>

definition env_var_name_from_str :: "string \<Rightarrow> (string, unit attr_error) result" where
  "env_var_name_from_str s = attr_from_str (\<lambda>_. Inr ()) EnvVarName s"

type_synonym env_var_set = "(string, env_var) btreemap"

definition env_var_set_new :: env_var_set where
  "env_var_set_new = []"

definition env_var_set_get :: "string \<Rightarrow> env_var_set \<Rightarrow> env_var option" where
  "env_var_set_get env_var_name self = btree_get self env_var_name"

definition env_var_set_merge :: "env_var_set \<Rightarrow> env_var_set \<Rightarrow> env_var_set" where
  "env_var_set_merge env_var_set self = btree_extend self env_var_set"

definition with_env_var :: "env_var \<Rightarrow> env_var_set \<Rightarrow> (env_var_set, env_var_set_error) result" where
  "with_env_var env_var self =
     and_then (map_err ParseEnvVarName (env_var_name_from_str (ev_name env_var))) (\<lambda>name.
     Inr (btree_insert name env_var self))"

definition with_value :: "string \<Rightarrow> string \<Rightarrow> env_var_set \<Rightarrow> env_var_set" where
  "with_value name value self =
     btree_insert name \<lparr>ev_name = name, ev_value = Some value, ev_value_from = None\<rparr> self"

definition with_values :: "(string \<times> string) list \<Rightarrow> env_var_set \<Rightarrow> env_var_set" where
  "with_values env_vars self = fold (\<lambda>(name, value) extended_env_vars. with_value name value extended_env_vars) env_vars self"

definition with_field_path :: "string \<Rightarrow> field_path_env_var \<Rightarrow> env_var_set \<Rightarrow> env_var_set" where
  "with_field_path name field_path self =
     btree_insert name
       \<lparr>ev_name = name, ev_value = None,
        ev_value_from = Some (env_var_source_default\<lparr>evs_field_ref := Some (field_path_env_var_fmt field_path)\<rparr>)\<rparr> self"

definition with_config_map_key_ref :: "string \<Rightarrow> string \<Rightarrow> string \<Rightarrow> env_var_set \<Rightarrow> env_var_set" where
  "with_config_map_key_ref name config_map_name config_map_key self =
     btree_insert name
       \<lparr>ev_name = name, ev_value = None,
        ev_value_from = Some (env_var_source_default
          \<lparr>evs_config_map_key_ref := Some \<lparr>ks_name = config_map_name, ks_key = config_map_key, ks_optional = None\<rparr>\<rparr>)\<rparr> self"

definition with_secret_key_ref :: "string \<Rightarrow> string \<Rightarrow> string \<Rightarrow> env_var_set \<Rightarrow> env_var_set" where
  "with_secret_key_ref name secret_name secret_key self =
     btree_insert name
       \<lparr>ev_name = name, ev_value = None,
        ev_value_from = Some (env_var_source_default
          \<lparr>evs_secret_key_ref := Some \<lparr>ks_name = secret_name, ks_key = secret_key, ks_optional = None\<rparr>\<rparr>)\<rparr> self"

subsection \<open>References\<close>

definition ENV_VAR_DEPENDENCY_RESOLVER_MAX_RECURSION_DEPTH :: nat where
  "ENV_VAR_DEPENDENCY_RESOLVER_MAX_RECURSION_DEPTH = 10"

text \<open>\<open>\$\$\<close> replaced by nothing.\<close>

fun remove_escaped_dollars :: "string \<Rightarrow> string" where
  "remove_escaped_dollars (c # d # s) =
     (if c = CHR ''$'' \<and> d = CHR ''$'' then remove_escaped_dollars s else c # remove_escaped_dollars (d # s))"
| "remove_escaped_dollars s = s"

text \<open>The first groups of the matches of \<open>\$\(([^\)]+)\)\<close>.\<close>

function captured_names :: "string \<Rightarrow> string list" where
  "captured_names [] = []"
| "captured_names (c # s) =
     (case s of
        [] \<Rightarrow> []
      | d # t \<Rightarrow>
          let name = takeWhile (\<lambda>x. x \<noteq> CHR '')'') t; rest = dropWhile (\<lambda>x. x \<noteq> CHR '')'') t in
          if c = CHR ''$'' \<and> d = CHR ''('' \<and> name \<noteq> [] \<and> rest \<noteq> [] then name # captured_names (tl rest)
          else captured_names s)"
  by pat_completeness auto
termination
proof (relation "measure length")
  fix c :: char and s d t name rest
  assume "s = d # t" "rest = dropWhile (\<lambda>x. x \<noteq> CHR '')'') t"
  then show "(tl rest, c # s) \<in> measure length"
    using length_dropWhile_le [of "\<lambda>x. x \<noteq> CHR '')''" t] by simp
qed simp_all

definition referenced_env_vars :: "env_var_set \<Rightarrow> string \<Rightarrow> env_var list" where
  "referenced_env_vars env_vars value =
     (let value_without_escapes = remove_escaped_dollars value in
      List.map_filter (\<lambda>name. case env_var_name_from_str name of Inr env_var_name \<Rightarrow> btree_get env_vars env_var_name | Inl _ \<Rightarrow> None)
        (captured_names value_without_escapes))"

text \<open>A \<open>BTreeSet\<close> of names is its sorted list. \<open>add_closures\<close> is the loop over the referenced variables.\<close>

fun add_closures :: "(env_var \<Rightarrow> string list option) \<Rightarrow> string list \<Rightarrow> env_var list \<Rightarrow> string list option" where
  "add_closures rec closure [] = Some closure"
| "add_closures rec closure (referenced_env_var # rest) =
     (let closure = insort_insert (ev_name referenced_env_var) closure in
      case rec referenced_env_var of
        None \<Rightarrow> None
      | Some names \<Rightarrow> add_closures rec (fold insort_insert names closure) rest)"

fun calculate_closure_rec :: "env_var_set \<Rightarrow> nat \<Rightarrow> env_var \<Rightarrow> string list option" where
  "calculate_closure_rec env_vars 0 env_var = (if ev_value env_var = None then Some [] else None)"
| "calculate_closure_rec env_vars (Suc remaining_recursion_depth) env_var =
     (case ev_value env_var of
        None \<Rightarrow> Some []
      | Some value \<Rightarrow>
          add_closures (calculate_closure_rec env_vars remaining_recursion_depth) [] (referenced_env_vars env_vars value))"

definition calculate_closure :: "env_var_set \<Rightarrow> nat \<Rightarrow> env_var \<Rightarrow> string list option" where
  "calculate_closure env_vars max_recursion_depth env_var = calculate_closure_rec env_vars max_recursion_depth env_var"

definition env_var_sort_key :: "env_var_set \<Rightarrow> nat \<Rightarrow> env_var \<Rightarrow> string list" where
  "env_var_sort_key env_vars max_recursion_depth env_var =
     (case calculate_closure env_vars max_recursion_depth env_var of
        Some closure \<Rightarrow> rev (insort_insert (ev_name env_var) closure)
      | None \<Rightarrow> [ev_name env_var])"

text \<open>\<open>IntoIterator\<close>; \<open>sort_by_cached_key\<close> is a stable sort.\<close>

definition env_var_set_into_iter :: "env_var_set \<Rightarrow> env_var list" where
  "env_var_set_into_iter self =
     sort_key (env_var_sort_key self ENV_VAR_DEPENDENCY_RESOLVER_MAX_RECURSION_DEPTH) (map snd self)"

subsection \<open>Overrides and containers\<close>

type_synonym env_overrides = "(string, string) btreemap"

definition env_overrides_new :: env_overrides where
  "env_overrides_new = []"

definition env_overrides_insert :: "string \<Rightarrow> string \<Rightarrow> env_overrides \<Rightarrow> env_overrides \<times> string option" where
  "env_overrides_insert env_var_name value self = (btree_insert env_var_name value self, btree_get self env_var_name)"

definition env_overrides_from_iter :: "(string \<times> string) list \<Rightarrow> env_overrides" where
  "env_overrides_from_iter iter = btree_collect iter"

definition env_overrides_extend :: "env_overrides \<Rightarrow> (string \<times> string) list \<Rightarrow> env_overrides" where
  "env_overrides_extend self iter = btree_extend self iter"

definition env_var_set_from_overrides :: "env_overrides \<Rightarrow> env_var_set" where
  "env_var_set_from_overrides value = with_values value env_var_set_new"

definition new_container_builder :: "string \<Rightarrow> container_builder option" where
  "new_container_builder container_name = expect (container_new container_name)"

subsection \<open>The invariant\<close>

text \<open>Every variable is stored under its own name, and the name is accepted.\<close>

definition env_var_set_inv :: "env_var_set \<Rightarrow> bool" where
  "env_var_set_inv self \<longleftrightarrow> btree_inv self \<and>
     list_all (\<lambda>(k, e). ev_name e = k \<and> env_var_name_from_str k = Inr k) self"

lemma env_var_name_Inr: "env_var_name_from_str s = Inr n \<Longrightarrow> n = s"
  by (simp add: env_var_name_from_str_def)

lemma env_var_set_inv_get:
  "env_var_set_inv S \<Longrightarrow> btree_get S k = Some e \<Longrightarrow> ev_name e = k \<and> env_var_name_from_str k = Inr k"
  by (auto simp: env_var_set_inv_def btree_get_iff list_all_iff)

lemma env_var_set_inv_insert:
  assumes "env_var_set_inv S" "ev_name e = k" "env_var_name_from_str k = Inr k"
  shows "env_var_set_inv (btree_insert k e S)"
proof -
  have "btree_inv (btree_insert k e S)" using assms(1) by (simp add: env_var_set_inv_def)
  moreover have "set (btree_insert k e S) \<subseteq> insert (k, e) (set S)" by (rule btree_insert_set)
  ultimately show ?thesis using assms by (auto simp: env_var_set_inv_def list_all_iff)
qed

lemma env_var_set_inv_extend:
  assumes "env_var_set_inv S" "env_var_set_inv T"
  shows "env_var_set_inv (btree_extend S T)"
  using assms btree_extend_set [of S T]
  by (auto simp: env_var_set_inv_def list_all_iff)

text \<open>
  A set of environment variables keeps every variable under its accepted name: all operations keep
  this, \<open>with_env_var\<close> fails exactly on a name that is not accepted, a later variable of a name replaces
  an earlier one, and merging lets the argument win.
\<close>

theorem env_var_set_operations:
  assumes "env_var_set_inv S" "env_var_set_inv T" "env_var_name_from_str n = Inr n"
  shows "env_var_set_inv env_var_set_new \<and> env_var_set_inv (env_var_set_merge T S) \<and>
    env_var_set_inv (with_value n v S) \<and> env_var_set_inv (with_field_path n f S) \<and>
    env_var_set_inv (with_config_map_key_ref n cm key S) \<and> env_var_set_inv (with_secret_key_ref n sec key S) \<and>
    (case with_env_var e S of
       Inr S' \<Rightarrow> env_var_set_inv S' \<and> (\<forall>k. env_var_set_get k S' = (if k = ev_name e then Some e else env_var_set_get k S))
     | Inl err \<Rightarrow> \<not> is_ok (env_var_name_from_str (ev_name e))) \<and>
    (\<forall>k. env_var_set_get k (env_var_set_merge T S) =
       (case env_var_set_get k T of Some x \<Rightarrow> Some x | None \<Rightarrow> env_var_set_get k S)) \<and>
    (\<forall>k. env_var_set_get k (with_value n v S) =
       (if k = n then Some \<lparr>ev_name = n, ev_value = Some v, ev_value_from = None\<rparr> else env_var_set_get k S))"
proof -
  have inv: "btree_inv S" "btree_inv T" using assms by (simp_all add: env_var_set_inv_def)
  have "env_var_set_inv env_var_set_new" by (simp add: env_var_set_inv_def env_var_set_new_def btree_inv_def)
  moreover have "env_var_set_inv (env_var_set_merge T S)"
    using env_var_set_inv_extend [OF assms(1,2)] by (simp add: env_var_set_merge_def)
  moreover have "env_var_set_inv (with_value n v S)" "env_var_set_inv (with_field_path n f S)"
    "env_var_set_inv (with_config_map_key_ref n cm key S)" "env_var_set_inv (with_secret_key_ref n sec key S)"
    unfolding with_value_def with_field_path_def with_config_map_key_ref_def with_secret_key_ref_def
    using assms by (auto intro!: env_var_set_inv_insert)
  moreover have "case with_env_var e S of
       Inr S' \<Rightarrow> env_var_set_inv S' \<and> (\<forall>k. env_var_set_get k S' = (if k = ev_name e then Some e else env_var_set_get k S))
     | Inl err \<Rightarrow> \<not> is_ok (env_var_name_from_str (ev_name e))"
  proof (cases "env_var_name_from_str (ev_name e)")
    case (Inr m)
    then have "m = ev_name e" "env_var_name_from_str (ev_name e) = Inr (ev_name e)" using env_var_name_Inr [of "ev_name e" m] by simp_all
    then show ?thesis
      using env_var_set_inv_insert [OF assms(1) refl, of e] inv
      by (simp add: with_env_var_def env_var_set_get_def)
  qed (simp add: with_env_var_def)
  moreover have "env_var_set_get k (env_var_set_merge T S) =
       (case env_var_set_get k T of Some x \<Rightarrow> Some x | None \<Rightarrow> env_var_set_get k S)" for k
  proof -
    have "distinct (map fst T)" using inv by (simp add: btree_inv_def strict_sorted_iff)
    then have "map_of (rev T) = map_of T" by (simp add: map_of_inject_set rev_map [symmetric])
    then show ?thesis using inv
      by (simp add: env_var_set_merge_def env_var_set_get_def btree_get_extend) (simp add: btree_get_def env_var_set_get_def split: option.splits)
  qed
  moreover have "env_var_set_get k (with_value n v S) =
       (if k = n then Some \<lparr>ev_name = n, ev_value = Some v, ev_value_from = None\<rparr> else env_var_set_get k S)" for k
    using inv by (simp add: env_var_set_get_def with_value_def)
  ultimately show ?thesis by simp
qed

subsection \<open>Closures\<close>

definition references :: "env_var_set \<Rightarrow> env_var \<Rightarrow> env_var \<Rightarrow> bool" where
  "references S e r \<longleftrightarrow> (\<exists>v. ev_value e = Some v \<and> r \<in> set (referenced_env_vars S v))"

lemma set_fold_insort_insert [simp]: "set (fold insort_insert xs ys) = set xs \<union> set ys"
  by (induction xs arbitrary: ys) (auto simp: set_insort_insert)

lemma sorted_fold_insort_insert:
  "sorted ys \<Longrightarrow> distinct ys \<Longrightarrow> sorted (fold insort_insert xs ys) \<and> distinct (fold insort_insert xs ys)"
  by (induction xs arbitrary: ys) (auto simp: sorted_insort_insert distinct_insort_insert)

lemma add_closures_Some_iff:
  "(\<exists>c. add_closures rec acc rs = Some c) \<longleftrightarrow> (\<forall>r \<in> set rs. rec r \<noteq> None)"
  by (induction rs arbitrary: acc) (auto simp: Let_def split: option.splits)

lemma add_closures_set:
  "add_closures rec acc rs = Some c \<Longrightarrow> set c = set acc \<union> (\<Union>r \<in> set rs. insert (ev_name r) (set (the (rec r))))"
proof (induction rs arbitrary: acc)
  case (Cons r rs)
  then obtain ns where "rec r = Some ns" "add_closures rec (fold insort_insert ns (insort_insert (ev_name r) acc)) rs = Some c"
    by (auto simp: Let_def split: option.splits)
  from Cons.IH [OF this(2)] this(1) show ?case by (simp add: set_insort_insert Un_ac)
qed simp

lemma add_closures_sorted:
  "add_closures rec acc rs = Some c \<Longrightarrow> sorted acc \<Longrightarrow> distinct acc \<Longrightarrow> sorted c \<and> distinct c"
proof (induction rs arbitrary: acc)
  case (Cons r rs)
  then obtain ns where ns: "add_closures rec (fold insort_insert ns (insort_insert (ev_name r) acc)) rs = Some c"
    by (auto simp: Let_def split: option.splits)
  have "sorted (insort_insert (ev_name r) acc)" "distinct (insort_insert (ev_name r) acc)"
    using Cons.prems by (simp_all add: sorted_insort_insert distinct_insort_insert)
  then show ?case using Cons.IH [OF ns] sorted_fold_insort_insert by blast
qed simp

lemma add_closures_cong:
  "(\<And>r. r \<in> set rs \<Longrightarrow> rec r = rec' r) \<Longrightarrow> add_closures rec acc rs = add_closures rec' acc rs"
  by (induction rs arbitrary: acc) (auto simp: Let_def split: option.splits)

lemma closure_sorted: "calculate_closure_rec S d e = Some c \<Longrightarrow> sorted c \<and> distinct c"
  by (cases d) (auto split: if_splits option.splits dest: add_closures_sorted)

lemma closure_deeper: "calculate_closure_rec S d e = Some c \<Longrightarrow> calculate_closure_rec S (Suc d) e = Some c"
proof (induction d arbitrary: e c)
  case (Suc d)
  show ?case
  proof (cases "ev_value e")
    case (Some v)
    let ?rs = "referenced_env_vars S v"
    have c: "add_closures (calculate_closure_rec S d) [] ?rs = Some c" using Suc.prems Some by simp
    then have "calculate_closure_rec S d r = calculate_closure_rec S (Suc d) r" if "r \<in> set ?rs" for r
      using that Suc.IH add_closures_Some_iff [of "calculate_closure_rec S d" "[]" ?rs] by (metis option.collapse)
    then have "add_closures (calculate_closure_rec S (Suc d)) [] ?rs = Some c" using c add_closures_cong by metis
    then show ?thesis using Some by simp
  qed (use Suc.prems in simp)
qed (simp split: if_splits)

lemma closure_mono: "calculate_closure_rec S d e = Some c \<Longrightarrow> d \<le> d' \<Longrightarrow> calculate_closure_rec S d' e = Some c"
  by (induction d' arbitrary: d) (auto simp: le_Suc_eq intro: closure_deeper simp del: calculate_closure_rec.simps)

lemma closure_unique: "calculate_closure_rec S d e = Some c \<Longrightarrow> calculate_closure_rec S d' e = Some c' \<Longrightarrow> c = c'"
  by (metis closure_mono linorder_linear option.inject)

lemma closure_step:
  assumes "calculate_closure_rec S d e = Some c" "references S e r"
  shows "\<exists>k c'. d = Suc k \<and> calculate_closure_rec S k r = Some c' \<and> insert (ev_name r) (set c') \<subseteq> set c"
proof -
  obtain v where v: "ev_value e = Some v" "r \<in> set (referenced_env_vars S v)" using assms(2) by (auto simp: references_def)
  then obtain k where k: "d = Suc k" using assms(1) by (cases d) auto
  then have a: "add_closures (calculate_closure_rec S k) [] (referenced_env_vars S v) = Some c" using assms(1) v by simp
  then obtain c' where c': "calculate_closure_rec S k r = Some c'"
    using add_closures_Some_iff [of "calculate_closure_rec S k" "[]" "referenced_env_vars S v"] v(2) by blast
  have "insert (ev_name r) (set (the (calculate_closure_rec S k r))) \<subseteq> set c" unfolding add_closures_set [OF a] using v(2) by blast
  then show ?thesis using k c' by simp
qed

lemma referenced_get:
  assumes "env_var_set_inv S" "r \<in> set (referenced_env_vars S v)"
  shows "btree_get S (ev_name r) = Some r"
proof -
  obtain name where "(case env_var_name_from_str name of Inr n \<Rightarrow> btree_get S n | Inl _ \<Rightarrow> None) = Some r"
    using assms(2) by (auto simp: referenced_env_vars_def Let_def in_map_filter)
  then obtain n where "btree_get S n = Some r" by (auto split: sum.splits)
  then show ?thesis using env_var_set_inv_get [OF assms(1)] by metis
qed

text \<open>
  The closure of a variable is exact: when it can be calculated within the depth, it contains the
  names of exactly the variables that are reached from it by one or more references, in ascending
  order and without repetition.
\<close>

theorem closure_exact:
  assumes "calculate_closure S d e = Some c"
  shows "set c = ev_name ` {r. (references S)\<^sup>+\<^sup>+ e r} \<and> sorted c \<and> distinct c"
proof (intro conjI equalityI)
  have c: "calculate_closure_rec S d e = Some c" using assms by (simp add: calculate_closure_def)
  show "sorted c" "distinct c" using closure_sorted [OF c] by simp_all
  show "set c \<subseteq> ev_name ` {r. (references S)\<^sup>+\<^sup>+ e r}" using c
  proof (induction d arbitrary: e c)
    case (Suc d)
    show ?case
    proof (cases "ev_value e")
      case (Some v)
      let ?rs = "referenced_env_vars S v"
      have a: "add_closures (calculate_closure_rec S d) [] ?rs = Some c" using Suc.prems Some by simp
      have "insert (ev_name r) (set (the (calculate_closure_rec S d r))) \<subseteq> ev_name ` {r. (references S)\<^sup>+\<^sup>+ e r}"
        if r: "r \<in> set ?rs" for r
      proof -
        have ref: "references S e r" using r Some by (auto simp: references_def)
        obtain c' where "calculate_closure_rec S d r = Some c'"
          using a r add_closures_Some_iff [of "calculate_closure_rec S d" "[]" ?rs] by blast
        then have "set (the (calculate_closure_rec S d r)) \<subseteq> ev_name ` {r'. (references S)\<^sup>+\<^sup>+ r r'}" using Suc.IH by simp
        then show ?thesis using ref by (auto intro: tranclp_into_tranclp2)
      qed
      then show ?thesis using add_closures_set [OF a] by auto
    qed (use Suc.prems in simp)
  qed (simp split: if_splits)
  have "ev_name r \<in> set c" if "(references S)\<^sup>+\<^sup>+ e r" "calculate_closure_rec S d e = Some c" for e r d c
    using that
  proof (induction arbitrary: d c rule: converse_tranclp_induct)
    case (base y)
    then show ?case using closure_step by blast
  next
    case (step y z)
    then show ?case using closure_step [OF step.prems step.hyps(1)] by blast
  qed
  then show "ev_name ` {r. (references S)\<^sup>+\<^sup>+ e r} \<subseteq> set c" using c by blast
qed

subsection \<open>The order of the variables\<close>

text \<open>A strictly descending list is before every such list with more elements.\<close>

lemma descending_subset_less:
  fixes xs ys :: "'a::linorder list"
  assumes "sorted_wrt (>) xs" "sorted_wrt (>) ys" "set xs \<subset> set ys"
  shows "xs < ys"
  using assms
proof (induction ys arbitrary: xs)
  case (Cons b bs)
  show ?case
  proof (cases xs)
    case xs: (Cons a as)
    show ?thesis
    proof (cases "a = b")
      case True
      have "set as \<subset> set bs" using Cons.prems xs True by auto
      then show ?thesis using Cons.IH [of as] Cons.prems xs True by simp
    next
      case False
      then have "a < b" using Cons.prems xs by auto
      then show ?thesis using xs by simp
    qed
  qed simp
qed simp

lemma descending_rev: "sorted xs \<Longrightarrow> distinct xs \<Longrightarrow> sorted_wrt (>) (rev xs)"
  by (simp add: sorted_wrt_rev strict_sorted_iff)

lemma not_in_own_closure:
  assumes S: "env_var_set_inv S" and e: "btree_get S (ev_name e) = Some e" and c: "calculate_closure_rec S d e = Some c"
  shows "ev_name e \<notin> set c"
proof -
  have members: "\<exists>k < d. \<exists>e'. btree_get S n = Some e' \<and> calculate_closure_rec S k e' \<noteq> None"
    if "calculate_closure_rec S d e = Some c" "n \<in> set c" for d e c n
    using that
  proof (induction d arbitrary: e c)
    case (Suc d)
    then obtain v where v: "ev_value e = Some v" by (cases "ev_value e") auto
    have a: "add_closures (calculate_closure_rec S d) [] (referenced_env_vars S v) = Some c" using Suc.prems v by simp
    then obtain r where r: "r \<in> set (referenced_env_vars S v)"
      "n = ev_name r \<or> n \<in> set (the (calculate_closure_rec S d r))"
      using add_closures_set [OF a] Suc.prems(2) by auto
    obtain c' where c': "calculate_closure_rec S d r = Some c'"
      using a r(1) add_closures_Some_iff [of "calculate_closure_rec S d" "[]" "referenced_env_vars S v"] by blast
    show ?case
    proof (cases "n = ev_name r")
      case True
      then show ?thesis using referenced_get [OF S r(1)] c' by blast
    next
      case False
      then have "n \<in> set c'" using r(2) c' by simp
      from Suc.IH [OF c' this] show ?thesis using less_Suc_eq by blast
    qed
  qed (simp split: if_splits)
  define m where "m = (LEAST k. calculate_closure_rec S k e \<noteq> None)"
  have m: "calculate_closure_rec S m e \<noteq> None" unfolding m_def by (rule LeastI [of _ d]) (simp add: c)
  then obtain c' where c': "calculate_closure_rec S m e = Some c'" by blast
  show ?thesis
  proof
    assume "ev_name e \<in> set c"
    then have "ev_name e \<in> set c'" using closure_unique [OF c c'] by simp
    from members [OF c' this] e obtain k where "k < m" "calculate_closure_rec S k e \<noteq> None" by auto
    then show False unfolding m_def using not_less_Least by blast
  qed
qed

lemma sort_key_referenced:
  assumes S: "env_var_set_inv S" and e: "btree_get S (ev_name e) = Some e" and ref: "references S e r"
    and c: "calculate_closure S d e = Some c"
  shows "env_var_sort_key S d r < env_var_sort_key S d e"
proof -
  have c1: "calculate_closure_rec S d e = Some c" using c by (simp add: calculate_closure_def)
  obtain k c' where k: "d = Suc k" "calculate_closure_rec S k r = Some c'" "insert (ev_name r) (set c') \<subseteq> set c"
    using closure_step [OF c1 ref] by blast
  have c2: "calculate_closure_rec S d r = Some c'" using closure_deeper k by blast
  have "insert (ev_name r) (set c') \<subset> insert (ev_name e) (set c)" using k(3) not_in_own_closure [OF S e c1] by blast
  then have "rev (insort_insert (ev_name r) c') < rev (insort_insert (ev_name e) c)"
    using closure_sorted [OF c1] closure_sorted [OF c2]
    by (intro descending_subset_less descending_rev) (auto simp: set_insort_insert sorted_insort_insert distinct_insort_insert)
  then show ?thesis using c1 c2 by (simp add: env_var_sort_key_def calculate_closure_def)
qed

definition comes_before :: "'a \<Rightarrow> 'a \<Rightarrow> 'a list \<Rightarrow> bool" where
  "comes_before a b l \<longleftrightarrow> (\<exists>xs ys zs. l = xs @ a # ys @ b # zs)"

lemma sort_key_before:
  assumes "a \<in> set xs" "b \<in> set xs" "f a < f b"
  shows "comes_before a b (sort_key f xs)"
proof -
  let ?l = "sort_key f xs"
  obtain us vs where l: "?l = us @ a # vs" using assms(1) by (metis set_sort split_list)
  have "sorted (map f ?l)" by simp
  then have "\<forall>x \<in> set us. f x \<le> f a" by (simp add: l sorted_append)
  then have "b \<notin> set us" using assms(3) by auto
  moreover have "b \<in> set ?l" "b \<noteq> a" using assms by auto
  ultimately have "b \<in> set vs" using l by auto
  then obtain ys zs where "vs = ys @ b # zs" using split_list by fastforce
  then show ?thesis using l by (auto simp: comes_before_def)
qed


subsection \<open>An example\<close>

text \<open>The variable \<open>A\<close> references \<open>B\<close>, and \<open>$$(A)\<close> is no reference.\<close>

definition example_set :: env_var_set where
  "example_set = with_value ''A'' ''x$(B)$$(A)'' (with_value ''B'' ''y'' env_var_set_new)"

lemma example_set_eq:
  "example_set = [(''A'', \<lparr>ev_name = ''A'', ev_value = Some ''x$(B)$$(A)'', ev_value_from = None\<rparr>),
     (''B'', \<lparr>ev_name = ''B'', ev_value = Some ''y'', ev_value_from = None\<rparr>)]"
  by (simp add: example_set_def with_value_def env_var_set_new_def less_char_def)

lemma example_names: "env_var_name_from_str ''A'' = Inr ''A''" "env_var_name_from_str ''B'' = Inr ''B''"
  unfolding env_var_name_from_str_def
  by (subst typed_iff; simp add: EnvVarName_def attr_holds_def pattern_matches_def pattern_env_var_name_def Plus_def in_class_def in_range_def usize_bound)+

lemma example_inv: "env_var_set_inv example_set"
  using example_names by (simp add: env_var_set_inv_def example_set_eq btree_inv_def less_char_def)

lemma example_references: "referenced_env_vars example_set ''x$(B)$$(A)'' = [\<lparr>ev_name = ''B'', ev_value = Some ''y'', ev_value_from = None\<rparr>]"
  "referenced_env_vars example_set ''y'' = []"
  using example_names by (simp_all add: referenced_env_vars_def Let_def map_filter_simps example_set_eq btree_get_def)

theorem env_var_set_operations_witness:
  "env_var_set_inv (with_value ''A'' ''z'' example_set) \<and>
   env_var_set_get ''A'' (env_var_set_merge env_var_set_new example_set) = env_var_set_get ''A'' example_set"
proof -
  have "env_var_set_inv env_var_set_new" by (simp add: env_var_set_inv_def env_var_set_new_def btree_inv_def)
  from env_var_set_operations [OF example_inv this example_names(1)]
  have "env_var_set_inv (with_value ''A'' v example_set) \<and>
      (\<forall>k. env_var_set_get k (env_var_set_merge env_var_set_new example_set) =
       (case env_var_set_get k env_var_set_new of Some x \<Rightarrow> Some x | None \<Rightarrow> env_var_set_get k example_set))" for v
    by blast
  then show ?thesis by (simp add: env_var_set_get_def env_var_set_new_def btree_get_def)
qed

lemma example_closure:
  "calculate_closure example_set 10 \<lparr>ev_name = ''A'', ev_value = Some ''x$(B)$$(A)'', ev_value_from = None\<rparr> = Some [''B'']"
  using example_references by (simp add: calculate_closure_def eval_nat_numeral insort_insert_key_def)

theorem closure_exact_witness:
  "ev_name ` {r. (references example_set)\<^sup>+\<^sup>+ \<lparr>ev_name = ''A'', ev_value = Some ''x$(B)$$(A)'', ev_value_from = None\<rparr> r} = {''B''}"
  using closure_exact [OF example_closure] by simp


end
