(* ===== verification/Overrides.thy ===== *)
theory Overrides
  imports Role_Utils Env_Vars
begin

section \<open>Overrides of roles and role groups\<close>

text \<open>
  \<open>config_overrides.rs\<close>, \<open>v2/config_overrides.rs\<close>, \<open>v2/jvm_argument_overrides.rs\<close> and \<open>v2/role_utils.rs\<close>: what a user
  puts on top of the configuration of an operator, at the level of the role and of the role group.
  JSON documents and the crates that patch them are arguments.
\<close>

subsection \<open>Key/value and JSON overrides\<close>

record ('j, 'op, 'e, 'f) json_env =
  merge_patch :: "'j \<Rightarrow> 'j \<Rightarrow> 'j"
  apply_patch :: "'op list \<Rightarrow> 'j \<Rightarrow> 'j \<times> (unit, 'e) result"
  parse_operation :: "string \<Rightarrow> ('op, 'f) result"
  merge_from :: "'j \<Rightarrow> 'j \<Rightarrow> 'j"
  string_object :: "(string \<times> string) list \<Rightarrow> 'j"
  empty_object :: 'j

text \<open>
  \<open>merge_patch doc patch\<close> is \<open>json_patch::merge\<close>, \<open>apply_patch\<close> is \<open>json_patch::patch\<close> with the document it
  leaves behind, \<open>parse_operation\<close> is \<open>serde_json::from_str\<close>, \<open>merge_from doc patch\<close> is \<open>DeepMerge\<close> of a JSON value,
  \<open>string_object\<close> collects pairs of strings into an object and \<open>empty_object\<close> is \<open>json!({})\<close>.
\<close>

datatype ('e, 'f) config_overrides_error = ApplyJsonPatch 'e | DeserializeJsonPatchOperation 'f nat

datatype 'j json_config_overrides = JsonMergePatch 'j | JsonPatches "string list" | UserProvided 'j

definition as_product_config_overrides :: "(string, string) btreemap \<Rightarrow> (string, string option) btreemap" where
  "as_product_config_overrides overrides = btree_collect (map (\<lambda>(k, v). (k, Some v)) overrides)"

fun json_apply ::
    "('j, 'op, 'e, 'f) json_env \<Rightarrow> 'j json_config_overrides \<Rightarrow> 'j \<Rightarrow> ('j, ('e, 'f) config_overrides_error) result" where
  "json_apply env (JsonMergePatch patch) base = Inr (merge_patch env base patch)"
| "json_apply env (JsonPatches patches) base =
     and_then (traverse_list (\<lambda>(index, patch_str). map_err (\<lambda>e. DeserializeJsonPatchOperation e index) (parse_operation env patch_str))
       (enumerate 0 patches)) (\<lambda>operations.
     case apply_patch env operations base of
       (doc, Inr ()) \<Rightarrow> Inr doc
     | (doc, Inl e) \<Rightarrow> Inl (ApplyJsonPatch e))"
| "json_apply env (UserProvided content) base = Inr content"

text \<open>The variants of \<open>v2\<close>, which can be merged.\<close>

definition key_value_merge :: "(string, string) btreemap \<Rightarrow> (string, string) btreemap \<Rightarrow> (string, string) btreemap" where
  "key_value_merge self defaults = btree_extend defaults self"

definition key_value_from :: "(string \<times> string) list \<Rightarrow> (string, string) btreemap" where
  "key_value_from value = btree_collect value"

datatype ('j, 'op) json_overrides =
    MergePatch 'j
  | Patch "'op list"
  | Provided 'j
  | Sequence "('j, 'op) json_overrides list"

text \<open>A patch that cannot be applied is only logged.\<close>

fun json_overrides_apply :: "('j, 'op, 'e, 'f) json_env \<Rightarrow> ('j, 'op) json_overrides \<Rightarrow> 'j \<Rightarrow> 'j" where
  "json_overrides_apply env (MergePatch patch) base = merge_from env base patch"
| "json_overrides_apply env (Patch patch) base = fst (apply_patch env patch base)"
| "json_overrides_apply env (Provided content) base = content"
| "json_overrides_apply env (Sequence sequence) base = fold (json_overrides_apply env) (rev sequence) base"

definition json_overrides_default :: "('j, 'op, 'e, 'f) json_env \<Rightarrow> ('j, 'op) json_overrides" where
  "json_overrides_default env = MergePatch (empty_object env)"

fun json_overrides_merge :: "('j, 'op) json_overrides \<Rightarrow> ('j, 'op) json_overrides \<Rightarrow> ('j, 'op) json_overrides" where
  "json_overrides_merge self defaults =
     (let sequence = (case self of Sequence sequence \<Rightarrow> sequence | _ \<Rightarrow> [self]) in
      Sequence (case defaults of Sequence base \<Rightarrow> sequence @ base | _ \<Rightarrow> sequence @ [defaults]))"

definition json_overrides_from_key_value ::
    "('j, 'op, 'e, 'f) json_env \<Rightarrow> (string, string) btreemap \<Rightarrow> ('j, 'op) json_overrides" where
  "json_overrides_from_key_value env overrides = MergePatch (string_object env overrides)"

datatype ('j, 'op) json_or_key_value = Json "('j, 'op) json_overrides" | KeyValue "(string, string) btreemap"

definition json_or_key_value_default :: "('j, 'op, 'e, 'f) json_env \<Rightarrow> ('j, 'op) json_or_key_value" where
  "json_or_key_value_default env = Json (json_overrides_default env)"

fun json_overrides_from :: "('j, 'op, 'e, 'f) json_env \<Rightarrow> ('j, 'op) json_or_key_value \<Rightarrow> ('j, 'op) json_overrides" where
  "json_overrides_from env (KeyValue overrides) = json_overrides_from_key_value env overrides"
| "json_overrides_from env (Json overrides) = overrides"

definition json_or_key_value_merge ::
    "('j, 'op, 'e, 'f) json_env \<Rightarrow> ('j, 'op) json_or_key_value \<Rightarrow> ('j, 'op) json_or_key_value \<Rightarrow> ('j, 'op) json_or_key_value" where
  "json_or_key_value_merge env self defaults =
     Json (json_overrides_merge (json_overrides_from env self) (json_overrides_from env defaults))"

subsection \<open>JVM arguments\<close>

text \<open>\<open>regex::RegexSet\<close>: its patterns and its \<open>is_match\<close>.\<close>

datatype regex_set = RegexSet (rs_patterns: "string list") (rs_is_match: "string \<Rightarrow> bool")

datatype jvm_overrides =
  JvmOverrides (jo_add: "string list") (jo_remove: "string set") (jo_remove_regex: regex_set) (jo_preceding: "jvm_overrides list")

definition regex_set_default :: regex_set where
  "regex_set_default = RegexSet [] (\<lambda>_. False)"

text \<open>\<open>Deserialize for RegexSet\<close>; \<open>regex_set_new\<close> is \<open>regex::RegexSet::new\<close>.\<close>

definition regex_set_deserialize ::
    "(string list \<Rightarrow> (string \<Rightarrow> bool, 'e) result) \<Rightarrow> string list \<Rightarrow> (regex_set, 'e) result" where
  "regex_set_deserialize regex_set_new regexes =
     (let anchored_regexes = map with_anchors regexes in
      and_then (regex_set_new anchored_regexes) (\<lambda>is_match. Inr (RegexSet anchored_regexes is_match)))"

definition regex_set_serialize :: "regex_set \<Rightarrow> string list" where
  "regex_set_serialize self = rs_patterns self"

definition regex_set_eq :: "regex_set \<Rightarrow> regex_set \<Rightarrow> bool" where
  "regex_set_eq self other \<longleftrightarrow> rs_patterns self = rs_patterns other"

fun jvm_overrides_merge :: "jvm_overrides \<Rightarrow> jvm_overrides \<Rightarrow> jvm_overrides" where
  "jvm_overrides_merge (JvmOverrides add remove remove_regex preceding_overrides) defaults =
     JvmOverrides add remove remove_regex (preceding_overrides @ [defaults])"

fun apply_to :: "jvm_overrides \<Rightarrow> string list \<Rightarrow> string list" where
  "apply_to (JvmOverrides add remove remove_regex preceding_overrides) jvm_arguments =
     filter (\<lambda>arg. \<not> rs_is_match remove_regex arg)
       (filter (\<lambda>arg. arg \<notin> remove) (fold apply_to (rev preceding_overrides) jvm_arguments)) @ add"

subsection \<open>Roles and role groups of v2\<close>

record ('c, 'p, 'o, 't) common_config =
  cmc_config :: 'c
  cmc_config_overrides :: 'o
  cmc_env_overrides :: env_overrides
  cmc_cli_overrides :: "(string, string) btreemap"
  cmc_pod_overrides :: 't
  cmc_product_specific :: 'p

record ('c, 'p, 'o, 't) typed_role_group =
  trg_config :: "('c, 'p, 'o, 't) common_config"
  trg_replicas :: "16 word option"

record ('c, 'p, 'o, 't, 'r) typed_role =
  tr_config :: "('c, 'p, 'o, 't) common_config"
  tr_role_config :: 'r
  tr_role_groups :: "string \<rightharpoonup> ('c, 'p, 'o, 't) typed_role_group"

definition typed_validate_config ::
    "('c \<Rightarrow> 'c \<Rightarrow> 'c) \<Rightarrow> ('c, 'v) from_fragment \<Rightarrow> ('c, 'p, 'o, 't) typed_role_group \<Rightarrow> ('c, 'p, 'o, 't, 'r) typed_role \<Rightarrow> 'c
      \<Rightarrow> ('v, Config_Merge.validation_error) result" where
  "typed_validate_config merge from_fragment self role default_config =
     (let merged_role_config = merge (cmc_config (tr_config role)) default_config;
          rolegroup_config = merge (cmc_config (trg_config self)) merged_role_config
      in validate from_fragment rolegroup_config)"

record ('c, 'p, 'o, 't) role_group_config =
  rgc_replicas :: "16 word option"
  rgc_config :: 'c
  rgc_config_overrides :: 'o
  rgc_env_overrides :: env_var_set
  rgc_cli_overrides :: "(string, string) btreemap"
  rgc_pod_overrides :: 't
  rgc_product_specific :: 'p

definition cli_overrides_to_vec :: "('c, 'p, 'o, 't) role_group_config \<Rightarrow> string list" where
  "cli_overrides_to_vec self = concat (map (\<lambda>(opt, value). [opt, value]) (rgc_cli_overrides self))"

definition merged_config_overrides :: "('o \<Rightarrow> 'o \<Rightarrow> 'o) \<Rightarrow> 'o \<Rightarrow> 'o \<Rightarrow> 'o" where
  "merged_config_overrides merge role_config_overrides role_group_config_overrides =
     chainable_merge merge role_group_config_overrides role_config_overrides"

definition merged_env_overrides :: "env_overrides \<Rightarrow> env_overrides \<Rightarrow> env_overrides" where
  "merged_env_overrides role_env_overrides role_group_env_overrides =
     env_overrides_extend role_env_overrides role_group_env_overrides"

definition merged_cli_overrides :: "(string, string) btreemap \<Rightarrow> (string, string) btreemap \<Rightarrow> (string, string) btreemap" where
  "merged_cli_overrides role_cli_overrides role_group_cli_overrides = btree_extend role_cli_overrides role_group_cli_overrides"

text \<open>\<open>pod_merge_from\<close> is \<open>DeepMerge\<close> of a \<open>PodTemplateSpec\<close>, the second argument on top of the first.\<close>

definition merged_pod_overrides :: "('t \<Rightarrow> 't \<Rightarrow> 't) \<Rightarrow> 't \<Rightarrow> 't \<Rightarrow> 't" where
  "merged_pod_overrides pod_merge_from role_pod_overrides role_group_pod_overrides =
     pod_merge_from role_pod_overrides role_group_pod_overrides"

definition merged_product_specific_common_config :: "('p \<Rightarrow> 'p \<Rightarrow> 'p) \<Rightarrow> 'p \<Rightarrow> 'p \<Rightarrow> 'p" where
  "merged_product_specific_common_config merge role_common_config group_common_config =
     chainable_merge merge group_common_config role_common_config"

definition with_validated_config ::
    "('c \<Rightarrow> 'c \<Rightarrow> 'c) \<Rightarrow> ('c, 'v) from_fragment \<Rightarrow> ('o \<Rightarrow> 'o \<Rightarrow> 'o) \<Rightarrow> ('t \<Rightarrow> 't \<Rightarrow> 't) \<Rightarrow> ('p \<Rightarrow> 'p \<Rightarrow> 'p)
      \<Rightarrow> ('c, 'p, 'o, 't) typed_role_group \<Rightarrow> ('c, 'p, 'o, 't, 'r) typed_role \<Rightarrow> 'c
      \<Rightarrow> (('v, 'p, 'o, 't) typed_role_group, Config_Merge.validation_error) result" where
  "with_validated_config merge from_fragment merge_overrides pod_merge_from merge_common rg role default_config =
     and_then (typed_validate_config merge from_fragment rg role default_config) (\<lambda>validated_config.
     let r = tr_config role; g = trg_config rg in
     Inr \<lparr>trg_config =
            \<lparr>cmc_config = validated_config,
             cmc_config_overrides = merged_config_overrides merge_overrides (cmc_config_overrides r) (cmc_config_overrides g),
             cmc_env_overrides = merged_env_overrides (cmc_env_overrides r) (cmc_env_overrides g),
             cmc_cli_overrides = merged_cli_overrides (cmc_cli_overrides r) (cmc_cli_overrides g),
             cmc_pod_overrides = merged_pod_overrides pod_merge_from (cmc_pod_overrides r) (cmc_pod_overrides g),
             cmc_product_specific =
               merged_product_specific_common_config merge_common (cmc_product_specific r) (cmc_product_specific g)\<rparr>,
          trg_replicas = trg_replicas rg\<rparr>)"

subsection \<open>Overrides act on what they override\<close>

text \<open>
  The contract that merging keeps: applying the merged overrides is applying the defaults first and
  then the overrides on top of the result. Overrides of several levels can then be merged in any
  grouping.
\<close>

locale override_action =
  fixes merge :: "'o \<Rightarrow> 'o \<Rightarrow> 'o" and act :: "'o \<Rightarrow> 'a \<Rightarrow> 'a" and wf :: "'o \<Rightarrow> bool"
  assumes act_merge: "wf self \<Longrightarrow> wf defaults \<Longrightarrow> act (merge self defaults) x = act self (act defaults x)"
    and merge_wf: "wf self \<Longrightarrow> wf defaults \<Longrightarrow> wf (merge self defaults)"
begin

lemma act_merge_list:
  "wf o0 \<Longrightarrow> list_all wf os \<Longrightarrow> wf (fold (\<lambda>lower upper. merge upper lower) os o0) \<and>
   act (fold (\<lambda>lower upper. merge upper lower) os o0) x = act o0 (foldr act os x)"
  by (induction os arbitrary: o0) (simp_all add: act_merge merge_wf)

lemma merge_grouping:
  "wf a \<Longrightarrow> wf b \<Longrightarrow> wf c \<Longrightarrow> act (merge (merge a b) c) x = act (merge a (merge b c)) x"
  by (simp add: act_merge merge_wf)

end

lemma json_overrides_apply_parts:
  "json_overrides_apply env ov = fold (json_overrides_apply env) (rev (case ov of Sequence s \<Rightarrow> s | _ \<Rightarrow> [ov]))"
  by (cases ov) (auto simp: fun_eq_iff)

interpretation json: override_action json_overrides_merge "json_overrides_apply env" "\<lambda>_. True" for env
proof
  fix self defaults :: "('a, 'b) json_overrides" and x
  have "json_overrides_merge self defaults = Sequence
      ((case self of Sequence s \<Rightarrow> s | _ \<Rightarrow> [self]) @ (case defaults of Sequence s \<Rightarrow> s | _ \<Rightarrow> [defaults]))"
    by (cases defaults) simp_all
  then show "json_overrides_apply env (json_overrides_merge self defaults) x =
      json_overrides_apply env self (json_overrides_apply env defaults x)"
    using json_overrides_apply_parts [of env self] json_overrides_apply_parts [of env defaults]
    by (simp del: json_overrides_merge.simps)
qed simp

interpretation json_or_key_value: override_action
  "json_or_key_value_merge env" "\<lambda>ov. json_overrides_apply env (json_overrides_from env ov)" "\<lambda>_. True" for env
  by unfold_locales (simp_all add: json_or_key_value_merge_def json.act_merge del: json_overrides_merge.simps)

interpretation jvm: override_action jvm_overrides_merge apply_to "\<lambda>_. True"
proof
  show "apply_to (jvm_overrides_merge self defaults) x = apply_to self (apply_to defaults x)" for self defaults x
    by (cases self) simp
qed simp

text \<open>Key/value overrides act on the lookup in a configuration file.\<close>

lemma btree_get_extend_map: "btree_inv m \<Longrightarrow> btree_inv n \<Longrightarrow> btree_get (btree_extend m n) = btree_get m ++ btree_get n"
proof
  fix k assume inv: "btree_inv m" "btree_inv n"
  then have "distinct (map fst n)" by (simp add: btree_inv_def strict_sorted_iff)
  then have "map_of (rev n) = map_of n" by (simp add: map_of_inject_set rev_map [symmetric])
  then show "btree_get (btree_extend m n) k = (btree_get m ++ btree_get n) k"
    using inv by (simp add: btree_get_extend map_add_def) (simp add: btree_get_def)
qed

interpretation key_value: override_action key_value_merge "\<lambda>ov m. m ++ btree_get ov" btree_inv
  by unfold_locales (simp_all add: key_value_merge_def btree_get_extend_map)

subsection \<open>Precedence of the levels\<close>


definition demo_common :: "jvm_overrides \<Rightarrow> (unit option, jvm_overrides, (nat, unit) json_overrides, unit) common_config" where
  "demo_common p = \<lparr>cmc_config = None, cmc_config_overrides = Provided 1, cmc_env_overrides = [], cmc_cli_overrides = [],
     cmc_pod_overrides = (), cmc_product_specific = p\<rparr>"


subsection \<open>Both models of JVM overrides agree\<close>

text \<open>
  What the crate \<open>regex\<close> documents of a set: it can be built exactly when each pattern can, and it
  matches what at least one of them matches.
\<close>

definition regex_set_laws ::
    "(string \<Rightarrow> (string \<Rightarrow> bool, 'e) result) \<Rightarrow> (string list \<Rightarrow> (string \<Rightarrow> bool, 'e) result) \<Rightarrow> bool" where
  "regex_set_laws regex_new regex_set_new \<longleftrightarrow>
     (\<forall>ps. (is_ok (regex_set_new ps) \<longleftrightarrow> list_all (\<lambda>p. is_ok (regex_new p)) ps) \<and>
       (\<forall>m s. regex_set_new ps = Inr m \<longrightarrow> (m s \<longleftrightarrow> (\<exists>p \<in> set ps. \<exists>r. regex_new p = Inr r \<and> r s))))"

lemma regex_set_list_ex:
  assumes "regex_set_laws regex_new regex_set_new" "regex_set_new (map with_anchors ps) = Inr m"
    "traverse_list (\<lambda>r. regex_new (with_anchors r)) ps = Inr rs"
  shows "m s \<longleftrightarrow> list_ex (\<lambda>p. p s) rs"
proof -
  have "map (\<lambda>r. regex_new (with_anchors r)) ps = map Inr rs" using assms(3) by (simp add: traverse_list_Inr_iff)
  then have img: "(\<lambda>r. regex_new (with_anchors r)) ` set ps = Inr ` set rs" by (metis set_map)
  then have "regex_new (with_anchors p) \<in> Inr ` set rs" if "p \<in> set ps" for p using that by blast
  moreover have "\<exists>p \<in> set ps. regex_new (with_anchors p) = Inr r" if "r \<in> set rs" for r
    using that img by (metis (no_types, lifting) image_iff)
  ultimately have "(\<exists>p \<in> set ps. \<exists>r. regex_new (with_anchors p) = Inr r \<and> r s) \<longleftrightarrow> (\<exists>r \<in> set rs. r s)" by fastforce
  moreover have "m s \<longleftrightarrow> (\<exists>p \<in> set (map with_anchors ps). \<exists>r. regex_new p = Inr r \<and> r s)"
    using assms(1,2) unfolding regex_set_laws_def by blast
  ultimately show ?thesis by (simp add: list_ex_iff)
qed

text \<open>
  The JVM arguments of both generations of the library agree. When role and role group name the same
  additions and removals in both, and the patterns compile, then \<open>apply_to\<close> of the merged overrides returns
  the arguments that \<open>get_merged_jvm_argument_overrides\<close> gives for the generated ones.
\<close>

theorem jvm_overrides_agree:
  assumes "regex_set_laws regex_new regex_set_new" "role_groups role g = Some rg"
    and "r = cc_product_specific (role_common role)" "q = cc_product_specific (rg_config rg)"
    and "regex_set_deserialize regex_set_new (jvm_remove_regex r) = Inr rr"
    and "regex_set_deserialize regex_set_new (jvm_remove_regex q) = Inr rq"
  shows "\<exists>m. get_merged_jvm_argument_overrides regex_new role g (jvm_new_with_only_additions args) = Inr m \<and>
    effective_jvm_config_after_merging m = Some
      (apply_to (jvm_overrides_merge (JvmOverrides (jvm_add q) (jvm_remove q) rq []) (JvmOverrides (jvm_add r) (jvm_remove r) rr [])) args)"
proof -
  have compiled: "\<exists>rs. traverse_list (\<lambda>r. regex_new (with_anchors r)) ps = Inr rs \<and> (\<forall>s. rs_is_match m s \<longleftrightarrow> list_ex (\<lambda>p. p s) rs)"
    if m: "regex_set_deserialize regex_set_new ps = Inr m" for ps m
  proof -
    obtain n where n: "regex_set_new (map with_anchors ps) = Inr n" "m = RegexSet (map with_anchors ps) n"
      using m by (auto simp: regex_set_deserialize_def Let_def)
    then have "list_all (\<lambda>p. is_ok (regex_new p)) (map with_anchors ps)"
      using assms(1) unfolding regex_set_laws_def by (metis is_ok.simps(2))
    then obtain rs where "traverse_list (\<lambda>r. regex_new (with_anchors r)) ps = Inr rs"
      using traverse_list_ok [of "\<lambda>r. regex_new (with_anchors r)" ps] by (auto simp: list_all_iff is_ok_iff)
    then show ?thesis using regex_set_list_ex [OF assms(1) n(1)] n(2) by auto
  qed
  obtain rs qs where rs: "traverse_list (\<lambda>r. regex_new (with_anchors r)) (jvm_remove_regex r) = Inr rs"
      "\<And>s. rs_is_match rr s \<longleftrightarrow> list_ex (\<lambda>p. p s) rs"
    and qs: "traverse_list (\<lambda>r. regex_new (with_anchors r)) (jvm_remove_regex q) = Inr qs"
      "\<And>s. rs_is_match rq s \<longleftrightarrow> list_ex (\<lambda>p. p s) qs"
    using compiled [OF assms(5)] compiled [OF assms(6)] by auto
  have tr: "traverse_list (\<lambda>r. map_err (\<lambda>e. InvalidRemoveRegex e (with_anchors r)) (regex_new (with_anchors r))) xs = Inr ys"
    if "traverse_list (\<lambda>r. regex_new (with_anchors r)) xs = Inr ys" for xs ys
    using that by (simp add: traverse_list_Inr_iff list_eq_iff_nth_eq)
  show ?thesis
    using tr [OF rs(1)] tr [OF qs(1)] assms(2-4) rs(2) qs(2)
    by (simp add: get_merged_jvm_argument_overrides_def try_merge_def Let_def jvm_new_with_only_additions_def
        effective_jvm_config_after_merging_def ok_or_def)
qed

theorem jvm_overrides_agree_witness:
  "let q = \<lparr>jvm_add = [''-b''], jvm_remove = {}, jvm_remove_regex = [''-a'']\<rparr>;
       r = \<lparr>jvm_add = [''-a''], jvm_remove = {''-x''}, jvm_remove_regex = []\<rparr>;
       rg = \<lparr>rg_config = \<lparr>cc_config = (), cc_overrides = (), cc_product_specific = q\<rparr>, rg_replicas = None\<rparr>;
       role = \<lparr>role_common = \<lparr>cc_config = (), cc_overrides = (), cc_product_specific = r\<rparr>, role_config = (), role_groups = [''g'' \<mapsto> rg]\<rparr>
   in \<exists>m. get_merged_jvm_argument_overrides (\<lambda>p. Inr (\<lambda>a. p = ''^'' @ a @ ''$'') :: (string \<Rightarrow> bool, unit) result)
        role ''g'' (jvm_new_with_only_additions [''-x'', ''-y'']) = Inr m \<and>
      effective_jvm_config_after_merging m = Some [''-y'', ''-b'']"
proof -
  define q where "q = \<lparr>jvm_add = [''-b''], jvm_remove = {}, jvm_remove_regex = [''-a'']\<rparr>"
  define r where "r = \<lparr>jvm_add = [''-a''], jvm_remove = {''-x''}, jvm_remove_regex = []\<rparr>"
  define rg where "rg = \<lparr>rg_config = \<lparr>cc_config = (), cc_overrides = (), cc_product_specific = q\<rparr>, rg_replicas = None\<rparr>"
  define role where "role = \<lparr>role_common = \<lparr>cc_config = (), cc_overrides = (), cc_product_specific = r\<rparr>, role_config = (), role_groups = [''g'' \<mapsto> rg]\<rparr>"
  define one where "one = (\<lambda>p. Inr (\<lambda>a. p = ''^'' @ a @ ''$'') :: (string \<Rightarrow> bool, unit) result)"
  define many where "many = (\<lambda>ps. Inr (\<lambda>a. ''^'' @ a @ ''$'' \<in> set ps) :: (string \<Rightarrow> bool, unit) result)"
  have laws: "regex_set_laws one many" by (auto simp: regex_set_laws_def one_def many_def list_all_iff)
  have "\<exists>m. get_merged_jvm_argument_overrides one role ''g'' (jvm_new_with_only_additions [''-x'', ''-y'']) = Inr m \<and>
      effective_jvm_config_after_merging m = Some
      (apply_to (jvm_overrides_merge
         (JvmOverrides (jvm_add q) (jvm_remove q) (RegexSet [''^-a$''] (\<lambda>a. ''^'' @ a @ ''$'' \<in> set [''^-a$''])) [])
         (JvmOverrides (jvm_add r) (jvm_remove r) (RegexSet [] (\<lambda>a. ''^'' @ a @ ''$'' \<in> set [])) [])) [''-x'', ''-y''])"
    by (rule jvm_overrides_agree [OF laws, where rg = rg])
      (simp_all add: role_def rg_def r_def q_def regex_set_deserialize_def many_def with_anchors_def trim_start_matches_def trim_end_matches_def)
  then show ?thesis unfolding one_def by (simp add: Let_def role_def rg_def q_def r_def)
qed

end
