(* ===== verification/Writers.thy ===== *)
theory Writers
  imports Rust_Str
begin

section \<open>Writers of configuration files\<close>

text \<open>
  \<open>v2/config_file_writer.rs\<close> writes Java properties and Hadoop XML, \<open>v2/flask_config_writer.rs\<close> Python
  configurations for Flask. The crates \<open>java_properties\<close> and \<open>xml\<close> and the \<open>io::Write\<close> that is written to
  are arguments.
\<close>

subsection \<open>Properties and Hadoop XML\<close>

text \<open>\<open>String::from_utf8\<close>: the well-formed byte sequences.\<close>

definition byte_in :: "nat \<Rightarrow> nat \<Rightarrow> char \<Rightarrow> bool" where
  "byte_in a b c \<longleftrightarrow> a \<le> of_char c \<and> of_char c \<le> b"

fun valid_utf8 :: "string \<Rightarrow> bool" where
  "valid_utf8 [] \<longleftrightarrow> True"
| "valid_utf8 (a # s) \<longleftrightarrow>
     (if byte_in 0 127 a then valid_utf8 s
      else case s of
        b # s2 \<Rightarrow>
          if byte_in 0xC2 0xDF a then byte_in 0x80 0xBF b \<and> valid_utf8 s2
          else (case s2 of
            c # s3 \<Rightarrow>
              if byte_in 0xE0 0xEF a then
                byte_in (if byte_in 0xE0 0xE0 a then 0xA0 else 0x80) (if byte_in 0xED 0xED a then 0x9F else 0xBF) b \<and>
                byte_in 0x80 0xBF c \<and> valid_utf8 s3
              else (case s3 of
                d # s4 \<Rightarrow>
                  byte_in 0xF0 0xF4 a \<and>
                  byte_in (if byte_in 0xF0 0xF0 a then 0x90 else 0x80) (if byte_in 0xF4 0xF4 a then 0x8F else 0xBF) b \<and>
                  byte_in 0x80 0xBF c \<and> byte_in 0x80 0xBF d \<and> valid_utf8 s4
              | [] \<Rightarrow> False)
          | [] \<Rightarrow> False)
      | [] \<Rightarrow> False)"

datatype 'e properties_writer_error = Properties 'e | FromUtf8

text \<open>
  \<open>PropertiesWriter\<close>: \<open>pw_write\<close> and \<open>pw_flush\<close> append to the bytes written so far.
\<close>

record 'e properties_writer =
  pw_write :: "string \<Rightarrow> string \<times> string \<Rightarrow> (string, 'e) result"
  pw_flush :: "string \<Rightarrow> (string, 'e) result"

fun write_java_properties ::
    "'e properties_writer \<Rightarrow> string \<Rightarrow> (string \<times> string) list \<Rightarrow> (string, 'e properties_writer_error) result" where
  "write_java_properties pw writer [] = map_err Properties (pw_flush pw writer)"
| "write_java_properties pw writer (kv # properties) =
     and_then (map_err Properties (pw_write pw writer kv)) (\<lambda>writer. write_java_properties pw writer properties)"

definition to_java_properties_string ::
    "'e properties_writer \<Rightarrow> (string \<times> string) list \<Rightarrow> (string, 'e properties_writer_error) result" where
  "to_java_properties_string pw properties =
     and_then (write_java_properties pw [] properties) (\<lambda>output.
     if valid_utf8 output then Inr output else Inl FromUtf8)"

definition newline :: string where
  "newline = [CHR 0x0A]"

definition dquote :: string where
  "dquote = [CHR 0x22]"

definition hadoop_property :: "(string \<Rightarrow> string) \<Rightarrow> string \<times> string \<Rightarrow> string" where
  "hadoop_property escape_str_attribute kv =
     ''  <property>'' @ newline @ ''    <name>'' @ escape_str_attribute (fst kv) @ ''</name>'' @ newline @ ''    <value>'' @
     escape_str_attribute (snd kv) @ ''</value>'' @ newline @ ''  </property>'' @ newline"

definition to_hadoop_xml :: "(string \<Rightarrow> string) \<Rightarrow> (string \<times> string) list \<Rightarrow> string" where
  "to_hadoop_xml escape_str_attribute properties =
     (let snippet = concat (map (hadoop_property escape_str_attribute) properties) in
      ''<?xml version='' @ dquote @ ''1.0'' @ dquote @ ''?>'' @ newline @ ''<configuration>'' @ newline @ snippet @ ''</configuration>'')"

subsection \<open>Flask\<close>

text \<open>\<open>str::parse::<bool>\<close> and \<open>str::parse::<i64>\<close>\<close>

definition parse_bool :: "string \<Rightarrow> bool option" where
  "parse_bool s = (if s = ''true'' then Some True else if s = ''false'' then Some False else None)"

datatype parse_int_error = IntEmpty | IntInvalidDigit | IntPosOverflow | IntNegOverflow

definition in_i64 :: "int \<Rightarrow> bool" where
  "in_i64 i \<longleftrightarrow> - (2 ^ 63) \<le> i \<and> i < 2 ^ 63"

fun parse_i64_digits :: "bool \<Rightarrow> int \<Rightarrow> string \<Rightarrow> (int, parse_int_error) result" where
  "parse_i64_digits neg acc [] = Inr acc"
| "parse_i64_digits neg acc (c # s) =
     (if \<not> is_digit c then Inl IntInvalidDigit
      else if \<not> in_i64 (acc * 10) then Inl (if neg then IntNegOverflow else IntPosOverflow)
      else let acc = (if neg then acc * 10 - int (digit_val c) else acc * 10 + int (digit_val c)) in
           if \<not> in_i64 acc then Inl (if neg then IntNegOverflow else IntPosOverflow) else parse_i64_digits neg acc s)"

definition parse_i64 :: "string \<Rightarrow> (int, parse_int_error) result" where
  "parse_i64 s =
     (case s of
        [] \<Rightarrow> Inl IntEmpty
      | c # t \<Rightarrow>
          if t = [] \<and> (c = CHR ''+'' \<or> c = CHR ''-'') then Inl IntInvalidDigit
          else if c = CHR ''-'' then parse_i64_digits True 0 t
          else if c = CHR ''+'' then parse_i64_digits False 0 t
          else parse_i64_digits False 0 s)"

definition show_int :: "int \<Rightarrow> string" where
  "show_int i = (if i < 0 then ''-'' @ show_nat (nat (- i)) else show_nat (nat i))"

text \<open>\<open>str::escape_default\<close> of an ASCII string\<close>

definition hex_char :: "nat \<Rightarrow> char" where
  "hex_char d = (if d < 10 then char_of (48 + d) else char_of (87 + d))"

fun show_hex :: "nat \<Rightarrow> string" where
  "show_hex n = (if n < 16 then [hex_char n] else show_hex (n div 16) @ [hex_char (n mod 16)])"

declare show_hex.simps [simp del]

definition escape_default_char :: "char \<Rightarrow> string" where
  "escape_default_char c =
     (if c = CHR 0x09 then [CHR 0x5C, CHR ''t'']
      else if c = CHR 0x0D then [CHR 0x5C, CHR ''r'']
      else if c = CHR 0x0A then [CHR 0x5C, CHR ''n'']
      else if c = CHR 0x27 \<or> c = CHR 0x22 \<or> c = CHR 0x5C then [CHR 0x5C, c]
      else if byte_in 0x20 0x7E c then [c]
      else [CHR 0x5C] @ ''u{'' @ show_hex (of_char c) @ ''}'')"

definition escape_default :: "string \<Rightarrow> string" where
  "escape_default s = concat (map escape_default_char s)"

datatype 'io flask_error =
    ConvertIdentifier string
  | ConvertBoolLiteral string
  | ConvertIntLiteral string parse_int_error
  | ConvertStringLiteral string
  | ConvertExpression string
  | WriteConfig 'io

datatype python_type = Identifier | BoolLiteral | IntLiteral | StringLiteral | ExpressionType

definition convert_to_python_identifier :: "string \<Rightarrow> (string, 'io flask_error) result" where
  "convert_to_python_identifier value =
     (if list_all (\<lambda>c. is_alpha c \<or> is_digit c \<or> c = CHR ''_'') value \<and> value \<noteq> [] \<and> \<not> is_digit (hd value)
      then Inr value else Inl (ConvertIdentifier value))"

definition convert_to_python_bool_literal :: "string \<Rightarrow> (string, 'io flask_error) result" where
  "convert_to_python_bool_literal value =
     (case parse_bool value of
        Some b \<Rightarrow> Inr (if b then ''True'' else ''False'')
      | None \<Rightarrow> Inl (ConvertBoolLiteral value))"

definition convert_to_python_int_literal :: "string \<Rightarrow> (string, 'io flask_error) result" where
  "convert_to_python_int_literal value =
     and_then (map_err (ConvertIntLiteral value) (parse_i64 value)) (\<lambda>i. Inr (show_int i))"

definition convert_to_python_string_literal :: "string \<Rightarrow> (string, 'io flask_error) result" where
  "convert_to_python_string_literal value =
     (if is_ascii value then Inr (dquote @ escape_default value @ dquote) else Inl (ConvertStringLiteral value))"

definition convert_to_python_expression :: "string \<Rightarrow> (string, 'io flask_error) result" where
  "convert_to_python_expression value = (if trim value = [] then Inl (ConvertExpression value) else Inr value)"

fun convert_to_python :: "python_type \<Rightarrow> string \<Rightarrow> (string, 'io flask_error) result" where
  "convert_to_python Identifier value = convert_to_python_identifier value"
| "convert_to_python BoolLiteral value = convert_to_python_bool_literal value"
| "convert_to_python IntLiteral value = convert_to_python_int_literal value"
| "convert_to_python StringLiteral value = convert_to_python_string_literal value"
| "convert_to_python ExpressionType value = convert_to_python_expression value"

text \<open>
  \<open>write\<close>: \<open>writeln\<close> is the writer, with the state of what it writes to, and \<open>python_type_of\<close> the options
  of the product, \<^const>\<open>None\<close> where \<open>O::from_str\<close> fails.
\<close>

fun write_lines :: "('w \<Rightarrow> string \<Rightarrow> 'w \<times> (unit, 'io) result) \<Rightarrow> 'w \<Rightarrow> string list \<Rightarrow> 'w \<times> (unit, 'io flask_error) result" where
  "write_lines writeln writer [] = (writer, Inr ())"
| "write_lines writeln writer (line # lines) =
     (case writeln writer line of
        (writer, Inl e) \<Rightarrow> (writer, Inl (WriteConfig e))
      | (writer, Inr _) \<Rightarrow> write_lines writeln writer lines)"

fun write_properties ::
    "('w \<Rightarrow> string \<Rightarrow> 'w \<times> (unit, 'io) result) \<Rightarrow> (string \<Rightarrow> python_type option) \<Rightarrow> 'w \<Rightarrow> (string \<times> string) list
      \<Rightarrow> 'w \<times> (unit, 'io flask_error) result" where
  "write_properties writeln python_type_of writer [] = (writer, Inr ())"
| "write_properties writeln python_type_of writer ((name, value) # properties) =
     (case and_then (convert_to_python Identifier name) (\<lambda>variable.
           and_then (convert_to_python (case python_type_of name of Some t \<Rightarrow> t | None \<Rightarrow> ExpressionType) value) (\<lambda>content.
           Inr (variable @ '' = '' @ content))) of
        Inl e \<Rightarrow> (writer, Inl e)
      | Inr line \<Rightarrow>
          (case writeln writer line of
             (writer, Inl e) \<Rightarrow> (writer, Inl (WriteConfig e))
           | (writer, Inr _) \<Rightarrow> write_properties writeln python_type_of writer properties))"

definition flask_write ::
    "('w \<Rightarrow> string \<Rightarrow> 'w \<times> (unit, 'io) result) \<Rightarrow> (string \<Rightarrow> python_type option) \<Rightarrow> 'w \<Rightarrow> (string \<times> string) list \<Rightarrow> string list
      \<Rightarrow> 'w \<times> (unit, 'io flask_error) result" where
  "flask_write writeln python_type_of writer properties imports =
     (case write_lines writeln writer (imports @ [[]]) of
        (writer, Inl e) \<Rightarrow> (writer, Inl e)
      | (writer, Inr _) \<Rightarrow> write_properties writeln python_type_of writer properties)"

subsection \<open>Hadoop XML determines the properties\<close>

lemma split_at_lt:
  "CHR ''<'' \<notin> set a \<Longrightarrow> CHR ''<'' \<notin> set b \<Longrightarrow> a @ CHR ''<'' # x = b @ CHR ''<'' # y \<longleftrightarrow> a = b \<and> x = y"
proof (induction a arbitrary: b)
  case Nil
  then show ?case by (cases b) auto
next
  case (Cons c a)
  then show ?case by (cases b) auto
qed

lemma hadoop_property_inject:
  assumes "\<And>s. CHR ''<'' \<notin> set (escape s)" "inj escape"
  shows "hadoop_property escape kv @ x = hadoop_property escape kv' @ y \<longleftrightarrow> kv = kv' \<and> x = y"
proof -
  have "hadoop_property escape kv @ x = hadoop_property escape kv' @ y \<longleftrightarrow>
      escape (fst kv) = escape (fst kv') \<and> escape (snd kv) = escape (snd kv') \<and> x = y"
    by (simp add: hadoop_property_def split_at_lt assms(1))
  also have "\<dots> \<longleftrightarrow> kv = kv' \<and> x = y" using injD [OF assms(2)] by (cases kv; cases kv') auto
  finally show ?thesis .
qed

text \<open>
  C37: A Hadoop XML file determines the properties it was written from, with their order, whenever the
  escaping of the crate \<open>xml\<close> is injective and leaves no \<open><\<close>: no name or value can end its element or forge
  another property.
\<close>

theorem hadoop_xml_injective:
  assumes "\<And>s. CHR ''<'' \<notin> set (escape s)" "inj escape"
  shows "to_hadoop_xml escape ps = to_hadoop_xml escape qs \<longleftrightarrow> ps = qs"
proof -
  have "concat (map (hadoop_property escape) ps) @ ''</configuration>'' = concat (map (hadoop_property escape) qs) @ ''</configuration>''
      \<Longrightarrow> ps = qs"
  proof (induction ps arbitrary: qs)
    case Nil
    then show ?case by (cases qs) (simp_all add: hadoop_property_def)
  next
    case (Cons p ps)
    then obtain q qs' where qs: "qs = q # qs'" by (cases qs) (simp_all add: hadoop_property_def)
    then show ?case using Cons by (simp add: hadoop_property_inject [OF assms] del: append_Cons)
  qed
  then show ?thesis by (auto simp: to_hadoop_xml_def Let_def)
qed

theorem hadoop_xml_injective_witness:
  "let escape = (\<lambda>s. concat (map (\<lambda>c. if c = CHR ''<'' then ''&l'' else if c = CHR ''&'' then ''&a'' else [c]) s)) in
   to_hadoop_xml escape [(''a'', ''</value>'')] \<noteq> to_hadoop_xml escape [(''a'', []), ([], ''</value>'')]"
proof -
  define esc where "esc = (\<lambda>c. if c = CHR ''<'' then ''&l'' else if c = CHR ''&'' then ''&a'' else [c])"
  have esc: "esc c @ x = esc d @ y \<longleftrightarrow> c = d \<and> x = y" "esc c \<noteq> []" for c d x y by (auto simp: esc_def)
  have "concat (map esc s) = concat (map esc t) \<Longrightarrow> s = t" for s t
  proof (induction s arbitrary: t)
    case Nil
    then show ?case using esc(2) by (cases t) auto
  next
    case (Cons c s)
    then obtain d t' where "t = d # t'" using esc(2) by (cases t) auto
    then show ?case using Cons by (simp add: esc(1))
  qed
  then have "inj (\<lambda>s. concat (map esc s))" by (rule injI)
  moreover have "CHR ''<'' \<notin> set (concat (map esc s))" for s by (auto simp: esc_def split: if_splits)
  ultimately show ?thesis using hadoop_xml_injective [of "\<lambda>s. concat (map esc s)"] by (simp add: Let_def esc_def)
qed

subsection \<open>Python literals\<close>

text \<open>
  Reading a Python string literal in double quotes, as far as the writer can produce it: the escapes
  of single characters, and \<open>\u\<close>, which Python wants to be followed by exactly four hexadecimal digits.
\<close>

definition is_hex :: "char \<Rightarrow> bool" where
  "is_hex c \<longleftrightarrow> is_digit c \<or> in_range (CHR ''a'') (CHR ''f'') c \<or> in_range (CHR ''A'') (CHR ''F'') c"

definition hex_val :: "char \<Rightarrow> nat" where
  "hex_val c = (if is_digit c then of_char c - 48 else if in_range (CHR ''a'') (CHR ''f'') c then of_char c - 87 else of_char c - 55)"

fun read_python_string :: "string \<Rightarrow> string option" where
  "read_python_string [] = None"
| "read_python_string (c # s) =
     (if c = CHR 0x22 then (if s = [] then Some [] else None)
      else if c = CHR 0x0A \<or> c = CHR 0x0D then None
      else if c = CHR 0x5C then
        (case s of
           [] \<Rightarrow> None
         | e # t \<Rightarrow>
             if e = CHR ''t'' then map_option (Cons (CHR 0x09)) (read_python_string t)
             else if e = CHR ''r'' then map_option (Cons (CHR 0x0D)) (read_python_string t)
             else if e = CHR ''n'' then map_option (Cons (CHR 0x0A)) (read_python_string t)
             else if e = CHR 0x27 \<or> e = CHR 0x22 \<or> e = CHR 0x5C then map_option (Cons e) (read_python_string t)
             else if e = CHR ''u'' then
               (case t of
                  h1 # h2 # h3 # h4 # r \<Rightarrow>
                    let n = ((hex_val h1 * 16 + hex_val h2) * 16 + hex_val h3) * 16 + hex_val h4 in
                    if list_all is_hex [h1, h2, h3, h4] \<and> n < 128 then map_option (Cons (char_of n)) (read_python_string r)
                    else None
                | _ \<Rightarrow> None)
             else None)
      else map_option (Cons c) (read_python_string s))"

definition python_string_value :: "string \<Rightarrow> string option" where
  "python_string_value literal = (case literal of q # s \<Rightarrow> if q = CHR 0x22 then read_python_string s else None | [] \<Rightarrow> None)"

text \<open>The characters that \<open>escape_default\<close> does not write as \<open>\u{...}\<close>.\<close>

definition plain_char :: "char \<Rightarrow> bool" where
  "plain_char c \<longleftrightarrow> byte_in 0x20 0x7E c \<or> c \<in> {CHR 0x09, CHR 0x0A, CHR 0x0D}"

lemma not_plain_special: "\<not> byte_in 0x20 0x7E (CHR 0x0A)" "\<not> byte_in 0x20 0x7E (CHR 0x0D)" "byte_in 0x20 0x7E (CHR 0x22)"
  "byte_in 0x20 0x7E (CHR 0x27)" "byte_in 0x20 0x7E (CHR 0x5C)"
  by (simp_all add: byte_in_def)

lemma read_escaped_char:
  "read_python_string (escape_default_char c @ s) =
     (if plain_char c then map_option (Cons c) (read_python_string s) else None)"
proof (cases "byte_in 0x20 0x7E c \<or> c \<in> {CHR 0x09, CHR 0x0A, CHR 0x0D}")
  case True
  then show ?thesis using not_plain_special by (auto simp: escape_default_char_def plain_char_def)
next
  case False
  then have c: "escape_default_char c = [CHR 0x5C] @ ''u{'' @ show_hex (of_char c) @ ''}''"
    using not_plain_special by (auto simp: escape_default_char_def)
  have "\<not> is_hex (CHR ''{'')" by (simp add: is_hex_def class_defs)
  then show ?thesis using False by (auto simp: c plain_char_def split: list.splits)
qed

lemma read_escaped: "read_python_string (escape_default s @ dquote) = (if list_all plain_char s then Some s else None)"
  by (induction s) (simp_all add: escape_default_def read_escaped_char dquote_def)

text \<open>
  A string literal is written for every ASCII string. Python reads it as the string exactly when the
  string has no control characters but tab, carriage return and line feed; for every other one the
  literal has an escape \<open>\u{...}\<close>, which Python does not accept.
\<close>

theorem python_string_literal:
  "(convert_to_python StringLiteral value :: (string, 'io flask_error) result) =
     (if is_ascii value then Inr (dquote @ escape_default value @ dquote) else Inl (ConvertStringLiteral value)) \<and>
   python_string_value (dquote @ escape_default value @ dquote) = (if list_all plain_char value then Some value else None)"
  using read_escaped [of "value"] by (simp add: convert_to_python_string_literal_def python_string_value_def) (simp add: dquote_def)

lemma parse_i64_pos:
  assumes "list_all is_digit s" "digits_val n s < 2 ^ 63"
  shows "parse_i64_digits False (int n) s = Inr (int (digits_val n s))"
  using assms
proof (induction s arbitrary: n)
  case (Cons c s)
  have "n * 10 + digit_val c \<le> digits_val (n * 10 + digit_val c) s" by (rule digits_val_ge)
  then have "n * 10 + digit_val c < 2 ^ 63" using Cons.prems by simp
  then have "in_i64 (int n * 10)" "in_i64 (int n * 10 + int (digit_val c))" by (simp_all add: in_i64_def)
  moreover have "parse_i64_digits False (int (n * 10 + digit_val c)) s = Inr (int (digits_val (n * 10 + digit_val c) s))"
    by (rule Cons.IH) (use Cons.prems in simp_all)
  ultimately show ?case using Cons.prems by simp
qed simp

lemma parse_i64_neg:
  assumes "list_all is_digit s" "digits_val n s \<le> 2 ^ 63"
  shows "parse_i64_digits True (- int n) s = Inr (- int (digits_val n s))"
  using assms
proof (induction s arbitrary: n)
  case (Cons c s)
  have "n * 10 + digit_val c \<le> digits_val (n * 10 + digit_val c) s" by (rule digits_val_ge)
  then have "n * 10 + digit_val c \<le> 2 ^ 63" using Cons.prems by simp
  then have "in_i64 (- int n * 10)" "in_i64 (- int n * 10 - int (digit_val c))" by (simp_all add: in_i64_def)
  moreover have "parse_i64_digits True (- int (n * 10 + digit_val c)) s = Inr (- int (digits_val (n * 10 + digit_val c) s))"
    by (rule Cons.IH) (use Cons.prems in simp_all)
  moreover have "- int (n * 10 + digit_val c) = - int n * 10 - int (digit_val c)" by simp
  ultimately have "parse_i64_digits True (- int n * 10 - int (digit_val c)) s = Inr (- int (digits_val (n * 10 + digit_val c) s))"
    "in_i64 (- int n * 10)" "in_i64 (- int n * 10 - int (digit_val c))" by metis+
  then show ?case using Cons.prems by simp
qed simp

interpretation i64: display_from_str in_i64 show_int parse_i64
proof
  fix i assume i: "in_i64 i"
  show "parse_i64 (show_int i) = Inr i"
  proof (cases "i < 0")
    case True
    then have "parse_i64_digits True 0 (show_nat (nat (- i))) = Inr i"
      using parse_i64_neg [of "show_nat (nat (- i))" 0] i by (simp add: in_i64_def)
    then show ?thesis using True by (simp add: show_int_def parse_i64_def)
  next
    case False
    then have p: "parse_i64_digits False 0 (show_nat (nat i)) = Inr i"
      using parse_i64_pos [of "show_nat (nat i)" 0] i by (simp add: in_i64_def nat_less_iff)
    obtain c t where ct: "show_nat (nat i) = c # t" using show_nat_not_Nil by (metis list.exhaust)
    then have "is_digit c" using show_nat_digits [of c "nat i"] by simp
    then have "c \<noteq> CHR ''+''" "c \<noteq> CHR ''-''" by (auto simp: class_defs)
    then show ?thesis using False p ct by (simp add: show_int_def parse_i64_def)
  qed
qed

subsection \<open>Written files\<close>

lemma show_hex_chars: "c \<in> set (show_hex n) \<Longrightarrow> is_hex c"
proof (induction n rule: show_hex.induct)
  case (1 n)
  have hex: "is_hex (hex_char d)" if "d < 16" for d
  proof -
    have "(of_char (hex_char d) :: nat) = (if d < 10 then 48 + d else 87 + d)" using that by (simp add: hex_char_def)
    then show ?thesis using that by (simp add: is_hex_def is_digit_def in_range_def)
  qed
  show ?case using 1 hex [of n] hex [of "n mod 16"] by (subst (asm) show_hex.simps) (auto split: if_splits)
qed

lemma escape_chars:
  assumes "c \<in> set (escape_default s)"
  shows "c \<in> set s \<or> c = CHR 0x5C \<or> is_alpha c \<or> is_digit c \<or> c = CHR ''{'' \<or> c = CHR ''}''"
proof -
  obtain d where d: "d \<in> set s" "c \<in> set (escape_default_char d)" using assms by (auto simp: escape_default_def)
  have "is_hex x \<Longrightarrow> is_alpha x \<or> is_digit x" for x
    by (auto simp: is_hex_def is_alpha_def is_lower_def is_upper_def in_range_def)
  moreover have "is_alpha (CHR ''t'')" "is_alpha (CHR ''r'')" "is_alpha (CHR ''n'')" "is_alpha (CHR ''u'')" by (simp_all add: class_defs)
  ultimately show ?thesis using d show_hex_chars [of c "of_char d"]
    by (auto simp: escape_default_char_def split: if_splits)
qed

lemma escape_no_newline: "CHR 0x0A \<notin> set (escape_default s)"
proof -
  have "\<not> is_hex (CHR 0x0A)" by (simp add: is_hex_def class_defs)
  then have "CHR 0x0A \<notin> set (escape_default_char c)" for c
    using show_hex_chars [of "CHR 0x0A" "of_char c"] not_plain_special by (auto simp: escape_default_char_def)
  then show ?thesis by (auto simp: escape_default_def)
qed

lemma literal_no_newline:
  assumes "convert_to_python t v = Inr content" "t \<noteq> ExpressionType"
  shows "CHR 0x0A \<notin> set content"
proof (cases t)
  case Identifier
  then have "list_all (\<lambda>c. is_alpha c \<or> is_digit c \<or> c = CHR ''_'') content"
    using assms by (auto simp: convert_to_python_identifier_def split: if_splits)
  then show ?thesis by (auto simp: list_all_iff class_defs dest!: bspec)
next
  case IntLiteral
  then obtain i where "content = show_int i" using assms by (auto simp: convert_to_python_int_literal_def)
  then show ?thesis by (auto simp: show_int_def class_defs dest!: show_nat_digits)
next
  case StringLiteral
  then show ?thesis using assms escape_no_newline
    by (auto simp: convert_to_python_string_literal_def dquote_def split: if_splits)
qed (use assms in \<open>auto simp: convert_to_python_bool_literal_def parse_bool_def split: if_splits\<close>)

text \<open>A writer to memory, which never fails.\<close>

definition append_line :: "string \<Rightarrow> string \<Rightarrow> string \<times> (unit, 'io) result" where
  "append_line w line = (w @ line @ newline, Inr ())"

lemma write_lines_append: "write_lines append_line w lines = (w @ concat (map (\<lambda>l. l @ newline) lines), Inr ())"
  by (induction lines arbitrary: w) (simp_all add: append_line_def)

definition flask_line :: "(string \<Rightarrow> python_type option) \<Rightarrow> string \<times> string \<Rightarrow> (string, 'io flask_error) result" where
  "flask_line types kv =
     and_then (convert_to_python Identifier (fst kv)) (\<lambda>variable.
     and_then (convert_to_python (case types (fst kv) of Some t \<Rightarrow> t | None \<Rightarrow> ExpressionType) (snd kv)) (\<lambda>content.
     Inr (variable @ '' = '' @ content)))"

lemma write_properties_append:
  "case write_properties append_line types w ps of
     (out, Inr _) \<Rightarrow> \<exists>lines. traverse_list (flask_line types :: _ \<Rightarrow> (string, 'io flask_error) result) ps = Inr lines \<and>
        out = w @ concat (map (\<lambda>l. l @ newline) lines)
   | (out, Inl (e :: 'io flask_error)) \<Rightarrow> traverse_list (flask_line types) ps = Inl e"
proof (induction ps arbitrary: w)
  case (Cons p ps)
  obtain n v where p: "p = (n, v)" by (cases p)
  show ?case
  proof (cases "flask_line types (n, v) :: (string, 'io flask_error) result")
    case (Inl e)
    then show ?thesis using p by (simp add: flask_line_def)
  next
    case (Inr line)
    then have step: "(write_properties append_line types w (p # ps) :: _ \<times> (unit, 'io flask_error) result) =
        write_properties append_line types (w @ line @ newline) ps"
      using p unfolding flask_line_def by (auto simp: append_line_def)
    show ?thesis
    proof (cases "write_properties append_line types (w @ line @ newline) ps :: _ \<times> (unit, 'io flask_error) result")
      case (Pair out r)
      then show ?thesis using Cons [of "w @ line @ newline"] Inr p unfolding step by (cases r) auto
    qed
  qed
qed simp

text \<open>
  A Flask configuration written to memory: it fails exactly with the error of the first property
  whose name is no identifier or whose value does not convert to the type of its option; an unknown
  option is an expression. Otherwise the file has the imports, an empty line and one assignment per
  property, in order, and only expressions can continue on another line.
\<close>

theorem flask_written:
  "case flask_write append_line types w ps import_lines of
     (out, Inr _) \<Rightarrow> \<exists>lines. traverse_list (flask_line types :: _ \<Rightarrow> (string, 'io flask_error) result) ps = Inr lines \<and>
        length lines = length ps \<and> out = w @ concat (map (\<lambda>l. l @ newline) (import_lines @ [[]] @ lines)) \<and>
        list_all2 (\<lambda>(n, v) line. types n \<in> {None, Some ExpressionType} \<or> CHR 0x0A \<notin> set line) ps lines
   | (out, Inl (e :: 'io flask_error)) \<Rightarrow> traverse_list (flask_line types) ps = Inl e"
proof -
  let ?w = "w @ concat (map (\<lambda>l. l @ newline) (import_lines @ [[]]))"
  have start: "(flask_write append_line types w ps import_lines :: _ \<times> (unit, 'io flask_error) result) = write_properties append_line types ?w ps"
    by (simp add: flask_write_def write_lines_append)
  have line: "CHR 0x0A \<notin> set line" if l: "flask_line types (n, v) = (Inr line :: (string, 'io flask_error) result)"
    and t: "types n \<notin> {None, Some ExpressionType}" for n v line
  proof -
    obtain ty variable content where ty: "types n = Some ty" "ty \<noteq> ExpressionType" using t by auto
    obtain content where "convert_to_python Identifier n = (Inr n :: (string, 'io flask_error) result)"
      "convert_to_python ty v = (Inr content :: (string, 'io flask_error) result)" "line = n @ '' = '' @ content"
      using l ty by (auto simp: flask_line_def convert_to_python_identifier_def split: if_splits)
    then show ?thesis using literal_no_newline [of Identifier n n] literal_no_newline [of ty v content] ty by auto
  qed
  show ?thesis
  proof (cases "write_properties append_line types ?w ps :: _ \<times> (unit, 'io flask_error) result")
    case (Pair out r)
    show ?thesis
    proof (cases r)
      case (Inl e)
      then show ?thesis using write_properties_append [where types = types and w = ?w and ps = ps and 'io = 'io] Pair start by simp
    next
      case (Inr u)
      obtain lines where lines: "traverse_list (flask_line types :: _ \<Rightarrow> (string, 'io flask_error) result) ps = Inr lines"
        "out = ?w @ concat (map (\<lambda>l. l @ newline) lines)"
        using write_properties_append [where types = types and w = ?w and ps = ps and 'io = 'io] Pair Inr by auto
      then have m: "map (flask_line types) ps = map (Inr :: _ \<Rightarrow> (string, 'io flask_error) result) lines"
        by (simp add: traverse_list_Inr_iff)
      then have len: "length lines = length ps" by (metis length_map)
      have "case ps ! i of (n, v) \<Rightarrow> types n \<in> {None, Some ExpressionType} \<or> CHR 0x0A \<notin> set (lines ! i)" if "i < length ps" for i
      proof (cases "ps ! i")
        case (Pair n v)
        moreover have "flask_line types (ps ! i) = (Inr (lines ! i) :: (string, 'io flask_error) result)"
          using m that len by (metis nth_map)
        ultimately show ?thesis using line [of n v "lines ! i"] by auto
      qed
      then have "list_all2 (\<lambda>(n, v) line. types n \<in> {None, Some ExpressionType} \<or> CHR 0x0A \<notin> set line) ps lines"
        unfolding list_all2_conv_all_nth using len by (simp add: case_prod_beta)
      then show ?thesis using lines len Pair Inr start by simp
    qed
  qed
qed

theorem flask_written_witness:
  "\<exists>lines. snd (flask_write append_line [''A'' \<mapsto> BoolLiteral] [] [(''A'', ''true''), (''B'', ''f(x)'')] [] :: _ \<times> (unit, unit flask_error) result) = Inr () \<and>
     list_all2 (\<lambda>(n, v) line. [''A'' \<mapsto> BoolLiteral] n \<in> {None, Some ExpressionType} \<or> CHR 0x0A \<notin> set line)
       [(''A'', ''true''), (''B'', ''f(x)'')] lines"
proof -
  have "snd (flask_write append_line [''A'' \<mapsto> BoolLiteral] [] [(''A'', ''true''), (''B'', ''f(x)'')] [] :: _ \<times> (unit, unit flask_error) result) = Inr ()"
    by code_simp
  then show ?thesis
    using flask_written [where types = "[''A'' \<mapsto> BoolLiteral]" and w = "[]" and ps = "[(''A'', ''true''), (''B'', ''f(x)'')]"
      and import_lines = "[]" and 'io = unit]
    by (auto split: prod.splits sum.splits)
qed

end
