(* ===== verification/Log_Spec.thy ===== *)
theory Log_Spec
  imports Config_Merge
begin

section \<open>Logging configuration\<close>

text \<open>
  \<open>product_logging/spec.rs\<close>: the log levels with their literals, the configuration of the containers
  and its fragments, with the \<open>Merge\<close> and \<open>FromFragment\<close> that are written out or derived. The enumeration
  \<open>T\<close> of the containers is a type with an order, its \<open>Display\<close> and the list of its values.
\<close>

subsection \<open>Levels\<close>

datatype log_level = TRACE | DEBUG | INFO | WARN | ERROR | FATAL | NONE

fun level_rank :: "log_level \<Rightarrow> nat" where
  "level_rank TRACE = 0"
| "level_rank DEBUG = 1"
| "level_rank INFO = 2"
| "level_rank WARN = 3"
| "level_rank ERROR = 4"
| "level_rank FATAL = 5"
| "level_rank NONE = 6"

instantiation log_level :: linorder
begin

definition less_eq_log_level :: "log_level \<Rightarrow> log_level \<Rightarrow> bool" where
  "less_eq_log_level a b \<longleftrightarrow> level_rank a \<le> level_rank b"

definition less_log_level :: "log_level \<Rightarrow> log_level \<Rightarrow> bool" where
  "less_log_level a b \<longleftrightarrow> level_rank a < level_rank b"

instance
proof
  fix a b :: log_level
  show "a \<le> b \<Longrightarrow> b \<le> a \<Longrightarrow> a = b" by (cases a; cases b) (simp_all add: less_eq_log_level_def)
qed (auto simp: less_eq_log_level_def less_log_level_def)

end

lemmas level_ord_defs = less_eq_log_level_def less_log_level_def

definition log_level_default :: log_level where
  "log_level_default = INFO"

fun to_vector_literal :: "log_level \<Rightarrow> string" where
  "to_vector_literal TRACE = ''trace''"
| "to_vector_literal DEBUG = ''debug''"
| "to_vector_literal INFO = ''info''"
| "to_vector_literal WARN = ''warn''"
| "to_vector_literal ERROR = ''error''"
| "to_vector_literal FATAL = ''error''"
| "to_vector_literal NONE = ''off''"

fun to_logback_literal :: "log_level \<Rightarrow> string" where
  "to_logback_literal TRACE = ''TRACE''"
| "to_logback_literal DEBUG = ''DEBUG''"
| "to_logback_literal INFO = ''INFO''"
| "to_logback_literal WARN = ''WARN''"
| "to_logback_literal ERROR = ''ERROR''"
| "to_logback_literal FATAL = ''ERROR''"
| "to_logback_literal NONE = ''OFF''"

fun to_log4j_literal :: "log_level \<Rightarrow> string" where
  "to_log4j_literal TRACE = ''TRACE''"
| "to_log4j_literal DEBUG = ''DEBUG''"
| "to_log4j_literal INFO = ''INFO''"
| "to_log4j_literal WARN = ''WARN''"
| "to_log4j_literal ERROR = ''ERROR''"
| "to_log4j_literal FATAL = ''FATAL''"
| "to_log4j_literal NONE = ''OFF''"

definition to_log4j2_literal :: "log_level \<Rightarrow> string" where
  "to_log4j2_literal self = to_log4j_literal self"

fun to_opa_literal :: "log_level \<Rightarrow> string" where
  "to_opa_literal TRACE = ''debug''"
| "to_opa_literal DEBUG = ''debug''"
| "to_opa_literal INFO = ''info''"
| "to_opa_literal WARN = ''error''"
| "to_opa_literal ERROR = ''error''"
| "to_opa_literal FATAL = ''error''"
| "to_opa_literal NONE = ''error''"

fun to_python_expression :: "log_level \<Rightarrow> string" where
  "to_python_expression TRACE = ''logging.DEBUG''"
| "to_python_expression DEBUG = ''logging.DEBUG''"
| "to_python_expression INFO = ''logging.INFO''"
| "to_python_expression WARN = ''logging.WARNING''"
| "to_python_expression ERROR = ''logging.ERROR''"
| "to_python_expression FATAL = ''logging.CRITICAL''"
| "to_python_expression NONE = ''logging.CRITICAL + 1''"

subsection \<open>Configuration\<close>

record logger_config =
  lc_level :: log_level

record appender_config =
  ac_level :: "log_level option"

record automatic_log_config =
  al_loggers :: "(string, logger_config) btreemap"
  al_console :: "appender_config option"
  al_file :: "appender_config option"

record config_map_log_config =
  cml_config_map :: string

record custom_log_config =
  cl_custom :: config_map_log_config

datatype log_config_choice = Custom custom_log_config | Automatic automatic_log_config

record container_log_config =
  clc_choice :: "log_config_choice option"

record 't logging =
  enable_vector_agent :: bool
  log_containers :: "('t, container_log_config) btreemap"

text \<open>\<open>unwrap_or_default\<close> of a missing container gives the derived default.\<close>

definition for_container :: "'t logging \<Rightarrow> 't \<Rightarrow> container_log_config" where
  "for_container self container =
     (case btree_get (log_containers self) container of Some c \<Rightarrow> c | None \<Rightarrow> \<lparr>clc_choice = None\<rparr>)"

definition ROOT_LOGGER :: string where
  "ROOT_LOGGER = ''ROOT''"

definition root_log_level :: "automatic_log_config \<Rightarrow> log_level" where
  "root_log_level self =
     (case map_option lc_level (btree_get (al_loggers self) ROOT_LOGGER) of Some l \<Rightarrow> l | None \<Rightarrow> log_level_default)"

subsection \<open>Fragments\<close>

text \<open>The fragment of \<open>AppenderConfig\<close> has the fields of \<open>AppenderConfig\<close>.\<close>

record logger_fragment =
  lf_level :: "log_level option"

record automatic_fragment =
  af_loggers :: "(string, logger_fragment) btreemap"
  af_console :: "appender_config option"
  af_file :: "appender_config option"

record config_map_log_fragment =
  cmf_config_map :: "string option"

record custom_fragment =
  cf_custom :: config_map_log_fragment

datatype choice_fragment = CustomFragment custom_fragment | AutomaticFragment automatic_fragment

record container_fragment =
  clf_choice :: "choice_fragment option"

record 't logging_fragment =
  lgf_enable_vector_agent :: "bool option"
  lgf_containers :: "('t, container_fragment) btreemap"

definition logger_merge :: "logger_fragment \<Rightarrow> logger_fragment \<Rightarrow> logger_fragment" where
  "logger_merge self defaults = \<lparr>lf_level = option_merge (lf_level self) (lf_level defaults)\<rparr>"

definition appender_merge :: "appender_config \<Rightarrow> appender_config \<Rightarrow> appender_config" where
  "appender_merge self defaults = \<lparr>ac_level = option_merge (ac_level self) (ac_level defaults)\<rparr>"

fun appender_option_merge :: "appender_config option \<Rightarrow> appender_config option \<Rightarrow> appender_config option" where
  "appender_option_merge (Some console) (Some defaults_console) = Some (appender_merge console defaults_console)"
| "appender_option_merge (Some console) None = Some console"
| "appender_option_merge None defaults_console = defaults_console"

definition automatic_merge :: "automatic_fragment \<Rightarrow> automatic_fragment \<Rightarrow> automatic_fragment" where
  "automatic_merge self defaults =
     \<lparr>af_loggers = btree_merge logger_merge (af_loggers self) (af_loggers defaults),
      af_console = appender_option_merge (af_console self) (af_console defaults),
      af_file = appender_option_merge (af_file self) (af_file defaults)\<rparr>"

definition config_map_log_merge :: "config_map_log_fragment \<Rightarrow> config_map_log_fragment \<Rightarrow> config_map_log_fragment" where
  "config_map_log_merge self defaults = \<lparr>cmf_config_map = option_merge (cmf_config_map self) (cmf_config_map defaults)\<rparr>"

definition custom_merge :: "custom_fragment \<Rightarrow> custom_fragment \<Rightarrow> custom_fragment" where
  "custom_merge self defaults = \<lparr>cf_custom = config_map_log_merge (cf_custom self) (cf_custom defaults)\<rparr>"

text \<open>What \<open>derive(Merge)\<close> gives for an enumeration.\<close>

fun choice_merge :: "choice_fragment option \<Rightarrow> choice_fragment option \<Rightarrow> choice_fragment option" where
  "choice_merge (Some (CustomFragment self)) (Some (CustomFragment defaults)) = Some (CustomFragment (custom_merge self defaults))"
| "choice_merge (Some (AutomaticFragment self)) (Some (AutomaticFragment defaults)) =
     Some (AutomaticFragment (automatic_merge self defaults))"
| "choice_merge None defaults = defaults"
| "choice_merge (Some self) _ = Some self"

definition container_merge :: "container_fragment \<Rightarrow> container_fragment \<Rightarrow> container_fragment" where
  "container_merge self defaults = \<lparr>clf_choice = choice_merge (clf_choice self) (clf_choice defaults)\<rparr>"

definition logging_merge :: "'t::linorder logging_fragment \<Rightarrow> 't logging_fragment \<Rightarrow> 't logging_fragment" where
  "logging_merge self defaults =
     \<lparr>lgf_enable_vector_agent = option_merge (lgf_enable_vector_agent self) (lgf_enable_vector_agent defaults),
      lgf_containers = btree_merge container_merge (lgf_containers self) (lgf_containers defaults)\<rparr>"

definition logger_from_fragment :: "(logger_fragment, logger_config) from_fragment" where
  "logger_from_fragment fragment validator =
     and_then (atomic_from_fragment (lf_level fragment) (validator_field validator ''level'')) (\<lambda>level.
     Inr \<lparr>lc_level = level\<rparr>)"

definition appender_from_fragment :: "(appender_config, appender_config) from_fragment" where
  "appender_from_fragment fragment validator =
     and_then (optional_from_fragment (ac_level fragment) (validator_field validator ''level'')) (\<lambda>level.
     Inr \<lparr>ac_level = level\<rparr>)"

definition automatic_from_fragment :: "(automatic_fragment, automatic_log_config) from_fragment" where
  "automatic_from_fragment fragment validator =
     and_then (map_from_fragment id id logger_from_fragment (af_loggers fragment) (validator_field validator ''loggers'')) (\<lambda>loggers.
     and_then (option_from_fragment id appender_from_fragment (af_console fragment) (validator_field validator ''console'')) (\<lambda>console.
     and_then (option_from_fragment id appender_from_fragment (af_file fragment) (validator_field validator ''file'')) (\<lambda>file.
     Inr \<lparr>al_loggers = loggers, al_console = console, al_file = file\<rparr>)))"

definition config_map_log_from_fragment :: "(config_map_log_fragment, config_map_log_config) from_fragment" where
  "config_map_log_from_fragment fragment validator =
     and_then (atomic_from_fragment (cmf_config_map fragment) (validator_field validator ''config_map'')) (\<lambda>config_map.
     Inr \<lparr>cml_config_map = config_map\<rparr>)"

definition custom_from_fragment :: "(custom_fragment, custom_log_config) from_fragment" where
  "custom_from_fragment fragment validator =
     and_then (config_map_log_from_fragment (cf_custom fragment) (validator_field validator ''custom'')) (\<lambda>custom.
     Inr \<lparr>cl_custom = custom\<rparr>)"

fun choice_from_fragment :: "(choice_fragment, log_config_choice) from_fragment" where
  "choice_from_fragment (CustomFragment fragment) validator =
     and_then (custom_from_fragment fragment validator) (\<lambda>custom. Inr (Custom custom))"
| "choice_from_fragment (AutomaticFragment fragment) validator =
     and_then (automatic_from_fragment fragment validator) (\<lambda>automatic. Inr (Automatic automatic))"

definition container_from_fragment :: "(container_fragment, container_log_config) from_fragment" where
  "container_from_fragment fragment validator =
     and_then (option_from_fragment id choice_from_fragment (clf_choice fragment) (validator_field validator ''choice'')) (\<lambda>choice.
     Inr \<lparr>clc_choice = choice\<rparr>)"

definition logging_from_fragment :: "('t::linorder \<Rightarrow> string) \<Rightarrow> ('t logging_fragment, 't logging) from_fragment" where
  "logging_from_fragment display fragment validator =
     and_then (atomic_from_fragment (lgf_enable_vector_agent fragment) (validator_field validator ''enable_vector_agent'')) (\<lambda>enable.
     and_then (map_from_fragment display id container_from_fragment (lgf_containers fragment) (validator_field validator ''containers''))
       (\<lambda>containers. Inr \<lparr>enable_vector_agent = enable, log_containers = containers\<rparr>))"

subsection \<open>Defaults\<close>

definition default_container_log_config :: container_fragment where
  "default_container_log_config =
     \<lparr>clf_choice = Some (AutomaticFragment
        \<lparr>af_loggers = [(ROOT_LOGGER, \<lparr>lf_level = Some INFO\<rparr>)],
         af_console = Some \<lparr>ac_level = Some INFO\<rparr>,
         af_file = Some \<lparr>ac_level = Some INFO\<rparr>\<rparr>)\<rparr>"

text \<open>\<open>containers\<close> is \<open>T::iter()\<close>.\<close>

definition default_logging :: "'t::linorder list \<Rightarrow> 't logging_fragment" where
  "default_logging containers =
     \<lparr>lgf_enable_vector_agent = Some False,
      lgf_containers = btree_collect (map (\<lambda>container. (container, default_container_log_config)) containers)\<rparr>"

subsection \<open>The levels that come out of merging\<close>

interpretation logger: merge_laws "\<lambda>_. True" logger_merge
  by unfold_locales (simp_all add: logger_merge_def option.merge_assoc option.merge_idem)

interpretation appender: merge_laws "\<lambda>_. True" appender_merge
  by unfold_locales (simp_all add: appender_merge_def option.merge_assoc option.merge_idem)

lemma appender_option_merge_eq: "appender_option_merge = appender.merge_values"
proof (intro ext)
  show "appender_option_merge a b = appender.merge_values a b" for a b by (cases a; cases b) simp_all
qed

text \<open>The settings of one level of the configuration.\<close>

fun fragment_level :: "string \<Rightarrow> choice_fragment option \<Rightarrow> log_level option" where
  "fragment_level n (Some (AutomaticFragment a)) = Option.bind (btree_get (af_loggers a) n) lf_level"
| "fragment_level n _ = None"

fun fragment_console :: "choice_fragment option \<Rightarrow> log_level option" where
  "fragment_console (Some (AutomaticFragment a)) = Option.bind (af_console a) ac_level"
| "fragment_console _ = None"

fun fragment_file :: "choice_fragment option \<Rightarrow> log_level option" where
  "fragment_file (Some (AutomaticFragment a)) = Option.bind (af_file a) ac_level"
| "fragment_file _ = None"

fun fragment_custom :: "choice_fragment option \<Rightarrow> string option" where
  "fragment_custom (Some (CustomFragment c)) = cmf_config_map (cf_custom c)"
| "fragment_custom _ = None"

fun is_custom :: "choice_fragment option \<Rightarrow> bool" where
  "is_custom (Some (CustomFragment c)) \<longleftrightarrow> True"
| "is_custom _ \<longleftrightarrow> False"

fun choice_inv :: "choice_fragment option \<Rightarrow> bool" where
  "choice_inv (Some (AutomaticFragment a)) \<longleftrightarrow> btree_inv (af_loggers a)"
| "choice_inv _ \<longleftrightarrow> True"

lemma choice_cases:
  fixes x :: "choice_fragment option"
  obtains (custom) c where "x = Some (CustomFragment c)" | (none) "x = None" | (automatic) a where "x = Some (AutomaticFragment a)"
  by (metis choice_fragment.exhaust not_None_eq)

lemma choice_merge_None [simp]: "choice_merge a None = a"
  by (cases a rule: choice_cases) simp_all

lemma choice_merge_inv: "choice_inv a \<Longrightarrow> choice_inv b \<Longrightarrow> choice_inv (choice_merge a b)"
  by (induction a b rule: choice_merge.induct) (simp_all add: automatic_merge_def logger.get_btree_merge)

lemma choice_merge_automatic:
  assumes "choice_inv a" "choice_inv b" "\<not> is_custom a" "\<not> is_custom b"
  shows "\<not> is_custom (choice_merge a b) \<and>
    fragment_level n (choice_merge a b) = option_merge (fragment_level n a) (fragment_level n b) \<and>
    fragment_console (choice_merge a b) = option_merge (fragment_console a) (fragment_console b) \<and>
    fragment_file (choice_merge a b) = option_merge (fragment_file a) (fragment_file b)"
proof -
  have bind: "Option.bind (appender_option_merge x y) ac_level = option_merge (Option.bind x ac_level) (Option.bind y ac_level)" for x y
    by (cases x; cases y) (simp_all add: appender_merge_def option_merge_def)
  show ?thesis
  proof (cases a rule: choice_cases)
    case (custom c)
    then show ?thesis using assms by simp
  next
    case none
    then show ?thesis using assms by (simp add: option_merge_def)
  next
    case (automatic x)
    show ?thesis
    proof (cases b rule: choice_cases)
      case (custom c)
      then show ?thesis using assms by simp
    next
      case none
      then show ?thesis using automatic by (simp add: option_merge_def)
    next
      case b: (automatic y)
      have "btree_get (btree_merge logger_merge (af_loggers x) (af_loggers y)) n =
          logger.merge_values (btree_get (af_loggers x) n) (btree_get (af_loggers y) n)"
        using assms automatic b by (simp add: logger.get_btree_merge)
      moreover have "Option.bind (logger.merge_values u v) lf_level = option_merge (Option.bind u lf_level) (Option.bind v lf_level)" for u v
        by (cases u; cases v) (simp_all add: logger_merge_def option_merge_def)
      ultimately show ?thesis using automatic b by (simp add: automatic_merge_def bind)
    qed
  qed
qed

lemma choice_merge_custom:
  "is_custom a \<Longrightarrow> is_custom (choice_merge a b) \<and> fragment_custom (choice_merge a b) = option_merge (fragment_custom a) (fragment_custom b)"
  by (cases a rule: choice_cases; cases b rule: choice_cases)
    (simp_all add: custom_merge_def config_map_log_merge_def option_merge_def)

subsection \<open>Validated configurations\<close>

lemma map_from_fragment_get:
  assumes "map_from_fragment d i ff m v = Inr m'" "btree_inv m"
  shows "btree_inv m' \<and> (case btree_get m k of
      None \<Rightarrow> btree_get m' k = None
    | Some x \<Rightarrow> \<exists>t. ff (i x) (validator_field v (d k)) = Inr t \<and> btree_get m' k = Some t)"
proof -
  let ?f = "\<lambda>(k, x). and_then (ff (i x) (validator_field v (d k))) (\<lambda>t. Inr (k, t))"
  obtain es where es: "traverse_list ?f m = Inr es" "m' = btree_collect es"
    using assms(1) by (auto simp: map_from_fragment_def)
  have e: "map ?f m = map Inr es" using es(1) by (simp add: traverse_list_Inr_iff)
  have len: "length es = length m" using arg_cong [OF e, of length] by simp
  have nth: "\<exists>t. ff (i (snd (m ! j))) (validator_field v (d (fst (m ! j)))) = Inr t \<and> es ! j = (fst (m ! j), t)" if "j < length m" for j
  proof -
    have "?f (m ! j) = Inr (es ! j)" using arg_cong [OF e, of "\<lambda>l. l ! j"] that len by simp
    then show ?thesis by (auto split: prod.splits)
  qed
  have keys: "map fst es = map fst m"
  proof (rule nth_equalityI)
    show "map fst es ! j = map fst m ! j" if "j < length (map fst es)" for j using nth [of j] that len by auto
  qed (simp add: len)
  have inv: "btree_inv es" using assms(2) keys by (simp add: btree_inv_def)
  then have m': "m' = es" by (simp add: es(2) btree_collect_id)
  show ?thesis
  proof (cases "btree_get m k")
    case None
    then have "k \<notin> fst ` set m" by (simp add: btree_get_def map_of_eq_None_iff)
    then have "k \<notin> fst ` set es" using keys by (metis list.set_map)
    then have "btree_get es k = None" by (simp add: btree_get_def map_of_eq_None_iff)
    then show ?thesis using None inv m' by simp
  next
    case (Some x)
    then obtain j where j: "j < length m" "m ! j = (k, x)" using assms(2) by (metis btree_get_iff in_set_conv_nth)
    then obtain t where t: "ff (i x) (validator_field v (d k)) = Inr t" "es ! j = (k, t)" using nth [OF j(1)] by auto
    then have "(k, t) \<in> set es" using j(1) len by (metis nth_mem)
    then show ?thesis using Some t inv m' by (auto simp: btree_get_iff)
  qed
qed

lemma is_ok_traverse: "is_ok (traverse_list f xs) \<longleftrightarrow> (\<forall>x \<in> set xs. is_ok (f x))"
  by (induction xs) (auto simp: is_ok_iff)

lemma is_ok_map: "is_ok (and_then r (\<lambda>x. Inr (g x))) \<longleftrightarrow> is_ok r"
  by (cases r) simp_all

lemma map_from_fragment_ok:
  assumes "btree_inv m"
  shows "is_ok (map_from_fragment d i ff m v) \<longleftrightarrow>
   (\<forall>k x. btree_get m k = Some x \<longrightarrow> is_ok (ff (i x) (validator_field v (d k))))"
proof -
  have "is_ok (map_from_fragment d i ff m v) \<longleftrightarrow> (\<forall>(k, x) \<in> set m. is_ok (ff (i x) (validator_field v (d k))))"
    by (simp add: map_from_fragment_def is_ok_map is_ok_traverse case_prod_beta)
  then show ?thesis using btree_get_iff [OF assms] by auto
qed

definition logging_inv :: "'t::linorder logging_fragment \<Rightarrow> bool" where
  "logging_inv f \<longleftrightarrow> btree_inv (lgf_containers f) \<and> list_all (\<lambda>(_, c). choice_inv (clf_choice c)) (lgf_containers f)"

text \<open>What a level of the configuration says about a container.\<close>

definition container_choice :: "'t logging_fragment \<Rightarrow> 't \<Rightarrow> choice_fragment option" where
  "container_choice f k = Option.bind (btree_get (lgf_containers f) k) clf_choice"

text \<open>The lookup in a merged map, for values that need not obey the laws.\<close>

lemma get_btree_merge_any:
  assumes "btree_inv m" "btree_inv n"
  shows "btree_inv (btree_merge f m n) \<and>
    btree_get (btree_merge f m n) k =
      (case btree_get n k of None \<Rightarrow> btree_get m k | Some w \<Rightarrow> Some (case btree_get m k of Some v \<Rightarrow> f v w | None \<Rightarrow> w))"
proof -
  have "btree_inv (btree_merge_entries f m xs) \<and> btree_get (btree_merge_entries f m xs) k =
      (case map_of xs k of None \<Rightarrow> btree_get m k | Some w \<Rightarrow> Some (case btree_get m k of Some v \<Rightarrow> f v w | None \<Rightarrow> w))"
    if "distinct (map fst xs)" for xs
    using that assms(1)
  proof (induction xs arbitrary: m)
    case (Cons x xs)
    obtain l w where x: "x = (l, w)" by (cases x)
    define m' where "m' = (case btree_get m l of Some v \<Rightarrow> btree_insert l (f v w) m | None \<Rightarrow> btree_insert l w m)"
    have inv: "btree_inv m'" using Cons.prems(2) by (cases "btree_get m l") (simp_all add: m'_def)
    have get: "btree_get m' k = (if k = l then Some (case btree_get m l of Some v \<Rightarrow> f v w | None \<Rightarrow> w) else btree_get m k)"
      using Cons.prems(2) by (cases "btree_get m l") (simp_all add: m'_def)
    have "map_of xs l = None" using Cons.prems(1) x by (simp add: map_of_eq_None_iff)
    moreover have "btree_merge_entries f m (x # xs) = btree_merge_entries f m' xs" by (simp add: x m'_def)
    ultimately show ?case using Cons.IH [of m'] Cons.prems(1) inv x get
      by (cases "k = l"; cases "map_of xs k") simp_all
  qed simp
  then show ?thesis using btree.distinct_keys [OF assms(2)] by (simp add: btree_merge_def btree_get_def)
qed

lemma container_choice_merge:
  assumes "logging_inv a" "logging_inv b"
  shows "container_choice (logging_merge a b) k = choice_merge (container_choice a k) (container_choice b k)"
  using assms get_btree_merge_any [of "lgf_containers a" "lgf_containers b" container_merge k]
  by (auto simp: logging_inv_def container_choice_def logging_merge_def container_merge_def split: option.splits)

lemma container_choice_inv:
  assumes "logging_inv a" shows "choice_inv (container_choice a k)"
proof (cases "btree_get (lgf_containers a) k")
  case (Some c)
  then have "(k, c) \<in> set (lgf_containers a)" using assms by (simp add: logging_inv_def btree_get_iff)
  then show ?thesis using assms Some by (auto simp: logging_inv_def container_choice_def list_all_iff)
qed (simp add: container_choice_def)

lemma logging_inv_merge:
  assumes "logging_inv a" "logging_inv b"
  shows "logging_inv (logging_merge a b)"
proof -
  have inv: "btree_inv (lgf_containers (logging_merge a b))"
    using assms get_btree_merge_any [of "lgf_containers a" "lgf_containers b" container_merge] by (simp add: logging_inv_def logging_merge_def)
  have "choice_inv (clf_choice c)" if "(k, c) \<in> set (lgf_containers (logging_merge a b))" for k c
  proof -
    have "btree_get (lgf_containers (logging_merge a b)) k = Some c" using that inv by (simp add: btree_get_iff)
    then have "clf_choice c = container_choice (logging_merge a b) k" by (simp add: container_choice_def)
    then show ?thesis
      using container_choice_merge [OF assms] choice_merge_inv container_choice_inv [OF assms(1)] container_choice_inv [OF assms(2)] by simp
  qed
  then show ?thesis using inv by (auto simp: logging_inv_def list_all_iff)
qed

lemma logging_validated:
  assumes "validate (logging_from_fragment display) f = Inr L" "logging_inv f"
  shows "case container_choice f k of
      None \<Rightarrow> clc_choice (for_container L k) = None
    | Some ch \<Rightarrow> \<exists>v t. choice_from_fragment ch v = Inr t \<and> clc_choice (for_container L k) = Some t"
proof -
  obtain cs v where cs: "map_from_fragment display id container_from_fragment (lgf_containers f) v = Inr cs" "log_containers L = cs"
    using assms(1) by (auto simp: validate_def logging_from_fragment_def)
  have "btree_inv (lgf_containers f)" using assms(2) by (simp add: logging_inv_def)
  note get = map_from_fragment_get [OF cs(1) this, of k]
  show ?thesis
  proof (cases "btree_get (lgf_containers f) k")
    case None
    then show ?thesis using get cs(2) by (simp add: for_container_def container_choice_def)
  next
    case (Some c)
    then obtain t w where t: "container_from_fragment c w = Inr t" "btree_get cs k = Some t" using get by auto
    then show ?thesis using Some cs(2)
      by (auto simp: for_container_def container_choice_def container_from_fragment_def option_from_fragment_def split: option.splits)
  qed
qed

lemma automatic_validated:
  assumes "automatic_from_fragment a v = Inr x" "btree_inv (af_loggers a)"
  shows "map_option lc_level (btree_get (al_loggers x) n) = Option.bind (btree_get (af_loggers a) n) lf_level"
    and "al_console x = af_console a" "al_file x = af_file a"
proof -
  obtain ls w where ls: "map_from_fragment id id logger_from_fragment (af_loggers a) w = Inr ls" "al_loggers x = ls"
    using assms(1) by (auto simp: automatic_from_fragment_def)
  show "map_option lc_level (btree_get (al_loggers x) n) = Option.bind (btree_get (af_loggers a) n) lf_level"
    using map_from_fragment_get [OF ls(1) assms(2), of n] ls(2)
    by (auto simp: logger_from_fragment_def atomic_from_fragment_def split: option.splits)
  have app: "option_from_fragment id appender_from_fragment p u = Inr p" for p u
    by (cases p) (simp_all add: option_from_fragment_def appender_from_fragment_def)
  show "al_console x = af_console a" "al_file x = af_file a" using assms(1) by (auto simp: automatic_from_fragment_def app)
qed

text \<open>The first of three levels of configuration that says something.\<close>

abbreviation first_set :: "'a option \<Rightarrow> 'a option \<Rightarrow> 'a option \<Rightarrow> 'a option" where
  "first_set x y z \<equiv> option_merge x (option_merge y z)"


definition demo_group :: "nat logging_fragment" where
  "demo_group = \<lparr>lgf_enable_vector_agent = Some True, lgf_containers =
     [(0, \<lparr>clf_choice = Some (AutomaticFragment \<lparr>af_loggers = [(''a.b'', \<lparr>lf_level = Some DEBUG\<rparr>)], af_console = None, af_file = None\<rparr>)\<rparr>),
      (1, \<lparr>clf_choice = Some (CustomFragment \<lparr>cf_custom = \<lparr>cmf_config_map = Some ''my-logs''\<rparr>\<rparr>)\<rparr>)]\<rparr>"

definition demo_role :: "nat logging_fragment" where
  "demo_role = \<lparr>lgf_enable_vector_agent = None, lgf_containers =
     [(0, \<lparr>clf_choice = Some (AutomaticFragment
        \<lparr>af_loggers = [(''ROOT'', \<lparr>lf_level = Some WARN\<rparr>), (''a.b'', \<lparr>lf_level = Some ERROR\<rparr>)],
         af_console = Some \<lparr>ac_level = Some FATAL\<rparr>, af_file = None\<rparr>)\<rparr>)]\<rparr>"

lemma demo_logging_inv: "logging_inv demo_group" "logging_inv demo_role" "logging_inv (default_logging [0, 1 :: nat])"
  by (simp_all add: logging_inv_def demo_group_def demo_role_def default_logging_def default_container_log_config_def btree_inv_def
      btree_collect_def btree_extend_def less_char_def)


subsection \<open>Which configurations are valid\<close>

fun choice_complete :: "choice_fragment \<Rightarrow> bool" where
  "choice_complete (CustomFragment c) \<longleftrightarrow> cmf_config_map (cf_custom c) \<noteq> None"
| "choice_complete (AutomaticFragment a) \<longleftrightarrow> list_all (\<lambda>(_, l). lf_level l \<noteq> None) (af_loggers a)"

lemma choice_complete_automatic:
  "btree_inv (af_loggers a) \<Longrightarrow> choice_complete (AutomaticFragment a) \<longleftrightarrow> (\<forall>n l. btree_get (af_loggers a) n = Some l \<longrightarrow> lf_level l \<noteq> None)"
  by (auto simp: list_all_iff btree_get_iff)

lemma choice_from_fragment_ok: "choice_inv (Some ch) \<Longrightarrow> is_ok (choice_from_fragment ch v) \<longleftrightarrow> choice_complete ch"
proof (cases ch)
  case (CustomFragment c)
  then show ?thesis
    by (cases "cmf_config_map (cf_custom c)") (simp_all add: custom_from_fragment_def config_map_log_from_fragment_def atomic_from_fragment_def)
next
  case (AutomaticFragment a)
  assume "choice_inv (Some ch)"
  then have inv: "btree_inv (af_loggers a)" using AutomaticFragment by simp
  have app: "option_from_fragment id appender_from_fragment p u = Inr p" for p u
    by (cases p) (simp_all add: option_from_fragment_def appender_from_fragment_def)
  have "is_ok (logger_from_fragment l u) \<longleftrightarrow> lf_level l \<noteq> None" for l u
    by (cases "lf_level l") (simp_all add: logger_from_fragment_def atomic_from_fragment_def)
  then show ?thesis using AutomaticFragment
    by (simp add: automatic_from_fragment_def app is_ok_map map_from_fragment_ok [OF inv] choice_complete_automatic [OF inv] del: choice_complete.simps)
qed

lemma container_from_fragment_ok:
  "choice_inv (clf_choice c) \<Longrightarrow> is_ok (container_from_fragment c v) \<longleftrightarrow> pred_option choice_complete (clf_choice c)"
  by (cases "clf_choice c") (simp_all add: container_from_fragment_def option_from_fragment_def is_ok_map choice_from_fragment_ok)

lemma logging_ok:
  assumes "logging_inv f"
  shows "is_ok (validate (logging_from_fragment display) f) \<longleftrightarrow>
    lgf_enable_vector_agent f \<noteq> None \<and> (\<forall>k. pred_option choice_complete (container_choice f k))"
proof -
  have inv: "btree_inv (lgf_containers f)" using assms by (simp add: logging_inv_def)
  have "choice_inv (clf_choice c)" if "btree_get (lgf_containers f) k = Some c" for k c
    using container_choice_inv [OF assms, of k] that by (simp add: container_choice_def)
  moreover have "pred_option choice_complete (container_choice f k) \<longleftrightarrow>
      (\<forall>c. btree_get (lgf_containers f) k = Some c \<longrightarrow> pred_option choice_complete (clf_choice c))" for k
    by (cases "btree_get (lgf_containers f) k") (simp_all add: container_choice_def)
  ultimately have c: "(\<forall>k c. btree_get (lgf_containers f) k = Some c \<longrightarrow> is_ok (container_from_fragment c (validator_field v (display k)))) \<longleftrightarrow>
      (\<forall>k. pred_option choice_complete (container_choice f k))" for v
    using container_from_fragment_ok by blast
  show ?thesis
    by (cases "lgf_enable_vector_agent f")
      (simp_all add: validate_def logging_from_fragment_def atomic_from_fragment_def is_ok_map map_from_fragment_ok [OF inv] c)
qed

lemma default_choice:
  "container_choice (default_logging cs) k = (if k \<in> set cs then clf_choice default_container_log_config else None)"
proof -
  have "map_of (rev (map (\<lambda>c. (c, d)) cs)) k = (if k \<in> set cs then Some d else None)" for d :: container_fragment
    by (induction cs) (auto simp: map_add_def split: option.splits)
  then show ?thesis by (simp add: container_choice_def default_logging_def btree_get_collect)
qed

lemma logging_inv_default: "logging_inv (default_logging cs)"
proof -
  have "btree_inv (lgf_containers (default_logging cs))" by (simp add: default_logging_def)
  moreover have "snd x = default_container_log_config" if "x \<in> set (lgf_containers (default_logging cs))" for x
    using that btree_extend_set [of "[]" "map (\<lambda>c. (c, default_container_log_config)) cs"]
    by (auto simp: default_logging_def btree_collect_def)
  moreover have "choice_inv (clf_choice default_container_log_config)" by (simp add: default_container_log_config_def btree_inv_def)
  ultimately show ?thesis unfolding logging_inv_def list_all_iff by (metis case_prod_beta)
qed

text \<open>
  Merged with the defaults for the containers of a product, a logging configuration is valid exactly
  when every custom configuration names its config map and every logger has a level, where the root
  logger of a container of the product may be left open.
\<close>

theorem logging_with_defaults_valid:
  assumes "logging_inv f"
  shows "is_ok (validate (logging_from_fragment display) (logging_merge f (default_logging cs))) \<longleftrightarrow>
    (\<forall>k. case container_choice f k of
       None \<Rightarrow> True
     | Some (CustomFragment c) \<Rightarrow> cmf_config_map (cf_custom c) \<noteq> None
     | Some (AutomaticFragment a) \<Rightarrow>
         (\<forall>n l. btree_get (af_loggers a) n = Some l \<longrightarrow> lf_level l \<noteq> None \<or> n = ROOT_LOGGER \<and> k \<in> set cs))"
proof -
  note d = logging_inv_default [of cs]
  have "pred_option choice_complete (choice_merge (container_choice f k) (container_choice (default_logging cs) k)) \<longleftrightarrow>
      (case container_choice f k of
       None \<Rightarrow> True
     | Some (CustomFragment c) \<Rightarrow> cmf_config_map (cf_custom c) \<noteq> None
     | Some (AutomaticFragment a) \<Rightarrow>
         (\<forall>n l. btree_get (af_loggers a) n = Some l \<longrightarrow> lf_level l \<noteq> None \<or> n = ROOT_LOGGER \<and> k \<in> set cs))" for k
  proof (cases "container_choice f k" rule: choice_cases)
    case (custom c)
    then show ?thesis by (simp add: default_choice default_container_log_config_def)
  next
    case none
    then show ?thesis by (simp add: default_choice default_container_log_config_def)
  next
    case (automatic a)
    then have inv: "btree_inv (af_loggers a)" using container_choice_inv [OF assms, of k] by simp
    let ?root = "[(ROOT_LOGGER, \<lparr>lf_level = Some INFO\<rparr>)]"
    have r: "btree_inv ?root" by (simp add: btree_inv_def)
    have get: "btree_get (btree_merge logger_merge (af_loggers a) ?root) n = logger.merge_values (btree_get (af_loggers a) n) (btree_get ?root n)" for n
      by (rule logger.get_btree_merge [OF inv r])
    have "(\<forall>n l. logger.merge_values (btree_get (af_loggers a) n) (btree_get ?root n) = Some l \<longrightarrow> lf_level l \<noteq> None) \<longleftrightarrow>
        (\<forall>n l. btree_get (af_loggers a) n = Some l \<longrightarrow> lf_level l \<noteq> None \<or> n = ROOT_LOGGER)"
    proof -
      have "(\<forall>l. logger.merge_values (btree_get (af_loggers a) n) (btree_get ?root n) = Some l \<longrightarrow> lf_level l \<noteq> None) \<longleftrightarrow>
          (\<forall>l. btree_get (af_loggers a) n = Some l \<longrightarrow> lf_level l \<noteq> None \<or> n = ROOT_LOGGER)" for n
        by (cases "btree_get (af_loggers a) n"; cases "n = ROOT_LOGGER") (simp_all add: btree_get_def logger_merge_def option_merge_def)
      then show ?thesis by blast
    qed
    moreover have "btree_inv (btree_merge logger_merge (af_loggers a) ?root)" by (rule logger.get_btree_merge [OF inv r])
    ultimately show ?thesis using automatic
      by (cases "k \<in> set cs")
        (simp_all add: default_choice default_container_log_config_def choice_complete_automatic inv automatic_merge_def get del: choice_complete.simps(2))
  qed
  moreover have "lgf_enable_vector_agent (logging_merge f (default_logging cs)) \<noteq> None"
    by (cases "lgf_enable_vector_agent f") (simp_all add: logging_merge_def default_logging_def option_merge_def)
  ultimately show ?thesis
    unfolding logging_ok [OF logging_inv_merge [OF assms d]] container_choice_merge [OF assms d] by simp
qed

theorem logging_with_defaults_valid_witness:
  "is_ok (validate (logging_from_fragment show_nat) (logging_merge demo_group (default_logging [0, 1])))"
proof -
  have "case container_choice demo_group k of
       None \<Rightarrow> True
     | Some (CustomFragment c) \<Rightarrow> cmf_config_map (cf_custom c) \<noteq> None
     | Some (AutomaticFragment a) \<Rightarrow>
         (\<forall>n l. btree_get (af_loggers a) n = Some l \<longrightarrow> lf_level l \<noteq> None \<or> n = ROOT_LOGGER \<and> k \<in> set [0, 1])" for k
    by (simp add: container_choice_def demo_group_def btree_get_def)
  then show ?thesis using logging_with_defaults_valid [OF demo_logging_inv(1), of show_nat "[0, 1]"] by blast
qed

end
