(* ===== verification/Log_Framework.thy ===== *)
theory Log_Framework
  imports Log_Spec Writers Env_Vars Pod_Resources
begin

section \<open>Log aggregation\<close>

text \<open>
  \<open>product_logging/framework.rs\<close> and \<open>v2/product_logging/framework.rs\<close>: the size of the log volume, the
  capturing of a shell's output, the configuration files of log4j, log4j2 and logback, and the
  container of the log agent. The configuration of the agent itself is in the theory
  \<open>Vector_Config\<close>.
\<close>

definition STACKABLE_CONFIG_DIR :: string where
  "STACKABLE_CONFIG_DIR = ''/stackable/config''"

definition STACKABLE_LOG_DIR :: string where
  "STACKABLE_LOG_DIR = ''/stackable/log''"

definition VECTOR_LOG_DIR :: string where
  "VECTOR_LOG_DIR = ''_vector''"

definition VECTOR_STATE_DIR :: string where
  "VECTOR_STATE_DIR = ''_vector-state''"

definition SHUTDOWN_FILE :: string where
  "SHUTDOWN_FILE = ''shutdown''"

definition VECTOR_CONFIG_FILE :: string where
  "VECTOR_CONFIG_FILE = ''vector.yaml''"

definition VECTOR_AGGREGATOR_CM_KEY :: string where
  "VECTOR_AGGREGATOR_CM_KEY = ''ADDRESS''"

definition VECTOR_AGGREGATOR_ENV_NAME :: string where
  "VECTOR_AGGREGATOR_ENV_NAME = ''VECTOR_AGGREGATOR_ADDRESS''"

lemmas logging_constants = STACKABLE_CONFIG_DIR_def STACKABLE_LOG_DIR_def VECTOR_LOG_DIR_def VECTOR_STATE_DIR_def SHUTDOWN_FILE_def
  VECTOR_CONFIG_FILE_def VECTOR_AGGREGATOR_CM_KEY_def VECTOR_AGGREGATOR_ENV_NAME_def

datatype logging_error = CreateContainer container_error | AddVolumeMounts container_error

subsection \<open>The log volume\<close>

definition calculate_log_volume_size_limit :: "memory_quantity list \<Rightarrow> quantity" where
  "calculate_log_volume_size_limit max_log_files_size =
     memory_into_quantity (memory_ceil (memory_mul (scale_to Mebi (memory_sum max_log_files_size)) (F32_Fin False 3)))"

subsection \<open>Captured output\<close>

definition appender_level :: "appender_config option \<Rightarrow> log_level" where
  "appender_level appender = (case Option.bind appender ac_level of Some l \<Rightarrow> l | None \<Rightarrow> log_level_default)"

definition capture_shell_output :: "string \<Rightarrow> string \<Rightarrow> automatic_log_config \<Rightarrow> string" where
  "capture_shell_output log_dir container log_config =
     (let root_level = root_log_level log_config;
          console_log_level = max root_level (appender_level (al_console log_config));
          file_log_level = max root_level (appender_level (al_file log_config));
          log_file_dir = log_dir @ ''/'' @ container;
          stdout_redirect =
            (case (console_log_level \<le> INFO, file_log_level \<le> INFO) of
               (True, True) \<Rightarrow> '' > >(tee '' @ log_file_dir @ ''/container.stdout.log)''
             | (True, False) \<Rightarrow> []
             | (False, True) \<Rightarrow> '' > '' @ log_file_dir @ ''/container.stdout.log''
             | (False, False) \<Rightarrow> '' > /dev/null'');
          stderr_redirect =
            (case (console_log_level \<le> ERROR, file_log_level \<le> ERROR) of
               (True, True) \<Rightarrow> '' 2> >(tee '' @ log_file_dir @ ''/container.stderr.log >&2)''
             | (True, False) \<Rightarrow> []
             | (False, True) \<Rightarrow> '' 2> '' @ log_file_dir @ ''/container.stderr.log''
             | (False, False) \<Rightarrow> '' 2> /dev/null'');
          args = (if file_log_level \<le> ERROR then [''mkdir --parents '' @ log_file_dir] else []);
          args = args @ (if stdout_redirect = [] \<and> stderr_redirect = [] then ['':'']
                         else [''exec'' @ stdout_redirect @ stderr_redirect])
      in join '' && '' args)"

subsection \<open>Configuration files\<close>

definition writeln :: "string \<Rightarrow> string" where
  "writeln line = line @ newline"

definition other_loggers :: "automatic_log_config \<Rightarrow> (string \<times> logger_config) list" where
  "other_loggers config = filter (\<lambda>(name, _). name \<noteq> ROOT_LOGGER) (al_loggers config)"

definition max_log_file_size_in_mib :: "nat \<Rightarrow> nat \<Rightarrow> nat" where
  "max_log_file_size_in_mib max_size_in_mib number_of_archived_log_files =
     max 1 (max_size_in_mib div (1 + number_of_archived_log_files))"

definition log4j_logger :: "string \<times> logger_config \<Rightarrow> string" where
  "log4j_logger logger = ''log4j.logger.'' @ escape_default (fst logger) @ ''='' @ to_log4j_literal (lc_level (snd logger))"

definition create_log4j_config :: "string \<Rightarrow> string \<Rightarrow> nat \<Rightarrow> string \<Rightarrow> automatic_log_config \<Rightarrow> string" where
  "create_log4j_config log_dir log_file max_size_in_mib console_conversion_pattern config =
     (let number_of_archived_log_files = 1;
          loggers = concat (map (\<lambda>logger. writeln (log4j_logger logger)) (other_loggers config))
      in join newline
       [''log4j.rootLogger='' @ to_log4j_literal (root_log_level config) @ '', CONSOLE, FILE'',
        [],
        ''log4j.appender.CONSOLE=org.apache.log4j.ConsoleAppender'',
        ''log4j.appender.CONSOLE.Threshold='' @ to_log4j_literal (appender_level (al_console config)),
        ''log4j.appender.CONSOLE.layout=org.apache.log4j.PatternLayout'',
        ''log4j.appender.CONSOLE.layout.ConversionPattern='' @ console_conversion_pattern,
        [],
        ''log4j.appender.FILE=org.apache.log4j.RollingFileAppender'',
        ''log4j.appender.FILE.Threshold='' @ to_log4j_literal (appender_level (al_file config)),
        ''log4j.appender.FILE.File='' @ log_dir @ ''/'' @ log_file,
        ''log4j.appender.FILE.MaxFileSize='' @ show_nat (max_log_file_size_in_mib max_size_in_mib number_of_archived_log_files) @ ''MB'',
        ''log4j.appender.FILE.MaxBackupIndex='' @ show_nat number_of_archived_log_files,
        ''log4j.appender.FILE.layout=org.apache.log4j.xml.XMLLayout'',
        [],
        loggers])"

definition create_log4j2_config :: "string \<Rightarrow> string \<Rightarrow> nat \<Rightarrow> string \<Rightarrow> automatic_log_config \<Rightarrow> string" where
  "create_log4j2_config log_dir log_file max_size_in_mib console_conversion_pattern config =
     (let number_of_archived_log_files = 1;
          logger_names = join '', '' (map (\<lambda>(name, _). escape_default name) (other_loggers config));
          loggers = (if logger_names = [] then [] else ''loggers = '' @ logger_names);
          logger_configs = concat (map (\<lambda>(name, logger_config).
            let name = escape_default name; level = to_log4j_literal (lc_level logger_config) in
            writeln (''logger.'' @ name @ ''.name = '' @ name) @ writeln (''logger.'' @ name @ ''.level = '' @ level)) (other_loggers config))
      in join newline
       [''appenders = FILE, CONSOLE'',
        [],
        ''appender.CONSOLE.type = Console'',
        ''appender.CONSOLE.name = CONSOLE'',
        ''appender.CONSOLE.target = SYSTEM_ERR'',
        ''appender.CONSOLE.layout.type = PatternLayout'',
        ''appender.CONSOLE.layout.pattern = '' @ console_conversion_pattern,
        ''appender.CONSOLE.filter.threshold.type = ThresholdFilter'',
        ''appender.CONSOLE.filter.threshold.level = '' @ to_log4j2_literal (appender_level (al_console config)),
        [],
        ''appender.FILE.type = RollingFile'',
        ''appender.FILE.name = FILE'',
        ''appender.FILE.fileName = '' @ log_dir @ ''/'' @ log_file,
        ''appender.FILE.filePattern = '' @ log_dir @ ''/'' @ log_file @ ''.%i'',
        ''appender.FILE.layout.type = XMLLayout'',
        ''appender.FILE.policies.type = Policies'',
        ''appender.FILE.policies.size.type = SizeBasedTriggeringPolicy'',
        ''appender.FILE.policies.size.size = '' @ show_nat (max_log_file_size_in_mib max_size_in_mib number_of_archived_log_files) @ ''MB'',
        ''appender.FILE.strategy.type = DefaultRolloverStrategy'',
        ''appender.FILE.strategy.max = '' @ show_nat number_of_archived_log_files,
        ''appender.FILE.filter.threshold.type = ThresholdFilter'',
        ''appender.FILE.filter.threshold.level = '' @ to_log4j2_literal (appender_level (al_file config)),
        loggers,
        logger_configs,
        ''rootLogger.level='' @ to_log4j2_literal (root_log_level config),
        ''rootLogger.appenderRefs = CONSOLE, FILE'',
        ''rootLogger.appenderRef.CONSOLE.ref = CONSOLE'',
        ''rootLogger.appenderRef.FILE.ref = FILE''])"

definition create_logback_config ::
    "string \<Rightarrow> string \<Rightarrow> nat \<Rightarrow> string \<Rightarrow> automatic_log_config \<Rightarrow> string option \<Rightarrow> string" where
  "create_logback_config log_dir log_file max_size_in_mib console_conversion_pattern config additional_config =
     (let number_of_archived_log_files = 1;
          loggers = concat (map (\<lambda>(name, logger_config).
            writeln (''  <logger name=\"'' @ escape_default name @ ''\" level=\"'' @ to_logback_literal (lc_level logger_config) @ ''\" />''))
              (other_loggers config))
      in join newline
       [''<configuration>'',
        ''  <appender name=\"CONSOLE\" class=\"ch.qos.logback.core.ConsoleAppender\">'',
        ''    <encoder>'',
        ''      <pattern>'' @ console_conversion_pattern @ ''</pattern>'',
        ''    </encoder>'',
        ''    <filter class=\"ch.qos.logback.classic.filter.ThresholdFilter\">'',
        ''      <level>'' @ to_logback_literal (appender_level (al_console config)) @ ''</level>'',
        ''    </filter>'',
        ''  </appender>'',
        [],
        ''  <appender name=\"FILE\" class=\"ch.qos.logback.core.rolling.RollingFileAppender\">'',
        ''    <File>'' @ log_dir @ ''/'' @ log_file @ ''</File>'',
        ''    <encoder class=\"ch.qos.logback.core.encoder.LayoutWrappingEncoder\">'',
        ''      <layout class=\"ch.qos.logback.classic.log4j.XMLLayout\" />'',
        ''    </encoder>'',
        ''    <filter class=\"ch.qos.logback.classic.filter.ThresholdFilter\">'',
        ''      <level>'' @ to_logback_literal (appender_level (al_file config)) @ ''</level>'',
        ''    </filter>'',
        ''    <rollingPolicy class=\"ch.qos.logback.core.rolling.FixedWindowRollingPolicy\">'',
        ''      <minIndex>1</minIndex>'',
        ''      <maxIndex>'' @ show_nat number_of_archived_log_files @ ''</maxIndex>'',
        ''      <FileNamePattern>'' @ log_dir @ ''/'' @ log_file @ ''.%i</FileNamePattern>'',
        ''    </rollingPolicy>'',
        ''    <triggeringPolicy class=\"ch.qos.logback.core.rolling.SizeBasedTriggeringPolicy\">'',
        ''      <MaxFileSize>'' @ show_nat (max_log_file_size_in_mib max_size_in_mib number_of_archived_log_files) @ ''MB</MaxFileSize>'',
        ''      <!--'',
        ''        checkIncrement defines how often file sizes are checked, because'',
        ''        checking them is a relatively costly operation.'',
        ''        checkIncrement was introduced in the SizeBasedTriggeringPolicy in'',
        ''        logback 1.3.6/1.4.6 as an Integer representing milliseconds. In logback'',
        ''        1.3.12/1.4.12, it was changed to a Duration, also accepting a unit.'',
        ''        Without a given unit, milliseconds are assumed. The logback manual is'',
        ''        misleading: In logback 1.5.8, checkIncrement is no longer used for the'',
        ''        SizeAndTimeBasedFileNamingAndTriggeringPolicy, but it is still used for'',
        ''        the SizeBasedTriggeringPolicy!'',
        ''        In prior versions of logback, setting this option has no effect.'',
        ''      -->'',
        ''      <checkIncrement>5000</checkIncrement>'',
        ''    </triggeringPolicy>'',
        ''  </appender>'',
        [],
        loggers,
        (case additional_config of Some additional_config \<Rightarrow> additional_config | None \<Rightarrow> []),
        ''  <root level=\"'' @ to_logback_literal (root_log_level config) @ ''\">'',
        ''    <appender-ref ref=\"CONSOLE\" />'',
        ''    <appender-ref ref=\"FILE\" />'',
        ''  </root>'',
        ''</configuration>'',
        []])"

subsection \<open>The container of the log agent\<close>

definition vector_command :: "string list" where
  "vector_command = [''/bin/bash'', ''-x'', ''-euo'', ''pipefail'', ''-c'']"

definition vector_script :: string where
  "vector_script =
     (let control = STACKABLE_LOG_DIR @ ''/'' @ VECTOR_LOG_DIR in
      join newline
       [''mkdir --parents '' @ STACKABLE_LOG_DIR @ ''/'' @ VECTOR_STATE_DIR,
        ''# Vector will ignore SIGTERM (as PID != 1) and must be shut down by writing a shutdown trigger file'',
        ''vector --config '' @ STACKABLE_CONFIG_DIR @ ''/'' @ VECTOR_CONFIG_FILE @ '' & vector_pid=$!'',
        ''if [ ! -f \"'' @ control @ ''/'' @ SHUTDOWN_FILE @ ''\" ]; then'',
        ''  mkdir -p '' @ control @ '' && inotifywait -qq --event create '' @ control @ ''; fi'',
        ''sleep 1'',
        ''kill $vector_pid'',
        []])"

definition vector_container ::
    "resolved_product_image \<Rightarrow> string \<Rightarrow> string \<Rightarrow> container_log_config option \<Rightarrow> resource_requirements \<Rightarrow> string
      \<Rightarrow> (container, logging_error) result" where
  "vector_container product_image config_volume_name log_volume_name log_config resources vector_aggregator_config_map_name =
     (let log_level =
        (case Option.bind log_config clc_choice of
           Some (Automatic automatic_log_config) \<Rightarrow> root_log_level automatic_log_config
         | _ \<Rightarrow> INFO)
      in
      and_then (map_err CreateContainer (container_new ''vector'')) (\<lambda>b.
      let b = add_env_var_from_config_map VECTOR_AGGREGATOR_ENV_NAME vector_aggregator_config_map_name VECTOR_AGGREGATOR_CM_KEY
        (add_env_var ''VECTOR_LOG'' (to_vector_literal log_level)
          (container_args [vector_script] (container_command vector_command (image_from_product_image product_image b))))
      in
      and_then (map_err AddVolumeMounts (add_volume_mount config_volume_name STACKABLE_CONFIG_DIR b)) (\<lambda>b.
      and_then (map_err AddVolumeMounts (add_volume_mount log_volume_name STACKABLE_LOG_DIR b)) (\<lambda>b.
      Inr (container_build (container_resources resources b))))))"

definition create_vector_shutdown_file_command :: "string \<Rightarrow> string" where
  "create_vector_shutdown_file_command stackable_log_dir =
     ''mkdir -p '' @ stackable_log_dir @ ''/'' @ VECTOR_LOG_DIR @ '' && touch '' @ stackable_log_dir @ ''/'' @ VECTOR_LOG_DIR @ ''/'' @ SHUTDOWN_FILE"

definition remove_vector_shutdown_file_command :: "string \<Rightarrow> string" where
  "remove_vector_shutdown_file_command stackable_log_dir =
     ''rm -f '' @ stackable_log_dir @ ''/'' @ VECTOR_LOG_DIR @ ''/'' @ SHUTDOWN_FILE"

subsection \<open>Typed names\<close>

datatype 'u typed_logging_error = GetContainerLogConfiguration string | ParseContainerName "'u attr_error"

datatype validated_log_config = ValidatedAutomatic automatic_log_config | ValidatedCustom string

record vector_log_config =
  vlc_log_config :: validated_log_config
  vlc_aggregator_config_map_name :: string

definition validate_logging_configuration_for_container ::
    "(string \<Rightarrow> (unit, 'u) result) \<Rightarrow> ('t::linorder \<Rightarrow> string) \<Rightarrow> 't logging \<Rightarrow> 't \<Rightarrow> (validated_log_config, 'u typed_logging_error) result" where
  "validate_logging_configuration_for_container u display logging container =
     and_then (ok_or (GetContainerLogConfiguration (display container))
       (Option.bind (btree_get (log_containers logging) container) clc_choice)) (\<lambda>choice.
     case choice of
       Automatic automatic_log_config \<Rightarrow> Inr (ValidatedAutomatic automatic_log_config)
     | Custom custom \<Rightarrow>
         and_then (map_err ParseContainerName (attr_from_str u ConfigMapName (cml_config_map (cl_custom custom)))) (\<lambda>name.
         Inr (ValidatedCustom name)))"

definition typed_vector_script :: string where
  "typed_vector_script =
     (let control = STACKABLE_LOG_DIR @ ''/'' @ VECTOR_LOG_DIR in
      join newline
       [''mkdir --parents '' @ STACKABLE_LOG_DIR @ ''/'' @ VECTOR_STATE_DIR,
        ''# Vector will ignore SIGTERM (as PID != 1) and must be shut down by writing a shutdown trigger file'',
        ''vector & vector_pid=$!'',
        ''if [ ! -f \"'' @ control @ ''/'' @ SHUTDOWN_FILE @ ''\" ]; then'',
        ''mkdir -p '' @ control,
        ''inotifywait -qq --event create '' @ control @ '';'',
        ''fi'',
        ''sleep 1'',
        ''kill $vector_pid''])"

definition vector_env_vars :: "vector_log_config \<Rightarrow> group_resource_names \<Rightarrow> env_var_set" where
  "vector_env_vars config names =
     (let log_level = (case vlc_log_config config of ValidatedAutomatic log_config \<Rightarrow> root_log_level log_config | _ \<Rightarrow> log_level_default);
          vector_file_log_level =
            (case vlc_log_config config of
               ValidatedAutomatic log_config \<Rightarrow> (case Option.bind (al_file log_config) ac_level of Some l \<Rightarrow> l | None \<Rightarrow> log_level_default)
             | _ \<Rightarrow> log_level_default)
      in
      with_value ''VECTOR_LOG'' (to_vector_literal log_level)
       (with_value ''VECTOR_FILE_LOG_LEVEL'' (to_vector_literal vector_file_log_level)
       (with_value ''VECTOR_CONFIG_YAML'' (STACKABLE_CONFIG_DIR @ ''/'' @ VECTOR_CONFIG_FILE)
       (with_config_map_key_ref VECTOR_AGGREGATOR_ENV_NAME (vlc_aggregator_config_map_name config) VECTOR_AGGREGATOR_CM_KEY
       (with_value ''ROLE_NAME'' (grn_role_name names)
       (with_value ''ROLE_GROUP_NAME'' (grn_role_group_name names)
       (with_field_path ''NAMESPACE'' FieldNamespace
       (with_value ''LOG_DIR'' STACKABLE_LOG_DIR
       (with_value ''DATA_DIR'' (STACKABLE_LOG_DIR @ ''/'' @ VECTOR_STATE_DIR)
       (with_value ''CLUSTER_NAME'' (grn_cluster_name names) env_var_set_new))))))))))"

definition vector_mounts :: "string \<Rightarrow> string \<Rightarrow> volume_mount list" where
  "vector_mounts log_config_volume_name log_volume_name =
     [\<lparr>vm_mount_path = STACKABLE_CONFIG_DIR @ ''/'' @ VECTOR_CONFIG_FILE, vm_mount_propagation = None, vm_name = log_config_volume_name,
       vm_read_only = Some True, vm_sub_path = Some VECTOR_CONFIG_FILE, vm_sub_path_expr = None, vm_recursive_read_only = None\<rparr>,
      \<lparr>vm_mount_path = STACKABLE_LOG_DIR, vm_mount_propagation = None, vm_name = log_volume_name,
       vm_read_only = None, vm_sub_path = None, vm_sub_path_expr = None, vm_recursive_read_only = None\<rparr>]"

text \<open>The panics of \<open>expect\<close> are \<^const>\<open>None\<close>.\<close>

definition typed_vector_container ::
    "string \<Rightarrow> resolved_product_image \<Rightarrow> vector_log_config \<Rightarrow> group_resource_names \<Rightarrow> string \<Rightarrow> string \<Rightarrow> env_var_set \<Rightarrow> container option" where
  "typed_vector_container container_name product_image config names log_config_volume_name log_volume_name extra_env_vars =
     (let env_vars = env_var_set_merge extra_env_vars (vector_env_vars config names);
          resources = requirements_build (with_memory_limit ''128Mi'' (with_memory_request ''128Mi'' (with_cpu_limit ''500m'' (with_cpu_request ''250m''
            requirements_new))))
      in
      Option.bind (new_container_builder container_name) (\<lambda>b.
      Option.bind (expect (add_volume_mounts (vector_mounts log_config_volume_name log_volume_name)
        (add_env_vars (env_var_set_into_iter env_vars)
          (container_args [typed_vector_script] (container_command vector_command (image_from_product_image product_image b)))))) (\<lambda>b.
      Some (container_build (container_resources resources b)))))"

subsection \<open>Where captured output goes\<close>

text \<open>
  Reading the command as bash does, for the redirections it can have: where a stream goes, and the
  directory that is created first. A process substitution with \<open>tee\<close> writes to the file and to the
  original stream.
\<close>

datatype sink = Console | LogFile string

definition to_file :: "string \<Rightarrow> sink list" where
  "to_file w = (if w = ''/dev/null'' then [] else [LogFile w])"

fun read_stdout :: "string list \<Rightarrow> sink list \<times> string list" where
  "read_stdout ws =
     (case ws of
        r # ws2 \<Rightarrow>
          if r \<noteq> ''>'' then ([Console], ws)
          else (case ws2 of
            w # ws3 \<Rightarrow>
              if w = ''>(tee'' then (case ws3 of v # ws4 \<Rightarrow> ([Console, LogFile (butlast v)], ws4) | [] \<Rightarrow> ([], []))
              else (to_file w, ws3)
          | [] \<Rightarrow> ([], []))
      | [] \<Rightarrow> ([Console], []))"

fun read_stderr :: "string list \<Rightarrow> sink list" where
  "read_stderr ws =
     (case ws of
        r # ws2 \<Rightarrow>
          if r \<noteq> ''2>'' then [Console]
          else (case ws2 of
            w # ws3 \<Rightarrow> if w = ''>(tee'' then (case ws3 of v # _ \<Rightarrow> [Console, LogFile v] | [] \<Rightarrow> []) else to_file w
          | [] \<Rightarrow> [])
      | [] \<Rightarrow> [Console])"

definition read_exec :: "string list \<Rightarrow> (sink list \<times> sink list) option" where
  "read_exec ws =
     (if ws = ['':''] then Some ([Console], [Console])
      else case ws of
        w # ws \<Rightarrow> if w = ''exec'' then (case read_stdout ws of (out, rest) \<Rightarrow> Some (out, read_stderr rest)) else None
      | [] \<Rightarrow> None)"

definition read_capture :: "string \<Rightarrow> (string option \<times> sink list \<times> sink list) option" where
  "read_capture command =
     (case split_char (CHR '' '') command of
        a # b # d # e # ws \<Rightarrow>
          if a = ''mkdir'' \<and> b = ''--parents'' \<and> e = ''&&'' then map_option (Pair (Some d)) (read_exec ws)
          else map_option (Pair None) (read_exec (a # b # d # e # ws))
      | ws \<Rightarrow> map_option (Pair None) (read_exec ws))"

lemma split_char_prefix:
  "c \<notin> set a \<Longrightarrow> split_char c (a @ b) = (a @ hd (split_char c b)) # tl (split_char c b)"
proof (induction a)
  case (Cons x a)
  then show ?case by (cases "split_char c (a @ b)") auto
qed simp

lemma level_le: "(l :: log_level) \<le> INFO \<Longrightarrow> l \<le> ERROR"
  by (cases l) (simp_all add: level_ord_defs)

text \<open>
  The output of a shell goes where the levels say, for a directory without spaces: standard output,
  which counts as \<open>INFO\<close>, is shown on the console exactly when both the root logger and the console let
  \<open>INFO\<close> pass, and is stored exactly when the root logger and the file do; standard error likewise with
  \<open>ERROR\<close>. Both files are in the directory of the container, which is created whenever there is a file.
\<close>

theorem captured_output:
  assumes "CHR '' '' \<notin> set log_dir" "CHR '' '' \<notin> set container"
    and "console_level = max (root_log_level config) (appender_level (al_console config))"
    and "file_level = max (root_log_level config) (appender_level (al_file config))"
    and "dir = log_dir @ ''/'' @ container"
  shows "read_capture (capture_shell_output log_dir container config) = Some
    (if file_level \<le> ERROR then Some dir else None,
     (if console_level \<le> INFO then [Console] else []) @ (if file_level \<le> INFO then [LogFile (dir @ ''/container.stdout.log'')] else []),
     (if console_level \<le> ERROR then [Console] else []) @ (if file_level \<le> ERROR then [LogFile (dir @ ''/container.stderr.log'')] else []))"
proof -
  have d: "CHR '' '' \<notin> set dir" using assms by simp
  have f: "dir @ ''/container.stdout.log'' \<noteq> ''/dev/null''" "dir @ ''/container.stderr.log'' \<noteq> ''/dev/null''"
    using arg_cong [of "dir @ ''/container.stdout.log''" "''/dev/null''" length] arg_cong [of "dir @ ''/container.stderr.log''" "''/dev/null''" length]
    by auto
  have t: "dir @ ''/container.stdout.log'' \<noteq> ''>(tee''" "dir @ ''/container.stderr.log'' \<noteq> ''>(tee''"
    using arg_cong [of "dir @ ''/container.stdout.log''" "''>(tee''" length] arg_cong [of "dir @ ''/container.stderr.log''" "''>(tee''" length]
    by auto
  show ?thesis
    using d f t level_le [of console_level] level_le [of file_level]
    unfolding capture_shell_output_def Let_def assms(3-5) [symmetric]
    by (cases "console_level \<le> INFO"; cases "file_level \<le> INFO"; cases "console_level \<le> ERROR"; cases "file_level \<le> ERROR")
      (simp_all add: read_capture_def read_exec_def to_file_def butlast_append split_char_prefix)
qed

theorem captured_output_witness:
  "read_capture (capture_shell_output ''/log'' ''init'' \<lparr>al_loggers = [(''ROOT'', \<lparr>lc_level = WARN\<rparr>)], al_console = None,
      al_file = Some \<lparr>ac_level = Some NONE\<rparr>\<rparr>) = Some (None, [], [Console])"
  using captured_output [of "''/log''" "''init''" _ "\<lparr>al_loggers = [(''ROOT'', \<lparr>lc_level = WARN\<rparr>)], al_console = None,
      al_file = Some \<lparr>ac_level = Some NONE\<rparr>\<rparr>"]
  by (simp add: root_log_level_def ROOT_LOGGER_def btree_get_def appender_level_def log_level_default_def level_ord_defs max_def)

subsection \<open>What a log4j file says\<close>

text \<open>A properties file by its lines; the value of a key is what follows its first separator.\<close>

definition property_lines :: "string \<Rightarrow> (string \<times> string) list" where
  "property_lines config = List.map_filter (split_once (CHR ''='')) (split_char (CHR 0x0A) config)"

lemma split_lines:
  assumes "list_all (\<lambda>l. CHR 0x0A \<notin> set l) ls"
  shows "split_char (CHR 0x0A) (join newline (ls @ [s])) = ls @ split_char (CHR 0x0A) s"
  using assms
proof (induction ls)
  case (Cons l ls)
  then show ?case by (simp add: join_Cons newline_def)
qed simp

lemma split_writeln:
  assumes "list_all (\<lambda>l. CHR 0x0A \<notin> set l) ls"
  shows "split_char (CHR 0x0A) (concat (map writeln ls) @ s) = ls @ split_char (CHR 0x0A) s"
  using assms by (induction ls) (simp_all add: writeln_def newline_def)

lemma to_log4j_literal_chars: "CHR 0x0A \<notin> set (to_log4j_literal l)" "CHR ''='' \<notin> set (to_log4j_literal l)"
  by (cases l; simp)+

lemma show_nat_chars: "CHR 0x0A \<notin> set (show_nat n)" "CHR ''='' \<notin> set (show_nat n)"
  by (auto simp: class_defs dest!: show_nat_digits)

lemma split_once_prefix: "c \<notin> set a \<Longrightarrow> split_once c (a @ b) = map_option (\<lambda>(x, y). (a @ x, y)) (split_once c b)"
proof (induction a)
  case (Cons x a)
  then show ?case by (auto simp: option.map_comp comp_def case_prod_beta)
qed (simp add: option.map_id0 id_def [symmetric])

definition prop_line :: "string \<Rightarrow> string \<Rightarrow> string" where
  "prop_line k v = k @ ''='' @ v"

lemma split_prop_line: "CHR ''='' \<notin> set k \<Longrightarrow> split_once (CHR ''='') (prop_line k v) = Some (k, v)"
  by (simp add: prop_line_def split_once_prefix)

lemma map_filter_all: "(\<And>x. x \<in> set xs \<Longrightarrow> f (g x) = Some (h x)) \<Longrightarrow> List.map_filter f (map g xs) = map h xs"
  by (induction xs) (simp_all add: List.map_filter_simps)

lemma map_filter_append: "List.map_filter f (xs @ ys) = List.map_filter f xs @ List.map_filter f ys"
  by (simp add: List.map_filter_def)



subsection \<open>The size of the log volume\<close>

lemma kib_value: "n < 2 ^ 24 \<Longrightarrow> f32_value (of_nat n * 1024)"
  using f32_value_scale [OF f32_value_of_nat, of n 10] by simp

lemma kib_bound: "n < 2 ^ 24 \<Longrightarrow> (of_nat n :: rat) * 1024 < 2 ^ 128"
proof -
  assume "n < 2 ^ 24"
  then have "(of_nat n :: rat) < of_nat (2 ^ 24)" by (simp only: of_nat_less_iff)
  then show ?thesis by simp
qed

lemma f32_pack_kib: "n < 2 ^ 24 \<Longrightarrow> f32_pack False (of_nat n * 1024) = F32_Fin False (of_nat n * 1024)"
  using f32_mag_value [OF kib_value, of n] kib_bound [of n] by (simp add: f32_pack_def not_le)

lemma memory_add_mebi:
  assumes "m + n < 2 ^ 24"
  shows "memory_add (mem (of_nat m * 1024) Kibi) (mem (of_nat n) Mebi) = mem (of_nat (m + n) * 1024) Kibi"
proof -
  have "scale_to Kibi (mem (of_nat n) Mebi) = mem (of_nat n * 1024 powi 1) Kibi"
    using assms kib_bound [of n] by (intro scale_to_exact f32_value_of_nat) simp_all
  moreover have "f32_add (F32_Fin False (of_nat m * 1024)) (F32_Fin False (of_nat n * 1024)) = F32_Fin False (of_nat (m + n) * 1024)"
  proof -
    have v: "of_nat m * 1024 + of_nat n * 1024 = (of_nat (m + n) * 1024 :: rat)" by (simp add: algebra_simps)
    have "(0 :: rat) \<le> of_nat (m + n) * 1024" by simp
    then have "f32_rat (of_nat (m + n) * 1024) = f32_pack False (of_nat (m + n) * 1024)" by (simp add: f32_rat_def not_less del: of_nat_add)
    then show ?thesis using f32_pack_kib [OF assms] unfolding f32_add_def signed_def prod.case f32.case if_False Let_def v by simp
  qed
  ultimately show ?thesis by (simp add: memory_add_def mem_def)
qed

lemma memory_sum_mebi:
  "m + sum_list ns < 2 ^ 24 \<Longrightarrow>
   foldl memory_add (mem (of_nat m * 1024) Kibi) (map (\<lambda>n. mem (of_nat n) Mebi) ns) = mem (of_nat (m + sum_list ns) * 1024) Kibi"
proof (induction ns arbitrary: m)
  case (Cons n ns)
  then show ?case using memory_add_mebi [of m n] Cons.IH [of "m + n"] by (simp only: list.map foldl.simps sum_list.Cons) (simp add: add.assoc)
qed simp

text \<open>
  The log volume for log files of whole MiB is three times as large as all files together, without a
  rounding error, up to 5 TiB.
\<close>

theorem log_volume_limit_exact:
  assumes "3 * sum_list ns < 2 ^ 24"
  shows "calculate_log_volume_size_limit (map (\<lambda>n. from_mebi (F32_Fin False (of_nat n))) ns) = show_nat (3 * sum_list ns) @ ''Mi''"
proof -
  let ?k = "sum_list ns"
  have k: "?k < 2 ^ 24" using assms by simp
  have m: "(\<lambda>n. from_mebi (F32_Fin False (of_nat n))) = (\<lambda>n. mem (of_nat n) Mebi)" by (simp add: fun_eq_iff from_mebi_def mem_def)
  have sum: "memory_sum (map (\<lambda>n. mem (of_nat n) Mebi) ns) = mem (of_nat ?k * 1024) Kibi"
    using memory_sum_mebi [of 0 ns] k by (simp add: memory_sum_def mem_def)
  have "f32_rat (1024 powi - 1) = F32_Fin False (1 / 1024)"
  proof -
    have p: "(1024 :: rat) powi - 1 = 1 / 1024" "of_int 1 * 2 powi (- 10) = (1 / 1024 :: rat)" by (simp_all add: power_int_def power_divide)
    have "f32_value (of_int 1 * 2 powi (- 10))" by (rule f32_valueI) simp_all
    then have "f32_mag (1 / 1024) = 1 / 1024" unfolding p(2) by (rule f32_mag_value)
    then show ?thesis by (simp add: f32_rat_def f32_pack_def Let_def p(1))
  qed
  then have "scale_to Mebi (mem (of_nat ?k * 1024) Kibi) = mem (of_nat ?k) Mebi"
    using f32_pack_nat [OF k] by (simp add: scale_to_def mem_def f32_mul_def)
  moreover have "memory_mul (mem (of_nat ?k) Mebi) (F32_Fin False 3) = mem (of_nat (3 * ?k)) Mebi"
    using f32_pack_nat [OF assms] by (simp add: memory_mul_def mem_def f32_mul_def mult.commute)
  moreover have "memory_ceil (mem (of_nat (3 * ?k)) Mebi) = mem (of_nat (3 * ?k)) Mebi"
  proof -
    have "of_int \<lceil>of_nat j\<rceil> = (of_nat j :: rat)" for j by simp
    then show ?thesis unfolding memory_ceil_def mem_def f32_ceil_def by simp
  qed
  ultimately show ?thesis
    unfolding calculate_log_volume_size_limit_def m sum memory_into_quantity_def memory_fmt_def
    using f32_fmt_nat [OF assms] by simp
qed

theorem log_volume_limit_exact_witness:
  "calculate_log_volume_size_limit [from_mebi (F32_Fin False 1), from_mebi (F32_Fin False 10)] = ''33Mi''"
proof -
  have "show_nat 33 = ''33''" by code_simp
  then show ?thesis using log_volume_limit_exact [of "[1, 10]"] by simp
qed

subsection \<open>The log agent runs\<close>

text \<open>
  The container of the log agent is always created: its name is valid and its two mounts do not
  collide.
\<close>

lemma vector_container_total:
  "\<exists>c. vector_container product_image config_volume log_volume log_config resources aggregator = Inr c \<and>
     c_name c = ''vector'' \<and> c_image c = Some (rpi_image product_image) \<and> c_resources c = Some resources \<and>
     map_option (map (\<lambda>m. (vm_name m, vm_mount_path m))) (c_volume_mounts c) =
       Some [(config_volume, ''/stackable/config''), (log_volume, ''/stackable/log'')]"
proof -
  have new: "container_new ''vector'' = Inr (container_builder_default\<lparr>cb_name := ''vector''\<rparr>)" by code_simp
  show ?thesis
    by (simp add: vector_container_def Let_def new add_volume_mount_def add_volume_mount_impl_def container_build_def
        container_resources_def add_env_var_from_config_map_def add_env_var_def push_env_def container_args_def container_command_def
        image_from_product_image_def container_builder_default_def index_get_def logging_constants add_env_var_from_source_def)
qed

lemma validated_from_defaults:
  assumes "logging_inv f" "k \<in> set cs"
    and "validate (logging_from_fragment display) (logging_merge f (default_logging cs)) = Inr L"
  shows "clc_choice (for_container L k) \<noteq> None"
proof -
  note d = logging_inv_default [of cs]
  have "choice_merge x (Some y) \<noteq> None" for x y by (cases x rule: is_custom.cases; cases y) simp_all
  moreover have "container_choice (default_logging cs) k = Some (the (clf_choice default_container_log_config))"
    using assms(2) by (simp add: default_choice default_container_log_config_def)
  ultimately have "container_choice (logging_merge f (default_logging cs)) k \<noteq> None"
    by (simp add: container_choice_merge [OF assms(1) d])
  then show ?thesis using logging_validated [OF assms(3) logging_inv_merge [OF assms(1) d], of k] by (auto split: option.splits)
qed

text \<open>
  The log agent of a role group: once a logging configuration with defaults for the product's
  containers is valid, the typed validation of a container fails only when a custom config map has a
  name that is not accepted, never because the container is missing; and the container of the agent is
  then built without a panic, with the environment of the agent overridden by the given variables, in
  an order in which references are resolved.
\<close>

theorem log_agent_built:
  assumes "logging_inv f" "k \<in> set cs"
    and "validate (logging_from_fragment display) (logging_merge f (default_logging cs)) = Inr L"
    and "attr_from_str u ContainerName name = Inr name'"
  shows "(case validate_logging_configuration_for_container u display L k of
      Inr v \<Rightarrow> \<exists>c. typed_vector_container name product_image \<lparr>vlc_log_config = v, vlc_aggregator_config_map_name = agg\<rparr> names cv lv extra = Some c \<and>
        c_name c = name \<and> c_env c = Some (env_var_set_into_iter (env_var_set_merge extra
          (vector_env_vars \<lparr>vlc_log_config = v, vlc_aggregator_config_map_name = agg\<rparr> names)))
    | Inl e \<Rightarrow> \<exists>custom err. clc_choice (for_container L k) = Some (Custom custom) \<and>
        attr_from_str u ConfigMapName (cml_config_map (cl_custom custom)) = Inl err \<and> e = ParseContainerName err)"
proof (cases "validate_logging_configuration_for_container u display L k")
  case (Inl e)
  obtain ch where "clc_choice (for_container L k) = Some ch" using validated_from_defaults [OF assms(1-3)] by auto
  moreover from this have "Option.bind (btree_get (log_containers L) k) clc_choice = Some ch"
    by (auto simp: for_container_def split: option.splits)
  ultimately show ?thesis using Inl
    by (auto simp: validate_logging_configuration_for_container_def result_simps split: log_config_choice.splits)
next
  case (Inr v)
  have "is_lowercase_rfc_1123_label name = Inr ()" using assms(4) by (auto simp: attr_from_str_def ContainerName_def)
  then have new: "new_container_builder name = Some (container_builder_default\<lparr>cb_name := name\<rparr>)"
    by (simp add: new_container_builder_def container_new_def validate_container_name_def)
  show ?thesis
    by (simp add: Inr typed_vector_container_def Let_def new vector_mounts_def add_volume_mount_impl_def container_build_def
        container_resources_def add_env_vars_def push_env_def container_args_def container_command_def
        image_from_product_image_def container_builder_default_def index_get_def logging_constants get_or_insert_with_def)
qed

theorem log_agent_built_witness:
  "\<exists>c. typed_vector_container ''vector'' \<lparr>rpi_product_version = [], rpi_app_version_label_value = LabelValue ''1'', rpi_image = ''img'',
        rpi_image_pull_policy = ''Always'', rpi_pull_secrets = None\<rparr>
      \<lparr>vlc_log_config = ValidatedCustom ''my-logs'', vlc_aggregator_config_map_name = ''agg''\<rparr>
      \<lparr>grn_cluster_name = ''c'', grn_role_name = ''r'', grn_role_group_name = ''g''\<rparr> ''config'' ''log'' [] = Some c"
proof -
  let ?f = "logging_merge demo_group (default_logging [0, 1])"
  let ?u = "\<lambda>_ :: string. Inr () :: (unit, unit) result"
  have "is_ok (validate (logging_from_fragment show_nat) ?f)" by code_simp
  then obtain L where L: "validate (logging_from_fragment show_nat) ?f = Inr L" by (auto simp: is_ok_iff)
  moreover have "(case validate (logging_from_fragment show_nat) ?f of Inr L \<Rightarrow>
      validate_logging_configuration_for_container ?u show_nat L 1 = Inr (ValidatedCustom ''my-logs'') | _ \<Rightarrow> False)" by code_simp
  ultimately have v: "validate_logging_configuration_for_container ?u show_nat L 1 = Inr (ValidatedCustom ''my-logs'')" by simp
  have n: "attr_from_str ?u ContainerName ''vector'' = Inr ''vector''" by code_simp
  have "\<exists>c. typed_vector_container ''vector'' product_image \<lparr>vlc_log_config = ValidatedCustom ''my-logs'', vlc_aggregator_config_map_name = agg\<rparr>
      names cv lv extra = Some c" for product_image agg names cv lv extra
    using log_agent_built [OF demo_logging_inv(1) _ L n, of 1 product_image agg names cv lv extra] v by auto
  then show ?thesis by blast
qed

end
