(* ===== verification/Vector_Config.thy ===== *)
theory Vector_Config
  imports Log_Framework Role_Utils
begin

section \<open>The configuration of the log agent\<close>

text \<open>
  \<open>create_vector_config\<close> of \<open>product_logging/framework.rs\<close>: the configuration file of Vector, as the list of
  its lines. What the programs in it do is the subject of the theory \<open>Vector_Transforms\<close>.
\<close>

subsection \<open>The text\<close>

definition backslash :: string where
  "backslash = [CHR 0x5C]"

definition quote :: string where
  "quote = [CHR 0x27]"

definition vector_text_sources :: "string list" where
  "vector_text_sources =
    [''data_dir: '' @ STACKABLE_LOG_DIR @ ''/'' @ VECTOR_STATE_DIR,
     [],
     ''log_schema:'',
     ''  host_key: pod'',
     [],
     ''sources:'',
     ''  vector:'',
     ''    type: internal_logs'',
     [],
     ''  files_stdout:'',
     ''    type: file'',
     ''    include:'',
     ''      - '' @ STACKABLE_LOG_DIR @ ''/*/*.stdout.log'',
     [],
     ''  files_stderr:'',
     ''    type: file'',
     ''    include:'',
     ''      - '' @ STACKABLE_LOG_DIR @ ''/*/*.stderr.log'',
     [],
     ''  files_log4j:'',
     ''    type: file'',
     ''    include:'',
     ''      - '' @ STACKABLE_LOG_DIR @ ''/*/*.log4j.xml'',
     ''    line_delimiter: \"'' @ backslash @ ''r'' @ backslash @ ''n\"'',
     ''    multiline:'',
     ''      mode: halt_before'',
     ''      start_pattern: ^<log4j:event'',
     ''      condition_pattern: ^<log4j:event'',
     ''      timeout_ms: 1000'',
     [],
     ''  files_log4j2:'',
     ''    type: file'',
     ''    include:'',
     ''      - '' @ STACKABLE_LOG_DIR @ ''/*/*.log4j2.xml'',
     ''    line_delimiter: \"'' @ backslash @ ''r'' @ backslash @ ''n\"'',
     [],
     ''  files_py:'',
     ''    type: file'',
     ''    include:'',
     ''      - '' @ STACKABLE_LOG_DIR @ ''/*/*.py.json'',
     [],
     ''  files_airlift:'',
     ''    type: file'',
     ''    include:'',
     ''      - '' @ STACKABLE_LOG_DIR @ ''/*/*.airlift.json'',
     [],
     ''  files_tracing_rs:'',
     ''    type: file'',
     ''    include:'',
     ''      - '' @ STACKABLE_LOG_DIR @ ''/*/*.tracing-rs.json'',
     [],
     ''  files_opa_json:'',
     ''    type: file'',
     ''    include:'',
     ''      - '' @ STACKABLE_LOG_DIR @ ''/opa/current'',
     ''      - '' @ STACKABLE_LOG_DIR @ ''/opa/test'',
     []]"

definition vector_text_tracing_rs :: "string list" where
  "vector_text_tracing_rs =
    [''transforms:'',
     ''  processed_files_tracing_rs:'',
     ''    inputs:'',
     ''      - files_tracing_rs'',
     ''    type: remap'',
     ''    source: |'',
     ''      raw_message = string!(.message)'',
     [],
     ''      .timestamp = now()'',
     ''      .logger = \"\"'',
     ''      .level = \"INFO\"'',
     ''      .message = \"\"'',
     ''      .errors = []'',
     [],
     ''      parsed_event, err = parse_json(raw_message)'',
     ''      if err != null {'',
     ''        error = \"JSON not parsable: \" + err'',
     ''        .errors = push(.errors, error)'',
     ''        log(error, level: \"warn\")'',
     ''        .message = raw_message'',
     ''      } else if !is_object(parsed_event) {'',
     ''        error = \"Parsed event is not a JSON object.\"'',
     ''        .errors = push(.errors, error)'',
     ''        log(error, level: \"warn\")'',
     ''        .message = raw_message'',
     ''      } else {'',
     ''        event = object!(parsed_event)'',
     [],
     ''        timestamp_string, err = string(event.timestamp)'',
     ''        if err == null {'',
     ''          parsed_timestamp, err = parse_timestamp(timestamp_string, \"%+\")'',
     ''          if err == null {'',
     ''            .timestamp = parsed_timestamp'',
     ''          } else {'',
     ''            .errors = push(.errors, \"Timestamp not parsable, trying current time instead: \" + err)'',
     ''          }'',
     ''        }'',
     [],
     ''        .logger, err = string(event.target)'',
     ''        if err != null || is_empty(.logger) {'',
     ''          .errors = push(.errors, \"Logger/target not found.\")'',
     ''        }'',
     [],
     ''        level, err = string(event.level)'',
     ''        if err != null {'',
     ''          .errors = push(.errors, \"Level not found, using '' @ backslash @ ''\"\" + .level + \"'' @ backslash @ ''\" instead.\")'',
     ''        } else if !includes([\"TRACE\", \"DEBUG\", \"INFO\", \"WARN\", \"ERROR\", \"FATAL\"], upcase(level)) {'',
     ''          .errors = push(.errors, \"Level '' @ backslash @ ''\"\" + level + \"'' @ backslash @ ''\" unknown, using '' @ backslash @ ''\"\" + .level + \"'' @ backslash @ ''\" instead.\")'',
     ''        } else {'',
     ''          .level = upcase(level)'',
     ''        }'',
     [],
     ''        fields, err = object(event.fields)'',
     ''        if err != null {'',
     ''          .errors = push(.errors, \"Fields are not an object.\")'',
     ''        }'',
     [],
     ''        .message, err = string(fields.message)'',
     ''        if err != null || is_empty(.message) {'',
     ''          .errors = push(.errors, \"Message not found.\")'',
     ''        }'',
     [],
     ''        del(fields.message)'',
     [],
     ''        other_fields = encode_key_value(fields, field_delimiter: \"'' @ backslash @ ''n\")'',
     ''        .message = join!(compact([.message, other_fields]), \"'' @ backslash @ ''n'' @ backslash @ ''n\")'',
     ''      }'',
     []]"

definition vector_text_opa_json :: "string list" where
  "vector_text_opa_json =
    [''  processed_files_opa_json:'',
     ''    inputs:'',
     ''      - files_opa_json'',
     ''    type: remap'',
     ''    source: |'',
     ''      raw_message = string!(.message)'',
     [],
     ''      .timestamp = now()'',
     ''      .logger = \"\"'',
     ''      .level = \"INFO\"'',
     ''      .message = \"\"'',
     ''      .errors = []'',
     [],
     ''      parsed_event, err = parse_json(raw_message)'',
     ''      if err != null {'',
     ''        error = \"JSON not parsable: \" + err'',
     ''        .errors = push(.errors, error)'',
     ''        log(error, level: \"warn\")'',
     ''        .message = raw_message'',
     ''      } else if !is_object(parsed_event) {'',
     ''        error = \"Parsed event is not a JSON object.\"'',
     ''        .errors = push(.errors, error)'',
     ''        log(error, level: \"warn\")'',
     ''        .message = raw_message'',
     ''      } else {'',
     ''        event = object!(parsed_event)'',
     [],
     ''        property_timestamp_valid = false'',
     ''        timestamp_string, err = string(event.timestamp)'',
     ''        if err == null {'',
     ''          parsed_timestamp, err = parse_timestamp(timestamp_string, \"%Y-%m-%dT%H:%M:%S.%fZ\")'',
     ''          if err == null {'',
     ''            .timestamp = parsed_timestamp'',
     ''            property_timestamp_valid = true'',
     ''          } else {'',
     ''            .errors = push(.errors, \"Timestamp not parsable, trying property time instead: \" + err)'',
     ''          }'',
     ''        }'',
     ''        if !property_timestamp_valid {'',
     ''          time_string, err = string(event.time)'',
     ''          if err == null {'',
     ''            parsed_timestamp, err = parse_timestamp(time_string, \"%Y-%m-%dT%H:%M:%SZ\")'',
     ''            if err == null {'',
     ''              .timestamp = parsed_timestamp'',
     ''            } else {'',
     ''              .errors = push(.errors, \"Time not parsable, using current time instead: \" + err)'',
     ''            }'',
     ''          } else {'',
     ''            .errors = push(.errors, \"Time not found, using current time instead.\")'',
     ''          }'',
     ''        }'',
     [],
     ''        .logger, err = string(event.logger)'',
     ''        if err != null || is_empty(.logger) {'',
     ''          .errors = push(.errors, \"Logger not found.\")'',
     ''        }'',
     [],
     ''        level, err = string(event.level)'',
     ''        if err != null {'',
     ''          .errors = push(.errors, \"Level not found, using '' @ backslash @ ''\"\" + .level + \"'' @ backslash @ ''\" instead.\")'',
     ''        } else if !includes([\"TRACE\", \"DEBUG\", \"INFO\", \"WARN\", \"ERROR\", \"FATAL\"], upcase(level)) {'',
     ''          .errors = push(.errors, \"Level '' @ backslash @ ''\"\" + level + \"'' @ backslash @ ''\" unknown, using '' @ backslash @ ''\"\" + .level + \"'' @ backslash @ ''\" instead.\")'',
     ''        } else {'',
     ''          .level = upcase(level)'',
     ''        }'',
     [],
     ''        .message, err = string(event.msg)'',
     ''        if err != null || is_empty(.message) {'',
     ''          .errors = push(.errors, \"Message not found.\")'',
     ''        }'',
     [],
     ''        del(event.time)'',
     ''        del(event.timestamp)'',
     ''        del(event.level)'',
     ''        del(event.msg)'',
     [],
     ''        other_fields = encode_key_value(event, field_delimiter: \"'' @ backslash @ ''n\")'',
     ''        .message = join!(compact([.message, other_fields]), \"'' @ backslash @ ''n'' @ backslash @ ''n\")'',
     ''      }'',
     []]"

definition vector_text_stdout :: "string list" where
  "vector_text_stdout =
    [''  processed_files_stdout:'',
     ''    inputs:'',
     ''      - files_stdout'',
     ''    type: remap'',
     ''    source: |'',
     ''      .logger = \"ROOT\"'',
     ''      .level = \"INFO\"'',
     []]"

definition vector_text_stderr :: "string list" where
  "vector_text_stderr =
    [''  processed_files_stderr:'',
     ''    inputs:'',
     ''      - files_stderr'',
     ''    type: remap'',
     ''    source: |'',
     ''      .logger = \"ROOT\"'',
     ''      .level = \"ERROR\"'',
     []]"

definition vector_text_log4j :: "string list" where
  "vector_text_log4j =
    [''  processed_files_log4j:'',
     ''    inputs:'',
     ''      - files_log4j'',
     ''    type: remap'',
     ''    source: |'',
     ''      raw_message = string!(.message)'',
     [],
     ''      .timestamp = now()'',
     ''      .logger = \"\"'',
     ''      .level = \"INFO\"'',
     ''      .message = \"\"'',
     ''      .errors = []'',
     [],
     ''      # Wrap the event so that the log4j namespace is defined when parsing the event'',
     ''      wrapped_xml_event = \"<root xmlns:log4j='' @ backslash @ ''\"http://jakarta.apache.org/log4j/'' @ backslash @ ''\">\" + raw_message + \"</root>\"'',
     ''      parsed_event, err = parse_xml(wrapped_xml_event)'',
     ''      if err != null {'',
     ''        error = \"XML not parsable: \" + err'',
     ''        .errors = push(.errors, error)'',
     ''        log(error, level: \"warn\")'',
     ''        .message = raw_message'',
     ''      } else {'',
     ''        root = object!(parsed_event.root)'',
     ''        if !is_object(root.event) {'',
     ''          error = \"Parsed event contains no '' @ backslash @ ''\"event'' @ backslash @ ''\" tag.\"'',
     ''          .errors = push(.errors, error)'',
     ''          log(error, level: \"warn\")'',
     ''          .message = raw_message'',
     ''        } else {'',
     ''          if keys(root) != [\"event\"] {'',
     ''            .errors = push(.errors, \"Parsed event contains multiple tags: \" + join!(keys(root), \", \"))'',
     ''          }'',
     ''          event = object!(root.event)'',
     [],
     ''          epoch_milliseconds, err = to_int(event.@timestamp)'',
     ''          if err == null && epoch_milliseconds != 0 {'',
     ''            converted_timestamp, err = from_unix_timestamp(epoch_milliseconds, \"milliseconds\")'',
     ''            if err == null {'',
     ''              .timestamp = converted_timestamp'',
     ''            } else {'',
     ''              .errors = push(.errors, \"Time not parsable, using current time instead: \" + err)'',
     ''            }'',
     ''          } else {'',
     ''            .errors = push(.errors, \"Timestamp not found, using current time instead.\")'',
     ''          }'',
     [],
     ''          .logger, err = string(event.@logger)'',
     ''          if err != null || is_empty(.logger) {'',
     ''            .errors = push(.errors, \"Logger not found.\")'',
     ''          }'',
     [],
     ''          level, err = string(event.@level)'',
     ''          if err != null {'',
     ''            .errors = push(.errors, \"Level not found, using '' @ backslash @ ''\"\" + .level + \"'' @ backslash @ ''\" instead.\")'',
     ''          } else if !includes([\"TRACE\", \"DEBUG\", \"INFO\", \"WARN\", \"ERROR\", \"FATAL\"], level) {'',
     ''            .errors = push(.errors, \"Level '' @ backslash @ ''\"\" + level + \"'' @ backslash @ ''\" unknown, using '' @ backslash @ ''\"\" + .level + \"'' @ backslash @ ''\" instead.\")'',
     ''          } else {'',
     ''            .level = level'',
     ''          }'',
     [],
     ''          message, err = string(event.message)'',
     ''          if err != null || is_empty(message) {'',
     ''            .errors = push(.errors, \"Message not found.\")'',
     ''          }'',
     ''          throwable = string(event.throwable) ?? \"\"'',
     ''          .message = join!(compact([message, throwable]), \"'' @ backslash @ ''n\")'',
     ''        }'',
     ''      }'',
     []]"

definition vector_text_log4j2 :: "string list" where
  "vector_text_log4j2 =
    [''  processed_files_log4j2:'',
     ''    inputs:'',
     ''      - files_log4j2'',
     ''    type: remap'',
     ''    source: |'',
     ''      raw_message = string!(.message)'',
     [],
     ''      .timestamp = now()'',
     ''      .logger = \"\"'',
     ''      .level = \"INFO\"'',
     ''      .message = \"\"'',
     ''      .errors = []'',
     [],
     ''      event = {}'',
     ''      parsed_event, err = parse_xml(raw_message)'',
     ''      if err != null {'',
     ''        error = \"XML not parsable: \" + err'',
     ''        .errors = push(.errors, error)'',
     ''        log(error, level: \"warn\")'',
     ''        .message = raw_message'',
     ''      } else {'',
     ''        if !is_object(parsed_event.Event) {'',
     ''          error = \"Parsed event contains no '' @ backslash @ ''\"Event'' @ backslash @ ''\" tag.\"'',
     ''          .errors = push(.errors, error)'',
     ''          log(error, level: \"warn\")'',
     ''          .message = raw_message'',
     ''        } else {'',
     ''          event = object!(parsed_event.Event)'',
     [],
     ''          tag_instant_valid = false'',
     ''          instant, err = object(event.Instant)'',
     ''          if err == null {'',
     ''            epoch_nanoseconds, err = to_int(instant.@epochSecond) * 1_000_000_000 + to_int(instant.@nanoOfSecond)'',
     ''            if err == null && epoch_nanoseconds != 0 {'',
     ''              converted_timestamp, err = from_unix_timestamp(epoch_nanoseconds, \"nanoseconds\")'',
     ''              if err == null {'',
     ''                .timestamp = converted_timestamp'',
     ''                tag_instant_valid = true'',
     ''              } else {'',
     ''                .errors = push(.errors, \"Instant invalid, trying property timeMillis instead: \" + err)'',
     ''              }'',
     ''            } else {'',
     ''              .errors = push(.errors, \"Instant invalid, trying property timeMillis instead: \" + err)'',
     ''            }'',
     ''          }'',
     ''          if !tag_instant_valid {'',
     ''            epoch_milliseconds, err = to_int(event.@timeMillis)'',
     ''            if err == null && epoch_milliseconds != 0 {'',
     ''              converted_timestamp, err = from_unix_timestamp(epoch_milliseconds, \"milliseconds\")'',
     ''              if err == null {'',
     ''                .timestamp = converted_timestamp'',
     ''              } else {'',
     ''                .errors = push(.errors, \"timeMillis not parsable, using current time instead: \" + err)'',
     ''              }'',
     ''            } else {'',
     ''              .errors = push(.errors, \"timeMillis not parsable, using current time instead: \" + err)'',
     ''            }'',
     ''          }'',
     [],
     ''          .logger, err = string(event.@loggerName)'',
     ''          if err != null || is_empty(.logger) {'',
     ''            .errors = push(.errors, \"Logger not found.\")'',
     ''          }'',
     [],
     ''          level, err = string(event.@level)'',
     ''          if err != null {'',
     ''            .errors = push(.errors, \"Level not found, using '' @ backslash @ ''\"\" + .level + \"'' @ backslash @ ''\" instead.\")'',
     ''          } else if !includes([\"TRACE\", \"DEBUG\", \"INFO\", \"WARN\", \"ERROR\", \"FATAL\"], level) {'',
     ''            .errors = push(.errors, \"Level '' @ backslash @ ''\"\" + level + \"'' @ backslash @ ''\" unknown, using '' @ backslash @ ''\"\" + .level + \"'' @ backslash @ ''\" instead.\")'',
     ''          } else {'',
     ''            .level = level'',
     ''          }'',
     [],
     ''          exception = null'',
     ''          thrown = event.Thrown'',
     ''          if is_object(thrown) {'',
     ''            exception = \"Exception\"'',
     ''            thread, err = string(event.@thread)'',
     ''            if err == null && !is_empty(thread) {'',
     ''              exception = exception + \" in thread '' @ backslash @ ''\"\" + thread + \"'' @ backslash @ ''\"\"'',
     ''            }'',
     ''            thrown_name, err = string(thrown.@name)'',
     ''            if err == null && !is_empty(exception) {'',
     ''              exception = exception + \" \" + thrown_name'',
     ''            }'',
     ''            message = string(thrown.@localizedMessage) ??'',
     ''              string(thrown.@message) ??'',
     ''              \"\"'',
     ''            if !is_empty(message) {'',
     ''              exception = exception + \": \" + message'',
     ''            }'',
     ''            stacktrace_items = array(thrown.ExtendedStackTrace.ExtendedStackTraceItem) ?? []'',
     ''            stacktrace = \"\"'',
     ''            for_each(stacktrace_items) -> |_index, value| {'',
     ''              stacktrace = stacktrace + \"        \"'',
     ''              class = string(value.@class) ?? \"\"'',
     ''              method = string(value.@method) ?? \"\"'',
     ''              if !is_empty(class) && !is_empty(method) {'',
     ''                stacktrace = stacktrace + \"at \" + class + \".\" + method'',
     ''              }'',
     ''              file = string(value.@file) ?? \"\"'',
     ''              line = string(value.@line) ?? \"\"'',
     ''              if !is_empty(file) && !is_empty(line) {'',
     ''                stacktrace = stacktrace + \"(\" + file + \":\" + line + \")\"'',
     ''              }'',
     ''              exact = to_bool(value.@exact) ?? false'',
     ''              location = string(value.@location) ?? \"\"'',
     ''              version = string(value.@version) ?? \"\"'',
     ''              if !is_empty(location) && !is_empty(version) {'',
     ''                stacktrace = stacktrace + \" \"'',
     ''                if !exact {'',
     ''                  stacktrace = stacktrace + \"~\"'',
     ''                }'',
     ''                stacktrace = stacktrace + \"[\" + location + \":\" + version + \"]\"'',
     ''              }'',
     ''              stacktrace = stacktrace + \"'' @ backslash @ ''n\"'',
     ''            }'',
     ''            if stacktrace != \"\" {'',
     ''              exception = exception + \"'' @ backslash @ ''n\" + stacktrace'',
     ''            }'',
     ''          }'',
     [],
     ''          message, err = string(event.Message)'',
     ''          if err != null || is_empty(message) {'',
     ''            message = null'',
     ''            .errors = push(.errors, \"Message not found.\")'',
     ''          }'',
     ''          .message = join!(compact([message, exception]), \"'' @ backslash @ ''n\")'',
     ''        }'',
     ''      }'',
     []]"

definition vector_text_py :: "string list" where
  "vector_text_py =
    [''  processed_files_py:'',
     ''    inputs:'',
     ''      - files_py'',
     ''    type: remap'',
     ''    source: |'',
     ''      raw_message = string!(.message)'',
     [],
     ''      .timestamp = now()'',
     ''      .logger = \"\"'',
     ''      .level = \"INFO\"'',
     ''      .message = \"\"'',
     ''      .errors = []'',
     [],
     ''      parsed_event, err = parse_json(raw_message)'',
     ''      if err != null {'',
     ''        error = \"JSON not parsable: \" + err'',
     ''        .errors = push(.errors, error)'',
     ''        log(error, level: \"warn\")'',
     ''        .message = raw_message'',
     ''      } else if !is_object(parsed_event) {'',
     ''        error = \"Parsed event is not a JSON object.\"'',
     ''        .errors = push(.errors, error)'',
     ''        log(error, level: \"warn\")'',
     ''        .message = raw_message'',
     ''      } else {'',
     ''        event = object!(parsed_event)'',
     [],
     ''        asctime, err = string(event.asctime)'',
     ''        if err == null {'',
     ''          parsed_timestamp, err = parse_timestamp(asctime, \"%F %T,%3f\")'',
     ''          if err == null {'',
     ''            .timestamp = parsed_timestamp'',
     ''          } else {'',
     ''            .errors = push(.errors, \"Timestamp not parsable, using current time instead: \"+ err)'',
     ''          }'',
     ''        } else {'',
     ''          .errors = push(.errors, \"Timestamp not found, using current time instead.\")'',
     ''        }'',
     [],
     ''        .logger, err = string(event.name)'',
     ''        if err != null || is_empty(.logger) {'',
     ''          .errors = push(.errors, \"Logger not found.\")'',
     ''        }'',
     [],
     ''        level, err = string(event.levelname)'',
     ''        if err != null {'',
     ''          .errors = push(.errors, \"Level not found, using '' @ backslash @ ''\"\" + .level + \"'' @ backslash @ ''\" instead.\")'',
     ''        } else if level == \"DEBUG\" {'',
     ''          .level = \"DEBUG\"'',
     ''        } else if level == \"INFO\" {'',
     ''          .level = \"INFO\"'',
     ''        } else if level == \"WARNING\" {'',
     ''          .level = \"WARN\"'',
     ''        } else if level == \"ERROR\" {'',
     ''          .level = \"ERROR\"'',
     ''        } else if level == \"CRITICAL\" {'',
     ''          .level = \"FATAL\"'',
     ''        } else {'',
     ''          .errors = push(.errors, \"Level '' @ backslash @ ''\"\" + level + \"'' @ backslash @ ''\" unknown, using '' @ backslash @ ''\"\" + .level + \"'' @ backslash @ ''\" instead.\")'',
     ''        }'',
     [],
     ''        .message, err = string(event.message)'',
     ''        if err != null || is_empty(.message) {'',
     ''          .errors = push(.errors, \"Message not found.\")'',
     ''        }'',
     ''      }'',
     []]"

definition vector_text_airlift :: "string list" where
  "vector_text_airlift =
    [''  processed_files_airlift:'',
     ''    inputs:'',
     ''      - files_airlift'',
     ''    type: remap'',
     ''    source: |'',
     ''      raw_message = string!(.message)'',
     [],
     ''      .timestamp = now()'',
     ''      .logger = \"\"'',
     ''      .level = \"INFO\"'',
     ''      .message = \"\"'',
     ''      .errors = []'',
     [],
     ''      parsed_event, err = parse_json(raw_message)'',
     ''      if err != null {'',
     ''        error = \"JSON not parsable: \" + err'',
     ''        .errors = push(.errors, error)'',
     ''        log(error, level: \"warn\")'',
     ''        .message = raw_message'',
     ''      } else if !is_object(parsed_event) {'',
     ''        error = \"Parsed event is not a JSON object.\"'',
     ''        .errors = push(.errors, error)'',
     ''        log(error, level: \"warn\")'',
     ''        .message = raw_message'',
     ''      } else {'',
     ''        event = object!(parsed_event)'',
     [],
     ''        timestamp_string, err = string(event.timestamp)'',
     ''        if err == null {'',
     ''          parsed_timestamp, err = parse_timestamp(timestamp_string, \"%Y-%m-%dT%H:%M:%S.%fZ\")'',
     ''          if err == null {'',
     ''            .timestamp = parsed_timestamp'',
     ''          } else {'',
     ''            .errors = push(.errors, \"Timestamp not parsable, using current time instead: \" + err)'',
     ''          }'',
     ''        } else {'',
     ''          .errors = push(.errors, \"Timestamp not found, using current time instead.\")'',
     ''        }'',
     [],
     ''        .logger, err = string(event.logger)'',
     ''        if err != null || is_empty(.logger) {'',
     ''          .errors = push(.errors, \"Logger not found.\")'',
     ''        }'',
     [],
     ''        level, err = string(event.level)'',
     ''        if err != null {'',
     ''          .errors = push(.errors, \"Level not found, using '' @ backslash @ ''\"\" + .level + \"'' @ backslash @ ''\" instead.\")'',
     ''        } else if !includes([\"TRACE\", \"DEBUG\", \"INFO\", \"WARN\", \"ERROR\", \"FATAL\"], level) {'',
     ''          .errors = push(.errors, \"Level '' @ backslash @ ''\"\" + level + \"'' @ backslash @ ''\" unknown, using '' @ backslash @ ''\"\" + .level + \"'' @ backslash @ ''\" instead.\")'',
     ''        } else {'',
     ''          .level = level'',
     ''        }'',
     [],
     ''        .thread = string(parsed_event.thread) ?? null'',
     [],
     ''        .message, err = string(event.message)'',
     ''        if err != null || is_empty(.message) {'',
     ''          .errors = push(.errors, \"Message not found.\")'',
     ''        }'',
     ''        stacktrace = string(event.stackTrace) ?? \"\"'',
     ''        .message = join!(compact([.message, stacktrace]), \"'' @ backslash @ ''n'' @ backslash @ ''n\")'',
     ''      }'',
     []]"

definition vector_text_extended :: "string \<Rightarrow> string \<Rightarrow> string \<Rightarrow> string \<Rightarrow> string \<Rightarrow> string list" where
  "vector_text_extended filter_expression namespace cluster_name role_name role_group_name =
    [''  extended_logs_files:'',
     ''    inputs:'',
     ''      - processed_files_*'',
     ''    type: remap'',
     ''    source: |'',
     ''      del(.source_type)'',
     ''      if .errors == [] {'',
     ''        del(.errors)'',
     ''      }'',
     ''      . |= parse_regex!(.file, r'' @ quote @ ''^'' @ STACKABLE_LOG_DIR @ ''/(?P<container>.*?)/(?P<file>.*?)$'' @ quote @ '')'',
     [],
     ''  filtered_logs_vector:'',
     ''    inputs:'',
     ''      - vector'',
     ''    type: filter'',
     ''    condition: '' @ quote @ filter_expression @ quote,
     [],
     ''  extended_logs_vector:'',
     ''    inputs:'',
     ''      - filtered_logs_vector'',
     ''    type: remap'',
     ''    source: |'',
     ''      .container = \"vector\"'',
     ''      .level = .metadata.level'',
     ''      .logger = .metadata.module_path'',
     ''      if exists(.file) { .processed_file = del(.file) }'',
     ''      del(.metadata)'',
     ''      del(.pid)'',
     ''      del(.source_type)'',
     [],
     ''  extended_logs:'',
     ''    inputs:'',
     ''      - extended_logs_*'',
     ''    type: remap'',
     ''    source: |'',
     ''      .namespace = \"'' @ namespace @ ''\"'',
     ''      .cluster = \"'' @ cluster_name @ ''\"'',
     ''      .role = \"'' @ role_name @ ''\"'',
     ''      .roleGroup = \"'' @ role_group_name @ ''\"'',
     [],
     ''sinks:'',
     ''  aggregator:'',
     ''    inputs:'',
     ''      - extended_logs'',
     ''    type: vector'',
     ''    address: $'' @ VECTOR_AGGREGATOR_ENV_NAME]"

fun vector_log_level_filter_expression :: "log_level \<Rightarrow> string" where
  "vector_log_level_filter_expression TRACE = ''true''"
| "vector_log_level_filter_expression DEBUG = ''.metadata.level != \"TRACE\"''"
| "vector_log_level_filter_expression INFO = ''!includes([\"TRACE\", \"DEBUG\"], .metadata.level)''"
| "vector_log_level_filter_expression WARN = ''!includes([\"TRACE\", \"DEBUG\", \"INFO\"], .metadata.level)''"
| "vector_log_level_filter_expression ERROR = ''!includes([\"TRACE\", \"DEBUG\", \"INFO\", \"WARN\"], .metadata.level)''"
| "vector_log_level_filter_expression FATAL = ''false''"
| "vector_log_level_filter_expression NONE = ''false''"

text \<open>The namespace of \<open>role_group.cluster\<close> is an argument of its own.\<close>

definition create_vector_config :: "string option \<Rightarrow> role_group_ref \<Rightarrow> automatic_log_config option \<Rightarrow> string" where
  "create_vector_config namespace role_group config =
     (let vector_log_level = appender_level (Option.bind config al_file);
          filter_expression = vector_log_level_filter_expression vector_log_level
      in concat (map writeln
        (vector_text_sources @ vector_text_tracing_rs @ vector_text_opa_json @ vector_text_stdout @ vector_text_stderr @
         vector_text_log4j @ vector_text_log4j2 @ vector_text_py @ vector_text_airlift @
         vector_text_extended filter_expression (case namespace of Some n \<Rightarrow> n | None \<Rightarrow> [])
           (rgr_cluster_name role_group) (rgr_role role_group) (rgr_role_group role_group))))"

subsection \<open>The filter of the agent's own events\<close>

text \<open>
  What the condition means: the constants, or that the level of the event is none of the quoted ones.
\<close>

fun quoted :: "string \<Rightarrow> string list" where
  "quoted s =
     (case split_once (CHR 0x22) s of
        None \<Rightarrow> []
      | Some (_, t) \<Rightarrow> (case split_once (CHR 0x22) t of None \<Rightarrow> [] | Some (q, r) \<Rightarrow> q # (if length r < length s then quoted r else [])))"

declare quoted.simps [simp del]

definition passes_filter :: "string \<Rightarrow> string \<Rightarrow> bool" where
  "passes_filter expression level \<longleftrightarrow> expression = ''true'' \<or> expression \<noteq> ''false'' \<and> level \<notin> set (quoted expression)"

lemma quoted_expressions:
  "quoted (vector_log_level_filter_expression DEBUG) = [''TRACE'']"
  "quoted (vector_log_level_filter_expression INFO) = [''TRACE'', ''DEBUG'']"
  "quoted (vector_log_level_filter_expression WARN) = [''TRACE'', ''DEBUG'', ''INFO'']"
  "quoted (vector_log_level_filter_expression ERROR) = [''TRACE'', ''DEBUG'', ''INFO'', ''WARN'']"
  by code_simp+



end
