(* ===== verification/Vector_Transforms.thy ===== *)
theory Vector_Transforms
  imports Vector_Config
begin

section \<open>The log events\<close>

text \<open>
  What the programs in the configuration of the log agent (\<open>create_vector_config\<close> of
  \<open>product_logging/framework.rs\<close>) do with a line of a log file. They are written in the Vector Remap
  Language; its functions that parse or convert are arguments. An assignment \<open>x, err = f\<close> gives \<open>x\<close> the
  default of its type (the empty string or object, 0) when \<open>f\<close> fails, and a failing \<open>f!\<close> drops the event.
\<close>

subsection \<open>Values of the language\<close>

datatype vrl = VNull | VBool bool | VNumber string | VStr string | VArr "vrl list" | VObj "(string \<times> vrl) list"

record 'ts vrl_env =
  vrl_now :: 'ts
  vrl_parse_json :: "string \<Rightarrow> (vrl, string) result"
  vrl_parse_xml :: "string \<Rightarrow> (vrl, string) result"
  vrl_parse_timestamp :: "string \<Rightarrow> string \<Rightarrow> ('ts, string) result"
  vrl_from_unix_timestamp :: "int \<Rightarrow> string \<Rightarrow> ('ts, string) result"
  vrl_to_int :: "vrl \<Rightarrow> (int, string) result"
  vrl_to_bool :: "vrl \<Rightarrow> (bool, string) result"
  vrl_upcase :: "string \<Rightarrow> string"
  vrl_encode_key_value :: "(string \<times> vrl) list \<Rightarrow> string \<Rightarrow> string"

text \<open>A path into an object; what is not there is null.\<close>

definition vget :: "(string \<times> vrl) list \<Rightarrow> string \<Rightarrow> vrl" where
  "vget members k = (case map_of members k of Some v \<Rightarrow> v | None \<Rightarrow> VNull)"

fun vfield :: "vrl \<Rightarrow> string \<Rightarrow> vrl" where
  "vfield (VObj members) k = vget members k"
| "vfield _ k = VNull"

definition vdel :: "string \<Rightarrow> (string \<times> vrl) list \<Rightarrow> (string \<times> vrl) list" where
  "vdel k members = filter (\<lambda>(l, _). l \<noteq> k) members"

fun vstring :: "vrl \<Rightarrow> string option" where
  "vstring (VStr s) = Some s"
| "vstring _ = None"

fun vobject :: "vrl \<Rightarrow> (string \<times> vrl) list option" where
  "vobject (VObj members) = Some members"
| "vobject _ = None"

fun varray :: "vrl \<Rightarrow> vrl list option" where
  "varray (VArr vs) = Some vs"
| "varray _ = None"

text \<open>\<open>string(v) ?? ""\<close>\<close>

definition string_or_empty :: "vrl \<Rightarrow> string" where
  "string_or_empty v = (case vstring v of Some s \<Rightarrow> s | None \<Rightarrow> [])"

text \<open>\<open>join!(compact([...]), sep)\<close>: null and empty strings are left out.\<close>

definition join_compact :: "string \<Rightarrow> string option list \<Rightarrow> string" where
  "join_compact sep vs = join sep (filter (\<lambda>s. s \<noteq> []) (List.map_filter id vs))"

text \<open>Integers have 64 bits and wrap around.\<close>

definition wrap_i64 :: "int \<Rightarrow> int" where
  "wrap_i64 i = (i + 2 ^ 63) mod 2 ^ 64 - 2 ^ 63"

text \<open>An event, with the fields of a file source and those that the programs set.\<close>

record 'ts log_event =
  le_timestamp :: 'ts
  le_logger :: string
  le_level :: string
  le_message :: string
  le_errors :: "string list option"
  le_thread :: "string option"
  le_file :: string

definition push_error :: "string \<Rightarrow> 'ts log_event \<Rightarrow> 'ts log_event" where
  "push_error e ev = ev\<lparr>le_errors := Some ((case le_errors ev of Some es \<Rightarrow> es | None \<Rightarrow> []) @ [e])\<rparr>"

subsection \<open>Common parts\<close>

definition KNOWN_LEVELS :: "string list" where
  "KNOWN_LEVELS = [''TRACE'', ''DEBUG'', ''INFO'', ''WARN'', ''ERROR'', ''FATAL'']"

definition event_start :: "'ts vrl_env \<Rightarrow> 'ts log_event \<Rightarrow> 'ts log_event" where
  "event_start env ev = ev\<lparr>le_timestamp := vrl_now env, le_logger := [], le_level := ''INFO'', le_message := [], le_errors := Some []\<rparr>"

definition parsed_object ::
    "'ts vrl_env \<Rightarrow> ((string \<times> vrl) list \<Rightarrow> 'ts log_event \<Rightarrow> 'ts log_event) \<Rightarrow> 'ts log_event \<Rightarrow> 'ts log_event" where
  "parsed_object env body ev =
     (let raw_message = le_message ev; ev = event_start env ev in
      case vrl_parse_json env raw_message of
        Inl err \<Rightarrow> (push_error (''JSON not parsable: '' @ err) ev)\<lparr>le_message := raw_message\<rparr>
      | Inr parsed_event \<Rightarrow>
          (case vobject parsed_event of
             None \<Rightarrow> (push_error ''Parsed event is not a JSON object.'' ev)\<lparr>le_message := raw_message\<rparr>
           | Some event \<Rightarrow> body event ev))"

definition set_timestamp :: "('ts, string) result \<Rightarrow> string \<Rightarrow> 'ts log_event \<Rightarrow> 'ts log_event" where
  "set_timestamp r complaint ev =
     (case r of Inr ts \<Rightarrow> ev\<lparr>le_timestamp := ts\<rparr> | Inl err \<Rightarrow> push_error (complaint @ err) ev)"

definition set_logger :: "vrl \<Rightarrow> string \<Rightarrow> 'ts log_event \<Rightarrow> 'ts log_event" where
  "set_logger v complaint ev =
     (let ev = ev\<lparr>le_logger := string_or_empty v\<rparr> in if le_logger ev = [] then push_error complaint ev else ev)"

definition level_unknown :: "string \<Rightarrow> 'ts log_event \<Rightarrow> 'ts log_event" where
  "level_unknown level ev =
     push_error (''Level '' @ dquote @ level @ dquote @ '' unknown, using '' @ dquote @ le_level ev @ dquote @ '' instead.'') ev"

definition level_missing :: "'ts log_event \<Rightarrow> 'ts log_event" where
  "level_missing ev = push_error (''Level not found, using '' @ dquote @ le_level ev @ dquote @ '' instead.'') ev"

definition set_level :: "(string \<Rightarrow> string) \<Rightarrow> vrl \<Rightarrow> 'ts log_event \<Rightarrow> 'ts log_event" where
  "set_level convert v ev =
     (case vstring v of
        None \<Rightarrow> level_missing ev
      | Some level \<Rightarrow>
          if convert level \<notin> set KNOWN_LEVELS then level_unknown level ev else ev\<lparr>le_level := convert level\<rparr>)"

definition set_message :: "vrl \<Rightarrow> 'ts log_event \<Rightarrow> 'ts log_event" where
  "set_message v ev =
     (let ev = ev\<lparr>le_message := string_or_empty v\<rparr> in if le_message ev = [] then push_error ''Message not found.'' ev else ev)"

subsection \<open>The formats\<close>

definition processed_files_tracing_rs :: "'ts vrl_env \<Rightarrow> 'ts log_event \<Rightarrow> 'ts log_event" where
  "processed_files_tracing_rs env = parsed_object env (\<lambda>event ev.
     let ev = (case vstring (vget event ''timestamp'') of
                 Some timestamp_string \<Rightarrow>
                   set_timestamp (vrl_parse_timestamp env timestamp_string ''%+'') ''Timestamp not parsable, trying current time instead: '' ev
               | None \<Rightarrow> ev);
         ev = set_logger (vget event ''target'') ''Logger/target not found.'' ev;
         ev = set_level (vrl_upcase env) (vget event ''level'') ev;
         (members, ev) = (case vobject (vget event ''fields'') of
                           Some members \<Rightarrow> (members, ev)
                         | None \<Rightarrow> ([], push_error ''Fields are not an object.'' ev));
         ev = set_message (vget members ''message'') ev;
         other_fields = vrl_encode_key_value env (vdel ''message'' members) newline
     in ev\<lparr>le_message := join_compact (newline @ newline) [Some (le_message ev), Some other_fields]\<rparr>)"

definition processed_files_opa_json :: "'ts vrl_env \<Rightarrow> 'ts log_event \<Rightarrow> 'ts log_event" where
  "processed_files_opa_json env = parsed_object env (\<lambda>event ev.
     let (property_timestamp_valid, ev) =
           (case vstring (vget event ''timestamp'') of
              Some timestamp_string \<Rightarrow>
                (case vrl_parse_timestamp env timestamp_string ''%Y-%m-%dT%H:%M:%S.%fZ'' of
                   Inr parsed_timestamp \<Rightarrow> (True, ev\<lparr>le_timestamp := parsed_timestamp\<rparr>)
                 | Inl err \<Rightarrow> (False, push_error (''Timestamp not parsable, trying property time instead: '' @ err) ev))
            | None \<Rightarrow> (False, ev));
         ev = (if property_timestamp_valid then ev
               else case vstring (vget event ''time'') of
                 Some time_string \<Rightarrow>
                   set_timestamp (vrl_parse_timestamp env time_string ''%Y-%m-%dT%H:%M:%SZ'') ''Time not parsable, using current time instead: '' ev
               | None \<Rightarrow> push_error ''Time not found, using current time instead.'' ev);
         ev = set_logger (vget event ''logger'') ''Logger not found.'' ev;
         ev = set_level (vrl_upcase env) (vget event ''level'') ev;
         ev = set_message (vget event ''msg'') ev;
         event = vdel ''msg'' (vdel ''level'' (vdel ''timestamp'' (vdel ''time'' event)));
         other_fields = vrl_encode_key_value env event newline
     in ev\<lparr>le_message := join_compact (newline @ newline) [Some (le_message ev), Some other_fields]\<rparr>)"

definition processed_files_stdout :: "'ts log_event \<Rightarrow> 'ts log_event" where
  "processed_files_stdout ev = ev\<lparr>le_logger := ''ROOT'', le_level := ''INFO''\<rparr>"

definition processed_files_stderr :: "'ts log_event \<Rightarrow> 'ts log_event" where
  "processed_files_stderr ev = ev\<lparr>le_logger := ''ROOT'', le_level := ''ERROR''\<rparr>"

definition processed_files_log4j :: "'ts vrl_env \<Rightarrow> 'ts log_event \<Rightarrow> 'ts log_event option" where
  "processed_files_log4j env ev =
     (let raw_message = le_message ev; ev = event_start env ev;
          wrapped_xml_event = ''<root xmlns:log4j='' @ dquote @ ''http://jakarta.apache.org/log4j/'' @ dquote @ ''>'' @ raw_message @ ''</root>''
      in
      case vrl_parse_xml env wrapped_xml_event of
        Inl err \<Rightarrow> Some ((push_error (''XML not parsable: '' @ err) ev)\<lparr>le_message := raw_message\<rparr>)
      | Inr parsed_event \<Rightarrow>
          Option.bind (vobject (vfield parsed_event ''root'')) (\<lambda>root.
          case vobject (vget root ''event'') of
            None \<Rightarrow> Some ((push_error (''Parsed event contains no '' @ dquote @ ''event'' @ dquote @ '' tag.'') ev)\<lparr>le_message := raw_message\<rparr>)
          | Some event \<Rightarrow>
              let ev = (if map fst root \<noteq> [''event'']
                        then push_error (''Parsed event contains multiple tags: '' @ join '', '' (map fst root)) ev else ev);
                  ev = (case vrl_to_int env (vget event ''@timestamp'') of
                          Inr epoch_milliseconds \<Rightarrow>
                            if epoch_milliseconds \<noteq> 0
                            then set_timestamp (vrl_from_unix_timestamp env epoch_milliseconds ''milliseconds'') ''Time not parsable, using current time instead: '' ev
                            else push_error ''Timestamp not found, using current time instead.'' ev
                        | Inl err \<Rightarrow> push_error ''Timestamp not found, using current time instead.'' ev);
                  ev = set_logger (vget event ''@logger'') ''Logger not found.'' ev;
                  ev = set_level id (vget event ''@level'') ev;
                  message = string_or_empty (vget event ''message'');
                  ev = (if message = [] then push_error ''Message not found.'' ev else ev);
                  throwable = string_or_empty (vget event ''throwable'')
              in Some (ev\<lparr>le_message := join_compact newline [Some message, Some throwable]\<rparr>)))"

definition stacktrace_item :: "'ts vrl_env \<Rightarrow> vrl \<Rightarrow> string" where
  "stacktrace_item env value =
     (let class = string_or_empty (vfield value ''@class''); method = string_or_empty (vfield value ''@method'');
          file = string_or_empty (vfield value ''@file''); line = string_or_empty (vfield value ''@line'');
          exact = (case vrl_to_bool env (vfield value ''@exact'') of Inr b \<Rightarrow> b | Inl _ \<Rightarrow> False);
          location = string_or_empty (vfield value ''@location''); version = string_or_empty (vfield value ''@version'')
      in ''        '' @
         (if class \<noteq> [] \<and> method \<noteq> [] then ''at '' @ class @ ''.'' @ method else []) @
         (if file \<noteq> [] \<and> line \<noteq> [] then ''('' @ file @ '':'' @ line @ '')'' else []) @
         (if location \<noteq> [] \<and> version \<noteq> [] then '' '' @ (if exact then [] else ''~'') @ ''['' @ location @ '':'' @ version @ '']'' else []) @
         newline)"

definition exception_text :: "'ts vrl_env \<Rightarrow> (string \<times> vrl) list \<Rightarrow> string option" where
  "exception_text env event =
     (let thrown = vget event ''Thrown'' in
      if vobject thrown = None then None
      else
        let thread = string_or_empty (vget event ''@thread'');
            exception = ''Exception'' @ (if thread \<noteq> [] then '' in thread '' @ dquote @ thread @ dquote else []);
            exception = exception @ (case vstring (vfield thrown ''@name'') of Some thrown_name \<Rightarrow> '' '' @ thrown_name | None \<Rightarrow> []);
            message = (case vstring (vfield thrown ''@localizedMessage'') of Some m \<Rightarrow> m | None \<Rightarrow> string_or_empty (vfield thrown ''@message''));
            exception = exception @ (if message \<noteq> [] then '': '' @ message else []);
            stacktrace_items = (case varray (vfield (vfield thrown ''ExtendedStackTrace'') ''ExtendedStackTraceItem'') of Some items \<Rightarrow> items | None \<Rightarrow> []);
            stacktrace = concat (map (stacktrace_item env) stacktrace_items)
        in Some (if stacktrace \<noteq> [] then exception @ newline @ stacktrace else exception))"

definition processed_files_log4j2 :: "'ts vrl_env \<Rightarrow> 'ts log_event \<Rightarrow> 'ts log_event" where
  "processed_files_log4j2 env ev =
     (let raw_message = le_message ev; ev = event_start env ev in
      case vrl_parse_xml env raw_message of
        Inl err \<Rightarrow> (push_error (''XML not parsable: '' @ err) ev)\<lparr>le_message := raw_message\<rparr>
      | Inr parsed_event \<Rightarrow>
          (case vobject (vfield parsed_event ''Event'') of
            None \<Rightarrow> (push_error (''Parsed event contains no '' @ dquote @ ''Event'' @ dquote @ '' tag.'') ev)\<lparr>le_message := raw_message\<rparr>
          | Some event \<Rightarrow>
              let (tag_instant_valid, ev) =
                    (case vobject (vget event ''Instant'') of
                       None \<Rightarrow> (False, ev)
                     | Some instant \<Rightarrow>
                         (case and_then (vrl_to_int env (vget instant ''@epochSecond'')) (\<lambda>secs.
                               and_then (vrl_to_int env (vget instant ''@nanoOfSecond'')) (\<lambda>nanos.
                               Inr (wrap_i64 (wrap_i64 (secs * 1000000000) + nanos)))) of
                            Inl err \<Rightarrow> (False, push_error (''Instant invalid, trying property timeMillis instead: '' @ err) ev)
                          | Inr epoch_nanoseconds \<Rightarrow>
                              if epoch_nanoseconds = 0 then (False, push_error ''Instant invalid, trying property timeMillis instead: '' ev)
                              else (case vrl_from_unix_timestamp env epoch_nanoseconds ''nanoseconds'' of
                                 Inr converted_timestamp \<Rightarrow> (True, ev\<lparr>le_timestamp := converted_timestamp\<rparr>)
                               | Inl err \<Rightarrow> (False, push_error (''Instant invalid, trying property timeMillis instead: '' @ err) ev))));
                  ev = (if tag_instant_valid then ev
                        else case vrl_to_int env (vget event ''@timeMillis'') of
                          Inl err \<Rightarrow> push_error (''timeMillis not parsable, using current time instead: '' @ err) ev
                        | Inr epoch_milliseconds \<Rightarrow>
                            if epoch_milliseconds = 0 then push_error ''timeMillis not parsable, using current time instead: '' ev
                            else set_timestamp (vrl_from_unix_timestamp env epoch_milliseconds ''milliseconds'')
                              ''timeMillis not parsable, using current time instead: '' ev);
                  ev = set_logger (vget event ''@loggerName'') ''Logger not found.'' ev;
                  ev = set_level id (vget event ''@level'') ev;
                  exception = exception_text env event;
                  message = string_or_empty (vget event ''Message'');
                  ev = (if message = [] then push_error ''Message not found.'' ev else ev)
              in ev\<lparr>le_message := join_compact newline [Some message, exception]\<rparr>))"

definition set_python_level :: "vrl \<Rightarrow> 'ts log_event \<Rightarrow> 'ts log_event" where
  "set_python_level v ev =
     (case vstring v of
        None \<Rightarrow> level_missing ev
      | Some level \<Rightarrow>
          if level = ''DEBUG'' then ev\<lparr>le_level := ''DEBUG''\<rparr>
          else if level = ''INFO'' then ev\<lparr>le_level := ''INFO''\<rparr>
          else if level = ''WARNING'' then ev\<lparr>le_level := ''WARN''\<rparr>
          else if level = ''ERROR'' then ev\<lparr>le_level := ''ERROR''\<rparr>
          else if level = ''CRITICAL'' then ev\<lparr>le_level := ''FATAL''\<rparr>
          else level_unknown level ev)"

definition processed_files_py :: "'ts vrl_env \<Rightarrow> 'ts log_event \<Rightarrow> 'ts log_event" where
  "processed_files_py env = parsed_object env (\<lambda>event ev.
     let ev = (case vstring (vget event ''asctime'') of
                 Some asctime \<Rightarrow> set_timestamp (vrl_parse_timestamp env asctime ''%F %T,%3f'') ''Timestamp not parsable, using current time instead: '' ev
               | None \<Rightarrow> push_error ''Timestamp not found, using current time instead.'' ev);
         ev = set_logger (vget event ''name'') ''Logger not found.'' ev;
         ev = set_python_level (vget event ''levelname'') ev
     in set_message (vget event ''message'') ev)"

definition processed_files_airlift :: "'ts vrl_env \<Rightarrow> 'ts log_event \<Rightarrow> 'ts log_event" where
  "processed_files_airlift env = parsed_object env (\<lambda>event ev.
     let ev = (case vstring (vget event ''timestamp'') of
                 Some timestamp_string \<Rightarrow>
                   set_timestamp (vrl_parse_timestamp env timestamp_string ''%Y-%m-%dT%H:%M:%S.%fZ'') ''Timestamp not parsable, using current time instead: '' ev
               | None \<Rightarrow> push_error ''Timestamp not found, using current time instead.'' ev);
         ev = set_logger (vget event ''logger'') ''Logger not found.'' ev;
         ev = set_level id (vget event ''level'') ev;
         ev = ev\<lparr>le_thread := vstring (vget event ''thread'')\<rparr>;
         ev = set_message (vget event ''message'') ev;
         stacktrace = string_or_empty (vget event ''stackTrace'')
     in ev\<lparr>le_message := join_compact (newline @ newline) [Some (le_message ev), Some stacktrace]\<rparr>)"

subsection \<open>From the file to the aggregator\<close>

record 'ts shipped_event = "'ts log_event" +
  se_container :: string
  se_namespace :: string
  se_cluster :: string
  se_role :: string
  se_role_group :: string

text \<open>
  The regular expression takes the shortest container, which ends at the first slash, and the rest as
  the file; its dots match no line break.
\<close>

definition parse_log_path :: "string \<Rightarrow> (string \<times> string) option" where
  "parse_log_path path =
     (let prefix = STACKABLE_LOG_DIR @ ''/'' in
      if take (length prefix) path = prefix \<and> CHR 0x0A \<notin> set (drop (length prefix) path)
      then split_once (CHR ''/'') (drop (length prefix) path) else None)"

definition extended_logs_files :: "'ts log_event \<Rightarrow> (string \<times> 'ts log_event) option" where
  "extended_logs_files ev =
     (let ev = (if le_errors ev = Some [] then ev\<lparr>le_errors := None\<rparr> else ev) in
      map_option (\<lambda>(container, file). (container, ev\<lparr>le_file := file\<rparr>)) (parse_log_path (le_file ev)))"

definition extended_logs :: "string \<Rightarrow> role_group_ref \<Rightarrow> string \<times> 'ts log_event \<Rightarrow> 'ts shipped_event" where
  "extended_logs namespace role_group cev =
     log_event.extend (snd cev) \<lparr>se_container = fst cev, se_namespace = namespace, se_cluster = rgr_cluster_name role_group,
       se_role = rgr_role role_group, se_role_group = rgr_role_group role_group\<rparr>"

datatype log_format = TracingRs | OpaJson | Stdout | Stderr | Log4j | Log4j2 | Py | Airlift

fun processed_files :: "'ts vrl_env \<Rightarrow> log_format \<Rightarrow> 'ts log_event \<Rightarrow> 'ts log_event option" where
  "processed_files env TracingRs ev = Some (processed_files_tracing_rs env ev)"
| "processed_files env OpaJson ev = Some (processed_files_opa_json env ev)"
| "processed_files env Stdout ev = Some (processed_files_stdout ev)"
| "processed_files env Stderr ev = Some (processed_files_stderr ev)"
| "processed_files env Log4j ev = processed_files_log4j env ev"
| "processed_files env Log4j2 ev = Some (processed_files_log4j2 env ev)"
| "processed_files env Py ev = Some (processed_files_py env ev)"
| "processed_files env Airlift ev = Some (processed_files_airlift env ev)"

definition ship :: "'ts vrl_env \<Rightarrow> string \<Rightarrow> role_group_ref \<Rightarrow> log_format \<Rightarrow> 'ts log_event \<Rightarrow> 'ts shipped_event option" where
  "ship env namespace role_group format ev =
     Option.bind (processed_files env format ev) (\<lambda>ev. map_option (extended_logs namespace role_group) (extended_logs_files ev))"

subsection \<open>What every program keeps\<close>

definition known_level :: "'ts log_event \<Rightarrow> bool" where
  "known_level ev \<longleftrightarrow> le_level ev \<in> set KNOWN_LEVELS"

definition no_errors :: "'ts log_event \<Rightarrow> bool" where
  "no_errors ev \<longleftrightarrow> le_errors ev = Some []"

named_theorems step_simps \<open>effects of the common parts\<close>

lemma push_error_steps [step_simps]:
  "\<not> no_errors (push_error e ev)" "le_errors (push_error e ev) \<noteq> None" "known_level (push_error e ev) = known_level ev"
  "le_logger (push_error e ev) = le_logger ev" "le_message (push_error e ev) = le_message ev" "le_file (push_error e ev) = le_file ev"
  "le_timestamp (push_error e ev) = le_timestamp ev"
  by (simp_all add: push_error_def no_errors_def known_level_def)

lemma update_steps [step_simps]:
  "no_errors (ev\<lparr>le_timestamp := t\<rparr>) = no_errors ev" "known_level (ev\<lparr>le_timestamp := t\<rparr>) = known_level ev"
  "no_errors (ev\<lparr>le_message := m\<rparr>) = no_errors ev" "known_level (ev\<lparr>le_message := m\<rparr>) = known_level ev"
  "no_errors (ev\<lparr>le_thread := th\<rparr>) = no_errors ev" "known_level (ev\<lparr>le_thread := th\<rparr>) = known_level ev"
  by (simp_all add: no_errors_def known_level_def)

lemma set_timestamp_steps [step_simps]:
  "no_errors (set_timestamp r c ev) \<longleftrightarrow> no_errors ev \<and> is_ok r" "le_errors ev \<noteq> None \<Longrightarrow> le_errors (set_timestamp r c ev) \<noteq> None"
  "known_level (set_timestamp r c ev) = known_level ev" "le_logger (set_timestamp r c ev) = le_logger ev"
  "le_message (set_timestamp r c ev) = le_message ev" "le_file (set_timestamp r c ev) = le_file ev"
  by (cases r; simp add: set_timestamp_def step_simps)+

lemma set_logger_steps [step_simps]:
  "no_errors (set_logger v c ev) \<longleftrightarrow> no_errors ev \<and> string_or_empty v \<noteq> []" "le_errors ev \<noteq> None \<Longrightarrow> le_errors (set_logger v c ev) \<noteq> None"
  "known_level (set_logger v c ev) = known_level ev" "le_logger (set_logger v c ev) = string_or_empty v"
  "le_message (set_logger v c ev) = le_message ev" "le_file (set_logger v c ev) = le_file ev"
  by (simp_all add: set_logger_def Let_def push_error_def no_errors_def known_level_def)

lemma set_level_steps:
  "no_errors (set_level conv v ev) \<Longrightarrow> no_errors ev" "le_errors ev \<noteq> None \<Longrightarrow> le_errors (set_level conv v ev) \<noteq> None"
  "known_level ev \<Longrightarrow> known_level (set_level conv v ev)" "le_logger (set_level conv v ev) = le_logger ev"
  "le_message (set_level conv v ev) = le_message ev" "le_file (set_level conv v ev) = le_file ev"
  by (auto simp: set_level_def level_missing_def level_unknown_def push_error_def no_errors_def known_level_def split: option.splits if_splits)

lemma set_python_level_steps:
  "no_errors (set_python_level v ev) \<Longrightarrow> no_errors ev" "le_errors ev \<noteq> None \<Longrightarrow> le_errors (set_python_level v ev) \<noteq> None"
  "known_level ev \<Longrightarrow> known_level (set_python_level v ev)" "le_logger (set_python_level v ev) = le_logger ev"
  "le_message (set_python_level v ev) = le_message ev" "le_file (set_python_level v ev) = le_file ev"
  by (auto simp: set_python_level_def level_missing_def level_unknown_def push_error_def no_errors_def known_level_def KNOWN_LEVELS_def
      split: option.splits if_splits)

lemmas [step_simps] = set_level_steps(2-) set_python_level_steps(2-)

lemma set_message_steps [step_simps]:
  "no_errors (set_message v ev) \<longleftrightarrow> no_errors ev \<and> string_or_empty v \<noteq> []" "le_errors ev \<noteq> None \<Longrightarrow> le_errors (set_message v ev) \<noteq> None"
  "known_level (set_message v ev) = known_level ev" "le_logger (set_message v ev) = le_logger ev"
  "le_message (set_message v ev) = string_or_empty v" "le_file (set_message v ev) = le_file ev"
  by (simp_all add: set_message_def Let_def push_error_def no_errors_def known_level_def)

lemma join_compact_not_Nil [step_simps]: "a \<noteq> [] \<Longrightarrow> join_compact sep (Some a # xs) \<noteq> []"
  by (simp add: join_compact_def List.map_filter_simps join_eq_Nil)

text \<open>
  The stages of a program: the level is a known one and errors are collected; the logger is there
  unless an error says so; and so is the message.
\<close>

definition started :: "string \<Rightarrow> 'ts log_event \<Rightarrow> bool" where
  "started path ev \<longleftrightarrow> known_level ev \<and> le_errors ev \<noteq> None \<and> le_file ev = path"

definition logger_set :: "string \<Rightarrow> 'ts log_event \<Rightarrow> bool" where
  "logger_set path ev \<longleftrightarrow> started path ev \<and> (no_errors ev \<longrightarrow> le_logger ev \<noteq> [])"

definition sound_event :: "string \<Rightarrow> 'ts log_event \<Rightarrow> bool" where
  "sound_event path ev \<longleftrightarrow> logger_set path ev \<and> (no_errors ev \<longrightarrow> le_message ev \<noteq> [])"

named_theorems stages \<open>how the parts of a program lead from stage to stage\<close>

lemma started_stages [stages]:
  "started (le_file ev) (event_start env ev)"
  "started path ev \<Longrightarrow> started path (push_error e ev)"
  "started path ev \<Longrightarrow> started path (set_timestamp r c ev)"
  "started path ev \<Longrightarrow> started path (ev\<lparr>le_timestamp := t\<rparr>)"
  by (simp_all add: started_def step_simps) (simp_all add: event_start_def known_level_def KNOWN_LEVELS_def)

lemma logger_stages [stages]:
  "started path ev \<Longrightarrow> logger_set path (set_logger v c ev)"
  "logger_set path ev \<Longrightarrow> logger_set path (push_error e ev)"
  "logger_set path ev \<Longrightarrow> logger_set path (ev\<lparr>le_thread := t\<rparr>)"
  by (simp_all add: logger_set_def started_def step_simps)

lemma level_stages [stages]:
  assumes "logger_set path ev"
  shows "logger_set path (set_level conv v ev)" "logger_set path (set_python_level v ev)"
  using assms set_level_steps(1) [of conv v ev] set_python_level_steps(1) [of v ev]
  by (auto simp: logger_set_def started_def step_simps)

lemma message_stages [stages]:
  "logger_set path ev \<Longrightarrow> sound_event path (set_message v ev)"
  "started path ev \<Longrightarrow> sound_event path ((push_error e ev)\<lparr>le_message := raw\<rparr>)"
  by (simp_all add: sound_event_def logger_set_def started_def step_simps)

lemma joined_stages [stages]:
  "sound_event path ev \<Longrightarrow> sound_event path (ev\<lparr>le_message := join_compact sep [Some (le_message ev), x]\<rparr>)"
  "logger_set path ev \<Longrightarrow> sound_event path
     ((if m = [] then push_error e ev else ev)\<lparr>le_message := join_compact sep [Some m, x]\<rparr>)"
  by (cases "m = []"; simp add: sound_event_def logger_set_def started_def step_simps del: not_None_eq)+

lemma parsed_object_sound:
  assumes "\<And>event ev'. started (le_file ev) ev' \<Longrightarrow> sound_event (le_file ev) (body event ev')"
  shows "sound_event (le_file ev) (parsed_object env body ev)"
  using assms started_stages(1) [of ev env] message_stages(2)
  by (auto simp: parsed_object_def Let_def split: sum.splits option.splits)

lemma case_stages [stages]:
  "started path a \<Longrightarrow> (\<And>x. started path (b x)) \<Longrightarrow> started path (case_option a b opt)"
  "(\<And>e. started path (f e)) \<Longrightarrow> (\<And>x. started path (g x)) \<Longrightarrow> started path (case_sum f g r)"
  "started path u \<Longrightarrow> started path v \<Longrightarrow> started path (if c then u else v)"
  by (auto split: option.splits sum.splits)

text \<open>A program that goes on with a pair.\<close>

lemma pair_stages [stages]:
  "sound_event path (case_prod F a) \<Longrightarrow> (\<And>x. sound_event path (case_prod F (b x))) \<Longrightarrow> sound_event path (case_prod F (case_option a b opt))"
  "(\<And>e. sound_event path (case_prod F (f e))) \<Longrightarrow> (\<And>x. sound_event path (case_prod F (g x))) \<Longrightarrow> sound_event path (case_prod F (case_sum f g r))"
  "sound_event path (case_prod F u) \<Longrightarrow> sound_event path (case_prod F v) \<Longrightarrow> sound_event path (case_prod F (if c then u else v))"
  "sound_event path (F x y) \<Longrightarrow> sound_event path (case_prod F (x, y))"
  by (auto split: option.splits sum.splits)

lemma tracing_rs_sound: "sound_event (le_file ev) (processed_files_tracing_rs env ev)"
  unfolding processed_files_tracing_rs_def Let_def by (intro parsed_object_sound stages)

lemma opa_json_sound: "sound_event (le_file ev) (processed_files_opa_json env ev)"
  unfolding processed_files_opa_json_def Let_def by (intro parsed_object_sound stages)

lemma py_sound: "sound_event (le_file ev) (processed_files_py env ev)"
  unfolding processed_files_py_def Let_def by (intro parsed_object_sound stages)

lemma airlift_sound: "sound_event (le_file ev) (processed_files_airlift env ev)"
  unfolding processed_files_airlift_def Let_def by (intro parsed_object_sound stages)

lemma sound_case_stages [stages]:
  "sound_event path a \<Longrightarrow> (\<And>x. sound_event path (b x)) \<Longrightarrow> sound_event path (case_option a b opt)"
  "(\<And>e. sound_event path (f e)) \<Longrightarrow> (\<And>x. sound_event path (g x)) \<Longrightarrow> sound_event path (case_sum f g r)"
  by (auto split: option.splits sum.splits)

lemma log4j2_sound: "sound_event (le_file ev) (processed_files_log4j2 env ev)"
  unfolding processed_files_log4j2_def Let_def by (intro stages)

text \<open>The XML parser returns the element that was parsed.\<close>

definition xml_root_law :: "'ts vrl_env \<Rightarrow> bool" where
  "xml_root_law env \<longleftrightarrow> (\<forall>raw parsed.
     vrl_parse_xml env (''<root xmlns:log4j='' @ dquote @ ''http://jakarta.apache.org/log4j/'' @ dquote @ ''>'' @ raw @ ''</root>'') = Inr parsed \<longrightarrow>
     vobject (vfield parsed ''root'') \<noteq> None)"

lemma log4j_sound:
  assumes "xml_root_law env"
  shows "\<exists>ev'. processed_files_log4j env ev = Some ev' \<and> sound_event (le_file ev) ev'"
proof -
  let ?xml = "''<root xmlns:log4j='' @ dquote @ ''http://jakarta.apache.org/log4j/'' @ dquote @ ''>'' @ le_message ev @ ''</root>''"
  show ?thesis
  proof (cases "vrl_parse_xml env ?xml")
    case (Inl err)
    then show ?thesis unfolding processed_files_log4j_def Let_def by (auto intro!: stages)
  next
    case (Inr parsed)
    then obtain root where root: "vobject (vfield parsed ''root'') = Some root"
      using assms unfolding xml_root_law_def by blast
    show ?thesis
    proof (cases "vobject (vget root ''event'')")
      case None
      then show ?thesis unfolding processed_files_log4j_def Let_def Inr sum.case root
        by (auto intro!: stages)
    next
      case (Some event)
      have "sound_event (le_file ev) (the (processed_files_log4j env ev)) \<and> processed_files_log4j env ev \<noteq> None"
        unfolding processed_files_log4j_def Let_def Inr sum.case root Option.bind.simps Some option.case option.sel
        by (intro conjI stages) simp
      then show ?thesis by auto
    qed
  qed
qed

subsection \<open>Events reach the aggregator\<close>

lemma parse_log_path:
  assumes "CHR ''/'' \<notin> set c" "CHR 0x0A \<notin> set c" "CHR 0x0A \<notin> set f"
  shows "parse_log_path (STACKABLE_LOG_DIR @ ''/'' @ c @ ''/'' @ f) = Some (c, f)"
  using assms by (simp add: parse_log_path_def Let_def logging_constants)

lemma processed_files_sound:
  assumes "xml_root_law env" "format \<notin> {Stdout, Stderr}"
  shows "\<exists>ev'. processed_files env format ev = Some ev' \<and> sound_event (le_file ev) ev'"
  using assms(2) log4j_sound [OF assms(1), of ev] tracing_rs_sound opa_json_sound log4j2_sound py_sound airlift_sound
  by (cases format) auto


definition demo_env :: "nat vrl_env" where
  "demo_env = \<lparr>vrl_now = 0, vrl_parse_json = \<lambda>s. if s = ''{}'' then Inr (VObj []) else Inl ''eof'', vrl_parse_xml = \<lambda>_. Inl ''no xml'',
     vrl_parse_timestamp = \<lambda>_ _. Inl ''bad'', vrl_from_unix_timestamp = \<lambda>_ _. Inr 1, vrl_to_int = \<lambda>_. Inl ''no int'', vrl_to_bool = \<lambda>_. Inr True,
     vrl_upcase = id, vrl_encode_key_value = \<lambda>_ _. []\<rparr>"


text \<open>
  A missing time is reported by every program but that for \<open>tracing\<close>: its event is stamped with the
  current time, without an error.
\<close>

lemma missing_timestamp_reported:
  assumes "vrl_parse_json env (le_message ev) = Inr (VObj event)" "vget event ''timestamp'' = VNull" "vget event ''time'' = VNull" "vget event ''asctime'' = VNull"
  shows "\<not> no_errors (processed_files_opa_json env ev)" "\<not> no_errors (processed_files_py env ev)" "\<not> no_errors (processed_files_airlift env ev)"
  using assms
  by (auto simp: processed_files_opa_json_def processed_files_py_def processed_files_airlift_def parsed_object_def Let_def step_simps
      dest!: set_level_steps(1) set_python_level_steps(1))

lemma missing_timestamp_unreported:
  assumes "vrl_parse_json env (le_message ev) = Inr (VObj event)" "vget event ''timestamp'' = VNull"
    and "vget event ''target'' = VStr t" "t \<noteq> []" "vget event ''level'' = VStr l" "vrl_upcase env l \<in> set KNOWN_LEVELS"
    and "vget event ''fields'' = VObj fs" "vget fs ''message'' = VStr m" "m \<noteq> []"
  shows "no_errors (processed_files_tracing_rs env ev) \<and> le_timestamp (processed_files_tracing_rs env ev) = vrl_now env"
  using assms by (simp add: processed_files_tracing_rs_def parsed_object_def Let_def set_logger_def set_level_def set_message_def
      string_or_empty_def event_start_def no_errors_def)

end
