(* ===== verification/Database_Connections.thy ===== *)
theory Database_Connections
  imports Connections Annotations
begin

section \<open>Database connections\<close>

text \<open>
  \<open>database_connections\<close>: the connection URLs of JDBC, SQLAlchemy and Celery for PostgreSQL, MySQL,
  Derby, Redis and the generic connections, and the environment variables that carry the credentials.
  The parser of the \<open>url\<close> crate is an argument. The names of databases are upper-cased for the names of
  the variables; \<open>str::to_uppercase\<close> is modelled for ASCII, which the interface asks for.
\<close>

subsection \<open>Helpers\<close>

datatype templating_mechanism = ConfigUtils | BashEnvSubstitution

definition templating_mechanism_default :: templating_mechanism where
  "templating_mechanism_default = ConfigUtils"

text \<open>\<open>Option::iter\<close>\<close>

fun option_iter :: "'a option \<Rightarrow> 'a list" where
  "option_iter None = []"
| "option_iter (Some a) = [a]"

definition to_ascii_uppercase :: "string \<Rightarrow> string" where
  "to_ascii_uppercase s = map (\<lambda>c. if is_lower c then char_of ((of_char c :: nat) - 32) else c) s"

definition username_and_password_env_names :: "string \<Rightarrow> string \<times> string" where
  "username_and_password_env_names unique_database_name =
     (let env_name_prefix = to_ascii_uppercase unique_database_name @ ''_DATABASE''
      in (env_name_prefix @ ''_USERNAME'', env_name_prefix @ ''_PASSWORD''))"

definition username_and_password_envs :: "string \<Rightarrow> string \<Rightarrow> env_var \<times> env_var" where
  "username_and_password_envs unique_database_name credentials_secret_name =
     (let (username_env_name, password_env_name) = username_and_password_env_names unique_database_name
      in (env_var_with_value_from_secret username_env_name credentials_secret_name ''username'',
          env_var_with_value_from_secret password_env_name credentials_secret_name ''password''))"

definition connection_parameters_as_url_query_parameters :: "(string, string) btreemap \<Rightarrow> string option" where
  "connection_parameters_as_url_query_parameters parameters =
     (if parameters = [] then None else Some (''?'' @ join ''&'' (map (\<lambda>(k, v). k @ ''='' @ v) parameters)))"

abbreviation query_or_default :: "(string, string) btreemap \<Rightarrow> string" where
  "query_or_default parameters \<equiv> (case connection_parameters_as_url_query_parameters parameters of Some q \<Rightarrow> q | None \<Rightarrow> [])"

subsection \<open>Drivers\<close>

record 'u jdbc_details =
  jdbc_driver :: string
  jdbc_connection_url :: 'u
  jdbc_username_env :: "env_var option"
  jdbc_password_env :: "env_var option"

definition jdbc_add_to_container :: "'u jdbc_details \<Rightarrow> container_builder \<Rightarrow> container_builder" where
  "jdbc_add_to_container self cb =
     add_env_vars (option_iter (jdbc_username_env self) @ option_iter (jdbc_password_env self)) cb"

record sqlalchemy_details =
  sa_url_template :: string
  sa_username_env :: "env_var option"
  sa_password_env :: "env_var option"
  sa_generic_url_var :: "env_var option"

definition sqlalchemy_env_vars :: "sqlalchemy_details \<Rightarrow> env_var list" where
  "sqlalchemy_env_vars self = concat (map option_iter [sa_username_env self, sa_password_env self, sa_generic_url_var self])"

definition sqlalchemy_add_to_container :: "sqlalchemy_details \<Rightarrow> container_builder \<Rightarrow> container_builder" where
  "sqlalchemy_add_to_container self cb = add_env_vars (sqlalchemy_env_vars self) cb"

record celery_details =
  ce_url_template :: string
  ce_username_env :: "env_var option"
  ce_password_env :: "env_var option"
  ce_generic_url_var :: "env_var option"

definition celery_env_vars :: "celery_details \<Rightarrow> env_var list" where
  "celery_env_vars self = concat (map option_iter [ce_username_env self, ce_password_env self, ce_generic_url_var self])"

definition celery_add_to_container :: "celery_details \<Rightarrow> container_builder \<Rightarrow> container_builder" where
  "celery_add_to_container self cb = add_env_vars (celery_env_vars self) cb"

text \<open>The errors of the databases; \<open>'ue\<close> is \<open>url::ParseError\<close>.\<close>

datatype 'ue postgresql_error = ParsePostgresqlUrl 'ue
datatype 'ue mysql_error = ParseMysqlUrl 'ue
datatype 'ue derby_error = ParseDerbyUrl 'ue | NonUtf8Location string
datatype 'ue database_error = Postgresql "'ue postgresql_error" | Mysql "'ue mysql_error" | Derby "'ue derby_error"

subsection \<open>Generic connections\<close>

record 'u generic_jdbc =
  gj_driver :: string
  gj_url :: 'u
  gj_credentials_secret_name :: string

definition generic_jdbc_details ::
    "'u generic_jdbc \<Rightarrow> string \<Rightarrow> templating_mechanism \<Rightarrow> ('u jdbc_details, 'ue database_error) result" where
  "generic_jdbc_details self unique_database_name _ =
     (let (username_env, password_env) = username_and_password_envs unique_database_name (gj_credentials_secret_name self)
      in Inr \<lparr>jdbc_driver = gj_driver self, jdbc_connection_url = gj_url self,
              jdbc_username_env = Some username_env, jdbc_password_env = Some password_env\<rparr>)"

record generic_url_connection =
  gu_connection_url_secret_name :: string

definition generic_sqlalchemy_details :: "generic_url_connection \<Rightarrow> string \<Rightarrow> templating_mechanism \<Rightarrow> sqlalchemy_details" where
  "generic_sqlalchemy_details self unique_database_name templating_mechanism =
     (let url_env_name = to_ascii_uppercase unique_database_name @ ''_DATABASE_URL'';
          url_env_var = env_var_with_value_from_secret url_env_name (gu_connection_url_secret_name self) ''connectionUrl'';
          url_template = (case templating_mechanism of
              ConfigUtils \<Rightarrow> ''${env:'' @ url_env_name @ ''}''
            | BashEnvSubstitution \<Rightarrow> ''${'' @ url_env_name @ ''}'')
      in \<lparr>sa_url_template = url_template, sa_username_env = None, sa_password_env = None, sa_generic_url_var = Some url_env_var\<rparr>)"

definition generic_celery_details :: "generic_url_connection \<Rightarrow> string \<Rightarrow> templating_mechanism \<Rightarrow> celery_details" where
  "generic_celery_details self unique_database_name templating_mechanism =
     (let url_env_name = to_ascii_uppercase unique_database_name @ ''_DATABASE_URL'';
          url_env_var = env_var_with_value_from_secret url_env_name (gu_connection_url_secret_name self) ''connectionUrl'';
          url_template = (case templating_mechanism of
              ConfigUtils \<Rightarrow> ''${env:'' @ url_env_name @ ''}''
            | BashEnvSubstitution \<Rightarrow> ''${'' @ url_env_name @ ''}'')
      in \<lparr>ce_url_template = url_template, ce_username_env = None, ce_password_env = None, ce_generic_url_var = Some url_env_var\<rparr>)"

subsection \<open>PostgreSQL\<close>

definition POSTGRES_JDBC_DRIVER_CLASS :: string where
  "POSTGRES_JDBC_DRIVER_CLASS = ''org.postgresql.Driver''"

record postgresql_connection =
  pg_host :: host_name
  pg_port :: "16 word"
  pg_database :: string
  pg_credentials_secret_name :: string
  pg_parameters :: "(string, string) btreemap"

definition postgresql_default_port :: "16 word" where
  "postgresql_default_port = 5432"

definition postgresql_jdbc_details ::
    "(string \<Rightarrow> ('u, 'ue) result) \<Rightarrow> postgresql_connection \<Rightarrow> string \<Rightarrow> templating_mechanism \<Rightarrow> ('u jdbc_details, 'ue database_error) result" where
  "postgresql_jdbc_details url_parse self unique_database_name _ =
     (let (username_env, password_env) = username_and_password_envs unique_database_name (pg_credentials_secret_name self);
          connection_url = ''jdbc:postgresql://'' @ host_name_fmt (pg_host self) @ '':'' @ show_port (pg_port self) @ ''/'' @
            pg_database self @ query_or_default (pg_parameters self)
      in and_then (map_err (\<lambda>e. Postgresql (ParsePostgresqlUrl e)) (url_parse connection_url)) (\<lambda>connection_url.
         Inr \<lparr>jdbc_driver = POSTGRES_JDBC_DRIVER_CLASS, jdbc_connection_url = connection_url,
              jdbc_username_env = Some username_env, jdbc_password_env = Some password_env\<rparr>))"

definition postgresql_sqlalchemy_details :: "postgresql_connection \<Rightarrow> string \<Rightarrow> templating_mechanism \<Rightarrow> sqlalchemy_details" where
  "postgresql_sqlalchemy_details self unique_database_name templating_mechanism =
     (let (username_env, password_env) = username_and_password_envs unique_database_name (pg_credentials_secret_name self);
          username_env_name = ev_name username_env; password_env_name = ev_name password_env;
          parameters = query_or_default (pg_parameters self);
          url_template = (case templating_mechanism of
              ConfigUtils \<Rightarrow>
                ''postgresql+psycopg2://${env:'' @ username_env_name @ ''}:${env:'' @ password_env_name @ ''}@'' @ host_name_fmt (pg_host self) @
                '':'' @ show_port (pg_port self) @ ''/'' @ pg_database self @ parameters
            | BashEnvSubstitution \<Rightarrow>
                ''postgresql+psycopg2://${'' @ username_env_name @ ''}:${'' @ password_env_name @ ''}@'' @ host_name_fmt (pg_host self) @
                '':'' @ show_port (pg_port self) @ ''/'' @ pg_database self @ parameters)
      in \<lparr>sa_url_template = url_template, sa_username_env = Some username_env, sa_password_env = Some password_env,
          sa_generic_url_var = None\<rparr>)"

definition postgresql_celery_details :: "postgresql_connection \<Rightarrow> string \<Rightarrow> templating_mechanism \<Rightarrow> celery_details" where
  "postgresql_celery_details self unique_database_name templating_mechanism =
     (let (username_env, password_env) = username_and_password_envs unique_database_name (pg_credentials_secret_name self);
          username_env_name = ev_name username_env; password_env_name = ev_name password_env;
          parameters = query_or_default (pg_parameters self);
          url_template = (case templating_mechanism of
              ConfigUtils \<Rightarrow>
                ''db+postgresql://${env:'' @ username_env_name @ ''}:${env:'' @ password_env_name @ ''}@'' @ host_name_fmt (pg_host self) @
                '':'' @ show_port (pg_port self) @ ''/'' @ pg_database self @ parameters
            | BashEnvSubstitution \<Rightarrow>
                ''db+postgresql://${'' @ username_env_name @ ''}:${'' @ password_env_name @ ''}@'' @ host_name_fmt (pg_host self) @
                '':'' @ show_port (pg_port self) @ ''/'' @ pg_database self @ parameters)
      in \<lparr>ce_url_template = url_template, ce_username_env = Some username_env, ce_password_env = Some password_env,
          ce_generic_url_var = None\<rparr>)"

subsection \<open>MySQL, Derby and Redis\<close>

record mysql_connection =
  my_host :: host_name
  my_port :: "16 word"
  my_database :: string
  my_credentials_secret_name :: string
  my_parameters :: "(string, string) btreemap"

definition mysql_default_port :: "16 word" where
  "mysql_default_port = 3306"

definition mysql_jdbc_details ::
    "(string \<Rightarrow> ('u, 'ue) result) \<Rightarrow> mysql_connection \<Rightarrow> string \<Rightarrow> templating_mechanism \<Rightarrow> ('u jdbc_details, 'ue database_error) result" where
  "mysql_jdbc_details url_parse self unique_database_name _ =
     (let (username_env, password_env) = username_and_password_envs unique_database_name (my_credentials_secret_name self);
          connection_url = ''jdbc:mysql://'' @ host_name_fmt (my_host self) @ '':'' @ show_port (my_port self) @ ''/'' @
            my_database self @ query_or_default (my_parameters self)
      in and_then (map_err (\<lambda>e. Mysql (ParseMysqlUrl e)) (url_parse connection_url)) (\<lambda>connection_url.
         Inr \<lparr>jdbc_driver = ''com.mysql.jdbc.Driver'', jdbc_connection_url = connection_url,
              jdbc_username_env = Some username_env, jdbc_password_env = Some password_env\<rparr>))"

definition DERBY_JDBC_DRIVER_CLASS :: string where
  "DERBY_JDBC_DRIVER_CLASS = ''org.apache.derby.jdbc.EmbeddedDriver''"

text \<open>A path is a list of bytes; \<open>Path::to_str\<close> refuses those that are not UTF-8.\<close>

record derby_connection =
  dc_location :: "string option"

definition is_byte :: "nat \<Rightarrow> nat \<Rightarrow> char \<Rightarrow> bool" where
  "is_byte lo hi c \<longleftrightarrow> lo \<le> (of_char c :: nat) \<and> (of_char c :: nat) \<le> hi"

fun valid_utf8 :: "string \<Rightarrow> bool" where
  "valid_utf8 [] = True"
| "valid_utf8 (a # s) =
     (if is_byte 0x00 0x7F a then valid_utf8 s
      else if is_byte 0xC2 0xDF a then (case s of b # t \<Rightarrow> is_byte 0x80 0xBF b \<and> valid_utf8 t | _ \<Rightarrow> False)
      else if is_byte 0xE0 0xEF a then
        (case s of b # c # t \<Rightarrow>
           is_byte (if a = CHR 0xE0 then 0xA0 else 0x80) (if a = CHR 0xED then 0x9F else 0xBF) b \<and> is_byte 0x80 0xBF c \<and> valid_utf8 t
         | _ \<Rightarrow> False)
      else if is_byte 0xF0 0xF4 a then
        (case s of b # c # d # t \<Rightarrow>
           is_byte (if a = CHR 0xF0 then 0x90 else 0x80) (if a = CHR 0xF4 then 0x8F else 0xBF) b \<and> is_byte 0x80 0xBF c \<and>
           is_byte 0x80 0xBF d \<and> valid_utf8 t
         | _ \<Rightarrow> False)
      else False)"

definition path_to_str :: "string \<Rightarrow> string option" where
  "path_to_str p = (if valid_utf8 p then Some p else None)"

definition derby_location :: "derby_connection \<Rightarrow> string \<Rightarrow> (string, 'ue database_error) result" where
  "derby_location self unique_database_name =
     (let location = (case dc_location self of Some l \<Rightarrow> l | None \<Rightarrow> ''/tmp/derby/'' @ unique_database_name @ ''/derby.db'')
      in ok_or (Derby (NonUtf8Location location)) (path_to_str location))"

definition derby_details_of ::
    "(string \<Rightarrow> ('u, 'ue) result) \<Rightarrow> string \<Rightarrow> ('u jdbc_details, 'ue database_error) result" where
  "derby_details_of url_parse connection_url =
     and_then (map_err (\<lambda>e. Derby (ParseDerbyUrl e)) (url_parse connection_url)) (\<lambda>connection_url.
     Inr \<lparr>jdbc_driver = DERBY_JDBC_DRIVER_CLASS, jdbc_connection_url = connection_url, jdbc_username_env = None, jdbc_password_env = None\<rparr>)"

definition derby_jdbc_details ::
    "(string \<Rightarrow> ('u, 'ue) result) \<Rightarrow> derby_connection \<Rightarrow> string \<Rightarrow> templating_mechanism \<Rightarrow> ('u jdbc_details, 'ue database_error) result" where
  "derby_jdbc_details url_parse self unique_database_name _ =
     and_then (derby_location self unique_database_name) (\<lambda>location.
     derby_details_of url_parse (''jdbc:derby:'' @ location @ '';create=true''))"

definition jdbc_connection_details_for_network_access ::
    "(string \<Rightarrow> ('u, 'ue) result) \<Rightarrow> derby_connection \<Rightarrow> string \<Rightarrow> string \<Rightarrow> ('u jdbc_details, 'ue database_error) result" where
  "jdbc_connection_details_for_network_access url_parse self unique_database_name host_part =
     and_then (derby_location self unique_database_name) (\<lambda>location.
     derby_details_of url_parse (''jdbc:derby://'' @ host_part @ ''/'' @ location @ '';create=true''))"

record redis_connection =
  re_host :: host_name
  re_port :: "16 word"
  re_database_id :: "16 word"
  re_credentials_secret_name :: string

definition redis_default_port :: "16 word" where
  "redis_default_port = 6379"

definition redis_default_database_id :: "16 word" where
  "redis_default_database_id = 0"

definition redis_celery_details :: "redis_connection \<Rightarrow> string \<Rightarrow> templating_mechanism \<Rightarrow> celery_details" where
  "redis_celery_details self unique_database_name templating_mechanism =
     (let (username_env, password_env) = username_and_password_envs unique_database_name (re_credentials_secret_name self);
          username_env_name = ev_name username_env; password_env_name = ev_name password_env;
          url_template = (case templating_mechanism of
              ConfigUtils \<Rightarrow>
                ''redis://${env:'' @ username_env_name @ ''}:${env:'' @ password_env_name @ ''}@'' @ host_name_fmt (re_host self) @
                '':'' @ show_port (re_port self) @ ''/'' @ show_port (re_database_id self)
            | BashEnvSubstitution \<Rightarrow>
                ''redis://${'' @ username_env_name @ ''}:${'' @ password_env_name @ ''}@'' @ host_name_fmt (re_host self) @
                '':'' @ show_port (re_port self) @ ''/'' @ show_port (re_database_id self))
      in \<lparr>ce_url_template = url_template, ce_username_env = Some username_env, ce_password_env = Some password_env,
          ce_generic_url_var = None\<rparr>)"

subsection \<open>What the container sees\<close>

text \<open>
  The environment of a container: of several variables with one name the last one counts. The contents
  of the secrets are an argument.
\<close>

definition container_env :: "(string \<Rightarrow> string \<Rightarrow> string) \<Rightarrow> container_builder \<Rightarrow> string \<Rightarrow> string option" where
  "container_env secrets cb name =
     Option.bind (List.find (\<lambda>v. ev_name v = name) (rev (case cb_env cb of Some vs \<Rightarrow> vs | None \<Rightarrow> []))) (\<lambda>v.
     case ev_value v of
       Some value \<Rightarrow> Some value
     | None \<Rightarrow> map_option (\<lambda>k. secrets (ks_name k) (ks_key k)) (Option.bind (ev_value_from v) evs_secret_key_ref))"

text \<open>
  What is relied on of the templating mechanisms (config-utils, and the substitution of bash): text
  without a dollar sign stays, and a reference to a variable is replaced by its value.
\<close>

fun reference :: "templating_mechanism \<Rightarrow> string \<Rightarrow> string" where
  "reference ConfigUtils name = ''${env:'' @ name @ ''}''"
| "reference BashEnvSubstitution name = ''${'' @ name @ ''}''"

definition env_char :: "char \<Rightarrow> bool" where
  "env_char c \<longleftrightarrow> is_upper c \<or> c = CHR ''_''"

definition template_law :: "(templating_mechanism \<Rightarrow> (string \<Rightarrow> string option) \<Rightarrow> string \<Rightarrow> string) \<Rightarrow> bool" where
  "template_law expand \<longleftrightarrow>
     (\<forall>t env s r. CHR ''$'' \<notin> set s \<longrightarrow> expand t env (s @ r) = s @ expand t env r) \<and>
     (\<forall>t env. expand t env [] = []) \<and>
     (\<forall>t env name v r. list_all env_char name \<longrightarrow> env name = Some v \<longrightarrow> expand t env (reference t name @ r) = v @ expand t env r)"

lemma template_law_append: "template_law expand \<Longrightarrow> CHR ''$'' \<notin> set s \<Longrightarrow> expand t env (s @ r) = s @ expand t env r"
  by (simp add: template_law_def)

lemma template_law_plain: "template_law expand \<Longrightarrow> CHR ''$'' \<notin> set s \<Longrightarrow> expand t env s = s"
  using template_law_append [of expand s t env "[]"] by (simp add: template_law_def)

lemma template_law_reference:
  "template_law expand \<Longrightarrow> list_all env_char name \<Longrightarrow> env name = Some v \<Longrightarrow> expand t env (reference t name @ r) = v @ expand t env r"
  by (simp add: template_law_def)

text \<open>The template of a URL with credentials: scheme, user, password, and the rest without references.\<close>

lemma expand_credentials:
  assumes law: "template_law expand" and dollar: "CHR ''$'' \<notin> set scheme" "CHR ''$'' \<notin> set rest"
    and names: "list_all env_char u" "list_all env_char p" and env: "env u = Some user" "env p = Some password"
  shows "expand t env (scheme @ reference t u @ '':'' @ reference t p @ ''@'' @ rest) = scheme @ user @ '':'' @ password @ ''@'' @ rest"
proof -
  have "expand t env (''@'' @ rest) = ''@'' @ rest" using template_law_plain [OF law, of "''@'' @ rest"] dollar by simp
  moreover have "expand t env ('':'' @ x) = '':'' @ expand t env x" for x using template_law_append [OF law, of "'':''"] by simp
  ultimately show ?thesis
    using template_law_append [OF law dollar(1)] template_law_reference [where env = env, OF law names(1) env(1)] template_law_reference [where env = env, OF law names(2) env(2)]
    by simp
qed

lemma env_var_with_value_from_secret_simps [simp]:
  "ev_name (env_var_with_value_from_secret n s k) = n"
  "ev_value (env_var_with_value_from_secret n s k) = None"
  "Option.bind (ev_value_from (env_var_with_value_from_secret n s k)) evs_secret_key_ref = Some \<lparr>ks_name = s, ks_key = k, ks_optional = None\<rparr>"
  by (simp_all add: env_var_with_value_from_secret_def)

lemma container_env_added:
  "container_env secrets (add_env_vars vs cb) name =
     (case List.find (\<lambda>v. ev_name v = name) (rev vs) of
        None \<Rightarrow> container_env secrets cb name
      | Some v \<Rightarrow> (case ev_value v of Some value \<Rightarrow> Some value
          | None \<Rightarrow> map_option (\<lambda>k. secrets (ks_name k) (ks_key k)) (Option.bind (ev_value_from v) evs_secret_key_ref)))"
proof -
  have find: "List.find P (xs @ ys) = (case List.find P xs of Some x \<Rightarrow> Some x | None \<Rightarrow> List.find P ys)" for P :: "env_var \<Rightarrow> bool" and xs ys
    by (induction xs) auto
  show ?thesis
    by (cases "cb_env cb") (simp_all add: container_env_def add_env_vars_def push_env_def get_or_insert_with_def find split: option.split)
qed

lemma to_ascii_uppercase_env [simp]: "list_all env_char s \<Longrightarrow> to_ascii_uppercase s = s"
proof (induction s)
  case (Cons c s)
  then have "\<not> is_lower c" by (auto simp: env_char_def is_upper_def is_lower_def in_range_def)
  with Cons show ?case by (simp add: to_ascii_uppercase_def)
qed (simp add: to_ascii_uppercase_def)

definition from_secret :: "(string \<Rightarrow> string \<Rightarrow> string) \<Rightarrow> env_var \<Rightarrow> string option" where
  "from_secret secrets v = map_option (\<lambda>k. secrets (ks_name k) (ks_key k)) (Option.bind (ev_value_from v) evs_secret_key_ref)"

lemma from_secret_simps [simp]: "from_secret secrets (env_var_with_value_from_secret n s k) = Some (secrets s k)"
  by (simp add: from_secret_def)

lemma find_distinct:
  "distinct (map ev_name vs) \<Longrightarrow> v \<in> set vs \<Longrightarrow> List.find (\<lambda>w. ev_name w = ev_name v) vs = Some v"
  by (induction vs) auto

lemma container_env_of_added:
  assumes "distinct (map ev_name vs)" "v \<in> set vs" "ev_value v = None"
  shows "container_env secrets (add_env_vars vs cb) (ev_name v) = from_secret secrets v"
proof -
  have "distinct (map ev_name (rev vs))" using assms(1) by (simp add: rev_map [symmetric])
  then have "List.find (\<lambda>w. ev_name w = ev_name v) (rev vs) = Some v" using find_distinct [of "rev vs" v] assms(2) by simp
  then show ?thesis using assms(3) by (simp add: container_env_added from_secret_def)
qed

text \<open>
  The contract of the traits \<open>SqlAlchemyDatabaseConnection\<close> and \<open>CeleryDatabaseConnection\<close>: the template
  refers to the variables of the details only, and with their values it is the URL of the connection.
\<close>

locale url_template_driver =
  fixes details :: "'c \<Rightarrow> string \<Rightarrow> templating_mechanism \<Rightarrow> 'd"
    and url_template :: "'d \<Rightarrow> string"
    and env_vars :: "'d \<Rightarrow> env_var list"
    and add_to_container :: "'d \<Rightarrow> container_builder \<Rightarrow> container_builder"
    and plain :: "'c \<Rightarrow> bool"
    and url :: "(string \<Rightarrow> string \<Rightarrow> string) \<Rightarrow> 'c \<Rightarrow> string"
  assumes adds: "add_to_container d cb = add_env_vars (env_vars d) cb"
    and vars_distinct: "distinct (map ev_name (env_vars (details c name t)))"
    and vars_secret: "v \<in> set (env_vars (details c name t)) \<Longrightarrow> ev_value v = None"
    and resolves: "template_law expand \<Longrightarrow> plain c \<Longrightarrow> list_all env_char name \<Longrightarrow>
      (\<forall>v \<in> set (env_vars (details c name t)). env (ev_name v) = from_secret secrets v) \<Longrightarrow>
      expand t env (url_template (details c name t)) = url secrets c"
begin

lemma url_in_container:
  assumes "template_law expand" "plain c" "list_all env_char name"
  shows "expand t (container_env secrets (add_to_container (details c name t) cb)) (url_template (details c name t)) = url secrets c"
  using assms by (intro resolves) (simp_all add: adds container_env_of_added [OF vars_distinct] vars_secret)

end

lemma env_name_chars: "list_all env_char name \<Longrightarrow> list_all env_char (name @ ''_DATABASE_URL'')"
  "list_all env_char name \<Longrightarrow> list_all env_char (name @ ''_DATABASE_USERNAME'')"
  "list_all env_char name \<Longrightarrow> list_all env_char (name @ ''_DATABASE_PASSWORD'')"
  by (simp_all add: env_char_def is_upper_def in_range_def)

lemma username_and_password_envs_env:
  "list_all env_char name \<Longrightarrow> username_and_password_envs name secret =
     (env_var_with_value_from_secret (name @ ''_DATABASE_USERNAME'') secret ''username'',
      env_var_with_value_from_secret (name @ ''_DATABASE_PASSWORD'') secret ''password'')"
  by (simp add: username_and_password_envs_def username_and_password_env_names_def)

lemma username_and_password_envs_cases:
  obtains u p where "username_and_password_envs name secret =
     (env_var_with_value_from_secret u secret ''username'', env_var_with_value_from_secret p secret ''password'')" "u \<noteq> p"
  by (simp add: username_and_password_envs_def username_and_password_env_names_def)

abbreviation credentials_url :: "(string \<Rightarrow> string \<Rightarrow> string) \<Rightarrow> string \<Rightarrow> string \<Rightarrow> string \<Rightarrow> string" where
  "credentials_url secrets scheme secret rest \<equiv> scheme @ secrets secret ''username'' @ '':'' @ secrets secret ''password'' @ ''@'' @ rest"

abbreviation postgresql_rest :: "postgresql_connection \<Rightarrow> string" where
  "postgresql_rest c \<equiv> host_name_fmt (pg_host c) @ '':'' @ show_port (pg_port c) @ ''/'' @ pg_database c @ query_or_default (pg_parameters c)"

abbreviation redis_rest :: "redis_connection \<Rightarrow> string" where
  "redis_rest c \<equiv> host_name_fmt (re_host c) @ '':'' @ show_port (re_port c) @ ''/'' @ show_port (re_database_id c)"

definition postgresql_plain :: "postgresql_connection \<Rightarrow> bool" where
  "postgresql_plain c \<longleftrightarrow> CHR ''$'' \<notin> set (postgresql_rest c)"

definition redis_plain :: "redis_connection \<Rightarrow> bool" where
  "redis_plain c \<longleftrightarrow> CHR ''$'' \<notin> set (redis_rest c)"

lemmas driver_defs = sqlalchemy_add_to_container_def celery_add_to_container_def sqlalchemy_env_vars_def celery_env_vars_def
  postgresql_sqlalchemy_details_def postgresql_celery_details_def redis_celery_details_def generic_sqlalchemy_details_def
  generic_celery_details_def

lemma expand_with_credentials:
  assumes "template_law expand" "CHR ''$'' \<notin> set scheme" "CHR ''$'' \<notin> set rest" "list_all env_char name"
    and "\<forall>v \<in> {env_var_with_value_from_secret (name @ ''_DATABASE_USERNAME'') secret ''username'',
        env_var_with_value_from_secret (name @ ''_DATABASE_PASSWORD'') secret ''password''}. env (ev_name v) = from_secret secrets v"
  shows "expand t env (scheme @ reference t (name @ ''_DATABASE_USERNAME'') @ '':'' @ reference t (name @ ''_DATABASE_PASSWORD'') @ ''@'' @ rest) =
    credentials_url secrets scheme secret rest"
  using expand_credentials [OF assms(1-3) env_name_chars(2,3) [OF assms(4)]] assms(5) by simp

interpretation pg_sqlalchemy: url_template_driver postgresql_sqlalchemy_details sa_url_template sqlalchemy_env_vars sqlalchemy_add_to_container
  postgresql_plain "\<lambda>secrets c. credentials_url secrets ''postgresql+psycopg2://'' (pg_credentials_secret_name c) (postgresql_rest c)"
proof (unfold_locales, goal_cases)
  case (4 expand c name t env secrets)
  note e = expand_with_credentials [OF 4(1) _ _ 4(3), of "''postgresql+psycopg2://''" "postgresql_rest c" "pg_credentials_secret_name c" env secrets t]
  show ?case using 4 e by (cases t) (simp_all add: driver_defs Let_def username_and_password_envs_env postgresql_plain_def)
qed (simp_all add: driver_defs Let_def split_beta username_and_password_envs_def username_and_password_env_names_def, auto)

interpretation pg_celery: url_template_driver postgresql_celery_details ce_url_template celery_env_vars celery_add_to_container
  postgresql_plain "\<lambda>secrets c. credentials_url secrets ''db+postgresql://'' (pg_credentials_secret_name c) (postgresql_rest c)"
proof (unfold_locales, goal_cases)
  case (4 expand c name t env secrets)
  note e = expand_with_credentials [OF 4(1) _ _ 4(3), of "''db+postgresql://''" "postgresql_rest c" "pg_credentials_secret_name c" env secrets t]
  show ?case using 4 e by (cases t) (simp_all add: driver_defs Let_def username_and_password_envs_env postgresql_plain_def)
qed (simp_all add: driver_defs Let_def split_beta username_and_password_envs_def username_and_password_env_names_def, auto)

interpretation redis_celery: url_template_driver redis_celery_details ce_url_template celery_env_vars celery_add_to_container
  redis_plain "\<lambda>secrets c. credentials_url secrets ''redis://'' (re_credentials_secret_name c) (redis_rest c)"
proof (unfold_locales, goal_cases)
  case (4 expand c name t env secrets)
  note e = expand_with_credentials [OF 4(1) _ _ 4(3), of "''redis://''" "redis_rest c" "re_credentials_secret_name c" env secrets t]
  show ?case using 4 e by (cases t) (simp_all add: driver_defs Let_def username_and_password_envs_env redis_plain_def)
qed (simp_all add: driver_defs Let_def split_beta username_and_password_envs_def username_and_password_env_names_def, auto)

lemma expand_generic:
  assumes "template_law expand" "list_all env_char name" "env (name @ ''_DATABASE_URL'') = Some u"
  shows "expand t env (reference t (name @ ''_DATABASE_URL'')) = u"
  using template_law_reference [where env = env, OF assms(1) env_name_chars(1) [OF assms(2)] assms(3), of t "[]"] assms(1)
  by (simp add: template_law_def)

interpretation generic_sqlalchemy: url_template_driver generic_sqlalchemy_details sa_url_template sqlalchemy_env_vars sqlalchemy_add_to_container
  "\<lambda>_. True" "\<lambda>secrets c. secrets (gu_connection_url_secret_name c) ''connectionUrl''"
proof (unfold_locales, goal_cases)
  case (4 expand c name t env secrets)
  note e = expand_generic [where env = env, OF 4(1) 4(3), of "secrets (gu_connection_url_secret_name c) ''connectionUrl''" t]
  show ?case using 4 e by (cases t) (simp_all add: driver_defs Let_def)
qed (simp_all add: driver_defs Let_def)

interpretation generic_celery: url_template_driver generic_celery_details ce_url_template celery_env_vars celery_add_to_container
  "\<lambda>_. True" "\<lambda>secrets c. secrets (gu_connection_url_secret_name c) ''connectionUrl''"
proof (unfold_locales, goal_cases)
  case (4 expand c name t env secrets)
  note e = expand_generic [where env = env, OF 4(1) 4(3), of "secrets (gu_connection_url_secret_name c) ''connectionUrl''" t]
  show ?case using 4 e by (cases t) (simp_all add: driver_defs Let_def)
qed (simp_all add: driver_defs Let_def)

text \<open>
  C16: A product that expands the URL template of its database connection in its own container connects
  with the credentials of the Secret. For both templating mechanisms and every SQLAlchemy or Celery
  connection, the variables that \<open>add_to_container\<close> adds (also to a container that has variables of these
  names already) give the scheme, user, password, host, port and database of the connection, and the
  generic connections give the URL of their Secret.
\<close>

theorem database_urls_resolve:
  assumes "template_law expand" "list_all env_char name" "postgresql_plain p" "redis_plain r"
  shows "expand t (container_env secrets (sqlalchemy_add_to_container (postgresql_sqlalchemy_details p name t) cb))
      (sa_url_template (postgresql_sqlalchemy_details p name t)) =
      ''postgresql+psycopg2://'' @ secrets (pg_credentials_secret_name p) ''username'' @ '':'' @ secrets (pg_credentials_secret_name p) ''password'' @
      ''@'' @ postgresql_rest p \<and>
    expand t (container_env secrets (celery_add_to_container (postgresql_celery_details p name t) cb))
      (ce_url_template (postgresql_celery_details p name t)) =
      ''db+postgresql://'' @ secrets (pg_credentials_secret_name p) ''username'' @ '':'' @ secrets (pg_credentials_secret_name p) ''password'' @
      ''@'' @ postgresql_rest p \<and>
    expand t (container_env secrets (celery_add_to_container (redis_celery_details r name t) cb))
      (ce_url_template (redis_celery_details r name t)) =
      ''redis://'' @ secrets (re_credentials_secret_name r) ''username'' @ '':'' @ secrets (re_credentials_secret_name r) ''password'' @
      ''@'' @ redis_rest r \<and>
    expand t (container_env secrets (sqlalchemy_add_to_container (generic_sqlalchemy_details g name t) cb))
      (sa_url_template (generic_sqlalchemy_details g name t)) = secrets (gu_connection_url_secret_name g) ''connectionUrl'' \<and>
    expand t (container_env secrets (celery_add_to_container (generic_celery_details g name t) cb))
      (ce_url_template (generic_celery_details g name t)) = secrets (gu_connection_url_secret_name g) ''connectionUrl''"
  using pg_sqlalchemy.url_in_container [OF assms(1,3,2)] pg_celery.url_in_container [OF assms(1,3,2)]
    redis_celery.url_in_container [OF assms(1,4,2)] generic_sqlalchemy.url_in_container [OF assms(1) _ assms(2)]
    generic_celery.url_in_container [OF assms(1) _ assms(2)]
  by simp

text \<open>An expansion that takes the text up to the closing brace as the name of the variable.\<close>

fun opener :: "templating_mechanism \<Rightarrow> string" where
  "opener ConfigUtils = ''${env:''"
| "opener BashEnvSubstitution = ''${''"

function demo_expand :: "templating_mechanism \<Rightarrow> (string \<Rightarrow> string option) \<Rightarrow> string \<Rightarrow> string" where
  "demo_expand t env [] = []"
| "demo_expand t env (c # s) =
     (let n = length (opener t) in
      if take n (c # s) = opener t
      then (case split_once (CHR ''}'') (drop n (c # s)) of
              Some (name, rest) \<Rightarrow> (case env name of Some v \<Rightarrow> v | None \<Rightarrow> []) @ demo_expand t env rest
            | None \<Rightarrow> c # s)
      else c # demo_expand t env s)"
  by pat_completeness auto
termination
proof (relation "measure (\<lambda>(_, _, s). length s)", goal_cases)
  case (2 t env c s n x name rest)
  then have "drop n (c # s) = name @ CHR ''}'' # rest" by (cases x) (simp add: split_once_Some)
  then have "length (drop n (c # s)) = length name + 1 + length rest" by simp
  then show ?case by simp
qed simp_all

lemma demo_expand_text: "CHR ''$'' \<notin> set s \<Longrightarrow> demo_expand t env (s @ r) = s @ demo_expand t env r"
  by (induction s; cases t) (auto simp: Let_def)

lemma demo_expand_law: "template_law demo_expand"
proof -
  have "demo_expand t env (reference t name @ r) = v @ demo_expand t env r" if "list_all env_char name" "env name = Some v" for t env name v r
  proof -
    have "CHR ''}'' \<notin> set name" using that(1) by (auto simp: list_all_iff env_char_def is_upper_def in_range_def)
    then show ?thesis using that(2) by (cases t) (simp_all add: Let_def)
  qed
  then show ?thesis by (simp add: template_law_def demo_expand_text)
qed

definition demo_postgresql :: postgresql_connection where
  "demo_postgresql = \<lparr>pg_host = HostDomain (DomainName ''pg''), pg_port = 1, pg_database = ''airflow'', pg_credentials_secret_name = ''cred'', pg_parameters = [(''k'', ''v'')]\<rparr>"

definition demo_redis :: redis_connection where
  "demo_redis = \<lparr>re_host = HostDomain (DomainName ''redis''), re_port = 1, re_database_id = 0, re_credentials_secret_name = ''cred''\<rparr>"

theorem database_urls_resolve_witness:
  "\<exists>cb. demo_expand BashEnvSubstitution (container_env (\<lambda>_. id)
      (sqlalchemy_add_to_container (postgresql_sqlalchemy_details demo_postgresql ''META'' BashEnvSubstitution) cb))
    (sa_url_template (postgresql_sqlalchemy_details demo_postgresql ''META'' BashEnvSubstitution)) =
    ''postgresql+psycopg2://username:password@pg:1/airflow?k=v''"
proof -
  have one: "show_port 1 = ''1''" "show_port 0 = ''0''" unfolding show_port_def by code_simp+
  have "list_all env_char ''META''" by (simp add: env_char_def is_upper_def in_range_def)
  moreover have "postgresql_plain demo_postgresql" "redis_plain demo_redis"
    by (simp_all add: postgresql_plain_def redis_plain_def demo_postgresql_def demo_redis_def one connection_parameters_as_url_query_parameters_def)
  ultimately show ?thesis
    using database_urls_resolve [OF demo_expand_law, of "''META''" demo_postgresql demo_redis BashEnvSubstitution "\<lambda>_. id" cb]
    by (auto simp: demo_postgresql_def one connection_parameters_as_url_query_parameters_def)
qed

subsection \<open>JDBC\<close>

text \<open>
  The contract of \<open>JdbcDatabaseConnection\<close>: the URL is parsed from a text without credentials, and the
  credentials of the Secret, if there is one, are in the two variables.
\<close>

lemma and_then_assoc: "and_then (and_then r f) g = and_then r (\<lambda>x. and_then (f x) g)"
  by (cases r) simp_all

locale jdbc_connection =
  fixes details :: "'c \<Rightarrow> string \<Rightarrow> templating_mechanism \<Rightarrow> ('u jdbc_details, 'e) result"
    and driver :: "'c \<Rightarrow> string"
    and url :: "'c \<Rightarrow> string \<Rightarrow> ('u, 'e) result"
    and credentials :: "'c \<Rightarrow> string option"
  assumes details: "details c name t = and_then (url c name) (\<lambda>u. Inr \<lparr>jdbc_driver = driver c, jdbc_connection_url = u,
      jdbc_username_env = map_option (\<lambda>s. fst (username_and_password_envs name s)) (credentials c),
      jdbc_password_env = map_option (\<lambda>s. snd (username_and_password_envs name s)) (credentials c)\<rparr>)"
begin

lemma details_error: "details c name t = Inl e \<Longrightarrow> url c name = Inl e"
  by (simp add: details and_then_eq_Inl)

lemma details_ok: "details c name t = Inr d \<Longrightarrow> url c name = Inr (jdbc_connection_url d) \<and> jdbc_driver d = driver c"
  by (auto simp: details)

lemma credentials_in_container:
  assumes "details c name t = Inr d" "username_and_password_env_names name = (u, p)"
  shows "container_env secrets (jdbc_add_to_container d cb) u =
      (case credentials c of Some s \<Rightarrow> Some (secrets s ''username'') | None \<Rightarrow> container_env secrets cb u) \<and>
    container_env secrets (jdbc_add_to_container d cb) p =
      (case credentials c of Some s \<Rightarrow> Some (secrets s ''password'') | None \<Rightarrow> container_env secrets cb p)"
proof -
  have "u \<noteq> p" using assms(2) by (auto simp: username_and_password_env_names_def Let_def)
  then show ?thesis using assms
    by (cases "credentials c") (auto simp: details jdbc_add_to_container_def container_env_added username_and_password_envs_def split_beta)
qed

end

interpretation pg_jdbc: jdbc_connection "postgresql_jdbc_details url_parse" "\<lambda>_. POSTGRES_JDBC_DRIVER_CLASS"
  "\<lambda>c name. map_err (\<lambda>e. Postgresql (ParsePostgresqlUrl e)) (url_parse (''jdbc:postgresql://'' @ postgresql_rest c))"
  "\<lambda>c. Some (pg_credentials_secret_name c)" for url_parse
  by unfold_locales (simp add: postgresql_jdbc_details_def split_beta)

abbreviation mysql_rest :: "mysql_connection \<Rightarrow> string" where
  "mysql_rest c \<equiv> host_name_fmt (my_host c) @ '':'' @ show_port (my_port c) @ ''/'' @ my_database c @ query_or_default (my_parameters c)"

interpretation my_jdbc: jdbc_connection "mysql_jdbc_details url_parse" "\<lambda>_. ''com.mysql.jdbc.Driver''"
  "\<lambda>c name. map_err (\<lambda>e. Mysql (ParseMysqlUrl e)) (url_parse (''jdbc:mysql://'' @ mysql_rest c))"
  "\<lambda>c. Some (my_credentials_secret_name c)" for url_parse
  by unfold_locales (simp add: mysql_jdbc_details_def split_beta)

interpretation generic_jdbc: jdbc_connection generic_jdbc_details gj_driver "\<lambda>c name. Inr (gj_url c)" "\<lambda>c. Some (gj_credentials_secret_name c)"
  by unfold_locales (simp add: generic_jdbc_details_def split_beta)

interpretation derby_jdbc: jdbc_connection "derby_jdbc_details url_parse" "\<lambda>_. DERBY_JDBC_DRIVER_CLASS"
  "\<lambda>c name. and_then (derby_location c name) (\<lambda>location.
     map_err (\<lambda>e. Derby (ParseDerbyUrl e)) (url_parse (''jdbc:derby:'' @ location @ '';create=true'')))" "\<lambda>_. None" for url_parse
  by unfold_locales (simp add: derby_jdbc_details_def derby_details_of_def and_then_assoc)

text \<open>
  JDBC URLs carry no credentials. The URL of a PostgreSQL, MySQL or Derby connection is parsed from
  host, port, database and parameters (or the location) alone, an error of the parser is passed on as
  the error of that database, and the user and the password of the Secret are in the two variables
  named after the database; a Derby connection leaves the environment as it is.
\<close>

theorem jdbc_credentials_separate:
  assumes "username_and_password_env_names name = (u, p)"
  shows "(case postgresql_jdbc_details parse pg name t of
      Inl e \<Rightarrow> \<exists>x. parse (''jdbc:postgresql://'' @ postgresql_rest pg) = Inl x \<and> e = Postgresql (ParsePostgresqlUrl x)
    | Inr d \<Rightarrow> parse (''jdbc:postgresql://'' @ postgresql_rest pg) = Inr (jdbc_connection_url d) \<and>
        container_env secrets (jdbc_add_to_container d cb) u = Some (secrets (pg_credentials_secret_name pg) ''username'') \<and>
        container_env secrets (jdbc_add_to_container d cb) p = Some (secrets (pg_credentials_secret_name pg) ''password'')) \<and>
    (case mysql_jdbc_details parse my name t of
      Inl e \<Rightarrow> \<exists>x. parse (''jdbc:mysql://'' @ mysql_rest my) = Inl x \<and> e = Mysql (ParseMysqlUrl x)
    | Inr d \<Rightarrow> parse (''jdbc:mysql://'' @ mysql_rest my) = Inr (jdbc_connection_url d) \<and>
        container_env secrets (jdbc_add_to_container d cb) u = Some (secrets (my_credentials_secret_name my) ''username'') \<and>
        container_env secrets (jdbc_add_to_container d cb) p = Some (secrets (my_credentials_secret_name my) ''password'')) \<and>
    (case derby_jdbc_details parse de name t of
      Inl e \<Rightarrow> (\<exists>l x. parse (''jdbc:derby:'' @ l @ '';create=true'') = Inl x \<and> e = Derby (ParseDerbyUrl x)) \<or> derby_location de name = Inl e
    | Inr d \<Rightarrow> container_env secrets (jdbc_add_to_container d cb) u = container_env secrets cb u \<and>
        container_env secrets (jdbc_add_to_container d cb) p = container_env secrets cb p)"
proof (intro conjI, goal_cases)
  case 1
  show ?case
  proof (cases "postgresql_jdbc_details parse pg name t")
    case (Inl e)
    then show ?thesis using pg_jdbc.details_error [OF Inl] by (auto simp: map_err_eq_Inl and_then_eq_Inl)
  next
    case (Inr d)
    then show ?thesis using pg_jdbc.details_ok [OF Inr] pg_jdbc.credentials_in_container [OF Inr assms] by (simp add: map_err_eq_Inr)
  qed
next
  case 2
  show ?case
  proof (cases "mysql_jdbc_details parse my name t")
    case (Inl e)
    then show ?thesis using my_jdbc.details_error [OF Inl] by (auto simp: map_err_eq_Inl and_then_eq_Inl)
  next
    case (Inr d)
    then show ?thesis using my_jdbc.details_ok [OF Inr] my_jdbc.credentials_in_container [OF Inr assms] by (simp add: map_err_eq_Inr)
  qed
next
  case 3
  show ?case
  proof (cases "derby_jdbc_details parse de name t")
    case (Inl e)
    then show ?thesis using derby_jdbc.details_error [OF Inl] by (auto simp: map_err_eq_Inl and_then_eq_Inl)
  next
    case (Inr d)
    then show ?thesis using derby_jdbc.details_ok [OF Inr] derby_jdbc.credentials_in_container [OF Inr assms] by (simp add: map_err_eq_Inr)
  qed
qed

theorem jdbc_credentials_separate_witness:
  "case postgresql_jdbc_details Inr demo_postgresql ''META'' ConfigUtils of
     Inl (e :: unit database_error) \<Rightarrow> False
   | Inr d \<Rightarrow> jdbc_connection_url d = ''jdbc:postgresql://pg:1/airflow?k=v'' \<and>
       container_env (\<lambda>_. id) (jdbc_add_to_container d container_builder_default) ''META_DATABASE_USERNAME'' = Some ''username''"
proof -
  have one: "show_port 1 = ''1''" unfolding show_port_def by code_simp
  have up: "username_and_password_env_names ''META'' = (''META_DATABASE_USERNAME'', ''META_DATABASE_PASSWORD'')"
    by (simp add: username_and_password_env_names_def to_ascii_uppercase_def is_lower_def in_range_def)
  show ?thesis
    using jdbc_credentials_separate [OF up, where parse = "Inr :: string \<Rightarrow> (string, unit) result" and pg = demo_postgresql and t = ConfigUtils and secrets = "\<lambda>_. id" and cb = container_builder_default]
    by (auto simp: demo_postgresql_def one connection_parameters_as_url_query_parameters_def split: sum.splits)
qed

subsection \<open>Query parameters and hosts\<close>

text \<open>
  The query of a URL gives the parameters back, if no key has an equals sign and no key or value an
  ampersand. Nothing is escaped: with an ampersand in a value, two sets of parameters have one query.
\<close>

definition read_query :: "string \<Rightarrow> (string \<times> string) list" where
  "read_query q = List.map_filter (split_once (CHR ''='')) (split_char (CHR ''&'') q)"

lemma query_read_back:
  assumes "\<forall>(k, v) \<in> set parameters. CHR ''='' \<notin> set k \<and> CHR ''&'' \<notin> set k \<and> CHR ''&'' \<notin> set v"
  shows "read_query (tl (query_or_default parameters)) = parameters"
proof (cases "parameters = []")
  case True
  then show ?thesis by (simp add: connection_parameters_as_url_query_parameters_def read_query_def map_filter_def)
next
  case False
  have "split_char (CHR ''&'') (join ''&'' (map (\<lambda>(k, v). k @ ''='' @ v) parameters)) = map (\<lambda>(k, v). k @ ''='' @ v) parameters"
    using assms False by (intro split_join) auto
  moreover have "List.map_filter (split_once (CHR ''='')) (map (\<lambda>(k, v). k @ ''='' @ v) parameters) = parameters"
    using assms by (induction parameters) (auto simp: map_filter_simps)
  ultimately show ?thesis using False by (simp add: connection_parameters_as_url_query_parameters_def read_query_def)
qed

lemma query_not_injective:
  "connection_parameters_as_url_query_parameters [(''a'', ''1''), (''b'', ''2'')] =
   connection_parameters_as_url_query_parameters [(''a'', ''1&b=2'')]"
  by (simp add: connection_parameters_as_url_query_parameters_def)

text \<open>
  The hosts are printed as they are: an IPv6 address is not put in brackets, as \<open>as_url_host\<close> does, so that
  its last group and the port cannot be told apart.
\<close>

lemma ipv6_host_ambiguous:
  fixes c :: mysql_connection
  assumes "my_host c = IpAddress (V6 (a @ '':'' @ show_port p))" "my_port c = 3306"
  shows "mysql_rest c = (a @ '':'' @ show_port p @ '':'' @ show_port 3306) @ ''/'' @ my_database c @ query_or_default (my_parameters c)"
    "as_url_host (my_host c) \<noteq> host_name_fmt (my_host c)"
  using assms by simp_all

end
