(* ===== verification/Git_Sync.thy ===== *)
theory Git_Sync
  imports Database_Connections Log_Framework
begin

section \<open>git-sync\<close>

text \<open>
  \<open>crd/git_sync\<close>: the containers, volumes and mounts that keep a Git repository in sync, for the two
  versions of the CRD, and the conversion of the credentials between them. \<open>url::Url\<close> is a type variable,
  its scheme and its text are arguments. Warnings are only logged and are left out.
\<close>

subsection \<open>The CRD\<close>

datatype git_credentials = BasicAuthSecretName string | SshPrivateKeySecretName string

record 'u git_sync =
  gs_repo :: 'u
  gs_branch :: string
  gs_git_folder :: string
  gs_depth :: "32 word"
  gs_wait :: duration
  gs_git_sync_conf :: "(string, string) btreemap"
  gs_credentials :: "git_credentials option"
  gs_tls :: tls_client_details

record 'u git_sync_v1 =
  gs1_repo :: 'u
  gs1_branch :: string
  gs1_git_folder :: string
  gs1_depth :: "32 word"
  gs1_wait :: duration
  gs1_git_sync_conf :: "(string, string) btreemap"
  gs1_credentials_secret :: "string option"
  gs1_tls :: tls_client_details

definition default_branch :: string where
  "default_branch = ''main''"

definition default_git_folder :: string where
  "default_git_folder = ''/''"

definition default_depth :: "32 word" where
  "default_depth = 1"

definition credentials_to_secret :: "git_credentials option \<Rightarrow> string option" where
  "credentials_to_secret input =
     (case input of Some (BasicAuthSecretName credentials_secret) \<Rightarrow> Some credentials_secret | _ \<Rightarrow> None)"

definition credentials_secret_to_basic_auth :: "string option \<Rightarrow> git_credentials option" where
  "credentials_secret_to_basic_auth input = map_option BasicAuthSecretName input"

text \<open>The conversions that the attribute \<open>versioned\<close> generates for the struct.\<close>

definition git_sync_upgrade :: "'u git_sync_v1 \<Rightarrow> 'u git_sync" where
  "git_sync_upgrade g =
     \<lparr>gs_repo = gs1_repo g, gs_branch = gs1_branch g, gs_git_folder = gs1_git_folder g, gs_depth = gs1_depth g,
      gs_wait = gs1_wait g, gs_git_sync_conf = gs1_git_sync_conf g,
      gs_credentials = credentials_secret_to_basic_auth (gs1_credentials_secret g), gs_tls = gs1_tls g\<rparr>"

definition git_sync_downgrade :: "'u git_sync \<Rightarrow> 'u git_sync_v1" where
  "git_sync_downgrade g =
     \<lparr>gs1_repo = gs_repo g, gs1_branch = gs_branch g, gs1_git_folder = gs_git_folder g, gs1_depth = gs_depth g,
      gs1_wait = gs_wait g, gs1_git_sync_conf = gs_git_sync_conf g,
      gs1_credentials_secret = credentials_to_secret (gs_credentials g), gs1_tls = gs_tls g\<rparr>"

subsection \<open>Constants\<close>

definition CONTAINER_NAME_PREFIX :: string where
  "CONTAINER_NAME_PREFIX = ''git-sync''"

definition VOLUME_NAME_PREFIX :: string where
  "VOLUME_NAME_PREFIX = ''content-from-git''"

definition MOUNT_PATH_PREFIX :: string where
  "MOUNT_PATH_PREFIX = ''/stackable/app/git''"

definition SSH_VOLUME_NAME_PREFIX :: string where
  "SSH_VOLUME_NAME_PREFIX = ''ssh-keys-info''"

definition SSH_MOUNT_PATH_PREFIX :: string where
  "SSH_MOUNT_PATH_PREFIX = ''/stackable/gitssh''"

definition GIT_SYNC_SAFE_DIR_OPTION :: string where
  "GIT_SYNC_SAFE_DIR_OPTION = ''safe.directory''"

definition GIT_SYNC_ROOT_DIR :: string where
  "GIT_SYNC_ROOT_DIR = ''/tmp/git''"

definition GIT_SYNC_LINK :: string where
  "GIT_SYNC_LINK = ''current''"

definition CA_CERT_VOLUME_NAME_PREFIX :: string where
  "CA_CERT_VOLUME_NAME_PREFIX = ''ca-cert''"

definition CA_CERT_MOUNT_PATH_PREFIX :: string where
  "CA_CERT_MOUNT_PATH_PREFIX = ''/stackable/gitca''"

definition GIT_SSL_CA_INFO_CONFIG_KEY :: string where
  "GIT_SSL_CA_INFO_CONFIG_KEY = ''http.sslCAInfo''"

definition GIT_SSL_VERIFY :: string where
  "GIT_SSL_VERIFY = ''http.sslverify''"

definition LOG_VOLUME_MOUNT_PATH :: string where
  "LOG_VOLUME_MOUNT_PATH = ''/stackable/log''"

definition COMMON_BASH_TRAP_FUNCTIONS :: string where
  "COMMON_BASH_TRAP_FUNCTIONS = join newline
     [[],
      ''prepare_signal_handlers()'',
      ''{'',
      ''    unset term_child_pid'',
      ''    unset term_kill_needed'',
      ''    trap '' @ [CHR 0x27] @ ''handle_term_signal'' @ [CHR 0x27] @ '' TERM'',
      ''}'',
      [],
      ''handle_term_signal()'',
      ''{'',
      ''    if [ \"${term_child_pid}\" ]; then'',
      ''        kill -TERM \"${term_child_pid}\" 2>/dev/null'',
      ''    else'',
      ''        term_kill_needed=\"yes\"'',
      ''    fi'',
      ''}'',
      [],
      ''wait_for_termination()'',
      ''{'',
      ''    set +e'',
      ''    term_child_pid=$1'',
      ''    if [[ -v term_kill_needed ]]; then'',
      ''        kill -TERM \"${term_child_pid}\" 2>/dev/null'',
      ''    fi'',
      ''    wait ${term_child_pid} 2>/dev/null'',
      ''    trap - TERM'',
      ''    wait ${term_child_pid} 2>/dev/null'',
      ''    set -e'',
      ''}'',
      []]"

text \<open>
  The errors. A panic in the annotations of a secret volume is carried as an extra one. Only the last
  two variants before it are missing in the first version, whose errors have the same type here.
\<close>

datatype git_sync_error =
    GitInvalidContainerName container_error
  | GitInvalidEnvVar env_var_set_error
  | GitInvalidEnvVarName "unit attr_error"
  | GitInvalidSecretKey "unit attr_error"
  | GitInvalidSecretName "unit attr_error" string
  | GitAddVolumeMount container_error
  | GitSecretClassVolume secret_class_volume_error
  | SchemeMismatch string
  | GitPanic

record git_sync_resources =
  git_sync_containers :: "container list"
  git_sync_init_containers :: "container list"
  git_content_volumes :: "volume list"
  git_content_volume_mounts :: "volume_mount list"
  git_content_folders :: "string list"
  git_ssh_volumes :: "volume list"
  git_ca_cert_volumes :: "volume list"

definition git_sync_resources_default :: git_sync_resources where
  "git_sync_resources_default =
     \<lparr>git_sync_containers = [], git_sync_init_containers = [], git_content_volumes = [], git_content_volume_mounts = [],
      git_content_folders = [], git_ssh_volumes = [], git_ca_cert_volumes = []\<rparr>"

definition is_git_sync_enabled :: "git_sync_resources \<Rightarrow> bool" where
  "is_git_sync_enabled self \<longleftrightarrow> git_sync_containers self \<noteq> []"

text \<open>The panic of \<open>expect\<close> is \<^const>\<open>None\<close>.\<close>

definition git_content_folders_as_string :: "git_sync_resources \<Rightarrow> string list option" where
  "git_content_folders_as_string self = those (map path_to_str (git_content_folders self))"

subsection \<open>Environment and mounts\<close>

definition secret_name_from_str :: "string \<Rightarrow> (string, unit attr_error) result" where
  "secret_name_from_str s = attr_from_str (\<lambda>_. Inr ()) SecretName s"

definition secret_key_from_str :: "string \<Rightarrow> (string, unit attr_error) result" where
  "secret_key_from_str s = attr_from_str (\<lambda>_. Inr ()) SecretKey s"

definition numbered :: "string \<Rightarrow> nat \<Rightarrow> string" where
  "numbered text i = text @ ''-'' @ show_nat i"

definition basic_auth_env_vars :: "string \<Rightarrow> env_var_set \<Rightarrow> (env_var_set, git_sync_error) result" where
  "basic_auth_env_vars basic_auth_secret_name env_vars =
     and_then (map_err GitInvalidEnvVarName (env_var_name_from_str ''GITSYNC_USERNAME'')) (\<lambda>username.
     and_then (map_err (\<lambda>e. GitInvalidSecretName e basic_auth_secret_name) (secret_name_from_str basic_auth_secret_name)) (\<lambda>secret_name.
     and_then (map_err GitInvalidSecretKey (secret_key_from_str ''user'')) (\<lambda>user.
     and_then (map_err GitInvalidEnvVarName (env_var_name_from_str ''GITSYNC_PASSWORD'')) (\<lambda>password_var.
     and_then (map_err (\<lambda>e. GitInvalidSecretName e basic_auth_secret_name) (secret_name_from_str basic_auth_secret_name)) (\<lambda>secret_name'.
     and_then (map_err GitInvalidSecretKey (secret_key_from_str ''password'')) (\<lambda>password.
     Inr (with_secret_key_ref password_var secret_name' password (with_secret_key_ref username secret_name user env_vars))))))))"

definition ssh_env_vars :: "nat \<Rightarrow> env_var_set \<Rightarrow> (env_var_set, git_sync_error) result" where
  "ssh_env_vars i env_vars =
     and_then (map_err GitInvalidEnvVarName (env_var_name_from_str ''GITSYNC_SSH_KEY_FILE'')) (\<lambda>key_file.
     and_then (map_err GitInvalidEnvVarName (env_var_name_from_str ''GITSYNC_SSH_KNOWN_HOSTS_FILE'')) (\<lambda>known_hosts_file.
     Inr (with_value known_hosts_file (numbered SSH_MOUNT_PATH_PREFIX i @ ''/knownHosts'')
       (with_value key_file (numbered SSH_MOUNT_PATH_PREFIX i @ ''/key'') env_vars))))"

fun with_extra_env_vars :: "env_var list \<Rightarrow> env_var_set \<Rightarrow> (env_var_set, git_sync_error) result" where
  "with_extra_env_vars [] env_vars = Inr env_vars"
| "with_extra_env_vars (extra_env_var # extra_env_vars) env_vars =
     and_then (map_err GitInvalidEnvVar (with_env_var extra_env_var env_vars)) (with_extra_env_vars extra_env_vars)"

definition git_sync_env_vars :: "nat \<Rightarrow> git_credentials option \<Rightarrow> env_var list \<Rightarrow> (env_var_set, git_sync_error) result" where
  "git_sync_env_vars i credentials extra_env_vars =
     and_then (case credentials of
         Some (BasicAuthSecretName basic_auth_secret_name) \<Rightarrow> basic_auth_env_vars basic_auth_secret_name env_var_set_new
       | _ \<Rightarrow> Inr env_var_set_new) (\<lambda>env_vars.
     and_then (case credentials of Some (SshPrivateKeySecretName _) \<Rightarrow> ssh_env_vars i env_vars | _ \<Rightarrow> Inr env_vars) (\<lambda>env_vars.
     with_extra_env_vars extra_env_vars env_vars))"

definition plain_mount :: "string \<Rightarrow> string \<Rightarrow> volume_mount" where
  "plain_mount name mount_path =
     \<lparr>vm_mount_path = mount_path, vm_mount_propagation = None, vm_name = name, vm_read_only = None, vm_sub_path = None,
      vm_sub_path_expr = None, vm_recursive_read_only = None\<rparr>"

definition git_sync_mounts :: "nat \<Rightarrow> 'u git_sync \<Rightarrow> volume_mount list \<Rightarrow> string \<Rightarrow> volume_mount list" where
  "git_sync_mounts i g extra_volume_mounts log_volume_name =
     (let volume_name = numbered VOLUME_NAME_PREFIX i;
          git_sync_root_volume_mount = plain_mount volume_name GIT_SYNC_ROOT_DIR;
          log_volume_mount = plain_mount log_volume_name LOG_VOLUME_MOUNT_PATH;
          mounts = [git_sync_root_volume_mount, log_volume_mount] @ extra_volume_mounts;
          mounts = (case gs_credentials g of
              Some (SshPrivateKeySecretName _) \<Rightarrow>
                mounts @ [volume_mount_build (volume_mount_new (numbered SSH_VOLUME_NAME_PREFIX i) (numbered SSH_MOUNT_PATH_PREFIX i))]
            | _ \<Rightarrow> mounts)
      in if tls_ca_cert_secret_class (gs_tls g) \<noteq> None
         then mounts @ [volume_mount_build (volume_mount_new (numbered CA_CERT_VOLUME_NAME_PREFIX i) (numbered CA_CERT_MOUNT_PATH_PREFIX i))]
         else mounts)"

definition git_ca_cert_path :: "nat \<Rightarrow> string \<Rightarrow> tls_client_details \<Rightarrow> (string option, git_sync_error) result" where
  "git_ca_cert_path i scheme tls =
     (case tls of
        Some NoVerification \<Rightarrow> Inr None
      | Some (ServerVerification WebPki) \<Rightarrow> and_then (ensure (scheme \<noteq> ''http'') (SchemeMismatch scheme)) (\<lambda>_. Inr None)
      | Some (ServerVerification (SecretClassCert _)) \<Rightarrow>
          and_then (ensure (scheme \<noteq> ''http'') (SchemeMismatch scheme)) (\<lambda>_. Inr (Some (numbered CA_CERT_MOUNT_PATH_PREFIX i @ ''/ca.crt'')))
      | None \<Rightarrow> Inr None)"

subsection \<open>The command\<close>

definition show_bool :: "bool \<Rightarrow> string" where
  "show_bool b = (if b then ''true'' else ''false'')"

definition git_sync_internal_args :: "('u \<Rightarrow> string) \<Rightarrow> 'u git_sync \<Rightarrow> bool \<Rightarrow> (string, string) btreemap" where
  "git_sync_internal_args as_str g one_time = btree_collect
     [(''--repo'', as_str (gs_repo g)), (''--ref'', gs_branch g), (''--depth'', show_nat (unat (gs_depth g))),
      (''--period'', show_nat (as_secs (gs_wait g)) @ ''s''), (''--link'', GIT_SYNC_LINK), (''--root'', GIT_SYNC_ROOT_DIR),
      (''--one-time'', show_bool one_time)]"

definition git_sync_internal_git_config :: "tls_client_details \<Rightarrow> string option \<Rightarrow> (string, string) btreemap" where
  "git_sync_internal_git_config tls ca_cert_path =
     (let config = btree_collect [(GIT_SYNC_SAFE_DIR_OPTION, GIT_SYNC_ROOT_DIR)];
          config = (case ca_cert_path of Some path \<Rightarrow> btree_insert GIT_SSL_CA_INFO_CONFIG_KEY path config | None \<Rightarrow> config)
      in if tls = Some NoVerification then btree_insert GIT_SSL_VERIFY ''false'' config else config)"

definition git_config_string :: "(string, string) btreemap \<Rightarrow> string option \<Rightarrow> string" where
  "git_config_string internal_git_config user_defined_git_config =
     join '','' (map (\<lambda>(key, value). key @ '':'' @ value) internal_git_config @ option_iter user_defined_git_config)"

definition user_defined_args :: "(string, string) btreemap \<Rightarrow> (string, string) btreemap \<Rightarrow> (string, string) btreemap" where
  "user_defined_args internal_args git_sync_config =
     foldl (\<lambda>args (key, value). if btree_contains_key internal_args key then args else btree_insert key value args) [] git_sync_config"

definition git_sync_args :: "('u \<Rightarrow> string) \<Rightarrow> 'u git_sync \<Rightarrow> bool \<Rightarrow> string option \<Rightarrow> (string, string) btreemap" where
  "git_sync_args as_str g one_time ca_cert_path =
     (let internal_args = git_sync_internal_args as_str g one_time;
          internal_git_config = git_sync_internal_git_config (gs_tls g) ca_cert_path;
          user_defined_git_config = btree_get (gs_git_sync_conf g) ''--git-config'';
          git_sync_config = btree_remove ''--git-config'' (gs_git_sync_conf g);
          git_config = git_config_string internal_git_config user_defined_git_config;
          args = btree_extend internal_args (user_defined_args internal_args git_sync_config)
      in btree_insert ''--git-config'' ([CHR 0x27] @ git_config @ [CHR 0x27]) args)"

definition args_string :: "(string, string) btreemap \<Rightarrow> string" where
  "args_string args = join '' '' (map (\<lambda>(key, value). key @ ''='' @ value) args)"

definition git_sync_script :: "string \<Rightarrow> bool \<Rightarrow> container_log_config \<Rightarrow> string \<Rightarrow> string" where
  "git_sync_script container_name one_time log_config args =
     (case clc_choice log_config of
        Some (Automatic automatic) \<Rightarrow> capture_shell_output LOG_VOLUME_MOUNT_PATH container_name automatic @ newline
      | _ \<Rightarrow> []) @
     (let git_sync_command = ''/stackable/git-sync '' @ args in
      if one_time then git_sync_command
      else COMMON_BASH_TRAP_FUNCTIONS @ newline @ ''prepare_signal_handlers'' @ newline @ git_sync_command @ '' &'' @ newline @
           ''wait_for_termination $!'')"

definition create_git_sync_shell_script ::
    "('u \<Rightarrow> string) \<Rightarrow> string \<Rightarrow> 'u git_sync \<Rightarrow> bool \<Rightarrow> container_log_config \<Rightarrow> string option \<Rightarrow> string" where
  "create_git_sync_shell_script as_str container_name g one_time log_config ca_cert_path =
     git_sync_script container_name one_time log_config (args_string (git_sync_args as_str g one_time ca_cert_path))"

definition bash_command :: "string list" where
  "bash_command = [''/bin/bash'', ''-x'', ''-euo'', ''pipefail'', ''-c'']"

definition git_sync_container_of ::
    "string \<Rightarrow> resolved_product_image \<Rightarrow> string \<Rightarrow> env_var_set \<Rightarrow> volume_mount list \<Rightarrow> (container, git_sync_error) result" where
  "git_sync_container_of container_name product_image script env_vars volume_mounts =
     and_then (map_err GitInvalidContainerName (container_new container_name)) (\<lambda>b.
     and_then (map_err GitAddVolumeMount (add_volume_mounts volume_mounts (add_env_vars (env_var_set_into_iter env_vars)
       (container_args [script] (container_command bash_command (image_from_product_image product_image b)))))) (\<lambda>b.
     Inr (container_build (container_resources (requirements_build (with_memory_limit ''64Mi'' (with_memory_request ''64Mi''
       (with_cpu_limit ''200m'' (with_cpu_request ''100m'' requirements_new))))) b))))"

definition create_git_sync_container ::
    "('u \<Rightarrow> string) \<Rightarrow> string \<Rightarrow> resolved_product_image \<Rightarrow> 'u git_sync \<Rightarrow> bool \<Rightarrow> env_var_set \<Rightarrow> volume_mount list
      \<Rightarrow> container_log_config \<Rightarrow> string option \<Rightarrow> (container, git_sync_error) result" where
  "create_git_sync_container as_str container_name product_image g one_time env_vars volume_mounts log_config ca_cert_path =
     git_sync_container_of container_name product_image (create_git_sync_shell_script as_str container_name g one_time log_config ca_cert_path)
       env_vars volume_mounts"

subsection \<open>Paths\<close>

text \<open>
  \<open>Path::strip_prefix("/")\<close> gives the components after the root; empty components and single dots at
  both ends are dropped. \<open>PathBuf::push\<close> adds a separator where there is none, and an absolute path
  replaces the buffer.
\<close>

definition skipped_component :: "string \<Rightarrow> bool" where
  "skipped_component c \<longleftrightarrow> c = [] \<or> c = ''.''"

definition path_body :: "string \<Rightarrow> string" where
  "path_body p = join ''/'' (rev (dropWhile skipped_component (rev (dropWhile skipped_component (split_char (CHR ''/'') p)))))"

definition strip_root :: "string \<Rightarrow> string option" where
  "strip_root p = (case p of c # body \<Rightarrow> if c = CHR ''/'' then Some (path_body body) else None | [] \<Rightarrow> None)"

definition path_push :: "string \<Rightarrow> string \<Rightarrow> string" where
  "path_push p q =
     (if q \<noteq> [] \<and> hd q = CHR ''/'' then q
      else if p = [] \<or> last p = CHR ''/'' then p @ q else p @ ''/'' @ q)"

definition git_content_folder :: "nat \<Rightarrow> string \<Rightarrow> string" where
  "git_content_folder i git_folder =
     (let relative_git_folder = (case strip_root git_folder of Some r \<Rightarrow> r | None \<Rightarrow> git_folder)
      in path_push (path_push (numbered MOUNT_PATH_PREFIX i) GIT_SYNC_LINK) relative_git_folder)"

subsection \<open>The resources\<close>

definition git_ca_volumes :: "nat \<Rightarrow> tls_client_details \<Rightarrow> (volume list, git_sync_error) result" where
  "git_ca_volumes i tls =
     (case tls_ca_cert_secret_class tls of
        Some cls \<Rightarrow>
          and_then (or_panic GitPanic (map_option (map_err GitSecretClassVolume)
            (secret_class_to_volume \<lparr>scv_secret_class = cls, scv_scope = None\<rparr> (numbered CA_CERT_VOLUME_NAME_PREFIX i) Public)))
            (\<lambda>v. Inr [v])
      | None \<Rightarrow> Inr [])"

text \<open>One round of the loop, up to the point where its results are pushed.\<close>

definition git_sync_round ::
    "('u \<Rightarrow> string) \<Rightarrow> ('u \<Rightarrow> string) \<Rightarrow> nat \<Rightarrow> 'u git_sync \<Rightarrow> resolved_product_image \<Rightarrow> env_var list \<Rightarrow> volume_mount list \<Rightarrow> string
      \<Rightarrow> container_log_config \<Rightarrow> (git_sync_resources, git_sync_error) result" where
  "git_sync_round scheme as_str i g product_image extra_env_vars extra_volume_mounts log_volume_name log_config =
     and_then (git_sync_env_vars i (gs_credentials g) extra_env_vars) (\<lambda>env_vars.
     let volume_name = numbered VOLUME_NAME_PREFIX i;
         mounts = git_sync_mounts i g extra_volume_mounts log_volume_name in
     and_then (git_ca_cert_path i (scheme (gs_repo g)) (gs_tls g)) (\<lambda>ca_cert_path.
     and_then (create_git_sync_container as_str (numbered CONTAINER_NAME_PREFIX i) product_image g False env_vars mounts log_config ca_cert_path) (\<lambda>container.
     and_then (create_git_sync_container as_str (numbered CONTAINER_NAME_PREFIX i @ ''-init'') product_image g True env_vars mounts log_config ca_cert_path) (\<lambda>init_container.
     let volume = volume_build (volume_empty_dir \<lparr>edvs_medium = None, edvs_size_limit = None\<rparr> (volume_new volume_name));
         ssh_volumes = (case gs_credentials g of
             Some (SshPrivateKeySecretName ssh_private_key_secret_name) \<Rightarrow>
               [volume_build (with_secret ssh_private_key_secret_name False (volume_new (numbered SSH_VOLUME_NAME_PREFIX i)))]
           | _ \<Rightarrow> []) in
     and_then (git_ca_volumes i (gs_tls g)) (\<lambda>ca_volumes.
     Inr \<lparr>git_sync_containers = [container], git_sync_init_containers = [init_container], git_content_volumes = [volume],
          git_content_volume_mounts = [plain_mount volume_name (numbered MOUNT_PATH_PREFIX i)],
          git_content_folders = [git_content_folder i (gs_git_folder g)], git_ssh_volumes = ssh_volumes,
          git_ca_cert_volumes = ca_volumes\<rparr>)))))"

definition resources_push :: "git_sync_resources \<Rightarrow> git_sync_resources \<Rightarrow> git_sync_resources" where
  "resources_push r n =
     \<lparr>git_sync_containers = git_sync_containers r @ git_sync_containers n,
      git_sync_init_containers = git_sync_init_containers r @ git_sync_init_containers n,
      git_content_volumes = git_content_volumes r @ git_content_volumes n,
      git_content_volume_mounts = git_content_volume_mounts r @ git_content_volume_mounts n,
      git_content_folders = git_content_folders r @ git_content_folders n,
      git_ssh_volumes = git_ssh_volumes r @ git_ssh_volumes n, git_ca_cert_volumes = git_ca_cert_volumes r @ git_ca_cert_volumes n\<rparr>"

fun enumerate_loop :: "(nat \<Rightarrow> 'g \<Rightarrow> (git_sync_resources, 'e) result) \<Rightarrow> nat \<Rightarrow> 'g list \<Rightarrow> git_sync_resources \<Rightarrow> (git_sync_resources, 'e) result" where
  "enumerate_loop f i [] resources = Inr resources"
| "enumerate_loop f i (g # gs) resources = and_then (f i g) (\<lambda>n. enumerate_loop f (Suc i) gs (resources_push resources n))"

definition git_sync_resources_new ::
    "('u \<Rightarrow> string) \<Rightarrow> ('u \<Rightarrow> string) \<Rightarrow> 'u git_sync list \<Rightarrow> resolved_product_image \<Rightarrow> env_var list \<Rightarrow> volume_mount list \<Rightarrow> string
      \<Rightarrow> container_log_config \<Rightarrow> (git_sync_resources, git_sync_error) result" where
  "git_sync_resources_new scheme as_str git_syncs product_image extra_env_vars extra_volume_mounts log_volume_name log_config =
     enumerate_loop (\<lambda>i g. git_sync_round scheme as_str i g product_image extra_env_vars extra_volume_mounts log_volume_name log_config)
       0 git_syncs git_sync_resources_default"

subsection \<open>The first version\<close>

text \<open>The first version has no keys and does not look at the TLS settings.\<close>

definition git_sync_args_v1 :: "('u \<Rightarrow> string) \<Rightarrow> 'u git_sync_v1 \<Rightarrow> bool \<Rightarrow> (string, string) btreemap" where
  "git_sync_args_v1 as_str g one_time =
     (let internal_args = btree_collect
            [(''--repo'', as_str (gs1_repo g)), (''--ref'', gs1_branch g), (''--depth'', show_nat (unat (gs1_depth g))),
             (''--period'', show_nat (as_secs (gs1_wait g)) @ ''s''), (''--link'', GIT_SYNC_LINK), (''--root'', GIT_SYNC_ROOT_DIR),
             (''--one-time'', show_bool one_time)];
          internal_git_config = btree_collect [(GIT_SYNC_SAFE_DIR_OPTION, GIT_SYNC_ROOT_DIR)];
          user_defined_git_config = btree_get (gs1_git_sync_conf g) ''--git-config'';
          git_sync_config = btree_remove ''--git-config'' (gs1_git_sync_conf g);
          git_config = git_config_string internal_git_config user_defined_git_config;
          args = btree_extend internal_args (user_defined_args internal_args git_sync_config)
      in btree_insert ''--git-config'' ([CHR 0x27] @ git_config @ [CHR 0x27]) args)"

definition create_git_sync_shell_script_v1 :: "('u \<Rightarrow> string) \<Rightarrow> string \<Rightarrow> 'u git_sync_v1 \<Rightarrow> bool \<Rightarrow> container_log_config \<Rightarrow> string" where
  "create_git_sync_shell_script_v1 as_str container_name g one_time log_config =
     git_sync_script container_name one_time log_config (args_string (git_sync_args_v1 as_str g one_time))"

definition create_git_sync_container_v1 ::
    "('u \<Rightarrow> string) \<Rightarrow> string \<Rightarrow> resolved_product_image \<Rightarrow> 'u git_sync_v1 \<Rightarrow> bool \<Rightarrow> env_var_set \<Rightarrow> volume_mount list
      \<Rightarrow> container_log_config \<Rightarrow> (container, git_sync_error) result" where
  "create_git_sync_container_v1 as_str container_name product_image g one_time env_vars volume_mounts log_config =
     git_sync_container_of container_name product_image (create_git_sync_shell_script_v1 as_str container_name g one_time log_config)
       env_vars volume_mounts"

definition git_sync_round_v1 ::
    "('u \<Rightarrow> string) \<Rightarrow> nat \<Rightarrow> 'u git_sync_v1 \<Rightarrow> resolved_product_image \<Rightarrow> env_var list \<Rightarrow> volume_mount list \<Rightarrow> string
      \<Rightarrow> container_log_config \<Rightarrow> (git_sync_resources, git_sync_error) result" where
  "git_sync_round_v1 as_str i g product_image extra_env_vars extra_volume_mounts log_volume_name log_config =
     and_then (case gs1_credentials_secret g of
         Some git_credentials_secret \<Rightarrow> basic_auth_env_vars git_credentials_secret env_var_set_new
       | None \<Rightarrow> Inr env_var_set_new) (\<lambda>env_vars.
     and_then (with_extra_env_vars extra_env_vars env_vars) (\<lambda>env_vars.
     let volume_name = numbered VOLUME_NAME_PREFIX i;
         mounts = [plain_mount volume_name GIT_SYNC_ROOT_DIR, plain_mount log_volume_name LOG_VOLUME_MOUNT_PATH] @ extra_volume_mounts in
     and_then (create_git_sync_container_v1 as_str (numbered CONTAINER_NAME_PREFIX i) product_image g False env_vars mounts log_config) (\<lambda>container.
     and_then (create_git_sync_container_v1 as_str (numbered CONTAINER_NAME_PREFIX i @ ''-init'') product_image g True env_vars mounts log_config) (\<lambda>init_container.
     let volume = volume_build (volume_empty_dir \<lparr>edvs_medium = None, edvs_size_limit = None\<rparr> (volume_new volume_name)) in
     Inr \<lparr>git_sync_containers = [container], git_sync_init_containers = [init_container], git_content_volumes = [volume],
          git_content_volume_mounts = [plain_mount volume_name (numbered MOUNT_PATH_PREFIX i)],
          git_content_folders = [git_content_folder i (gs1_git_folder g)], git_ssh_volumes = [], git_ca_cert_volumes = []\<rparr>))))"

definition git_sync_resources_new_v1 ::
    "('u \<Rightarrow> string) \<Rightarrow> 'u git_sync_v1 list \<Rightarrow> resolved_product_image \<Rightarrow> env_var list \<Rightarrow> volume_mount list \<Rightarrow> string
      \<Rightarrow> container_log_config \<Rightarrow> (git_sync_resources, git_sync_error) result" where
  "git_sync_resources_new_v1 as_str git_syncs product_image extra_env_vars extra_volume_mounts log_volume_name log_config =
     enumerate_loop (\<lambda>i g. git_sync_round_v1 as_str i g product_image extra_env_vars extra_volume_mounts log_volume_name log_config)
       0 git_syncs git_sync_resources_default"

subsection \<open>Containers and rounds\<close>

lemma container_new_numbered:
  assumes "i < 2 ^ 64" "s \<in> {[], ''-init''}"
  shows "container_new (numbered CONTAINER_NAME_PREFIX i @ s) = Inr (container_builder_default\<lparr>cb_name := numbered CONTAINER_NAME_PREFIX i @ s\<rparr>)"
proof -
  have "length (show_nat i) \<le> 20" using assms(1) by (intro length_show_nat) simp_all
  moreover have d: "lower_alnum_char c" if "c \<in> set (show_nat i)" for c
    using show_nat_digits [OF that] by (simp add: lower_alnum_char_def)
  moreover have "label_over lower_alnum_char (numbered CONTAINER_NAME_PREFIX i @ s)"
  proof -
    have l: "lower_alnum_char (last (show_nat i))" by (rule d [OF last_in_set [OF show_nat_not_Nil]])
    have "list_all (\<lambda>c. lower_alnum_char c \<or> c = CHR ''-'') ''git-sync-''" "list_all (\<lambda>c. lower_alnum_char c \<or> c = CHR ''-'') ''-init''"
      by (simp_all add: lower_alnum_char_def key_eval)
    moreover have "lower_alnum_char (CHR ''g'')" "lower_alnum_char (CHR ''t'')" by (simp_all add: lower_alnum_char_def key_eval)
    moreover have "list_all (\<lambda>c. lower_alnum_char c \<or> c = CHR ''-'') (show_nat i)" using d by (simp add: list_all_iff)
    ultimately show ?thesis using assms(2) l by (auto simp: label_over_def numbered_def CONTAINER_NAME_PREFIX_def)
  qed
  ultimately have "is_lowercase_rfc_1123_label (numbered CONTAINER_NAME_PREFIX i @ s) = Inr ()"
    using assms(2) by (auto simp: rfc_1123_label_iff numbered_def CONTAINER_NAME_PREFIX_def)
  then show ?thesis by (simp add: container_new_def validate_container_name_def)
qed

definition container_mounts :: "container \<Rightarrow> volume_mount list" where
  "container_mounts c = (case c_volume_mounts c of Some ms \<Rightarrow> ms | None \<Rightarrow> [])"

lemma add_volume_mounts_keeps:
  "add_volume_mounts ms b = Inr b' \<Longrightarrow>
     cb_name b' = cb_name b \<and> cb_args b' = cb_args b \<and> cb_env b' = cb_env b \<and> cb_image b' = cb_image b"
  by (induction ms b rule: add_volume_mounts.induct) (auto simp: add_volume_mount_impl_def split: option.splits if_splits)

lemma git_sync_container_of_ok:
  assumes "container_new name = Inr (container_builder_default\<lparr>cb_name := name\<rparr>)"
  shows "is_ok (git_sync_container_of name img script env_vars ms) \<longleftrightarrow> inj_on vm_mount_path (set ms)"
    and "git_sync_container_of name img script env_vars ms = Inr c \<Longrightarrow>
      c_name c = name \<and> c_args c = Some [script] \<and> c_env c = Some (env_var_set_into_iter env_vars) \<and>
      set (container_mounts c) = set ms \<and> c_image c = Some (rpi_image img)"
proof -
  let ?b = "add_env_vars (env_var_set_into_iter env_vars) (container_args [script] (container_command bash_command
    (image_from_product_image img (container_builder_default\<lparr>cb_name := name\<rparr>))))"
  note defs = add_env_vars_def push_env_def container_args_def container_command_def image_from_product_image_def container_builder_default_def
    get_or_insert_with_def
  have b: "cb_volume_mounts ?b = []" by (simp add: defs)
  have ok: "is_ok (add_volume_mounts ms ?b) \<longleftrightarrow> inj_on vm_mount_path (set ms)"
    using mounts.add_list_iff(2) [OF b] by (simp add: add_volume_mounts_list)
  then show "is_ok (git_sync_container_of name img script env_vars ms) \<longleftrightarrow> inj_on vm_mount_path (set ms)"
    by (cases "add_volume_mounts ms ?b") (simp_all add: git_sync_container_of_def assms is_ok_iff)
  assume "git_sync_container_of name img script env_vars ms = Inr c"
  then obtain b' where b': "add_volume_mounts ms ?b = Inr b'"
    "c = container_build (container_resources (requirements_build (with_memory_limit ''64Mi'' (with_memory_request ''64Mi''
       (with_cpu_limit ''200m'' (with_cpu_request ''100m'' requirements_new))))) b')"
    by (auto simp: git_sync_container_of_def assms)
  have same: "cb_name b' = cb_name ?b \<and> cb_args b' = cb_args ?b \<and> cb_env b' = cb_env ?b \<and> cb_image b' = cb_image ?b"
    using b'(1) by (rule add_volume_mounts_keeps)
  have "cb_volume_mounts b' = map (\<lambda>v. (vm_mount_path v, v)) (firsts [] ms)"
    using mounts.add_list_iff(1) [OF b b'(1) [unfolded add_volume_mounts_list]] .
  then have "set (container_mounts c) = set ms"
    using set_firsts [of "[]" ms] by (auto simp: b'(2) container_mounts_def container_build_def container_resources_def comp_def)
  then show "c_name c = name \<and> c_args c = Some [script] \<and> c_env c = Some (env_var_set_into_iter env_vars) \<and>
      set (container_mounts c) = set ms \<and> c_image c = Some (rpi_image img)"
    using same by (simp add: b'(2) container_build_def container_resources_def defs)
qed


text \<open>The rounds of the loop one by one.\<close>

lemma enumerate_loop_iff:
  "enumerate_loop f i gs r = Inr R \<longleftrightarrow>
     (\<exists>ns. length ns = length gs \<and> (\<forall>k < length gs. f (i + k) (gs ! k) = Inr (ns ! k)) \<and> R = foldl resources_push r ns)"
proof (induction gs arbitrary: i r)
  case (Cons g gs)
  show ?case
  proof
    assume "enumerate_loop f i (g # gs) r = Inr R"
    then obtain n where n: "f i g = Inr n" "enumerate_loop f (Suc i) gs (resources_push r n) = Inr R" by auto
    then obtain ns where "length ns = length gs" "\<forall>k < length gs. f (Suc i + k) (gs ! k) = Inr (ns ! k)" "R = foldl resources_push (resources_push r n) ns"
      using Cons.IH by blast
    then show "\<exists>ns. length ns = length (g # gs) \<and> (\<forall>k < length (g # gs). f (i + k) ((g # gs) ! k) = Inr (ns ! k)) \<and> R = foldl resources_push r ns"
      using n(1) by (intro exI [of _ "n # ns"]) (auto simp: nth_Cons split: nat.splits)
  next
    assume "\<exists>ns. length ns = length (g # gs) \<and> (\<forall>k < length (g # gs). f (i + k) ((g # gs) ! k) = Inr (ns ! k)) \<and> R = foldl resources_push r ns"
    then obtain ns where ns: "length ns = length (g # gs)" "\<forall>k < length (g # gs). f (i + k) ((g # gs) ! k) = Inr (ns ! k)" "R = foldl resources_push r ns"
      by blast
    then obtain n ns' where c: "ns = n # ns'" by (cases ns) auto
    have "f (Suc i + k) (gs ! k) = Inr (ns' ! k)" if "k < length gs" for k using ns(2) [rule_format, of "Suc k"] that c by simp
    then have "enumerate_loop f (Suc i) gs (resources_push r n) = Inr R" using ns c Cons.IH by auto
    then show "enumerate_loop f i (g # gs) r = Inr R" using ns(2) [rule_format, of 0] c by simp
  qed
qed auto

lemma enumerate_loop_ok: "is_ok (enumerate_loop f i gs r) \<longleftrightarrow> (\<forall>k < length gs. is_ok (f (i + k) (gs ! k)))"
proof
  assume "is_ok (enumerate_loop f i gs r)"
  then show "\<forall>k < length gs. is_ok (f (i + k) (gs ! k))" by (auto simp: is_ok_iff enumerate_loop_iff)
next
  assume a: "\<forall>k < length gs. is_ok (f (i + k) (gs ! k))"
  define ns where "ns = map (\<lambda>k. projr (f (i + k) (gs ! k))) [0..<length gs]"
  have "length ns = length gs \<and> (\<forall>k < length gs. f (i + k) (gs ! k) = Inr (ns ! k))" using a by (auto simp: ns_def is_ok_iff)
  then show "is_ok (enumerate_loop f i gs r)" using enumerate_loop_iff [of f i gs r] by (auto simp: is_ok_iff)
qed

lemma foldl_push:
  "git_sync_containers (foldl resources_push r ns) = git_sync_containers r @ concat (map git_sync_containers ns)"
  "git_sync_init_containers (foldl resources_push r ns) = git_sync_init_containers r @ concat (map git_sync_init_containers ns)"
  "git_content_volumes (foldl resources_push r ns) = git_content_volumes r @ concat (map git_content_volumes ns)"
  "git_content_volume_mounts (foldl resources_push r ns) = git_content_volume_mounts r @ concat (map git_content_volume_mounts ns)"
  "git_content_folders (foldl resources_push r ns) = git_content_folders r @ concat (map git_content_folders ns)"
  "git_ssh_volumes (foldl resources_push r ns) = git_ssh_volumes r @ concat (map git_ssh_volumes ns)"
  "git_ca_cert_volumes (foldl resources_push r ns) = git_ca_cert_volumes r @ concat (map git_ca_cert_volumes ns)"
  by (induction ns arbitrary: r) (simp_all add: resources_push_def)

lemma foldl_push_default:
  "git_sync_containers (foldl resources_push git_sync_resources_default ns) = concat (map git_sync_containers ns)"
  "git_sync_init_containers (foldl resources_push git_sync_resources_default ns) = concat (map git_sync_init_containers ns)"
  "git_content_volumes (foldl resources_push git_sync_resources_default ns) = concat (map git_content_volumes ns)"
  "git_content_volume_mounts (foldl resources_push git_sync_resources_default ns) = concat (map git_content_volume_mounts ns)"
  "git_content_folders (foldl resources_push git_sync_resources_default ns) = concat (map git_content_folders ns)"
  "git_ssh_volumes (foldl resources_push git_sync_resources_default ns) = concat (map git_ssh_volumes ns)"
  "git_ca_cert_volumes (foldl resources_push git_sync_resources_default ns) = concat (map git_ca_cert_volumes ns)"
  by (simp_all add: foldl_push git_sync_resources_default_def)


text \<open>When a round succeeds, and what it gives.\<close>

lemma git_names:
  "env_var_name_from_str ''GITSYNC_USERNAME'' = Inr ''GITSYNC_USERNAME''" "env_var_name_from_str ''GITSYNC_PASSWORD'' = Inr ''GITSYNC_PASSWORD''"
  "env_var_name_from_str ''GITSYNC_SSH_KEY_FILE'' = Inr ''GITSYNC_SSH_KEY_FILE''"
  "env_var_name_from_str ''GITSYNC_SSH_KNOWN_HOSTS_FILE'' = Inr ''GITSYNC_SSH_KNOWN_HOSTS_FILE''"
  unfolding env_var_name_from_str_def
  by (subst typed_iff; simp add: EnvVarName_def attr_holds_def pattern_matches_def pattern_env_var_name_def Plus_def in_class_def in_range_def usize_bound)+

lemma git_keys:
  "secret_key_from_str ''user'' = Inr ''user''" "secret_key_from_str ''password'' = Inr ''password''"
  unfolding secret_key_from_str_def
  by (subst typed_iff; simp add: SecretKey_def attr_holds_def pattern_matches_def pattern_config_key_def Plus_def in_class_def in_range_def
      usize_bound RFC_1123_SUBDOMAIN_MAX_LENGTH_def alnum_def)+

lemma basic_auth_env_vars_eq:
  "basic_auth_env_vars s vars =
     and_then (map_err (\<lambda>e. GitInvalidSecretName e s) (secret_name_from_str s)) (\<lambda>name.
     Inr (with_secret_key_ref ''GITSYNC_PASSWORD'' name ''password'' (with_secret_key_ref ''GITSYNC_USERNAME'' name ''user'' vars)))"
  by (cases "secret_name_from_str s") (simp_all add: basic_auth_env_vars_def git_names git_keys)

lemma with_extra_env_vars_ok:
  "is_ok (with_extra_env_vars es vars) \<longleftrightarrow> (\<forall>e \<in> set es. is_ok (env_var_name_from_str (ev_name e)))"
proof (induction es vars rule: with_extra_env_vars.induct)
  case (2 e es vars)
  show ?case
  proof (cases "env_var_name_from_str (ev_name e)")
    case (Inr n)
    then show ?thesis using "2.IH" by (simp add: with_env_var_def is_ok_iff)
  qed (simp add: with_env_var_def is_ok_iff)
qed (simp add: is_ok_iff)

definition credentials_named :: "git_credentials option \<Rightarrow> bool" where
  "credentials_named c \<longleftrightarrow> (case c of Some (BasicAuthSecretName s) \<Rightarrow> is_ok (secret_name_from_str s) | _ \<Rightarrow> True)"

lemma git_sync_env_vars_ok:
  "is_ok (git_sync_env_vars i c es) \<longleftrightarrow> credentials_named c \<and> (\<forall>e \<in> set es. is_ok (env_var_name_from_str (ev_name e)))"
proof (cases c)
  case None
  then show ?thesis by (simp add: git_sync_env_vars_def credentials_named_def with_extra_env_vars_ok)
next
  case (Some d)
  show ?thesis
  proof (cases d)
    case (BasicAuthSecretName s)
    with Some show ?thesis
      by (cases "secret_name_from_str s") (simp_all add: git_sync_env_vars_def credentials_named_def with_extra_env_vars_ok basic_auth_env_vars_eq)
  next
    case (SshPrivateKeySecretName s)
    with Some show ?thesis by (simp add: git_sync_env_vars_def credentials_named_def with_extra_env_vars_ok ssh_env_vars_def git_names)
  qed
qed

lemma git_ca_cert_path_eq:
  "git_ca_cert_path i scheme tls =
     (if uses_tls_verification tls \<and> scheme = ''http'' then Inl (SchemeMismatch scheme)
      else Inr (map_option (\<lambda>_. numbered CA_CERT_MOUNT_PATH_PREFIX i @ ''/ca.crt'') (tls_ca_cert_secret_class tls)))"
proof (cases tls)
  case (Some v)
  show ?thesis
  proof (cases v)
    case (ServerVerification c)
    with Some show ?thesis by (cases c) (simp_all add: git_ca_cert_path_def uses_tls_verification_def tls_ca_cert_secret_class_def)
  qed (simp add: Some git_ca_cert_path_def uses_tls_verification_def tls_ca_cert_secret_class_def)
qed (simp add: git_ca_cert_path_def uses_tls_verification_def tls_ca_cert_secret_class_def)

lemma git_ca_volumes_ok:
  "\<exists>vs. git_ca_volumes i tls = Inr vs \<and>
     map v_name vs = (if tls_ca_cert_secret_class tls \<noteq> None then [numbered CA_CERT_VOLUME_NAME_PREFIX i] else [])"
proof (cases "tls_ca_cert_secret_class tls")
  case (Some cls)
  obtain w where "secret_class_to_volume \<lparr>scv_secret_class = cls, scv_scope = None\<rparr> (numbered CA_CERT_VOLUME_NAME_PREFIX i) Public = Some (Inr w)"
    "v_name w = numbered CA_CERT_VOLUME_NAME_PREFIX i" using secret_class_to_volume_ok by blast
  then show ?thesis using Some by (simp add: git_ca_volumes_def or_panic_def)
qed (simp add: git_ca_volumes_def)

definition ssh_volumes_of :: "nat \<Rightarrow> 'u git_sync \<Rightarrow> volume list" where
  "ssh_volumes_of i g = (case gs_credentials g of
     Some (SshPrivateKeySecretName s) \<Rightarrow> [volume_build (with_secret s False (volume_new (numbered SSH_VOLUME_NAME_PREFIX i)))] | _ \<Rightarrow> [])"

lemma round_ok_iff:
  assumes "i < 2 ^ 64"
  shows "is_ok (git_sync_round scheme as_str i g img es ms lv lc) \<longleftrightarrow>
    credentials_named (gs_credentials g) \<and> (\<forall>e \<in> set es. is_ok (env_var_name_from_str (ev_name e))) \<and>
    \<not> (uses_tls_verification (gs_tls g) \<and> scheme (gs_repo g) = ''http'') \<and>
    inj_on vm_mount_path (set (git_sync_mounts i g ms lv))"
proof -
  note new = container_new_numbered [OF assms, of "[]", simplified] container_new_numbered [OF assms, of "''-init''", simplified]
  show ?thesis
  proof (cases "git_sync_env_vars i (gs_credentials g) es")
    case (Inl e)
    then have "\<not> (credentials_named (gs_credentials g) \<and> (\<forall>e \<in> set es. is_ok (env_var_name_from_str (ev_name e))))"
      unfolding git_sync_env_vars_ok [of i, symmetric] by (simp add: is_ok_iff)
    moreover have "\<not> is_ok (git_sync_round scheme as_str i g img es ms lv lc)" using Inl by (simp add: git_sync_round_def is_ok_iff)
    ultimately show ?thesis by blast
  next
    case (Inr vars)
    then have ok: "credentials_named (gs_credentials g) \<and> (\<forall>e \<in> set es. is_ok (env_var_name_from_str (ev_name e)))"
      using git_sync_env_vars_ok [of i "gs_credentials g" es] by (simp add: is_ok_iff)
    show ?thesis
    proof (cases "uses_tls_verification (gs_tls g) \<and> scheme (gs_repo g) = ''http''")
      case True
      then show ?thesis by (simp add: git_sync_round_def Inr git_ca_cert_path_eq is_ok_iff Let_def)
    next
      case False
      define p where "p = map_option (\<lambda>_. numbered CA_CERT_MOUNT_PATH_PREFIX i @ ''/ca.crt'') (tls_ca_cert_secret_class (gs_tls g))"
      let ?ms = "git_sync_mounts i g ms lv"
      have c: "is_ok (create_git_sync_container as_str (numbered CONTAINER_NAME_PREFIX i) img g False vars ?ms lc p) \<longleftrightarrow> inj_on vm_mount_path (set ?ms)"
        "is_ok (create_git_sync_container as_str (numbered CONTAINER_NAME_PREFIX i @ ''-init'') img g True vars ?ms lc p) \<longleftrightarrow> inj_on vm_mount_path (set ?ms)"
        unfolding create_git_sync_container_def by (rule git_sync_container_of_ok(1) [OF new(1)], rule git_sync_container_of_ok(1) [OF new(2)])
      have path: "git_ca_cert_path i (scheme (gs_repo g)) (gs_tls g) = Inr p" using False by (simp only: git_ca_cert_path_eq p_def if_False)
      show ?thesis
      proof (cases "inj_on vm_mount_path (set ?ms)")
        case True
        then obtain x y where xy: "create_git_sync_container as_str (numbered CONTAINER_NAME_PREFIX i) img g False vars ?ms lc p = Inr x"
          "create_git_sync_container as_str (numbered CONTAINER_NAME_PREFIX i @ ''-init'') img g True vars ?ms lc p = Inr y"
          using c unfolding is_ok_iff by blast
        obtain vs where vs: "git_ca_volumes i (gs_tls g) = Inr vs" using git_ca_volumes_ok by blast
        have "is_ok (git_sync_round scheme as_str i g img es ms lv lc)"
          unfolding git_sync_round_def Let_def Inr path xy vs and_then.simps by (simp add: is_ok_iff)
        then show ?thesis using ok False True by blast
      next
        case inj: False
        then obtain e where "create_git_sync_container as_str (numbered CONTAINER_NAME_PREFIX i) img g False vars ?ms lc p = Inl e"
          using c(1) by (cases "create_git_sync_container as_str (numbered CONTAINER_NAME_PREFIX i) img g False vars ?ms lc p") (auto simp: is_ok_iff)
        then have "\<not> is_ok (git_sync_round scheme as_str i g img es ms lv lc)"
          unfolding git_sync_round_def Let_def Inr path and_then.simps by (simp add: is_ok_iff)
        then show ?thesis using inj by blast
      qed
    qed
  qed
qed


text \<open>The volumes a round brings, and where its containers mount them.\<close>

definition round_volumes :: "git_sync_resources \<Rightarrow> volume list" where
  "round_volumes n = git_content_volumes n @ git_ssh_volumes n @ git_ca_cert_volumes n"

definition round_volume_names :: "nat \<Rightarrow> 'u git_sync \<Rightarrow> string list" where
  "round_volume_names i g =
     [numbered VOLUME_NAME_PREFIX i] @
     (case gs_credentials g of Some (SshPrivateKeySecretName _) \<Rightarrow> [numbered SSH_VOLUME_NAME_PREFIX i] | _ \<Rightarrow> []) @
     (if tls_ca_cert_secret_class (gs_tls g) \<noteq> None then [numbered CA_CERT_VOLUME_NAME_PREFIX i] else [])"

lemma volume_names [simp]:
  "v_name (volume_build (volume_empty_dir d (volume_new name))) = name"
  "v_name (volume_build (with_secret s b (volume_new name))) = name"
  by (simp_all add: volume_build_def volume_empty_dir_def with_secret_def volume_new_def volume_default_def)

lemma git_sync_mounts_volumes:
  "m \<in> set (git_sync_mounts i g ms lv) \<Longrightarrow> m \<in> set ms \<or> vm_name m = lv \<or> vm_name m \<in> set (round_volume_names i g)"
  by (auto simp: git_sync_mounts_def Let_def round_volume_names_def plain_mount_def split: option.splits git_credentials.splits if_splits)

lemma round_gives:
  assumes "i < 2 ^ 64" "git_sync_round scheme as_str i g img es ms lv lc = Inr n"
  shows "\<exists>c d vars p. git_sync_containers n = [c] \<and> git_sync_init_containers n = [d] \<and>
      git_sync_env_vars i (gs_credentials g) es = Inr vars \<and> git_ca_cert_path i (scheme (gs_repo g)) (gs_tls g) = Inr p \<and>
      (c_name c, c_name d) = (numbered CONTAINER_NAME_PREFIX i, numbered CONTAINER_NAME_PREFIX i @ ''-init'') \<and>
      (\<forall>(x, one_time) \<in> {(c, False), (d, True)}.
         set (container_mounts x) = set (git_sync_mounts i g ms lv) \<and> c_env x = Some (env_var_set_into_iter vars) \<and>
         c_args x = Some [create_git_sync_shell_script as_str (c_name x) g one_time lc p])"
    and "map v_name (round_volumes n) = round_volume_names i g"
    and "length (git_content_volumes n) = 1 \<and> git_content_volume_mounts n = [plain_mount (numbered VOLUME_NAME_PREFIX i) (numbered MOUNT_PATH_PREFIX i)] \<and>
      git_content_folders n = [git_content_folder i (gs_git_folder g)]"
proof -
  note new = container_new_numbered [OF assms(1), of "[]", simplified] container_new_numbered [OF assms(1), of "''-init''", simplified]
  obtain vars p c d vs where r: "git_sync_env_vars i (gs_credentials g) es = Inr vars" "git_ca_cert_path i (scheme (gs_repo g)) (gs_tls g) = Inr p"
    "create_git_sync_container as_str (numbered CONTAINER_NAME_PREFIX i) img g False vars (git_sync_mounts i g ms lv) lc p = Inr c"
    "create_git_sync_container as_str (numbered CONTAINER_NAME_PREFIX i @ ''-init'') img g True vars (git_sync_mounts i g ms lv) lc p = Inr d"
    and v: "git_ca_volumes i (gs_tls g) = Inr vs"
    and n: "n = \<lparr>git_sync_containers = [c], git_sync_init_containers = [d],
      git_content_volumes = [volume_build (volume_empty_dir \<lparr>edvs_medium = None, edvs_size_limit = None\<rparr> (volume_new (numbered VOLUME_NAME_PREFIX i)))],
      git_content_volume_mounts = [plain_mount (numbered VOLUME_NAME_PREFIX i) (numbered MOUNT_PATH_PREFIX i)],
      git_content_folders = [git_content_folder i (gs_git_folder g)], git_ssh_volumes = ssh_volumes_of i g, git_ca_cert_volumes = vs\<rparr>"
    using assms(2) unfolding git_sync_round_def Let_def ssh_volumes_of_def by (auto simp: and_then_eq_Inr)
  have vs: "map v_name vs = (if tls_ca_cert_secret_class (gs_tls g) \<noteq> None then [numbered CA_CERT_VOLUME_NAME_PREFIX i] else [])"
    using git_ca_volumes_ok [of i "gs_tls g"] v by auto
  show "map v_name (round_volumes n) = round_volume_names i g"
    by (simp add: n round_volumes_def round_volume_names_def vs ssh_volumes_of_def split: option.split git_credentials.split)
  show "length (git_content_volumes n) = 1 \<and> git_content_volume_mounts n = [plain_mount (numbered VOLUME_NAME_PREFIX i) (numbered MOUNT_PATH_PREFIX i)] \<and>
      git_content_folders n = [git_content_folder i (gs_git_folder g)]" by (simp add: n)
  show "\<exists>c d vars p. git_sync_containers n = [c] \<and> git_sync_init_containers n = [d] \<and>
      git_sync_env_vars i (gs_credentials g) es = Inr vars \<and> git_ca_cert_path i (scheme (gs_repo g)) (gs_tls g) = Inr p \<and>
      (c_name c, c_name d) = (numbered CONTAINER_NAME_PREFIX i, numbered CONTAINER_NAME_PREFIX i @ ''-init'') \<and>
      (\<forall>(x, one_time) \<in> {(c, False), (d, True)}.
         set (container_mounts x) = set (git_sync_mounts i g ms lv) \<and> c_env x = Some (env_var_set_into_iter vars) \<and>
         c_args x = Some [create_git_sync_shell_script as_str (c_name x) g one_time lc p])"
    using git_sync_container_of_ok(2) [OF new(1) r(3) [unfolded create_git_sync_container_def]]
      git_sync_container_of_ok(2) [OF new(2) r(4) [unfolded create_git_sync_container_def]] r(1,2)
    by (intro exI [of _ c] exI [of _ d] exI [of _ vars] exI [of _ p]) (auto simp: n)
qed


subsection \<open>What the resources hang together\<close>

lemma split_at_last: "c \<notin> set d \<Longrightarrow> c \<notin> set e \<Longrightarrow> p @ c # d = q @ c # e \<longleftrightarrow> p = q \<and> d = e"
  by (auto simp: append_eq_append_conv2 Cons_eq_append_conv append_eq_Cons_conv)

lemma numbered_inject [simp]: "numbered p i = numbered q j \<longleftrightarrow> p = q \<and> i = j"
proof -
  have "CHR ''-'' \<notin> set (show_nat k)" for k using show_nat_digits by (fastforce simp: is_digit_def in_range_def)
  then show ?thesis using split_at_last [of "CHR ''-''" "show_nat i" "show_nat j" p q] by (simp add: numbered_def)
qed

lemma numbered_init [simp]: "numbered p i @ ''-init'' \<noteq> numbered q j"
proof
  assume "numbered p i @ ''-init'' = numbered q j"
  then have "last (show_nat j) = CHR ''t''" by (metis append_is_Nil_conv last.simps last_append list.distinct(1) numbered_def show_nat_not_Nil)
  then show False using show_nat_digits [OF last_in_set [OF show_nat_not_Nil [of j]]] by (simp add: is_digit_def in_range_def)
qed

lemma distinct_concat_map:
  "(\<And>k. k < n \<Longrightarrow> distinct (f k)) \<Longrightarrow> (\<And>j k. j < k \<Longrightarrow> k < n \<Longrightarrow> set (f j) \<inter> set (f k) = {}) \<Longrightarrow> distinct (concat (map f [0..<n]))"
  by (induction n) fastforce+

lemma git_prefixes [simp]:
  "VOLUME_NAME_PREFIX \<noteq> SSH_VOLUME_NAME_PREFIX" "VOLUME_NAME_PREFIX \<noteq> CA_CERT_VOLUME_NAME_PREFIX" "SSH_VOLUME_NAME_PREFIX \<noteq> CA_CERT_VOLUME_NAME_PREFIX"
  "CA_CERT_VOLUME_NAME_PREFIX \<noteq> SSH_VOLUME_NAME_PREFIX"
  by (simp_all add: VOLUME_NAME_PREFIX_def SSH_VOLUME_NAME_PREFIX_def CA_CERT_VOLUME_NAME_PREFIX_def)

lemma round_volume_names_distinct: "distinct (concat (map (\<lambda>k. round_volume_names k (gs ! k)) [0..<n]))"
  by (rule distinct_concat_map) (auto simp: round_volume_names_def split: option.splits git_credentials.splits if_splits)

lemma map_nth_rounds:
  assumes "length ns = n" "\<And>k. k < n \<Longrightarrow> f (ns ! k) = g k"
  shows "map f ns = map g [0..<n]"
  using assms by (intro nth_equalityI) auto

lemma concat_singles: "\<forall>x \<in> set ns. length (f x) = 1 \<Longrightarrow> k < length ns \<Longrightarrow> length (concat (map f ns)) = length ns \<and> concat (map f ns) ! k = hd (f (ns ! k))"
proof (induction ns arbitrary: k)
  case (Cons x ns)
  obtain y where y: "f x = [y]" using Cons.prems(1) by (auto simp: length_Suc_conv)
  have l: "length (concat (map f ns)) = length ns" using Cons.prems(1) by (induction ns) auto
  show ?case
  proof (cases k)
    case (Suc j)
    then show ?thesis using Cons y l by simp
  qed (simp add: y l)
qed simp

lemma sum_list_const_one: "\<forall>x \<in> set xs. f x = (1 :: nat) \<Longrightarrow> sum_list (map f xs) = length xs"
  by (induction xs) auto

lemma round_volumes_concat:
  "mset (map v_name (round_volumes (foldl resources_push git_sync_resources_default ns))) = mset (concat (map (\<lambda>n. map v_name (round_volumes n)) ns))"
  unfolding round_volumes_def foldl_push_default by (induction ns) auto

definition git_sync_acceptable :: "('u \<Rightarrow> string) \<Rightarrow> env_var list \<Rightarrow> volume_mount list \<Rightarrow> string \<Rightarrow> nat \<Rightarrow> 'u git_sync \<Rightarrow> bool" where
  "git_sync_acceptable scheme es ms lv i g \<longleftrightarrow>
     credentials_named (gs_credentials g) \<and> (\<forall>v \<in> set es. is_ok (env_var_name_from_str (ev_name v))) \<and>
     \<not> (uses_tls_verification (gs_tls g) \<and> scheme (gs_repo g) = ''http'') \<and> inj_on vm_mount_path (set (git_sync_mounts i g ms lv))"



definition demo_git_sync :: "string git_sync" where
  "demo_git_sync = \<lparr>gs_repo = ''https'', gs_branch = default_branch, gs_git_folder = default_git_folder, gs_depth = default_depth,
     gs_wait = from_secs 20, gs_git_sync_conf = [], gs_credentials = Some (SshPrivateKeySecretName ''ssh''),
     gs_tls = Some (ServerVerification (SecretClassCert ''tls''))\<rparr>"

definition demo_git_image :: resolved_product_image where
  "demo_git_image = \<lparr>rpi_product_version = ''1'', rpi_app_version_label_value = LabelValue ''1'', rpi_image = ''image'',
     rpi_image_pull_policy = ''Always'', rpi_pull_secrets = None\<rparr>"


subsection \<open>The options of the command\<close>

lemma btree_inv_filter: "btree_inv m \<Longrightarrow> btree_inv (filter P m)"
  unfolding btree_inv_def by (induction m) auto

lemma user_defined_args_eq:
  assumes "btree_inv conf"
  shows "user_defined_args internal conf = filter (\<lambda>(k, _). \<not> btree_contains_key internal k) conf"
proof -
  have "foldl (\<lambda>args (key, value). if btree_contains_key internal key then args else btree_insert key value args) acc xs =
      btree_extend acc (filter (\<lambda>(k, _). \<not> btree_contains_key internal k) xs)" for acc and xs :: "(string, string) btreemap"
    by (induction xs arbitrary: acc) (auto simp: btree_extend_def)
  moreover have "btree_inv (filter (\<lambda>(k, _). \<not> btree_contains_key internal k) conf)" using assms by (rule btree_inv_filter)
  ultimately show ?thesis by (simp add: user_defined_args_def btree_collect_id flip: btree_collect_def)
qed

lemma map_of_filter_key: "map_of (filter (\<lambda>(k, _). P k) xs) k = (if P k then map_of xs k else None)"
  by (induction xs) auto

text \<open>
  C33: The options of the git-sync command. What the operator sets wins over the user's configuration;
  any other option of the user is passed on; and the value of \<open>--git-config\<close> begins with the settings
  of the operator (the safe directory, the CA certificate, and the disabled verification when it is
  disabled) and ends with those of the user.
\<close>

theorem git_sync_options_exact:
  assumes "btree_inv (gs_git_sync_conf g)"
  shows "btree_inv (git_sync_args as_str g one_time p) \<and>
    (\<forall>k. btree_get (git_sync_args as_str g one_time p) k =
      (if k = ''--git-config'' then Some ([CHR 0x27] @ join '',''
          ((case p of Some path \<Rightarrow> [''http.sslCAInfo:'' @ path] | None \<Rightarrow> []) @
           (if gs_tls g = Some NoVerification then [''http.sslverify:false''] else []) @ [''safe.directory:/tmp/git''] @
           option_iter (btree_get (gs_git_sync_conf g) ''--git-config'')) @ [CHR 0x27])
       else if k = ''--repo'' then Some (as_str (gs_repo g)) else if k = ''--ref'' then Some (gs_branch g)
       else if k = ''--depth'' then Some (show_nat (unat (gs_depth g))) else if k = ''--period'' then Some (show_nat (as_secs (gs_wait g)) @ ''s'')
       else if k = ''--link'' then Some ''current'' else if k = ''--root'' then Some ''/tmp/git''
       else if k = ''--one-time'' then Some (show_bool one_time)
       else btree_get (gs_git_sync_conf g) k))"
proof -
  let ?internal = "git_sync_internal_args as_str g one_time" and ?conf = "btree_remove ''--git-config'' (gs_git_sync_conf g)"
  have i: "btree_inv ?internal" by (simp add: git_sync_internal_args_def)
  have internal: "btree_get ?internal k =
      (if k = ''--repo'' then Some (as_str (gs_repo g)) else if k = ''--ref'' then Some (gs_branch g)
       else if k = ''--depth'' then Some (show_nat (unat (gs_depth g))) else if k = ''--period'' then Some (show_nat (as_secs (gs_wait g)) @ ''s'')
       else if k = ''--link'' then Some ''current'' else if k = ''--root'' then Some ''/tmp/git''
       else if k = ''--one-time'' then Some (show_bool one_time) else None)" for k
    unfolding git_sync_internal_args_def btree_collect_def by (simp add: btree.get_insert_all GIT_SYNC_LINK_def GIT_SYNC_ROOT_DIR_def btree_get_def)
  have c: "btree_inv ?conf" using assms by simp
  have user: "btree_get (user_defined_args ?internal ?conf) k = (if btree_get ?internal k = None then btree_get ?conf k else None)" for k
    unfolding user_defined_args_eq [OF c] by (simp add: btree_get_def map_of_filter_key btree_contains_key_def)
  have inv_user: "btree_inv (user_defined_args ?internal ?conf)"
    unfolding user_defined_args_eq [OF c] using c by (rule btree_inv_filter)
  have config: "map (\<lambda>(key, value). key @ '':'' @ value) (git_sync_internal_git_config (gs_tls g) p) =
      (case p of Some path \<Rightarrow> [''http.sslCAInfo:'' @ path] | None \<Rightarrow> []) @
      (if gs_tls g = Some NoVerification then [''http.sslverify:false''] else []) @ [''safe.directory:/tmp/git'']"
    by (simp add: git_sync_internal_git_config_def Let_def btree_collect_def btree_extend_def GIT_SYNC_SAFE_DIR_OPTION_def GIT_SYNC_ROOT_DIR_def
        GIT_SSL_CA_INFO_CONFIG_KEY_def GIT_SSL_VERIFY_def less_char_def split: option.split)
  have get: "btree_get (git_sync_args as_str g one_time p) k =
      (if k = ''--git-config'' then Some ([CHR 0x27] @ git_config_string (git_sync_internal_git_config (gs_tls g) p)
          (btree_get (gs_git_sync_conf g) ''--git-config'') @ [CHR 0x27])
       else case btree_get ?internal k of Some v \<Rightarrow> Some v | None \<Rightarrow> btree_get (gs_git_sync_conf g) k)" for k
  proof -
    have "map_of (rev (user_defined_args ?internal ?conf)) = btree_get (user_defined_args ?internal ?conf)"
      using btree_get_collect [of "user_defined_args ?internal ?conf"] by (simp add: fun_eq_iff btree_collect_id [OF inv_user])
    then show ?thesis
      using i user [of k] by (simp add: git_sync_args_def Let_def btree.get_insert btree.get_insert_all split: option.split)
  qed
  have "btree_inv (git_sync_args as_str g one_time p)" using i by (simp add: git_sync_args_def Let_def)
  then show ?thesis unfolding get internal git_config_string_def config by simp
qed

theorem git_sync_options_exact_witness:
  "\<exists>g :: string git_sync. gs_git_sync_conf g = [(''--depth'', ''9''), (''--rev'', ''HEAD'')] \<and>
     btree_get (git_sync_args id g True None) ''--depth'' = Some ''1'' \<and> btree_get (git_sync_args id g True None) ''--rev'' = Some ''HEAD''"
proof -
  let ?g = "demo_git_sync\<lparr>gs_git_sync_conf := [(''--depth'', ''9''), (''--rev'', ''HEAD'')]\<rparr>"
  have "show_nat 1 = ''1''" by code_simp
  moreover have "btree_inv (gs_git_sync_conf ?g)" by (simp add: btree_inv_def less_char_def)
  ultimately show ?thesis using git_sync_options_exact [of ?g id True None]
    by (intro exI [of _ ?g]) (simp add: demo_git_sync_def default_depth_def btree_get_def)
qed

subsection \<open>The two versions\<close>

text \<open>
  The versions of git-sync agree. Upgrading a specification and creating its resources in the second
  version gives what the first version gives, when TLS is not set, or is verified with the well-known
  certificates and the repository is not fetched over plain HTTP. Downgrading an upgraded specification
  gives it back; the other way round this holds unless an SSH key is used, which the first version cannot
  express.
\<close>

theorem git_sync_versions_agree:
  assumes "\<forall>g \<in> set gs. gs1_tls g = None \<or> gs1_tls g = Some (ServerVerification WebPki) \<and> scheme (gs1_repo g) \<noteq> ''http''"
  shows "git_sync_resources_new scheme as_str (map git_sync_upgrade gs) img es ms lv lc = git_sync_resources_new_v1 as_str gs img es ms lv lc \<and>
    git_sync_downgrade (git_sync_upgrade g) = g \<and>
    (git_sync_upgrade (git_sync_downgrade h) = h \<longleftrightarrow> (\<forall>s. gs_credentials h \<noteq> Some (SshPrivateKeySecretName s)))"
proof -
  have args: "git_sync_args as_str (git_sync_upgrade g) one_time None = git_sync_args_v1 as_str g one_time"
    if "gs1_tls g \<noteq> Some NoVerification" for g :: "'a git_sync_v1" and one_time
    using that by (simp add: git_sync_args_def git_sync_args_v1_def git_sync_upgrade_def git_sync_internal_args_def git_sync_internal_git_config_def Let_def)
  have round: "git_sync_round scheme as_str i (git_sync_upgrade g) img es ms lv lc = git_sync_round_v1 as_str i g img es ms lv lc"
    if "g \<in> set gs" for i g
  proof -
    have tls: "gs1_tls g = None \<or> gs1_tls g = Some (ServerVerification WebPki) \<and> scheme (gs1_repo g) \<noteq> ''http''" using assms that by blast
    then have t: "tls_ca_cert_secret_class (gs1_tls g) = None" "gs1_tls g \<noteq> Some NoVerification" "git_ca_cert_path i (scheme (gs1_repo g)) (gs1_tls g) = Inr None"
      "git_ca_volumes i (gs1_tls g) = Inr []"
      by (auto simp: tls_ca_cert_secret_class_def git_ca_cert_path_def git_ca_volumes_def)
    have mounts: "git_sync_mounts i (git_sync_upgrade g) ms lv =
        [plain_mount (numbered VOLUME_NAME_PREFIX i) GIT_SYNC_ROOT_DIR, plain_mount lv LOG_VOLUME_MOUNT_PATH] @ ms"
      by (cases "gs1_credentials_secret g") (simp_all add: git_sync_mounts_def Let_def git_sync_upgrade_def credentials_secret_to_basic_auth_def t(1))
    have env: "git_sync_env_vars i (gs_credentials (git_sync_upgrade g)) es =
        and_then (case gs1_credentials_secret g of Some s \<Rightarrow> basic_auth_env_vars s env_var_set_new | None \<Rightarrow> Inr env_var_set_new) (with_extra_env_vars es)"
      by (cases "gs1_credentials_secret g") (simp_all add: git_sync_env_vars_def git_sync_upgrade_def credentials_secret_to_basic_auth_def)
    have container: "create_git_sync_container as_str name img (git_sync_upgrade g) one_time vars m lc None =
        create_git_sync_container_v1 as_str name img g one_time vars m lc" for name one_time vars m
      by (simp add: create_git_sync_container_def create_git_sync_container_v1_def create_git_sync_shell_script_def create_git_sync_shell_script_v1_def
          args [OF t(2)])
    have repo: "gs_repo (git_sync_upgrade g) = gs1_repo g" "gs_tls (git_sync_upgrade g) = gs1_tls g" "gs_git_folder (git_sync_upgrade g) = gs1_git_folder g"
      by (simp_all add: git_sync_upgrade_def)
    have ssh: "(case gs_credentials (git_sync_upgrade g) of Some (SshPrivateKeySecretName s) \<Rightarrow> f s | _ \<Rightarrow> []) = []" for f :: "string \<Rightarrow> volume list"
      by (cases "gs1_credentials_secret g") (simp_all add: git_sync_upgrade_def credentials_secret_to_basic_auth_def)
    show ?thesis
      unfolding git_sync_round_def git_sync_round_v1_def Let_def env mounts repo t(3,4) container ssh and_then_assoc and_then.simps ..
  qed
  have loop: "enumerate_loop f i (map git_sync_upgrade hs) r = enumerate_loop f' i hs r"
    if "\<And>i h. h \<in> set hs \<Longrightarrow> f i (git_sync_upgrade h) = f' i h"
    for f :: "nat \<Rightarrow> 'a git_sync \<Rightarrow> (git_sync_resources, git_sync_error) result" and f' i hs r
    using that by (induction hs arbitrary: i r) simp_all
  have "git_sync_downgrade (git_sync_upgrade g) = g"
    by (cases "gs1_credentials_secret g")
      (simp_all add: git_sync_downgrade_def git_sync_upgrade_def credentials_to_secret_def credentials_secret_to_basic_auth_def)
  moreover have "git_sync_upgrade (git_sync_downgrade h) = h \<longleftrightarrow> (\<forall>s. gs_credentials h \<noteq> Some (SshPrivateKeySecretName s))"
    by (cases h) (auto simp: git_sync_downgrade_def git_sync_upgrade_def credentials_to_secret_def credentials_secret_to_basic_auth_def
        split: option.splits git_credentials.splits)
  ultimately show ?thesis
    unfolding git_sync_resources_new_def git_sync_resources_new_v1_def by (simp add: loop round)
qed

theorem git_sync_versions_agree_witness:
  "git_sync_resources_new id id (map git_sync_upgrade [git_sync_downgrade (demo_git_sync\<lparr>gs_tls := None\<rparr>)]) demo_git_image [] [] ''log'' \<lparr>clc_choice = None\<rparr> =
   git_sync_resources_new_v1 id [git_sync_downgrade (demo_git_sync\<lparr>gs_tls := None\<rparr>)] demo_git_image [] [] ''log'' \<lparr>clc_choice = None\<rparr> \<and>
   git_sync_upgrade (git_sync_downgrade demo_git_sync) \<noteq> demo_git_sync"
proof -
  have "gs1_tls (git_sync_downgrade (demo_git_sync\<lparr>gs_tls := None\<rparr>)) = None" by (simp add: git_sync_downgrade_def)
  moreover have "gs_credentials demo_git_sync = Some (SshPrivateKeySecretName ''ssh'')" by (simp add: demo_git_sync_def)
  ultimately show ?thesis
    using git_sync_versions_agree [where gs = "[git_sync_downgrade (demo_git_sync\<lparr>gs_tls := None\<rparr>)]" and scheme = id and as_str = id and
      img = demo_git_image and es = "[]" and ms = "[]" and lv = "''log''" and lc = "\<lparr>clc_choice = None\<rparr>" and h = demo_git_sync] by auto
qed

end
