(* ===== verification/Versioned_Items.thy ===== *)
theory Versioned_Items
  imports K8s_Version BTree_Map
begin

section \<open>Versioned items (crate stackable-versioned-macros)\<close>

text \<open>
  The macro \<open>#[versioned]\<close> turns one annotated container into one container per API version. An
  item (a field of a struct or a variant of an enum) carries the actions \<open>added\<close>, \<open>changed\<close>
  and \<open>deprecated\<close>; this theory holds the validation of the actions (\<open>attrs/item\<close>), the change
  set they are turned into (\<open>into_changeset\<close>) and its completion to all declared versions
  (\<open>codegen/changes.rs\<close>). The specification \<open>item_view_at\<close> reads the name, the type and the
  deprecation of an item at a version off the actions; the theorem at the end says that the
  completed change set agrees with it.

  Syntax trees the code only stores and prints (\<open>syn::Type\<close>) are their token text. Whether a text
  is an identifier is decided by \<open>proc_macro2\<close> (\<open>Ident::new\<close> panics otherwise): the parameter
  \<open>ident_ok\<close>. A panic is the value \<^const>\<open>None\<close>.
\<close>

type_synonym ident_string = string
type_synonym syn_type = string

record syn_path =
  leading_colon :: bool
  segments :: "string list"

record syn_attribute =
  attr_path :: syn_path
  attr_tokens :: string

definition path_to_string :: "syn_path \<Rightarrow> string" where
  "path_to_string path =
     (let pretty_path = join ''::'' (segments path) in
      if leading_colon path then ''::'' @ pretty_path else pretty_path)"

subsection \<open>Attributes of an item\<close>

record added_attributes =
  added_since :: version
  added_default_fn :: syn_path

definition default_default_fn :: syn_path where
  "default_default_fn =
     \<lparr>leading_colon = True, segments = [''std'', ''default'', ''Default'', ''default'']\<rparr>"

record changed_attributes =
  changed_since :: version
  from_name :: "string option"
  from_type :: "syn_type option"
  upgrade_with :: "syn_path option"
  downgrade_with :: "syn_path option"

record deprecated_attributes =
  deprecated_since :: version
  deprecated_note :: "string option"

record item_attributes =
  item_added :: "added_attributes option"
  item_changes :: "changed_attributes list"
  item_deprecated :: "deprecated_attributes option"

subsection \<open>Idents of an item\<close>

record item_idents =
  deprecation_prefix :: string
  ident_original :: ident_string
  ident_cleaned :: ident_string

record field_idents = item_idents +
  ident_json_path :: ident_string

text \<open>\<open>str::starts_with\<close> and \<open>str::trim_start_matches\<close>, which removes every repetition.\<close>

definition str_starts_with :: "string \<Rightarrow> string \<Rightarrow> bool" where
  "str_starts_with s p \<longleftrightarrow> take (length p) s = p"

function trim_start_matches_str :: "string \<Rightarrow> string \<Rightarrow> string" where
  "trim_start_matches_str p s =
     (if p \<noteq> [] \<and> str_starts_with s p then trim_start_matches_str p (drop (length p) s) else s)"
  by pat_completeness auto

termination
  by (relation "measure (\<lambda>(p, s). length s)")
    (auto simp: str_starts_with_def, metis append_take_drop_id diff_less length_greater_0_conv self_append_conv2
      take_eq_Nil)

declare trim_start_matches_str.simps [simp del]

definition to_ascii_lower :: "char \<Rightarrow> char" where
  "to_ascii_lower c = (if is_upper c then char_of (of_char c + (32::nat)) else c)"

definition format_ident :: "(string \<Rightarrow> bool) \<Rightarrow> string \<Rightarrow> ident_string option" where
  "format_ident ident_ok s = (if ident_ok s then Some s else None)"

definition json_path_ident :: "(string \<Rightarrow> bool) \<Rightarrow> ident_string \<Rightarrow> ident_string option" where
  "json_path_ident ident_ok ident =
     format_ident ident_ok (''__sv_'' @ map to_ascii_lower ident @ ''_path'')"

definition FIELD_DEPRECATION_PREFIX :: string where
  "FIELD_DEPRECATION_PREFIX = ''deprecated_''"

definition VARIANT_DEPRECATION_PREFIX :: string where
  "VARIANT_DEPRECATION_PREFIX = ''Deprecated''"

definition field_idents_from :: "(string \<Rightarrow> bool) \<Rightarrow> ident_string \<Rightarrow> field_idents option" where
  "field_idents_from ident_ok original =
     Option.bind (format_ident ident_ok (trim_start_matches_str FIELD_DEPRECATION_PREFIX original)) (\<lambda>cleaned.
     map_option (\<lambda>json_path.
       \<lparr>deprecation_prefix = FIELD_DEPRECATION_PREFIX, ident_original = original,
        ident_cleaned = cleaned, ident_json_path = json_path\<rparr>)
       (json_path_ident ident_ok cleaned))"

definition variant_idents_from :: "(string \<Rightarrow> bool) \<Rightarrow> ident_string \<Rightarrow> item_idents option" where
  "variant_idents_from ident_ok original =
     map_option (\<lambda>cleaned.
       \<lparr>deprecation_prefix = VARIANT_DEPRECATION_PREFIX, ident_original = original,
        ident_cleaned = cleaned\<rparr>)
       (format_ident ident_ok (trim_start_matches_str VARIANT_DEPRECATION_PREFIX original))"

definition starts_with_deprecation_prefix :: "'a item_idents_scheme \<Rightarrow> bool" where
  "starts_with_deprecation_prefix ids \<longleftrightarrow> str_starts_with (ident_original ids) (deprecation_prefix ids)"

subsection \<open>Validation of the actions\<close>

datatype item_error =
    AddedAndDeprecatedInSameVersion
  | AddedAndChangedInSameVersion
  | DeprecatedAndChangedInSameVersion
  | AddedAfterDeprecated version version
  | ChangesOutOfOrder
  | MissingDeprecationPrefix string
  | UnexpectedDeprecationPrefix string
  | EmptyDefaultFn
  | NeedlessChange
  | FromNameWithDeprecationPrefix
  | UpgradeWithoutFromType
  | DowngradeWithoutFromType
  | DeprecatedAttribute
  | UndeclaredAddedVersion
  | UndeclaredChangedVersion
  | UndeclaredDeprecatedVersion
  | RenamedVariantNotPascalCase
  | NestedWithoutTracking
  | FieldWithoutIdent

text \<open>\<open>darling::Error::accumulator\<close>: the errors of all parts, in order; a multiple error is the list
  of its parts.\<close>

definition errors_of :: "('a, 'e list) result \<Rightarrow> 'e list" where
  "errors_of r = (case r of Inl es \<Rightarrow> es | Inr _ \<Rightarrow> [])"

definition finish_with :: "'e list \<Rightarrow> 'a \<Rightarrow> ('a, 'e list) result" where
  "finish_with errors a = (if errors = [] then Inr a else Inl errors)"

definition validate_action_combinations :: "item_attributes \<Rightarrow> (unit, item_error list) result" where
  "validate_action_combinations attrs =
     (case (item_added attrs, item_changes attrs, item_deprecated attrs) of
        (added, changed, deprecated) \<Rightarrow>
          if (case (added, deprecated) of
                (Some a, Some d) \<Rightarrow> added_since a = deprecated_since d | _ \<Rightarrow> False)
          then Inl [AddedAndDeprecatedInSameVersion]
          else if (case added of
                Some a \<Rightarrow> list_ex (\<lambda>r. changed_since r = added_since a) changed | None \<Rightarrow> False)
          then Inl [AddedAndChangedInSameVersion]
          else if (case deprecated of
                Some d \<Rightarrow> list_ex (\<lambda>r. changed_since r = deprecated_since d) changed | None \<Rightarrow> False)
          then Inl [DeprecatedAndChangedInSameVersion]
          else Inr ())"

definition is_none_or :: "('a \<Rightarrow> bool) \<Rightarrow> 'a option \<Rightarrow> bool" where
  "is_none_or f x = (case x of None \<Rightarrow> True | Some a \<Rightarrow> f a)"

definition validate_action_order :: "item_attributes \<Rightarrow> (unit, item_error list) result" where
  "validate_action_order attrs =
     (let added_version = map_option added_since (item_added attrs);
          deprecated_version = map_option deprecated_since (item_deprecated attrs) in
      case (added_version, deprecated_version) of
        (added, deprecated) \<Rightarrow>
          if (case (added, deprecated) of (Some a, Some d) \<Rightarrow> d < a | _ \<Rightarrow> False)
          then Inl [AddedAfterDeprecated (the added) (the deprecated)]
          else if \<not> list_all (\<lambda>r. is_none_or (\<lambda>a. a < changed_since r) added
                 \<and> is_none_or (\<lambda>d. changed_since r < d) deprecated) (item_changes attrs)
          then Inl [ChangesOutOfOrder]
          else Inr ())"

definition validate_item_name :: "item_attributes \<Rightarrow> 'a item_idents_scheme \<Rightarrow> (unit, item_error list) result" where
  "validate_item_name attrs ids =
     (if item_deprecated attrs \<noteq> None \<and> \<not> starts_with_deprecation_prefix ids
      then Inl [MissingDeprecationPrefix (deprecation_prefix ids)]
      else if item_deprecated attrs = None \<and> starts_with_deprecation_prefix ids
      then Inl [UnexpectedDeprecationPrefix (deprecation_prefix ids)]
      else Inr ())"

definition validate_added_action :: "item_attributes \<Rightarrow> (unit, item_error list) result" where
  "validate_added_action attrs =
     (case item_added attrs of
        Some added \<Rightarrow> if segments (added_default_fn added) = [] then Inl [EmptyDefaultFn] else Inr ()
      | None \<Rightarrow> Inr ())"

definition changed_errors :: "string \<Rightarrow> changed_attributes \<Rightarrow> item_error list" where
  "changed_errors prefix' change =
     (if from_name change = None \<and> from_type change = None then [NeedlessChange] else [])
     @ (case from_name change of
          Some from \<Rightarrow> if str_starts_with from prefix' then [FromNameWithDeprecationPrefix] else []
        | None \<Rightarrow> [])
     @ (if from_type change = None
        then (if upgrade_with change \<noteq> None then [UpgradeWithoutFromType] else [])
             @ (if downgrade_with change \<noteq> None then [DowngradeWithoutFromType] else [])
        else [])"

definition validate_changed_action :: "item_attributes \<Rightarrow> 'a item_idents_scheme \<Rightarrow> (unit, item_error list) result" where
  "validate_changed_action attrs ids =
     finish_with (concat (map (changed_errors (deprecation_prefix ids)) (item_changes attrs))) ()"

definition validate_item_attributes :: "syn_attribute list \<Rightarrow> (unit, item_error list) result" where
  "validate_item_attributes attrs =
     (if list_ex (\<lambda>attr. list_ex (\<lambda>s. s = ''deprecated'') (segments (attr_path attr))) attrs
      then Inl [DeprecatedAttribute] else Inr ())"

definition validate_item ::
    "item_attributes \<Rightarrow> 'a item_idents_scheme \<Rightarrow> syn_attribute list \<Rightarrow> (unit, item_error list) result" where
  "validate_item attrs ids item_attrs =
     finish_with
       (errors_of (validate_action_combinations attrs)
        @ errors_of (validate_action_order attrs)
        @ errors_of (validate_item_name attrs ids)
        @ errors_of (validate_added_action attrs)
        @ errors_of (validate_changed_action attrs ids)
        @ errors_of (validate_item_attributes item_attrs)) ()"

text \<open>\<open>VersionDefinition\<close>.\<close>

record version_idents =
  module_ident :: ident_string
  variant_ident :: ident_string

record version_definition =
  version_deprecated :: "string option"
  version_skip_from :: bool
  inner :: version
  version_idents :: version_idents
  version_docs :: "string list"

definition declared :: "version_definition list \<Rightarrow> version \<Rightarrow> bool" where
  "declared versions since \<longleftrightarrow> list_ex (\<lambda>v. inner v = since) versions"

definition validate_versions ::
    "item_attributes \<Rightarrow> version_definition list \<Rightarrow> (unit, item_error list) result" where
  "validate_versions attrs versions =
     finish_with
       ((case item_added attrs of
           Some added \<Rightarrow> if declared versions (added_since added) then [] else [UndeclaredAddedVersion]
         | None \<Rightarrow> [])
        @ concat (map (\<lambda>change.
            if declared versions (changed_since change) then [] else [UndeclaredChangedVersion])
            (item_changes attrs))
        @ (case item_deprecated attrs of
             Some deprecated \<Rightarrow> if declared versions (deprecated_since deprecated) then []
               else [UndeclaredDeprecatedVersion]
           | None \<Rightarrow> [])) ()"

datatype hint = Hint_Option | Hint_Vec

record field_attributes =
  field_common :: item_attributes
  field_ident :: "ident_string option"
  field_attrs :: "syn_attribute list"
  field_nested :: bool
  field_hint :: "hint option"

record variant_attributes =
  variant_common :: item_attributes
  variant_attr_ident :: ident_string
  variant_attrs :: "syn_attribute list"

definition field_attributes_validate ::
    "(string \<Rightarrow> bool) \<Rightarrow> field_attributes \<Rightarrow> (field_attributes, item_error list) result option" where
  "field_attributes_validate ident_ok self =
     (case field_ident self of
        None \<Rightarrow> Some (Inl [FieldWithoutIdent])
      | Some ident \<Rightarrow>
          map_option (\<lambda>ids.
            and_then (validate_item (field_common self) ids (field_attrs self)) (\<lambda>_. Inr self))
            (field_idents_from ident_ok ident))"

definition validate_nested_flag :: "field_attributes \<Rightarrow> bool \<Rightarrow> (unit, item_error list) result" where
  "validate_nested_flag self experimental_conversion_tracking =
     (if field_nested self \<and> \<not> experimental_conversion_tracking then Inl [NestedWithoutTracking]
      else Inr ())"

text \<open>\<open>is_case(_, Case::Pascal)\<close> of the crate \<open>convert_case_extras\<close> is the parameter \<open>is_pascal\<close>.\<close>

definition variant_attributes_validate ::
    "(string \<Rightarrow> bool) \<Rightarrow> (string \<Rightarrow> bool) \<Rightarrow> variant_attributes \<Rightarrow>
     (variant_attributes, item_error list) result option" where
  "variant_attributes_validate ident_ok is_pascal self =
     map_option (\<lambda>ids.
       finish_with
         (errors_of (validate_item (variant_common self) ids (variant_attrs self))
          @ concat (map (\<lambda>change.
              case from_name change of
                Some from \<Rightarrow> if is_pascal from then [] else [RenamedVariantNotPascalCase]
              | None \<Rightarrow> []) (item_changes (variant_common self)))) self)
       (variant_idents_from ident_ok (variant_attr_ident self))"

subsection \<open>The change set\<close>

datatype item_status =
    Addition ident_string syn_path syn_type
  | Change "syn_path option" "syn_path option" ident_string ident_string syn_type syn_type
  | Deprecation ident_string "string option" ident_string
  | NoChange bool ident_string syn_type
  | NotPresent

text \<open>\<open>Change downgrade_with upgrade_with from_ident to_ident from_type to_type\<close>,
  \<open>Deprecation previous_ident note ident\<close>, \<open>NoChange previously_deprecated ident ty\<close>.\<close>

fun get_ident :: "item_status \<Rightarrow> ident_string option" where
  "get_ident (Addition ident _ _) = Some ident"
| "get_ident (Change _ _ _ to_ident _ _) = Some to_ident"
| "get_ident (Deprecation _ _ ident) = Some ident"
| "get_ident (NoChange _ ident _) = Some ident"
| "get_ident NotPresent = None"

type_synonym changeset = "(version, item_status) btreemap"

definition change_from_ident ::
    "(string \<Rightarrow> bool) \<Rightarrow> changed_attributes \<Rightarrow> ident_string \<Rightarrow> ident_string option" where
  "change_from_ident ident_ok change ident =
     (case from_name change of Some from \<Rightarrow> format_ident ident_ok from | None \<Rightarrow> Some ident)"

definition change_from_type :: "changed_attributes \<Rightarrow> syn_type \<Rightarrow> syn_type" where
  "change_from_type change ty = (case from_type change of None \<Rightarrow> ty | Some sv \<Rightarrow> sv)"

text \<open>The loop over \<open>self.changes.iter().rev()\<close>.\<close>

fun record_changes ::
    "(string \<Rightarrow> bool) \<Rightarrow> changed_attributes list \<Rightarrow> ident_string \<times> syn_type \<times> changeset \<Rightarrow>
     (ident_string \<times> syn_type \<times> changeset) option" where
  "record_changes ident_ok [] acc = Some acc"
| "record_changes ident_ok (change # rest) (ident, ty, actions) =
     Option.bind (change_from_ident ident_ok change ident) (\<lambda>from_ident.
       let from_ty = change_from_type change ty in
       record_changes ident_ok rest
         (from_ident, from_ty,
          btree_insert (changed_since change)
            (Change (downgrade_with change) (upgrade_with change) from_ident ident from_ty ty)
            actions))"

definition record_addition ::
    "added_attributes option \<Rightarrow> ident_string \<times> syn_type \<times> changeset \<Rightarrow> changeset" where
  "record_addition added' acc =
     (case acc of (ident, ty, actions) \<Rightarrow>
        case added' of
          Some added \<Rightarrow> btree_insert (added_since added) (Addition ident (added_default_fn added) ty) actions
        | None \<Rightarrow> actions)"

definition into_changeset ::
    "(string \<Rightarrow> bool) \<Rightarrow> item_attributes \<Rightarrow> 'a item_idents_scheme \<Rightarrow> syn_type \<Rightarrow> changeset option option" where
  "into_changeset ident_ok self ids ty =
     (case item_deprecated self of
        Some deprecated \<Rightarrow>
          map_option (\<lambda>acc. Some (record_addition (item_added self) acc))
            (record_changes ident_ok (rev (item_changes self))
              (ident_cleaned ids, ty,
               btree_insert (deprecated_since deprecated)
                 (Deprecation (ident_cleaned ids) (deprecated_note deprecated) (ident_original ids)) []))
      | None \<Rightarrow>
          if item_changes self \<noteq> [] then
            map_option (\<lambda>acc. Some (record_addition (item_added self) acc))
              (record_changes ident_ok (rev (item_changes self)) (ident_original ids, ty, []))
          else
            (case item_added self of
               Some added \<Rightarrow>
                 Some (Some (btree_insert (added_since added)
                   (Addition (ident_original ids) (added_default_fn added) ty) []))
             | None \<Rightarrow> Some None))"

subsection \<open>Completing the change set\<close>

datatype 'k bound = Included 'k | Excluded 'k | Unbounded

definition below :: "'k::linorder bound \<Rightarrow> 'k \<Rightarrow> bool" where
  "below b k = (case b of Included x \<Rightarrow> k \<le> x | Excluded x \<Rightarrow> k < x | Unbounded \<Rightarrow> True)"

definition above :: "'k::linorder bound \<Rightarrow> 'k \<Rightarrow> bool" where
  "above b k = (case b of Included x \<Rightarrow> x \<le> k | Excluded x \<Rightarrow> x < k | Unbounded \<Rightarrow> True)"

definition last_opt :: "'a list \<Rightarrow> 'a option" where
  "last_opt xs = (if xs = [] then None else Some (last xs))"

definition first_opt :: "'a list \<Rightarrow> 'a option" where
  "first_opt xs = (case xs of [] \<Rightarrow> None | x # _ \<Rightarrow> Some x)"

definition lo_bound :: "('k::linorder, 'v) btreemap \<Rightarrow> 'k bound \<Rightarrow> ('k \<times> 'v) option" where
  "lo_bound m b = last_opt (filter (\<lambda>(k, _). below b k) m)"

definition up_bound :: "('k::linorder, 'v) btreemap \<Rightarrow> 'k bound \<Rightarrow> ('k \<times> 'v) option" where
  "up_bound m b = first_opt (filter (\<lambda>(k, _). above b k) m)"

definition get_neighbors :: "('k::linorder, 'v) btreemap \<Rightarrow> 'k \<Rightarrow> ('v option \<times> 'v option) option" where
  "get_neighbors m key =
     (case (lo_bound m (Excluded key), up_bound m (Excluded key)) of
        (Some (k, v), None) \<Rightarrow>
          Some (if key > k then (Some v, None) else (map_option snd (lo_bound m (Excluded k)), None))
      | (None, Some (k, v)) \<Rightarrow>
          Some (if key < k then (None, Some v) else (None, map_option snd (up_bound m (Excluded k))))
      | (Some (_, lo), Some (_, up)) \<Rightarrow> Some (Some lo, Some up)
      | (None, None) \<Rightarrow> None)"

definition value_is :: "('k, 'v) btreemap \<Rightarrow> 'k \<Rightarrow> ('v \<Rightarrow> bool) \<Rightarrow> bool" where
  "value_is m key f = (case btree_get m key of None \<Rightarrow> False | Some v \<Rightarrow> f v)"

definition get_expect :: "(version, 'v) btreemap \<Rightarrow> version \<Rightarrow> 'v option" where
  "get_expect m key = btree_get m key"

text \<open>What the arms of \<open>insert_container_versions\<close> insert for a version without an action.\<close>

fun inserted_status :: "syn_type \<Rightarrow> item_status option \<times> item_status option \<Rightarrow> item_status option" where
  "inserted_status ty (None, Some status) =
     (case status of
        Addition _ _ _ \<Rightarrow> Some NotPresent
      | Change _ _ from_ident _ from_ty _ \<Rightarrow> Some (NoChange False from_ident from_ty)
      | Deprecation previous_ident _ _ \<Rightarrow> Some (NoChange False previous_ident ty)
      | NoChange previously_deprecated ident ty' \<Rightarrow> Some (NoChange previously_deprecated ident ty')
      | NotPresent \<Rightarrow> None)"
| "inserted_status ty (Some status, None) =
     (case status of
        Addition ident _ ty' \<Rightarrow> Some (NoChange False ident ty')
      | Change _ _ _ to_ident _ to_type \<Rightarrow> Some (NoChange False to_ident to_type)
      | Deprecation _ _ ident \<Rightarrow> Some (NoChange True ident ty)
      | NoChange previously_deprecated ident ty' \<Rightarrow> Some (NoChange previously_deprecated ident ty')
      | NotPresent \<Rightarrow> None)"
| "inserted_status ty (Some status, Some _) =
     (case status of
        Addition ident _ ty' \<Rightarrow> Some (NoChange False ident ty')
      | Change _ _ _ to_ident _ to_type \<Rightarrow> Some (NoChange False to_ident to_type)
      | NoChange previously_deprecated ident ty' \<Rightarrow> Some (NoChange previously_deprecated ident ty')
      | NotPresent \<Rightarrow> Some NotPresent
      | Deprecation _ _ _ \<Rightarrow> None)"
| "inserted_status ty (None, None) = None"

fun insert_container_versions ::
    "changeset \<Rightarrow> version_definition list \<Rightarrow> syn_type \<Rightarrow> changeset option" where
  "insert_container_versions m [] ty = Some m"
| "insert_container_versions m (version # rest) ty =
     (if btree_contains_key m (inner version) then insert_container_versions m rest ty
      else
        Option.bind (get_neighbors m (inner version)) (\<lambda>neighbors.
        Option.bind (inserted_status ty neighbors) (\<lambda>status.
          insert_container_versions (btree_insert (inner version) status m) rest ty)))"

subsection \<open>Specification: the item at a version\<close>

text \<open>
  The name and the type before a suffix of the changes: the changes are undone from the last one.
  At a version the item has undone every change of a later version; before the version it was added
  in it does not exist, and from the version it was deprecated in it has its original name.
\<close>

definition undo_change :: "changed_attributes \<Rightarrow> ident_string \<times> syn_type \<Rightarrow> ident_string \<times> syn_type" where
  "undo_change change = (\<lambda>(ident, ty).
     (case from_name change of Some from \<Rightarrow> from | None \<Rightarrow> ident, change_from_type change ty))"

definition before_changes ::
    "changed_attributes list \<Rightarrow> ident_string \<times> syn_type \<Rightarrow> ident_string \<times> syn_type" where
  "before_changes = foldr undo_change"

definition last_ident :: "item_attributes \<Rightarrow> 'a item_idents_scheme \<Rightarrow> ident_string" where
  "last_ident attrs ids =
     (if item_deprecated attrs = None then ident_original ids else ident_cleaned ids)"

definition item_view_at ::
    "item_attributes \<Rightarrow> 'a item_idents_scheme \<Rightarrow> syn_type \<Rightarrow> version \<Rightarrow> (ident_string \<times> syn_type \<times> bool) option" where
  "item_view_at attrs ids ty v =
     (if (case item_added attrs of Some added \<Rightarrow> v < added_since added | None \<Rightarrow> False) then None
      else if (case item_deprecated attrs of Some deprecated \<Rightarrow> deprecated_since deprecated \<le> v | None \<Rightarrow> False)
      then Some (ident_original ids, ty, True)
      else
        (case before_changes (filter (\<lambda>c. v < changed_since c) (item_changes attrs)) (last_ident attrs ids, ty) of
           (ident, ty') \<Rightarrow> Some (ident, ty', False)))"

text \<open>What a status says of the item at its version.\<close>

fun status_view :: "syn_type \<Rightarrow> item_status \<Rightarrow> (ident_string \<times> syn_type \<times> bool) option" where
  "status_view ty (Addition ident _ ty') = Some (ident, ty', False)"
| "status_view ty (Change _ _ _ to_ident _ to_type) = Some (to_ident, to_type, False)"
| "status_view ty (Deprecation _ _ ident) = Some (ident, ty, True)"
| "status_view ty (NoChange previously_deprecated ident ty') = Some (ident, ty', previously_deprecated)"
| "status_view ty NotPresent = None"

definition quiet_status :: "(ident_string \<times> syn_type \<times> bool) option \<Rightarrow> item_status" where
  "quiet_status view =
     (case view of None \<Rightarrow> NotPresent | Some (ident, ty, deprecated) \<Rightarrow> NoChange deprecated ident ty)"

text \<open>The action of the item at a version, if it has one.\<close>

fun change_at ::
    "changed_attributes list \<Rightarrow> ident_string \<times> syn_type \<Rightarrow> version \<Rightarrow> item_status option" where
  "change_at [] base k = None"
| "change_at (c # cs) base k =
     (if changed_since c = k then
        (case (before_changes cs base, undo_change c (before_changes cs base)) of
           ((to_ident, to_type), (from_ident, from_ty)) \<Rightarrow>
             Some (Change (downgrade_with c) (upgrade_with c) from_ident to_ident from_ty to_type))
      else change_at cs base k)"

definition addition_at :: "item_attributes \<Rightarrow> ident_string \<times> syn_type \<Rightarrow> version \<Rightarrow> item_status option" where
  "addition_at attrs base k =
     (case item_added attrs of
        Some added \<Rightarrow>
          if added_since added = k then
            (case before_changes (item_changes attrs) base of
               (ident, ty) \<Rightarrow> Some (Addition ident (added_default_fn added) ty))
          else None
      | None \<Rightarrow> None)"

definition deprecation_at :: "item_attributes \<Rightarrow> 'a item_idents_scheme \<Rightarrow> version \<Rightarrow> item_status option" where
  "deprecation_at attrs ids k =
     (case item_deprecated attrs of
        Some deprecated \<Rightarrow>
          if deprecated_since deprecated = k
          then Some (Deprecation (ident_cleaned ids) (deprecated_note deprecated) (ident_original ids))
          else None
      | None \<Rightarrow> None)"

definition action_at ::
    "item_attributes \<Rightarrow> 'a item_idents_scheme \<Rightarrow> syn_type \<Rightarrow> version \<Rightarrow> item_status option" where
  "action_at attrs ids ty k =
     (let base = (last_ident attrs ids, ty) in
      case addition_at attrs base k of
        Some s \<Rightarrow> Some s
      | None \<Rightarrow> (case change_at (item_changes attrs) base k of
          Some s \<Rightarrow> Some s
        | None \<Rightarrow> deprecation_at attrs ids k))"

lemmas action_defs = action_at_def addition_at_def deprecation_at_def last_ident_def Let_def

definition changes_ascend :: "item_attributes \<Rightarrow> bool" where
  "changes_ascend attrs \<longleftrightarrow> sorted_wrt (<) (map changed_since (item_changes attrs))"

text \<open>What the validation leaves: the actions are ordered.\<close>

definition actions_ordered :: "item_attributes \<Rightarrow> bool" where
  "actions_ordered attrs \<longleftrightarrow>
     (\<forall>a d. item_added attrs = Some a \<longrightarrow> item_deprecated attrs = Some d \<longrightarrow>
        added_since a < deprecated_since d)
     \<and> (\<forall>a. \<forall>c\<in>set (item_changes attrs). item_added attrs = Some a \<longrightarrow> added_since a < changed_since c)
     \<and> (\<forall>d. \<forall>c\<in>set (item_changes attrs). item_deprecated attrs = Some d \<longrightarrow>
          changed_since c < deprecated_since d)"

lemma finish_with_Inr [simp]: "finish_with es a = Inr b \<longleftrightarrow> es = [] \<and> a = b"
  by (auto simp: finish_with_def)

lemma errors_of_Nil: "errors_of r = [] \<Longrightarrow> (\<exists>a. r = Inr a) \<or> r = Inl []"
  by (auto simp: errors_of_def split: sum.splits)

lemma validated_actions_ordered:
  assumes "validate_item attrs ids item_attrs = Inr ()"
  shows "actions_ordered attrs"
proof -
  from assms have "errors_of (validate_action_combinations attrs) = []"
    and "errors_of (validate_action_order attrs) = []"
    by (auto simp: validate_item_def)
  then show ?thesis
    by (fastforce simp: errors_of_def validate_action_combinations_def validate_action_order_def
        actions_ordered_def is_none_or_def list_all_iff list_ex_iff Let_def order_le_less
        split: option.splits if_splits)
qed

lemma before_changes_simps [simp]:
  "before_changes [] base = base"
  "before_changes (c # cs) base = undo_change c (before_changes cs base)"
  by (simp_all add: before_changes_def)

lemma change_at_iff:
  "change_at cs base k \<noteq> None \<longleftrightarrow> k \<in> changed_since ` set cs"
  by (induction cs) (auto split: prod.splits)

lemma change_at_None: "change_at cs base k = None \<longleftrightarrow> k \<notin> changed_since ` set cs"
  using change_at_iff [of cs base k] by auto

lemma record_changes_append:
  "record_changes ident_ok (xs @ ys) acc =
     Option.bind (record_changes ident_ok xs acc) (record_changes ident_ok ys)"
  by (induction ident_ok xs acc rule: record_changes.induct) (auto simp: Let_def split: bind_splits)

lemma change_from_ident_Some:
  "change_from_ident ident_ok c ident = Some i \<Longrightarrow>
     i = (case from_name c of Some from \<Rightarrow> from | None \<Rightarrow> ident)"
  by (auto simp: change_from_ident_def format_ident_def split: option.splits if_splits)

lemma record_changes_rev:
  assumes "record_changes ident_ok (rev cs) (ident, ty, m) = Some (ident', ty', m')"
    and "btree_inv m" and "distinct (map changed_since cs)"
  shows "(ident', ty') = before_changes cs (ident, ty) \<and> btree_inv m' \<and>
    (\<forall>k. btree_get m' k = (case change_at cs (ident, ty) k of Some s \<Rightarrow> Some s | None \<Rightarrow> btree_get m k))"
  using assms(1,3)
proof (induction cs arbitrary: ident' ty' m')
  case Nil
  then show ?case using assms(2) by simp
next
  case (Cons c cs)
  from Cons.prems(1) obtain i t m1 where
      rest: "record_changes ident_ok (rev cs) (ident, ty, m) = Some (i, t, m1)"
    and step: "record_changes ident_ok [c] (i, t, m1) = Some (ident', ty', m')"
    by (auto simp: record_changes_append split: bind_splits)
  from Cons.IH [OF rest] Cons.prems(2) have IH: "(i, t) = before_changes cs (ident, ty)" "btree_inv m1"
      "\<And>k. btree_get m1 k = (case change_at cs (ident, ty) k of Some s \<Rightarrow> Some s | None \<Rightarrow> btree_get m k)"
    by auto
  from step have made: "ident' = (case from_name c of Some from \<Rightarrow> from | None \<Rightarrow> i)"
      "ty' = change_from_type c t"
      "m' = btree_insert (changed_since c)
        (Change (downgrade_with c) (upgrade_with c) ident' i ty' t) m1"
    by (auto simp: Let_def dest!: change_from_ident_Some split: bind_splits)
  have undone: "(ident', ty') = undo_change c (i, t)"
    by (simp add: made undo_change_def)
  show ?case
    using IH undone by (auto simp: made(3) IH(1) [symmetric] split: prod.splits)
qed

lemma changes_ascend_distinct: "changes_ascend attrs \<Longrightarrow> distinct (map changed_since (item_changes attrs))"
  by (simp add: changes_ascend_def strict_sorted_iff)

text \<open>The change set holds the actions and nothing else.\<close>

lemma into_changeset_actions:
  assumes made: "into_changeset ident_ok attrs ids ty = Some (Some m)"
    and ordered: "actions_ordered attrs" and ascend: "changes_ascend attrs"
  shows "btree_inv m \<and> (\<forall>k. btree_get m k = action_at attrs ids ty k)"
proof (cases "item_deprecated attrs")
  case (Some deprecated)
  let ?dep = "btree_insert (deprecated_since deprecated)
      (Deprecation (ident_cleaned ids) (deprecated_note deprecated) (ident_original ids)) []"
  from made Some obtain i t m1 where
      loop: "record_changes ident_ok (rev (item_changes attrs)) (ident_cleaned ids, ty, ?dep) = Some (i, t, m1)"
    and m: "m = record_addition (item_added attrs) (i, t, m1)"
    by (auto simp: into_changeset_def)
  from record_changes_rev [OF loop _ changes_ascend_distinct [OF ascend]]
  have facts: "(i, t) = before_changes (item_changes attrs) (ident_cleaned ids, ty)" "btree_inv m1"
      "\<And>k. btree_get m1 k = (case change_at (item_changes attrs) (ident_cleaned ids, ty) k of
        Some s \<Rightarrow> Some s | None \<Rightarrow> btree_get ?dep k)"
    by (auto simp del: btree_insert.simps)
  show ?thesis
    using Some facts
    by (cases "item_added attrs")
      (auto simp: m record_addition_def action_defs simp del: btree_insert.simps
        split: option.splits prod.splits)
next
  case None
  show ?thesis
  proof (cases "item_changes attrs = []")
    case True
    with None made show ?thesis
      by (auto simp: into_changeset_def action_defs simp del: btree_insert.simps
          split: option.splits)
  next
    case False
    with None made obtain i t m1 where
        loop: "record_changes ident_ok (rev (item_changes attrs)) (ident_original ids, ty, []) = Some (i, t, m1)"
      and m: "m = record_addition (item_added attrs) (i, t, m1)"
      by (auto simp: into_changeset_def)
    from record_changes_rev [OF loop _ changes_ascend_distinct [OF ascend]]
    have facts: "(i, t) = before_changes (item_changes attrs) (ident_original ids, ty)" "btree_inv m1"
        "\<And>k. btree_get m1 k = change_at (item_changes attrs) (ident_original ids, ty) k"
      by (auto simp del: btree_insert.simps split: option.splits)
    show ?thesis
      using None facts
      by (cases "item_added attrs")
        (auto simp: m record_addition_def action_defs simp del: btree_insert.simps
          split: option.splits prod.splits)
  qed
qed

subsection \<open>Neighbours\<close>

lemma first_opt_Some: "first_opt xs = Some x \<longleftrightarrow> (\<exists>ys. xs = x # ys)"
  by (auto simp: first_opt_def split: list.splits)

lemma first_opt_None: "first_opt xs = None \<longleftrightarrow> xs = []"
  by (auto simp: first_opt_def split: list.splits)

lemma last_opt_Some: "last_opt xs = Some x \<longleftrightarrow> (\<exists>ys. xs = ys @ [x])"
  by (auto simp: last_opt_def) (metis append_butlast_last_id)

lemma last_opt_None: "last_opt xs = None \<longleftrightarrow> xs = []"
  by (simp add: last_opt_def)

lemma filter_keys_sorted:
  "btree_inv m \<Longrightarrow> sorted_wrt (\<lambda>x y. fst x < fst y) (filter p m)"
  by (simp add: btree_inv_def sorted_wrt_map sorted_wrt_filter)

lemma up_bound_Some:
  assumes "btree_inv m" and "up_bound m (Excluded key) = Some (k, v)"
  shows "key < k \<and> btree_get m k = Some v \<and> (\<forall>k'. btree_get m k' \<noteq> None \<longrightarrow> key < k' \<longrightarrow> k \<le> k')"
proof -
  from assms(2) obtain rest where rest: "filter (\<lambda>(k, _). key < k) m = (k, v) # rest"
    by (auto simp: up_bound_def first_opt_Some above_def)
  then have member: "(k, v) \<in> set (filter (\<lambda>(k, _). key < k) m)" by simp
  have least: "k \<le> k'" if entry: "(k', v') \<in> set m" and above: "key < k'" for k' v'
  proof -
    from entry above have "(k', v') \<in> set ((k, v) # rest)" unfolding rest [symmetric] by simp
    with filter_keys_sorted [OF assms(1), of "\<lambda>(k, _). key < k"] show ?thesis
      by (auto simp: rest)
  qed
  from member least show ?thesis
    using assms(1) by (auto simp: btree_get_iff)
qed

lemma up_bound_None:
  assumes "btree_inv m" and "up_bound m (Excluded key) = None"
  shows "btree_get m k \<noteq> None \<Longrightarrow> \<not> key < k"
  using assms by (auto simp: up_bound_def first_opt_None above_def filter_empty_conv btree_get_iff)

lemma lo_bound_Some:
  assumes "btree_inv m" and "lo_bound m (Excluded key) = Some (k, v)"
  shows "k < key \<and> btree_get m k = Some v \<and> (\<forall>k'. btree_get m k' \<noteq> None \<longrightarrow> k' < key \<longrightarrow> k' \<le> k)"
proof -
  from assms(2) obtain rest where rest: "filter (\<lambda>(k, _). k < key) m = rest @ [(k, v)]"
    by (auto simp: lo_bound_def last_opt_Some below_def)
  then have member: "(k, v) \<in> set (filter (\<lambda>(k, _). k < key) m)" by simp
  have greatest: "k' \<le> k" if entry: "(k', v') \<in> set m" and below: "k' < key" for k' v'
  proof -
    from entry below have "(k', v') \<in> set (rest @ [(k, v)])" unfolding rest [symmetric] by simp
    with filter_keys_sorted [OF assms(1), of "\<lambda>(k, _). k < key"] show ?thesis
      by (auto simp: rest sorted_wrt_append)
  qed
  from member greatest show ?thesis
    using assms(1) by (auto simp: btree_get_iff)
qed

lemma lo_bound_None:
  assumes "btree_inv m" and "lo_bound m (Excluded key) = None"
  shows "btree_get m k \<noteq> None \<Longrightarrow> \<not> k < key"
  using assms by (auto simp: lo_bound_def last_opt_None below_def filter_empty_conv btree_get_iff)

lemma get_neighbors_eq:
  assumes "btree_inv m"
  shows "get_neighbors m key =
    (case (lo_bound m (Excluded key), up_bound m (Excluded key)) of
       (None, None) \<Rightarrow> None
     | (lo, up) \<Rightarrow> Some (map_option snd lo, map_option snd up))"
  using lo_bound_Some [OF assms] up_bound_Some [OF assms]
  by (auto simp: get_neighbors_def split: option.splits)

subsection \<open>Views between the actions\<close>

definition action_versions :: "item_attributes \<Rightarrow> version set" where
  "action_versions attrs =
     (case item_added attrs of Some a \<Rightarrow> {added_since a} | None \<Rightarrow> {})
     \<union> changed_since ` set (item_changes attrs)
     \<union> (case item_deprecated attrs of Some d \<Rightarrow> {deprecated_since d} | None \<Rightarrow> {})"

lemma action_versions_members:
  "item_added attrs = Some a \<Longrightarrow> added_since a \<in> action_versions attrs"
  "c \<in> set (item_changes attrs) \<Longrightarrow> changed_since c \<in> action_versions attrs"
  "item_deprecated attrs = Some d \<Longrightarrow> deprecated_since d \<in> action_versions attrs"
  by (auto simp: action_versions_def)

lemma change_at_Some: "change_at cs base k = Some s \<Longrightarrow> k \<in> changed_since ` set cs"
  using change_at_iff [of cs base k] by simp

lemma action_at_iff: "action_at attrs ids ty k \<noteq> None \<longleftrightarrow> k \<in> action_versions attrs"
  by (auto simp: action_at_def addition_at_def deprecation_at_def Let_def action_versions_def change_at_None
      dest: change_at_Some split: option.splits prod.splits if_splits)

lemma action_at_None: "action_at attrs ids ty k = None \<longleftrightarrow> k \<notin> action_versions attrs"
  using action_at_iff [of attrs ids ty k] by auto

lemma view_between:
  assumes "a \<le> b" and quiet: "\<And>k. k \<in> action_versions attrs \<Longrightarrow> a < k \<Longrightarrow> \<not> k \<le> b"
  shows "item_view_at attrs ids ty b = item_view_at attrs ids ty a"
proof -
  have same: "a < changed_since c \<longleftrightarrow> b < changed_since c" if "c \<in> set (item_changes attrs)" for c
    using quiet [OF action_versions_members(2) [OF that]] assms(1) by auto
  have changes: "filter (\<lambda>c. b < changed_since c) (item_changes attrs) =
      filter (\<lambda>c. a < changed_since c) (item_changes attrs)"
    using same by (auto intro: filter_cong)
  have added: "b < added_since x \<longleftrightarrow> a < added_since x" if "item_added attrs = Some x" for x
    using quiet [OF action_versions_members(1) [OF that]] assms(1) by auto
  have deprecated: "deprecated_since x \<le> b \<longleftrightarrow> deprecated_since x \<le> a" if "item_deprecated attrs = Some x" for x
    using quiet [OF action_versions_members(3) [OF that]] assms(1) by (meson not_le order_trans)
  show ?thesis
    by (auto simp: item_view_at_def changes added deprecated split: option.splits)
qed

lemma change_at_split:
  "change_at cs base k = Some s \<Longrightarrow>
     \<exists>pre c post to_ident to_type from_ident from_ty. cs = pre @ c # post \<and> changed_since c = k \<and>
       before_changes post base = (to_ident, to_type) \<and>
       undo_change c (to_ident, to_type) = (from_ident, from_ty) \<and>
       s = Change (downgrade_with c) (upgrade_with c) from_ident to_ident from_ty to_type"
proof (induction cs)
  case Nil
  then show ?case by simp
next
  case (Cons c cs)
  show ?case
  proof (cases "changed_since c = k")
    case True
    with Cons.prems show ?thesis
      by (intro exI [where x = "[]"]) (auto split: prod.splits)
  next
    case False
    with Cons.prems Cons.IH obtain pre c' post to_ident to_type from_ident from_ty where
        "cs = pre @ c' # post \<and> changed_since c' = k \<and>
         before_changes post base = (to_ident, to_type) \<and>
         undo_change c' (to_ident, to_type) = (from_ident, from_ty) \<and>
         s = Change (downgrade_with c') (upgrade_with c') from_ident to_ident from_ty to_type"
      by auto
    then show ?thesis by (intro exI [where x = "c # pre"]) auto
  qed
qed

lemma later_changes:
  assumes "sorted_wrt (<) (map changed_since (pre @ c # post))"
  shows "filter (\<lambda>x. changed_since c < changed_since x) (pre @ c # post) = post"
proof -
  have "\<forall>x\<in>set pre. changed_since x < changed_since c" "\<forall>x\<in>set post. changed_since c < changed_since x"
    using assms by (auto simp: sorted_wrt_append)
  then show ?thesis
    by (auto simp: filter_empty_conv filter_id_conv dest: less_asym)
qed

lemma action_view:
  assumes made: "action_at attrs ids ty k = Some s"
    and ordered: "actions_ordered attrs" and ascend: "changes_ascend attrs"
  shows "status_view ty s = item_view_at attrs ids ty k"
proof -
  let ?base = "(last_ident attrs ids, ty)"
  from made consider (added) "addition_at attrs ?base k = Some s"
    | (changed) "addition_at attrs ?base k = None" "change_at (item_changes attrs) ?base k = Some s"
    | (deprecated) "addition_at attrs ?base k = None" "deprecation_at attrs ids k = Some s"
    by (auto simp: action_at_def Let_def split: option.splits)
  then show ?thesis
  proof cases
    case added
    then obtain x where x: "item_added attrs = Some x" "added_since x = k"
      by (auto simp: addition_at_def split: option.splits if_splits)
    with ordered have all: "\<forall>c\<in>set (item_changes attrs). k < changed_since c"
      and dep: "\<And>d. item_deprecated attrs = Some d \<Longrightarrow> k < deprecated_since d"
      by (auto simp: actions_ordered_def)
    from all have "filter (\<lambda>c. k < changed_since c) (item_changes attrs) = item_changes attrs"
      by simp
    with added x dep show ?thesis
      by (auto simp: addition_at_def item_view_at_def split: option.splits prod.splits dest: leD)
  next
    case changed
    from change_at_split [OF changed(2)] obtain pre c post to_ident to_type from_ident from_ty where
        c: "item_changes attrs = pre @ c # post" "changed_since c = k"
          "before_changes post ?base = (to_ident, to_type)"
          "s = Change (downgrade_with c) (upgrade_with c) from_ident to_ident from_ty to_type"
      by auto
    from ordered c have added: "\<And>a. item_added attrs = Some a \<Longrightarrow> added_since a < k"
      and dep: "\<And>d. item_deprecated attrs = Some d \<Longrightarrow> k < deprecated_since d"
      by (auto simp: actions_ordered_def)
    from ascend c have "filter (\<lambda>c. k < changed_since c) (item_changes attrs) = post"
      using later_changes [of pre c post] by (simp add: changes_ascend_def)
    with c added dep show ?thesis
      by (auto simp: item_view_at_def split: option.splits dest: less_asym leD)
  next
    case deprecated
    then obtain d where d: "item_deprecated attrs = Some d" "deprecated_since d = k"
        "s = Deprecation (ident_cleaned ids) (deprecated_note d) (ident_original ids)"
      by (auto simp: deprecation_at_def split: option.splits if_splits)
    with ordered have "\<And>a. item_added attrs = Some a \<Longrightarrow> added_since a < k"
      by (auto simp: actions_ordered_def)
    with d show ?thesis
      by (auto simp: item_view_at_def split: option.splits dest: less_asym)
  qed
qed

text \<open>Before the first action the item is what that action starts from.\<close>

lemma view_before_first:
  assumes made: "action_at attrs ids ty k = Some s" and before: "v < k"
    and first: "\<And>k'. k' \<in> action_versions attrs \<Longrightarrow> k \<le> k'"
    and ordered: "actions_ordered attrs" and ascend: "changes_ascend attrs"
  shows "inserted_status ty (None, Some s) = Some (quiet_status (item_view_at attrs ids ty v))"
proof -
  let ?base = "(last_ident attrs ids, ty)"
  have all: "filter (\<lambda>c. v < changed_since c) (item_changes attrs) = item_changes attrs"
    using first before by (force simp: action_versions_def filter_id_conv)
  have dep: "\<And>d. item_deprecated attrs = Some d \<Longrightarrow> \<not> deprecated_since d \<le> v"
    using first before by (force simp: action_versions_def)
  from made consider (added) "addition_at attrs ?base k = Some s"
    | (changed) "addition_at attrs ?base k = None" "change_at (item_changes attrs) ?base k = Some s"
    | (deprecated) "addition_at attrs ?base k = None" "change_at (item_changes attrs) ?base k = None"
        "deprecation_at attrs ids k = Some s"
    by (auto simp: action_at_def Let_def split: option.splits)
  then show ?thesis
  proof cases
    case added
    with before show ?thesis
      by (auto simp: addition_at_def item_view_at_def quiet_status_def split: option.splits if_splits prod.splits)
  next
    case changed
    from change_at_split [OF changed(2)] obtain pre c post to_ident to_type from_ident from_ty where
        c: "item_changes attrs = pre @ c # post" "changed_since c = k"
          "before_changes post ?base = (to_ident, to_type)"
          "undo_change c (to_ident, to_type) = (from_ident, from_ty)"
          "s = Change (downgrade_with c) (upgrade_with c) from_ident to_ident from_ty to_type"
      by auto
    have "pre = []"
    proof (cases pre)
      case (Cons p ps)
      with ascend c have "changed_since p < k" by (auto simp: changes_ascend_def)
      moreover from first have "k \<le> changed_since p" using Cons c by (auto simp: action_versions_def)
      ultimately show ?thesis by simp
    qed simp
    moreover have "item_added attrs = None"
    proof (cases "item_added attrs")
      case (Some a)
      with ordered c have "added_since a < k" by (auto simp: actions_ordered_def)
      moreover from first Some have "k \<le> added_since a" by (auto simp: action_versions_def)
      ultimately show ?thesis by simp
    qed
    ultimately show ?thesis
      using c dep all by (auto simp: item_view_at_def quiet_status_def split: option.splits)
  next
    case deprecated
    then obtain d where d: "item_deprecated attrs = Some d" "deprecated_since d = k"
        "s = Deprecation (ident_cleaned ids) (deprecated_note d) (ident_original ids)"
      by (auto simp: deprecation_at_def split: option.splits if_splits)
    have "item_changes attrs = []"
    proof (cases "item_changes attrs")
      case (Cons c cs)
      with ordered d have "changed_since c < k" by (auto simp: actions_ordered_def)
      moreover from first Cons have "k \<le> changed_since c" by (auto simp: action_versions_def)
      ultimately show ?thesis by simp
    qed
    moreover have "item_added attrs = None"
    proof (cases "item_added attrs")
      case (Some a)
      with ordered d have "added_since a < k" by (auto simp: actions_ordered_def)
      moreover from first Some have "k \<le> added_since a" by (auto simp: action_versions_def)
      ultimately show ?thesis by simp
    qed
    ultimately show ?thesis
      using d before by (auto simp: item_view_at_def quiet_status_def last_ident_def)
  qed
qed

subsection \<open>The completed change set\<close>

text \<open>
  The invariant of the loop: the map holds the actions, and for every processed version without an
  action the status that the specification gives.
\<close>

definition completed ::
    "item_attributes \<Rightarrow> 'a item_idents_scheme \<Rightarrow> syn_type \<Rightarrow> version set \<Rightarrow> changeset \<Rightarrow> bool" where
  "completed attrs ids ty P m \<longleftrightarrow>
     btree_inv m \<and>
     (\<forall>k. btree_get m k =
        (case action_at attrs ids ty k of
           Some s \<Rightarrow> Some s
         | None \<Rightarrow> if k \<in> P then Some (quiet_status (item_view_at attrs ids ty k)) else None))"

lemma action_at_Some: "action_at attrs ids ty k = Some s \<Longrightarrow> k \<in> action_versions attrs"
  using action_at_iff [of attrs ids ty k] by simp

lemma completed_keys:
  "completed attrs ids ty P m \<Longrightarrow> btree_get m k \<noteq> None \<longleftrightarrow> k \<in> action_versions attrs \<union> P"
  by (auto simp: completed_def action_at_None dest: action_at_Some split: option.splits)

lemma quiet_status_view: "status_view ty (quiet_status view) = view"
  by (auto simp: quiet_status_def split: option.splits prod.splits)

lemma completed_view:
  assumes "completed attrs ids ty P m" "actions_ordered attrs" "changes_ascend attrs"
    and "btree_get m k = Some s"
  shows "status_view ty s = item_view_at attrs ids ty k"
  using assms by (auto simp: completed_def quiet_status_view dest: action_view split: option.splits if_splits)

lemma inserted_status_lo:
  assumes "status_view ty s \<noteq> None \<or> up \<noteq> None" and "(\<forall>a b c. s \<noteq> Deprecation a b c) \<or> up = None"
  shows "inserted_status ty (Some s, up) = Some (quiet_status (status_view ty s))"
  using assms by (cases up; cases s) (auto simp: quiet_status_def)

lemma action_at_Deprecation:
  "action_at attrs ids ty k = Some (Deprecation a b c) \<Longrightarrow>
     \<exists>d. item_deprecated attrs = Some d \<and> deprecated_since d = k"
  by (auto simp: action_at_def addition_at_def deprecation_at_def Let_def dest!: change_at_split
      split: option.splits if_splits prod.splits)

lemma completed_Deprecation:
  assumes "completed attrs ids ty P m" and "btree_get m k = Some (Deprecation a b c)"
  shows "\<exists>d. item_deprecated attrs = Some d \<and> deprecated_since d = k"
  using assms
  by (auto simp: completed_def quiet_status_def dest: action_at_Deprecation split: option.splits if_splits prod.splits)

lemma last_action_deprecated:
  assumes "actions_ordered attrs" "item_deprecated attrs = Some d" "k \<in> action_versions attrs"
  shows "k \<le> deprecated_since d"
  using assms by (auto simp: actions_ordered_def action_versions_def less_imp_le split: option.splits)

lemma view_None_added:
  "item_view_at attrs ids ty v = None \<Longrightarrow> \<exists>a. item_added attrs = Some a \<and> v < added_since a"
  by (auto simp: item_view_at_def split: option.splits if_splits prod.splits)

lemma completed_step:
  assumes complete: "completed attrs ids ty P m"
    and ordered: "actions_ordered attrs" and ascend: "changes_ascend attrs"
    and some: "action_versions attrs \<noteq> {}"
    and fresh: "v \<notin> action_versions attrs" and above: "\<And>p. p \<in> P \<Longrightarrow> p < v"
  shows "Option.bind (get_neighbors m v) (inserted_status ty) = Some (quiet_status (item_view_at attrs ids ty v))"
proof (cases "lo_bound m (Excluded v)")
  case None
  have inv: "btree_inv m" using complete by (simp add: completed_def)
  have none: "\<not> k < v" if "k \<in> action_versions attrs \<union> P" for k
    using lo_bound_None [OF inv None, of k] that completed_keys [OF complete] by blast
  from none above have "P = {}" by blast
  from some obtain a where "a \<in> action_versions attrs" by blast
  with none fresh have "v < a" by (metis UnI1 linorder_less_linear)
  with up_bound_None [OF inv] \<open>a \<in> action_versions attrs\<close> completed_keys [OF complete]
  obtain k s where up: "up_bound m (Excluded v) = Some (k, s)" by (cases "up_bound m (Excluded v)") fastforce+
  from up_bound_Some [OF inv up] have k: "v < k" "btree_get m k = Some s"
    "\<And>k'. k' \<in> action_versions attrs \<Longrightarrow> v < k' \<Longrightarrow> k \<le> k'"
    using completed_keys [OF complete] by auto
  from k(2) \<open>P = {}\<close> complete have "action_at attrs ids ty k = Some s"
    by (auto simp: completed_def split: option.splits)
  moreover have "k \<le> k'" if "k' \<in> action_versions attrs" for k'
    using k(3) [OF that] none [of k'] fresh that by (metis UnI1 linorder_less_linear)
  ultimately show ?thesis
    using view_before_first [OF _ k(1) _ ordered ascend]
    by (simp add: get_neighbors_eq [OF inv] None up)
next
  case (Some lo)
  obtain k s where lo: "lo = (k, s)" by (cases lo)
  have inv: "btree_inv m" using complete by (simp add: completed_def)
  from lo_bound_Some [OF inv Some [unfolded lo]] have k: "k < v" "btree_get m k = Some s"
    "\<And>k'. k' \<in> action_versions attrs \<Longrightarrow> k' < v \<Longrightarrow> k' \<le> k"
    using completed_keys [OF complete] by auto
  let ?up = "up_bound m (Excluded v)"
  have view: "item_view_at attrs ids ty v = item_view_at attrs ids ty k"
  proof (rule view_between)
    fix k' assume "k' \<in> action_versions attrs" "k < k'"
    with k(3) fresh show "\<not> k' \<le> v" by (metis leD le_less)
  qed (use k in simp)
  have status: "status_view ty s = item_view_at attrs ids ty k"
    using completed_view [OF complete ordered ascend k(2)] .
  have later: "?up \<noteq> None" if "item_view_at attrs ids ty v = None"
  proof
    assume "?up = None"
    from view_None_added [OF that] obtain a where a: "item_added attrs = Some a" "v < added_since a" by blast
    from up_bound_None [OF inv \<open>?up = None\<close>, of "added_since a"] a completed_keys [OF complete]
    show False by (auto dest: action_versions_members(1))
  qed
  have deprecated: "?up = None" if "s = Deprecation x y z" for x y z
  proof (cases ?up)
    case (Some entry)
    then obtain k' s' where "?up = Some (k', s')" by (cases entry) simp
    from up_bound_Some [OF inv this] have above': "v < k'" "k' \<in> action_versions attrs \<union> P"
      using completed_keys [OF complete] by auto
    from completed_Deprecation [OF complete k(2) [unfolded that]] obtain d where
        d: "item_deprecated attrs = Some d" "deprecated_since d = k" by blast
    from above' above have "k' \<in> action_versions attrs" by (auto dest: less_asym)
    with last_action_deprecated [OF ordered d(1)] d k(1) above'(1) show ?thesis by force
  qed simp
  have "inserted_status ty (Some s, map_option snd ?up) = Some (quiet_status (status_view ty s))"
  proof (rule inserted_status_lo)
    show "status_view ty s \<noteq> None \<or> map_option snd ?up \<noteq> None"
      unfolding status view [symmetric] option.map_disc_iff
      using later by blast
    show "(\<forall>a b c. s \<noteq> Deprecation a b c) \<or> map_option snd ?up = None" using deprecated by auto
  qed
  then show ?thesis
    by (cases ?up) (simp_all add: get_neighbors_eq [OF inv] Some lo status view)
qed

lemma completed_insert:
  assumes "completed attrs ids ty P m" and "v \<notin> action_versions attrs"
  shows "completed attrs ids ty (insert v P)
    (btree_insert v (quiet_status (item_view_at attrs ids ty v)) m)"
  using assms by (auto simp: completed_def action_at_None dest: action_at_Some split: option.splits)

lemma completed_action:
  assumes "completed attrs ids ty P m" and "v \<in> action_versions attrs"
  shows "completed attrs ids ty (insert v P) m"
  using assms by (auto simp: completed_def action_at_None split: option.splits)

lemma insert_container_versions_completed:
  assumes "completed attrs ids ty P m"
    and "actions_ordered attrs" "changes_ascend attrs" "action_versions attrs \<noteq> {}"
    and "sorted_wrt (<) (map inner versions)" and "\<And>p v. p \<in> P \<Longrightarrow> v \<in> set versions \<Longrightarrow> p < inner v"
  shows "\<exists>m'. insert_container_versions m versions ty = Some m' \<and>
    completed attrs ids ty (P \<union> inner ` set versions) m'"
  using assms(1,5,6)
proof (induction versions arbitrary: P m)
  case Nil
  then show ?case by simp
next
  case (Cons version rest)
  let ?v = "inner version"
  have above: "\<And>p. p \<in> P \<Longrightarrow> p < ?v" using Cons.prems(3) by simp
  have rest: "sorted_wrt (<) (map inner rest)"
    "\<And>p v. p \<in> insert ?v P \<Longrightarrow> v \<in> set rest \<Longrightarrow> p < inner v"
    using Cons.prems(2,3) by auto
  have sets: "insert ?v P \<union> inner ` set rest = P \<union> inner ` set (version # rest)" by auto
  have fresh: "?v \<notin> P" using above by blast
  show ?case
  proof (cases "?v \<in> action_versions attrs")
    case True
    with completed_keys [OF Cons.prems(1), of ?v] have "btree_contains_key m ?v"
      by (simp add: btree_contains_key_def)
    with Cons.IH [OF completed_action [OF Cons.prems(1) True] rest] sets show ?thesis by simp
  next
    case False
    let ?s = "quiet_status (item_view_at attrs ids ty ?v)"
    from completed_keys [OF Cons.prems(1), of ?v] False fresh have "\<not> btree_contains_key m ?v"
      by (simp add: btree_contains_key_def)
    moreover from completed_step [OF Cons.prems(1) assms(2-4) False above]
    obtain n where "get_neighbors m ?v = Some n" "inserted_status ty n = Some ?s"
      by (auto split: bind_splits)
    ultimately have "insert_container_versions m (version # rest) ty =
        insert_container_versions (btree_insert ?v ?s m) rest ty"
      by simp
    with Cons.IH [OF completed_insert [OF Cons.prems(1) False] rest] sets show ?thesis by simp
  qed
qed

lemma completed_start:
  assumes "btree_inv m \<and> (\<forall>k. btree_get m k = action_at attrs ids ty k)"
  shows "completed attrs ids ty {} m"
  using assms by (auto simp: completed_def split: option.splits)

lemma changeset_has_action:
  assumes "into_changeset ident_ok attrs ids ty = Some (Some m)"
  shows "action_versions attrs \<noteq> {}"
  using assms by (auto simp: into_changeset_def action_versions_def split: option.splits if_splits)

lemma changeset_completed:
  assumes valid: "validate_item attrs ids item_attrs = Inr ()" and ascend: "changes_ascend attrs"
    and made: "into_changeset ident_ok attrs ids ty = Some (Some m)"
    and versions: "sorted_wrt (<) (map inner versions)"
  shows "\<exists>m'. insert_container_versions m versions ty = Some m' \<and>
    completed attrs ids ty (inner ` set versions) m'"
  using insert_container_versions_completed [OF completed_start [OF into_changeset_actions [OF made]] _ ascend
      changeset_has_action [OF made] versions] validated_actions_ordered [OF valid] ascend
  by simp


definition demo_actions :: item_attributes where
  "demo_actions =
     \<lparr>item_added = Some \<lparr>added_since = Version 1 (Some (Alpha 2)), added_default_fn = default_default_fn\<rparr>,
      item_changes = [\<lparr>changed_since = Version 1 (Some (Beta 1)), from_name = Some ''jaz'',
        from_type = Some ''u8'', upgrade_with = None, downgrade_with = None\<rparr>],
      item_deprecated = Some \<lparr>deprecated_since = Version 1 None, deprecated_note = None\<rparr>\<rparr>"

definition demo_idents :: item_idents where
  "demo_idents = \<lparr>deprecation_prefix = FIELD_DEPRECATION_PREFIX, ident_original = ''deprecated_bar'',
     ident_cleaned = ''bar''\<rparr>"

definition demo_version :: "version \<Rightarrow> version_definition" where
  "demo_version v = \<lparr>version_deprecated = None, version_skip_from = False, inner = v,
     version_idents = \<lparr>module_ident = version_fmt v, variant_ident = version_fmt v\<rparr>, version_docs = []\<rparr>"

definition demo_versions :: "version_definition list" where
  "demo_versions = map demo_version
     [Version 1 (Some (Alpha 1)), Version 1 (Some (Alpha 2)), Version 1 (Some (Beta 1)),
      Version 1 (Some (Beta 2)), Version 1 None, Version 2 None]"

lemmas version_order = less_version_def less_eq_version_def version_cmp_def level_cmp_def ord_cmp_def

lemma demo_valid: "validate_item demo_actions demo_idents [] = Inr ()"
  by (simp add: validate_item_def errors_of_def validate_action_combinations_def validate_action_order_def
      validate_item_name_def validate_added_action_def validate_changed_action_def changed_errors_def
      validate_item_attributes_def demo_actions_def demo_idents_def default_default_fn_def is_none_or_def
      starts_with_deprecation_prefix_def str_starts_with_def FIELD_DEPRECATION_PREFIX_def Let_def finish_with_def version_order)

lemma demo_versions_ascend: "sorted_wrt (<) (map inner demo_versions)"
  by (simp add: demo_versions_def demo_version_def version_order)

lemma demo_changeset:
  "\<exists>m. into_changeset (\<lambda>_. True) demo_actions demo_idents ''u16'' = Some (Some m)"
  by (simp add: into_changeset_def demo_actions_def change_from_ident_def format_ident_def Let_def)


text \<open>
  The ascending order of the changes is not validated: two changes declared out of order are
  accepted, and the names then follow the order of the attributes and not that of the versions. The
  version with the later change gets an older name than the version before it.
\<close>

definition swapped_actions :: item_attributes where
  "swapped_actions =
     \<lparr>item_added = None,
      item_changes =
        [\<lparr>changed_since = Version 1 None, from_name = Some ''b'', from_type = None, upgrade_with = None, downgrade_with = None\<rparr>,
         \<lparr>changed_since = Version 1 (Some (Beta 1)), from_name = Some ''a'', from_type = None, upgrade_with = None, downgrade_with = None\<rparr>],
      item_deprecated = None\<rparr>"

definition swapped_idents :: item_idents where
  "swapped_idents = \<lparr>deprecation_prefix = FIELD_DEPRECATION_PREFIX, ident_original = ''c'', ident_cleaned = ''c''\<rparr>"

lemma changes_out_of_order_accepted:
  "validate_item swapped_actions swapped_idents [] = Inr ()
   \<and> map_option (map_option (\<lambda>m. map (map_option get_ident \<circ> get_expect m)
         [Version 1 (Some (Beta 1)), Version 1 None]))
       (into_changeset (\<lambda>_. True) swapped_actions swapped_idents ''u8'')
     = Some (Some [Some (Some ''c''), Some (Some ''a'')])"
  by (simp add: validate_item_def errors_of_def validate_action_combinations_def validate_action_order_def
      validate_item_name_def validate_added_action_def validate_changed_action_def changed_errors_def
      validate_item_attributes_def swapped_actions_def swapped_idents_def is_none_or_def record_addition_def
      starts_with_deprecation_prefix_def str_starts_with_def FIELD_DEPRECATION_PREFIX_def Let_def finish_with_def version_order
      into_changeset_def change_from_ident_def format_ident_def get_expect_def btree_get_def)

end
