(* ===== verification/Versioned_Containers.thy ===== *)
theory Versioned_Containers
  imports Versioned_Items "HOL-Library.Sublist"
begin

section \<open>Versioned containers and their conversions (crate stackable-versioned-macros)\<close>

text \<open>
  What the macro generates for the fields of a struct and the variants of an enum: the definition
  of the container at every version and the \<open>From\<close> impls between adjacent versions
  (\<open>codegen/item\<close>, \<open>codegen/container\<close>). The emitted tokens are data here: a field of a struct
  literal, an arm of a match. The theorem says that the generated struct conversions are complete:
  they initialise exactly the fields of the target version and read only fields of the source
  version. The outer \<^typ>\<open>'a option\<close> of the generators is a panic of the macro.
\<close>

datatype direction = Upgrade | Downgrade

subsection \<open>Fields\<close>

record versioned_field =
  vf_attributes :: "syn_attribute list"
  vf_changes :: "changeset option"
  vf_idents :: field_idents
  vf_hint :: "hint option"
  vf_nested :: bool
  vf_ty :: syn_type

text \<open>\<open>VersionedField::new\<close>, from the attributes \<open>darling\<close> parsed.\<close>

definition versioned_field_new ::
    "(string \<Rightarrow> bool) \<Rightarrow> field_attributes \<Rightarrow> syn_type \<Rightarrow> version_definition list \<Rightarrow> bool \<Rightarrow>
     (versioned_field, item_error list) result option" where
  "versioned_field_new ident_ok attrs ty versions experimental_conversion_tracking =
     Option.bind (field_attributes_validate ident_ok attrs) (\<lambda>validated.
     case and_then validated (\<lambda>field_attributes.
          and_then (validate_versions (field_common field_attributes) versions) (\<lambda>_.
          and_then (validate_nested_flag field_attributes experimental_conversion_tracking) (\<lambda>_.
          and_then (ok_or [FieldWithoutIdent] (field_ident attrs)) (\<lambda>ident.
            Inr (field_attributes, ident))))) of
       Inl errors \<Rightarrow> Some (Inl errors)
     | Inr (field_attributes, ident) \<Rightarrow>
         Option.bind (field_idents_from ident_ok ident) (\<lambda>idents.
         map_option (\<lambda>changes.
           Inr \<lparr>vf_attributes = field_attrs field_attributes, vf_changes = changes, vf_idents = idents,
             vf_hint = field_hint field_attributes, vf_nested = field_nested field_attributes, vf_ty = ty\<rparr>)
           (into_changeset ident_ok (field_common field_attributes) idents ty)))"

definition field_insert_container_versions ::
    "versioned_field \<Rightarrow> version_definition list \<Rightarrow> versioned_field option" where
  "field_insert_container_versions self versions =
     (case vf_changes self of
        Some changes \<Rightarrow>
          map_option (\<lambda>changes. self\<lparr>vf_changes := Some changes\<rparr>)
            (insert_container_versions changes versions (vf_ty self))
      | None \<Rightarrow> Some self)"

text \<open>A field of the generated struct; \<open>Some None\<close> is \<open>#[deprecated]\<close>, \<open>Some (Some note)\<close> has a note.\<close>

record field_definition =
  fd_attributes :: "syn_attribute list"
  fd_deprecated :: "string option option"
  fd_ident :: ident_string
  fd_ty :: syn_type

definition make_field ::
    "versioned_field \<Rightarrow> string option option \<Rightarrow> ident_string \<Rightarrow> syn_type \<Rightarrow> field_definition" where
  "make_field self deprecated_attr ident ty =
     \<lparr>fd_attributes = vf_attributes self, fd_deprecated = deprecated_attr, fd_ident = ident, fd_ty = ty\<rparr>"

definition field_for_container ::
    "versioned_field \<Rightarrow> version_definition \<Rightarrow> field_definition option option" where
  "field_for_container self version =
     (case vf_changes self of
        Some changes \<Rightarrow>
          map_option (\<lambda>status.
            case status of
              Addition ident _ ty \<Rightarrow> Some (make_field self None ident ty)
            | Change _ _ _ to_ident _ to_type \<Rightarrow> Some (make_field self None to_ident to_type)
            | Deprecation _ note ident \<Rightarrow> Some (make_field self (Some note) ident (vf_ty self))
            | NotPresent \<Rightarrow> None
            | NoChange previously_deprecated ident ty \<Rightarrow>
                Some (make_field self (if previously_deprecated then Some None else None) ident ty))
            (btree_get changes (inner version))
      | None \<Rightarrow> Some (Some (make_field self None (ident_original (vf_idents self)) (vf_ty self))))"

text \<open>A field of the struct literal in a \<open>From\<close> impl. The expressions: \<open>default_fn()\<close>,
  \<open>convert_fn(from.rhs)\<close>, \<open>from.rhs.into()\<close> and \<open>from.rhs.tracking_into(status, &path)\<close>, the last two
  mapped over an \<open>Option\<close> or a \<open>Vec\<close> when there is a hint.\<close>

datatype from_field =
    FieldDefault (lhs_ident: ident_string) syn_path
  | FieldWith (lhs_ident: ident_string) syn_path ident_string
  | FieldInto (lhs_ident: ident_string) ident_string "hint option"
  | FieldTracking (lhs_ident: ident_string) ident_string "hint option" ident_string

fun rhs_ident :: "from_field \<Rightarrow> ident_string option" where
  "rhs_ident (FieldDefault _ _) = None"
| "rhs_ident (FieldWith _ _ rhs) = Some rhs"
| "rhs_ident (FieldInto _ rhs _) = Some rhs"
| "rhs_ident (FieldTracking _ rhs _ _) = Some rhs"

definition generate_from_impl_field ::
    "(string \<Rightarrow> bool) \<Rightarrow> versioned_field \<Rightarrow> ident_string \<Rightarrow> ident_string \<Rightarrow> syn_path option \<Rightarrow> from_field option" where
  "generate_from_impl_field ident_ok self lhs_field_ident rhs_field_ident custom_conversion_function =
     (case custom_conversion_function of
        Some convert_fn \<Rightarrow> Some (FieldWith lhs_field_ident convert_fn rhs_field_ident)
      | None \<Rightarrow>
          if vf_nested self then
            map_option (FieldTracking lhs_field_ident rhs_field_ident (vf_hint self))
              (json_path_ident ident_ok lhs_field_ident)
          else Some (FieldInto lhs_field_ident rhs_field_ident (vf_hint self)))"

definition field_for_from_impl ::
    "(string \<Rightarrow> bool) \<Rightarrow> versioned_field \<Rightarrow> direction \<Rightarrow> version_definition \<Rightarrow> version_definition \<Rightarrow>
     from_field option option" where
  "field_for_from_impl ident_ok self direction version next_version =
     (case vf_changes self of
        Some changes \<Rightarrow>
          Option.bind (get_expect changes (inner next_version)) (\<lambda>next_change.
          Option.bind (get_expect changes (inner version)) (\<lambda>change.
          case (change, next_change) of
            (NotPresent, NotPresent) \<Rightarrow> Some None
          | (_, Addition ident default_fn _) \<Rightarrow>
              (case direction of
                 Upgrade \<Rightarrow> Some (Some (FieldDefault ident default_fn))
               | Downgrade \<Rightarrow> Some None)
          | (_, Change downgrade upgrade from_ident to_ident _ _) \<Rightarrow>
              (case direction of
                 Upgrade \<Rightarrow> map_option Some (generate_from_impl_field ident_ok self to_ident from_ident upgrade)
               | Downgrade \<Rightarrow> map_option Some (generate_from_impl_field ident_ok self from_ident to_ident downgrade))
          | (old, next') \<Rightarrow>
              Option.bind (get_ident next') (\<lambda>next_field_ident.
              Option.bind (get_ident old) (\<lambda>old_field_ident.
              case direction of
                Upgrade \<Rightarrow> map_option Some (generate_from_impl_field ident_ok self next_field_ident old_field_ident None)
              | Downgrade \<Rightarrow> map_option Some (generate_from_impl_field ident_ok self old_field_ident next_field_ident None)))))
      | None \<Rightarrow>
          let original = ident_original (vf_idents self) in
          map_option Some (generate_from_impl_field ident_ok self original original None))"

subsection \<open>Tracking of added fields\<close>

text \<open>The statement \<open>upgrades.push(ChangedValue { json_path, value: to_value(&from.ident).unwrap() })\<close>.\<close>

record status_insertion =
  si_json_path :: ident_string
  si_ident :: ident_string

definition field_for_status_insertion ::
    "(string \<Rightarrow> bool) \<Rightarrow> versioned_field \<Rightarrow> direction \<Rightarrow> version_definition \<Rightarrow> status_insertion option option" where
  "field_for_status_insertion ident_ok self direction next_version =
     (case vf_changes self of
        None \<Rightarrow> Some None
      | Some changes \<Rightarrow>
          (case direction of
             Upgrade \<Rightarrow> Some None
           | Downgrade \<Rightarrow>
               Option.bind (get_expect changes (inner next_version)) (\<lambda>next_change.
               case next_change of
                 Addition ident _ _ \<Rightarrow>
                   map_option (\<lambda>path. Some \<lparr>si_json_path = path, si_ident = ident\<rparr>) (json_path_ident ident_ok ident)
               | _ \<Rightarrow> Some None)))"

text \<open>The arm \<open>json_path if json_path == path => spec.ident = from_value(value).unwrap()\<close>.\<close>

record status_removal =
  sr_json_path :: ident_string
  sr_ident :: ident_string

definition field_for_status_removal ::
    "(string \<Rightarrow> bool) \<Rightarrow> versioned_field \<Rightarrow> direction \<Rightarrow> version_definition \<Rightarrow> status_removal option option" where
  "field_for_status_removal ident_ok self direction next_version =
     (case vf_changes self of
        None \<Rightarrow> Some None
      | Some changes \<Rightarrow>
          (case direction of
             Upgrade \<Rightarrow>
               Option.bind (get_expect changes (inner next_version)) (\<lambda>next_change.
               case next_change of
                 Addition ident _ _ \<Rightarrow>
                   map_option (\<lambda>path. Some \<lparr>sr_json_path = path, sr_ident = ident\<rparr>) (json_path_ident ident_ok ident)
               | _ \<Rightarrow> Some None)
           | Downgrade \<Rightarrow> Some None))"

text \<open>The statement \<open>let path_ident = jthong_path(parent, child)\<close>.\<close>

record json_path_binding =
  jp_ident :: ident_string
  jp_child :: string

definition field_for_json_path ::
    "(string \<Rightarrow> bool) \<Rightarrow> versioned_field \<Rightarrow> version_definition \<Rightarrow> json_path_binding option option" where
  "field_for_json_path ident_ok self next_version =
     (if vf_nested self then
        Some (Some \<lparr>jp_ident = ident_json_path (vf_idents self), jp_child = ident_original (vf_idents self)\<rparr>)
      else
        (case vf_changes self of
           None \<Rightarrow> Some None
         | Some changes \<Rightarrow>
             Option.bind (get_expect changes (inner next_version)) (\<lambda>next_change.
             case next_change of
               Addition ident _ _ \<Rightarrow>
                 map_option (\<lambda>path. Some \<lparr>jp_ident = path, jp_child = ident\<rparr>) (json_path_ident ident_ok ident)
             | _ \<Rightarrow> Some None)))"

subsection \<open>Variants\<close>

datatype variant_fields = NamedFields "ident_string list" | UnnamedFields nat | UnitFields

record versioned_variant =
  vv_attributes :: "syn_attribute list"
  vv_changes :: "changeset option"
  vv_idents :: item_idents
  vv_fields :: variant_fields

definition never_type :: syn_type where
  "never_type = ''!''"

definition versioned_variant_new ::
    "(string \<Rightarrow> bool) \<Rightarrow> (string \<Rightarrow> bool) \<Rightarrow> variant_attributes \<Rightarrow> variant_fields \<Rightarrow> version_definition list \<Rightarrow>
     (versioned_variant, item_error list) result option" where
  "versioned_variant_new ident_ok is_pascal attrs variant_fields versions =
     Option.bind (variant_attributes_validate ident_ok is_pascal attrs) (\<lambda>validated.
     case and_then validated (\<lambda>variant_attributes.
          and_then (validate_versions (variant_common variant_attributes) versions) (\<lambda>_.
            Inr variant_attributes)) of
       Inl errors \<Rightarrow> Some (Inl errors)
     | Inr variant_attributes \<Rightarrow>
         Option.bind (variant_idents_from ident_ok (variant_attr_ident attrs)) (\<lambda>idents.
         map_option (\<lambda>changes.
           Inr \<lparr>vv_attributes = variant_attrs variant_attributes, vv_changes = changes, vv_idents = idents,
             vv_fields = variant_fields\<rparr>)
           (into_changeset ident_ok (variant_common variant_attributes) idents never_type)))"

definition variant_insert_container_versions ::
    "versioned_variant \<Rightarrow> version_definition list \<Rightarrow> versioned_variant option" where
  "variant_insert_container_versions self versions =
     (case vv_changes self of
        Some changes \<Rightarrow>
          map_option (\<lambda>changes. self\<lparr>vv_changes := Some changes\<rparr>)
            (insert_container_versions changes versions never_type)
      | None \<Rightarrow> Some self)"

record variant_definition =
  vd_attributes :: "syn_attribute list"
  vd_deprecated :: "string option option"
  vd_ident :: ident_string
  vd_fields :: variant_fields

definition make_variant :: "versioned_variant \<Rightarrow> string option option \<Rightarrow> ident_string \<Rightarrow> variant_definition" where
  "make_variant self deprecated_attr ident =
     \<lparr>vd_attributes = vv_attributes self, vd_deprecated = deprecated_attr, vd_ident = ident,
      vd_fields = vv_fields self\<rparr>"

definition variant_for_container ::
    "versioned_variant \<Rightarrow> version_definition \<Rightarrow> variant_definition option option" where
  "variant_for_container self version =
     (case vv_changes self of
        Some changes \<Rightarrow>
          map_option (\<lambda>status.
            case status of
              Addition ident _ _ \<Rightarrow> Some (make_variant self None ident)
            | Change _ _ _ to_ident _ _ \<Rightarrow> Some (make_variant self None to_ident)
            | Deprecation _ note ident \<Rightarrow> Some (make_variant self (Some note) ident)
            | NoChange previously_deprecated ident _ \<Rightarrow>
                Some (make_variant self (if previously_deprecated then Some None else None) ident)
            | NotPresent \<Rightarrow> None)
            (btree_get changes (inner version))
      | None \<Rightarrow> Some (Some (make_variant self None (ident_original (vv_idents self)))))"

text \<open>The tokens of the fields in a pattern and in an expression. The repetition of the tuple form,
  \<open>( #(#fields)* )\<close>, has no separator.\<close>

definition unnamed_field_ident :: "nat \<Rightarrow> ident_string list" where
  "unnamed_field_ident n = map (\<lambda>index. ''__sv_'' @ show_nat index) [0..<n]"

definition generate_from_fields :: "versioned_variant \<Rightarrow> string list option" where
  "generate_from_fields self =
     (case vv_fields self of
        NamedFields idents \<Rightarrow>
          Some ([''{''] @ concat (map (\<lambda>field. [field, '','']) idents) @ [''}''])
      | UnnamedFields n \<Rightarrow>
          Some ([''(''] @ concat (map (\<lambda>field. [field]) (unnamed_field_ident n)) @ ['')''])
      | UnitFields \<Rightarrow> None)"

definition generate_for_fields :: "versioned_variant \<Rightarrow> string list option" where
  "generate_for_fields self =
     (case vv_fields self of
        NamedFields idents \<Rightarrow>
          Some ([''{''] @ concat (map (\<lambda>field. [field, '':'', field, ''.'', ''into'', ''('', '')'', '','']) idents) @ [''}''])
      | UnnamedFields n \<Rightarrow>
          Some ([''(''] @ concat (map (\<lambda>field. [field, ''.'', ''into'', ''('', '')'']) (unnamed_field_ident n)) @ ['')''])
      | UnitFields \<Rightarrow> None)"

text \<open>An arm \<open>from_module::Enum::from_variant fields => for_module::Enum::for_variant fields\<close>.\<close>

record match_arm =
  arm_enum :: ident_string
  arm_from_module :: ident_string
  arm_from_variant :: ident_string
  arm_from_fields :: "string list option"
  arm_for_module :: ident_string
  arm_for_variant :: ident_string
  arm_for_fields :: "string list option"

definition make_arm ::
    "versioned_variant \<Rightarrow> ident_string \<Rightarrow> ident_string \<Rightarrow> ident_string \<Rightarrow> ident_string \<Rightarrow> ident_string \<Rightarrow> match_arm" where
  "make_arm self enum_ident from_module from_variant for_module for_variant =
     \<lparr>arm_enum = enum_ident, arm_from_module = from_module, arm_from_variant = from_variant,
      arm_from_fields = generate_from_fields self, arm_for_module = for_module,
      arm_for_variant = for_variant, arm_for_fields = generate_for_fields self\<rparr>"

definition variant_for_from_impl ::
    "versioned_variant \<Rightarrow> direction \<Rightarrow> version_definition \<Rightarrow> version_definition \<Rightarrow> ident_string \<Rightarrow>
     match_arm option option" where
  "variant_for_from_impl self direction version next_version enum_ident =
     (let next_version_ident = module_ident (version_idents next_version);
          old_version_ident = module_ident (version_idents version) in
      case vv_changes self of
        Some changes \<Rightarrow>
          Option.bind (get_expect changes (inner next_version)) (\<lambda>next_change.
          Option.bind (get_expect changes (inner version)) (\<lambda>change.
          case (change, next_change) of
            (_, Addition _ _ _) \<Rightarrow> Some None
          | (old, next') \<Rightarrow>
              Option.bind (get_ident next') (\<lambda>next_variant_ident.
              Option.bind (get_ident old) (\<lambda>old_variant_ident.
              Some (Some (case direction of
                Upgrade \<Rightarrow> make_arm self enum_ident old_version_ident old_variant_ident next_version_ident next_variant_ident
              | Downgrade \<Rightarrow> make_arm self enum_ident next_version_ident next_variant_ident old_version_ident old_variant_ident))))))
      | None \<Rightarrow>
          let variant_ident = ident_original (vv_idents self) in
          Some (Some (case direction of
            Upgrade \<Rightarrow> make_arm self enum_ident old_version_ident variant_ident next_version_ident variant_ident
          | Downgrade \<Rightarrow> make_arm self enum_ident next_version_ident variant_ident old_version_ident variant_ident)))"

subsection \<open>Module and container arguments\<close>

datatype 'a override = Default 'a | Explicit 'a

fun override_value :: "'a override \<Rightarrow> 'a" where
  "override_value (Default x) = x"
| "override_value (Explicit x) = x"

definition is_explicit :: "'a override \<Rightarrow> bool" where
  "is_explicit x = (case x of Default _ \<Rightarrow> False | Explicit _ \<Rightarrow> True)"

record crate_arguments =
  crate_kube :: "syn_path override"
  crate_kube_core :: "syn_path override"
  crate_kube_client :: "syn_path override"
  crate_k8s_openapi :: "syn_path override"
  crate_schemars :: "syn_path override"
  crate_serde :: "syn_path override"
  crate_serde_json :: "syn_path override"
  crate_serde_yaml :: "syn_path override"
  crate_versioned :: "syn_path override"

definition global_path :: "string list \<Rightarrow> syn_path" where
  "global_path names = \<lparr>leading_colon = True, segments = names\<rparr>"

definition crate_arguments_default :: crate_arguments where
  "crate_arguments_default =
     \<lparr>crate_kube = Default (global_path [''kube'']),
      crate_kube_core = Default (global_path [''kube'', ''core'']),
      crate_kube_client = Default (global_path [''kube'', ''client'']),
      crate_k8s_openapi = Default (global_path [''k8s_openapi'']),
      crate_schemars = Default (global_path [''schemars'']),
      crate_serde = Default (global_path [''serde'']),
      crate_serde_json = Default (global_path [''serde_json'']),
      crate_serde_yaml = Default (global_path [''serde_yaml'']),
      crate_versioned = Default (global_path [''stackable_versioned''])\<rparr>"

datatype module_error =
    NoVersions
  | VersionsNotAscending "version list"
  | DuplicateVersions "version list"
  | KubeOverrideExclusive

definition dynamic_default :: "crate_arguments \<Rightarrow> (crate_arguments, module_error list) result" where
  "dynamic_default self =
     (case crate_kube self of
        Explicit kube_path \<Rightarrow>
          if is_explicit (crate_kube_core self) \<or> is_explicit (crate_kube_client self)
          then Inl [KubeOverrideExclusive]
          else Inr (self\<lparr>crate_kube_core := Explicit (kube_path\<lparr>segments := segments kube_path @ [''core'']\<rparr>),
            crate_kube_client := Explicit (kube_path\<lparr>segments := segments kube_path @ [''client'']\<rparr>)\<rparr>)
      | Default _ \<Rightarrow> Inr self)"

text \<open>\<open>ToTokens for CrateArguments\<close>: the overridden crates the \<open>kube\<close> attribute is told of.\<close>

definition crate_overrides :: "crate_arguments \<Rightarrow> (string \<times> syn_path) list" where
  "crate_overrides self =
     concat (map (\<lambda>(name, x). case x of Explicit path \<Rightarrow> [(name, path)] | Default _ \<Rightarrow> [])
       [(''k8s_openapi'', crate_k8s_openapi self), (''serde_json'', crate_serde_json self),
        (''kube_core'', crate_kube_core self), (''schemars'', crate_schemars self),
        (''serde'', crate_serde self)])"

record version_arguments =
  va_deprecated :: "string option option"
  va_skip_from :: bool
  va_doc :: "string option"
  va_name :: version

record module_skip_arguments =
  skip_from :: bool
  skip_object_from :: bool
  skip_merged_crd :: bool
  skip_try_convert :: bool

record module_attributes =
  ma_versions :: "version_arguments list"
  ma_crates :: crate_arguments
  ma_allow_unsorted :: bool
  ma_preserve_module :: bool
  ma_conversion_tracking :: bool
  ma_enable_tracing :: bool
  ma_skip :: module_skip_arguments

text \<open>\<open>Itertools::duplicates_by\<close>: the first element of each class with more than one element, in the
  order in which the second element is met.\<close>

fun duplicates_loop :: "'a list \<Rightarrow> 'a list \<Rightarrow> 'a list \<Rightarrow> 'a list" where
  "duplicates_loop seen reported [] = []"
| "duplicates_loop seen reported (x # xs) =
     (if x \<in> set reported then duplicates_loop seen reported xs
      else if x \<in> set seen then x # duplicates_loop seen (x # reported) xs
      else duplicates_loop (x # seen) reported xs)"

definition module_attributes_validate :: "module_attributes \<Rightarrow> (module_attributes, module_error list) result" where
  "module_attributes_validate self =
     (let is_sorted = sorted (map va_name (ma_versions self));
          versions = sort_key va_name (ma_versions self);
          duplicates = duplicates_loop [] [] (map va_name versions) in
      finish_with
        ((if ma_versions self = [] then [NoVersions] else [])
         @ (if \<not> ma_allow_unsorted self \<and> \<not> is_sorted then [VersionsNotAscending (map va_name versions)] else [])
         @ (if duplicates \<noteq> [] then [DuplicateVersions duplicates] else []))
        (self\<lparr>ma_versions := versions\<rparr>))"

text \<open>\<open>From<&ModuleAttributes> for Vec<VersionDefinition>\<close>; \<open>to_case(Case::Pascal)\<close> of the crate
  \<open>convert_case\<close> is an argument.\<close>

definition as_module_ident :: "version \<Rightarrow> ident_string" where
  "as_module_ident v = version_fmt v"

definition as_variant_ident :: "(string \<Rightarrow> string) \<Rightarrow> version \<Rightarrow> ident_string" where
  "as_variant_ident to_pascal v = to_pascal (version_fmt v)"

definition into_doc_comments :: "string option \<Rightarrow> string list" where
  "into_doc_comments doc =
     (case doc of None \<Rightarrow> []
      | Some s \<Rightarrow> if trim s = [] then [] else map trim (split_char (CHR 0x0A) (trim s)))"

definition version_definition_from :: "(string \<Rightarrow> string) \<Rightarrow> version_arguments \<Rightarrow> version_definition" where
  "version_definition_from to_pascal v =
     \<lparr>version_deprecated = map_option (\<lambda>override'. case override' of
        Some note \<Rightarrow> note
      | None \<Rightarrow> ''Version '' @ version_fmt (va_name v) @ '' is deprecated'') (va_deprecated v),
      version_skip_from = va_skip_from v,
      inner = va_name v,
      version_idents = \<lparr>module_ident = as_module_ident (va_name v), variant_ident = as_variant_ident to_pascal (va_name v)\<rparr>,
      version_docs = into_doc_comments (va_doc v)\<rparr>"

definition version_definitions :: "(string \<Rightarrow> string) \<Rightarrow> module_attributes \<Rightarrow> version_definition list" where
  "version_definitions to_pascal attributes = map (version_definition_from to_pascal) (ma_versions attributes)"

text \<open>The versions of an accepted module are strictly ascending.\<close>

lemma duplicates_loop_Nil:
  "duplicates_loop seen [] xs = [] \<longleftrightarrow> distinct xs \<and> set xs \<inter> set seen = {}"
  by (induction xs arbitrary: seen) auto

lemma accepted_versions_ascend:
  assumes "module_attributes_validate attributes = Inr accepted"
  shows "sorted_wrt (<) (map inner (version_definitions to_pascal accepted)) \<and>
    version_definitions to_pascal accepted \<noteq> []"
proof -
  from assms have versions: "ma_versions accepted = sort_key va_name (ma_versions attributes)"
    and fine: "ma_versions attributes \<noteq> []" "distinct (map va_name (ma_versions accepted))"
    by (auto simp: module_attributes_validate_def Let_def duplicates_loop_Nil split: if_splits)
  have names: "map inner (version_definitions to_pascal accepted) = map va_name (ma_versions accepted)"
    by (simp add: version_definitions_def version_definition_from_def)
  have "sorted (map va_name (ma_versions accepted))"
    by (simp add: versions)
  with fine(2) have "sorted_wrt (<) (map va_name (ma_versions accepted))"
    by (simp add: strict_sorted_iff)
  moreover have "ma_versions accepted \<noteq> []"
    using fine(1) by (simp add: versions) (metis set_empty set_sort)
  ultimately show ?thesis
    unfolding names by (simp add: version_definitions_def)
qed

subsection \<open>The fields of a struct and its conversions\<close>

text \<open>\<open>filter_map(..).collect()\<close> over a generator that can panic.\<close>

fun filter_map_all :: "('a \<Rightarrow> 'b option option) \<Rightarrow> 'a list \<Rightarrow> 'b list option" where
  "filter_map_all f [] = Some []"
| "filter_map_all f (x # xs) =
     Option.bind (f x) (\<lambda>y. map_option (\<lambda>ys. case y of None \<Rightarrow> ys | Some b \<Rightarrow> b # ys) (filter_map_all f xs))"

text \<open>The loop of \<open>Container::new_struct\<close> over the fields: the first error ends it.\<close>

fun versioned_fields ::
    "(string \<Rightarrow> bool) \<Rightarrow> (field_attributes \<times> syn_type) list \<Rightarrow> version_definition list \<Rightarrow> bool \<Rightarrow>
     (versioned_field list, item_error list) result option" where
  "versioned_fields ident_ok [] versions tracking = Some (Inr [])"
| "versioned_fields ident_ok ((attrs, ty) # rest) versions tracking =
     Option.bind (versioned_field_new ident_ok attrs ty versions tracking) (\<lambda>r.
     case r of
       Inl errors \<Rightarrow> Some (Inl errors)
     | Inr field \<Rightarrow>
         Option.bind (field_insert_container_versions field versions) (\<lambda>field.
         map_option (\<lambda>fs. and_then fs (\<lambda>fs. Inr (field # fs)))
           (versioned_fields ident_ok rest versions tracking)))"

definition struct_definition_fields :: "versioned_field list \<Rightarrow> version_definition \<Rightarrow> field_definition list option" where
  "struct_definition_fields fs version = filter_map_all (\<lambda>f. field_for_container f version) fs"

definition from_impl_fields ::
    "(string \<Rightarrow> bool) \<Rightarrow> versioned_field list \<Rightarrow> direction \<Rightarrow> version_definition \<Rightarrow> version_definition \<Rightarrow>
     from_field list option" where
  "from_impl_fields ident_ok fs direction version next_version =
     filter_map_all (\<lambda>f. field_for_from_impl ident_ok f direction version next_version) fs"

definition status_deprecated :: "item_status \<Rightarrow> bool" where
  "status_deprecated s =
     (case s of Deprecation _ _ _ \<Rightarrow> True | NoChange previously_deprecated _ _ \<Rightarrow> previously_deprecated | _ \<Rightarrow> False)"

definition is_any_field_deprecated :: "versioned_field list \<Rightarrow> version_definition \<Rightarrow> bool" where
  "is_any_field_deprecated fs version =
     list_ex (\<lambda>f. case vf_changes f of None \<Rightarrow> False | Some c \<Rightarrow> value_is c (inner version) status_deprecated) fs"

definition is_any_variant_deprecated :: "versioned_variant list \<Rightarrow> version_definition \<Rightarrow> bool" where
  "is_any_variant_deprecated variants version =
     list_ex (\<lambda>f. case vv_changes f of None \<Rightarrow> False | Some c \<Rightarrow> value_is c (inner version) status_deprecated) variants"

subsection \<open>Statuses at adjacent versions\<close>

definition adjacent :: "version_definition list \<Rightarrow> version_definition \<Rightarrow> version_definition \<Rightarrow> bool" where
  "adjacent versions v n \<longleftrightarrow>
     sorted_wrt (<) (map inner versions) \<and> (\<exists>pre post. versions = pre @ v # n # post)"

lemma adjacent_gap:
  assumes "adjacent versions v n" and "k \<in> inner ` set versions"
  shows "k \<le> inner v \<or> inner n \<le> k"
  using assms by (auto simp: adjacent_def sorted_wrt_append less_imp_le)

lemma adjacent_less: "adjacent versions v n \<Longrightarrow> inner v < inner n"
  by (auto simp: adjacent_def sorted_wrt_append)

lemma adjacent_members: "adjacent versions v n \<Longrightarrow> v \<in> set versions \<and> n \<in> set versions"
  by (auto simp: adjacent_def)

lemma actions_declared:
  assumes "validate_versions attrs versions = Inr ()"
  shows "action_versions attrs \<subseteq> inner ` set versions"
proof -
  have "declared versions v \<longleftrightarrow> v \<in> inner ` set versions" for v
    by (auto simp: declared_def list_ex_iff)
  with assms show ?thesis
    by (auto simp: validate_versions_def action_versions_def split: option.splits if_splits)
qed

lemma status_view_None: "status_view ty s = None \<longleftrightarrow> s = NotPresent"
  by (cases s) auto

lemma status_view_ident: "status_view ty s = Some (i, t, d) \<Longrightarrow> get_ident s = Some i"
  by (cases s) auto

lemma view_before_addition:
  assumes "action_at attrs ids ty k = Some (Addition i f t)" and "v < k"
  shows "item_view_at attrs ids ty v = None"
  using assms
  by (auto simp: action_at_def addition_at_def deprecation_at_def Let_def item_view_at_def dest!: change_at_split
      split: option.splits if_splits prod.splits)

lemma view_before_change:
  assumes made: "action_at attrs ids ty k = Some (Change d u from_ident to_ident from_ty to_ty)"
    and before: "v < k" and gap: "\<And>k'. k' \<in> action_versions attrs \<Longrightarrow> k' \<le> v \<or> k \<le> k'"
    and ordered: "actions_ordered attrs" and ascend: "changes_ascend attrs"
  shows "item_view_at attrs ids ty v = Some (from_ident, from_ty, False)"
proof -
  let ?base = "(last_ident attrs ids, ty)"
  from made have "change_at (item_changes attrs) ?base k = Some (Change d u from_ident to_ident from_ty to_ty)"
    by (auto simp: action_at_def addition_at_def deprecation_at_def Let_def split: option.splits if_splits prod.splits)
  from change_at_split [OF this] obtain pre c post where
      c: "item_changes attrs = pre @ c # post" "changed_since c = k"
        "before_changes post ?base = (to_ident, to_ty)"
        "undo_change c (to_ident, to_ty) = (from_ident, from_ty)"
    by auto
  have sorted: "sorted_wrt (<) (map changed_since (pre @ c # post))"
    using ascend c(1) by (simp add: changes_ascend_def)
  have pre: "\<not> v < changed_since x" if "x \<in> set pre" for x
  proof -
    from sorted that c(2) have "changed_since x < k" by (auto simp: sorted_wrt_append)
    moreover have "changed_since x \<in> action_versions attrs"
      using that c(1) by (auto intro: action_versions_members)
    ultimately show ?thesis using gap by force
  qed
  have post: "v < changed_since x" if "x \<in> set post" for x
  proof -
    from sorted that c(2) have "k < changed_since x" by (auto simp: sorted_wrt_append)
    with before show ?thesis by simp
  qed
  have "filter (\<lambda>x. v < changed_since x) pre = []"
    using pre by (simp add: filter_empty_conv)
  moreover have "filter (\<lambda>x. v < changed_since x) post = post"
    using post by (simp add: filter_id_conv)
  ultimately have filtered: "filter (\<lambda>x. v < changed_since x) (item_changes attrs) = c # post"
    using c(1,2) before by simp
  have added: "\<not> v < added_since a" if "item_added attrs = Some a" for a
  proof -
    from ordered that c have "added_since a < k" by (auto simp: actions_ordered_def)
    with gap [OF action_versions_members(1) [OF that]] show ?thesis by force
  qed
  have deprecated: "\<not> deprecated_since x \<le> v" if "item_deprecated attrs = Some x" for x
  proof -
    from ordered that c have "k < deprecated_since x" by (auto simp: actions_ordered_def)
    with before show ?thesis by simp
  qed
  show ?thesis
    using added deprecated c(3,4) by (auto simp: item_view_at_def filtered split: option.splits)
qed

text \<open>The change set of an item, completed over the declared versions.\<close>

definition item_realised ::
    "item_attributes \<Rightarrow> 'a item_idents_scheme \<Rightarrow> syn_type \<Rightarrow> version_definition list \<Rightarrow> changeset option \<Rightarrow> bool" where
  "item_realised attrs ids ty versions changes \<longleftrightarrow>
     actions_ordered attrs \<and> changes_ascend attrs \<and> action_versions attrs \<subseteq> inner ` set versions \<and>
     (case changes of
        None \<Rightarrow> action_versions attrs = {}
      | Some m \<Rightarrow> completed attrs ids ty (inner ` set versions) m)"

lemma unversioned_view:
  "action_versions attrs = {} \<Longrightarrow> item_view_at attrs ids ty v = Some (ident_original ids, ty, False)"
  by (auto simp: action_versions_def item_view_at_def last_ident_def split: option.splits)

lemma realised_status:
  assumes "item_realised attrs ids ty versions (Some m)" and "v \<in> set versions"
  obtains s where "btree_get m (inner v) = Some s" "status_view ty s = item_view_at attrs ids ty (inner v)"
    "action_at attrs ids ty (inner v) = Some s \<or> s = quiet_status (item_view_at attrs ids ty (inner v))"
proof -
  from assms have facts: "completed attrs ids ty (inner ` set versions) m" "actions_ordered attrs"
      "changes_ascend attrs"
    by (auto simp: item_realised_def)
  from completed_keys [OF facts(1), of "inner v"] assms(2) obtain s where s: "btree_get m (inner v) = Some s"
    by auto
  moreover have "action_at attrs ids ty (inner v) = Some s \<or> s = quiet_status (item_view_at attrs ids ty (inner v))"
    using facts(1) s by (auto simp: completed_def split: option.splits if_splits)
  ultimately show ?thesis
    using completed_view [OF facts s] that by blast
qed

lemma realised_step:
  assumes real: "item_realised attrs ids ty versions (Some m)" and adj: "adjacent versions v n"
    and next': "btree_get m (inner n) = Some s"
  shows "(\<forall>i f t. s = Addition i f t \<longrightarrow> item_view_at attrs ids ty (inner v) = None)
    \<and> (\<forall>d u i i' t t'. s = Change d u i i' t t' \<longrightarrow> item_view_at attrs ids ty (inner v) = Some (i, t, False))
    \<and> (item_view_at attrs ids ty (inner v) = None \<longrightarrow> s = NotPresent \<or> (\<exists>i f t. s = Addition i f t))
    \<and> (s = NotPresent \<longrightarrow> item_view_at attrs ids ty (inner v) = None)"
proof -
  let ?p = "inner v" and ?k = "inner n"
  from real have complete: "completed attrs ids ty (inner ` set versions) m" and ordered: "actions_ordered attrs"
    and ascend: "changes_ascend attrs" and declared: "action_versions attrs \<subseteq> inner ` set versions"
    by (auto simp: item_realised_def)
  have less: "?p < ?k" using adj by (rule adjacent_less)
  have gap: "k' \<le> ?p \<or> ?k \<le> k'" if "k' \<in> action_versions attrs" for k'
    using adjacent_gap [OF adj] declared that by blast
  have kind: "action_at attrs ids ty ?k = Some s \<or> s = quiet_status (item_view_at attrs ids ty ?k)"
    using complete next' by (auto simp: completed_def split: option.splits if_splits)
  have view: "status_view ty s = item_view_at attrs ids ty ?k"
    using completed_view [OF complete ordered ascend next'] .
  have quiet: "quiet_status x \<noteq> Addition i f t" "quiet_status x \<noteq> Change d u i i' t' t''" for x i f t d u i' t' t''
    by (auto simp: quiet_status_def split: option.splits prod.splits)
  have absent: "item_view_at attrs ids ty ?p = None" if "s = NotPresent"
  proof -
    from view that have "item_view_at attrs ids ty ?k = None" by simp
    from view_None_added [OF this] less show ?thesis
      by (auto simp: item_view_at_def)
  qed
  have arrives: "s = NotPresent \<or> (\<exists>i f t. s = Addition i f t)" if "item_view_at attrs ids ty ?p = None"
  proof (cases "item_view_at attrs ids ty ?k")
    case None
    with view show ?thesis by (simp add: status_view_None)
  next
    case (Some x)
    from view_None_added [OF that] obtain a where a: "item_added attrs = Some a" "?p < added_since a" by blast
    with gap [OF action_versions_members(1) [OF a(1)]] have "?k \<le> added_since a" by auto
    moreover from Some a(1) have "\<not> ?k < added_since a" by (auto simp: item_view_at_def)
    ultimately have "added_since a = ?k" by simp
    with a(1) have "\<exists>i f t. action_at attrs ids ty ?k = Some (Addition i f t)"
      by (auto simp: action_at_def addition_at_def Let_def split: prod.splits)
    moreover from this next' complete have "action_at attrs ids ty ?k = Some s"
      by (auto simp: completed_def)
    ultimately show ?thesis by auto
  qed
  show ?thesis
    using kind quiet view_before_addition [OF _ less] view_before_change [OF _ less gap ordered ascend]
      arrives absent by metis
qed

subsection \<open>The generated struct conversions are complete\<close>

text \<open>The attributes of an input field, realised by the generated field.\<close>

definition field_realised ::
    "version_definition list \<Rightarrow> item_attributes \<Rightarrow> versioned_field \<Rightarrow> bool" where
  "field_realised versions attrs f \<longleftrightarrow> item_realised attrs (vf_idents f) (vf_ty f) versions (vf_changes f)"

definition field_view :: "item_attributes \<Rightarrow> versioned_field \<Rightarrow> version_definition \<Rightarrow> (ident_string \<times> syn_type \<times> bool) option" where
  "field_view attrs f v = item_view_at attrs (vf_idents f) (vf_ty f) (inner v)"

lemma into_changeset_None:
  "into_changeset ident_ok attrs ids ty = Some None \<Longrightarrow> action_versions attrs = {}"
  by (auto simp: into_changeset_def action_versions_def split: option.splits if_splits)

lemma versioned_field_realised:
  assumes made: "versioned_field_new ident_ok attrs ty versions tracking = Some (Inr f)"
    and filled: "field_insert_container_versions f versions = Some g"
    and ascend: "changes_ascend (field_common attrs)" and versions: "sorted_wrt (<) (map inner versions)"
  shows "field_realised versions (field_common attrs) g \<and> vf_nested g = field_nested attrs \<and> vf_ty g = ty
    \<and> vf_attributes g = field_attrs attrs \<and> (field_nested attrs \<longrightarrow> tracking)"
proof -
  from made obtain ids ident changes where
      ident: "field_ident attrs = Some ident" "field_idents_from ident_ok ident = Some ids"
    and valid: "validate_item (field_common attrs) ids (field_attrs attrs) = Inr ()"
    and declared: "validate_versions (field_common attrs) versions = Inr ()"
    and nested: "validate_nested_flag attrs tracking = Inr ()"
    and changes: "into_changeset ident_ok (field_common attrs) ids ty = Some changes"
    and f: "f = \<lparr>vf_attributes = field_attrs attrs, vf_changes = changes, vf_idents = ids,
      vf_hint = field_hint attrs, vf_nested = field_nested attrs, vf_ty = ty\<rparr>"
    by (auto simp: versioned_field_new_def field_attributes_validate_def split: bind_splits sum.splits option.splits)
  from nested have flag: "field_nested attrs \<longrightarrow> tracking"
    by (auto simp: validate_nested_flag_def split: if_splits)
  note ordered = validated_actions_ordered [OF valid]
  note inside = actions_declared [OF declared]
  show ?thesis
  proof (cases changes)
    case None
    with filled f have "g = f" by (simp add: field_insert_container_versions_def)
    moreover from into_changeset_None [of ident_ok] changes None
    have "action_versions (field_common attrs) = {}" by blast
    ultimately show ?thesis
      using f None ordered ascend flag by (simp add: field_realised_def item_realised_def)
  next
    case (Some m)
    from changeset_completed [OF valid ascend changes [unfolded Some] versions] obtain m' where
        m': "insert_container_versions m versions ty = Some m'"
          "completed (field_common attrs) ids ty (inner ` set versions) m'"
      by blast
    with filled f Some have "g = f\<lparr>vf_changes := Some m'\<rparr>"
      by (simp add: field_insert_container_versions_def)
    with f m' ordered ascend inside flag show ?thesis
      by (simp add: field_realised_def item_realised_def)
  qed
qed

lemma versioned_fields_realised:
  assumes "versioned_fields ident_ok inputs versions tracking = Some (Inr fs)"
    and "\<forall>(attrs, ty) \<in> set inputs. changes_ascend (field_common attrs)"
    and "sorted_wrt (<) (map inner versions)"
  shows "list_all2 (\<lambda>(attrs, ty) f. field_realised versions (field_common attrs) f \<and>
    (vf_nested f \<longrightarrow> tracking) \<and> vf_ty f = ty \<and> vf_attributes f = field_attrs attrs) inputs fs"
  using assms(1,2)
proof (induction inputs arbitrary: fs)
  case Nil
  then show ?case by simp
next
  case (Cons input rest)
  obtain attrs ty where input: "input = (attrs, ty)" by (cases input)
  from Cons.prems(1) obtain f g gs where
      f: "versioned_field_new ident_ok attrs ty versions tracking = Some (Inr f)"
        "field_insert_container_versions f versions = Some g"
    and rest: "versioned_fields ident_ok rest versions tracking = Some (Inr gs)" "fs = g # gs"
    by (auto simp: input split: bind_splits sum.splits)
  from Cons.prems(2) have ascend: "changes_ascend (field_common attrs)" by (simp add: input)
  from versioned_field_realised [OF f ascend assms(3)] Cons.IH [OF rest(1)] Cons.prems(2) rest(2) show ?case
    by (auto simp: input)
qed

text \<open>The definition of a field at a version is its view.\<close>

lemma field_for_container_view:
  assumes "field_realised versions attrs f" and "v \<in> set versions"
  shows "\<exists>d. field_for_container f v = Some d \<and>
    map_option (\<lambda>x. (fd_ident x, fd_ty x, fd_deprecated x \<noteq> None)) d = field_view attrs f v"
proof (cases "vf_changes f")
  case None
  with assms(1) have "action_versions attrs = {}" by (simp add: field_realised_def item_realised_def)
  with None show ?thesis
    by (simp add: field_for_container_def field_view_def unversioned_view make_field_def)
next
  case (Some m)
  with assms(1) have "item_realised attrs (vf_idents f) (vf_ty f) versions (Some m)"
    by (simp add: field_realised_def)
  from realised_status [OF this assms(2)] obtain s where
      s: "btree_get m (inner v) = Some s" "status_view (vf_ty f) s = field_view attrs f v"
    by (auto simp: field_view_def)
  show ?thesis
    unfolding s(2) [symmetric] using Some s(1)
    by (cases s) (auto simp: field_for_container_def make_field_def)
qed

text \<open>
  One field of the conversions: the upgrade initialises the field the next version has from the one
  the old version has, if it has it; the downgrade initialises the field of the old version from the
  one of the next version, which always has it.
\<close>

lemma field_for_from_impl_view:
  assumes real: "field_realised versions attrs f" and adj: "adjacent versions v n" and plain: "\<not> vf_nested f"
  shows "\<exists>up. field_for_from_impl ident_ok f Upgrade v n = Some up \<and>
      map_option (\<lambda>e. (lhs_ident e, rhs_ident e)) up
        = map_option (\<lambda>x. (fst x, map_option fst (field_view attrs f v))) (field_view attrs f n)"
    and "\<exists>down. field_for_from_impl ident_ok f Downgrade v n = Some down \<and>
      map_option (\<lambda>e. (lhs_ident e, rhs_ident e)) down
        = map_option (\<lambda>x. (fst x, map_option fst (field_view attrs f n))) (field_view attrs f v)"
    and "field_view attrs f v \<noteq> None \<longrightarrow> field_view attrs f n \<noteq> None"
proof -
  have all: "(\<exists>up. field_for_from_impl ident_ok f Upgrade v n = Some up \<and>
      map_option (\<lambda>e. (lhs_ident e, rhs_ident e)) up
        = map_option (\<lambda>x. (fst x, map_option fst (field_view attrs f v))) (field_view attrs f n))
    \<and> (\<exists>down. field_for_from_impl ident_ok f Downgrade v n = Some down \<and>
      map_option (\<lambda>e. (lhs_ident e, rhs_ident e)) down
        = map_option (\<lambda>x. (fst x, map_option fst (field_view attrs f n))) (field_view attrs f v))
    \<and> (field_view attrs f v \<noteq> None \<longrightarrow> field_view attrs f n \<noteq> None)"
  proof (cases "vf_changes f")
    case None
    with real have "action_versions attrs = {}" by (simp add: field_realised_def item_realised_def)
    with None plain show ?thesis
      by (simp add: field_for_from_impl_def field_view_def unversioned_view generate_from_impl_field_def Let_def)
  next
    case (Some m)
    with real have real': "item_realised attrs (vf_idents f) (vf_ty f) versions (Some m)"
      by (simp add: field_realised_def)
    from adjacent_members [OF adj] have members: "v \<in> set versions" "n \<in> set versions" by auto
    from realised_status [OF real' members(1)] obtain s where
        s: "btree_get m (inner v) = Some s" "status_view (vf_ty f) s = field_view attrs f v"
      by (auto simp: field_view_def)
    from realised_status [OF real' members(2)] obtain t where
        t: "btree_get m (inner n) = Some t" "status_view (vf_ty f) t = field_view attrs f n"
      by (auto simp: field_view_def)
    from realised_step [OF real' adj t(1)]
    have step: "\<And>i g ty. t = Addition i g ty \<Longrightarrow> field_view attrs f v = None"
      "\<And>d u i i' ty ty'. t = Change d u i i' ty ty' \<Longrightarrow> field_view attrs f v = Some (i, ty, False)"
      "field_view attrs f v = None \<Longrightarrow> t = NotPresent \<or> (\<exists>i g ty. t = Addition i g ty)"
      "t = NotPresent \<Longrightarrow> field_view attrs f v = None"
      by (simp_all add: field_view_def)
    note defs = field_for_from_impl_def generate_from_impl_field_def get_expect_def Some s(1) t(1) plain
      t(2) [symmetric]
    show ?thesis
    proof (cases t)
      case (Addition i g ty)
      with step(1) [OF this] show ?thesis by (cases s) (auto simp: defs)
    next
      case (Change d u i i' ty ty')
      with step(2) [OF this] show ?thesis
        by (cases s; cases u; cases d) (auto simp: defs)
    next
      case (Deprecation p note' i)
      with step(3) s(2) obtain i' ty b where "field_view attrs f v = Some (i', ty, b)" "get_ident s = Some i'"
        by (cases "field_view attrs f v") (auto dest: status_view_ident)
      with Deprecation show ?thesis by (cases s) (auto simp: defs)
    next
      case (NoChange b i ty)
      with step(3) s(2) obtain i' ty' b' where "field_view attrs f v = Some (i', ty', b')" "get_ident s = Some i'"
        by (cases "field_view attrs f v") (auto dest: status_view_ident)
      with NoChange show ?thesis by (cases s) (auto simp: defs)
    next
      case NotPresent
      from step(4) [OF this] s(2) have "s = NotPresent" by (simp add: status_view_None)
      with NotPresent step(4) show ?thesis by (auto simp: defs)
    qed
  qed
  show "\<exists>up. field_for_from_impl ident_ok f Upgrade v n = Some up \<and>
      map_option (\<lambda>e. (lhs_ident e, rhs_ident e)) up
        = map_option (\<lambda>x. (fst x, map_option fst (field_view attrs f v))) (field_view attrs f n)"
    and "\<exists>down. field_for_from_impl ident_ok f Downgrade v n = Some down \<and>
      map_option (\<lambda>e. (lhs_ident e, rhs_ident e)) down
        = map_option (\<lambda>x. (fst x, map_option fst (field_view attrs f n))) (field_view attrs f v)"
    and "field_view attrs f v \<noteq> None \<longrightarrow> field_view attrs f n \<noteq> None"
    using all by blast+
qed

definition conversions_complete ::
    "(string \<Rightarrow> bool) \<Rightarrow> versioned_field list \<Rightarrow> version_definition \<Rightarrow> version_definition \<Rightarrow> bool" where
  "conversions_complete ident_ok fs v n \<longleftrightarrow>
     (\<exists>old new up down.
        struct_definition_fields fs v = Some old \<and> struct_definition_fields fs n = Some new \<and>
        from_impl_fields ident_ok fs Upgrade v n = Some up \<and>
        from_impl_fields ident_ok fs Downgrade v n = Some down \<and>
        map lhs_ident up = map fd_ident new \<and> List.map_filter rhs_ident up = map fd_ident old \<and>
        map lhs_ident down = map fd_ident old \<and>
        (\<exists>kept. subseq kept new \<and> map rhs_ident down = map (Some \<circ> fd_ident) kept))"

lemma conversions_complete_Nil: "conversions_complete ident_ok [] v n"
  by (auto simp: conversions_complete_def struct_definition_fields_def from_impl_fields_def)

lemma conversions_complete_Cons:
  assumes real: "field_realised versions attrs f" and adj: "adjacent versions v n" and plain: "\<not> vf_nested f"
    and rest: "conversions_complete ident_ok fs v n"
  shows "conversions_complete ident_ok (f # fs) v n"
proof -
  from adjacent_members [OF adj] have members: "v \<in> set versions" "n \<in> set versions" by auto
  from field_for_container_view [OF real members(1)] obtain dv where
      dv: "field_for_container f v = Some dv" "map_option fst (field_view attrs f v) = map_option fd_ident dv"
    by (force simp: map_option.compositionality comp_def dest: sym)
  from field_for_container_view [OF real members(2)] obtain dn where
      dn: "field_for_container f n = Some dn" "map_option fst (field_view attrs f n) = map_option fd_ident dn"
    by (force simp: map_option.compositionality comp_def dest: sym)
  from field_for_from_impl_view(1) [OF real adj plain, of ident_ok] obtain up where
      up: "field_for_from_impl ident_ok f Upgrade v n = Some up"
        "map_option (\<lambda>e. (lhs_ident e, rhs_ident e)) up
          = map_option (\<lambda>x. (fst x, map_option fst (field_view attrs f v))) (field_view attrs f n)"
    by blast
  from field_for_from_impl_view(2) [OF real adj plain, of ident_ok] obtain down where
      down: "field_for_from_impl ident_ok f Downgrade v n = Some down"
        "map_option (\<lambda>e. (lhs_ident e, rhs_ident e)) down
          = map_option (\<lambda>x. (fst x, map_option fst (field_view attrs f n))) (field_view attrs f v)"
    by blast
  note kept = field_for_from_impl_view(3) [OF real adj plain]
  from rest obtain old new ups downs ks where IH:
      "struct_definition_fields fs v = Some old" "struct_definition_fields fs n = Some new"
      "from_impl_fields ident_ok fs Upgrade v n = Some ups"
      "from_impl_fields ident_ok fs Downgrade v n = Some downs"
      "map lhs_ident ups = map fd_ident new" "List.map_filter rhs_ident ups = map fd_ident old"
      "map lhs_ident downs = map fd_ident old" "subseq ks new" "map rhs_ident downs = map (Some \<circ> fd_ident) ks"
    unfolding conversions_complete_def by blast
  let ?add = "\<lambda>x xs. case x of None \<Rightarrow> xs | Some y \<Rightarrow> y # xs"
  have made: "struct_definition_fields (f # fs) v = Some (?add dv old)"
      "struct_definition_fields (f # fs) n = Some (?add dn new)"
      "from_impl_fields ident_ok (f # fs) Upgrade v n = Some (?add up ups)"
      "from_impl_fields ident_ok (f # fs) Downgrade v n = Some (?add down downs)"
    using IH(1-4) dv(1) dn(1) up(1) down(1) by (simp_all add: struct_definition_fields_def from_impl_fields_def)
  have up_idents: "map lhs_ident (?add up ups) = map fd_ident (?add dn new)"
    using up(2) dn(2) IH(5) by (cases up; cases dn; cases "field_view attrs f n") auto
  have up_reads: "List.map_filter rhs_ident (?add up ups) = map fd_ident (?add dv old)"
    using up(2) dv(2) IH(6) kept
    by (cases up; cases dv; cases "field_view attrs f n"; cases "field_view attrs f v")
      (auto simp: map_filter_simps)
  have down_idents: "map lhs_ident (?add down downs) = map fd_ident (?add dv old)"
    using down(2) dv(2) IH(7) by (cases down; cases dv; cases "field_view attrs f v") auto
  have "\<exists>ks'. subseq ks' (?add dn new) \<and> map rhs_ident (?add down downs) = map (Some \<circ> fd_ident) ks'"
  proof (cases down)
    case None
    with IH(8,9) show ?thesis by (intro exI [of _ ks]) (auto split: option.splits)
  next
    case (Some e)
    with down(2) kept dn(2) obtain d where "dn = Some d" "rhs_ident e = Some (fd_ident d)"
      by (cases "field_view attrs f v"; cases "field_view attrs f n"; cases dn) auto
    with Some IH(8,9) show ?thesis by (intro exI [of _ "d # ks"]) auto
  qed
  with made up_idents up_reads down_idents show ?thesis
    unfolding conversions_complete_def by blast
qed

lemma realised_conversions_complete:
  assumes "list_all2 (\<lambda>(attrs, ty) f. field_realised versions (field_common attrs) f \<and>
      (vf_nested f \<longrightarrow> False) \<and> vf_ty f = ty \<and> vf_attributes f = field_attrs attrs) inputs fs"
    and "adjacent versions v n"
  shows "conversions_complete ident_ok fs v n"
  using assms(1)
proof (induction rule: list_all2_induct)
  case Nil
  show ?case by (rule conversions_complete_Nil)
next
  case (Cons input inputs f fs)
  then show ?case
    by (cases input) (auto intro: conversions_complete_Cons [OF _ assms(2)])
qed


definition demo_inputs :: "(field_attributes \<times> syn_type) list" where
  "demo_inputs =
     [(\<lparr>field_common = demo_actions, field_ident = Some ''deprecated_bar'', field_attrs = [], field_nested = False,
        field_hint = None\<rparr>, ''u16''),
      (\<lparr>field_common = \<lparr>item_added = None, item_changes = [], item_deprecated = None\<rparr>, field_ident = Some ''baz'',
        field_attrs = [], field_nested = False, field_hint = Some Hint_Option\<rparr>, ''Option<bool>'')]"

lemmas validation_defs = validate_item_def errors_of_def validate_action_combinations_def
  validate_action_order_def validate_item_name_def validate_added_action_def validate_changed_action_def
  changed_errors_def validate_item_attributes_def is_none_or_def starts_with_deprecation_prefix_def
  str_starts_with_def FIELD_DEPRECATION_PREFIX_def VARIANT_DEPRECATION_PREFIX_def finish_with_def

lemma demo_cleaned:
  "trim_start_matches_str FIELD_DEPRECATION_PREFIX ''deprecated_bar'' = ''bar''"
  "trim_start_matches_str FIELD_DEPRECATION_PREFIX ''baz'' = ''baz''"
  by (simp_all add: trim_start_matches_str.simps str_starts_with_def FIELD_DEPRECATION_PREFIX_def)

lemma demo_declared: "validate_versions demo_actions demo_versions = Inr ()"
  by (simp add: validate_versions_def demo_actions_def declared_def demo_versions_def demo_version_def)

definition demo_field :: "changeset \<Rightarrow> versioned_field" where
  "demo_field changes =
     \<lparr>vf_attributes = [], vf_changes = Some changes,
      vf_idents = \<lparr>deprecation_prefix = FIELD_DEPRECATION_PREFIX, ident_original = ''deprecated_bar'',
        ident_cleaned = ''bar'', ident_json_path = ''__sv_'' @ map to_ascii_lower ''bar'' @ ''_path''\<rparr>,
      vf_hint = None, vf_nested = False, vf_ty = ''u16''\<rparr>"

definition demo_baz :: versioned_field where
  "demo_baz =
     \<lparr>vf_attributes = [], vf_changes = None,
      vf_idents = \<lparr>deprecation_prefix = FIELD_DEPRECATION_PREFIX, ident_original = ''baz'',
        ident_cleaned = ''baz'', ident_json_path = ''__sv_'' @ map to_ascii_lower ''baz'' @ ''_path''\<rparr>,
      vf_hint = Some Hint_Option, vf_nested = False, vf_ty = ''Option<bool>''\<rparr>"

lemma demo_fields:
  "\<exists>changes. versioned_fields (\<lambda>_. True) demo_inputs demo_versions tracking =
     Some (Inr [demo_field changes, demo_baz])"
proof -
  let ?ids = "\<lparr>deprecation_prefix = FIELD_DEPRECATION_PREFIX, ident_original = ''deprecated_bar'',
    ident_cleaned = ''bar'', ident_json_path = ''__sv_'' @ map to_ascii_lower ''bar'' @ ''_path''\<rparr>"
  have valid: "validate_item demo_actions ?ids [] = Inr ()"
    by (simp add: validation_defs demo_actions_def default_default_fn_def Let_def version_order)
  have ascend: "changes_ascend demo_actions" by (simp add: changes_ascend_def demo_actions_def)
  obtain m where m: "into_changeset (\<lambda>_. True) demo_actions ?ids ''u16'' = Some (Some m)"
    by (auto simp: into_changeset_def demo_actions_def change_from_ident_def format_ident_def Let_def)
  from changeset_completed [OF valid ascend m demo_versions_ascend] obtain m' where
      "insert_container_versions m demo_versions ''u16'' = Some m'" by blast
  moreover let ?none = "\<lparr>item_added = None, item_changes = [], item_deprecated = None\<rparr>"
  let ?baz = "\<lparr>deprecation_prefix = FIELD_DEPRECATION_PREFIX, ident_original = ''baz'',
    ident_cleaned = ''baz'', ident_json_path = ''__sv_'' @ map to_ascii_lower ''baz'' @ ''_path''\<rparr>"
  have "validate_item ?none ?baz [] = Inr ()" by (simp add: validation_defs Let_def)
  moreover have "validate_versions ?none demo_versions = Inr ()" by (simp add: validate_versions_def)
  moreover have "into_changeset (\<lambda>_. True) ?none ?baz ''Option<bool>'' = Some None"
    by (simp add: into_changeset_def)
  moreover have "field_idents_from (\<lambda>_. True) ''deprecated_bar'' = Some ?ids"
    "field_idents_from (\<lambda>_. True) ''baz'' = Some ?baz"
    by (simp_all add: field_idents_from_def demo_cleaned format_ident_def json_path_ident_def)
  ultimately show ?thesis
    using valid m
    by (simp add: demo_inputs_def versioned_field_new_def field_attributes_validate_def demo_declared
        validate_nested_flag_def field_insert_container_versions_def demo_field_def demo_baz_def)
qed

lemma demo_adjacent: "adjacent demo_versions (demo_version (Version 1 (Some (Alpha 1)))) (demo_version (Version 1 (Some (Alpha 2))))"
  unfolding adjacent_def
proof (intro conjI exI)
  show "demo_versions = [] @ demo_version (Version 1 (Some (Alpha 1))) # demo_version (Version 1 (Some (Alpha 2))) #
      map demo_version [Version 1 (Some (Beta 1)), Version 1 (Some (Beta 2)), Version 1 None, Version 2 None]"
    by (simp add: demo_versions_def)
qed (rule demo_versions_ascend)


subsection \<open>The generated enum conversions\<close>

fun versioned_variants ::
    "(string \<Rightarrow> bool) \<Rightarrow> (string \<Rightarrow> bool) \<Rightarrow> (variant_attributes \<times> variant_fields) list \<Rightarrow> version_definition list \<Rightarrow>
     (versioned_variant list, item_error list) result option" where
  "versioned_variants ident_ok is_pascal [] versions = Some (Inr [])"
| "versioned_variants ident_ok is_pascal ((attrs, variant_fields) # rest) versions =
     Option.bind (versioned_variant_new ident_ok is_pascal attrs variant_fields versions) (\<lambda>r.
     case r of
       Inl errors \<Rightarrow> Some (Inl errors)
     | Inr variant \<Rightarrow>
         Option.bind (variant_insert_container_versions variant versions) (\<lambda>variant.
         map_option (\<lambda>variants. and_then variants (\<lambda>variants. Inr (variant # variants)))
           (versioned_variants ident_ok is_pascal rest versions)))"

definition enum_definition_variants :: "versioned_variant list \<Rightarrow> version_definition \<Rightarrow> variant_definition list option" where
  "enum_definition_variants variants version = filter_map_all (\<lambda>v. variant_for_container v version) variants"

definition from_impl_arms ::
    "versioned_variant list \<Rightarrow> direction \<Rightarrow> version_definition \<Rightarrow> version_definition \<Rightarrow> ident_string \<Rightarrow>
     match_arm list option" where
  "from_impl_arms variants direction version next_version enum_ident =
     filter_map_all (\<lambda>v. variant_for_from_impl v direction version next_version enum_ident) variants"

definition variant_realised :: "version_definition list \<Rightarrow> item_attributes \<Rightarrow> versioned_variant \<Rightarrow> bool" where
  "variant_realised versions attrs f \<longleftrightarrow> item_realised attrs (vv_idents f) never_type versions (vv_changes f)"

definition variant_view :: "item_attributes \<Rightarrow> versioned_variant \<Rightarrow> version_definition \<Rightarrow> ident_string option" where
  "variant_view attrs f v = map_option fst (item_view_at attrs (vv_idents f) never_type (inner v))"

lemma validate_item_errors: "errors_of (validate_item attrs ids xs) = [] \<longleftrightarrow> validate_item attrs ids xs = Inr ()"
  by (auto simp: errors_of_def validate_item_def finish_with_def split: sum.splits if_splits)

lemma versioned_variant_realised:
  assumes made: "versioned_variant_new ident_ok is_pascal attrs variant_fields versions = Some (Inr f)"
    and filled: "variant_insert_container_versions f versions = Some g"
    and ascend: "changes_ascend (variant_common attrs)" and versions: "sorted_wrt (<) (map inner versions)"
  shows "variant_realised versions (variant_common attrs) g"
proof -
  from made obtain ids changes where
      valid: "errors_of (validate_item (variant_common attrs) ids (variant_attrs attrs)) = []"
    and declared: "validate_versions (variant_common attrs) versions = Inr ()"
    and changes: "into_changeset ident_ok (variant_common attrs) ids never_type = Some changes"
    and f: "f = \<lparr>vv_attributes = variant_attrs attrs, vv_changes = changes, vv_idents = ids, vv_fields = variant_fields\<rparr>"
    by (auto simp: versioned_variant_new_def variant_attributes_validate_def split: bind_splits sum.splits)
  note valid = valid [unfolded validate_item_errors]
  note ordered = validated_actions_ordered [OF valid]
  note inside = actions_declared [OF declared]
  show ?thesis
  proof (cases changes)
    case None
    with filled f have "g = f" by (simp add: variant_insert_container_versions_def)
    moreover from into_changeset_None [of ident_ok] changes None
    have "action_versions (variant_common attrs) = {}" by blast
    ultimately show ?thesis
      using f None ordered ascend by (simp add: variant_realised_def item_realised_def)
  next
    case (Some m)
    from changeset_completed [OF valid ascend changes [unfolded Some] versions] obtain m' where
        m': "insert_container_versions m versions never_type = Some m'"
          "completed (variant_common attrs) ids never_type (inner ` set versions) m'"
      by blast
    with filled f Some have "g = f\<lparr>vv_changes := Some m'\<rparr>"
      by (simp add: variant_insert_container_versions_def)
    with f m' ordered ascend inside show ?thesis
      by (simp add: variant_realised_def item_realised_def)
  qed
qed

lemma variant_for_container_view:
  assumes "variant_realised versions attrs f" and "v \<in> set versions"
  shows "\<exists>d. variant_for_container f v = Some d \<and> map_option vd_ident d = variant_view attrs f v"
proof (cases "vv_changes f")
  case None
  with assms(1) have "action_versions attrs = {}" by (simp add: variant_realised_def item_realised_def)
  with None show ?thesis
    by (simp add: variant_for_container_def variant_view_def unversioned_view make_variant_def)
next
  case (Some m)
  with assms(1) have "item_realised attrs (vv_idents f) never_type versions (Some m)"
    by (simp add: variant_realised_def)
  from realised_status [OF this assms(2)] obtain s where
      s': "btree_get m (inner v) = Some s" "status_view never_type s = item_view_at attrs (vv_idents f) never_type (inner v)"
    by blast
  then have s: "btree_get m (inner v) = Some s" "map_option fst (status_view never_type s) = variant_view attrs f v"
    by (simp_all add: variant_view_def)
  show ?thesis
    unfolding s(2) [symmetric] using Some s(1)
    by (cases s) (auto simp: variant_for_container_def make_variant_def)
qed

text \<open>
  One variant of the conversions: a variant both versions have gets an arm in both directions; a
  variant the next version adds gets none; for a variant neither version has yet the macro panics.
\<close>

lemma variant_for_from_impl_view:
  assumes real: "variant_realised versions attrs f" and adj: "adjacent versions v n"
  shows "case (variant_view attrs f v, variant_view attrs f n) of
      (Some i, Some j) \<Rightarrow>
        variant_for_from_impl f Upgrade v n e = Some (Some
          (make_arm f e (module_ident (version_idents v)) i (module_ident (version_idents n)) j)) \<and>
        variant_for_from_impl f Downgrade v n e = Some (Some
          (make_arm f e (module_ident (version_idents n)) j (module_ident (version_idents v)) i))
    | (None, Some j) \<Rightarrow> variant_for_from_impl f direction v n e = Some None
    | (None, None) \<Rightarrow> variant_for_from_impl f direction v n e = None
    | (Some i, None) \<Rightarrow> False"
proof (cases "vv_changes f")
  case None
  with real have "action_versions attrs = {}" by (simp add: variant_realised_def item_realised_def)
  with None show ?thesis
    by (simp add: variant_for_from_impl_def variant_view_def unversioned_view Let_def)
next
  case (Some m)
  with real have real': "item_realised attrs (vv_idents f) never_type versions (Some m)"
    by (simp add: variant_realised_def)
  let ?view = "\<lambda>x. item_view_at attrs (vv_idents f) never_type (inner x)"
  from adjacent_members [OF adj] have members: "v \<in> set versions" "n \<in> set versions" by auto
  from realised_status [OF real' members(1)] obtain s where
      s: "btree_get m (inner v) = Some s" "status_view never_type s = ?view v" by blast
  from realised_status [OF real' members(2)] obtain t where
      t: "btree_get m (inner n) = Some t" "status_view never_type t = ?view n" by blast
  note step = realised_step [OF real' adj t(1)]
  note defs = variant_for_from_impl_def get_expect_def Some s(1) t(1) variant_view_def s(2) [symmetric] t(2) [symmetric]
  show ?thesis
  proof (cases t)
    case NotPresent
    with step s(2) have "s = NotPresent" by (simp add: status_view_None)
    with NotPresent show ?thesis by (simp add: defs Let_def)
  next
    case (Addition i g ty)
    with step s(2) have "s = NotPresent" by (simp add: status_view_None)
    with Addition show ?thesis by (simp add: defs Let_def)
  next
    case (Change d u i i' ty ty')
    with step s(2) obtain x where "status_view never_type s = Some x" by auto
    with Change show ?thesis by (cases s) (auto simp: defs Let_def)
  next
    case (Deprecation p note' i)
    with step s(2) have "status_view never_type s \<noteq> None" by auto
    with Deprecation show ?thesis by (cases s) (auto simp: defs Let_def)
  next
    case (NoChange b i ty)
    with step s(2) have "status_view never_type s \<noteq> None" by auto
    with NoChange show ?thesis by (cases s) (auto simp: defs Let_def)
  qed
qed

definition enum_conversions_fit ::
    "versioned_variant list \<Rightarrow> version_definition \<Rightarrow> version_definition \<Rightarrow> ident_string \<Rightarrow> bool" where
  "enum_conversions_fit vs v n e \<longleftrightarrow>
     (\<exists>old new up down.
        enum_definition_variants vs v = Some old \<and> enum_definition_variants vs n = Some new \<and>
        from_impl_arms vs Upgrade v n e = Some up \<and> from_impl_arms vs Downgrade v n e = Some down \<and>
        map arm_from_variant up = map vd_ident old \<and> subseq (map arm_for_variant up) (map vd_ident new) \<and>
        map arm_for_variant down = map vd_ident old \<and> subseq (map arm_from_variant down) (map vd_ident new) \<and>
        length up = length old \<and> length down = length old)"

lemma enum_conversions_Nil: "enum_conversions_fit [] v n e"
  by (simp add: enum_conversions_fit_def enum_definition_variants_def from_impl_arms_def)

lemma enum_conversions_Cons:
  assumes real: "variant_realised versions attrs f" and adj: "adjacent versions v n"
    and present: "variant_for_container f n \<noteq> Some None" and rest: "enum_conversions_fit vs v n e"
  shows "enum_conversions_fit (f # vs) v n e"
proof -
  from adjacent_members [OF adj] have members: "v \<in> set versions" "n \<in> set versions" by auto
  from variant_for_container_view [OF real members(1)] obtain dv where
      dv: "variant_for_container f v = Some dv" "map_option vd_ident dv = variant_view attrs f v" by blast
  from variant_for_container_view [OF real members(2)] present obtain dn where
      dn: "variant_for_container f n = Some (Some dn)" "variant_view attrs f n = Some (vd_ident dn)"
    by (metis option.exhaust option.simps(9))
  from rest obtain old new up down where IH:
      "enum_definition_variants vs v = Some old" "enum_definition_variants vs n = Some new"
      "from_impl_arms vs Upgrade v n e = Some up" "from_impl_arms vs Downgrade v n e = Some down"
      "map arm_from_variant up = map vd_ident old" "subseq (map arm_for_variant up) (map vd_ident new)"
      "map arm_for_variant down = map vd_ident old" "subseq (map arm_from_variant down) (map vd_ident new)"
      "length up = length old" "length down = length old"
    unfolding enum_conversions_fit_def by blast
  note view = variant_for_from_impl_view [OF real adj, where e = e]
  show ?thesis
  proof (cases dv)
    case None
    with dv dn view [where direction = Upgrade] view [where direction = Downgrade] IH show ?thesis
      unfolding enum_conversions_fit_def
      by (simp add: enum_definition_variants_def from_impl_arms_def list_emb_Cons)
  next
    case (Some d)
    let ?up = "make_arm f e (module_ident (version_idents v)) (vd_ident d) (module_ident (version_idents n)) (vd_ident dn)"
    let ?down = "make_arm f e (module_ident (version_idents n)) (vd_ident dn) (module_ident (version_idents v)) (vd_ident d)"
    from Some dv(2) have "variant_view attrs f v = Some (vd_ident d)" by simp
    with view dn(2) have "variant_for_from_impl f Upgrade v n e = Some (Some ?up)"
      "variant_for_from_impl f Downgrade v n e = Some (Some ?down)"
      by simp_all
    with Some dv dn IH show ?thesis
      unfolding enum_conversions_fit_def
      by (simp add: enum_definition_variants_def from_impl_arms_def make_arm_def)
  qed
qed

lemma late_variant_panics:
  assumes "variant_realised versions attrs f" and adj: "adjacent versions v n"
    and "variant_for_container f n = Some None"
  shows "variant_for_from_impl f direction v n e = None"
proof -
  from adjacent_members [OF adj] variant_for_container_view [OF assms(1), of n] assms(3)
  have "variant_view attrs f n = None" by auto
  with variant_for_from_impl_view [OF assms(1) adj, where e = e and direction = direction] show ?thesis
    by (auto split: option.splits)
qed

lemma filter_map_all_None: "x \<in> set xs \<Longrightarrow> f x = None \<Longrightarrow> filter_map_all f xs = None"
  by (induction xs) (auto split: bind_splits)

lemma versioned_variants_realised:
  assumes "versioned_variants ident_ok is_pascal inputs versions = Some (Inr vs)"
    and "\<forall>(attrs, _) \<in> set inputs. changes_ascend (variant_common attrs)"
    and "sorted_wrt (<) (map inner versions)"
  shows "\<forall>f\<in>set vs. \<exists>attrs. variant_realised versions attrs f"
  using assms(1,2)
proof (induction inputs arbitrary: vs)
  case Nil
  then show ?case by simp
next
  case (Cons input rest)
  obtain attrs vf where input: "input = (attrs, vf)" by (cases input)
  from Cons.prems(1) obtain f g gs where
      f: "versioned_variant_new ident_ok is_pascal attrs vf versions = Some (Inr f)"
        "variant_insert_container_versions f versions = Some g"
    and rest: "versioned_variants ident_ok is_pascal rest versions = Some (Inr gs)" "vs = g # gs"
    by (auto simp: input split: bind_splits sum.splits)
  from Cons.prems(2) have ascend: "changes_ascend (variant_common attrs)" by (simp add: input)
  from versioned_variant_realised [OF f ascend assms(3)] Cons.IH [OF rest(1)] Cons.prems(2) rest(2) show ?case
    by auto
qed

lemma realised_enum_conversions:
  assumes "\<forall>f\<in>set vs. \<exists>attrs. variant_realised versions attrs f" and "adjacent versions v n"
    and "list_all (\<lambda>f. variant_for_container f n \<noteq> Some None) vs"
  shows "enum_conversions_fit vs v n e"
  using assms(1,3)
  by (induction vs) (auto intro: enum_conversions_Nil enum_conversions_Cons [OF _ assms(2)])

text \<open>C38: For an enum whose variant attributes pass the validation, with ascending changes, and two
  adjacent declared versions: when every variant exists in the next version, the match of the upgrade
  has exactly one arm per variant of the old version and yields variants of the next version, and the
  match of the downgrade yields every variant of the old version; when a variant is added only in a
  version after the next one, the macro panics.\<close>

theorem enum_conversions_or_panic:
  assumes "versioned_variants ident_ok is_pascal inputs versions = Some (Inr vs)"
    and "\<forall>(attrs, _) \<in> set inputs. changes_ascend (variant_common attrs)"
    and "adjacent versions v n"
  shows "if list_all (\<lambda>f. variant_for_container f n \<noteq> Some None) vs
    then enum_conversions_fit vs v n e
    else from_impl_arms vs direction v n e = None"
proof -
  from assms(3) have sorted: "sorted_wrt (<) (map inner versions)" by (simp add: adjacent_def)
  note real = versioned_variants_realised [OF assms(1,2) sorted]
  show ?thesis
  proof (cases "list_all (\<lambda>f. variant_for_container f n \<noteq> Some None) vs")
    case True
    with realised_enum_conversions [OF real assms(3)] show ?thesis by simp
  next
    case False
    then obtain f where f: "f \<in> set vs" "variant_for_container f n = Some None"
      by (auto simp: list_all_iff)
    with real obtain attrs where "variant_realised versions attrs f" by blast
    from late_variant_panics [OF this assms(3) f(2)] f(1)
    have "from_impl_arms vs direction v n e = None"
      unfolding from_impl_arms_def by (intro filter_map_all_None)
    with False show ?thesis by simp
  qed
qed

definition late_variant :: variant_attributes where
  "late_variant =
     \<lparr>variant_common = \<lparr>item_added = Some \<lparr>added_since = Version 1 (Some (Beta 1)), added_default_fn = default_default_fn\<rparr>,
        item_changes = [], item_deprecated = None\<rparr>,
      variant_attr_ident = ''Late'', variant_attrs = []\<rparr>"

lemma late_variant_valid:
  "\<exists>f. versioned_variants (\<lambda>_. True) (\<lambda>_. True) [(late_variant, UnitFields)] demo_versions = Some (Inr [f])"
proof -
  let ?ids = "\<lparr>deprecation_prefix = VARIANT_DEPRECATION_PREFIX, ident_original = ''Late'', ident_cleaned = ''Late''\<rparr>"
  have valid: "validate_item (variant_common late_variant) ?ids [] = Inr ()"
    by (simp add: validation_defs late_variant_def default_default_fn_def Let_def)
  have ascend: "changes_ascend (variant_common late_variant)" by (simp add: changes_ascend_def late_variant_def)
  obtain m where m: "into_changeset (\<lambda>_. True) (variant_common late_variant) ?ids never_type = Some (Some m)"
    by (auto simp: into_changeset_def late_variant_def)
  from changeset_completed [OF valid ascend m demo_versions_ascend] obtain m' where
      m': "insert_container_versions m demo_versions never_type = Some m'" by blast
  have ids: "variant_idents_from (\<lambda>_. True) ''Late'' = Some ?ids"
    by (simp add: variant_idents_from_def format_ident_def trim_start_matches_str.simps str_starts_with_def
        VARIANT_DEPRECATION_PREFIX_def)
  have declared: "validate_versions (variant_common late_variant) demo_versions = Inr ()"
    by (simp add: validate_versions_def late_variant_def declared_def demo_versions_def demo_version_def)
  have names: "variant_attr_ident late_variant = ''Late''" "variant_attrs late_variant = []"
    "item_changes (variant_common late_variant) = []"
    by (simp_all add: late_variant_def)
  show ?thesis
    using valid m m' declared
    by (simp add: versioned_variant_new_def variant_attributes_validate_def ids names errors_of_def
        finish_with_def variant_insert_container_versions_def)
qed

theorem enum_conversions_or_panic_witness:
  "\<exists>f. versioned_variants (\<lambda>_. True) (\<lambda>_. True) [(late_variant, UnitFields)] demo_versions = Some (Inr [f]) \<and>
     from_impl_arms [f] Upgrade (demo_version (Version 1 (Some (Alpha 1)))) (demo_version (Version 1 (Some (Alpha 2)))) ''Foo'' = None"
proof -
  let ?v = "demo_version (Version 1 (Some (Alpha 1)))" and ?n = "demo_version (Version 1 (Some (Alpha 2)))"
  from late_variant_valid obtain f where
      f: "versioned_variants (\<lambda>_. True) (\<lambda>_. True) [(late_variant, UnitFields)] demo_versions = Some (Inr [f])"
    by blast
  have ascend: "\<forall>(attrs, _) \<in> set [(late_variant, UnitFields)]. changes_ascend (variant_common attrs)"
    by (simp add: changes_ascend_def late_variant_def)
  from f obtain g where made: "versioned_variant_new (\<lambda>_. True) (\<lambda>_. True) late_variant UnitFields demo_versions = Some (Inr g)"
      "variant_insert_container_versions g demo_versions = Some f"
    by (auto split: bind_splits sum.splits)
  have real: "variant_realised demo_versions (variant_common late_variant) f"
    using versioned_variant_realised [OF made _ demo_versions_ascend] ascend by simp
  have "variant_view (variant_common late_variant) f ?n = None"
    by (simp add: variant_view_def item_view_at_def late_variant_def demo_version_def version_order)
  with variant_for_container_view [OF real, of ?n] have "variant_for_container f ?n = Some None"
    using adjacent_members [OF demo_adjacent] by auto
  with enum_conversions_or_panic [OF f ascend demo_adjacent, where direction = Upgrade and e = "''Foo''"]
  have "from_impl_arms [f] Upgrade ?v ?n ''Foo'' = None" by simp
  with f show ?thesis by blast
qed

end
