(* ===== verification/Versioned_Tracking.thy ===== *)
theory Versioned_Tracking
  imports Versioned_Containers
begin

section \<open>Generated conversions and tracked values (crates stackable-versioned, stackable-versioned-macros)\<close>

text \<open>
  The \<open>From\<close> and \<open>TrackingFrom\<close> impls the macro emits, as data, and what the emitted tracking code
  does when it runs: a downgrade pushes the values of the fields the old version does not have into
  the status, the next upgrade takes them out again. A struct value is a map from field names to
  values; the conversions of the fields are parameters, as is the (de)serialisation of \<open>serde_yaml\<close>.
  \<^const>\<open>None\<close> is a panic or code that does not compile.
\<close>

subsection \<open>Arguments of the generators\<close>

record module_generation_context =
  gc_conversion_tracking :: bool
  gc_enable_tracing :: bool
  gc_skip :: module_skip_arguments
  gc_crates :: crate_arguments
  gc_vis :: string
  gc_add_attributes :: bool

definition automatically_derived_attr :: "module_generation_context \<Rightarrow> bool" where
  "automatically_derived_attr ctx \<longleftrightarrow> \<not> gc_add_attributes ctx"

record container_options =
  co_skip_from :: bool
  co_skip_object_from :: bool
  co_skip_merged_crd :: bool
  co_skip_try_convert :: bool

record container_idents =
  ci_original :: ident_string
  ci_parameter :: ident_string

definition as_parameter_ident :: "(string \<Rightarrow> bool) \<Rightarrow> ident_string \<Rightarrow> ident_string option" where
  "as_parameter_ident ident_ok ident = format_ident ident_ok (''__sv_'' @ map to_ascii_lower ident)"

definition container_idents_from :: "(string \<Rightarrow> bool) \<Rightarrow> ident_string \<Rightarrow> container_idents option" where
  "container_idents_from ident_ok ident =
     map_option (\<lambda>parameter. \<lparr>ci_original = ident, ci_parameter = parameter\<rparr>) (as_parameter_ident ident_ok ident)"

record common_container_data =
  cc_attributes :: "syn_attribute list"
  cc_options :: container_options
  cc_idents :: container_idents

subsection \<open>From impls\<close>

record from_impl =
  fi_automatically_derived :: bool
  fi_allow_deprecated :: bool
  fi_from_module :: ident_string
  fi_for_module :: ident_string
  fi_container :: ident_string
  fi_parameter :: ident_string

definition from_impl_modules ::
    "direction \<Rightarrow> version_definition \<Rightarrow> version_definition \<Rightarrow> ident_string \<times> ident_string" where
  "from_impl_modules direction version next_version =
     (case direction of
        Upgrade \<Rightarrow> (module_ident (version_idents version), module_ident (version_idents next_version))
      | Downgrade \<Rightarrow> (module_ident (version_idents next_version), module_ident (version_idents version)))"

definition make_from_impl ::
    "common_container_data \<Rightarrow> direction \<Rightarrow> version_definition \<Rightarrow> version_definition \<Rightarrow>
     module_generation_context \<Rightarrow> (version_definition \<Rightarrow> bool) \<Rightarrow> from_impl" where
  "make_from_impl common direction version next_version ctx any_deprecated =
     (case from_impl_modules direction version next_version of
        (from_module, for_module) \<Rightarrow>
          \<lparr>fi_automatically_derived = automatically_derived_attr ctx,
           fi_allow_deprecated = version_deprecated version \<noteq> None \<or> version_deprecated next_version \<noteq> None
             \<or> any_deprecated version \<or> any_deprecated next_version,
           fi_from_module = from_module, fi_for_module = for_module,
           fi_container = ci_original (cc_idents common), fi_parameter = ci_parameter (cc_idents common)\<rparr>)"

record plain_from_impl = from_impl +
  pf_fields :: "from_field list"

definition generate_plain_from_impl ::
    "(string \<Rightarrow> bool) \<Rightarrow> common_container_data \<Rightarrow> versioned_field list \<Rightarrow> direction \<Rightarrow> version_definition \<Rightarrow>
     version_definition \<Rightarrow> module_generation_context \<Rightarrow> plain_from_impl option" where
  "generate_plain_from_impl ident_ok common fs direction version next_version ctx =
     map_option (\<lambda>fields'.
       from_impl.extend (make_from_impl common direction version next_version ctx (is_any_field_deprecated fs))
         \<lparr>pf_fields = fields'\<rparr>)
       (from_impl_fields ident_ok fs direction version next_version)"

text \<open>The parts of a tracking impl: path variables, pushes, struct literal, match on the taken values.\<close>

record tracking_from_impl = from_impl +
  ti_json_paths :: "json_path_binding list"
  ti_inserts :: "(string \<times> status_insertion list) option"
  ti_fields :: "from_field list"
  ti_removals :: "(string \<times> status_removal list) option"

definition status_is_addition :: "item_status \<Rightarrow> bool" where
  "status_is_addition s = (case s of Addition _ _ _ \<Rightarrow> True | _ \<Rightarrow> False)"

definition needs_tracking :: "versioned_field list \<Rightarrow> version_definition \<Rightarrow> bool" where
  "needs_tracking fs version =
     list_ex (\<lambda>f. case vf_changes f of None \<Rightarrow> False | Some c \<Rightarrow> value_is c (inner version) status_is_addition) fs"

definition generate_tracking_inserts ::
    "(string \<Rightarrow> bool) \<Rightarrow> versioned_field list \<Rightarrow> direction \<Rightarrow> version_definition \<Rightarrow>
     (string \<times> status_insertion list) option option" where
  "generate_tracking_inserts ident_ok fs direction next_version =
     (if \<not> needs_tracking fs next_version then Some None
      else
        (case direction of
           Upgrade \<Rightarrow> Some None
         | Downgrade \<Rightarrow>
             map_option (\<lambda>inserts. Some (version_fmt (inner next_version), inserts))
               (filter_map_all (\<lambda>f. field_for_status_insertion ident_ok f direction next_version) fs)))"

definition generate_tracking_removals ::
    "(string \<Rightarrow> bool) \<Rightarrow> versioned_field list \<Rightarrow> direction \<Rightarrow> version_definition \<Rightarrow>
     (string \<times> status_removal list) option option" where
  "generate_tracking_removals ident_ok fs direction next_version =
     (if \<not> needs_tracking fs next_version then Some None
      else
        Option.bind (filter_map_all (\<lambda>f. field_for_status_removal ident_ok f direction next_version) fs) (\<lambda>match_arms.
        case direction of
          Upgrade \<Rightarrow> Some (Some (version_fmt (inner next_version), match_arms))
        | Downgrade \<Rightarrow> Some None))"

definition generate_json_paths ::
    "(string \<Rightarrow> bool) \<Rightarrow> versioned_field list \<Rightarrow> version_definition \<Rightarrow> json_path_binding list option" where
  "generate_json_paths ident_ok fs next_version =
     filter_map_all (\<lambda>f. field_for_json_path ident_ok f next_version) fs"

definition generate_tracking_from_impl ::
    "(string \<Rightarrow> bool) \<Rightarrow> common_container_data \<Rightarrow> versioned_field list \<Rightarrow> direction \<Rightarrow> version_definition \<Rightarrow>
     version_definition \<Rightarrow> module_generation_context \<Rightarrow> tracking_from_impl option" where
  "generate_tracking_from_impl ident_ok common fs direction version next_version ctx =
     Option.bind (from_impl_fields ident_ok fs direction version next_version) (\<lambda>fields'.
     Option.bind (generate_tracking_inserts ident_ok fs direction next_version) (\<lambda>inserts.
     Option.bind (generate_tracking_removals ident_ok fs direction next_version) (\<lambda>removals.
     map_option (\<lambda>json_paths.
       from_impl.extend (make_from_impl common direction version next_version ctx (is_any_field_deprecated fs))
         \<lparr>ti_json_paths = json_paths, ti_inserts = inserts, ti_fields = fields', ti_removals = removals\<rparr>)
       (generate_json_paths ident_ok fs next_version))))"

datatype struct_from_impl = PlainFrom plain_from_impl | TrackingFrom tracking_from_impl

definition generate_struct_from_impl ::
    "(string \<Rightarrow> bool) \<Rightarrow> common_container_data \<Rightarrow> versioned_field list \<Rightarrow> direction \<Rightarrow> version_definition \<Rightarrow>
     version_definition option \<Rightarrow> module_generation_context \<Rightarrow> struct_from_impl option option" where
  "generate_struct_from_impl ident_ok common fs direction version next_version ctx =
     (if skip_from (gc_skip ctx) \<or> co_skip_from (cc_options common) then Some None
      else
        (case next_version of
           None \<Rightarrow> Some None
         | Some next_version \<Rightarrow>
             if gc_conversion_tracking ctx
             then map_option (Some \<circ> TrackingFrom)
               (generate_tracking_from_impl ident_ok common fs direction version next_version ctx)
             else map_option (Some \<circ> PlainFrom)
               (generate_plain_from_impl ident_ok common fs direction version next_version ctx)))"

record enum_from_impl = from_impl +
  ef_generics :: string
  ef_arms :: "match_arm list"

definition generate_enum_from_impl ::
    "common_container_data \<Rightarrow> versioned_variant list \<Rightarrow> string \<Rightarrow> direction \<Rightarrow> version_definition \<Rightarrow>
     version_definition option \<Rightarrow> module_generation_context \<Rightarrow> enum_from_impl option option" where
  "generate_enum_from_impl common vs generics direction version next_version ctx =
     (if version_skip_from version \<or> co_skip_from (cc_options common) then Some None
      else
        (case next_version of
           None \<Rightarrow> Some None
         | Some next_version \<Rightarrow>
             map_option (\<lambda>arms. Some
               (from_impl.extend (make_from_impl common direction version next_version ctx (is_any_variant_deprecated vs))
                 \<lparr>ef_generics = generics, ef_arms = arms\<rparr>))
               (from_impl_arms vs direction version next_version (ci_original (cc_idents common)))))"

subsection \<open>What the generated tracking code does\<close>

definition jthong_path :: "string \<Rightarrow> string \<Rightarrow> string" where
  "jthong_path parent child = parent @ ''.'' @ child"

record 'y changed_value =
  cv_json_path :: string
  cv_value :: 'y

record 'y changed_values =
  cv_downgrades :: "(string, 'y changed_value list) btreemap"
  cv_upgrades :: "(string, 'y changed_value list) btreemap"

text \<open>
  The user's conversions: \<open>default_fn()\<close>, the conversion of one field (\<open>convert_fn(..)\<close> or \<open>.into()\<close>),
  and \<open>tracking_into\<close> of a nested struct, which gets the status and the path; \<open>serde_yaml::to_value\<close>
  and \<open>from_value\<close>, both unwrapped.
\<close>

record ('v, 'y) conversions =
  conv_default :: "syn_path \<Rightarrow> 'v"
  conv_field :: "from_field \<Rightarrow> 'v \<Rightarrow> 'v"
  conv_nested :: "from_field \<Rightarrow> 'v \<Rightarrow> 'y changed_values \<Rightarrow> string \<Rightarrow> ('v \<times> 'y changed_values) option"
  to_value :: "'v \<Rightarrow> 'y option"
  from_value :: "'y \<Rightarrow> 'v option"

type_synonym 'v struct_value = "ident_string \<rightharpoonup> 'v"

text \<open>The \<open>let\<close> bindings of the paths; a later binding of the same name shadows an earlier one.\<close>

definition bind_paths :: "json_path_binding list \<Rightarrow> string \<Rightarrow> (ident_string \<rightharpoonup> string)" where
  "bind_paths bindings parent = map_of (rev (map (\<lambda>b. (jp_ident b, jthong_path parent (jp_child b))) bindings))"

fun eval_field ::
    "('v, 'y) conversions \<Rightarrow> (ident_string \<rightharpoonup> string) \<Rightarrow> 'v struct_value \<Rightarrow> from_field \<Rightarrow> 'y changed_values \<Rightarrow>
     ('v \<times> 'y changed_values) option" where
  "eval_field conv paths from (FieldDefault _ default_fn) status = Some (conv_default conv default_fn, status)"
| "eval_field conv paths from (FieldWith lhs f rhs) status =
     map_option (\<lambda>v. (conv_field conv (FieldWith lhs f rhs) v, status)) (from rhs)"
| "eval_field conv paths from (FieldInto lhs rhs h) status =
     map_option (\<lambda>v. (conv_field conv (FieldInto lhs rhs h) v, status)) (from rhs)"
| "eval_field conv paths from (FieldTracking lhs rhs h path) status =
     Option.bind (paths path) (\<lambda>p. Option.bind (from rhs) (\<lambda>v.
       conv_nested conv (FieldTracking lhs rhs h path) v status p))"

fun eval_fields ::
    "('v, 'y) conversions \<Rightarrow> (ident_string \<rightharpoonup> string) \<Rightarrow> 'v struct_value \<Rightarrow> from_field list \<Rightarrow> 'v struct_value \<Rightarrow>
     'y changed_values \<Rightarrow> ('v struct_value \<times> 'y changed_values) option" where
  "eval_fields conv paths from [] spec status = Some (spec, status)"
| "eval_fields conv paths from (e # es) spec status =
     Option.bind (eval_field conv paths from e status) (\<lambda>(v, status).
       eval_fields conv paths from es (spec(lhs_ident e \<mapsto> v)) status)"

fun pushed_values ::
    "('v, 'y) conversions \<Rightarrow> (ident_string \<rightharpoonup> string) \<Rightarrow> 'v struct_value \<Rightarrow> status_insertion list \<Rightarrow>
     'y changed_value list option" where
  "pushed_values conv paths from [] = Some []"
| "pushed_values conv paths from (i # is') =
     Option.bind (paths (si_json_path i)) (\<lambda>path.
     Option.bind (from (si_ident i)) (\<lambda>v.
     Option.bind (to_value conv v) (\<lambda>y.
     map_option (\<lambda>rest. \<lparr>cv_json_path = path, cv_value = y\<rparr> # rest) (pushed_values conv paths from is'))))"

definition eval_inserts ::
    "('v, 'y) conversions \<Rightarrow> (ident_string \<rightharpoonup> string) \<Rightarrow> 'v struct_value \<Rightarrow>
     (string \<times> status_insertion list) option \<Rightarrow> 'y changed_values \<Rightarrow> 'y changed_values option" where
  "eval_inserts conv paths from inserts status =
     (case inserts of
        None \<Rightarrow> Some status
      | Some (version, pushes) \<Rightarrow>
          map_option (\<lambda>pushed.
            status\<lparr>cv_upgrades := btree_insert version
              ((case btree_get (cv_upgrades status) version of None \<Rightarrow> [] | Some old \<Rightarrow> old) @ pushed)
              (cv_upgrades status)\<rparr>)
            (pushed_values conv paths from pushes))"

text \<open>The guarded arms of the match; without a matching arm the code reaches \<open>unreachable!()\<close>.\<close>

fun matching_arm :: "(ident_string \<rightharpoonup> string) \<Rightarrow> string \<Rightarrow> status_removal list \<Rightarrow> ident_string option" where
  "matching_arm paths json_path [] = None"
| "matching_arm paths json_path (arm # arms) =
     (if paths (sr_json_path arm) = Some json_path then Some (sr_ident arm) else matching_arm paths json_path arms)"

fun apply_values ::
    "('v, 'y) conversions \<Rightarrow> (ident_string \<rightharpoonup> string) \<Rightarrow> status_removal list \<Rightarrow> 'y changed_value list \<Rightarrow>
     'v struct_value \<Rightarrow> 'v struct_value option" where
  "apply_values conv paths arms [] spec = Some spec"
| "apply_values conv paths arms (x # xs) spec =
     Option.bind (matching_arm paths (cv_json_path x) arms) (\<lambda>ident.
     Option.bind (from_value conv (cv_value x)) (\<lambda>v. apply_values conv paths arms xs (spec(ident \<mapsto> v))))"

definition eval_removals ::
    "('v, 'y) conversions \<Rightarrow> (ident_string \<rightharpoonup> string) \<Rightarrow> (string \<times> status_removal list) option \<Rightarrow>
     'v struct_value \<Rightarrow> 'y changed_values \<Rightarrow> ('v struct_value \<times> 'y changed_values) option" where
  "eval_removals conv paths removals spec status =
     (case removals of
        None \<Rightarrow> Some (spec, status)
      | Some (version, arms) \<Rightarrow>
          (case btree_get (cv_upgrades status) version of
             None \<Rightarrow> Some (spec, status)
           | Some upgrades \<Rightarrow>
               map_option (\<lambda>spec. (spec, status\<lparr>cv_upgrades := btree_remove version (cv_upgrades status)\<rparr>))
                 (apply_values conv paths arms upgrades spec)))"

text \<open>The body of the generated \<open>tracking_from\<close>.\<close>

definition tracking_from ::
    "('v, 'y) conversions \<Rightarrow> 'a tracking_from_impl_scheme \<Rightarrow> 'v struct_value \<Rightarrow> 'y changed_values \<Rightarrow> string \<Rightarrow>
     ('v struct_value \<times> 'y changed_values) option" where
  "tracking_from conv impl from status parent =
     (let paths = bind_paths (ti_json_paths impl) parent in
      Option.bind (eval_inserts conv paths from (ti_inserts impl) status) (\<lambda>status.
      Option.bind (eval_fields conv paths from (ti_fields impl) Map.empty status) (\<lambda>(spec, status).
        eval_removals conv paths (ti_removals impl) spec status)))"

subsection \<open>One field between two adjacent versions\<close>

text \<open>What a field is for two adjacent versions: in neither, added by the next one, or in both.\<close>

datatype field_case =
    Absent
  | Added ident_string syn_path
  | Kept ident_string ident_string from_field from_field

fun old_ident :: "field_case \<Rightarrow> ident_string option" where
  "old_ident Absent = None"
| "old_ident (Added _ _) = None"
| "old_ident (Kept i _ _ _) = Some i"

fun new_ident :: "field_case \<Rightarrow> ident_string option" where
  "new_ident Absent = None"
| "new_ident (Added i _) = Some i"
| "new_ident (Kept _ j _ _) = Some j"

fun added_ident :: "field_case \<Rightarrow> ident_string option" where
  "added_ident (Added i _) = Some i"
| "added_ident _ = None"

fun up_field :: "field_case \<Rightarrow> from_field option" where
  "up_field Absent = None"
| "up_field (Added i f) = Some (FieldDefault i f)"
| "up_field (Kept _ _ _ u) = Some u"

fun down_field :: "field_case \<Rightarrow> from_field option" where
  "down_field (Kept _ _ d _) = Some d"
| "down_field _ = None"

fun converts :: "from_field \<Rightarrow> ident_string \<Rightarrow> ident_string \<Rightarrow> bool" where
  "converts (FieldWith l _ r) lhs rhs \<longleftrightarrow> l = lhs \<and> r = rhs"
| "converts (FieldInto l r _) lhs rhs \<longleftrightarrow> l = lhs \<and> r = rhs"
| "converts _ lhs rhs \<longleftrightarrow> False"

fun case_ok :: "field_case \<Rightarrow> bool" where
  "case_ok (Kept i j d u) \<longleftrightarrow> converts d i j \<and> converts u j i"
| "case_ok _ \<longleftrightarrow> True"

definition path_var :: "ident_string \<Rightarrow> ident_string" where
  "path_var i = ''__sv_'' @ map to_ascii_lower i @ ''_path''"

definition field_fits ::
    "(string \<Rightarrow> bool) \<Rightarrow> versioned_field \<Rightarrow> version_definition \<Rightarrow> version_definition \<Rightarrow> field_case \<Rightarrow> bool" where
  "field_fits ident_ok f v n c \<longleftrightarrow>
     case_ok c \<and>
     (\<exists>d. field_for_container f v = Some d \<and> map_option fd_ident d = old_ident c) \<and>
     (\<exists>d. field_for_container f n = Some d \<and> map_option fd_ident d = new_ident c) \<and>
     field_for_from_impl ident_ok f Upgrade v n = Some (up_field c) \<and>
     field_for_from_impl ident_ok f Downgrade v n = Some (down_field c) \<and>
     field_for_status_insertion ident_ok f Downgrade n =
       Some (map_option (\<lambda>i. \<lparr>si_json_path = path_var i, si_ident = i\<rparr>) (added_ident c)) \<and>
     field_for_status_removal ident_ok f Upgrade n =
       Some (map_option (\<lambda>i. \<lparr>sr_json_path = path_var i, sr_ident = i\<rparr>) (added_ident c)) \<and>
     field_for_status_removal ident_ok f Downgrade n = Some None \<and>
     field_for_json_path ident_ok f n =
       Some (map_option (\<lambda>i. \<lparr>jp_ident = path_var i, jp_child = i\<rparr>) (added_ident c)) \<and>
     (case vf_changes f of None \<Rightarrow> False | Some m \<Rightarrow> value_is m (inner n) status_is_addition) = (added_ident c \<noteq> None)"

lemma json_path_var: "ident_ok (path_var i) \<Longrightarrow> json_path_ident ident_ok i = Some (path_var i)"
  by (simp add: json_path_ident_def format_ident_def path_var_def)

lemma field_fits_exists:
  assumes real: "field_realised versions attrs f" and adj: "adjacent versions v n" and plain: "\<not> vf_nested f"
    and ok: "\<And>i. ident_ok (path_var i)"
  shows "\<exists>c. field_fits ident_ok f v n c"
proof (cases "vf_changes f")
  case None
  let ?i = "ident_original (vf_idents f)"
  from None plain have "field_fits ident_ok f v n (Kept ?i ?i (FieldInto ?i ?i (vf_hint f)) (FieldInto ?i ?i (vf_hint f)))"
    by (simp add: field_fits_def field_for_container_def make_field_def field_for_from_impl_def
        generate_from_impl_field_def field_for_status_insertion_def field_for_status_removal_def
        field_for_json_path_def Let_def)
  then show ?thesis ..
next
  case (Some m)
  with real have real': "item_realised attrs (vf_idents f) (vf_ty f) versions (Some m)"
    by (simp add: field_realised_def)
  from adjacent_members [OF adj] have members: "v \<in> set versions" "n \<in> set versions" by auto
  let ?view = "item_view_at attrs (vf_idents f) (vf_ty f) (inner v)"
  from realised_status [OF real' members(1)] obtain s where
      s: "btree_get m (inner v) = Some s" "status_view (vf_ty f) s = ?view" by blast
  from realised_status [OF real' members(2)] obtain t where t: "btree_get m (inner n) = Some t" by blast
  from realised_step [OF real' adj t]
  have step: "\<And>i g ty. t = Addition i g ty \<Longrightarrow> ?view = None"
    "\<And>d u i i' ty ty'. t = Change d u i i' ty ty' \<Longrightarrow> ?view = Some (i, ty, False)"
    "?view = None \<Longrightarrow> t = NotPresent \<or> (\<exists>i g ty. t = Addition i g ty)"
    "t = NotPresent \<Longrightarrow> ?view = None"
    by simp_all
  note defs = field_fits_def field_for_container_def make_field_def field_for_from_impl_def
    generate_from_impl_field_def field_for_status_insertion_def field_for_status_removal_def
    field_for_json_path_def get_expect_def Some s(1) t plain json_path_var [where ident_ok = ident_ok, OF ok] value_is_def status_is_addition_def
  show ?thesis
  proof (cases t)
    case (Addition i g ty)
    with step(1) s(2) have "s = NotPresent" by (simp add: status_view_None)
    with Addition have "field_fits ident_ok f v n (Added i g)" by (simp add: defs)
    then show ?thesis ..
  next
    case (Change d u i j ty ty')
    let ?e = "\<lambda>g lhs rhs. case g of Some h \<Rightarrow> FieldWith lhs h rhs | None \<Rightarrow> FieldInto lhs rhs (vf_hint f)"
    from step(2) [OF Change] s(2) have "status_view (vf_ty f) s = Some (i, ty, False)" by simp
    with Change have "field_fits ident_ok f v n (Kept i j (?e d i j) (?e u j i))"
      by (cases s; cases d; cases u) (simp_all add: defs)
    then show ?thesis ..
  next
    case (Deprecation p note' j)
    with step(3) s(2) obtain i ty b where "status_view (vf_ty f) s = Some (i, ty, b)"
      by (cases ?view) auto
    with Deprecation have "field_fits ident_ok f v n (Kept i j (FieldInto i j (vf_hint f)) (FieldInto j i (vf_hint f)))"
      by (cases s) (simp_all add: defs)
    then show ?thesis ..
  next
    case (NoChange b j ty)
    with step(3) s(2) obtain i ty' b' where "status_view (vf_ty f) s = Some (i, ty', b')"
      by (cases ?view) auto
    with NoChange have "field_fits ident_ok f v n (Kept i j (FieldInto i j (vf_hint f)) (FieldInto j i (vf_hint f)))"
      by (cases s) (simp_all add: defs)
    then show ?thesis ..
  next
    case NotPresent
    with step(4) s(2) have "s = NotPresent" by (simp add: status_view_None)
    with NotPresent have "field_fits ident_ok f v n Absent" by (simp add: defs)
    then show ?thesis ..
  qed
qed

lemma filter_map_all_fits:
  assumes "list_all2 (\<lambda>f c. g f = Some (h c)) fs cs"
  shows "filter_map_all g fs = Some (List.map_filter h cs)"
  using assms by (induction rule: list_all2_induct) (auto simp: map_filter_simps split: option.splits)

lemma filter_map_all_idents:
  assumes "list_all2 (\<lambda>f c. \<exists>d. g f = Some d \<and> map_option k d = h c) fs cs"
  shows "\<exists>ds. filter_map_all g fs = Some ds \<and> map k ds = List.map_filter h cs"
  using assms by (induction rule: list_all2_induct) (auto simp: map_filter_simps split: option.splits)

definition addeds :: "field_case list \<Rightarrow> ident_string list" where
  "addeds cs = List.map_filter added_ident cs"

lemma map_filter_map_option: "List.map_filter (\<lambda>x. map_option g (h x)) xs = map g (List.map_filter h xs)"
  by (induction xs) (auto simp: map_filter_simps split: option.splits)

lemma needs_tracking_fits:
  assumes "list_all2 (\<lambda>f c. field_fits ident_ok f v n c) fs cs"
  shows "needs_tracking fs n \<longleftrightarrow> addeds cs \<noteq> []"
  using assms
  by (induction rule: list_all2_induct)
    (auto simp: needs_tracking_def addeds_def map_filter_simps field_fits_def split: option.splits)

text \<open>The generated impls, from the cases of the fields.\<close>

lemma tracking_impls_fit:
  assumes fits: "list_all2 (\<lambda>f c. field_fits ident_ok f v n c) fs cs"
  shows "\<exists>up down.
    generate_tracking_from_impl ident_ok common fs Upgrade v n ctx = Some up \<and>
    generate_tracking_from_impl ident_ok common fs Downgrade v n ctx = Some down \<and>
    ti_fields up = List.map_filter up_field cs \<and> ti_fields down = List.map_filter down_field cs \<and>
    ti_json_paths up = map (\<lambda>i. \<lparr>jp_ident = path_var i, jp_child = i\<rparr>) (addeds cs) \<and>
    ti_json_paths down = ti_json_paths up \<and> ti_inserts up = None \<and> ti_removals down = None \<and>
    ti_inserts down = (if addeds cs = [] then None
      else Some (version_fmt (inner n), map (\<lambda>i. \<lparr>si_json_path = path_var i, si_ident = i\<rparr>) (addeds cs))) \<and>
    ti_removals up = (if addeds cs = [] then None
      else Some (version_fmt (inner n), map (\<lambda>i. \<lparr>sr_json_path = path_var i, sr_ident = i\<rparr>) (addeds cs)))"
proof -
  have all: "list_all2 (\<lambda>f c. P f c) fs cs" if "\<And>f c. field_fits ident_ok f v n c \<Longrightarrow> P f c" for P
    using fits that by (rule list_all2_mono)
  have "filter_map_all (\<lambda>f. field_for_from_impl ident_ok f Upgrade v n) fs = Some (List.map_filter up_field cs)"
    by (rule filter_map_all_fits, rule all) (simp add: field_fits_def)
  moreover have "filter_map_all (\<lambda>f. field_for_from_impl ident_ok f Downgrade v n) fs = Some (List.map_filter down_field cs)"
    by (rule filter_map_all_fits, rule all) (simp add: field_fits_def)
  moreover have "filter_map_all (\<lambda>f. field_for_status_insertion ident_ok f Downgrade n) fs =
      Some (List.map_filter (\<lambda>c. map_option (\<lambda>i. \<lparr>si_json_path = path_var i, si_ident = i\<rparr>) (added_ident c)) cs)"
    by (rule filter_map_all_fits, rule all) (simp add: field_fits_def)
  moreover have "filter_map_all (\<lambda>f. field_for_status_removal ident_ok f Upgrade n) fs =
      Some (List.map_filter (\<lambda>c. map_option (\<lambda>i. \<lparr>sr_json_path = path_var i, sr_ident = i\<rparr>) (added_ident c)) cs)"
    by (rule filter_map_all_fits, rule all) (simp add: field_fits_def)
  moreover have "filter_map_all (\<lambda>f. field_for_status_removal ident_ok f Downgrade n) fs =
      Some (List.map_filter (\<lambda>c. None) cs)"
    by (rule filter_map_all_fits, rule all) (simp add: field_fits_def)
  moreover have "filter_map_all (\<lambda>f. field_for_json_path ident_ok f n) fs =
      Some (List.map_filter (\<lambda>c. map_option (\<lambda>i. \<lparr>jp_ident = path_var i, jp_child = i\<rparr>) (added_ident c)) cs)"
    by (rule filter_map_all_fits, rule all) (simp add: field_fits_def)
  ultimately show ?thesis
    by (simp add: generate_tracking_from_impl_def from_impl_fields_def generate_tracking_inserts_def
        generate_tracking_removals_def generate_json_paths_def needs_tracking_fits [OF fits]
        map_filter_map_option addeds_def from_impl.defs)
qed

subsection \<open>Evaluating flat structs\<close>

fun field_value :: "('v, 'y) conversions \<Rightarrow> 'v struct_value \<Rightarrow> from_field \<Rightarrow> 'v" where
  "field_value conv from (FieldDefault _ f) = conv_default conv f"
| "field_value conv from e = conv_field conv e (the (from (the (rhs_ident e))))"

fun plain_field :: "'v struct_value \<Rightarrow> from_field \<Rightarrow> bool" where
  "plain_field from (FieldDefault _ _) \<longleftrightarrow> True"
| "plain_field from (FieldWith _ _ rhs) \<longleftrightarrow> from rhs \<noteq> None"
| "plain_field from (FieldInto _ rhs _) \<longleftrightarrow> from rhs \<noteq> None"
| "plain_field from (FieldTracking _ _ _ _) \<longleftrightarrow> False"

lemma eval_field_plain:
  "plain_field from e \<Longrightarrow> eval_field conv paths from e status = Some (field_value conv from e, status)"
  by (cases e) auto

lemma eval_fields_plain:
  "list_all (plain_field from) es \<Longrightarrow>
     eval_fields conv paths from es spec status =
       Some (spec ++ map_of (rev (map (\<lambda>e. (lhs_ident e, field_value conv from e)) es)), status)"
  by (induction es arbitrary: spec) (auto simp: eval_field_plain map_add_def fun_eq_iff split: option.splits)

lemma map_of_rev_distinct:
  "distinct (map fst xs) \<Longrightarrow> map_of (rev xs) = map_of xs"
  by (subst map_of_inject_set) (simp_all flip: rev_map)

lemma jthong_path_inject [simp]: "jthong_path parent a = jthong_path parent b \<longleftrightarrow> a = b"
  by (simp add: jthong_path_def)

lemma bind_paths_var:
  assumes "inj_on path_var (set is')" and "distinct is'" and "i \<in> set is'"
  shows "bind_paths (map (\<lambda>i. \<lparr>jp_ident = path_var i, jp_child = i\<rparr>) is') parent (path_var i)
    = Some (jthong_path parent i)"
proof -
  let ?xs = "map (\<lambda>i. (path_var i, jthong_path parent i)) is'"
  have "distinct (map fst ?xs)" using assms by (simp add: comp_def distinct_map)
  moreover from assms(3) have "(path_var i, jthong_path parent i) \<in> set ?xs" by auto
  ultimately have "map_of (rev ?xs) (path_var i) = Some (jthong_path parent i)"
    by (simp add: map_of_rev_distinct)
  then show ?thesis by (simp add: bind_paths_def comp_def)
qed

lemma pushed_values_added:
  assumes "\<And>i. i \<in> set is' \<Longrightarrow> paths (path_var i) = Some (jthong_path parent i)"
    and "\<And>i. i \<in> set is' \<Longrightarrow> \<exists>v y. from i = Some v \<and> to_value conv v = Some y"
  shows "pushed_values conv paths from (map (\<lambda>i. \<lparr>si_json_path = path_var i, si_ident = i\<rparr>) is')
    = Some (map (\<lambda>i. \<lparr>cv_json_path = jthong_path parent i, cv_value = the (to_value conv (the (from i)))\<rparr>) is')"
  using assms by (induction is') fastforce+

lemma matching_arm_added:
  assumes "\<And>k. k \<in> set ks \<Longrightarrow> paths (path_var k) = Some (jthong_path parent k)" and "i \<in> set ks"
  shows "matching_arm paths (jthong_path parent i) (map (\<lambda>i. \<lparr>sr_json_path = path_var i, sr_ident = i\<rparr>) ks) = Some i"
  using assms by (induction ks) auto

lemma apply_values_added:
  assumes "\<And>k. k \<in> set ks \<Longrightarrow> paths (path_var k) = Some (jthong_path parent k)" and "set is' \<subseteq> set ks"
    and "\<And>i. i \<in> set is' \<Longrightarrow> from_value conv (g i) = Some (h i)"
  shows "apply_values conv paths (map (\<lambda>i. \<lparr>sr_json_path = path_var i, sr_ident = i\<rparr>) ks)
      (map (\<lambda>i. \<lparr>cv_json_path = jthong_path parent i, cv_value = g i\<rparr>) is') spec
    = Some (spec ++ map_of (rev (map (\<lambda>i. (i, h i)) is')))"
  using assms(2,3)
proof (induction is' arbitrary: spec)
  case Nil
  then show ?case by simp
next
  case (Cons i is')
  then show ?case
    using matching_arm_added [OF assms(1), where i = i]
    by (simp add: map_add_def fun_eq_iff split: option.splits)
qed

lemma converts_idents:
  "converts e i j \<Longrightarrow> lhs_ident e = i \<and> rhs_ident e = Some j \<and>
     (plain_field from e \<longleftrightarrow> from j \<noteq> None) \<and> field_value conv from e = conv_field conv e (the (from j))"
  by (cases e) auto

text \<open>The struct the downgrade yields, and the one the upgrade starts the restoring from.\<close>

definition kept_cases :: "field_case list \<Rightarrow> field_case list" where
  "kept_cases cs = filter (\<lambda>c. case c of Kept _ _ _ _ \<Rightarrow> True | _ \<Rightarrow> False) cs"

lemma down_fields_plain:
  assumes "\<forall>c\<in>set cs. case_ok c" and "\<forall>j\<in>set (List.map_filter new_ident cs). from j \<noteq> None"
  shows "list_all (plain_field from) (List.map_filter down_field cs)"
  using assms
proof (induction cs)
  case Nil
  then show ?case by simp
next
  case (Cons c cs)
  then show ?case
    by (cases c) (auto simp: map_filter_simps dest: converts_idents)
qed

lemma down_lhs:
  "\<forall>c\<in>set cs. case_ok c \<Longrightarrow> map lhs_ident (List.map_filter down_field cs) = List.map_filter old_ident cs"
proof (induction cs)
  case (Cons c cs)
  then show ?case by (cases c) (auto simp: map_filter_simps dest: converts_idents)
qed simp

lemma up_lhs:
  "\<forall>c\<in>set cs. case_ok c \<Longrightarrow> map lhs_ident (List.map_filter up_field cs) = List.map_filter new_ident cs"
proof (induction cs)
  case (Cons c cs)
  then show ?case by (cases c) (auto simp: map_filter_simps dest: converts_idents)
qed simp

lemma up_fields_plain:
  assumes "\<forall>c\<in>set cs. case_ok c" and "\<forall>i\<in>set (List.map_filter old_ident cs). from i \<noteq> None"
  shows "list_all (plain_field from) (List.map_filter up_field cs)"
  using assms
proof (induction cs)
  case Nil
  then show ?case by simp
next
  case (Cons c cs)
  then show ?case
    by (cases c) (auto simp: map_filter_simps dest: converts_idents)
qed

lemma map_of_fields:
  assumes "distinct (map lhs_ident es)" and "e \<in> set es"
  shows "map_of (rev (map (\<lambda>e. (lhs_ident e, g e)) es)) (lhs_ident e) = Some (g e)"
proof -
  have "distinct (map fst (map (\<lambda>e. (lhs_ident e, g e)) es))" using assms(1) by (simp add: comp_def)
  then show ?thesis using assms(2) by (auto simp: map_of_rev_distinct)
qed

lemma map_of_fields_None:
  "x \<notin> set (map lhs_ident es) \<Longrightarrow> map_of (rev (map (\<lambda>e. (lhs_ident e, g e)) es)) x = None"
  by (auto simp: map_of_eq_None_iff)

lemma set_map_filter: "y \<in> set (List.map_filter h cs) \<longleftrightarrow> (\<exists>c\<in>set cs. h c = Some y)"
  by (force simp: map_filter_def)

lemma addeds_new: "set (addeds cs) \<subseteq> set (List.map_filter new_ident cs)"
proof
  fix i assume "i \<in> set (addeds cs)"
  then obtain c where "c \<in> set cs" "added_ident c = Some i" by (auto simp: addeds_def set_map_filter)
  then show "i \<in> set (List.map_filter new_ident cs)"
    by (cases c rule: field_case.exhaust) (force simp: set_map_filter)+
qed

lemma addeds_distinct: "distinct (List.map_filter new_ident cs) \<Longrightarrow> distinct (addeds cs)"
proof (induction cs)
  case (Cons c cs)
  with addeds_new [of cs] show ?case by (cases c) (auto simp: addeds_def map_filter_simps)
qed (simp add: addeds_def)

lemma kept_not_added:
  assumes "distinct (List.map_filter new_ident cs)" and "Kept i j d u \<in> set cs"
  shows "j \<notin> set (addeds cs)"
  using assms
proof (induction cs)
  case (Cons c cs)
  have "j \<in> set (List.map_filter new_ident cs)" if "Kept i j d u \<in> set cs"
    using that by (force simp: set_map_filter)
  with Cons addeds_new [of cs] show ?case
    by (cases c) (auto simp: addeds_def map_filter_simps)
qed simp

lemma restored_struct:
  assumes ok: "\<forall>c\<in>set cs. case_ok c"
    and old: "distinct (List.map_filter old_ident cs)" and new: "distinct (List.map_filter new_ident cs)"
    and dom: "dom spec = set (List.map_filter new_ident cs)"
    and undo: "\<And>i j d u. Kept i j d u \<in> set cs \<Longrightarrow>
      conv_field conv u (conv_field conv d (the (spec j))) = the (spec j)"
    and lowered: "lowered = map_of (rev (map (\<lambda>e. (lhs_ident e, field_value conv spec e)) (List.map_filter down_field cs)))"
  shows "map_of (rev (map (\<lambda>e. (lhs_ident e, field_value conv lowered e)) (List.map_filter up_field cs)))
      ++ map_of (rev (map (\<lambda>i. (i, the (spec i))) (addeds cs))) = spec" (is "?raised ++ ?added = spec")
proof
  fix x
  have distinct: "distinct (map fst (map (\<lambda>i. (i, the (spec i))) (addeds cs)))"
    using addeds_distinct [OF new] by (simp add: comp_def)
  show "(?raised ++ ?added) x = spec x"
  proof (cases "x \<in> dom spec")
    case False
    then have none: "x \<notin> set (List.map_filter new_ident cs)" by (simp add: dom)
    then have "?raised x = None" by (intro map_of_fields_None) (simp add: up_lhs [OF ok] del: set_map)
    moreover from none addeds_new [of cs] have "?added x = None" by (auto simp: map_of_eq_None_iff)
    moreover from False have "spec x = None" by (simp add: domIff)
    ultimately show ?thesis by (simp add: map_add_def)
  next
    case True
    show ?thesis
    proof (cases "x \<in> set (addeds cs)")
      case True
      then have "?added x = Some (the (spec x))" using distinct by (auto simp: map_of_rev_distinct)
      with \<open>x \<in> dom spec\<close> show ?thesis by (auto simp: map_add_def)
    next
      case False
      then have none: "?added x = None" by (auto simp: map_of_eq_None_iff)
      from \<open>x \<in> dom spec\<close> obtain c where c: "c \<in> set cs" "new_ident c = Some x"
        by (auto simp: dom set_map_filter)
      with False obtain i d u where kept: "c = Kept i x d u"
        by (cases c) (auto simp: addeds_def set_map_filter)
      with ok c have conv: "converts d i x" "converts u x i" by auto
      from kept c have "d \<in> set (List.map_filter down_field cs)" "u \<in> set (List.map_filter up_field cs)"
        by (force simp: set_map_filter)+
      with map_of_fields [of "List.map_filter down_field cs" d] map_of_fields [of "List.map_filter up_field cs" u]
      have "lowered (lhs_ident d) = Some (field_value conv spec d)"
        "?raised (lhs_ident u) = Some (field_value conv lowered u)"
        using old new by (simp_all add: lowered down_lhs [OF ok] up_lhs [OF ok])
      moreover from converts_idents [OF conv(1)] have "lhs_ident d = i"
        "field_value conv spec d = conv_field conv d (the (spec x))" by blast+
      moreover from converts_idents [OF conv(2)] have "lhs_ident u = x"
        "field_value conv lowered u = conv_field conv u (the (lowered i))" by blast+
      ultimately have "?raised x = Some (the (spec x))"
        using undo c(1) kept by simp
      with none \<open>x \<in> dom spec\<close> show ?thesis by (auto simp: map_add_def)
    qed
  qed
qed

subsection \<open>No value is lost by a downgrade\<close>

lemma btree_insert_remove:
  assumes "btree_inv m" and "btree_get m k = None"
  shows "btree_remove k (btree_insert k v m) = m"
  using assms
proof (induction m)
  case Nil
  then show ?case by (simp add: btree_remove_def)
next
  case (Cons x m)
  obtain k' v' where x: "x = (k', v')" by (cases x)
  have absent: "(k, w) \<notin> set m" for w
    using Cons.prems(2) by (force simp: x btree_get_def map_of_eq_None_iff split: if_splits)
  then have "filter (\<lambda>(k', _). k' \<noteq> k) m = m" by (auto simp: filter_id_conv)
  with Cons show ?case
    by (auto simp: x btree_remove_def btree_get_def btree_inv_def split: if_splits)
qed

lemma tracked_roundtrip:
  assumes ok: "\<forall>c\<in>set cs. case_ok c"
    and old: "distinct (List.map_filter old_ident cs)" and new: "distinct (List.map_filter new_ident cs)"
    and dom: "dom spec = set (List.map_filter new_ident cs)"
    and vars: "inj_on path_var (set (List.map_filter new_ident cs))"
    and undo: "\<And>i j d u. Kept i j d u \<in> set cs \<Longrightarrow>
      conv_field conv u (conv_field conv d (the (spec j))) = the (spec j)"
    and yaml: "\<And>x. x \<in> ran spec \<Longrightarrow> \<exists>y. to_value conv x = Some y \<and> from_value conv y = Some x"
    and up: "ti_fields up = List.map_filter up_field cs" "ti_inserts up = None"
      "ti_json_paths up = map (\<lambda>i. \<lparr>jp_ident = path_var i, jp_child = i\<rparr>) (addeds cs)"
      "ti_removals up = (if addeds cs = [] then None
        else Some (version, map (\<lambda>i. \<lparr>sr_json_path = path_var i, sr_ident = i\<rparr>) (addeds cs)))"
    and down: "ti_fields down = List.map_filter down_field cs" "ti_removals down = None"
      "ti_json_paths down = ti_json_paths up"
      "ti_inserts down = (if addeds cs = [] then None
        else Some (version, map (\<lambda>i. \<lparr>si_json_path = path_var i, si_ident = i\<rparr>) (addeds cs)))"
    and status: "btree_inv (cv_upgrades status)" "btree_get (cv_upgrades status) version = None"
  shows "\<exists>lowered status'. tracking_from conv down spec status parent = Some (lowered, status') \<and>
    dom lowered = set (List.map_filter old_ident cs) \<and>
    tracking_from conv up lowered status' parent = Some (spec, status)"
proof -
  let ?paths = "bind_paths (ti_json_paths up) parent"
  let ?downs = "List.map_filter down_field cs" and ?ups = "List.map_filter up_field cs"
  define lowered where
    "lowered = map_of (rev (map (\<lambda>e. (lhs_ident e, field_value conv spec e)) ?downs))"
  let ?raised = "map_of (rev (map (\<lambda>e. (lhs_ident e, field_value conv lowered e)) ?ups))"
  have vars': "inj_on path_var (set (addeds cs))"
    using vars addeds_new by (rule inj_on_subset)
  have paths: "?paths (path_var i) = Some (jthong_path parent i)" if "i \<in> set (addeds cs)" for i
    unfolding up(3) using bind_paths_var [OF vars' addeds_distinct [OF new] that] .
  have downs: "list_all (plain_field spec) ?downs"
    by (rule down_fields_plain [OF ok]) (auto simp flip: dom)
  have lowered_dom: "dom lowered = set (List.map_filter old_ident cs)"
    by (simp add: lowered_def dom_map_of_conv_image_fst image_image flip: down_lhs [OF ok])
  have ups: "list_all (plain_field lowered) ?ups"
    by (rule up_fields_plain [OF ok]) (auto simp flip: lowered_dom)
  have stored: "\<exists>v y. spec i = Some v \<and> to_value conv v = Some y \<and> from_value conv y = Some v"
    if "i \<in> set (addeds cs)" for i
  proof -
    from that addeds_new [of cs] have "i \<in> dom spec" by (auto simp: dom)
    then obtain v where "spec i = Some v" by auto
    with yaml [of v] show ?thesis by (auto simp: ran_def)
  qed
  have restored: "?raised ++ map_of (rev (map (\<lambda>i. (i, the (spec i))) (addeds cs))) = spec"
    by (rule restored_struct [OF ok old new dom undo lowered_def])
  have fields_down: "eval_fields conv ?paths spec ?downs Map.empty st = Some (lowered, st)" for st
    by (simp add: eval_fields_plain [OF downs] lowered_def)
  have fields_up: "eval_fields conv ?paths lowered ?ups Map.empty st = Some (?raised, st)" for st
    by (simp add: eval_fields_plain [OF ups])
  show ?thesis
  proof (cases "addeds cs = []")
    case True
    with restored have "?raised = spec" by simp
    with True show ?thesis
      by (intro exI [of _ lowered] exI [of _ status])
        (simp add: tracking_from_def eval_inserts_def eval_removals_def up(1,2,4) down fields_down fields_up lowered_dom)
  next
    case False
    let ?pushed = "map (\<lambda>i. \<lparr>cv_json_path = jthong_path parent i,
      cv_value = the (to_value conv (the (spec i)))\<rparr>) (addeds cs)"
    let ?status = "status\<lparr>cv_upgrades := btree_insert version ?pushed (cv_upgrades status)\<rparr>"
    have pushed: "pushed_values conv ?paths spec
        (map (\<lambda>i. \<lparr>si_json_path = path_var i, si_ident = i\<rparr>) (addeds cs)) = Some ?pushed"
      by (rule pushed_values_added) (use paths stored in fastforce)+
    have taken: "apply_values conv ?paths (map (\<lambda>i. \<lparr>sr_json_path = path_var i, sr_ident = i\<rparr>) (addeds cs))
        ?pushed ?raised = Some (?raised ++ map_of (rev (map (\<lambda>i. (i, the (spec i))) (addeds cs))))"
      by (rule apply_values_added) (use paths stored in fastforce)+
    have lower: "tracking_from conv down spec status parent = Some (lowered, ?status)"
      by (simp add: tracking_from_def eval_inserts_def eval_removals_def down False pushed fields_down status(2))
    have "tracking_from conv up lowered ?status parent = Some (spec, status)"
      using status taken
      by (simp add: tracking_from_def eval_inserts_def eval_removals_def up(1,2,4) False fields_up restored
          btree_insert_remove)
    with lower lowered_dom show ?thesis by blast
  qed
qed

lemma fits_cases:
  assumes real: "list_all2 (\<lambda>(attrs, ty) f. field_realised versions (field_common attrs) f \<and>
      (vf_nested f \<longrightarrow> tracking) \<and> vf_ty f = ty \<and> vf_attributes f = field_attrs attrs) inputs fs"
    and adj: "adjacent versions v n" and plain: "\<forall>f\<in>set fs. \<not> vf_nested f" and ok: "\<And>i. ident_ok (path_var i)"
  shows "\<exists>cs. list_all2 (\<lambda>f c. field_fits ident_ok f v n c) fs cs"
  using real plain
proof (induction rule: list_all2_induct)
  case Nil
  show ?case by (intro exI [of _ "[]"]) simp
next
  case (Cons input inputs f fs)
  obtain attrs ty where input: "input = (attrs, ty)" by (cases input)
  from Cons obtain cs where cs: "list_all2 (\<lambda>f c. field_fits ident_ok f v n c) fs cs" by auto
  from Cons.hyps(1) have "field_realised versions (field_common attrs) f" by (simp add: input)
  from field_fits_exists [where ident_ok = ident_ok, OF this adj _ ok] Cons.prems obtain c where "field_fits ident_ok f v n c" by auto
  with cs show ?case by (intro exI [of _ "c # cs"]) simp
qed


definition demo_conversions :: "(nat, nat) conversions" where
  "demo_conversions =
     \<lparr>conv_default = \<lambda>_. 0, conv_field = \<lambda>_ v. v, conv_nested = \<lambda>_ v status _. Some (v, status),
      to_value = Some, from_value = Some\<rparr>"

definition demo_status :: "nat changed_values" where
  "demo_status = \<lparr>cv_downgrades = [], cv_upgrades = []\<rparr>"

definition demo_container :: common_container_data where
  "demo_container =
     \<lparr>cc_attributes = [], cc_options = \<lparr>co_skip_from = False, co_skip_object_from = False,
        co_skip_merged_crd = False, co_skip_try_convert = False\<rparr>,
      cc_idents = \<lparr>ci_original = ''FooSpec'', ci_parameter = ''__sv_foospec''\<rparr>\<rparr>"

definition demo_context :: module_generation_context where
  "demo_context =
     \<lparr>gc_conversion_tracking = True, gc_enable_tracing = False,
      gc_skip = \<lparr>skip_from = False, skip_object_from = False, skip_merged_crd = False, skip_try_convert = False\<rparr>,
      gc_crates = crate_arguments_default, gc_vis = ''pub'', gc_add_attributes = False\<rparr>"

abbreviation "demo_v1alpha1 \<equiv> demo_version (Version 1 (Some (Alpha 1)))"
abbreviation "demo_v1alpha2 \<equiv> demo_version (Version 1 (Some (Alpha 2)))"

lemma demo_definitions:
  assumes "versioned_fields (\<lambda>_. True) demo_inputs demo_versions tracking = Some (Inr [demo_field changes, demo_baz])"
  shows "\<exists>old new. struct_definition_fields [demo_field changes, demo_baz] demo_v1alpha1 = Some old
    \<and> map fd_ident old = [''baz''] \<and> struct_definition_fields [demo_field changes, demo_baz] demo_v1alpha2 = Some new
    \<and> map fd_ident new = [''jaz'', ''baz'']"
proof -
  have ascend: "\<forall>(attrs, ty) \<in> set demo_inputs. changes_ascend (field_common attrs)"
    by (simp add: demo_inputs_def changes_ascend_def demo_actions_def)
  from versioned_fields_realised [OF assms ascend demo_versions_ascend]
  have real: "field_realised demo_versions demo_actions (demo_field changes)"
    by (simp add: demo_inputs_def)
  from adjacent_members [OF demo_adjacent] have members: "demo_v1alpha1 \<in> set demo_versions" "demo_v1alpha2 \<in> set demo_versions"
    by auto
  have views: "field_view demo_actions (demo_field changes) demo_v1alpha1 = None"
    "field_view demo_actions (demo_field changes) demo_v1alpha2 = Some (''jaz'', ''u8'', False)"
    by (simp_all add: field_view_def item_view_at_def demo_version_def demo_actions_def demo_field_def
        last_ident_def undo_change_def change_from_type_def version_order)
  from field_for_container_view [OF real members(1)] views(1)
  have "field_for_container (demo_field changes) demo_v1alpha1 = Some None" by auto
  moreover from field_for_container_view [OF real members(2)] views(2)
  obtain d where "field_for_container (demo_field changes) demo_v1alpha2 = Some (Some d)" "fd_ident d = ''jaz''" by auto
  moreover have "field_for_container demo_baz x = Some (Some (make_field demo_baz None ''baz'' ''Option<bool>''))" for x
    by (simp add: field_for_container_def demo_baz_def)
  ultimately show ?thesis
    by (simp add: struct_definition_fields_def make_field_def)
qed


subsection \<open>Nested structs\<close>

text \<open>
  Two structs, the field \<open>child\<close> of the parent holding the nested one. Both add a field in \<open>v2\<close>. The
  downgrade pushes both values under the one key \<open>v2\<close>; in the upgrade the nested struct takes the
  whole list, meets the path of the parent's field and runs into \<open>unreachable!()\<close>.
\<close>

datatype tree = Leaf nat | Node "tree struct_value"

definition plain_idents :: "ident_string \<Rightarrow> field_idents" where
  "plain_idents i = \<lparr>deprecation_prefix = FIELD_DEPRECATION_PREFIX, ident_original = i, ident_cleaned = i,
     ident_json_path = path_var i\<rparr>"

definition added_in_v2 :: "ident_string \<Rightarrow> versioned_field" where
  "added_in_v2 i =
     \<lparr>vf_attributes = [],
      vf_changes = Some [(Version 1 None, NotPresent), (Version 2 None, Addition i default_default_fn ''u8'')],
      vf_idents = plain_idents i, vf_hint = None, vf_nested = False, vf_ty = ''u8''\<rparr>"

definition nested_child :: versioned_field where
  "nested_child = \<lparr>vf_attributes = [], vf_changes = None, vf_idents = plain_idents ''child'', vf_hint = None,
     vf_nested = True, vf_ty = ''Child''\<rparr>"

definition tree_impl :: "versioned_field list \<Rightarrow> direction \<Rightarrow> tracking_from_impl" where
  "tree_impl fs direction =
     the (generate_tracking_from_impl (\<lambda>_. True) demo_container fs direction (demo_version (Version 1 None))
       (demo_version (Version 2 None)) demo_context)"

definition leaf_conversions :: "(tree, tree) conversions" where
  "leaf_conversions =
     \<lparr>conv_default = \<lambda>_. Leaf 0, conv_field = \<lambda>_ v. v, conv_nested = \<lambda>_ _ _ _. None,
      to_value = Some, from_value = Some\<rparr>"

definition tree_conversions :: "direction \<Rightarrow> (tree, tree) conversions" where
  "tree_conversions direction =
     leaf_conversions\<lparr>conv_nested := \<lambda>_ v status path.
       case v of
         Leaf _ \<Rightarrow> None
       | Node m \<Rightarrow> map_option (\<lambda>(m, status). (Node m, status))
           (tracking_from leaf_conversions (tree_impl [added_in_v2 ''extra''] direction) m status path)\<rparr>"

definition tree_status :: "tree changed_values" where
  "tree_status = \<lparr>cv_downgrades = [], cv_upgrades = []\<rparr>"

lemmas tree_defs = tree_impl_def generate_tracking_from_impl_def from_impl_fields_def generate_tracking_inserts_def
  generate_tracking_removals_def generate_json_paths_def needs_tracking_def added_in_v2_def nested_child_def
  plain_idents_def field_for_from_impl_def field_for_status_insertion_def field_for_status_removal_def
  field_for_json_path_def generate_from_impl_field_def json_path_ident_def format_ident_def
  get_expect_def btree_get_def value_is_def status_is_addition_def demo_version_def path_var_def
  to_ascii_lower_def is_upper_def in_range_def from_impl.defs Let_def

lemma tree_impl_parent:
  "ti_json_paths (tree_impl [added_in_v2 ''added'', nested_child] d) =
     [\<lparr>jp_ident = ''__sv_added_path'', jp_child = ''added''\<rparr>, \<lparr>jp_ident = ''__sv_child_path'', jp_child = ''child''\<rparr>]"
  "ti_inserts (tree_impl [added_in_v2 ''added'', nested_child] Downgrade) =
     Some (version_fmt (Version 2 None), [\<lparr>si_json_path = ''__sv_added_path'', si_ident = ''added''\<rparr>])"
  "ti_fields (tree_impl [added_in_v2 ''added'', nested_child] Downgrade) =
     [FieldTracking ''child'' ''child'' None ''__sv_child_path'']"
  "ti_removals (tree_impl [added_in_v2 ''added'', nested_child] Downgrade) = None"
  "ti_inserts (tree_impl [added_in_v2 ''added'', nested_child] Upgrade) = None"
  "ti_fields (tree_impl [added_in_v2 ''added'', nested_child] Upgrade) =
     [FieldDefault ''added'' default_default_fn, FieldTracking ''child'' ''child'' None ''__sv_child_path'']"
  by (cases d; simp add: tree_defs)+

lemma tree_impl_child:
  "ti_json_paths (tree_impl [added_in_v2 ''extra''] d) = [\<lparr>jp_ident = ''__sv_extra_path'', jp_child = ''extra''\<rparr>]"
  "ti_inserts (tree_impl [added_in_v2 ''extra''] Downgrade) =
     Some (version_fmt (Version 2 None), [\<lparr>si_json_path = ''__sv_extra_path'', si_ident = ''extra''\<rparr>])"
  "ti_fields (tree_impl [added_in_v2 ''extra''] Downgrade) = []"
  "ti_removals (tree_impl [added_in_v2 ''extra''] Downgrade) = None"
  "ti_inserts (tree_impl [added_in_v2 ''extra''] Upgrade) = None"
  "ti_fields (tree_impl [added_in_v2 ''extra''] Upgrade) = [FieldDefault ''extra'' default_default_fn]"
  "ti_removals (tree_impl [added_in_v2 ''extra''] Upgrade) =
     Some (version_fmt (Version 2 None), [\<lparr>sr_json_path = ''__sv_extra_path'', sr_ident = ''extra''\<rparr>])"
  by (cases d; simp add: tree_defs)+

lemma nested_additions_panic:
  "\<exists>lowered status'.
     tracking_from (tree_conversions Downgrade) (tree_impl [added_in_v2 ''added'', nested_child] Downgrade)
       [''added'' \<mapsto> Leaf 1, ''child'' \<mapsto> Node [''extra'' \<mapsto> Leaf 2]] tree_status ''$'' = Some (lowered, status')
     \<and> tracking_from (tree_conversions Upgrade) (tree_impl [added_in_v2 ''added'', nested_child] Upgrade)
       lowered status' ''$'' = None"
  by (simp add: tracking_from_def tree_impl_parent tree_impl_child tree_conversions_def leaf_conversions_def
      tree_status_def bind_paths_def eval_inserts_def eval_removals_def jthong_path_def btree_get_def Let_def)

text \<open>
  The path variable of a nested field is bound under its cleaned name but used under the name it has
  in the target version: for a nested field that is deprecated the emitted upgrade names a variable
  that is not bound.
\<close>

definition deprecated_child :: versioned_field where
  "deprecated_child =
     \<lparr>vf_attributes = [],
      vf_changes = Some [(Version 1 None, NoChange False ''child'' ''Child''),
        (Version 2 None, Deprecation ''child'' None ''deprecated_child'')],
      vf_idents = \<lparr>deprecation_prefix = FIELD_DEPRECATION_PREFIX, ident_original = ''deprecated_child'',
        ident_cleaned = ''child'', ident_json_path = path_var ''child''\<rparr>,
      vf_hint = None, vf_nested = True, vf_ty = ''Child''\<rparr>"

lemma nested_path_unbound:
  "ti_json_paths (tree_impl [deprecated_child] Upgrade) =
     [\<lparr>jp_ident = ''__sv_child_path'', jp_child = ''deprecated_child''\<rparr>]
   \<and> ti_fields (tree_impl [deprecated_child] Upgrade) =
     [FieldTracking ''deprecated_child'' ''child'' None ''__sv_deprecated_child_path'']"
  by (simp add: tree_defs deprecated_child_def)

end
