(* ===== verification/Versioned_Crds.thy ===== *)
theory Versioned_Crds
  imports Versioned_Tracking
begin

section \<open>Versioned modules and CRDs (crates stackable-versioned, stackable-versioned-macros)\<close>

text \<open>
  A versioned module: its containers, the code it generates per version and, for the structs that are
  CRD specs, the entry enum with \<open>try_convert\<close>, which answers the conversion reviews of the
  Kubernetes API server. The theorems say which conversions the generated match performs and what the
  answer to a review is, errors included.
\<close>

subsection \<open>CRD arguments\<close>

record crd_scale =
  spec_replicas_path :: string
  status_replicas_path :: string
  label_selector_path :: "string option"

record struct_crd_arguments =
  crd_group :: string
  crd_kind :: "string option"
  crd_singular :: "string option"
  crd_plural :: "string option"
  crd_namespaced :: bool
  crd_status :: "syn_path option"
  crd_scale :: "crd_scale option"
  crd_shortnames :: "string list"
  crd_doc :: string

record container_attributes =
  crd_arguments :: "struct_crd_arguments option"
  container_skip :: container_options

datatype versioned_container_error =
    ItemErrors "item_error list"
  | SubStructSkip
  | MissingSpecSuffix
  | SubmoduleName ident_string
  | SubmoduleNotUse
  | SubmoduleWithoutBlock
  | DisallowedItem
  | NoModuleBlock

definition container_attributes_validate ::
    "container_attributes \<Rightarrow> (container_attributes, versioned_container_error) result" where
  "container_attributes_validate self =
     (if crd_arguments self = None \<and>
         (co_skip_object_from (container_skip self) \<or> co_skip_merged_crd (container_skip self)
          \<or> co_skip_try_convert (container_skip self))
      then Inl SubStructSkip else Inr self)"

text \<open>\<open>trim_end_matches(\"Spec\")\<close> removes every repetition.\<close>

definition trim_end_matches_str :: "string \<Rightarrow> string \<Rightarrow> string" where
  "trim_end_matches_str p s = rev (trim_start_matches_str (rev p) (rev s))"

definition str_ends_with :: "string \<Rightarrow> string \<Rightarrow> bool" where
  "str_ends_with s p \<longleftrightarrow> str_starts_with (rev s) (rev p)"

definition as_cleaned_kubernetes_ident :: "(string \<Rightarrow> bool) \<Rightarrow> ident_string \<Rightarrow> ident_string option" where
  "as_cleaned_kubernetes_ident ident_ok ident = format_ident ident_ok (trim_end_matches_str ''Spec'' ident)"

record kubernetes_idents =
  k8s_kind :: ident_string
  k8s_status :: ident_string
  k8s_version :: ident_string
  k8s_parameter :: ident_string

definition kubernetes_idents_from ::
    "(string \<Rightarrow> bool) \<Rightarrow> ident_string \<Rightarrow> struct_crd_arguments \<Rightarrow> kubernetes_idents option" where
  "kubernetes_idents_from ident_ok ident arguments =
     Option.bind (case crd_kind arguments of
         Some kind \<Rightarrow> format_ident ident_ok kind
       | None \<Rightarrow> as_cleaned_kubernetes_ident ident_ok ident) (\<lambda>kind.
     Option.bind (format_ident ident_ok (kind @ ''StatusWithChangedValues'')) (\<lambda>status.
     Option.bind (format_ident ident_ok (kind @ ''Version'')) (\<lambda>version.
     map_option (\<lambda>parameter.
       \<lparr>k8s_kind = kind, k8s_status = status, k8s_version = version, k8s_parameter = parameter\<rparr>)
       (as_parameter_ident ident_ok kind))))"

record kubernetes_data =
  kd_arguments :: struct_crd_arguments
  kd_idents :: kubernetes_idents

subsection \<open>Containers\<close>

record versioned_struct =
  vs_fields :: "versioned_field list"
  vs_common :: common_container_data
  vs_kubernetes :: "kubernetes_data option"
  vs_generics :: string

record versioned_enum =
  ve_variants :: "versioned_variant list"
  ve_common :: common_container_data
  ve_generics :: string

datatype versioned_container = StructContainer versioned_struct | EnumContainer versioned_enum

text \<open>The syntax of a struct and an enum with the attributes \<open>darling\<close> parsed.\<close>

record struct_input =
  in_attributes :: "syn_attribute list"
  in_container :: container_attributes
  in_ident :: ident_string
  in_generics :: string
  in_fields :: "(field_attributes \<times> syn_type) list"

record enum_input =
  en_attributes :: "syn_attribute list"
  en_container :: container_attributes
  en_ident :: ident_string
  en_generics :: string
  en_variants :: "(variant_attributes \<times> variant_fields) list"

definition is_ident :: "syn_path \<Rightarrow> string \<Rightarrow> bool" where
  "is_ident path name \<longleftrightarrow> \<not> leading_colon path \<and> segments path = [name]"

definition traverse_opt :: "('a \<Rightarrow> 'b option) \<Rightarrow> 'a option \<Rightarrow> 'b option option" where
  "traverse_opt f x = (case x of None \<Rightarrow> Some None | Some a \<Rightarrow> map_option Some (f a))"

definition container_new_struct ::
    "(string \<Rightarrow> bool) \<Rightarrow> struct_input \<Rightarrow> version_definition list \<Rightarrow> bool \<Rightarrow> (versioned_container, versioned_container_error) result option" where
  "container_new_struct ident_ok item_struct versions experimental_conversion_tracking =
     (case container_attributes_validate (in_container item_struct) of
        Inl e \<Rightarrow> Some (Inl e)
      | Inr attributes \<Rightarrow>
          Option.bind (versioned_fields ident_ok (in_fields item_struct) versions experimental_conversion_tracking) (\<lambda>r.
          case r of
            Inl errors \<Rightarrow> Some (Inl (ItemErrors errors))
          | Inr members \<Rightarrow>
              Option.bind (container_idents_from ident_ok (in_ident item_struct)) (\<lambda>idents.
              map_option (\<lambda>k8s.
                if k8s \<noteq> None \<and> \<not> str_ends_with (ci_original idents) ''Spec'' then Inl MissingSpecSuffix
                else Inr (StructContainer
                  \<lparr>vs_fields = members,
                   vs_common = \<lparr>cc_attributes =
                       filter (\<lambda>attr. \<not> is_ident (attr_path attr) ''versioned'') (in_attributes item_struct),
                     cc_options = container_skip attributes, cc_idents = idents\<rparr>,
                   vs_kubernetes = k8s, vs_generics = in_generics item_struct\<rparr>))
                (traverse_opt (\<lambda>arguments.
                  map_option (\<lambda>idents. \<lparr>kd_arguments = arguments, kd_idents = idents\<rparr>)
                    (kubernetes_idents_from ident_ok (ci_original idents) arguments))
                  (crd_arguments attributes)))))"

definition container_new_enum ::
    "(string \<Rightarrow> bool) \<Rightarrow> (string \<Rightarrow> bool) \<Rightarrow> enum_input \<Rightarrow> version_definition list \<Rightarrow>
     (versioned_container, versioned_container_error) result option" where
  "container_new_enum ident_ok is_pascal item_enum versions =
     (case container_attributes_validate (en_container item_enum) of
        Inl e \<Rightarrow> Some (Inl e)
      | Inr attributes \<Rightarrow>
          Option.bind (versioned_variants ident_ok is_pascal (en_variants item_enum) versions) (\<lambda>r.
          case r of
            Inl errors \<Rightarrow> Some (Inl (ItemErrors errors))
          | Inr variants \<Rightarrow>
              map_option (\<lambda>idents.
                Inr (EnumContainer
                  \<lparr>ve_variants = variants,
                   ve_common = \<lparr>cc_attributes = en_attributes item_enum, cc_options = container_skip attributes,
                     cc_idents = idents\<rparr>,
                   ve_generics = en_generics item_enum\<rparr>))
                (container_idents_from ident_ok (en_ident item_enum))))"

fun get_original_ident :: "versioned_container \<Rightarrow> ident_string" where
  "get_original_ident (StructContainer s) = ci_original (cc_idents (vs_common s))"
| "get_original_ident (EnumContainer e) = ci_original (cc_idents (ve_common e))"

subsection \<open>The versioned module\<close>

text \<open>\<open>SubmoduleItem ident content\<close>: each item of the content is a \<open>use\<close> statement or something else.\<close>

datatype module_item =
    EnumItem enum_input
  | StructItem struct_input
  | SubmoduleItem ident_string "string option list option"
  | OtherItem

record versioned_module =
  m_versions :: "version_definition list"
  m_containers :: "versioned_container list"
  m_submodules :: "(ident_string \<times> string list) list"
  m_ident :: ident_string
  m_vis :: string
  m_attributes :: module_attributes

record module_parts =
  mp_errors :: "versioned_container_error list"
  mp_containers :: "versioned_container list"
  mp_submodules :: "(ident_string \<times> string list) list"

text \<open>\<open>HashMap::insert\<close>, as an association list.\<close>

definition hash_insert :: "'k \<Rightarrow> 'v \<Rightarrow> ('k \<times> 'v) list \<Rightarrow> ('k \<times> 'v) list" where
  "hash_insert k v m = (k, v) # filter (\<lambda>(k', _). k' \<noteq> k) m"

definition handle_container :: "module_parts \<Rightarrow> (versioned_container, versioned_container_error) result \<Rightarrow> module_parts" where
  "handle_container parts r =
     (case r of
        Inl e \<Rightarrow> parts\<lparr>mp_errors := mp_errors parts @ [e]\<rparr>
      | Inr c \<Rightarrow> parts\<lparr>mp_containers := mp_containers parts @ [c]\<rparr>)"

definition handle_submodule ::
    "version_definition list \<Rightarrow> module_parts \<Rightarrow> ident_string \<Rightarrow> string option list option \<Rightarrow> module_parts" where
  "handle_submodule versions parts ident content =
     (if \<not> list_ex (\<lambda>v. module_ident (version_idents v) = ident) versions
      then parts\<lparr>mp_errors := mp_errors parts @ [SubmoduleName ident]\<rparr>
      else
        (case content of
           None \<Rightarrow> parts\<lparr>mp_errors := mp_errors parts @ [SubmoduleWithoutBlock]\<rparr>
         | Some items \<Rightarrow>
             parts\<lparr>mp_errors := mp_errors parts
                 @ concat (map (\<lambda>i. case i of None \<Rightarrow> [SubmoduleNotUse] | Some _ \<Rightarrow> []) items),
               mp_submodules := hash_insert ident (List.map_filter id items) (mp_submodules parts)\<rparr>))"

definition handle_item ::
    "(string \<Rightarrow> bool) \<Rightarrow> (string \<Rightarrow> bool) \<Rightarrow> version_definition list \<Rightarrow> bool \<Rightarrow> module_parts \<Rightarrow> module_item \<Rightarrow>
     module_parts option" where
  "handle_item ident_ok is_pascal versions tracking parts item =
     (case item of
        EnumItem item_enum \<Rightarrow>
          map_option (handle_container parts) (container_new_enum ident_ok is_pascal item_enum versions)
      | StructItem item_struct \<Rightarrow>
          map_option (handle_container parts) (container_new_struct ident_ok item_struct versions tracking)
      | SubmoduleItem ident content \<Rightarrow> Some (handle_submodule versions parts ident content)
      | OtherItem \<Rightarrow> Some (parts\<lparr>mp_errors := mp_errors parts @ [DisallowedItem]\<rparr>))"

fun handle_items ::
    "(string \<Rightarrow> bool) \<Rightarrow> (string \<Rightarrow> bool) \<Rightarrow> version_definition list \<Rightarrow> bool \<Rightarrow> module_parts \<Rightarrow> module_item list \<Rightarrow>
     module_parts option" where
  "handle_items ident_ok is_pascal versions tracking parts [] = Some parts"
| "handle_items ident_ok is_pascal versions tracking parts (item # items) =
     Option.bind (handle_item ident_ok is_pascal versions tracking parts item) (\<lambda>parts.
       handle_items ident_ok is_pascal versions tracking parts items)"

definition module_new ::
    "(string \<Rightarrow> bool) \<Rightarrow> (string \<Rightarrow> bool) \<Rightarrow> (string \<Rightarrow> string) \<Rightarrow> ident_string \<Rightarrow> string \<Rightarrow> module_item list option \<Rightarrow>
     module_attributes \<Rightarrow> (versioned_module, versioned_container_error list) result option" where
  "module_new ident_ok is_pascal to_pascal ident vis content attributes =
     (case content of
        None \<Rightarrow> Some (Inl [NoModuleBlock])
      | Some items \<Rightarrow>
          let versions = version_definitions to_pascal attributes in
          map_option (\<lambda>parts.
            finish_with (mp_errors parts)
              \<lparr>m_versions = versions, m_containers = mp_containers parts, m_submodules = mp_submodules parts,
               m_ident = ident, m_vis = vis, m_attributes = attributes\<rparr>)
            (handle_items ident_ok is_pascal versions (ma_conversion_tracking attributes)
              \<lparr>mp_errors = [], mp_containers = [], mp_submodules = []\<rparr> items))"

subsection \<open>Code for one CRD\<close>

record spec_generation_context =
  sg_arguments :: struct_crd_arguments
  sg_idents :: kubernetes_idents
  sg_crd_fns :: "(ident_string \<times> ident_string) list"
  sg_variant_idents :: "ident_string list"
  sg_variant_data :: "(ident_string \<times> ident_string) list"
  sg_version_strings :: "string list"

definition spec_generation_context_new ::
    "kubernetes_data option \<Rightarrow> version_definition list \<Rightarrow> spec_generation_context option" where
  "spec_generation_context_new data versions =
     map_option (\<lambda>d.
       let kind = k8s_kind (kd_idents d) in
       \<lparr>sg_arguments = kd_arguments d, sg_idents = kd_idents d,
        sg_crd_fns = map (\<lambda>v. (module_ident (version_idents v), kind)) versions,
        sg_variant_idents = map (\<lambda>v. variant_ident (version_idents v)) versions,
        sg_variant_data = map (\<lambda>v. (module_ident (version_idents v), kind)) versions,
        sg_version_strings = map (\<lambda>v. version_fmt (inner v)) versions\<rparr>) data"

record kube_attribute =
  ka_group :: string
  ka_version :: string
  ka_kind :: string
  ka_doc :: string
  ka_singular :: "string option"
  ka_plural :: "string option"
  ka_namespaced :: bool
  ka_crates :: "(string \<times> syn_path) list"
  ka_status :: "syn_path option"
  ka_scale :: "crd_scale option"
  ka_shortnames :: "string list"

definition skips_merged_crd :: "module_generation_context \<Rightarrow> container_options \<Rightarrow> bool" where
  "skips_merged_crd ctx options \<longleftrightarrow> skip_merged_crd (gc_skip ctx) \<or> co_skip_merged_crd options"

definition skips_try_convert :: "module_generation_context \<Rightarrow> container_options \<Rightarrow> bool" where
  "skips_try_convert ctx options \<longleftrightarrow> skip_try_convert (gc_skip ctx) \<or> co_skip_try_convert options"

definition generate_kube_attribute ::
    "container_options \<Rightarrow> version_definition \<Rightarrow> module_generation_context \<Rightarrow> spec_generation_context \<Rightarrow> kube_attribute" where
  "generate_kube_attribute options version ctx spec =
     (let args = sg_arguments spec in
      \<lparr>ka_group = crd_group args,
       ka_version = version_fmt (inner version),
       ka_kind = (case crd_kind args of None \<Rightarrow> k8s_kind (sg_idents spec) | Some kind \<Rightarrow> kind),
       ka_doc = crd_doc args,
       ka_singular = crd_singular args,
       ka_plural = crd_plural args,
       ka_namespaced = crd_namespaced args,
       ka_crates = crate_overrides (gc_crates ctx),
       ka_status =
         (if gc_conversion_tracking ctx then
            if skips_merged_crd ctx options \<and> skips_try_convert ctx options then crd_status args
            else Some \<lparr>leading_colon = False, segments = [k8s_status (sg_idents spec)]\<rparr>
          else crd_status args),
       ka_scale = crd_scale args,
       ka_shortnames = crd_shortnames args\<rparr>)"

record struct_definition =
  sd_docs :: "string list"
  sd_attributes :: "syn_attribute list"
  sd_kube :: "kube_attribute option"
  sd_ident :: ident_string
  sd_generics :: string
  sd_fields :: "field_definition list"

definition generate_struct_definition ::
    "versioned_struct \<Rightarrow> version_definition \<Rightarrow> module_generation_context \<Rightarrow> spec_generation_context option \<Rightarrow>
     struct_definition option" where
  "generate_struct_definition s version ctx spec =
     map_option (\<lambda>members.
       \<lparr>sd_docs = version_docs version, sd_attributes = cc_attributes (vs_common s),
        sd_kube = map_option (generate_kube_attribute (cc_options (vs_common s)) version ctx) spec,
        sd_ident = ci_original (cc_idents (vs_common s)), sd_generics = vs_generics s, sd_fields = members\<rparr>)
       (struct_definition_fields (vs_fields s) version)"

record enum_definition =
  ed_docs :: "string list"
  ed_attributes :: "syn_attribute list"
  ed_ident :: ident_string
  ed_generics :: string
  ed_variants :: "variant_definition list"

definition generate_enum_definition :: "versioned_enum \<Rightarrow> version_definition \<Rightarrow> enum_definition option" where
  "generate_enum_definition e version =
     map_option (\<lambda>variants.
       \<lparr>ed_docs = version_docs version, ed_attributes = cc_attributes (ve_common e),
        ed_ident = ci_original (cc_idents (ve_common e)), ed_generics = ve_generics e, ed_variants = variants\<rparr>)
       (enum_definition_variants (ve_variants e) version)"

text \<open>The \<open>From\<close> impl of the Kubernetes object: metadata and status move over, the spec is converted.\<close>

datatype object_body =
    TrackedBody ident_string ident_string
  | PlainBody bool

record object_from_impl =
  of_automatically_derived :: bool
  of_from_module :: ident_string
  of_for_module :: ident_string
  of_kind :: ident_string
  of_parameter :: ident_string
  of_body :: object_body

definition generate_object_from_impl ::
    "common_container_data \<Rightarrow> direction \<Rightarrow> version_definition \<Rightarrow> version_definition option \<Rightarrow>
     module_generation_context \<Rightarrow> spec_generation_context \<Rightarrow> object_from_impl option" where
  "generate_object_from_impl common direction version next_version ctx spec =
     (if skip_object_from (gc_skip ctx) \<or> co_skip_object_from (cc_options common) then None
      else map_option (\<lambda>next_version.
        case from_impl_modules direction version next_version of
          (from_module, for_module) \<Rightarrow>
            \<lparr>of_automatically_derived = automatically_derived_attr ctx,
             of_from_module = from_module, of_for_module = for_module,
             of_kind = k8s_kind (sg_idents spec), of_parameter = k8s_parameter (sg_idents spec),
             of_body = (if gc_conversion_tracking ctx
               then TrackedBody for_module (ci_original (cc_idents common))
               else PlainBody (crd_status (sg_arguments spec) \<noteq> None))\<rparr>) next_version)"

definition generate_entry_enum :: "spec_generation_context \<Rightarrow> (ident_string \<times> (ident_string \<times> ident_string)) list" where
  "generate_entry_enum spec = zip (sg_variant_idents spec) (sg_variant_data spec)"

text \<open>The version enum: variant, version string and API version string of each version.\<close>

definition api_version_string :: "string \<Rightarrow> string \<Rightarrow> string" where
  "api_version_string group' version = group' @ ''/'' @ version"

definition generate_version_enum ::
    "container_options \<Rightarrow> module_generation_context \<Rightarrow> spec_generation_context \<Rightarrow>
     (ident_string \<times> string \<times> string) list option" where
  "generate_version_enum options ctx spec =
     (if skips_merged_crd ctx options \<and> skips_try_convert ctx options then None
      else Some (zip (sg_variant_idents spec)
        (map (\<lambda>version. (version, api_version_string (crd_group (sg_arguments spec)) version)) (sg_version_strings spec))))"

definition generate_merged_crd_fn ::
    "container_options \<Rightarrow> module_generation_context \<Rightarrow> spec_generation_context \<Rightarrow> (ident_string \<times> ident_string) list option" where
  "generate_merged_crd_fn options ctx spec =
     (if skips_merged_crd ctx options then None else Some (sg_crd_fns spec))"

record status_struct =
  ss_ident :: ident_string
  ss_status :: "syn_path option"

definition generate_status_struct ::
    "container_options \<Rightarrow> module_generation_context \<Rightarrow> spec_generation_context \<Rightarrow> status_struct option" where
  "generate_status_struct options ctx spec =
     (if skips_try_convert ctx options \<or> \<not> gc_conversion_tracking ctx then None
      else Some \<lparr>ss_ident = k8s_status (sg_idents spec), ss_status = crd_status (sg_arguments spec)\<rparr>)"

subsection \<open>Conversion paths\<close>

text \<open>\<open>Itertools::permutations(2)\<close>: the ordered pairs of elements at different positions.\<close>

definition permutations_2 :: "'a list \<Rightarrow> ('a \<times> 'a) list" where
  "permutations_2 xs =
     concat (map (\<lambda>i. map (\<lambda>j. (xs ! i, xs ! j)) (filter (\<lambda>j. j \<noteq> i) [0..<length xs])) [0..<length xs])"

text \<open>\<open>Iterator::position\<close>.\<close>

fun position :: "('a \<Rightarrow> bool) \<Rightarrow> 'a list \<Rightarrow> nat option" where
  "position p [] = None"
| "position p (x # xs) = (if p x then Some 0 else map_option Suc (position p xs))"

text \<open>The slices \<open>elements[start + 1..=end]\<close> and \<open>elements[end..start]\<close>, the second one reversed.\<close>

definition conversion_path :: "'a list \<Rightarrow> nat \<Rightarrow> nat \<Rightarrow> 'a list option" where
  "conversion_path elements start_index end_index =
     (if start_index < end_index then Some (take (end_index - start_index) (drop (start_index + 1) elements))
      else if end_index < start_index
      then Some (rev (take (start_index - end_index) (drop end_index elements)))
      else None)"

fun conversion_chain :: "'a list \<Rightarrow> ('a \<times> 'a) list \<Rightarrow> ('a \<times> 'a list) list option" where
  "conversion_chain elements [] = Some []"
| "conversion_chain elements ((start, end') # pairs) =
     (case (position (\<lambda>v. v = start) elements, position (\<lambda>v. v = end') elements) of
        (Some start_index, Some end_index) \<Rightarrow>
          Option.bind (conversion_path elements start_index end_index) (\<lambda>path.
          map_option (\<lambda>chain. (start, path) # chain) (conversion_chain elements pairs))
      | _ \<Rightarrow> conversion_chain elements pairs)"

definition conversion_paths :: "'a list \<Rightarrow> ('a \<times> 'a list) list option" where
  "conversion_paths elements = conversion_chain elements (permutations_2 elements)"

text \<open>
  An arm \<open>(Self::start(object), Version::desired)\<close>: the modules whose types the object is converted
  to one after the other.
\<close>

record conversion_arm =
  ca_start_variant :: ident_string
  ca_start_module :: ident_string
  ca_desired_variant :: ident_string
  ca_steps :: "ident_string list"

definition generate_conversion_match_arms :: "version_definition list \<Rightarrow> conversion_arm list option" where
  "generate_conversion_match_arms versions =
     Option.bind (conversion_paths versions) (\<lambda>paths.
       those (map (\<lambda>(start, path).
         if path = [] then None
         else Some \<lparr>ca_start_variant = variant_ident (version_idents start),
           ca_start_module = module_ident (version_idents start),
           ca_desired_variant = variant_ident (version_idents (last path)),
           ca_steps = map (\<lambda>v. module_ident (version_idents v)) path\<rparr>) paths))"

subsection \<open>The generated functions at run time\<close>

text \<open>
  The JSON values, the (de)serialisation of the object of a version and the conversions between the
  objects of two version modules are parameters; an object is kept with the variant of the entry enum
  that holds it.
\<close>

datatype 'e parse_object_error =
    FieldNotPresent string
  | FieldNotStr string
  | UnknownApiVersion string
  | Deserialize 'e
  | UnexpectedKind string string

datatype 'e convert_object_error =
    ParseObject "'e parse_object_error"
  | SerializeObject 'e
  | ParseDesiredApiVersion string

definition http_status_code :: "'e convert_object_error \<Rightarrow> 16 word" where
  "http_status_code e = (case e of SerializeObject _ \<Rightarrow> 500 | ParseObject _ \<Rightarrow> 400 | ParseDesiredApiVersion _ \<Rightarrow> 400)"

text \<open>The messages of the errors and their sources; \<open>debug\<close> is the \<open>Debug\<close> form of a string and \<open>show\<close>
  the message of a \<open>serde_json\<close> error.\<close>

fun parse_object_message :: "(string \<Rightarrow> string) \<Rightarrow> 'e parse_object_error \<Rightarrow> string" where
  "parse_object_message debug (FieldNotPresent field) = ''the field '' @ debug field @ '' is missing''"
| "parse_object_message debug (FieldNotStr field) = ''the field '' @ debug field @ '' must be a string''"
| "parse_object_message debug (UnknownApiVersion v) = ''encountered unknown object API version '' @ debug v"
| "parse_object_message debug (Deserialize e) = ''failed to deserialize object from JSON''"
| "parse_object_message debug (UnexpectedKind kind expected) =
     ''unexpected object kind '' @ debug kind @ '', expected '' @ debug expected"

fun error_chain :: "(string \<Rightarrow> string) \<Rightarrow> ('e \<Rightarrow> string) \<Rightarrow> 'e convert_object_error \<Rightarrow> string list" where
  "error_chain debug show' (ParseObject source) =
     [''failed to parse object'', parse_object_message debug source]
     @ (case source of Deserialize e \<Rightarrow> [show' e] | _ \<Rightarrow> [])"
| "error_chain debug show' (SerializeObject source) = [''failed to serialize object into json'', show' source]"
| "error_chain debug show' (ParseDesiredApiVersion v) =
     [''failed to parse desired API version'', ''unknown API version '' @ debug v]"

definition join_errors :: "(string \<Rightarrow> string) \<Rightarrow> ('e \<Rightarrow> string) \<Rightarrow> 'e convert_object_error \<Rightarrow> string" where
  "join_errors debug show' e = join '': '' (error_chain debug show' e)"

record ('j, 'o, 'e) crd_runtime =
  json_get :: "'j \<Rightarrow> string \<Rightarrow> 'j option"
  json_as_str :: "'j \<Rightarrow> string option"
  object_from_value :: "ident_string \<Rightarrow> 'j \<Rightarrow> ('o, 'e) result"
  object_to_value :: "ident_string \<Rightarrow> 'o \<Rightarrow> ('j, 'e) result"
  object_into :: "ident_string \<Rightarrow> ident_string \<Rightarrow> 'o \<Rightarrow> 'o"

text \<open>\<open>from_api_version\<close> and the match of \<open>from_json_object\<close>: the first version with the string.\<close>

definition api_versions :: "spec_generation_context \<Rightarrow> (string \<times> ident_string) list" where
  "api_versions spec =
     zip (map (api_version_string (crd_group (sg_arguments spec))) (sg_version_strings spec)) (sg_variant_idents spec)"

definition from_api_version :: "spec_generation_context \<Rightarrow> string \<Rightarrow> (ident_string, string) result" where
  "from_api_version spec api_version = ok_or api_version (map_of (api_versions spec) api_version)"

definition json_str_field ::
    "('j, 'o, 'e) crd_runtime \<Rightarrow> 'j \<Rightarrow> string \<Rightarrow> (string, 'e parse_object_error) result" where
  "json_str_field rt object field =
     and_then (ok_or (FieldNotPresent field) (json_get rt object field)) (\<lambda>x.
       ok_or (FieldNotStr field) (json_as_str rt x))"

definition from_json_object ::
    "spec_generation_context \<Rightarrow> ('j, 'o, 'e) crd_runtime \<Rightarrow> 'j \<Rightarrow> (ident_string \<times> 'o, 'e parse_object_error) result" where
  "from_json_object spec rt object_value =
     and_then (json_str_field rt object_value ''kind'') (\<lambda>kind.
     and_then (ensure (kind = k8s_kind (sg_idents spec)) (UnexpectedKind kind (k8s_kind (sg_idents spec)))) (\<lambda>_.
     and_then (json_str_field rt object_value ''apiVersion'') (\<lambda>api_version.
       case map_of (api_versions spec) api_version of
         None \<Rightarrow> Inl (UnknownApiVersion api_version)
       | Some variant \<Rightarrow>
           map_err Deserialize (and_then (object_from_value rt variant object_value) (\<lambda>object. Inr (variant, object))))))"

definition into_json_value ::
    "('j, 'o, 'e) crd_runtime \<Rightarrow> ident_string \<times> 'o \<Rightarrow> ('j, 'e) result" where
  "into_json_value rt entry = object_to_value rt (fst entry) (snd entry)"

text \<open>\<open>let converted: m1::Kind = object.into(); let converted: m2::Kind = converted.into(); ..\<close>\<close>

fun run_steps :: "('j, 'o, 'e) crd_runtime \<Rightarrow> ident_string \<Rightarrow> ident_string list \<Rightarrow> 'o \<Rightarrow> 'o" where
  "run_steps rt current [] object = object"
| "run_steps rt current (m # ms) object = run_steps rt m ms (object_into rt current m object)"

definition convert_object ::
    "('j, 'o, 'e) crd_runtime \<Rightarrow> conversion_arm list \<Rightarrow> ident_string \<Rightarrow> 'j \<Rightarrow> ident_string \<times> 'o \<Rightarrow>
     ('j, 'e convert_object_error) result" where
  "convert_object rt arms desired object current =
     (case find (\<lambda>arm. ca_start_variant arm = fst current \<and> ca_desired_variant arm = desired) arms of
        Some arm \<Rightarrow>
          map_err SerializeObject
            (into_json_value rt (desired, run_steps rt (ca_start_module arm) (ca_steps arm) (snd current)))
      | None \<Rightarrow> Inr object)"

definition convert_objects ::
    "spec_generation_context \<Rightarrow> conversion_arm list \<Rightarrow> ('j, 'o, 'e) crd_runtime \<Rightarrow> 'j list \<Rightarrow> string \<Rightarrow>
     ('j list, 'e convert_object_error) result" where
  "convert_objects spec arms rt objects desired_api_version =
     and_then (map_err ParseDesiredApiVersion (from_api_version spec desired_api_version)) (\<lambda>desired.
       traverse_list (\<lambda>object.
         and_then (map_err ParseObject (from_json_object spec rt object)) (\<lambda>current.
           convert_object rt arms desired object current)) objects)"

text \<open>The review: \<open>from_review\<close> of \<open>kube_core\<close> is a parameter, and the answer is the response record
  \<open>into_review\<close> wraps.\<close>

record ('j, 't) conversion_request =
  cr_types :: 't
  cr_uid :: string
  cr_desired_api_version :: string
  cr_objects :: "'j list"

datatype review_status = ReviewSuccess | ReviewFailure (failure_message: string) (failure_reason: string) (failure_code: "16 word")

datatype ('j, 't) conversion_response =
    InvalidReview review_status
  | ConversionResponse review_status 't string "'j list"

definition try_convert ::
    "spec_generation_context \<Rightarrow> conversion_arm list \<Rightarrow> ('j, 'o, 'e) crd_runtime \<Rightarrow> (string \<Rightarrow> string) \<Rightarrow> ('e \<Rightarrow> string) \<Rightarrow>
     ('r \<Rightarrow> (('j, 't) conversion_request, string) result) \<Rightarrow> 'r \<Rightarrow> ('j, 't) conversion_response" where
  "try_convert spec arms rt debug show' from_review review =
     (case from_review review of
        Inl err \<Rightarrow> InvalidReview (ReviewFailure err err 400)
      | Inr request \<Rightarrow>
          (case convert_objects spec arms rt (cr_objects request) (cr_desired_api_version request) of
             Inr converted_objects \<Rightarrow>
               ConversionResponse ReviewSuccess (cr_types request) (cr_uid request) converted_objects
           | Inl err \<Rightarrow>
               let message = join_errors debug show' err in
               ConversionResponse (ReviewFailure message message (http_status_code err))
                 (cr_types request) (cr_uid request) []))"

subsection \<open>All code of a module\<close>

record roundtrip_test =
  rt_earliest_module :: ident_string
  rt_latest_module :: ident_string
  rt_earliest_api_version :: string
  rt_latest_api_version :: string

definition generate_conversion_roundtrip_test ::
    "version_definition list \<Rightarrow> spec_generation_context \<Rightarrow> roundtrip_test option" where
  "generate_conversion_roundtrip_test versions spec =
     (if versions = [] \<or> sg_version_strings spec = [] then None
      else Some
        \<lparr>rt_earliest_module = module_ident (version_idents (hd versions)),
         rt_latest_module = module_ident (version_idents (last versions)),
         rt_earliest_api_version = api_version_string (crd_group (sg_arguments spec)) (hd (sg_version_strings spec)),
         rt_latest_api_version = api_version_string (crd_group (sg_arguments spec)) (last (sg_version_strings spec))\<rparr>)"

datatype inner_item = StructItemDefinition struct_definition | EnumItemDefinition enum_definition

datatype between_item =
    ObjectFrom object_from_impl
  | StructFrom struct_from_impl
  | EnumFrom enum_from_impl

record crd_code =
  cd_entry_enum :: "(ident_string \<times> (ident_string \<times> ident_string)) list"
  cd_merged_crd :: "(ident_string \<times> ident_string) list option"
  cd_conversion_arms :: "conversion_arm list option"
  cd_version_enum :: "(ident_string \<times> string \<times> string) list option"
  cd_roundtrip_test :: roundtrip_test
  cd_status_struct :: "status_struct option"

record container_tokens =
  ct_versioned :: "(version \<times> (inner_item list \<times> between_item list)) list"
  ct_outer :: "crd_code list"

text \<open>The list of versions with their successors, as the peekable iterator walks it.\<close>

fun with_next :: "'a list \<Rightarrow> ('a \<times> 'a option) list" where
  "with_next [] = []"
| "with_next (x # xs) = (x, first_opt xs) # with_next xs"

definition opt_list :: "'a option \<Rightarrow> 'a list" where
  "opt_list x = (case x of None \<Rightarrow> [] | Some a \<Rightarrow> [a])"

definition struct_version_tokens ::
    "(string \<Rightarrow> bool) \<Rightarrow> versioned_struct \<Rightarrow> module_generation_context \<Rightarrow> spec_generation_context option \<Rightarrow>
     version_definition \<times> version_definition option \<Rightarrow> (version \<times> (inner_item list \<times> between_item list)) option" where
  "struct_version_tokens ident_ok s ctx spec = (\<lambda>(version, next_version).
     Option.bind (generate_struct_definition s version ctx spec) (\<lambda>definition'.
     Option.bind (generate_struct_from_impl ident_ok (vs_common s) (vs_fields s) Upgrade version next_version ctx) (\<lambda>up.
     map_option (\<lambda>down.
       (inner version,
        ([StructItemDefinition definition'],
         (case spec of
            None \<Rightarrow> []
          | Some spec \<Rightarrow>
              map ObjectFrom (opt_list (generate_object_from_impl (vs_common s) Upgrade version next_version ctx spec))
              @ map ObjectFrom (opt_list (generate_object_from_impl (vs_common s) Downgrade version next_version ctx spec)))
         @ map StructFrom (opt_list up) @ map StructFrom (opt_list down))))
       (generate_struct_from_impl ident_ok (vs_common s) (vs_fields s) Downgrade version next_version ctx))))"

definition generate_crd_code ::
    "versioned_struct \<Rightarrow> version_definition list \<Rightarrow> module_generation_context \<Rightarrow> spec_generation_context \<Rightarrow> crd_code option" where
  "generate_crd_code s versions ctx spec =
     (let options = cc_options (vs_common s) in
      Option.bind (if skips_try_convert ctx options then Some None
          else map_option Some (generate_conversion_match_arms versions)) (\<lambda>arms.
      map_option (\<lambda>test.
        \<lparr>cd_entry_enum = generate_entry_enum spec,
         cd_merged_crd = generate_merged_crd_fn options ctx spec,
         cd_conversion_arms = arms,
         cd_version_enum = generate_version_enum options ctx spec,
         cd_roundtrip_test = test,
         cd_status_struct = generate_status_struct options ctx spec\<rparr>)
        (generate_conversion_roundtrip_test versions spec)))"

definition struct_generate_tokens ::
    "(string \<Rightarrow> bool) \<Rightarrow> versioned_struct \<Rightarrow> version_definition list \<Rightarrow> module_generation_context \<Rightarrow> container_tokens option" where
  "struct_generate_tokens ident_ok s versions ctx =
     (let spec = spec_generation_context_new (vs_kubernetes s) versions in
      Option.bind (those (map (struct_version_tokens ident_ok s ctx spec) (with_next versions))) (\<lambda>versioned.
      map_option (\<lambda>crd. \<lparr>ct_versioned = versioned, ct_outer = opt_list crd\<rparr>)
        (traverse_opt (generate_crd_code s versions ctx) spec)))"

definition enum_version_tokens ::
    "versioned_enum \<Rightarrow> module_generation_context \<Rightarrow> version_definition \<times> version_definition option \<Rightarrow>
     (version \<times> (inner_item list \<times> between_item list)) option" where
  "enum_version_tokens e ctx = (\<lambda>(version, next_version).
     Option.bind (generate_enum_definition e version) (\<lambda>definition'.
     Option.bind (generate_enum_from_impl (ve_common e) (ve_variants e) (ve_generics e) Upgrade version next_version ctx) (\<lambda>up.
     map_option (\<lambda>down.
       (inner version, ([EnumItemDefinition definition'],
         map EnumFrom (opt_list up) @ map EnumFrom (opt_list down))))
       (generate_enum_from_impl (ve_common e) (ve_variants e) (ve_generics e) Downgrade version next_version ctx))))"

definition enum_generate_tokens ::
    "versioned_enum \<Rightarrow> version_definition list \<Rightarrow> module_generation_context \<Rightarrow> container_tokens option" where
  "enum_generate_tokens e versions ctx =
     map_option (\<lambda>versioned. \<lparr>ct_versioned = versioned, ct_outer = []\<rparr>)
       (those (map (enum_version_tokens e ctx) (with_next versions)))"

definition container_generate_tokens ::
    "(string \<Rightarrow> bool) \<Rightarrow> versioned_container \<Rightarrow> version_definition list \<Rightarrow> module_generation_context \<Rightarrow> container_tokens option" where
  "container_generate_tokens ident_ok c versions ctx =
     (case c of
        StructContainer s \<Rightarrow> struct_generate_tokens ident_ok s versions ctx
      | EnumContainer e \<Rightarrow> enum_generate_tokens e versions ctx)"

text \<open>
  The version modules. The tokens of the containers are kept in a map by the name of the container,
  and every version removes its entry: \<open>expect\<close> panics when it is gone.
\<close>

record version_module =
  vm_automatically_derived :: bool
  vm_deprecated :: "string option"
  vm_vis :: string
  vm_ident :: ident_string
  vm_imports :: "string list option"
  vm_inner :: "inner_item list"
  vm_between :: "between_item list"

record module_tokens =
  mt_preserved :: "(string \<times> ident_string) option"
  mt_versions :: "version_module list"
  mt_outer :: "crd_code list"

type_synonym token_map = "(ident_string \<times> (version \<times> (inner_item list \<times> between_item list)) list) list"

fun take_version_tokens ::
    "token_map \<Rightarrow> version \<Rightarrow> ident_string list \<Rightarrow> (token_map \<times> inner_item list \<times> between_item list) option" where
  "take_version_tokens m version [] = Some (m, [], [])"
| "take_version_tokens m version (ident # idents) =
     Option.bind (map_of m ident) (\<lambda>versioned.
     Option.bind (map_of versioned version) (\<lambda>(inner', between').
     map_option (\<lambda>(m, inners, betweens). (m, inner' @ inners, between' @ betweens))
       (take_version_tokens (hash_insert ident (filter (\<lambda>(v, _). v \<noteq> version) versioned) m) version idents)))"

fun version_modules ::
    "versioned_module \<Rightarrow> bool \<Rightarrow> string \<Rightarrow> token_map \<Rightarrow> version_definition list \<Rightarrow> version_module list option" where
  "version_modules m preserve vis tokens [] = Some []"
| "version_modules m preserve vis tokens (version # versions) =
     Option.bind (take_version_tokens tokens (inner version) (map get_original_ident (m_containers m)))
       (\<lambda>(tokens, inners, betweens).
     map_option (\<lambda>rest.
       \<lparr>vm_automatically_derived = \<not> preserve, vm_deprecated = version_deprecated version, vm_vis = vis,
        vm_ident = module_ident (version_idents version),
        vm_imports = map_of (m_submodules m) (module_ident (version_idents version)),
        vm_inner = inners, vm_between = betweens\<rparr> # rest)
       (version_modules m preserve vis tokens versions))"

fun container_token_map ::
    "(string \<Rightarrow> bool) \<Rightarrow> version_definition list \<Rightarrow> module_generation_context \<Rightarrow> versioned_container list \<Rightarrow>
     token_map \<times> crd_code list \<Rightarrow> (token_map \<times> crd_code list) option" where
  "container_token_map ident_ok versions ctx [] acc = Some acc"
| "container_token_map ident_ok versions ctx (c # cs) (tokens, outer) =
     Option.bind (container_generate_tokens ident_ok c versions ctx) (\<lambda>t.
       container_token_map ident_ok versions ctx cs
         (hash_insert (get_original_ident c) (ct_versioned t) tokens, outer @ ct_outer t))"

definition module_generate_tokens :: "(string \<Rightarrow> bool) \<Rightarrow> versioned_module \<Rightarrow> module_tokens option option" where
  "module_generate_tokens ident_ok self =
     (if m_containers self = [] then Some None
      else
        (let attributes = m_attributes self;
             preserve_module = ma_preserve_module attributes;
             vis = (if preserve_module then ''pub'' else m_vis self);
             ctx = \<lparr>gc_conversion_tracking = ma_conversion_tracking attributes,
               gc_enable_tracing = ma_enable_tracing attributes, gc_skip = ma_skip attributes,
               gc_crates = ma_crates attributes, gc_vis = vis, gc_add_attributes = preserve_module\<rparr> in
         Option.bind (container_token_map ident_ok (m_versions self) ctx (m_containers self) ([], [])) (\<lambda>(tokens, outer).
         map_option (\<lambda>modules.
           Some \<lparr>mt_preserved = (if preserve_module then Some (m_vis self, m_ident self) else None),
             mt_versions = modules, mt_outer = outer\<rparr>)
           (version_modules self preserve_module vis tokens (m_versions self)))))"

end
