(* ===== verification/Versioned_Reviews.thy ===== *)
theory Versioned_Reviews
  imports Versioned_Crds
begin

section \<open>Conversion reviews (crate stackable-versioned-macros)\<close>

text \<open>
  What the generated \<open>try_convert\<close> does: the match it runs has one arm per ordered pair of versions,
  whose steps visit the versions in between one after the other; a review is answered with all objects
  converted along these steps, or with a failure and no object.
\<close>

subsection \<open>The paths\<close>

definition index_pairs :: "nat \<Rightarrow> (nat \<times> nat) list" where
  "index_pairs n = concat (map (\<lambda>i. map (Pair i) (filter (\<lambda>j. j \<noteq> i) [0..<n])) [0..<n])"

text \<open>The elements strictly after the start, in the direction of the end, up to the end.\<close>

definition path_between :: "'a list \<Rightarrow> nat \<Rightarrow> nat \<Rightarrow> 'a list" where
  "path_between xs i j =
     (if i < j then map ((!) xs) [i + 1..<j + 1] else map ((!) xs) (rev [j..<i]))"

lemma set_index_pairs: "(i, j) \<in> set (index_pairs n) \<longleftrightarrow> i < n \<and> j < n \<and> i \<noteq> j"
  by (auto simp: index_pairs_def)

lemma permutations_2_pairs: "permutations_2 xs = map (\<lambda>(i, j). (xs ! i, xs ! j)) (index_pairs (length xs))"
  by (simp add: permutations_2_def index_pairs_def map_concat comp_def)

lemma position_nth:
  "distinct xs \<Longrightarrow> i < length xs \<Longrightarrow> position (\<lambda>v. v = xs ! i) xs = Some i"
proof (induction xs arbitrary: i)
  case (Cons x xs)
  then show ?case by (cases i) auto
qed simp

lemma conversion_path_between:
  assumes "i < length xs" "j < length xs" "i \<noteq> j"
  shows "conversion_path xs i j = Some (path_between xs i j)"
proof (cases "i < j")
  case True
  with assms have "take (j - i) (drop (i + 1) xs) = map ((!) xs) [i + 1..<j + 1]"
    by (intro nth_equalityI) (auto simp del: upt_Suc)
  with True show ?thesis by (simp add: conversion_path_def path_between_def)
next
  case False
  with assms have "take (i - j) (drop j xs) = map ((!) xs) [j..<i]"
    by (intro nth_equalityI) auto
  with False assms(3) show ?thesis by (simp add: conversion_path_def path_between_def rev_map)
qed

lemma conversion_chain_pairs:
  assumes "distinct xs"
  shows "\<forall>(i, j)\<in>set ps. i < length xs \<and> j < length xs \<and> i \<noteq> j \<Longrightarrow>
    conversion_chain xs (map (\<lambda>(i, j). (xs ! i, xs ! j)) ps)
      = Some (map (\<lambda>(i, j). (xs ! i, path_between xs i j)) ps)"
  by (induction ps) (auto simp: position_nth [OF assms] conversion_path_between)

lemma conversion_paths_eq:
  assumes "distinct xs"
  shows "conversion_paths xs = Some (map (\<lambda>(i, j). (xs ! i, path_between xs i j)) (index_pairs (length xs)))"
  unfolding conversion_paths_def permutations_2_pairs
  by (rule conversion_chain_pairs [OF assms]) (auto simp: set_index_pairs)

lemma path_between_last: "i \<noteq> j \<Longrightarrow> path_between xs i j \<noteq> [] \<and> last (path_between xs i j) = xs ! j"
  by (auto simp: path_between_def last_map last_rev)

subsection \<open>The arms\<close>

definition variants :: "version_definition list \<Rightarrow> ident_string list" where
  "variants versions = map (\<lambda>v. variant_ident (version_idents v)) versions"

definition modules :: "version_definition list \<Rightarrow> ident_string list" where
  "modules versions = map (\<lambda>v. module_ident (version_idents v)) versions"

lemma length_variants [simp]: "length (variants versions) = length versions"
  by (simp add: variants_def)

definition arm_between :: "version_definition list \<Rightarrow> nat \<Rightarrow> nat \<Rightarrow> conversion_arm" where
  "arm_between versions i j =
     \<lparr>ca_start_variant = variants versions ! i, ca_start_module = modules versions ! i,
      ca_desired_variant = variants versions ! j, ca_steps = path_between (modules versions) i j\<rparr>"

lemma path_between_map:
  "i < length xs \<Longrightarrow> j < length xs \<Longrightarrow> map f (path_between xs i j) = path_between (map f xs) i j"
  by (auto simp: path_between_def)

lemma those_map_Some: "those (map (\<lambda>x. Some (f x)) xs) = Some (map f xs)"
  by (induction xs) auto

lemma generate_conversion_match_arms_eq:
  assumes "distinct versions"
  shows "generate_conversion_match_arms versions =
    Some (map (\<lambda>(i, j). arm_between versions i j) (index_pairs (length versions)))"
proof -
  let ?n = "length versions"
  have "(case (versions ! i, path_between versions i j) of (start, path) \<Rightarrow>
      if path = [] then None
      else Some \<lparr>ca_start_variant = variant_ident (version_idents start),
        ca_start_module = module_ident (version_idents start),
        ca_desired_variant = variant_ident (version_idents (last path)),
        ca_steps = map (\<lambda>v. module_ident (version_idents v)) path\<rparr>) = Some (arm_between versions i j)"
    if "i < ?n" "j < ?n" "i \<noteq> j" for i j
    using that path_between_last [of i j versions]
    by (simp add: arm_between_def variants_def modules_def path_between_map)
  then have "map (\<lambda>(start, path).
      if path = [] then None
      else Some \<lparr>ca_start_variant = variant_ident (version_idents start),
        ca_start_module = module_ident (version_idents start),
        ca_desired_variant = variant_ident (version_idents (last path)),
        ca_steps = map (\<lambda>v. module_ident (version_idents v)) path\<rparr>)
      (map (\<lambda>(i, j). (versions ! i, path_between versions i j)) (index_pairs ?n))
    = map (\<lambda>x. Some ((\<lambda>(i, j). arm_between versions i j) x)) (index_pairs ?n)"
    by (auto simp: set_index_pairs)
  then show ?thesis
    by (simp add: generate_conversion_match_arms_def conversion_paths_eq [OF assms] those_map_Some
        del: map_map)
qed

lemma find_unique:
  assumes "x \<in> set xs" "P x" "\<And>y. y \<in> set xs \<Longrightarrow> P y \<Longrightarrow> y = x"
  shows "find P xs = Some x"
  using assms
proof (induction xs)
  case (Cons a xs)
  show ?case
  proof (cases "P a")
    case True
    with Cons.prems(3) [of a] show ?thesis by simp
  next
    case False
    with Cons.prems(1,2) have "x \<in> set xs" by auto
    moreover have "y = x" if "y \<in> set xs" "P y" for y
      using Cons.prems(3) [of y] that by simp
    ultimately have "find P xs = Some x" using Cons.IH Cons.prems(2) by blast
    with False show ?thesis by simp
  qed
qed simp

lemma find_arm:
  assumes "distinct (variants versions)" and "i < length versions" "j < length versions"
  shows "find (\<lambda>arm. ca_start_variant arm = variants versions ! i \<and> ca_desired_variant arm = variants versions ! j)
      (map (\<lambda>(i, j). arm_between versions i j) (index_pairs (length versions)))
    = (if i = j then None else Some (arm_between versions i j))"
proof -
  have index: "variants versions ! k = variants versions ! l \<longleftrightarrow> k = l"
    if "k < length versions" "l < length versions" for k l
    using nth_eq_iff_index_eq [OF assms(1)] that by (simp add: variants_def)
  show ?thesis
  proof (cases "i = j")
    case True
    then have "\<forall>arm\<in>set (map (\<lambda>(i, j). arm_between versions i j) (index_pairs (length versions))).
        \<not> (ca_start_variant arm = variants versions ! i \<and> ca_desired_variant arm = variants versions ! j)"
      using assms(2,3) by (auto simp: set_index_pairs arm_between_def index)
    with True show ?thesis by (auto simp: find_None_iff)
  next
    case False
    have "find (\<lambda>arm. ca_start_variant arm = variants versions ! i \<and> ca_desired_variant arm = variants versions ! j)
        (map (\<lambda>(i, j). arm_between versions i j) (index_pairs (length versions))) = Some (arm_between versions i j)"
    proof (rule find_unique)
      show "arm_between versions i j \<in> set (map (\<lambda>(i, j). arm_between versions i j) (index_pairs (length versions)))"
        using False assms(2,3) by (force simp: set_index_pairs)
    next
      fix arm assume "arm \<in> set (map (\<lambda>(i, j). arm_between versions i j) (index_pairs (length versions)))"
        and same: "ca_start_variant arm = variants versions ! i \<and> ca_desired_variant arm = variants versions ! j"
      then obtain k l where "arm = arm_between versions k l" "k < length versions" "l < length versions"
        by (auto simp: set_index_pairs)
      with same show "arm = arm_between versions i j"
        using assms(2,3) by (simp add: arm_between_def index)
    qed (simp add: arm_between_def)
    with False show ?thesis by simp
  qed
qed

subsection \<open>Conversions step by step\<close>

text \<open>The specification: from version \<open>i\<close> to version \<open>j\<close> one adjacent conversion after the other.\<close>

definition convert_between ::
    "('j, 'o, 'e) crd_runtime \<Rightarrow> version_definition list \<Rightarrow> nat \<Rightarrow> nat \<Rightarrow> 'o \<Rightarrow> 'o" where
  "convert_between rt versions i j object =
     (if i \<le> j
      then fold (\<lambda>k. object_into rt (modules versions ! k) (modules versions ! Suc k)) [i..<j] object
      else fold (\<lambda>k. object_into rt (modules versions ! Suc k) (modules versions ! k)) (rev [j..<i]) object)"

lemma run_steps_up:
  "i \<le> j \<Longrightarrow> run_steps rt (ms ! i) (map ((!) ms) [i + 1..<j + 1]) object
     = fold (\<lambda>k. object_into rt (ms ! k) (ms ! Suc k)) [i..<j] object"
proof (induction "j - i" arbitrary: i object)
  case 0
  then show ?case by simp
next
  case (Suc d)
  then have less: "i < j" and d: "d = j - Suc i" by auto
  have "[i + 1..<j + 1] = Suc i # [Suc i + 1..<j + 1]" using less by (simp add: upt_conv_Cons del: upt_Suc)
  moreover have "[i..<j] = i # [Suc i..<j]" using less by (rule upt_conv_Cons)
  ultimately show ?case
    using Suc.hyps(1) [OF d, of "object_into rt (ms ! i) (ms ! Suc i) object"] less by (simp del: upt_Suc)
qed

lemma run_steps_down:
  "j \<le> i \<Longrightarrow> run_steps rt (ms ! i) (map ((!) ms) (rev [j..<i])) object
     = fold (\<lambda>k. object_into rt (ms ! Suc k) (ms ! k)) (rev [j..<i]) object"
proof (induction i arbitrary: object)
  case 0
  then show ?case by simp
next
  case (Suc i)
  show ?case
  proof (cases "j = Suc i")
    case True
    then show ?thesis by simp
  next
    case False
    with Suc.prems have "j \<le> i" by simp
    with Suc.IH [OF this, of "object_into rt (ms ! Suc i) (ms ! i) object"] show ?thesis by simp
  qed
qed

lemma run_steps_between:
  assumes "i \<noteq> j"
  shows "run_steps rt (modules versions ! i) (path_between (modules versions) i j) object
    = convert_between rt versions i j object"
  using assms run_steps_up [of i j rt "modules versions" object] run_steps_down [of j i rt "modules versions" object]
  by (simp add: path_between_def convert_between_def del: upt_Suc)

text \<open>When every adjacent downgrade undoes the upgrade, going to a later version and back changes nothing.\<close>

lemma convert_up_down:
  assumes "i \<le> j" and "\<And>k x. i \<le> k \<Longrightarrow> k < j \<Longrightarrow>
    object_into rt (modules versions ! Suc k) (modules versions ! k)
      (object_into rt (modules versions ! k) (modules versions ! Suc k) x) = x"
  shows "convert_between rt versions j i (convert_between rt versions i j object) = object"
  using assms
proof (induction j arbitrary: object)
  case 0
  then show ?case by (simp add: convert_between_def)
next
  case (Suc j)
  show ?case
  proof (cases "i = Suc j")
    case True
    then show ?thesis by (simp add: convert_between_def)
  next
    case False
    with Suc.prems(1) have le: "i \<le> j" by simp
    from Suc.IH [OF le] Suc.prems(2)
    have "convert_between rt versions j i (convert_between rt versions i j object) = object" by simp
    with le Suc.prems(2) [OF le] show ?thesis
      by (cases "i = j") (simp_all add: convert_between_def)
  qed
qed

subsection \<open>Reviews\<close>

lemma version_fmt_inject [simp]: "version_fmt v = version_fmt w \<longleftrightarrow> v = w"
proof
  assume "version_fmt v = version_fmt w"
  then have "version_from_str (version_fmt v) = version_from_str (version_fmt w)" by simp
  then show "v = w" by (simp add: version_codec.from_str_fmt)
qed simp

lemma api_versions_of:
  assumes "spec_generation_context_new (Some data) versions = Some spec"
  shows "api_versions spec =
      map (\<lambda>v. (api_version_string (crd_group (kd_arguments data)) (version_fmt (inner v)), variant_ident (version_idents v)))
        versions"
    and "sg_idents spec = kd_idents data" and "sg_arguments spec = kd_arguments data"
  using assms
  by (auto simp: spec_generation_context_new_def api_versions_def Let_def comp_def zip_map_map zip_same_conv_map)

lemma known_api_version:
  assumes "spec_generation_context_new (Some data) versions = Some spec"
    and "sorted_wrt (<) (map inner versions)" and "j < length versions"
  shows "from_api_version spec (api_version_string (crd_group (kd_arguments data)) (version_fmt (inner (versions ! j))))
    = Inr (variants versions ! j)"
proof -
  let ?s = "\<lambda>v. api_version_string (crd_group (kd_arguments data)) (version_fmt (inner v))"
  have "distinct (map inner versions)" using assms(2) by (simp add: strict_sorted_iff)
  then have "distinct (map ?s versions)"
    by (auto simp: distinct_map inj_on_def api_version_string_def)
  then have "distinct (map fst (api_versions spec))"
    by (simp add: api_versions_of [OF assms(1)] comp_def)
  moreover have "(?s (versions ! j), variants versions ! j) \<in> set (api_versions spec)"
    using assms(3) by (force simp: api_versions_of [OF assms(1)] variants_def)
  ultimately show ?thesis by (simp add: from_api_version_def)
qed

lemma parsed_variant:
  assumes "spec_generation_context_new (Some data) versions = Some spec"
    and "from_json_object spec rt object = Inr (variant, x)"
  shows "\<exists>i<length versions. variant = variants versions ! i"
proof -
  from assms(2) obtain api where "map_of (api_versions spec) api = Some variant"
    by (auto simp: from_json_object_def split: option.splits)
  then have "variant \<in> set (variants versions)"
    by (auto dest!: map_of_SomeD simp: api_versions_of [OF assms(1)] variants_def)
  then show ?thesis by (auto simp: in_set_conv_nth)
qed

text \<open>The answer for one object, step by step: unchanged when it already has the desired version.\<close>

definition convert_stepwise ::
    "('j, 'o, 'e) crd_runtime \<Rightarrow> version_definition list \<Rightarrow> nat \<Rightarrow> 'j \<Rightarrow> ident_string \<times> 'o \<Rightarrow>
     ('j, 'e convert_object_error) result" where
  "convert_stepwise rt versions j object current =
     (case position (\<lambda>v. v = fst current) (variants versions) of
        None \<Rightarrow> Inr object
      | Some i \<Rightarrow>
          if i = j then Inr object
          else map_err SerializeObject
            (object_to_value rt (variants versions ! j) (convert_between rt versions i j (snd current))))"

lemma convert_object_stepwise:
  assumes "distinct (variants versions)" and "i < length versions" "j < length versions"
  shows "convert_object rt (map (\<lambda>(i, j). arm_between versions i j) (index_pairs (length versions)))
      (variants versions ! j) object (variants versions ! i, x)
    = convert_stepwise rt versions j object (variants versions ! i, x)"
proof -
  have "position (\<lambda>v. v = variants versions ! i) (variants versions) = Some i"
    using position_nth [OF assms(1), of i] assms(2) by (simp add: variants_def)
  then show ?thesis
    using run_steps_between [of i j rt versions x]
    by (cases "i = j")
      (simp_all add: convert_object_def find_arm [OF assms] find_arm [OF assms(1,3,3)] convert_stepwise_def into_json_value_def
        arm_between_def [of versions i j])
qed

lemma traverse_list_cong:
  "(\<And>x. x \<in> set xs \<Longrightarrow> f x = g x) \<Longrightarrow> traverse_list f xs = traverse_list g xs"
  by (induction xs) auto

lemma distinct_versions:
  "distinct (variants versions) \<Longrightarrow> distinct versions"
  by (simp add: variants_def distinct_map)

text \<open>C17: In the CRD code generated for ascending versions with different variant names, the match of
  \<open>try_convert\<close> is generated without a panic, and a review that asks for the API version of the version
  with index j converts every object from its own version to j through every version in between, one
  adjacent conversion after the other, upwards or downwards; objects that already have the version are
  returned unchanged, and the first object that cannot be parsed or serialised ends the conversion.\<close>

theorem reviews_converted_stepwise:
  assumes "sorted_wrt (<) (map inner versions)" and "distinct (variants versions)"
    and "spec_generation_context_new (Some data) versions = Some spec" and "j < length versions"
  shows "\<exists>arms. generate_conversion_match_arms versions = Some arms \<and>
    convert_objects spec arms rt objects
      (api_version_string (crd_group (kd_arguments data)) (version_fmt (inner (versions ! j))))
    = traverse_list (\<lambda>object.
        and_then (map_err ParseObject (from_json_object spec rt object)) (\<lambda>current.
          convert_stepwise rt versions j object current)) objects"
proof -
  let ?arms = "map (\<lambda>(i, j). arm_between versions i j) (index_pairs (length versions))"
  have arms: "generate_conversion_match_arms versions = Some ?arms"
    by (rule generate_conversion_match_arms_eq [OF distinct_versions [OF assms(2)]])
  have "and_then (map_err ParseObject (from_json_object spec rt object)) (\<lambda>current.
        convert_object rt ?arms (variants versions ! j) object current)
      = and_then (map_err ParseObject (from_json_object spec rt object)) (\<lambda>current.
          convert_stepwise rt versions j object current)" for object
  proof (cases "from_json_object spec rt object")
    case (Inr current)
    obtain variant x where current: "current = (variant, x)" by (cases current)
    from parsed_variant [OF assms(3) Inr [unfolded current]] obtain i where
        "i < length versions" "variant = variants versions ! i" by blast
    with convert_object_stepwise [OF assms(2) _ assms(4)] show ?thesis by (simp add: Inr current)
  qed simp
  with arms show ?thesis
    by (simp add: convert_objects_def known_api_version [OF assms(3,1,4)])
qed

text \<open>A small CRD with three versions: the JSON of an object is its version with its trace of conversions.\<close>

definition demo_data :: kubernetes_data where
  "demo_data =
     \<lparr>kd_arguments = \<lparr>crd_group = ''stackable.tech'', crd_kind = None, crd_singular = None, crd_plural = None,
        crd_namespaced = True, crd_status = None, crd_scale = None, crd_shortnames = [], crd_doc = ''Test''\<rparr>,
      kd_idents = \<lparr>k8s_kind = ''Foo'', k8s_status = ''FooStatusWithChangedValues'', k8s_version = ''FooVersion'',
        k8s_parameter = ''__sv_foo''\<rparr>\<rparr>"

definition three_versions :: "version_definition list" where
  "three_versions = map demo_version [Version 1 (Some (Alpha 1)), Version 1 (Some (Beta 1)), Version 1 None]"

text \<open>\<open>Field\<close> is a JSON string, \<open>Object kind apiVersion trace\<close> an object.\<close>

datatype demo_json = Text string | Object string string "string list"

definition demo_runtime :: "(demo_json, string list, string) crd_runtime" where
  "demo_runtime =
     \<lparr>json_get = \<lambda>j field. case j of
          Text _ \<Rightarrow> None
        | Object kind api _ \<Rightarrow>
            if field = ''kind'' then Some (Text kind) else if field = ''apiVersion'' then Some (Text api) else None,
      json_as_str = \<lambda>j. case j of Text s \<Rightarrow> Some s | Object _ _ _ \<Rightarrow> None,
      object_from_value = \<lambda>_ j. case j of Text _ \<Rightarrow> Inl ''not an object'' | Object _ _ trace \<Rightarrow> Inr trace,
      object_to_value = \<lambda>v trace. Inr (Object ''Foo'' (''stackable.tech/'' @ v) trace),
      object_into = \<lambda>from to trace. trace @ [to]\<rparr>"

lemma three_versions_ascend: "sorted_wrt (<) (map inner three_versions)"
  by (simp add: three_versions_def demo_version_def version_order)

lemma three_versions_fmt:
  "version_fmt (Version 1 (Some (Alpha 1))) = ''v1alpha1''" "version_fmt (Version 1 (Some (Beta 1))) = ''v1beta1''"
  "version_fmt (Version 1 None) = ''v1''"
  by code_simp+

theorem reviews_converted_stepwise_witness:
  "\<exists>spec arms. spec_generation_context_new (Some demo_data) three_versions = Some spec \<and>
     generate_conversion_match_arms three_versions = Some arms \<and>
     convert_objects spec arms demo_runtime
       [Object ''Foo'' ''stackable.tech/v1'' [], Object ''Foo'' ''stackable.tech/v1alpha1'' []] ''stackable.tech/v1alpha1''
     = Inr [Object ''Foo'' ''stackable.tech/v1alpha1'' [''v1beta1'', ''v1alpha1''],
            Object ''Foo'' ''stackable.tech/v1alpha1'' []]"
proof -
  obtain spec where spec: "spec_generation_context_new (Some demo_data) three_versions = Some spec"
    by (simp add: spec_generation_context_new_def)
  have names: "variants three_versions = [''v1alpha1'', ''v1beta1'', ''v1'']"
    "modules three_versions = [''v1alpha1'', ''v1beta1'', ''v1'']"
    by (simp_all add: variants_def modules_def three_versions_def demo_version_def three_versions_fmt)
  have distinct: "distinct (variants three_versions)" by (simp add: names)
  have length: "0 < length three_versions" by (simp add: three_versions_def)
  have api: "api_versions spec = [(''stackable.tech/v1alpha1'', ''v1alpha1''), (''stackable.tech/v1beta1'', ''v1beta1''),
      (''stackable.tech/v1'', ''v1'')]"
    by (simp add: api_versions_of [OF spec] three_versions_def demo_version_def three_versions_fmt
        api_version_string_def demo_data_def)
  have desired: "api_version_string (crd_group (kd_arguments demo_data)) (version_fmt (inner (three_versions ! 0)))
      = ''stackable.tech/v1alpha1''"
    by (simp add: api_version_string_def demo_data_def three_versions_def demo_version_def three_versions_fmt)
  have kind: "k8s_kind (sg_idents spec) = ''Foo''"
    by (simp add: api_versions_of [OF spec] demo_data_def)
  have "from_json_object spec demo_runtime (Object ''Foo'' ''stackable.tech/v1'' []) = Inr (''v1'', [])"
    "from_json_object spec demo_runtime (Object ''Foo'' ''stackable.tech/v1alpha1'' []) = Inr (''v1alpha1'', [])"
    by (simp_all add: from_json_object_def json_str_field_def api kind demo_runtime_def)
  moreover have "convert_stepwise demo_runtime three_versions 0 x (''v1'', []) =
      Inr (Object ''Foo'' ''stackable.tech/v1alpha1'' [''v1beta1'', ''v1alpha1''])"
    "convert_stepwise demo_runtime three_versions 0 x (''v1alpha1'', []) = Inr x" for x
    by (simp_all add: convert_stepwise_def convert_between_def names demo_runtime_def numeral_2_eq_2)
  ultimately have "traverse_list (\<lambda>object.
        and_then (map_err ParseObject (from_json_object spec demo_runtime object)) (\<lambda>current.
          convert_stepwise demo_runtime three_versions 0 object current))
      [Object ''Foo'' ''stackable.tech/v1'' [], Object ''Foo'' ''stackable.tech/v1alpha1'' []]
    = Inr [Object ''Foo'' ''stackable.tech/v1alpha1'' [''v1beta1'', ''v1alpha1''],
            Object ''Foo'' ''stackable.tech/v1alpha1'' []]"
    by simp
  with reviews_converted_stepwise [OF three_versions_ascend distinct spec length, of demo_runtime
      "[Object ''Foo'' ''stackable.tech/v1'' [], Object ''Foo'' ''stackable.tech/v1alpha1'' []]"]
  show ?thesis unfolding desired using spec by auto
qed

text \<open>The answer to a review that can be read carries its uid and types; it is a success with all
  converted objects, in order, or a failure without any object, whose code is 500 when an object could
  not be serialised and 400 otherwise, in particular when the desired API version is not one of the
  CRD's; a review that cannot be read is answered with code 400.\<close>

theorem reviews_answered:
  "case from_review review of
     Inl err \<Rightarrow> try_convert spec arms rt debug show' from_review review = InvalidReview (ReviewFailure err err 400)
   | Inr request \<Rightarrow>
       (\<exists>objects. length objects = length (cr_objects request) \<and>
          convert_objects spec arms rt (cr_objects request) (cr_desired_api_version request) = Inr objects \<and>
          try_convert spec arms rt debug show' from_review review =
            ConversionResponse ReviewSuccess (cr_types request) (cr_uid request) objects)
       \<or> (\<exists>err message code.
          convert_objects spec arms rt (cr_objects request) (cr_desired_api_version request) = Inl err \<and>
          code = (case err of SerializeObject _ \<Rightarrow> 500 | _ \<Rightarrow> 400) \<and>
          try_convert spec arms rt debug show' from_review review =
            ConversionResponse (ReviewFailure message message code) (cr_types request) (cr_uid request) [])"
proof (cases "from_review review")
  case (Inl err)
  then show ?thesis by (simp add: try_convert_def)
next
  case (Inr request)
  show ?thesis
  proof (cases "convert_objects spec arms rt (cr_objects request) (cr_desired_api_version request)")
    case (Inl err)
    with Inr show ?thesis
      by (cases err) (simp_all add: try_convert_def Let_def http_status_code_def)
  next
    case (Inr objects)
    then have "length objects = length (cr_objects request)"
      by (auto simp: convert_objects_def traverse_list_Inr_iff dest!: map_eq_imp_length_eq)
    with Inr \<open>from_review review = Inr request\<close> show ?thesis
      by (simp add: try_convert_def)
  qed
qed

end
