(* ===== verification/Certificates.thy ===== *)
theory Certificates
  imports Duration BTree_Map
begin

section \<open>Certificate authorities and leaf certificates (crate stackable-certs)\<close>

text \<open>
  \<open>stackable-certs/src\<close>. The crates \<open>x509-cert\<close>, \<open>p256\<close> and \<open>rsa\<close> are parameters: certificates, key
  pairs and certificate builders are values of any type, names, public keys and key identifiers are
  their encodings. A random number or a generated key is an argument of the function that draws it.
  Times are nanoseconds since the epoch.
\<close>

datatype general_name = DnsName string

datatype extended_key_usage_oid = ID_KP_CLIENT_AUTH | ID_KP_SERVER_AUTH

datatype certificate_extension =
    AuthorityKeyIdentifierExt string
  | ExtendedKeyUsageExt "extended_key_usage_oid list"
  | SubjectAltNameExt "general_name list"

datatype certificate_profile =
    ProfileRoot
  | ProfileLeaf (profile_issuer: string) (profile_enable_key_agreement: bool) (profile_enable_key_encipherment: bool)

record certificate_validity =
  validity_not_before :: int
  validity_not_after :: int

text \<open>The arguments of \<open>CertificateBuilder::new\<close> apart from the signer.\<close>

record certificate_request =
  req_profile :: certificate_profile
  req_serial_number :: nat
  req_validity :: certificate_validity
  req_subject :: string
  req_public_key :: string

text \<open>What the sources call of the crates for certificates and keys.\<close>

record ('c, 'k, 'b, 'e) x509_lib =
  validity_from_now :: "int \<Rightarrow> duration \<Rightarrow> (certificate_validity, 'e) result"
  name_from_str :: "string \<Rightarrow> (string, 'e) result"
  to_public_key_pem :: "'k \<Rightarrow> (string, 'e) result"
  spki_from_pem :: "string \<Rightarrow> (string, 'e) result"
  aki_from_spki :: "string \<Rightarrow> (string, 'e) result"
  ia5_string :: "string \<Rightarrow> (string, 'e) result"
  builder_new :: "certificate_request \<Rightarrow> 'k \<Rightarrow> ('b, 'e) result"
  builder_add_extension :: "certificate_extension \<Rightarrow> 'b \<Rightarrow> ('b, 'e) result"
  builder_build :: "'b \<Rightarrow> ('c, 'e) result"
  certificate_issuer :: "'c \<Rightarrow> string"
  certificate_not_after :: "'c \<Rightarrow> int"
  load_pem_chain :: "string \<Rightarrow> ('c list, 'e) result"
  certificate_to_der :: "'c \<Rightarrow> (string, 'e) result"
  signing_key_to_pkcs8_der :: "'k \<Rightarrow> (string, 'e) result"
  keypair_from_pkcs8_pem :: "string \<Rightarrow> ('k, 'e) result"

subsection \<open>Certificate pairs\<close>

datatype key_encoding = KeyPem | KeyDer

fun key_encoding_fmt :: "key_encoding \<Rightarrow> string" where
  "key_encoding_fmt KeyPem = ''PEM''"
| "key_encoding_fmt KeyDer = ''DER''"

datatype 'e certificate_pair_error =
    SerializeCertificate 'e key_encoding
  | SerializePrivateKey 'e key_encoding

record ('c, 'k) certificate_pair =
  cp_certificate :: 'c
  cp_key_pair :: 'k

definition certificate_der ::
    "('c, 'k, 'b, 'e) x509_lib \<Rightarrow> ('c, 'k) certificate_pair \<Rightarrow> (string, 'e certificate_pair_error) result" where
  "certificate_der lib self = map_err (\<lambda>e. SerializeCertificate e KeyDer) (certificate_to_der lib (cp_certificate self))"

definition private_key_der ::
    "('c, 'k, 'b, 'e) x509_lib \<Rightarrow> ('c, 'k) certificate_pair \<Rightarrow> (string, 'e certificate_pair_error) result" where
  "private_key_der lib self = map_err (\<lambda>e. SerializePrivateKey e KeyDer) (signing_key_to_pkcs8_der lib (cp_key_pair self))"

subsection \<open>Keys\<close>

text \<open>
  \<open>rng\<close> is the key that \<open>p256\<close> or \<open>rsa\<close> make with the random number generator of the operating
  system; an ECDSA key is always made, the creation of an RSA key can fail.
\<close>

datatype 'e signing_key_error = CreateKey 'e | DeserializeKey 'e

definition ecdsa_signing_key_new :: "'k \<Rightarrow> ('k, 'e signing_key_error) result" where
  "ecdsa_signing_key_new rng = Inr rng"

definition RSA_KEY_SIZE :: nat where "RSA_KEY_SIZE = 4096"

definition rsa_signing_key_new :: "(nat \<Rightarrow> ('k, 'e) result) \<Rightarrow> ('k, 'e signing_key_error) result" where
  "rsa_signing_key_new rng = map_err CreateKey (rng RSA_KEY_SIZE)"

definition signing_key_from_pkcs8_pem :: "('c, 'k, 'b, 'e) x509_lib \<Rightarrow> string \<Rightarrow> ('k, 'e signing_key_error) result" where
  "signing_key_from_pkcs8_pem lib input = map_err DeserializeKey (keypair_from_pkcs8_pem lib input)"

subsection \<open>Certificate authorities\<close>

definition TLS_SECRET_TYPE :: string where "TLS_SECRET_TYPE = ''kubernetes.io/tls''"

definition DEFAULT_CA_VALIDITY :: duration where "DEFAULT_CA_VALIDITY = the (from_hours_unchecked 1)"

definition SDP_ROOT_CA_SUBJECT :: string where "SDP_ROOT_CA_SUBJECT = ''CN=Stackable Data Platform Internal CA''"

datatype 'e ca_error =
    GenerateRsaSigningKey "'e signing_key_error"
  | GenerateEcdsaSigningKey "'e signing_key_error"
  | ParseSubject 'e string
  | ParseValidity 'e
  | SerializePublicKey 'e
  | DecodeSpkiFromPem 'e
  | CreateCertificateBuilder 'e
  | AddCertificateExtension 'e
  | BuildCertificate 'e
  | ParseAuthorityKeyIdentifier 'e
  | ParseSubjectAlternativeDnsName string 'e

type_synonym ('c, 'k) certificate_authority = "('c, 'k) certificate_pair"

text \<open>\<open>None\<close> is the panic of \<open>expect\<close> on the constant subject.\<close>

definition ca_new_with ::
    "('c, 'k, 'b, 'e) x509_lib \<Rightarrow> int \<Rightarrow> 'k \<Rightarrow> nat \<Rightarrow> duration \<Rightarrow> (('c, 'k) certificate_authority, 'e ca_error) result option" where
  "ca_new_with lib now signing_key_pair serial_number validity =
     (case map_err ParseValidity (validity_from_now lib now validity) of
        Inl e \<Rightarrow> Some (Inl e)
      | Inr validity' \<Rightarrow>
          (case name_from_str lib SDP_ROOT_CA_SUBJECT of
             Inl _ \<Rightarrow> None
           | Inr subject \<Rightarrow>
               Some (and_then (map_err SerializePublicKey (to_public_key_pem lib signing_key_pair)) (\<lambda>spki_pem.
                 and_then (map_err DecodeSpkiFromPem (spki_from_pem lib spki_pem)) (\<lambda>spki.
                 and_then (map_err ParseAuthorityKeyIdentifier (aki_from_spki lib spki)) (\<lambda>aki.
                 and_then (map_err CreateCertificateBuilder (builder_new lib
                     \<lparr>req_profile = ProfileRoot, req_serial_number = serial_number, req_validity = validity',
                      req_subject = subject, req_public_key = spki\<rparr> signing_key_pair)) (\<lambda>builder.
                 and_then (map_err AddCertificateExtension
                     (builder_add_extension lib (AuthorityKeyIdentifierExt aki) builder)) (\<lambda>builder.
                 and_then (map_err BuildCertificate (builder_build lib builder)) (\<lambda>certificate.
                 Inr \<lparr>cp_certificate = certificate, cp_key_pair = signing_key_pair\<rparr>)))))))))"

definition ca_new ::
    "('c, 'k, 'b, 'e) x509_lib \<Rightarrow> int \<Rightarrow> nat \<Rightarrow> 'k \<Rightarrow> (('c, 'k) certificate_authority, 'e ca_error) result option" where
  "ca_new lib now serial_number signing_key_pair = ca_new_with lib now signing_key_pair serial_number DEFAULT_CA_VALIDITY"

definition ca_new_rsa ::
    "('c, 'k, 'b, 'e) x509_lib \<Rightarrow> int \<Rightarrow> (nat \<Rightarrow> ('k, 'e) result) \<Rightarrow> nat \<Rightarrow>
     (('c, 'k) certificate_authority, 'e ca_error) result option" where
  "ca_new_rsa lib now rng serial_number =
     (case map_err GenerateRsaSigningKey (rsa_signing_key_new rng) of
        Inl e \<Rightarrow> Some (Inl e)
      | Inr key \<Rightarrow> ca_new lib now serial_number key)"

definition ca_new_ecdsa ::
    "('c, 'k, 'b, 'e) x509_lib \<Rightarrow> int \<Rightarrow> 'k \<Rightarrow> nat \<Rightarrow> (('c, 'k) certificate_authority, 'e ca_error) result option" where
  "ca_new_ecdsa lib now rng serial_number =
     (case map_err GenerateEcdsaSigningKey (ecdsa_signing_key_new rng) of
        Inl e \<Rightarrow> Some (Inl e)
      | Inr key \<Rightarrow> ca_new lib now serial_number key)"

definition format_leaf_certificate_subject ::
    "('c, 'k, 'b, 'e) x509_lib \<Rightarrow> string \<Rightarrow> string \<Rightarrow> (string, 'e ca_error) result" where
  "format_leaf_certificate_subject lib name scope =
     (let subject = ''CN='' @ name @ '' Certificate for '' @ scope
      in map_err (\<lambda>e. ParseSubject e subject) (name_from_str lib subject))"

definition subject_alternative_name :: "('c, 'k, 'b, 'e) x509_lib \<Rightarrow> string \<Rightarrow> (general_name, 'e ca_error) result" where
  "subject_alternative_name lib dns_name =
     and_then (map_err (ParseSubjectAlternativeDnsName dns_name) (ia5_string lib dns_name)) (\<lambda>ia5. Inr (DnsName ia5))"

definition generate_leaf_certificate ::
    "('c, 'k, 'b, 'e) x509_lib \<Rightarrow> int \<Rightarrow> nat \<Rightarrow> ('c, 'k) certificate_authority \<Rightarrow> 'k \<Rightarrow> string \<Rightarrow> string \<Rightarrow> string list \<Rightarrow>
     duration \<Rightarrow> (('c, 'k) certificate_pair, 'e ca_error) result" where
  "generate_leaf_certificate lib now serial_number self key_pair name scope subject_alternative_dns_names validity =
     and_then (map_err ParseValidity (validity_from_now lib now validity)) (\<lambda>validity'.
     and_then (format_leaf_certificate_subject lib name scope) (\<lambda>subject.
     and_then (map_err SerializePublicKey (to_public_key_pem lib key_pair)) (\<lambda>spki_pem.
     and_then (map_err DecodeSpkiFromPem (spki_from_pem lib spki_pem)) (\<lambda>spki.
     and_then (map_err CreateCertificateBuilder (builder_new lib
         \<lparr>req_profile = ProfileLeaf (certificate_issuer lib (cp_certificate self)) False True,
          req_serial_number = serial_number, req_validity = validity', req_subject = subject,
          req_public_key = spki\<rparr> (cp_key_pair self))) (\<lambda>builder.
     and_then (map_err AddCertificateExtension
         (builder_add_extension lib (ExtendedKeyUsageExt [ID_KP_CLIENT_AUTH, ID_KP_SERVER_AUTH]) builder)) (\<lambda>builder.
     and_then (traverse_list (subject_alternative_name lib) subject_alternative_dns_names) (\<lambda>sans.
     and_then (map_err AddCertificateExtension (builder_add_extension lib (SubjectAltNameExt sans) builder)) (\<lambda>builder.
     and_then (map_err BuildCertificate (builder_build lib builder)) (\<lambda>certificate.
     Inr \<lparr>cp_certificate = certificate, cp_key_pair = key_pair\<rparr>)))))))))"

definition generate_rsa_leaf_certificate ::
    "('c, 'k, 'b, 'e) x509_lib \<Rightarrow> int \<Rightarrow> nat \<Rightarrow> (nat \<Rightarrow> ('k, 'e) result) \<Rightarrow> ('c, 'k) certificate_authority \<Rightarrow> string \<Rightarrow>
     string \<Rightarrow> string list \<Rightarrow> duration \<Rightarrow> (('c, 'k) certificate_pair, 'e ca_error) result" where
  "generate_rsa_leaf_certificate lib now serial_number rng self name scope sans validity =
     and_then (map_err GenerateRsaSigningKey (rsa_signing_key_new rng)) (\<lambda>key.
       generate_leaf_certificate lib now serial_number self key name scope sans validity)"

definition generate_ecdsa_leaf_certificate ::
    "('c, 'k, 'b, 'e) x509_lib \<Rightarrow> int \<Rightarrow> nat \<Rightarrow> 'k \<Rightarrow> ('c, 'k) certificate_authority \<Rightarrow> string \<Rightarrow>
     string \<Rightarrow> string list \<Rightarrow> duration \<Rightarrow> (('c, 'k) certificate_pair, 'e ca_error) result" where
  "generate_ecdsa_leaf_certificate lib now serial_number rng self name scope sans validity =
     and_then (map_err GenerateEcdsaSigningKey (ecdsa_signing_key_new rng)) (\<lambda>key.
       generate_leaf_certificate lib now serial_number self key name scope sans validity)"

subsection \<open>Certificate authorities from secrets\<close>

record tls_secret =
  sec_type :: "string option"
  sec_data :: "(string, string) btreemap option"

datatype ('e, 'r) secret_error =
    GetSecret 'r string string
  | InvalidSecretType
  | NoSecretData
  | NoCertificateData
  | NoPrivateKeyData
  | ReadChain 'e
  | DecodeUtf8String
  | DeserializeKeyFromPem "'e signing_key_error"

text \<open>
  \<open>utf8\<close> is \<open>std::str::from_utf8\<close>. \<open>None\<close> is the panic of \<open>remove(0)\<close> on an empty chain. The references
  to the secret that the errors carry are left out.
\<close>

definition ca_from_secret ::
    "('c, 'k, 'b, 'e) x509_lib \<Rightarrow> (string \<Rightarrow> bool) \<Rightarrow> tls_secret \<Rightarrow> string \<Rightarrow> string \<Rightarrow>
     (('c, 'k) certificate_authority, ('e, 'r) secret_error) result option" where
  "ca_from_secret lib utf8 secret key_certificate key_private_key =
     (if sec_type secret \<noteq> Some TLS_SECRET_TYPE then Some (Inl InvalidSecretType)
      else case sec_data secret of
          None \<Rightarrow> Some (Inl NoSecretData)
        | Some entries \<Rightarrow>
      (case btree_get entries key_certificate of
          None \<Rightarrow> Some (Inl NoCertificateData)
        | Some certificate_data \<Rightarrow>
      (case load_pem_chain lib certificate_data of
          Inl e \<Rightarrow> Some (Inl (ReadChain e))
        | Inr [] \<Rightarrow> None
        | Inr (certificate # _) \<Rightarrow>
      (case btree_get entries key_private_key of
          None \<Rightarrow> Some (Inl NoPrivateKeyData)
        | Some private_key_data \<Rightarrow>
            if \<not> utf8 private_key_data then Some (Inl DecodeUtf8String)
            else Some (and_then (map_err DeserializeKeyFromPem (signing_key_from_pkcs8_pem lib private_key_data))
              (\<lambda>signing_key_pair. Inr \<lparr>cp_certificate = certificate, cp_key_pair = signing_key_pair\<rparr>))))))"

text \<open>\<open>get\<close> is the request for the secret with a namespace and a name.\<close>

definition ca_from_secret_ref ::
    "('c, 'k, 'b, 'e) x509_lib \<Rightarrow> (string \<Rightarrow> bool) \<Rightarrow> (string \<Rightarrow> string \<Rightarrow> (tls_secret, 'r) result) \<Rightarrow> string \<Rightarrow> string \<Rightarrow>
     string \<Rightarrow> string \<Rightarrow> (('c, 'k) certificate_authority, ('e, 'r) secret_error) result option" where
  "ca_from_secret_ref lib utf8 get ref_ns ref_name key_certificate key_private_key =
     (case get ref_ns ref_name of
        Inl e \<Rightarrow> Some (Inl (GetSecret e ref_ns ref_name))
      | Inr secret \<Rightarrow> ca_from_secret lib utf8 secret key_certificate key_private_key)"

subsection \<open>What the certificates contain\<close>

lemma subject_alternative_name_Inr:
  "subject_alternative_name lib d = Inr g \<longleftrightarrow> (\<exists>ia5. ia5_string lib d = Inr ia5 \<and> g = DnsName ia5)"
  by (auto simp: subject_alternative_name_def and_then_eq_Inr map_err_eq_Inr)

lemma generate_leaf_certificate_Inr:
  assumes "generate_leaf_certificate lib now n ca key name scope dns v = Inr pair"
  shows "\<exists>validity' subject pem spki b b' b'' sans.
    validity_from_now lib now v = Inr validity' \<and>
    name_from_str lib (''CN='' @ name @ '' Certificate for '' @ scope) = Inr subject \<and>
    to_public_key_pem lib key = Inr pem \<and> spki_from_pem lib pem = Inr spki \<and>
    builder_new lib \<lparr>req_profile = ProfileLeaf (certificate_issuer lib (cp_certificate ca)) False True,
      req_serial_number = n, req_validity = validity', req_subject = subject, req_public_key = spki\<rparr> (cp_key_pair ca) = Inr b \<and>
    builder_add_extension lib (ExtendedKeyUsageExt [ID_KP_CLIENT_AUTH, ID_KP_SERVER_AUTH]) b = Inr b' \<and>
    map (subject_alternative_name lib) dns = map Inr sans \<and>
    builder_add_extension lib (SubjectAltNameExt sans) b' = Inr b'' \<and>
    builder_build lib b'' = Inr (cp_certificate pair) \<and> cp_key_pair pair = key"
  using assms
  by (auto simp: generate_leaf_certificate_def format_leaf_certificate_subject_def Let_def and_then_eq_Inr map_err_eq_Inr
      traverse_list_Inr_iff; blast)

text \<open>
  The lifetime of a certificate: the library takes the end of the validity into the certificate.
\<close>

fun add_extensions :: "('c, 'k, 'b, 'e) x509_lib \<Rightarrow> certificate_extension list \<Rightarrow> 'b \<Rightarrow> ('b, 'e) result" where
  "add_extensions lib [] b = Inr b"
| "add_extensions lib (x # xs) b = and_then (builder_add_extension lib x b) (add_extensions lib xs)"

definition keeps_validity :: "('c, 'k, 'b, 'e) x509_lib \<Rightarrow> bool" where
  "keeps_validity lib \<longleftrightarrow>
     (\<forall>req k exts b b' c. builder_new lib req k = Inr b \<longrightarrow> add_extensions lib exts b = Inr b' \<longrightarrow>
        builder_build lib b' = Inr c \<longrightarrow> certificate_not_after lib c = validity_not_after (req_validity req))"

lemma leaf_certificate_not_after:
  assumes lib: "keeps_validity lib" and leaf: "generate_leaf_certificate lib now n ca key name scope dns v = Inr pair"
  shows "\<exists>validity'. validity_from_now lib now v = Inr validity' \<and>
    certificate_not_after lib (cp_certificate pair) = validity_not_after validity'"
proof -
  obtain validity' subject spki b b' b'' sans where parts: "validity_from_now lib now v = Inr validity'"
      "builder_new lib \<lparr>req_profile = ProfileLeaf (certificate_issuer lib (cp_certificate ca)) False True,
        req_serial_number = n, req_validity = validity', req_subject = subject, req_public_key = spki\<rparr> (cp_key_pair ca) = Inr b"
      "builder_add_extension lib (ExtendedKeyUsageExt [ID_KP_CLIENT_AUTH, ID_KP_SERVER_AUTH]) b = Inr b'"
      "builder_add_extension lib (SubjectAltNameExt sans) b' = Inr b''"
      "builder_build lib b'' = Inr (cp_certificate pair)"
    using generate_leaf_certificate_Inr [OF leaf] by (elim exE conjE) blast
  have "add_extensions lib [ExtendedKeyUsageExt [ID_KP_CLIENT_AUTH, ID_KP_SERVER_AUTH], SubjectAltNameExt sans] b = Inr b''"
    by (simp add: parts)
  from lib [unfolded keeps_validity_def, rule_format, OF parts(2) this parts(5)] parts(1)
  show ?thesis by simp
qed

text \<open>
  A secret whose certificate entry reads as an empty chain makes the loading of a certificate
  authority panic before the private key is looked at.
\<close>

lemma empty_chain_panics:
  assumes "sec_type secret = Some TLS_SECRET_TYPE" "sec_data secret = Some entries" "btree_get entries k = Some pem"
    and "load_pem_chain lib pem = Inr []"
  shows "ca_from_secret lib utf8 secret k k' = None"
  using assms by (simp add: ca_from_secret_def)

end
