(* ===== verification/Webhooks.thy ===== *)
theory Webhooks
  imports Certificates Kube_Client
begin

section \<open>Conversion and mutating webhooks (crate stackable-webhook)\<close>

text \<open>
  \<open>stackable-webhook/src/webhooks\<close>: the routes of the webhooks, what they answer, and what they do when
  the certificate of the server is rotated. Parameters are the handlers of the user, the API server
  (a state with one request function per kind of object, as in \<open>Kube_Client\<close>) and the conversions of
  crate \<open>kube\<close> between reviews, requests and responses. The router of \<open>axum\<close> is the list of its routes
  with the panic it documents for a route that exists already.
\<close>

record webhook_server_options =
  socket_addr :: "string \<times> nat"
  webhook_namespace :: string
  webhook_service_name :: string

record service_reference =
  sr_name :: string
  sr_namespace :: string
  sr_path :: "string option"
  sr_port :: "nat option"

record webhook_client_config =
  wcc_service :: "service_reference option"
  wcc_ca_bundle :: "string option"
  wcc_url :: "string option"

definition create_webhook_client_config :: "webhook_server_options \<Rightarrow> string \<Rightarrow> string \<Rightarrow> webhook_client_config" where
  "create_webhook_client_config options ca_bundle http_path =
     \<lparr>wcc_service = Some \<lparr>sr_name = webhook_service_name options, sr_namespace = webhook_namespace options,
        sr_path = Some http_path, sr_port = Some (snd (socket_addr options))\<rparr>,
      wcc_ca_bundle = Some ca_bundle, wcc_url = None\<rparr>"

text \<open>The objects that the webhooks patch; all other fields are in \<open>crd_content\<close>, \<open>me_content\<close>, \<open>mwc_content\<close>.\<close>

record resource_conversion =
  rc_strategy :: string
  rc_conversion_review_versions :: "string list"
  rc_client_config :: "webhook_client_config option"

record crd_object =
  crd_name :: string
  crd_kind :: string
  crd_conversion :: "resource_conversion option"
  crd_content :: string

record mutating_entry =
  me_name :: string
  me_admission_review_versions :: "string list"
  me_client_config :: webhook_client_config
  me_content :: string

record mutating_configuration =
  mwc_name :: string
  mwc_webhooks :: "mutating_entry list option"
  mwc_content :: string

record 's webhook_api =
  patch_crd :: "'s \<Rightarrow> string \<Rightarrow> patch_params \<Rightarrow> crd_object \<Rightarrow> 's \<times> (unit, kube_error) result"
  patch_mwc :: "'s \<Rightarrow> string \<Rightarrow> patch_params \<Rightarrow> mutating_configuration \<Rightarrow> 's \<times> (unit, kube_error) result"

datatype webhook_error =
    PatchCrd kube_error string
  | PatchMutatingWebhookConfiguration kube_error string

subsection \<open>Routes\<close>

datatype ('rev, 'adm) endpoint =
    ConvertEndpoint "'rev \<Rightarrow> 'rev"
  | MutateEndpoint "'adm \<Rightarrow> 'adm"
  | HealthEndpoint

type_synonym ('rev, 'adm) router = "(string \<times> ('rev, 'adm) endpoint) list"

text \<open>\<open>None\<close> is the panic of \<open>Router::route\<close> when the route exists.\<close>

definition router_route :: "string \<Rightarrow> ('rev, 'adm) endpoint \<Rightarrow> ('rev, 'adm) router \<Rightarrow> ('rev, 'adm) router option" where
  "router_route path endpoint router = (if path \<in> fst ` set router then None else Some (router @ [(path, endpoint)]))"

subsection \<open>The conversion webhook\<close>

text \<open>
  \<open>cw_initial_reconcile_tx\<close> tells whether the sender of the one-shot channel is still there, and
  \<open>cw_initial_reconcile_sent\<close> whether the message has been sent through it.
\<close>

record 'rev conversion_webhook =
  cw_disable_crd_maintenance :: bool
  cw_field_manager :: string
  cw_crds_and_handlers :: "(crd_object \<times> ('rev \<Rightarrow> 'rev)) list"
  cw_initial_reconcile_tx :: bool
  cw_initial_reconcile_sent :: bool

definition conversion_webhook_new :: "(crd_object \<times> ('rev \<Rightarrow> 'rev)) list \<Rightarrow> bool \<Rightarrow> string \<Rightarrow> 'rev conversion_webhook" where
  "conversion_webhook_new crds_and_handlers disable_crd_maintenance field_manager =
     \<lparr>cw_disable_crd_maintenance = disable_crd_maintenance, cw_field_manager = field_manager,
      cw_crds_and_handlers = crds_and_handlers, cw_initial_reconcile_tx = True, cw_initial_reconcile_sent = False\<rparr>"

text \<open>The route for the conversion of a resource, \<open>format!("/convert/{crd_name}")\<close>.\<close>

definition convert_route :: "string \<Rightarrow> string" where
  "convert_route name = ''/convert/'' @ name"

definition webhook_conversion :: "webhook_server_options \<Rightarrow> string \<Rightarrow> string \<Rightarrow> resource_conversion" where
  "webhook_conversion options ca_bundle name =
     \<lparr>rc_strategy = ''Webhook'', rc_conversion_review_versions = [''v1''],
      rc_client_config = Some
        \<lparr>wcc_service = Some \<lparr>sr_name = webhook_service_name options, sr_namespace = webhook_namespace options,
           sr_path = Some (convert_route name), sr_port = Some (snd (socket_addr options))\<rparr>,
         wcc_ca_bundle = Some ca_bundle, wcc_url = None\<rparr>\<rparr>"

definition reconcile_crd ::
    "'s webhook_api \<Rightarrow> 'rev conversion_webhook \<Rightarrow> webhook_server_options \<Rightarrow> string \<Rightarrow> crd_object \<Rightarrow> 's \<Rightarrow>
     's \<times> (unit, webhook_error) result" where
  "reconcile_crd api self options ca_bundle crd s =
     (let crd' = crd\<lparr>crd_conversion := Some (webhook_conversion options ca_bundle (crd_name crd))\<rparr>;
          patch_params = \<lparr>pp_field_manager = Some (cw_field_manager self), pp_force = True\<rparr>
      in map_result (\<lambda>e. PatchCrd e (crd_name crd)) (patch_crd api s (crd_name crd) patch_params crd'))"

fun reconcile_crds ::
    "'s webhook_api \<Rightarrow> 'rev conversion_webhook \<Rightarrow> webhook_server_options \<Rightarrow> string \<Rightarrow> crd_object list \<Rightarrow> 's \<Rightarrow>
     's \<times> (unit, webhook_error) result" where
  "reconcile_crds api self options ca_bundle [] s = (s, Inr ())"
| "reconcile_crds api self options ca_bundle (crd # crds) s =
     (case reconcile_crd api self options ca_bundle crd s of
        (s', Inl e) \<Rightarrow> (s', Inl e)
      | (s', Inr _) \<Rightarrow> reconcile_crds api self options ca_bundle crds s')"

definition conversion_register_routes ::
    "'rev conversion_webhook \<Rightarrow> ('rev, 'adm) router \<Rightarrow> ('rev, 'adm) router option" where
  "conversion_register_routes self router =
     fold (\<lambda>(crd, handler) r. Option.bind r (router_route (convert_route (crd_name crd)) (ConvertEndpoint handler)))
       (cw_crds_and_handlers self) (Some router)"

definition conversion_certificate_rotation ::
    "'s webhook_api \<Rightarrow> webhook_server_options \<Rightarrow> string \<Rightarrow> 'rev conversion_webhook \<Rightarrow> 's \<Rightarrow>
     's \<times> 'rev conversion_webhook \<times> (unit, webhook_error) result" where
  "conversion_certificate_rotation api options ca_bundle self s =
     (case reconcile_crds api self options ca_bundle (map fst (cw_crds_and_handlers self)) s of
        (s', Inl e) \<Rightarrow> (s', self, Inl e)
      | (s', Inr _) \<Rightarrow>
          (s', if cw_initial_reconcile_tx self
               then self\<lparr>cw_initial_reconcile_tx := False, cw_initial_reconcile_sent := True\<rparr> else self, Inr ()))"

subsection \<open>The mutating webhook\<close>

record 'adm mutating_webhook =
  mw_disable_mwc_maintenance :: bool
  mw_field_manager :: string
  mw_configuration :: mutating_configuration
  mw_answer :: "'adm \<Rightarrow> 'adm"

text \<open>\<open>None\<close> is the panic of \<open>assert_eq!\<close>.\<close>

definition mutating_webhook_new ::
    "mutating_configuration \<Rightarrow> ('adm \<Rightarrow> 'adm) \<Rightarrow> bool \<Rightarrow> string \<Rightarrow> 'adm mutating_webhook option" where
  "mutating_webhook_new configuration answer disable_mwc_maintenance field_manager =
     (if \<exists>e\<in>set (case mwc_webhooks configuration of None \<Rightarrow> [] | Some es \<Rightarrow> es). me_admission_review_versions e \<noteq> [''v1'']
      then None
      else Some \<lparr>mw_disable_mwc_maintenance = disable_mwc_maintenance, mw_field_manager = field_manager,
        mw_configuration = configuration, mw_answer = answer\<rparr>)"

text \<open>
  The answer to a review: \<open>try_into\<close> makes the request from the review, \<open>invalid\<close> the response for a
  message and \<open>into_review\<close> the review for a response; \<open>handler\<close> is given by the user.
\<close>

definition mutating_answer ::
    "('adm \<Rightarrow> ('req, string) result) \<Rightarrow> (string \<Rightarrow> 'resp) \<Rightarrow> ('resp \<Rightarrow> 'adm) \<Rightarrow> ('st \<Rightarrow> 'req \<Rightarrow> 'resp) \<Rightarrow> 'st \<Rightarrow> 'adm \<Rightarrow> 'adm" where
  "mutating_answer try_into invalid into_review handler handler_state review =
     (case try_into review of
        Inl err \<Rightarrow> into_review (invalid (''failed to convert to request: '' @ err))
      | Inr request \<Rightarrow> into_review (handler handler_state request))"

definition mutating_http_path :: "'adm mutating_webhook \<Rightarrow> string" where
  "mutating_http_path self = ''/mutate/'' @ mwc_name (mw_configuration self)"

definition mutating_register_routes ::
    "'adm mutating_webhook \<Rightarrow> ('rev, 'adm) router \<Rightarrow> ('rev, 'adm) router option" where
  "mutating_register_routes self router = router_route (mutating_http_path self) (MutateEndpoint (mw_answer self)) router"

definition set_client_configs :: "webhook_client_config \<Rightarrow> mutating_configuration \<Rightarrow> mutating_configuration" where
  "set_client_configs client_config configuration =
     configuration\<lparr>mwc_webhooks := map_option (map (\<lambda>e. e\<lparr>me_client_config := client_config\<rparr>)) (mwc_webhooks configuration)\<rparr>"

definition mutating_certificate_rotation ::
    "'s webhook_api \<Rightarrow> webhook_server_options \<Rightarrow> string \<Rightarrow> 'adm mutating_webhook \<Rightarrow> 's \<Rightarrow>
     's \<times> 'adm mutating_webhook \<times> (unit, webhook_error) result" where
  "mutating_certificate_rotation api options ca_bundle self s =
     (let configuration = mw_configuration self;
          client_config = create_webhook_client_config options ca_bundle (mutating_http_path self);
          configuration' = set_client_configs client_config configuration;
          patch_params = \<lparr>pp_field_manager = Some (mw_field_manager self), pp_force = False\<rparr>
      in case map_result (\<lambda>e. PatchMutatingWebhookConfiguration e (mwc_name configuration))
           (patch_mwc api s (mwc_name configuration) patch_params configuration') of
           (s', r) \<Rightarrow> (s', self, r))"

subsection \<open>The trait\<close>

datatype ('rev, 'adm) webhook =
    ConversionHook "'rev conversion_webhook"
  | MutatingHook "'adm mutating_webhook"

fun register_routes :: "('rev, 'adm) webhook \<Rightarrow> ('rev, 'adm) router \<Rightarrow> ('rev, 'adm) router option" where
  "register_routes (ConversionHook w) router = conversion_register_routes w router"
| "register_routes (MutatingHook w) router = mutating_register_routes w router"

fun ignore_certificate_rotation :: "('rev, 'adm) webhook \<Rightarrow> bool" where
  "ignore_certificate_rotation (ConversionHook w) = cw_disable_crd_maintenance w"
| "ignore_certificate_rotation (MutatingHook w) = mw_disable_mwc_maintenance w"

fun handle_certificate_rotation ::
    "'s webhook_api \<Rightarrow> webhook_server_options \<Rightarrow> string \<Rightarrow> ('rev, 'adm) webhook \<Rightarrow> 's \<Rightarrow>
     's \<times> ('rev, 'adm) webhook \<times> (unit, webhook_error) result" where
  "handle_certificate_rotation api options ca_bundle (ConversionHook w) s =
     (case conversion_certificate_rotation api options ca_bundle w s of (s', w', r) \<Rightarrow> (s', ConversionHook w', r))"
| "handle_certificate_rotation api options ca_bundle (MutatingHook w) s =
     (case mutating_certificate_rotation api options ca_bundle w s of (s', w', r) \<Rightarrow> (s', MutatingHook w', r))"

text \<open>The routes of a list of webhooks and of the health check (\<open>WebhookServer::new\<close>).\<close>

definition server_routes :: "('rev, 'adm) webhook list \<Rightarrow> ('rev, 'adm) router option" where
  "server_routes webhooks =
     Option.bind (fold (\<lambda>w r. Option.bind r (register_routes w)) webhooks (Some []))
       (router_route ''/health'' HealthEndpoint)"

subsection \<open>The routes are those of the webhooks\<close>

fun webhook_endpoints :: "('rev, 'adm) webhook \<Rightarrow> (string \<times> ('rev, 'adm) endpoint) list" where
  "webhook_endpoints (ConversionHook w) =
     map (\<lambda>(crd, handler). (convert_route (crd_name crd), ConvertEndpoint handler)) (cw_crds_and_handlers w)"
| "webhook_endpoints (MutatingHook w) = [(mutating_http_path w, MutateEndpoint (mw_answer w))]"

definition add_routes :: "(string \<times> ('rev, 'adm) endpoint) list \<Rightarrow> ('rev, 'adm) router \<Rightarrow> ('rev, 'adm) router option" where
  "add_routes es router = (if distinct (map fst (router @ es)) \<or> es = [] then Some (router @ es) else None)"

lemma add_routes_Nil: "add_routes [] router = Some router"
  by (simp add: add_routes_def)

text \<open>A router has each path once.\<close>

lemma router_route_add:
  "distinct (map fst router) \<Longrightarrow> router_route path endpoint router = add_routes [(path, endpoint)] router"
  by (auto simp: router_route_def add_routes_def)

lemma add_routes_append:
  assumes "distinct (map fst router)"
  shows "Option.bind (add_routes es router) (add_routes es') = add_routes (es @ es') router"
  using assms by (auto simp: add_routes_def)

lemma add_routes_distinct:
  "distinct (map fst router) \<Longrightarrow> add_routes es router = Some router' \<Longrightarrow> distinct (map fst router')"
  by (auto simp: add_routes_def split: if_splits)

lemma fold_bind_None: "(\<And>x. f x None = None) \<Longrightarrow> fold f xs None = None"
  by (induction xs) simp_all

lemma fold_routes:
  assumes "distinct (map fst router)"
  shows "fold (\<lambda>(crd, handler) r. Option.bind r (router_route (convert_route (crd_name crd)) (ConvertEndpoint handler)))
      hs (Some router) = add_routes (map (\<lambda>(crd, handler). (convert_route (crd_name crd), ConvertEndpoint handler)) hs) router"
  using assms
proof (induction hs arbitrary: router)
  case Nil
  then show ?case by (simp add: add_routes_Nil)
next
  case (Cons h hs)
  obtain crd handler where h: "h = (crd, handler)" by (cases h)
  let ?es = "map (\<lambda>(crd, handler). (convert_route (crd_name crd), ConvertEndpoint handler))"
  show ?case
  proof (cases "add_routes (?es [h]) router")
    case None
    then have "add_routes (?es (h # hs)) router = None"
      using add_routes_append [OF Cons.prems, of "?es [h]" "?es hs"] by simp
    moreover have "router_route (convert_route (crd_name crd)) (ConvertEndpoint handler) router = None"
      using None router_route_add [OF Cons.prems] by (simp add: h)
    moreover have "fold (\<lambda>(crd, handler) r. Option.bind r (router_route (convert_route (crd_name crd)) (ConvertEndpoint handler)))
        hs None = None" by (rule fold_bind_None) auto
    ultimately show ?thesis by (simp add: h)
  next
    case (Some router')
    then have "router_route (convert_route (crd_name crd)) (ConvertEndpoint handler) router = Some router'"
      using router_route_add [OF Cons.prems] by (simp add: h)
    moreover have "add_routes (?es (h # hs)) router = add_routes (?es hs) router'"
      using Some add_routes_append [OF Cons.prems, of "?es [h]" "?es hs"] by simp
    ultimately show ?thesis
      using Cons.IH [OF add_routes_distinct [OF Cons.prems Some]] by (simp add: h)
  qed
qed

lemma register_routes_add:
  "distinct (map fst router) \<Longrightarrow> register_routes w router = add_routes (webhook_endpoints w) router"
  by (cases w) (simp_all add: conversion_register_routes_def fold_routes mutating_register_routes_def router_route_add)

lemma fold_register:
  assumes "distinct (map fst router)"
  shows "fold (\<lambda>w r. Option.bind r (register_routes w)) ws (Some router) = add_routes (concat (map webhook_endpoints ws)) router"
  using assms
proof (induction ws arbitrary: router)
  case Nil
  then show ?case by (simp add: add_routes_Nil)
next
  case (Cons w ws)
  show ?case
  proof (cases "add_routes (webhook_endpoints w) router")
    case None
    then show ?thesis
      using add_routes_append [OF Cons.prems, of "webhook_endpoints w"] Cons.prems by (simp add: register_routes_add fold_bind_None)
  next
    case (Some router')
    then show ?thesis
      using add_routes_append [OF Cons.prems, of "webhook_endpoints w"] Cons.prems
        Cons.IH [OF add_routes_distinct [OF Cons.prems Some]] by (simp add: register_routes_add)
  qed
qed

lemma convert_route_inject: "convert_route n = convert_route m \<longleftrightarrow> n = m"
  by (simp add: convert_route_def)

lemma endpoint_paths: "(p, e) \<in> set (webhook_endpoints w) \<Longrightarrow> p \<noteq> ''/health''"
  by (cases w) (auto simp: mutating_http_path_def convert_route_def)

lemma server_routes_eq:
  "server_routes ws =
     (if distinct (map fst (concat (map webhook_endpoints ws)))
      then Some (concat (map webhook_endpoints ws) @ [(''/health'', HealthEndpoint)]) else None)"
proof -
  have "''/health'' \<notin> fst ` set (concat (map webhook_endpoints ws))"
    using endpoint_paths by fastforce
  then show ?thesis
    by (cases "concat (map webhook_endpoints ws) = []")
      (auto simp: server_routes_def fold_register add_routes_def router_route_def simp del: map_concat set_concat concat_eq_Nil_conv)
qed

subsection \<open>What a rotation installs\<close>

text \<open>
  What is relied on of the API server: a patch that is accepted is stored (a forced one with the whole
  conversion of the resource definition, entries of a mutating configuration by name), and a patch
  changes no object but the one it names.
\<close>

definition webhook_api_laws ::
    "'s webhook_api \<Rightarrow> ('s \<Rightarrow> string \<Rightarrow> crd_object option) \<Rightarrow> ('s \<Rightarrow> string \<Rightarrow> mutating_configuration option) \<Rightarrow> bool" where
  "webhook_api_laws api find_crd find_mwc \<longleftrightarrow>
     (\<forall>s n p crd s' r. patch_crd api s n p crd = (s', r) \<longrightarrow>
        find_mwc s' = find_mwc s \<and> (\<forall>m. m \<noteq> n \<longrightarrow> find_crd s' m = find_crd s m) \<and>
        (is_ok r \<and> pp_force p \<longrightarrow> (\<exists>stored. find_crd s' n = Some stored \<and> crd_conversion stored = crd_conversion crd))) \<and>
     (\<forall>s n p mwc s' r. patch_mwc api s n p mwc = (s', r) \<longrightarrow>
        find_crd s' = find_crd s \<and> (\<forall>m. m \<noteq> n \<longrightarrow> find_mwc s' m = find_mwc s m) \<and>
        (is_ok r \<longrightarrow> (\<exists>stored. find_mwc s' n = Some stored \<and>
           (\<forall>e\<in>set (case mwc_webhooks mwc of None \<Rightarrow> [] | Some es \<Rightarrow> es).
              \<exists>e'\<in>set (case mwc_webhooks stored of None \<Rightarrow> [] | Some es \<Rightarrow> es).
                me_name e' = me_name e \<and> me_client_config e' = me_client_config e))))"

lemma patch_crd_stored:
  assumes "webhook_api_laws api find_crd find_mwc" "patch_crd api s n p crd = (s', r)"
  shows "find_mwc s' = find_mwc s" "m \<noteq> n \<Longrightarrow> find_crd s' m = find_crd s m"
    and "is_ok r \<Longrightarrow> pp_force p \<Longrightarrow> \<exists>stored. find_crd s' n = Some stored \<and> crd_conversion stored = crd_conversion crd"
  using conjunct1 [OF assms(1) [unfolded webhook_api_laws_def], rule_format, OF assms(2)] by blast+

lemma patch_mwc_stored:
  assumes "webhook_api_laws api find_crd find_mwc" "patch_mwc api s n p mwc = (s', r)"
  shows "find_crd s' = find_crd s" "m \<noteq> n \<Longrightarrow> find_mwc s' m = find_mwc s m"
    and "is_ok r \<Longrightarrow> \<exists>stored. find_mwc s' n = Some stored \<and>
      (\<forall>e\<in>set (case mwc_webhooks mwc of None \<Rightarrow> [] | Some es \<Rightarrow> es).
         \<exists>e'\<in>set (case mwc_webhooks stored of None \<Rightarrow> [] | Some es \<Rightarrow> es).
           me_name e' = me_name e \<and> me_client_config e' = me_client_config e)"
  using conjunct2 [OF assms(1) [unfolded webhook_api_laws_def], rule_format, OF assms(2)] by blast+

fun webhook_installed ::
    "('s \<Rightarrow> string \<Rightarrow> crd_object option) \<Rightarrow> ('s \<Rightarrow> string \<Rightarrow> mutating_configuration option) \<Rightarrow> webhook_server_options \<Rightarrow>
     string \<Rightarrow> ('rev, 'adm) webhook \<Rightarrow> 's \<Rightarrow> bool" where
  "webhook_installed find_crd find_mwc options ca_bundle (ConversionHook w) s \<longleftrightarrow>
     (\<forall>(crd, h)\<in>set (cw_crds_and_handlers w). \<exists>stored. find_crd s (crd_name crd) = Some stored \<and>
        crd_conversion stored = Some (webhook_conversion options ca_bundle (crd_name crd)))"
| "webhook_installed find_crd find_mwc options ca_bundle (MutatingHook w) s \<longleftrightarrow>
     (\<exists>stored. find_mwc s (mwc_name (mw_configuration w)) = Some stored \<and>
        (\<forall>e\<in>set (case mwc_webhooks (mw_configuration w) of None \<Rightarrow> [] | Some es \<Rightarrow> es).
           \<exists>e'\<in>set (case mwc_webhooks stored of None \<Rightarrow> [] | Some es \<Rightarrow> es). me_name e' = me_name e \<and>
             me_client_config e' = create_webhook_client_config options ca_bundle (mutating_http_path w)))"

text \<open>The static part of a webhook: all but the one-shot channel.\<close>

fun webhook_static :: "('rev, 'adm) webhook \<Rightarrow> ('rev, 'adm) webhook" where
  "webhook_static (ConversionHook w) = ConversionHook (w\<lparr>cw_initial_reconcile_tx := False, cw_initial_reconcile_sent := False\<rparr>)"
| "webhook_static (MutatingHook w) = MutatingHook w"

lemma static_installed:
  "webhook_static w = webhook_static w' \<Longrightarrow>
   webhook_installed find_crd find_mwc options b w s = webhook_installed find_crd find_mwc options b w' s"
proof -
  have s: "webhook_installed find_crd find_mwc options b (webhook_static w) s =
      webhook_installed find_crd find_mwc options b w s" for w
    by (cases w) simp_all
  show "webhook_static w = webhook_static w' \<Longrightarrow> ?thesis" by (metis s)
qed

lemma static_endpoints: "webhook_static w = webhook_static w' \<Longrightarrow> webhook_endpoints w = webhook_endpoints w'"
proof -
  have s: "webhook_endpoints (webhook_static w) = webhook_endpoints w" for w :: "('rev, 'adm) webhook"
    by (cases w) simp_all
  show "webhook_static w = webhook_static w' \<Longrightarrow> ?thesis" by (metis s)
qed

lemma static_ignores: "webhook_static w = webhook_static w' \<Longrightarrow> ignore_certificate_rotation w = ignore_certificate_rotation w'"
proof -
  have s: "ignore_certificate_rotation (webhook_static w) = ignore_certificate_rotation w" for w :: "('rev, 'adm) webhook"
    by (cases w) simp_all
  show "webhook_static w = webhook_static w' \<Longrightarrow> ?thesis" by (metis s)
qed

lemma rotation_static:
  "handle_certificate_rotation api options b w s = (s', w', r) \<Longrightarrow> webhook_static w' = webhook_static w"
  by (cases w) (auto simp: conversion_certificate_rotation_def mutating_certificate_rotation_def Let_def
      split: prod.splits sum.splits)

lemma is_ok_map_err: "is_ok (map_err f r) = is_ok r"
  by (cases r) simp_all

lemma reconcile_crds_stored:
  assumes laws: "webhook_api_laws api find_crd find_mwc" and "reconcile_crds api self options b crds s = (s', r)"
  shows "find_mwc s' = find_mwc s \<and> (\<forall>n. n \<notin> crd_name ` set crds \<longrightarrow> find_crd s' n = find_crd s n) \<and>
    (is_ok r \<longrightarrow> distinct (map crd_name crds) \<longrightarrow> (\<forall>crd\<in>set crds. \<exists>stored. find_crd s' (crd_name crd) = Some stored \<and>
       crd_conversion stored = Some (webhook_conversion options b (crd_name crd))))"
  using assms(2)
proof (induction crds arbitrary: s)
  case Nil
  then show ?case by simp
next
  case (Cons crd crds)
  obtain t q where step: "reconcile_crd api self options b crd s = (t, q)" by fastforce
  then obtain q' where patched: "patch_crd api s (crd_name crd) \<lparr>pp_field_manager = Some (cw_field_manager self), pp_force = True\<rparr>
      (crd\<lparr>crd_conversion := Some (webhook_conversion options b (crd_name crd))\<rparr>) = (t, q')" "is_ok q' = is_ok q"
    by (cases "patch_crd api s (crd_name crd) \<lparr>pp_field_manager = Some (cw_field_manager self), pp_force = True\<rparr>
        (crd\<lparr>crd_conversion := Some (webhook_conversion options b (crd_name crd))\<rparr>)")
      (auto simp: reconcile_crd_def Let_def map_result_def is_ok_map_err split: sum.splits)
  have one: "find_mwc t = find_mwc s" "\<And>n. n \<noteq> crd_name crd \<Longrightarrow> find_crd t n = find_crd s n"
      "is_ok q \<Longrightarrow> \<exists>stored. find_crd t (crd_name crd) = Some stored \<and>
        crd_conversion stored = Some (webhook_conversion options b (crd_name crd))"
    using patch_crd_stored [OF laws patched(1)] patched(2) by auto
  show ?case
  proof (cases q)
    case (Inl e)
    then show ?thesis using Cons.prems step one(1,2) by auto
  next
    case (Inr u)
    then have rest: "reconcile_crds api self options b crds t = (s', r)" using Cons.prems step by simp
    from Cons.IH [OF rest] one Inr show ?thesis by (auto simp: image_iff)
  qed
qed

text \<open>A successful rotation installs the bundle, and no rotation touches the objects of a webhook with other routes.\<close>

lemma rotation_installs:
  assumes laws: "webhook_api_laws api find_crd find_mwc"
    and rot: "handle_certificate_rotation api options b w s = (s', w', Inr u)" and "distinct (map fst (webhook_endpoints w))"
  shows "webhook_installed find_crd find_mwc options b w' s'"
proof (cases w)
  case (ConversionHook v)
  have "distinct (map crd_name (map fst (cw_crds_and_handlers v)))"
    using assms(3) by (auto simp: ConversionHook distinct_map inj_on_def case_prod_beta convert_route_inject)
  moreover obtain r where "reconcile_crds api v options b (map fst (cw_crds_and_handlers v)) s = (s', r)" "is_ok r"
    using rot by (auto simp: ConversionHook conversion_certificate_rotation_def split: prod.splits sum.splits)
  ultimately have "webhook_installed find_crd find_mwc options b w s'"
    using reconcile_crds_stored [OF laws, of v options b] by (fastforce simp: ConversionHook)
  then show ?thesis by (simp add: static_installed [OF rotation_static [OF rot]])
next
  case (MutatingHook v)
  let ?c = "create_webhook_client_config options b (mutating_http_path v)"
  obtain t r where patch: "patch_mwc api s (mwc_name (mw_configuration v)) \<lparr>pp_field_manager = Some (mw_field_manager v), pp_force = False\<rparr>
      (set_client_configs ?c (mw_configuration v)) = (t, r)" by fastforce
  then have rotated: "t = s'" "is_ok r" "w' = w"
    using rot by (auto simp: MutatingHook mutating_certificate_rotation_def Let_def map_result_def map_err_eq_Inr split: prod.splits)
  then obtain stored where stored: "find_mwc s' (mwc_name (mw_configuration v)) = Some stored"
      "\<forall>e\<in>set (case mwc_webhooks (set_client_configs ?c (mw_configuration v)) of None \<Rightarrow> [] | Some es \<Rightarrow> es).
         \<exists>e'\<in>set (case mwc_webhooks stored of None \<Rightarrow> [] | Some es \<Rightarrow> es).
           me_name e' = me_name e \<and> me_client_config e' = me_client_config e"
    using patch_mwc_stored(3) [OF laws patch [unfolded rotated(1)] rotated(2)] by blast
  then show ?thesis
    by (cases "mwc_webhooks (mw_configuration v)") (auto simp: MutatingHook rotated(3) set_client_configs_def)
qed

lemma conversion_paths:
  "fst ` set (webhook_endpoints (ConversionHook w)) = (\<lambda>p. convert_route (crd_name (fst p))) ` set (cw_crds_and_handlers w)"
  by (simp add: image_image case_prod_beta)

lemma rotation_keeps_others:
  assumes laws: "webhook_api_laws api find_crd find_mwc"
    and rot: "handle_certificate_rotation api options b w s = (s', w', r)"
    and other: "fst ` set (webhook_endpoints w) \<inter> fst ` set (webhook_endpoints v) = {}"
    and "webhook_installed find_crd find_mwc options b' v s"
  shows "webhook_installed find_crd find_mwc options b' v s'"
proof (cases w)
  case (ConversionHook x)
  obtain q where "reconcile_crds api x options b (map fst (cw_crds_and_handlers x)) s = (s', q)"
    using rot by (auto simp: ConversionHook conversion_certificate_rotation_def split: prod.splits sum.splits)
  from reconcile_crds_stored [OF laws this]
  have kept: "find_mwc s' = find_mwc s" "\<And>n. n \<notin> crd_name ` fst ` set (cw_crds_and_handlers x) \<Longrightarrow> find_crd s' n = find_crd s n"
    by simp_all
  show ?thesis
  proof (cases v)
    case ConversionHook2: (ConversionHook y)
    have "find_crd s' (crd_name (fst p)) = find_crd s (crd_name (fst p))" if p: "p \<in> set (cw_crds_and_handlers y)" for p
    proof (rule kept(2), rule notI)
      assume "crd_name (fst p) \<in> crd_name ` fst ` set (cw_crds_and_handlers x)"
      then have "convert_route (crd_name (fst p)) \<in> fst ` set (webhook_endpoints w)"
        by (auto simp only: ConversionHook conversion_paths)
      moreover have "convert_route (crd_name (fst p)) \<in> fst ` set (webhook_endpoints v)"
        using p by (auto simp only: ConversionHook2 conversion_paths)
      ultimately show False using other by blast
    qed
    then show ?thesis using assms(4) by (simp add: ConversionHook2 case_prod_beta)
  qed (use assms(4) kept(1) in simp)
next
  case (MutatingHook x)
  obtain t q where patch: "patch_mwc api s (mwc_name (mw_configuration x)) \<lparr>pp_field_manager = Some (mw_field_manager x), pp_force = False\<rparr>
      (set_client_configs (create_webhook_client_config options b (mutating_http_path x)) (mw_configuration x)) = (t, q)" by fastforce
  then have "t = s'"
    using rot by (auto simp: MutatingHook mutating_certificate_rotation_def Let_def map_result_def split: prod.splits)
  then have kept: "find_crd s' = find_crd s" "\<And>n. n \<noteq> mwc_name (mw_configuration x) \<Longrightarrow> find_mwc s' n = find_mwc s n"
    using patch_mwc_stored [OF laws patch] by auto
  show ?thesis
  proof (cases v)
    case MutatingHook2: (MutatingHook y)
    have "mwc_name (mw_configuration y) \<noteq> mwc_name (mw_configuration x)"
      using other by (auto simp: MutatingHook MutatingHook2 mutating_http_path_def)
    then show ?thesis using assms(4) kept(2) by (simp add: MutatingHook2)
  qed (use assms(4) kept(1) in simp)
qed

end
