(* ===== verification/Webhook_Server.thy ===== *)
theory Webhook_Server
  imports Webhooks
begin

section \<open>The webhook server and the rotation of its certificate (crate stackable-webhook)\<close>

text \<open>
  \<open>stackable-webhook/src/lib.rs\<close> and \<open>tls\<close>. The two futures of \<open>WebhookServer::run\<close>, the TLS server and
  the loop that hands new certificates to the webhooks, are a step relation over the state they share:
  the served certificate, the channel of capacity one between them, the webhooks and the API server. A
  step is what a future does between two points where it waits; the clock may change between any two
  steps, forwards and backwards. HTTP, TLS and the handling of accepted connections are not modelled
  beyond the number of open connections, each of which keeps the sender of the channel alive.
\<close>

definition CERTIFICATE_LIFETIME_HOURS :: nat where "CERTIFICATE_LIFETIME_HOURS = 24"

definition WEBHOOK_CA_LIFETIME :: duration where
  "WEBHOOK_CA_LIFETIME = the (from_hours_unchecked CERTIFICATE_LIFETIME_HOURS)"

definition WEBHOOK_CERTIFICATE_LIFETIME :: duration where
  "WEBHOOK_CERTIFICATE_LIFETIME = the (from_hours_unchecked CERTIFICATE_LIFETIME_HOURS)"

definition CERTIFICATE_EXPIRY_BUFFER_HOURS :: nat where
  "CERTIFICATE_EXPIRY_BUFFER_HOURS = CERTIFICATE_LIFETIME_HOURS * 60 div 6"

definition CERTIFICATE_EXPIRY_BUFFER :: duration where
  "CERTIFICATE_EXPIRY_BUFFER = the (from_minutes_unchecked CERTIFICATE_EXPIRY_BUFFER_HOURS)"

definition CERTIFICATE_ROTATION_CHECK_INTERVAL :: duration where
  "CERTIFICATE_ROTATION_CHECK_INTERVAL = the (from_minutes_unchecked 5)"

subsection \<open>The certificate resolver\<close>

datatype 'e certificate_resolver_error =
    SendCertificateToChannel
  | GenerateSigningKey "'e signing_key_error"
  | CreateCertificateAuthority "'e ca_error"
  | GenerateLeafCertificate "'e ca_error"
  | EncodeCertificateDer "'e certificate_pair_error"
  | EncodePrivateKeyDer "'e certificate_pair_error"
  | DecodeCertifiedKeyFromDer 'e
  | TokioSpawnBlocking
  | NoDefaultCryptoProvider

text \<open>The certificate in use: the certificate, the certified key made from it, and its end of validity.\<close>

record ('c, 'x) served =
  sv_certificate :: 'c
  sv_certified_key :: 'x
  sv_not_after :: int

text \<open>
  \<open>tls_provider\<close> is \<open>CryptoProvider::get_default()\<close>; \<open>from_der\<close> is \<open>CertifiedKey::from_der\<close> and \<open>to_pem\<close>
  the PEM form of a certificate. The protocol versions are accepted or not by \<open>rustls\<close>.
\<close>

record ('c, 'k, 'b, 'e, 'p, 'x) tls_lib =
  tls_x509 :: "('c, 'k, 'b, 'e) x509_lib"
  tls_provider :: "'p option"
  tls_from_der :: "string list \<Rightarrow> string \<Rightarrow> 'p \<Rightarrow> ('x, 'e) result"
  tls_to_pem :: "'c \<Rightarrow> (string, 'e) result"
  tls_protocol_versions :: "'p \<Rightarrow> (unit, 'e) result"

text \<open>The random keys and serial numbers drawn for one certificate.\<close>

record 'k certificate_draws =
  draw_ca_key :: 'k
  draw_ca_serial :: nat
  draw_leaf_key :: 'k
  draw_leaf_serial :: nat

definition served_certificate ::
    "('c, 'k, 'b, 'e, 'p, 'x) tls_lib \<Rightarrow> ('c, 'k) certificate_pair \<Rightarrow> 'p \<Rightarrow>
     (('c, 'x) served, 'e certificate_resolver_error) result" where
  "served_certificate lib certificate_pair provider =
     and_then (map_err EncodeCertificateDer (certificate_der (tls_x509 lib) certificate_pair)) (\<lambda>cert_der.
     and_then (map_err EncodePrivateKeyDer (private_key_der (tls_x509 lib) certificate_pair)) (\<lambda>key_der.
     and_then (map_err DecodeCertifiedKeyFromDer (tls_from_der lib [cert_der] key_der provider)) (\<lambda>certificate_key.
     Inr \<lparr>sv_certificate = cp_certificate certificate_pair, sv_certified_key = certificate_key,
       sv_not_after = certificate_not_after (tls_x509 lib) (cp_certificate certificate_pair)\<rparr>)))"

text \<open>
  The certificate that \<open>generate_new_certificate_inner\<close> makes at the time \<open>now\<close>, before it is sent; a
  panic of the blocking task is the error of its join handle.
\<close>

definition generate_new_certificate ::
    "('c, 'k, 'b, 'e, 'p, 'x) tls_lib \<Rightarrow> string list \<Rightarrow> int \<Rightarrow> 'k certificate_draws \<Rightarrow>
     (('c, 'x) served, 'e certificate_resolver_error) result" where
  "generate_new_certificate lib subject_alternative_dns_names now draws =
     (case tls_provider lib of
        None \<Rightarrow> Inl NoDefaultCryptoProvider
      | Some provider \<Rightarrow>
     and_then (map_err GenerateSigningKey (ecdsa_signing_key_new (draw_ca_key draws))) (\<lambda>ca_key.
     (case ca_new_with (tls_x509 lib) now ca_key (draw_ca_serial draws) WEBHOOK_CA_LIFETIME of
        None \<Rightarrow> Inl TokioSpawnBlocking
      | Some ca_result \<Rightarrow>
     and_then (map_err CreateCertificateAuthority ca_result) (\<lambda>ca.
     and_then (map_err GenerateLeafCertificate (generate_ecdsa_leaf_certificate (tls_x509 lib) now (draw_leaf_serial draws)
         (draw_leaf_key draws) ca ''Leaf'' ''webhook'' subject_alternative_dns_names WEBHOOK_CERTIFICATE_LIFETIME)) (\<lambda>pair.
     served_certificate lib pair provider)))))"

text \<open>\<open>systime_min\<close> is the earliest \<open>SystemTime\<close>, with 64-bit seconds.\<close>

definition systime_min :: int where "systime_min = - (2 ^ 63) * 10 ^ 9"

definition systime_checked_sub :: "int \<Rightarrow> duration \<Rightarrow> int option" where
  "systime_checked_sub t d = (if t - int (nanos d) < systime_min then None else Some (t - int (nanos d)))"

definition needs_rotation :: "int \<Rightarrow> int \<Rightarrow> duration \<Rightarrow> bool" where
  "needs_rotation now not_after buffer =
     (let deadline = (case systime_checked_sub not_after buffer of Some t \<Rightarrow> t | None \<Rightarrow> 0)
      in now \<ge> deadline)"

subsection \<open>The servers\<close>

datatype ('e, 'i) webhook_server_error =
    CreateCertificateResolver "'e certificate_resolver_error"
  | SetSafeTlsProtocolVersions 'e
  | NoCryptoProviderInstalled
  | BindTcpListener 'i
  | RotateCertificate "'e certificate_resolver_error"
  | EncodeCertificateAuthorityAsPem 'e
  | UpdateCertificate webhook_error

text \<open>
  The names in the certificate, and \<open>TlsServer::new\<close>: it returns the first certificate, which is
  then also the content of the channel.
\<close>

definition webhook_dns_names :: "webhook_server_options \<Rightarrow> string list" where
  "webhook_dns_names options = [webhook_service_name options @ ''.'' @ webhook_namespace options @ ''.svc'']"

definition tls_server_new ::
    "('c, 'k, 'b, 'e, 'p, 'x) tls_lib \<Rightarrow> webhook_server_options \<Rightarrow> int \<Rightarrow> 'k certificate_draws \<Rightarrow>
     (('c, 'x) served, ('e, 'i) webhook_server_error) result" where
  "tls_server_new lib options now draws =
     and_then (map_err CreateCertificateResolver (generate_new_certificate lib (webhook_dns_names options) now draws)) (\<lambda>new.
     and_then (ok_or NoCryptoProviderInstalled (tls_provider lib)) (\<lambda>provider.
     and_then (map_err SetSafeTlsProtocolVersions (tls_protocol_versions lib provider)) (\<lambda>_. Inr new)))"

datatype tls_status = Binding | Serving | ShutDown

text \<open>
  \<open>ss_rotating\<close> is a certificate that waits for a place in the channel, with the time of its making;
  \<open>ss_updating\<close> the bundle that is handed to the webhooks, with the index of the next one; \<open>ss_result\<close>
  what \<open>run\<close> returned. \<open>ss_last_check\<close> is kept for the statements only: the time of the last
  check that left the certificate in use, or of the making of that certificate.
\<close>

record ('c, 'x, 's, 'rev, 'adm, 'e, 'i) server_state =
  ss_clock :: int
  ss_tls :: tls_status
  ss_served :: "('c, 'x) served"
  ss_rotating :: "(('c, 'x) served \<times> int) option"
  ss_channel :: "'c list"
  ss_updating :: "(string \<times> nat) option"
  ss_webhooks :: "('rev, 'adm) webhook list"
  ss_api :: 's
  ss_connections :: nat
  ss_result :: "(unit, ('e, 'i) webhook_server_error) result option"
  ss_last_check :: int

text \<open>\<open>WebhookServer::new\<close> and the start of \<open>run\<close>; the outer \<^const>\<open>None\<close> is the panic of the router.\<close>

definition webhook_server_new ::
    "('c, 'k, 'b, 'e, 'p, 'x) tls_lib \<Rightarrow> ('rev, 'adm) webhook list \<Rightarrow> webhook_server_options \<Rightarrow> int \<Rightarrow> 'k certificate_draws \<Rightarrow>
     's \<Rightarrow> (('rev, 'adm) router \<times> ('c, 'x, 's, 'rev, 'adm, 'e, 'i) server_state, ('e, 'i) webhook_server_error) result option" where
  "webhook_server_new lib webhooks options now draws api_state =
     (case server_routes webhooks of
        None \<Rightarrow> None
      | Some router \<Rightarrow> Some (and_then (tls_server_new lib options now draws) (\<lambda>new.
          Inr (router,
            \<lparr>ss_clock = now, ss_tls = Binding, ss_served = new, ss_rotating = None, ss_channel = [sv_certificate new],
             ss_updating = None, ss_webhooks = webhooks, ss_api = api_state, ss_connections = 0,
             ss_result = (if webhooks = [] then Some (Inr ()) else None), ss_last_check = now\<rparr>))))"

definition running :: "('c, 'x, 's, 'rev, 'adm, 'e, 'i) server_state \<Rightarrow> bool" where
  "running st \<longleftrightarrow> ss_result st = None"

text \<open>The arms of \<open>select!\<close> are taken when no handler of an arm is being run.\<close>

definition selecting :: "('c, 'x, 's, 'rev, 'adm, 'e, 'i) server_state \<Rightarrow> bool" where
  "selecting st \<longleftrightarrow> running st \<and> ss_tls st = Serving \<and> ss_rotating st = None"

text \<open>One turn of the loop over the webhooks.\<close>

definition update_webhook ::
    "'s webhook_api \<Rightarrow> webhook_server_options \<Rightarrow> string \<Rightarrow> nat \<Rightarrow> ('c, 'x, 's, 'rev, 'adm, 'e, 'i) server_state \<Rightarrow>
     ('c, 'x, 's, 'rev, 'adm, 'e, 'i) server_state" where
  "update_webhook api options ca_bundle i st =
     (let w = ss_webhooks st ! i
      in if ignore_certificate_rotation w then st\<lparr>ss_updating := Some (ca_bundle, Suc i)\<rparr>
         else case handle_certificate_rotation api options ca_bundle w (ss_api st) of
           (s', w', Inl e) \<Rightarrow> st\<lparr>ss_api := s', ss_webhooks := (ss_webhooks st)[i := w'], ss_result := Some (Inl (UpdateCertificate e))\<rparr>
         | (s', w', Inr _) \<Rightarrow> st\<lparr>ss_api := s', ss_webhooks := (ss_webhooks st)[i := w'], ss_updating := Some (ca_bundle, Suc i)\<rparr>)"

inductive server_step ::
    "('c, 'k, 'b, 'e, 'p, 'x) tls_lib \<Rightarrow> 's webhook_api \<Rightarrow> webhook_server_options \<Rightarrow>
     ('c, 'x, 's, 'rev, 'adm, 'e, 'i) server_state \<Rightarrow> ('c, 'x, 's, 'rev, 'adm, 'e, 'i) server_state \<Rightarrow> bool"
  for lib :: "('c, 'k, 'b, 'e, 'p, 'x) tls_lib" and api :: "'s webhook_api" and options :: webhook_server_options where
  clock: "server_step lib api options st (st\<lparr>ss_clock := t\<rparr>)"
| bind: "running st \<Longrightarrow> ss_tls st = Binding \<Longrightarrow> server_step lib api options st (st\<lparr>ss_tls := Serving\<rparr>)"
| bind_fails: "running st \<Longrightarrow> ss_tls st = Binding \<Longrightarrow>
    server_step lib api options st (st\<lparr>ss_result := Some (Inl (BindTcpListener e))\<rparr>)"
| shutdown: "selecting st \<Longrightarrow> server_step lib api options st (st\<lparr>ss_tls := ShutDown\<rparr>)"
| keep: "selecting st \<Longrightarrow> \<not> needs_rotation (ss_clock st) (sv_not_after (ss_served st)) CERTIFICATE_EXPIRY_BUFFER \<Longrightarrow>
    server_step lib api options st (st\<lparr>ss_last_check := ss_clock st\<rparr>)"
| rotate: "selecting st \<Longrightarrow> needs_rotation (ss_clock st) (sv_not_after (ss_served st)) CERTIFICATE_EXPIRY_BUFFER \<Longrightarrow>
    generate_new_certificate lib (webhook_dns_names options) (ss_clock st) draws = Inr new \<Longrightarrow>
    server_step lib api options st (st\<lparr>ss_rotating := Some (new, ss_clock st)\<rparr>)"
| rotate_fails: "selecting st \<Longrightarrow> needs_rotation (ss_clock st) (sv_not_after (ss_served st)) CERTIFICATE_EXPIRY_BUFFER \<Longrightarrow>
    generate_new_certificate lib (webhook_dns_names options) (ss_clock st) draws = Inl e \<Longrightarrow>
    server_step lib api options st (st\<lparr>ss_result := Some (Inl (RotateCertificate e))\<rparr>)"
| send: "running st \<Longrightarrow> ss_rotating st = Some (new, t) \<Longrightarrow> ss_channel st = [] \<Longrightarrow>
    server_step lib api options st
      (st\<lparr>ss_channel := [sv_certificate new], ss_served := new, ss_rotating := None, ss_last_check := t\<rparr>)"
| accept: "selecting st \<Longrightarrow> server_step lib api options st (st\<lparr>ss_connections := Suc (ss_connections st)\<rparr>)"
| close: "ss_connections st = Suc n \<Longrightarrow> server_step lib api options st (st\<lparr>ss_connections := n\<rparr>)"
| receive: "running st \<Longrightarrow> ss_updating st = None \<Longrightarrow> ss_channel st = [c] \<Longrightarrow> tls_to_pem lib c = Inr ca_bundle \<Longrightarrow>
    server_step lib api options st (st\<lparr>ss_channel := [], ss_updating := Some (ca_bundle, 0)\<rparr>)"
| receive_fails: "running st \<Longrightarrow> ss_updating st = None \<Longrightarrow> ss_channel st = [c] \<Longrightarrow> tls_to_pem lib c = Inl e \<Longrightarrow>
    server_step lib api options st (st\<lparr>ss_channel := [], ss_result := Some (Inl (EncodeCertificateAuthorityAsPem e))\<rparr>)"
| update: "running st \<Longrightarrow> ss_updating st = Some (ca_bundle, i) \<Longrightarrow> i < length (ss_webhooks st) \<Longrightarrow>
    server_step lib api options st (update_webhook api options ca_bundle i st)"
| updated: "running st \<Longrightarrow> ss_updating st = Some (ca_bundle, i) \<Longrightarrow> i = length (ss_webhooks st) \<Longrightarrow>
    server_step lib api options st (st\<lparr>ss_updating := None\<rparr>)"
| finish: "running st \<Longrightarrow> ss_tls st = ShutDown \<Longrightarrow> ss_connections st = 0 \<Longrightarrow> ss_channel st = [] \<Longrightarrow> ss_updating st = None \<Longrightarrow>
    server_step lib api options st (st\<lparr>ss_result := Some (Inr ())\<rparr>)"

inductive server_reachable ::
    "('c, 'k, 'b, 'e, 'p, 'x) tls_lib \<Rightarrow> 's webhook_api \<Rightarrow> webhook_server_options \<Rightarrow>
     ('c, 'x, 's, 'rev, 'adm, 'e, 'i) server_state \<Rightarrow> ('c, 'x, 's, 'rev, 'adm, 'e, 'i) server_state \<Rightarrow> bool"
  for lib :: "('c, 'k, 'b, 'e, 'p, 'x) tls_lib" and api :: "'s webhook_api" and options :: webhook_server_options
    and start :: "('c, 'x, 's, 'rev, 'adm, 'e, 'i) server_state" where
  start: "server_reachable lib api options start start"
| step: "server_reachable lib api options start st \<Longrightarrow> server_step lib api options st st' \<Longrightarrow>
    server_reachable lib api options start st'"

subsection \<open>The served certificate has not expired\<close>

text \<open>
  What is relied on of the crates for certificates: a validity from now on ends after the epoch and
  less than a second, the resolution of its times, before the given time has passed, and the
  certificate has the validity it was requested with.
\<close>

definition x509_laws :: "('c, 'k, 'b, 'e) x509_lib \<Rightarrow> bool" where
  "x509_laws lib \<longleftrightarrow> keeps_validity lib \<and>
     (\<forall>now d v. validity_from_now lib now d = Inr v \<longrightarrow>
        0 \<le> validity_not_after v \<and> now + int (nanos d) - 10 ^ 9 < validity_not_after v)"

text \<open>
  A run in which, while the server is up, at most \<open>gap\<close> passes between the checks that leave a good
  certificate.
\<close>

definition timely :: "int \<Rightarrow> ('c, 'x, 's, 'rev, 'adm, 'e, 'i) server_state \<Rightarrow> bool" where
  "timely gap st \<longleftrightarrow> (running st \<and> ss_tls st \<noteq> ShutDown \<longrightarrow> ss_clock st \<le> ss_last_check st + gap)"

inductive timely_run ::
    "('c, 'k, 'b, 'e, 'p, 'x) tls_lib \<Rightarrow> 's webhook_api \<Rightarrow> webhook_server_options \<Rightarrow> int \<Rightarrow>
     ('c, 'x, 's, 'rev, 'adm, 'e, 'i) server_state \<Rightarrow> ('c, 'x, 's, 'rev, 'adm, 'e, 'i) server_state \<Rightarrow> bool"
  for lib :: "('c, 'k, 'b, 'e, 'p, 'x) tls_lib" and api :: "'s webhook_api" and options :: webhook_server_options
    and gap :: int and start :: "('c, 'x, 's, 'rev, 'adm, 'e, 'i) server_state" where
  timely_start: "timely gap start \<Longrightarrow> timely_run lib api options gap start start"
| timely_step: "timely_run lib api options gap start st \<Longrightarrow> server_step lib api options st st' \<Longrightarrow> timely gap st' \<Longrightarrow>
    timely_run lib api options gap start st'"

lemma timely_run_timely: "timely_run lib api options gap start st \<Longrightarrow> timely gap st"
  by (induction rule: timely_run.induct)

lemma constants_eval:
  "nanos WEBHOOK_CERTIFICATE_LIFETIME = 24 * 3600 * 10 ^ 9" "nanos CERTIFICATE_EXPIRY_BUFFER = 4 * 3600 * 10 ^ 9"
  unfolding WEBHOOK_CERTIFICATE_LIFETIME_def CERTIFICATE_EXPIRY_BUFFER_def CERTIFICATE_EXPIRY_BUFFER_HOURS_def
    CERTIFICATE_LIFETIME_HOURS_def
  by (simp_all add: from_hours_unchecked_def from_minutes_unchecked_def from_unit_unchecked_def from_millis_def)

lemma needs_rotation_False:
  assumes "\<not> needs_rotation now not_after buffer" "0 \<le> not_after" "int (nanos buffer) \<le> 2 ^ 63"
  shows "now + int (nanos buffer) < not_after"
  using assms by (auto simp: needs_rotation_def systime_checked_sub_def systime_min_def split: if_splits)

definition good_until :: "('c, 'k, 'b, 'e, 'p, 'x) tls_lib \<Rightarrow> ('c, 'x) served \<Rightarrow> int \<Rightarrow> bool" where
  "good_until lib new t \<longleftrightarrow> sv_not_after new = certificate_not_after (tls_x509 lib) (sv_certificate new) \<and>
     0 \<le> sv_not_after new \<and> t + int (nanos CERTIFICATE_EXPIRY_BUFFER) < sv_not_after new"

lemma generated_good:
  assumes laws: "x509_laws (tls_x509 lib)" and new: "generate_new_certificate lib dns now draws = Inr new"
  shows "good_until lib new now"
proof -
  obtain ca pair provider where "generate_ecdsa_leaf_certificate (tls_x509 lib) now (draw_leaf_serial draws)
      (draw_leaf_key draws) ca ''Leaf'' ''webhook'' dns WEBHOOK_CERTIFICATE_LIFETIME = Inr pair"
      and served: "served_certificate lib pair provider = Inr new"
    using new by (auto simp: generate_new_certificate_def and_then_eq_Inr map_err_eq_Inr split: option.splits)
  then have "generate_leaf_certificate (tls_x509 lib) now (draw_leaf_serial draws) ca (draw_leaf_key draws) ''Leaf'' ''webhook'' dns
      WEBHOOK_CERTIFICATE_LIFETIME = Inr pair"
    by (simp add: generate_ecdsa_leaf_certificate_def ecdsa_signing_key_new_def)
  from leaf_certificate_not_after [OF _ this] laws obtain v where
      v: "validity_from_now (tls_x509 lib) now WEBHOOK_CERTIFICATE_LIFETIME = Inr v"
      "certificate_not_after (tls_x509 lib) (cp_certificate pair) = validity_not_after v"
    unfolding x509_laws_def by blast
  have "0 \<le> validity_not_after v" "now + int (nanos WEBHOOK_CERTIFICATE_LIFETIME) - 10 ^ 9 < validity_not_after v"
    using laws v(1) unfolding x509_laws_def by blast+
  then show ?thesis
    using served v(2) by (auto simp: served_certificate_def good_until_def constants_eval and_then_eq_Inr map_err_eq_Inr)
qed

definition certificate_inv :: "('c, 'k, 'b, 'e, 'p, 'x) tls_lib \<Rightarrow> ('c, 'x, 's, 'rev, 'adm, 'e, 'i) server_state \<Rightarrow> bool" where
  "certificate_inv lib st \<longleftrightarrow> good_until lib (ss_served st) (ss_last_check st) \<and>
     (\<forall>new t. ss_rotating st = Some (new, t) \<longrightarrow> good_until lib new t)"

lemma certificate_inv_step:
  assumes laws: "x509_laws (tls_x509 lib)" and "server_step lib api options st st'" "certificate_inv lib st"
  shows "certificate_inv lib st'"
  using assms(2,3)
proof (cases rule: server_step.cases)
  case keep
  have "int (nanos CERTIFICATE_EXPIRY_BUFFER) \<le> 2 ^ 63" by (simp add: constants_eval)
  with keep assms(3) show ?thesis
    using needs_rotation_False [OF keep(3)] by (auto simp: certificate_inv_def good_until_def)
next
  case (rotate draws new)
  then show ?thesis using assms(3) generated_good [OF laws] by (auto simp: certificate_inv_def)
next
  case (update ca_bundle i)
  then show ?thesis using assms(3)
    by (auto simp: certificate_inv_def update_webhook_def Let_def split: prod.splits sum.splits)
qed (auto simp: certificate_inv_def)

lemma server_new_inv:
  assumes "x509_laws (tls_x509 lib)" "webhook_server_new lib ws options now draws a = Some (Inr (router, start))"
  shows "certificate_inv lib start"
  using assms(2) generated_good [OF assms(1)]
  by (auto simp: webhook_server_new_def certificate_inv_def tls_server_new_def and_then_eq_Inr map_err_eq_Inr split: option.splits)

text \<open>
  C7: The webhook server never serves an expired certificate. As long as no more than the expiry
  buffer of four hours passes between the checks of the certificate that leave a good one (the
  checks are due every five minutes; the clock may jump in either direction, and a new certificate may
  have to wait for the webhooks to take the previous one), at every moment of a run of the server up
  to its shutdown the certificate it serves has not expired.
\<close>

theorem served_certificate_unexpired:
  assumes "x509_laws (tls_x509 lib)"
    and "webhook_server_new lib webhooks options now draws api_state = Some (Inr (router, start))"
    and "gap \<le> int (nanos CERTIFICATE_EXPIRY_BUFFER)"
    and "timely_run lib api options gap start st" "running st" "ss_tls st \<noteq> ShutDown"
  shows "ss_clock st < certificate_not_after (tls_x509 lib) (sv_certificate (ss_served st))"
proof -
  have "certificate_inv lib st"
    using assms(4) by (induction rule: timely_run.induct)
      (use server_new_inv [OF assms(1,2)] certificate_inv_step [OF assms(1)] in blast)+
  moreover have "ss_clock st \<le> ss_last_check st + gap"
    using timely_run_timely [OF assms(4)] assms(5,6) by (simp add: timely_def)
  ultimately show ?thesis using assms(3) by (simp add: certificate_inv_def good_until_def)
qed

subsection \<open>The webhooks are registered with the served certificate\<close>

definition installed_upto ::
    "('s \<Rightarrow> string \<Rightarrow> crd_object option) \<Rightarrow> ('s \<Rightarrow> string \<Rightarrow> mutating_configuration option) \<Rightarrow> webhook_server_options \<Rightarrow>
     string \<Rightarrow> nat \<Rightarrow> ('rev, 'adm) webhook list \<Rightarrow> 's \<Rightarrow> bool" where
  "installed_upto find_crd find_mwc options ca_bundle n ws s \<longleftrightarrow>
     (\<forall>j<n. \<not> ignore_certificate_rotation (ws ! j) \<longrightarrow> webhook_installed find_crd find_mwc options ca_bundle (ws ! j) s)"

definition bundles_inv ::
    "('c, 'k, 'b, 'e, 'p, 'x) tls_lib \<Rightarrow> ('s \<Rightarrow> string \<Rightarrow> crd_object option) \<Rightarrow> ('s \<Rightarrow> string \<Rightarrow> mutating_configuration option) \<Rightarrow>
     webhook_server_options \<Rightarrow> ('c, 'x, 's, 'rev, 'adm, 'e, 'i) server_state \<Rightarrow> bool" where
  "bundles_inv lib find_crd find_mwc options st \<longleftrightarrow> (running st \<longrightarrow>
     distinct (map fst (concat (map webhook_endpoints (ss_webhooks st)))) \<and>
     (ss_channel st = [] \<or> ss_channel st = [sv_certificate (ss_served st)]) \<and>
     (ss_channel st = [] \<longrightarrow> (\<exists>b. tls_to_pem lib (sv_certificate (ss_served st)) = Inr b \<and>
        (case ss_updating st of
           None \<Rightarrow> installed_upto find_crd find_mwc options b (length (ss_webhooks st)) (ss_webhooks st) (ss_api st)
         | Some (b', i) \<Rightarrow> b' = b \<and> installed_upto find_crd find_mwc options b i (ss_webhooks st) (ss_api st)))))"

lemma endpoints_disjoint:
  assumes "distinct (map fst (concat (map webhook_endpoints ws)))" "j < i" "i < length ws"
  shows "fst ` set (webhook_endpoints (ws ! i)) \<inter> fst ` set (webhook_endpoints (ws ! j)) = {}"
  using assms
proof (induction ws arbitrary: i j)
  case (Cons w ws)
  then obtain i' where i: "i = Suc i'" by (cases i) auto
  show ?case
  proof (cases j)
    case 0
    have "ws ! i' \<in> set ws" using Cons.prems by (simp add: i)
    then have "fst ` set (webhook_endpoints (ws ! i')) \<subseteq> fst ` set (concat (map webhook_endpoints ws))" by auto
    moreover have "fst ` set (webhook_endpoints w) \<inter> fst ` set (concat (map webhook_endpoints ws)) = {}"
      using Cons.prems(1) by (simp del: set_concat)
    ultimately show ?thesis by (simp only: 0 i nth_Cons_0 nth_Cons_Suc) blast
  next
    case (Suc j')
    then show ?thesis using Cons.prems Cons.IH [of j' i'] by (simp add: i)
  qed
qed simp

lemma endpoints_distinct:
  "distinct (map fst (concat (map webhook_endpoints ws))) \<Longrightarrow> w \<in> set ws \<Longrightarrow> distinct (map fst (webhook_endpoints w))"
  by (induction ws) auto

lemma installed_upto_rotated:
  assumes laws: "webhook_api_laws api find_crd find_mwc"
    and dist: "distinct (map fst (concat (map webhook_endpoints ws)))" and i: "i < length ws"
    and before: "installed_upto find_crd find_mwc options b i ws s"
    and rot: "handle_certificate_rotation api options b (ws ! i) s = (s', w', Inr u)"
  shows "installed_upto find_crd find_mwc options b (Suc i) (ws[i := w']) s'"
proof -
  have "webhook_installed find_crd find_mwc options b w' s'"
    using rotation_installs [OF laws rot endpoints_distinct [OF dist nth_mem [OF i]]] .
  moreover have "webhook_installed find_crd find_mwc options b (ws ! j) s'"
    if "j < i" "\<not> ignore_certificate_rotation (ws ! j)" for j
    using rotation_keeps_others [OF laws rot endpoints_disjoint [OF dist that(1) i]] before that
    by (simp add: installed_upto_def)
  ultimately show ?thesis using i by (auto simp: installed_upto_def less_Suc_eq)
qed

lemma installed_upto_ignored:
  "installed_upto find_crd find_mwc options b i ws s \<Longrightarrow> ignore_certificate_rotation (ws ! i) \<Longrightarrow>
   installed_upto find_crd find_mwc options b (Suc i) ws s"
  by (auto simp: installed_upto_def less_Suc_eq)

lemma rotated_endpoints:
  assumes "handle_certificate_rotation api options b (ws ! i) s = (s', w', r)" "i < length ws"
  shows "map webhook_endpoints (ws[i := w']) = map webhook_endpoints ws"
  using static_endpoints [OF rotation_static [OF assms(1)]] assms(2) by (simp add: map_update list_update_same_conv)

lemma update_webhook_inv:
  assumes laws: "webhook_api_laws api find_crd find_mwc" and inv: "bundles_inv lib find_crd find_mwc options st"
    and upd: "running st" "ss_updating st = Some (b, i)" "i < length (ss_webhooks st)"
  shows "bundles_inv lib find_crd find_mwc options (update_webhook api options b i st)"
proof (cases "ignore_certificate_rotation (ss_webhooks st ! i)")
  case True
  then show ?thesis
    using inv upd by (auto simp: bundles_inv_def update_webhook_def running_def intro: installed_upto_ignored)
next
  case False
  obtain s' w' r where rot: "handle_certificate_rotation api options b (ss_webhooks st ! i) (ss_api st) = (s', w', r)"
    by (metis prod_cases3)
  show ?thesis
  proof (cases r)
    case (Inl e)
    then show ?thesis by (simp add: bundles_inv_def update_webhook_def False rot running_def)
  next
    case (Inr u)
    have dist: "distinct (map fst (concat (map webhook_endpoints (ss_webhooks st))))"
      using inv upd(1) by (simp add: bundles_inv_def)
    show ?thesis
      using inv upd installed_upto_rotated [OF laws dist upd(3) _ rot [unfolded Inr]] dist
      by (auto simp: bundles_inv_def update_webhook_def False rot Inr running_def rotated_endpoints [OF rot upd(3)] simp del: map_update)
  qed
qed

lemma bundles_inv_step:
  assumes laws: "webhook_api_laws api find_crd find_mwc" and "server_step lib api options st st'"
    and "bundles_inv lib find_crd find_mwc options st"
  shows "bundles_inv lib find_crd find_mwc options st'"
  using assms(2,3)
proof (cases rule: server_step.cases)
  case (receive c ca_bundle)
  then show ?thesis using assms(3) by (auto simp: bundles_inv_def running_def installed_upto_def)
next
  case (update ca_bundle i)
  then show ?thesis using update_webhook_inv [OF laws assms(3)] by blast
next
  case (updated ca_bundle i)
  then show ?thesis using assms(3) by (auto simp: bundles_inv_def running_def)
qed (use assms(3) in \<open>auto simp: bundles_inv_def running_def selecting_def split: option.splits\<close>)


subsection \<open>Concrete runs\<close>

text \<open>
  A library whose certificates are the ends of their validity, with two texts for their PEM forms, and
  an API server that stores the resource definitions it is sent.
\<close>

definition demo_x509 :: "(int, unit, int, unit) x509_lib" where
  "demo_x509 =
     \<lparr>validity_from_now = \<lambda>now d. Inr \<lparr>validity_not_before = now, validity_not_after = max 0 (now + int (nanos d))\<rparr>,
      name_from_str = Inr, to_public_key_pem = \<lambda>_. Inr ''key'', spki_from_pem = Inr, aki_from_spki = Inr, ia5_string = Inr,
      builder_new = \<lambda>req _. Inr (validity_not_after (req_validity req)), builder_add_extension = \<lambda>_. Inr, builder_build = Inr,
      certificate_issuer = \<lambda>_. ''ca'', certificate_not_after = id, load_pem_chain = \<lambda>_. Inr [],
      certificate_to_der = \<lambda>_. Inr ''der'', signing_key_to_pkcs8_der = \<lambda>_. Inr ''der'', keypair_from_pkcs8_pem = \<lambda>_. Inr ()\<rparr>"

definition demo_tls :: "(int, unit, int, unit, unit, string) tls_lib" where
  "demo_tls = \<lparr>tls_x509 = demo_x509, tls_provider = Some (), tls_from_der = \<lambda>_ key _. Inr key,
     tls_to_pem = \<lambda>c. Inr (if c \<le> 24 * 3600 * 10 ^ 9 then ''first'' else ''second''), tls_protocol_versions = \<lambda>_. Inr ()\<rparr>"

definition demo_webhook_api :: "(string \<Rightarrow> crd_object option) webhook_api" where
  "demo_webhook_api = \<lparr>patch_crd = \<lambda>s n _ crd. (s(n \<mapsto> crd), Inr ()), patch_mwc = \<lambda>s _ _ _. (s, Inl OtherKubeError)\<rparr>"

definition demo_crd :: crd_object where
  "demo_crd = \<lparr>crd_name = ''zookeepers.stackable.tech'', crd_kind = ''ZookeeperCluster'', crd_conversion = None, crd_content = []\<rparr>"

definition demo_options :: webhook_server_options where
  "demo_options = \<lparr>socket_addr = (''0.0.0.0'', 8443), webhook_namespace = ''default'', webhook_service_name = ''operator''\<rparr>"

definition demo_hook :: "(unit, unit) webhook" where
  "demo_hook = ConversionHook (conversion_webhook_new [(demo_crd, id)] False ''operator'')"

definition demo_draws :: "unit certificate_draws" where
  "demo_draws = \<lparr>draw_ca_key = (), draw_ca_serial = 1, draw_leaf_key = (), draw_leaf_serial = 2\<rparr>"

definition demo_served :: "int \<Rightarrow> (int, string) served" where
  "demo_served t = \<lparr>sv_certificate = t, sv_certified_key = ''der'', sv_not_after = t\<rparr>"

definition demo_start :: "(int, string, string \<Rightarrow> crd_object option, unit, unit, unit, unit) server_state" where
  "demo_start =
     \<lparr>ss_clock = 0, ss_tls = Binding, ss_served = demo_served (24 * 3600 * 10 ^ 9), ss_rotating = None,
      ss_channel = [24 * 3600 * 10 ^ 9], ss_updating = None, ss_webhooks = [demo_hook], ss_api = Map.empty, ss_connections = 0,
      ss_result = None, ss_last_check = 0\<rparr>"

lemma demo_laws: "x509_laws (tls_x509 demo_tls)"
proof -
  have "add_extensions demo_x509 exts b = Inr b' \<Longrightarrow> b' = b" for exts b b'
    by (induction exts arbitrary: b) (auto simp: demo_x509_def)
  then have "keeps_validity demo_x509"
    unfolding keeps_validity_def by (fastforce simp: demo_x509_def)
  then show ?thesis by (auto simp: x509_laws_def demo_tls_def demo_x509_def)
qed

lemma demo_api_laws: "webhook_api_laws demo_webhook_api (\<lambda>s. s) (\<lambda>_ _. None)"
  by (auto simp: webhook_api_laws_def demo_webhook_api_def)

lemma demo_x509_sel:
  "validity_from_now demo_x509 now d = Inr \<lparr>validity_not_before = now, validity_not_after = max 0 (now + int (nanos d))\<rparr>"
  "name_from_str demo_x509 = Inr" "to_public_key_pem demo_x509 k = Inr ''key''" "spki_from_pem demo_x509 = Inr"
  "aki_from_spki demo_x509 = Inr" "builder_new demo_x509 req k = Inr (validity_not_after (req_validity req))"
  "builder_add_extension demo_x509 x = Inr" "builder_build demo_x509 = Inr" "certificate_issuer demo_x509 c = ''ca''"
  "certificate_not_after demo_x509 = id" "certificate_to_der demo_x509 c = Inr ''der''"
  "signing_key_to_pkcs8_der demo_x509 k = Inr ''der''"
  by (simp_all add: demo_x509_def)

lemma demo_sans: "traverse_list (subject_alternative_name demo_x509) dns = Inr (map DnsName dns)"
  by (simp add: traverse_list_Inr_iff subject_alternative_name_def demo_x509_def)

lemma demo_generated:
  "0 \<le> now \<Longrightarrow> generate_new_certificate demo_tls dns now demo_draws = Inr (demo_served (now + 24 * 3600 * 10 ^ 9))"
  by (simp add: generate_new_certificate_def demo_tls_def demo_x509_sel demo_sans demo_draws_def ecdsa_signing_key_new_def
      ca_new_with_def generate_ecdsa_leaf_certificate_def generate_leaf_certificate_def format_leaf_certificate_subject_def
      served_certificate_def certificate_der_def private_key_der_def demo_served_def constants_eval)

lemma demo_new:
  "\<exists>router. webhook_server_new demo_tls [demo_hook] demo_options 0 demo_draws Map.empty = Some (Inr (router, demo_start))"
proof -
  have "server_routes [demo_hook] \<noteq> None" by (simp add: server_routes_eq demo_hook_def conversion_webhook_new_def convert_route_def)
  then show ?thesis
    using demo_generated [of 0] by (auto simp: webhook_server_new_def tls_server_new_def demo_start_def demo_served_def)
      (simp_all add: demo_tls_def ok_or_def)
qed

theorem served_certificate_unexpired_witness:
  "\<exists>st. timely_run demo_tls demo_webhook_api demo_options (4 * 3600 * 10 ^ 9) demo_start st \<and> running st \<and>
     ss_clock st = 5 * 3600 * 10 ^ 9 \<and> ss_clock st < certificate_not_after (tls_x509 demo_tls) (sv_certificate (ss_served st))"
proof -
  let ?run = "timely_run demo_tls demo_webhook_api demo_options (4 * 3600 * 10 ^ 9) demo_start"
  let ?s1 = "demo_start\<lparr>ss_tls := Serving\<rparr>"
  let ?s2 = "?s1\<lparr>ss_clock := 4 * 3600 * 10 ^ 9\<rparr>"
  let ?s3 = "?s2\<lparr>ss_last_check := 4 * 3600 * 10 ^ 9\<rparr>"
  let ?s4 = "?s3\<lparr>ss_clock := 5 * 3600 * 10 ^ 9\<rparr>"
  have on: "running ?s1" "running ?s4" "selecting ?s2" by (simp_all add: running_def selecting_def demo_start_def)
  have "?run demo_start" by (rule timely_start) (simp add: timely_def demo_start_def)
  then have "?run ?s1"
    by (rule timely_step [OF _ bind]) (simp_all add: running_def timely_def demo_start_def)
  then have "?run ?s2"
    by (rule timely_step [OF _ server_step.clock]) (simp add: timely_def demo_start_def)
  then have "?run (?s2\<lparr>ss_last_check := ss_clock ?s2\<rparr>)"
    by (rule timely_step [OF _ keep [OF on(3)]])
      (simp_all add: timely_def demo_start_def demo_served_def needs_rotation_def systime_checked_sub_def systime_min_def constants_eval)
  then have "?run ?s3" by simp
  then have run: "?run ?s4"
    by (rule timely_step [OF _ server_step.clock]) (simp add: timely_def)
  obtain router where "webhook_server_new demo_tls [demo_hook] demo_options 0 demo_draws Map.empty = Some (Inr (router, demo_start))"
    using demo_new by blast
  from served_certificate_unexpired [OF demo_laws this _ run on(2)] run on(2) show ?thesis
    by (intro exI [where x = ?s4]) (simp add: constants_eval)
qed


end
