(* ===== verification/Derive_Macros.thy ===== *)
theory Derive_Macros
  imports Config_Merge
begin

section \<open>The derive macros for configuration (crate stackable-operator-derive)\<close>

text \<open>
  \<open>stackable-operator-derive/src\<close>: \<open>derive(Merge)\<close> and \<open>derive(Fragment)\<close> as functions from the parsed
  item to the generated code, and what this code does when it runs. Identifiers are their text, with
  \<open>r#\<close> for raw ones; types, paths, bounds and attributes are carried along as text or tokens. The parsing of
  the item by \<open>darling\<close> is not modelled.
\<close>

subsection \<open>Tokens and attributes\<close>

text \<open>A group in brackets is one token tree.\<close>

datatype token_tree = Punct char | GroupToken string | OtherToken string

fun split_take :: "token_tree list \<Rightarrow> token_tree list \<times> token_tree list" where
  "split_take [] = ([], [])"
| "split_take (t # ts) =
     (if t = Punct (CHR '','') then ([], ts) else (case split_take ts of (front, rest) \<Rightarrow> (t # front, rest)))"

lemma split_take_length: "length (snd (split_take ts)) \<le> length ts"
  by (induction ts) (auto split: prod.splits)

function split_by_comma :: "token_tree list \<Rightarrow> token_tree list list" where
  "split_by_comma [] = []"
| "split_by_comma (t # ts) = (case split_take (t # ts) of (front, rest) \<Rightarrow> front # split_by_comma rest)"
  by pat_completeness auto

lemma split_take_decreases: "(front, rest) = split_take (t # ts) \<Longrightarrow> length rest < length (t # ts)"
  using split_take_length [of ts] by (auto split: prod.splits if_splits)

termination split_by_comma
  by (relation "measure length") (simp_all only: in_measure wf_measure split_take_decreases)

text \<open>An attribute: its path, the tokens of a list form, and all tokens of its meta item.\<close>

record macro_attribute =
  at_path :: string
  at_list :: "token_tree list option"
  at_meta :: "token_tree list"

datatype extract_attrs_error = InvalidAttrForm

definition extract_attribute :: "macro_attribute \<Rightarrow> (token_tree list, extract_attrs_error) result list" where
  "extract_attribute attr =
     (if at_path attr = ''fragment_attrs'' then
        (case at_list attr of
           Some tokens \<Rightarrow> map Inr (split_by_comma tokens)
         | None \<Rightarrow> [Inl InvalidAttrForm])
      else if at_path attr = ''doc'' then [Inr (at_meta attr)]
      else [])"

text \<open>The groups of tokens that become \<open>#[...]\<close> attributes of the generated item.\<close>

definition extract_forwarded_attrs :: "macro_attribute list \<Rightarrow> (token_tree list list, extract_attrs_error) result" where
  "extract_forwarded_attrs attrs = traverse_list id (concat (map extract_attribute attrs))"

subsection \<open>derive(Fragment)\<close>

record fragment_field =
  ff_vis :: string
  ff_ident :: "string option"
  ff_ty :: string
  ff_attrs :: "macro_attribute list"

datatype 'f derive_data = EnumData | StructData "'f list"

record fragment_input =
  fi_ident :: string
  fi_generics :: string
  fi_where :: "string list"
  fi_data :: "fragment_field derive_data"
  fi_attrs :: "macro_attribute list"
  fi_fragment_path :: "string option"
  fi_result_path :: "string option"
  fi_bound :: "string list option"

definition default_fragment :: string where "default_fragment = ''::stackable_operator::config::fragment''"
definition default_result :: string where "default_result = ''::core::result''"

text \<open>A field of the fragment struct, or the compile error in its place.\<close>

datatype fragment_field_tokens =
    FragmentFieldError
  | FragmentField (fsf_attrs: "token_tree list list") (fsf_vis: string) (fsf_ident: "string option")
      (fsf_ty: string) (fsf_mod: string)

text \<open>The initialiser of a field in \<open>from_fragment\<close>: the field and the text given to \<open>Validator::field\<close>.\<close>

record fragment_init =
  fin_ident :: "string option"
  fin_name :: "string option"
  fin_ty :: string

record fragment_code =
  fc_attrs :: "token_tree list list"
  fc_ident :: string
  fc_generics :: string
  fc_where :: "string list"
  fc_fields :: "fragment_field_tokens list"
  fc_impl_for :: string
  fc_fragment_mod :: string
  fc_result_mod :: string
  fc_inits :: "fragment_init list"

datatype fragment_tokens = EnumsUnsupported | InvalidFragmentAttrs | FragmentCode fragment_code

definition fragment_struct_field :: "string \<Rightarrow> fragment_field \<Rightarrow> fragment_field_tokens" where
  "fragment_struct_field fragment_mod field =
     (case extract_forwarded_attrs (ff_attrs field) of
        Inl _ \<Rightarrow> FragmentFieldError
      | Inr attrs \<Rightarrow> FragmentField attrs (ff_vis field) (ff_ident field) (ff_ty field) fragment_mod)"

definition fragment_init_field :: "fragment_field \<Rightarrow> fragment_init" where
  "fragment_init_field field = \<lparr>fin_ident = ff_ident field, fin_name = ff_ident field, fin_ty = ff_ty field\<rparr>"

definition strip_raw :: "string \<Rightarrow> string" where
  "strip_raw ident = (if take 2 ident = ''r#'' then drop 2 ident else ident)"

definition derive_fragment :: "fragment_input \<Rightarrow> fragment_tokens" where
  "derive_fragment input =
     (case fi_data input of
        EnumData \<Rightarrow> EnumsUnsupported
      | StructData fs \<Rightarrow>
          (let fragment_mod = (case fi_fragment_path input of Some p \<Rightarrow> p | None \<Rightarrow> default_fragment);
               result_mod = (case fi_result_path input of Some p \<Rightarrow> p | None \<Rightarrow> default_result)
           in case extract_forwarded_attrs (fi_attrs input) of
                Inl _ \<Rightarrow> InvalidFragmentAttrs
              | Inr attrs \<Rightarrow> FragmentCode
                  \<lparr>fc_attrs = attrs, fc_ident = strip_raw (fi_ident input) @ ''Fragment'', fc_generics = fi_generics input,
                   fc_where = fi_where input @ (case fi_bound input of None \<Rightarrow> [] | Some bound \<Rightarrow> bound),
                   fc_fields = map (fragment_struct_field fragment_mod) fs, fc_impl_for = fi_ident input,
                   fc_fragment_mod = fragment_mod, fc_result_mod = result_mod, fc_inits = map fragment_init_field fs\<rparr>))"

fun map_result_ok :: "('a \<Rightarrow> 'b) \<Rightarrow> ('a, 'e) result \<Rightarrow> ('b, 'e) result" where
  "map_result_ok f (Inl e) = Inl e"
| "map_result_ok f (Inr a) = Inr (f a)"

text \<open>
  The generated \<open>from_fragment\<close> at run time. A fragment and the result are their fields by name;
  \<open>instance\<close> gives the implementation of \<open>FromFragment\<close> for a type. Fields without a name give code
  that does not compile, and so does a name that the fragment does not have: \<^const>\<open>None\<close>.
\<close>

fun eval_inits ::
    "(string \<Rightarrow> ('f, 't) from_fragment) \<Rightarrow> fragment_init list \<Rightarrow> (string \<times> 'f) list \<Rightarrow> validator \<Rightarrow>
     ((string \<times> 't) list, validation_error) result option" where
  "eval_inits inst [] fragment validator = Some (Inr [])"
| "eval_inits inst (i # is') fragment validator =
     (case (fin_ident i, fin_name i) of
        (Some ident, Some ident_name) \<Rightarrow>
          (case map_of fragment ident of
             None \<Rightarrow> None
           | Some f \<Rightarrow>
               map_option (\<lambda>rest. and_then (inst (fin_ty i) f (validator_field validator ident_name)) (\<lambda>t.
                   and_then rest (\<lambda>ts. Inr ((ident, t) # ts))))
                 (eval_inits inst is' fragment validator))
      | _ \<Rightarrow> None)"

definition eval_from_fragment ::
    "(string \<Rightarrow> ('f, 't) from_fragment) \<Rightarrow> fragment_code \<Rightarrow> (string \<times> 'f) list \<Rightarrow> validator \<Rightarrow>
     ((string \<times> 't) list, validation_error) result option" where
  "eval_from_fragment inst code fragment validator =
     (if FragmentFieldError \<in> set (fc_fields code) then None else eval_inits inst (fc_inits code) fragment validator)"

subsection \<open>derive(Merge)\<close>

record merge_variant =
  mv_ident :: string
  mv_fields :: "string option list"

datatype merge_data = MergeStruct "string option list" | MergeEnum "merge_variant list"

record merge_input =
  mi_ident :: string
  mi_generics :: string
  mi_where :: "string list"
  mi_data :: merge_data
  mi_merge_path :: "string option"
  mi_bound :: "string list option"

datatype input_type = InputStruct | InputEnum

definition default_merge :: string where "default_merge = ''::stackable_operator::config::merge''"

text \<open>\<open>format_ident!\<close> takes the text of an identifier without \<open>r#\<close>.\<close>

fun prefix_ident :: "string + nat \<Rightarrow> string \<Rightarrow> string" where
  "prefix_ident (Inl ident) prefix = prefix @ ''_'' @ strip_raw ident"
| "prefix_ident (Inr index) prefix = prefix @ ''_'' @ show_nat index"

text \<open>\<open>ident.ok_or(index)\<close>, which is also the member that a struct pattern names.\<close>

definition member_of :: "nat \<Rightarrow> string option \<Rightarrow> string + nat" where
  "member_of index field = (case field of Some ident \<Rightarrow> Inl ident | None \<Rightarrow> Inr index)"

record struct_pattern =
  sp_constructor :: "string list"
  sp_fields :: "((string + nat) \<times> string) list"

definition map_fields_to_prefixed_vars :: "string list \<Rightarrow> string option list \<Rightarrow> string \<Rightarrow> struct_pattern" where
  "map_fields_to_prefixed_vars constructor fs prefix =
     \<lparr>sp_constructor = constructor,
      sp_fields = map (\<lambda>(index, field). (member_of index field, prefix_ident (member_of index field) prefix)) (enumerate 0 fs)\<rparr>"

record merge_arm =
  ma_some :: bool
  ma_self :: struct_pattern
  ma_defaults :: struct_pattern
  ma_body :: "(string \<times> string) list"

definition derive_merge_arm :: "input_type \<Rightarrow> string \<Rightarrow> merge_variant \<Rightarrow> merge_arm" where
  "derive_merge_arm ty ident variant =
     (let constructor = (case ty of InputStruct \<Rightarrow> [ident] | InputEnum \<Rightarrow> [ident, mv_ident variant]);
          fs = mv_fields variant
      in \<lparr>ma_some = (ty = InputEnum),
          ma_self = map_fields_to_prefixed_vars constructor fs ''self'',
          ma_defaults = map_fields_to_prefixed_vars constructor fs ''defaults'',
          ma_body = map (\<lambda>(index, field). (prefix_ident (member_of index field) ''self'',
            prefix_ident (member_of index field) ''defaults'')) (enumerate 0 fs)\<rparr>)"

record merge_code =
  mc_generics :: string
  mc_merge_mod :: string
  mc_for_option :: bool
  mc_ident :: string
  mc_where :: "string list"
  mc_arms :: "merge_arm list"
  mc_fallback :: bool

definition derive_merge :: "merge_input \<Rightarrow> merge_code" where
  "derive_merge input =
     (let (ty, variants) =
        (case mi_data input of
           MergeStruct fs \<Rightarrow> (InputStruct, [\<lparr>mv_ident = ''__placeholder'', mv_fields = fs\<rparr>])
         | MergeEnum variants \<Rightarrow> (InputEnum, variants))
      in \<lparr>mc_generics = mi_generics input,
          mc_merge_mod = (case mi_merge_path input of Some p \<Rightarrow> p | None \<Rightarrow> default_merge),
          mc_for_option = (ty = InputEnum), mc_ident = mi_ident input,
          mc_where = mi_where input @ (case mi_bound input of None \<Rightarrow> [] | Some bound \<Rightarrow> bound),
          mc_arms = map (derive_merge_arm ty (mi_ident input)) variants, mc_fallback = (ty = InputEnum)\<rparr>)"

text \<open>
  The generated \<open>merge\<close> at run time. A value is its constructor with its members. A pattern binds its
  variables to members, those of \<open>self\<close> as places; \<open>inst\<close> gives the implementation of \<open>Merge\<close> for
  the member of a constructor. \<^const>\<open>None\<close> is code that does not compile: a variable that is bound twice
  or not at all, or a match without an arm for the values.
\<close>

record 'v data_value =
  dv_constructor :: "string list"
  dv_members :: "((string + nat) \<times> 'v) list"

definition place_of :: "struct_pattern \<Rightarrow> string \<Rightarrow> (string + nat) option" where
  "place_of pat var = map_option fst (find (\<lambda>(_, x). x = var) (sp_fields pat))"

fun eval_merge_body ::
    "(string list \<Rightarrow> string + nat \<Rightarrow> 'v \<Rightarrow> 'v \<Rightarrow> 'v) \<Rightarrow> merge_arm \<Rightarrow> (string \<times> string) list \<Rightarrow> 'v data_value \<Rightarrow> 'v data_value \<Rightarrow>
     'v data_value option" where
  "eval_merge_body inst arm [] self defaults = Some self"
| "eval_merge_body inst arm ((self_var, defaults_var) # body) self defaults =
     (case (place_of (ma_self arm) self_var, place_of (ma_defaults arm) defaults_var) of
        (Some m, Some m') \<Rightarrow>
          (case map_of (dv_members defaults) m' of
             None \<Rightarrow> None
           | Some d \<Rightarrow> eval_merge_body inst arm body
               (self\<lparr>dv_members := map (\<lambda>(l, v). (l, if l = m then inst (dv_constructor self) m v d else v)) (dv_members self)\<rparr>)
               defaults)
      | _ \<Rightarrow> None)"

definition arm_matches :: "struct_pattern \<Rightarrow> 'v data_value \<Rightarrow> bool" where
  "arm_matches pat v \<longleftrightarrow> sp_constructor pat = dv_constructor v"

definition arm_vars :: "merge_arm \<Rightarrow> string list" where
  "arm_vars arm = map snd (sp_fields (ma_self arm)) @ map snd (sp_fields (ma_defaults arm))"

fun eval_arms ::
    "(string list \<Rightarrow> string + nat \<Rightarrow> 'v \<Rightarrow> 'v \<Rightarrow> 'v) \<Rightarrow> bool \<Rightarrow> merge_arm list \<Rightarrow> 'v data_value option \<Rightarrow> 'v data_value option \<Rightarrow>
     'v data_value option option" where
  "eval_arms inst fallback [] self defaults =
     (if fallback then Some (case self of None \<Rightarrow> defaults | Some v \<Rightarrow> Some v) else None)"
| "eval_arms inst fallback (arm # arms) self defaults =
     (case (self, defaults) of
        (Some v, Some d) \<Rightarrow>
          (if arm_matches (ma_self arm) v \<and> arm_matches (ma_defaults arm) d
           then map_option Some (eval_merge_body inst arm (ma_body arm) v d)
           else eval_arms inst fallback arms self defaults)
      | _ \<Rightarrow> eval_arms inst fallback arms self defaults)"

definition eval_merge ::
    "(string list \<Rightarrow> string + nat \<Rightarrow> 'v \<Rightarrow> 'v \<Rightarrow> 'v) \<Rightarrow> merge_code \<Rightarrow> 'v data_value option \<Rightarrow> 'v data_value option \<Rightarrow>
     'v data_value option option" where
  "eval_merge inst code self defaults =
     (if list_all (\<lambda>arm. distinct (arm_vars arm)) (mc_arms code)
      then eval_arms inst (mc_fallback code) (mc_arms code) self defaults else None)"

subsection \<open>Splitting attributes\<close>

text \<open>Splitting loses only the commas between groups; a comma at the end starts no group.\<close>

lemma split_take_eq:
  "split_take ts = (front, rest) \<Longrightarrow>
   Punct (CHR '','') \<notin> set front \<and> (ts = front \<and> rest = [] \<or> ts = front @ Punct (CHR '','') # rest)"
  by (induction ts arbitrary: front) (auto split: if_splits prod.splits)

fun join_groups :: "token_tree list list \<Rightarrow> token_tree list" where
  "join_groups [] = []"
| "join_groups [g] = g"
| "join_groups (g # gs) = g @ Punct (CHR '','') # join_groups gs"

lemma split_by_comma_groups: "g \<in> set (split_by_comma ts) \<Longrightarrow> Punct (CHR '','') \<notin> set g"
proof (induction ts rule: split_by_comma.induct)
  case (2 t ts)
  obtain front rest where s: "split_take (t # ts) = (front, rest)" by fastforce
  with 2 split_take_eq [OF s] show ?case by (auto simp del: split_take.simps)
qed simp

lemma split_by_comma_join: "ts = join_groups (split_by_comma ts) \<or> ts = join_groups (split_by_comma ts) @ [Punct (CHR '','')]"
proof (induction ts rule: split_by_comma.induct)
  case (2 t ts)
  obtain front rest where s: "split_take (t # ts) = (front, rest)" by fastforce
  show ?case
  proof (cases "split_by_comma rest")
    case Nil
    then have "rest = []" by (cases rest) (auto split: prod.splits)
    then show ?thesis using split_take_eq [OF s] by (auto simp: s simp del: split_take.simps)
  next
    case (Cons g gs)
    then show ?thesis using 2 [OF s [symmetric]] split_take_eq [OF s] by (auto simp: s simp del: split_take.simps)
  qed
qed simp

subsection \<open>The generated merge\<close>

definition members_of :: "string option list \<Rightarrow> (string + nat) list" where
  "members_of fs = map (\<lambda>(index, field). member_of index field) (enumerate 0 fs)"

text \<open>The text that follows the prefix in a variable name.\<close>

fun member_text :: "string + nat \<Rightarrow> string" where
  "member_text (Inl ident) = strip_raw ident"
| "member_text (Inr index) = show_nat index"

lemma prefix_ident_eq: "prefix_ident m p = p @ ''_'' @ member_text m"
  by (cases m) simp_all

text \<open>The fields of a struct or variant are all named, with different names, or all without a name.\<close>

definition fields_ok :: "string option list \<Rightarrow> bool" where
  "fields_ok fs \<longleftrightarrow> (\<forall>f\<in>set fs. f = None) \<or> (\<forall>f\<in>set fs. f \<noteq> None) \<and> distinct (map (strip_raw \<circ> the) fs)"

lemma member_texts_distinct: "fields_ok fs \<Longrightarrow> distinct (map member_text (members_of fs))"
proof (cases "\<forall>f\<in>set fs. f = None")
  case True
  then have "fs ! i = None" if "i < length fs" for i using that by simp
  then have "map member_text (members_of fs) = map show_nat [0..<length fs]"
    by (subst list_eq_iff_nth_eq) (simp add: members_of_def member_of_def nth_enumerate_eq)
  then show ?thesis by (simp add: distinct_map inj_on_def show_nat_inject)
next
  case False
  assume "fields_ok fs"
  with False have f: "\<forall>f\<in>set fs. f \<noteq> None" "distinct (map (strip_raw \<circ> the) fs)" by (auto simp: fields_ok_def)
  have n: "\<exists>x. fs ! i = Some x" if "i < length fs" for i using that f(1) by simp
  have "map member_text (members_of fs) = map (strip_raw \<circ> the) fs"
    by (subst list_eq_iff_nth_eq) (auto simp: members_of_def member_of_def nth_enumerate_eq dest!: n)
  then show ?thesis using f(2) by simp
qed

lemma members_distinct: "fields_ok fs \<Longrightarrow> distinct (members_of fs)"
  using member_texts_distinct by (rule distinct_map [THEN iffD1, THEN conjunct1])

lemma prefixed_vars: "sp_fields (map_fields_to_prefixed_vars c fs p) = map (\<lambda>m. (m, prefix_ident m p)) (members_of fs)"
  by (simp add: map_fields_to_prefixed_vars_def members_of_def case_prod_beta comp_def)

text \<open>No two variables of a pattern clash, within the value or between \<open>self\<close> and \<open>defaults\<close>.\<close>

lemma arm_vars_distinct:
  assumes "fields_ok (mv_fields v)" shows "distinct (arm_vars (derive_merge_arm ty ident v))"
proof -
  have d: "distinct (map (\<lambda>m. prefix_ident m p) (members_of (mv_fields v)))" for p
    using member_texts_distinct [OF assms] by (auto simp: prefix_ident_eq distinct_map inj_on_def)
  have "prefix_ident m ''self'' \<noteq> prefix_ident m' ''defaults''" for m m' by (simp add: prefix_ident_eq)
  then show ?thesis using d by (auto simp: arm_vars_def derive_merge_arm_def Let_def prefixed_vars comp_def)
qed

lemma find_pattern_var: "distinct (map snd xs) \<Longrightarrow> (m, x) \<in> set xs \<Longrightarrow> find (\<lambda>(_, y). y = x) xs = Some (m, x)"
  by (induction xs) (auto simp: image_iff)

lemma place_of_member:
  assumes "fields_ok fs" "m \<in> set (members_of fs)"
  shows "place_of (map_fields_to_prefixed_vars c fs p) (prefix_ident m p) = Some m"
proof -
  have "distinct (map snd (map (\<lambda>m. (m, prefix_ident m p)) (members_of fs)))"
    using member_texts_distinct [OF assms(1)] by (auto simp: prefix_ident_eq distinct_map inj_on_def)
  then show ?thesis
    using find_pattern_var [of "map (\<lambda>m. (m, prefix_ident m p)) (members_of fs)" m "prefix_ident m p"] assms(2)
    by (simp add: place_of_def prefixed_vars)
qed

text \<open>What the merge is meant to be.\<close>

definition merge_members ::
    "(string list \<Rightarrow> string + nat \<Rightarrow> 'v \<Rightarrow> 'v \<Rightarrow> 'v) \<Rightarrow> 'v data_value \<Rightarrow> 'v data_value \<Rightarrow> 'v data_value" where
  "merge_members inst self defaults =
     self\<lparr>dv_members := map (\<lambda>(m, v). (m, inst (dv_constructor self) m v (the (map_of (dv_members defaults) m)))) (dv_members self)\<rparr>"

definition merge_data_values ::
    "(string list \<Rightarrow> string + nat \<Rightarrow> 'v \<Rightarrow> 'v \<Rightarrow> 'v) \<Rightarrow> 'v data_value option \<Rightarrow> 'v data_value option \<Rightarrow> 'v data_value option" where
  "merge_data_values inst self defaults =
     (case (self, defaults) of
        (None, d) \<Rightarrow> d
      | (Some v, None) \<Rightarrow> Some v
      | (Some v, Some d) \<Rightarrow> Some (if dv_constructor v = dv_constructor d then merge_members inst v d else v))"

lemma eval_body_members:
  assumes ok: "fields_ok fs" and d: "map fst (dv_members d) = members_of fs"
    and arm: "ma_self arm = map_fields_to_prefixed_vars c fs p" "ma_defaults arm = map_fields_to_prefixed_vars c fs q"
    and ms: "distinct ms" "set ms \<subseteq> set (members_of fs)"
  shows "eval_merge_body inst arm (map (\<lambda>m. (prefix_ident m p, prefix_ident m q)) ms) v d =
    Some (v\<lparr>dv_members := map (\<lambda>(m, x). (m, if m \<in> set ms then inst (dv_constructor v) m x (the (map_of (dv_members d) m)) else x))
      (dv_members v)\<rparr>)"
  using ms
proof (induction ms arbitrary: v)
  case Nil
  then show ?case by (simp add: case_prod_beta)
next
  case (Cons m ms)
  have m: "m \<in> set (members_of fs)" using Cons.prems by simp
  then obtain x where x: "map_of (dv_members d) m = Some x"
    using d by (metis list.set_map map_of_eq_None_iff option.exhaust)
  let ?v = "v\<lparr>dv_members := map (\<lambda>(l, y). (l, if l = m then inst (dv_constructor v) m y x else y)) (dv_members v)\<rparr>"
  have "eval_merge_body inst arm (map (\<lambda>m. (prefix_ident m p, prefix_ident m q)) (m # ms)) v d =
      eval_merge_body inst arm (map (\<lambda>m. (prefix_ident m p, prefix_ident m q)) ms) ?v d"
    by (simp add: arm place_of_member [OF ok m] x)
  also have "\<dots> = Some (?v\<lparr>dv_members := map (\<lambda>(m, x). (m, if m \<in> set ms then inst (dv_constructor ?v) m x (the (map_of (dv_members d) m)) else x))
      (dv_members ?v)\<rparr>)"
    by (rule Cons.IH) (use Cons.prems in simp_all)
  also have "dv_constructor ?v = dv_constructor v" by simp
  also have "map (\<lambda>(m, x). (m, if m \<in> set ms then inst (dv_constructor v) m x (the (map_of (dv_members d) m)) else x)) (dv_members ?v) =
      map (\<lambda>(l, y). (l, if l \<in> set (m # ms) then inst (dv_constructor v) l y (the (map_of (dv_members d) l)) else y)) (dv_members v)"
    using Cons.prems(1) x by auto
  also have "?v\<lparr>dv_members := map (\<lambda>(l, y). (l, if l \<in> set (m # ms) then inst (dv_constructor v) l y (the (map_of (dv_members d) l)) else y)) (dv_members v)\<rparr> =
      v\<lparr>dv_members := map (\<lambda>(l, y). (l, if l \<in> set (m # ms) then inst (dv_constructor v) l y (the (map_of (dv_members d) l)) else y)) (dv_members v)\<rparr>"
    by simp
  finally show ?case .
qed

definition value_of :: "string list \<Rightarrow> string option list \<Rightarrow> 'v data_value \<Rightarrow> bool" where
  "value_of c fs v \<longleftrightarrow> dv_constructor v = c \<and> map fst (dv_members v) = members_of fs"

lemma eval_arm_body:
  fixes ty ident variant
  defines "arm \<equiv> derive_merge_arm ty ident variant"
  assumes "fields_ok (mv_fields variant)" "value_of (sp_constructor (ma_self arm)) (mv_fields variant) v"
    and "value_of (sp_constructor (ma_self arm)) (mv_fields variant) d"
  shows "eval_merge_body inst arm (ma_body arm) v d = Some (merge_members inst v d)"
proof -
  let ?fs = "mv_fields variant"
  have body: "ma_body arm = map (\<lambda>m. (prefix_ident m ''self'', prefix_ident m ''defaults'')) (members_of ?fs)"
    by (simp add: arm_def derive_merge_arm_def Let_def members_of_def case_prod_beta comp_def)
  have "eval_merge_body inst arm (ma_body arm) v d =
      Some (v\<lparr>dv_members := map (\<lambda>(m, x). (m, if m \<in> set (members_of ?fs) then inst (dv_constructor v) m x (the (map_of (dv_members d) m)) else x))
        (dv_members v)\<rparr>)"
    unfolding body using assms(2,4) members_distinct
    by (intro eval_body_members) (auto simp: arm_def derive_merge_arm_def Let_def value_of_def)
  moreover have "m \<in> set (members_of ?fs)" if "(m, x) \<in> set (dv_members v)" for m x
    using that assms(3) by (metis value_of_def fst_conv image_eqI list.set_map)
  then have "map (\<lambda>(m, x). (m, if m \<in> set (members_of ?fs) then inst (dv_constructor v) m x (the (map_of (dv_members d) m)) else x)) (dv_members v) =
      map (\<lambda>(m, x). (m, inst (dv_constructor v) m x (the (map_of (dv_members d) m)))) (dv_members v)"
    by (intro map_cong [OF refl]) auto
  ultimately show ?thesis by (simp only: merge_members_def)
qed

text \<open>The constructors of the item with their fields.\<close>

definition merge_constructors :: "merge_input \<Rightarrow> (string list \<times> string option list) list" where
  "merge_constructors input =
     (case mi_data input of
        MergeStruct fs \<Rightarrow> [([mi_ident input], fs)]
      | MergeEnum vs \<Rightarrow> map (\<lambda>v. ([mi_ident input, mv_ident v], mv_fields v)) vs)"

definition input_ok :: "merge_input \<Rightarrow> bool" where
  "input_ok input \<longleftrightarrow> distinct (map fst (merge_constructors input)) \<and> (\<forall>(c, fs)\<in>set (merge_constructors input). fields_ok fs)"

definition input_value :: "merge_input \<Rightarrow> 'v data_value \<Rightarrow> bool" where
  "input_value input v \<longleftrightarrow> (\<exists>(c, fs)\<in>set (merge_constructors input). value_of c fs v)"

definition is_struct :: "merge_input \<Rightarrow> bool" where
  "is_struct input \<longleftrightarrow> (\<exists>fs. mi_data input = MergeStruct fs)"

lemma eval_arms_variants:
  assumes "\<forall>w\<in>set ws. fields_ok (mv_fields w)" "distinct (map mv_ident ws)"
    and vals: "\<And>x. self = Some x \<or> defaults = Some x \<Longrightarrow> \<exists>w\<in>set vs. value_of [ident, mv_ident w] (mv_fields w) x"
    and "set ws \<subseteq> set vs" "distinct (map mv_ident vs)"
    and "\<And>x. self = Some x \<Longrightarrow> defaults \<noteq> None \<Longrightarrow> dv_constructor x = dv_constructor (the defaults) \<Longrightarrow>
      dv_constructor x \<in> (\<lambda>w. [ident, mv_ident w]) ` set ws"
  shows "eval_arms inst True (map (derive_merge_arm InputEnum ident) ws) self defaults = Some (merge_data_values inst self defaults)"
  using assms(1,2,4,6)
proof (induction ws)
  case Nil
  then show ?case by (cases self; cases defaults) (auto simp: merge_data_values_def)
next
  case (Cons w ws)
  let ?arm = "derive_merge_arm InputEnum ident w"
  have con: "sp_constructor (ma_self ?arm) = [ident, mv_ident w]" "sp_constructor (ma_defaults ?arm) = [ident, mv_ident w]"
    by (simp_all add: derive_merge_arm_def Let_def map_fields_to_prefixed_vars_def)
  have own: "value_of [ident, mv_ident w] (mv_fields w) x"
    if x: "self = Some x \<or> defaults = Some x" "dv_constructor x = [ident, mv_ident w]" for x
  proof -
    obtain u where u: "u \<in> set vs" "value_of [ident, mv_ident u] (mv_fields u) x" using vals [OF x(1)] by blast
    then have "mv_ident u = mv_ident w" using x(2) by (simp add: value_of_def)
    moreover have "w \<in> set vs" using Cons.prems(3) by simp
    ultimately have "u = w" using assms(5) u(1) by (simp add: distinct_map inj_on_def)
    then show ?thesis using u(2) by simp
  qed
  show ?case
  proof (cases "\<exists>v d. self = Some v \<and> defaults = Some d \<and> dv_constructor v = [ident, mv_ident w] \<and> dv_constructor d = [ident, mv_ident w]")
    case True
    then obtain v d where vd: "self = Some v" "defaults = Some d" "dv_constructor v = [ident, mv_ident w]"
        "dv_constructor d = [ident, mv_ident w]" by blast
    have "fields_ok (mv_fields w)" using Cons.prems(1) by simp
    from eval_arm_body [OF this, where ty = InputEnum and ident = ident and v = v and d = d and inst = inst, unfolded con]
    have "eval_merge_body inst ?arm (ma_body ?arm) v d = Some (merge_members inst v d)"
      using own vd by blast
    then show ?thesis using vd by (simp add: arm_matches_def con merge_data_values_def)
  next
    case False
    have "eval_arms inst True (map (derive_merge_arm InputEnum ident) (w # ws)) self defaults =
        eval_arms inst True (map (derive_merge_arm InputEnum ident) ws) self defaults"
      using False by (cases self; cases defaults) (auto simp: arm_matches_def con)
    moreover have "dv_constructor x \<in> (\<lambda>w. [ident, mv_ident w]) ` set ws"
      if "self = Some x" "defaults \<noteq> None" "dv_constructor x = dv_constructor (the defaults)" for x
      using Cons.prems(4) [OF that] False that by auto
    ultimately show ?thesis using Cons.IH Cons.prems by simp
  qed
qed

lemma derived_merge_reference:
  assumes ok: "input_ok input"
    and vals: "\<And>x. self = Some x \<or> defaults = Some x \<Longrightarrow> input_value input x"
    and struct: "is_struct input \<Longrightarrow> self \<noteq> None \<and> defaults \<noteq> None"
  shows "eval_merge inst (derive_merge input) self defaults = Some (merge_data_values inst self defaults)"
proof (cases "mi_data input")
  case (MergeStruct fs)
  then obtain v d where vd: "self = Some v" "defaults = Some d" using struct by (auto simp: is_struct_def)
  let ?w = "\<lparr>mv_ident = ''__placeholder'', mv_fields = fs\<rparr>"
  let ?arm = "derive_merge_arm InputStruct (mi_ident input) ?w"
  have fs: "fields_ok fs" using ok by (simp add: input_ok_def merge_constructors_def MergeStruct)
  have con: "sp_constructor (ma_self ?arm) = [mi_ident input]" "sp_constructor (ma_defaults ?arm) = [mi_ident input]"
    by (simp_all add: derive_merge_arm_def Let_def map_fields_to_prefixed_vars_def)
  have val: "value_of [mi_ident input] fs v" "value_of [mi_ident input] fs d"
    using vals [of v] vals [of d] vd by (simp_all add: input_value_def merge_constructors_def MergeStruct)
  have "eval_merge_body inst ?arm (ma_body ?arm) v d = Some (merge_members inst v d)"
    using eval_arm_body [where ty = InputStruct and ident = "mi_ident input" and variant = ?w, unfolded con] fs val by simp
  then show ?thesis
    using val arm_vars_distinct [of ?w] fs
    by (simp add: eval_merge_def derive_merge_def MergeStruct vd arm_matches_def con value_of_def merge_data_values_def)
next
  case (MergeEnum vs)
  have vs: "\<forall>w\<in>set vs. fields_ok (mv_fields w)" "distinct (map mv_ident vs)"
    using ok by (auto simp: input_ok_def merge_constructors_def MergeEnum distinct_map inj_on_def)
  have val: "\<exists>w\<in>set vs. value_of [mi_ident input, mv_ident w] (mv_fields w) x" if "self = Some x \<or> defaults = Some x" for x
    using vals [OF that] by (auto simp: input_value_def merge_constructors_def MergeEnum)
  have "dv_constructor x \<in> (\<lambda>w. [mi_ident input, mv_ident w]) ` set vs" if "self = Some x" for x
    using val [of x] that by (auto simp: value_of_def)
  then have "eval_arms inst True (map (derive_merge_arm InputEnum (mi_ident input)) vs) self defaults =
      Some (merge_data_values inst self defaults)"
    using eval_arms_variants [OF vs val _ vs(2)] by blast
  then show ?thesis
    using vs(1) arm_vars_distinct by (simp add: eval_merge_def derive_merge_def MergeEnum list_all_iff)
qed

text \<open>
  C23: \<open>derive(Merge)\<close> generates a merge that does what it says. For a struct or an enum whose
  variants, and whose fields in each variant, have different names (raw identifiers included), the
  generated code compiles: no two of its variables clash, each is bound, and every pair of values has
  an arm. For a struct it merges each field with the same field of the defaults. For an option of an
  enum it merges field by field when both have the same variant, takes the defaults when nothing is set,
  and keeps the value, discarding the defaults, when the variants differ.
\<close>

theorem derived_merge_field_by_field:
  assumes "input_ok input"
    and "\<And>x. self = Some x \<or> defaults = Some x \<Longrightarrow> input_value input x"
    and "is_struct input \<Longrightarrow> self \<noteq> None \<and> defaults \<noteq> None"
  shows "eval_merge inst (derive_merge input) self defaults = Some (merge_data_values inst self defaults)"
  by (rule derived_merge_reference [OF assms])

definition demo_enum :: merge_input where
  "demo_enum = \<lparr>mi_ident = ''Storage'', mi_generics = [], mi_where = [],
     mi_data = MergeEnum [\<lparr>mv_ident = ''Volume'', mv_fields = [Some ''r#type'', Some ''size'']\<rparr>, \<lparr>mv_ident = ''Path'', mv_fields = [None]\<rparr>],
     mi_merge_path = None, mi_bound = None\<rparr>"

definition demo_volume :: "nat \<Rightarrow> nat \<Rightarrow> nat data_value" where
  "demo_volume ty n = \<lparr>dv_constructor = [''Storage'', ''Volume''], dv_members = [(Inl ''r#type'', ty), (Inl ''size'', n)]\<rparr>"

theorem derived_merge_field_by_field_witness:
  "eval_merge (\<lambda>_ _ v d. if v = 0 then d else v) (derive_merge demo_enum) (Some (demo_volume 1 0)) (Some (demo_volume 2 3)) =
     Some (Some (demo_volume 1 3))"
proof -
  have names: "strip_raw ''r#type'' = ''type''" "strip_raw ''size'' = ''size''" by code_simp+
  have ok: "input_ok demo_enum"
    by (simp add: input_ok_def merge_constructors_def demo_enum_def fields_ok_def names)
  have "input_value demo_enum x" if "Some (demo_volume 1 0) = Some x \<or> Some (demo_volume 2 3) = Some x" for x
    using that by (auto simp: input_value_def merge_constructors_def demo_enum_def value_of_def demo_volume_def members_of_def member_of_def)
  moreover have "\<not> is_struct demo_enum" by (simp add: is_struct_def demo_enum_def)
  ultimately have "eval_merge (\<lambda>_ _ v d. if v = 0 then d else v) (derive_merge demo_enum) (Some (demo_volume 1 0)) (Some (demo_volume 2 3)) =
      Some (merge_data_values (\<lambda>_ _ v d. if v = 0 then d else v) (Some (demo_volume 1 0)) (Some (demo_volume 2 3)))"
    by (intro derived_merge_field_by_field [OF ok]) auto
  then show ?thesis by (simp add: merge_data_values_def merge_members_def demo_volume_def)
qed

text \<open>
  The merge of an enum is not associative: fields of a level whose variant the middle level changed come
  back when the upper two levels are merged first. \<open>RoleGroup::validate_config\<close> merges the lower
  levels first.
\<close>

lemma enum_merge_not_associative:
  fixes a b c :: "nat data_value option"
  defines "m \<equiv> merge_data_values (\<lambda>_ _ v d. if v = 0 then d else v)"
    and "a \<equiv> Some (demo_volume 1 0)" and "b \<equiv> Some \<lparr>dv_constructor = [''Storage'', ''Path''], dv_members = [(Inr 0, 5)]\<rparr>"
    and "c \<equiv> Some (demo_volume 2 3)"
  shows "m (m a b) c = Some (demo_volume 1 3)" "m a (m b c) = a"
  by (simp_all add: assms merge_data_values_def merge_members_def demo_volume_def)

text \<open>The merge of a struct keeps the laws of \<open>Merge\<close> when the merges of its fields do.\<close>

lemma derived_struct_laws:
  assumes "\<And>m. merge_laws (\<lambda>_. True) (inst c m)" "fields_ok fs"
  shows "merge_laws (value_of c fs) (merge_members inst)"
proof
  note laws = merge_laws.merge_assoc [OF assms(1)] merge_laws.merge_idem [OF assms(1)]
  fix a b d :: "'a data_value"
  assume a: "value_of c fs a" and b: "value_of c fs b" and d: "value_of c fs d"
  show "value_of c fs (merge_members inst a b)"
    using a by (simp add: value_of_def merge_members_def case_prod_beta comp_def)
  have get: "map_of (map (\<lambda>(m, v). (m, f m v)) xs) k = map_option (f k) (map_of xs k)" for f xs and k :: "string + nat"
    by (induction xs) auto
  have both: "\<exists>w. map_of (dv_members b) m = Some w" if "(m, v) \<in> set (dv_members a)" for m v
  proof -
    have "m \<in> fst ` set (dv_members b)" using that a b by (metis value_of_def fst_conv image_eqI list.set_map)
    then show ?thesis by (metis map_of_eq_None_iff option.exhaust)
  qed
  have "map (\<lambda>(m, v). (m, inst c m (inst c m v (the (map_of (dv_members b) m))) (the (map_of (dv_members d) m)))) (dv_members a) =
      map (\<lambda>(m, v). (m, inst c m v (the (map_of (map (\<lambda>(m, v). (m, inst c m v (the (map_of (dv_members d) m)))) (dv_members b)) m)))) (dv_members a)"
    by (intro map_cong [OF refl]) (use both in \<open>fastforce simp: get laws(1)\<close>)
  then show "merge_members inst (merge_members inst a b) d = merge_members inst a (merge_members inst b d)"
    using a b by (simp add: merge_members_def value_of_def case_prod_beta comp_def)
next
  fix a :: "'a data_value"
  assume a: "value_of c fs a"
  then have idem: "inst (dv_constructor a) m v v = v" for m v
    by (simp add: value_of_def merge_laws.merge_idem [OF assms(1)])
  have "distinct (map fst (dv_members a))" using a members_distinct [OF assms(2)] by (simp add: value_of_def)
  then have "map (\<lambda>(m, v). (m, inst (dv_constructor a) m v (the (map_of (dv_members a) m)))) (dv_members a) = dv_members a"
    using idem by (intro map_idI) auto
  then show "merge_members inst a a = a" by (simp add: merge_members_def)
qed

subsection \<open>The generated validation\<close>

text \<open>The fields are validated in their order, each below its name, and the first error is the result.\<close>

lemma eval_inits_fields:
  assumes "\<forall>f\<in>set fs. \<exists>i. ff_ident f = Some i \<and> map_of fragment i \<noteq> None"
  shows "eval_inits inst (map fragment_init_field fs) fragment validator =
    Some (traverse_list (\<lambda>f. map_result_ok (Pair (the (ff_ident f)))
      (inst (ff_ty f) (the (map_of fragment (the (ff_ident f)))) (validator_field validator (the (ff_ident f))))) fs)"
  using assms
proof (induction fs)
  case (Cons f fs)
  then obtain i x where "ff_ident f = Some i" "map_of fragment i = Some x" by fastforce
  then show ?case using Cons
    by (cases "inst (ff_ty f) x (validator_field validator i)") (simp_all add: fragment_init_field_def)
qed simp

subsection \<open>The structs of \<open>commons/resources.rs\<close>\<close>

text \<open>
  The structs as the macros see them (documentation comments left out). \<open>derive(Merge)\<close> is applied to the
  generated fragment struct, which has the fields of the struct with the types of their fragments.
\<close>

definition list_attribute :: "(string \<times> string) list \<Rightarrow> macro_attribute" where
  "list_attribute parts =
     (let tokens = concat (map (\<lambda>(name, args). [OtherToken name, GroupToken args, Punct (CHR '','')]) parts)
      in \<lparr>at_path = ''fragment_attrs'', at_list = Some (butlast tokens), at_meta = OtherToken ''fragment_attrs'' # butlast tokens\<rparr>)"

definition resource_struct :: "string \<Rightarrow> (string \<times> string) list \<Rightarrow> fragment_input" where
  "resource_struct name fs =
     \<lparr>fi_ident = name, fi_generics = [], fi_where = [],
      fi_data = StructData (map (\<lambda>(ident, ty). \<lparr>ff_vis = ''pub'', ff_ident = Some ident, ff_ty = ty,
        ff_attrs = [list_attribute [(''serde'', ''default'')]]\<rparr>) fs),
      fi_attrs = [list_attribute [(''derive'', ''Merge''), (''merge'', ''path_overrides(merge = crate::config::merge)'')]],
      fi_fragment_path = Some ''crate::config::fragment'', fi_result_path = None, fi_bound = None\<rparr>"

definition fragment_of_struct :: "string \<Rightarrow> (string \<times> string) list \<Rightarrow> merge_input" where
  "fragment_of_struct name fs =
     \<lparr>mi_ident = name @ ''Fragment'', mi_generics = [], mi_where = [], mi_data = MergeStruct (map (Some \<circ> fst) fs),
      mi_merge_path = Some ''crate::config::merge'', mi_bound = None\<rparr>"

definition cpu_limits_fields :: "(string \<times> string) list" where
  "cpu_limits_fields = [(''min'', ''Option<Quantity>''), (''max'', ''Option<Quantity>'')]"

definition jvm_heap_limits_fields :: "(string \<times> string) list" where
  "jvm_heap_limits_fields = [(''max'', ''Option<Quantity>''), (''min'', ''Option<Quantity>'')]"

definition memory_limits_fields :: "(string \<times> string) list" where
  "memory_limits_fields = [(''limit'', ''Option<Quantity>''), (''runtime_limits'', ''T'')]"

definition pvc_config_fields :: "(string \<times> string) list" where
  "pvc_config_fields = [(''capacity'', ''Option<Quantity>''), (''storage_class'', ''Option<String>''), (''selectors'', ''Option<LabelSelector>'')]"

definition resources_fields :: "(string \<times> string) list" where
  "resources_fields = [(''memory'', ''MemoryLimits<K>''), (''cpu'', ''CpuLimits''), (''storage'', ''T'')]"

text \<open>The values of the fields, with the instances of the traits for their types.\<close>

datatype 'l config_value =
    CvQuantity "string option"
  | CvSelector "'l option"
  | CvHeap jvm_heap_limits
  | CvPvc "'l pvc_config"
  | CvCpu cpu_limits
  | CvMemory "jvm_heap_limits memory_limits"

fun config_value_merge :: "'l config_value \<Rightarrow> 'l config_value \<Rightarrow> 'l config_value" where
  "config_value_merge (CvQuantity a) (CvQuantity b) = CvQuantity (option_merge a b)"
| "config_value_merge (CvSelector a) (CvSelector b) = CvSelector (option_merge a b)"
| "config_value_merge (CvHeap a) (CvHeap b) = CvHeap (jvm_heap_limits_merge a b)"
| "config_value_merge (CvPvc a) (CvPvc b) = CvPvc (pvc_config_merge a b)"
| "config_value_merge (CvCpu a) (CvCpu b) = CvCpu (cpu_limits_merge a b)"
| "config_value_merge (CvMemory a) (CvMemory b) = CvMemory (memory_limits_merge jvm_heap_limits_merge a b)"
| "config_value_merge a _ = a"

fun config_value_from_fragment :: "('l config_value, 'l config_value) from_fragment" where
  "config_value_from_fragment (CvQuantity a) v = map_result_ok CvQuantity (optional_from_fragment a v)"
| "config_value_from_fragment (CvSelector a) v = map_result_ok CvSelector (optional_from_fragment a v)"
| "config_value_from_fragment (CvHeap a) v = map_result_ok CvHeap (jvm_heap_limits_from_fragment a v)"
| "config_value_from_fragment (CvPvc a) v = map_result_ok CvPvc (pvc_config_from_fragment a v)"
| "config_value_from_fragment (CvCpu a) v = map_result_ok CvCpu (cpu_limits_from_fragment a v)"
| "config_value_from_fragment (CvMemory a) v = map_result_ok CvMemory (memory_limits_from_fragment jvm_heap_limits_from_fragment a v)"

definition cpu_limits_values :: "cpu_limits \<Rightarrow> (string \<times> 'l config_value) list" where
  "cpu_limits_values c = [(''min'', CvQuantity (cpu_min c)), (''max'', CvQuantity (cpu_max c))]"

definition jvm_heap_limits_values :: "jvm_heap_limits \<Rightarrow> (string \<times> 'l config_value) list" where
  "jvm_heap_limits_values h = [(''max'', CvQuantity (heap_max h)), (''min'', CvQuantity (heap_min h))]"

definition memory_limits_values :: "jvm_heap_limits memory_limits \<Rightarrow> (string \<times> 'l config_value) list" where
  "memory_limits_values m = [(''limit'', CvQuantity (mem_limit m)), (''runtime_limits'', CvHeap (mem_runtime_limits m))]"

definition pvc_config_values :: "'l pvc_config \<Rightarrow> (string \<times> 'l config_value) list" where
  "pvc_config_values p = [(''capacity'', CvQuantity (pvc_capacity p)), (''storage_class'', CvQuantity (pvc_storage_class p)),
     (''selectors'', CvSelector (pvc_selectors p))]"

definition resources_values :: "('l pvc_config, jvm_heap_limits) resources \<Rightarrow> (string \<times> 'l config_value) list" where
  "resources_values r = [(''memory'', CvMemory (res_memory r)), (''cpu'', CvCpu (res_cpu r)), (''storage'', CvPvc (res_storage r))]"

definition derived_value :: "string \<Rightarrow> (string \<times> 'v) list \<Rightarrow> 'v data_value" where
  "derived_value name vs = \<lparr>dv_constructor = [name @ ''Fragment''], dv_members = map (\<lambda>(ident, v). (Inl ident, v)) vs\<rparr>"

text \<open>Running the generated merge and the generated validation of a struct.\<close>

definition run_merge ::
    "string \<Rightarrow> (string \<times> string) list \<Rightarrow> (string \<times> 'l config_value) list \<Rightarrow> (string \<times> 'l config_value) list \<Rightarrow>
     'l config_value data_value option option" where
  "run_merge name fs self defaults =
     eval_merge (\<lambda>_ _. config_value_merge) (derive_merge (fragment_of_struct name fs))
       (Some (derived_value name self)) (Some (derived_value name defaults))"

definition run_from_fragment ::
    "string \<Rightarrow> (string \<times> string) list \<Rightarrow> (string \<times> 'l config_value) list \<Rightarrow> validator \<Rightarrow>
     ((string \<times> 'l config_value) list, validation_error) result option" where
  "run_from_fragment name fs fragment validator =
     (case derive_fragment (resource_struct name fs) of
        FragmentCode code \<Rightarrow> eval_from_fragment (\<lambda>_. config_value_from_fragment) code fragment validator
      | _ \<Rightarrow> None)"

lemma run_merge_struct:
  assumes "map fst self = map fst fs" "map fst defaults = map fst fs" "distinct (map (strip_raw \<circ> fst) fs)"
  shows "run_merge name fs self defaults = Some (Some (merge_members (\<lambda>_ _. config_value_merge)
    (derived_value name self) (derived_value name defaults)))"
proof -
  let ?in = "fragment_of_struct name fs"
  have con: "merge_constructors ?in = [([name @ ''Fragment''], map (Some \<circ> fst) fs)]"
    by (simp add: merge_constructors_def fragment_of_struct_def)
  have "fields_ok (map (Some \<circ> fst) fs)"
    using assms(3) by (auto simp: fields_ok_def comp_def)
  then have ok: "input_ok ?in" by (simp add: input_ok_def con)
  have members: "members_of (map (Some \<circ> fst) fs) = map (Inl \<circ> fst) fs"
    by (rule nth_equalityI) (simp_all add: members_of_def member_of_def nth_enumerate_eq)
  have val: "input_value ?in (derived_value name vs)" if "map fst vs = map fst fs" for vs :: "(string \<times> 'l config_value) list"
  proof -
    have "map fst (map (\<lambda>(ident, v). (Inl ident, v)) vs) = map (Inl \<circ> fst) fs"
      using arg_cong [OF that, of "map Inl"] by (simp add: case_prod_beta comp_def)
    then show ?thesis by (simp add: input_value_def con value_of_def derived_value_def members)
  qed
  have "run_merge name fs self defaults =
      Some (merge_data_values (\<lambda>_ _. config_value_merge) (Some (derived_value name self)) (Some (derived_value name defaults)))"
    unfolding run_merge_def by (rule derived_merge_reference [OF ok]) (use val assms(1,2) in auto)
  then show ?thesis by (simp add: merge_data_values_def derived_value_def)
qed

lemma traverse_list_map: "traverse_list f (map g xs) = traverse_list (\<lambda>x. f (g x)) xs"
  by (induction xs) simp_all

lemma run_from_fragment_struct:
  assumes "map fst fragment = map fst fs"
  shows "run_from_fragment name fs fragment validator = Some (traverse_list (\<lambda>f. map_result_ok (Pair (fst f))
    (config_value_from_fragment (the (map_of fragment (fst f))) (validator_field validator (fst f)))) fs)"
proof -
  have attr: "extract_attribute (list_attribute parts) = map Inr (split_by_comma (butlast (concat (map (\<lambda>(name, args).
      [OtherToken name, GroupToken args, Punct (CHR '','')]) parts))))" for parts
    by (simp add: extract_attribute_def list_attribute_def Let_def)
  have attrs: "\<exists>groups. extract_forwarded_attrs [list_attribute parts] = Inr groups" for parts
    by (simp add: extract_forwarded_attrs_def attr traverse_list_Inr_iff)
  let ?field = "\<lambda>(ident, ty). \<lparr>ff_vis = ''pub'', ff_ident = Some ident, ff_ty = ty, ff_attrs = [list_attribute [(''serde'', ''default'')]]\<rparr>"
  obtain code where code: "derive_fragment (resource_struct name fs) = FragmentCode code"
      "fc_inits code = map fragment_init_field (map ?field fs)" "FragmentFieldError \<notin> set (fc_fields code)"
    using attrs [of "[(''derive'', ''Merge''), (''merge'', ''path_overrides(merge = crate::config::merge)'')]"]
      attrs [of "[(''serde'', ''default'')]"]
    by (auto simp: derive_fragment_def resource_struct_def Let_def fragment_struct_field_def case_prod_beta image_iff)
  have "\<forall>f\<in>set (map ?field fs). \<exists>i. ff_ident f = Some i \<and> map_of fragment i \<noteq> None"
  proof
    fix f assume "f \<in> set (map ?field fs)"
    then obtain i ty where i: "(i, ty) \<in> set fs" "f = ?field (i, ty)" by auto
    then have "i \<in> fst ` set fragment" using assms by (metis fst_conv image_eqI list.set_map)
    then show "\<exists>i. ff_ident f = Some i \<and> map_of fragment i \<noteq> None" by (simp add: i(2) map_of_eq_None_iff)
  qed
  from eval_inits_fields [OF this, of "\<lambda>_. config_value_from_fragment" validator] show ?thesis
    by (simp add: run_from_fragment_def code eval_from_fragment_def traverse_list_map case_prod_beta comp_def)
qed

lemmas resource_values = cpu_limits_values_def jvm_heap_limits_values_def memory_limits_values_def pvc_config_values_def
  resources_values_def

lemmas resource_fields = cpu_limits_fields_def jvm_heap_limits_fields_def memory_limits_fields_def pvc_config_fields_def
  resources_fields_def

lemma derived_merges:
  "run_merge ''CpuLimits'' cpu_limits_fields (cpu_limits_values c) (cpu_limits_values c') =
     Some (Some (derived_value ''CpuLimits'' (cpu_limits_values (cpu_limits_merge c c'))))"
  "run_merge ''JvmHeapLimits'' jvm_heap_limits_fields (jvm_heap_limits_values h) (jvm_heap_limits_values h') =
     Some (Some (derived_value ''JvmHeapLimits'' (jvm_heap_limits_values (jvm_heap_limits_merge h h'))))"
  "run_merge ''MemoryLimits'' memory_limits_fields (memory_limits_values m) (memory_limits_values m') =
     Some (Some (derived_value ''MemoryLimits'' (memory_limits_values (memory_limits_merge jvm_heap_limits_merge m m'))))"
  "run_merge ''PvcConfig'' pvc_config_fields (pvc_config_values p) (pvc_config_values p') =
     Some (Some (derived_value ''PvcConfig'' (pvc_config_values (pvc_config_merge p p'))))"
  "run_merge ''Resources'' resources_fields (resources_values r) (resources_values r') =
     Some (Some (derived_value ''Resources'' (resources_values (resources_merge pvc_config_merge jvm_heap_limits_merge r r'))))"
  by (simp_all add: run_merge_struct resource_values resource_fields merge_members_def derived_value_def strip_raw_def
      cpu_limits_merge_def jvm_heap_limits_merge_def memory_limits_merge_def pvc_config_merge_def resources_merge_def)

lemma derived_validations:
  "run_from_fragment ''CpuLimits'' cpu_limits_fields (cpu_limits_values c) v =
     Some (map_result_ok cpu_limits_values (cpu_limits_from_fragment c v))"
  "run_from_fragment ''JvmHeapLimits'' jvm_heap_limits_fields (jvm_heap_limits_values h) v =
     Some (map_result_ok jvm_heap_limits_values (jvm_heap_limits_from_fragment h v))"
  "run_from_fragment ''MemoryLimits'' memory_limits_fields (memory_limits_values m) v =
     Some (map_result_ok memory_limits_values (memory_limits_from_fragment jvm_heap_limits_from_fragment m v))"
  "run_from_fragment ''PvcConfig'' pvc_config_fields (pvc_config_values p) v =
     Some (map_result_ok pvc_config_values (pvc_config_from_fragment p v))"
  "run_from_fragment ''Resources'' resources_fields (resources_values r) v =
     Some (map_result_ok resources_values (resources_from_fragment pvc_config_from_fragment jvm_heap_limits_from_fragment r v))"
  by (simp_all add: run_from_fragment_struct resource_values resource_fields cpu_limits_from_fragment_def
      jvm_heap_limits_from_fragment_def memory_limits_from_fragment_def pvc_config_from_fragment_def resources_from_fragment_def)

text \<open>
  C39: The merge and the validation of the resource structs that the other theories use are what the
  derive macros generate for their source: for the resources of a role with JVM heap limits and one volume
  claim, and for the structs of memory limits, heap limits, CPU limits and volume claims inside, running
  the generated code of \<open>derive(Merge)\<close> and \<open>derive(Fragment)\<close> on any values gives the merged
  value, and the validated value or the error, of the definitions by hand.
\<close>

theorem derived_resources:
  "run_merge ''Resources'' resources_fields (resources_values r) (resources_values r') =
     Some (Some (derived_value ''Resources'' (resources_values (resources_merge pvc_config_merge jvm_heap_limits_merge r r')))) \<and>
   run_merge ''MemoryLimits'' memory_limits_fields (memory_limits_values m) (memory_limits_values m') =
     Some (Some (derived_value ''MemoryLimits'' (memory_limits_values (memory_limits_merge jvm_heap_limits_merge m m')))) \<and>
   run_merge ''JvmHeapLimits'' jvm_heap_limits_fields (jvm_heap_limits_values h) (jvm_heap_limits_values h') =
     Some (Some (derived_value ''JvmHeapLimits'' (jvm_heap_limits_values (jvm_heap_limits_merge h h')))) \<and>
   run_merge ''CpuLimits'' cpu_limits_fields (cpu_limits_values c) (cpu_limits_values c') =
     Some (Some (derived_value ''CpuLimits'' (cpu_limits_values (cpu_limits_merge c c')))) \<and>
   run_merge ''PvcConfig'' pvc_config_fields (pvc_config_values p) (pvc_config_values p') =
     Some (Some (derived_value ''PvcConfig'' (pvc_config_values (pvc_config_merge p p')))) \<and>
   run_from_fragment ''Resources'' resources_fields (resources_values r) v =
     Some (map_result_ok resources_values (resources_from_fragment pvc_config_from_fragment jvm_heap_limits_from_fragment r v)) \<and>
   run_from_fragment ''MemoryLimits'' memory_limits_fields (memory_limits_values m) v =
     Some (map_result_ok memory_limits_values (memory_limits_from_fragment jvm_heap_limits_from_fragment m v)) \<and>
   run_from_fragment ''JvmHeapLimits'' jvm_heap_limits_fields (jvm_heap_limits_values h) v =
     Some (map_result_ok jvm_heap_limits_values (jvm_heap_limits_from_fragment h v)) \<and>
   run_from_fragment ''CpuLimits'' cpu_limits_fields (cpu_limits_values c) v =
     Some (map_result_ok cpu_limits_values (cpu_limits_from_fragment c v)) \<and>
   run_from_fragment ''PvcConfig'' pvc_config_fields (pvc_config_values p) v =
     Some (map_result_ok pvc_config_values (pvc_config_from_fragment p v))"
  by (intro conjI derived_merges derived_validations)

end
