(* ===== verification/Reports.thy ===== *)
theory Reports
  imports Builder_Meta Duration Length_Enforcement
begin

section \<open>Reports of an operator and small helpers\<close>

text \<open>
  \<open>stackable-operator/src\<close>: the events that report errors of controllers (\<open>logging\<close>,
  \<open>builder/event.rs\<close>), the check for the end of support (\<open>eos\<close>), the iterators of \<open>iter.rs\<close> and the
  helpers of \<open>namespace.rs\<close> and \<open>utils\<close> that compute something. Sending an event, the clock,
  joining URLs and the texts of library objects are parameters.
\<close>

subsection \<open>Iterators\<close>

text \<open>An iterator is the list of the items that are left.\<close>

datatype ('a, 'b) either = EitherLeft 'a | EitherRight 'b

fun list_next :: "'a list \<Rightarrow> ('a \<times> 'a list) option" where
  "list_next [] = None"
| "list_next (x # xs) = Some (x, xs)"

fun list_next_back :: "'a list \<Rightarrow> ('a \<times> 'a list) option" where
  "list_next_back [] = None"
| "list_next_back (x # xs) = Some (last (x # xs), butlast (x # xs))"

text \<open>\<open>Rev\<close> takes from the back.\<close>

fun either_next :: "('a list, 'a list) either \<Rightarrow> ('a \<times> ('a list, 'a list) either) option" where
  "either_next (EitherLeft left) = map_option (apsnd EitherLeft) (list_next left)"
| "either_next (EitherRight right) = map_option (apsnd EitherRight) (list_next_back right)"

fun either_next_back :: "('a list, 'a list) either \<Rightarrow> ('a \<times> ('a list, 'a list) either) option" where
  "either_next_back (EitherLeft left) = map_option (apsnd EitherLeft) (list_next_back left)"
| "either_next_back (EitherRight right) = map_option (apsnd EitherRight) (list_next right)"

definition reverse_if :: "bool \<Rightarrow> 'a list \<Rightarrow> ('a list, 'a list) either" where
  "reverse_if cond iter = (if cond then EitherRight iter else EitherLeft iter)"

record ('t, 'e) try_flatten_state =
  tf_outer_iterator :: "(('t, 'e) result list, 'e) result list"
  tf_inner_iterator :: "('t, 'e) result list option"

definition try_flatten :: "(('t, 'e) result list, 'e) result list \<Rightarrow> ('t, 'e) try_flatten_state" where
  "try_flatten outer_iterator = \<lparr>tf_outer_iterator = outer_iterator, tf_inner_iterator = None\<rparr>"

text \<open>The loop of \<open>next\<close>, on the outer iterator; an inner iterator is asked first.\<close>

fun try_flatten_outer :: "(('t, 'e) result list, 'e) result list \<Rightarrow> (('t, 'e) result \<times> ('t, 'e) try_flatten_state) option" where
  "try_flatten_outer [] = None"
| "try_flatten_outer (Inl err # outer) = Some (Inl err, \<lparr>tf_outer_iterator = outer, tf_inner_iterator = None\<rparr>)"
| "try_flatten_outer (Inr (v # inner) # outer) = Some (v, \<lparr>tf_outer_iterator = outer, tf_inner_iterator = Some inner\<rparr>)"
| "try_flatten_outer (Inr [] # outer) = try_flatten_outer outer"

definition try_flatten_next :: "('t, 'e) try_flatten_state \<Rightarrow> (('t, 'e) result \<times> ('t, 'e) try_flatten_state) option" where
  "try_flatten_next self =
     (case tf_inner_iterator self of
        Some (v # inner) \<Rightarrow> Some (v, self\<lparr>tf_inner_iterator := Some inner\<rparr>)
      | _ \<Rightarrow> try_flatten_outer (tf_outer_iterator self))"

subsection \<open>Truncating messages\<close>

definition is_char_boundary :: "string \<Rightarrow> nat \<Rightarrow> bool" where
  "is_char_boundary s pos \<longleftrightarrow> pos = 0 \<or> (if length s \<le> pos then pos = length s else \<not> is_continuation (s ! pos))"

text \<open>\<open>None\<close> is the underflow of \<open>pos -= 1\<close>.\<close>

fun find_start_of_char :: "string \<Rightarrow> nat \<Rightarrow> nat option" where
  "find_start_of_char s 0 = (if is_char_boundary s 0 then Some 0 else None)"
| "find_start_of_char s (Suc pos) = (if is_char_boundary s (Suc pos) then Some (Suc pos) else find_start_of_char s pos)"

text \<open>The three bytes of the character \<open>U+2026\<close>.\<close>

definition ELLIPSIS :: string where "ELLIPSIS = [char_of (226::nat), char_of (128::nat), char_of (166::nat)]"

definition truncate_with_ellipsis :: "string \<Rightarrow> nat \<Rightarrow> string option" where
  "truncate_with_ellipsis text max_len =
     (if length text > max_len then
        map_option (\<lambda>start_of_trunc_char.
            take start_of_trunc_char text @ (if length ELLIPSIS \<le> max_len then ELLIPSIS else []))
          (find_start_of_char text (max_len - length ELLIPSIS))
      else Some text)"

subsection \<open>Events for errors of a controller\<close>

text \<open>
  An error of a reconciler: its text and the texts of its chain of sources, the category and the
  secondary object, as a reference of the library.
\<close>

record 'o reconciler_error =
  re_text :: string
  re_sources :: "string list"
  re_category :: string
  re_secondary_object :: "'o option"

datatype event_type = EventNormal | EventWarning

fun event_type_fmt :: "event_type \<Rightarrow> string" where
  "event_type_fmt EventNormal = ''Normal''"
| "event_type_fmt EventWarning = ''Warning''"

record 'o kube_event =
  ke_type :: event_type
  ke_reason :: string
  ke_note :: "string option"
  ke_action :: string
  ke_secondary :: "'o option"

definition error_to_event :: "'o reconciler_error \<Rightarrow> 'o kube_event option" where
  "error_to_event err =
     map_option (\<lambda>note. \<lparr>ke_type = EventWarning, ke_reason = re_category err, ke_note = Some note,
         ke_action = ''Reconcile'', ke_secondary = re_secondary_object err\<rparr>)
       (truncate_with_ellipsis (foldl (\<lambda>error source. error @ '': '' @ source) (re_text err) (re_sources err)) 1024)"

datatype 'o runtime_controller_error =
    ReconcilerFailed "'o reconciler_error" 'o
  | QueueError
  | OtherControllerError

text \<open>The events that are published, each with the object it is about; a failure to publish is only logged.\<close>

definition publish_controller_error_as_k8s_event :: "'o runtime_controller_error \<Rightarrow> ('o kube_event \<times> 'o) list option" where
  "publish_controller_error_as_k8s_event controller_error =
     (case controller_error of
        ReconcilerFailed error obj \<Rightarrow> map_option (\<lambda>event. [(event, obj)]) (error_to_event error)
      | _ \<Rightarrow> Some [])"

datatype report_level = LogInfo | LogWarn | LogError

definition report_controller_reconciled ::
    "('x, 'o runtime_controller_error) result \<Rightarrow> (report_level \<times> ('o kube_event \<times> 'o) list) option" where
  "report_controller_reconciled outcome =
     (case outcome of
        Inr _ \<Rightarrow> Some (LogInfo, [])
      | Inl controller_error \<Rightarrow> map_option (Pair (if controller_error = QueueError then LogWarn else LogError))
          (publish_controller_error_as_k8s_event controller_error))"

subsection \<open>The event builder\<close>

record event_object_reference =
  obr_api_version :: "string option"
  obr_kind :: "string option"
  obr_name :: "string option"
  obr_namespace :: "string option"
  obr_resource_version :: "string option"
  obr_uid :: "string option"

record event_builder =
  evb_name :: string
  evb_involved_object :: event_object_reference
  evb_event_type :: "event_type option"
  evb_action :: "string option"
  evb_reason :: "string option"
  evb_message :: "string option"
  evb_reporting_component :: "string option"
  evb_reporting_instance :: "string option"

text \<open>\<open>name_in_meta\<close> and \<open>resource_version\<close> are the fields of the metadata, which may be unset.\<close>

definition event_builder_new :: "kube_object \<Rightarrow> string option \<Rightarrow> string option \<Rightarrow> event_builder" where
  "event_builder_new resource name_in_meta resource_version =
     \<lparr>evb_name = ko_name_any resource,
      evb_involved_object = \<lparr>obr_api_version = Some (ko_api_version resource), obr_kind = Some (ko_kind resource),
        obr_name = name_in_meta, obr_namespace = ko_namespace resource, obr_resource_version = resource_version,
        obr_uid = ko_uid resource\<rparr>,
      evb_event_type = None, evb_action = None, evb_reason = None, evb_message = None,
      evb_reporting_component = None, evb_reporting_instance = None\<rparr>"

definition set_event_type :: "event_type \<Rightarrow> event_builder \<Rightarrow> event_builder" where
  "set_event_type t self = self\<lparr>evb_event_type := Some t\<rparr>"

definition set_event_action :: "string \<Rightarrow> event_builder \<Rightarrow> event_builder" where
  "set_event_action action self = self\<lparr>evb_action := Some action\<rparr>"

definition set_event_reason :: "string \<Rightarrow> event_builder \<Rightarrow> event_builder" where
  "set_event_reason reason self = self\<lparr>evb_reason := Some reason\<rparr>"

definition set_event_message :: "string \<Rightarrow> event_builder \<Rightarrow> event_builder" where
  "set_event_message message self = self\<lparr>evb_message := Some message\<rparr>"

definition set_reporting_component :: "string \<Rightarrow> event_builder \<Rightarrow> event_builder" where
  "set_reporting_component c self = self\<lparr>evb_reporting_component := Some c\<rparr>"

definition set_reporting_instance :: "string \<Rightarrow> event_builder \<Rightarrow> event_builder" where
  "set_reporting_instance i self = self\<lparr>evb_reporting_instance := Some i\<rparr>"

text \<open>The fields that are always empty (\<open>related\<close>, \<open>series\<close>, the host of the source) are left out.\<close>

record built_event =
  bev_action :: "string option"
  bev_count :: "int option"
  bev_event_time :: "int option"
  bev_first_timestamp :: "int option"
  bev_last_timestamp :: "int option"
  bev_involved_object :: event_object_reference
  bev_message :: "string option"
  bev_generate_name :: "string option"
  bev_reason :: "string option"
  bev_reporting_component :: "string option"
  bev_reporting_instance :: "string option"
  bev_source_component :: "string option option"
  bev_type :: "string option"

definition event_build :: "int \<Rightarrow> event_builder \<Rightarrow> built_event" where
  "event_build now self =
     \<lparr>bev_action = evb_action self, bev_count = Some 1, bev_event_time = Some now, bev_first_timestamp = Some now,
      bev_last_timestamp = Some now, bev_involved_object = evb_involved_object self, bev_message = evb_message self,
      bev_generate_name = Some (evb_name self @ ''-''), bev_reason = evb_reason self,
      bev_reporting_component = evb_reporting_component self, bev_reporting_instance = evb_reporting_instance self,
      bev_source_component = Some (evb_reporting_component self), bev_type = map_option event_type_fmt (evb_event_type self)\<rparr>"

subsection \<open>The end-of-support check\<close>

record eos_options =
  eo_interval :: duration
  eo_disabled :: bool
  eo_support_duration :: duration

definition eos_default_interval :: "bool \<Rightarrow> duration" where
  "eos_default_interval debug = (if debug then from_secs 30 else the (from_days_unchecked 1))"

definition eos_default_support_duration :: duration where
  "eos_default_support_duration = the (from_days_unchecked 365)"

record eos_checker =
  ec_built_datetime :: int
  ec_eos_datetime :: int
  ec_interval :: duration
  ec_disabled :: bool

text \<open>
  Times are nanoseconds since the epoch, up to the last one \<open>zoned_max\<close> of the library; \<open>parse\<close> reads the
  build time. The outer \<^const>\<open>None\<close> is the panic of the addition.
\<close>

definition eos_checker_new ::
    "bool \<Rightarrow> int \<Rightarrow> (string \<Rightarrow> (int, 'e) result) \<Rightarrow> int \<Rightarrow> string \<Rightarrow> eos_options \<Rightarrow> (eos_checker, 'e) result option" where
  "eos_checker_new debug zoned_max parse now built_time options =
     (case (if debug then Inr now else parse built_time) of
        Inl e \<Rightarrow> Some (Inl e)
      | Inr built_datetime \<Rightarrow>
          (let eos_datetime = built_datetime + int (nanos (eo_support_duration options))
           in if zoned_max < eos_datetime then None
              else Some (Inr \<lparr>ec_built_datetime = built_datetime, ec_eos_datetime = eos_datetime,
                ec_interval = eo_interval options, ec_disabled = eo_disabled options\<rparr>)))"

text \<open>
  A warning is the build time and the age of the build; \<^const>\<open>None\<close> is the panic of \<open>expect\<close> on a
  negative age. The arms of \<open>select!\<close> that become ready in turn are the input of the loop.
\<close>

definition emit_warning :: "eos_checker \<Rightarrow> int \<Rightarrow> (int \<times> string) option" where
  "emit_warning self now =
     (let age = now - ec_built_datetime self
      in if age < 0 then None else Some (ec_built_datetime self, duration_fmt (Duration (nat age))))"

datatype eos_ready = ShutdownSignal | IntervalTick int

fun eos_loop :: "eos_checker \<Rightarrow> eos_ready list \<Rightarrow> (int \<times> string) list option" where
  "eos_loop self [] = Some []"
| "eos_loop self (ShutdownSignal # ready) = Some []"
| "eos_loop self (IntervalTick now # ready) =
     (if now \<le> ec_eos_datetime self then eos_loop self ready
      else Option.bind (emit_warning self now) (\<lambda>w. map_option (Cons w) (eos_loop self ready)))"

definition eos_run :: "eos_checker \<Rightarrow> eos_ready list \<Rightarrow> (int \<times> string) list option" where
  "eos_run self ready = (if ec_disabled self then Some [] else eos_loop self ready)"

subsection \<open>Helpers\<close>

datatype watch_namespace = WatchAll | WatchOne string

definition watch_namespace_from :: "string \<Rightarrow> watch_namespace" where
  "watch_namespace_from s = (if s = [] then WatchAll else WatchOne s)"

fun watch_namespace_api :: "watch_namespace \<Rightarrow> 'api \<Rightarrow> (string \<Rightarrow> 'api) \<Rightarrow> 'api" where
  "watch_namespace_api WatchAll all_api namespaced_api = all_api"
| "watch_namespace_api (WatchOne n) all_api namespaced_api = namespaced_api n"

text \<open>\<open>join\<close> is \<open>Url::join\<close>.\<close>

fun join_many :: "('u \<Rightarrow> string \<Rightarrow> ('u, 'e) result) \<Rightarrow> 'u \<Rightarrow> string list \<Rightarrow> ('u, 'e) result" where
  "join_many join_url url [] = Inr url"
| "join_many join_url url (input # inputs) =
     and_then (if \<not> (input \<noteq> [] \<and> last input = CHR ''/'') \<and> inputs \<noteq> [] then join_url url (input @ ''/'') else join_url url input)
       (\<lambda>url. join_many join_url url inputs)"

definition startup_lines :: "string \<Rightarrow> string \<Rightarrow> string option \<Rightarrow> string \<Rightarrow> string \<Rightarrow> string \<Rightarrow> string list" where
  "startup_lines pkg_description pkg_version git_version target built_time rustc_version =
     (let git = (case git_version of None \<Rightarrow> [] | Some git \<Rightarrow> '' (Git information: '' @ git @ '')'')
      in [''Starting '' @ pkg_description,
          ''This is version '' @ pkg_version @ git @ '', built for '' @ target @ '' by '' @ rustc_version @ '' at '' @ built_time])"

datatype 'e kubelet_error = BuildConfigzRequest 'e string | FetchNodeKubeletConfig 'e string

text \<open>\<open>make_request\<close> builds the request for a path, \<open>send\<close> gets the cluster domain of the answer.\<close>

definition kubelet_config_fetch ::
    "(string \<Rightarrow> ('req, 'e) result) \<Rightarrow> ('req \<Rightarrow> ('d, 'e) result) \<Rightarrow> string \<Rightarrow> ('d, 'e kubelet_error) result" where
  "kubelet_config_fetch make_request send node_name =
     (let url_path = ''/api/v1/nodes/'' @ node_name @ ''/proxy/configz''
      in and_then (map_err (\<lambda>e. BuildConfigzRequest e url_path) (make_request url_path)) (\<lambda>req.
         map_err (\<lambda>e. FetchNodeKubeletConfig e node_name) (send req)))"

definition kubernetes_cluster_domain ::
    "(string \<Rightarrow> ('d, 'e kubelet_error) result) \<Rightarrow> 'd option \<Rightarrow> string \<Rightarrow> ('d, 'e kubelet_error) result" where
  "kubernetes_cluster_domain fetch configured node_name =
     (case configured of Some cluster_domain \<Rightarrow> Inr cluster_domain | None \<Rightarrow> fetch node_name)"

subsection \<open>The iterators return the items\<close>

text \<open>The items that repeated calls of a \<open>next\<close> give.\<close>

inductive yields :: "('s \<Rightarrow> ('a \<times> 's) option) \<Rightarrow> 's \<Rightarrow> 'a list \<Rightarrow> bool" for next_item :: "'s \<Rightarrow> ('a \<times> 's) option" where
  done_yield: "next_item s = None \<Longrightarrow> yields next_item s []"
| one_yield: "next_item s = Some (x, s') \<Longrightarrow> yields next_item s' xs \<Longrightarrow> yields next_item s (x # xs)"

lemma yields_left: "yields either_next (EitherLeft xs) xs"
  by (induction xs) (auto intro: yields.intros)

lemma yields_right: "yields either_next (EitherRight xs) (rev xs)"
proof (induction xs rule: rev_induct)
  case (snoc x xs)
  have "list_next_back (xs @ [x]) = Some (x, xs)" by (cases xs) auto
  with snoc show ?case by (auto intro: yields.intros)
qed (auto intro: yields.intros)

lemma reverse_if_yields: "yields either_next (reverse_if cond xs) (if cond then rev xs else xs)"
  by (simp add: reverse_if_def yields_left yields_right)

fun flattened :: "(('t, 'e) result list, 'e) result list \<Rightarrow> ('t, 'e) result list" where
  "flattened [] = []"
| "flattened (Inl err # outer) = Inl err # flattened outer"
| "flattened (Inr inner # outer) = inner @ flattened outer"

lemma try_flatten_outer_Nil: "try_flatten_outer outer = None \<Longrightarrow> flattened outer = []"
  by (induction outer rule: try_flatten_outer.induct) auto

lemma try_flatten_outer_Cons:
  "try_flatten_outer outer = Some (v, s) \<Longrightarrow>
   flattened outer = v # (case tf_inner_iterator s of None \<Rightarrow> [] | Some inner \<Rightarrow> inner) @ flattened (tf_outer_iterator s)"
  by (induction outer rule: try_flatten_outer.induct) auto

lemma try_flatten_yields_from:
  "xs = (case tf_inner_iterator s of None \<Rightarrow> [] | Some inner \<Rightarrow> inner) @ flattened (tf_outer_iterator s) \<Longrightarrow>
   yields try_flatten_next s xs"
proof (induction xs arbitrary: s)
  case Nil
  then have empty: "flattened (tf_outer_iterator s) = []" "tf_inner_iterator s = None \<or> tf_inner_iterator s = Some []"
    by (auto split: option.splits)
  have "try_flatten_outer (tf_outer_iterator s) = None"
  proof (cases "try_flatten_outer (tf_outer_iterator s)")
    case (Some p)
    then show ?thesis using try_flatten_outer_Cons [of _ "fst p" "snd p"] empty(1) by simp
  qed
  then have "try_flatten_next s = None" using empty(2) by (auto simp: try_flatten_next_def)
  then show ?case by (rule done_yield)
next
  case (Cons x xs)
  have "\<exists>s'. try_flatten_next s = Some (x, s') \<and>
      xs = (case tf_inner_iterator s' of None \<Rightarrow> [] | Some inner \<Rightarrow> inner) @ flattened (tf_outer_iterator s')"
  proof (cases "tf_inner_iterator s = None \<or> tf_inner_iterator s = Some []")
    case True
    then have all: "x # xs = flattened (tf_outer_iterator s)" using Cons.prems by auto
    then have "try_flatten_outer (tf_outer_iterator s) \<noteq> None" using try_flatten_outer_Nil by fastforce
    then obtain v s' where "try_flatten_outer (tf_outer_iterator s) = Some (v, s')" by auto
    with try_flatten_outer_Cons [OF this] all True show ?thesis by (auto simp: try_flatten_next_def)
  next
    case False
    then obtain inner where "tf_inner_iterator s = Some (x # inner)" using Cons.prems by (auto simp: neq_Nil_conv)
    then show ?thesis using Cons.prems by (simp add: try_flatten_next_def)
  qed
  then show ?case using Cons.IH by (blast intro: yields.intros)
qed

lemma try_flatten_yields: "yields try_flatten_next (try_flatten outer) (flattened outer)"
  by (rule try_flatten_yields_from) (simp add: try_flatten_def)

subsection \<open>Warnings after the end of support\<close>

text \<open>The ticks before the shutdown signal.\<close>

fun ticks :: "eos_ready list \<Rightarrow> int list" where
  "ticks [] = []"
| "ticks (ShutdownSignal # ready) = []"
| "ticks (IntervalTick now # ready) = now # ticks ready"

lemma eos_warnings:
  assumes "eos_checker_new debug zoned_max parse now built_time options = Some (Inr self)"
  shows "eos_run self ready = Some (if ec_disabled self then [] else map (\<lambda>t. (ec_built_datetime self,
      duration_fmt (Duration (nat (t - ec_built_datetime self))))) (filter (\<lambda>t. ec_eos_datetime self < t) (ticks ready)))"
proof -
  have "ec_built_datetime self \<le> ec_eos_datetime self"
    using assms by (auto simp: eos_checker_new_def Let_def split: sum.splits if_splits)
  then have "eos_loop self ready = Some (map (\<lambda>t. (ec_built_datetime self,
      duration_fmt (Duration (nat (t - ec_built_datetime self))))) (filter (\<lambda>t. ec_eos_datetime self < t) (ticks ready)))"
    by (induction ready rule: ticks.induct) (auto simp: emit_warning_def)
  then show ?thesis by (simp add: eos_run_def)
qed

subsection \<open>The notes of events\<close>

text \<open>The characters of a string in UTF-8: each a byte that starts one, followed by continuation bytes.\<close>

definition utf8_chars :: "string list \<Rightarrow> bool" where
  "utf8_chars cs \<longleftrightarrow> (\<forall>c\<in>set cs. c \<noteq> [] \<and> \<not> is_continuation (hd c) \<and> (\<forall>b\<in>set (tl c). is_continuation b))"

definition utf8_string :: "string \<Rightarrow> bool" where
  "utf8_string s \<longleftrightarrow> (\<exists>cs. utf8_chars cs \<and> s = concat cs)"

lemma utf8_string_append: "utf8_string s \<Longrightarrow> utf8_string t \<Longrightarrow> utf8_string (s @ t)"
proof -
  assume "utf8_string s" "utf8_string t"
  then obtain cs ds where "utf8_chars cs" "s = concat cs" "utf8_chars ds" "t = concat ds" by (auto simp: utf8_string_def)
  then have "utf8_chars (cs @ ds)" "s @ t = concat (cs @ ds)" by (auto simp: utf8_chars_def)
  then show "utf8_string (s @ t)" unfolding utf8_string_def by blast
qed

lemma utf8_ascii: "\<forall>b\<in>set s. (of_char b :: nat) < 128 \<Longrightarrow> utf8_string s"
  unfolding utf8_string_def utf8_chars_def
  by (intro exI [where x = "map (\<lambda>b. [b]) s"]) (auto simp: is_continuation_def)

lemma find_start_of_char_greatest:
  "\<exists>q. find_start_of_char s pos = Some q \<and> q \<le> pos \<and> is_char_boundary s q \<and> (\<forall>r. q < r \<longrightarrow> r \<le> pos \<longrightarrow> \<not> is_char_boundary s r)"
proof (induction pos)
  case 0
  then show ?case by (simp add: is_char_boundary_def)
next
  case (Suc pos)
  then show ?case by (cases "is_char_boundary s (Suc pos)") (auto simp: le_Suc_eq)
qed

text \<open>The boundaries are the ends of the first characters.\<close>

lemma boundary_chars:
  "utf8_chars cs \<Longrightarrow> is_char_boundary (concat cs) p \<longleftrightarrow> (\<exists>k\<le>length cs. p = length (concat (take k cs)))"
proof (induction cs arbitrary: p)
  case Nil
  then show ?case by (auto simp: is_char_boundary_def)
next
  case (Cons c cs)
  have c: "c \<noteq> []" "\<not> is_continuation (hd c)" "\<And>b. b \<in> set (tl c) \<Longrightarrow> is_continuation b" and cs: "utf8_chars cs"
    using Cons.prems by (auto simp: utf8_chars_def)
  have later: "is_char_boundary (c @ concat cs) (length c + q) \<longleftrightarrow> is_char_boundary (concat cs) q" for q
  proof (cases "q = 0")
    case True
    have "\<not> is_continuation (concat cs ! 0)" if "concat cs \<noteq> []"
      using cs that by (induction cs) (auto simp: utf8_chars_def nth_append hd_conv_nth)
    then show ?thesis using c(1) by (auto simp: is_char_boundary_def True nth_append)
  next
    case False
    then show ?thesis using c(1) by (auto simp: is_char_boundary_def nth_append)
  qed
  have inside: "\<not> is_char_boundary (c @ concat cs) p" if "0 < p" "p < length c" for p
  proof -
    have "tl c ! (p - 1) = c ! p" "p - 1 < length (tl c)" using that by (simp_all add: nth_tl)
    then have "c ! p \<in> set (tl c)" by (metis nth_mem)
    then show ?thesis using that c(3) by (simp add: is_char_boundary_def nth_append)
  qed
  have "is_char_boundary (c @ concat cs) p \<longleftrightarrow> p = 0 \<or> (\<exists>q. p = length c + q \<and> is_char_boundary (concat cs) q)"
  proof (cases "p < length c")
    case True
    then show ?thesis using inside [of p] by (cases "p = 0") (simp_all add: is_char_boundary_def)
  next
    case False
    then obtain q where "p = length c + q" by (metis le_add_diff_inverse not_less)
    then show ?thesis using later [of q] c(1) by simp
  qed
  also have "\<dots> \<longleftrightarrow> (\<exists>k\<le>length (c # cs). p = length (concat (take k (c # cs))))"
  proof
    assume "p = 0 \<or> (\<exists>q. p = length c + q \<and> is_char_boundary (concat cs) q)"
    then show "\<exists>k\<le>length (c # cs). p = length (concat (take k (c # cs)))"
    proof (elim disjE exE conjE)
      assume "p = 0"
      then show ?thesis by (intro exI [where x = 0]) simp
    next
      fix q assume "p = length c + q" "is_char_boundary (concat cs) q"
      then obtain k where "k \<le> length cs" "p = length c + length (concat (take k cs))" using Cons.IH [OF cs] by auto
      then show ?thesis by (intro exI [where x = "Suc k"]) simp
    qed
  next
    assume "\<exists>k\<le>length (c # cs). p = length (concat (take k (c # cs)))"
    then obtain k where k: "k \<le> length (c # cs)" "p = length (concat (take k (c # cs)))" by blast
    then show "p = 0 \<or> (\<exists>q. p = length c + q \<and> is_char_boundary (concat cs) q)"
      by (cases k) (auto simp: Cons.IH [OF cs])
  qed
  finally show ?case by simp
qed

text \<open>The cut of a long message.\<close>

lemma truncated_chars:
  assumes cs: "utf8_chars cs" and long: "n < length (concat cs)" "length ELLIPSIS \<le> n"
  shows "\<exists>k<length cs. truncate_with_ellipsis (concat cs) n = Some (concat (take k cs) @ ELLIPSIS) \<and>
    length (concat (take k cs)) \<le> n - length ELLIPSIS \<and> n - length ELLIPSIS < length (concat (take (Suc k) cs))"
proof -
  obtain q where q: "find_start_of_char (concat cs) (n - length ELLIPSIS) = Some q" "q \<le> n - length ELLIPSIS"
      "is_char_boundary (concat cs) q" "\<And>r. q < r \<Longrightarrow> r \<le> n - length ELLIPSIS \<Longrightarrow> \<not> is_char_boundary (concat cs) r"
    using find_start_of_char_greatest by blast
  then obtain k where k: "k \<le> length cs" "q = length (concat (take k cs))" using boundary_chars [OF cs] by blast
  have less: "k < length cs"
  proof (rule ccontr)
    assume "\<not> k < length cs"
    then show False using k q(2) long by simp
  qed
  then have next_char: "concat (take (Suc k) cs) = concat (take k cs) @ cs ! k" by (simp add: take_Suc_conv_app_nth)
  have "cs ! k \<noteq> []" using cs less by (simp add: utf8_chars_def)
  then have "q < length (concat (take (Suc k) cs))" by (simp add: next_char k(2))
  moreover have "is_char_boundary (concat cs) (length (concat (take (Suc k) cs)))"
    using boundary_chars [OF cs] less by (auto intro: Suc_leI)
  ultimately have "n - length ELLIPSIS < length (concat (take (Suc k) cs))" using q(4) not_le by blast
  moreover have "take q (concat cs) = concat (take k cs)"
    using append_take_drop_id [of k cs] by (metis append_eq_conv_conj concat_append k(2))
  ultimately show ?thesis using less k q(1,2) long by (auto simp: truncate_with_ellipsis_def)
qed

lemma utf8_take: "utf8_chars cs \<Longrightarrow> utf8_string (concat (take k cs))"
  unfolding utf8_string_def utf8_chars_def by (metis in_set_takeD)

lemma utf8_ellipsis: "utf8_string ELLIPSIS" "length ELLIPSIS = 3"
proof -
  have "utf8_chars [ELLIPSIS]" by (simp add: utf8_chars_def ELLIPSIS_def is_continuation_def)
  then show "utf8_string ELLIPSIS" unfolding utf8_string_def by (intro exI [where x = "[ELLIPSIS]"]) simp
qed (simp add: ELLIPSIS_def)

definition error_chain_text :: "'o reconciler_error \<Rightarrow> string" where
  "error_chain_text err = re_text err @ concat (map (\<lambda>source. '': '' @ source) (re_sources err))"

lemma error_chain_text_eq: "foldl (\<lambda>error source. error @ '': '' @ source) t ss = t @ concat (map (\<lambda>source. '': '' @ source) ss)"
  by (induction ss arbitrary: t) simp_all

lemma error_chain_utf8:
  assumes "utf8_string (re_text err)" "list_all utf8_string (re_sources err)"
  shows "utf8_string (error_chain_text err)"
proof -
  have sep: "utf8_string '': ''" by (rule utf8_ascii) simp
  have "utf8_string []" by (rule utf8_ascii) simp
  then have "list_all utf8_string ss \<Longrightarrow> utf8_string (concat (map (\<lambda>source. '': '' @ source) ss))" for ss
    by (induction ss) (use sep utf8_string_append in \<open>simp_all del: append.simps\<close>)
  then show ?thesis using assms utf8_string_append by (simp add: error_chain_text_def)
qed

text \<open>
  C40: The event for an error of a controller can always be made and published: the text of the whole
  chain of errors, separated by colons, is its note when it has at most 1024 bytes. Otherwise the note has
  at most 1024 bytes, is still a string of whole UTF-8 characters, and consists of as many of the first
  characters of the text as leave room for the ellipsis, and the ellipsis.
\<close>

theorem event_note_of_error:
  assumes "utf8_string (re_text err)" "list_all utf8_string (re_sources err)"
  shows "\<exists>event text. error_to_event err = Some event \<and> ke_note event = Some text \<and> length text \<le> 1024 \<and> utf8_string text \<and>
    (if length (error_chain_text err) \<le> 1024 then text = error_chain_text err
     else \<exists>cs k. error_chain_text err = concat cs \<and> utf8_chars cs \<and> k < length cs \<and> text = concat (take k cs) @ ELLIPSIS \<and>
       1021 < length (concat (take (Suc k) cs)))"
proof -
  have event: "error_to_event err = map_option (\<lambda>text. \<lparr>ke_type = EventWarning, ke_reason = re_category err, ke_note = Some text,
      ke_action = ''Reconcile'', ke_secondary = re_secondary_object err\<rparr>) (truncate_with_ellipsis (error_chain_text err) 1024)"
    by (simp only: error_to_event_def error_chain_text_def error_chain_text_eq)
  note utf8 = error_chain_utf8 [OF assms]
  show ?thesis
  proof (cases "length (error_chain_text err) \<le> 1024")
    case True
    then show ?thesis using event utf8 by (simp add: truncate_with_ellipsis_def)
  next
    case False
    obtain cs where cs: "utf8_chars cs" "error_chain_text err = concat cs" using utf8 by (auto simp: utf8_string_def)
    obtain k where k: "k < length cs" "truncate_with_ellipsis (concat cs) 1024 = Some (concat (take k cs) @ ELLIPSIS)"
        "length (concat (take k cs)) \<le> 1021" "1021 < length (concat (take (Suc k) cs))"
      using truncated_chars [OF cs(1), of 1024] False by (auto simp: cs(2) utf8_ellipsis(2))
    have "utf8_string (concat (take k cs) @ ELLIPSIS)" by (rule utf8_string_append [OF utf8_take [OF cs(1)] utf8_ellipsis(1)])
    moreover have "length (concat (take k cs) @ ELLIPSIS) \<le> 1024" using k(3) by (simp add: utf8_ellipsis(2))
    ultimately show ?thesis using event k cs False by auto
  qed
qed

theorem event_note_of_error_witness:
  "\<exists>event text. error_to_event \<lparr>re_text = replicate 1020 (CHR ''x'') @ ELLIPSIS, re_sources = [''not found''], re_category = ''ApplyService'',
       re_secondary_object = None :: unit option\<rparr> = Some event \<and> ke_note event = Some text \<and> length text \<le> 1024 \<and> utf8_string text"
proof -
  have "utf8_string (replicate 1020 (CHR ''x''))" "utf8_string ''not found''" by (rule utf8_ascii, simp)+
  then have "utf8_string (replicate 1020 (CHR ''x'') @ ELLIPSIS)" "utf8_string ''not found''"
    using utf8_string_append utf8_ellipsis(1) by blast+
  with event_note_of_error [of "\<lparr>re_text = replicate 1020 (CHR ''x'') @ ELLIPSIS, re_sources = [''not found''],
      re_category = ''ApplyService'', re_secondary_object = None :: unit option\<rparr>"]
  show ?thesis by auto
qed

end
