(* ===== verification/Listeners.thy ===== *)
theory Listeners
  imports BTree_Map
begin

section \<open>Listeners\<close>

text \<open>
  \<open>stackable-operator/src/crd/listener\<close>: the types of listeners and listener classes, the choice of the
  address type, and \<open>DeepMerge\<close> for listeners, by which object overrides are merged into them. The
  merge of strings, numbers, options and metadata and the strategies for lists and maps are those of
  \<open>k8s-openapi\<close>, a parameter; an override is an opaque value.
\<close>

subsection \<open>Address types\<close>

datatype service_type = NodePortService | LoadBalancerService | ClusterIPService

datatype kubernetes_traffic_policy = ClusterPolicy | LocalPolicy

datatype address_type = HostnameAddress | IpAddress

datatype preferred_address_type = HostnameConservative | PreferHostname | PreferIp

record listener_class_spec =
  lc_service_type :: service_type
  lc_load_balancer_allocate_node_ports :: bool
  lc_load_balancer_class :: "string option"
  lc_service_annotations :: "(string, string) btreemap"
  lc_service_external_traffic_policy :: "kubernetes_traffic_policy option"
  lc_preferred_address_type :: preferred_address_type
  lc_pinned_node_ports :: bool
  lc_service_overrides :: string

definition default_preferred_address_type :: preferred_address_type where
  "default_preferred_address_type = HostnameConservative"

definition default_load_balancer_allocate_node_ports :: bool where
  "default_load_balancer_allocate_node_ports = True"

fun resolve_address_type :: "preferred_address_type \<Rightarrow> listener_class_spec \<Rightarrow> address_type" where
  "resolve_address_type HostnameConservative listener_class =
     (case lc_service_type listener_class of NodePortService \<Rightarrow> IpAddress | _ \<Rightarrow> HostnameAddress)"
| "resolve_address_type PreferHostname listener_class = HostnameAddress"
| "resolve_address_type PreferIp listener_class = IpAddress"

definition resolve_preferred_address_type :: "listener_class_spec \<Rightarrow> address_type" where
  "resolve_preferred_address_type self = resolve_address_type (lc_preferred_address_type self) self"

subsection \<open>Listeners and their merge\<close>

record listener_port =
  lp_name :: string
  lp_port :: int
  lp_protocol :: "string option"

record listener_ingress =
  li_address :: string
  li_address_type :: address_type
  li_ports :: "(string, int) btreemap"

record listener_spec =
  ls_class_name :: "string option"
  ls_extra_pod_selector_labels :: "(string, string) btreemap"
  ls_ports :: "listener_port list option"
  ls_publish_not_ready_addresses :: "bool option"
  ls_object_overrides :: "string list"

record listener_status =
  lst_service_name :: "string option"
  lst_ingress_addresses :: "listener_ingress list option"
  lst_node_ports :: "(string, int) btreemap option"

record 'm listener =
  listener_metadata :: 'm
  listener_spec_of :: listener_spec
  listener_status_of :: "listener_status option"

definition default_publish_not_ready_addresses :: "bool option" where
  "default_publish_not_ready_addresses = Some True"

record 'm merge_library =
  ml_metadata :: "'m \<Rightarrow> 'm \<Rightarrow> 'm"
  ml_string :: "string \<Rightarrow> string \<Rightarrow> string"
  ml_int :: "int \<Rightarrow> int \<Rightarrow> int"
  ml_string_option :: "string option \<Rightarrow> string option \<Rightarrow> string option"
  ml_bool_option :: "bool option \<Rightarrow> bool option \<Rightarrow> bool option"
  ml_status_option :: "(listener_status \<Rightarrow> listener_status \<Rightarrow> listener_status) \<Rightarrow>
    listener_status option \<Rightarrow> listener_status option \<Rightarrow> listener_status option"
  ml_granular_strings :: "(string \<Rightarrow> string \<Rightarrow> string) \<Rightarrow> (string, string) btreemap \<Rightarrow> (string, string) btreemap \<Rightarrow>
    (string, string) btreemap"
  ml_granular_ints :: "(int \<Rightarrow> int \<Rightarrow> int) \<Rightarrow> (string, int) btreemap \<Rightarrow> (string, int) btreemap \<Rightarrow> (string, int) btreemap"
  ml_granular_int_option :: "(int \<Rightarrow> int \<Rightarrow> int) \<Rightarrow> (string, int) btreemap option \<Rightarrow> (string, int) btreemap option \<Rightarrow>
    (string, int) btreemap option"
  ml_list_ports :: "(listener_port \<Rightarrow> listener_port \<Rightarrow> bool) \<Rightarrow> (listener_port \<Rightarrow> listener_port \<Rightarrow> listener_port) \<Rightarrow>
    listener_port list option \<Rightarrow> listener_port list option \<Rightarrow> listener_port list option"
  ml_list_ingress :: "(listener_ingress \<Rightarrow> listener_ingress \<Rightarrow> bool) \<Rightarrow> (listener_ingress \<Rightarrow> listener_ingress \<Rightarrow> listener_ingress) \<Rightarrow>
    listener_ingress list option \<Rightarrow> listener_ingress list option \<Rightarrow> listener_ingress list option"

definition listener_port_merge :: "'m merge_library \<Rightarrow> listener_port \<Rightarrow> listener_port \<Rightarrow> listener_port" where
  "listener_port_merge lib self other =
     self\<lparr>lp_name := ml_string lib (lp_name self) (lp_name other), lp_port := ml_int lib (lp_port self) (lp_port other),
       lp_protocol := ml_string_option lib (lp_protocol self) (lp_protocol other)\<rparr>"

definition listener_ingress_merge :: "'m merge_library \<Rightarrow> listener_ingress \<Rightarrow> listener_ingress \<Rightarrow> listener_ingress" where
  "listener_ingress_merge lib self other =
     self\<lparr>li_address := ml_string lib (li_address self) (li_address other), li_address_type := li_address_type other,
       li_ports := ml_granular_ints lib (ml_int lib) (li_ports self) (li_ports other)\<rparr>"

definition listener_spec_merge :: "'m merge_library \<Rightarrow> listener_spec \<Rightarrow> listener_spec \<Rightarrow> listener_spec" where
  "listener_spec_merge lib self other =
     self\<lparr>ls_class_name := ml_string_option lib (ls_class_name self) (ls_class_name other),
       ls_extra_pod_selector_labels := ml_granular_strings lib (ml_string lib)
         (ls_extra_pod_selector_labels self) (ls_extra_pod_selector_labels other),
       ls_ports := ml_list_ports lib (\<lambda>lhs rhs. lp_name lhs = lp_name rhs) (listener_port_merge lib) (ls_ports self) (ls_ports other),
       ls_publish_not_ready_addresses := ml_bool_option lib (ls_publish_not_ready_addresses self)
         (ls_publish_not_ready_addresses other)\<rparr>"

definition listener_status_merge :: "'m merge_library \<Rightarrow> listener_status \<Rightarrow> listener_status \<Rightarrow> listener_status" where
  "listener_status_merge lib self other =
     self\<lparr>lst_service_name := ml_string_option lib (lst_service_name self) (lst_service_name other),
       lst_ingress_addresses := ml_list_ingress lib (\<lambda>lhs rhs. li_address lhs = li_address rhs) (listener_ingress_merge lib)
         (lst_ingress_addresses self) (lst_ingress_addresses other),
       lst_node_ports := ml_granular_int_option lib (ml_int lib) (lst_node_ports self) (lst_node_ports other)\<rparr>"

definition listener_merge :: "'m merge_library \<Rightarrow> 'm listener \<Rightarrow> 'm listener \<Rightarrow> 'm listener" where
  "listener_merge lib self other =
     self\<lparr>listener_metadata := ml_metadata lib (listener_metadata self) (listener_metadata other),
       listener_spec_of := listener_spec_merge lib (listener_spec_of self) (listener_spec_of other),
       listener_status_of := ml_status_option lib (listener_status_merge lib) (listener_status_of self) (listener_status_of other)\<rparr>"

text \<open>An override of a listener cannot change the object overrides that the listener itself holds.\<close>

lemma object_overrides_not_merged:
  "ls_object_overrides (listener_spec_of (listener_merge lib self other)) = ls_object_overrides (listener_spec_of self)"
  by (simp add: listener_merge_def listener_spec_merge_def)

text \<open>Only listeners of node ports prefer an IP address by default.\<close>

lemma conservative_address_type:
  "lc_preferred_address_type c = default_preferred_address_type \<Longrightarrow>
   resolve_preferred_address_type c = IpAddress \<longleftrightarrow> lc_service_type c = NodePortService"
  by (cases "lc_service_type c") (simp_all add: resolve_preferred_address_type_def default_preferred_address_type_def)

end
