(* ===== verification/Spec2Isabelle.thy ===== *)
theory Spec2Isabelle
  imports K8s_Version Validation Length_Enforcement Role_Utils Cluster_Resources Pod_Resources Typed_Builders Overrides Writers Vector_Transforms Git_Sync Versioned_Reviews Webhook_Server Derive_Macros Reports Listeners
begin

text \<open>
  A verification library for the Rust workspace operator-rs, the library from which the Stackable
  operators for Kubernetes are built. Paths below are relative to \<open>src/crates\<close>; those without a
  crate are relative to \<open>src/crates/stackable-operator/src\<close>.

  \<^bold>\<open>The program.\<close> An operator watches custom resources that describe a cluster of a data product. In
  each reconciliation it merges the configuration given at three levels (operator defaults, role,
  role group) and validates it, builds Kubernetes objects with names, labels and annotations that
  the API server accepts, applies them through \<open>ClusterResources::add\<close>, deletes the objects of
  earlier reconciliations that were not added again, and computes the status conditions of the
  cluster. Beside the reconciliation it serves webhooks, which convert the custom resources between
  the versions of their definition with code that macros generate. The development follows these
  parts; each theory models one of them, each operation of the source is one definition with the
  name it has there (made unique by a prefix where needed), and each struct or enum one record or
  datatype.

  \<^bold>\<open>Foundations.\<close>
  \<^item> \<open>Prelude\<close>: Rust's \<open>Result\<close> and \<open>Ordering\<close>; the locales \<open>rust_ord\<close> (contract of \<open>Ord\<close>),
    \<open>display_from_str\<close> (a printer and a parser that reads it back) and \<open>normal_form\<close> (every parsed
    value is printed in a form that reads back). \<open>Rust_Str\<close>: decimal numbers, splitting, joining and
    trimming of strings. \<open>Regex_Match\<close>: regular expressions as data, their languages, and a matcher by
    derivatives proved equal to them. \<open>BTree_Map\<close>: \<open>BTreeMap\<close> and \<open>BTreeSet\<close> as sorted lists; the
    locale \<open>ordered_map\<close> is what clients use. \<open>F32\<close>: binary floating point numbers of 32 bits, exact
    results rounded to nearest, with their parser and shortest decimal output.

  \<^bold>\<open>Values and names.\<close>
  \<^item> \<open>K8s_Version\<close>: \<open>k8s-version/src\<close> (\<open>Level\<close>, \<open>Version\<close>, \<open>Group\<close>, \<open>ApiVersion\<close>): exact languages of the
    parsers, round trips, the order of versions, arithmetic with overflow.
  \<^item> \<open>Duration\<close>: \<open>stackable-shared/src/time/duration.rs\<close>: the parser loop against a grammar of
    fragments, round trip and its limits, panics of the constructors.
  \<^item> \<open>Quantities\<close>: \<open>cpu.rs\<close>, \<open>memory.rs\<close>: quantities, their arithmetic, and heap sizes for Java that
    never exceed the limit they are computed from.
  \<^item> \<open>Validation\<close>, \<open>Length_Enforcement\<close>: \<open>validation.rs\<close>, \<open>utils/length_enforcement.rs\<close>: what the
    validators accept, how they include each other, bounds of shortened names.
  \<^item> \<open>Kvp_Key\<close>, \<open>Kvp\<close>, \<open>Labels\<close>, \<open>Annotations\<close>: \<open>kvp\<close>: keys, generic key/value sets over the locale
    \<open>kvp_value\<close> (the trait \<open>Value\<close>), interpreted for label and annotation values; the recommended
    labels, selectors and the annotations read by the secret operator.
  \<^item> \<open>Typed_Names\<close>: \<open>v2/macros\<close>, \<open>v2/types\<close>, \<open>v2/role_utils.rs\<close>, \<open>v2/role_group_utils.rs\<close>: string types as lists
    of attributes; the names of the resources of a role group never panic.

  \<^bold>\<open>Configuration.\<close>
  \<^item> \<open>Config_Merge\<close>, \<open>Role_Utils\<close>: \<open>config/merge.rs\<close>, \<open>config/fragment.rs\<close>, the structs of
    \<open>commons/resources.rs\<close>, and \<open>role_utils.rs\<close>. The locale \<open>merge_laws\<close> (associative, idempotent) is
    interpreted for every merge; a role group's setting wins over the role's and the defaults, leaf
    by leaf.
  \<^item> \<open>Derive_Macros\<close>: \<open>stackable-operator-derive/src\<close>: the derive macros for merge and fragments, and the
    proof that the definitions for the resource structs are what they generate.
  \<^item> \<open>Overrides\<close>: \<open>config_overrides.rs\<close>, \<open>v2/config_overrides.rs\<close>, \<open>v2/jvm_argument_overrides.rs\<close>: overrides
    of role and role group act like one after the other (locale \<open>override_action\<close>).
  \<^item> \<open>Env_Vars\<close>: \<open>v2/builder/pod/container.rs\<close>, \<open>v2/env_overrides.rs\<close>: environment variables are ordered
    so that each comes after those it references, when the references have no cycle.
  \<^item> \<open>Writers\<close>: \<open>v2/config_file_writer.rs\<close>, \<open>v2/flask_config_writer.rs\<close>.
  \<^item> \<open>Log_Spec\<close>, \<open>Log_Framework\<close>, \<open>Vector_Config\<close>, \<open>Vector_Transforms\<close>: \<open>product_logging\<close>: merged log levels, the
    configuration files of the logging frameworks, the configuration of the log agent, and what the
    programs in it do with a line of a log.
  \<^item> \<open>Database_Connections\<close>: \<open>database_connections\<close>: the locale \<open>url_template_driver\<close> says that a URL
    template expands, in the environment of its container, to the URL with the credentials.

  \<^bold>\<open>Objects.\<close>
  \<^item> \<open>Builder_Meta\<close>, \<open>Builder_Volume\<close>, \<open>Builder_Container\<close>, \<open>Builder_Probe\<close>, \<open>Builder_Pod\<close>, \<open>Pod_Resources\<close>,
    \<open>Affinity\<close>: the builders under \<open>builder\<close>, \<open>commons/affinity.rs\<close> and the conversion of resources. The
    locale \<open>collision_checked\<close> is the contract of adding volumes and mounts: what is there already is
    kept, and a conflict is an error.
  \<^item> \<open>Typed_Builders\<close>: \<open>v2/builder\<close>, \<open>v2/kvp/label.rs\<close>, \<open>v2/cluster_resources.rs\<close>, \<open>v2/rbac.rs\<close>: variants of the
    builders without errors.
  \<^item> \<open>Connections\<close>, \<open>Commons\<close>: host names, secret class volumes, TLS, S3, LDAP and OIDC (locale
    \<open>volume_provider\<close>); image selection, OPA, access rights, random secrets.
  \<^item> \<open>Git_Sync\<close>: \<open>crd/git_sync\<close>: the resources of both versions and the conversion between them.
  \<^item> \<open>Listeners\<close>: \<open>crd/listener\<close>.

  \<^bold>\<open>Reconciliation.\<close>
  \<^item> \<open>Status_Condition\<close>: \<open>status/condition/*.rs\<close>, \<open>status/rollout.rs\<close>, \<open>commons/cluster_operation.rs\<close>. A
    \<open>ClusterConditionSet\<close> is its vector of slots; the locale \<open>condition_combiner\<close> is the contract of
    the function given to \<open>merge\<close>, interpreted for \<open>update_message\<close> and \<open>update_timestamps\<close>.
  \<^item> \<open>Kube_Client\<close>: \<open>client/mod.rs\<close> and \<open>deep_merger\<close> over an abstract API server.
  \<^item> \<open>Cluster_Resources\<close>: \<open>cluster_resources.rs\<close>. The deletion of orphans is a step relation in which
    the futures of \<open>tokio::try_join!\<close> interleave at their requests; no added object is deleted in any
    interleaving, every orphan is deleted when all tasks end well, and every run ends.
  \<^item> \<open>Reports\<close>: \<open>logging\<close>, \<open>builder/event.rs\<close>, \<open>eos\<close>, \<open>iter.rs\<close> and helpers.

  \<^bold>\<open>Versions and webhooks.\<close>
  \<^item> \<open>Versioned_Items\<close>, \<open>Versioned_Containers\<close>, \<open>Versioned_Tracking\<close>, \<open>Versioned_Crds\<close>, \<open>Versioned_Reviews\<close>:
    \<open>stackable-versioned-macros/src\<close>, from the actions of an item to its change set, the containers and
    conversions generated from it, the tracking of values that an older version lacks, and the
    conversion of reviews by the generated code.
  \<^item> \<open>Certificates\<close>, \<open>Webhooks\<close>, \<open>Webhook_Server\<close>: \<open>stackable-certs/src\<close>, \<open>stackable-webhook/src\<close>. The TLS
    server and the update of the webhooks are a step relation over the state they share; the served
    certificate is not expired, and the API server trusts it.
  \<^item> this theory: the agreement of the reported operation with the strategy that is applied, and built
    objects as \<open>ClusterResources\<close> sees them.

  \<^bold>\<open>Conventions.\<close> A Rust string is the list of its UTF-8 bytes. \<open>Result<T, E>\<close> is a sum with the error on
  the left, a panic is \<^const>\<open>None\<close> where one is possible. Fixed-width integers are words, or natural
  numbers with the bound written out. A method that takes \<open>&mut self\<close> returns the updated record; a
  builder that was changed before an error is not used afterwards, so that an error comes without
  it. Generated code is data with a semantics; a macro that panics, or whose output does not
  compile, is \<^const>\<open>None\<close>. Loops are structural recursions or have a termination proof. Fuel is
  used in the printer of \<open>f32\<close> only: sixty digits (\<open>shortest_from\<close>; nine always suffice for 32 bits) and
  eighty-six steps from the decimal exponent of the smallest number to beyond that of the largest
  (\<open>dec_exp_up\<close>). The depth in \<open>calculate_closure_rec\<close> is an argument of the source.

  \<^bold>\<open>Parameters.\<close> Code outside the repository is an argument of the definitions that use it. Data: the
  digest of the crate \<open>sha2\<close> (64 hexadecimal digits), the clock, random bytes and generated keys. The
  Kubernetes API server is a record of request functions over a state; \<open>kube_laws\<close> states what is
  relied on: listing returns exactly the stored objects that match, and deleting touches no other
  object than the named one, which is gone afterwards unless the request failed. \<open>webhook_api_laws\<close> does
  the same for the patches of webhooks. Parsers: URLs, IP addresses, image references, UUIDs, user-given
  regular expressions. Formats: JSON documents and their patches, Java properties, XML, the functions
  of the Vector Remap Language, template expansion. Merging: \<open>DeepMerge\<close> and the merge strategies of
  k8s-openapi. Macros: whether a text is an identifier, case conversion, serialisation, and the
  conversions that users write. Cryptography: certificates, keys and their encodings (\<open>x509_laws\<close>:
  a certificate ends with the validity it is
  built with, which starts now up to the rounding to seconds). The witnesses instantiate the
  parameters with concrete functions.

  \<^bold>\<open>Not modelled.\<close> Connections, watches and waiting of the client, and its parser of feature gates;
  TLS and HTTP of the webhook server; parsing of Rust code by the macros; the set-up of telemetry, the
  command line, signal handlers, \<open>containerdebug\<close> and \<open>xtask\<close>: these are I/O or glue to libraries. Log
  messages are left out throughout.
\<close>

section \<open>Properties across components\<close>

text \<open>
  What the status of a cluster says about its operation is what the operator does. For every cluster
  operation the conditions are computed without a panic; the reconciliation is reported as paused
  exactly when the strategy chosen from the same operation is the one that writes nothing; the
  cluster is reported as stopped exactly when the strategy scales it down, as unknown when it should
  be stopped but is paused, and as running otherwise; orphans are deleted unless it is paused.
\<close>

theorem reported_operation_matches_strategy:
  "\<exists>reported cs. operation_build_conditions op = Some reported \<and>
     compute_conditions now old [reported] = Some cs \<and>
     map_option status (find (\<lambda>c. cond_type c = ReconciliationPaused) cs) =
       Some (if strategy_from_operation op = ReconciliationPausedStrategy then StatusTrue else StatusFalse) \<and>
     map_option status (find (\<lambda>c. cond_type c = Stopped) cs) =
       Some (if strategy_from_operation op = ClusterStopped then StatusTrue
             else if strategy_from_operation op = ReconciliationPausedStrategy \<and> stopped op then StatusUnknown
             else StatusFalse) \<and>
     delete_orphans (strategy_from_operation op) = (\<not> reconciliation_paused op)"
proof -
  obtain b where b: "operation_build_conditions op = Some b" "slots_ok b"
      "\<And>t. slot b t = find (\<lambda>c. cond_type c = t) (rev [reconciliation_paused_condition op, cluster_stopped op])"
    using from_vec_ok unfolding operation_build_conditions_def by blast
  have reports: "fold_messages (built [b] ReconciliationPaused) = Some (reconciliation_paused_condition op)"
      "fold_messages (built [b] Stopped) = Some (cluster_stopped op)"
    by (simp_all add: built_def b(3) List.map_filter_simps reconciliation_paused_condition_def cluster_stopped_def Let_def)
  obtain r where r: "compute_conditions now old [b] = Some (condition_set_into_vec r)" "slots_ok r"
      "\<And>t. slot r t = reconciled now (find (\<lambda>c. cond_type c = t) (rev old)) (fold_messages (built [b] t))"
    using compute_conditions_slots [of "[b]"] b(2) by auto
  have status_of: "map_option status (reconciled now o' (Some c)) = Some (status c)" for o' c
    by (cases o') (simp_all add: stamped_def)
  have found: "map_option status (find (\<lambda>c. cond_type c = ReconciliationPaused) (condition_set_into_vec r)) =
        Some (status (reconciliation_paused_condition op))"
      "map_option status (find (\<lambda>c. cond_type c = Stopped) (condition_set_into_vec r)) = Some (status (cluster_stopped op))"
    by (simp_all only: find_into_vec [OF r(2)] r(3) reports status_of)
  show ?thesis
    by (intro exI [where x = b] exI [where x = "condition_set_into_vec r"] conjI b(1) r(1))
      (simp_all only: found, simp_all add: reconciliation_paused_condition_def cluster_stopped_def strategy_from_operation_def Let_def)
qed

subsection \<open>Built objects are recognised\<close>

text \<open>An object of the API server with the given metadata.\<close>

definition with_metadata :: "object_meta \<Rightarrow> resource \<Rightarrow> resource" where
  "with_metadata meta res =
     res\<lparr>res_name := (case om_name meta of Some n \<Rightarrow> n | None \<Rightarrow> []), res_namespace := om_namespace meta,
         res_labels := (case om_labels meta of Some m \<Rightarrow> m | None \<Rightarrow> []),
         res_owner_references := map_option (map or_uid) (om_owner_references meta)\<rparr>"

text \<open>
  C6: Objects made with the metadata builder belong to the cluster they are made for. When the owner
  reference and the recommended labels are set for a cluster, and \<open>ClusterResources\<close> is created for
  the same cluster, application, operator and controller, then \<open>add\<close> finds every label it expects
  on the built object, and in later reconciliations the object counts as owned by the cluster, so
  that it is deleted when it is not added again.
\<close>

theorem built_objects_recognised:
  assumes "ownerreference_from_resource cluster block c b = Inr b'" "omb_labels b = None"
    and "with_recommended_labels ob b' = Some (Inr b'')"
    and "ol_owner_name ob = ko_name_any cluster"
    and "cluster_resources_new (ol_app_name ob) (ol_operator_name ob) (ol_controller_name ob)
        \<lparr>ref_namespace = ko_namespace cluster, ref_name = Some (ko_name_any cluster), ref_uid = ko_uid cluster\<rparr> strategy overrides =
        (Inr self :: (_, 'p cluster_resources_error) result)"
  shows "check_labels (res_labels (with_metadata (meta_build b'') res)) (expected_labels self) =
      (Inr () :: (_, 'p cluster_resources_error) result) \<and>
    owned_by_cluster self (with_metadata (meta_build b'') res)"
proof -
  obtain L where L: "labels_recommended ob = Some (Inr L)" "b'' = with_labels L b'"
    using assms(3) by (auto simp: with_recommended_labels_def split: option.splits)
  have self: "cr_app_instance self = ko_name_any cluster" "cr_app_name self = ol_app_name ob" "ko_uid cluster = Some (cr_cluster_uid self)"
      "cr_manager self = format_full_controller_name (ol_operator_name ob) (ol_controller_name ob)"
    using assms(5) by (auto simp: cluster_resources_new_def)
  have "\<exists>uid. b' = b\<lparr>omb_ownerreference := Some \<lparr>or_api_version = ko_api_version cluster, or_block_owner_deletion = block,
      or_controller = c, or_kind = ko_kind cluster, or_name = ko_name_any cluster, or_uid = uid\<rparr>\<rparr> \<and> ko_uid cluster = Some uid"
    using assms(1)
    by (auto simp: ownerreference_from_resource_def initialize_from_resource_def owner_build_def owner_new_def owner_uid_opt_def
        owner_name_def owner_kind_def owner_api_version_def owner_block_owner_deletion_opt_def owner_controller_opt_def)
  then obtain r where r: "b' = b\<lparr>omb_ownerreference := Some r\<rparr>" "ko_uid cluster = Some (or_uid r)" by fastforce
  have "kvps_wf L" using L(1) recommended_wf by (simp add: recommended_Inr)
  then have "btree_collect L = L" by (simp add: kvps_wf_def btree_collect_id)
  then have "omb_labels b'' = Some L"
    using assms(2) by (simp add: L(2) r(1) with_labels_def get_or_insert_with_def kvps_extend_def kvps_new_def
        btree_collect_def)
  then have "res_labels (with_metadata (meta_build b'') res) = labels_into_map L"
    by (simp add: with_metadata_def meta_build_def)
  moreover have "check_labels (labels_into_map L) (expected_labels self) = (Inr () :: (_, 'p cluster_resources_error) result)"
    by (rule recommended_labels_expected [OF L(1)]) (simp_all add: self assms(4))
  moreover have "omb_ownerreference b'' = Some r" by (simp add: L(2) r(1) with_labels_def)
  then have "owned_by_cluster self (with_metadata (meta_build b'') res)"
    using self(3) r(2) by (simp add: owned_by_cluster_def with_metadata_def meta_build_def)
  ultimately show ?thesis by simp
qed

theorem built_objects_recognised_witness:
  "\<exists>b' b''. let cluster = \<lparr>ko_api_version = ''a/v1'', ko_kind = ''K'', ko_name_any = ''zk'', ko_namespace = Some ''ns'', ko_uid = Some ''42''\<rparr>;
      ob = \<lparr>ol_owner_name = ''zk'', ol_app_name = ''zookeeper'', ol_app_version = ''1'', ol_operator_name = ''op'',
        ol_controller_name = ''c'', ol_role = ''server'', ol_role_group = ''default''\<rparr>
     in ownerreference_from_resource cluster None (Some True) meta_new = Inr b' \<and> with_recommended_labels ob b' = Some (Inr b'') \<and>
       (\<exists>self. cluster_resources_new ''zookeeper'' ''op'' ''c''
          \<lparr>ref_namespace = Some ''ns'', ref_name = Some ''zk'', ref_uid = Some ''42''\<rparr> DefaultStrategy [] =
            (Inr self :: (_, unit cluster_resources_error) result) \<and>
          owned_by_cluster self (with_metadata (meta_build b'')
            \<lparr>res_kind = ServiceKind, res_name = [], res_namespace = None, res_uid = None, res_labels = [],
             res_owner_references = None, res_spec = None, res_content = []\<rparr>))"
proof -
  let ?cluster = "\<lparr>ko_api_version = ''a/v1'', ko_kind = ''K'', ko_name_any = ''zk'', ko_namespace = Some ''ns'', ko_uid = Some ''42''\<rparr>"
  let ?o = "\<lparr>ol_owner_name = ''zk'', ol_app_name = ''zookeeper'', ol_app_version = ''1'', ol_operator_name = ''op'',
    ol_controller_name = ''c'', ol_role = ''server'', ol_role_group = ''default''\<rparr>"
  have r: "labels_recommended ?o = Some (Inr (recommended_set ?o))"
    unfolding recommended_Inr by (simp add: label_value_ok_def key_eval)
  obtain b' where b': "ownerreference_from_resource ?cluster None (Some True) meta_new = Inr b'"
    by (simp add: ownerreference_from_resource_def initialize_from_resource_def owner_build_def owner_new_def owner_uid_opt_def
        owner_name_def owner_kind_def owner_api_version_def owner_block_owner_deletion_opt_def owner_controller_opt_def)
  have b'': "with_recommended_labels ?o b' = Some (Inr (with_labels (recommended_set ?o) b'))"
    by (simp add: with_recommended_labels_def r)
  obtain self where self: "cluster_resources_new ''zookeeper'' ''op'' ''c''
      \<lparr>ref_namespace = Some ''ns'', ref_name = Some ''zk'', ref_uid = Some ''42''\<rparr> DefaultStrategy [] =
      (Inr self :: (_, unit cluster_resources_error) result)"
    by (simp add: cluster_resources_new_def)
  have "omb_labels meta_new = None" by (simp add: meta_new_def)
  from built_objects_recognised [OF b' this b'', where self = self and strategy = DefaultStrategy and overrides = "[]" and 'p = unit]
  show ?thesis using b' b'' self unfolding Let_def
    by (intro exI [of _ b'] exI [of _ "with_labels (recommended_set ?o) b'"]) simp
qed

end
